(* ===== verification/Janus_Prelude.thy ===== *)
theory Janus_Prelude
  imports Main
begin

text \<open>
  Shared material of the development: the state of a MongoDB collection and the
  driver calls the capability crates make on it, JSON values, machine integer
  bounds, and the generic lemmas on lists and options the components use.

  A collection is the list of its documents in natural order. A filter document
  is the predicate it denotes and an update document the function it denotes, so
  that \<open>update_one\<close> changes the first document that matches and reports how many
  matched, as the driver's \<open>matched_count\<close> does. A field that may be null or
  absent is an \<open>option\<close>.
\<close>

named_theorems coll_simps \<open>evaluation of collection operations\<close>
named_theorems journal_defs \<open>definitions of the operation journal\<close>
named_theorems session_defs \<open>definitions of the sessions capability\<close>

section \<open>JSON values\<close>

datatype json =
    JNull
  | JBool bool
  | JNum int
  | JStr string
  | JArr "json list"
  | JObj "(string \<times> json) list"

text \<open>\<open>Value::get\<close> and \<open>Value::as_str\<close>.\<close>

fun json_get :: "string \<Rightarrow> json \<Rightarrow> json option" where
  "json_get k (JObj kvs) = map_of kvs k"
| "json_get k _ = None"

fun json_as_str :: "json \<Rightarrow> string option" where
  "json_as_str (JStr s) = Some s"
| "json_as_str _ = None"

text \<open>\<open>Map::insert\<close>: an existing key keeps its place, a new one is added.\<close>

fun obj_insert :: "string \<Rightarrow> json \<Rightarrow> (string \<times> json) list \<Rightarrow> (string \<times> json) list" where
  "obj_insert k v [] = [(k, v)]"
| "obj_insert k v ((k', v') # kvs) =
     (if k = k' then (k, v) # kvs else (k', v') # obj_insert k v kvs)"

lemma map_of_obj_insert [simp]: "map_of (obj_insert k v kvs) = (map_of kvs)(k \<mapsto> v)"
  by (induction kvs) auto

text \<open>
  The JSON text codec is the \<open>serde_json\<close> crate, outside the repository: it is a
  parameter of every definition that serialises or parses.
\<close>

record serde =
  json_to_string :: "json \<Rightarrow> string"
  json_from_str :: "string \<Rightarrow> json option"

text \<open>A small concrete codec, for evaluating definitions on sample values.\<close>

definition sample_serde :: serde where
  "sample_serde =
    \<lparr>json_to_string = (\<lambda>v. case v of JStr s \<Rightarrow> CHR ''s'' # s | _ \<Rightarrow> ''null''),
     json_from_str = (\<lambda>s. case s of [] \<Rightarrow> None
        | c # cs \<Rightarrow> if c = CHR ''s'' then Some (JStr cs) else Some JNull)\<rparr>"

section \<open>Collections\<close>

definition find_one :: "('r \<Rightarrow> bool) \<Rightarrow> 'r list \<Rightarrow> 'r option" where
  "find_one P c = List.find P c"

fun update_one :: "('r \<Rightarrow> bool) \<Rightarrow> ('r \<Rightarrow> 'r) \<Rightarrow> 'r list \<Rightarrow> 'r list \<times> nat" where
  "update_one P f [] = ([], 0)"
| "update_one P f (r # rs) =
     (if P r then (f r # rs, 1)
      else (r # fst (update_one P f rs), snd (update_one P f rs)))"

definition update_many :: "('r \<Rightarrow> bool) \<Rightarrow> ('r \<Rightarrow> 'r) \<Rightarrow> 'r list \<Rightarrow> 'r list" where
  "update_many P f c = map (\<lambda>r. if P r then f r else r) c"

fun delete_one :: "('r \<Rightarrow> bool) \<Rightarrow> 'r list \<Rightarrow> 'r list \<times> nat" where
  "delete_one P [] = ([], 0)"
| "delete_one P (r # rs) =
     (if P r then (rs, 1) else (r # fst (delete_one P rs), snd (delete_one P rs)))"

definition delete_many :: "('r \<Rightarrow> bool) \<Rightarrow> 'r list \<Rightarrow> 'r list \<times> nat" where
  "delete_many P c = (filter (\<lambda>r. \<not> P r) c, length (filter P c))"

text \<open>
  \<open>insert_one\<close> under a unique index: \<open>None\<close> is the driver's duplicate-key error.
\<close>

definition insert_one :: "('r \<Rightarrow> 'k) \<Rightarrow> 'r \<Rightarrow> 'r list \<Rightarrow> 'r list option" where
  "insert_one key r c = (if key r \<in> key ` set c then None else Some (c @ [r]))"

text \<open>\<open>replace_one\<close> with \<open>upsert\<close> on the document's key.\<close>

fun replace_one :: "('r \<Rightarrow> 'k) \<Rightarrow> 'r \<Rightarrow> 'r list \<Rightarrow> 'r list" where
  "replace_one key r [] = [r]"
| "replace_one key r (x # xs) = (if key x = key r then r # xs else x # replace_one key r xs)"

text \<open>
  \<open>find_one\<close> with a sort document: the first of the matching documents in a stable
  sort by the given key (ascending), or by the key descending.
\<close>

definition find_first_by :: "('r \<Rightarrow> bool) \<Rightarrow> ('r \<Rightarrow> 'k::linorder) \<Rightarrow> 'r list \<Rightarrow> 'r option" where
  "find_first_by P k c = (case sort_key k (filter P c) of [] \<Rightarrow> None | r # _ \<Rightarrow> Some r)"

definition find_last_by :: "('r \<Rightarrow> bool) \<Rightarrow> ('r \<Rightarrow> int) \<Rightarrow> 'r list \<Rightarrow> 'r option" where
  "find_last_by P k c = find_first_by P (\<lambda>r. - k r) c"

section \<open>Laws of the collection operations\<close>

lemma find_one_Nil [simp, coll_simps]: "find_one P [] = None"
  by (simp add: find_one_def)

lemma find_one_Cons [simp, coll_simps]:
  "find_one P (r # rs) = (if P r then Some r else find_one P rs)"
  by (simp add: find_one_def)

lemma find_one_SomeD: "find_one P c = Some r \<Longrightarrow> r \<in> set c \<and> P r"
  by (induction c) (auto split: if_splits)

lemma find_one_None_iff: "find_one P c = None \<longleftrightarrow> (\<forall>r \<in> set c. \<not> P r)"
  by (induction c) auto

lemma find_one_unique:
  assumes "r \<in> set c" and "P r" and "\<And>x. x \<in> set c \<Longrightarrow> P x \<Longrightarrow> x = r"
  shows "find_one P c = Some r"
proof (cases "find_one P c")
  case None
  with assms(1,2) show ?thesis by (simp add: find_one_None_iff)
next
  case (Some x)
  with assms(3) show ?thesis by (auto dest: find_one_SomeD)
qed

lemma update_one_count: "snd (update_one P f c) = (if \<exists>r \<in> set c. P r then 1 else 0)"
  by (induction c) auto

lemma update_one_count_find:
  "snd (update_one P f c) = (case find_one P c of None \<Rightarrow> 0 | Some _ \<Rightarrow> 1)"
  by (induction c) auto

lemma find_after_update:
  assumes "\<And>r. P (f r) = P r"
  shows "find_one P (fst (update_one P f c)) = map_option f (find_one P c)"
  by (induction c) (auto simp: assms)

lemma find_other_update:
  assumes "\<And>r. P r \<Longrightarrow> \<not> Q r \<and> \<not> Q (f r)"
  shows "find_one Q (fst (update_one P f c)) = find_one Q c"
  by (induction c) (auto dest: assms)

lemma update_one_none: "snd (update_one P f c) \<noteq> 1 \<Longrightarrow> fst (update_one P f c) = c"
  by (induction c) (auto split: if_splits)

lemma update_one_none': "find_one P c = None \<Longrightarrow> update_one P f c = (c, 0)"
  by (induction c) (auto split: if_splits)

lemma update_one_hit:
  "snd (update_one P f c) \<noteq> 0 \<Longrightarrow> \<exists>r \<in> set c. P r \<and> f r \<in> set (fst (update_one P f c))"
  by (induction c) (auto split: if_splits)

lemma update_one_length [simp]: "length (fst (update_one P f c)) = length c"
  by (induction c) auto

lemma update_one_map:
  "(\<And>r. k (f r) = k r) \<Longrightarrow> map k (fst (update_one P f c)) = map k c"
  by (induction c) auto

lemma update_one_set:
  "set (fst (update_one P f c)) \<subseteq> set c \<union> f ` {r \<in> set c. P r}"
  by (induction c) auto

lemma update_one_setE:
  assumes "x \<in> set (fst (update_one P f c))"
  obtains "x \<in> set c" | r where "r \<in> set c" "P r" "x = f r"
  using assms update_one_set [of P f c] by blast

lemma map_ifE:
  assumes "x \<in> set (map (\<lambda>r. if P r then f r else r) c)"
  obtains (hit) r where "r \<in> set c" "P r" "x = f r" | (miss) "x \<in> set c" "\<not> P x"
  using assms by (induction c) (auto split: if_splits)

lemma update_one_keyed:
  assumes "distinct (map k c)" and "\<And>r. P r \<Longrightarrow> k r = i" and "\<And>r. k (f r) = k r"
  shows "fst (update_one P f c) = map (\<lambda>r. if P r then f r else r) c"
  using assms(1)
proof (induction c)
  case Nil
  show ?case by simp
next
  case (Cons x xs)
  have "map (\<lambda>r. if P r then f r else r) xs = xs" if "P x"
  proof -
    have "\<not> P r" if "r \<in> set xs" for r
      using that \<open>P x\<close> Cons.prems assms(2) by (auto simp: image_iff)
    then show ?thesis by (simp add: map_idI)
  qed
  with Cons show ?case by auto
qed

lemma update_many_map:
  "(\<And>r. k (f r) = k r) \<Longrightarrow> map k (update_many P f c) = map k c"
  by (simp add: update_many_def)

lemma delete_one_subset: "set (fst (delete_one P c)) \<subseteq> set c"
  by (induction c) auto

lemma delete_one_distinct:
  "distinct (map k c) \<Longrightarrow> distinct (map k (fst (delete_one P c)))"
proof (induction c)
  case (Cons x xs)
  then show ?case using delete_one_subset [of P xs] by (auto simp: image_iff)
qed simp

lemma delete_one_count: "snd (delete_one P c) = (if \<exists>r \<in> set c. P r then 1 else 0)"
  by (induction c) auto

lemma delete_one_none: "snd (delete_one P c) = 0 \<Longrightarrow> fst (delete_one P c) = c"
  by (induction c) (auto split: if_splits)

lemma insert_one_SomeD:
  "insert_one k r c = Some c' \<Longrightarrow> c' = c @ [r] \<and> k r \<notin> k ` set c"
  by (simp add: insert_one_def split: if_splits)

lemma insert_one_distinct:
  "insert_one k r c = Some c' \<Longrightarrow> distinct (map k c) \<Longrightarrow> distinct (map k c')"
  by (auto dest: insert_one_SomeD)

lemma replace_one_map_set: "k ` set (replace_one k r c) = insert (k r) (k ` set c)"
  by (induction c) auto

lemma replace_one_distinct:
  "distinct (map k c) \<Longrightarrow> distinct (map k (replace_one k r c))"
proof (induction c)
  case (Cons x xs)
  then show ?case using replace_one_map_set [of k r xs] by auto
qed simp

lemma replace_one_find:
  "Q r \<Longrightarrow> find_one (\<lambda>x. k x = k r \<and> Q x) (replace_one k r c) = Some r"
  by (induction c) auto

lemma find_first_by_SomeD:
  assumes "find_first_by P k c = Some r"
  shows "r \<in> set c" and "P r" and "\<And>x. x \<in> set c \<Longrightarrow> P x \<Longrightarrow> k r \<le> k x"
proof -
  obtain rs where rs: "sort_key k (filter P c) = r # rs"
    using assms by (auto simp: find_first_by_def split: list.splits)
  have set_eq: "set (r # rs) = {x \<in> set c. P x}"
    by (metis rs set_sort set_filter)
  then show "r \<in> set c" and "P r" by auto
  have "sorted (map k (r # rs))"
    by (metis rs sorted_sort_key)
  then have least: "\<forall>x \<in> set (r # rs). k r \<le> k x" by auto
  show "k r \<le> k x" if "x \<in> set c" "P x" for x
    using that least set_eq by blast
qed

lemma find_first_by_None_iff: "find_first_by P k c = None \<longleftrightarrow> (\<forall>r \<in> set c. \<not> P r)"
proof -
  have "(sort_key k (filter P c) = []) = (filter P c = [])"
    by (metis length_0_conv length_sort)
  then show ?thesis
    by (auto simp: find_first_by_def filter_empty_conv split: list.splits)
qed

lemma find_last_by_SomeD:
  assumes "find_last_by P k c = Some r"
  shows "r \<in> set c" and "P r" and "\<And>x. x \<in> set c \<Longrightarrow> P x \<Longrightarrow> k x \<le> k r"
  using find_first_by_SomeD [OF assms [unfolded find_last_by_def]] by auto

lemma find_last_by_None_iff: "find_last_by P k c = None \<longleftrightarrow> (\<forall>r \<in> set c. \<not> P r)"
  by (simp add: find_last_by_def find_first_by_None_iff)

section \<open>Machine integers\<close>

abbreviation U32_MAX :: nat where "U32_MAX \<equiv> 4294967295"
abbreviation U64_MAX :: nat where "U64_MAX \<equiv> 18446744073709551615"
abbreviation I64_MAX :: int where "I64_MAX \<equiv> 9223372036854775807"

definition saturating_add_u64 :: "nat \<Rightarrow> nat \<Rightarrow> nat" where
  "saturating_add_u64 a b = min (a + b) U64_MAX"

definition checked_add_u64 :: "nat \<Rightarrow> nat \<Rightarrow> nat option" where
  "checked_add_u64 a b = (if a + b \<le> U64_MAX then Some (a + b) else None)"

text \<open>Decimal rendering of an unsigned integer (\<open>to_string\<close>).\<close>

fun string_of_nat :: "nat \<Rightarrow> string" where
  "string_of_nat n =
     (if n < 10 then [char_of (48 + n)]
      else string_of_nat (n div 10) @ [char_of (48 + n mod 10)])"

declare string_of_nat.simps [simp del]

text \<open>\<open>str::parse::<u64>\<close>: an optional plus sign, then decimal digits, within range.\<close>

fun parse_digits :: "nat \<Rightarrow> string \<Rightarrow> nat option" where
  "parse_digits acc [] = Some acc"
| "parse_digits acc (c # cs) =
     (if 48 \<le> (of_char c :: nat) \<and> (of_char c :: nat) \<le> 57
        then parse_digits (acc * 10 + (of_char c - 48)) cs else None)"

definition parse_u64 :: "string \<Rightarrow> nat option" where
  "parse_u64 s =
    (let ds = (case s of [] \<Rightarrow> [] | c # cs \<Rightarrow> if c = CHR ''+'' then cs else s)
     in if ds = [] then None
        else case parse_digits 0 ds of None \<Rightarrow> None
          | Some n \<Rightarrow> if n \<le> U64_MAX then Some n else None)"

lemma parse_digits_append:
  "parse_digits acc (xs @ ys) =
     (case parse_digits acc xs of None \<Rightarrow> None | Some n \<Rightarrow> parse_digits n ys)"
  by (induction xs arbitrary: acc) auto

lemma of_char_digit [simp]: "d < 10 \<Longrightarrow> (of_char (char_of (48 + d :: nat)) :: nat) = 48 + d"
  by (simp add: of_char_of)

lemma parse_digits_string_of_nat [simp]: "parse_digits 0 (string_of_nat n) = Some n"
proof (induction n rule: string_of_nat.induct)
  case (1 n)
  show ?case
  proof (cases "n < 10")
    case True
    then show ?thesis by (simp add: string_of_nat.simps [of n])
  next
    case False
    with 1 have "parse_digits 0 (string_of_nat (n div 10)) = Some (n div 10)" by simp
    with False show ?thesis
      by (simp add: string_of_nat.simps [of n] parse_digits_append)
  qed
qed

lemma string_of_nat_digits: "c \<in> set (string_of_nat n) \<Longrightarrow> 48 \<le> (of_char c :: nat)"
proof (induction n rule: string_of_nat.induct)
  case (1 n)
  then show ?case by (subst (asm) string_of_nat.simps) (auto split: if_splits)
qed

lemma string_of_nat_nonempty [simp]: "string_of_nat n \<noteq> []"
  by (subst string_of_nat.simps) simp

lemma parse_u64_string_of_nat: "n \<le> U64_MAX \<Longrightarrow> parse_u64 (string_of_nat n) = Some n"
proof -
  assume n: "n \<le> U64_MAX"
  obtain c cs where cs: "string_of_nat n = c # cs" by (cases "string_of_nat n") auto
  then have "c \<noteq> CHR ''+''" using string_of_nat_digits [of c n] by auto
  with n cs show ?thesis
    using parse_digits_string_of_nat [of n] by (simp add: parse_u64_def)
qed

definition string_of_int :: "int \<Rightarrow> string" where
  "string_of_int i = (if i < 0 then CHR ''-'' # string_of_nat (nat (- i)) else string_of_nat (nat i))"

text \<open>The driver's cursor limit: 0 stands for no limit.\<close>

definition mongo_limit :: "nat \<Rightarrow> 'a list \<Rightarrow> 'a list" where
  "mongo_limit n xs = (if n = 0 then xs else take n xs)"

section \<open>Consecutively numbered rows\<close>

primrec numbered :: "nat \<Rightarrow> ('r \<Rightarrow> int) \<Rightarrow> 'r list \<Rightarrow> bool" where
  "numbered a f [] \<longleftrightarrow> True"
| "numbered a f (x # xs) \<longleftrightarrow> f x = int a \<and> numbered (Suc a) f xs"

lemma numbered_append:
  "numbered a f (xs @ ys) \<longleftrightarrow> numbered a f xs \<and> numbered (a + length xs) f ys"
  by (induction xs arbitrary: a) auto

lemma numbered_take: "numbered a f xs \<Longrightarrow> numbered a f (take n xs)"
  by (metis append_take_drop_id numbered_append)

lemma numbered_drop: "numbered a f xs \<Longrightarrow> numbered (a + n) f (drop n xs)"
  using numbered_append [of a f "take n xs" "drop n xs"] by (cases "n \<le> length xs") auto

lemma numbered_ge: "numbered a f xs \<Longrightarrow> x \<in> set xs \<Longrightarrow> int a \<le> f x \<and> f x < int (a + length xs)"
  by (induction xs arbitrary: a) fastforce+

lemma numbered_sorted: "numbered a f xs \<Longrightarrow> sorted (map f xs)"
  by (induction xs arbitrary: a) (auto dest: numbered_ge)

lemma numbered_filter:
  "numbered a f xs \<Longrightarrow> filter (\<lambda>r. f r > int c) xs = drop (Suc c - a) xs"
proof (induction xs arbitrary: a)
  case (Cons x xs)
  then have IH: "filter (\<lambda>r. f r > int c) xs = drop (Suc c - Suc a) xs"
    by (intro Cons.IH) simp
  show ?case
  proof (cases "c < a")
    case True
    then show ?thesis using Cons.prems IH by simp
  next
    case False
    then have "Suc c - a = Suc (c - a)" by simp
    then show ?thesis using False Cons.prems IH by simp
  qed
qed simp

lemma drop_batch:
  "drop c xs = take n (drop c xs) @ drop (c + length (take n (drop c xs))) xs"
proof -
  have "drop (length (take n (drop c xs))) (drop c xs) = drop n (drop c xs)"
    by (cases "n \<le> length (drop c xs)") simp_all
  then have "drop (c + length (take n (drop c xs))) xs = drop n (drop c xs)"
    by (simp only: drop_drop add.commute)
  then show ?thesis by (simp only: append_take_drop_id)
qed

section \<open>Transactions\<close>

text \<open>
  A unit of work: the body sees the database and returns either an error, and the
  transaction is aborted, or a result with the database it wrote, which is
  committed. A driver failure at any call is an abort too and leaves the database
  as it was.
\<close>

definition run_tx :: "('db \<Rightarrow> 'e + ('a \<times> 'db)) \<Rightarrow> 'db \<Rightarrow> ('e + 'a) \<times> 'db" where
  "run_tx body db = (case body db of Inl e \<Rightarrow> (Inl e, db) | Inr (a, db') \<Rightarrow> (Inr a, db'))"

lemma run_tx_Inl [simp]: "body db = Inl e \<Longrightarrow> run_tx body db = (Inl e, db)"
  by (simp add: run_tx_def)

lemma run_tx_Inr [simp]: "body db = Inr (a, db') \<Longrightarrow> run_tx body db = (Inr a, db')"
  by (simp add: run_tx_def)

lemma run_tx_cases:
  assumes "run_tx body db = (r, db')"
  obtains (abort) e where "body db = Inl e" "r = Inl e" "db' = db"
    | (commit) a where "body db = Inr (a, db')" "r = Inr a"
  using assms by (auto simp: run_tx_def split: sum.splits prod.splits)

section \<open>Fallible computations\<close>

text \<open>
  The question mark operator and \<open>Option::ok_or\<close>: an error returns early. \<open>try_map\<close> is a
  loop that pushes one converted row after another and stops at the first error.
\<close>

definition and_then :: "'e + 'a \<Rightarrow> ('a \<Rightarrow> 'e + 'b) \<Rightarrow> 'e + 'b" where
  "and_then m k = (case m of Inl e \<Rightarrow> Inl e | Inr a \<Rightarrow> k a)"

definition ok_or :: "'e \<Rightarrow> 'a option \<Rightarrow> 'e + 'a" where
  "ok_or e v = (case v of None \<Rightarrow> Inl e | Some a \<Rightarrow> Inr a)"

primrec try_map :: "('a \<Rightarrow> 'e + 'b) \<Rightarrow> 'a list \<Rightarrow> 'e + 'b list" where
  "try_map f [] = Inr []"
| "try_map f (x # xs) = and_then (f x) (\<lambda>y. and_then (try_map f xs) (\<lambda>ys. Inr (y # ys)))"

lemma and_then_Inl [simp]: "and_then (Inl e) k = Inl e"
  by (simp add: and_then_def)

lemma and_then_Inr [simp]: "and_then (Inr a) k = k a"
  by (simp add: and_then_def)

lemma and_then_eq_Inr: "and_then m k = Inr b \<longleftrightarrow> (\<exists>a. m = Inr a \<and> k a = Inr b)"
  by (cases m) simp_all

lemma and_then_InrE [elim!]:
  assumes "and_then m k = Inr b"
  obtains a where "m = Inr a" "k a = Inr b"
  using assms by (auto simp: and_then_eq_Inr)

lemma ok_or_simps [simp]: "ok_or e None = Inl e" "ok_or e (Some a) = Inr a"
  by (simp_all add: ok_or_def)

lemma ok_or_eq_Inr [simp]: "ok_or e v = Inr a \<longleftrightarrow> v = Some a"
  by (cases v) simp_all

lemma try_map_Inr:
  "(\<And>x. x \<in> set xs \<Longrightarrow> f x = Inr (g x)) \<Longrightarrow> try_map f xs = Inr (map g xs)"
  by (induction xs) simp_all

lemma try_map_InrD:
  "try_map f xs = Inr ys \<Longrightarrow> list_all2 (\<lambda>x y. f x = Inr y) xs ys"
  by (induction xs arbitrary: ys) (auto simp: and_then_eq_Inr)

text \<open>
  A handler that makes one committed call after another: an error ends it, and what the
  earlier calls wrote stays. \<open>lift_err\<close> is the conversion the question mark operator applies
  to the error of a call.
\<close>

definition and_run ::
  "('e + 'a) \<times> 'w \<Rightarrow> ('a \<Rightarrow> 'w \<Rightarrow> ('e + 'b) \<times> 'w) \<Rightarrow> ('e + 'b) \<times> 'w" where
  "and_run m k = (case fst m of Inl e \<Rightarrow> (Inl e, snd m) | Inr a \<Rightarrow> k a (snd m))"

definition lift_err :: "('e \<Rightarrow> 'f) \<Rightarrow> ('e + 'a) \<times> 'w \<Rightarrow> ('f + 'a) \<times> 'w" where
  "lift_err into m = (map_sum into id (fst m), snd m)"

lemma and_run_simps [simp]:
  "and_run (Inl e, w) k = (Inl e, w)" "and_run (Inr a, w) k = k a w"
  by (simp_all add: and_run_def)

lemma lift_err_simps [simp]:
  "lift_err into (Inl e, w) = (Inl (into e), w)" "lift_err into (Inr a, w) = (Inr a, w)"
  by (simp_all add: lift_err_def)

lemma snd_lift_err [simp]: "snd (lift_err into m) = snd m"
  by (simp add: lift_err_def)

lemma and_run_cases:
  assumes "and_run m k = (r, w)"
  obtains (fails) e where "m = (Inl e, w)" "r = Inl e"
    | (okay) a w1 where "m = (Inr a, w1)" "k a w1 = (r, w)"
  using assms by (cases m) (auto simp: and_run_def split: sum.splits)

section \<open>Text\<close>

text \<open>
  A string is its UTF-8 bytes, so that its length is the code's \<open>len()\<close>. \<open>str::trim\<close>
  strips the characters with the Unicode White\_Space property, given here by their
  encodings.
\<close>

fun ws_encoding :: "nat list \<Rightarrow> bool" where
  "ws_encoding [a] \<longleftrightarrow> 9 \<le> a \<and> a \<le> 13 \<or> a = 32"
| "ws_encoding [a, b] \<longleftrightarrow> a = 194 \<and> (b = 133 \<or> b = 160)"
| "ws_encoding [a, b, c] \<longleftrightarrow>
     a = 225 \<and> b = 154 \<and> c = 128 \<or>
     a = 226 \<and> b = 128 \<and> (128 \<le> c \<and> c \<le> 138 \<or> c = 168 \<or> c = 169 \<or> c = 175) \<or>
     a = 226 \<and> b = 129 \<and> c = 159 \<or> a = 227 \<and> b = 128 \<and> c = 128"
| "ws_encoding _ \<longleftrightarrow> False"

definition ws_at :: "string \<Rightarrow> nat \<Rightarrow> bool" where
  "ws_at s n \<longleftrightarrow> ws_encoding (map of_char (take n s))"

definition ws_len :: "string \<Rightarrow> nat" where
  "ws_len s = (if ws_at s 1 then 1 else if ws_at s 2 then 2 else if ws_at s 3 then 3 else 0)"

definition ws_suffix_len :: "string \<Rightarrow> nat" where
  "ws_suffix_len s =
    (let suffix = (\<lambda>n. ws_encoding (map of_char (drop (length s - n) s)))
     in if suffix 1 then 1 else if suffix 2 then 2 else if suffix 3 then 3 else 0)"

function trim_start :: "string \<Rightarrow> string" where
  "trim_start s = (if s = [] \<or> ws_len s = 0 then s else trim_start (drop (ws_len s) s))"
  by auto
termination by (relation "measure length") auto

function trim_end :: "string \<Rightarrow> string" where
  "trim_end s =
    (if s = [] \<or> ws_suffix_len s = 0 then s else trim_end (take (length s - ws_suffix_len s) s))"
  by auto
termination by (relation "measure length") auto

declare trim_start.simps [simp del] trim_end.simps [simp del]

definition str_trim :: "string \<Rightarrow> string" where
  "str_trim s = trim_end (trim_start s)"

text \<open>\<open>Option<String>\<close> trimmed, and dropped when nothing is left.\<close>

definition trimmed_nonempty :: "string option \<Rightarrow> string option" where
  "trimmed_nonempty t =
    (case t of None \<Rightarrow> None
     | Some s \<Rightarrow> if str_trim s = [] then None else Some (str_trim s))"

lemma trim_start_length: "length (trim_start s) \<le> length s"
proof (induction s rule: trim_start.induct)
  case (1 s)
  then show ?case by (subst trim_start.simps) auto
qed

lemma trim_end_length: "length (trim_end s) \<le> length s"
proof (induction s rule: trim_end.induct)
  case (1 s)
  then show ?case by (subst trim_end.simps) auto
qed

lemma str_trim_length: "length (str_trim s) \<le> length s"
  using trim_end_length [of "trim_start s"] trim_start_length [of s] by (simp add: str_trim_def)

lemma ws_len_take: "ws_len s = 0 \<Longrightarrow> ws_len (take k s) = 0"
proof -
  assume none: "ws_len s = 0"
  consider "k = 0" | "k = 1" | "k = 2" | "k \<ge> 3" by linarith
  then show ?thesis
    by cases (use none in \<open>auto simp: ws_len_def ws_at_def min_def split: if_splits\<close>)
qed

lemma trim_start_stops: "ws_len (trim_start s) = 0"
proof (induction s rule: trim_start.induct)
  case (1 s)
  show ?case
  proof (cases "s = [] \<or> ws_len s = 0")
    case True
    then show ?thesis by (subst trim_start.simps) (auto simp: ws_len_def [of "[]"] ws_at_def)
  next
    case False
    then show ?thesis using 1 [OF False] by (subst trim_start.simps) simp
  qed
qed

lemma trim_end_stops: "ws_suffix_len (trim_end s) = 0"
proof (induction s rule: trim_end.induct)
  case (1 s)
  show ?case
  proof (cases "s = [] \<or> ws_suffix_len s = 0")
    case True
    then show ?thesis by (subst trim_end.simps) (auto simp: ws_suffix_len_def [of "[]"])
  next
    case False
    then show ?thesis using 1 [OF False] by (subst trim_end.simps) simp
  qed
qed

lemma trim_end_take: "\<exists>k. trim_end s = take k s"
proof (induction s rule: trim_end.induct)
  case (1 s)
  show ?case
  proof (cases "s = [] \<or> ws_suffix_len s = 0")
    case True
    then show ?thesis by (subst trim_end.simps) (auto intro: exI [of _ "length s"])
  next
    case False
    then show ?thesis using 1 [OF False] by (subst trim_end.simps) auto
  qed
qed

lemma str_trim_idem [simp]: "str_trim (str_trim s) = str_trim s"
proof -
  obtain k where "str_trim s = take k (trim_start s)" using trim_end_take by (auto simp: str_trim_def)
  then have "ws_len (str_trim s) = 0" by (simp add: ws_len_take trim_start_stops)
  then have "trim_start (str_trim s) = str_trim s" by (subst trim_start.simps) simp
  moreover have "trim_end (str_trim s) = str_trim s"
    by (subst trim_end.simps) (simp add: str_trim_def trim_end_stops)
  ultimately show ?thesis by (simp add: str_trim_def [of "str_trim s"])
qed

end
