(* ===== verification/Janus_Interfaces.thy ===== *)
theory Janus_Interfaces
  imports Janus_Prelude
begin

text \<open>
  The contracts that several components share, each a locale whose lemmas are
  proved once: a wire codec for an enum, a status machine with terminal states, an
  operation that a lease fences, a parser that may be fed in any chunks, a log with
  a cursor, and a step relation with an invariant. The component theories interpret
  them on the definitions that model the code.
\<close>

section \<open>Enums and their wire names\<close>

locale enum_codec =
  fixes as_str :: "'a \<Rightarrow> string"
    and from_str :: "string \<Rightarrow> 'a option"
  assumes from_as: "from_str (as_str x) = Some x"
    and as_from: "from_str s = Some x \<Longrightarrow> as_str x = s"
begin

lemma as_str_inj: "as_str x = as_str y \<longleftrightarrow> x = y"
  using from_as by (metis option.inject)

lemma from_str_Some_iff: "from_str s = Some x \<longleftrightarrow> s = as_str x"
  using from_as as_from by auto

lemma unknown_rejected: "s \<notin> range as_str \<Longrightarrow> from_str s = None"
  by (cases "from_str s") (auto dest: as_from)

end

section \<open>Status machines\<close>

locale status_machine =
  fixes can_go :: "'a \<Rightarrow> 'a \<Rightarrow> bool"
    and terminal :: "'a \<Rightarrow> bool"
    and rank :: "'a \<Rightarrow> nat"
  assumes terminal_stuck: "terminal x \<Longrightarrow> \<not> can_go x y"
    and live_moves: "\<not> terminal x \<Longrightarrow> \<exists>y. can_go x y"
    and rank_decreases: "can_go x y \<Longrightarrow> rank y < rank x"
begin

lemma terminal_absorbing:
  assumes "can_go\<^sup>*\<^sup>* x y" and "terminal x"
  shows "y = x"
  using assms by (induction rule: rtranclp_induct) (auto dest: terminal_stuck)

lemma no_return: "can_go\<^sup>+\<^sup>+ x y \<Longrightarrow> rank y < rank x"
  by (induction rule: tranclp_induct) (auto dest: rank_decreases less_trans)

lemma never_revisits: "\<not> can_go\<^sup>+\<^sup>+ x x"
  using no_return by blast

lemma reaches_terminal: "\<exists>y. can_go\<^sup>*\<^sup>* x y \<and> terminal y"
proof (induction "rank x" arbitrary: x rule: less_induct)
  case less
  show ?case
  proof (cases "terminal x")
    case True
    then show ?thesis by blast
  next
    case False
    then obtain z where z: "can_go x z" using live_moves by blast
    then obtain y where "can_go\<^sup>*\<^sup>* z y" "terminal y"
      using less [of z] rank_decreases by blast
    with z show ?thesis by (meson converse_rtranclp_into_rtranclp)
  qed
qed

end

section \<open>Operations fenced by a lease\<close>

text \<open>
  An operation that must hold a current claim: without the claim it reports a
  refusal and writes nothing.
\<close>

locale fenced_operation =
  fixes owned :: "'db \<Rightarrow> bool"
    and act :: "'db \<Rightarrow> 'res \<times> 'db"
    and refused :: "'res \<Rightarrow> bool"
  assumes unowned_refused: "\<not> owned db \<Longrightarrow> refused (fst (act db))"
    and refused_unchanged: "refused (fst (act db)) \<Longrightarrow> snd (act db) = db"
begin

lemma stale_holder_harmless: "\<not> owned db \<Longrightarrow> refused (fst (act db)) \<and> snd (act db) = db"
  using unowned_refused refused_unchanged by blast

lemma write_implies_owned: "snd (act db) \<noteq> db \<Longrightarrow> owned db"
  using unowned_refused refused_unchanged by blast

lemma retries_harmless: "\<not> owned db \<Longrightarrow> ((\<lambda>d. snd (act d)) ^^ n) db = db"
  by (induction n) (auto simp: stale_holder_harmless)

end

section \<open>Parsers fed in chunks\<close>

locale chunked_parser =
  fixes push :: "'s \<Rightarrow> 'b list \<Rightarrow> 's \<times> 'o list"
    and ready :: "'s \<Rightarrow> bool"
  assumes push_ready: "ready s \<Longrightarrow> ready (fst (push s xs))"
    and push_nil: "ready s \<Longrightarrow> push s [] = (s, [])"
    and push_append: "ready s \<Longrightarrow>
      push s (xs @ ys) =
        (fst (push (fst (push s xs)) ys), snd (push s xs) @ snd (push (fst (push s xs)) ys))"
begin

text \<open>Feeding a list of chunks one after another and collecting the output.\<close>

primrec feed :: "'s \<Rightarrow> 'b list list \<Rightarrow> 's \<times> 'o list" where
  "feed s [] = (s, [])"
| "feed s (c # cs) =
     (fst (feed (fst (push s c)) cs), snd (push s c) @ snd (feed (fst (push s c)) cs))"

lemma feed_concat: "ready s \<Longrightarrow> feed s cs = push s (concat cs)"
  by (induction cs arbitrary: s) (simp_all add: push_nil push_append push_ready)

lemma feed_split_irrelevant:
  "ready s \<Longrightarrow> concat cs = concat ds \<Longrightarrow> feed s cs = feed s ds"
  by (simp add: feed_concat)

end

section \<open>Step relations with an invariant\<close>

locale step_invariant =
  fixes step :: "'s \<Rightarrow> 's \<Rightarrow> bool"
    and inv :: "'s \<Rightarrow> bool"
  assumes step_inv: "step s t \<Longrightarrow> inv s \<Longrightarrow> inv t"
begin

lemma steps_inv: "step\<^sup>*\<^sup>* s t \<Longrightarrow> inv s \<Longrightarrow> inv t"
  by (induction rule: rtranclp_induct) (auto intro: step_inv)

end

text \<open>
  A step relation with an invariant under which some per-state fact, once true of a
  key, stays true: terminal rows, succeeded steps, consumed cursors.
\<close>

locale step_stable = step_invariant step inv
  for step :: "'s \<Rightarrow> 's \<Rightarrow> bool" and inv :: "'s \<Rightarrow> bool" +
  fixes fact :: "'k \<Rightarrow> 's \<Rightarrow> bool"
  assumes fact_step: "step s t \<Longrightarrow> inv s \<Longrightarrow> fact k s \<Longrightarrow> fact k t"
begin

lemma fact_steps: "step\<^sup>*\<^sup>* s t \<Longrightarrow> inv s \<Longrightarrow> fact k s \<Longrightarrow> fact k t"
  by (induction rule: rtranclp_induct) (auto intro: fact_step steps_inv)

end

section \<open>Logs read by cursor\<close>

text \<open>
  A log of entries numbered from 1. \<open>after\<close> reads the entries behind a cursor, at most
  \<open>limit\<close> of them; the reader advances its cursor by what it was handed.
\<close>

locale cursor_log =
  fixes entries :: "'db \<Rightarrow> 'e list"
    and after :: "'db \<Rightarrow> nat \<Rightarrow> nat \<Rightarrow> 'e list"
    and ok :: "'db \<Rightarrow> bool"
    and cap :: nat
  assumes after_prefix: "ok db \<Longrightarrow> 0 < limit \<Longrightarrow>
      after db c limit = take (min limit cap) (drop c (entries db))"
    and cap_pos: "0 < cap"
begin

primrec poll :: "'db \<Rightarrow> nat \<Rightarrow> nat list \<Rightarrow> 'e list" where
  "poll db c [] = []"
| "poll db c (l # ls) = after db c l @ poll db (c + length (after db c l)) ls"

lemma after_gap_free:
  "ok db \<Longrightarrow> 0 < l \<Longrightarrow> \<exists>rest. drop c (entries db) = after db c l @ rest"
  by (simp add: after_prefix) (metis append_take_drop_id)

lemma poll_prefix:
  "ok db \<Longrightarrow> \<forall>l \<in> set ls. 0 < l \<Longrightarrow> \<exists>n. poll db c ls = take n (drop c (entries db))"
proof (induction ls arbitrary: c)
  case Nil
  show ?case by (auto intro: exI [of _ 0])
next
  case (Cons l ls)
  let ?m = "length (after db c l)"
  from Cons obtain n where n: "poll db (c + ?m) ls = take n (drop (c + ?m) (entries db))"
    by auto
  have "after db c l = take ?m (drop c (entries db))"
    using Cons.prems by (simp add: after_prefix min_def)
  then have "poll db c (l # ls) = take (?m + n) (drop c (entries db))"
    using n take_add [of ?m n "drop c (entries db)"] by (simp add: add.commute [of c])
  then show ?case by blast
qed

lemma reader_progress:
  "ok db \<Longrightarrow> c < length (entries db) \<Longrightarrow> 0 < l \<Longrightarrow> after db c l \<noteq> []"
  using cap_pos by (simp add: after_prefix)

lemma after_end: "ok db \<Longrightarrow> 0 < l \<Longrightarrow> length (entries db) \<le> c \<Longrightarrow> after db c l = []"
  by (simp add: after_prefix)

lemma poll_complete:
  assumes "ok db" and "length (entries db) - c \<le> length ls" and "\<forall>l \<in> set ls. 0 < l"
  shows "poll db c ls = drop c (entries db)"
  using assms(2,3)
proof (induction ls arbitrary: c)
  case Nil
  then show ?case by simp
next
  case (Cons l ls)
  let ?m = "length (after db c l)"
  have ap: "after db c l = take ?m (drop c (entries db))"
    using assms(1) Cons.prems(2) by (simp add: after_prefix min_def)
  have "length (entries db) - (c + ?m) \<le> length ls"
  proof (cases "c < length (entries db)")
    case True
    then have "0 < ?m" using reader_progress [OF assms(1) True, of l] Cons.prems(2) by simp
    moreover have "length (entries db) - c \<le> Suc (length ls)" using Cons.prems(1) by simp
    ultimately show ?thesis by linarith
  next
    case False
    then show ?thesis by simp
  qed
  then have "poll db (c + ?m) ls = drop (c + ?m) (entries db)"
    using Cons.IH [of "c + ?m"] Cons.prems(2) by simp
  then show ?case
    using ap by (metis add.commute append_take_drop_id drop_drop poll.simps(2))
qed

end

end
