(* ===== verification/Event_Log.thy ===== *)
theory Event_Log
  imports Janus_Interfaces
begin

text \<open>
  The public event log (\<open>crates/infrastructure/src/events.rs\<close>), the clock format and the
  unit-of-work retry loops (\<open>clock.rs\<close>, \<open>unit_of_work.rs\<close>). The state is the
  \<open>public_events\<close> collection, the \<open>event_seq\<close> counter and the projection cursor.
  Cursors are allocated inside the appending transaction, so the committed log is
  dense; \<open>after\<close> never hands out an event behind a gap.
\<close>

section \<open>Event types\<close>

datatype event_type =
    TurnCreated
  | TurnStatusChanged
  | SessionChanged
  | SessionDeleted
  | ContextChanged
  | TimelineItemCreated
  | TimelineItemUpdated
  | ToolCallCreated
  | ToolCallChanged
  | RoundChanged
  | ProjectChanged
  | ProjectMainRevisionChanged
  | TerminalChanged
  | RuntimeChanged
  | AsyncTaskChanged
  | OperationChanged
  | NotificationChannelChanged
  | ModelConfigChanged
  | ModelStreamDelta
  | ModelAttemptRetrying
  | GitStateChanged
  | CheckpointCreated
  | SystemStarted

fun event_type_as_str :: "event_type \<Rightarrow> string" where
  "event_type_as_str TurnCreated = ''turn.created''"
| "event_type_as_str TurnStatusChanged = ''turn.status_changed''"
| "event_type_as_str SessionChanged = ''session.changed''"
| "event_type_as_str SessionDeleted = ''session.deleted''"
| "event_type_as_str ContextChanged = ''context.changed''"
| "event_type_as_str TimelineItemCreated = ''timeline.item_created''"
| "event_type_as_str TimelineItemUpdated = ''timeline.item_updated''"
| "event_type_as_str ToolCallCreated = ''tool_call.created''"
| "event_type_as_str ToolCallChanged = ''tool_call.changed''"
| "event_type_as_str RoundChanged = ''round.changed''"
| "event_type_as_str ProjectChanged = ''project.changed''"
| "event_type_as_str ProjectMainRevisionChanged = ''project.main_revision_changed''"
| "event_type_as_str TerminalChanged = ''terminal.changed''"
| "event_type_as_str RuntimeChanged = ''runtime.changed''"
| "event_type_as_str AsyncTaskChanged = ''async_task.changed''"
| "event_type_as_str OperationChanged = ''operation.changed''"
| "event_type_as_str NotificationChannelChanged = ''notification_channel.changed''"
| "event_type_as_str ModelConfigChanged = ''model_config.changed''"
| "event_type_as_str ModelStreamDelta = ''model.stream_delta''"
| "event_type_as_str ModelAttemptRetrying = ''model.attempt_retrying''"
| "event_type_as_str GitStateChanged = ''git.state_changed''"
| "event_type_as_str CheckpointCreated = ''checkpoint.created''"
| "event_type_as_str SystemStarted = ''system.started''"

definition event_type_from_str :: "string \<Rightarrow> event_type option" where
  "event_type_from_str s =
    (if s = ''turn.created'' then Some TurnCreated else
     if s = ''turn.status_changed'' then Some TurnStatusChanged else
     if s = ''session.changed'' then Some SessionChanged else
     if s = ''session.deleted'' then Some SessionDeleted else
     if s = ''context.changed'' then Some ContextChanged else
     if s = ''timeline.item_created'' then Some TimelineItemCreated else
     if s = ''timeline.item_updated'' then Some TimelineItemUpdated else
     if s = ''tool_call.created'' then Some ToolCallCreated else
     if s = ''tool_call.changed'' then Some ToolCallChanged else
     if s = ''round.changed'' then Some RoundChanged else
     if s = ''project.changed'' then Some ProjectChanged else
     if s = ''project.main_revision_changed'' then Some ProjectMainRevisionChanged else
     if s = ''terminal.changed'' then Some TerminalChanged else
     if s = ''runtime.changed'' then Some RuntimeChanged else
     if s = ''async_task.changed'' then Some AsyncTaskChanged else
     if s = ''operation.changed'' then Some OperationChanged else
     if s = ''notification_channel.changed'' then Some NotificationChannelChanged else
     if s = ''model_config.changed'' then Some ModelConfigChanged else
     if s = ''model.stream_delta'' then Some ModelStreamDelta else
     if s = ''model.attempt_retrying'' then Some ModelAttemptRetrying else
     if s = ''git.state_changed'' then Some GitStateChanged else
     if s = ''checkpoint.created'' then Some CheckpointCreated else
     if s = ''system.started'' then Some SystemStarted else
     None)"

interpretation event_types: enum_codec event_type_as_str event_type_from_str
proof unfold_locales
  show "event_type_from_str (event_type_as_str x) = Some x" for x
    by (cases x) (simp_all add: event_type_from_str_def)
  show "event_type_from_str s = Some x \<Longrightarrow> event_type_as_str x = s" for s x
    by (simp add: event_type_from_str_def split: if_splits)
qed

section \<open>Rows and envelopes\<close>

text \<open>
  An instant is a count of nanoseconds. \<open>format_utc\<close> writes RFC 3339 with exactly
  three fractional digits, truncating; the texts have one width, so comparing them
  as strings compares the milliseconds, and the model keeps the milliseconds.
\<close>

definition format_utc :: "int \<Rightarrow> int" where
  "format_utc t = t div 1000000"

record new_event =
  ne_type :: event_type
  ne_actor :: json
  ne_resource :: "json option"
  ne_correlation_id :: string
  ne_causation_id :: "string option"
  ne_payload :: json

record event_row =
  ev_id :: int
  ev_event_id :: string
  ev_event_type :: string
  ev_schema_version :: int
  ev_actor_json :: string
  ev_resource_json :: "string option"
  ev_correlation_id :: string
  ev_causation_id :: "string option"
  ev_payload_json :: string
  ev_occurred_at :: int

record event_envelope =
  env_schema_version :: nat
  env_event_id :: string
  env_cursor :: string
  env_event_type :: string
  env_occurred_at :: int
  env_actor :: json
  env_resource :: "json option"
  env_correlation_id :: string
  env_causation_id :: "string option"
  env_payload :: json

record event_db =
  public_events :: "event_row list"
  event_seq :: "int option"
  projection_cursor_row :: "int option"

datatype event_error = CursorAllocation | EventInsert | NumberOutOfRange | EventJson

section \<open>Appending\<close>

definition next_event_cursor :: "'x event_db_scheme \<Rightarrow> int" where
  "next_event_cursor db = (case event_seq db of None \<Rightarrow> 1 | Some v \<Rightarrow> v + 1)"

definition event_row_of :: "serde \<Rightarrow> int \<Rightarrow> string \<Rightarrow> int \<Rightarrow> new_event \<Rightarrow> event_row" where
  "event_row_of J cursor event_id occurred_at ev =
     \<lparr>ev_id = cursor, ev_event_id = event_id,
      ev_event_type = event_type_as_str (ne_type ev), ev_schema_version = 1,
      ev_actor_json = json_to_string J (ne_actor ev),
      ev_resource_json = map_option (json_to_string J) (ne_resource ev),
      ev_correlation_id = ne_correlation_id ev, ev_causation_id = ne_causation_id ev,
      ev_payload_json = json_to_string J (ne_payload ev), ev_occurred_at = occurred_at\<rparr>"

definition append_in_tx ::
  "serde \<Rightarrow> string \<Rightarrow> int \<Rightarrow> new_event \<Rightarrow> 'x event_db_scheme
    \<Rightarrow> event_error + (event_envelope \<times> 'x event_db_scheme)" where
  "append_in_tx J event_id occurred_at ev db =
    (let cursor = next_event_cursor db in
     if cursor > I64_MAX then Inl CursorAllocation
     else case insert_one ev_id (event_row_of J cursor event_id occurred_at ev) (public_events db) of
       None \<Rightarrow> Inl EventInsert
     | Some evs \<Rightarrow>
         if event_id \<in> ev_event_id ` set (public_events db) then Inl EventInsert
         else Inr
           (\<lparr>env_schema_version = 1, env_event_id = event_id, env_cursor = string_of_int cursor,
             env_event_type = event_type_as_str (ne_type ev), env_occurred_at = occurred_at,
             env_actor = ne_actor ev, env_resource = ne_resource ev,
             env_correlation_id = ne_correlation_id ev,
             env_causation_id = ne_causation_id ev, env_payload = ne_payload ev\<rparr>,
            db\<lparr>public_events := evs, event_seq := Some cursor\<rparr>))"

definition append_event ::
  "serde \<Rightarrow> string \<Rightarrow> int \<Rightarrow> new_event \<Rightarrow> 'x event_db_scheme
    \<Rightarrow> (event_error + event_envelope) \<times> 'x event_db_scheme" where
  "append_event J event_id occurred_at ev = run_tx (append_in_tx J event_id occurred_at ev)"

section \<open>Reading\<close>

definition parse_opt :: "serde \<Rightarrow> string option \<Rightarrow> (json option) option" where
  "parse_opt J s = (case s of None \<Rightarrow> Some None | Some t \<Rightarrow> map_option Some (json_from_str J t))"

definition envelope_of_row :: "serde \<Rightarrow> event_row \<Rightarrow> event_error + event_envelope" where
  "envelope_of_row J r =
    (if ev_schema_version r < 0 \<or> 65535 < ev_schema_version r then Inl NumberOutOfRange
     else if ev_id r < 0 then Inl NumberOutOfRange
     else case json_from_str J (ev_actor_json r) of None \<Rightarrow> Inl EventJson
     | Some actor \<Rightarrow> (case parse_opt J (ev_resource_json r) of None \<Rightarrow> Inl EventJson
     | Some resource \<Rightarrow> (case json_from_str J (ev_payload_json r) of None \<Rightarrow> Inl EventJson
     | Some payload \<Rightarrow> Inr
         \<lparr>env_schema_version = nat (ev_schema_version r), env_event_id = ev_event_id r,
          env_cursor = string_of_nat (nat (ev_id r)), env_event_type = ev_event_type r,
          env_occurred_at = ev_occurred_at r, env_actor = actor, env_resource = resource,
          env_correlation_id = ev_correlation_id r, env_causation_id = ev_causation_id r,
          env_payload = payload\<rparr>)))"

definition event_bounds :: "'x event_db_scheme \<Rightarrow> event_error + (nat \<times> nat)" where
  "event_bounds db =
    (let mx = (case find_last_by (\<lambda>_. True) ev_id (public_events db) of None \<Rightarrow> 0 | Some r \<Rightarrow> ev_id r);
         mn = (case find_first_by (\<lambda>_. True) ev_id (public_events db) of None \<Rightarrow> 0 | Some r \<Rightarrow> ev_id r)
     in if mn < 0 \<or> mx < 0 then Inl NumberOutOfRange else Inr (nat mn, nat mx))"

text \<open>The loop of \<open>after\<close>: stop at the first row that is not the expected cursor.\<close>

fun dense_envelopes :: "serde \<Rightarrow> int \<Rightarrow> event_row list \<Rightarrow> event_error + event_envelope list" where
  "dense_envelopes J expected [] = Inr []"
| "dense_envelopes J expected (r # rs) =
     (if ev_id r \<noteq> expected then Inr []
      else case envelope_of_row J r of Inl e \<Rightarrow> Inl e
        | Inr env \<Rightarrow> (case dense_envelopes J (expected + 1) rs of Inl e \<Rightarrow> Inl e
            | Inr envs \<Rightarrow> Inr (env # envs)))"

definition events_after ::
  "serde \<Rightarrow> 'x event_db_scheme \<Rightarrow> nat \<Rightarrow> nat \<Rightarrow> event_error + event_envelope list" where
  "events_after J db cursor limit =
    (if int cursor > I64_MAX then Inl NumberOutOfRange
     else dense_envelopes J (int cursor + 1)
       (mongo_limit (min limit 1000)
         (sort_key ev_id (filter (\<lambda>r. ev_id r > int cursor) (public_events db)))))"

definition projection_cursor :: "'x event_db_scheme \<Rightarrow> event_error + nat" where
  "projection_cursor db =
    (let c = (case projection_cursor_row db of None \<Rightarrow> 0 | Some c \<Rightarrow> c)
     in if c < 0 then Inl NumberOutOfRange else Inr (nat c))"

definition set_projection_cursor ::
  "nat \<Rightarrow> 'x event_db_scheme \<Rightarrow> event_error + (unit \<times> 'x event_db_scheme)" where
  "set_projection_cursor c db =
    (if int c > I64_MAX then Inl NumberOutOfRange
     else Inr ((), db\<lparr>projection_cursor_row := Some (int c)\<rparr>))"

section \<open>Unit-of-work retry loops\<close>

text \<open>
  \<open>UnitOfWork::begin\<close> makes at most five attempts and sleeps
  \<open>25 * 2^attempt\<close> milliseconds after a transient failure; \<open>commit\<close> retries an unknown
  commit result at most three times and never re-runs the body. The driver's answers
  are a parameter, one answer per attempt number; the loops return the outcome with the
  sleeps made, or with the number of commits issued. \<open>commit\<close> succeeds with the flag
  whether the event notifier is woken.
\<close>

datatype driver_outcome = DriverOk | DriverTransient | DriverUnknownCommit | DriverFatal

datatype loop_error = LoopDriver driver_outcome | LoopUnsettled

function uow_begin_from :: "(nat \<Rightarrow> driver_outcome) \<Rightarrow> nat \<Rightarrow> (loop_error + unit) \<times> nat list" where
  "uow_begin_from out attempt =
     (if 4 < attempt then (Inl LoopUnsettled, [])
      else if out attempt = DriverOk then (Inr (), [])
      else if attempt < 4 \<and> out attempt = DriverTransient
        then let (r, ds) = uow_begin_from out (Suc attempt) in (r, 25 * 2 ^ attempt # ds)
      else (Inl (LoopDriver (out attempt)), []))"
  by pat_completeness auto
termination
  by (relation "measure (\<lambda>(out, attempt). 5 - attempt)") auto

declare uow_begin_from.simps [simp del]

definition uow_begin :: "(nat \<Rightarrow> driver_outcome) \<Rightarrow> (loop_error + unit) \<times> nat list" where
  "uow_begin out = uow_begin_from out 0"

function uow_commit_from ::
  "nat \<Rightarrow> (nat \<Rightarrow> driver_outcome) \<Rightarrow> nat \<Rightarrow> (loop_error + bool) \<times> nat" where
  "uow_commit_from event_count out attempts =
     (if out attempts = DriverOk then (Inr (0 < event_count), 1)
      else if out attempts = DriverUnknownCommit \<and> attempts < 3
        then let (r, n) = uow_commit_from event_count out (Suc attempts) in (r, Suc n)
      else (Inl (LoopDriver (out attempts)), 1))"
  by pat_completeness auto
termination
  by (relation "measure (\<lambda>(c, out, attempts). 4 - attempts)") auto

declare uow_commit_from.simps [simp del]

definition uow_commit :: "nat \<Rightarrow> (nat \<Rightarrow> driver_outcome) \<Rightarrow> (loop_error + bool) \<times> nat" where
  "uow_commit event_count out = uow_commit_from event_count out 0"

section \<open>The committed log is dense\<close>

text \<open>
  The counter row exists from the first start on: \<open>Database::open\<close> seeds it with 0
  (\<open>$setOnInsert\<close> with an upsert: an existing value stays). Without a row the increment
  of \<open>append_in_tx\<close> starts at 0 as well.
\<close>

definition seed_event_seq :: "'x event_db_scheme \<Rightarrow> 'x event_db_scheme" where
  "seed_event_seq db = (case event_seq db of None \<Rightarrow> db\<lparr>event_seq := Some 0\<rparr> | Some _ \<Rightarrow> db)"

fun counter_at :: "int option \<Rightarrow> nat \<Rightarrow> bool" where
  "counter_at (Some v) n = (v = int n)"
| "counter_at None n = (n = 0)"

definition log_dense :: "'x event_db_scheme \<Rightarrow> bool" where
  "log_dense db \<longleftrightarrow>
     numbered 1 ev_id (public_events db) \<and>
     counter_at (event_seq db) (length (public_events db)) \<and>
     distinct (map ev_event_id (public_events db)) \<and>
     int (length (public_events db)) \<le> I64_MAX"

lemma log_dense_next: "log_dense db \<Longrightarrow> next_event_cursor db = int (Suc (length (public_events db)))"
  by (cases "event_seq db") (auto simp: log_dense_def next_event_cursor_def)

lemma seed_event_seq_dense: "log_dense db \<Longrightarrow> log_dense (seed_event_seq db)"
  by (cases "event_seq db") (auto simp: seed_event_seq_def log_dense_def)

lemma seed_event_seq_frame [simp]:
  "public_events (seed_event_seq db) = public_events db"
  "event_seq db = Some v \<Longrightarrow> seed_event_seq db = db"
  by (auto simp: seed_event_seq_def split: option.split)

lemma append_in_tx_dense:
  assumes "append_in_tx J i t ev db = Inr (env, db')" and "log_dense db"
  shows "log_dense db'"
    and "public_events db' = public_events db @ [event_row_of J (int (Suc (length (public_events db)))) i t ev]"
  using assms log_dense_next [OF assms(2)]
  by (auto simp: append_in_tx_def Let_def log_dense_def event_row_of_def numbered_append
      split: if_splits option.splits dest!: insert_one_SomeD)

section \<open>Readers never skip an event\<close>

text \<open>An append into a log with room left and under a fresh event id goes through.\<close>

definition log_accepts :: "string \<Rightarrow> 'x event_db_scheme \<Rightarrow> bool" where
  "log_accepts e db \<longleftrightarrow> int (length (public_events db)) < I64_MAX \<and>
     e \<notin> ev_event_id ` set (public_events db)"

lemma append_accepted:
  assumes "log_dense db" and "log_accepts e db"
  shows "\<exists>env db'. append_in_tx J e t ev db = Inr (env, db') \<and> log_dense db' \<and>
    public_events db' = public_events db @
      [event_row_of J (int (Suc (length (public_events db)))) e t ev]"
proof -
  let ?c = "int (Suc (length (public_events db)))"
  have "ev_id r < ?c" if "r \<in> set (public_events db)" for r
    using that numbered_ge [of 1 ev_id "public_events db" r] assms(1) by (auto simp: log_dense_def)
  then have "?c \<notin> ev_id ` set (public_events db)" by (metis imageE less_irrefl)
  then have "insert_one ev_id (event_row_of J ?c e t ev) (public_events db) =
      Some (public_events db @ [event_row_of J ?c e t ev])"
    by (simp add: insert_one_def event_row_of_def)
  then obtain env db' where app: "append_in_tx J e t ev db = Inr (env, db')"
    using assms by (simp add: append_in_tx_def log_dense_next log_accepts_def Let_def)
  then show ?thesis using append_in_tx_dense [OF app assms(1)] by auto
qed

lemma log_dense_after:
  assumes "log_dense db"
  shows "sort_key ev_id (filter (\<lambda>r. ev_id r > int c) (public_events db)) = drop c (public_events db)"
proof -
  have num: "numbered 1 ev_id (public_events db)"
    using assms by (simp add: log_dense_def)
  then have "sorted (map ev_id (drop c (public_events db)))"
    by (rule numbered_sorted [OF numbered_drop])
  then show ?thesis
    by (simp add: numbered_filter [OF num] sort_key_id_if_sorted)
qed

definition row_env :: "serde \<Rightarrow> event_row \<Rightarrow> event_envelope" where
  "row_env J r = (case envelope_of_row J r of Inr e \<Rightarrow> e)"

definition readable_log :: "serde \<Rightarrow> 'x event_db_scheme \<Rightarrow> bool" where
  "readable_log J db \<longleftrightarrow>
     log_dense db \<and> (\<forall>r \<in> set (public_events db). \<exists>e. envelope_of_row J r = Inr e)"

definition log_entries :: "serde \<Rightarrow> 'x event_db_scheme \<Rightarrow> event_envelope list" where
  "log_entries J db = map (row_env J) (public_events db)"

lemma dense_envelopes_all:
  assumes "numbered a ev_id rs" and "\<forall>r \<in> set rs. \<exists>e. envelope_of_row J r = Inr e"
  shows "dense_envelopes J (int a) rs = Inr (map (row_env J) rs)"
  using assms
proof (induction rs arbitrary: a)
  case (Cons r rs)
  then have "dense_envelopes J (int (Suc a)) rs = Inr (map (row_env J) rs)"
    by (intro Cons.IH) auto
  moreover obtain e where "envelope_of_row J r = Inr e" using Cons.prems(2) by auto
  ultimately show ?case using Cons.prems(1) by (simp add: row_env_def add.commute)
qed simp

lemma events_after_readable:
  assumes ok: "readable_log J db" and c: "int c \<le> I64_MAX"
  shows "events_after J db c limit =
    Inr (mongo_limit (min limit 1000) (drop c (log_entries J db)))"
proof -
  let ?rows = "mongo_limit (min limit 1000) (drop c (public_events db))"
  have "numbered 1 ev_id (public_events db)"
    using ok by (simp add: readable_log_def log_dense_def)
  from numbered_drop [OF this, of c] have "numbered (Suc c) ev_id ?rows"
    by (simp add: mongo_limit_def numbered_take)
  moreover have "\<forall>r \<in> set ?rows. \<exists>e. envelope_of_row J r = Inr e"
    using ok by (auto simp: readable_log_def mongo_limit_def dest: in_set_takeD in_set_dropD)
  ultimately have "dense_envelopes J (int (Suc c)) ?rows = Inr (map (row_env J) ?rows)"
    by (rule dense_envelopes_all)
  with c show ?thesis
    using log_dense_after [of db c] ok
    by (simp add: events_after_def readable_log_def log_entries_def mongo_limit_def
        add.commute drop_map take_map)
qed

text \<open>The reader's view of \<open>after\<close>, with an error read as nothing delivered.\<close>

definition delivered :: "serde \<Rightarrow> 'x event_db_scheme \<Rightarrow> nat \<Rightarrow> nat \<Rightarrow> event_envelope list" where
  "delivered J db c limit = (case events_after J db c limit of Inl _ \<Rightarrow> [] | Inr es \<Rightarrow> es)"

interpretation events: cursor_log "log_entries J" "delivered J" "readable_log J" 1000
  for J :: serde
proof unfold_locales
  fix db :: "'x event_db_scheme" and limit c :: nat
  assume ok: "readable_log J db" and l: "0 < limit"
  have len: "int (length (log_entries J db)) \<le> I64_MAX"
    using ok by (simp add: readable_log_def log_dense_def log_entries_def)
  show "delivered J db c limit = take (min limit 1000) (drop c (log_entries J db))"
  proof (cases "int c \<le> I64_MAX")
    case True
    with ok l show ?thesis
      by (simp add: delivered_def events_after_readable mongo_limit_def)
  next
    case False
    then have "length (log_entries J db) \<le> c" using len by linarith
    with False show ?thesis by (simp add: delivered_def events_after_def)
  qed
qed simp

section \<open>Properties of the log\<close>

definition serde_keeps :: "serde \<Rightarrow> json \<Rightarrow> bool" where
  "serde_keeps J v \<longleftrightarrow> json_from_str J (json_to_string J v) = Some v"

definition serde_keeps_event :: "serde \<Rightarrow> new_event \<Rightarrow> bool" where
  "serde_keeps_event J ev \<longleftrightarrow> serde_keeps J (ne_actor ev) \<and> serde_keeps J (ne_payload ev) \<and>
     (\<forall>v \<in> set_option (ne_resource ev). serde_keeps J v)"

lemma parse_opt_map:
  "(\<forall>v \<in> set_option x. serde_keeps J v) \<Longrightarrow>
    parse_opt J (map_option (json_to_string J) x) = Some x"
  by (cases x) (auto simp: parse_opt_def serde_keeps_def)

lemma append_reads_back:
  assumes "append_in_tx J i t ev db = Inr (env, db')" and "log_dense db" and "serde_keeps_event J ev"
  shows "envelope_of_row J (event_row_of J (int (Suc (length (public_events db)))) i t ev) = Inr env"
  using assms log_dense_next [OF assms(2)]
  by (auto simp: append_in_tx_def Let_def envelope_of_row_def event_row_of_def string_of_int_def
      serde_keeps_event_def parse_opt_map nat_add_distrib serde_keeps_def [symmetric]
      split: if_splits option.splits) (auto simp: serde_keeps_def)

lemma dense_envelopes_cursors:
  assumes "dense_envelopes J (int e) rs = Inr es" and "i < length es"
  shows "env_cursor (es ! i) = string_of_nat (e + i)"
  using assms
proof (induction J "int e" rs arbitrary: e es i rule: dense_envelopes.induct)
  case (2 J r rs)
  from "2.prems" obtain env envs where id: "ev_id r = int e" and env: "envelope_of_row J r = Inr env"
    and rest: "dense_envelopes J (int (Suc e)) rs = Inr envs" and es: "es = env # envs"
    by (auto split: if_splits sum.splits simp: add.commute)
  show ?case
  proof (cases i)
    case 0
    with env id es show ?thesis
      by (auto simp: envelope_of_row_def split: if_splits option.splits)
  next
    case (Suc j)
    with "2.hyps" [OF _ env, of "Suc e" envs j] rest es id "2.prems"(2) show ?thesis
      by (simp add: add.commute)
  qed
qed simp

lemma dense_envelopes_stop: "\<forall>r \<in> set rs. ev_id r \<noteq> e \<Longrightarrow> dense_envelopes J e rs = Inr []"
  by (cases rs) auto

lemma mongo_limit_subset: "set (mongo_limit n xs) \<subseteq> set xs"
  by (auto simp: mongo_limit_def dest: in_set_takeD)

definition sample_event :: new_event where
  "sample_event = \<lparr>ne_type = SystemStarted, ne_actor = JNull, ne_resource = None,
     ne_correlation_id = ''c'', ne_causation_id = None, ne_payload = JStr ''up''\<rparr>"

definition opened_log :: event_db where
  "opened_log = seed_event_seq \<lparr>public_events = [], event_seq = None, projection_cursor_row = None\<rparr>"

definition sample_log :: event_db where
  "sample_log = snd (append_event sample_serde ''e1'' 5 sample_event opened_log)"

lemmas sample_log_defs =
  sample_log_def opened_log_def seed_event_seq_def sample_event_def sample_serde_def append_event_def run_tx_def append_in_tx_def
  next_event_cursor_def event_row_of_def insert_one_def

lemma sample_log_ok: "readable_log sample_serde sample_log"
  by (simp add: sample_log_defs readable_log_def log_dense_def envelope_of_row_def parse_opt_def)

lemma sample_append:
  "append_in_tx sample_serde ''e2'' 6 sample_event sample_log =
     Inr (projr (append_in_tx sample_serde ''e2'' 6 sample_event sample_log))"
  by (simp add: sample_log_defs)

text \<open>
  C5. Appending inside a transaction keeps the log dense, from the log of a freshly opened database
  with its seeded counter on: the cursors of the stored events are exactly 1, 2, ..., n in order, the
  counter stands at n, and the new event is the last one, with the envelope carrying its cursor.
\<close>

theorem append_keeps_log_dense:
  assumes "log_dense db" and "append_in_tx J event_id occurred_at ev db = Inr (env, db')"
  shows "log_dense db' \<and>
    public_events db' = public_events db @
      [event_row_of J (int (Suc (length (public_events db)))) event_id occurred_at ev] \<and>
    env_cursor env = string_of_nat (length (public_events db'))"
proof -
  have "env_cursor env = string_of_int (next_event_cursor db)"
    using assms(2) by (auto simp: append_in_tx_def Let_def split: if_splits option.splits)
  then show ?thesis
    using append_in_tx_dense [OF assms(2,1)] log_dense_next [OF assms(1)]
    by (simp add: string_of_int_def nat_add_distrib)
qed

theorem append_keeps_log_dense_witness:
  "log_dense opened_log \<and>
    log_dense (snd (projr (append_in_tx sample_serde ''e1'' 5 sample_event opened_log)))"
proof -
  have "log_dense opened_log" by (simp add: opened_log_def seed_event_seq_def log_dense_def)
  moreover have "append_in_tx sample_serde ''e1'' 5 sample_event opened_log =
      Inr (fst (projr (append_in_tx sample_serde ''e1'' 5 sample_event opened_log)),
           snd (projr (append_in_tx sample_serde ''e1'' 5 sample_event opened_log)))"
    by (simp add: sample_log_defs)
  ultimately show ?thesis using append_keeps_log_dense by blast
qed

text \<open>
  Whatever rows the collection holds, \<open>after\<close> hands out consecutive cursors that
  start right behind the reader's cursor: it never skips an event.
\<close>

theorem events_after_consecutive:
  assumes "events_after J db cursor limit = Inr es" and "i < length es"
  shows "env_cursor (es ! i) = string_of_nat (cursor + 1 + i)"
  using assms dense_envelopes_cursors [of J "Suc cursor" _ es i]
  by (simp add: events_after_def add.commute split: if_splits)

theorem events_after_consecutive_witness:
  "\<exists>es. events_after sample_serde sample_log 0 10 = Inr es \<and> 0 < length es \<and>
     env_cursor (es ! 0) = string_of_nat 1"
proof -
  obtain es where es: "events_after sample_serde sample_log 0 10 = Inr es" "length es = 1"
    using events_after_readable [OF sample_log_ok, of 0 10]
    by (simp add: mongo_limit_def log_entries_def) (simp add: sample_log_defs)
  with events_after_consecutive [OF es(1), of 0] show ?thesis by auto
qed

text \<open>
  While the event right behind the reader's cursor is missing (its transaction has not
  committed), \<open>after\<close> returns nothing, however many later events are stored.
\<close>

theorem events_after_stalls_at_gap:
  assumes "\<forall>r \<in> set (public_events db). ev_id r \<noteq> int cursor + 1" and "int cursor \<le> I64_MAX"
  shows "events_after J db cursor limit = Inr []"
proof -
  let ?rows = "mongo_limit (min limit 1000)
    (sort_key ev_id (filter (\<lambda>r. ev_id r > int cursor) (public_events db)))"
  have "\<forall>r \<in> set ?rows. ev_id r \<noteq> int cursor + 1"
    using assms(1) mongo_limit_subset [of "min limit 1000"] by fastforce
  then show ?thesis
    using assms(2) by (simp add: events_after_def dense_envelopes_stop)
qed

theorem events_after_stalls_at_gap_witness:
  "events_after sample_serde (sample_log\<lparr>public_events := map (ev_id_update (\<lambda>_. 3)) (public_events sample_log)\<rparr>) 1 10
     = Inr [] \<and> public_events sample_log \<noteq> []"
proof -
  have "\<forall>r \<in> set (public_events (sample_log\<lparr>public_events := map (ev_id_update (\<lambda>_. 3)) (public_events sample_log)\<rparr>)).
      ev_id r \<noteq> int 1 + 1" by auto
  then have "events_after sample_serde
      (sample_log\<lparr>public_events := map (ev_id_update (\<lambda>_. 3)) (public_events sample_log)\<rparr>) 1 10 = Inr []"
    by (rule events_after_stalls_at_gap) simp
  moreover have "public_events sample_log \<noteq> []" by (simp add: sample_log_defs)
  ultimately show ?thesis by simp
qed

text \<open>
  An appended event reads back as the envelope the append returned, as the next event
  behind the previous end of the log, when the JSON codec restores the event's values.
\<close>

theorem appended_event_reads_back:
  assumes ok: "readable_log J db" and app: "append_in_tx J event_id occurred_at ev db = Inr (env, db')"
    and serde: "serde_keeps_event J ev"
  shows "readable_log J db' \<and> events_after J db' (length (public_events db)) 1 = Inr [env]"
proof -
  have dense: "log_dense db" using ok by (simp add: readable_log_def)
  note d' = append_in_tx_dense [OF app dense]
  note reads = append_reads_back [OF app dense serde]
  have ok': "readable_log J db'"
    using ok d' reads by (auto simp: readable_log_def)
  have "int (length (public_events db)) \<le> I64_MAX" using dense by (simp add: log_dense_def)
  from events_after_readable [OF ok' this, of 1] show ?thesis
    using ok' d'(2) reads by (simp add: mongo_limit_def log_entries_def row_env_def)
qed

theorem appended_event_reads_back_witness:
  "\<exists>env db'. append_in_tx sample_serde ''e2'' 6 sample_event sample_log = Inr (env, db') \<and>
     events_after sample_serde db' 1 1 = Inr [env]"
proof -
  obtain env db' where app: "append_in_tx sample_serde ''e2'' 6 sample_event sample_log = Inr (env, db')"
    using sample_append by (metis surj_pair)
  have "serde_keeps_event sample_serde sample_event"
    by (simp add: serde_keeps_event_def serde_keeps_def sample_event_def sample_serde_def)
  from appended_event_reads_back [OF sample_log_ok app this] show ?thesis
    using app by (simp add: sample_log_defs)
qed

text \<open>
  The wire name of an event type parses back to the type, and no other text does.
\<close>

lemma event_type_wire_roundtrip:
  "event_type_from_str s = Some x \<longleftrightarrow> s = event_type_as_str x"
  by (rule event_types.from_str_Some_iff)

text \<open>
  \<open>begin\<close> settles within five attempts whatever the driver answers: it never ends
  with the loop exhausted, makes at most four sleeps, and sleeps at most 375 ms in all.
\<close>

theorem uow_begin_bounded:
  "fst (uow_begin out) \<noteq> Inl LoopUnsettled \<and>
   length (snd (uow_begin out)) \<le> 4 \<and> sum_list (snd (uow_begin out)) \<le> 375"
  by (simp add: uow_begin_def uow_begin_from.simps [of out] eval_nat_numeral)

text \<open>
  \<open>commit\<close> issues at most four commits, and every one but the last was answered with
  an unknown commit result; the notifier is woken exactly when a commit succeeded and
  events were appended.
\<close>

theorem uow_commit_bounded:
  "1 \<le> snd (uow_commit n out) \<and> snd (uow_commit n out) \<le> 4 \<and>
   (\<forall>k. Suc k < snd (uow_commit n out) \<longrightarrow> out k = DriverUnknownCommit) \<and>
   (\<forall>w. fst (uow_commit n out) = Inr w \<longrightarrow>
      w = (0 < n) \<and> out (snd (uow_commit n out) - 1) = DriverOk)"
  by (auto simp: uow_commit_def uow_commit_from.simps [of n out] eval_nat_numeral less_Suc_eq
      split: if_splits)

theorem uow_commit_bounded_witness:
  "uow_commit 2 (\<lambda>k. if k = 0 then DriverUnknownCommit else DriverOk) = (Inr True, 2) \<and>
   (\<lambda>k::nat. if k = 0 then DriverUnknownCommit else DriverOk) 0 = DriverUnknownCommit"
  using uow_commit_bounded [of 2 "\<lambda>k. if k = 0 then DriverUnknownCommit else DriverOk"]
  by (simp add: uow_commit_def uow_commit_from.simps)


end
