(* ===== verification/Projection_Engine.thy ===== *)
theory Projection_Engine
  imports Event_Log
begin

text \<open>
  The projection engine's drain loop (\<open>apps/server/src/application/state_worker.rs\<close>): it
  reads the log in batches of 100 behind its cursor, projects each event to state frames,
  pushes them, and persists the cursor after each batch. Projecting one event reads
  resources of several capabilities; it is the parameter \<open>project\<close>. A batch that fails
  or comes back empty ends the drain.
\<close>

section \<open>The engine\<close>

text \<open>Where a (re)started engine begins.\<close>

definition projection_start :: "'x event_db_scheme \<Rightarrow> nat" where
  "projection_start db =
    (case projection_cursor db of
       Inr c \<Rightarrow> c
     | Inl _ \<Rightarrow> (case event_bounds db of Inr (mn, mx) \<Rightarrow> mx | Inl _ \<Rightarrow> 0))"

text \<open>One batch: advance the cursor over the events and push their frames.\<close>

fun project_batch ::
  "(event_envelope \<Rightarrow> 'c list) \<Rightarrow> nat \<Rightarrow> event_envelope list \<Rightarrow> nat \<times> 'c list" where
  "project_batch project cursor [] = (cursor, [])"
| "project_batch project cursor (ev # evs) =
     (let cursor' = (case parse_u64 (env_cursor ev) of Some c \<Rightarrow> c | None \<Rightarrow> cursor);
          rest = project_batch project cursor' evs
      in (fst rest, project ev @ snd rest))"

text \<open>A failed cursor write is only logged.\<close>

definition persist_cursor :: "nat \<Rightarrow> 'x event_db_scheme \<Rightarrow> 'x event_db_scheme" where
  "persist_cursor c db =
    (case set_projection_cursor c db of Inl _ \<Rightarrow> db | Inr (_, db') \<Rightarrow> db')"

text \<open>The inner loop, with a bound on the number of batches.\<close>

fun projection_drain ::
  "serde \<Rightarrow> (event_envelope \<Rightarrow> 'c list) \<Rightarrow> nat \<Rightarrow> nat \<Rightarrow> 'x event_db_scheme
    \<Rightarrow> (nat \<times> 'c list \<times> 'x event_db_scheme) option" where
  "projection_drain J project 0 cursor db = None"
| "projection_drain J project (Suc fuel) cursor db =
     (case events_after J db cursor 100 of
        Inl _ \<Rightarrow> Some (cursor, [], db)
      | Inr evs \<Rightarrow>
          if evs = [] then Some (cursor, [], db)
          else let (cursor', out) = project_batch project cursor evs
               in map_option (\<lambda>(c, out', db'). (c, out @ out', db'))
                    (projection_drain J project fuel cursor' (persist_cursor cursor' db)))"

section \<open>The engine projects every event once, in order\<close>

lemma persist_cursor_log [simp]:
  "public_events (persist_cursor c db) = public_events db"
  "event_seq (persist_cursor c db) = event_seq db"
  by (simp_all add: persist_cursor_def set_projection_cursor_def)

lemma persist_cursor_readable [simp]:
  "readable_log J (persist_cursor c db) = readable_log J db"
  "log_entries J (persist_cursor c db) = log_entries J db"
  by (simp_all add: readable_log_def log_dense_def log_entries_def)

lemma project_batch_out: "snd (project_batch project c evs) = concat (map project evs)"
  by (induction evs arbitrary: c) (auto simp: Let_def)

lemma project_batch_cursor:
  assumes "\<forall>i < length evs. env_cursor (evs ! i) = string_of_nat (c + 1 + i)"
    and "c + length evs \<le> U64_MAX"
  shows "fst (project_batch project c evs) = c + length evs"
  using assms
proof (induction evs arbitrary: c)
  case (Cons ev evs)
  have "env_cursor ev = string_of_nat (Suc c)" using Cons.prems(1) by fastforce
  then have p: "parse_u64 (env_cursor ev) = Some (Suc c)"
    using Cons.prems(2) by (simp add: parse_u64_string_of_nat)
  have "\<forall>i < length evs. env_cursor (evs ! i) = string_of_nat (Suc c + 1 + i)"
    using Cons.prems(1) by fastforce
  then have "fst (project_batch project (Suc c) evs) = Suc c + length evs"
    using Cons.prems(2) by (intro Cons.IH) simp_all
  with p show ?case by simp
qed simp

lemma readable_log_length: "readable_log J db \<Longrightarrow> int (length (log_entries J db)) \<le> I64_MAX"
  by (simp add: readable_log_def log_dense_def log_entries_def)

lemma drain_step:
  assumes ok: "readable_log J db" and c: "cursor < length (log_entries J db)"
  defines "evs \<equiv> take 100 (drop cursor (log_entries J db))"
  shows "events_after J db cursor 100 = Inr evs" and "evs \<noteq> []"
    and "project_batch project cursor evs = (cursor + length evs, concat (map project evs))"
proof -
  have len: "int (length (log_entries J db)) \<le> I64_MAX" by (rule readable_log_length [OF ok])
  then have "int cursor \<le> I64_MAX" using c by linarith
  then show after: "events_after J db cursor 100 = Inr evs"
    by (simp add: events_after_readable [OF ok] mongo_limit_def evs_def)
  show "evs \<noteq> []" using c by (simp add: evs_def)
  have "cursor + length evs \<le> length (log_entries J db)" using c by (simp add: evs_def)
  then have "cursor + length evs \<le> U64_MAX" using len by linarith
  then have "fst (project_batch project cursor evs) = cursor + length evs"
    using after dense_envelopes_cursors [of J "Suc cursor" _ evs]
    by (intro project_batch_cursor) (simp add: events_after_def add.commute split: if_splits)
  then show "project_batch project cursor evs = (cursor + length evs, concat (map project evs))"
    by (simp add: prod_eq_iff project_batch_out)
qed

lemma drain_end:
  assumes ok: "readable_log J db" and c: "cursor = length (log_entries J db)"
  shows "events_after J db cursor 100 = Inr []"
  using readable_log_length [OF ok] c by (simp add: events_after_readable [OF ok] mongo_limit_def)

lemma projection_drain_from:
  assumes "readable_log J db" and "cursor \<le> length (log_entries J db)"
    and "length (log_entries J db) - cursor < fuel"
  shows "\<exists>db'. projection_drain J project fuel cursor db =
      Some (length (log_entries J db), concat (map project (drop cursor (log_entries J db))), db') \<and>
    readable_log J db' \<and> log_entries J db' = log_entries J db \<and>
    (cursor < length (log_entries J db) \<longrightarrow>
       projection_cursor db' = Inr (length (log_entries J db))) \<and>
    (cursor = length (log_entries J db) \<longrightarrow> db' = db)"
  using assms
proof (induction fuel arbitrary: cursor db)
  case (Suc fuel)
  let ?n = "length (log_entries J db)"
  show ?case
  proof (cases "cursor < ?n")
    case False
    with Suc.prems(2) have "cursor = ?n" by simp
    with drain_end [OF Suc.prems(1) this] Suc.prems(1) show ?thesis by simp
  next
    case True
    let ?evs = "take 100 (drop cursor (log_entries J db))"
    let ?c = "cursor + length ?evs" and ?db = "persist_cursor (cursor + length ?evs) db"
    note step = drain_step [OF Suc.prems(1) True]
    have more: "0 < length ?evs" using True by simp
    have c_le: "?c \<le> ?n" using True by simp
    then have pc: "projection_cursor ?db = Inr ?c"
      using readable_log_length [OF Suc.prems(1)]
      by (auto simp: persist_cursor_def set_projection_cursor_def projection_cursor_def)
    have "length (log_entries J ?db) - ?c < fuel" using Suc.prems(3) True more by simp
    from Suc.IH [OF _ _ this] obtain db' where
      db': "projection_drain J project fuel ?c ?db =
        Some (?n, concat (map project (drop ?c (log_entries J db))), db')"
      "readable_log J db' \<and> log_entries J db' = log_entries J db"
      "?c < ?n \<longrightarrow> projection_cursor db' = Inr ?n" "?c = ?n \<longrightarrow> db' = ?db"
      using Suc.prems(1) c_le by auto
    have pieces: "drop cursor (log_entries J db) = ?evs @ drop ?c (log_entries J db)"
      by (rule drop_batch)
    have "projection_drain J project (Suc fuel) cursor db =
        Some (?n, concat (map project ?evs) @ concat (map project (drop ?c (log_entries J db))), db')"
      using step(1,2) step(3) [of project] db'(1) by simp
    moreover have "projection_cursor db' = Inr ?n"
      using db'(3,4) pc c_le by (cases "?c = ?n") auto
    ultimately show ?thesis
      using db'(2) True pieces by (auto simp del: append_take_drop_id)
         (metis concat_append map_append)
  qed
qed simp

text \<open>
  C13. From any cursor inside a readable log the drain terminates within one batch per
  remaining event plus one, ends with its cursor at the end of the log, has pushed the
  frames of exactly the events behind the start cursor, each once and in log order, and
  has left the log itself unchanged.
\<close>

theorem projection_drain_complete:
  assumes "readable_log J db" and "cursor \<le> length (log_entries J db)"
    and "length (log_entries J db) - cursor < fuel"
  shows "\<exists>db'. projection_drain J project fuel cursor db =
      Some (length (log_entries J db), concat (map project (drop cursor (log_entries J db))), db') \<and>
    log_entries J db' = log_entries J db"
  using projection_drain_from [OF assms, of project] by blast

theorem projection_drain_complete_witness:
  "\<exists>db'. projection_drain sample_serde (\<lambda>e. [env_event_id e]) 2 0 sample_log =
      Some (1, [''e1''], db')"
proof -
  have n: "length (log_entries sample_serde sample_log) = 1"
    by (simp add: log_entries_def sample_log_defs)
  have ids: "concat (map (\<lambda>e. [env_event_id e]) (drop 0 (log_entries sample_serde sample_log))) = [''e1'']"
    by (simp add: log_entries_def row_env_def envelope_of_row_def parse_opt_def sample_log_defs)
  show ?thesis
    using projection_drain_complete [OF sample_log_ok, of 0 2 "\<lambda>e. [env_event_id e]"] n ids by auto
qed

text \<open>
  Restarting after a drain projects nothing twice: the engine resumes at the persisted
  cursor, the end of the log it drained, and an immediate second drain pushes no frame.
\<close>

theorem projection_restart_no_repeat:
  assumes "readable_log J db" and "cursor < length (log_entries J db)"
    and "projection_drain J project (Suc (length (log_entries J db) - cursor)) cursor db =
      Some (c, out, db')"
  shows "projection_start db' = length (log_entries J db) \<and>
    projection_drain J project 1 (projection_start db') db' = Some (projection_start db', [], db')"
proof -
  obtain db'' where d: "projection_drain J project (Suc (length (log_entries J db) - cursor)) cursor db =
      Some (length (log_entries J db), concat (map project (drop cursor (log_entries J db))), db'')"
    "readable_log J db''" "log_entries J db'' = log_entries J db" "projection_cursor db'' = Inr (length (log_entries J db))"
    using projection_drain_from [OF assms(1), of cursor "Suc (length (log_entries J db) - cursor)" project]
      assms(2) by auto
  then have "db' = db''" using assms(3) by simp
  then show ?thesis using d drain_end [of J db' "length (log_entries J db)"]
    by (simp add: projection_start_def eval_nat_numeral)
qed

theorem projection_restart_no_repeat_witness:
  "\<exists>c out db'. projection_drain sample_serde (\<lambda>e. [env_event_id e]) 2 0 sample_log = Some (c, out, db') \<and>
     projection_start db' = 1"
proof -
  have n: "length (log_entries sample_serde sample_log) = 1"
    by (simp add: log_entries_def sample_log_defs)
  obtain c out db' where d: "projection_drain sample_serde (\<lambda>e. [env_event_id e]) 2 0 sample_log = Some (c, out, db')"
    using projection_drain_from [OF sample_log_ok, of 0 2 "\<lambda>e. [env_event_id e]"] n by auto
  with projection_restart_no_repeat [OF sample_log_ok, of 0 "\<lambda>e. [env_event_id e]" c out db'] n
  show ?thesis by (auto simp: eval_nat_numeral)
qed

end
