(* ===== verification/Operation_Journal.thy ===== *)
theory Operation_Journal
  imports Event_Log "HOL-Library.List_Lexorder" "HOL-Library.Char_ord" "HOL-Library.Product_Lexorder"
begin

text \<open>
  The durable operation journal and work queue
  (\<open>crates/infrastructure/src/operations.rs\<close>) and the command idempotency records
  (\<open>command_idempotency.rs\<close>): the collections as record fields, one definition per public
  method, with the filters, guards and early returns of the code. Generated ids, nonces
  and clock readings are arguments, in the order the code draws them.
\<close>

section \<open>Documents\<close>

datatype operation_status = OpQueued | OpRunning | OpSucceeded | OpFailed | OpCanceled | OpNeedsAttention

fun operation_status_as_str :: "operation_status \<Rightarrow> string" where
  "operation_status_as_str OpQueued = ''queued''"
| "operation_status_as_str OpRunning = ''running''"
| "operation_status_as_str OpSucceeded = ''succeeded''"
| "operation_status_as_str OpFailed = ''failed''"
| "operation_status_as_str OpCanceled = ''canceled''"
| "operation_status_as_str OpNeedsAttention = ''needs_attention''"

datatype work_failure_disposition = Retry | DeadLetter

datatype step_state = AlreadySucceeded | StepRunning | NeedsReconciliation

datatype idempotency_outcome = New | Stored | Reused

datatype operation_error =
    OpNotFound
  | StaleWorkClaim
  | OpStorage
  | OpSerde
  | OpInternal string
  | OpPanic

definition MAX_WORK_ATTEMPTS :: int where "MAX_WORK_ATTEMPTS = 5"

definition MAX_WORK_RETRY_DELAY_SECONDS :: int where "MAX_WORK_RETRY_DELAY_SECONDS = 60"

record operation_row =
  op_id :: string
  op_kind :: string
  op_actor_json :: string
  op_target_kind :: string
  op_target_id :: "string option"
  op_status :: string
  op_conditions_json :: string
  op_current_step :: "string option"
  op_progress_json :: "string option"
  op_result_json :: "string option"
  op_problem_json :: "string option"
  op_correlation_id :: string
  op_version :: string
  op_created_at :: int
  op_updated_at :: int

record step_row =
  st_operation_id :: string
  st_step_key :: string
  st_attempts :: int
  st_status :: string
  st_input_summary :: string
  st_external_ref :: "string option"
  st_compensation_json :: "string option"
  st_created_at :: int
  st_updated_at :: int

record work_row =
  wi_id :: string
  wi_handler_kind :: string
  wi_payload_json :: string
  wi_not_before :: int
  wi_attempts :: int
  wi_dead :: bool
  wi_created_at :: int
  wi_lease_nonce :: "string option"
  wi_lease_expires_at :: "int option"

record idem_row =
  id_key :: string
  id_owner_id :: string
  id_method :: string
  id_normalized_route :: string
  id_request_digest :: string
  id_status :: string
  id_operation_id :: string
  id_expires_at :: int

record command_row =
  ci_key :: string
  ci_owner_id :: string
  ci_method :: string
  ci_normalized_route :: string
  ci_request_digest :: string
  ci_response_json :: string
  ci_expires_at :: int
  ci_created_at :: int

record journal_db = event_db +
  operations :: "operation_row list"
  operation_steps :: "step_row list"
  work_items :: "work_row list"
  idempotency_records :: "idem_row list"
  command_idempotency_records :: "command_row list"

record idempotency_request =
  ir_key :: string
  ir_owner_id :: string
  ir_method :: string
  ir_normalized_route :: string
  ir_digest :: string
  ir_expires_at :: int

record create_operation =
  co_kind :: string
  co_actor :: json
  co_target_kind :: string
  co_target_id :: "string option"
  co_conditions :: json
  co_correlation_id :: string
  co_idempotency :: "idempotency_request option"

record create_work =
  cw_handler_kind :: string
  cw_payload :: json

record operation_view =
  ov_id :: string
  ov_kind :: string
  ov_status :: string
  ov_target_kind :: string
  ov_target_id :: "string option"
  ov_current_step :: "string option"
  ov_progress :: "json option"
  ov_result :: "json option"
  ov_problem :: "json option"
  ov_correlation_id :: string
  ov_version :: string
  ov_created_at :: int
  ov_updated_at :: int

record claimed_work =
  cl_id :: string
  cl_nonce :: string
  cl_payload :: json

text \<open>Ids and clock readings one \<open>create_in_tx\<close> call draws.\<close>

record create_gen =
  cg_lookup_now :: int
  cg_id :: string
  cg_now :: int
  cg_version :: string
  cg_work_id :: string
  cg_event_id :: string
  cg_occurred_at :: int

text \<open>The statuses in which an operation may still move.\<close>

definition in_flight :: "operation_row \<Rightarrow> bool" where
  "in_flight r \<longleftrightarrow> op_status r = ''queued'' \<or> op_status r = ''running''"

text \<open>The lease filter of every claim-fenced call.\<close>

definition holds_lease :: "int \<Rightarrow> string \<Rightarrow> string \<Rightarrow> work_row \<Rightarrow> bool" where
  "holds_lease now work_id nonce w \<longleftrightarrow>
     wi_id w = work_id \<and> wi_lease_nonce w = Some nonce \<and> \<not> wi_dead w \<and>
     (case wi_lease_expires_at w of None \<Rightarrow> False | Some e \<Rightarrow> now \<le> e)"

section \<open>Views and events\<close>

definition parse_json_opt :: "serde \<Rightarrow> string option \<Rightarrow> operation_error + json option" where
  "parse_json_opt J s =
    (case s of None \<Rightarrow> Inr None
     | Some t \<Rightarrow> (case json_from_str J t of None \<Rightarrow> Inl OpSerde | Some v \<Rightarrow> Inr (Some v)))"

definition view_from_document :: "serde \<Rightarrow> operation_row \<Rightarrow> operation_error + operation_view" where
  "view_from_document J r =
    (case parse_json_opt J (op_progress_json r) of Inl e \<Rightarrow> Inl e
     | Inr progress \<Rightarrow> (case parse_json_opt J (op_result_json r) of Inl e \<Rightarrow> Inl e
     | Inr result \<Rightarrow> (case parse_json_opt J (op_problem_json r) of Inl e \<Rightarrow> Inl e
     | Inr problem \<Rightarrow> Inr
        \<lparr>ov_id = op_id r, ov_kind = op_kind r, ov_status = op_status r,
         ov_target_kind = op_target_kind r, ov_target_id = op_target_id r,
         ov_current_step = op_current_step r, ov_progress = progress, ov_result = result,
         ov_problem = problem, ov_correlation_id = op_correlation_id r,
         ov_version = op_version r, ov_created_at = op_created_at r,
         ov_updated_at = op_updated_at r\<rparr>)))"

definition get_operation ::
  "serde \<Rightarrow> string \<Rightarrow> 'x journal_db_scheme \<Rightarrow> operation_error + operation_view option" where
  "get_operation J operation_id db =
    (case find_one (\<lambda>r. op_id r = operation_id) (operations db) of
       None \<Rightarrow> Inr None
     | Some r \<Rightarrow> (case view_from_document J r of Inl e \<Rightarrow> Inl e | Inr v \<Rightarrow> Inr (Some v)))"

definition operation_changed_event ::
  "string \<Rightarrow> string \<Rightarrow> string \<Rightarrow> string \<Rightarrow> string \<Rightarrow> new_event" where
  "operation_changed_event operation_id kind status version correlation_id =
    \<lparr>ne_type = OperationChanged,
     ne_actor = JObj [(''kind'', JStr ''system''), (''id'', JNull), (''display_name'', JStr ''Janus'')],
     ne_resource = Some (JObj [(''kind'', JStr ''operation''), (''id'', JStr operation_id),
                               (''version'', JStr version)]),
     ne_correlation_id = correlation_id, ne_causation_id = None,
     ne_payload = JObj [(''operation_id'', JStr operation_id), (''kind'', JStr kind),
                        (''status'', JStr status)]\<rparr>"

definition emit_operation_changed ::
  "serde \<Rightarrow> string \<Rightarrow> int \<Rightarrow> string \<Rightarrow> string \<Rightarrow> string \<Rightarrow> string \<Rightarrow> string
    \<Rightarrow> 'x journal_db_scheme \<Rightarrow> operation_error + 'x journal_db_scheme" where
  "emit_operation_changed J event_id occurred_at operation_id kind status version correlation_id db =
    (case append_in_tx J event_id occurred_at
            (operation_changed_event operation_id kind status version correlation_id) db of
       Inl _ \<Rightarrow> Inl (OpInternal ''append event'')
     | Inr (_, db') \<Rightarrow> Inr db')"

section \<open>Creating operations\<close>

definition lookup_idempotency_in_tx ::
  "serde \<Rightarrow> int \<Rightarrow> idempotency_request \<Rightarrow> 'x journal_db_scheme
    \<Rightarrow> operation_error + operation_view option" where
  "lookup_idempotency_in_tx J now idem db =
    (case find_one (\<lambda>r. id_key r = ir_key idem \<and> now \<le> id_expires_at r) (idempotency_records db) of
       None \<Rightarrow> Inr None
     | Some r \<Rightarrow>
         if id_request_digest r \<noteq> ir_digest idem then Inl (OpInternal ''IDEMPOTENCY_KEY_REUSED'')
         else get_operation J (id_operation_id r) db)"

definition new_operation_row :: "serde \<Rightarrow> create_gen \<Rightarrow> create_operation \<Rightarrow> operation_row" where
  "new_operation_row J g req =
    \<lparr>op_id = cg_id g, op_kind = co_kind req, op_actor_json = json_to_string J (co_actor req),
     op_target_kind = co_target_kind req, op_target_id = co_target_id req,
     op_status = ''queued'', op_conditions_json = json_to_string J (co_conditions req),
     op_current_step = None, op_progress_json = None, op_result_json = None,
     op_problem_json = None, op_correlation_id = co_correlation_id req,
     op_version = cg_version g, op_created_at = cg_now g, op_updated_at = cg_now g\<rparr>"

definition new_idem_row :: "string \<Rightarrow> idempotency_request \<Rightarrow> idem_row" where
  "new_idem_row operation_id idem =
    \<lparr>id_key = ir_key idem, id_owner_id = ir_owner_id idem, id_method = ir_method idem,
     id_normalized_route = ir_normalized_route idem, id_request_digest = ir_digest idem,
     id_status = ''running'', id_operation_id = operation_id, id_expires_at = ir_expires_at idem\<rparr>"

definition new_work_row :: "string \<Rightarrow> string \<Rightarrow> string \<Rightarrow> int \<Rightarrow> work_row" where
  "new_work_row work_id handler_kind payload_json now =
    \<lparr>wi_id = work_id, wi_handler_kind = handler_kind, wi_payload_json = payload_json,
     wi_not_before = now, wi_attempts = 0, wi_dead = False, wi_created_at = now,
     wi_lease_nonce = None, wi_lease_expires_at = None\<rparr>"

definition insert_created_work ::
  "serde \<Rightarrow> create_gen \<Rightarrow> create_work option \<Rightarrow> 'x journal_db_scheme
    \<Rightarrow> operation_error + 'x journal_db_scheme" where
  "insert_created_work J g work_item db =
    (case work_item of None \<Rightarrow> Inr db
     | Some w \<Rightarrow> (case cw_payload w of
         JObj kvs \<Rightarrow>
           (case insert_one wi_id
                   (new_work_row (cg_work_id g) (cw_handler_kind w)
                     (json_to_string J (JObj (obj_insert ''operation_id'' (JStr (cg_id g)) kvs)))
                     (cg_now g)) (work_items db) of
              None \<Rightarrow> Inl OpStorage
            | Some ws \<Rightarrow> Inr (db\<lparr>work_items := ws\<rparr>))
       | _ \<Rightarrow> Inl (OpInternal ''work payload must be a JSON object'')))"

definition create_new_operation ::
  "serde \<Rightarrow> create_gen \<Rightarrow> create_operation \<Rightarrow> create_work option \<Rightarrow> 'x journal_db_scheme
    \<Rightarrow> operation_error + ((operation_view \<times> idempotency_outcome) \<times> 'x journal_db_scheme)" where
  "create_new_operation J g req work_item db =
    (case insert_one op_id (new_operation_row J g req) (operations db) of
       None \<Rightarrow> Inl OpStorage
     | Some ops \<Rightarrow>
         let db1 = db\<lparr>operations := ops\<rparr>;
             db2 = (case co_idempotency req of None \<Rightarrow> db1
                    | Some idem \<Rightarrow> db1\<lparr>idempotency_records :=
                        replace_one id_key (new_idem_row (cg_id g) idem) (idempotency_records db1)\<rparr>)
         in case insert_created_work J g work_item db2 of Inl e \<Rightarrow> Inl e
          | Inr db3 \<Rightarrow>
              (case emit_operation_changed J (cg_event_id g) (cg_occurred_at g) (cg_id g)
                      (co_kind req) ''queued'' (cg_version g) (co_correlation_id req) db3 of
                 Inl e \<Rightarrow> Inl e
               | Inr db4 \<Rightarrow>
                   (case get_operation J (cg_id g) db4 of Inl e \<Rightarrow> Inl e
                    | Inr None \<Rightarrow> Inl OpNotFound
                    | Inr (Some v) \<Rightarrow> Inr ((v, New), db4))))"

definition terminal_status :: "string \<Rightarrow> bool" where
  "terminal_status s \<longleftrightarrow>
     s = ''succeeded'' \<or> s = ''failed'' \<or> s = ''canceled'' \<or> s = ''needs_attention''"

definition create_in_tx ::
  "serde \<Rightarrow> create_gen \<Rightarrow> create_operation \<Rightarrow> create_work option \<Rightarrow> 'x journal_db_scheme
    \<Rightarrow> operation_error + ((operation_view \<times> idempotency_outcome) \<times> 'x journal_db_scheme)" where
  "create_in_tx J g req work_item db =
    (case co_idempotency req of
       None \<Rightarrow> create_new_operation J g req work_item db
     | Some idem \<Rightarrow>
         (case lookup_idempotency_in_tx J (cg_lookup_now g) idem db of
            Inl e \<Rightarrow> Inl e
          | Inr (Some view) \<Rightarrow>
              Inr ((view, if terminal_status (ov_status view) then Stored else Reused), db)
          | Inr None \<Rightarrow> create_new_operation J g req work_item db))"

definition create_op ::
  "serde \<Rightarrow> create_gen \<Rightarrow> create_operation \<Rightarrow> create_work option \<Rightarrow> 'x journal_db_scheme
    \<Rightarrow> (operation_error + (operation_view \<times> idempotency_outcome)) \<times> 'x journal_db_scheme" where
  "create_op J g req work_item = run_tx (create_in_tx J g req work_item)"

definition enqueue_work_in_tx ::
  "serde \<Rightarrow> string \<Rightarrow> int \<Rightarrow> string \<Rightarrow> json \<Rightarrow> 'x journal_db_scheme
    \<Rightarrow> operation_error + (string \<times> 'x journal_db_scheme)" where
  "enqueue_work_in_tx J work_id now handler_kind payload db =
    (case insert_one wi_id (new_work_row work_id handler_kind (json_to_string J payload) now)
            (work_items db) of
       None \<Rightarrow> Inl OpStorage
     | Some ws \<Rightarrow> Inr (work_id, db\<lparr>work_items := ws\<rparr>))"

section \<open>Claiming, renewing, completing and failing work\<close>

text \<open>The sweep at the head of \<open>claim_work\<close>: expired leases at the attempt limit die.\<close>

definition bury_exhausted :: "int \<Rightarrow> work_row list \<Rightarrow> work_row list" where
  "bury_exhausted now =
     update_many (\<lambda>w. \<not> wi_dead w \<and> MAX_WORK_ATTEMPTS \<le> wi_attempts w \<and>
                      (case wi_lease_expires_at w of None \<Rightarrow> False | Some e \<Rightarrow> e < now))
       (\<lambda>w. w\<lparr>wi_dead := True\<rparr>)"

definition claimable :: "string \<Rightarrow> int \<Rightarrow> work_row \<Rightarrow> bool" where
  "claimable handler_kind now w \<longleftrightarrow>
     wi_handler_kind w = handler_kind \<and> \<not> wi_dead w \<and> wi_attempts w < MAX_WORK_ATTEMPTS \<and>
     wi_not_before w \<le> now \<and>
     (case wi_lease_expires_at w of None \<Rightarrow> True | Some e \<Rightarrow> e < now)"

definition seconds :: "int \<Rightarrow> int" where
  "seconds n = n * 1000000000"

text \<open>
  The call that claims: find the oldest claimable item and lease it. \<open>claim_work\<close> sweeps in one call
  and claims in a second one.
\<close>

definition claim_item ::
  "serde \<Rightarrow> string \<Rightarrow> int \<Rightarrow> int \<Rightarrow> string \<Rightarrow> 'x journal_db_scheme
    \<Rightarrow> (operation_error + claimed_work option) \<times> 'x journal_db_scheme" where
  "claim_item J handler_kind lease_expires now nonce db =
    (case find_first_by (claimable handler_kind now) wi_created_at (work_items db) of
       None \<Rightarrow> (Inr None, db)
     | Some w \<Rightarrow>
         (case json_from_str J (wi_payload_json w) of
            None \<Rightarrow> Inl OpSerde
          | Some payload \<Rightarrow> Inr (Some \<lparr>cl_id = wi_id w, cl_nonce = nonce, cl_payload = payload\<rparr>),
          db\<lparr>work_items := fst (update_one (\<lambda>x. wi_id x = wi_id w)
            (\<lambda>x. x\<lparr>wi_lease_nonce := Some nonce, wi_lease_expires_at := Some lease_expires,
                   wi_attempts := wi_attempts x + 1\<rparr>) (work_items db))\<rparr>))"

definition claim_work ::
  "serde \<Rightarrow> string \<Rightarrow> int \<Rightarrow> int \<Rightarrow> int \<Rightarrow> string \<Rightarrow> 'x journal_db_scheme
    \<Rightarrow> (operation_error + claimed_work option) \<times> 'x journal_db_scheme" where
  "claim_work J handler_kind lease_ttl_seconds now_dt now nonce db =
    claim_item J handler_kind (format_utc (now_dt + seconds lease_ttl_seconds)) now nonce
      (db\<lparr>work_items := bury_exhausted now (work_items db)\<rparr>)"

lemma claim_work_eq:
  "claim_work J handler_kind lease_ttl_seconds now_dt now nonce db =
    (let lease_expires = format_utc (now_dt + seconds lease_ttl_seconds);
         items = bury_exhausted now (work_items db)
     in case find_first_by (claimable handler_kind now) wi_created_at items of
          None \<Rightarrow> (Inr None, db\<lparr>work_items := items\<rparr>)
        | Some w \<Rightarrow>
            let items' = fst (update_one (\<lambda>x. wi_id x = wi_id w)
                  (\<lambda>x. x\<lparr>wi_lease_nonce := Some nonce, wi_lease_expires_at := Some lease_expires,
                         wi_attempts := wi_attempts x + 1\<rparr>) items)
            in (case json_from_str J (wi_payload_json w) of
                  None \<Rightarrow> Inl OpSerde
                | Some payload \<Rightarrow>
                    Inr (Some \<lparr>cl_id = wi_id w, cl_nonce = nonce, cl_payload = payload\<rparr>),
                db\<lparr>work_items := items'\<rparr>))"
  by (simp add: claim_work_def claim_item_def Let_def split: option.split)

text \<open>Completing and failing do not ask for a live item, only for a live lease.\<close>

definition leased_by :: "int \<Rightarrow> string \<Rightarrow> string \<Rightarrow> work_row \<Rightarrow> bool" where
  "leased_by now work_id nonce w \<longleftrightarrow>
     wi_id w = work_id \<and> wi_lease_nonce w = Some nonce \<and>
     (case wi_lease_expires_at w of None \<Rightarrow> False | Some e \<Rightarrow> now \<le> e)"

definition complete_work ::
  "string \<Rightarrow> string \<Rightarrow> int \<Rightarrow> 'x journal_db_scheme \<Rightarrow> bool \<times> 'x journal_db_scheme" where
  "complete_work work_id nonce now db =
    (let (items, deleted) = delete_one (leased_by now work_id nonce) (work_items db)
     in (0 < deleted, db\<lparr>work_items := items\<rparr>))"

definition renew_work ::
  "string \<Rightarrow> string \<Rightarrow> int \<Rightarrow> int \<Rightarrow> int \<Rightarrow> 'x journal_db_scheme \<Rightarrow> bool \<times> 'x journal_db_scheme" where
  "renew_work work_id nonce lease_ttl_seconds now_dt now db =
    (let lease_expires = format_utc (now_dt + seconds (max lease_ttl_seconds 1));
         (items, matched) = update_one (holds_lease now work_id nonce)
           (\<lambda>w. w\<lparr>wi_lease_expires_at := Some lease_expires\<rparr>) (work_items db)
     in (0 < matched, db\<lparr>work_items := items\<rparr>))"

text \<open>
  \<open>1_i64 << attempts.saturating_sub(1).min(6)\<close>, capped: a negative shift amount
  overflows and is \<open>None\<close>.
\<close>

definition retry_base_delay :: "int \<Rightarrow> int option" where
  "retry_base_delay attempts =
    (let sh = min (attempts - 1) 6
     in if sh < 0 then None else Some (min (2 ^ nat sh) MAX_WORK_RETRY_DELAY_SECONDS))"

definition retry_delay_seconds :: "bool \<Rightarrow> int \<Rightarrow> nat \<Rightarrow> int option" where
  "retry_delay_seconds exhausted attempts jitter_source =
    (case (if exhausted then Some 0 else retry_base_delay attempts) of
       None \<Rightarrow> None
     | Some base \<Rightarrow>
         let jitter = (if base = 0 then 0 else int (jitter_source mod (nat base div 4 + 1)))
         in Some (min (base + jitter) MAX_WORK_RETRY_DELAY_SECONDS))"

definition work_exhausted :: "work_failure_disposition \<Rightarrow> int \<Rightarrow> bool" where
  "work_exhausted disposition attempts \<longleftrightarrow> disposition = DeadLetter \<or> MAX_WORK_ATTEMPTS \<le> attempts"

text \<open>The call that gives a failed item back; \<open>fail_work\<close> has read the attempts in a call before.\<close>

definition release_item ::
  "string \<Rightarrow> string \<Rightarrow> bool \<Rightarrow> int \<Rightarrow> int \<Rightarrow> 'x journal_db_scheme \<Rightarrow> bool \<times> 'x journal_db_scheme" where
  "release_item work_id nonce exhausted not_before now db =
    (let (items, matched) = update_one (leased_by now work_id nonce)
       (\<lambda>x. x\<lparr>wi_not_before := not_before, wi_dead := exhausted,
              wi_lease_nonce := None, wi_lease_expires_at := None\<rparr>) (work_items db)
     in (0 < matched, db\<lparr>work_items := items\<rparr>))"

definition fail_work ::
  "string \<Rightarrow> string \<Rightarrow> work_failure_disposition \<Rightarrow> int \<Rightarrow> nat \<Rightarrow> int \<Rightarrow> 'x journal_db_scheme
    \<Rightarrow> (operation_error + bool) \<times> 'x journal_db_scheme" where
  "fail_work work_id nonce disposition now jitter_source now_dt db =
    (case find_one (\<lambda>w. wi_id w = work_id \<and> wi_lease_nonce w = Some nonce) (work_items db) of
       None \<Rightarrow> (Inr False, db)
     | Some w \<Rightarrow>
         let exhausted = work_exhausted disposition (wi_attempts w)
         in case retry_delay_seconds exhausted (wi_attempts w) jitter_source of
              None \<Rightarrow> (Inl OpPanic, db)
            | Some delay \<Rightarrow>
                let (changed, db1) = release_item work_id nonce exhausted
                      (format_utc (now_dt + seconds delay)) now db
                in (Inr changed, db1))"

lemma fail_work_eq:
  "fail_work work_id nonce disposition now jitter_source now_dt db =
    (case find_one (\<lambda>w. wi_id w = work_id \<and> wi_lease_nonce w = Some nonce) (work_items db) of
       None \<Rightarrow> (Inr False, db)
     | Some w \<Rightarrow>
         let exhausted = work_exhausted disposition (wi_attempts w)
         in case retry_delay_seconds exhausted (wi_attempts w) jitter_source of
              None \<Rightarrow> (Inl OpPanic, db)
            | Some delay \<Rightarrow>
                let not_before = format_utc (now_dt + seconds delay);
                    (items, matched) = update_one (leased_by now work_id nonce)
                      (\<lambda>x. x\<lparr>wi_not_before := not_before, wi_dead := exhausted,
                             wi_lease_nonce := None, wi_lease_expires_at := None\<rparr>) (work_items db)
                in (Inr (0 < matched), db\<lparr>work_items := items\<rparr>))"
  by (simp add: fail_work_def release_item_def Let_def split_beta split: option.split)

definition work_will_dead_letter ::
  "string \<Rightarrow> string \<Rightarrow> work_failure_disposition \<Rightarrow> int \<Rightarrow> 'x journal_db_scheme \<Rightarrow> bool" where
  "work_will_dead_letter work_id nonce disposition now db =
    (case find_one (holds_lease now work_id nonce) (work_items db) of
       None \<Rightarrow> False
     | Some w \<Rightarrow> work_exhausted disposition (wi_attempts w))"

definition assert_claimed ::
  "string \<Rightarrow> string \<Rightarrow> int \<Rightarrow> 'x journal_db_scheme \<Rightarrow> operation_error + unit" where
  "assert_claimed work_id nonce now db =
    (if find_one (holds_lease now work_id nonce) (work_items db) = None
     then Inl StaleWorkClaim else Inr ())"

section \<open>Steps\<close>

text \<open>What an existing or missing step row says, and the step rows after the call.\<close>

definition enter_step ::
  "serde \<Rightarrow> string \<Rightarrow> string \<Rightarrow> json \<Rightarrow> int \<Rightarrow> step_row list \<Rightarrow> step_state \<times> step_row list" where
  "enter_step J operation_id step_key input_summary now steps =
    (case find_one (\<lambda>s. st_operation_id s = operation_id \<and> st_step_key s = step_key) steps of
       Some s \<Rightarrow>
         (if st_status s = ''succeeded'' then AlreadySucceeded
          else if st_status s = ''running'' then NeedsReconciliation
          else StepRunning, steps)
     | None \<Rightarrow>
         (StepRunning, steps @
           [\<lparr>st_operation_id = operation_id, st_step_key = step_key, st_attempts = 1,
             st_status = ''running'', st_input_summary = json_to_string J input_summary,
             st_external_ref = None, st_compensation_json = None,
             st_created_at = now, st_updated_at = now\<rparr>]))"

definition begin_step_tx ::
  "serde \<Rightarrow> string \<Rightarrow> string \<Rightarrow> string \<Rightarrow> string \<Rightarrow> json \<Rightarrow> int \<Rightarrow> string \<Rightarrow> 'x journal_db_scheme
    \<Rightarrow> operation_error + (step_state \<times> 'x journal_db_scheme)" where
  "begin_step_tx J work_id nonce operation_id step_key input_summary now version db =
    (if find_one (holds_lease now work_id nonce) (work_items db) = None then Inl StaleWorkClaim
     else
       let (state, steps) = enter_step J operation_id step_key input_summary now (operation_steps db);
           (ops, changed) = update_one (\<lambda>r. op_id r = operation_id \<and> in_flight r)
             (\<lambda>r. r\<lparr>op_status := ''running'', op_current_step := Some step_key,
                    op_version := version, op_updated_at := now\<rparr>) (operations db)
       in if changed = 0 then Inl StaleWorkClaim
          else Inr (state, db\<lparr>operation_steps := steps, operations := ops\<rparr>))"

definition begin_step_claimed ::
  "serde \<Rightarrow> string \<Rightarrow> string \<Rightarrow> string \<Rightarrow> string \<Rightarrow> json \<Rightarrow> int \<Rightarrow> string \<Rightarrow> 'x journal_db_scheme
    \<Rightarrow> (operation_error + step_state) \<times> 'x journal_db_scheme" where
  "begin_step_claimed J work_id nonce operation_id step_key input_summary now version =
     run_tx (begin_step_tx J work_id nonce operation_id step_key input_summary now version)"

definition complete_step_tx ::
  "string \<Rightarrow> string \<Rightarrow> string \<Rightarrow> string \<Rightarrow> string option \<Rightarrow> int \<Rightarrow> 'x journal_db_scheme
    \<Rightarrow> operation_error + (unit \<times> 'x journal_db_scheme)" where
  "complete_step_tx work_id nonce operation_id step_key external_ref now db =
    (if find_one (holds_lease now work_id nonce) (work_items db) = None then Inl StaleWorkClaim
     else
       let (steps, changed) =
         update_one (\<lambda>s. st_operation_id s = operation_id \<and> st_step_key s = step_key)
           (\<lambda>s. s\<lparr>st_status := ''succeeded'', st_updated_at := now,
                  st_external_ref := (case external_ref of None \<Rightarrow> st_external_ref s
                                      | Some r \<Rightarrow> Some r)\<rparr>) (operation_steps db)
       in if changed = 0 then Inl StaleWorkClaim
          else Inr ((), db\<lparr>operation_steps := steps\<rparr>))"

definition complete_step_claimed ::
  "string \<Rightarrow> string \<Rightarrow> string \<Rightarrow> string \<Rightarrow> string option \<Rightarrow> int \<Rightarrow> 'x journal_db_scheme
    \<Rightarrow> (operation_error + unit) \<times> 'x journal_db_scheme" where
  "complete_step_claimed work_id nonce operation_id step_key external_ref now =
     run_tx (complete_step_tx work_id nonce operation_id step_key external_ref now)"

section \<open>Finishing and progress\<close>

definition reconciliation_problem :: json where
  "reconciliation_problem = JObj
    [(''code'', JStr ''OPERATION_STEP_REQUIRES_RECONCILIATION''),
     (''detail'', JStr ''the external effect may have completed before the worker lease expired'')]"

text \<open>The \<open>$set\<close> document of both finishing methods.\<close>

definition finish_row ::
  "serde \<Rightarrow> operation_status \<Rightarrow> json option \<Rightarrow> json option \<Rightarrow> string \<Rightarrow> int \<Rightarrow> operation_row \<Rightarrow> operation_row"
where
  "finish_row J status result problem version now r =
    r\<lparr>op_status := operation_status_as_str status, op_current_step := None,
      op_version := version, op_updated_at := now,
      op_result_json := (case result of None \<Rightarrow> op_result_json r | Some v \<Rightarrow> Some (json_to_string J v)),
      op_problem_json := (case problem of None \<Rightarrow> op_problem_json r | Some v \<Rightarrow> Some (json_to_string J v))\<rparr>"

text \<open>
  What both finishing methods do after the operation row: fail the running steps of an
  operation that needs attention, and bring its idempotency records in line.
\<close>

definition settle_steps ::
  "serde \<Rightarrow> string \<Rightarrow> operation_status \<Rightarrow> int \<Rightarrow> step_row list \<Rightarrow> step_row list" where
  "settle_steps J operation_id status now steps =
    (if status = OpNeedsAttention then
       update_many (\<lambda>s. st_operation_id s = operation_id \<and> st_status s = ''running'')
         (\<lambda>s. s\<lparr>st_status := ''failed'',
                st_compensation_json := Some (json_to_string J reconciliation_problem),
                st_updated_at := now\<rparr>) steps
     else steps)"

definition settle_idempotency ::
  "string \<Rightarrow> operation_status \<Rightarrow> idem_row list \<Rightarrow> idem_row list" where
  "settle_idempotency operation_id status =
     update_many (\<lambda>r. id_operation_id r = operation_id)
       (\<lambda>r. r\<lparr>id_status := operation_status_as_str status\<rparr>)"

definition settle_operation ::
  "serde \<Rightarrow> string \<Rightarrow> operation_status \<Rightarrow> int \<Rightarrow> operation_row list \<Rightarrow> 'x journal_db_scheme
    \<Rightarrow> 'x journal_db_scheme" where
  "settle_operation J operation_id status now ops db =
     db\<lparr>operations := ops,
        operation_steps := settle_steps J operation_id status now (operation_steps db),
        idempotency_records := settle_idempotency operation_id status (idempotency_records db)\<rparr>"

definition finish_tx ::
  "serde \<Rightarrow> string \<Rightarrow> operation_status \<Rightarrow> json option \<Rightarrow> json option \<Rightarrow> string \<Rightarrow> int \<Rightarrow> string
    \<Rightarrow> string \<Rightarrow> int \<Rightarrow> 'x journal_db_scheme \<Rightarrow> operation_error + (unit \<times> 'x journal_db_scheme)" where
  "finish_tx J operation_id status result problem correlation_id now version event_id occurred_at db =
    (case find_one (\<lambda>r. op_id r = operation_id) (operations db) of
       None \<Rightarrow> Inl OpNotFound
     | Some kind_row \<Rightarrow>
         let (ops, changed) = update_one (\<lambda>r. op_id r = operation_id)
               (finish_row J status result problem version now) (operations db)
         in if changed = 0 then Inl OpNotFound
            else case emit_operation_changed J event_id occurred_at operation_id (op_kind kind_row)
                        (operation_status_as_str status) version correlation_id
                        (settle_operation J operation_id status now ops db) of
                   Inl e \<Rightarrow> Inl e | Inr db' \<Rightarrow> Inr ((), db'))"

definition finish_op ::
  "serde \<Rightarrow> string \<Rightarrow> operation_status \<Rightarrow> json option \<Rightarrow> json option \<Rightarrow> string \<Rightarrow> int \<Rightarrow> string
    \<Rightarrow> string \<Rightarrow> int \<Rightarrow> 'x journal_db_scheme \<Rightarrow> (operation_error + unit) \<times> 'x journal_db_scheme" where
  "finish_op J operation_id status result problem correlation_id now version event_id occurred_at =
     run_tx (finish_tx J operation_id status result problem correlation_id now version
               event_id occurred_at)"

definition finish_claimed_tx ::
  "serde \<Rightarrow> string \<Rightarrow> string \<Rightarrow> string \<Rightarrow> operation_status \<Rightarrow> json option \<Rightarrow> json option \<Rightarrow> string
    \<Rightarrow> int \<Rightarrow> string \<Rightarrow> string \<Rightarrow> int \<Rightarrow> 'x journal_db_scheme
    \<Rightarrow> operation_error + (bool \<times> 'x journal_db_scheme)" where
  "finish_claimed_tx J operation_id work_id nonce status result problem correlation_id
      now version event_id occurred_at db =
    (case find_one (\<lambda>r. op_id r = operation_id \<and> in_flight r) (operations db) of
       None \<Rightarrow> Inr (False, db)
     | Some kind_row \<Rightarrow>
         if find_one (holds_lease now work_id nonce) (work_items db) = None then Inr (False, db)
         else
           let (ops, changed) = update_one (\<lambda>r. op_id r = operation_id \<and> in_flight r)
                 (finish_row J status result problem version now) (operations db)
           in if changed = 0 then Inr (False, db)
              else case emit_operation_changed J event_id occurred_at operation_id (op_kind kind_row)
                          (operation_status_as_str status) version correlation_id
                          (settle_operation J operation_id status now ops db) of
                     Inl e \<Rightarrow> Inl e | Inr db' \<Rightarrow> Inr (True, db'))"

definition finish_claimed ::
  "serde \<Rightarrow> string \<Rightarrow> string \<Rightarrow> string \<Rightarrow> operation_status \<Rightarrow> json option \<Rightarrow> json option \<Rightarrow> string
    \<Rightarrow> int \<Rightarrow> string \<Rightarrow> string \<Rightarrow> int \<Rightarrow> 'x journal_db_scheme
    \<Rightarrow> (operation_error + bool) \<times> 'x journal_db_scheme" where
  "finish_claimed J operation_id work_id nonce status result problem correlation_id
      now version event_id occurred_at =
     run_tx (finish_claimed_tx J operation_id work_id nonce status result problem correlation_id
               now version event_id occurred_at)"

definition update_progress_tx ::
  "serde \<Rightarrow> string \<Rightarrow> string \<Rightarrow> string \<Rightarrow> string \<Rightarrow> json \<Rightarrow> string \<Rightarrow> int \<Rightarrow> string \<Rightarrow> string \<Rightarrow> int
    \<Rightarrow> 'x journal_db_scheme \<Rightarrow> operation_error + (bool \<times> 'x journal_db_scheme)" where
  "update_progress_tx J work_id nonce operation_id current_step progress correlation_id
      now version event_id occurred_at db =
    (case find_one (\<lambda>r. op_id r = operation_id \<and> in_flight r) (operations db) of
       None \<Rightarrow> Inr (False, db)
     | Some kind_row \<Rightarrow>
         if find_one (holds_lease now work_id nonce) (work_items db) = None then Inr (False, db)
         else
           let (ops, changed) = update_one (\<lambda>r. op_id r = operation_id \<and> in_flight r)
                 (\<lambda>r. r\<lparr>op_status := ''running'', op_current_step := Some current_step,
                        op_progress_json := Some (json_to_string J progress),
                        op_version := version, op_updated_at := now\<rparr>) (operations db)
           in if changed = 0 then Inr (False, db)
              else case emit_operation_changed J event_id occurred_at operation_id (op_kind kind_row)
                        ''running'' version correlation_id (db\<lparr>operations := ops\<rparr>) of
                     Inl e \<Rightarrow> Inl e | Inr db' \<Rightarrow> Inr (True, db'))"

definition update_progress_claimed ::
  "serde \<Rightarrow> string \<Rightarrow> string \<Rightarrow> string \<Rightarrow> string \<Rightarrow> json \<Rightarrow> string \<Rightarrow> int \<Rightarrow> string \<Rightarrow> string \<Rightarrow> int
    \<Rightarrow> 'x journal_db_scheme \<Rightarrow> (operation_error + bool) \<times> 'x journal_db_scheme" where
  "update_progress_claimed J work_id nonce operation_id current_step progress correlation_id
      now version event_id occurred_at =
     run_tx (update_progress_tx J work_id nonce operation_id current_step progress correlation_id
               now version event_id occurred_at)"

section \<open>Queries and pruning\<close>

fun collect_views :: "serde \<Rightarrow> operation_row list \<Rightarrow> operation_error + operation_view list" where
  "collect_views J [] = Inr []"
| "collect_views J (r # rs) =
     (case view_from_document J r of Inl e \<Rightarrow> Inl e
      | Inr v \<Rightarrow> (case collect_views J rs of Inl e \<Rightarrow> Inl e | Inr vs \<Rightarrow> Inr (v # vs)))"

definition list_by_kind_owner ::
  "serde \<Rightarrow> string \<Rightarrow> string \<Rightarrow> int \<Rightarrow> 'x journal_db_scheme \<Rightarrow> operation_error + operation_view list" where
  "list_by_kind_owner J kind owner_id limit db =
    (let n = nat (max 1 (min limit 200));
         ids = map id_operation_id (filter (\<lambda>r. id_owner_id r = owner_id) (idempotency_records db))
     in if ids = [] then Inr []
        else collect_views J (take n (rev (sort_key (\<lambda>r. (op_created_at r, op_id r))
               (filter (\<lambda>r. op_kind r = kind \<and> op_id r \<in> set ids) (operations db))))))"

definition in_flight_for_target ::
  "string \<Rightarrow> string \<Rightarrow> string \<Rightarrow> 'x journal_db_scheme \<Rightarrow> string option" where
  "in_flight_for_target kind target_kind target_id db =
     map_option op_id
       (find_last_by (\<lambda>r. op_kind r = kind \<and> op_target_kind r = target_kind \<and>
                         op_target_id r = Some target_id \<and> in_flight r)
          op_updated_at (operations db))"

text \<open>The operation ids named by the payloads of live leases; an unreadable payload fails.\<close>

fun live_operation_ids :: "serde \<Rightarrow> work_row list \<Rightarrow> operation_error + string list" where
  "live_operation_ids J [] = Inr []"
| "live_operation_ids J (w # ws) =
     (case json_from_str J (wi_payload_json w) of None \<Rightarrow> Inl OpSerde
      | Some payload \<Rightarrow>
          (case live_operation_ids J ws of Inl e \<Rightarrow> Inl e
           | Inr ids \<Rightarrow> Inr ((case Option.bind (json_get ''operation_id'' payload) json_as_str of
                               None \<Rightarrow> [] | Some i \<Rightarrow> [i]) @ ids)))"

definition stale_running ::
  "serde \<Rightarrow> int \<Rightarrow> 'x journal_db_scheme \<Rightarrow> operation_error + string list" where
  "stale_running J now db =
    (let running_ids = map op_id (filter (\<lambda>r. op_status r = ''running'') (operations db))
     in if running_ids = [] then Inr []
        else case live_operation_ids J
               (filter (\<lambda>w. \<not> wi_dead w \<and>
                  (case wi_lease_expires_at w of None \<Rightarrow> False | Some e \<Rightarrow> now \<le> e)) (work_items db)) of
               Inl e \<Rightarrow> Inl e
             | Inr live \<Rightarrow> Inr (filter (\<lambda>i. i \<notin> set live) running_ids))"

definition prune_expired_idempotency ::
  "int \<Rightarrow> 'x journal_db_scheme \<Rightarrow> nat \<times> 'x journal_db_scheme" where
  "prune_expired_idempotency now db =
    (let (recs, deleted) = delete_many (\<lambda>r. id_expires_at r < now) (idempotency_records db);
         (cmds, deleted_command) =
           delete_many (\<lambda>r. ci_expires_at r < now) (command_idempotency_records db)
     in (deleted + deleted_command,
         db\<lparr>idempotency_records := recs, command_idempotency_records := cmds\<rparr>))"

section \<open>Command idempotency\<close>

definition command_lookup_in_tx ::
  "serde \<Rightarrow> int \<Rightarrow> idempotency_request \<Rightarrow> 'x journal_db_scheme \<Rightarrow> operation_error + json option" where
  "command_lookup_in_tx J now req db =
    (case find_one (\<lambda>r. ci_key r = ir_key req \<and> now \<le> ci_expires_at r)
            (command_idempotency_records db) of
       None \<Rightarrow> Inr None
     | Some r \<Rightarrow>
         if ci_owner_id r \<noteq> ir_owner_id req \<or> ci_method r \<noteq> ir_method req \<or>
            ci_normalized_route r \<noteq> ir_normalized_route req \<or> ci_request_digest r \<noteq> ir_digest req
         then Inl (OpInternal ''IDEMPOTENCY_KEY_REUSED'')
         else (case json_from_str J (ci_response_json r) of None \<Rightarrow> Inl OpSerde
               | Some v \<Rightarrow> Inr (Some v)))"

definition command_record_in_tx ::
  "serde \<Rightarrow> int \<Rightarrow> idempotency_request \<Rightarrow> json \<Rightarrow> 'x journal_db_scheme \<Rightarrow> 'x journal_db_scheme" where
  "command_record_in_tx J now req response db =
     db\<lparr>command_idempotency_records :=
          replace_one ci_key
            \<lparr>ci_key = ir_key req, ci_owner_id = ir_owner_id req, ci_method = ir_method req,
             ci_normalized_route = ir_normalized_route req, ci_request_digest = ir_digest req,
             ci_response_json = json_to_string J response, ci_expires_at = ir_expires_at req,
             ci_created_at = now\<rparr> (command_idempotency_records db)\<rparr>"

end
