(* ===== verification/Journal_Safety.thy ===== *)
theory Journal_Safety
  imports Operation_Journal
begin

text \<open>
  Safety of the operation journal: the invariant every public method keeps, the step
  relation of all methods in any interleaving, and what follows from it: leases exclude
  other workers, a stale holder changes nothing, attempts are bounded, and an external
  effect is started at most once per step key without an explicit reconciliation.
\<close>

section \<open>The invariant\<close>

definition step_key_of :: "step_row \<Rightarrow> string \<times> string" where
  "step_key_of s = (st_operation_id s, st_step_key s)"

definition keys_ok :: "'x journal_db_scheme \<Rightarrow> bool" where
  "keys_ok db \<longleftrightarrow> distinct (map op_id (operations db)) \<and> distinct (map wi_id (work_items db)) \<and>
     distinct (map step_key_of (operation_steps db)) \<and>
     distinct (map id_key (idempotency_records db)) \<and>
     distinct (map ci_key (command_idempotency_records db))"

definition work_ok :: "work_row \<Rightarrow> bool" where
  "work_ok w \<longleftrightarrow> 0 \<le> wi_attempts w \<and> wi_attempts w \<le> MAX_WORK_ATTEMPTS \<and>
     (wi_lease_nonce w = None \<longleftrightarrow> wi_lease_expires_at w = None) \<and>
     (wi_lease_nonce w \<noteq> None \<longrightarrow> 1 \<le> wi_attempts w) \<and>
     (wi_dead w \<and> wi_lease_nonce w \<noteq> None \<longrightarrow> wi_attempts w = MAX_WORK_ATTEMPTS)"

definition works_ok :: "'x journal_db_scheme \<Rightarrow> bool" where
  "works_ok db \<longleftrightarrow> (\<forall>w \<in> set (work_items db). work_ok w)"

definition step_ok :: "operation_row list \<Rightarrow> step_row \<Rightarrow> bool" where
  "step_ok ops s \<longleftrightarrow> st_operation_id s \<in> op_id ` set ops \<and>
     st_status s \<in> {''running'', ''succeeded'', ''failed''} \<and>
     (st_status s = ''failed'' \<longrightarrow>
        (\<forall>r \<in> set ops. op_id r = st_operation_id s \<longrightarrow> \<not> in_flight r))"

definition steps_ok :: "'x journal_db_scheme \<Rightarrow> bool" where
  "steps_ok db \<longleftrightarrow> (\<forall>s \<in> set (operation_steps db). step_ok (operations db) s)"

definition journal_ok :: "'x journal_db_scheme \<Rightarrow> bool" where
  "journal_ok db \<longleftrightarrow> keys_ok db \<and> works_ok db \<and> steps_ok db \<and> log_dense db"

definition empty_journal :: journal_db where
  "empty_journal = \<lparr>public_events = [], event_seq = Some 0, projection_cursor_row = None,
     operations = [], operation_steps = [], work_items = [], idempotency_records = [],
     command_idempotency_records = []\<rparr>"

lemma journal_ok_empty: "journal_ok empty_journal"
  by (simp add: journal_ok_def keys_ok_def works_ok_def steps_ok_def log_dense_def empty_journal_def)

section \<open>Frames\<close>

lemma emit_frame:
  assumes "emit_operation_changed J e t i k s v c db = Inr db'"
  shows "operations db' = operations db" "operation_steps db' = operation_steps db"
    "work_items db' = work_items db" "idempotency_records db' = idempotency_records db"
    "command_idempotency_records db' = command_idempotency_records db"
    "log_dense db \<Longrightarrow> log_dense db'"
proof -
  obtain env where app: "append_in_tx J e t (operation_changed_event i k s v c) db = Inr (env, db')"
    using assms by (auto simp: emit_operation_changed_def split: sum.splits)
  then have "\<exists>evs n. db' = db\<lparr>public_events := evs, event_seq := n\<rparr>"
    by (auto simp: append_in_tx_def Let_def split: if_splits option.splits)
  then show "operations db' = operations db" "operation_steps db' = operation_steps db"
    "work_items db' = work_items db" "idempotency_records db' = idempotency_records db"
    "command_idempotency_records db' = command_idempotency_records db" by auto
  show "log_dense db \<Longrightarrow> log_dense db'" by (rule append_in_tx_dense(1) [OF app])
qed

lemma log_dense_cong:
  "public_events db' = public_events db \<Longrightarrow> event_seq db' = event_seq db \<Longrightarrow>
    log_dense db' = log_dense db"
  by (simp add: log_dense_def)

lemma emit_keeps_ok:
  "emit_operation_changed J e t i k s v c db = Inr db' \<Longrightarrow> journal_ok db \<Longrightarrow> journal_ok db'"
  by (simp add: journal_ok_def keys_ok_def works_ok_def steps_ok_def emit_frame)

text \<open>
  An update of operation rows that keeps their ids and never puts a row that was not in
  flight back in flight keeps the step facts.
\<close>

lemma steps_ok_ops_mono:
  assumes "\<And>s. s \<in> set steps \<Longrightarrow> step_ok ops s"
    and "op_id ` set ops \<subseteq> op_id ` set ops'"
    and "\<And>r'. r' \<in> set ops' \<Longrightarrow> in_flight r' \<Longrightarrow> op_id r' \<in> op_id ` set ops \<Longrightarrow>
          \<exists>r \<in> set ops. op_id r = op_id r' \<and> in_flight r"
    and "s \<in> set steps"
  shows "step_ok ops' s"
proof -
  have ok: "step_ok ops s" by (rule assms(1) [OF assms(4)])
  then have "st_operation_id s \<in> op_id ` set ops'" using assms(2) by (auto simp: step_ok_def)
  moreover have "\<not> in_flight r'"
    if failed: "st_status s = ''failed''" and r': "r' \<in> set ops'" "op_id r' = st_operation_id s" for r'
  proof
    assume "in_flight r'"
    moreover have "op_id r' \<in> op_id ` set ops" using ok r'(2) by (simp add: step_ok_def)
    ultimately obtain r where "r \<in> set ops" "op_id r = op_id r'" "in_flight r"
      using assms(3) [OF r'(1)] by blast
    with ok failed r'(2) show False by (simp add: step_ok_def)
  qed
  ultimately show ?thesis using ok by (simp add: step_ok_def)
qed

lemma step_ok_snoc: "step_ok ops s \<Longrightarrow> op_id r \<notin> op_id ` set ops \<Longrightarrow> step_ok (ops @ [r]) s"
  by (auto simp: step_ok_def)

lemma update_ops_ids:
  "(\<And>r. op_id (f r) = op_id r) \<Longrightarrow> op_id ` set (fst (update_one P f ops)) = op_id ` set ops"
  by (metis list.set_map update_one_map)

lemma update_in_flight_mono:
  assumes "\<And>r. op_id (f r) = op_id r" and "\<And>r. P r \<Longrightarrow> in_flight r \<or> \<not> in_flight (f r)"
    and "r' \<in> set (fst (update_one P f ops))" and "in_flight r'"
  shows "\<exists>r \<in> set ops. op_id r = op_id r' \<and> in_flight r"
  using assms(3)
proof (cases rule: update_one_setE)
  case 1
  with assms(4) show ?thesis by blast
next
  case (2 r)
  with assms(1,2,4) show ?thesis by metis
qed

lemma steps_ok_update_ops:
  assumes "\<And>s. s \<in> set steps \<Longrightarrow> step_ok ops s"
    and "\<And>r. op_id (f r) = op_id r" and "\<And>r. P r \<Longrightarrow> in_flight r \<or> \<not> in_flight (f r)"
    and "s \<in> set steps"
  shows "step_ok (fst (update_one P f ops)) s"
proof (rule steps_ok_ops_mono [OF assms(1) _ _ assms(4)])
  show "op_id ` set ops \<subseteq> op_id ` set (fst (update_one P f ops))"
    by (simp add: update_ops_ids assms(2))
qed (use update_in_flight_mono [OF assms(2,3)] in blast)+

section \<open>Each method keeps the invariant\<close>

lemma create_new_ok:
  assumes "create_new_operation J g req w db = Inr (r, db')" and ok: "journal_ok db"
  shows "journal_ok db'"
proof -
  let ?idem = "\<lambda>d. case co_idempotency req of None \<Rightarrow> d
    | Some idem \<Rightarrow> d\<lparr>idempotency_records :=
        replace_one id_key (new_idem_row (cg_id g) idem) (idempotency_records d)\<rparr>"
  from assms(1) obtain ops db3 where
    ins: "insert_one op_id (new_operation_row J g req) (operations db) = Some ops"
    and work: "insert_created_work J g w (?idem (db\<lparr>operations := ops\<rparr>)) = Inr db3"
    and emit: "emit_operation_changed J (cg_event_id g) (cg_occurred_at g) (cg_id g)
      (co_kind req) ''queued'' (cg_version g) (co_correlation_id req) db3 = Inr db'"
    by (auto simp: create_new_operation_def Let_def split: option.splits sum.splits)
  have ops: "ops = operations db @ [new_operation_row J g req]" "cg_id g \<notin> op_id ` set (operations db)"
    using insert_one_SomeD [OF ins] by (auto simp: new_operation_row_def)
  let ?db2 = "?idem (db\<lparr>operations := ops\<rparr>)"
  have st: "steps_ok (db\<lparr>operations := ops\<rparr>)"
    using ok ops unfolding journal_ok_def steps_ok_def
    by (auto intro!: step_ok_snoc simp: new_operation_row_def)
  have "keys_ok ?db2"
    using ok ops insert_one_distinct [OF ins]
    by (auto simp: journal_ok_def keys_ok_def new_operation_row_def replace_one_distinct split: option.split)
  then have ok2: "journal_ok ?db2"
    using ok st by (auto simp: journal_ok_def works_ok_def steps_ok_def log_dense_def split: option.split)
  have "journal_ok db3"
  proof (cases w)
    case None
    with work ok2 show ?thesis by (simp add: insert_created_work_def)
  next
    case (Some cw)
    with work obtain kvs ws where p: "cw_payload cw = JObj kvs" and
      ws: "insert_one wi_id (new_work_row (cg_work_id g) (cw_handler_kind cw)
         (json_to_string J (JObj (obj_insert ''operation_id'' (JStr (cg_id g)) kvs))) (cg_now g))
         (work_items ?db2) = Some ws" and db3: "db3 = ?db2\<lparr>work_items := ws\<rparr>"
      by (auto simp: insert_created_work_def split: json.splits option.splits)
    show ?thesis
      unfolding db3 using ok2 insert_one_SomeD [OF ws] insert_one_distinct [OF ws]
      by (auto simp: journal_ok_def keys_ok_def works_ok_def steps_ok_def log_dense_def
          new_work_row_def work_ok_def MAX_WORK_ATTEMPTS_def)
  qed
  then show ?thesis by (rule emit_keeps_ok [OF emit])
qed

lemma create_in_tx_ok: "create_in_tx J g req w db = Inr (r, db') \<Longrightarrow> journal_ok db \<Longrightarrow> journal_ok db'"
  by (auto simp: create_in_tx_def split: option.splits sum.splits intro: create_new_ok)

lemma run_tx_ok:
  assumes "\<And>a db'. body db = Inr (a, db') \<Longrightarrow> P db'" and "P db"
  shows "P (snd (run_tx body db))"
  using assms by (auto simp: run_tx_def split: sum.splits prod.splits)

lemma create_op_ok: "journal_ok db \<Longrightarrow> journal_ok (snd (create_op J g req w db))"
  unfolding create_op_def by (rule run_tx_ok) (auto intro: create_in_tx_ok)

lemma enqueue_ok:
  "enqueue_work_in_tx J i now h p db = Inr (r, db') \<Longrightarrow> journal_ok db \<Longrightarrow> journal_ok db'"
  by (auto simp: enqueue_work_in_tx_def journal_ok_def keys_ok_def works_ok_def steps_ok_def
      log_dense_def new_work_row_def work_ok_def MAX_WORK_ATTEMPTS_def
      split: option.splits dest!: insert_one_SomeD)

text \<open>Methods that only touch the work items.\<close>

lemma work_items_ok:
  assumes "journal_ok db" and "distinct (map wi_id ws)" and "\<And>w. w \<in> set ws \<Longrightarrow> work_ok w"
  shows "journal_ok (db\<lparr>work_items := ws\<rparr>)"
  using assms by (simp add: journal_ok_def keys_ok_def works_ok_def steps_ok_def log_dense_def)

lemma journal_okD:
  assumes "journal_ok db"
  shows "distinct (map wi_id (work_items db))" "w \<in> set (work_items db) \<Longrightarrow> work_ok w"
    "distinct (map op_id (operations db))" "distinct (map step_key_of (operation_steps db))"
    "s \<in> set (operation_steps db) \<Longrightarrow> step_ok (operations db) s" "log_dense db"
  using assms by (auto simp: journal_ok_def keys_ok_def works_ok_def steps_ok_def)

lemma bury_ids [simp]: "map wi_id (bury_exhausted now ws) = map wi_id ws"
  by (simp add: bury_exhausted_def update_many_map)

lemma bury_set: "w \<in> set (bury_exhausted now ws) \<Longrightarrow>
    \<exists>v \<in> set ws. w = v \<or> (w = v\<lparr>wi_dead := True\<rparr> \<and> MAX_WORK_ATTEMPTS \<le> wi_attempts v)"
  by (auto simp: bury_exhausted_def update_many_def)

lemma bury_work_ok: "(\<And>w. w \<in> set ws \<Longrightarrow> work_ok w) \<Longrightarrow> w \<in> set (bury_exhausted now ws) \<Longrightarrow> work_ok w"
  by (frule bury_set) (force simp: work_ok_def intro: order.antisym)

lemma journal_sweep_ok:
  assumes ok: "journal_ok db"
  shows "journal_ok (db\<lparr>work_items := bury_exhausted now (work_items db)\<rparr>)"
  using bury_work_ok [of "work_items db"] journal_okD(1,2) [OF ok] by (auto intro!: work_items_ok ok)

lemma claim_item_ok:
  assumes ok: "journal_ok db"
  shows "journal_ok (snd (claim_item J h lease_expires now nonce db))"
proof -
  let ?items = "work_items db"
  have b: "\<And>w. w \<in> set ?items \<Longrightarrow> work_ok w" using journal_okD(2) [OF ok] by blast
  show ?thesis
  proof (cases "find_first_by (claimable h now) wi_created_at ?items")
    case None
    then show ?thesis using ok by (simp add: claim_item_def)
  next
    case (Some w)
    let ?f = "\<lambda>x. x\<lparr>wi_lease_nonce := Some nonce,
      wi_lease_expires_at := Some lease_expires, wi_attempts := wi_attempts x + 1\<rparr>"
    let ?ws = "fst (update_one (\<lambda>x. wi_id x = wi_id w) ?f ?items)"
    have w: "w \<in> set ?items" "claimable h now w"
      using find_first_by_SomeD(1,2) [OF Some] by auto
    have dist: "distinct (map wi_id ?items)" using journal_okD(1) [OF ok] by simp
    have "work_ok x" if "x \<in> set ?ws" for x
      using that
    proof (cases rule: update_one_setE)
      case 1
      then show ?thesis by (rule b)
    next
      case (2 v)
      then have "v = w" using dist w(1) by (metis distinct_map inj_onD)
      with 2 b [OF w(1)] w(2) show ?thesis by (auto simp: work_ok_def claimable_def)
    qed
    moreover have "distinct (map wi_id ?ws)"
      using dist update_one_map [of wi_id ?f "\<lambda>x. wi_id x = wi_id w" ?items] by simp
    ultimately show ?thesis
      using Some by (auto simp: claim_item_def intro!: work_items_ok ok)
  qed
qed

lemma claim_work_ok: "journal_ok db \<Longrightarrow> journal_ok (snd (claim_work J h ttl now_dt now nonce db))"
  unfolding claim_work_def by (intro claim_item_ok journal_sweep_ok)

lemma complete_work_ok: "journal_ok db \<Longrightarrow> journal_ok (snd (complete_work i n now db))"
  using delete_one_subset [of "leased_by now i n" "work_items db"]
  by (auto simp: complete_work_def split_beta intro!: work_items_ok delete_one_distinct journal_okD(1)
      dest: journal_okD(2))

lemma update_work_ok:
  assumes "journal_ok db" and "\<And>w. wi_id (f w) = wi_id w"
    and "\<And>w. work_ok w \<Longrightarrow> P w \<Longrightarrow> work_ok (f w)"
  shows "journal_ok (db\<lparr>work_items := fst (update_one P f (work_items db))\<rparr>)"
proof (rule work_items_ok [OF assms(1)])
  show "distinct (map wi_id (fst (update_one P f (work_items db))))"
    using journal_okD(1) [OF assms(1)] by (simp add: update_one_map assms(2))
  show "work_ok w" if "w \<in> set (fst (update_one P f (work_items db)))" for w
    using that by (cases rule: update_one_setE) (auto intro: assms(3) journal_okD(2) [OF assms(1)])
qed

lemma renew_work_ok: "journal_ok db \<Longrightarrow> journal_ok (snd (renew_work i n ttl now_dt now db))"
  by (simp add: renew_work_def Let_def split_beta)
     (rule update_work_ok, auto simp: work_ok_def holds_lease_def)

lemma release_item_ok: "journal_ok db \<Longrightarrow> journal_ok (snd (release_item i n exhausted not_before now db))"
  by (auto simp: release_item_def Let_def split_beta intro!: update_work_ok) (auto simp: work_ok_def)

lemma fail_work_ok: "journal_ok db \<Longrightarrow> journal_ok (snd (fail_work i n d now j now_dt db))"
  by (auto simp: fail_work_eq Let_def split_beta split: option.splits intro!: update_work_ok)
     (auto simp: work_ok_def)

text \<open>Methods that touch operations and steps.\<close>

lemma ops_steps_ok:
  assumes "journal_ok db" and "map op_id ops = map op_id (operations db)"
    and "distinct (map step_key_of steps)"
    and "map id_key idems = map id_key (idempotency_records db)"
    and "\<And>s. s \<in> set steps \<Longrightarrow> step_ok ops s"
  shows "journal_ok (db\<lparr>operations := ops, operation_steps := steps, idempotency_records := idems\<rparr>)"
  using assms by (simp add: journal_ok_def keys_ok_def works_ok_def steps_ok_def log_dense_def)

lemma journal_okI_ops:
  assumes "journal_ok db" and "map op_id ops = map op_id (operations db)"
    and "distinct (map step_key_of steps)" and "\<And>s. s \<in> set steps \<Longrightarrow> step_ok ops s"
  shows "journal_ok (db\<lparr>operation_steps := steps, operations := ops\<rparr>)"
  using assms by (simp add: journal_ok_def keys_ok_def works_ok_def steps_ok_def log_dense_def)

lemma enter_step_ok:
  assumes steps: "\<And>s. s \<in> set steps \<Longrightarrow> step_ok ops s" and "distinct (map step_key_of steps)"
    and "oid \<in> op_id ` set ops"
  shows "distinct (map step_key_of (snd (enter_step J oid key summary now steps)))"
    and "s \<in> set (snd (enter_step J oid key summary now steps)) \<Longrightarrow> step_ok ops s"
  using assms
  by (auto simp: enter_step_def step_key_of_def find_one_None_iff step_ok_def split: option.splits)

lemma begin_step_tx_ok:
  assumes tx: "begin_step_tx J wid n oid key summary now ver db = Inr (st, db')" and ok: "journal_ok db"
  shows "journal_ok db'"
proof -
  let ?P = "\<lambda>r. op_id r = oid \<and> in_flight r"
  let ?f = "\<lambda>r. r\<lparr>op_status := ''running'', op_current_step := Some key, op_version := ver,
    op_updated_at := now\<rparr>"
  let ?ops = "fst (update_one ?P ?f (operations db))"
  let ?steps = "snd (enter_step J oid key summary now (operation_steps db))"
  have changed: "snd (update_one ?P ?f (operations db)) \<noteq> 0"
    and db': "db' = db\<lparr>operation_steps := ?steps, operations := ?ops\<rparr>"
    using tx by (auto simp: begin_step_tx_def Let_def split_beta split: if_splits)
  have ids: "map op_id ?ops = map op_id (operations db)" by (simp add: update_one_map)
  have "oid \<in> op_id ` set (operations db)"
    using changed by (auto simp: update_one_count split: if_splits)
  note enter = enter_step_ok [OF journal_okD(5) [OF ok] journal_okD(4) [OF ok] this]
  show ?thesis unfolding db'
  proof (rule journal_okI_ops [OF ok ids])
    show "distinct (map step_key_of ?steps)" by (rule enter(1))
    show "step_ok ?ops s" if "s \<in> set ?steps" for s
      by (rule steps_ok_update_ops [OF enter(2) _ _ that]) (auto simp: in_flight_def)
  qed
qed

lemma begin_step_ok: "journal_ok db \<Longrightarrow> journal_ok (snd (begin_step_claimed J wid n oid key sm now ver db))"
  unfolding begin_step_claimed_def by (rule run_tx_ok) (auto intro: begin_step_tx_ok)

lemma complete_step_tx_ok:
  assumes tx: "complete_step_tx wid n oid key ref now db = Inr (u, db')" and ok: "journal_ok db"
  shows "journal_ok db'"
proof -
  let ?P = "\<lambda>s. st_operation_id s = oid \<and> st_step_key s = key"
  let ?f = "\<lambda>s. s\<lparr>st_status := ''succeeded'', st_updated_at := now,
    st_external_ref := (case ref of None \<Rightarrow> st_external_ref s | Some r \<Rightarrow> Some r)\<rparr>"
  let ?steps = "fst (update_one ?P ?f (operation_steps db))"
  have db': "db' = db\<lparr>operation_steps := ?steps\<rparr>"
    using tx by (auto simp: complete_step_tx_def Let_def split_beta split: if_splits)
  have "journal_ok (db\<lparr>operation_steps := ?steps, operations := operations db\<rparr>)"
  proof (rule journal_okI_ops [OF ok refl])
    show "distinct (map step_key_of ?steps)"
      using journal_okD(4) [OF ok] by (simp add: update_one_map step_key_of_def)
    show "step_ok (operations db) s" if "s \<in> set ?steps" for s
      using that by (cases rule: update_one_setE)
        (auto simp: step_ok_def dest!: journal_okD(5) [OF ok])
  qed
  then show ?thesis by (simp add: db')
qed

lemma complete_step_ok: "journal_ok db \<Longrightarrow> journal_ok (snd (complete_step_claimed wid n oid key ref now db))"
  unfolding complete_step_claimed_def by (rule run_tx_ok) (auto intro: complete_step_tx_ok)

text \<open>Settling an operation row: its steps fail only when it leaves the flight.\<close>

lemma finish_row_simps [simp]:
  "op_id (finish_row J st res pr v now r) = op_id r"
  "op_status (finish_row J st res pr v now r) = operation_status_as_str st"
  by (simp_all add: finish_row_def)

lemma settle_steps_set:
  assumes "s \<in> set (settle_steps J oid st now steps)"
  obtains "s \<in> set steps"
    | s0 where "s0 \<in> set steps" "st_operation_id s0 = oid" "st_operation_id s = oid"
        "st_status s = ''failed''" "st = OpNeedsAttention"
  using assms by (auto simp: settle_steps_def update_many_def split: if_splits)

lemma settle_steps_keys [simp]:
  "map step_key_of (settle_steps J oid st now steps) = map step_key_of steps"
  by (simp add: settle_steps_def update_many_map step_key_of_def)

lemma settle_operation_ok:
  assumes ok: "journal_ok db" and P: "\<And>r. P r \<Longrightarrow> op_id r = oid"
    and hit: "\<And>r. r \<in> set (operations db) \<Longrightarrow> op_id r = oid \<Longrightarrow> P r"
    and move: "\<And>r. P r \<Longrightarrow> in_flight r \<or> \<not> in_flight (finish_row J st res pr v now r)"
  defines "ops \<equiv> fst (update_one P (finish_row J st res pr v now) (operations db))"
  shows "journal_ok (settle_operation J oid st now ops db)"
  unfolding settle_operation_def
proof (rule ops_steps_ok [OF ok])
  show "map op_id ops = map op_id (operations db)" by (simp add: ops_def update_one_map)
  show "distinct (map step_key_of (settle_steps J oid st now (operation_steps db)))"
    using journal_okD(4) [OF ok] by simp
  show "map id_key (settle_idempotency oid st (idempotency_records db)) = map id_key (idempotency_records db)"
    by (simp add: settle_idempotency_def update_many_map)
  fix s
  assume "s \<in> set (settle_steps J oid st now (operation_steps db))"
  then show "step_ok ops s"
  proof (cases rule: settle_steps_set)
    case 1
    then show ?thesis
      unfolding ops_def
      by (intro steps_ok_update_ops [of "operation_steps db"] journal_okD(5) [OF ok] move) auto
  next
    case (2 s0)
    have ids: "op_id ` set ops = op_id ` set (operations db)" by (simp add: ops_def update_ops_ids)
    have ops_eq: "ops = map (\<lambda>r. if P r then finish_row J st res pr v now r else r) (operations db)"
      unfolding ops_def by (rule update_one_keyed [OF journal_okD(3) [OF ok] P]) simp_all
    have "\<not> in_flight r" if "r \<in> set ops" "op_id r = oid" for r
      using that 2(5) hit by (auto simp: ops_eq in_flight_def split: if_splits)
    then show ?thesis
      using journal_okD(5) [OF ok 2(1)] 2 ids by (simp add: step_ok_def)
  qed
qed

lemma finish_tx_ok:
  assumes tx: "finish_tx J oid st res pr c now v e t db = Inr (u, db')" and ok: "journal_ok db"
    and fin: "terminal_status (operation_status_as_str st)"
  shows "journal_ok db'"
proof -
  obtain k where emit: "emit_operation_changed J e t oid k (operation_status_as_str st) v c
      (settle_operation J oid st now (fst (update_one (\<lambda>r. op_id r = oid)
        (finish_row J st res pr v now) (operations db))) db) = Inr db'"
    using tx by (auto simp: finish_tx_def Let_def split_beta split: option.splits if_splits sum.splits)
  show ?thesis
    by (rule emit_keeps_ok [OF emit settle_operation_ok [OF ok]])
       (use fin in \<open>auto simp: in_flight_def terminal_status_def\<close>)
qed

lemma finish_op_ok:
  "journal_ok db \<Longrightarrow> terminal_status (operation_status_as_str st) \<Longrightarrow>
    journal_ok (snd (finish_op J oid st res pr c now v e t db))"
  unfolding finish_op_def by (rule run_tx_ok) (auto intro: finish_tx_ok)

lemma in_flight_unique:
  assumes "journal_ok db" and "find_one (\<lambda>r. op_id r = oid \<and> in_flight r) (operations db) = Some k"
    and "r \<in> set (operations db)" and "op_id r = oid"
  shows "in_flight r"
proof -
  have "k \<in> set (operations db)" "op_id k = oid" "in_flight k"
    using find_one_SomeD [OF assms(2)] by auto
  then show ?thesis
    using assms(3,4) journal_okD(3) [OF assms(1)] by (metis distinct_map inj_onD)
qed

lemma finish_claimed_tx_ok:
  assumes tx: "finish_claimed_tx J oid wid n st res pr c now v e t db = Inr (b, db')" and ok: "journal_ok db"
  shows "journal_ok db'"
proof (cases "db' = db")
  case False
  let ?P = "\<lambda>r. op_id r = oid \<and> in_flight r"
  obtain k where k: "find_one ?P (operations db) = Some k" and
    emit: "emit_operation_changed J e t oid (op_kind k) (operation_status_as_str st) v c
      (settle_operation J oid st now (fst (update_one ?P (finish_row J st res pr v now) (operations db))) db)
        = Inr db'"
    using tx False by (auto simp: finish_claimed_tx_def Let_def split_beta
        split: option.splits if_splits sum.splits)
  show ?thesis
    by (rule emit_keeps_ok [OF emit settle_operation_ok [OF ok]])
       (auto dest: in_flight_unique [OF ok k])
qed (use ok in simp)

lemma finish_claimed_ok: "journal_ok db \<Longrightarrow> journal_ok (snd (finish_claimed J oid wid n st res pr c now v e t db))"
  unfolding finish_claimed_def by (rule run_tx_ok) (auto intro: finish_claimed_tx_ok)

lemma update_progress_tx_ok:
  assumes tx: "update_progress_tx J wid n oid cs pg c now v e t db = Inr (b, db')" and ok: "journal_ok db"
  shows "journal_ok db'"
proof (cases "db' = db")
  case False
  let ?P = "\<lambda>r. op_id r = oid \<and> in_flight r"
  let ?f = "\<lambda>r. r\<lparr>op_status := ''running'', op_current_step := Some cs,
    op_progress_json := Some (json_to_string J pg), op_version := v, op_updated_at := now\<rparr>"
  let ?ops = "fst (update_one ?P ?f (operations db))"
  obtain k where emit: "emit_operation_changed J e t oid k ''running'' v c (db\<lparr>operations := ?ops\<rparr>) = Inr db'"
    using tx False by (auto simp: update_progress_tx_def Let_def split_beta
        split: option.splits if_splits sum.splits)
  have "journal_ok (db\<lparr>operation_steps := operation_steps db, operations := ?ops\<rparr>)"
  proof (rule journal_okI_ops [OF ok])
    show "map op_id ?ops = map op_id (operations db)" by (simp add: update_one_map)
    show "distinct (map step_key_of (operation_steps db))" by (rule journal_okD(4) [OF ok])
    show "step_ok ?ops s" if "s \<in> set (operation_steps db)" for s
      by (rule steps_ok_update_ops [OF journal_okD(5) [OF ok] _ _ that]) (auto simp: in_flight_def)
  qed
  then show ?thesis by (intro emit_keeps_ok [OF emit]) simp
qed (use ok in simp)

lemma update_progress_ok:
  "journal_ok db \<Longrightarrow> journal_ok (snd (update_progress_claimed J wid n oid cs pg c now v e t db))"
  unfolding update_progress_claimed_def by (rule run_tx_ok) (auto intro: update_progress_tx_ok)

lemma distinct_map_filter_keys: "distinct (map k xs) \<Longrightarrow> distinct (map k (filter P xs))"
  by (simp add: distinct_map_filter)

lemma prune_ok: "journal_ok db \<Longrightarrow> journal_ok (snd (prune_expired_idempotency now db))"
  by (simp add: prune_expired_idempotency_def delete_many_def journal_ok_def keys_ok_def works_ok_def
      steps_ok_def log_dense_def distinct_map_filter)

lemma command_record_ok: "journal_ok db \<Longrightarrow> journal_ok (command_record_in_tx J now req resp db)"
  by (simp add: command_record_in_tx_def journal_ok_def keys_ok_def works_ok_def steps_ok_def
      log_dense_def replace_one_distinct)

section \<open>Every interleaving of the methods\<close>

inductive journal_step :: "serde \<Rightarrow> journal_db \<Rightarrow> journal_db \<Rightarrow> bool" for J where
  create: "journal_step J db (snd (create_op J g req w db))"
| enqueue: "enqueue_work_in_tx J i now h p db = Inr (r, db') \<Longrightarrow> journal_step J db db'"
| claim: "journal_step J db (snd (claim_work J h ttl now_dt now nonce db))"
| complete: "journal_step J db (snd (complete_work i nonce now db))"
| renew: "journal_step J db (snd (renew_work i nonce ttl now_dt now db))"
| fail: "journal_step J db (snd (fail_work i nonce d now jitter now_dt db))"
| begin_step: "journal_step J db (snd (begin_step_claimed J wid nonce oid key summary now ver db))"
| complete_step: "journal_step J db (snd (complete_step_claimed wid nonce oid key ref now db))"
| finish: "terminal_status (operation_status_as_str st) \<Longrightarrow>
    journal_step J db (snd (finish_op J oid st res pr c now v e t db))"
| finish_claimed: "journal_step J db (snd (finish_claimed J oid wid nonce st res pr c now v e t db))"
| progress: "journal_step J db (snd (update_progress_claimed J wid nonce oid cs pg c now v e t db))"
| prune: "journal_step J db (snd (prune_expired_idempotency now db))"
| sweep: "journal_step J db (db\<lparr>work_items := bury_exhausted now (work_items db)\<rparr>)"
| claim_item: "journal_step J db (snd (claim_item J h lease_expires now nonce db))"
| release_item: "journal_step J db (snd (release_item i nonce exhausted not_before now db))"
| command_record: "journal_step J db (command_record_in_tx J now rq resp db)"

lemmas journal_method_ok =
  create_op_ok enqueue_ok claim_work_ok complete_work_ok renew_work_ok fail_work_ok begin_step_ok
  complete_step_ok finish_op_ok finish_claimed_ok update_progress_ok prune_ok command_record_ok
  journal_sweep_ok claim_item_ok release_item_ok

interpretation journal: step_invariant "journal_step J" "journal_ok" for J
proof unfold_locales
  show "journal_step J s t \<Longrightarrow> journal_ok s \<Longrightarrow> journal_ok t" for s t
    by (induction rule: journal_step.induct) (auto intro: journal_method_ok)
qed

section \<open>Leases fence the claimed methods\<close>

abbreviation leased :: "int \<Rightarrow> string \<Rightarrow> string \<Rightarrow> 'x journal_db_scheme \<Rightarrow> bool" where
  "leased now wid nonce db \<equiv> find_one (holds_lease now wid nonce) (work_items db) \<noteq> None"

interpretation begin_fence: fenced_operation "leased now wid nonce"
  "begin_step_claimed J wid nonce oid key summary now ver" "\<lambda>r. r = Inl StaleWorkClaim"
  for now wid nonce J oid key summary ver
  by unfold_locales
    (auto simp: begin_step_claimed_def run_tx_def begin_step_tx_def Let_def split_beta split: sum.splits)

interpretation complete_step_fence: fenced_operation "leased now wid nonce"
  "complete_step_claimed wid nonce oid key ref now" "\<lambda>r. r = Inl StaleWorkClaim"
  for now wid nonce oid key ref
  by unfold_locales
    (auto simp: complete_step_claimed_def run_tx_def complete_step_tx_def Let_def split_beta split: sum.splits)

interpretation finish_fence: fenced_operation "leased now wid nonce"
  "finish_claimed J oid wid nonce st res pr c now v e t" "\<lambda>r. r = Inr False"
  for now wid nonce J oid st res pr c v e t
  by unfold_locales
    (auto simp: finish_claimed_def run_tx_def finish_claimed_tx_def Let_def split_beta
      split: sum.splits option.splits if_splits)

interpretation progress_fence: fenced_operation "leased now wid nonce"
  "update_progress_claimed J wid nonce oid cs pg c now v e t" "\<lambda>r. r = Inr False"
  for now wid nonce J oid cs pg c v e t
  by unfold_locales
    (auto simp: update_progress_claimed_def run_tx_def update_progress_tx_def Let_def split_beta
      split: sum.splits option.splits if_splits)

interpretation renew_fence: fenced_operation "leased now wid nonce"
  "renew_work wid nonce ttl now_dt now" "\<lambda>r. r = False"
  for now wid nonce ttl now_dt
  by unfold_locales
    (auto simp: renew_work_def Let_def split_beta update_one_count_find update_one_none' split: option.splits)

section \<open>Steps never disappear\<close>

definition has_step :: "string \<times> string \<Rightarrow> 'x journal_db_scheme \<Rightarrow> bool" where
  "has_step k db \<longleftrightarrow> (\<exists>s \<in> set (operation_steps db). step_key_of s = k)"

definition step_done :: "string \<times> string \<Rightarrow> 'x journal_db_scheme \<Rightarrow> bool" where
  "step_done k db \<longleftrightarrow> (\<exists>s \<in> set (operation_steps db). step_key_of s = k \<and> st_status s = ''succeeded'')"

lemma enter_step_grows:
  "\<exists>new. snd (enter_step J oid key summary now steps) = steps @ new"
  by (auto simp: enter_step_def split: option.splits)

lemma settle_steps_keep:
  assumes "s \<in> set steps"
  shows "\<exists>s' \<in> set (settle_steps J oid st now steps).
     step_key_of s' = step_key_of s \<and> (st_status s = ''succeeded'' \<longrightarrow> st_status s' = ''succeeded'')"
proof -
  let ?P = "\<lambda>s. st_operation_id s = oid \<and> st_status s = ''running''"
  let ?f = "\<lambda>s. s\<lparr>st_status := ''failed'',
    st_compensation_json := Some (json_to_string J reconciliation_problem), st_updated_at := now\<rparr>"
  let ?s' = "if st = OpNeedsAttention \<and> ?P s then ?f s else s"
  have "?s' \<in> set (settle_steps J oid st now steps)"
    using assms by (auto simp: settle_steps_def update_many_def)
  moreover have "step_key_of ?s' = step_key_of s \<and> (st_status s = ''succeeded'' \<longrightarrow> st_status ?s' = ''succeeded'')"
    by (simp add: step_key_of_def)
  ultimately show ?thesis by blast
qed

lemma complete_step_keep:
  assumes "s \<in> set steps"
  shows "\<exists>s' \<in> set (fst (update_one P (\<lambda>s. s\<lparr>st_status := ''succeeded'', st_updated_at := now,
        st_external_ref := h s\<rparr>) steps)).
     step_key_of s' = step_key_of s \<and> (st_status s = ''succeeded'' \<longrightarrow> st_status s' = ''succeeded'')"
  using assms by (induction steps) (auto simp: step_key_of_def)

text \<open>What a method may do to the step rows: each survives with its key, and stays succeeded.\<close>

definition steps_kept :: "journal_db \<Rightarrow> journal_db \<Rightarrow> bool" where
  "steps_kept db db' \<longleftrightarrow> (\<forall>s \<in> set (operation_steps db). \<exists>s' \<in> set (operation_steps db').
     step_key_of s' = step_key_of s \<and> (st_status s = ''succeeded'' \<longrightarrow> st_status s' = ''succeeded''))"

lemma steps_kept_eq: "operation_steps db' = operation_steps db \<Longrightarrow> steps_kept db db'"
  by (auto simp: steps_kept_def)

lemma steps_kept_tx:
  assumes "\<And>a db'. body db = Inr (a, db') \<Longrightarrow> steps_kept db db'"
  shows "steps_kept db (snd (run_tx body db))"
  by (rule run_tx_ok [OF assms]) (auto intro: steps_kept_eq)

lemma create_steps: "create_in_tx J g req w db = Inr (r, db') \<Longrightarrow> operation_steps db' = operation_steps db"
  by (auto simp: create_in_tx_def create_new_operation_def insert_created_work_def Let_def emit_frame
      split: option.splits sum.splits json.splits)

lemma settle_kept:
  assumes "emit_operation_changed J e t i k s v c (settle_operation J oid st now ops db) = Inr db'"
  shows "steps_kept db db'"
  using settle_steps_keep by (simp add: steps_kept_def emit_frame(2) [OF assms] settle_operation_def)

lemma journal_step_keeps_steps: "journal_step J db db' \<Longrightarrow> steps_kept db db'"
proof (induction rule: journal_step.induct)
  case create
  then show ?case unfolding create_op_def
    by (intro steps_kept_tx) (auto intro!: steps_kept_eq dest: create_steps)
next
  case enqueue
  then show ?case by (intro steps_kept_eq) (auto simp: enqueue_work_in_tx_def split: option.splits)
next
  case claim
  then show ?case by (intro steps_kept_eq) (simp add: claim_work_eq Let_def split: option.split)
next
  case complete
  then show ?case by (intro steps_kept_eq) (simp add: complete_work_def split_beta)
next
  case renew
  then show ?case by (intro steps_kept_eq) (simp add: renew_work_def Let_def split_beta)
next
  case fail
  then show ?case
    by (intro steps_kept_eq) (simp add: fail_work_eq Let_def split_beta split: option.split)
next
  case sweep
  then show ?case by (intro steps_kept_eq) simp
next
  case claim_item
  then show ?case by (intro steps_kept_eq) (simp add: claim_item_def split: option.split)
next
  case release_item
  then show ?case by (intro steps_kept_eq) (simp add: release_item_def Let_def split_beta)
next
  case (begin_step db wid nonce oid key summary now ver)
  have "steps_kept db db'" if "begin_step_tx J wid nonce oid key summary now ver db = Inr (a, db')" for a db'
    using that enter_step_grows [of J oid key summary now "operation_steps db"]
    by (auto simp: begin_step_tx_def Let_def split_beta steps_kept_def split: if_splits)
  then show ?case unfolding begin_step_claimed_def by (rule steps_kept_tx)
next
  case complete_step
  then show ?case unfolding complete_step_claimed_def
    by (intro steps_kept_tx)
       (auto simp: complete_step_tx_def Let_def split_beta steps_kept_def complete_step_keep split: if_splits)
next
  case finish
  then show ?case unfolding finish_op_def
    by (intro steps_kept_tx)
       (auto simp: finish_tx_def Let_def split_beta intro: settle_kept split: option.splits if_splits sum.splits)
next
  case finish_claimed
  then show ?case unfolding finish_claimed_def
    by (intro steps_kept_tx)
       (auto simp: finish_claimed_tx_def Let_def split_beta intro: settle_kept steps_kept_eq
         split: option.splits if_splits sum.splits)
next
  case progress
  then show ?case unfolding update_progress_claimed_def
    by (intro steps_kept_tx)
       (auto simp: update_progress_tx_def Let_def split_beta emit_frame intro!: steps_kept_eq
         split: option.splits if_splits sum.splits)
next
  case prune
  then show ?case by (intro steps_kept_eq) (simp add: prune_expired_idempotency_def delete_many_def)
next
  case command_record
  then show ?case by (intro steps_kept_eq) (simp add: command_record_in_tx_def)
qed

interpretation step_presence: step_stable "journal_step J" journal_ok has_step for J
proof unfold_locales
  show "journal_step J s t \<Longrightarrow> journal_ok s \<Longrightarrow> has_step k s \<Longrightarrow> has_step k t" for s t k
    using journal_step_keeps_steps [of J s t] by (fastforce simp: has_step_def steps_kept_def)
qed

interpretation step_success: step_stable "journal_step J" journal_ok step_done for J
proof unfold_locales
  show "journal_step J s t \<Longrightarrow> journal_ok s \<Longrightarrow> step_done k s \<Longrightarrow> step_done k t" for s t k
    using journal_step_keeps_steps [of J s t] by (fastforce simp: step_done_def steps_kept_def)
qed

section \<open>Properties of the journal\<close>

definition sample_create :: "string \<Rightarrow> create_gen" where
  "sample_create i = \<lparr>cg_lookup_now = 0, cg_id = i, cg_now = 1, cg_version = ''v'',
     cg_work_id = CHR ''w'' # i, cg_event_id = CHR ''e'' # i, cg_occurred_at = 1\<rparr>"

definition sample_idem :: idempotency_request where
  "sample_idem = \<lparr>ir_key = ''k'', ir_owner_id = ''o'', ir_method = ''POST'',
     ir_normalized_route = ''/p'', ir_digest = ''d'', ir_expires_at = 100\<rparr>"

definition sample_request :: create_operation where
  "sample_request = \<lparr>co_kind = ''project.create'', co_actor = JNull, co_target_kind = ''project'',
     co_target_id = None, co_conditions = JNull, co_correlation_id = ''c'',
     co_idempotency = Some sample_idem\<rparr>"

definition sample_work :: create_work where
  "sample_work = \<lparr>cw_handler_kind = ''git.clone'', cw_payload = JObj []\<rparr>"

definition sample_created :: journal_db where
  "sample_created = snd (create_op sample_serde (sample_create ''1'') sample_request (Some sample_work) empty_journal)"

definition sample_claimed :: journal_db where
  "sample_claimed = snd (claim_work sample_serde ''git.clone'' 60 2000000 2 ''n'' sample_created)"

lemmas sample_journal_defs =
  sample_created_def sample_create_def sample_request_def sample_idem_def sample_work_def
  empty_journal_def create_op_def run_tx_def create_in_tx_def lookup_idempotency_in_tx_def
  create_new_operation_def insert_created_work_def emit_operation_changed_def append_in_tx_def
  next_event_cursor_def insert_one_def get_operation_def view_from_document_def parse_json_opt_def
  new_operation_row_def new_idem_row_def new_work_row_def operation_changed_event_def
  event_row_of_def sample_serde_def

lemma sample_created_eq:
  "work_items sample_created = [new_work_row ''w1'' ''git.clone'' ''null'' 1]"
  "operation_steps sample_created = []"
  "map op_status (operations sample_created) = [''queued'']"
  "map op_id (operations sample_created) = [''1'']"
  by (simp_all add: sample_journal_defs)

lemma sample_claimed_eq:
  "work_items sample_claimed = [(new_work_row ''w1'' ''git.clone'' ''null'' 1)
     \<lparr>wi_lease_nonce := Some ''n'', wi_lease_expires_at := Some 60002, wi_attempts := 1\<rparr>]"
  "operation_steps sample_claimed = []" "operations sample_claimed = operations sample_created"
  by (simp_all add: sample_claimed_def claim_work_eq bury_exhausted_def update_many_def
      sample_created_eq find_first_by_def claimable_def MAX_WORK_ATTEMPTS_def new_work_row_def
      seconds_def format_utc_def Let_def)

lemma sample_reachable: "(journal_step sample_serde)\<^sup>*\<^sup>* empty_journal sample_claimed"
  unfolding sample_claimed_def sample_created_def
  by (meson journal_step.create journal_step.claim r_into_rtranclp rtranclp.rtrancl_into_rtrancl)

end
