(* ===== verification/Journal_Properties.thy ===== *)
theory Journal_Properties
  imports Journal_Safety
begin

text \<open>
  The properties of the operation journal, stated over the methods of
  \<open>Operation_Journal\<close> and proved from the invariant, the fences and the step facts of
  \<open>Journal_Safety\<close>.
\<close>

section \<open>Reachable journals\<close>

text \<open>
  C11. Every state that any interleaving of the journal's methods reaches from the journal of a
  freshly opened database, claims and failures also as the two separate calls they are, satisfies
  the invariant: unique ids, a dense event log, no work item beyond five
  attempts, leases with nonce and expiry together, every step belonging to an operation,
  and no failed step of an operation that is still in flight.
\<close>

theorem reachable_journal_ok:
  "(journal_step J)\<^sup>*\<^sup>* empty_journal db \<Longrightarrow> journal_ok db"
  using journal.steps_inv journal_ok_empty by blast

theorem reachable_journal_ok_witness: "journal_ok sample_claimed \<and> work_items sample_claimed \<noteq> []"
  using reachable_journal_ok [OF sample_reachable] by (simp add: sample_claimed_eq)

section \<open>Claims\<close>

lemma claim_work_SomeD:
  assumes "fst (claim_work J h ttl now_dt now nonce db) = Inr (Some c)"
  obtains w where
    "find_first_by (claimable h now) wi_created_at (bury_exhausted now (work_items db)) = Some w"
    "cl_id c = wi_id w" "cl_nonce c = nonce" "json_from_str J (wi_payload_json w) = Some (cl_payload c)"
  using assms by (auto simp: claim_work_eq Let_def split: option.splits)

lemma bury_live:
  "w \<in> set (bury_exhausted now ws) \<Longrightarrow> \<not> wi_dead w \<Longrightarrow> w \<in> set ws"
  by (auto simp: bury_exhausted_def update_many_def split: if_splits)

lemma bury_keeps:
  "w \<in> set ws \<Longrightarrow> wi_attempts w < MAX_WORK_ATTEMPTS \<or> (\<forall>e \<in> set_option (wi_lease_expires_at w). now \<le> e) \<Longrightarrow>
    w \<in> set (bury_exhausted now ws)"
  by (force simp: bury_exhausted_def update_many_def split: option.splits)

lemma keyed_unique:
  "distinct (map k xs) \<Longrightarrow> x \<in> set xs \<Longrightarrow> y \<in> set xs \<Longrightarrow> k x = k y \<Longrightarrow> x = y"
  by (metis distinct_map inj_onD)

text \<open>
  C7. While a lease is live no claim returns its item and no claim changes its row: a
  second worker cannot start the same work before the lease expires.
\<close>

theorem live_lease_excludes_claims:
  assumes ok: "journal_ok db" and w: "w \<in> set (work_items db)"
    and lease: "wi_lease_expires_at w = Some e" "now \<le> e"
  shows "w \<in> set (work_items (snd (claim_work J h ttl now_dt now nonce db))) \<and>
    (\<forall>c. fst (claim_work J h ttl now_dt now nonce db) = Inr (Some c) \<longrightarrow> cl_id c \<noteq> wi_id w)"
proof -
  let ?items = "bury_exhausted now (work_items db)"
  have dist: "distinct (map wi_id ?items)" using journal_okD(1) [OF ok] by simp
  have wi: "w \<in> set ?items" using w lease by (intro bury_keeps) auto
  have other: "wi_id v \<noteq> wi_id w"
    if "find_first_by (claimable h now) wi_created_at ?items = Some v" for v
  proof
    assume "wi_id v = wi_id w"
    with keyed_unique [OF dist find_first_by_SomeD(1) [OF that] wi] have "v = w" by simp
    with find_first_by_SomeD(2) [OF that] lease show False by (simp add: claimable_def)
  qed
  have "w \<in> set (work_items (snd (claim_work J h ttl now_dt now nonce db)))"
  proof (cases "find_first_by (claimable h now) wi_created_at ?items")
    case None
    then show ?thesis using wi by (simp add: claim_work_eq Let_def)
  next
    case (Some v)
    then have "work_items (snd (claim_work J h ttl now_dt now nonce db)) =
        map (\<lambda>x. if wi_id x = wi_id v then x\<lparr>wi_lease_nonce := Some nonce,
          wi_lease_expires_at := Some (format_utc (now_dt + seconds ttl)),
          wi_attempts := wi_attempts x + 1\<rparr> else x) ?items"
      by (simp add: claim_work_eq Let_def update_one_keyed [OF dist, of _ "wi_id v"])
    then show ?thesis using wi other [OF Some] by force
  qed
  then show ?thesis using other by (auto elim!: claim_work_SomeD)
qed

theorem live_lease_excludes_claims_witness:
  "\<exists>w. w \<in> set (work_items (snd (claim_work sample_serde ''git.clone'' 60 3000000 3 ''m'' sample_claimed))) \<and>
    wi_lease_nonce w = Some ''n''"
proof -
  let ?w = "(new_work_row ''w1'' ''git.clone'' ''null'' 1)
     \<lparr>wi_lease_nonce := Some ''n'', wi_lease_expires_at := Some 60002, wi_attempts := 1\<rparr>"
  have "journal_ok sample_claimed"
    using journal.steps_inv [OF sample_reachable journal_ok_empty] .
  from live_lease_excludes_claims [OF this, of ?w 60002 3] show ?thesis
    by (intro exI [of _ ?w]) (simp add: sample_claimed_eq)
qed

text \<open>
  A successful claim takes a live, unleased (or expired), due item of the handler with
  fewer than five attempts, the oldest such item, counts the attempt, and leaves the claimant holding the
  lease until the expiry it wrote.
\<close>

theorem claim_work_grants_lease:
  assumes ok: "journal_ok db"
    and claim: "claim_work J h ttl now_dt now nonce db = (Inr (Some c), db')"
  shows "\<exists>w \<in> set (work_items db). cl_id c = wi_id w \<and> claimable h now w \<and>
     (\<forall>v \<in> set (work_items db). claimable h now v \<longrightarrow> wi_created_at w \<le> wi_created_at v) \<and>
     w\<lparr>wi_lease_nonce := Some nonce, wi_lease_expires_at := Some (format_utc (now_dt + seconds ttl)),
       wi_attempts := wi_attempts w + 1\<rparr> \<in> set (work_items db') \<and>
     (\<forall>t \<le> format_utc (now_dt + seconds ttl). leased t (cl_id c) nonce db')"
proof -
  let ?items = "bury_exhausted now (work_items db)" and ?e = "format_utc (now_dt + seconds ttl)"
  obtain w where ff: "find_first_by (claimable h now) wi_created_at ?items = Some w"
    and c: "cl_id c = wi_id w" using claim claim_work_SomeD by (metis fst_conv)
  let ?f = "\<lambda>x. x\<lparr>wi_lease_nonce := Some nonce, wi_lease_expires_at := Some ?e, wi_attempts := wi_attempts x + 1\<rparr>"
  note w = find_first_by_SomeD [OF ff]
  have dist: "distinct (map wi_id ?items)" using journal_okD(1) [OF ok] by simp
  have live: "\<not> wi_dead w" using w(2) by (simp add: claimable_def)
  have items': "work_items db' = map (\<lambda>x. if wi_id x = wi_id w then ?f x else x) ?items"
    using claim ff by (auto simp: claim_work_eq Let_def update_one_keyed [OF dist, of _ "wi_id w"])
  then have new: "?f w \<in> set (work_items db')" using w(1) by (auto intro!: image_eqI [of _ _ w])
  have "w \<in> set (work_items db)" by (rule bury_live [OF w(1) live])
  moreover have "wi_created_at w \<le> wi_created_at v" if "v \<in> set (work_items db)" "claimable h now v" for v
    using w(3) [of v] that by (simp add: bury_keeps claimable_def)
  moreover have "leased t (cl_id c) nonce db'" if "t \<le> ?e" for t
  proof -
    have "holds_lease t (cl_id c) nonce (?f w)" using that live c by (simp add: holds_lease_def)
    then show ?thesis using new by (auto simp: find_one_None_iff simp del: not_None_eq)
  qed
  ultimately show ?thesis using c w(2) new by blast
qed

theorem claim_work_grants_lease_witness:
  "leased 50000 ''w1'' ''n'' sample_claimed"
proof -
  have "journal_ok sample_created"
    unfolding sample_created_def by (rule create_op_ok [OF journal_ok_empty])
  moreover have "claim_work sample_serde ''git.clone'' 60 2000000 2 ''n'' sample_created =
      (Inr (Some \<lparr>cl_id = ''w1'', cl_nonce = ''n'', cl_payload = JNull\<rparr>), sample_claimed)"
    by (simp add: sample_claimed_def claim_work_eq bury_exhausted_def update_many_def
      sample_created_eq find_first_by_def claimable_def MAX_WORK_ATTEMPTS_def new_work_row_def
      Let_def sample_serde_def)
  ultimately show ?thesis
    using claim_work_grants_lease by (fastforce simp: format_utc_def seconds_def)
qed

text \<open>
  A worker whose lease is gone is harmless: beginning or completing a step, finishing
  the operation, publishing progress and renewing are all refused and leave the whole
  database as it was.
\<close>

theorem stale_worker_changes_nothing:
  assumes "\<not> leased now work_id nonce db"
  shows "begin_step_claimed J work_id nonce oid key summary now ver db = (Inl StaleWorkClaim, db) \<and>
    complete_step_claimed work_id nonce oid key ref now db = (Inl StaleWorkClaim, db) \<and>
    finish_claimed J oid work_id nonce st res pr c now ver e t db = (Inr False, db) \<and>
    update_progress_claimed J work_id nonce oid cs pg c now ver e t db = (Inr False, db) \<and>
    renew_work work_id nonce ttl now_dt now db = (False, db)"
  using assms
  by (simp add: prod_eq_iff begin_fence.stale_holder_harmless
      complete_step_fence.stale_holder_harmless finish_fence.stale_holder_harmless
      progress_fence.stale_holder_harmless renew_fence.stale_holder_harmless)

theorem stale_worker_changes_nothing_witness:
  "finish_claimed sample_serde ''1'' ''w1'' ''old'' OpSucceeded None None ''c'' 3 ''v2'' ''e2'' 3 sample_claimed
     = (Inr False, sample_claimed)"
proof -
  have "\<not> leased 3 ''w1'' ''old'' sample_claimed"
    by (simp add: sample_claimed_eq holds_lease_def new_work_row_def)
  from stale_worker_changes_nothing [OF this] show ?thesis by blast
qed

section \<open>Steps\<close>

lemma begin_step_InrD:
  assumes "begin_step_claimed J wid n oid key sm now ver db = (Inr st, db')"
  shows "begin_step_tx J wid n oid key sm now ver db = Inr (st, db')"
  using assms by (auto simp: begin_step_claimed_def run_tx_def split: sum.splits)

lemma begin_step_tx_InrD:
  assumes "begin_step_tx J wid n oid key sm now ver db = Inr (st, db')"
  shows "st = fst (enter_step J oid key sm now (operation_steps db))"
    and "operation_steps db' = snd (enter_step J oid key sm now (operation_steps db))"
    and "\<exists>r \<in> set (operations db). op_id r = oid \<and> in_flight r"
  using assms by (auto simp: begin_step_tx_def Let_def split_beta update_one_count split: if_splits)

lemma enter_step_has: "\<exists>s \<in> set (snd (enter_step J oid key sm now steps)). step_key_of s = (oid, key)"
  by (auto simp: enter_step_def step_key_of_def split: option.splits dest: find_one_SomeD)

lemma begin_step_existing:
  assumes ok: "journal_ok db" and has: "has_step (oid, key) db"
  shows "fst (begin_step_claimed J wid n oid key sm now ver db) \<noteq> Inr StepRunning"
proof
  assume "fst (begin_step_claimed J wid n oid key sm now ver db) = Inr StepRunning"
  then obtain db' where "begin_step_claimed J wid n oid key sm now ver db = (Inr StepRunning, db')"
    by (metis prod.collapse)
  note tx = begin_step_tx_InrD [OF begin_step_InrD [OF this]]
  let ?P = "\<lambda>s. st_operation_id s = oid \<and> st_step_key s = key"
  obtain s where s: "find_one ?P (operation_steps db) = Some s"
    using has by (cases "find_one ?P (operation_steps db)")
      (auto simp: has_step_def step_key_of_def find_one_None_iff)
  then have "step_ok (operations db) s" "st_operation_id s = oid"
    using find_one_SomeD [OF s] journal_okD(5) [OF ok] by auto
  with tx(1,3) s show False
    by (auto simp: enter_step_def step_ok_def split: if_splits)
qed

text \<open>
  C1. An external effect is started at most once per step key: after \<open>begin_step_claimed\<close>
  has told a handler to run a step, no later call tells any handler to run it again,
  whatever the journal's methods did in between, crashes and re-claims included. A repeat
  asks for reconciliation, reports success or is refused.
\<close>

theorem step_started_at_most_once:
  assumes ok: "journal_ok db"
    and first: "begin_step_claimed J wid n oid key sm now ver db = (Inr StepRunning, db1)"
    and later: "(journal_step J)\<^sup>*\<^sup>* db1 db2"
  shows "fst (begin_step_claimed J wid' n' oid key sm' now' ver' db2) \<noteq> Inr StepRunning"
proof (rule begin_step_existing)
  have ok1: "journal_ok db1" using begin_step_ok [OF ok] first by (metis snd_conv)
  have "has_step (oid, key) db1"
    using begin_step_tx_InrD(2) [OF begin_step_InrD [OF first]] enter_step_has
    by (simp add: has_step_def)
  then show "has_step (oid, key) db2" by (rule step_presence.fact_steps [OF later ok1])
  show "journal_ok db2" by (rule journal.steps_inv [OF later ok1])
qed

lemma sample_begin:
  "begin_step_claimed sample_serde ''w1'' ''n'' ''1'' ''clone'' JNull 3 ''v2'' sample_claimed =
     (Inr StepRunning, snd (begin_step_claimed sample_serde ''w1'' ''n'' ''1'' ''clone'' JNull 3 ''v2'' sample_claimed))"
  by (simp add: begin_step_claimed_def run_tx_def begin_step_tx_def enter_step_def sample_claimed_eq
      holds_lease_def new_work_row_def Let_def split_beta)
     (simp add: in_flight_def sample_journal_defs)

lemma sample_claimed_ok: "journal_ok sample_claimed"
  using journal.steps_inv [OF sample_reachable journal_ok_empty] .

theorem step_started_at_most_once_witness:
  "let db1 = snd (begin_step_claimed sample_serde ''w1'' ''n'' ''1'' ''clone'' JNull 3 ''v2'' sample_claimed)
   in fst (begin_step_claimed sample_serde ''w1'' ''n'' ''1'' ''clone'' JNull 4 ''v3'' db1) \<noteq> Inr StepRunning"
  using step_started_at_most_once [OF sample_claimed_ok sample_begin rtranclp.rtrancl_refl]
  by (simp add: Let_def)

text \<open>
  A step completed under a valid claim is never executed again: every later attempt to
  begin it either reports that it already succeeded or is refused as stale.
\<close>

theorem completed_step_never_rerun:
  assumes ok: "journal_ok db"
    and compl: "complete_step_claimed wid n oid key ref now db = (Inr (), db1)"
    and later: "(journal_step J)\<^sup>*\<^sup>* db1 db2"
  shows "fst (begin_step_claimed J wid' n' oid key sm now' ver db2) \<in> {Inr AlreadySucceeded, Inl StaleWorkClaim}"
proof -
  have tx: "complete_step_tx wid n oid key ref now db = Inr ((), db1)"
    using compl by (auto simp: complete_step_claimed_def run_tx_def split: sum.splits)
  have ok1: "journal_ok db1" by (rule complete_step_tx_ok [OF tx ok])
  have ok2: "journal_ok db2" by (rule journal.steps_inv [OF later ok1])
  have "step_done (oid, key) db1"
  proof -
    let ?P = "\<lambda>s. st_operation_id s = oid \<and> st_step_key s = key"
    let ?f = "\<lambda>s. s\<lparr>st_status := ''succeeded'', st_updated_at := now,
      st_external_ref := (case ref of None \<Rightarrow> st_external_ref s | Some r \<Rightarrow> Some r)\<rparr>"
    have "snd (update_one ?P ?f (operation_steps db)) \<noteq> 0"
      and db1: "operation_steps db1 = fst (update_one ?P ?f (operation_steps db))"
      using tx by (auto simp: complete_step_tx_def Let_def split_beta split: if_splits)
    then obtain r where "?P r" "?f r \<in> set (operation_steps db1)"
      using update_one_hit [of ?P ?f "operation_steps db"] by auto
    then show ?thesis by (auto simp: step_done_def step_key_of_def intro!: bexI [of _ "?f r"])
  qed
  then have "step_done (oid, key) db2" by (rule step_success.fact_steps [OF later ok1])
  then obtain s where s: "s \<in> set (operation_steps db2)" "step_key_of s = (oid, key)" "st_status s = ''succeeded''"
    by (auto simp: step_done_def)
  have "find_one (\<lambda>s. st_operation_id s = oid \<and> st_step_key s = key) (operation_steps db2) = Some s"
  proof (rule find_one_unique [OF s(1)])
    show "x = s" if "x \<in> set (operation_steps db2)" "st_operation_id x = oid \<and> st_step_key x = key" for x
      using keyed_unique [OF journal_okD(4) [OF ok2] that(1) s(1)] that(2) s(2) by (simp add: step_key_of_def)
  qed (use s(2) in \<open>simp add: step_key_of_def\<close>)
  with s(3) show ?thesis
    by (simp add: begin_step_claimed_def run_tx_def begin_step_tx_def enter_step_def Let_def split_beta)
qed

definition sample_running :: journal_db where
  "sample_running = snd (begin_step_claimed sample_serde ''w1'' ''n'' ''1'' ''clone'' JNull 3 ''v2'' sample_claimed)"

lemma sample_running_eq:
  "work_items sample_running = work_items sample_claimed"
  "operation_steps sample_running = snd (enter_step sample_serde ''1'' ''clone'' JNull 3 [])"
  "map op_status (operations sample_running) = [''running'']"
  "map op_id (operations sample_running) = [''1'']"
  by (simp_all add: sample_running_def begin_step_claimed_def run_tx_def begin_step_tx_def
      sample_claimed_eq holds_lease_def new_work_row_def Let_def split_beta)
     (simp_all add: in_flight_def enter_step_def sample_journal_defs)

lemma sample_running_ok: "journal_ok sample_running"
  unfolding sample_running_def by (rule begin_step_ok [OF sample_claimed_ok])

theorem completed_step_never_rerun_witness:
  "let db1 = snd (complete_step_claimed ''w1'' ''n'' ''1'' ''clone'' None 4 sample_running)
   in fst (begin_step_claimed sample_serde ''w1'' ''n'' ''1'' ''clone'' JNull 5 ''v3'' db1)
        \<in> {Inr AlreadySucceeded, Inl StaleWorkClaim}"
proof -
  have "complete_step_claimed ''w1'' ''n'' ''1'' ''clone'' None 4 sample_running =
      (Inr (), snd (complete_step_claimed ''w1'' ''n'' ''1'' ''clone'' None 4 sample_running))"
    by (simp add: complete_step_claimed_def run_tx_def complete_step_tx_def sample_running_eq
        sample_claimed_eq holds_lease_def new_work_row_def enter_step_def Let_def)
  from completed_step_never_rerun [OF sample_running_ok this rtranclp.rtrancl_refl]
  show ?thesis by (simp add: Let_def)
qed

text \<open>
  What \<open>begin_step_claimed\<close> answers while the claim is valid and the operation is in
  flight: a new step is inserted as running and may run; a step left running by an earlier
  worker needs reconciliation; a succeeded step is skipped. In every case the operation is
  set to running with this step as its current step.
\<close>

theorem begin_step_outcome:
  assumes "journal_ok db" and "leased now wid nonce db"
    and "\<exists>r \<in> set (operations db). op_id r = oid \<and> in_flight r"
  shows "\<exists>db'. begin_step_claimed J wid nonce oid key sm now ver db =
      (Inr (if step_done (oid, key) db then AlreadySucceeded
            else if has_step (oid, key) db then NeedsReconciliation else StepRunning), db') \<and>
    has_step (oid, key) db' \<and>
    (\<forall>r \<in> set (operations db'). op_id r = oid \<longrightarrow>
       op_status r = ''running'' \<and> op_current_step r = Some key \<and> op_version r = ver)"
proof -
  let ?P = "\<lambda>s. st_operation_id s = oid \<and> st_step_key s = key"
  let ?Q = "\<lambda>r. op_id r = oid \<and> in_flight r"
  let ?f = "\<lambda>r. r\<lparr>op_status := ''running'', op_current_step := Some key, op_version := ver,
    op_updated_at := now\<rparr>"
  let ?db' = "db\<lparr>operation_steps := snd (enter_step J oid key sm now (operation_steps db)),
    operations := fst (update_one ?Q ?f (operations db))\<rparr>"
  obtain k where k: "find_one ?Q (operations db) = Some k"
    using assms(3) by (cases "find_one ?Q (operations db)") (auto simp: find_one_None_iff)
  have st: "fst (enter_step J oid key sm now (operation_steps db)) =
      (if step_done (oid, key) db then AlreadySucceeded
       else if has_step (oid, key) db then NeedsReconciliation else StepRunning)"
  proof (cases "find_one ?P (operation_steps db)")
    case None
    then have "\<not> has_step (oid, key) db" "\<not> step_done (oid, key) db"
      by (auto simp: step_done_def has_step_def step_key_of_def find_one_None_iff)
    with None show ?thesis by (simp add: enter_step_def)
  next
    case (Some s)
    note s = find_one_SomeD [OF Some]
    have u: "x = s" if "x \<in> set (operation_steps db)" "step_key_of x = (oid, key)" for x
      using keyed_unique [OF journal_okD(4) [OF assms(1)] that(1)] s that(2) by (simp add: step_key_of_def)
    have "st_status s \<in> {''running'', ''succeeded''}"
      using journal_okD(5) [OF assms(1), of s] s find_one_SomeD [OF k] by (auto simp: step_ok_def)
    then show ?thesis
      using Some s u by (auto simp: enter_step_def step_done_def has_step_def step_key_of_def)
  qed
  have ops: "fst (update_one ?Q ?f (operations db)) = map (\<lambda>r. if ?Q r then ?f r else r) (operations db)"
    by (rule update_one_keyed [OF journal_okD(3) [OF assms(1)], of _ oid]) simp_all
  have "snd (update_one ?Q ?f (operations db)) \<noteq> 0" using k by (simp add: update_one_count_find)
  then have "begin_step_claimed J wid nonce oid key sm now ver db =
      (Inr (fst (enter_step J oid key sm now (operation_steps db))), ?db')"
    using assms(2) by (simp add: begin_step_claimed_def run_tx_def begin_step_tx_def Let_def split_beta)
  moreover have "has_step (oid, key) ?db'" using enter_step_has by (simp add: has_step_def)
  moreover have "\<forall>r \<in> set (operations ?db'). op_id r = oid \<longrightarrow>
      op_status r = ''running'' \<and> op_current_step r = Some key \<and> op_version r = ver"
  proof (intro ballI impI)
    fix r
    assume r: "r \<in> set (operations ?db')" and id: "op_id r = oid"
    have "operations ?db' = map (\<lambda>r. if ?Q r then ?f r else r) (operations db)"
      unfolding ops by simp
    with r have "r \<in> (\<lambda>r. if ?Q r then ?f r else r) ` set (operations db)" by (simp only: set_map)
    then obtain r0 where r0: "r0 \<in> set (operations db)" "r = (if ?Q r0 then ?f r0 else r0)"
      by (rule imageE) (rule that)
    then have "op_id r0 = oid" using id by (simp split: if_splits)
    with in_flight_unique [OF assms(1) k r0(1)] have "r = ?f r0" using r0(2) by simp
    then show "op_status r = ''running'' \<and> op_current_step r = Some key \<and> op_version r = ver" by simp
  qed
  ultimately show ?thesis unfolding st by blast
qed

theorem begin_step_outcome_witness:
  "\<exists>db'. begin_step_claimed sample_serde ''w1'' ''n'' ''1'' ''clone'' JNull 5 ''v3'' sample_running =
     (Inr NeedsReconciliation, db')"
proof -
  have l: "leased 5 ''w1'' ''n'' sample_running"
    by (simp add: sample_running_eq sample_claimed_eq holds_lease_def new_work_row_def)
  have "\<exists>r \<in> set (operations sample_running). op_id r = ''1'' \<and> in_flight r"
  proof -
    obtain r where "operations sample_running = [r]" "op_id r = ''1''" "op_status r = ''running''"
      using sample_running_eq(3,4) by (cases "operations sample_running") auto
    then show ?thesis by (simp add: in_flight_def)
  qed
  moreover have "has_step (''1'', ''clone'') sample_running" "\<not> step_done (''1'', ''clone'') sample_running"
    by (simp_all add: has_step_def step_done_def step_key_of_def sample_running_eq enter_step_def)
  ultimately show ?thesis
    using begin_step_outcome [OF sample_running_ok l, of "''1''" sample_serde "''clone''" JNull "''v3''"]
    by auto
qed

text \<open>
  A terminal operation is frozen for workers: with the operation out of flight, no
  claim, however valid, can begin a step of it, finish it again or publish progress; the
  database does not change.
\<close>

theorem terminal_operation_frozen:
  assumes "\<forall>r \<in> set (operations db). op_id r = oid \<longrightarrow> \<not> in_flight r"
  shows "begin_step_claimed J wid nonce oid key sm now ver db = (Inl StaleWorkClaim, db) \<and>
    finish_claimed J oid wid nonce st res pr c now ver e t db = (Inr False, db) \<and>
    update_progress_claimed J wid nonce oid cs pg c now ver e t db = (Inr False, db)"
proof -
  have none: "find_one (\<lambda>r. op_id r = oid \<and> in_flight r) (operations db) = None"
    using assms by (auto simp: find_one_None_iff)
  then show ?thesis
    by (simp add: begin_step_claimed_def finish_claimed_def update_progress_claimed_def run_tx_def
        begin_step_tx_def finish_claimed_tx_def update_progress_tx_def update_one_none' Let_def split_beta)
qed

theorem terminal_operation_frozen_witness:
  "finish_claimed sample_serde ''2'' ''w1'' ''n'' OpFailed None None ''c'' 4 ''v3'' ''e3'' 4 sample_running
     = (Inr False, sample_running)"
proof -
  have "\<forall>r \<in> set (operations sample_running). op_id r = ''2'' \<longrightarrow> \<not> in_flight r"
    using sample_running_eq(4) by (cases "operations sample_running") auto
  from terminal_operation_frozen [OF this] show ?thesis by blast
qed

end
