(* ===== verification/Json_Codec.thy ===== *)
theory Json_Codec
  imports Janus_Prelude
begin

text \<open>
  A concrete JSON codec that parses back what it printed: the instance at which the
  hypotheses on the third-party codec are shown to hold. Lists and texts are written
  element by element with a continuation mark, numbers in unary.
\<close>

primrec put_text :: "string \<Rightarrow> string" where
  "put_text [] = ''.''"
| "put_text (c # cs) = CHR ''+'' # c # put_text cs"

fun get_text :: "string \<Rightarrow> (string \<times> string) option" where
  "get_text (m # r) =
     (if m = CHR ''.'' then Some ([], r)
      else case r of [] \<Rightarrow> None
        | c # r' \<Rightarrow> (case get_text r' of None \<Rightarrow> None | Some (cs, r'') \<Rightarrow> Some (c # cs, r'')))"
| "get_text [] = None"

lemma get_put_text [simp]: "get_text (put_text s @ r) = Some (s, r)"
  by (induction s) simp_all

definition put_int :: "int \<Rightarrow> string" where
  "put_int i = (if i < 0 then CHR ''-'' else CHR ''p'') # put_text (replicate (nat \<bar>i\<bar>) CHR ''1'')"

definition get_int :: "string \<Rightarrow> (int \<times> string) option" where
  "get_int s = (case s of [] \<Rightarrow> None
     | c # r \<Rightarrow> (case get_text r of None \<Rightarrow> None
        | Some (ds, r') \<Rightarrow> Some (if c = CHR ''-'' then - int (length ds) else int (length ds), r')))"

lemma get_put_int [simp]: "get_int (put_int i @ r) = Some (i, r)"
  by (auto simp: get_int_def put_int_def)

fun put_json :: "json \<Rightarrow> string"
  and put_list :: "json list \<Rightarrow> string"
  and put_pairs :: "(string \<times> json) list \<Rightarrow> string" where
  "put_json JNull = ''n''"
| "put_json (JBool b) = (if b then ''t'' else ''f'')"
| "put_json (JNum i) = CHR ''i'' # put_int i"
| "put_json (JStr s) = CHR ''s'' # put_text s"
| "put_json (JArr xs) = CHR ''a'' # put_list xs"
| "put_json (JObj kvs) = CHR ''o'' # put_pairs kvs"
| "put_list [] = ''.''"
| "put_list (x # xs) = CHR ''+'' # put_json x @ put_list xs"
| "put_pairs [] = ''.''"
| "put_pairs ((k, v) # kvs) = CHR ''+'' # put_text k @ put_json v @ put_pairs kvs"

text \<open>The parser, by the nesting it is allowed.\<close>

fun get_json :: "nat \<Rightarrow> string \<Rightarrow> (json \<times> string) option"
  and get_list :: "nat \<Rightarrow> string \<Rightarrow> (json list \<times> string) option"
  and get_pairs :: "nat \<Rightarrow> string \<Rightarrow> ((string \<times> json) list \<times> string) option" where
  "get_json 0 s = None"
| "get_json (Suc n) [] = None"
| "get_json (Suc n) (c # r) =
     (if c = CHR ''n'' then Some (JNull, r)
      else if c = CHR ''t'' then Some (JBool True, r)
      else if c = CHR ''f'' then Some (JBool False, r)
      else if c = CHR ''i'' then map_option (\<lambda>(i, r'). (JNum i, r')) (get_int r)
      else if c = CHR ''s'' then map_option (\<lambda>(t, r'). (JStr t, r')) (get_text r)
      else if c = CHR ''a'' then map_option (\<lambda>(xs, r'). (JArr xs, r')) (get_list n r)
      else if c = CHR ''o'' then map_option (\<lambda>(kvs, r'). (JObj kvs, r')) (get_pairs n r)
      else None)"
| "get_list 0 s = None"
| "get_list (Suc n) [] = None"
| "get_list (Suc n) (c # r) =
     (if c = CHR ''.'' then Some ([], r)
      else case get_json n r of None \<Rightarrow> None
        | Some (x, r') \<Rightarrow> map_option (\<lambda>(xs, r''). (x # xs, r'')) (get_list n r'))"
| "get_pairs 0 s = None"
| "get_pairs (Suc n) [] = None"
| "get_pairs (Suc n) (c # r) =
     (if c = CHR ''.'' then Some ([], r)
      else case get_text r of None \<Rightarrow> None
        | Some (k, r') \<Rightarrow> (case get_json n r' of None \<Rightarrow> None
          | Some (v, r'') \<Rightarrow> map_option (\<lambda>(kvs, q). ((k, v) # kvs, q)) (get_pairs n r'')))"

lemma get_put_json:
  "length (put_json v) \<le> n \<Longrightarrow> get_json n (put_json v @ r) = Some (v, r)"
  "length (put_list xs) \<le> n \<Longrightarrow> get_list n (put_list xs @ r) = Some (xs, r)"
  "length (put_pairs kvs) \<le> n \<Longrightarrow> get_pairs n (put_pairs kvs @ r) = Some (kvs, r)"
proof (induction v and xs and kvs arbitrary: n r and n r and n r
    rule: put_json_put_list_put_pairs.induct)
qed (auto simp: Suc_le_eq dest!: gr0_implies_Suc less_imp_Suc_add)

definition wire_serde :: serde where
  "wire_serde =
    \<lparr>json_to_string = put_json,
     json_from_str = (\<lambda>s. case get_json (length s) s of Some (v, []) \<Rightarrow> Some v | _ \<Rightarrow> None)\<rparr>"

lemma wire_serde_roundtrip: "json_from_str wire_serde (json_to_string wire_serde v) = Some v"
  using get_put_json(1) [of v "length (put_json v)" "[]"] by (simp add: wire_serde_def)

end
