(* ===== verification/Session_Types.thy ===== *)
theory Session_Types
  imports Operation_Journal Janus_Interfaces Json_Codec "HOL-Library.Option_ord"
begin

text \<open>
  The data of the sessions capability (\<open>crates/sessions/src/types.rs\<close>): the turn status
  machine, routes, model snapshots and their JSON form, and the documents of its
  collections. Ids are their canonical text, the form in which they are stored and
  compared; the UUID parser, third-party code, is the argument \<open>U\<close> of the definitions
  that parse a stored id (\<open>U s = Some i\<close>: \<open>s\<close> denotes the id with canonical text \<open>i\<close>).
\<close>

section \<open>Errors and limits\<close>

definition MAX_ATTACHMENT_BYTES :: nat where "MAX_ATTACHMENT_BYTES = 20 * 1024 * 1024"

definition MAX_MESSAGE_BYTES :: nat where "MAX_MESSAGE_BYTES = 25 * 1024 * 1024"

definition MAX_ATTACHMENTS :: nat where "MAX_ATTACHMENTS = 20"

datatype sessions_error =
    NotFound
  | SessionDeleting
  | ActiveTurnExists
  | TurnNotInteractive
  | TurnTerminal
  | NothingQueued
  | VersionMismatch string string
  | TimelineCursorInvalid
  | ModelNotConfigured
  | InvalidModelPreference
  | Validation string
  | SessWorkspace
  | SessStorage
  | SessSerde
  | SessInternal string

section \<open>Turn status\<close>

datatype turn_status = Queued | Running | Canceling | Completed | Failed | Canceled | Interrupted

fun turn_status_as_str :: "turn_status \<Rightarrow> string" where
  "turn_status_as_str Queued = ''queued''"
| "turn_status_as_str Running = ''running''"
| "turn_status_as_str Canceling = ''canceling''"
| "turn_status_as_str Completed = ''completed''"
| "turn_status_as_str Failed = ''failed''"
| "turn_status_as_str Canceled = ''canceled''"
| "turn_status_as_str Interrupted = ''interrupted''"

definition turn_status_from_str :: "string \<Rightarrow> turn_status option" where
  "turn_status_from_str s =
    (if s = ''queued'' then Some Queued
     else if s = ''running'' then Some Running
     else if s = ''canceling'' then Some Canceling
     else if s = ''completed'' then Some Completed
     else if s = ''failed'' then Some Failed
     else if s = ''canceled'' then Some Canceled
     else if s = ''interrupted'' then Some Interrupted
     else None)"

fun is_active :: "turn_status \<Rightarrow> bool" where
  "is_active Running = True"
| "is_active Canceling = True"
| "is_active _ = False"

fun is_interactive :: "turn_status \<Rightarrow> bool" where
  "is_interactive Running = True"
| "is_interactive _ = False"

fun advances_queue :: "turn_status \<Rightarrow> bool" where
  "advances_queue Completed = True"
| "advances_queue Failed = True"
| "advances_queue Canceled = True"
| "advances_queue Interrupted = True"
| "advances_queue _ = False"

fun can_transition_to :: "turn_status \<Rightarrow> turn_status \<Rightarrow> bool" where
  "can_transition_to Queued t \<longleftrightarrow> t = Running \<or> t = Canceled"
| "can_transition_to Running t \<longleftrightarrow> t = Canceling \<or> t = Completed \<or> t = Failed \<or> t = Interrupted"
| "can_transition_to Canceling t \<longleftrightarrow> t = Canceled \<or> t = Interrupted"
| "can_transition_to Completed t \<longleftrightarrow> False"
| "can_transition_to Failed t \<longleftrightarrow> False"
| "can_transition_to Canceled t \<longleftrightarrow> False"
| "can_transition_to Interrupted t \<longleftrightarrow> False"

interpretation turn_codec: enum_codec turn_status_as_str turn_status_from_str
proof
  show "turn_status_from_str (turn_status_as_str x) = Some x" for x
    by (cases x) (simp_all add: turn_status_from_str_def)
  show "turn_status_from_str s = Some x \<Longrightarrow> turn_status_as_str x = s" for s x
    by (auto simp: turn_status_from_str_def split: if_splits)
qed

text \<open>How many moves a turn can still make.\<close>

fun turn_rank :: "turn_status \<Rightarrow> nat" where
  "turn_rank Queued = 3"
| "turn_rank Running = 2"
| "turn_rank Canceling = 1"
| "turn_rank _ = 0"

interpretation turn_machine: status_machine can_transition_to advances_queue turn_rank
proof
  show "\<not> can_transition_to x y" if "advances_queue x" for x y
    using that by (cases x) simp_all
  show "\<exists>y. can_transition_to x y" if "\<not> advances_queue x" for x
    using that by (cases x) auto
  show "turn_rank y < turn_rank x" if "can_transition_to x y" for x y
    using that by (cases x) auto
qed

text \<open>
  C39. The turn status machine is sound: a status that advances the queue is final, every
  other status is a stage on the way to one that does, no turn returns to a status it
  left, and the wire names are exactly the ones that parse back.\<close>
theorem turn_status_machine_sound:
  "(advances_queue x \<longrightarrow> can_transition_to\<^sup>*\<^sup>* x y \<longrightarrow> y = x) \<and>
   (\<exists>z. can_transition_to\<^sup>*\<^sup>* x z \<and> advances_queue z) \<and>
   \<not> can_transition_to\<^sup>+\<^sup>+ x x \<and>
   (turn_status_from_str s = Some x \<longleftrightarrow> s = turn_status_as_str x)"
  using turn_machine.terminal_absorbing turn_machine.reaches_terminal turn_machine.never_revisits
    turn_codec.from_str_Some_iff by blast

theorem turn_status_machine_sound_witness:
  "can_transition_to\<^sup>*\<^sup>* Failed Failed \<and> advances_queue Failed \<and> \<not> can_transition_to\<^sup>+\<^sup>+ Failed Failed"
  using turn_status_machine_sound [of Failed Failed "''failed''"] by auto

text \<open>Parsing a stored status; an unknown one is an internal error.\<close>

definition parse_status :: "string \<Rightarrow> sessions_error + turn_status" where
  "parse_status s = ok_or (SessInternal (''unknown Turn status '' @ s)) (turn_status_from_str s)"

definition parse_id :: "(string \<Rightarrow> string option) \<Rightarrow> string \<Rightarrow> sessions_error + string" where
  "parse_id U s = ok_or (SessInternal ''uuid'') (U s)"

lemma parse_status_as_str [simp]: "parse_status (turn_status_as_str x) = Inr x"
  by (simp add: parse_status_def turn_codec.from_as)

lemma parse_status_eq_Inr: "parse_status s = Inr x \<longleftrightarrow> s = turn_status_as_str x"
  by (simp add: parse_status_def turn_codec.from_str_Some_iff)

section \<open>Routes and model preferences\<close>

datatype message_route = RouteStarted | RouteQueued

fun message_route_as_str :: "message_route \<Rightarrow> string" where
  "message_route_as_str RouteStarted = ''started''"
| "message_route_as_str RouteQueued = ''queued''"

datatype reasoning_effort =
  EffortNone | EffortLow | EffortMedium | EffortHigh | EffortXhigh | EffortMax

fun reasoning_effort_as_str :: "reasoning_effort \<Rightarrow> string" where
  "reasoning_effort_as_str EffortNone = ''none''"
| "reasoning_effort_as_str EffortLow = ''low''"
| "reasoning_effort_as_str EffortMedium = ''medium''"
| "reasoning_effort_as_str EffortHigh = ''high''"
| "reasoning_effort_as_str EffortXhigh = ''xhigh''"
| "reasoning_effort_as_str EffortMax = ''max''"

text \<open>The derived deserialiser of the enum (\<open>rename_all = "snake_case"\<close>).\<close>

definition reasoning_effort_from_str :: "string \<Rightarrow> reasoning_effort option" where
  "reasoning_effort_from_str s =
    find_one (\<lambda>e. reasoning_effort_as_str e = s)
      [EffortNone, EffortLow, EffortMedium, EffortHigh, EffortXhigh, EffortMax]"

interpretation effort_codec: enum_codec reasoning_effort_as_str reasoning_effort_from_str
proof
  show "reasoning_effort_from_str (reasoning_effort_as_str x) = Some x" for x
    by (cases x) (simp_all add: reasoning_effort_from_str_def)
  show "reasoning_effort_from_str s = Some x \<Longrightarrow> reasoning_effort_as_str x = s" for s x
    by (auto simp: reasoning_effort_from_str_def split: if_splits)
qed

record session_model_preference =
  mp_provider_id :: string
  mp_upstream_model_id :: string
  mp_reasoning_effort :: reasoning_effort

section \<open>JSON of snapshots and preferences\<close>

text \<open>The derived serialisers: one key per field, in the order of the fields.\<close>

definition preference_to_value :: "session_model_preference \<Rightarrow> json" where
  "preference_to_value p = JObj
    [(''provider_id'', JStr (mp_provider_id p)),
     (''upstream_model_id'', JStr (mp_upstream_model_id p)),
     (''reasoning_effort'', JStr (reasoning_effort_as_str (mp_reasoning_effort p)))]"

text \<open>A required field of each kind, as the derived deserialisers read it.\<close>

definition field_str :: "string \<Rightarrow> json \<Rightarrow> string option" where
  "field_str k v = (case json_get k v of Some (JStr s) \<Rightarrow> Some s | _ \<Rightarrow> None)"

text \<open>An \<open>Option<String>\<close> field, which may be missing or null.\<close>

definition field_opt_str :: "string \<Rightarrow> json \<Rightarrow> string option option" where
  "field_opt_str k v =
    (case json_get k v of
       None \<Rightarrow> Some None | Some JNull \<Rightarrow> Some None | Some (JStr s) \<Rightarrow> Some (Some s) | Some _ \<Rightarrow> None)"

definition field_bool :: "string \<Rightarrow> json \<Rightarrow> bool option" where
  "field_bool k v = (case json_get k v of Some (JBool b) \<Rightarrow> Some b | _ \<Rightarrow> None)"

definition field_u32 :: "string \<Rightarrow> json \<Rightarrow> nat option" where
  "field_u32 k v =
    (case json_get k v of
       Some (JNum n) \<Rightarrow> if 0 \<le> n \<and> n \<le> int U32_MAX then Some (nat n) else None
     | _ \<Rightarrow> None)"

definition preference_from_value :: "json \<Rightarrow> session_model_preference option" where
  "preference_from_value v =
    (case (field_str ''provider_id'' v, field_str ''upstream_model_id'' v) of
       (Some p, Some u) \<Rightarrow>
         (case json_get ''reasoning_effort'' v of
            None \<Rightarrow> Some \<lparr>mp_provider_id = p, mp_upstream_model_id = u,
                          mp_reasoning_effort = EffortNone\<rparr>
          | Some (JStr s) \<Rightarrow>
              (case reasoning_effort_from_str s of
                 None \<Rightarrow> None
               | Some e \<Rightarrow> Some \<lparr>mp_provider_id = p, mp_upstream_model_id = u,
                                mp_reasoning_effort = e\<rparr>)
          | Some _ \<Rightarrow> None)
     | _ \<Rightarrow> None)"

lemma preference_value_roundtrip: "preference_from_value (preference_to_value p) = Some p"
  by (simp add: preference_from_value_def preference_to_value_def field_str_def effort_codec.from_as)

record turn_model_candidate_snapshot =
  mc_model_id :: string
  mc_provider_id :: string
  mc_display_name :: string
  mc_upstream_model_id :: string
  mc_context_limit :: nat
  mc_supports_images :: bool
  mc_supports_tools :: bool
  mc_parameters :: json

record turn_model_snapshot = turn_model_candidate_snapshot +
  mc_failover :: "turn_model_candidate_snapshot list"

definition candidate_fields :: "'x turn_model_candidate_snapshot_scheme \<Rightarrow> (string \<times> json) list" where
  "candidate_fields m =
    [(''model_id'', JStr (mc_model_id m)), (''provider_id'', JStr (mc_provider_id m)),
     (''display_name'', JStr (mc_display_name m)),
     (''upstream_model_id'', JStr (mc_upstream_model_id m)),
     (''context_limit'', JNum (int (mc_context_limit m))),
     (''supports_images'', JBool (mc_supports_images m)),
     (''supports_tools'', JBool (mc_supports_tools m)), (''parameters'', mc_parameters m)]"

definition snapshot_to_value :: "turn_model_snapshot \<Rightarrow> json" where
  "snapshot_to_value m = JObj (candidate_fields m @
     [(''failover'', JArr (map (\<lambda>c. JObj (candidate_fields c)) (mc_failover m)))])"

definition opt_snapshot_to_value :: "turn_model_snapshot option \<Rightarrow> json" where
  "opt_snapshot_to_value m = (case m of None \<Rightarrow> JNull | Some s \<Rightarrow> snapshot_to_value s)"

definition candidate_from_value :: "json \<Rightarrow> turn_model_candidate_snapshot option" where
  "candidate_from_value v =
    (case (field_str ''model_id'' v, field_str ''provider_id'' v, field_str ''display_name'' v,
           field_str ''upstream_model_id'' v, field_u32 ''context_limit'' v,
           field_bool ''supports_images'' v, field_bool ''supports_tools'' v,
           json_get ''parameters'' v) of
       (Some i, Some p, Some d, Some u, Some c, Some im, Some ts, Some pa) \<Rightarrow> Some
         \<lparr>mc_model_id = i, mc_provider_id = p, mc_display_name = d, mc_upstream_model_id = u,
          mc_context_limit = c, mc_supports_images = im, mc_supports_tools = ts,
          mc_parameters = pa\<rparr>
     | _ \<Rightarrow> None)"

primrec all_candidates :: "json list \<Rightarrow> turn_model_candidate_snapshot list option" where
  "all_candidates [] = Some []"
| "all_candidates (v # vs) =
     (case candidate_from_value v of None \<Rightarrow> None
      | Some c \<Rightarrow> (case all_candidates vs of None \<Rightarrow> None | Some cs \<Rightarrow> Some (c # cs)))"

definition snapshot_from_value :: "json \<Rightarrow> turn_model_snapshot option" where
  "snapshot_from_value v =
    (case candidate_from_value v of None \<Rightarrow> None
     | Some c \<Rightarrow>
        (case (case json_get ''failover'' v of
                 None \<Rightarrow> Some [] | Some (JArr xs) \<Rightarrow> all_candidates xs | Some _ \<Rightarrow> None) of
           None \<Rightarrow> None
         | Some f \<Rightarrow> Some (turn_model_candidate_snapshot.extend c
             (turn_model_snapshot.fields f))))"

text \<open>\<open>TurnModelSnapshot::parse\<close>.\<close>

definition snapshot_parse :: "serde \<Rightarrow> string \<Rightarrow> sessions_error + turn_model_snapshot option" where
  "snapshot_parse J raw =
    (case json_from_str J raw of
       None \<Rightarrow> Inl SessSerde
     | Some v \<Rightarrow>
         if v = JNull \<or> json_get ''provider_id'' v = None \<or> json_get ''provider_id'' v = Some JNull
         then Inr None
         else and_then (ok_or SessSerde (snapshot_from_value v)) (\<lambda>m. Inr (Some m)))"

definition candidate_ok :: "'x turn_model_candidate_snapshot_scheme \<Rightarrow> bool" where
  "candidate_ok m \<longleftrightarrow> mc_context_limit m \<le> U32_MAX"

lemma candidate_value_roundtrip:
  assumes "candidate_ok m"
  shows "candidate_from_value (JObj (candidate_fields m @ kvs)) =
    Some (turn_model_candidate_snapshot.truncate m)"
  using assms
  by (simp add: candidate_from_value_def candidate_fields_def candidate_ok_def field_str_def
      field_u32_def field_bool_def turn_model_candidate_snapshot.truncate_def)

lemma all_candidates_roundtrip:
  "\<forall>c \<in> set cs. candidate_ok c \<Longrightarrow> all_candidates (map (\<lambda>c. JObj (candidate_fields c)) cs) = Some cs"
proof (induction cs)
  case (Cons c cs)
  have "candidate_from_value (JObj (candidate_fields c)) = Some c"
    using Cons.prems candidate_value_roundtrip [of c "[]"]
    by (simp add: turn_model_candidate_snapshot.defs)
  with Cons show ?case by simp
qed simp

lemma snapshot_value_roundtrip:
  assumes "candidate_ok m" and "\<forall>c \<in> set (mc_failover m). candidate_ok c"
  shows "snapshot_from_value (snapshot_to_value m) = Some m"
proof -
  have c: "candidate_from_value (snapshot_to_value m) =
      Some (turn_model_candidate_snapshot.truncate m)"
    unfolding snapshot_to_value_def by (rule candidate_value_roundtrip [OF assms(1)])
  have f: "json_get ''failover'' (snapshot_to_value m) =
      Some (JArr (map (\<lambda>c. JObj (candidate_fields c)) (mc_failover m)))"
    by (simp add: snapshot_to_value_def candidate_fields_def)
  show ?thesis
    using all_candidates_roundtrip [OF assms(2)]
    by (simp add: snapshot_from_value_def c f turn_model_candidate_snapshot.defs
        turn_model_snapshot.defs)
qed

text \<open>
  A model snapshot stored on a turn reads back unchanged: writing
  \<open>serde_json::to_string(&model_snapshot)\<close> and parsing it with \<open>TurnModelSnapshot::parse\<close>
  gives the snapshot, failover candidates included, and the absent snapshot reads back as
  absent, for any JSON codec that parses what it printed and context limits that fit u32.\<close>
theorem snapshot_roundtrip:
  assumes codec: "\<And>v. json_from_str J (json_to_string J v) = Some v"
    and limits: "\<And>s. m = Some s \<Longrightarrow>
      candidate_ok s \<and> (\<forall>c \<in> set (mc_failover s). candidate_ok c)"
  shows "snapshot_parse J (json_to_string J (opt_snapshot_to_value m)) = Inr m"
proof (cases m)
  case None
  then show ?thesis by (simp add: snapshot_parse_def opt_snapshot_to_value_def codec)
next
  case (Some s)
  have "json_get ''provider_id'' (snapshot_to_value s) = Some (JStr (mc_provider_id s))"
    and "snapshot_to_value s \<noteq> JNull"
    by (simp_all add: snapshot_to_value_def candidate_fields_def)
  then show ?thesis
    using Some limits snapshot_value_roundtrip [of s]
    by (simp add: snapshot_parse_def opt_snapshot_to_value_def codec)
qed

definition sample_snapshot :: turn_model_snapshot where
  "sample_snapshot =
    \<lparr>mc_model_id = ''m1'', mc_provider_id = ''p1'', mc_display_name = ''Primary'',
     mc_upstream_model_id = ''u1'', mc_context_limit = 200000, mc_supports_images = True,
     mc_supports_tools = True, mc_parameters = JObj [(''reasoning_effort'', JStr ''high'')],
     mc_failover =
       [\<lparr>mc_model_id = ''m2'', mc_provider_id = ''p2'', mc_display_name = ''Backup'',
         mc_upstream_model_id = ''u2'', mc_context_limit = 8000, mc_supports_images = False,
         mc_supports_tools = True, mc_parameters = JObj []\<rparr>]\<rparr>"

theorem snapshot_roundtrip_witness:
  "snapshot_parse wire_serde
     (json_to_string wire_serde (opt_snapshot_to_value (Some sample_snapshot))) =
   Inr (Some sample_snapshot)"
  by (rule snapshot_roundtrip)
    (auto simp: wire_serde_roundtrip sample_snapshot_def candidate_ok_def)

section \<open>Documents\<close>

record session_row =
  s_id :: string
  s_project_id :: string
  s_title :: "string option"
  s_state :: string
  s_next_model_ref :: "string option"
  s_active_turn_id :: "string option"
  s_version :: string
  s_created_at :: int
  s_updated_at :: int
  s_last_activity_at :: int

record turn_row =
  tn_id :: string
  tn_session_id :: string
  tn_sequence :: int
  tn_status :: string
  tn_input_message_id :: "string option"
  tn_model_snapshot_json :: string
  tn_goal_mode :: int
  tn_predecessor_turn_id :: "string option"
  tn_completion_summary_json :: "string option"
  tn_completion_reason :: "string option"
  tn_cancellation_reason :: "string option"
  tn_input_tokens :: int
  tn_output_tokens :: int
  tn_version :: string
  tn_created_at :: int
  tn_updated_at :: int

record message_row =
  ms_id :: string
  ms_session_id :: string
  ms_turn_id :: "string option"
  ms_actor_json :: string
  ms_kind :: string
  ms_body_json :: string
  ms_status :: string
  ms_timeline_sequence :: "int option"
  ms_version :: string
  ms_created_at :: int

record timeline_row =
  tl_id :: string
  tl_session_id :: string
  tl_turn_id :: "string option"
  tl_kind :: string
  tl_source_resource_id :: "string option"
  tl_display_order :: int
  tl_projection_json :: string
  tl_status :: string
  tl_version :: string
  tl_created_at :: int
  tl_updated_at :: int

record checkpoint_row =
  cp_id :: string
  cp_session_id :: string
  cp_kind :: string
  cp_timeline_position :: int
  cp_workspace_revision_id :: string
  cp_source_message_id :: string
  cp_source_turn_id :: string
  cp_created_at :: int

record upload_row =
  up_id :: string
  up_owner_id :: string
  up_original_name :: string
  up_mime :: string
  up_byte_size :: int
  up_blob_sha :: string
  up_scan_status :: string
  up_created_at :: int

record attachment_row =
  at_id :: string
  at_session_id :: string
  at_source_kind :: string
  at_upload_id :: "string option"
  at_name :: string
  at_mime :: string
  at_byte_size :: int
  at_blob_sha :: "string option"
  at_lifecycle :: string
  at_version :: string
  at_created_at :: int

record message_attachment_row =
  ma_message_id :: string
  ma_attachment_id :: string
  ma_ord :: int

record sessions_db = journal_db +
  sessions :: "session_row list"
  turns :: "turn_row list"
  messages :: "message_row list"
  timeline_items :: "timeline_row list"
  checkpoints :: "checkpoint_row list"
  attachments :: "attachment_row list"
  message_attachments :: "message_attachment_row list"
  uploads :: "upload_row list"

definition version_tag :: "string \<Rightarrow> string" where
  "version_tag i = ''v_'' @ i"

section \<open>Index-checked writes\<close>

text \<open>
  The \<open>turns\<close> collection has the unique indexes of \<open>crates/infrastructure/src/schema.rs\<close>: the
  id, \<open>turns_session_idx\<close> on session and sequence, and \<open>turns_one_active_per_session\<close> on the
  session of running and canceling turns. A write that would break one is a storage error.
\<close>

definition active_row :: "turn_row \<Rightarrow> bool" where
  "active_row t \<longleftrightarrow> tn_status t = ''running'' \<or> tn_status t = ''canceling''"

definition turns_indexed :: "turn_row list \<Rightarrow> bool" where
  "turns_indexed c \<longleftrightarrow> distinct (map tn_id c) \<and>
     distinct (map (\<lambda>t. (tn_session_id t, tn_sequence t)) c) \<and>
     distinct (map tn_session_id (filter active_row c))"

definition insert_turn :: "turn_row \<Rightarrow> 'x sessions_db_scheme \<Rightarrow> sessions_error + 'x sessions_db_scheme" where
  "insert_turn t db =
    (if turns_indexed (turns db @ [t]) then Inr (db\<lparr>turns := turns db @ [t]\<rparr>) else Inl SessStorage)"

definition update_turn ::
  "(turn_row \<Rightarrow> bool) \<Rightarrow> (turn_row \<Rightarrow> turn_row) \<Rightarrow> 'x sessions_db_scheme \<Rightarrow>
    sessions_error + (nat \<times> 'x sessions_db_scheme)" where
  "update_turn P f db =
    (let (c, n) = update_one P f (turns db)
     in if turns_indexed c then Inr (n, db\<lparr>turns := c\<rparr>) else Inl SessStorage)"

definition update_session ::
  "(session_row \<Rightarrow> bool) \<Rightarrow> (session_row \<Rightarrow> session_row) \<Rightarrow> 'x sessions_db_scheme \<Rightarrow>
    nat \<times> 'x sessions_db_scheme" where
  "update_session P f db =
    (let (c, n) = update_one P f (sessions db) in (n, db\<lparr>sessions := c\<rparr>))"

definition insert_message :: "message_row \<Rightarrow> 'x sessions_db_scheme \<Rightarrow> sessions_error + 'x sessions_db_scheme" where
  "insert_message m db = and_then (ok_or SessStorage (insert_one ms_id m (messages db)))
     (\<lambda>c. Inr (db\<lparr>messages := c\<rparr>))"

definition insert_timeline :: "timeline_row \<Rightarrow> 'x sessions_db_scheme \<Rightarrow> sessions_error + 'x sessions_db_scheme" where
  "insert_timeline t db = and_then (ok_or SessStorage (insert_one tl_id t (timeline_items db)))
     (\<lambda>c. Inr (db\<lparr>timeline_items := c\<rparr>))"

text \<open>\<open>i64\<close> successor in the release profile, where overflow wraps.\<close>

definition i64_succ :: "int \<Rightarrow> int" where
  "i64_succ n = (if n = I64_MAX then - I64_MAX - 1 else n + 1)"

end
