(* ===== verification/Turn_Content.thy ===== *)
theory Turn_Content
  imports Session_Types
begin

text \<open>
  Turn content (\<open>crates/sessions/src/execution/persistence.rs\<close>): the reads that rebuild a
  conversation and the transactional writes of turn inputs, steers, assistant messages,
  tool results, compaction marks and checkpoints. Each write returns its result with the
  database it produced; an error leaves the enclosing transaction to abort.
\<close>

section \<open>Timeline positions and checkpoints\<close>

definition next_timeline_position_in_tx :: "string \<Rightarrow> 'x sessions_db_scheme \<Rightarrow> int" where
  "next_timeline_position_in_tx session_id db =
    (let items_max = (case find_last_by (\<lambda>t. tl_session_id t = session_id) tl_display_order
                        (timeline_items db) of None \<Rightarrow> 0 | Some t \<Rightarrow> tl_display_order t);
         order = (\<lambda>m. case ms_timeline_sequence m of None \<Rightarrow> 0 | Some n \<Rightarrow> n);
         messages_max = (case find_last_by
                           (\<lambda>m. ms_session_id m = session_id \<and> ms_timeline_sequence m \<noteq> None)
                           order (messages db) of None \<Rightarrow> 0 | Some m \<Rightarrow> order m)
     in i64_succ (max items_max messages_max))"

definition insert_checkpoint_in_tx ::
  "string \<Rightarrow> string \<Rightarrow> string \<Rightarrow> string \<Rightarrow> int \<Rightarrow> string \<Rightarrow> int \<Rightarrow>
    'x sessions_db_scheme \<Rightarrow> sessions_error + (string \<times> 'x sessions_db_scheme)" where
  "insert_checkpoint_in_tx checkpoint_id session_id turn_id message_id timeline_position
      workspace_revision now db =
    and_then (ok_or SessStorage (insert_one cp_id
        \<lparr>cp_id = checkpoint_id, cp_session_id = session_id, cp_kind = ''pre_turn'',
         cp_timeline_position = timeline_position,
         cp_workspace_revision_id = workspace_revision, cp_source_message_id = message_id,
         cp_source_turn_id = turn_id, cp_created_at = now\<rparr> (checkpoints db)))
      (\<lambda>c. Inr (checkpoint_id, db\<lparr>checkpoints := c\<rparr>))"

definition insert_checkpoint_for_turn_in_tx ::
  "string \<Rightarrow> string \<Rightarrow> string \<Rightarrow> string \<Rightarrow> int \<Rightarrow>
    'x sessions_db_scheme \<Rightarrow> sessions_error + 'x sessions_db_scheme" where
  "insert_checkpoint_for_turn_in_tx checkpoint_id session_id turn_id workspace_revision now db =
    and_then (ok_or NotFound
        (find_one (\<lambda>t. tn_id t = turn_id \<and> tn_session_id t = session_id) (turns db)))
      (\<lambda>turn. and_then (ok_or NotFound (tn_input_message_id turn))
      (\<lambda>message_id.
        let position = (case find_one (\<lambda>m. ms_id m = message_id) (messages db) of
                          None \<Rightarrow> Inr 0
                        | Some m \<Rightarrow> ok_or (SessInternal ''accessor'') (ms_timeline_sequence m))
        in and_then position
      (\<lambda>timeline_position. and_then
          (insert_checkpoint_in_tx checkpoint_id session_id turn_id message_id timeline_position
             workspace_revision now db)
      (\<lambda>(_, db'). Inr db'))))"

section \<open>Reads\<close>

record execution_turn_view =
  et_id :: string
  et_session_id :: string
  et_project_id :: string
  et_status :: turn_status
  et_sequence :: int
  et_active :: bool
  et_goal_mode :: bool
  et_model_snapshot :: "turn_model_snapshot option"

definition execution_turn ::
  "serde \<Rightarrow> (string \<Rightarrow> string option) \<Rightarrow> string \<Rightarrow> 'x sessions_db_scheme \<Rightarrow>
    sessions_error + execution_turn_view" where
  "execution_turn J U turn_id db =
    and_then (ok_or NotFound (find_one (\<lambda>t. tn_id t = turn_id) (turns db)))
      (\<lambda>turn. and_then (ok_or NotFound (find_one (\<lambda>s. s_id s = tn_session_id turn) (sessions db)))
      (\<lambda>session. and_then (parse_id U (tn_id turn))
      (\<lambda>i. and_then (parse_id U (tn_session_id turn))
      (\<lambda>sid. and_then (parse_id U (s_project_id session))
      (\<lambda>pid. and_then (parse_status (tn_status turn))
      (\<lambda>status. and_then (snapshot_parse J (tn_model_snapshot_json turn))
      (\<lambda>snapshot. Inr
        \<lparr>et_id = i, et_session_id = sid, et_project_id = pid, et_status = status,
         et_sequence = tn_sequence turn, et_active = (s_active_turn_id session = Some i),
         et_goal_mode = (tn_goal_mode turn \<noteq> 0), et_model_snapshot = snapshot\<rparr>)))))))"

record context_message =
  cm_turn_id :: "string option"
  cm_kind :: string
  cm_body :: json
  cm_timeline_sequence :: int

definition context_message_of :: "serde \<Rightarrow> message_row \<Rightarrow> sessions_error + context_message" where
  "context_message_of J m =
    and_then (ok_or SessSerde (json_from_str J (ms_body_json m)))
      (\<lambda>body. Inr \<lparr>cm_turn_id = ms_turn_id m, cm_kind = ms_kind m, cm_body = body,
        cm_timeline_sequence = (case ms_timeline_sequence m of None \<Rightarrow> 0 | Some n \<Rightarrow> n)\<rparr>)"

definition message_order :: "message_row \<Rightarrow> int option \<times> int \<times> string" where
  "message_order m = (ms_timeline_sequence m, ms_created_at m, ms_id m)"

definition after_position :: "int \<Rightarrow> message_row \<Rightarrow> bool" where
  "after_position n m \<longleftrightarrow> (case ms_timeline_sequence m of None \<Rightarrow> False | Some k \<Rightarrow> k > n)"

definition terminal_row :: "turn_row \<Rightarrow> bool" where
  "terminal_row t \<longleftrightarrow> tn_status t \<in> {''completed'', ''failed'', ''canceled'', ''interrupted''}"

definition context_messages_since ::
  "serde \<Rightarrow> string \<Rightarrow> string \<Rightarrow> string option \<Rightarrow> 'x sessions_db_scheme \<Rightarrow>
    sessions_error + context_message list" where
  "context_messages_since J session_id turn_id after_timeline_id db =
    and_then (ok_or NotFound (find_one (\<lambda>t. tn_id t = turn_id) (turns db)))
      (\<lambda>current.
        if tn_session_id current \<noteq> session_id then Inl NotFound
        else
          let terminal_ids = map tn_id (filter (\<lambda>t. tn_session_id t = session_id \<and>
                terminal_row t \<and> tn_sequence t < tn_sequence current) (turns db));
              after_order = (case after_timeline_id of None \<Rightarrow> 0
                | Some a \<Rightarrow> (case find_one (\<lambda>t. tl_id t = a \<and> tl_session_id t = session_id)
                                (timeline_items db) of
                    None \<Rightarrow> 0 | Some t \<Rightarrow> tl_display_order t));
              visible = (\<lambda>m. ms_session_id m = session_id \<and> ms_status m = ''active'' \<and>
                (ms_turn_id m = None \<or> ms_turn_id m = Some turn_id \<or>
                 (\<exists>i \<in> set terminal_ids. ms_turn_id m = Some i)) \<and>
                (after_timeline_id \<noteq> None \<longrightarrow> after_position after_order m))
          in try_map (context_message_of J) (sort_key message_order (filter visible (messages db))))"

definition context_messages ::
  "serde \<Rightarrow> string \<Rightarrow> string \<Rightarrow> 'x sessions_db_scheme \<Rightarrow> sessions_error + context_message list" where
  "context_messages J session_id turn_id db = context_messages_since J session_id turn_id None db"

definition context_messages_after_timeline ::
  "serde \<Rightarrow> string \<Rightarrow> string \<Rightarrow> string \<Rightarrow> 'x sessions_db_scheme \<Rightarrow>
    sessions_error + context_message list" where
  "context_messages_after_timeline J session_id turn_id after_timeline_id db =
    context_messages_since J session_id turn_id (Some after_timeline_id) db"

definition turn_inputs_after ::
  "serde \<Rightarrow> string \<Rightarrow> int \<Rightarrow> 'x sessions_db_scheme \<Rightarrow> sessions_error + context_message list" where
  "turn_inputs_after J turn_id after_sequence db =
    try_map (context_message_of J) (sort_key message_order
      (filter (\<lambda>m. ms_turn_id m = Some turn_id \<and> ms_status m = ''active'' \<and> ms_kind m = ''user'' \<and>
                  after_position after_sequence m) (messages db)))"

definition turn_status_in_tx ::
  "string \<Rightarrow> 'x sessions_db_scheme \<Rightarrow> sessions_error + turn_status option" where
  "turn_status_in_tx turn_id db =
    (case find_one (\<lambda>t. tn_id t = turn_id) (turns db) of
       None \<Rightarrow> Inr None
     | Some t \<Rightarrow> and_then (parse_status (tn_status t)) (\<lambda>s. Inr (Some s)))"

section \<open>Compaction marks\<close>

definition opt_json :: "string option \<Rightarrow> json" where
  "opt_json s = (case s of None \<Rightarrow> JNull | Some t \<Rightarrow> JStr t)"

record context_compacted_input =
  cc_session_id :: string
  cc_compact_summary_id :: string
  cc_source_first :: "string option"
  cc_source_last :: string
  cc_summary :: json
  cc_now :: int

definition append_context_compacted_in_tx ::
  "serde \<Rightarrow> string \<Rightarrow> string \<Rightarrow> context_compacted_input \<Rightarrow> 'x sessions_db_scheme \<Rightarrow>
    sessions_error + ((string \<times> bool) \<times> 'x sessions_db_scheme)" where
  "append_context_compacted_in_tx J item_id version i db =
    (case find_one (\<lambda>t. tl_session_id t = cc_session_id i \<and> tl_kind t = ''context_compacted'' \<and>
              tl_source_resource_id t = Some (cc_compact_summary_id i)) (timeline_items db) of
       Some existing \<Rightarrow> Inr ((tl_id existing, False), db)
     | None \<Rightarrow>
        let display_order = next_timeline_position_in_tx (cc_session_id i) db;
            item_count = (case json_get ''item_count'' (cc_summary i) of None \<Rightarrow> JNull | Some v \<Rightarrow> v);
            projection = JObj
              [(''kind'', JStr ''context_compacted''), (''title'', JStr ''Context Compacted''),
               (''compact_summary_id'', JStr (cc_compact_summary_id i)),
               (''source_first_timeline_id'', opt_json (cc_source_first i)),
               (''source_last_timeline_id'', JStr (cc_source_last i)),
               (''item_count'', item_count), (''summary'', cc_summary i)]
        in and_then (insert_timeline
             \<lparr>tl_id = item_id, tl_session_id = cc_session_id i, tl_turn_id = None,
              tl_kind = ''context_compacted'',
              tl_source_resource_id = Some (cc_compact_summary_id i),
              tl_display_order = display_order, tl_projection_json = json_to_string J projection,
              tl_status = ''active'', tl_version = version_tag version,
              tl_created_at = cc_now i, tl_updated_at = cc_now i\<rparr> db)
           (\<lambda>db'. Inr ((item_id, True), db')))"

section \<open>Turn inputs\<close>

record message_attachment =
  mat_id :: string
  mat_name :: string
  mat_mime :: string
  mat_byte_size :: nat

record create_turn_input =
  ct_session_id :: string
  ct_content :: string
  ct_actor :: json
  ct_message_kind :: string
  ct_timeline_kind :: string
  ct_metadata :: "json option"
  ct_goal_mode :: bool
  ct_predecessor_turn_id :: "string option"
  ct_attachment_ids :: "string list"
  ct_model_snapshot :: "turn_model_snapshot option"
  ct_checkpoint_revision :: "string option"
  ct_now :: int

text \<open>The ids one call draws; attachment versions are drawn per attachment.\<close>

record turn_input_gen =
  tg_turn_id :: string
  tg_message_id :: string
  tg_timeline_item_id :: string
  tg_turn_version :: string
  tg_message_version :: string
  tg_attachment_version :: "string \<Rightarrow> string"
  tg_item_version :: string
  tg_checkpoint_id :: string

record created_turn_input =
  cr_turn_id :: string
  cr_message_id :: string
  cr_timeline_item_id :: string
  cr_sequence :: int
  cr_display_order :: int
  cr_checkpoint_id :: "string option"

text \<open>The validation loop over the attachment ids, with the ids seen and the bytes so far.\<close>

primrec gather_attachments ::
  "string \<Rightarrow> attachment_row list \<Rightarrow> string list \<Rightarrow> string list \<Rightarrow> nat \<Rightarrow>
    sessions_error + (message_attachment list \<times> nat)" where
  "gather_attachments session_id c [] seen message_bytes = Inr ([], message_bytes)"
| "gather_attachments session_id c (a # as) seen message_bytes =
    (if a \<in> set seen then Inl (Validation ''attachment ids must be unique'')
     else case find_one (\<lambda>r. at_id r = a \<and> at_session_id r = session_id \<and>
                 (at_lifecycle r = ''draft'' \<or> at_lifecycle r = ''attached'')) c of
       None \<Rightarrow> Inl (Validation ''attachment is missing or belongs to another session'')
     | Some r \<Rightarrow>
        if at_byte_size r < 0 then Inl (SessInternal ''try_from'')
        else (case checked_add_u64 message_bytes (nat (at_byte_size r)) of
          None \<Rightarrow> Inl (Validation ''message is too large'')
        | Some bytes' \<Rightarrow> and_then (gather_attachments session_id c as (a # seen) bytes')
            (\<lambda>(rest, bytes). Inr
              (\<lparr>mat_id = a, mat_name = at_name r, mat_mime = at_mime r,
                mat_byte_size = nat (at_byte_size r)\<rparr> # rest, bytes))))"

definition validate_turn_input ::
  "create_turn_input \<Rightarrow> 'x sessions_db_scheme \<Rightarrow> sessions_error + message_attachment list" where
  "validate_turn_input i db =
    (if \<not> (ct_message_kind i = ''user'' \<or> ct_message_kind i = ''system'') \<or>
        str_trim (ct_timeline_kind i) = []
     then Inl (Validation ''invalid message or timeline kind'')
     else if str_trim (ct_content i) = [] \<and> ct_attachment_ids i = []
     then Inl (Validation ''message content or an attachment is required'')
     else if length (ct_attachment_ids i) > MAX_ATTACHMENTS
     then Inl (Validation (''a message supports at most '' @ string_of_nat MAX_ATTACHMENTS @
            '' attachments''))
     else and_then (gather_attachments (ct_session_id i) (attachments db) (ct_attachment_ids i) []
                      (length (ct_content i)))
       (\<lambda>(atts, message_bytes).
          if message_bytes > MAX_MESSAGE_BYTES
          then Inl (Validation (''message content and attachments exceed '' @
                 string_of_nat MAX_MESSAGE_BYTES @ '' bytes''))
          else Inr atts))"

definition next_sequence :: "string \<Rightarrow> 'x sessions_db_scheme \<Rightarrow> int" where
  "next_sequence session_id db =
    i64_succ (case find_last_by (\<lambda>t. tn_session_id t = session_id) tn_sequence (turns db) of
                None \<Rightarrow> 0 | Some t \<Rightarrow> tn_sequence t)"

text \<open>\<open>Map::extend\<close> with the metadata object, if it is one.\<close>

definition extend_object :: "json option \<Rightarrow> (string \<times> json) list \<Rightarrow> (string \<times> json) list" where
  "extend_object metadata kvs =
    (case metadata of Some (JObj extra) \<Rightarrow> fold (\<lambda>(k, v). obj_insert k v) extra kvs | _ \<Rightarrow> kvs)"

definition message_body :: "string \<Rightarrow> message_attachment list \<Rightarrow> json option \<Rightarrow> json" where
  "message_body content atts metadata =
    (let parts = (if content = [] then [] else
                   [JObj [(''type'', JStr ''text''), (''text'', JStr content)]]) @
          map (\<lambda>a. JObj [(''type'', JStr ''attachment_reference''),
                 (''attachment_id'', JStr (mat_id a)), (''name'', JStr (mat_name a)),
                 (''mime'', JStr (mat_mime a)), (''byte_size'', JNum (int (mat_byte_size a)))]) atts
     in JObj (extend_object metadata [(''parts'', JArr parts)]))"

definition input_projection ::
  "turn_input_gen \<Rightarrow> create_turn_input \<Rightarrow> message_attachment list \<Rightarrow> json" where
  "input_projection g i atts = JObj (extend_object (ct_metadata i)
    [(''kind'', JStr (ct_timeline_kind i)), (''message_id'', JStr (tg_message_id g)),
     (''turn_id'', JStr (tg_turn_id g)), (''text'', JStr (ct_content i)),
     (''attachments'', JArr (map (\<lambda>a. JObj
        [(''id'', JStr (mat_id a)), (''name'', JStr (mat_name a)), (''mime'', JStr (mat_mime a)),
         (''byte_size'', JNum (int (mat_byte_size a)))]) atts))])"

definition new_turn_row ::
  "serde \<Rightarrow> turn_input_gen \<Rightarrow> create_turn_input \<Rightarrow> int \<Rightarrow> turn_row" where
  "new_turn_row J g i sequence =
    \<lparr>tn_id = tg_turn_id g, tn_session_id = ct_session_id i, tn_sequence = sequence,
     tn_status = ''queued'', tn_input_message_id = Some (tg_message_id g),
     tn_model_snapshot_json = json_to_string J (opt_snapshot_to_value (ct_model_snapshot i)),
     tn_goal_mode = (if ct_goal_mode i then 1 else 0),
     tn_predecessor_turn_id = ct_predecessor_turn_id i, tn_completion_summary_json = None,
     tn_completion_reason = None, tn_cancellation_reason = None, tn_input_tokens = 0,
     tn_output_tokens = 0, tn_version = version_tag (tg_turn_version g),
     tn_created_at = ct_now i, tn_updated_at = ct_now i\<rparr>"

text \<open>One iteration per attachment: the link row, and the draft becomes attached.\<close>

primrec link_attachments ::
  "turn_input_gen \<Rightarrow> nat \<Rightarrow> message_attachment list \<Rightarrow> 'x sessions_db_scheme \<Rightarrow>
    sessions_error + 'x sessions_db_scheme" where
  "link_attachments g ordinal [] db = Inr db"
| "link_attachments g ordinal (a # as) db =
    and_then (ok_or SessStorage (insert_one (\<lambda>m. (ma_message_id m, ma_attachment_id m))
        \<lparr>ma_message_id = tg_message_id g, ma_attachment_id = mat_id a, ma_ord = int ordinal\<rparr>
        (message_attachments db)))
      (\<lambda>links. link_attachments g (Suc ordinal) as
        (db\<lparr>message_attachments := links,
            attachments := fst (update_one
              (\<lambda>r. at_id r = mat_id a \<and> at_lifecycle r = ''draft'')
              (\<lambda>r. r\<lparr>at_lifecycle := ''attached'',
                      at_version := version_tag (tg_attachment_version g (mat_id a))\<rparr>)
              (attachments db))\<rparr>))"

definition create_turn_input_in_tx ::
  "serde \<Rightarrow> turn_input_gen \<Rightarrow> create_turn_input \<Rightarrow> 'x sessions_db_scheme \<Rightarrow>
    sessions_error + (created_turn_input \<times> 'x sessions_db_scheme)" where
  "create_turn_input_in_tx J g i db =
    and_then (validate_turn_input i db)
      (\<lambda>atts.
        let sequence = next_sequence (ct_session_id i) db;
            display_order = next_timeline_position_in_tx (ct_session_id i) db
        in and_then (insert_turn (new_turn_row J g i sequence) db)
      (\<lambda>db1. and_then (insert_message
           \<lparr>ms_id = tg_message_id g, ms_session_id = ct_session_id i,
            ms_turn_id = Some (tg_turn_id g), ms_actor_json = json_to_string J (ct_actor i),
            ms_kind = ct_message_kind i,
            ms_body_json = json_to_string J (message_body (ct_content i) atts (ct_metadata i)),
            ms_status = ''active'', ms_timeline_sequence = Some display_order,
            ms_version = version_tag (tg_message_version g), ms_created_at = ct_now i\<rparr> db1)
      (\<lambda>db2. and_then (link_attachments g 0 atts db2)
      (\<lambda>db3. and_then (insert_timeline
           \<lparr>tl_id = tg_timeline_item_id g, tl_session_id = ct_session_id i,
            tl_turn_id = Some (tg_turn_id g), tl_kind = ct_timeline_kind i,
            tl_source_resource_id = Some (tg_message_id g), tl_display_order = display_order,
            tl_projection_json = json_to_string J (input_projection g i atts),
            tl_status = ''active'', tl_version = version_tag (tg_item_version g),
            tl_created_at = ct_now i, tl_updated_at = ct_now i\<rparr> db3)
      (\<lambda>db4. and_then
           (case ct_checkpoint_revision i of
              None \<Rightarrow> Inr (None, db4)
            | Some revision \<Rightarrow> and_then
                (insert_checkpoint_in_tx (tg_checkpoint_id g) (ct_session_id i) (tg_turn_id g)
                   (tg_message_id g) display_order revision (ct_now i) db4)
                (\<lambda>(c, db5). Inr (Some c, db5)))
      (\<lambda>(checkpoint_id, db5). Inr
         (\<lparr>cr_turn_id = tg_turn_id g, cr_message_id = tg_message_id g,
           cr_timeline_item_id = tg_timeline_item_id g, cr_sequence = sequence,
           cr_display_order = display_order, cr_checkpoint_id = checkpoint_id\<rparr>, db5)))))))"

section \<open>Steers\<close>

record append_steer_input =
  sx_session_id :: string
  sx_expected_turn_id :: "string option"
  sx_content :: string
  sx_expected_version :: string
  sx_actor :: json
  sx_now :: int

record steer_gen =
  sg_message_id :: string
  sg_timeline_item_id :: string
  sg_message_version :: string
  sg_item_version :: string
  sg_session_version :: string

record steer_result =
  sr_turn_id :: string
  sr_message_id :: string
  sr_session_version :: string

text \<open>The guards of a steer: the active turn it binds to.\<close>

definition steer_target ::
  "(string \<Rightarrow> string option) \<Rightarrow> append_steer_input \<Rightarrow> 'x sessions_db_scheme \<Rightarrow>
    sessions_error + string" where
  "steer_target U i db =
    and_then (ok_or NotFound (find_one (\<lambda>s. s_id s = sx_session_id i) (sessions db)))
      (\<lambda>session.
        if s_state session = ''deleting'' then Inl SessionDeleting
        else if s_version session \<noteq> sx_expected_version i
        then Inl (VersionMismatch (sx_expected_version i) (s_version session))
        else and_then (ok_or TurnNotInteractive (s_active_turn_id session))
      (\<lambda>raw. and_then (parse_id U raw)
      (\<lambda>active_turn_id.
        if (\<exists>expected. sx_expected_turn_id i = Some expected \<and> expected \<noteq> active_turn_id)
        then Inl TurnNotInteractive
        else and_then (ok_or TurnNotInteractive
               (find_one (\<lambda>t. tn_id t = active_turn_id) (turns db)))
      (\<lambda>turn. and_then (parse_status (tn_status turn))
      (\<lambda>status. if is_interactive status then Inr active_turn_id
                 else Inl TurnNotInteractive)))))"

definition append_steer_in_tx ::
  "serde \<Rightarrow> (string \<Rightarrow> string option) \<Rightarrow> steer_gen \<Rightarrow> append_steer_input \<Rightarrow>
    'x sessions_db_scheme \<Rightarrow> sessions_error + ((steer_result \<times> string) \<times> 'x sessions_db_scheme)" where
  "append_steer_in_tx J U g i db =
    and_then (steer_target U i db)
      (\<lambda>active_turn_id.
        let display_order = next_timeline_position_in_tx (sx_session_id i) db
        in and_then (insert_message
             \<lparr>ms_id = sg_message_id g, ms_session_id = sx_session_id i,
              ms_turn_id = Some active_turn_id, ms_actor_json = json_to_string J (sx_actor i),
              ms_kind = ''user'',
              ms_body_json = json_to_string J (JObj
                [(''parts'', JArr [JObj [(''type'', JStr ''text''), (''text'', JStr (sx_content i))]]),
                 (''steer'', JBool True)]),
              ms_status = ''active'', ms_timeline_sequence = Some display_order,
              ms_version = version_tag (sg_message_version g), ms_created_at = sx_now i\<rparr> db)
      (\<lambda>db1. and_then (insert_timeline
             \<lparr>tl_id = sg_timeline_item_id g, tl_session_id = sx_session_id i,
              tl_turn_id = Some active_turn_id, tl_kind = ''steer'',
              tl_source_resource_id = Some (sg_message_id g), tl_display_order = display_order,
              tl_projection_json = json_to_string J (JObj
                [(''kind'', JStr ''steer''), (''message_id'', JStr (sg_message_id g)),
                 (''turn_id'', JStr active_turn_id), (''text'', JStr (sx_content i))]),
              tl_status = ''active'', tl_version = version_tag (sg_item_version g),
              tl_created_at = sx_now i, tl_updated_at = sx_now i\<rparr> db1)
      (\<lambda>db2.
        let (changed, db3) = update_session
              (\<lambda>s. s_id s = sx_session_id i \<and> s_version s = sx_expected_version i \<and>
                   s_active_turn_id s = Some active_turn_id)
              (\<lambda>s. s\<lparr>s_version := version_tag (sg_session_version g), s_updated_at := sx_now i\<rparr>) db2
        in if changed \<noteq> 1 then Inl (SessInternal ''Session changed while recording Steer'')
           else Inr ((\<lparr>sr_turn_id = active_turn_id, sr_message_id = sg_message_id g,
                       sr_session_version = version_tag (sg_session_version g)\<rparr>,
                      sg_timeline_item_id g), db3))))"

section \<open>Assistant messages and tool results\<close>

record append_assistant_message =
  am_session_id :: string
  am_turn_id :: string
  am_round_id :: string
  am_text :: string
  am_reasoning :: string
  am_reasoning_content :: "string option"
  am_duration_ms :: "int option"
  am_tool_calls :: json
  am_actor :: json
  am_now :: int

record message_gen =
  mg_message_id :: string
  mg_message_version :: string
  mg_timeline_item_id :: string
  mg_item_version :: string

definition assistant_body :: "append_assistant_message \<Rightarrow> json" where
  "assistant_body i = JObj
    ((case am_reasoning_content i of None \<Rightarrow> id
      | Some raw \<Rightarrow> obj_insert ''reasoning_content'' (JStr raw))
     [(''parts'', JArr [JObj [(''type'', JStr ''text''), (''text'', JStr (am_text i))]]),
      (''reasoning'', JStr (am_reasoning i)), (''tool_calls'', am_tool_calls i)])"

definition assistant_projection :: "message_gen \<Rightarrow> append_assistant_message \<Rightarrow> json" where
  "assistant_projection g i = JObj
    ((case am_duration_ms i of None \<Rightarrow> id | Some ms \<Rightarrow> obj_insert ''duration_ms'' (JNum ms))
     [(''kind'', JStr ''assistant_message''), (''message_id'', JStr (mg_message_id g)),
      (''round_id'', JStr (am_round_id i)), (''text'', JStr (am_text i)),
      (''reasoning'', JStr (am_reasoning i))])"

definition append_assistant_message_in_tx ::
  "serde \<Rightarrow> message_gen \<Rightarrow> append_assistant_message \<Rightarrow> 'x sessions_db_scheme \<Rightarrow>
    sessions_error + ((string \<times> string option \<times> int) \<times> 'x sessions_db_scheme)" where
  "append_assistant_message_in_tx J g i db =
    (let display_order = next_timeline_position_in_tx (am_session_id i) db
     in and_then (insert_message
          \<lparr>ms_id = mg_message_id g, ms_session_id = am_session_id i,
           ms_turn_id = Some (am_turn_id i), ms_actor_json = json_to_string J (am_actor i),
           ms_kind = ''assistant'', ms_body_json = json_to_string J (assistant_body i),
           ms_status = ''active'', ms_timeline_sequence = Some display_order,
           ms_version = version_tag (mg_message_version g), ms_created_at = am_now i\<rparr> db)
       (\<lambda>db1.
         if am_text i = [] \<and> am_reasoning i = []
         then Inr ((mg_message_id g, None, display_order), db1)
         else and_then (insert_timeline
           \<lparr>tl_id = mg_timeline_item_id g, tl_session_id = am_session_id i,
            tl_turn_id = Some (am_turn_id i), tl_kind = ''assistant_message'',
            tl_source_resource_id = Some (mg_message_id g), tl_display_order = display_order,
            tl_projection_json = json_to_string J (assistant_projection g i),
            tl_status = ''active'', tl_version = version_tag (mg_item_version g),
            tl_created_at = am_now i, tl_updated_at = am_now i\<rparr> db1)
         (\<lambda>db2. Inr ((mg_message_id g, Some (mg_timeline_item_id g), display_order), db2))))"

record tool_result_input =
  tr_session_id :: string
  tr_turn_id :: string
  tr_tool_call_id :: string
  tr_provider_call_id :: string
  tr_tool_name :: string
  tr_status :: string
  tr_summary :: json
  tr_model_parts :: json
  tr_now :: int

record append_tool_result_input = tool_result_input +
  tr_actor :: json

definition tool_projection :: "'x tool_result_input_scheme \<Rightarrow> json" where
  "tool_projection i = JObj
    [(''kind'', JStr ''tool_call''), (''tool_call_id'', JStr (tr_tool_call_id i)),
     (''tool_name'', JStr (tr_tool_name i)), (''status'', JStr (tr_status i)),
     (''summary'', tr_summary i)]"

definition tool_message :: "'x tool_result_input_scheme \<Rightarrow> json" where
  "tool_message i = JObj
    [(''parts'', tr_model_parts i), (''tool_call_id'', JStr (tr_provider_call_id i)),
     (''resource_tool_call_id'', JStr (tr_tool_call_id i))]"

definition append_tool_result_in_tx ::
  "serde \<Rightarrow> message_gen \<Rightarrow> append_tool_result_input \<Rightarrow> 'x sessions_db_scheme \<Rightarrow>
    sessions_error + ((string \<times> string \<times> int) \<times> 'x sessions_db_scheme)" where
  "append_tool_result_in_tx J g i db =
    (let display_order = next_timeline_position_in_tx (tr_session_id i) db
     in and_then (insert_timeline
          \<lparr>tl_id = mg_timeline_item_id g, tl_session_id = tr_session_id i,
           tl_turn_id = Some (tr_turn_id i), tl_kind = ''tool_call'',
           tl_source_resource_id = Some (tr_tool_call_id i), tl_display_order = display_order,
           tl_projection_json = json_to_string J (tool_projection i),
           tl_status = ''active'', tl_version = version_tag (mg_item_version g),
           tl_created_at = tr_now i, tl_updated_at = tr_now i\<rparr> db)
       (\<lambda>db1. and_then (insert_message
          \<lparr>ms_id = mg_message_id g, ms_session_id = tr_session_id i,
           ms_turn_id = Some (tr_turn_id i), ms_actor_json = json_to_string J (tr_actor i),
           ms_kind = ''tool_result_ref'', ms_body_json = json_to_string J (tool_message i),
           ms_status = ''active'', ms_timeline_sequence = Some display_order,
           ms_version = version_tag (mg_message_version g), ms_created_at = tr_now i\<rparr> db1)
       (\<lambda>db2. Inr ((mg_message_id g, mg_timeline_item_id g, display_order), db2))))"

text \<open>The protocol message of a tool call: the active result that names the call in its body.\<close>

definition names_tool_call :: "serde \<Rightarrow> string \<Rightarrow> message_row \<Rightarrow> bool" where
  "names_tool_call J tool_call_id m \<longleftrightarrow>
    (case json_from_str J (ms_body_json m) of None \<Rightarrow> False
     | Some v \<Rightarrow> (case json_get ''resource_tool_call_id'' v of None \<Rightarrow> False
       | Some t \<Rightarrow> json_as_str t = Some tool_call_id))"

definition replace_tool_result_in_tx ::
  "serde \<Rightarrow> string \<Rightarrow> string \<Rightarrow> tool_result_input \<Rightarrow> 'x sessions_db_scheme \<Rightarrow>
    sessions_error + (string \<times> 'x sessions_db_scheme)" where
  "replace_tool_result_in_tx J item_version message_version i db =
    (let P = (\<lambda>t. tl_session_id t = tr_session_id i \<and> tl_turn_id t = Some (tr_turn_id i) \<and>
               tl_kind t = ''tool_call'' \<and> tl_source_resource_id t = Some (tr_tool_call_id i) \<and>
               tl_status t = ''active'')
     in case find_one P (timeline_items db) of
       None \<Rightarrow> Inl (SessInternal ''Tool Call timeline projection is missing'')
     | Some item \<Rightarrow>
        let db1 = db\<lparr>timeline_items := fst (update_one P
              (\<lambda>t. t\<lparr>tl_projection_json := json_to_string J (tool_projection i),
                      tl_version := version_tag item_version, tl_updated_at := tr_now i\<rparr>)
              (timeline_items db))\<rparr>;
            matched = filter (\<lambda>m. ms_session_id m = tr_session_id i \<and>
              ms_turn_id m = Some (tr_turn_id i) \<and> ms_kind m = ''tool_result_ref'' \<and>
              ms_status m = ''active'' \<and> names_tool_call J (tr_tool_call_id i) m) (messages db1)
        in if length matched \<noteq> 1
           then Inl (SessInternal ''Tool Call protocol result is missing or duplicated'')
           else Inr (tl_id item, db1\<lparr>messages := fst (update_one
                  (\<lambda>m. ms_id m = ms_id (hd matched))
                  (\<lambda>m. m\<lparr>ms_body_json := json_to_string J (tool_message i),
                          ms_version := version_tag message_version\<rparr>) (messages db1))\<rparr>))"

end
