(* ===== verification/Turn_Lifecycle.thy ===== *)
theory Turn_Lifecycle
  imports Turn_Content
begin

text \<open>
  Turn lifecycle and scheduling (\<open>crates/sessions/src/execution/state.rs\<close> and
  \<open>scheduling.rs\<close>): activation, settlement, cancellation, restart recovery, the session
  command lock and the promotion of queued turns. \<open>update_turn\<close> and \<open>update_session\<close>
  return how many rows matched, as the code reads \<open>matched_count\<close>.
\<close>

record turn_transition =
  tt_from_status :: turn_status
  tt_to_status :: turn_status
  tt_session_version :: string

section \<open>Activation\<close>

definition queued_turn :: "string \<Rightarrow> string \<Rightarrow> turn_row \<Rightarrow> bool" where
  "queued_turn session_id turn_id t \<longleftrightarrow>
     tn_id t = turn_id \<and> tn_session_id t = session_id \<and> tn_status t = ''queued''"

definition idle_session :: "string \<Rightarrow> session_row \<Rightarrow> bool" where
  "idle_session session_id s \<longleftrightarrow> s_id s = session_id \<and> s_active_turn_id s = None"

text \<open>Undo of a promotion whose session could not be claimed.\<close>

definition undo_promotion ::
  "string \<Rightarrow> int \<Rightarrow> 'x sessions_db_scheme \<Rightarrow> sessions_error + 'x sessions_db_scheme" where
  "undo_promotion turn_id now db =
    and_then (update_turn (\<lambda>t. tn_id t = turn_id \<and> tn_status t = ''running'')
                (\<lambda>t. t\<lparr>tn_status := ''queued'', tn_updated_at := now\<rparr>) db)
      (\<lambda>(_, db'). Inr db')"

definition activate_created_turn_in_tx ::
  "serde \<Rightarrow> string \<Rightarrow> string \<Rightarrow> turn_model_snapshot option \<Rightarrow> int \<Rightarrow>
    'x sessions_db_scheme \<Rightarrow> sessions_error + (bool \<times> 'x sessions_db_scheme)" where
  "activate_created_turn_in_tx J session_id turn_id model_snapshot now db =
    and_then (update_turn (queued_turn session_id turn_id)
        (\<lambda>t. t\<lparr>tn_status := ''running'',
                tn_model_snapshot_json := json_to_string J (opt_snapshot_to_value model_snapshot),
                tn_updated_at := now\<rparr>) db)
      (\<lambda>(promoted, db1).
        if promoted \<noteq> 1 then Inr (False, db1)
        else let (claimed, db2) = update_session (idle_session session_id)
               (\<lambda>s. s\<lparr>s_state := ''active'', s_active_turn_id := Some turn_id,
                       s_updated_at := now\<rparr>) db1
             in if claimed \<noteq> 1
                then and_then (undo_promotion turn_id now db2) (\<lambda>db3. Inr (False, db3))
                else Inr (True, db2))"

definition retitle_placeholder_session_in_tx ::
  "string \<Rightarrow> string \<Rightarrow> string \<Rightarrow> string \<Rightarrow> int \<Rightarrow> 'x sessions_db_scheme \<Rightarrow>
    bool \<times> 'x sessions_db_scheme" where
  "retitle_placeholder_session_in_tx session_id title placeholder_title created_turn_id now db =
    (if find_one (\<lambda>t. tn_session_id t = session_id \<and> tn_id t \<noteq> created_turn_id) (turns db) \<noteq> None
     then (False, db)
     else let (changed, db') = update_session
                (\<lambda>s. s_id s = session_id \<and> s_title s = Some placeholder_title)
                (\<lambda>s. s\<lparr>s_title := Some title, s_updated_at := now\<rparr>) db
          in (changed = 1, db'))"

section \<open>Settlement\<close>

datatype active_turn_outcome =
    OutcomeCompleted json int int
  | OutcomeFailed string json
  | OutcomeCanceled string
  | OutcomeInterrupted string

fun outcome_from :: "active_turn_outcome \<Rightarrow> turn_status" where
  "outcome_from (OutcomeCompleted _ _ _) = Running"
| "outcome_from (OutcomeFailed _ _) = Running"
| "outcome_from (OutcomeCanceled _) = Canceling"
| "outcome_from (OutcomeInterrupted _) = Canceling"

fun outcome_to :: "active_turn_outcome \<Rightarrow> turn_status" where
  "outcome_to (OutcomeCompleted _ _ _) = Completed"
| "outcome_to (OutcomeFailed _ _) = Failed"
| "outcome_to (OutcomeCanceled _) = Canceled"
| "outcome_to (OutcomeInterrupted _) = Interrupted"

text \<open>The \<open>$set\<close> document of the settlement: only the fields the outcome carries.\<close>

fun settle_row :: "serde \<Rightarrow> active_turn_outcome \<Rightarrow> int \<Rightarrow> turn_row \<Rightarrow> turn_row" where
  "settle_row J (OutcomeCompleted summary input_tokens output_tokens) now t =
     t\<lparr>tn_status := ''completed'', tn_updated_at := now, tn_completion_reason := Some ''finish'',
        tn_completion_summary_json := Some (json_to_string J summary),
        tn_input_tokens := input_tokens, tn_output_tokens := output_tokens\<rparr>"
| "settle_row J (OutcomeFailed reason summary) now t =
     t\<lparr>tn_status := ''failed'', tn_updated_at := now, tn_completion_reason := Some reason,
        tn_completion_summary_json := Some (json_to_string J summary)\<rparr>"
| "settle_row J (OutcomeCanceled reason) now t =
     t\<lparr>tn_status := ''canceled'', tn_updated_at := now, tn_cancellation_reason := Some reason\<rparr>"
| "settle_row J (OutcomeInterrupted reason) now t =
     t\<lparr>tn_status := ''interrupted'', tn_updated_at := now, tn_completion_reason := Some reason\<rparr>"

definition owned_session :: "string \<Rightarrow> string \<Rightarrow> session_row \<Rightarrow> bool" where
  "owned_session session_id turn_id s \<longleftrightarrow> s_id s = session_id \<and> s_active_turn_id s = Some turn_id"

definition release_row :: "string \<Rightarrow> int \<Rightarrow> session_row \<Rightarrow> session_row" where
  "release_row version now s =
    s\<lparr>s_state := ''ready'', s_active_turn_id := None, s_version := version,
       s_updated_at := now, s_last_activity_at := now\<rparr>"

definition settle_active_turn_in_tx ::
  "serde \<Rightarrow> string \<Rightarrow> string \<Rightarrow> string \<Rightarrow> active_turn_outcome \<Rightarrow> int \<Rightarrow>
    'x sessions_db_scheme \<Rightarrow> sessions_error + (turn_transition option \<times> 'x sessions_db_scheme)" where
  "settle_active_turn_in_tx J new_version session_id turn_id outcome now db =
    (if \<not> can_transition_to (outcome_from outcome) (outcome_to outcome)
     then Inl (SessInternal (''invalid terminal Turn transition: '' @
            turn_status_as_str (outcome_from outcome) @ '' -> '' @
            turn_status_as_str (outcome_to outcome)))
     else if find_one (owned_session session_id turn_id) (sessions db) = None then Inr (None, db)
     else and_then (update_turn
            (\<lambda>t. tn_id t = turn_id \<and> tn_session_id t = session_id \<and>
                 tn_status t = turn_status_as_str (outcome_from outcome))
            (settle_row J outcome now) db)
       (\<lambda>(changed, db1).
         if changed \<noteq> 1 then Inr (None, db1)
         else let (released, db2) = update_session (owned_session session_id turn_id)
                    (release_row (version_tag new_version) now) db1
              in if released \<noteq> 1
                 then Inl (SessInternal ''terminal Turn lost Session ownership during settlement'')
                 else Inr (Some \<lparr>tt_from_status = outcome_from outcome,
                                 tt_to_status = outcome_to outcome,
                                 tt_session_version = version_tag new_version\<rparr>, db2)))"

section \<open>Cancellation\<close>

definition cancel_queued ::
  "string \<Rightarrow> string \<Rightarrow> string \<Rightarrow> string \<Rightarrow> string \<Rightarrow> int \<Rightarrow>
    'x sessions_db_scheme \<Rightarrow> sessions_error + (turn_transition option \<times> 'x sessions_db_scheme)" where
  "cancel_queued new_version session_id turn_id reason expected_version now db =
    (if \<not> can_transition_to Queued Canceled
     then Inl (SessInternal ''invalid queued Turn transition: queued -> canceled'')
     else and_then (update_turn (queued_turn session_id turn_id)
            (\<lambda>t. t\<lparr>tn_status := ''canceled'', tn_cancellation_reason := Some reason,
                    tn_updated_at := now\<rparr>) db)
       (\<lambda>(changed, db1).
         if changed \<noteq> 1 then Inr (None, db1)
         else let (session_changed, db2) = update_session
                    (\<lambda>s. s_id s = session_id \<and> s_version s = expected_version)
                    (\<lambda>s. s\<lparr>s_version := version_tag new_version, s_updated_at := now,
                            s_last_activity_at := now\<rparr>) db1
              in if session_changed \<noteq> 1
                 then Inl (SessInternal ''Session changed while canceling queued Turn'')
                 else Inr (Some \<lparr>tt_from_status = Queued, tt_to_status = Canceled,
                                 tt_session_version = version_tag new_version\<rparr>, db2)))"

definition cancel_active ::
  "string \<Rightarrow> string \<Rightarrow> string \<Rightarrow> string \<Rightarrow> string \<Rightarrow> int \<Rightarrow> turn_status \<Rightarrow>
    'x sessions_db_scheme \<Rightarrow> sessions_error + (turn_transition option \<times> 'x sessions_db_scheme)" where
  "cancel_active new_version session_id turn_id reason expected_version now from_status db =
    and_then (update_turn
        (\<lambda>t. tn_id t = turn_id \<and> tn_session_id t = session_id \<and>
             tn_status t = turn_status_as_str from_status)
        (\<lambda>t. t\<lparr>tn_status := ''canceling'', tn_cancellation_reason := Some reason,
                tn_updated_at := now\<rparr>) db)
      (\<lambda>(changed, db1).
        if changed \<noteq> 1 then Inr (None, db1)
        else let (session_changed, db2) = update_session
                   (\<lambda>s. s_id s = session_id \<and> s_active_turn_id s = Some turn_id \<and>
                        s_version s = expected_version)
                   (\<lambda>s. s\<lparr>s_version := version_tag new_version, s_updated_at := now\<rparr>) db1
             in if session_changed \<noteq> 1
                then Inl (SessInternal ''active Session changed while accepting Turn cancellation'')
                else Inr (Some \<lparr>tt_from_status = from_status, tt_to_status = Canceling,
                                tt_session_version = version_tag new_version\<rparr>, db2))"

definition accept_cancel_in_tx ::
  "string \<Rightarrow> string \<Rightarrow> string \<Rightarrow> string \<Rightarrow> string \<Rightarrow> int \<Rightarrow>
    'x sessions_db_scheme \<Rightarrow> sessions_error + (turn_transition option \<times> 'x sessions_db_scheme)" where
  "accept_cancel_in_tx new_version session_id turn_id reason expected_version now db =
    (case find_one (\<lambda>t. tn_id t = turn_id \<and> tn_session_id t = session_id) (turns db) of
       None \<Rightarrow> Inr (None, db)
     | Some turn \<Rightarrow>
    (case find_one (\<lambda>s. s_id s = session_id) (sessions db) of
       None \<Rightarrow> Inr (None, db)
     | Some session \<Rightarrow>
        if s_version session \<noteq> expected_version
        then Inl (VersionMismatch expected_version (s_version session))
        else and_then (parse_status (tn_status turn))
          (\<lambda>from_status.
            if from_status = Queued
            then cancel_queued new_version session_id turn_id reason expected_version now db
            else if s_active_turn_id session \<noteq> Some turn_id then Inr (None, db)
            else if \<not> can_transition_to from_status Canceling then Inr (None, db)
            else cancel_active new_version session_id turn_id reason expected_version now
                   from_status db)))"

definition settle_cancel_in_tx ::
  "serde \<Rightarrow> string \<Rightarrow> string \<Rightarrow> string \<Rightarrow> bool \<Rightarrow> string \<Rightarrow> int \<Rightarrow>
    'x sessions_db_scheme \<Rightarrow> sessions_error + (turn_transition option \<times> 'x sessions_db_scheme)" where
  "settle_cancel_in_tx J new_version session_id turn_id uncertain reason now db =
    settle_active_turn_in_tx J new_version session_id turn_id
      (if uncertain then OutcomeInterrupted reason else OutcomeCanceled reason) now db"

section \<open>Runnability and recovery\<close>

definition turn_is_runnable :: "string \<Rightarrow> string \<Rightarrow> 'x sessions_db_scheme \<Rightarrow> bool" where
  "turn_is_runnable session_id turn_id db =
    (if find_one (\<lambda>t. tn_id t = turn_id \<and> tn_session_id t = session_id \<and>
                     tn_status t = ''running'') (turns db) = None then False
     else find_one (owned_session session_id turn_id) (sessions db) \<noteq> None)"

definition running_turn_ids_in_tx ::
  "(string \<Rightarrow> string option) \<Rightarrow> 'x sessions_db_scheme \<Rightarrow> sessions_error + string set" where
  "running_turn_ids_in_tx U db =
    and_then (try_map (\<lambda>t. parse_id U (tn_id t)) (filter (\<lambda>t. tn_status t = ''running'') (turns db)))
      (\<lambda>ids. Inr (set ids))"

record recovered_turn =
  rt_turn_id :: string
  rt_session_id :: string
  rt_from_status :: turn_status
  rt_turn_version :: string
  rt_session_version :: "string option"
  rt_wake_required :: bool

text \<open>
  One row of the recovery loop. The two versions drawn for an interrupted turn are given
  as functions of its id.
\<close>

definition recover_row ::
  "(string \<Rightarrow> string option) \<Rightarrow> (string \<Rightarrow> string) \<Rightarrow> (string \<Rightarrow> string) \<Rightarrow> int \<Rightarrow>
    string set \<Rightarrow> turn_row \<Rightarrow> 'x sessions_db_scheme \<Rightarrow>
    sessions_error + (recovered_turn list \<times> 'x sessions_db_scheme)" where
  "recover_row U tv sv now wake_required row db =
    and_then (parse_id U (tn_id row))
      (\<lambda>turn_id. and_then (parse_id U (tn_session_id row))
      (\<lambda>session_id. and_then (parse_status (tn_status row))
      (\<lambda>from_status.
        if from_status = Running \<and> turn_id \<in> wake_required
        then Inr ([\<lparr>rt_turn_id = turn_id, rt_session_id = session_id,
                    rt_from_status = from_status, rt_turn_version = tn_version row,
                    rt_session_version = None, rt_wake_required = True\<rparr>], db)
        else and_then (update_turn
               (\<lambda>t. tn_id t = turn_id \<and> tn_status t = turn_status_as_str from_status)
               (\<lambda>t. t\<lparr>tn_status := ''interrupted'',
                       tn_completion_reason := Some ''control_plane_restart'',
                       tn_version := version_tag (tv turn_id), tn_updated_at := now\<rparr>) db)
          (\<lambda>(changed, db1).
            if changed \<noteq> 1 then Inr ([], db1)
            else let (released, db2) = update_session (owned_session session_id turn_id)
                       (release_row (version_tag (sv turn_id)) now) db1
                 in Inr ([\<lparr>rt_turn_id = turn_id, rt_session_id = session_id,
                           rt_from_status = from_status,
                           rt_turn_version = version_tag (tv turn_id),
                           rt_session_version =
                             (if released = 1 then Some (version_tag (sv turn_id)) else None),
                           rt_wake_required = False\<rparr>], db2)))))"

primrec recover_rows ::
  "(string \<Rightarrow> string option) \<Rightarrow> (string \<Rightarrow> string) \<Rightarrow> (string \<Rightarrow> string) \<Rightarrow> int \<Rightarrow>
    string set \<Rightarrow> turn_row list \<Rightarrow> 'x sessions_db_scheme \<Rightarrow>
    sessions_error + (recovered_turn list \<times> 'x sessions_db_scheme)" where
  "recover_rows U tv sv now wake [] db = Inr ([], db)"
| "recover_rows U tv sv now wake (row # rows) db =
    and_then (recover_row U tv sv now wake row db)
      (\<lambda>(r, db1). and_then (recover_rows U tv sv now wake rows db1)
      (\<lambda>(rs, db2). Inr (r @ rs, db2)))"

definition interrupt_active_turns_in_tx ::
  "(string \<Rightarrow> string option) \<Rightarrow> (string \<Rightarrow> string) \<Rightarrow> (string \<Rightarrow> string) \<Rightarrow> int \<Rightarrow>
    string set \<Rightarrow> 'x sessions_db_scheme \<Rightarrow>
    sessions_error + (recovered_turn list \<times> 'x sessions_db_scheme)" where
  "interrupt_active_turns_in_tx U tv sv now wake_required db =
    recover_rows U tv sv now wake_required
      (sort_key (\<lambda>t. (tn_session_id t, tn_sequence t)) (filter active_row (turns db))) db"

section \<open>The session command lock\<close>

record session_command_state =
  sc_project_id :: string
  sc_state :: string
  sc_next_model_ref :: "string option"
  sc_active_turn_id :: "string option"
  sc_session_version :: string

definition chosen_model_ref ::
  "serde \<Rightarrow> session_model_preference option option \<Rightarrow> string option \<Rightarrow> string option" where
  "chosen_model_ref J preference stored =
    (case preference of
       Some (Some p) \<Rightarrow> Some (json_to_string J (preference_to_value p))
     | Some None \<Rightarrow> None
     | None \<Rightarrow> stored)"

definition lock_session_command_in_tx ::
  "serde \<Rightarrow> string \<Rightarrow> string \<Rightarrow> string \<Rightarrow> session_model_preference option option \<Rightarrow> int \<Rightarrow>
    'x sessions_db_scheme \<Rightarrow> sessions_error + (session_command_state \<times> 'x sessions_db_scheme)" where
  "lock_session_command_in_tx J new_version session_id expected_version model_preference now db =
    and_then (ok_or NotFound (find_one (\<lambda>s. s_id s = session_id) (sessions db)))
      (\<lambda>row.
        if s_state row = ''deleting'' then Inl SessionDeleting
        else if s_version row \<noteq> expected_version
        then Inl (VersionMismatch expected_version (s_version row))
        else
          let model_ref = chosen_model_ref J model_preference (s_next_model_ref row);
              (updated, db1) = update_session
                (\<lambda>s. s_id s = session_id \<and> s_version s = expected_version \<and> s_state s \<noteq> ''deleting'')
                (\<lambda>s. (if model_preference \<noteq> None then s\<lparr>s_next_model_ref := model_ref\<rparr> else s)
                       \<lparr>s_version := version_tag new_version, s_updated_at := now,
                        s_last_activity_at := now\<rparr>) db
          in if updated \<noteq> 1
             then and_then (ok_or NotFound (find_one (\<lambda>s. s_id s = session_id) (sessions db1)))
                    (\<lambda>current. Inl (VersionMismatch expected_version (s_version current)))
             else Inr (\<lparr>sc_project_id = s_project_id row, sc_state = s_state row,
                        sc_next_model_ref = model_ref,
                        sc_active_turn_id = s_active_turn_id row,
                        sc_session_version = version_tag new_version\<rparr>, db1))"

section \<open>The queue\<close>

definition has_queued_turn_in_tx :: "string \<Rightarrow> 'x sessions_db_scheme \<Rightarrow> bool" where
  "has_queued_turn_in_tx session_id db \<longleftrightarrow>
     find_one (\<lambda>t. tn_session_id t = session_id \<and> tn_status t = ''queued'') (turns db) \<noteq> None"

record queued_turn_candidate =
  qc_turn_id :: string
  qc_session_id :: string
  qc_model_snapshot :: "turn_model_snapshot option"

definition queued_turn_candidate_in_tx ::
  "serde \<Rightarrow> (string \<Rightarrow> string option) \<Rightarrow> string \<Rightarrow> string \<Rightarrow> 'x sessions_db_scheme \<Rightarrow>
    sessions_error + queued_turn_candidate option" where
  "queued_turn_candidate_in_tx J U terminal_turn_id session_id db =
    (if find_one (\<lambda>t. tn_id t = terminal_turn_id \<and> tn_session_id t = session_id \<and>
           (tn_status t = ''completed'' \<or> tn_status t = ''failed'' \<or> tn_status t = ''canceled''))
         (turns db) = None then Inr None
     else if find_one (idle_session session_id) (sessions db) = None then Inr None
     else case find_first_by (\<lambda>t. tn_session_id t = session_id \<and> tn_status t = ''queued'')
                 tn_sequence (turns db) of
       None \<Rightarrow> Inr None
     | Some first \<Rightarrow>
        (case find_one (\<lambda>t. tn_session_id t = session_id \<and> tn_status t = ''queued'' \<and>
                  tn_sequence t = tn_sequence first) (turns db) of
           None \<Rightarrow> Inr None
         | Some t \<Rightarrow> and_then (parse_id U (tn_id t))
             (\<lambda>i. and_then (parse_id U (tn_session_id t))
             (\<lambda>sid. and_then (snapshot_parse J (tn_model_snapshot_json t))
             (\<lambda>m. Inr (Some \<lparr>qc_turn_id = i, qc_session_id = sid, qc_model_snapshot = m\<rparr>))))))"

definition activate_queued_turn_in_tx ::
  "serde \<Rightarrow> string \<Rightarrow> string \<Rightarrow> queued_turn_candidate \<Rightarrow> turn_model_snapshot option \<Rightarrow> string \<Rightarrow>
    int \<Rightarrow> 'x sessions_db_scheme \<Rightarrow> sessions_error + (string option \<times> 'x sessions_db_scheme)" where
  "activate_queued_turn_in_tx J new_version checkpoint_id candidate model_snapshot
      workspace_revision now db =
    and_then (update_turn (queued_turn (qc_session_id candidate) (qc_turn_id candidate))
        (\<lambda>t. t\<lparr>tn_status := ''running'',
                tn_model_snapshot_json := json_to_string J (opt_snapshot_to_value model_snapshot),
                tn_updated_at := now\<rparr>) db)
      (\<lambda>(promoted, db1).
        if promoted \<noteq> 1 then Inr (None, db1)
        else let (claimed, db2) = update_session (idle_session (qc_session_id candidate))
               (\<lambda>s. s\<lparr>s_state := ''active'', s_active_turn_id := Some (qc_turn_id candidate),
                       s_version := version_tag new_version, s_updated_at := now,
                       s_last_activity_at := now\<rparr>) db1
             in if claimed \<noteq> 1
                then and_then (undo_promotion (qc_turn_id candidate) now db2)
                       (\<lambda>db3. Inr (None, db3))
                else and_then (insert_checkpoint_for_turn_in_tx checkpoint_id
                         (qc_session_id candidate) (qc_turn_id candidate) workspace_revision now db2)
                       (\<lambda>db3. Inr (Some (version_tag new_version), db3)))"

end
