(* ===== verification/Session_Interface.thy ===== *)
theory Session_Interface
  imports Turn_Lifecycle
begin

text \<open>
  The public session boundary (\<open>crates/sessions/src/interface.rs\<close>): creation, listing,
  renaming, attachments, deletion, steering, cancelling, the timeline pages and the queue
  view. Methods that open their own unit of work are \<open>run_tx\<close> of their body; clock readings
  and fresh ids are arguments in the order the code draws them. Blob bytes live in the blob
  store and only their labels appear here.
\<close>

section \<open>Sessions\<close>

record created_session_record =
  csr_created :: bool
  csr_version :: string

definition create_session_in_tx ::
  "int \<Rightarrow> string \<Rightarrow> string \<Rightarrow> string \<Rightarrow> string option \<Rightarrow> 'x sessions_db_scheme \<Rightarrow>
    sessions_error + (created_session_record \<times> 'x sessions_db_scheme)" where
  "create_session_in_tx now new_version session_id project_id title db =
    (case find_one (\<lambda>s. s_id s = session_id) (sessions db) of
       Some row \<Rightarrow>
         if s_project_id row \<noteq> project_id
         then Inl (SessInternal ''session id already belongs to another project'')
         else Inr (\<lparr>csr_created = False, csr_version = s_version row\<rparr>, db)
     | None \<Rightarrow>
         and_then (ok_or SessStorage (insert_one s_id
             \<lparr>s_id = session_id, s_project_id = project_id, s_title = trimmed_nonempty title,
              s_state = ''ready'', s_next_model_ref = None, s_active_turn_id = None,
              s_version = version_tag new_version, s_created_at = now, s_updated_at = now,
              s_last_activity_at = now\<rparr> (sessions db)))
           (\<lambda>c. Inr (\<lparr>csr_created = True, csr_version = version_tag new_version\<rparr>,
                     db\<lparr>sessions := c\<rparr>)))"

record session_summary =
  ss_id :: string
  ss_project_id :: string
  ss_title :: "string option"
  ss_state :: string
  ss_active_turn_id :: "string option"
  ss_model_preference :: "session_model_preference option"
  ss_version :: string
  ss_created_at :: int
  ss_updated_at :: int
  ss_last_activity_at :: int

definition parse_preference ::
  "serde \<Rightarrow> string option \<Rightarrow> sessions_error + session_model_preference option" where
  "parse_preference J raw =
    (case raw of None \<Rightarrow> Inr None
     | Some s \<Rightarrow> and_then (ok_or SessSerde (json_from_str J s))
         (\<lambda>v. and_then (ok_or SessSerde (preference_from_value v)) (\<lambda>p. Inr (Some p))))"

definition summary_from_row :: "serde \<Rightarrow> session_row \<Rightarrow> sessions_error + session_summary" where
  "summary_from_row J s =
    and_then (parse_preference J (s_next_model_ref s))
      (\<lambda>p. Inr \<lparr>ss_id = s_id s, ss_project_id = s_project_id s, ss_title = s_title s,
        ss_state = s_state s, ss_active_turn_id = s_active_turn_id s, ss_model_preference = p,
        ss_version = s_version s, ss_created_at = s_created_at s, ss_updated_at = s_updated_at s,
        ss_last_activity_at = s_last_activity_at s\<rparr>)"

text \<open>\<open>limit.clamp(1, 100)\<close>.\<close>

definition page_limit :: "int \<Rightarrow> nat" where
  "page_limit limit = nat (max 1 (min limit 100))"

definition list_sessions ::
  "serde \<Rightarrow> string \<Rightarrow> int \<Rightarrow> 'x sessions_db_scheme \<Rightarrow> sessions_error + session_summary list" where
  "list_sessions J project_id limit db =
    try_map (summary_from_row J) (mongo_limit (page_limit limit)
      (sort_key (\<lambda>s. - s_last_activity_at s)
        (filter (\<lambda>s. s_project_id s = project_id \<and> s_state s \<noteq> ''deleting'') (sessions db))))"

definition active_sessions ::
  "serde \<Rightarrow> string \<Rightarrow> int \<Rightarrow> 'x sessions_db_scheme \<Rightarrow> sessions_error + session_summary list" where
  "active_sessions J project_id limit db =
    try_map (summary_from_row J) (mongo_limit (page_limit limit)
      (sort_key (\<lambda>s. - s_last_activity_at s)
        (filter (\<lambda>s. s_state s \<noteq> ''deleting'' \<and> s_active_turn_id s \<noteq> None \<and>
                    s_project_id s = project_id) (sessions db))))"

definition project_session_ids ::
  "(string \<Rightarrow> string option) \<Rightarrow> string \<Rightarrow> 'x sessions_db_scheme \<Rightarrow> sessions_error + string list" where
  "project_session_ids U project_id db =
    try_map (\<lambda>s. parse_id U (s_id s))
      (sort_key s_created_at (filter (\<lambda>s. s_project_id s = project_id) (sessions db)))"

definition ready_session_ids ::
  "(string \<Rightarrow> string option) \<Rightarrow> 'x sessions_db_scheme \<Rightarrow> sessions_error + string list" where
  "ready_session_ids U db =
    (let candidates = map s_id (sort_key s_last_activity_at
           (filter (\<lambda>s. s_state s = ''ready'' \<and> s_active_turn_id s = None) (sessions db)))
     in if candidates = [] then Inr []
        else let queued = set (map tn_session_id (filter (\<lambda>t. tn_status t = ''queued'') (turns db)))
             in try_map (parse_id U) (filter (\<lambda>i. i \<notin> queued) candidates))"

definition get_session ::
  "serde \<Rightarrow> string \<Rightarrow> 'x sessions_db_scheme \<Rightarrow> sessions_error + session_summary" where
  "get_session J session_id db =
    and_then (ok_or NotFound (find_one (\<lambda>s. s_id s = session_id) (sessions db)))
      (summary_from_row J)"

section \<open>Events\<close>

definition append_session_event ::
  "serde \<Rightarrow> string \<Rightarrow> int \<Rightarrow> new_event \<Rightarrow> 'x sessions_db_scheme \<Rightarrow>
    sessions_error + 'x sessions_db_scheme" where
  "append_session_event J event_id occurred_at ev db =
    (case append_in_tx J event_id occurred_at ev db of
       Inl _ \<Rightarrow> Inl (SessInternal ''append event'') | Inr (_, db') \<Rightarrow> Inr db')"

definition resource_json :: "string \<Rightarrow> string \<Rightarrow> json" where
  "resource_json kind i = JObj [(''kind'', JStr kind), (''id'', JStr i)]"

section \<open>Renaming\<close>

definition patch_session_tx ::
  "serde \<Rightarrow> int \<Rightarrow> string \<Rightarrow> string \<Rightarrow> string \<Rightarrow> int \<Rightarrow> string \<Rightarrow> string option \<Rightarrow> string \<Rightarrow>
    json \<Rightarrow> session_summary \<Rightarrow> 'x sessions_db_scheme \<Rightarrow> sessions_error + (unit \<times> 'x sessions_db_scheme)" where
  "patch_session_tx J now new_version correlation_id event_id occurred_at session_id title
      expected_version actor current db =
    (let (matched, db1) = update_session
           (\<lambda>s. s_id s = session_id \<and> s_version s = expected_version)
           (\<lambda>s. (case trimmed_nonempty title of None \<Rightarrow> s | Some t \<Rightarrow> s\<lparr>s_title := Some t\<rparr>)
                  \<lparr>s_updated_at := now, s_version := version_tag new_version\<rparr>) db
     in if matched = 0 then Inl (VersionMismatch expected_version (ss_version current))
        else and_then (append_session_event J event_id occurred_at
            \<lparr>ne_type = SessionChanged, ne_actor = actor,
             ne_resource = Some (resource_json ''session'' session_id),
             ne_correlation_id = correlation_id, ne_causation_id = None,
             ne_payload = JObj [(''session_id'', JStr session_id),
               (''version'', JStr (version_tag new_version)), (''state'', JStr (ss_state current))]\<rparr> db1)
          (\<lambda>db2. Inr ((), db2)))"

definition patch_session ::
  "serde \<Rightarrow> int \<Rightarrow> string \<Rightarrow> string \<Rightarrow> string \<Rightarrow> int \<Rightarrow> string \<Rightarrow> string option \<Rightarrow> string \<Rightarrow>
    json \<Rightarrow> 'x sessions_db_scheme \<Rightarrow> (sessions_error + session_summary) \<times> 'x sessions_db_scheme" where
  "patch_session J now new_version correlation_id event_id occurred_at session_id title
      expected_version actor db =
    (case get_session J session_id db of
       Inl e \<Rightarrow> (Inl e, db)
     | Inr current \<Rightarrow>
        if ss_state current = ''deleting'' then (Inl SessionDeleting, db)
        else if ss_version current \<noteq> expected_version
        then (Inl (VersionMismatch expected_version (ss_version current)), db)
        else if ss_active_turn_id current \<noteq> None then (Inl ActiveTurnExists, db)
        else (case run_tx (patch_session_tx J now new_version correlation_id event_id occurred_at
                     session_id title expected_version actor current) db of
            (Inl e, db') \<Rightarrow> (Inl e, db')
          | (Inr _, db') \<Rightarrow> (get_session J session_id db', db')))"

section \<open>Attachments\<close>

record upload_input =
  ui_owner_id :: string
  ui_session_id :: string
  ui_upload_id :: string
  ui_attachment_id :: string
  ui_name :: string
  ui_mime :: string
  ui_byte_size :: nat
  ui_blob_sha :: string

record attachment_view =
  av_id :: string
  av_session_id :: string
  av_name :: string
  av_mime :: string
  av_byte_size :: nat
  av_lifecycle :: string
  av_version :: string
  av_created_at :: int

definition persist_upload_tx ::
  "int \<Rightarrow> upload_input \<Rightarrow> 'x sessions_db_scheme \<Rightarrow> sessions_error + (attachment_view \<times> 'x sessions_db_scheme)" where
  "persist_upload_tx now i db =
    and_then (ok_or SessStorage (insert_one up_id
        \<lparr>up_id = ui_upload_id i, up_owner_id = ui_owner_id i, up_original_name = ui_name i,
         up_mime = ui_mime i, up_byte_size = int (ui_byte_size i), up_blob_sha = ui_blob_sha i,
         up_scan_status = ''accepted'', up_created_at = now\<rparr> (uploads db)))
      (\<lambda>ups. and_then (ok_or SessStorage (insert_one at_id
        \<lparr>at_id = ui_attachment_id i, at_session_id = ui_session_id i, at_source_kind = ''upload'',
         at_upload_id = Some (ui_upload_id i), at_name = ui_name i, at_mime = ui_mime i,
         at_byte_size = int (ui_byte_size i), at_blob_sha = Some (ui_blob_sha i),
         at_lifecycle = ''draft'', at_version = version_tag (ui_attachment_id i),
         at_created_at = now\<rparr> (attachments db)))
      (\<lambda>ats. Inr
        (\<lparr>av_id = ui_attachment_id i, av_session_id = ui_session_id i, av_name = ui_name i,
          av_mime = ui_mime i, av_byte_size = ui_byte_size i, av_lifecycle = ''draft'',
          av_version = version_tag (ui_attachment_id i), av_created_at = now\<rparr>,
         db\<lparr>uploads := ups, attachments := ats\<rparr>)))"

definition persist_upload_attachment ::
  "int \<Rightarrow> upload_input \<Rightarrow> 'x sessions_db_scheme \<Rightarrow>
    (sessions_error + attachment_view) \<times> 'x sessions_db_scheme" where
  "persist_upload_attachment now i db =
    (if find_one (\<lambda>s. s_id s = ui_session_id i \<and> s_state s \<noteq> ''deleting'') (sessions db) = None
     then (Inl NotFound, db)
     else if int (ui_byte_size i) > I64_MAX then (Inl (SessInternal ''try_from''), db)
     else run_tx (persist_upload_tx now i) db)"

definition delete_draft_tx ::
  "string \<Rightarrow> string \<Rightarrow> 'x sessions_db_scheme \<Rightarrow> sessions_error + (unit \<times> 'x sessions_db_scheme)" where
  "delete_draft_tx session_id attachment_id db =
    (let missing = Validation ''attachment is missing or is already referenced by a message''
     in case find_one (\<lambda>a. at_id a = attachment_id \<and> at_session_id a = session_id \<and>
               at_lifecycle a = ''draft'') (attachments db) of
       None \<Rightarrow> Inl missing
     | Some row \<Rightarrow>
        if find_one (\<lambda>m. ma_attachment_id m = attachment_id) (message_attachments db) \<noteq> None
        then Inl missing
        else let db1 = db\<lparr>attachments := fst (delete_one (\<lambda>a. at_id a = attachment_id) (attachments db))\<rparr>
             in Inr ((), case at_upload_id row of None \<Rightarrow> db1
                  | Some u \<Rightarrow> db1\<lparr>uploads := fst (delete_one (\<lambda>r. up_id r = u) (uploads db1))\<rparr>))"

definition delete_draft_attachment ::
  "string \<Rightarrow> string \<Rightarrow> 'x sessions_db_scheme \<Rightarrow> (sessions_error + unit) \<times> 'x sessions_db_scheme" where
  "delete_draft_attachment session_id attachment_id db =
    run_tx (delete_draft_tx session_id attachment_id) db"

record attachment_resource =
  ar_id :: string
  ar_name :: string
  ar_mime :: string
  ar_byte_size :: nat
  ar_blob_sha :: "string option"

definition attachment_resource_of ::
  "(string \<Rightarrow> string option) \<Rightarrow> attachment_row \<Rightarrow> sessions_error + attachment_resource" where
  "attachment_resource_of U a =
    and_then (parse_id U (at_id a))
      (\<lambda>i. if at_byte_size a < 0 then Inl (SessInternal ''try_from'')
        else Inr \<lparr>ar_id = i, ar_name = at_name a, ar_mime = at_mime a,
                  ar_byte_size = nat (at_byte_size a), ar_blob_sha = at_blob_sha a\<rparr>)"

definition list_attachments ::
  "(string \<Rightarrow> string option) \<Rightarrow> string \<Rightarrow> 'x sessions_db_scheme \<Rightarrow>
    sessions_error + attachment_resource list" where
  "list_attachments U session_id db =
    try_map (attachment_resource_of U) (sort_key (\<lambda>a. (at_created_at a, at_id a))
      (filter (\<lambda>a. at_session_id a = session_id \<and> at_lifecycle a = ''attached'') (attachments db)))"

definition get_attachment ::
  "(string \<Rightarrow> string option) \<Rightarrow> string \<Rightarrow> string \<Rightarrow> 'x sessions_db_scheme \<Rightarrow>
    sessions_error + attachment_resource" where
  "get_attachment U session_id attachment_id db =
    and_then (ok_or NotFound (find_one (\<lambda>a. at_id a = attachment_id \<and>
        at_session_id a = session_id \<and> at_lifecycle a = ''attached'') (attachments db)))
      (attachment_resource_of U)"

section \<open>Deletion\<close>

record deleting_session =
  ds_changed :: bool
  ds_project_id :: string
  ds_version :: string

definition mark_session_deleting_in_tx ::
  "(string \<Rightarrow> string option) \<Rightarrow> int \<Rightarrow> string \<Rightarrow> string \<Rightarrow> string \<Rightarrow>
    'x sessions_db_scheme \<Rightarrow> sessions_error + (deleting_session \<times> 'x sessions_db_scheme)" where
  "mark_session_deleting_in_tx U now new_version session_id expected_version db =
    and_then (ok_or NotFound (find_one (\<lambda>s. s_id s = session_id) (sessions db)))
      (\<lambda>row. and_then (parse_id U (s_project_id row))
      (\<lambda>project_id.
        if s_state row = ''deleting''
        then Inr (\<lparr>ds_changed = False, ds_project_id = project_id, ds_version = s_version row\<rparr>, db)
        else if s_version row \<noteq> expected_version
        then Inl (VersionMismatch expected_version (s_version row))
        else let (_, db1) = update_session (\<lambda>s. s_id s = session_id)
               (\<lambda>s. s\<lparr>s_state := ''deleting'', s_version := version_tag new_version,
                       s_updated_at := now\<rparr>) db
             in Inr (\<lparr>ds_changed = True, ds_project_id = project_id,
                      ds_version = version_tag new_version\<rparr>, db1)))"

record session_deletion_plan =
  dp_project_id :: string
  dp_version :: string
  dp_turn_ids :: "string list"
  dp_attachment_ids :: "string list"

definition session_deletion_plan_in_tx ::
  "(string \<Rightarrow> string option) \<Rightarrow> string \<Rightarrow> 'x sessions_db_scheme \<Rightarrow>
    sessions_error + session_deletion_plan option" where
  "session_deletion_plan_in_tx U session_id db =
    (case find_one (\<lambda>s. s_id s = session_id) (sessions db) of
       None \<Rightarrow> Inr None
     | Some row \<Rightarrow> and_then (parse_id U (s_project_id row))
        (\<lambda>project_id. and_then (try_map (\<lambda>t. parse_id U (tn_id t))
            (sort_key tn_sequence (filter (\<lambda>t. tn_session_id t = session_id) (turns db))))
        (\<lambda>turn_ids. and_then (try_map (\<lambda>a. parse_id U (at_id a))
            (filter (\<lambda>a. at_session_id a = session_id) (attachments db)))
        (\<lambda>attachment_ids. Inr (Some
          \<lparr>dp_project_id = project_id, dp_version = s_version row, dp_turn_ids = turn_ids,
           dp_attachment_ids = attachment_ids\<rparr>)))))"

definition delete_session_in_tx ::
  "string \<Rightarrow> 'x sessions_db_scheme \<Rightarrow> bool \<times> 'x sessions_db_scheme" where
  "delete_session_in_tx session_id db =
    (let owned = filter (\<lambda>a. at_session_id a = session_id) (attachments db);
         attachment_ids = map at_id owned;
         upload_ids = List.map_filter at_upload_id owned;
         (rest, deleted) = delete_one (\<lambda>s. s_id s = session_id \<and> s_state s = ''deleting'')
                             (sessions db)
     in (deleted > 0,
         db\<lparr>attachments := fst (delete_many (\<lambda>a. at_session_id a = session_id) (attachments db)),
            message_attachments :=
              (if attachment_ids = [] then message_attachments db
               else fst (delete_many (\<lambda>m. ma_attachment_id m \<in> set attachment_ids)
                      (message_attachments db))),
            uploads :=
              (if upload_ids = [] then uploads db
               else fst (delete_many (\<lambda>u. up_id u \<in> set upload_ids) (uploads db))),
            messages := fst (delete_many (\<lambda>m. ms_session_id m = session_id) (messages db)),
            timeline_items := fst (delete_many (\<lambda>t. tl_session_id t = session_id) (timeline_items db)),
            turns := fst (delete_many (\<lambda>t. tn_session_id t = session_id) (turns db)),
            checkpoints := fst (delete_many (\<lambda>c. cp_session_id c = session_id) (checkpoints db)),
            sessions := rest\<rparr>))"

section \<open>Steering and cancelling\<close>

record steer_events_gen =
  se_correlation_id :: string
  se_item_event_id :: string
  se_item_occurred_at :: int
  se_session_event_id :: string
  se_session_occurred_at :: int

definition steer_tx ::
  "serde \<Rightarrow> (string \<Rightarrow> string option) \<Rightarrow> steer_gen \<Rightarrow> steer_events_gen \<Rightarrow> append_steer_input \<Rightarrow>
    'x sessions_db_scheme \<Rightarrow> sessions_error + (steer_result \<times> 'x sessions_db_scheme)" where
  "steer_tx J U g e i db =
    and_then (append_steer_in_tx J U g i db)
      (\<lambda>((result, timeline_item_id), db1). and_then (append_session_event J
          (se_item_event_id e) (se_item_occurred_at e)
          \<lparr>ne_type = TimelineItemCreated, ne_actor = sx_actor i,
           ne_resource = Some (resource_json ''session'' (sx_session_id i)),
           ne_correlation_id = se_correlation_id e, ne_causation_id = None,
           ne_payload = JObj [(''timeline_item_id'', JStr timeline_item_id),
             (''kind'', JStr ''steer''), (''turn_id'', JStr (sr_turn_id result))]\<rparr> db1)
      (\<lambda>db2. and_then (append_session_event J (se_session_event_id e) (se_session_occurred_at e)
          \<lparr>ne_type = SessionChanged, ne_actor = sx_actor i,
           ne_resource = Some (resource_json ''session'' (sx_session_id i)),
           ne_correlation_id = se_correlation_id e, ne_causation_id = None,
           ne_payload = JObj [(''session_id'', JStr (sx_session_id i)),
             (''version'', JStr (sr_session_version result)),
             (''steer'', JObj [(''turn_id'', JStr (sr_turn_id result))])]\<rparr> db2)
      (\<lambda>db3. Inr (result, db3))))"

definition steer ::
  "serde \<Rightarrow> (string \<Rightarrow> string option) \<Rightarrow> steer_gen \<Rightarrow> steer_events_gen \<Rightarrow> int \<Rightarrow> string \<Rightarrow>
    string \<Rightarrow> string \<Rightarrow> json \<Rightarrow> 'x sessions_db_scheme \<Rightarrow>
    (sessions_error + steer_result) \<times> 'x sessions_db_scheme" where
  "steer J U g e now session_id content expected_version actor db =
    run_tx (steer_tx J U g e
      \<lparr>sx_session_id = session_id, sx_expected_turn_id = None, sx_content = content,
       sx_expected_version = expected_version, sx_actor = actor, sx_now = now\<rparr>) db"

record cancel_result =
  cx_turn_id :: string
  cx_from_status :: string
  cx_to_status :: string
  cx_session_version :: string

definition cancel_turn_tx ::
  "serde \<Rightarrow> int \<Rightarrow> string \<Rightarrow> string \<Rightarrow> string \<Rightarrow> int \<Rightarrow> string \<Rightarrow> string \<Rightarrow> string \<Rightarrow> string \<Rightarrow>
    json \<Rightarrow> 'x sessions_db_scheme \<Rightarrow> sessions_error + (cancel_result \<times> 'x sessions_db_scheme)" where
  "cancel_turn_tx J now new_version correlation_id event_id occurred_at session_id turn_id reason
      expected_version actor db =
    and_then (accept_cancel_in_tx new_version session_id turn_id reason expected_version now db)
      (\<lambda>(transition, db1). and_then (ok_or TurnTerminal transition)
      (\<lambda>t. and_then (append_session_event J event_id occurred_at
          \<lparr>ne_type = TurnStatusChanged, ne_actor = actor,
           ne_resource = Some (resource_json ''turn'' turn_id),
           ne_correlation_id = correlation_id, ne_causation_id = None,
           ne_payload = JObj [(''session_id'', JStr session_id), (''turn_id'', JStr turn_id),
             (''from'', JStr (turn_status_as_str (tt_from_status t))),
             (''to'', JStr (turn_status_as_str (tt_to_status t))), (''reason'', JStr reason),
             (''session_version'', JStr (tt_session_version t))]\<rparr> db1)
      (\<lambda>db2. Inr (\<lparr>cx_turn_id = turn_id,
          cx_from_status = turn_status_as_str (tt_from_status t),
          cx_to_status = turn_status_as_str (tt_to_status t),
          cx_session_version = tt_session_version t\<rparr>, db2))))"

definition cancel_turn ::
  "serde \<Rightarrow> int \<Rightarrow> string \<Rightarrow> string \<Rightarrow> string \<Rightarrow> int \<Rightarrow> string \<Rightarrow> string \<Rightarrow> string \<Rightarrow> string \<Rightarrow>
    json \<Rightarrow> 'x sessions_db_scheme \<Rightarrow> (sessions_error + cancel_result) \<times> 'x sessions_db_scheme" where
  "cancel_turn J now new_version correlation_id event_id occurred_at session_id turn_id reason
      expected_version actor db =
    run_tx (cancel_turn_tx J now new_version correlation_id event_id occurred_at session_id turn_id
      reason expected_version actor) db"

section \<open>Timeline pages\<close>

text \<open>\<open>str::parse::<i64>\<close>.\<close>

definition parse_i64 :: "string \<Rightarrow> int option" where
  "parse_i64 s =
    (case s of [] \<Rightarrow> None
     | c # cs \<Rightarrow>
        let (neg, ds) = (if c = CHR ''-'' then (True, cs) else if c = CHR ''+'' then (False, cs)
                         else (False, s))
        in if ds = [] then None
           else case parse_digits 0 ds of None \<Rightarrow> None
             | Some n \<Rightarrow>
                 if neg then (if int n \<le> I64_MAX + 1 then Some (- int n) else None)
                 else (if int n \<le> I64_MAX then Some (int n) else None))"

record timeline_turn_status =
  ts_id :: string
  ts_status :: string
  ts_cancellation_reason :: "string option"
  ts_completion_reason :: "string option"
  ts_created_at :: int
  ts_updated_at :: int

record timeline_item_view =
  tv_id :: string
  tv_session_id :: string
  tv_turn_id :: "string option"
  tv_kind :: string
  tv_source_resource_id :: "string option"
  tv_display_order :: int
  tv_projection :: json
  tv_status :: string
  tv_version :: string
  tv_created_at :: int
  tv_turn_status :: "timeline_turn_status option"

definition timeline_turn_status_of :: "turn_row \<Rightarrow> timeline_turn_status" where
  "timeline_turn_status_of t =
    \<lparr>ts_id = tn_id t, ts_status = tn_status t, ts_cancellation_reason = tn_cancellation_reason t,
     ts_completion_reason = tn_completion_reason t, ts_created_at = tn_created_at t,
     ts_updated_at = tn_updated_at t\<rparr>"

definition timeline_view_of ::
  "serde \<Rightarrow> (string \<Rightarrow> turn_row option) \<Rightarrow> timeline_row \<Rightarrow> sessions_error + timeline_item_view" where
  "timeline_view_of J turn_of t =
    and_then (ok_or SessSerde (json_from_str J (tl_projection_json t)))
      (\<lambda>projection. Inr
        \<lparr>tv_id = tl_id t, tv_session_id = tl_session_id t, tv_turn_id = tl_turn_id t,
         tv_kind = tl_kind t, tv_source_resource_id = tl_source_resource_id t,
         tv_display_order = tl_display_order t, tv_projection = projection,
         tv_status = tl_status t, tv_version = tl_version t, tv_created_at = tl_created_at t,
         tv_turn_status = map_option timeline_turn_status_of
           (Option.bind (tl_turn_id t) turn_of)\<rparr>)"

record timeline_page =
  pg_items :: "timeline_item_view list"
  pg_oldest_cursor :: "string option"
  pg_newest_cursor :: "string option"
  pg_has_older :: bool
  pg_has_newer :: bool

definition parse_cursor :: "string \<Rightarrow> sessions_error + int" where
  "parse_cursor c = ok_or TimelineCursorInvalid (parse_i64 c)"

text \<open>The rows of one page, in the order the database returns them.\<close>

definition timeline_rows ::
  "string \<Rightarrow> string option \<Rightarrow> string option \<Rightarrow> nat \<Rightarrow> 'x sessions_db_scheme \<Rightarrow>
    sessions_error + timeline_row list" where
  "timeline_rows session_id before after limit db =
    (case before of
       Some b \<Rightarrow> and_then (parse_cursor b)
         (\<lambda>order. Inr (mongo_limit limit (sort_key (\<lambda>t. - tl_display_order t)
            (filter (\<lambda>t. tl_session_id t = session_id \<and> tl_display_order t < order)
              (timeline_items db)))))
     | None \<Rightarrow> (case after of
         Some a \<Rightarrow> and_then (parse_cursor a)
           (\<lambda>order. Inr (mongo_limit limit (sort_key tl_display_order
              (filter (\<lambda>t. tl_session_id t = session_id \<and> tl_display_order t > order)
                (timeline_items db)))))
       | None \<Rightarrow> Inr (mongo_limit limit (sort_key (\<lambda>t. - tl_display_order t)
            (filter (\<lambda>t. tl_session_id t = session_id) (timeline_items db))))))"

definition timeline_more ::
  "string \<Rightarrow> (int \<Rightarrow> int \<Rightarrow> bool) \<Rightarrow> string option \<Rightarrow> 'x sessions_db_scheme \<Rightarrow> bool" where
  "timeline_more session_id rel edge db =
    (case Option.bind edge parse_i64 of None \<Rightarrow> False
     | Some o' \<Rightarrow> length (filter (\<lambda>t. tl_session_id t = session_id \<and> rel (tl_display_order t) o')
                     (timeline_items db)) > 0)"

definition timeline ::
  "serde \<Rightarrow> string \<Rightarrow> string option \<Rightarrow> string option \<Rightarrow> int \<Rightarrow> 'x sessions_db_scheme \<Rightarrow>
    sessions_error + timeline_page" where
  "timeline J session_id before after limit db =
    (if find_one (\<lambda>s. s_id s = session_id) (sessions db) = None then Inl NotFound
     else if before \<noteq> None \<and> after \<noteq> None then Inl TimelineCursorInvalid
     else and_then (timeline_rows session_id before after (page_limit limit) db)
       (\<lambda>rows. and_then (try_map (timeline_view_of J
            (\<lambda>i. find_one (\<lambda>t. tn_id t = i \<and> tn_session_id t = session_id) (turns db))) rows)
       (\<lambda>views.
         let items = sort_key tv_display_order views;
             oldest = (if items = [] then None else Some (string_of_int (tv_display_order (hd items))));
             newest = (if items = [] then None else Some (string_of_int (tv_display_order (last items))))
         in Inr \<lparr>pg_items = items, pg_oldest_cursor = oldest, pg_newest_cursor = newest,
                 pg_has_older = timeline_more session_id (<) oldest db,
                 pg_has_newer = timeline_more session_id (>) newest db\<rparr>)))"

definition timeline_bounds ::
  "string \<Rightarrow> 'x sessions_db_scheme \<Rightarrow> sessions_error + (string option \<times> string option \<times> int)" where
  "timeline_bounds session_id db =
    (if find_one (\<lambda>s. s_id s = session_id) (sessions db) = None then Inl NotFound
     else Inr
       (map_option tl_id (find_first_by (\<lambda>t. tl_session_id t = session_id) tl_display_order
          (timeline_items db)),
        map_option tl_id (find_last_by (\<lambda>t. tl_session_id t = session_id) tl_display_order
          (timeline_items db)),
        int (length (filter (\<lambda>t. tl_session_id t = session_id) (timeline_items db)))))"

section \<open>Turns and the queue view\<close>

record turn_summary =
  tu_id :: string
  tu_session_id :: string
  tu_sequence :: int
  tu_status :: string
  tu_input_message_id :: "string option"
  tu_goal_mode :: bool
  tu_model_snapshot :: "turn_model_snapshot option"
  tu_predecessor_turn_id :: "string option"
  tu_cancellation_reason :: "string option"
  tu_completion_reason :: "string option"
  tu_version :: string
  tu_created_at :: int
  tu_updated_at :: int

definition get_turn ::
  "serde \<Rightarrow> string \<Rightarrow> string \<Rightarrow> 'x sessions_db_scheme \<Rightarrow> sessions_error + turn_summary" where
  "get_turn J session_id turn_id db =
    and_then (ok_or NotFound
        (find_one (\<lambda>t. tn_id t = turn_id \<and> tn_session_id t = session_id) (turns db)))
      (\<lambda>t. and_then (snapshot_parse J (tn_model_snapshot_json t))
      (\<lambda>m. Inr \<lparr>tu_id = tn_id t, tu_session_id = tn_session_id t, tu_sequence = tn_sequence t,
        tu_status = tn_status t, tu_input_message_id = tn_input_message_id t,
        tu_goal_mode = (tn_goal_mode t \<noteq> 0), tu_model_snapshot = m,
        tu_predecessor_turn_id = tn_predecessor_turn_id t,
        tu_cancellation_reason = tn_cancellation_reason t,
        tu_completion_reason = tn_completion_reason t, tu_version = tn_version t,
        tu_created_at = tn_created_at t, tu_updated_at = tn_updated_at t\<rparr>))"

definition session_id_for_turn ::
  "(string \<Rightarrow> string option) \<Rightarrow> string \<Rightarrow> 'x sessions_db_scheme \<Rightarrow> sessions_error + string" where
  "session_id_for_turn U turn_id db =
    and_then (ok_or NotFound (find_one (\<lambda>t. tn_id t = turn_id) (turns db)))
      (\<lambda>t. parse_id U (tn_session_id t))"

fun json_as_array :: "json \<Rightarrow> json list option" where
  "json_as_array (JArr xs) = Some xs"
| "json_as_array _ = None"

primrec join_lines :: "string list \<Rightarrow> string" where
  "join_lines [] = []"
| "join_lines (x # xs) = (if xs = [] then x else x @ [CHR 0x0A] @ join_lines xs)"

definition text_part :: "json \<Rightarrow> string option" where
  "text_part p =
    (if Option.bind (json_get ''type'' p) json_as_str = Some ''text''
     then Option.bind (json_get ''text'' p) json_as_str else None)"

definition extract_message_text :: "serde \<Rightarrow> string \<Rightarrow> string" where
  "extract_message_text J body_json =
    (if body_json = [] then []
     else case json_from_str J body_json of None \<Rightarrow> []
       | Some val \<Rightarrow>
          (case Option.bind (json_get ''text'' val) json_as_str of Some t \<Rightarrow> t
           | None \<Rightarrow> (case Option.bind (json_get ''parts'' val) json_as_array of None \<Rightarrow> []
              | Some parts \<Rightarrow> join_lines (List.map_filter text_part parts))))"

record queued_turn_item =
  qi_turn_id :: string
  qi_sequence :: int
  qi_version :: string
  qi_message_text :: string

definition queued_turn_item_of ::
  "serde \<Rightarrow> message_row list \<Rightarrow> turn_row \<Rightarrow> queued_turn_item" where
  "queued_turn_item_of J ms t =
    (let body_json = (case tn_input_message_id t of None \<Rightarrow> []
           | Some i \<Rightarrow> (case find_one (\<lambda>m. ms_id m = i) ms of None \<Rightarrow> [] | Some m \<Rightarrow> ms_body_json m))
     in \<lparr>qi_turn_id = tn_id t, qi_sequence = tn_sequence t, qi_version = tn_version t,
         qi_message_text = extract_message_text J body_json\<rparr>)"

definition queued_turns ::
  "serde \<Rightarrow> string \<Rightarrow> 'x sessions_db_scheme \<Rightarrow> sessions_error + queued_turn_item list" where
  "queued_turns J session_id db =
    and_then (get_session J session_id db)
      (\<lambda>_. Inr (map (queued_turn_item_of J (messages db)) (sort_key tn_sequence
        (filter (\<lambda>t. tn_session_id t = session_id \<and> tn_status t = ''queued'') (turns db)))))"

end
