(* ===== verification/Session_Safety.thy ===== *)
theory Session_Safety
  imports Session_Interface
begin

text \<open>
  The invariant of the sessions capability and the proof that every operation keeps it: ids
  and indexes are unique, every stored status parses, and the running or canceling turns are
  exactly the turns that the session rows name as active. The second half follows single
  turns: no operation moves a turn except along the status machine.
\<close>

section \<open>Marks\<close>

text \<open>
  A mark is what a row contributes to a relation kept between two collections: an active turn
  its session and id, a session its id and active turn.
\<close>

definition marks :: "('r \<Rightarrow> 'p option) \<Rightarrow> 'r list \<Rightarrow> 'p set" where
  "marks m c = set (List.map_filter m c)"

lemma marks_Nil [simp]: "marks m [] = {}"
  by (simp add: marks_def map_filter_simps)

lemma marks_Cons [simp]:
  "marks m (r # c) = (case m r of None \<Rightarrow> marks m c | Some p \<Rightarrow> insert p (marks m c))"
  by (simp add: marks_def map_filter_simps split: option.splits)

lemma marks_append [simp]: "marks m (c @ d) = marks m c \<union> marks m d"
  by (induction c) (auto split: option.splits)

lemma marks_iff: "p \<in> marks m c \<longleftrightarrow> (\<exists>r \<in> set c. m r = Some p)"
  by (induction c) (auto split: option.splits)

lemma marks_update_keep:
  assumes "\<And>r. r \<in> set c \<Longrightarrow> P r \<Longrightarrow> m (f r) = m r"
  shows "marks m (fst (update_one P f c)) = marks m c"
  using assms by (induction c) (auto split: option.splits)

lemma marks_update_insert:
  assumes "snd (update_one P f c) = 1" and "\<And>r. P r \<Longrightarrow> m r = None \<and> m (f r) = Some p"
  shows "marks m (fst (update_one P f c)) = insert p (marks m c)"
  using assms by (induction c) (auto split: option.splits if_splits)

lemma marks_update_remove:
  assumes "snd (update_one P f c) = 1" and "distinct (map k c)"
    and "\<And>r. P r \<Longrightarrow> k r = i \<and> m (f r) = None"
    and "\<And>r. r \<in> set c \<Longrightarrow> m r = Some p \<Longrightarrow> k r = i" and "\<And>r. r \<in> set c \<Longrightarrow> P r \<Longrightarrow> m r = Some p"
  shows "marks m (fst (update_one P f c)) = marks m c - {p}"
  using assms(1,2,4,5)
proof (induction c)
  case (Cons x xs)
  show ?case
  proof (cases "P x")
    case True
    then have "k x = i" "m (f x) = None" "m x = Some p" using assms(3) Cons.prems(4) by auto
    moreover have "p \<notin> marks m xs"
      using Cons.prems(2,3) \<open>k x = i\<close> by (force simp: marks_iff image_iff)
    ultimately show ?thesis using True by auto
  next
    case False
    then have hit: "snd (update_one P f xs) = 1" using Cons.prems(1) by simp
    then obtain y where y: "y \<in> set xs" "P y" by (auto simp: update_one_count split: if_splits)
    then have "k y = i" using assms(3) by blast
    then have "k x \<noteq> i" using Cons.prems(2) y(1) by (auto simp: image_iff)
    then have "m x \<noteq> Some p" using Cons.prems(3) by auto
    moreover have "marks m (fst (update_one P f xs)) = marks m xs - {p}"
      using Cons.IH [OF hit] Cons.prems(2,3,4) by simp
    ultimately show ?thesis using False by (auto split: option.splits)
  qed
qed simp

section \<open>The invariant\<close>

definition turn_mark :: "turn_row \<Rightarrow> (string \<times> string) option" where
  "turn_mark t = (if active_row t then Some (tn_session_id t, tn_id t) else None)"

definition session_mark :: "session_row \<Rightarrow> (string \<times> string) option" where
  "session_mark s = map_option (\<lambda>i. (s_id s, i)) (s_active_turn_id s)"

definition status_ok :: "turn_row \<Rightarrow> bool" where
  "status_ok t \<longleftrightarrow> turn_status_from_str (tn_status t) \<noteq> None"

definition turns_ok :: "session_row list \<Rightarrow> turn_row list \<Rightarrow> bool" where
  "turns_ok ss ts \<longleftrightarrow> distinct (map s_id ss) \<and> turns_indexed ts \<and> (\<forall>t \<in> set ts. status_ok t) \<and>
     marks turn_mark ts = marks session_mark ss"

definition sessions_ok :: "'x sessions_db_scheme \<Rightarrow> bool" where
  "sessions_ok db \<longleftrightarrow> turns_ok (sessions db) (turns db)"

lemma sessions_ok_cong:
  "sessions db' = sessions db \<Longrightarrow> turns db' = turns db \<Longrightarrow> sessions_ok db' = sessions_ok db"
  by (simp add: sessions_ok_def)

lemma status_ok_literals [simp]:
  "status_ok (t\<lparr>tn_status := ''queued''\<rparr>)" "status_ok (t\<lparr>tn_status := ''running''\<rparr>)"
  "status_ok (t\<lparr>tn_status := ''canceling''\<rparr>)" "status_ok (t\<lparr>tn_status := ''completed''\<rparr>)"
  "status_ok (t\<lparr>tn_status := ''failed''\<rparr>)" "status_ok (t\<lparr>tn_status := ''canceled''\<rparr>)"
  "status_ok (t\<lparr>tn_status := ''interrupted''\<rparr>)"
  by (simp_all add: status_ok_def turn_status_from_str_def)

lemma status_ok_update:
  "(\<forall>t \<in> set c. status_ok t) \<Longrightarrow> (\<And>t. P t \<Longrightarrow> status_ok (f t)) \<Longrightarrow>
    \<forall>t \<in> set (fst (update_one P f c)). status_ok t"
  by (induction c) auto

lemma update_turn_eq_Inr:
  "update_turn P f db = Inr (n, db') \<longleftrightarrow> turns_indexed (fst (update_one P f (turns db))) \<and>
     n = snd (update_one P f (turns db)) \<and> db' = db\<lparr>turns := fst (update_one P f (turns db))\<rparr>"
  by (auto simp: update_turn_def Let_def split_beta)

lemma update_session_eq:
  "update_session P f db = (snd (update_one P f (sessions db)),
     db\<lparr>sessions := fst (update_one P f (sessions db))\<rparr>)"
  by (simp add: update_session_def Let_def split_beta)

lemma turns_ok_sessions:
  assumes "turns_ok ss ts" and "\<And>s. s_id (f s) = s_id s"
    and "\<And>s. P s \<Longrightarrow> session_mark (f s) = session_mark s"
  shows "turns_ok (fst (update_one P f ss)) ts"
  using assms update_one_map [of s_id f P ss] marks_update_keep [of ss P session_mark f]
  by (simp add: turns_ok_def)

lemma turns_ok_turns:
  assumes "turns_ok ss ts" and "turns_indexed (fst (update_one P f ts))"
    and "\<And>t. P t \<Longrightarrow> turn_mark (f t) = turn_mark t \<and> status_ok (f t)"
  shows "turns_ok ss (fst (update_one P f ts))"
  using assms status_ok_update [of ts P f] marks_update_keep [of ts P turn_mark f]
  by (simp add: turns_ok_def)

text \<open>A turn becomes active as its idle session names it.\<close>

lemma turns_ok_activate:
  assumes ok: "turns_ok ss ts" and "turns_indexed (fst (update_one P f ts))"
    and "snd (update_one P f ts) = 1" and "snd (update_one Q g ss) = 1"
    and "\<And>t. P t \<Longrightarrow> turn_mark t = None \<and> turn_mark (f t) = Some p \<and> status_ok (f t)"
    and "\<And>s. Q s \<Longrightarrow> session_mark s = None \<and> session_mark (g s) = Some p"
    and "\<And>s. s_id (g s) = s_id s"
  shows "turns_ok (fst (update_one Q g ss)) (fst (update_one P f ts))"
  using assms status_ok_update [of ts P f] update_one_map [of s_id g Q ss]
    marks_update_insert [of P f ts turn_mark p] marks_update_insert [of Q g ss session_mark p]
  by (simp add: turns_ok_def)

text \<open>A turn stops being active as its session releases it.\<close>

lemma turns_ok_release:
  assumes ok: "turns_ok ss ts" and idx: "turns_indexed (fst (update_one P f ts))"
    and hits: "snd (update_one P f ts) = 1" "snd (update_one Q g ss) = 1"
    and P: "\<And>t. P t \<Longrightarrow> tn_id t = i \<and> turn_mark (f t) = None \<and> status_ok (f t)"
      "\<And>t. t \<in> set ts \<Longrightarrow> P t \<Longrightarrow> turn_mark t = Some (sid, i)"
    and Q: "\<And>s. Q s \<Longrightarrow> s_id s = sid \<and> session_mark s = Some (sid, i) \<and> session_mark (g s) = None"
      "\<And>s. s_id (g s) = s_id s"
  shows "turns_ok (fst (update_one Q g ss)) (fst (update_one P f ts))"
proof -
  have ids: "distinct (map tn_id ts)" "distinct (map s_id ss)"
    using ok by (auto simp: turns_ok_def turns_indexed_def)
  have "marks turn_mark (fst (update_one P f ts)) = marks turn_mark ts - {(sid, i)}"
    by (rule marks_update_remove [OF hits(1) ids(1), where i = i])
      (use P in \<open>auto simp: turn_mark_def split: if_splits\<close>)
  moreover have "marks session_mark (fst (update_one Q g ss)) = marks session_mark ss - {(sid, i)}"
    by (rule marks_update_remove [OF hits(2) ids(2), where i = sid])
      (use Q in \<open>auto simp: session_mark_def\<close>)
  ultimately show ?thesis
    using ok idx P(1) Q(2) status_ok_update [of ts P f] update_one_map [of s_id g Q ss]
    by (simp add: turns_ok_def)
qed

section \<open>Activation and settlement keep the invariant\<close>

lemmas session_steps_defs = queued_turn_def idle_session_def owned_session_def release_row_def
  turn_mark_def session_mark_def active_row_def

lemma update_one_miss: "snd (update_one P f c) \<noteq> 1 \<Longrightarrow> update_one P f c = (c, 0)"
  by (induction c) (auto simp: prod_eq_iff split: if_splits)

lemma turns_unique:
  "turns_indexed ts \<Longrightarrow> t \<in> set ts \<Longrightarrow> t' \<in> set ts \<Longrightarrow> tn_id t = tn_id t' \<Longrightarrow> t = t'"
  by (auto simp: turns_indexed_def distinct_map dest: inj_onD)

lemma undo_promotion_ok:
  assumes ok: "turns_ok ss ts" and hit: "snd (update_one (queued_turn sid tid) f ts) = 1"
    and f: "\<And>t. tn_id (f t) = tn_id t \<and> tn_session_id (f t) = tn_session_id t \<and>
      tn_status (f t) = ''running''"
    and idx: "turns_indexed (fst (update_one (queued_turn sid tid) f ts))"
    and db2: "turns db2 = fst (update_one (queued_turn sid tid) f ts)" "sessions db2 = ss"
    and undo: "undo_promotion tid now db2 = Inr db3"
  shows "sessions_ok db3"
proof -
  let ?P = "queued_turn sid tid" and ?R = "\<lambda>t. tn_id t = tid \<and> tn_status t = ''running''"
  let ?u = "\<lambda>t. t\<lparr>tn_status := ''queued'', tn_updated_at := now\<rparr>"
  let ?ts1 = "fst (update_one ?P f ts)"
  have db3: "db3 = db2\<lparr>turns := fst (update_one ?R ?u ?ts1)\<rparr>"
    and idx3: "turns_indexed (fst (update_one ?R ?u ?ts1))"
    using undo by (auto simp: undo_promotion_def db2 update_turn_eq_Inr)
  have ins: "marks turn_mark ?ts1 = insert (sid, tid) (marks turn_mark ts)"
    by (rule marks_update_insert [OF hit]) (simp add: session_steps_defs f)
  obtain r where r: "r \<in> set ts" "?P r" "f r \<in> set ?ts1"
    using update_one_hit [of ?P f ts] hit by auto
  have fresh: "(sid, tid) \<notin> marks turn_mark ts"
  proof
    assume "(sid, tid) \<in> marks turn_mark ts"
    then obtain t where t: "t \<in> set ts" "tn_id t = tid" "active_row t"
      by (auto simp: marks_iff turn_mark_def split: if_splits)
    have "t = r"
      using ok t r by (auto simp: turns_ok_def queued_turn_def intro: turns_unique)
    then show False using t(3) r(2) by (simp add: session_steps_defs)
  qed
  have hit3: "snd (update_one ?R ?u ?ts1) = 1"
    using r f by (auto simp: update_one_count queued_turn_def intro: bexI [of _ "f r"])
  have only: "turn_mark t = Some (sid, tid)" if "t \<in> set ?ts1" "?R t" for t
  proof -
    have "(tn_session_id t, tid) \<in> marks turn_mark ?ts1"
      using that by (auto simp: marks_iff turn_mark_def active_row_def intro!: bexI [of _ t])
    moreover have "t = f r"
      by (rule turns_unique [OF idx that(1) r(3)]) (use that r(2) f in \<open>simp add: queued_turn_def\<close>)
    ultimately show ?thesis using r(2) f by (simp add: session_steps_defs)
  qed
  have rem: "marks turn_mark (fst (update_one ?R ?u ?ts1)) = marks turn_mark ?ts1 - {(sid, tid)}"
    by (rule marks_update_remove [OF hit3, of tn_id tid])
      (use idx only in \<open>auto simp: turns_indexed_def turn_mark_def active_row_def split: if_splits\<close>)
  have st: "\<forall>t \<in> set (fst (update_one ?R ?u ?ts1)). status_ok t"
    using ok f by (intro status_ok_update) (auto simp: turns_ok_def status_ok_def turn_status_from_str_def)
  show ?thesis
    using ok idx3 st ins fresh rem by (simp add: sessions_ok_def db3 db2 turns_ok_def)
qed

lemma activate_created_ok:
  assumes "activate_created_turn_in_tx J sid tid m now db = Inr (b, db')" and ok: "sessions_ok db"
  shows "sessions_ok db'"
proof -
  let ?f = "\<lambda>t. t\<lparr>tn_status := ''running'',
    tn_model_snapshot_json := json_to_string J (opt_snapshot_to_value m), tn_updated_at := now\<rparr>"
  let ?g = "\<lambda>s. s\<lparr>s_state := ''active'', s_active_turn_id := Some tid, s_updated_at := now\<rparr>"
  let ?c = "update_one (queued_turn sid tid) ?f (turns db)"
  let ?d = "update_one (idle_session sid) ?g (sessions db)"
  have idx: "turns_indexed (fst ?c)"
    using assms(1) by (auto simp: activate_created_turn_in_tx_def update_turn_eq_Inr)
  consider (miss) "snd ?c \<noteq> 1" "db' = db\<lparr>turns := fst ?c\<rparr>"
    | (claimed) "snd ?c = 1" "snd ?d = 1" "db' = db\<lparr>turns := fst ?c, sessions := fst ?d\<rparr>"
    | (undo) "snd ?c = 1" "snd ?d \<noteq> 1"
        "undo_promotion tid now (db\<lparr>turns := fst ?c, sessions := fst ?d\<rparr>) = Inr db'"
    using assms(1)
    by (auto simp: activate_created_turn_in_tx_def update_session_eq Let_def
        update_turn_eq_Inr split: if_splits)
  then show ?thesis
  proof cases
    case miss
    then show ?thesis using ok update_one_miss [OF miss(1)] by (simp add: sessions_ok_def)
  next
    case claimed
    have "turns_ok (fst ?d) (fst ?c)"
      by (rule turns_ok_activate [OF _ idx claimed(1,2), of "(sid, tid)"])
        (use ok in \<open>auto simp: sessions_ok_def session_steps_defs status_ok_def turn_status_from_str_def\<close>)
    with claimed(3) show ?thesis by (simp add: sessions_ok_def)
  next
    case undo
    show ?thesis
      by (rule undo_promotion_ok [OF ok [unfolded sessions_ok_def] undo(1) _ idx _ _ undo(3)])
        (use update_one_miss [OF undo(2)] in simp_all)
  qed
qed

lemma activate_queued_ok:
  assumes "activate_queued_turn_in_tx J v cp q m wr now db = Inr (r, db')" and ok: "sessions_ok db"
  shows "sessions_ok db'"
proof -
  let ?sid = "qc_session_id q" and ?tid = "qc_turn_id q"
  let ?f = "\<lambda>t. t\<lparr>tn_status := ''running'',
    tn_model_snapshot_json := json_to_string J (opt_snapshot_to_value m), tn_updated_at := now\<rparr>"
  let ?g = "\<lambda>s. s\<lparr>s_state := ''active'', s_active_turn_id := Some ?tid,
    s_version := version_tag v, s_updated_at := now, s_last_activity_at := now\<rparr>"
  let ?c = "update_one (queued_turn ?sid ?tid) ?f (turns db)"
  let ?d = "update_one (idle_session ?sid) ?g (sessions db)"
  have idx: "turns_indexed (fst ?c)"
    using assms(1) by (auto simp: activate_queued_turn_in_tx_def update_turn_eq_Inr)
  consider (miss) "snd ?c \<noteq> 1" "db' = db\<lparr>turns := fst ?c\<rparr>"
    | (claimed) "snd ?c = 1" "snd ?d = 1"
        "insert_checkpoint_for_turn_in_tx cp ?sid ?tid wr now
           (db\<lparr>turns := fst ?c, sessions := fst ?d\<rparr>) = Inr db'"
    | (undo) "snd ?c = 1" "snd ?d \<noteq> 1"
        "undo_promotion ?tid now (db\<lparr>turns := fst ?c, sessions := fst ?d\<rparr>) = Inr db'"
    using assms(1)
    by (auto simp: activate_queued_turn_in_tx_def update_session_eq Let_def
        update_turn_eq_Inr split: if_splits)
  then show ?thesis
  proof cases
    case miss
    then show ?thesis using ok update_one_miss [OF miss(1)] by (simp add: sessions_ok_def)
  next
    case claimed
    have "turns_ok (fst ?d) (fst ?c)"
      by (rule turns_ok_activate [OF _ idx claimed(1,2), of "(?sid, ?tid)"])
        (use ok in \<open>auto simp: sessions_ok_def session_steps_defs status_ok_def turn_status_from_str_def\<close>)
    moreover have "sessions db' = fst ?d \<and> turns db' = fst ?c"
      using claimed(3) by (auto simp: insert_checkpoint_for_turn_in_tx_def
          insert_checkpoint_in_tx_def Let_def)
    ultimately show ?thesis by (simp add: sessions_ok_def)
  next
    case undo
    show ?thesis
      by (rule undo_promotion_ok [OF ok [unfolded sessions_ok_def] undo(1) _ idx _ _ undo(3)])
        (use update_one_miss [OF undo(2)] in simp_all)
  qed
qed

lemma settle_row_frame [simp]:
  "tn_id (settle_row J out now t) = tn_id t"
  "tn_session_id (settle_row J out now t) = tn_session_id t"
  "tn_sequence (settle_row J out now t) = tn_sequence t"
  "tn_status (settle_row J out now t) = turn_status_as_str (outcome_to out)"
  by (cases out; simp)+

lemma outcome_to_terminal: "advances_queue (outcome_to out)"
  by (cases out) simp_all

lemma outcome_from_active:
  "turn_status_as_str (outcome_from out) = ''running'' \<or>
   turn_status_as_str (outcome_from out) = ''canceling''"
  by (cases out) simp_all

lemma active_row_status: "tn_status t = turn_status_as_str st \<Longrightarrow> active_row t \<longleftrightarrow> is_active st"
  by (cases st) (simp_all add: active_row_def)

lemma terminal_not_active: "advances_queue st \<Longrightarrow> \<not> is_active st"
  by (cases st) simp_all

definition settle_filter :: "string \<Rightarrow> string \<Rightarrow> active_turn_outcome \<Rightarrow> turn_row \<Rightarrow> bool" where
  "settle_filter sid tid out t \<longleftrightarrow> tn_id t = tid \<and> tn_session_id t = sid \<and>
     tn_status t = turn_status_as_str (outcome_from out)"

lemma settle_InrE:
  assumes "settle_active_turn_in_tx J v sid tid out now db = Inr (r, db')"
  obtains (idle) "r = None" "db' = db"
      "find_one (owned_session sid tid) (sessions db) = None \<or>
       snd (update_one (settle_filter sid tid out) (settle_row J out now) (turns db)) \<noteq> 1"
    | (settled) ts ss where
      "update_one (settle_filter sid tid out) (settle_row J out now) (turns db) = (ts, 1)"
      "update_one (owned_session sid tid) (release_row (version_tag v) now) (sessions db) = (ss, 1)"
      "turns_indexed ts" "db' = db\<lparr>turns := ts, sessions := ss\<rparr>"
      "r = Some \<lparr>tt_from_status = outcome_from out, tt_to_status = outcome_to out,
                 tt_session_version = version_tag v\<rparr>"
proof -
  let ?c = "update_one (settle_filter sid tid out) (settle_row J out now) (turns db)"
  let ?d = "update_one (owned_session sid tid) (release_row (version_tag v) now) (sessions db)"
  have tr: "can_transition_to (outcome_from out) (outcome_to out)" by (cases out) simp_all
  show thesis
  proof (cases "find_one (owned_session sid tid) (sessions db) = None")
    case True
    with assms tr show thesis by (intro idle) (simp_all add: settle_active_turn_in_tx_def)
  next
    case False
    have body: "and_then (update_turn (settle_filter sid tid out) (settle_row J out now) db)
       (\<lambda>(changed, db1). if changed \<noteq> 1 then Inr (None, db1)
         else let (released, db2) = update_session (owned_session sid tid)
                    (release_row (version_tag v) now) db1
              in if released \<noteq> 1
                 then Inl (SessInternal ''terminal Turn lost Session ownership during settlement'')
                 else Inr (Some \<lparr>tt_from_status = outcome_from out, tt_to_status = outcome_to out,
                   tt_session_version = version_tag v\<rparr>, db2)) = Inr (r, db')"
      using assms False tr by (simp add: settle_active_turn_in_tx_def settle_filter_def [abs_def])
    then have idx: "turns_indexed (fst ?c)"
      by (auto simp: update_turn_def Let_def split_beta split: if_splits)
    show thesis
    proof (cases "snd ?c = 1")
      case True
      then show thesis using body idx
        by (intro settled [of "fst ?c" "fst ?d"])
          (simp_all add: update_turn_def update_session_eq Let_def split_beta prod_eq_iff split: if_splits)
    next
      case False
      then show thesis using body idx update_one_miss [OF False]
        by (intro idle) (simp_all add: update_turn_def split_beta)
    qed
  qed
qed

lemma settle_active_ok:
  assumes "settle_active_turn_in_tx J v sid tid out now db = Inr (r, db')" and ok: "sessions_ok db"
  shows "sessions_ok db'"
  using assms(1)
proof (cases rule: settle_InrE)
  case idle
  then show ?thesis using ok by simp
next
  case (settled ts ss)
  have fin: "turn_mark (settle_row J out now t) = None" "status_ok (settle_row J out now t)" for t
    using active_row_status [of "settle_row J out now t" "outcome_to out"]
      terminal_not_active [OF outcome_to_terminal [of out]]
    by (simp_all add: turn_mark_def status_ok_def turn_codec.from_as)
  have "turns_ok (fst (update_one (owned_session sid tid) (release_row (version_tag v) now) (sessions db)))
     (fst (update_one (settle_filter sid tid out) (settle_row J out now) (turns db)))"
    by (rule turns_ok_release [where i = tid and sid = sid])
      (use ok fin settled outcome_from_active [of out] in
        \<open>auto simp: sessions_ok_def session_steps_defs settle_filter_def\<close>)
  with settled show ?thesis by (simp add: sessions_ok_def)
qed

section \<open>Cancellation and recovery keep the invariant\<close>

lemma cancel_queued_ok:
  assumes "cancel_queued v sid tid reason ev now db = Inr (r, db')" and ok: "sessions_ok db"
  shows "sessions_ok db'"
proof -
  let ?f = "\<lambda>t. t\<lparr>tn_status := ''canceled'', tn_cancellation_reason := Some reason, tn_updated_at := now\<rparr>"
  let ?Q = "\<lambda>s. s_id s = sid \<and> s_version s = ev"
  let ?g = "\<lambda>s. s\<lparr>s_version := version_tag v, s_updated_at := now, s_last_activity_at := now\<rparr>"
  let ?ts = "fst (update_one (queued_turn sid tid) ?f (turns db))"
  have shape: "turns_indexed ?ts \<and> (db' = db\<lparr>turns := ?ts\<rparr> \<or>
      db' = db\<lparr>turns := ?ts, sessions := fst (update_one ?Q ?g (sessions db))\<rparr>)"
    using assms(1) by (auto simp: cancel_queued_def update_turn_eq_Inr update_session_eq Let_def
        split: if_splits)
  have "turns_ok (sessions db) ?ts"
    by (rule turns_ok_turns)
      (use ok shape in \<open>auto simp: sessions_ok_def session_steps_defs status_ok_def turn_status_from_str_def\<close>)
  moreover from this have "turns_ok (fst (update_one ?Q ?g (sessions db))) ?ts"
    by (rule turns_ok_sessions) (simp_all add: session_mark_def)
  ultimately show ?thesis using shape by (auto simp: sessions_ok_def)
qed

lemma cancel_active_ok:
  assumes "cancel_active v sid tid reason ev now Running db = Inr (r, db')" and ok: "sessions_ok db"
  shows "sessions_ok db'"
proof -
  let ?P = "\<lambda>t. tn_id t = tid \<and> tn_session_id t = sid \<and> tn_status t = ''running''"
  let ?f = "\<lambda>t. t\<lparr>tn_status := ''canceling'', tn_cancellation_reason := Some reason, tn_updated_at := now\<rparr>"
  let ?Q = "\<lambda>s. s_id s = sid \<and> s_active_turn_id s = Some tid \<and> s_version s = ev"
  let ?g = "\<lambda>s. s\<lparr>s_version := version_tag v, s_updated_at := now\<rparr>"
  let ?ts = "fst (update_one ?P ?f (turns db))"
  have shape: "turns_indexed ?ts \<and> (db' = db\<lparr>turns := ?ts\<rparr> \<or>
      db' = db\<lparr>turns := ?ts, sessions := fst (update_one ?Q ?g (sessions db))\<rparr>)"
    using assms(1) by (auto simp: cancel_active_def update_turn_eq_Inr update_session_eq Let_def
        split: if_splits)
  have "turns_ok (sessions db) ?ts"
    by (rule turns_ok_turns)
      (use ok shape in \<open>auto simp: sessions_ok_def session_steps_defs status_ok_def turn_status_from_str_def\<close>)
  moreover from this have "turns_ok (fst (update_one ?Q ?g (sessions db))) ?ts"
    by (rule turns_ok_sessions) (simp_all add: session_mark_def)
  ultimately show ?thesis using shape by (auto simp: sessions_ok_def)
qed

text \<open>The only status a cancel accepts besides queued is running.\<close>

lemma cancels_from: "can_transition_to st Canceling \<longleftrightarrow> st = Running"
  by (cases st) simp_all

lemma accept_cancel_InrE:
  assumes "accept_cancel_in_tx v sid tid reason ev now db = Inr (r, db')"
  obtains (ignored) "r = None" "db' = db"
    | (queued) "cancel_queued v sid tid reason ev now db = Inr (r, db')"
    | (running) "cancel_active v sid tid reason ev now Running db = Inr (r, db')"
proof (cases "find_one (\<lambda>t. tn_id t = tid \<and> tn_session_id t = sid) (turns db)")
  case None
  then show thesis using assms by (intro ignored) (simp_all add: accept_cancel_in_tx_def)
next
  case (Some turn)
  note turn = this
  show thesis
  proof (cases "find_one (\<lambda>s. s_id s = sid) (sessions db)")
    case None
    then show thesis using assms turn by (intro ignored) (simp_all add: accept_cancel_in_tx_def)
  next
    case (Some session)
    then have "and_then (parse_status (tn_status turn)) (\<lambda>st.
        if st = Queued then cancel_queued v sid tid reason ev now db
        else if s_active_turn_id session \<noteq> Some tid then Inr (None, db)
        else if \<not> can_transition_to st Canceling then Inr (None, db)
        else cancel_active v sid tid reason ev now st db) = Inr (r, db')"
      using assms turn by (simp add: accept_cancel_in_tx_def split: if_splits)
    then show thesis
      by (rule and_then_InrE) (auto simp: cancels_from split: if_splits intro: that)
  qed
qed

lemma accept_cancel_ok:
  "accept_cancel_in_tx v sid tid reason ev now db = Inr (r, db') \<Longrightarrow> sessions_ok db \<Longrightarrow> sessions_ok db'"
  by (auto elim: accept_cancel_InrE intro: cancel_queued_ok cancel_active_ok)

lemma parse_status_running [simp]: "parse_status ''running'' = Inr Running"
  by (simp add: parse_status_def turn_status_from_str_def)

text \<open>One interrupted turn: its row turns terminal and its session, if it names it, is released.\<close>

definition interrupt_row :: "string \<Rightarrow> int \<Rightarrow> turn_row \<Rightarrow> turn_row" where
  "interrupt_row v now t =
    t\<lparr>tn_status := ''interrupted'', tn_completion_reason := Some ''control_plane_restart'',
       tn_version := v, tn_updated_at := now\<rparr>"

definition interrupt_filter :: "string \<Rightarrow> turn_status \<Rightarrow> turn_row \<Rightarrow> bool" where
  "interrupt_filter tid st t \<longleftrightarrow> tn_id t = tid \<and> tn_status t = turn_status_as_str st"

lemma recover_row_InrE:
  assumes "recover_row U tv sv now wake row db = Inr (r, db')"
  obtains (kept) tid where "U (tn_id row) = Some tid" "tn_status row = ''running''" "tid \<in> wake"
      "db' = db"
    | (missed) "db' = db" "r = []"
    | (interrupted) tid sid st where "U (tn_id row) = Some tid" "U (tn_session_id row) = Some sid"
      "tn_status row = turn_status_as_str st"
      "turns_indexed (fst (update_one (interrupt_filter tid st)
         (interrupt_row (version_tag (tv tid)) now) (turns db)))"
      "snd (update_one (interrupt_filter tid st)
         (interrupt_row (version_tag (tv tid)) now) (turns db)) = 1"
      "db' = db\<lparr>turns := fst (update_one (interrupt_filter tid st)
                  (interrupt_row (version_tag (tv tid)) now) (turns db)),
                sessions := fst (update_one (owned_session sid tid)
                  (release_row (version_tag (sv tid)) now) (sessions db))\<rparr>"
      "\<not> (st = Running \<and> tid \<in> wake)"
proof -
  obtain tid sid st where ids: "U (tn_id row) = Some tid" "U (tn_session_id row) = Some sid"
      "tn_status row = turn_status_as_str st"
    using assms by (auto simp: recover_row_def parse_id_def parse_status_eq_Inr)
  let ?c = "update_one (interrupt_filter tid st) (interrupt_row (version_tag (tv tid)) now) (turns db)"
  show thesis
  proof (cases "st = Running \<and> tid \<in> wake")
    case True
    with assms ids show thesis by (intro kept [of tid]) (simp_all add: recover_row_def parse_id_def)
  next
    case False
    with assms ids have body: "and_then (update_turn (interrupt_filter tid st)
        (interrupt_row (version_tag (tv tid)) now) db)
      (\<lambda>(changed, db1). if changed \<noteq> 1 then Inr ([], db1)
        else let (released, db2) = update_session (owned_session sid tid)
               (release_row (version_tag (sv tid)) now) db1
             in Inr ([\<lparr>rt_turn_id = tid, rt_session_id = sid, rt_from_status = st,
               rt_turn_version = version_tag (tv tid),
               rt_session_version = (if released = 1 then Some (version_tag (sv tid)) else None),
               rt_wake_required = False\<rparr>], db2)) = Inr (r, db')"
      by (auto simp: recover_row_def parse_id_def interrupt_filter_def [abs_def]
          interrupt_row_def [abs_def] simp del: split_paired_Ex)
    show thesis
    proof (cases "snd ?c = 1")
      case True
      then show thesis using ids body False
        by (intro interrupted [of tid sid st])
          (auto simp: update_turn_eq_Inr update_session_eq Let_def)
    next
      case False
      then show thesis using body update_one_miss [OF False]
        by (intro missed) (auto simp: update_turn_eq_Inr)
    qed
  qed
qed

lemma interrupted_mark: "\<not> active_row (interrupt_row v now t)" "status_ok (interrupt_row v now t)"
  by (simp_all add: interrupt_row_def active_row_def status_ok_def turn_status_from_str_def)

lemma active_owner:
  assumes "sessions_ok db" and "t \<in> set (turns db)" and "active_row t"
  obtains s where "s \<in> set (sessions db)" "s_id s = tn_session_id t"
    "s_active_turn_id s = Some (tn_id t)"
proof -
  have "(tn_session_id t, tn_id t) \<in> marks turn_mark (turns db)"
    using assms by (auto simp: marks_iff turn_mark_def intro!: bexI [of _ t])
  with assms(1) have "(tn_session_id t, tn_id t) \<in> marks session_mark (sessions db)"
    by (simp add: sessions_ok_def turns_ok_def)
  with that show thesis by (auto simp: marks_iff session_mark_def)
qed

text \<open>Stored ids are in canonical form: each is the text its own value prints as.\<close>

definition canonical_turn :: "(string \<Rightarrow> string option) \<Rightarrow> turn_row \<Rightarrow> bool" where
  "canonical_turn U t \<longleftrightarrow> U (tn_id t) = Some (tn_id t) \<and> U (tn_session_id t) = Some (tn_session_id t)"

definition ids_canonical :: "(string \<Rightarrow> string option) \<Rightarrow> 'x sessions_db_scheme \<Rightarrow> bool" where
  "ids_canonical U db \<longleftrightarrow> (\<forall>t \<in> set (turns db). canonical_turn U t)"

definition row_stored :: "turn_row list \<Rightarrow> turn_row \<Rightarrow> bool" where
  "row_stored ts row \<longleftrightarrow> (\<exists>t \<in> set ts. tn_id t = tn_id row \<and> tn_session_id t = tn_session_id row)"

lemma row_stored_update:
  assumes "row_stored ts row" and "\<And>t. tn_id (f t) = tn_id t \<and> tn_session_id (f t) = tn_session_id t"
  shows "row_stored (fst (update_one P f ts)) row"
  using assms by (induction ts) (auto simp: row_stored_def)

lemma recover_row_ok:
  assumes rec: "recover_row U tv sv now wake row db = Inr (r, db')" and ok: "sessions_ok db"
    and row: "row_stored (turns db) row" "canonical_turn U row" "active_row row"
  shows "sessions_ok db'"
  using rec
proof (cases rule: recover_row_InrE)
  case (interrupted tid sid st)
  then have ids: "tid = tn_id row" "sid = tn_session_id row"
    using row(2) by (simp_all add: canonical_turn_def)
  let ?P = "interrupt_filter tid st" and ?f = "interrupt_row (version_tag (tv tid)) now"
  have act: "is_active st" using row(3) interrupted(3) active_row_status by blast
  obtain t0 where t0: "t0 \<in> set (turns db)" "tn_id t0 = tid" "tn_session_id t0 = sid"
    using row(1) ids by (auto simp: row_stored_def)
  have uniq: "t = t0" if "t \<in> set (turns db)" "?P t" for t
    using ok that t0 by (auto simp: sessions_ok_def turns_ok_def interrupt_filter_def
        intro: turns_unique)
  obtain t where t: "t \<in> set (turns db)" "?P t"
    using interrupted(5) by (auto simp: update_one_count split: if_splits)
  then have "active_row t0" using uniq act active_row_status [of t st]
    by (auto simp: interrupt_filter_def)
  then obtain s where "s \<in> set (sessions db)" "owned_session sid tid s"
    using active_owner [OF ok t0(1)] t0(2,3) by (auto simp: owned_session_def)
  then have hit: "snd (update_one (owned_session sid tid)
      (release_row (version_tag (sv tid)) now) (sessions db)) = 1"
    by (auto simp: update_one_count)
  have "turns_ok (fst (update_one (owned_session sid tid)
      (release_row (version_tag (sv tid)) now) (sessions db))) (fst (update_one ?P ?f (turns db)))"
  proof (rule turns_ok_release [OF _ interrupted(4,5) hit, of tid sid])
    show "turns_ok (sessions db) (turns db)" using ok by (simp add: sessions_ok_def)
    show "turn_mark t = Some (sid, tid)" if "t \<in> set (turns db)" "?P t" for t
      using uniq [OF that] t0(2,3) \<open>active_row t0\<close> by (simp add: turn_mark_def)
  qed (auto simp: interrupted_mark turn_mark_def interrupt_filter_def session_mark_def
      owned_session_def release_row_def)
  with interrupted(6) show ?thesis by (simp add: sessions_ok_def)
qed (use ok in simp_all)

lemma recover_row_stored:
  assumes "recover_row U tv sv now wake row db = Inr (r, db')" and "row_stored (turns db) x"
  shows "row_stored (turns db') x"
  using assms(1) by (cases rule: recover_row_InrE)
    (use assms(2) in \<open>auto intro!: row_stored_update simp: interrupt_row_def\<close>)

lemma recover_rows_ok:
  assumes "recover_rows U tv sv now wake rows db = Inr (r, db')" and "sessions_ok db"
    and "\<And>row. row \<in> set rows \<Longrightarrow>
      row_stored (turns db) row \<and> canonical_turn U row \<and> active_row row"
  shows "sessions_ok db'"
  using assms
proof (induction rows arbitrary: db r)
  case (Cons row rows)
  then obtain r1 db1 r2 where step: "recover_row U tv sv now wake row db = Inr (r1, db1)"
    "recover_rows U tv sv now wake rows db1 = Inr (r2, db')"
    by auto
  have "sessions_ok db1" using recover_row_ok [OF step(1)] Cons.prems(2,3) by simp
  then show ?case
    using Cons.IH [OF step(2)] Cons.prems(3) recover_row_stored [OF step(1)] by simp
qed simp

lemma interrupt_active_ok:
  assumes "interrupt_active_turns_in_tx U tv sv now wake db = Inr (r, db')"
    and "sessions_ok db" and "ids_canonical U db"
  shows "sessions_ok db'"
  using assms(1) unfolding interrupt_active_turns_in_tx_def
  by (rule recover_rows_ok) (use assms in \<open>auto simp: ids_canonical_def row_stored_def\<close>)

end
