(* ===== verification/Session_Steps.thy ===== *)
theory Session_Steps
  imports Session_Safety
begin

text \<open>
  All operations of the sessions capability as one step relation, in any order and any
  interleaving of transactions, with its invariant, and the history of a single turn under it:
  a turn keeps its id, session and place in the queue, is never lost, and moves only along the
  status machine.
\<close>

section \<open>Histories of turns\<close>

definition turn_follows :: "turn_row \<Rightarrow> turn_row \<Rightarrow> bool" where
  "turn_follows t t' \<longleftrightarrow> tn_id t' = tn_id t \<and> tn_session_id t' = tn_session_id t \<and>
     tn_sequence t' = tn_sequence t \<and>
     (\<exists>a b. tn_status t = turn_status_as_str a \<and> tn_status t' = turn_status_as_str b \<and>
        can_transition_to\<^sup>*\<^sup>* a b)"

definition turns_progress :: "turn_row list \<Rightarrow> turn_row list \<Rightarrow> bool" where
  "turns_progress ts ts' \<longleftrightarrow> tn_id ` set ts \<subseteq> tn_id ` set ts' \<and>
     (\<forall>t' \<in> set ts'. tn_id t' \<in> tn_id ` set ts \<longrightarrow> (\<exists>t \<in> set ts. turn_follows t t'))"

lemma status_okE:
  assumes "status_ok t" obtains a where "tn_status t = turn_status_as_str a"
  using assms by (auto simp: status_ok_def turn_codec.from_str_Some_iff)

lemma turn_follows_refl: "status_ok t \<Longrightarrow> turn_follows t t"
  by (erule status_okE) (auto simp: turn_follows_def)

lemma turn_follows_trans: "turn_follows t t' \<Longrightarrow> turn_follows t' t'' \<Longrightarrow> turn_follows t t''"
  unfolding turn_follows_def by (metis turn_codec.as_str_inj rtranclp_trans)

lemma turns_progress_refl: "\<forall>t \<in> set ts. status_ok t \<Longrightarrow> turns_progress ts ts"
  by (auto simp: turns_progress_def intro: turn_follows_refl)

lemma turns_progress_trans:
  assumes ab: "turns_progress a b" and bc: "turns_progress b c"
  shows "turns_progress a c"
  unfolding turns_progress_def
proof (intro conjI ballI impI)
  have "tn_id ` set a \<subseteq> tn_id ` set b" "tn_id ` set b \<subseteq> tn_id ` set c"
    using ab bc by (simp_all add: turns_progress_def)
  then show "tn_id ` set a \<subseteq> tn_id ` set c" by (rule subset_trans)
  fix t assume t: "t \<in> set c" "tn_id t \<in> tn_id ` set a"
  then have "tn_id t \<in> tn_id ` set b" using ab by (auto simp: turns_progress_def)
  then obtain t' where t': "t' \<in> set b" "turn_follows t' t"
    using bc t(1) unfolding turns_progress_def by blast
  then have "tn_id t' = tn_id t" by (simp add: turn_follows_def)
  then obtain t0 where "t0 \<in> set a" "turn_follows t0 t'"
    using ab t(2) t'(1) unfolding turns_progress_def by metis
  with t'(2) show "\<exists>t0 \<in> set a. turn_follows t0 t" by (blast intro: turn_follows_trans)
qed

lemma turns_progress_update:
  assumes st: "\<forall>t \<in> set ts. status_ok t" and f: "\<And>t. P t \<Longrightarrow> turn_follows t (f t)"
    and i: "\<And>t. tn_id (f t) = tn_id t"
  shows "turns_progress ts (fst (update_one P f ts))"
  unfolding turns_progress_def
proof (intro conjI ballI impI)
  have "tn_id ` set (fst (update_one P f ts)) = tn_id ` set ts"
    by (metis list.set_map update_one_map i)
  then show "tn_id ` set ts \<subseteq> tn_id ` set (fst (update_one P f ts))" by simp
  fix t' assume "t' \<in> set (fst (update_one P f ts))"
  then show "\<exists>t \<in> set ts. turn_follows t t'"
    by (cases rule: update_one_setE) (use st f in \<open>auto intro: turn_follows_refl\<close>)
qed

lemma turns_progress_append:
  "\<forall>t \<in> set ts. status_ok t \<Longrightarrow> tn_id t' \<notin> tn_id ` set ts \<Longrightarrow> turns_progress ts (ts @ [t'])"
  by (auto simp: turns_progress_def intro: turn_follows_refl)

lemma follows_move:
  assumes "tn_id t' = tn_id t" "tn_session_id t' = tn_session_id t" "tn_sequence t' = tn_sequence t"
    and "tn_status t = turn_status_as_str a" "tn_status t' = turn_status_as_str b"
    and "can_transition_to a b"
  shows "turn_follows t t'"
  using assms by (auto simp: turn_follows_def)

lemma undo_promotion_progress:
  assumes ok: "turns_ok ss ts" and hit: "snd (update_one (queued_turn sid tid) f ts) = 1"
    and f: "\<And>t. tn_id (f t) = tn_id t \<and> tn_session_id (f t) = tn_session_id t \<and>
      tn_sequence (f t) = tn_sequence t \<and> tn_status (f t) = ''running''"
    and db2: "turns db2 = fst (update_one (queued_turn sid tid) f ts)"
    and undo: "undo_promotion tid now db2 = Inr db3"
  shows "turns_progress ts (turns db3)"
proof -
  let ?P = "queued_turn sid tid" and ?R = "\<lambda>t. tn_id t = tid \<and> tn_status t = ''running''"
  let ?u = "\<lambda>t. t\<lparr>tn_status := ''queued'', tn_updated_at := now\<rparr>"
  have ids: "distinct (map tn_id ts)" and st: "\<forall>t \<in> set ts. status_ok t"
    using ok by (auto simp: turns_ok_def turns_indexed_def)
  have ts1: "turns db2 = map (\<lambda>t. if ?P t then f t else t) ts"
    unfolding db2 by (rule update_one_keyed [OF ids, of _ tid]) (simp_all add: queued_turn_def f)
  have "distinct (map tn_id (turns db2))" using ids by (simp add: ts1 comp_def f if_distrib cong: if_cong)
  then have ts3: "turns db3 = map (\<lambda>t. if ?R t then ?u t else t) (turns db2)"
    using undo update_one_keyed [of tn_id "turns db2" ?R tid ?u]
    by (auto simp: undo_promotion_def update_turn_eq_Inr)
  obtain r where r: "r \<in> set ts" "?P r" using hit by (auto simp: update_one_count split: if_splits)
  have "\<not> ?R t" if "t \<in> set ts" for t
  proof
    assume R: "?R t"
    have "t = r" by (rule turns_unique [OF _ that r(1)])
      (use ok R r(2) in \<open>auto simp: turns_ok_def queued_turn_def\<close>)
    then show False using R r(2) by (simp add: queued_turn_def)
  qed
  then have eq: "turns db3 = map (\<lambda>t. if ?P t then ?u (f t) else t) ts"
    by (auto simp: ts3 ts1 queued_turn_def f)
  have "turn_follows t (?u (f t))" if "?P t" for t
    using that f [of t] by (auto simp: turn_follows_def queued_turn_def intro!: exI [of _ Queued])
  then have "\<exists>t \<in> set ts. turn_follows t t'" if "t' \<in> set (turns db3)" for t'
    using that st turn_follows_refl by (auto simp: eq split: if_splits)
  moreover have "map tn_id (turns db3) = map tn_id ts"
    by (simp add: eq f)
  then have "tn_id ` set (turns db3) = tn_id ` set ts" by (metis list.set_map)
  ultimately show ?thesis by (auto simp: turns_progress_def)
qed

section \<open>Frames\<close>

lemma insert_message_frame:
  "insert_message m db = Inr db' \<Longrightarrow> sessions db' = sessions db \<and> turns db' = turns db \<and>
    timeline_items db' = timeline_items db \<and> messages db' = messages db @ [m]"
  by (auto simp: insert_message_def dest: insert_one_SomeD)

lemma insert_timeline_frame:
  "insert_timeline t db = Inr db' \<Longrightarrow> sessions db' = sessions db \<and> turns db' = turns db \<and>
    messages db' = messages db \<and> timeline_items db' = timeline_items db @ [t]"
  by (auto simp: insert_timeline_def dest: insert_one_SomeD)

lemma insert_checkpoint_frame:
  "insert_checkpoint_in_tx i s t m p w now db = Inr (r, db') \<Longrightarrow>
    sessions db' = sessions db \<and> turns db' = turns db \<and> messages db' = messages db \<and>
    timeline_items db' = timeline_items db"
  by (auto simp: insert_checkpoint_in_tx_def)

lemma link_attachments_frame:
  "link_attachments g n as db = Inr db' \<Longrightarrow>
    sessions db' = sessions db \<and> turns db' = turns db \<and> messages db' = messages db \<and>
    timeline_items db' = timeline_items db"
  by (induction as arbitrary: n db) (auto simp: and_then_eq_Inr)

lemma append_session_event_frame:
  "append_session_event J e t ev db = Inr db' \<Longrightarrow>
    sessions db' = sessions db \<and> turns db' = turns db \<and> messages db' = messages db \<and>
    timeline_items db' = timeline_items db"
  by (auto simp: append_session_event_def append_in_tx_def Let_def
      split: sum.splits if_splits option.splits)

lemmas content_frames = insert_message_frame insert_timeline_frame insert_checkpoint_frame
  link_attachments_frame append_session_event_frame

lemma compacted_frame:
  "append_context_compacted_in_tx J i v x db = Inr (r, db') \<Longrightarrow>
    sessions db' = sessions db \<and> turns db' = turns db"
  by (auto simp: append_context_compacted_in_tx_def Let_def split: option.splits dest!: content_frames)

lemma assistant_frame:
  "append_assistant_message_in_tx J g i db = Inr (r, db') \<Longrightarrow>
    sessions db' = sessions db \<and> turns db' = turns db"
  by (auto simp: append_assistant_message_in_tx_def Let_def split: if_splits dest!: content_frames)

lemma tool_result_frame:
  "append_tool_result_in_tx J g i db = Inr (r, db') \<Longrightarrow>
    sessions db' = sessions db \<and> turns db' = turns db"
  by (auto simp: append_tool_result_in_tx_def Let_def dest!: content_frames)

lemma replace_tool_result_frame:
  "replace_tool_result_in_tx J v w i db = Inr (r, db') \<Longrightarrow>
    sessions db' = sessions db \<and> turns db' = turns db"
  by (auto simp: replace_tool_result_in_tx_def Let_def split: option.splits if_splits)

lemma create_turn_input_frame:
  assumes "create_turn_input_in_tx J g i db = Inr (r, db')"
  shows "sessions db' = sessions db"
    "turns db' = turns db @ [new_turn_row J g i (next_sequence (ct_session_id i) db)]"
    "turns_indexed (turns db')"
proof -
  let ?t = "new_turn_row J g i (next_sequence (ct_session_id i) db)"
  obtain db1 where db1: "insert_turn ?t db = Inr db1"
    and rest: "sessions db' = sessions db1 \<and> turns db' = turns db1"
    using assms by (auto simp: create_turn_input_in_tx_def Let_def split: option.splits
        dest!: content_frames)
  from db1 have "turns_indexed (turns db @ [?t])" "db1 = db\<lparr>turns := turns db @ [?t]\<rparr>"
    by (auto simp: insert_turn_def split: if_splits)
  with rest show "sessions db' = sessions db" "turns db' = turns db @ [?t]" "turns_indexed (turns db')"
    by auto
qed

lemma create_turn_input_ok:
  assumes "create_turn_input_in_tx J g i db = Inr (r, db')" and "sessions_ok db"
  shows "sessions_ok db'"
  using create_turn_input_frame [OF assms(1)] assms(2)
  by (simp add: sessions_ok_def turns_ok_def new_turn_row_def turn_mark_def active_row_def
      status_ok_def turn_status_from_str_def)

lemma steer_shape:
  assumes "append_steer_in_tx J U g i db = Inr (r, db')"
  obtains tid where "steer_target U i db = Inr tid" "turns db' = turns db"
    "sessions db' = fst (update_one
      (\<lambda>s. s_id s = sx_session_id i \<and> s_version s = sx_expected_version i \<and> s_active_turn_id s = Some tid)
      (\<lambda>s. s\<lparr>s_version := version_tag (sg_session_version g), s_updated_at := sx_now i\<rparr>) (sessions db))"
  using assms
  by (auto simp: append_steer_in_tx_def Let_def update_session_eq split: if_splits
      dest!: content_frames)

lemma steer_ok:
  assumes "append_steer_in_tx J U g i db = Inr (r, db')" and "sessions_ok db"
  shows "sessions_ok db'"
  using assms(1)
proof (rule steer_shape)
  fix tid
  assume "turns db' = turns db" and "sessions db' = fst (update_one
      (\<lambda>s. s_id s = sx_session_id i \<and> s_version s = sx_expected_version i \<and> s_active_turn_id s = Some tid)
      (\<lambda>s. s\<lparr>s_version := version_tag (sg_session_version g), s_updated_at := sx_now i\<rparr>) (sessions db))"
  then show ?thesis using assms(2)
    by (simp add: sessions_ok_def) (rule turns_ok_sessions; simp add: session_mark_def)
qed

lemma lock_shape:
  assumes "lock_session_command_in_tx J v sid ev mp now db = Inr (r, db')"
  shows "turns db' = turns db" "sessions_ok db \<Longrightarrow> sessions_ok db'"
proof -
  obtain ref where eq: "db' = db\<lparr>sessions := fst (update_one
      (\<lambda>s. s_id s = sid \<and> s_version s = ev \<and> s_state s \<noteq> ''deleting'')
      (\<lambda>s. (if mp \<noteq> None then s\<lparr>s_next_model_ref := ref\<rparr> else s)
             \<lparr>s_version := version_tag v, s_updated_at := now, s_last_activity_at := now\<rparr>)
      (sessions db))\<rparr>"
    using assms by (auto simp: lock_session_command_in_tx_def Let_def update_session_eq
        split: if_splits)
  then show "turns db' = turns db" by simp
  show "sessions_ok db'" if "sessions_ok db"
    using that by (simp add: sessions_ok_def eq) (rule turns_ok_sessions; simp add: session_mark_def)
qed

lemma create_session_ok:
  assumes "create_session_in_tx now v sid pid title db = Inr (r, db')"
  shows "turns db' = turns db" "sessions_ok db \<Longrightarrow> sessions_ok db'"
  using assms
  by (auto simp: create_session_in_tx_def sessions_ok_def turns_ok_def session_mark_def
      split: option.splits if_splits dest!: insert_one_SomeD)

lemma mark_deleting_ok:
  assumes "mark_session_deleting_in_tx U now v sid ev db = Inr (r, db')"
  shows "turns db' = turns db" "sessions_ok db \<Longrightarrow> sessions_ok db'"
proof -
  have eq: "db' = db \<or> db' = db\<lparr>sessions := fst (update_one (\<lambda>s. s_id s = sid)
      (\<lambda>s. s\<lparr>s_state := ''deleting'', s_version := version_tag v, s_updated_at := now\<rparr>) (sessions db))\<rparr>"
    using assms by (auto simp: mark_session_deleting_in_tx_def update_session_eq Let_def
        split: if_splits)
  then show "turns db' = turns db" by auto
  show "sessions_ok db'" if "sessions_ok db"
    using eq
  proof
    assume "db' = db\<lparr>sessions := fst (update_one (\<lambda>s. s_id s = sid)
      (\<lambda>s. s\<lparr>s_state := ''deleting'', s_version := version_tag v, s_updated_at := now\<rparr>) (sessions db))\<rparr>"
    then show ?thesis using that
      by (simp add: sessions_ok_def) (rule turns_ok_sessions; simp add: session_mark_def)
  qed (use that in simp)
qed

lemma patch_tx_ok:
  assumes "patch_session_tx J now v c e t sid title ev actor cur db = Inr (r, db')"
  shows "turns db' = turns db" "sessions_ok db \<Longrightarrow> sessions_ok db'"
proof -
  let ?f = "\<lambda>s. (case trimmed_nonempty title of None \<Rightarrow> s | Some t \<Rightarrow> s\<lparr>s_title := Some t\<rparr>)
    \<lparr>s_updated_at := now, s_version := version_tag v\<rparr>"
  have eq: "turns db' = turns db \<and> sessions db' = fst (update_one
      (\<lambda>s. s_id s = sid \<and> s_version s = ev) ?f (sessions db))"
    using assms by (auto simp: patch_session_tx_def Let_def update_session_eq
        split: if_splits dest!: append_session_event_frame)
  then show "turns db' = turns db" by simp
  show "sessions_ok db'" if "sessions_ok db"
    using that by (simp add: sessions_ok_def eq)
      (rule turns_ok_sessions; simp add: session_mark_def split: option.splits)
qed

lemma retitle_ok:
  assumes "retitle_placeholder_session_in_tx sid title ph tid now db = (b, db')"
  shows "turns db' = turns db" "sessions_ok db \<Longrightarrow> sessions_ok db'"
proof -
  have eq: "db' = db \<or> db' = db\<lparr>sessions := fst (update_one
      (\<lambda>s. s_id s = sid \<and> s_title s = Some ph)
      (\<lambda>s. s\<lparr>s_title := Some title, s_updated_at := now\<rparr>) (sessions db))\<rparr>"
    using assms by (auto simp: retitle_placeholder_session_in_tx_def update_session_eq Let_def
        split: if_splits)
  then show "turns db' = turns db" by auto
  show "sessions_ok db'" if "sessions_ok db"
    using eq
  proof
    assume "db' = db\<lparr>sessions := fst (update_one (\<lambda>s. s_id s = sid \<and> s_title s = Some ph)
      (\<lambda>s. s\<lparr>s_title := Some title, s_updated_at := now\<rparr>) (sessions db))\<rparr>"
    then show ?thesis using that
      by (simp add: sessions_ok_def) (rule turns_ok_sessions; simp add: session_mark_def)
  qed (use that in simp)
qed

section \<open>The step relation\<close>

text \<open>
  One committed effect of one operation. A transaction that composes several operations is a
  sequence of these steps; one that aborts is none.
\<close>

inductive session_op :: "'x sessions_db_scheme \<Rightarrow> 'x sessions_db_scheme \<Rightarrow> bool" where
  op_create_session: "create_session_in_tx now v sid pid title db = Inr (r1, db') \<Longrightarrow> session_op db db'"
| op_patch: "patch_session_tx J now v c e t sid title ev actor cur db = Inr (r2, db') \<Longrightarrow> session_op db db'"
| op_retitle: "retitle_placeholder_session_in_tx sid ttl ph tid now db = (b1, db') \<Longrightarrow> session_op db db'"
| op_lock: "lock_session_command_in_tx J v sid ev mp now db = Inr (r3, db') \<Longrightarrow> session_op db db'"
| op_mark_deleting: "mark_session_deleting_in_tx U now v sid ev db = Inr (r4, db') \<Longrightarrow> session_op db db'"
| op_create_turn: "create_turn_input_in_tx J g i db = Inr (r5, db') \<Longrightarrow> session_op db db'"
| op_activate_created: "activate_created_turn_in_tx J sid tid m now db = Inr (b2, db') \<Longrightarrow> session_op db db'"
| op_activate_queued:
    "activate_queued_turn_in_tx J v cp q m wr now db = Inr (r6, db') \<Longrightarrow> session_op db db'"
| op_settle: "settle_active_turn_in_tx J v sid tid out now db = Inr (r7, db') \<Longrightarrow> session_op db db'"
| op_accept_cancel: "accept_cancel_in_tx v sid tid reason ev now db = Inr (r8, db') \<Longrightarrow> session_op db db'"
| op_settle_cancel:
    "settle_cancel_in_tx J v sid tid unc reason now db = Inr (r9, db') \<Longrightarrow> session_op db db'"
| op_interrupt: "interrupt_active_turns_in_tx U tv sv now wake db = Inr (r10, db') \<Longrightarrow>
    ids_canonical U db \<Longrightarrow> session_op db db'"
| op_steer: "append_steer_in_tx J U sg si db = Inr (r11, db') \<Longrightarrow> session_op db db'"
| op_assistant: "append_assistant_message_in_tx J mg ai db = Inr (r12, db') \<Longrightarrow> session_op db db'"
| op_tool: "append_tool_result_in_tx J mg ti db = Inr (r13, db') \<Longrightarrow> session_op db db'"
| op_replace_tool: "replace_tool_result_in_tx J v w ri db = Inr (r14, db') \<Longrightarrow> session_op db db'"
| op_compacted: "append_context_compacted_in_tx J it v ci db = Inr (r15, db') \<Longrightarrow> session_op db db'"
| op_event: "append_session_event J e t ev' db = Inr db' \<Longrightarrow> session_op db db'"
| op_upload: "persist_upload_attachment now ui db = (r16, db') \<Longrightarrow> session_op db db'"
| op_delete_draft: "delete_draft_attachment sid aid db = (r17, db') \<Longrightarrow> session_op db db'"

text \<open>Deletion commits only when it removed the session row (\<open>delete_session_records\<close>).\<close>

inductive session_step :: "'x sessions_db_scheme \<Rightarrow> 'x sessions_db_scheme \<Rightarrow> bool" where
  step_op: "session_op db db' \<Longrightarrow> session_step db db'"
| step_delete: "delete_session_in_tx sid db = (True, db') \<Longrightarrow> session_step db db'"

lemma upload_frame:
  "persist_upload_attachment now i db = (r, db') \<Longrightarrow> sessions db' = sessions db \<and> turns db' = turns db"
  by (auto simp: persist_upload_attachment_def persist_upload_tx_def split: if_splits
      elim!: run_tx_cases)

lemma delete_draft_frame:
  "delete_draft_attachment sid aid db = (r, db') \<Longrightarrow> sessions db' = sessions db \<and> turns db' = turns db"
  by (auto simp: delete_draft_attachment_def delete_draft_tx_def Let_def
      split: if_splits option.splits elim!: run_tx_cases)

lemmas plain_frames = assistant_frame tool_result_frame replace_tool_result_frame compacted_frame
  append_session_event_frame upload_frame delete_draft_frame

lemma session_op_ok: "session_op db db' \<Longrightarrow> sessions_ok db \<Longrightarrow> sessions_ok db'"
proof (induction rule: session_op.induct)
qed (auto simp: settle_cancel_in_tx_def sessions_ok_def dest!: plain_frames
    dest: create_session_ok(2) [unfolded sessions_ok_def] patch_tx_ok(2) [unfolded sessions_ok_def]
      retitle_ok(2) [unfolded sessions_ok_def] lock_shape(2) [unfolded sessions_ok_def]
      mark_deleting_ok(2) [unfolded sessions_ok_def] create_turn_input_ok [unfolded sessions_ok_def]
      activate_created_ok [unfolded sessions_ok_def] activate_queued_ok [unfolded sessions_ok_def]
      settle_active_ok [unfolded sessions_ok_def] accept_cancel_ok [unfolded sessions_ok_def]
      interrupt_active_ok [unfolded sessions_ok_def] steer_ok [unfolded sessions_ok_def])

section \<open>Deletion\<close>

lemma delete_one_keyed:
  assumes "distinct (map k c)" and "\<And>r. P r \<Longrightarrow> k r = i" and "snd (delete_one P c) > 0"
  shows "fst (delete_one P c) = filter (\<lambda>r. k r \<noteq> i) c"
  using assms(1,3)
proof (induction c)
  case (Cons x xs)
  show ?case
  proof (cases "P x")
    case True
    then have "k x = i" using assms(2) by blast
    moreover have "filter (\<lambda>r. k r \<noteq> i) xs = xs"
      using Cons.prems(1) \<open>k x = i\<close> by (auto simp: filter_id_conv image_iff)
    ultimately show ?thesis using True by simp
  next
    case False
    then have hit: "snd (delete_one P xs) > 0" using Cons.prems(2) by simp
    then obtain y where "y \<in> set xs" "P y" by (auto simp: delete_one_count split: if_splits)
    then have "k x \<noteq> i" using Cons.prems(1) assms(2) by (auto simp: image_iff)
    then show ?thesis using False Cons hit by simp
  qed
qed simp

lemma marks_filter:
  "(\<And>r p. r \<in> set c \<Longrightarrow> m r = Some p \<Longrightarrow> Q r \<longleftrightarrow> R p) \<Longrightarrow> marks m (filter Q c) = {p \<in> marks m c. R p}"
  by (induction c) (auto split: option.splits)

lemma delete_session_shape:
  assumes "delete_session_in_tx sid db = (True, db')" and "sessions_ok db"
  shows "sessions db' = filter (\<lambda>s. s_id s \<noteq> sid) (sessions db)"
    "turns db' = filter (\<lambda>t. tn_session_id t \<noteq> sid) (turns db)"
proof -
  let ?d = "delete_one (\<lambda>s. s_id s = sid \<and> s_state s = ''deleting'') (sessions db)"
  have "snd ?d > 0" and eq: "sessions db' = fst ?d"
    and "turns db' = filter (\<lambda>t. tn_session_id t \<noteq> sid) (turns db)"
    using assms(1) by (auto simp: delete_session_in_tx_def Let_def split_beta delete_many_def)
  then show "turns db' = filter (\<lambda>t. tn_session_id t \<noteq> sid) (turns db)"
    and "sessions db' = filter (\<lambda>s. s_id s \<noteq> sid) (sessions db)"
    using assms(2) delete_one_keyed [of s_id "sessions db" "\<lambda>s. s_id s = sid \<and> s_state s = ''deleting''" sid]
    by (auto simp: sessions_ok_def turns_ok_def)
qed

lemma turns_indexed_filter: "turns_indexed ts \<Longrightarrow> turns_indexed (filter Q ts)"
proof -
  have "filter active_row (filter Q ts) = filter Q (filter active_row ts)"
    by (induction ts) auto
  then show "turns_indexed ts \<Longrightarrow> turns_indexed (filter Q ts)"
    by (simp only: turns_indexed_def distinct_map_filter)
qed

lemma delete_session_ok:
  assumes "delete_session_in_tx sid db = (True, db')" and ok: "sessions_ok db"
  shows "sessions_ok db'"
proof -
  have "marks session_mark (filter (\<lambda>s. s_id s \<noteq> sid) (sessions db)) =
      {p \<in> marks session_mark (sessions db). fst p \<noteq> sid}"
    by (rule marks_filter) (auto simp: session_mark_def)
  moreover have "marks turn_mark (filter (\<lambda>t. tn_session_id t \<noteq> sid) (turns db)) =
      {p \<in> marks turn_mark (turns db). fst p \<noteq> sid}"
    by (rule marks_filter) (auto simp: turn_mark_def split: if_splits)
  ultimately show ?thesis
    using ok delete_session_shape [OF assms]
    by (simp add: sessions_ok_def turns_ok_def distinct_map_filter turns_indexed_filter)
qed

interpretation session_inv: step_invariant session_step sessions_ok
proof
  show "sessions_ok db'" if "session_step db db'" "sessions_ok db" for db db' :: "'x sessions_db_scheme"
    using that by (cases rule: session_step.cases) (auto intro: session_op_ok delete_session_ok)
qed

section \<open>Every operation moves turns along the status machine\<close>

lemma cancel_queued_progress:
  assumes "cancel_queued v sid tid reason ev now db = Inr (r, db')" and ok: "sessions_ok db"
  shows "turns_progress (turns db) (turns db')"
proof -
  let ?f = "\<lambda>t. t\<lparr>tn_status := ''canceled'', tn_cancellation_reason := Some reason, tn_updated_at := now\<rparr>"
  have "turns db' = fst (update_one (queued_turn sid tid) ?f (turns db))"
    using assms(1) by (auto simp: cancel_queued_def update_turn_eq_Inr update_session_eq Let_def
        split: if_splits)
  moreover have "turns_progress (turns db) (fst (update_one (queued_turn sid tid) ?f (turns db)))"
    by (rule turns_progress_update)
      (use ok in \<open>auto simp: sessions_ok_def turns_ok_def queued_turn_def
        intro!: follows_move [of _ _ Queued Canceled]\<close>)
  ultimately show ?thesis by simp
qed

lemma cancel_active_progress:
  assumes "cancel_active v sid tid reason ev now Running db = Inr (r, db')" and ok: "sessions_ok db"
  shows "turns_progress (turns db) (turns db')"
proof -
  let ?P = "\<lambda>t. tn_id t = tid \<and> tn_session_id t = sid \<and> tn_status t = ''running''"
  let ?f = "\<lambda>t. t\<lparr>tn_status := ''canceling'', tn_cancellation_reason := Some reason, tn_updated_at := now\<rparr>"
  have "turns db' = fst (update_one ?P ?f (turns db))"
    using assms(1) by (auto simp: cancel_active_def update_turn_eq_Inr update_session_eq Let_def
        split: if_splits)
  moreover have "turns_progress (turns db) (fst (update_one ?P ?f (turns db)))"
    by (rule turns_progress_update)
      (use ok in \<open>auto simp: sessions_ok_def turns_ok_def
        intro!: follows_move [of _ _ Running Canceling]\<close>)
  ultimately show ?thesis by simp
qed

lemma settle_progress:
  assumes "settle_active_turn_in_tx J v sid tid out now db = Inr (r, db')" and ok: "sessions_ok db"
  shows "turns_progress (turns db) (turns db')"
  using assms(1)
proof (cases rule: settle_InrE)
  case idle
  then show ?thesis using ok by (simp add: sessions_ok_def turns_ok_def turns_progress_refl)
next
  case (settled ts ss)
  have "can_transition_to (outcome_from out) (outcome_to out)" by (cases out) simp_all
  then have "turns_progress (turns db)
      (fst (update_one (settle_filter sid tid out) (settle_row J out now) (turns db)))"
    by (intro turns_progress_update)
      (use ok in \<open>auto simp: sessions_ok_def turns_ok_def settle_filter_def
        intro!: follows_move [of _ _ "outcome_from out" "outcome_to out"]\<close>)
  with settled show ?thesis by simp
qed

lemma promote_progress:
  assumes "\<forall>t \<in> set ts. status_ok t"
    and "\<And>t. tn_id (f t) = tn_id t \<and> tn_session_id (f t) = tn_session_id t \<and>
      tn_sequence (f t) = tn_sequence t \<and> tn_status (f t) = ''running''"
  shows "turns_progress ts (fst (update_one (queued_turn sid tid) f ts))"
  by (rule turns_progress_update)
    (use assms in \<open>auto simp: queued_turn_def intro!: follows_move [of _ _ Queued Running]\<close>)

lemma activate_created_progress:
  assumes "activate_created_turn_in_tx J sid tid m now db = Inr (b, db')" and ok: "sessions_ok db"
  shows "turns_progress (turns db) (turns db')"
proof -
  let ?f = "\<lambda>t. t\<lparr>tn_status := ''running'',
    tn_model_snapshot_json := json_to_string J (opt_snapshot_to_value m), tn_updated_at := now\<rparr>"
  let ?g = "\<lambda>s. s\<lparr>s_state := ''active'', s_active_turn_id := Some tid, s_updated_at := now\<rparr>"
  let ?c = "update_one (queued_turn sid tid) ?f (turns db)"
  let ?db2 = "db\<lparr>turns := fst ?c, sessions := fst (update_one (idle_session sid) ?g (sessions db))\<rparr>"
  consider (kept) "turns db' = fst ?c"
    | (undo) "snd ?c = 1" "undo_promotion tid now ?db2 = Inr db'"
    using assms(1)
    by (auto simp: activate_created_turn_in_tx_def update_session_eq Let_def
        update_turn_eq_Inr split: if_splits)
  then show ?thesis
  proof cases
    case kept
    then show ?thesis using ok by (auto simp: sessions_ok_def turns_ok_def intro!: promote_progress)
  next
    case undo
    show ?thesis
      by (rule undo_promotion_progress [OF ok [unfolded sessions_ok_def] undo(1) _ _ undo(2)]) simp_all
  qed
qed

lemma activate_queued_progress:
  assumes "activate_queued_turn_in_tx J v cp q m wr now db = Inr (r, db')" and ok: "sessions_ok db"
  shows "turns_progress (turns db) (turns db')"
proof -
  let ?f = "\<lambda>t. t\<lparr>tn_status := ''running'',
    tn_model_snapshot_json := json_to_string J (opt_snapshot_to_value m), tn_updated_at := now\<rparr>"
  let ?g = "\<lambda>s. s\<lparr>s_state := ''active'', s_active_turn_id := Some (qc_turn_id q),
    s_version := version_tag v, s_updated_at := now, s_last_activity_at := now\<rparr>"
  let ?c = "update_one (queued_turn (qc_session_id q) (qc_turn_id q)) ?f (turns db)"
  let ?db2 = "db\<lparr>turns := fst ?c,
    sessions := fst (update_one (idle_session (qc_session_id q)) ?g (sessions db))\<rparr>"
  consider (kept) "turns db' = fst ?c"
    | (undo) "snd ?c = 1" "undo_promotion (qc_turn_id q) now ?db2 = Inr db'"
    using assms(1)
    by (auto simp: activate_queued_turn_in_tx_def update_session_eq Let_def
        update_turn_eq_Inr insert_checkpoint_for_turn_in_tx_def insert_checkpoint_in_tx_def
        split: if_splits)
  then show ?thesis
  proof cases
    case kept
    then show ?thesis using ok by (auto simp: sessions_ok_def turns_ok_def intro!: promote_progress)
  next
    case undo
    show ?thesis
      by (rule undo_promotion_progress [OF ok [unfolded sessions_ok_def] undo(1) _ _ undo(2)]) simp_all
  qed
qed

lemma recover_row_progress:
  assumes rec: "recover_row U tv sv now wake row db = Inr (r, db')" and ok: "sessions_ok db"
    and act: "active_row row"
  shows "turns_progress (turns db) (turns db')"
  using rec
proof (cases rule: recover_row_InrE)
  case (interrupted tid sid st)
  have "is_active st" using act interrupted(3) active_row_status by blast
  then have "can_transition_to st Interrupted" by (cases st) simp_all
  then have "turns_progress (turns db) (fst (update_one (interrupt_filter tid st)
      (interrupt_row (version_tag (tv tid)) now) (turns db)))"
    by (intro turns_progress_update)
      (use ok in \<open>auto simp: sessions_ok_def turns_ok_def interrupt_filter_def interrupt_row_def
        intro!: follows_move [of _ _ st Interrupted]\<close>)
  with interrupted(6) show ?thesis by simp
qed (use ok in \<open>simp_all add: sessions_ok_def turns_ok_def turns_progress_refl\<close>)

lemma recover_rows_progress:
  assumes "recover_rows U tv sv now wake rows db = Inr (r, db')" and "sessions_ok db"
    and "\<And>row. row \<in> set rows \<Longrightarrow>
      row_stored (turns db) row \<and> canonical_turn U row \<and> active_row row"
  shows "turns_progress (turns db) (turns db')"
  using assms
proof (induction rows arbitrary: db r)
  case Nil
  then show ?case by (simp add: sessions_ok_def turns_ok_def turns_progress_refl)
next
  case (Cons row rows)
  then obtain r1 db1 r2 where step: "recover_row U tv sv now wake row db = Inr (r1, db1)"
    "recover_rows U tv sv now wake rows db1 = Inr (r2, db')"
    by auto
  have ok1: "sessions_ok db1" using recover_row_ok [OF step(1)] Cons.prems(2,3) by simp
  have "turns_progress (turns db) (turns db1)"
    by (rule recover_row_progress [OF step(1)]) (use Cons.prems in simp_all)
  moreover have "turns_progress (turns db1) (turns db')"
    using Cons.IH [OF step(2) ok1] Cons.prems(3) recover_row_stored [OF step(1)] by simp
  ultimately show ?case by (rule turns_progress_trans)
qed

lemma interrupt_progress:
  assumes "interrupt_active_turns_in_tx U tv sv now wake db = Inr (r, db')"
    and "sessions_ok db" and "ids_canonical U db"
  shows "turns_progress (turns db) (turns db')"
  using assms(1) unfolding interrupt_active_turns_in_tx_def
  by (rule recover_rows_progress) (use assms in \<open>auto simp: ids_canonical_def row_stored_def\<close>)

lemma create_turn_progress:
  assumes "create_turn_input_in_tx J g i db = Inr (r, db')" and "sessions_ok db"
  shows "turns_progress (turns db) (turns db')"
  using create_turn_input_frame [OF assms(1)] assms(2)
  by (auto simp: sessions_ok_def turns_ok_def turns_indexed_def intro!: turns_progress_append)

lemma accept_cancel_progress:
  assumes "accept_cancel_in_tx v sid tid reason ev now db = Inr (r, db')" and ok: "sessions_ok db"
  shows "turns_progress (turns db) (turns db')"
  using assms(1)
proof (cases rule: accept_cancel_InrE)
  case ignored
  then show ?thesis using ok by (simp add: sessions_ok_def turns_ok_def turns_progress_refl)
qed (use ok in \<open>auto intro: cancel_queued_progress cancel_active_progress\<close>)

lemma session_op_progress:
  assumes "session_op db db'" and ok: "sessions_ok db"
  shows "turns_progress (turns db) (turns db')"
proof -
  have keep: "turns_progress (turns db) (turns db')" if "turns db' = turns db"
    using ok that by (simp add: sessions_ok_def turns_ok_def turns_progress_refl)
  show ?thesis
    using assms(1)
    by (cases rule: session_op.cases)
      (use ok in \<open>auto simp: settle_cancel_in_tx_def
        dest: plain_frames create_session_ok(1) patch_tx_ok(1) retitle_ok(1) lock_shape(1)
          mark_deleting_ok(1)
        elim!: steer_shape
        intro: keep create_turn_progress activate_created_progress activate_queued_progress
          settle_progress accept_cancel_progress interrupt_progress\<close>)
qed

end
