(* ===== verification/Session_Properties.thy ===== *)
theory Session_Properties
  imports Session_Steps
begin

text \<open>
  What the sessions capability promises: one active turn per session, turn histories, the exact
  effect of settlement, cancellation, activation and restart recovery, the order of the queue
  and of the timeline, message limits, optimistic locking and deletion.
\<close>

section \<open>Sample states\<close>

definition sample_session :: session_row where
  "sample_session =
    \<lparr>s_id = ''s1'', s_project_id = ''p1'', s_title = Some ''New session'', s_state = ''active'',
     s_next_model_ref = None, s_active_turn_id = Some ''t1'', s_version = ''v_0'',
     s_created_at = 0, s_updated_at = 0, s_last_activity_at = 0\<rparr>"

definition sample_turn :: "string \<Rightarrow> int \<Rightarrow> string \<Rightarrow> turn_row" where
  "sample_turn i sequence status =
    \<lparr>tn_id = i, tn_session_id = ''s1'', tn_sequence = sequence, tn_status = status,
     tn_input_message_id = Some ''m1'', tn_model_snapshot_json = ''null'', tn_goal_mode = 0,
     tn_predecessor_turn_id = None, tn_completion_summary_json = None,
     tn_completion_reason = None, tn_cancellation_reason = None, tn_input_tokens = 0,
     tn_output_tokens = 0, tn_version = ''v_t'', tn_created_at = 0, tn_updated_at = 0\<rparr>"

definition empty_sessions :: sessions_db where
  "empty_sessions = \<lparr>public_events = [], event_seq = Some 0, projection_cursor_row = None,
     operations = [], operation_steps = [], work_items = [], idempotency_records = [],
     command_idempotency_records = [], sessions = [], turns = [], messages = [],
     timeline_items = [], checkpoints = [], attachments = [], message_attachments = [],
     uploads = []\<rparr>"

text \<open>A session whose first turn runs while a second waits.\<close>

definition sample_sessions :: sessions_db where
  "sample_sessions = empty_sessions
    \<lparr>sessions := [sample_session],
     turns := [sample_turn ''t1'' 1 ''running'', sample_turn ''t2'' 2 ''queued'']\<rparr>"

lemma sample_sessions_ok: "sessions_ok sample_sessions"
  by (simp add: sessions_ok_def turns_ok_def turns_indexed_def sample_sessions_def empty_sessions_def
      sample_session_def sample_turn_def turn_mark_def session_mark_def active_row_def status_ok_def
      turn_status_from_str_def)

lemma empty_sessions_ok: "sessions_ok empty_sessions"
  by (simp add: sessions_ok_def turns_ok_def turns_indexed_def empty_sessions_def)

section \<open>Rows by key\<close>

lemma sessions_unique:
  "sessions_ok db \<Longrightarrow> s \<in> set (sessions db) \<Longrightarrow> s' \<in> set (sessions db) \<Longrightarrow> s_id s = s_id s' \<Longrightarrow> s = s'"
  by (auto simp: sessions_ok_def turns_ok_def distinct_map dest: inj_onD)

lemma stored_turns_unique:
  "sessions_ok db \<Longrightarrow> t \<in> set (turns db) \<Longrightarrow> t' \<in> set (turns db) \<Longrightarrow> tn_id t = tn_id t' \<Longrightarrow> t = t'"
  by (auto simp: sessions_ok_def turns_ok_def intro: turns_unique)

lemma find_session:
  "sessions_ok db \<Longrightarrow> s \<in> set (sessions db) \<Longrightarrow> s_id s = i \<Longrightarrow>
    find_one (\<lambda>s. s_id s = i) (sessions db) = Some s"
  by (rule find_one_unique) (auto intro: sessions_unique)

lemma find_turn:
  "sessions_ok db \<Longrightarrow> t \<in> set (turns db) \<Longrightarrow> tn_id t = i \<Longrightarrow> tn_session_id t = sid \<Longrightarrow>
    find_one (\<lambda>t. tn_id t = i \<and> tn_session_id t = sid) (turns db) = Some t"
  by (rule find_one_unique) (auto intro: stored_turns_unique)

text \<open>An update filtered on a key that its one row passes is the update of that row.\<close>

lemma update_one_row:
  assumes "distinct (map k c)" and "\<And>r. P r \<Longrightarrow> k r = i" and "\<And>r. k (f r) = k r"
    and "x \<in> set c" and "P x"
  shows "update_one P f c = (map (\<lambda>r. if k r = i then f r else r) c, 1)"
proof -
  have "P r \<longleftrightarrow> k r = i" if "r \<in> set c" for r
    using assms that by (auto simp: distinct_map dest: inj_onD)
  then have "map (\<lambda>r. if P r then f r else r) c = map (\<lambda>r. if k r = i then f r else r) c"
    by simp
  moreover have "fst (update_one P f c) = map (\<lambda>r. if P r then f r else r) c"
    by (rule update_one_keyed [OF assms(1)]) (use assms in auto)
  ultimately show ?thesis using assms(4,5) by (auto simp: prod_eq_iff update_one_count)
qed

lemma update_turn_row:
  assumes "sessions_ok db" and "t \<in> set (turns db)" and "P t" and "\<And>r. P r \<Longrightarrow> tn_id r = i"
    and "\<And>r. tn_id (f r) = tn_id r"
  shows "update_one P f (turns db) = (map (\<lambda>r. if tn_id r = i then f r else r) (turns db), 1)"
  by (rule update_one_row) (use assms in \<open>auto simp: sessions_ok_def turns_ok_def turns_indexed_def\<close>)

lemma update_session_row:
  assumes "sessions_ok db" and "s \<in> set (sessions db)" and "P s" and "\<And>r. P r \<Longrightarrow> s_id r = i"
    and "\<And>r. s_id (f r) = s_id r"
  shows "update_one P f (sessions db) = (map (\<lambda>r. if s_id r = i then f r else r) (sessions db), 1)"
  by (rule update_one_row) (use assms in \<open>auto simp: sessions_ok_def turns_ok_def\<close>)

text \<open>A write that activates no turn never violates an index.\<close>

lemma distinct_filter_update:
  assumes "distinct (map k (filter A c))" and "\<And>r. k (f r) = k r" and "\<And>r. P r \<Longrightarrow> A (f r) \<Longrightarrow> A r"
  shows "distinct (map k (filter A (fst (update_one P f c))))"
  using assms(1)
proof (induction c)
  case (Cons x xs)
  have "k ` set (filter A (fst (update_one P f xs))) \<subseteq> k ` set (filter A xs)"
    using assms(2,3) by (induction xs) auto
  with Cons assms(2,3) show ?case by (auto split: if_splits)
qed simp

lemma turns_indexed_update:
  assumes "turns_indexed ts"
    and "\<And>t. tn_id (f t) = tn_id t \<and> tn_session_id (f t) = tn_session_id t \<and>
      tn_sequence (f t) = tn_sequence t"
    and "\<And>t. P t \<Longrightarrow> active_row (f t) \<Longrightarrow> active_row t"
  shows "turns_indexed (fst (update_one P f ts))"
  using assms distinct_filter_update [of tn_session_id active_row ts f P]
    update_one_map [of tn_id f P ts]
    update_one_map [of "\<lambda>t. (tn_session_id t, tn_sequence t)" f P ts]
  by (simp add: turns_indexed_def)

section \<open>One active turn\<close>

text \<open>
  C2. Whatever operations run, in whatever order, from an empty store: a turn is running or
  canceling exactly when its session names it as the active turn, a session never names a turn
  that is not one of its own active turns, and no session has two active turns.\<close>
theorem one_active_turn_per_session:
  assumes "session_step\<^sup>*\<^sup>* db0 db" and "sessions db0 = []" and "turns db0 = []"
  shows "(\<forall>t \<in> set (turns db). active_row t \<longleftrightarrow>
           (\<exists>s \<in> set (sessions db). s_id s = tn_session_id t \<and> s_active_turn_id s = Some (tn_id t))) \<and>
         (\<forall>s \<in> set (sessions db). \<forall>i. s_active_turn_id s = Some i \<longrightarrow>
           (\<exists>t \<in> set (turns db). tn_id t = i \<and> tn_session_id t = s_id s \<and> active_row t)) \<and>
         (\<forall>t \<in> set (turns db). \<forall>t' \<in> set (turns db).
           active_row t \<and> active_row t' \<and> tn_session_id t = tn_session_id t' \<longrightarrow> t = t')"
proof -
  have "sessions_ok db0" using assms(2,3) by (simp add: sessions_ok_def turns_ok_def turns_indexed_def)
  then have ok: "sessions_ok db" by (rule session_inv.steps_inv [OF assms(1)])
  have owner: "\<exists>t \<in> set (turns db). tn_id t = i \<and> tn_session_id t = s_id s \<and> active_row t"
    if "s \<in> set (sessions db)" "s_active_turn_id s = Some i" for s i
  proof -
    have "(s_id s, i) \<in> marks session_mark (sessions db)"
      using that by (auto simp: marks_iff session_mark_def intro!: bexI [of _ s])
    then have "(s_id s, i) \<in> marks turn_mark (turns db)"
      using ok by (simp add: sessions_ok_def turns_ok_def)
    then show ?thesis by (auto simp: marks_iff turn_mark_def split: if_splits)
  qed
  have fwd: "\<exists>s \<in> set (sessions db). s_id s = tn_session_id t \<and> s_active_turn_id s = Some (tn_id t)"
    if "t \<in> set (turns db)" "active_row t" for t
    using active_owner [OF ok that] by blast
  have bwd: "active_row t"
    if "t \<in> set (turns db)" "s \<in> set (sessions db)" "s_active_turn_id s = Some (tn_id t)" for t s
    using owner [OF that(2,3)] stored_turns_unique [OF ok that(1)] by metis
  have one: "t = t'" if "t \<in> set (turns db)" "t' \<in> set (turns db)" "active_row t" "active_row t'"
    "tn_session_id t = tn_session_id t'" for t t'
    using ok that by (auto simp: sessions_ok_def turns_ok_def turns_indexed_def distinct_map
        dest: inj_onD [of _ _ t t'])
  show ?thesis using fwd bwd owner one by blast
qed

definition sample_input :: create_turn_input where
  "sample_input =
    \<lparr>ct_session_id = ''s1'', ct_content = ''hi'', ct_actor = JNull, ct_message_kind = ''user'',
     ct_timeline_kind = ''user_message'', ct_metadata = None, ct_goal_mode = False,
     ct_predecessor_turn_id = None, ct_attachment_ids = [], ct_model_snapshot = None,
     ct_checkpoint_revision = Some ''rev1'', ct_now = 5\<rparr>"

definition sample_gen :: turn_input_gen where
  "sample_gen =
    \<lparr>tg_turn_id = ''t1'', tg_message_id = ''m1'', tg_timeline_item_id = ''i1'',
     tg_turn_version = ''a'', tg_message_version = ''b'', tg_attachment_version = (\<lambda>_. ''c''),
     tg_item_version = ''d'', tg_checkpoint_id = ''c1''\<rparr>"

text \<open>A first message to a fresh session: the session, the turn, its activation.\<close>

definition sample_run :: "sessions_error + (bool \<times> sessions_db)" where
  "sample_run =
    and_then (create_session_in_tx 1 ''a'' ''s1'' ''p1'' None empty_sessions)
      (\<lambda>(_, d1). and_then (create_turn_input_in_tx sample_serde sample_gen sample_input d1)
      (\<lambda>(_, d2). activate_created_turn_in_tx sample_serde ''s1'' ''t1'' None 5 d2))"

definition sample_running :: sessions_db where
  "sample_running = (case sample_run of Inr (_, db) \<Rightarrow> db | Inl _ \<Rightarrow> empty_sessions)"

lemma sample_trims [simp]: "str_trim ''hi'' = ''hi''" "str_trim ''user_message'' \<noteq> []"
  by (simp_all add: str_trim_def trim_start.simps trim_end.simps ws_len_def ws_at_def
      ws_suffix_len_def Let_def)

lemmas sample_run_defs = sample_run_def create_session_in_tx_def empty_sessions_def insert_one_def
  create_turn_input_in_tx_def validate_turn_input_def sample_input_def sample_gen_def
  MAX_ATTACHMENTS_def MAX_MESSAGE_BYTES_def next_sequence_def next_timeline_position_in_tx_def
  find_last_by_def find_first_by_def insert_turn_def new_turn_row_def turns_indexed_def
  insert_message_def insert_timeline_def insert_checkpoint_in_tx_def
  activate_created_turn_in_tx_def update_turn_def update_session_def queued_turn_def
  idle_session_def active_row_def

lemma sample_run_ok: "sample_run = Inr (True, sample_running)" "turns sample_running \<noteq> []"
proof -
  have "\<exists>db. sample_run = Inr (True, db) \<and> turns db \<noteq> []"
    by (simp add: sample_run_defs Let_def)
  then obtain db where db: "sample_run = Inr (True, db)" "turns db \<noteq> []" by blast
  have "sample_running = db" unfolding sample_running_def db(1) by simp
  with db show "sample_run = Inr (True, sample_running)" "turns sample_running \<noteq> []" by simp_all
qed

lemma sample_running_reached: "session_step\<^sup>*\<^sup>* empty_sessions sample_running"
proof -
  obtain r1 d1 r2 d2 where
    "create_session_in_tx 1 ''a'' ''s1'' ''p1'' None empty_sessions = Inr (r1, d1)"
    "create_turn_input_in_tx sample_serde sample_gen sample_input d1 = Inr (r2, d2)"
    "activate_created_turn_in_tx sample_serde ''s1'' ''t1'' None 5 d2 = Inr (True, sample_running)"
    using sample_run_ok(1) unfolding sample_run_def by (auto simp: and_then_eq_Inr)
  then have "session_step empty_sessions d1" "session_step d1 d2" "session_step d2 sample_running"
    by (auto intro: step_op session_op.intros)
  then show ?thesis by (meson rtranclp.rtrancl_into_rtrancl rtranclp.rtrancl_refl)
qed

theorem one_active_turn_per_session_witness:
  "turns sample_running \<noteq> [] \<and>
   (active_row (hd (turns sample_running)) \<longleftrightarrow>
     (\<exists>s \<in> set (sessions sample_running). s_id s = tn_session_id (hd (turns sample_running)) \<and>
        s_active_turn_id s = Some (tn_id (hd (turns sample_running)))))"
proof -
  have "sessions empty_sessions = []" "turns empty_sessions = []"
    by (simp_all add: empty_sessions_def)
  moreover have "hd (turns sample_running) \<in> set (turns sample_running)"
    using sample_run_ok(2) by simp
  ultimately show ?thesis
    using one_active_turn_per_session [OF sample_running_reached] sample_run_ok(2) by blast
qed

section \<open>Turn histories\<close>

lemma session_ops_progress:
  "session_op\<^sup>*\<^sup>* db db' \<Longrightarrow> sessions_ok db \<Longrightarrow> turns_progress (turns db) (turns db') \<and> sessions_ok db'"
proof (induction rule: rtranclp_induct)
  case base
  then show ?case by (simp add: sessions_ok_def turns_ok_def turns_progress_refl)
next
  case (step y z)
  then show ?case by (blast intro: turns_progress_trans session_op_progress session_op_ok)
qed

text \<open>
  C12. Short of deleting its session, a turn is never lost and keeps its id, its session and its
  place in the queue, and its status only moves along \<open>can_transition_to\<close>; a turn in a final
  status keeps it under every sequence of operations.\<close>
theorem turn_moves_along_machine:
  assumes "session_op\<^sup>*\<^sup>* db db'" and "sessions_ok db" and "t \<in> set (turns db)"
  shows "\<exists>t' \<in> set (turns db'). \<exists>a b.
    tn_id t' = tn_id t \<and> tn_session_id t' = tn_session_id t \<and> tn_sequence t' = tn_sequence t \<and>
    turn_status_from_str (tn_status t) = Some a \<and> turn_status_from_str (tn_status t') = Some b \<and>
    can_transition_to\<^sup>*\<^sup>* a b \<and> (advances_queue a \<longrightarrow> b = a)"
proof -
  have prog: "turns_progress (turns db) (turns db')"
    using session_ops_progress [OF assms(1,2)] by blast
  then obtain t' where t': "t' \<in> set (turns db')" "tn_id t' = tn_id t"
    using assms(3) unfolding turns_progress_def by (metis image_iff image_subset_iff)
  then obtain t0 where "t0 \<in> set (turns db)" "turn_follows t0 t'"
    using prog assms(3) unfolding turns_progress_def by (metis image_eqI)
  moreover from this have "t0 = t"
    using stored_turns_unique [OF assms(2)] assms(3) t'(2) by (metis turn_follows_def)
  ultimately obtain a b where "tn_session_id t' = tn_session_id t" "tn_sequence t' = tn_sequence t"
    "tn_status t = turn_status_as_str a" "tn_status t' = turn_status_as_str b"
    "can_transition_to\<^sup>*\<^sup>* a b"
    by (auto simp: turn_follows_def)
  with t' show ?thesis
    by (intro bexI [of _ t'] exI [of _ a] exI [of _ b])
      (simp_all add: turn_codec.from_as turn_machine.terminal_absorbing)
qed

section \<open>Settlement\<close>

lemma settle_index:
  "sessions_ok db \<Longrightarrow>
    turns_indexed (fst (update_one (settle_filter sid tid out) (settle_row J out now) (turns db)))"
proof (rule turns_indexed_update)
  show "active_row t" if "active_row (settle_row J out now t)" for t
    using that active_row_status [of "settle_row J out now t" "outcome_to out"]
      terminal_not_active [OF outcome_to_terminal [of out]] by simp
qed (auto simp: sessions_ok_def turns_ok_def)

text \<open>
  Settling an active turn: when the session names the turn as active and the turn is in the
  status the outcome starts from, the turn row takes the outcome and the session is released
  with a new version, and both changes and nothing else are written; in every other case nothing
  is written and no transition is reported. It never fails.\<close>
theorem settle_active_turn_effect:
  assumes "sessions_ok db"
  shows "settle_active_turn_in_tx J v sid tid out now db =
    (if (\<exists>s \<in> set (sessions db). s_id s = sid \<and> s_active_turn_id s = Some tid) \<and>
        (\<exists>t \<in> set (turns db). tn_id t = tid \<and> tn_session_id t = sid \<and>
           tn_status t = turn_status_as_str (outcome_from out))
     then Inr (Some \<lparr>tt_from_status = outcome_from out, tt_to_status = outcome_to out,
                     tt_session_version = version_tag v\<rparr>,
       db\<lparr>turns := map (\<lambda>t. if tn_id t = tid then settle_row J out now t else t) (turns db),
          sessions := map (\<lambda>s. if s_id s = sid then release_row (version_tag v) now s else s)
            (sessions db)\<rparr>)
     else Inr (None, db))"
proof -
  let ?P = "settle_filter sid tid out" and ?f = "settle_row J out now"
  let ?Q = "owned_session sid tid" and ?g = "release_row (version_tag v) now"
  have tr: "can_transition_to (outcome_from out) (outcome_to out)" by (cases out) simp_all
  note unf = settle_filter_def [abs_def]
  note defs = settle_active_turn_in_tx_def tr update_turn_def update_session_eq
  note index = settle_index [OF assms, of sid tid out J now, unfolded unf]
  show ?thesis
  proof (cases "\<exists>s \<in> set (sessions db). ?Q s")
    case False
    then show ?thesis by (auto simp: defs find_one_None_iff owned_session_def)
  next
    case True
    then obtain s where s: "s \<in> set (sessions db)" "?Q s" by blast
    then have owned: "find_one ?Q (sessions db) \<noteq> None" by (auto simp: find_one_None_iff)
    have rel: "update_one ?Q ?g (sessions db) =
        (map (\<lambda>r. if s_id r = sid then ?g r else r) (sessions db), 1)"
      by (rule update_session_row [where P = ?Q, OF assms s]) (auto simp: owned_session_def release_row_def)
    show ?thesis
    proof (cases "\<exists>t \<in> set (turns db). ?P t")
      case False
      then have "update_one ?P ?f (turns db) = (turns db, 0)"
        by (intro update_one_none') (simp add: find_one_None_iff)
      then have "settle_active_turn_in_tx J v sid tid out now db = Inr (None, db)"
        using owned index by (simp add: defs unf)
      with False show ?thesis by (auto simp: settle_filter_def)
    next
      case True
      then obtain t where t: "t \<in> set (turns db)" "?P t" by blast
      have upd: "update_one ?P ?f (turns db) =
          (map (\<lambda>r. if tn_id r = tid then ?f r else r) (turns db), 1)"
        by (rule update_turn_row [where P = ?P, OF assms t]) (auto simp: settle_filter_def)
      have "settle_active_turn_in_tx J v sid tid out now db =
        Inr (Some \<lparr>tt_from_status = outcome_from out, tt_to_status = outcome_to out,
                     tt_session_version = version_tag v\<rparr>,
       db\<lparr>turns := map (\<lambda>t. if tn_id t = tid then ?f t else t) (turns db),
          sessions := map (\<lambda>s. if s_id s = sid then ?g s else s) (sessions db)\<rparr>)"
        using owned index by (simp add: defs upd [unfolded unf] rel)
      with s t show ?thesis by (auto simp: settle_filter_def owned_session_def)
    qed
  qed
qed

theorem settle_active_turn_effect_witness:
  "settle_active_turn_in_tx sample_serde ''w'' ''s1'' ''t1'' (OutcomeFailed ''boom'' JNull) 9
      sample_sessions =
   Inr (Some \<lparr>tt_from_status = Running, tt_to_status = Failed, tt_session_version = ''v_w''\<rparr>,
     sample_sessions\<lparr>turns := [settle_row sample_serde (OutcomeFailed ''boom'' JNull) 9
         (sample_turn ''t1'' 1 ''running''), sample_turn ''t2'' 2 ''queued''],
       sessions := [release_row ''v_w'' 9 sample_session]\<rparr>)"
  using settle_active_turn_effect [OF sample_sessions_ok, of sample_serde "''w''" "''s1''" "''t1''"
      "OutcomeFailed ''boom'' JNull" 9]
  by (simp add: sample_sessions_def empty_sessions_def sample_session_def sample_turn_def version_tag_def)

text \<open>The running turn fails: one step, from running to failed.\<close>

theorem turn_moves_along_machine_witness:
  "\<exists>db'. settle_active_turn_in_tx sample_serde ''w'' ''s1'' ''t1'' (OutcomeFailed ''boom'' JNull) 9 sample_sessions =
       Inr (Some \<lparr>tt_from_status = Running, tt_to_status = Failed, tt_session_version = ''v_w''\<rparr>, db') \<and>
     (\<exists>t' \<in> set (turns db'). tn_id t' = ''t1'' \<and> tn_status t' = ''failed'' \<and> can_transition_to\<^sup>*\<^sup>* Running Failed)"
proof -
  obtain db' where settled: "settle_active_turn_in_tx sample_serde ''w'' ''s1'' ''t1'' (OutcomeFailed ''boom'' JNull) 9
      sample_sessions = Inr (Some \<lparr>tt_from_status = Running, tt_to_status = Failed, tt_session_version = ''v_w''\<rparr>, db')"
    and turns: "map (\<lambda>t. (tn_id t, tn_status t)) (turns db') = [(''t1'', ''failed''), (''t2'', ''queued'')]"
    using settle_active_turn_effect [OF sample_sessions_ok, of sample_serde "''w''" "''s1''" "''t1''"
      "OutcomeFailed ''boom'' JNull" 9]
    by (simp add: sample_sessions_def empty_sessions_def sample_session_def sample_turn_def version_tag_def)
  have run: "session_op\<^sup>*\<^sup>* sample_sessions db'" by (rule r_into_rtranclp) (rule session_op.op_settle [OF settled])
  have "sample_turn ''t1'' 1 ''running'' \<in> set (turns sample_sessions)"
    by (simp add: sample_sessions_def empty_sessions_def)
  from turn_moves_along_machine [OF run sample_sessions_ok this] obtain t' a b where
    t': "t' \<in> set (turns db')" "tn_id t' = ''t1''" "turn_status_from_str ''running'' = Some a"
      "turn_status_from_str (tn_status t') = Some b" "can_transition_to\<^sup>*\<^sup>* a b"
    by (auto simp: sample_turn_def)
  have "(tn_id t', tn_status t') \<in> set (map (\<lambda>t. (tn_id t, tn_status t)) (turns db'))" using t'(1) by simp
  then have "tn_status t' = ''failed''" using t'(2) turns by auto
  with t' settled show ?thesis by (auto simp: turn_status_from_str_def)
qed

end
