(* ===== verification/Queue_Properties.thy ===== *)
theory Queue_Properties
  imports Session_Properties
begin

text \<open>
  Activation, cancellation, the queue and restart recovery of turns: the exact effect of each
  operation on a store that satisfies the invariant, and where the queue stops.
\<close>

section \<open>Cancellation\<close>

lemma cancel_index:
  assumes "sessions_ok db" and "\<And>t. P t \<Longrightarrow> active_row (f t) \<Longrightarrow> active_row t"
    and "\<And>t. tn_id (f t) = tn_id t \<and> tn_session_id (f t) = tn_session_id t \<and> tn_sequence (f t) = tn_sequence t"
  shows "turns_indexed (fst (update_one P f (turns db)))"
  using assms by (auto simp: sessions_ok_def turns_ok_def intro!: turns_indexed_update)

definition canceled_row :: "string \<Rightarrow> string \<Rightarrow> int \<Rightarrow> turn_row \<Rightarrow> turn_row" where
  "canceled_row status reason now t =
    t\<lparr>tn_status := status, tn_cancellation_reason := Some reason, tn_updated_at := now\<rparr>"

lemma stored_statusE:
  assumes "sessions_ok db" and "t \<in> set (turns db)"
  obtains st where "tn_status t = turn_status_as_str st"
proof -
  have "status_ok t" using assms by (simp add: sessions_ok_def turns_ok_def)
  with that show thesis by (blast elim: status_okE)
qed

lemma cancel_queued_effect:
  assumes ok: "sessions_ok db" and s: "s \<in> set (sessions db)" "s_id s = sid" "s_version s = ev"
    and t: "t \<in> set (turns db)" "tn_id t = tid" "tn_session_id t = sid" "tn_status t = ''queued''"
  shows "cancel_queued v sid tid reason ev now db =
    Inr (Some \<lparr>tt_from_status = Queued, tt_to_status = Canceled, tt_session_version = version_tag v\<rparr>,
      db\<lparr>turns := map (\<lambda>r. if tn_id r = tid then canceled_row ''canceled'' reason now r else r) (turns db),
         sessions := map (\<lambda>r. if s_id r = sid then r\<lparr>s_version := version_tag v, s_updated_at := now,
           s_last_activity_at := now\<rparr> else r) (sessions db)\<rparr>)"
proof -
  let ?f = "\<lambda>t. t\<lparr>tn_status := ''canceled'', tn_cancellation_reason := Some reason, tn_updated_at := now\<rparr>"
  have upd: "update_one (queued_turn sid tid) ?f (turns db) =
      (map (\<lambda>r. if tn_id r = tid then canceled_row ''canceled'' reason now r else r) (turns db), 1)"
    unfolding canceled_row_def
    by (rule update_turn_row [OF ok t(1)]) (use t in \<open>auto simp: queued_turn_def\<close>)
  have idx: "turns_indexed (fst (update_one (queued_turn sid tid) ?f (turns db)))"
    by (rule cancel_index [OF ok]) (simp_all add: active_row_def)
  have rel: "update_one (\<lambda>s. s_id s = sid \<and> s_version s = ev) (\<lambda>s. s\<lparr>s_version := version_tag v,
      s_updated_at := now, s_last_activity_at := now\<rparr>) (sessions db) =
    (map (\<lambda>r. if s_id r = sid then r\<lparr>s_version := version_tag v, s_updated_at := now,
       s_last_activity_at := now\<rparr> else r) (sessions db), 1)"
    by (rule update_session_row [OF ok s(1)]) (use s in auto)
  show ?thesis
    using idx by (simp add: cancel_queued_def update_turn_def upd update_session_eq rel)
qed

lemma active_turn_named:
  assumes "sessions_ok db" and "s \<in> set (sessions db)" and "t \<in> set (turns db)"
    and "tn_session_id t = s_id s" and "active_row t"
  shows "s_active_turn_id s = Some (tn_id t)"
  using active_owner [OF assms(1,3,5)] sessions_unique [OF assms(1,2)] assms(4) by metis

lemma cancel_running_effect:
  assumes ok: "sessions_ok db" and s: "s \<in> set (sessions db)" "s_id s = sid" "s_version s = ev"
    and t: "t \<in> set (turns db)" "tn_id t = tid" "tn_session_id t = sid" "tn_status t = ''running''"
  shows "cancel_active v sid tid reason ev now Running db =
    Inr (Some \<lparr>tt_from_status = Running, tt_to_status = Canceling, tt_session_version = version_tag v\<rparr>,
      db\<lparr>turns := map (\<lambda>r. if tn_id r = tid then canceled_row ''canceling'' reason now r else r) (turns db),
         sessions := map (\<lambda>r. if s_id r = sid then r\<lparr>s_version := version_tag v, s_updated_at := now\<rparr>
           else r) (sessions db)\<rparr>)"
proof -
  let ?P = "\<lambda>r. tn_id r = tid \<and> tn_session_id r = sid \<and> tn_status r = ''running''"
  let ?f = "\<lambda>t. t\<lparr>tn_status := ''canceling'', tn_cancellation_reason := Some reason, tn_updated_at := now\<rparr>"
  have own: "s_active_turn_id s = Some tid"
    using active_turn_named [OF ok s(1) t(1)] s t by (simp add: active_row_def)
  have upd: "update_one ?P ?f (turns db) =
      (map (\<lambda>r. if tn_id r = tid then canceled_row ''canceling'' reason now r else r) (turns db), 1)"
    unfolding canceled_row_def by (rule update_turn_row [OF ok t(1)]) (use t in auto)
  have idx: "turns_indexed (fst (update_one ?P ?f (turns db)))"
    by (rule cancel_index [OF ok]) (simp_all add: active_row_def)
  have rel: "update_one (\<lambda>r. s_id r = sid \<and> s_active_turn_id r = Some tid \<and> s_version r = ev)
      (\<lambda>s. s\<lparr>s_version := version_tag v, s_updated_at := now\<rparr>) (sessions db) =
    (map (\<lambda>r. if s_id r = sid then r\<lparr>s_version := version_tag v, s_updated_at := now\<rparr> else r)
       (sessions db), 1)"
    by (rule update_session_row [OF ok s(1)]) (use s own in auto)
  show ?thesis
    using idx by (simp add: cancel_active_def update_turn_def upd update_session_eq rel)
qed

text \<open>
  Accepting a cancel for a stored turn of a stored session: a version other than the
  session's current one is refused with both versions; a queued turn becomes canceled at once; a
  running turn becomes canceling and stays the session's active turn; a turn already canceling
  or in a final status is left alone and no transition is reported. An accepted cancel gives the
  session a new version.\<close>
theorem accept_cancel_effect:
  assumes ok: "sessions_ok db" and s: "s \<in> set (sessions db)" "s_id s = sid"
    and t: "t \<in> set (turns db)" "tn_id t = tid" "tn_session_id t = sid"
  shows "accept_cancel_in_tx v sid tid reason ev now db =
    (if s_version s \<noteq> ev then Inl (VersionMismatch ev (s_version s))
     else if tn_status t = ''queued'' then
       Inr (Some \<lparr>tt_from_status = Queued, tt_to_status = Canceled, tt_session_version = version_tag v\<rparr>,
         db\<lparr>turns := map (\<lambda>r. if tn_id r = tid then canceled_row ''canceled'' reason now r else r) (turns db),
            sessions := map (\<lambda>r. if s_id r = sid then r\<lparr>s_version := version_tag v, s_updated_at := now,
              s_last_activity_at := now\<rparr> else r) (sessions db)\<rparr>)
     else if tn_status t = ''running'' then
       Inr (Some \<lparr>tt_from_status = Running, tt_to_status = Canceling, tt_session_version = version_tag v\<rparr>,
         db\<lparr>turns := map (\<lambda>r. if tn_id r = tid then canceled_row ''canceling'' reason now r else r) (turns db),
            sessions := map (\<lambda>r. if s_id r = sid then r\<lparr>s_version := version_tag v, s_updated_at := now\<rparr>
              else r) (sessions db)\<rparr>)
     else Inr (None, db))"
proof (cases "s_version s = ev")
  case False
  then show ?thesis
    using find_turn [OF ok t] find_session [OF ok s] by (simp add: accept_cancel_in_tx_def)
next
  case ev: True
  obtain st where st: "tn_status t = turn_status_as_str st" using stored_statusE [OF ok t(1)] .
  have "accept_cancel_in_tx v sid tid reason ev now db =
    (if st = Queued then cancel_queued v sid tid reason ev now db
     else if s_active_turn_id s \<noteq> Some tid then Inr (None, db)
     else if st \<noteq> Running then Inr (None, db)
     else cancel_active v sid tid reason ev now st db)"
    using find_turn [OF ok t] find_session [OF ok s] ev
    by (simp add: accept_cancel_in_tx_def st cancels_from)
  moreover have "st = Running \<Longrightarrow> s_active_turn_id s = Some tid"
    using active_turn_named [OF ok s(1) t(1)] s(2) t(2,3) st by (simp add: active_row_def)
  ultimately show ?thesis
    using ev st cancel_queued_effect [OF ok s ev t] cancel_running_effect [OF ok s ev t]
    by (cases st) simp_all
qed

theorem accept_cancel_effect_witness:
  "accept_cancel_in_tx ''w'' ''s1'' ''t2'' ''user'' ''v_0'' 9 sample_sessions =
   Inr (Some \<lparr>tt_from_status = Queued, tt_to_status = Canceled, tt_session_version = ''v_w''\<rparr>,
     sample_sessions\<lparr>turns := [sample_turn ''t1'' 1 ''running'',
         canceled_row ''canceled'' ''user'' 9 (sample_turn ''t2'' 2 ''queued'')],
       sessions := [sample_session\<lparr>s_version := ''v_w'', s_updated_at := 9, s_last_activity_at := 9\<rparr>]\<rparr>)"
proof -
  have "sample_session \<in> set (sessions sample_sessions)" "s_id sample_session = ''s1''"
    "sample_turn ''t2'' 2 ''queued'' \<in> set (turns sample_sessions)"
    "tn_id (sample_turn ''t2'' 2 ''queued'') = ''t2''"
    "tn_session_id (sample_turn ''t2'' 2 ''queued'') = ''s1''"
    by (simp_all add: sample_sessions_def empty_sessions_def sample_session_def sample_turn_def)
  from accept_cancel_effect [OF sample_sessions_ok this, of "''w''" "''user''" "''v_0''" 9]
  show ?thesis
    by (simp add: sample_sessions_def empty_sessions_def sample_session_def sample_turn_def version_tag_def)
qed

section \<open>Activation\<close>

lemma turns_indexed_activate:
  assumes ok: "turns_indexed ts" and t: "t \<in> set ts" "tn_id t = tid"
    and idle: "\<And>x. x \<in> set ts \<Longrightarrow> tn_session_id x = tn_session_id t \<Longrightarrow> \<not> active_row x"
    and f: "\<And>r. tn_id (f r) = tn_id r \<and> tn_session_id (f r) = tn_session_id r \<and>
      tn_sequence (f r) = tn_sequence r"
  shows "turns_indexed (map (\<lambda>r. if tn_id r = tid then f r else r) ts)"
proof -
  define h where "h = (\<lambda>r. if tn_id r = tid then f r else r)"
  have keys: "tn_id (h r) = tn_id r" "tn_session_id (h r) = tn_session_id r"
    "tn_sequence (h r) = tn_sequence r" for r using f by (simp_all add: h_def)
  have only: "x = t" if "x \<in> set ts" "tn_id x = tid" for x
    using turns_unique [OF ok that(1) t(1)] that(2) t(2) by simp
  have inj: "inj_on tn_session_id (set (filter active_row ts))"
    using ok by (auto simp: turns_indexed_def distinct_map)
  have other: "tn_id y = tid" if "x \<in> set ts" "y \<in> set ts" "active_row (h y)"
    "tn_session_id x = tn_session_id y" "tn_id x = tid" for x y
    using idle [OF that(2)] only [OF that(1,5)] that(3,4) by (auto simp: h_def split: if_splits)
  have same: "x = y" if xy: "x \<in> set ts" "y \<in> set ts" "active_row (h x)" "active_row (h y)"
    "tn_session_id x = tn_session_id y" for x y
  proof (cases "tn_id x = tid \<or> tn_id y = tid")
    case True
    then have "tn_id x = tid" "tn_id y = tid"
      using other [OF xy(1,2,4,5)] other [OF xy(2,1,3) xy(5) [symmetric]] by blast+
    then show ?thesis using only [OF xy(1)] only [OF xy(2)] by simp
  next
    case False
    then have "active_row x" "active_row y" using xy(3,4) by (simp_all add: h_def)
    then show ?thesis using xy inj_onD [OF inj] by simp
  qed
  have "inj_on tn_session_id (set (filter active_row (map h ts)))"
  proof (rule inj_onI)
    fix a b
    assume ab: "a \<in> set (filter active_row (map h ts))" "b \<in> set (filter active_row (map h ts))"
      "tn_session_id a = tn_session_id b"
    then obtain x y where "x \<in> set ts" "y \<in> set ts" "a = h x" "b = h y" by auto
    with ab show "a = b" using same [of x y] keys by simp
  qed
  moreover have ids: "distinct (map tn_id (map h ts))"
    "distinct (map (\<lambda>t. (tn_session_id t, tn_sequence t)) (map h ts))"
    using ok keys by (simp_all add: turns_indexed_def comp_def)
  moreover have "distinct (filter active_row (map h ts))"
    using ids(1) by (simp only: distinct_map distinct_filter simp_thms)
  ultimately show ?thesis by (simp only: turns_indexed_def distinct_map simp_thms h_def)
qed

lemma activation_conflict_index:
  assumes ok: "turns_indexed ts" and t: "t \<in> set ts" "tn_id t = tid" "\<not> active_row t"
    and other: "t' \<in> set ts" "tn_session_id t' = tn_session_id t" "active_row t'"
    and f: "tn_id (f t) = tn_id t" "tn_session_id (f t) = tn_session_id t" "active_row (f t)"
  shows "\<not> turns_indexed (map (\<lambda>r. if tn_id r = tid then f r else r) ts)"
proof
  let ?c = "map (\<lambda>r. if tn_id r = tid then f r else r) ts"
  assume "turns_indexed ?c"
  then have inj: "inj_on tn_session_id (set (filter active_row ?c))"
    by (auto simp: turns_indexed_def distinct_map)
  have ne: "tn_id t' \<noteq> tid"
    using turns_unique [OF ok other(1) t(1)] t other(3) by auto
  have "f t \<in> set ?c" "t' \<in> set ?c"
    using t other ne by (auto intro: image_eqI [of _ _ t] image_eqI [of _ _ t'])
  then have "f t \<in> set (filter active_row ?c)" "t' \<in> set (filter active_row ?c)"
    using other(3) f(3) by simp_all
  then have "f t = t'" using inj_onD [OF inj] other(2) f(2) by simp
  then show False using f(1) t(2) ne by auto
qed

text \<open>
  Activating a created turn: in an idle session the turn becomes running with the given
  model snapshot and the session names it as its active turn; in a session that already has an
  active turn the call fails with a storage error, because the promotion itself breaks the
  one-active-turn index, and so never reports that the session was already claimed.\<close>
theorem activate_created_turn_effect:
  assumes ok: "sessions_ok db" and s: "s \<in> set (sessions db)" "s_id s = sid"
    and t: "t \<in> set (turns db)" "tn_id t = tid" "tn_session_id t = sid" "tn_status t = ''queued''"
  shows "activate_created_turn_in_tx J sid tid m now db =
    (if s_active_turn_id s = None then
       Inr (True, db\<lparr>turns := map (\<lambda>r. if tn_id r = tid then r\<lparr>tn_status := ''running'',
              tn_model_snapshot_json := json_to_string J (opt_snapshot_to_value m),
              tn_updated_at := now\<rparr> else r) (turns db),
            sessions := map (\<lambda>r. if s_id r = sid then r\<lparr>s_state := ''active'',
              s_active_turn_id := Some tid, s_updated_at := now\<rparr> else r) (sessions db)\<rparr>)
     else Inl SessStorage)"
proof -
  let ?f = "\<lambda>r. r\<lparr>tn_status := ''running'',
    tn_model_snapshot_json := json_to_string J (opt_snapshot_to_value m), tn_updated_at := now\<rparr>"
  have idx: "turns_indexed (turns db)" using ok by (simp add: sessions_ok_def turns_ok_def)
  have upd: "update_one (queued_turn sid tid) ?f (turns db) =
      (map (\<lambda>r. if tn_id r = tid then ?f r else r) (turns db), 1)"
    by (rule update_turn_row [OF ok t(1)]) (use t in \<open>auto simp: queued_turn_def\<close>)
  show ?thesis
  proof (cases "s_active_turn_id s")
    case None
    have "\<not> active_row x" if "x \<in> set (turns db)" "tn_session_id x = tn_session_id t" for x
      using active_turn_named [OF ok s(1) that(1)] that(2) t(3) s(2) None by auto
    then have i: "turns_indexed (map (\<lambda>r. if tn_id r = tid then ?f r else r) (turns db))"
      by (intro turns_indexed_activate [OF idx t(1,2)]) auto
    have rel: "update_one (idle_session sid) (\<lambda>r. r\<lparr>s_state := ''active'', s_active_turn_id := Some tid,
        s_updated_at := now\<rparr>) (sessions db) = (map (\<lambda>r. if s_id r = sid then r\<lparr>s_state := ''active'',
        s_active_turn_id := Some tid, s_updated_at := now\<rparr> else r) (sessions db), 1)"
      by (rule update_session_row [OF ok s(1)]) (use s None in \<open>auto simp: idle_session_def\<close>)
    show ?thesis
      using None i by (simp add: activate_created_turn_in_tx_def update_turn_def upd update_session_eq rel)
  next
    case (Some i)
    have "(sid, i) \<in> marks session_mark (sessions db)"
      using Some s by (auto simp: marks_iff session_mark_def intro!: bexI [of _ s])
    then have "(sid, i) \<in> marks turn_mark (turns db)"
      using ok by (simp add: sessions_ok_def turns_ok_def)
    then obtain t' where t': "t' \<in> set (turns db)" "tn_session_id t' = sid" "active_row t'"
      by (auto simp: marks_iff turn_mark_def split: if_splits)
    have "\<not> turns_indexed (map (\<lambda>r. if tn_id r = tid then ?f r else r) (turns db))"
      by (rule activation_conflict_index [OF idx t(1,2) _ t'(1) _ t'(3)])
        (use t t' in \<open>simp_all add: active_row_def\<close>)
    then show ?thesis using Some by (simp add: activate_created_turn_in_tx_def update_turn_def upd)
  qed
qed

theorem activate_created_turn_effect_witness:
  "activate_created_turn_in_tx sample_serde ''s1'' ''t2'' None 9 sample_sessions = Inl SessStorage"
proof -
  have "sample_session \<in> set (sessions sample_sessions)" "s_id sample_session = ''s1''"
    "sample_turn ''t2'' 2 ''queued'' \<in> set (turns sample_sessions)"
    "tn_id (sample_turn ''t2'' 2 ''queued'') = ''t2''"
    "tn_session_id (sample_turn ''t2'' 2 ''queued'') = ''s1''"
    "tn_status (sample_turn ''t2'' 2 ''queued'') = ''queued''"
    by (simp_all add: sample_sessions_def empty_sessions_def sample_session_def sample_turn_def)
  from activate_created_turn_effect [OF sample_sessions_ok this, of sample_serde None 9]
  show ?thesis by (simp add: sample_session_def)
qed

section \<open>The queue\<close>

text \<open>
  Promotion is first in, first out: after a turn that completed, failed or was canceled, in
  an idle session, the candidate is a queued turn of that session with the least sequence
  number; it exists whenever the session has a queued turn whose ids and model snapshot parse.\<close>
lemma queue_is_fifo:
  assumes ok: "sessions_ok db" and can: "ids_canonical U db"
    and term': "t \<in> set (turns db)" "tn_id t = tid" "tn_session_id t = sid"
      "tn_status t = ''completed'' \<or> tn_status t = ''failed'' \<or> tn_status t = ''canceled''"
    and s: "s \<in> set (sessions db)" "s_id s = sid" "s_active_turn_id s = None"
    and q: "q \<in> set (turns db)" "tn_session_id q = sid" "tn_status q = ''queued''"
    and snap: "\<And>x. x \<in> set (turns db) \<Longrightarrow> \<exists>m. snapshot_parse J (tn_model_snapshot_json x) = Inr m"
  shows "\<exists>c first m. queued_turn_candidate_in_tx J U tid sid db = Inr (Some c) \<and>
    first \<in> set (turns db) \<and> tn_session_id first = sid \<and> tn_status first = ''queued'' \<and>
    (\<forall>x \<in> set (turns db). tn_session_id x = sid \<and> tn_status x = ''queued'' \<longrightarrow>
       tn_sequence first \<le> tn_sequence x) \<and>
    snapshot_parse J (tn_model_snapshot_json first) = Inr m \<and>
    c = \<lparr>qc_turn_id = tn_id first, qc_session_id = sid, qc_model_snapshot = m\<rparr>"
proof -
  let ?T = "\<lambda>t. tn_id t = tid \<and> tn_session_id t = sid \<and>
    (tn_status t = ''completed'' \<or> tn_status t = ''failed'' \<or> tn_status t = ''canceled'')"
  let ?Q = "\<lambda>t. tn_session_id t = sid \<and> tn_status t = ''queued''"
  have found: "find_one ?T (turns db) \<noteq> None" "find_one (idle_session sid) (sessions db) \<noteq> None"
    using term' s by (auto simp: find_one_None_iff idle_session_def)
  obtain a where a: "find_first_by ?Q tn_sequence (turns db) = Some a"
    using q find_first_by_None_iff [of ?Q tn_sequence "turns db"] by fastforce
  note aD = find_first_by_SomeD [OF a]
  obtain b where b: "find_one (\<lambda>t. tn_session_id t = sid \<and> tn_status t = ''queued'' \<and>
      tn_sequence t = tn_sequence a) (turns db) = Some b"
    using aD(1,2) find_one_None_iff [of "\<lambda>t. tn_session_id t = sid \<and> tn_status t = ''queued'' \<and>
      tn_sequence t = tn_sequence a" "turns db"] by fastforce
  have bD: "b \<in> set (turns db)" "?Q b" "tn_sequence b = tn_sequence a"
    using find_one_SomeD [OF b] by auto
  obtain m where m: "snapshot_parse J (tn_model_snapshot_json b) = Inr m" using snap [OF bD(1)] ..
  have "canonical_turn U b" using can bD(1) by (simp add: ids_canonical_def)
  then have "queued_turn_candidate_in_tx J U tid sid db =
      Inr (Some \<lparr>qc_turn_id = tn_id b, qc_session_id = sid, qc_model_snapshot = m\<rparr>)"
    using found a b m bD(2)
    by (simp add: queued_turn_candidate_in_tx_def parse_id_def canonical_turn_def)
  moreover have "\<forall>x \<in> set (turns db). tn_session_id x = sid \<and> tn_status x = ''queued'' \<longrightarrow>
      tn_sequence b \<le> tn_sequence x"
    using aD(3) bD(3) by simp
  ultimately show ?thesis
    using bD(1,2) m by (intro exI [of _ "\<lparr>qc_turn_id = tn_id b, qc_session_id = sid,
      qc_model_snapshot = m\<rparr>"] exI [of _ b] exI [of _ m]) simp
qed

definition settled_sessions :: "string \<Rightarrow> sessions_db" where
  "settled_sessions status = empty_sessions
    \<lparr>sessions := [sample_session\<lparr>s_state := ''ready'', s_active_turn_id := None\<rparr>],
     turns := [sample_turn ''t1'' 1 status, sample_turn ''t3'' 3 ''queued'',
               sample_turn ''t2'' 2 ''queued'']\<rparr>"

lemma settled_sessions_ok:
  "status \<in> {''completed'', ''failed'', ''canceled'', ''interrupted''} \<Longrightarrow>
    sessions_ok (settled_sessions status)"
  by (auto simp: sessions_ok_def turns_ok_def turns_indexed_def settled_sessions_def empty_sessions_def
      sample_session_def sample_turn_def turn_mark_def session_mark_def active_row_def status_ok_def
      turn_status_from_str_def)

lemma queue_is_fifo_witness:
  "queued_turn_candidate_in_tx sample_serde Some ''t1'' ''s1'' (settled_sessions ''completed'') =
   Inr (Some \<lparr>qc_turn_id = ''t2'', qc_session_id = ''s1'', qc_model_snapshot = None\<rparr>)"
proof -
  let ?db = "settled_sessions ''completed''"
  have "\<exists>c first m. queued_turn_candidate_in_tx sample_serde Some ''t1'' ''s1'' ?db = Inr (Some c) \<and>
    first \<in> set (turns ?db) \<and> tn_session_id first = ''s1'' \<and> tn_status first = ''queued'' \<and>
    (\<forall>x \<in> set (turns ?db). tn_session_id x = ''s1'' \<and> tn_status x = ''queued'' \<longrightarrow>
       tn_sequence first \<le> tn_sequence x) \<and>
    snapshot_parse sample_serde (tn_model_snapshot_json first) = Inr m \<and>
    c = \<lparr>qc_turn_id = tn_id first, qc_session_id = ''s1'', qc_model_snapshot = m\<rparr>"
    by (rule queue_is_fifo [OF settled_sessions_ok, where t = "sample_turn ''t1'' 1 ''completed''"
          and s = "sample_session\<lparr>s_state := ''ready'', s_active_turn_id := None\<rparr>"
          and q = "sample_turn ''t2'' 2 ''queued''"])
      (auto simp: ids_canonical_def canonical_turn_def settled_sessions_def empty_sessions_def
        sample_turn_def sample_session_def snapshot_parse_def sample_serde_def)
  then show ?thesis
    by (auto simp: settled_sessions_def empty_sessions_def sample_turn_def snapshot_parse_def
        sample_serde_def)
qed

text \<open>
  The queue stops at an interrupted turn: \<open>Interrupted\<close> is one of the statuses that
  \<open>advances_queue\<close> reports as advancing the queue, yet \<open>queued_turn_candidate_in_tx\<close> finds no
  candidate after such a turn, however many turns wait in the session.\<close>
theorem interrupted_turn_blocks_queue:
  assumes "sessions_ok db" and "t \<in> set (turns db)" and "tn_id t = tid"
    and "tn_status t = turn_status_as_str Interrupted"
  shows "advances_queue Interrupted \<and> queued_turn_candidate_in_tx J U tid sid db = Inr None"
proof -
  have "tn_status x = ''interrupted''" if "x \<in> set (turns db)" "tn_id x = tid" for x
    using stored_turns_unique [OF assms(1) that(1) assms(2)] that(2) assms(3,4) by simp
  then have "find_one (\<lambda>t. tn_id t = tid \<and> tn_session_id t = sid \<and>
      (tn_status t = ''completed'' \<or> tn_status t = ''failed'' \<or> tn_status t = ''canceled'')) (turns db) = None"
    by (auto simp: find_one_None_iff)
  then show ?thesis by (simp add: queued_turn_candidate_in_tx_def)
qed

theorem interrupted_turn_blocks_queue_witness:
  "advances_queue Interrupted \<and>
   queued_turn_candidate_in_tx sample_serde Some ''t1'' ''s1'' (settled_sessions ''interrupted'') = Inr None \<and>
   has_queued_turn_in_tx ''s1'' (settled_sessions ''interrupted'')"
proof -
  have "sample_turn ''t1'' 1 ''interrupted'' \<in> set (turns (settled_sessions ''interrupted''))"
    by (simp add: settled_sessions_def empty_sessions_def)
  from interrupted_turn_blocks_queue [OF settled_sessions_ok this, of "''t1''" sample_serde Some "''s1''"]
  show ?thesis
    by (auto simp: sample_turn_def has_queued_turn_in_tx_def settled_sessions_def empty_sessions_def)
qed

end
