(* ===== verification/Session_Recovery.thy ===== *)
theory Session_Recovery
  imports Queue_Properties
begin

text \<open>
  Restart recovery, deletion and optimistic locking of sessions.
\<close>

section \<open>Restart recovery\<close>

definition stays :: "string set \<Rightarrow> turn_row \<Rightarrow> bool" where
  "stays wake t \<longleftrightarrow> tn_status t = ''running'' \<and> tn_id t \<in> wake"

lemma recover_row_effect:
  assumes ok: "sessions_ok db" and row: "row \<in> set (turns db)" "canonical_turn U row"
  shows "\<exists>r db'. recover_row U tv sv now wake row db = Inr (r, db') \<and>
    turns db' = (if stays wake row then turns db
      else map (\<lambda>t. if tn_id t = tn_id row
                     then interrupt_row (version_tag (tv (tn_id t))) now t else t) (turns db))"
proof -
  let ?tid = "tn_id row" and ?sid = "tn_session_id row"
  obtain st where st: "tn_status row = turn_status_as_str st" using stored_statusE [OF ok row(1)] .
  have ids: "parse_id U ?tid = Inr ?tid" "parse_id U ?sid = Inr ?sid"
    using row(2) by (simp_all add: parse_id_def canonical_turn_def)
  have run: "st = Running \<longleftrightarrow> tn_status row = ''running''" using st by (cases st) simp_all
  show ?thesis
  proof (cases "stays wake row")
    case True
    then have "st = Running" "?tid \<in> wake" using run by (simp_all add: stays_def)
    then show ?thesis using True by (simp add: recover_row_def ids st del: turn_status_as_str.simps)
  next
    case False
    let ?f = "interrupt_row (version_tag (tv ?tid)) now"
    let ?c = "map (\<lambda>t. if tn_id t = ?tid then ?f t else t) (turns db)"
    have upd: "update_one (interrupt_filter ?tid st) ?f (turns db) = (?c, 1)"
      by (rule update_turn_row [OF ok row(1)])
        (use st in \<open>auto simp: interrupt_filter_def interrupt_row_def\<close>)
    have "turns_indexed (fst (update_one (interrupt_filter ?tid st) ?f (turns db)))"
      by (rule cancel_index [OF ok]) (simp_all add: interrupt_row_def active_row_def)
    then have idx: "turns_indexed ?c" by (simp add: upd)
    have "\<not> (st = Running \<and> ?tid \<in> wake)" using False run by (simp add: stays_def)
    then have "\<exists>r. recover_row U tv sv now wake row db =
        Inr (r, db\<lparr>turns := ?c, sessions := fst (update_one (owned_session ?sid ?tid)
          (release_row (version_tag (sv ?tid)) now) (sessions db))\<rparr>)"
      using upd idx
      by (auto simp: recover_row_def ids st update_turn_def update_session_eq
          interrupt_filter_def [abs_def] interrupt_row_def [abs_def] del: turn_status_as_str.simps)
    moreover have "?c = map (\<lambda>t. if tn_id t = ?tid then interrupt_row (version_tag (tv (tn_id t))) now t
        else t) (turns db)" by simp
    ultimately show ?thesis using False by auto
  qed
qed

lemma recover_rows_effect:
  assumes "sessions_ok db" and "\<And>row. row \<in> set rows \<Longrightarrow>
      row \<in> set (turns db) \<and> canonical_turn U row \<and> active_row row"
    and "distinct (map tn_id rows)"
  shows "\<exists>r db'. recover_rows U tv sv now wake rows db = Inr (r, db') \<and>
    turns db' = map (\<lambda>t. if \<exists>row \<in> set rows. tn_id row = tn_id t \<and> \<not> stays wake row
      then interrupt_row (version_tag (tv (tn_id t))) now t else t) (turns db)"
  using assms
proof (induction rows arbitrary: db)
  case (Cons row rows)
  let ?h = "\<lambda>t. if tn_id t = tn_id row then interrupt_row (version_tag (tv (tn_id t))) now t else t"
  have row: "row \<in> set (turns db)" "canonical_turn U row" "active_row row"
    using Cons.prems(2) by simp_all
  obtain r1 db1 where step: "recover_row U tv sv now wake row db = Inr (r1, db1)"
    and t1: "turns db1 = (if stays wake row then turns db else map ?h (turns db))"
    using recover_row_effect [OF Cons.prems(1) row(1,2)] by blast
  have "row_stored (turns db) row" using row(1) by (auto simp: row_stored_def)
  then have ok1: "sessions_ok db1"
    using recover_row_ok [OF step Cons.prems(1)] row by blast
  have "x \<in> set (turns db1)" if "x \<in> set rows" for x
    using that Cons.prems(2) [of x] Cons.prems(3) by (auto simp: t1 image_iff)
  then obtain r2 db2 where rest: "recover_rows U tv sv now wake rows db1 = Inr (r2, db2)"
    and t2: "turns db2 = map (\<lambda>t. if \<exists>row \<in> set rows. tn_id row = tn_id t \<and> \<not> stays wake row
      then interrupt_row (version_tag (tv (tn_id t))) now t else t) (turns db1)"
    using Cons.IH [OF ok1] Cons.prems(2,3) by auto
  have i: "tn_id (interrupt_row v now t) = tn_id t" for v t by (simp add: interrupt_row_def)
  have "turns db2 = map (\<lambda>t. if \<exists>x \<in> set (row # rows). tn_id x = tn_id t \<and> \<not> stays wake x
      then interrupt_row (version_tag (tv (tn_id t))) now t else t) (turns db)"
    using Cons.prems(3) by (auto simp: t2 t1 i image_iff)
  with step rest show ?case by simp
qed simp

text \<open>
  C14. Restart recovery never fails and is exact: the turns it leaves active are the running ones
  that never started and must be woken; every other running or canceling turn becomes
  interrupted; queued and finished turns keep their rows; and afterwards the sessions name as
  active only turns that will be woken.\<close>
theorem recovery_is_exact:
  assumes ok: "sessions_ok db" and can: "ids_canonical U db"
  shows "\<exists>r db'. interrupt_active_turns_in_tx U tv sv now wake db = Inr (r, db') \<and>
    turns db' = map (\<lambda>t. if active_row t \<and> \<not> (tn_status t = ''running'' \<and> tn_id t \<in> wake)
      then interrupt_row (version_tag (tv (tn_id t))) now t else t) (turns db) \<and>
    (\<forall>s \<in> set (sessions db'). \<forall>i. s_active_turn_id s = Some i \<longrightarrow> i \<in> wake)"
proof -
  let ?rows = "sort_key (\<lambda>t. (tn_session_id t, tn_sequence t)) (filter active_row (turns db))"
  have "distinct (map tn_id (filter active_row (turns db)))"
    using ok by (simp add: sessions_ok_def turns_ok_def turns_indexed_def distinct_map_filter)
  then have "distinct (map tn_id ?rows)"
    by (simp add: distinct_map)
  then obtain r db' where run: "interrupt_active_turns_in_tx U tv sv now wake db = Inr (r, db')"
    and ts: "turns db' = map (\<lambda>t. if \<exists>row \<in> set ?rows. tn_id row = tn_id t \<and> \<not> stays wake row
      then interrupt_row (version_tag (tv (tn_id t))) now t else t) (turns db)"
    using recover_rows_effect [OF ok, of ?rows U tv sv now wake] can
    by (auto simp: interrupt_active_turns_in_tx_def ids_canonical_def)
  have "(\<exists>row \<in> set ?rows. tn_id row = tn_id t \<and> \<not> stays wake row) \<longleftrightarrow>
      active_row t \<and> \<not> stays wake t" if "t \<in> set (turns db)" for t
    using that stored_turns_unique [OF ok] by auto
  then have exact: "turns db' = map (\<lambda>t. if active_row t \<and> \<not> stays wake t
      then interrupt_row (version_tag (tv (tn_id t))) now t else t) (turns db)"
    unfolding ts by (intro map_cong) auto
  have ok': "sessions_ok db'" by (rule interrupt_active_ok [OF run ok can])
  have "i \<in> wake" if "s \<in> set (sessions db')" "s_active_turn_id s = Some i" for s i
  proof -
    have "(s_id s, i) \<in> marks session_mark (sessions db')"
      using that by (auto simp: marks_iff session_mark_def intro!: bexI [of _ s])
    then have "(s_id s, i) \<in> marks turn_mark (turns db')"
      using ok' by (simp add: sessions_ok_def turns_ok_def)
    then obtain t where "t \<in> set (turns db')" "tn_id t = i" "active_row t"
      by (auto simp: marks_iff turn_mark_def split: if_splits)
    then show ?thesis
      by (auto simp: exact interrupted_mark stays_def split: if_splits)
  qed
  with run exact show ?thesis by (auto simp: stays_def)
qed

theorem recovery_is_exact_witness:
  "\<exists>r db'. interrupt_active_turns_in_tx Some id id 9 {} sample_sessions = Inr (r, db') \<and>
    map tn_status (turns db') = [''interrupted'', ''queued''] \<and>
    \<not> (\<exists>s \<in> set (sessions db'). s_active_turn_id s \<noteq> None)"
proof -
  have "ids_canonical Some sample_sessions" by (simp add: ids_canonical_def canonical_turn_def)
  from recovery_is_exact [OF sample_sessions_ok this, of id id 9 "{}"]
  obtain r db' where "interrupt_active_turns_in_tx Some id id 9 {} sample_sessions = Inr (r, db')"
    "turns db' = map (\<lambda>t. if active_row t then interrupt_row (version_tag (tn_id t)) 9 t else t)
      (turns sample_sessions)"
    "\<forall>s \<in> set (sessions db'). \<forall>i. s_active_turn_id s \<noteq> Some i"
    by auto
  then show ?thesis
    by (auto simp: sample_sessions_def empty_sessions_def sample_turn_def active_row_def interrupt_row_def)
qed

section \<open>Deletion\<close>

text \<open>
  Settling a turn undoes a deletion in progress: when the active turn of a session that is
  marked deleting completes, fails or is canceled, the session goes back to the state ready, and
  deleting its records afterwards reports that it is not marked deleting.\<close>
theorem settlement_clears_deleting_mark:
  assumes ok: "sessions_ok db" and s: "s \<in> set (sessions db)" "s_id s = sid" "s_state s = ''deleting''"
      "s_active_turn_id s = Some tid"
    and t: "t \<in> set (turns db)" "tn_id t = tid" "tn_session_id t = sid"
      "tn_status t = turn_status_as_str (outcome_from out)"
  shows "\<exists>r db'. settle_active_turn_in_tx J v sid tid out now db = Inr (Some r, db') \<and>
    (\<forall>x \<in> set (sessions db'). s_id x = sid \<longrightarrow> s_state x = ''ready'') \<and>
    fst (delete_session_in_tx sid db') = False"
proof -
  define db2 where "db2 = db\<lparr>turns := map (\<lambda>t. if tn_id t = tid then settle_row J out now t else t) (turns db),
    sessions := map (\<lambda>s. if s_id s = sid then release_row (version_tag v) now s else s) (sessions db)\<rparr>"
  have cond: "(\<exists>s \<in> set (sessions db). s_id s = sid \<and> s_active_turn_id s = Some tid) \<and>
    (\<exists>t \<in> set (turns db). tn_id t = tid \<and> tn_session_id t = sid \<and>
       tn_status t = turn_status_as_str (outcome_from out))"
    using s t by blast
  have run: "settle_active_turn_in_tx J v sid tid out now db =
      Inr (Some \<lparr>tt_from_status = outcome_from out, tt_to_status = outcome_to out,
        tt_session_version = version_tag v\<rparr>, db2)"
    unfolding settle_active_turn_effect [OF ok] db2_def by (rule if_P [OF cond])
  have "s_state x = ''ready''"
    if x: "x \<in> set (sessions db2)" and i: "s_id x = sid" for x
  proof -
    from x have "x \<in> set (map (\<lambda>s. if s_id s = sid then release_row (version_tag v) now s else s)
        (sessions db))" by (simp add: db2_def)
    then show ?thesis
      by (cases rule: map_ifE) (use i in \<open>simp_all add: release_row_def\<close>)
  qed
  then have ready: "\<forall>x \<in> set (sessions db2). s_id x = sid \<longrightarrow> s_state x = ''ready''"
    by blast
  then have "snd (delete_one (\<lambda>s. s_id s = sid \<and> s_state s = ''deleting'') (sessions db2)) = 0"
    by (auto simp: delete_one_count)
  then have "fst (delete_session_in_tx sid db2) = False"
    by (simp add: delete_session_in_tx_def Let_def split_beta)
  with run ready show ?thesis by blast
qed

definition deleting_sessions :: sessions_db where
  "deleting_sessions = sample_sessions\<lparr>sessions := [sample_session\<lparr>s_state := ''deleting''\<rparr>]\<rparr>"

theorem settlement_clears_deleting_mark_witness:
  "\<exists>r db'. settle_active_turn_in_tx sample_serde ''w'' ''s1'' ''t1'' (OutcomeCompleted JNull 3 4) 9
      deleting_sessions = Inr (Some r, db') \<and>
    \<not> (\<exists>x \<in> set (sessions db'). s_id x = ''s1'' \<and> s_state x = ''deleting'') \<and>
    fst (delete_session_in_tx ''s1'' db') = False"
proof -
  have "sessions_ok deleting_sessions"
    using sample_sessions_ok
    by (simp add: sessions_ok_def turns_ok_def deleting_sessions_def sample_sessions_def
        empty_sessions_def session_mark_def sample_session_def)
  moreover have "sample_session\<lparr>s_state := ''deleting''\<rparr> \<in> set (sessions deleting_sessions)"
    "sample_turn ''t1'' 1 ''running'' \<in> set (turns deleting_sessions)"
    by (simp_all add: deleting_sessions_def sample_sessions_def empty_sessions_def)
  ultimately obtain r db' where
    "settle_active_turn_in_tx sample_serde ''w'' ''s1'' ''t1'' (OutcomeCompleted JNull 3 4) 9
      deleting_sessions = Inr (Some r, db')"
    and ready: "\<forall>x \<in> set (sessions db'). s_id x = ''s1'' \<longrightarrow> s_state x = ''ready''"
    and "fst (delete_session_in_tx ''s1'' db') = False"
    using settlement_clears_deleting_mark [of deleting_sessions
        "sample_session\<lparr>s_state := ''deleting''\<rparr>" "''s1''" "''t1''" "sample_turn ''t1'' 1 ''running''"
        "OutcomeCompleted JNull 3 4" sample_serde "''w''" 9]
    by (auto simp: sample_session_def sample_turn_def)
  moreover have "\<not> (\<exists>x \<in> set (sessions db'). s_id x = ''s1'' \<and> s_state x = ''deleting'')"
    using ready by auto
  ultimately show ?thesis by blast
qed

text \<open>
  Deleting a session that is marked deleting removes every row it owns and only those: its
  row, turns, messages, timeline items, checkpoints and attachments, the links and uploads of
  those attachments, and afterwards no session row with that id is left; rows of other sessions
  are kept in order.\<close>
theorem delete_session_cascades:
  assumes "sessions_ok db" and "s \<in> set (sessions db)" and "s_id s = sid" and "s_state s = ''deleting''"
  shows "\<exists>db'. delete_session_in_tx sid db = (True, db') \<and>
    sessions db' = filter (\<lambda>r. s_id r \<noteq> sid) (sessions db) \<and>
    turns db' = filter (\<lambda>r. tn_session_id r \<noteq> sid) (turns db) \<and>
    messages db' = filter (\<lambda>r. ms_session_id r \<noteq> sid) (messages db) \<and>
    timeline_items db' = filter (\<lambda>r. tl_session_id r \<noteq> sid) (timeline_items db) \<and>
    checkpoints db' = filter (\<lambda>r. cp_session_id r \<noteq> sid) (checkpoints db) \<and>
    attachments db' = filter (\<lambda>r. at_session_id r \<noteq> sid) (attachments db) \<and>
    (\<forall>a \<in> set (attachments db). at_session_id a = sid \<longrightarrow>
      (\<forall>m \<in> set (message_attachments db'). ma_attachment_id m \<noteq> at_id a) \<and>
      (\<forall>u \<in> set (uploads db'). at_upload_id a \<noteq> Some (up_id u)))"
proof -
  let ?d = "delete_one (\<lambda>s. s_id s = sid \<and> s_state s = ''deleting'') (sessions db)"
  have hit: "snd ?d > 0" using assms(2,3,4) by (auto simp: delete_one_count)
  obtain b db' where run: "delete_session_in_tx sid db = (b, db')" by fastforce
  with hit have b: b by (simp add: delete_session_in_tx_def Let_def split_beta)
  have shape: "sessions db' = filter (\<lambda>r. s_id r \<noteq> sid) (sessions db)"
    "turns db' = filter (\<lambda>r. tn_session_id r \<noteq> sid) (turns db)"
    using delete_session_shape [of sid db db'] run b assms(1) by auto
  let ?owned = "filter (\<lambda>a. at_session_id a = sid) (attachments db)"
  have ma: "message_attachments db' = (if map at_id ?owned = [] then message_attachments db
      else filter (\<lambda>m. ma_attachment_id m \<notin> set (map at_id ?owned)) (message_attachments db))"
    and up: "uploads db' = (if List.map_filter at_upload_id ?owned = [] then uploads db
      else filter (\<lambda>u. up_id u \<notin> set (List.map_filter at_upload_id ?owned)) (uploads db))"
    and rest: "messages db' = filter (\<lambda>r. ms_session_id r \<noteq> sid) (messages db)"
      "timeline_items db' = filter (\<lambda>r. tl_session_id r \<noteq> sid) (timeline_items db)"
      "checkpoints db' = filter (\<lambda>r. cp_session_id r \<noteq> sid) (checkpoints db)"
      "attachments db' = filter (\<lambda>r. at_session_id r \<noteq> sid) (attachments db)"
    using run by (auto simp: delete_session_in_tx_def Let_def split_beta delete_many_def)
  have "ma_attachment_id m \<noteq> at_id a"
    if "a \<in> set (attachments db)" "at_session_id a = sid" "m \<in> set (message_attachments db')" for a m
    using that by (auto simp: ma filter_empty_conv split: if_splits)
  moreover have "at_upload_id a \<noteq> Some (up_id u)"
    if "a \<in> set (attachments db)" "at_session_id a = sid" "u \<in> set (uploads db')" for a u
  proof
    assume "at_upload_id a = Some (up_id u)"
    with that(1,2) have "up_id u \<in> set (List.map_filter at_upload_id ?owned)"
      unfolding marks_def [symmetric] marks_iff by auto
    with that(3) show False by (auto simp: up split: if_splits)
  qed
  ultimately show ?thesis using run b shape rest by (intro exI [of _ db']) simp
qed

theorem delete_session_cascades_witness:
  "\<exists>db'. delete_session_in_tx ''s1'' deleting_sessions = (True, db') \<and> sessions db' = [] \<and> turns db' = []"
proof -
  have "sessions_ok deleting_sessions"
    using sample_sessions_ok
    by (simp add: sessions_ok_def turns_ok_def deleting_sessions_def sample_sessions_def
        empty_sessions_def session_mark_def sample_session_def)
  moreover have "sample_session\<lparr>s_state := ''deleting''\<rparr> \<in> set (sessions deleting_sessions)"
    by (simp add: deleting_sessions_def)
  ultimately show ?thesis
    using delete_session_cascades [of deleting_sessions "sample_session\<lparr>s_state := ''deleting''\<rparr>" "''s1''"]
    by (auto simp: sample_session_def deleting_sessions_def sample_sessions_def empty_sessions_def
        sample_turn_def)
qed

end
