(* ===== verification/Utf8_Text.thy ===== *)
theory Utf8_Text
  imports Main
begin

text \<open>
  Lossy UTF-8 decoding (\<open>String::from_utf8_lossy\<close> of the standard library), which the event
  stream splitter, the line differ and the log store use, and \<open>str::replace\<close>. Text is its UTF-8 bytes, as chars.
\<close>

section \<open>Lossy UTF-8 decoding\<close>

definition byte_at :: "string \<Rightarrow> nat \<Rightarrow> nat" where
  "byte_at s i = (if i < length s then of_char (s ! i) else 0)"

definition continuation :: "nat \<Rightarrow> bool" where
  "continuation b \<longleftrightarrow> 128 \<le> b \<and> b \<le> 191"

text \<open>The second bytes that may follow a lead byte of a three or four byte character.\<close>

definition second3 :: "nat \<Rightarrow> nat \<Rightarrow> bool" where
  "second3 a b \<longleftrightarrow> a = 224 \<and> 160 \<le> b \<and> b \<le> 191 \<or> 225 \<le> a \<and> a \<le> 236 \<and> continuation b \<or>
     a = 237 \<and> 128 \<le> b \<and> b \<le> 159 \<or> 238 \<le> a \<and> a \<le> 239 \<and> continuation b"

definition second4 :: "nat \<Rightarrow> nat \<Rightarrow> bool" where
  "second4 a b \<longleftrightarrow> a = 240 \<and> 144 \<le> b \<and> b \<le> 191 \<or> 241 \<le> a \<and> a \<le> 243 \<and> continuation b \<or>
     a = 244 \<and> 128 \<le> b \<and> b \<le> 143"

text \<open>
  One unit at the head of the input: whether it is a whole character, and how many bytes it
  takes (for an invalid one, the longest prefix of a character that is there).
\<close>

definition utf8_unit :: "string \<Rightarrow> bool \<times> nat" where
  "utf8_unit s =
    (let a = byte_at s 0; b = byte_at s 1; c = byte_at s 2; d = byte_at s 3 in
     if a < 128 then (True, 1)
     else if 194 \<le> a \<and> a \<le> 223 then (if continuation b then (True, 2) else (False, 1))
     else if 224 \<le> a \<and> a \<le> 239 then
       (if \<not> second3 a b then (False, 1) else if \<not> continuation c then (False, 2) else (True, 3))
     else if 240 \<le> a \<and> a \<le> 244 then
       (if \<not> second4 a b then (False, 1) else if \<not> continuation c then (False, 2)
        else if \<not> continuation d then (False, 3) else (True, 4))
     else (False, 1))"

definition replacement_char :: string where
  "replacement_char = [CHR 0xEF, CHR 0xBF, CHR 0xBD]"

lemma utf8_unit_pos: "0 < snd (utf8_unit s)"
  by (simp add: utf8_unit_def Let_def)

function utf8_lossy :: "string \<Rightarrow> string" where
  "utf8_lossy s =
    (if s = [] then []
     else let n = snd (utf8_unit s)
          in (if fst (utf8_unit s) then take n s else replacement_char) @ utf8_lossy (drop n s))"
  by auto
termination
  by (relation "measure length") (auto simp: utf8_unit_pos)

declare utf8_lossy.simps [simp del]

lemma utf8_lossy_Nil [simp]: "utf8_lossy [] = []"
  by (simp add: utf8_lossy.simps)

text \<open>ASCII text decodes to itself.\<close>

lemma utf8_lossy_ascii: "\<forall>c \<in> set s. (of_char c :: nat) < 128 \<Longrightarrow> utf8_lossy s = s"
proof (induction s)
  case (Cons c s)
  then have "utf8_unit (c # s) = (True, 1)" by (simp add: utf8_unit_def Let_def byte_at_def)
  with Cons show ?case by (simp add: utf8_lossy.simps [of "c # s"])
qed simp

lemma utf8_lossy_Cons_ascii: "(of_char c :: nat) < 128 \<Longrightarrow> utf8_lossy (c # s) = c # utf8_lossy s"
proof -
  assume "(of_char c :: nat) < 128"
  then have "utf8_unit (c # s) = (True, 1)" by (simp add: utf8_unit_def Let_def byte_at_def)
  then show ?thesis by (simp add: utf8_lossy.simps [of "c # s"])
qed

section \<open>Replacement\<close>

text \<open>\<open>str::replace\<close>, from left to right and without overlaps.\<close>

function replace_all :: "string \<Rightarrow> string \<Rightarrow> string \<Rightarrow> string" where
  "replace_all pat by s =
    (if pat = [] \<or> s = [] then s
     else if take (length pat) s = pat then by @ replace_all pat by (drop (length pat) s)
     else hd s # replace_all pat by (tl s))"
  by auto
termination by (relation "measure (\<lambda>(pat, by, s). length s)") auto

declare replace_all.simps [simp del]

lemma replace_all_absent:
  assumes "pat \<noteq> []" and "\<And>xs ys. s \<noteq> xs @ pat @ ys"
  shows "replace_all pat r s = s"
  using assms
proof (induction s)
  case (Cons c s)
  have "take (length pat) (c # s) \<noteq> pat"
    using Cons.prems(2) [of "[]" "drop (length pat) (c # s)"] by (metis append_Nil append_take_drop_id)
  moreover have "s \<noteq> xs @ pat @ ys" for xs ys using Cons.prems(2) [of "c # xs" ys] by auto
  ultimately show ?case using Cons.IH Cons.prems(1) by (subst replace_all.simps) simp
qed (simp add: replace_all.simps)

end
