(* ===== verification/Session_Flow.thy ===== *)
theory Session_Flow
  imports Session_Interface Utf8_Text
begin

text \<open>
  Cross-module turn coordination: accepting a message (\<open>apps/server/src/application/session_flow.rs\<close>),
  settling a cancel, and the passes of the execution coordinator over the queue
  (\<open>apps/server/src/application/execution.rs\<close>). Each transaction composes the operations of the
  sessions capability, the event log and the work queue. The calls into the model, project,
  runtime and execution capabilities are parameters.
\<close>

section \<open>Session titles\<close>

definition first_line :: "string \<Rightarrow> string" where
  "first_line content =
    (let line = takeWhile (\<lambda>c. c \<noteq> CHR 0x0A) content
     in if CHR 0x0A \<in> set content \<and> line \<noteq> [] \<and> last line = CHR 0x0D then butlast line else line)"

text \<open>The loop that collapses runs of white space.\<close>

function collapse_blanks :: "string \<Rightarrow> string \<Rightarrow> bool \<Rightarrow> string" where
  "collapse_blanks s normalized pending_space =
    (if s = [] then normalized
     else if 0 < ws_len s then
       collapse_blanks (drop (ws_len s) s) normalized (pending_space \<or> normalized \<noteq> [])
     else let n = snd (utf8_unit s)
          in collapse_blanks (drop n s)
               (normalized @ (if pending_space then '' '' else []) @ take n s) False)"
  by auto
termination
  by (relation "measure (\<lambda>(s, _, _). length s)") (auto simp: utf8_unit_pos)

declare collapse_blanks.simps [simp del]

definition char_count :: "string \<Rightarrow> nat" where
  "char_count s = length (filter (\<lambda>c. \<not> continuation (of_char c)) s)"

definition is_char_boundary :: "string \<Rightarrow> nat \<Rightarrow> bool" where
  "is_char_boundary s i \<longleftrightarrow>
    i = 0 \<or> i = length s \<or> i < length s \<and> \<not> continuation (of_char (s ! i))"

fun floor_boundary :: "string \<Rightarrow> nat \<Rightarrow> nat" where
  "floor_boundary s i =
    (if 0 < i \<and> \<not> is_char_boundary s i then floor_boundary s (i - 1) else i)"

declare floor_boundary.simps [simp del]

definition ellipsis :: string where "ellipsis = [CHR 0xE2, CHR 0x80, CHR 0xA6]"

definition trim_matches :: "(char \<Rightarrow> bool) \<Rightarrow> string \<Rightarrow> string" where
  "trim_matches P s = List.rev (dropWhile P (List.rev (dropWhile P s)))"

definition derive_session_title :: "string \<Rightarrow> nat \<Rightarrow> string" where
  "derive_session_title content max_chars =
    (let stripped = str_trim (trim_matches (\<lambda>c. c = CHR 0x22 \<or> c = CHR 0x60)
           (dropWhile (\<lambda>c. c = CHR ''#'') (str_trim (first_line content))));
         normalized = collapse_blanks stripped [] False
     in if char_count normalized \<le> max_chars then normalized
        else trim_end (take (floor_boundary normalized max_chars) normalized) @ ellipsis)"

definition PLACEHOLDER :: string where "PLACEHOLDER = ''New session''"
definition MAX_TITLE_CHARS :: nat where "MAX_TITLE_CHARS = 80"

section \<open>Model resolution\<close>

datatype turn_execution_error = TeInvalidModelPreference | TeOther string

record project_preference =
  pp_owner_id :: string
  pp_default_model_id :: "string option"

text \<open>The reads of the project and model capabilities inside the transaction.\<close>

record model_reads =
  model_preference_read :: "string \<Rightarrow> turn_execution_error + project_preference"
  resolve_for_turn :: "string \<Rightarrow> string option \<Rightarrow> string option \<Rightarrow> string option \<Rightarrow>
    turn_execution_error + turn_model_candidate_snapshot option"
  failover_candidates :: "string \<Rightarrow> string \<Rightarrow> turn_execution_error + turn_model_candidate_snapshot list"

definition apply_preference ::
  "session_model_preference option \<Rightarrow> json \<Rightarrow> turn_execution_error + json" where
  "apply_preference preference parameters =
    (case preference of None \<Rightarrow> Inr parameters
     | Some p \<Rightarrow> (case parameters of
         JObj kvs \<Rightarrow> Inr (JObj (if mp_reasoning_effort p = EffortNone
             then filter (\<lambda>(k, v). k \<noteq> ''reasoning_effort'') kvs
             else obj_insert ''reasoning_effort''
                    (JStr (reasoning_effort_as_str (mp_reasoning_effort p))) kvs))
       | _ \<Rightarrow> Inl TeInvalidModelPreference))"

definition with_parameters ::
  "session_model_preference option \<Rightarrow> turn_model_candidate_snapshot \<Rightarrow>
    turn_execution_error + turn_model_candidate_snapshot" where
  "with_parameters preference c =
    and_then (apply_preference preference (mc_parameters c)) (\<lambda>p. Inr (c\<lparr>mc_parameters := p\<rparr>))"

definition resolve_model_snapshot_in_tx ::
  "model_reads \<Rightarrow> string \<Rightarrow> string option \<Rightarrow> session_model_preference option \<Rightarrow>
    turn_execution_error + turn_model_snapshot option" where
  "resolve_model_snapshot_in_tx M project_id expected_owner_id preference =
    and_then (model_preference_read M project_id) (\<lambda>project.
      if expected_owner_id \<noteq> None \<and> expected_owner_id \<noteq> Some (pp_owner_id project)
      then Inl (TeOther ''project not found'')
      else and_then (resolve_for_turn M (pp_owner_id project) (pp_default_model_id project)
               (map_option mp_provider_id preference) (map_option mp_upstream_model_id preference))
      (\<lambda>model. if preference \<noteq> None \<and> model = None then Inl TeInvalidModelPreference
        else case model of
          None \<Rightarrow> Inr None
        | Some m \<Rightarrow>
            and_then (failover_candidates M (pp_owner_id project) (mc_model_id m)) (\<lambda>failover.
            and_then (with_parameters preference m) (\<lambda>primary.
            and_then (try_map (with_parameters preference) failover) (\<lambda>others.
              Inr (Some (turn_model_candidate_snapshot.extend primary
                (turn_model_snapshot.fields others))))))))"

section \<open>Routing a message\<close>

record session_input =
  si_owner_id :: string
  si_session_id :: string
  si_content :: string
  si_expected_version :: string
  si_actor :: json
  si_goal_mode :: bool
  si_model_preference :: "session_model_preference option option"
  si_attachment_ids :: "string list"
  si_workspace_revision :: string
  si_now :: int

record message_route_result =
  mr_route :: string
  mr_message_id :: string
  mr_turn_id :: string
  mr_session_version :: string

text \<open>The ids and clock readings one accepted message draws.\<close>

record message_gen =
  pg_lock_version :: string
  pg_input :: turn_input_gen
  pg_title_correlation :: string
  pg_title_event :: "string \<times> int"
  pg_correlation :: string
  pg_event :: "nat \<Rightarrow> string \<times> int"
  pg_wake_id :: string
  pg_wake_now :: int
  pg_lookup_now :: int
  pg_record_now :: int

definition session_event :: "event_type \<Rightarrow> json \<Rightarrow> string \<Rightarrow> string \<Rightarrow> json \<Rightarrow> new_event" where
  "session_event ty actor correlation_id session_id payload =
    \<lparr>ne_type = ty, ne_actor = actor, ne_resource = Some (resource_json ''session'' session_id),
     ne_correlation_id = correlation_id, ne_causation_id = None, ne_payload = payload\<rparr>"

definition message_accepted_events ::
  "string \<Rightarrow> string \<Rightarrow> created_turn_input \<Rightarrow> session_command_state \<Rightarrow> message_route \<Rightarrow> string \<Rightarrow> json \<Rightarrow>
    new_event list" where
  "message_accepted_events correlation_id session_id created command route timeline_kind actor =
    (case cr_checkpoint_id created of
       None \<Rightarrow> []
     | Some checkpoint_id \<Rightarrow> [session_event CheckpointCreated actor correlation_id session_id
         (JObj [(''checkpoint_id'', JStr checkpoint_id), (''session_id'', JStr session_id),
                (''kind'', JStr ''pre_turn'')])]) @
    [\<lparr>ne_type = TurnCreated, ne_actor = actor,
      ne_resource = Some (resource_json ''turn'' (cr_turn_id created)),
      ne_correlation_id = correlation_id, ne_causation_id = None,
      ne_payload = JObj [(''turn_id'', JStr (cr_turn_id created)), (''session_id'', JStr session_id),
        (''sequence'', JNum (cr_sequence created)),
        (''status'', JStr (if route = RouteQueued then ''queued'' else ''running'')),
        (''route'', JStr (message_route_as_str route))]\<rparr>,
     session_event TimelineItemCreated actor correlation_id session_id
       (JObj [(''timeline_item_id'', JStr (cr_timeline_item_id created)),
              (''session_id'', JStr session_id), (''kind'', JStr timeline_kind),
              (''display_order'', JNum (cr_display_order created))]),
     session_event SessionChanged actor correlation_id session_id
       (JObj [(''session_id'', JStr session_id),
              (''state'', JStr (if route = RouteQueued then sc_state command else ''active'')),
              (''active_turn_id'', opt_json
                 (if route = RouteQueued then sc_active_turn_id command else Some (cr_turn_id created))),
              (''version'', JStr (sc_session_version command))])]"

primrec append_session_events ::
  "serde \<Rightarrow> (nat \<Rightarrow> string \<times> int) \<Rightarrow> nat \<Rightarrow> new_event list \<Rightarrow> 'x sessions_db_scheme \<Rightarrow>
    sessions_error + 'x sessions_db_scheme" where
  "append_session_events J ids k [] db = Inr db"
| "append_session_events J ids k (ev # evs) db =
    and_then (append_session_event J (fst (ids k)) (snd (ids k)) ev db)
      (append_session_events J ids (Suc k) evs)"

definition maybe_derive_session_title_in_tx ::
  "serde \<Rightarrow> message_gen \<Rightarrow> string \<Rightarrow> string \<Rightarrow> string \<Rightarrow> json \<Rightarrow> int \<Rightarrow> 'x sessions_db_scheme \<Rightarrow>
    sessions_error + 'x sessions_db_scheme" where
  "maybe_derive_session_title_in_tx J g session_id created_turn_id content actor now db =
    (let derived = derive_session_title content MAX_TITLE_CHARS
     in if derived = [] then Inr db
        else let (retitled, db1) = retitle_placeholder_session_in_tx session_id derived PLACEHOLDER
                   created_turn_id now db
             in if \<not> retitled then Inr db1
                else append_session_event J (fst (pg_title_event g)) (snd (pg_title_event g))
                  (session_event SessionChanged actor (pg_title_correlation g) session_id
                    (JObj [(''session_id'', JStr session_id), (''state'', JStr ''titled''),
                           (''detail'', JStr ''first message'')])) db1)"

text \<open>The route: a message starts a turn only in an idle session with an empty queue.\<close>

definition route_of :: "string option \<Rightarrow> bool \<Rightarrow> message_route" where
  "route_of active_turn_id has_queued =
    (case (active_turn_id, has_queued) of
       (Some _, _) \<Rightarrow> RouteQueued | (None, True) \<Rightarrow> RouteQueued | (None, False) \<Rightarrow> RouteStarted)"

definition user_turn_input ::
  "session_input \<Rightarrow> turn_model_snapshot option \<Rightarrow> string option \<Rightarrow> create_turn_input" where
  "user_turn_input i model_snapshot checkpoint_revision =
    \<lparr>ct_session_id = si_session_id i, ct_content = si_content i, ct_actor = si_actor i,
     ct_message_kind = ''user'', ct_timeline_kind = ''user_message'', ct_metadata = None,
     ct_goal_mode = si_goal_mode i, ct_predecessor_turn_id = None,
     ct_attachment_ids = si_attachment_ids i, ct_model_snapshot = model_snapshot,
     ct_checkpoint_revision = checkpoint_revision, ct_now = si_now i\<rparr>"

definition route_session_input_in_tx ::
  "serde \<Rightarrow> (string \<Rightarrow> string option) \<Rightarrow> model_reads \<Rightarrow> message_gen \<Rightarrow> session_input \<Rightarrow>
    'x sessions_db_scheme \<Rightarrow> sessions_error + (message_route_result \<times> 'x sessions_db_scheme)" where
  "route_session_input_in_tx J U M g i db =
    and_then (lock_session_command_in_tx J (pg_lock_version g) (si_session_id i) (si_expected_version i)
        (si_model_preference i) (si_now i) db) (\<lambda>(command, db1).
    and_then (case sc_active_turn_id command of None \<Rightarrow> Inr None
        | Some turn_id \<Rightarrow> turn_status_in_tx turn_id db1) (\<lambda>active_status.
    let route = route_of (sc_active_turn_id command) (has_queued_turn_in_tx (si_session_id i) db1);
        checkpoint_revision = (if route = RouteStarted then Some (si_workspace_revision i) else None)
    in and_then (parse_id U (sc_project_id command)) (\<lambda>project_id.
    and_then (parse_preference J (sc_next_model_ref command)) (\<lambda>preference.
    and_then (case resolve_model_snapshot_in_tx M project_id (Some (si_owner_id i)) preference of
        Inl TeInvalidModelPreference \<Rightarrow> Inl InvalidModelPreference
      | Inl (TeOther e) \<Rightarrow> Inl (SessInternal (''resolve Turn model: '' @ e))
      | Inr m \<Rightarrow> Inr m) (\<lambda>model_snapshot.
    and_then (create_turn_input_in_tx J (pg_input g)
        (user_turn_input i model_snapshot checkpoint_revision) db1) (\<lambda>(created, db2).
    and_then (maybe_derive_session_title_in_tx J g (si_session_id i) (cr_turn_id created)
        (si_content i) (si_actor i) (si_now i) db2) (\<lambda>db3.
    and_then (case route of
        RouteStarted \<Rightarrow> and_then (activate_created_turn_in_tx J (si_session_id i) (cr_turn_id created)
            model_snapshot (si_now i) db3)
          (\<lambda>(activated, db4). if activated then Inr db4 else Inl ActiveTurnExists)
      | RouteQueued \<Rightarrow> Inr db3) (\<lambda>db4.
    and_then (append_session_events J (pg_event g) 0 (message_accepted_events (pg_correlation g)
        (si_session_id i) created command route ''user_message'' (si_actor i)) db4) (\<lambda>db5.
      Inr (\<lparr>mr_route = message_route_as_str route, mr_message_id = cr_message_id created,
            mr_turn_id = cr_turn_id created, mr_session_version = sc_session_version command\<rparr>, db5))))))))))"

section \<open>Posting a message\<close>

definition KIND_TURN_WAKE :: string where "KIND_TURN_WAKE = ''turn.execute''"

definition enqueue_turn_wake_in_tx ::
  "serde \<Rightarrow> string \<Rightarrow> int \<Rightarrow> string \<Rightarrow> 'x sessions_db_scheme \<Rightarrow> sessions_error + 'x sessions_db_scheme" where
  "enqueue_turn_wake_in_tx J work_id now turn_id db =
    (case enqueue_work_in_tx J work_id now KIND_TURN_WAKE (JObj [(''turn_id'', JStr turn_id)]) db of
       Inl _ \<Rightarrow> Inl (SessInternal ''enqueue wake'') | Inr (_, db') \<Rightarrow> Inr db')"

definition route_result_to_value :: "message_route_result \<Rightarrow> json" where
  "route_result_to_value r = JObj
    [(''route'', JStr (mr_route r)), (''message_id'', JStr (mr_message_id r)),
     (''turn_id'', JStr (mr_turn_id r)), (''session_version'', JStr (mr_session_version r))]"

definition route_result_from_value :: "json \<Rightarrow> message_route_result option" where
  "route_result_from_value v =
    (case (field_str ''route'' v, field_str ''message_id'' v, field_str ''turn_id'' v,
           field_str ''session_version'' v) of
       (Some r, Some m, Some t, Some s) \<Rightarrow>
         Some \<lparr>mr_route = r, mr_message_id = m, mr_turn_id = t, mr_session_version = s\<rparr>
     | _ \<Rightarrow> None)"

text \<open>The transaction behind a fresh request: the result and the turn to schedule.\<close>

definition accept_message_tx ::
  "serde \<Rightarrow> (string \<Rightarrow> string option) \<Rightarrow> model_reads \<Rightarrow> message_gen \<Rightarrow> idempotency_request option \<Rightarrow>
    session_input \<Rightarrow> 'x sessions_db_scheme \<Rightarrow>
    sessions_error + ((message_route_result \<times> string option) \<times> 'x sessions_db_scheme)" where
  "accept_message_tx J U M g idempotency i db =
    and_then (route_session_input_in_tx J U M g i db) (\<lambda>(result, db1).
    and_then (if mr_route result = ''started''
        then and_then (parse_id U (mr_turn_id result)) (\<lambda>t. Inr (Some t)) else Inr None) (\<lambda>scheduled_turn.
    and_then (case scheduled_turn of None \<Rightarrow> Inr db1
        | Some turn_id \<Rightarrow> enqueue_turn_wake_in_tx J (pg_wake_id g) (pg_wake_now g) turn_id db1) (\<lambda>db2.
      Inr ((result, scheduled_turn),
        (case idempotency of None \<Rightarrow> db2
         | Some request \<Rightarrow>
             command_record_in_tx J (pg_record_now g) request (route_result_to_value result) db2)))))"

text \<open>
  \<open>post_session_message\<close> from the opened transaction on: a stored response is replayed without
  touching the store; the second component of a result is the turn handed to the coordinator.
\<close>

definition post_session_message ::
  "serde \<Rightarrow> (string \<Rightarrow> string option) \<Rightarrow> model_reads \<Rightarrow> message_gen \<Rightarrow> idempotency_request option \<Rightarrow>
    session_input \<Rightarrow> 'x sessions_db_scheme \<Rightarrow>
    (sessions_error + message_route_result \<times> string option) \<times> 'x sessions_db_scheme" where
  "post_session_message J U M g idempotency i db =
    (let stored = (case idempotency of None \<Rightarrow> Inr None
           | Some request \<Rightarrow> command_lookup_in_tx J (pg_lookup_now g) request db)
     in case stored of
          Inl _ \<Rightarrow> (Inl (SessInternal ''command idempotency''), db)
        | Inr (Some response) \<Rightarrow>
            (case route_result_from_value response of
               None \<Rightarrow> (Inl SessSerde, db) | Some r \<Rightarrow> (Inr (r, None), db))
        | Inr None \<Rightarrow> run_tx (accept_message_tx J U M g idempotency i) db)"

section \<open>Settling a cancel\<close>

definition turn_transition_event :: "string \<Rightarrow> turn_transition \<Rightarrow> json \<Rightarrow> string \<Rightarrow> new_event" where
  "turn_transition_event turn_id transition actor correlation_id =
    \<lparr>ne_type = TurnStatusChanged, ne_actor = actor, ne_resource = Some (resource_json ''turn'' turn_id),
     ne_correlation_id = correlation_id, ne_causation_id = None,
     ne_payload = JObj [(''turn_id'', JStr turn_id),
       (''from'', JStr (turn_status_as_str (tt_from_status transition))),
       (''to'', JStr (turn_status_as_str (tt_to_status transition))),
       (''session_version'', JStr (tt_session_version transition))]\<rparr>"

record settle_gen =
  lg_version :: string
  lg_correlation :: string
  lg_event :: "nat \<Rightarrow> string \<times> int"
  lg_wake_id :: string
  lg_wake_now :: int

text \<open>
  \<open>settle_cancel\<close>: \<open>ledger\<close> stands for the two writes of the execution and model capabilities
  in the same transaction. The result is the turn handed to the coordinator, if any.
\<close>

definition settle_cancel_tx ::
  "serde \<Rightarrow> settle_gen \<Rightarrow> ('x sessions_db_scheme \<Rightarrow> sessions_error + 'x sessions_db_scheme) \<Rightarrow>
    string \<Rightarrow> string \<Rightarrow> bool \<Rightarrow> json \<Rightarrow> int \<Rightarrow> 'x sessions_db_scheme \<Rightarrow>
    sessions_error + (string option \<times> 'x sessions_db_scheme)" where
  "settle_cancel_tx J g ledger session_id turn_id uncertain actor now db =
    and_then (ledger db) (\<lambda>db1.
    and_then (settle_cancel_in_tx J (lg_version g) session_id turn_id uncertain ''user_cancel'' now db1)
      (\<lambda>(transition, db2).
    and_then (case transition of None \<Rightarrow> Inr db2
        | Some t \<Rightarrow> append_session_events J (lg_event g) 0
            [turn_transition_event turn_id t actor (lg_correlation g),
             session_event SessionChanged actor (lg_correlation g) session_id
               (JObj [(''session_id'', JStr session_id), (''state'', JStr ''ready''),
                      (''active_turn_id'', JNull), (''version'', JStr (tt_session_version t))])] db2) (\<lambda>db3.
      if (case transition of None \<Rightarrow> False | Some t \<Rightarrow> tt_to_status t = Canceled)
      then and_then (enqueue_turn_wake_in_tx J (lg_wake_id g) (lg_wake_now g) turn_id db3)
             (\<lambda>db4. Inr (Some turn_id, db4))
      else Inr (None, db3))))"

section \<open>Cancelling a turn\<close>

datatype async_task_status = TaskQueued | TaskRunning | TaskSucceeded | TaskFailed | TaskCanceled | TaskLost

text \<open>What the runtime capability answers while a turn is cancelled.\<close>

record cancel_runtime =
  unfinished_async_tasks :: "sessions_error + string list"
  cancel_async_task :: "string \<Rightarrow> sessions_error + async_task_status"
  unfinished_async_task_count :: "sessions_error + nat"

definition cancel_uncertain :: "cancel_runtime \<Rightarrow> string list \<Rightarrow> sessions_error + bool" where
  "cancel_uncertain R unfinished =
    (let uncertain = list_ex (\<lambda>t. case cancel_async_task R t of
           Inr status \<Rightarrow> status = TaskLost | Inl _ \<Rightarrow> True) unfinished
     in if uncertain then Inr True
        else and_then (unfinished_async_task_count R) (\<lambda>remaining. Inr (0 < remaining)))"

definition cancel_over :: "turn_status \<Rightarrow> bool" where
  "cancel_over status \<longleftrightarrow> status = Canceled \<or> status = Interrupted"

definition cancel_view ::
  "serde \<Rightarrow> string \<Rightarrow> string \<Rightarrow> string \<Rightarrow> string \<Rightarrow> 'x sessions_db_scheme \<Rightarrow> sessions_error + cancel_result" where
  "cancel_view J session_id turn_id from_status to_status db =
    and_then (get_session J session_id db) (\<lambda>session.
      Inr \<lparr>cx_turn_id = turn_id, cx_from_status = from_status, cx_to_status = to_status,
           cx_session_version = ss_version session\<rparr>)"

record cancel_gen =
  xg_now :: int
  xg_version :: string
  xg_correlation :: string
  xg_event :: "string \<times> int"
  xg_settle :: settle_gen
  xg_settle_now :: int

text \<open>The first phase: the cancel is accepted, or the turn is on its way out already.\<close>

definition accept_phase ::
  "serde \<Rightarrow> (string \<Rightarrow> string option) \<Rightarrow> cancel_gen \<Rightarrow> string \<Rightarrow> string \<Rightarrow> string \<Rightarrow> string \<Rightarrow> json \<Rightarrow>
    execution_turn_view \<Rightarrow> 'x sessions_db_scheme \<Rightarrow> (sessions_error + string) \<times> 'x sessions_db_scheme" where
  "accept_phase J U g session_id turn_id reason expected_version actor initial db =
    (if et_status initial \<noteq> Canceling then
       (case cancel_turn J (xg_now g) (xg_version g) (xg_correlation g) (fst (xg_event g)) (snd (xg_event g))
               session_id turn_id reason expected_version actor db of
          (Inr accepted, db1) \<Rightarrow> (Inr (cx_from_status accepted), db1)
        | (Inl e, db1) \<Rightarrow>
            (case execution_turn J U turn_id db1 of
               Inl e' \<Rightarrow> (Inl e', db1)
             | Inr current \<Rightarrow>
                 if et_session_id current \<noteq> session_id \<or>
                    \<not> (et_status current = Canceling \<or> cancel_over (et_status current))
                 then (Inl e, db1)
                 else (Inr (turn_status_as_str (et_status initial)), db1)))
     else if \<not> et_active initial
     then (Inl (SessInternal ''canceling Turn no longer owns its Session''), db)
     else (Inr (turn_status_as_str (et_status initial)), db))"

text \<open>The second phase: the runtime's tasks are cancelled and the turn is settled.\<close>

definition settle_phase ::
  "serde \<Rightarrow> cancel_runtime \<Rightarrow> ('x sessions_db_scheme \<Rightarrow> sessions_error + 'x sessions_db_scheme) \<Rightarrow>
    cancel_gen \<Rightarrow> string \<Rightarrow> string \<Rightarrow> json \<Rightarrow> string \<Rightarrow> 'x sessions_db_scheme \<Rightarrow>
    (sessions_error + cancel_result) \<times> 'x sessions_db_scheme" where
  "settle_phase J R ledger g session_id turn_id actor from_status db =
    (case and_then (unfinished_async_tasks R) (cancel_uncertain R) of
       Inl e \<Rightarrow> (Inl e, db)
     | Inr uncertain \<Rightarrow>
        (case run_tx (settle_cancel_tx J (xg_settle g) ledger session_id turn_id uncertain actor
                 (xg_settle_now g)) db of
           (Inl e, db1) \<Rightarrow> (Inl e, db1)
         | (Inr _, db1) \<Rightarrow>
            (and_then (get_turn J session_id turn_id db1) (\<lambda>turn.
               cancel_view J session_id turn_id from_status (tu_status turn) db1), db1)))"

text \<open>The whole command, with no other transaction committing between its own.\<close>

definition cancel_active_turn ::
  "serde \<Rightarrow> (string \<Rightarrow> string option) \<Rightarrow> cancel_runtime \<Rightarrow>
    ('x sessions_db_scheme \<Rightarrow> sessions_error + 'x sessions_db_scheme) \<Rightarrow> cancel_gen \<Rightarrow> string \<Rightarrow> string \<Rightarrow>
    string \<Rightarrow> string \<Rightarrow> json \<Rightarrow> 'x sessions_db_scheme \<Rightarrow> (sessions_error + cancel_result) \<times> 'x sessions_db_scheme" where
  "cancel_active_turn J U R ledger g session_id turn_id reason expected_version actor db =
    (case execution_turn J U turn_id db of
       Inl e \<Rightarrow> (Inl e, db)
     | Inr initial \<Rightarrow>
        if et_session_id initial \<noteq> session_id then (Inl NotFound, db)
        else if cancel_over (et_status initial) then
          (let s = turn_status_as_str (et_status initial) in (cancel_view J session_id turn_id s s db, db))
        else case accept_phase J U g session_id turn_id reason expected_version actor initial db of
          (Inl e, db1) \<Rightarrow> (Inl e, db1)
        | (Inr from_status, db1) \<Rightarrow>
           (case execution_turn J U turn_id db1 of
              Inl e \<Rightarrow> (Inl e, db1)
            | Inr current \<Rightarrow>
                if cancel_over (et_status current) then
                  (cancel_view J session_id turn_id from_status (turn_status_as_str (et_status current)) db1, db1)
                else settle_phase J R ledger g session_id turn_id actor from_status db1))"

section \<open>Advancing the queue\<close>

record advance_gen =
  vg_version :: string
  vg_checkpoint_id :: string
  vg_correlation :: string
  vg_event :: "string \<times> int"
  vg_wake_id :: string
  vg_wake_now :: int

definition queued_start_event ::
  "string \<Rightarrow> queued_turn_candidate \<Rightarrow> string \<Rightarrow> new_event" where
  "queued_start_event correlation_id candidate session_version =
    \<lparr>ne_type = TurnStatusChanged, ne_actor = JObj [(''kind'', JStr ''execution'')],
     ne_resource = Some (resource_json ''turn'' (qc_turn_id candidate)),
     ne_correlation_id = correlation_id, ne_causation_id = None,
     ne_payload = JObj [(''turn_id'', JStr (qc_turn_id candidate)),
       (''from'', JStr (turn_status_as_str Queued)), (''to'', JStr (turn_status_as_str Running)),
       (''route'', JStr ''queued_start''),
       (''model_id'', opt_json (map_option mc_model_id (qc_model_snapshot candidate))),
       (''session_version'', JStr session_version)]\<rparr>"

text \<open>
  The promotion of the next queued turn; a roll-back or an error leaves the store. \<open>W\<close> reads
  the current revision of a project's main workspace.
\<close>

definition activate_next_queued_after ::
  "serde \<Rightarrow> (string \<Rightarrow> string option) \<Rightarrow> (string \<Rightarrow> sessions_error + string) \<Rightarrow> advance_gen \<Rightarrow> int \<Rightarrow>
    string \<Rightarrow> string \<Rightarrow> 'x sessions_db_scheme \<Rightarrow> (sessions_error + string option) \<times> 'x sessions_db_scheme" where
  "activate_next_queued_after J U W g now terminal_turn_id session_id db =
    (case and_then (get_session J session_id db) (\<lambda>session. W (ss_project_id session)) of
       Inl e \<Rightarrow> (Inl e, db)
     | Inr workspace_revision \<Rightarrow>
    (case queued_turn_candidate_in_tx J U terminal_turn_id session_id db of
       Inl e \<Rightarrow> (Inl e, db)
     | Inr None \<Rightarrow> (Inr None, db)
     | Inr (Some candidate) \<Rightarrow>
        (case activate_queued_turn_in_tx J (vg_version g) (vg_checkpoint_id g) candidate
                (qc_model_snapshot candidate) workspace_revision now db of
           Inl e \<Rightarrow> (Inl e, db)
         | Inr (None, _) \<Rightarrow> (Inr None, db)
         | Inr (Some session_version, db1) \<Rightarrow>
            (case and_then (append_session_event J (fst (vg_event g)) (snd (vg_event g))
                      (queued_start_event (vg_correlation g) candidate session_version) db1)
                    (enqueue_turn_wake_in_tx J (vg_wake_id g) (vg_wake_now g) (qc_turn_id candidate)) of
               Inl e \<Rightarrow> (Inl e, db)
             | Inr db2 \<Rightarrow> (Inr (Some (qc_turn_id candidate)), db2)))))"

datatype pass_error = PassSessions sessions_error | PassExecution string

text \<open>
  One pass of a runner over its turn. \<open>execute\<close> is the execution engine with the store it leaves,
  \<open>settle_failure\<close> its settlement of an unexpected failure.
\<close>

definition run_claimed_pass ::
  "serde \<Rightarrow> (string \<Rightarrow> string option) \<Rightarrow> (string \<Rightarrow> sessions_error + string) \<Rightarrow> advance_gen \<Rightarrow> int \<Rightarrow>
    (string \<Rightarrow> 'x sessions_db_scheme \<Rightarrow> (string + unit) \<times> 'x sessions_db_scheme) \<Rightarrow>
    (string \<Rightarrow> string \<Rightarrow> 'x sessions_db_scheme \<Rightarrow> (sessions_error + unit) \<times> 'x sessions_db_scheme) \<Rightarrow>
    string \<Rightarrow> 'x sessions_db_scheme \<Rightarrow> (pass_error + string option) \<times> 'x sessions_db_scheme" where
  "run_claimed_pass J U W g now execute settle_failure turn_id db =
    (let finish = (\<lambda>db1. case execution_turn J U turn_id db1 of
           Inl NotFound \<Rightarrow> (Inr None, db1)
         | Inl e \<Rightarrow> (Inl (PassSessions e), db1)
         | Inr after \<Rightarrow>
             if \<not> advances_queue (et_status after) then (Inr None, db1)
             else case activate_next_queued_after J U W g now turn_id (et_session_id after) db1 of
               (Inl e, db2) \<Rightarrow> (Inl (PassSessions e), db2)
             | (Inr next_turn, db2) \<Rightarrow> (Inr next_turn, db2))
     in case execution_turn J U turn_id db of
          Inl NotFound \<Rightarrow> (Inr None, db)
        | Inl e \<Rightarrow> (Inl (PassSessions e), db)
        | Inr before \<Rightarrow>
            if \<not> is_active (et_status before) then finish db
            else if \<not> et_active before then (Inr None, db)
            else case execute turn_id db of
              (Inr _, db1) \<Rightarrow> finish db1
            | (Inl reason, db1) \<Rightarrow>
                (case settle_failure turn_id reason db1 of
                   (Inl e, db2) \<Rightarrow> (Inl (PassSessions e), db2)
                 | (Inr _, db2) \<Rightarrow> (Inl (PassExecution reason), db2)))"

end
