(* ===== verification/Flow_Properties.thy ===== *)
theory Flow_Properties
  imports Session_Flow Session_Recovery
begin

text \<open>
  Message acceptance, cancellation and queue promotion as whole transactions: replays of an
  accepted command, the turn and the durable wake an accepted message leaves, and the effect of a
  promotion.
\<close>

section \<open>Frames of the work queue\<close>

lemma append_event_work:
  "append_session_event J e t ev db = Inr db' \<Longrightarrow> work_items db' = work_items db \<and>
    sessions db' = sessions db \<and> turns db' = turns db"
  by (auto simp: append_session_event_def append_in_tx_def Let_def
      split: sum.splits if_splits option.splits)

lemma append_events_frame:
  "append_session_events J ids k evs db = Inr db' \<Longrightarrow> work_items db' = work_items db \<and>
    sessions db' = sessions db \<and> turns db' = turns db"
  by (induction evs arbitrary: k db) (auto simp: and_then_eq_Inr dest!: append_event_work)

lemma lock_work:
  "lock_session_command_in_tx J v sid ev mp now db = Inr (r, db') \<Longrightarrow> work_items db' = work_items db"
  by (auto simp: lock_session_command_in_tx_def Let_def update_session_eq split: if_splits)

lemma link_attachments_work:
  "link_attachments g n as db = Inr db' \<Longrightarrow> work_items db' = work_items db"
  by (induction as arbitrary: n db) (auto simp: and_then_eq_Inr)

lemma create_turn_input_work:
  "create_turn_input_in_tx J g i db = Inr (r, db') \<Longrightarrow> work_items db' = work_items db"
  by (auto simp: create_turn_input_in_tx_def Let_def insert_turn_def insert_message_def
      insert_timeline_def insert_checkpoint_in_tx_def split: option.splits if_splits
      dest!: link_attachments_work)

lemma retitle_work:
  "retitle_placeholder_session_in_tx sid t p tid now db = (b, db') \<Longrightarrow> work_items db' = work_items db"
  by (auto simp: retitle_placeholder_session_in_tx_def update_session_eq Let_def split: if_splits)

lemma title_frame:
  assumes "maybe_derive_session_title_in_tx J g sid tid content actor now db = Inr db'"
  shows "work_items db' = work_items db \<and> turns db' = turns db \<and> (sessions_ok db \<longrightarrow> sessions_ok db')"
proof -
  obtain b db1 where r: "retitle_placeholder_session_in_tx sid
      (derive_session_title content MAX_TITLE_CHARS) PLACEHOLDER tid now db = (b, db1)" by force
  have "db' = db \<or> db' = db1 \<or> (work_items db' = work_items db1 \<and> sessions db' = sessions db1 \<and> turns db' = turns db1)"
    using assms by (auto simp: maybe_derive_session_title_in_tx_def Let_def r split: if_splits dest: append_event_work)
  then show ?thesis
    using retitle_work [OF r] retitle_ok [OF r] sessions_ok_cong [of db' db1] by auto
qed

lemma undo_promotion_work: "undo_promotion tid now db = Inr db' \<Longrightarrow> work_items db' = work_items db"
  by (auto simp: undo_promotion_def update_turn_eq_Inr)

lemma activate_created_work:
  "activate_created_turn_in_tx J sid tid m now db = Inr (b, db') \<Longrightarrow> work_items db' = work_items db"
  by (auto simp: activate_created_turn_in_tx_def Let_def update_turn_eq_Inr update_session_eq
      split: if_splits dest!: undo_promotion_work)

section \<open>Accepting a message\<close>

lemma resolve_case_Inr:
  "(case x of Inl TeInvalidModelPreference \<Rightarrow> Inl InvalidModelPreference
     | Inl (TeOther e) \<Rightarrow> Inl (SessInternal (f e)) | Inr m \<Rightarrow> Inr m) = Inr y \<longleftrightarrow> x = Inr y"
  by (auto split: sum.splits turn_execution_error.splits)

lemma route_InrE:
  assumes "route_session_input_in_tx J U M g i db = Inr (r, db')"
  obtains command db1 m created db2 db3 db4 rt where
    "lock_session_command_in_tx J (pg_lock_version g) (si_session_id i) (si_expected_version i)
       (si_model_preference i) (si_now i) db = Inr (command, db1)"
    "rt = route_of (sc_active_turn_id command) (has_queued_turn_in_tx (si_session_id i) db1)"
    "create_turn_input_in_tx J (pg_input g) (user_turn_input i m
       (if rt = RouteStarted then Some (si_workspace_revision i) else None)) db1 = Inr (created, db2)"
    "maybe_derive_session_title_in_tx J g (si_session_id i) (cr_turn_id created) (si_content i)
       (si_actor i) (si_now i) db2 = Inr db3"
    "rt = RouteStarted \<Longrightarrow> activate_created_turn_in_tx J (si_session_id i) (cr_turn_id created) m (si_now i) db3
       = Inr (True, db4)"
    "rt = RouteQueued \<Longrightarrow> db4 = db3"
    "append_session_events J (pg_event g) 0 (message_accepted_events (pg_correlation g)
       (si_session_id i) created command rt ''user_message'' (si_actor i)) db4 = Inr db'"
    "mr_route r = message_route_as_str rt" "mr_turn_id r = cr_turn_id created"
  using assms
  apply (auto simp: route_session_input_in_tx_def Let_def resolve_case_Inr
      split: message_route.splits if_splits)
  subgoal by (rule that [where rt = RouteStarted], assumption, simp, simp, assumption, simp, simp, assumption) simp_all
  subgoal by (rule that [where rt = RouteQueued], assumption, simp, simp, assumption, simp, simp, assumption) simp_all
  done

lemma route_of_started: "route_of a q = RouteStarted \<longleftrightarrow> a = None \<and> \<not> q"
  by (simp add: route_of_def split: option.splits bool.splits)

lemma lock_active:
  assumes "lock_session_command_in_tx J v sid ev mp now db = Inr (c, db')" and "distinct (map s_id (sessions db))"
  shows "sc_active_turn_id c = None \<longleftrightarrow> find_one (idle_session sid) (sessions db) \<noteq> None"
proof -
  obtain row where row: "find_one (\<lambda>s. s_id s = sid) (sessions db) = Some row" "sc_active_turn_id c = s_active_turn_id row"
    using assms(1) by (auto simp: lock_session_command_in_tx_def Let_def update_session_eq split: if_splits)
  then have "row \<in> set (sessions db)" "s_id row = sid" by (auto dest: find_one_SomeD)
  have only: "s = row" if "s \<in> set (sessions db)" "s_id s = sid" for s
    by (rule inj_onD [of s_id "set (sessions db)"])
      (use that assms(2) \<open>row \<in> set (sessions db)\<close> \<open>s_id row = sid\<close> in \<open>simp_all add: distinct_map\<close>)
  have "find_one (idle_session sid) (sessions db) = None \<longleftrightarrow> \<not> idle_session sid row"
    unfolding find_one_None_iff using only \<open>row \<in> set (sessions db)\<close> by (metis idle_session_def)
  then show ?thesis using \<open>s_id row = sid\<close> by (simp add: row(2) idle_session_def)
qed

text \<open>Activating the turn just appended changes that turn only.\<close>

lemma activate_last:
  assumes "activate_created_turn_in_tx J sid (tn_id t) m now db = Inr (True, db')"
    and "turns db = ts @ [t]" and "distinct (map tn_id (turns db))"
  shows "\<exists>t'. turns db' = ts @ [t'] \<and> tn_id t' = tn_id t \<and> tn_session_id t' = tn_session_id t \<and>
    tn_sequence t' = tn_sequence t \<and> tn_status t' = ''running''"
proof -
  let ?f = "\<lambda>t. t\<lparr>tn_status := ''running'',
    tn_model_snapshot_json := json_to_string J (opt_snapshot_to_value m), tn_updated_at := now\<rparr>"
  let ?P = "queued_turn sid (tn_id t)"
  have hit: "snd (update_one ?P ?f (turns db)) = 1" and eq: "turns db' = fst (update_one ?P ?f (turns db))"
    using assms(1) by (auto simp: activate_created_turn_in_tx_def update_session_eq Let_def
        update_turn_eq_Inr split: if_splits)
  have none: "\<not> ?P x" if "x \<in> set ts" for x
  proof
    assume "?P x"
    then have "tn_id t \<in> tn_id ` set ts" using that by (metis image_eqI queued_turn_def)
    then show False using assms(2,3) by simp
  qed
  then have "fst (update_one ?P ?f (ts @ [t])) = ts @ fst (update_one ?P ?f [t])"
    by (induction ts) auto
  moreover have "?P t" using hit none assms(2) by (auto simp: update_one_count split: if_splits)
  ultimately show ?thesis using eq assms(2) by simp
qed

definition starts_turn :: "string \<Rightarrow> 'x sessions_db_scheme \<Rightarrow> bool" where
  "starts_turn sid db \<longleftrightarrow>
    find_one (idle_session sid) (sessions db) \<noteq> None \<and> \<not> has_queued_turn_in_tx sid db"

lemma created_turn_id: "create_turn_input_in_tx J g i db = Inr (c, db') \<Longrightarrow> cr_turn_id c = tg_turn_id g"
  by (auto simp: create_turn_input_in_tx_def Let_def)

lemma route_effect:
  assumes "route_session_input_in_tx J U M g i db = Inr (r, db')" and ok: "sessions_ok db"
  shows "mr_route r = (if starts_turn (si_session_id i) db then ''started'' else ''queued'') \<and>
    (\<exists>t. turns db' = turns db @ [t] \<and> tn_id t = mr_turn_id r \<and> tn_session_id t = si_session_id i \<and>
      tn_status t = (if starts_turn (si_session_id i) db then ''running'' else ''queued'')) \<and>
    work_items db' = work_items db \<and> sessions_ok db'"
  using assms(1)
proof (cases rule: route_InrE)
  case (1 command db1 m created db2 db3 db4 rt)
  let ?i = "user_turn_input i m (if rt = RouteStarted then Some (si_workspace_revision i) else None)"
  define t where "t = new_turn_row J (pg_input g) ?i (next_sequence (ct_session_id ?i) db1)"
  have turns1: "turns db1 = turns db" and ok1: "sessions_ok db1" using lock_shape [OF 1(1)] ok by auto
  have started: "rt = RouteStarted \<longleftrightarrow> starts_turn (si_session_id i) db"
    using lock_active [OF 1(1)] ok turns1
    by (auto simp: 1(2) route_of_started starts_turn_def has_queued_turn_in_tx_def sessions_ok_def turns_ok_def)
  note c = create_turn_input_frame [OF 1(3), folded t_def]
  note title = title_frame [OF 1(4)]
  have ok3: "sessions_ok db3" using title create_turn_input_ok [OF 1(3) ok1] by simp
  have t: "tn_id t = cr_turn_id created" "tn_session_id t = si_session_id i" "tn_status t = ''queued''"
    using created_turn_id [OF 1(3)] by (simp_all add: t_def new_turn_row_def user_turn_input_def)
  have turns3: "turns db3 = turns db @ [t]" using title c(2) turns1 by simp
  have work3: "work_items db3 = work_items db"
    using title create_turn_input_work [OF 1(3)] lock_work [OF 1(1)] by simp
  note fin = append_events_frame [OF 1(7)]
  show ?thesis
  proof (cases rt)
    case RouteStarted
    note act = 1(5) [OF RouteStarted]
    have "distinct (map tn_id (turns db3))" using ok3 by (auto simp: sessions_ok_def turns_ok_def turns_indexed_def)
    then obtain t' where "turns db4 = turns db @ [t']" "tn_id t' = tn_id t" "tn_session_id t' = tn_session_id t"
      "tn_status t' = ''running''"
      using activate_last [of J "si_session_id i" t m "si_now i" db3 db4 "turns db"] act turns3 t by auto
    moreover have "sessions_ok db4" using activate_created_ok [OF act ok3] .
    ultimately show ?thesis
      using fin activate_created_work [OF act] work3 RouteStarted started t 1(8,9) sessions_ok_cong [of db' db4] by auto
  next
    case RouteQueued
    then show ?thesis
      using fin 1(6) [OF RouteQueued] work3 started t turns3 ok3 1(8,9) sessions_ok_cong [of db' db4] by auto
  qed
qed

section \<open>Posted messages\<close>

text \<open>A request no response is stored for.\<close>

definition fresh_request :: "serde \<Rightarrow> message_gen \<Rightarrow> idempotency_request option \<Rightarrow> 'x sessions_db_scheme \<Rightarrow> bool" where
  "fresh_request J g idem db \<longleftrightarrow>
    (case idem of None \<Rightarrow> True | Some q \<Rightarrow> command_lookup_in_tx J (pg_lookup_now g) q db = Inr None)"

lemma post_fresh:
  "fresh_request J g idem db \<Longrightarrow>
    post_session_message J U M g idem i db = run_tx (accept_message_tx J U M g idem i) db"
  by (simp add: fresh_request_def post_session_message_def split: option.splits)

lemma accept_InrE:
  assumes "accept_message_tx J U M g idem i db = Inr ((r, sched), db')"
  obtains db1 db2 where "route_session_input_in_tx J U M g i db = Inr (r, db1)"
    "mr_route r = ''started'' \<Longrightarrow> sched = U (mr_turn_id r) \<and> sched \<noteq> None \<and>
       enqueue_turn_wake_in_tx J (pg_wake_id g) (pg_wake_now g) (the sched) db1 = Inr db2"
    "mr_route r \<noteq> ''started'' \<Longrightarrow> sched = None \<and> db2 = db1"
    "db' = (case idem of None \<Rightarrow> db2
       | Some q \<Rightarrow> command_record_in_tx J (pg_record_now g) q (route_result_to_value r) db2)"
  using assms
  by (auto simp: accept_message_tx_def parse_id_def split: if_splits intro: that)

lemma wake_effect:
  "enqueue_turn_wake_in_tx J w now t db = Inr db' \<Longrightarrow>
    work_items db' = work_items db @
      [new_work_row w KIND_TURN_WAKE (json_to_string J (JObj [(''turn_id'', JStr t)])) now] \<and>
    sessions db' = sessions db \<and> turns db' = turns db"
  by (auto simp: enqueue_turn_wake_in_tx_def enqueue_work_in_tx_def split: option.splits sum.splits
      dest!: insert_one_SomeD)

lemma record_frame:
  "work_items (command_record_in_tx J now q v db) = work_items db"
  "sessions (command_record_in_tx J now q v db) = sessions db"
  "turns (command_record_in_tx J now q v db) = turns db"
  by (simp_all add: command_record_in_tx_def)

lemma recorded_response:
  assumes "now \<le> ir_expires_at q" and "json_from_str J (json_to_string J v) = Some v"
  shows "command_lookup_in_tx J now q (command_record_in_tx J t q v db) = Inr (Some v)"
proof -
  let ?row = "\<lparr>ci_key = ir_key q, ci_owner_id = ir_owner_id q, ci_method = ir_method q,
    ci_normalized_route = ir_normalized_route q, ci_request_digest = ir_digest q,
    ci_response_json = json_to_string J v, ci_expires_at = ir_expires_at q, ci_created_at = t\<rparr>"
  have "find_one (\<lambda>r. ci_key r = ir_key q \<and> now \<le> ci_expires_at r)
      (replace_one ci_key ?row (command_idempotency_records db)) = Some ?row"
    using replace_one_find [of "\<lambda>r. now \<le> ci_expires_at r" ?row ci_key] assms(1) by simp
  then show ?thesis using assms(2) by (simp add: command_lookup_in_tx_def command_record_in_tx_def)
qed

section \<open>Appends that succeed\<close>

lemma append_succeeds:
  assumes "log_dense db" and "int (length (public_events db)) < I64_MAX"
    and "e \<notin> ev_event_id ` set (public_events db)"
  shows "\<exists>db'. append_session_event J e t ev db = Inr db' \<and> log_dense db' \<and>
    length (public_events db') = Suc (length (public_events db)) \<and>
    ev_event_id ` set (public_events db') = insert e (ev_event_id ` set (public_events db))"
  using append_accepted [OF assms(1), of e J t ev] assms(2,3)
  by (auto simp: append_session_event_def log_accepts_def event_row_of_def)

lemma append_events_succeed:
  assumes "log_dense db" and "inj (\<lambda>k. fst (ids k))"
    and "int (length (public_events db) + length evs) \<le> I64_MAX"
    and "\<And>j. k \<le> j \<Longrightarrow> fst (ids j) \<notin> ev_event_id ` set (public_events db)"
  shows "\<exists>db'. append_session_events J ids k evs db = Inr db'"
  using assms
proof (induction evs arbitrary: k db)
  case (Cons ev evs)
  obtain db1 where db1: "append_session_event J (fst (ids k)) (snd (ids k)) ev db = Inr db1" "log_dense db1"
    "length (public_events db1) = Suc (length (public_events db))"
    "ev_event_id ` set (public_events db1) = insert (fst (ids k)) (ev_event_id ` set (public_events db))"
    using append_succeeds [OF Cons.prems(1), of "fst (ids k)" J "snd (ids k)" ev] Cons.prems(3) Cons.prems(4) [of k] by auto
  have "fst (ids j) \<notin> ev_event_id ` set (public_events db1)" if "Suc k \<le> j" for j
    using that Cons.prems(4) [of j] injD [OF Cons.prems(2), of j k] by (auto simp: db1(4))
  then show ?case using Cons.IH [OF db1(2) Cons.prems(2)] Cons.prems(3) db1 by simp
qed simp

lemma inj_string_of_nat: "inj string_of_nat"
  by (rule injI) (metis option.inject parse_digits_string_of_nat)

section \<open>A sample exchange\<close>

definition idle_store :: sessions_db where
  "idle_store = empty_sessions
    \<lparr>sessions := [sample_session\<lparr>s_title := Some ''Plan'', s_state := ''ready'', s_active_turn_id := None\<rparr>]\<rparr>"

definition sample_reads :: model_reads where
  "sample_reads =
    \<lparr>model_preference_read = (\<lambda>_. Inr \<lparr>pp_owner_id = ''o'', pp_default_model_id = None\<rparr>),
     resolve_for_turn = (\<lambda>_ _ _ _. Inr None), failover_candidates = (\<lambda>_ _. Inr [])\<rparr>"

definition sample_message_gen :: message_gen where
  "sample_message_gen =
    \<lparr>pg_lock_version = ''1'', pg_input = sample_gen, pg_title_correlation = ''x'',
     pg_title_event = (''e'', 5), pg_correlation = ''y'', pg_event = (\<lambda>k. (string_of_nat k, 5)),
     pg_wake_id = ''w'', pg_wake_now = 5, pg_lookup_now = 5, pg_record_now = 5\<rparr>"

definition sample_message :: session_input where
  "sample_message =
    \<lparr>si_owner_id = ''o'', si_session_id = ''s1'', si_content = ''hi'', si_expected_version = ''v_0'',
     si_actor = JNull, si_goal_mode = False, si_model_preference = None, si_attachment_ids = [],
     si_workspace_revision = ''rev1'', si_now = 5\<rparr>"

definition sample_command :: idempotency_request where
  "sample_command = \<lparr>ir_key = ''k'', ir_owner_id = ''o'', ir_method = ''POST'',
     ir_normalized_route = ''/p'', ir_digest = ''d'', ir_expires_at = 100\<rparr>"

lemma idle_store_ok: "sessions_ok idle_store"
  by (simp add: sessions_ok_def turns_ok_def turns_indexed_def idle_store_def empty_sessions_def
      sample_session_def session_mark_def)

lemma collapse_blanks_end [simp]: "collapse_blanks [] n p = n"
  by (simp add: collapse_blanks.simps)

lemma collapse_blanks_plain:
  "ws_len (c # s) = 0 \<Longrightarrow> (of_char c :: nat) < 128 \<Longrightarrow>
    collapse_blanks (c # s) n p = collapse_blanks s (n @ (if p then '' '' else []) @ [c]) False"
  by (subst collapse_blanks.simps) (simp add: utf8_unit_def byte_at_def Let_def)

lemma sample_title: "derive_session_title ''hi'' MAX_TITLE_CHARS = ''hi''"
  by (simp add: derive_session_title_def first_line_def trim_matches_def collapse_blanks_plain
      ws_len_def ws_at_def Let_def MAX_TITLE_CHARS_def char_count_def)

lemma sample_lock:
  "lock_session_command_in_tx wire_serde ''1'' ''s1'' ''v_0'' None 5 idle_store =
    Inr (\<lparr>sc_project_id = ''p1'', sc_state = ''ready'', sc_next_model_ref = None,
          sc_active_turn_id = None, sc_session_version = ''v_1''\<rparr>,
      idle_store\<lparr>sessions := [sample_session\<lparr>s_title := Some ''Plan'', s_state := ''ready'', s_active_turn_id := None,
        s_version := ''v_1'', s_updated_at := 5, s_last_activity_at := 5\<rparr>]\<rparr>)"
  by (simp add: lock_session_command_in_tx_def idle_store_def empty_sessions_def sample_session_def
      chosen_model_ref_def update_session_def version_tag_def Let_def)

lemma sample_created:
  assumes "db = idle_store\<lparr>sessions := ss\<rparr>"
  shows "\<exists>c db2. create_turn_input_in_tx wire_serde sample_gen sample_input db = Inr (c, db2) \<and>
    cr_turn_id c = ''t1'' \<and> sessions db2 = ss \<and> turns db2 = [new_turn_row wire_serde sample_gen sample_input 1] \<and>
    public_events db2 = [] \<and> event_seq db2 = Some 0 \<and> work_items db2 = []"
  by (simp add: assms idle_store_def sample_run_defs i64_succ_def Let_def)

lemma idle_store_turns: "turns idle_store = []"
  by (simp add: idle_store_def empty_sessions_def)

lemma sample_ids:
  "pg_lock_version sample_message_gen = ''1''" "pg_input sample_message_gen = sample_gen"
  "pg_correlation sample_message_gen = ''y''" "pg_event sample_message_gen = (\<lambda>k. (string_of_nat k, 5))"
  "pg_lookup_now sample_message_gen = 5" "si_session_id sample_message = ''s1''" "si_content sample_message = ''hi''"
  "si_owner_id sample_message = ''o''" "si_expected_version sample_message = ''v_0''" "si_actor sample_message = JNull"
  "si_model_preference sample_message = None" "si_now sample_message = 5"
  "si_workspace_revision sample_message = ''rev1''"
  by (simp_all add: sample_message_gen_def sample_message_def)

lemma sample_route:
  "\<exists>r db'. route_session_input_in_tx wire_serde Some sample_reads sample_message_gen sample_message idle_store =
     Inr (r, db') \<and> mr_route r = ''started'' \<and> mr_turn_id r = ''t1'' \<and> work_items db' = []"
proof -
  define ss where "ss = [sample_session\<lparr>s_title := Some ''Plan'', s_state := ''ready'', s_active_turn_id := None,
        s_version := ''v_1'', s_updated_at := 5, s_last_activity_at := 5\<rparr>]"
  have i: "user_turn_input sample_message None (Some ''rev1'') = sample_input"
    by (simp add: user_turn_input_def sample_message_def sample_input_def)
  obtain c db2 where c: "create_turn_input_in_tx wire_serde sample_gen sample_input (idle_store\<lparr>sessions := ss\<rparr>) = Inr (c, db2)"
    and c2: "cr_turn_id c = ''t1''" "sessions db2 = ss" "turns db2 = [new_turn_row wire_serde sample_gen sample_input 1]"
    "public_events db2 = []" "event_seq db2 = Some 0" "work_items db2 = []"
    using sample_created [OF refl] by blast
  have "db2\<lparr>sessions := ss\<rparr> = db2" using c2(2) by simp
  then have t: "maybe_derive_session_title_in_tx wire_serde sample_message_gen ''s1'' ''t1'' ''hi'' JNull 5 db2 = Inr db2"
    using c2 by (simp add: maybe_derive_session_title_in_tx_def sample_title retitle_placeholder_session_in_tx_def
      PLACEHOLDER_def ss_def sample_session_def update_session_def Let_def new_turn_row_def sample_gen_def sample_input_def)
  obtain db4 where a: "activate_created_turn_in_tx wire_serde ''s1'' ''t1'' None 5 db2 = Inr (True, db4)"
    and a4: "public_events db4 = []" "event_seq db4 = Some 0" "work_items db4 = []"
    using c2 by (simp add: activate_created_turn_in_tx_def update_turn_def update_session_def queued_turn_def
      idle_session_def turns_indexed_def active_row_def new_turn_row_def sample_gen_def sample_input_def ss_def
      sample_session_def)
  have "log_dense db4" using a4 by (simp add: log_dense_def)
  obtain db5 where e: "append_session_events wire_serde (\<lambda>k. (string_of_nat k, 5)) 0
      (message_accepted_events ''y'' ''s1'' c \<lparr>sc_project_id = ''p1'', sc_state = ''ready'', sc_next_model_ref = None,
          sc_active_turn_id = None, sc_session_version = ''v_1''\<rparr> RouteStarted ''user_message'' JNull) db4 = Inr db5"
    using append_events_succeed [OF \<open>log_dense db4\<close>, of "\<lambda>k. (string_of_nat k, 5)"] a4(1)
    by (fastforce simp: inj_string_of_nat message_accepted_events_def split: option.splits)
  have "work_items db5 = []" using append_events_frame [OF e] a4 by simp
  then show ?thesis
    using c t a e c2 i idle_store_turns
    by (simp add: route_session_input_in_tx_def sample_lock [folded ss_def] route_of_def has_queued_turn_in_tx_def
      parse_id_def parse_preference_def resolve_model_snapshot_in_tx_def sample_reads_def Let_def sample_ids)
qed

lemma sample_fresh: "fresh_request wire_serde sample_message_gen (Some sample_command) idle_store"
  by (simp add: fresh_request_def command_lookup_in_tx_def idle_store_def empty_sessions_def)

lemma sample_post:
  "\<exists>r db'. post_session_message wire_serde Some sample_reads sample_message_gen (Some sample_command)
     sample_message idle_store = (Inr (r, Some ''t1''), db')"
proof -
  obtain r db1 where r: "route_session_input_in_tx wire_serde Some sample_reads sample_message_gen sample_message
      idle_store = Inr (r, db1)" "mr_route r = ''started''" "mr_turn_id r = ''t1''" "work_items db1 = []"
    using sample_route by blast
  then have "\<exists>db'. accept_message_tx wire_serde Some sample_reads sample_message_gen (Some sample_command)
      sample_message idle_store = Inr ((r, Some ''t1''), db')"
    by (simp add: accept_message_tx_def parse_id_def enqueue_turn_wake_in_tx_def enqueue_work_in_tx_def insert_one_def)
  then show ?thesis by (auto simp: post_fresh [OF sample_fresh] run_tx_def)
qed

text \<open>
  C3. Accepting a message appends exactly one turn to its session and touches no other turn. The
  turn starts running exactly when the session was idle with an empty queue, and waits queued
  otherwise. A started turn has its wake enqueued in the same transaction, and that turn is handed
  to the coordinator; a queued one enqueues and schedules nothing. The sessions invariant is kept.\<close>

theorem posted_message_effect:
  assumes "sessions_ok db" and "fresh_request J g idem db"
    and "post_session_message J U M g idem i db = (Inr (r, sched), db')"
  shows "mr_route r = (if starts_turn (si_session_id i) db then ''started'' else ''queued'') \<and>
    (\<exists>t. turns db' = turns db @ [t] \<and> tn_id t = mr_turn_id r \<and> tn_session_id t = si_session_id i \<and>
      tn_status t = (if starts_turn (si_session_id i) db then ''running'' else ''queued'')) \<and>
    (if starts_turn (si_session_id i) db
     then (\<exists>t. U (mr_turn_id r) = Some t \<and> sched = Some t \<and>
       work_items db' = work_items db @ [new_work_row (pg_wake_id g) KIND_TURN_WAKE
         (json_to_string J (JObj [(''turn_id'', JStr t)])) (pg_wake_now g)])
     else sched = None \<and> work_items db' = work_items db) \<and>
    sessions_ok db'"
proof -
  have "accept_message_tx J U M g idem i db = Inr ((r, sched), db')"
    using assms(3) by (auto simp: post_fresh [OF assms(2)] run_tx_def split: sum.splits prod.splits)
  then show ?thesis
  proof (cases rule: accept_InrE)
    case (1 db1 db2)
    note r = route_effect [OF 1(1) assms(1)]
    have fin: "turns db' = turns db2" "sessions db' = sessions db2" "work_items db' = work_items db2"
      by (simp_all add: 1(4) record_frame split: option.splits)
    show ?thesis
    proof (cases "starts_turn (si_session_id i) db")
      case True
      then show ?thesis
        using r 1(2) wake_effect [of J "pg_wake_id g" "pg_wake_now g" "the sched" db1 db2] fin
          sessions_ok_cong [of db' db1] by auto
    next
      case False
      then show ?thesis using r 1(3) fin sessions_ok_cong [of db' db1] by auto
    qed
  qed
qed

theorem posted_message_effect_witness:
  "\<exists>r db' t. post_session_message wire_serde Some sample_reads sample_message_gen (Some sample_command)
     sample_message idle_store = (Inr (r, Some ''t1''), db') \<and>
   mr_route r = ''started'' \<and> turns db' = [t] \<and> tn_status t = ''running'' \<and> length (work_items db') = 1"
proof -
  obtain r db' where p: "post_session_message wire_serde Some sample_reads sample_message_gen
      (Some sample_command) sample_message idle_store = (Inr (r, Some ''t1''), db')"
    using sample_post by blast
  have "starts_turn ''s1'' idle_store"
    by (simp add: starts_turn_def has_queued_turn_in_tx_def idle_store_def empty_sessions_def
        sample_session_def idle_session_def)
  with posted_message_effect [OF idle_store_ok sample_fresh p] show ?thesis
    using p by (auto simp: sample_ids idle_store_def empty_sessions_def)
qed

text \<open>
  C10. A command is executed once. After a message was accepted under an idempotency key, every
  repetition of the same request before the key expires answers the stored result, schedules no
  turn and leaves the store as it is, whatever its body, ids and clock readings are.\<close>

theorem posted_message_replays:
  assumes "fresh_request J g (Some q) db"
    and "post_session_message J U M g (Some q) i db = (Inr (r, sched), db')"
    and "pg_lookup_now g2 \<le> ir_expires_at q"
    and "json_from_str J (json_to_string J (route_result_to_value r)) = Some (route_result_to_value r)"
  shows "post_session_message J U M2 g2 (Some q) i2 db' = (Inr (r, None), db')"
proof -
  have "accept_message_tx J U M g (Some q) i db = Inr ((r, sched), db')"
    using assms(2) by (auto simp: post_fresh [OF assms(1)] run_tx_def split: sum.splits prod.splits)
  then obtain db2 where "db' = command_record_in_tx J (pg_record_now g) q (route_result_to_value r) db2"
    by (cases rule: accept_InrE) simp
  then have "command_lookup_in_tx J (pg_lookup_now g2) q db' = Inr (Some (route_result_to_value r))"
    using assms(3,4) by (simp add: recorded_response)
  moreover have "route_result_from_value (route_result_to_value r) = Some r"
    by (simp add: route_result_from_value_def route_result_to_value_def field_str_def)
  ultimately show ?thesis by (simp add: post_session_message_def)
qed

theorem posted_message_replays_witness:
  "\<exists>r db'. post_session_message wire_serde Some sample_reads sample_message_gen (Some sample_command)
     sample_message idle_store = (Inr (r, Some ''t1''), db') \<and>
   post_session_message wire_serde Some sample_reads sample_message_gen (Some sample_command)
     sample_message db' = (Inr (r, None), db')"
proof -
  obtain r db' where p: "post_session_message wire_serde Some sample_reads sample_message_gen
      (Some sample_command) sample_message idle_store = (Inr (r, Some ''t1''), db')"
    using sample_post by blast
  then show ?thesis
    using posted_message_replays [OF sample_fresh p, of sample_message_gen sample_reads sample_message]
      wire_serde_roundtrip by (auto simp: sample_ids sample_command_def)
qed

section \<open>Promotion\<close>

lemma insert_checkpoint_for_turn_frame:
  "insert_checkpoint_for_turn_in_tx c sid tid wr now db = Inr db' \<Longrightarrow>
    work_items db' = work_items db \<and> sessions db' = sessions db \<and> turns db' = turns db"
  by (auto simp: insert_checkpoint_for_turn_in_tx_def insert_checkpoint_in_tx_def Let_def split: option.splits)

lemma promotion_shape:
  assumes "activate_queued_turn_in_tx J v cp q m wr now db = Inr (Some sv, db')"
  obtains f g where "turns db' = fst (update_one (queued_turn (qc_session_id q) (qc_turn_id q)) f (turns db))"
    "sessions db' = fst (update_one (idle_session (qc_session_id q)) g (sessions db))"
    "snd (update_one (queued_turn (qc_session_id q) (qc_turn_id q)) f (turns db)) = 1"
    "work_items db' = work_items db" "\<And>t. tn_status (f t) = ''running'' \<and> tn_id (f t) = tn_id t"
    "\<And>s. s_active_turn_id (g s) = Some (qc_turn_id q)"
  using assms
  by (auto simp: activate_queued_turn_in_tx_def update_turn_eq_Inr update_session_eq Let_def
      split: if_splits dest!: insert_checkpoint_for_turn_frame intro!: that)

lemma candidate_first:
  assumes "queued_turn_candidate_in_tx J U tid sid db = Inr (Some q)" and "ids_canonical U db"
  obtains t where "t \<in> set (turns db)" "tn_id t = qc_turn_id q" "tn_session_id t = sid"
    "qc_session_id q = sid" "tn_status t = ''queued''"
    "\<And>x. x \<in> set (turns db) \<Longrightarrow> tn_session_id x = sid \<Longrightarrow> tn_status x = ''queued'' \<Longrightarrow> tn_sequence t \<le> tn_sequence x"
proof -
  let ?Q = "\<lambda>t. tn_session_id t = sid \<and> tn_status t = ''queued''"
  obtain first t where first: "find_first_by ?Q tn_sequence (turns db) = Some first"
    and t: "find_one (\<lambda>t. tn_session_id t = sid \<and> tn_status t = ''queued'' \<and> tn_sequence t = tn_sequence first)
      (turns db) = Some t"
    and q: "U (tn_id t) = Some (qc_turn_id q)" "U (tn_session_id t) = Some (qc_session_id q)"
    using assms(1) by (auto simp: queued_turn_candidate_in_tx_def parse_id_def split: if_splits option.splits)
  have mem: "t \<in> set (turns db)" "tn_session_id t = sid" "tn_status t = ''queued''" "tn_sequence t = tn_sequence first"
    using find_one_SomeD [OF t] by auto
  show thesis
  proof (rule that [of t])
    show "tn_id t = qc_turn_id q" "qc_session_id q = sid"
      using q mem assms(2) by (auto simp: ids_canonical_def canonical_turn_def)
    show "tn_sequence t \<le> tn_sequence x"
      if "x \<in> set (turns db)" "tn_session_id x = sid" "tn_status x = ''queued''" for x
      using find_first_by_SomeD(3) [OF first] that mem(4) by simp
  qed (use mem in auto)
qed

text \<open>
  C9. Promotion is first in, first out and all or nothing. Either the pass promotes the queued turn
  of the session with the least sequence, leaving it running and its wake enqueued in one commit
  and the sessions invariant intact, or it reports no turn or an error and the store is unchanged.\<close>

theorem promotion_all_or_nothing:
  assumes "sessions_ok db" and "ids_canonical U db"
    and "activate_next_queued_after J U W g now terminal sid db = (res, db')"
  shows "case res of
      Inr (Some t) \<Rightarrow> sessions_ok db' \<and>
        (\<exists>q \<in> set (turns db). tn_id q = t \<and> tn_session_id q = sid \<and> tn_status q = ''queued'' \<and>
          (\<forall>x \<in> set (turns db). tn_session_id x = sid \<and> tn_status x = ''queued'' \<longrightarrow> tn_sequence q \<le> tn_sequence x)) \<and>
        (\<exists>q \<in> set (turns db'). tn_id q = t \<and> tn_status q = ''running'') \<and>
        work_items db' = work_items db @ [new_work_row (vg_wake_id g) KIND_TURN_WAKE
          (json_to_string J (JObj [(''turn_id'', JStr t)])) (vg_wake_now g)]
    | _ \<Rightarrow> db' = db"
proof (cases "\<exists>t. res = Inr (Some t)")
  case False
  then show ?thesis using assms(3)
    by (auto simp: activate_next_queued_after_def split: sum.splits option.splits prod.splits)
next
  case True
  then obtain t where res: "res = Inr (Some t)" by blast
  obtain wr q sv db1 db2 where q: "queued_turn_candidate_in_tx J U terminal sid db = Inr (Some q)" "t = qc_turn_id q"
    and a: "activate_queued_turn_in_tx J (vg_version g) (vg_checkpoint_id g) q (qc_model_snapshot q) wr now db = Inr (Some sv, db1)"
    and e: "append_session_event J (fst (vg_event g)) (snd (vg_event g)) (queued_start_event (vg_correlation g) q sv) db1 = Inr db2"
    and w: "enqueue_turn_wake_in_tx J (vg_wake_id g) (vg_wake_now g) t db2 = Inr db'"
    using assms(3) unfolding res
    by (auto simp: activate_next_queued_after_def split: sum.splits option.splits prod.splits)
  note frame = append_event_work [OF e] wake_effect [OF w]
  obtain c where c: "c \<in> set (turns db)" "tn_id c = t" "tn_session_id c = sid" "qc_session_id q = sid" "tn_status c = ''queued''"
    "\<And>x. x \<in> set (turns db) \<Longrightarrow> tn_session_id x = sid \<Longrightarrow> tn_status x = ''queued'' \<Longrightarrow> tn_sequence c \<le> tn_sequence x"
    using candidate_first [OF q(1) assms(2)] q(2) by metis
  obtain f where f: "turns db1 = fst (update_one (queued_turn sid t) f (turns db))"
    "snd (update_one (queued_turn sid t) f (turns db)) = 1" "work_items db1 = work_items db"
    "\<And>x. tn_status (f x) = ''running'' \<and> tn_id (f x) = tn_id x"
    using promotion_shape [OF a] c(4) q(2) by metis
  have "sessions_ok db'"
    using activate_queued_ok [OF a assms(1)] frame sessions_ok_cong [of db' db1] by simp
  moreover have "\<exists>x \<in> set (turns db'). tn_id x = t \<and> tn_status x = ''running''"
    using update_one_hit [of "queued_turn sid t" f "turns db"] f frame by (auto simp: queued_turn_def)
  ultimately show ?thesis using c frame f(3) by (auto simp: res)
qed

definition waiting_store :: sessions_db where
  "waiting_store = empty_sessions
    \<lparr>sessions := [sample_session\<lparr>s_state := ''ready'', s_active_turn_id := None\<rparr>],
     turns := [sample_turn ''t1'' 1 ''completed'',
       (sample_turn ''t2'' 2 ''queued'')\<lparr>tn_model_snapshot_json := json_to_string wire_serde JNull\<rparr>]\<rparr>"

definition sample_advance :: advance_gen where
  "sample_advance = \<lparr>vg_version = ''2'', vg_checkpoint_id = ''c2'', vg_correlation = ''z'',
     vg_event = (''e'', 9), vg_wake_id = ''w'', vg_wake_now = 9\<rparr>"

lemma sample_promotion:
  "\<exists>db'. activate_next_queued_after wire_serde Some (\<lambda>_. Inr ''rev'') sample_advance 9 ''t1'' ''s1'' waiting_store =
    (Inr (Some ''t2''), db')"
proof -
  let ?q = "\<lparr>qc_turn_id = ''t2'', qc_session_id = ''s1'', qc_model_snapshot = None\<rparr>"
  have q: "queued_turn_candidate_in_tx wire_serde Some ''t1'' ''s1'' waiting_store = Inr (Some ?q)"
    by (simp add: queued_turn_candidate_in_tx_def waiting_store_def empty_sessions_def sample_turn_def
        sample_session_def idle_session_def find_first_by_def parse_id_def snapshot_parse_def wire_serde_roundtrip)
  obtain db1 where a: "activate_queued_turn_in_tx wire_serde ''2'' ''c2'' ?q None ''rev'' 9 waiting_store =
      Inr (Some ''v_2'', db1)" "public_events db1 = []" "event_seq db1 = Some 0" "work_items db1 = []"
    by (simp add: activate_queued_turn_in_tx_def update_turn_def update_session_def waiting_store_def
        empty_sessions_def sample_turn_def sample_session_def queued_turn_def idle_session_def turns_indexed_def
        active_row_def insert_checkpoint_for_turn_in_tx_def insert_checkpoint_in_tx_def insert_one_def
        find_first_by_def find_last_by_def version_tag_def Let_def)
  obtain db2 where e: "append_session_event wire_serde ''e'' 9 (queued_start_event ''z'' ?q ''v_2'') db1 = Inr db2"
    using append_succeeds [of db1 "''e''"] a by (force simp: log_dense_def)
  obtain db3 where w: "enqueue_turn_wake_in_tx wire_serde ''w'' 9 ''t2'' db2 = Inr db3"
    using append_event_work [OF e] a by (simp add: enqueue_turn_wake_in_tx_def enqueue_work_in_tx_def insert_one_def)
  obtain s where s: "get_session wire_serde ''s1'' waiting_store = Inr s"
    by (simp add: get_session_def summary_from_row_def parse_preference_def waiting_store_def
        empty_sessions_def sample_session_def)
  show ?thesis using q a e w s by (simp add: activate_next_queued_after_def sample_advance_def)
qed

theorem promotion_all_or_nothing_witness:
  "\<exists>db' q. activate_next_queued_after wire_serde Some (\<lambda>_. Inr ''rev'') sample_advance 9 ''t1'' ''s1'' waiting_store =
    (Inr (Some ''t2''), db') \<and> q \<in> set (turns db') \<and> tn_id q = ''t2'' \<and> tn_status q = ''running'' \<and>
    length (work_items db') = 1"
proof -
  obtain db' where p: "activate_next_queued_after wire_serde Some (\<lambda>_. Inr ''rev'') sample_advance 9 ''t1'' ''s1''
      waiting_store = (Inr (Some ''t2''), db')"
    using sample_promotion by blast
  have "sessions_ok waiting_store" "ids_canonical Some waiting_store"
    by (simp_all add: sessions_ok_def turns_ok_def turns_indexed_def waiting_store_def empty_sessions_def
        sample_session_def sample_turn_def turn_mark_def session_mark_def active_row_def status_ok_def
        turn_status_from_str_def ids_canonical_def canonical_turn_def)
  from promotion_all_or_nothing [OF this p] show ?thesis
    using p by (auto simp: waiting_store_def empty_sessions_def)
qed

end
