(* ===== verification/Turn_Claims.thy ===== *)
theory Turn_Claims
  imports Janus_Interfaces
begin

text \<open>
  The in-memory claims of the execution coordinator
  (\<open>apps/server/src/application/execution.rs\<close>): a map from turns to a pending flag, shared by
  concurrent runners. Every access takes the map's lock, so the accesses are the atomic steps, in
  any interleaving. A runner's claim is dropped when the runner returns or takes another claim,
  which is a lock section of its own (\<open>impl Drop for TurnClaim\<close>).
\<close>

section \<open>Claims\<close>

type_synonym claims = "string \<Rightarrow> bool option"

definition claim :: "string \<Rightarrow> claims \<Rightarrow> bool \<times> claims" where
  "claim turn_id active =
    (case active turn_id of
       Some pending \<Rightarrow> (False, active(turn_id := Some True))
     | None \<Rightarrow> (True, active(turn_id := Some False)))"

definition release_claim :: "string \<Rightarrow> claims \<Rightarrow> bool \<times> claims" where
  "release_claim turn_id active =
    (case active turn_id of
       None \<Rightarrow> (False, active)
     | Some True \<Rightarrow> (True, active(turn_id := Some False))
     | Some False \<Rightarrow> (False, active(turn_id := None)))"

definition drop_claim :: "string \<Rightarrow> claims \<Rightarrow> claims" where
  "drop_claim turn_id active = active(turn_id := None)"

section \<open>Runners\<close>

text \<open>What a pass ended with: a promoted turn to go on with, nothing, or an error.\<close>

datatype pass_result = NextTurn string | NoNext | PassFailed

text \<open>
  Where a runner is in \<open>run_claimed\<close>: in a pass, behind a pass, behind the release of its claim
  (which is still to be dropped), or holding the claim of the next turn with the old one still to
  be dropped.
\<close>

datatype phase = Passing | Passed pass_result | Released pass_result | Replacing string | Ended

record runner =
  rn_turn :: string
  rn_phase :: phase

record coordinator =
  active_turns :: claims
  runners :: "runner list"

definition coordinator_new :: coordinator where
  "coordinator_new = \<lparr>active_turns = (\<lambda>_. None), runners = []\<rparr>"

definition schedule_and_wait :: "string \<Rightarrow> coordinator \<Rightarrow> coordinator" where
  "schedule_and_wait turn_id c =
    (let (won, active) = claim turn_id (active_turns c)
     in if won then c\<lparr>active_turns := active,
                      runners := runners c @ [\<lparr>rn_turn = turn_id, rn_phase = Passing\<rparr>]\<rparr>
        else c\<lparr>active_turns := active\<rparr>)"

definition set_phase :: "nat \<Rightarrow> phase \<Rightarrow> coordinator \<Rightarrow> coordinator" where
  "set_phase k p c = c\<lparr>runners := (runners c)[k := (runners c ! k)\<lparr>rn_phase := p\<rparr>]\<rparr>"

text \<open>One lock section (or the end of a pass) of runner \<open>k\<close>.\<close>

definition run_claimed_step :: "pass_result \<Rightarrow> nat \<Rightarrow> coordinator \<Rightarrow> coordinator option" where
  "run_claimed_step outcome k c =
    (if length (runners c) \<le> k then None
     else let r = runners c ! k; t = rn_turn r in
       case rn_phase r of
         Passing \<Rightarrow> Some (set_phase k (Passed outcome) c)
       | Passed res \<Rightarrow>
           (let (retained, active) = release_claim t (active_turns c)
            in Some (set_phase k (if retained then Passing else Released res) (c\<lparr>active_turns := active\<rparr>)))
       | Released (NextTurn next_turn) \<Rightarrow>
           (let (won, active) = claim next_turn (active_turns c)
            in Some (set_phase k (if won then Replacing next_turn else Released NoNext)
                 (c\<lparr>active_turns := active\<rparr>)))
       | Released _ \<Rightarrow> Some (set_phase k Ended (c\<lparr>active_turns := drop_claim t (active_turns c)\<rparr>))
       | Replacing next_turn \<Rightarrow>
           Some (c\<lparr>active_turns := drop_claim t (active_turns c),
                   runners := (runners c)[k := \<lparr>rn_turn = next_turn, rn_phase = Passing\<rparr>]\<rparr>)
       | Ended \<Rightarrow> None)"

datatype coordinator_event = Schedule string | Advance pass_result nat

fun coordinator_step :: "coordinator_event \<Rightarrow> coordinator \<Rightarrow> coordinator option" where
  "coordinator_step (Schedule t) c = Some (schedule_and_wait t c)"
| "coordinator_step (Advance outcome k) c = run_claimed_step outcome k c"

fun coordinator_run :: "coordinator_event list \<Rightarrow> coordinator \<Rightarrow> coordinator option" where
  "coordinator_run [] c = Some c"
| "coordinator_run (e # es) c =
    (case coordinator_step e c of None \<Rightarrow> None | Some c' \<Rightarrow> coordinator_run es c')"

section \<open>A claim can be lost\<close>

definition executing :: "string \<Rightarrow> coordinator \<Rightarrow> nat" where
  "executing t c = length (filter (\<lambda>r. rn_turn r = t \<and> rn_phase r = Passing) (runners c))"

text \<open>
  Two runners can execute one turn at the same time. A runner releases its claim and drops it
  in two lock sections; when the turn is scheduled again in between, the drop removes the claim of
  the new runner, and the next wake starts a third one beside it.\<close>

theorem dropped_claim_admits_second_runner:
  "\<exists>es c. coordinator_run es coordinator_new = Some c \<and> executing t c = 2"
proof -
  let ?es = "[Schedule t, Advance NoNext 0, Advance NoNext 0, Schedule t, Advance NoNext 0, Schedule t]"
  have "\<exists>c. coordinator_run ?es coordinator_new = Some c \<and> executing t c = 2"
    by (simp add: coordinator_new_def schedule_and_wait_def claim_def run_claimed_step_def release_claim_def
        drop_claim_def set_phase_def executing_def)
  then show ?thesis by blast
qed

section \<open>Exclusion\<close>

text \<open>A runner that owns the map entry of a turn, and one whose released claim is undropped.\<close>

definition holding :: "runner \<Rightarrow> string \<Rightarrow> bool" where
  "holding r t \<longleftrightarrow> (case rn_phase r of Passing \<Rightarrow> rn_turn r = t | Passed _ \<Rightarrow> rn_turn r = t
     | Replacing n \<Rightarrow> n = t | _ \<Rightarrow> False)"

definition lingering :: "runner \<Rightarrow> string \<Rightarrow> bool" where
  "lingering r t \<longleftrightarrow> rn_turn r = t \<and> (case rn_phase r of Released _ \<Rightarrow> True | Replacing _ \<Rightarrow> True | _ \<Rightarrow> False)"

definition claims_ok :: "coordinator \<Rightarrow> bool" where
  "claims_ok c \<longleftrightarrow>
    (\<forall>t. active_turns c t \<noteq> None \<longleftrightarrow> (\<exists>k < length (runners c). holding (runners c ! k) t)) \<and>
    (\<forall>t i j. i < length (runners c) \<longrightarrow> j < length (runners c) \<longrightarrow>
       holding (runners c ! i) t \<longrightarrow> holding (runners c ! j) t \<longrightarrow> i = j) \<and>
    (\<forall>t. \<forall>k < length (runners c). lingering (runners c ! k) t \<longrightarrow> active_turns c t = None)"

text \<open>The turn an event would claim.\<close>

definition claimed_by :: "coordinator_event \<Rightarrow> coordinator \<Rightarrow> string option" where
  "claimed_by e c =
    (case e of Schedule t \<Rightarrow> Some t
     | Advance _ k \<Rightarrow> if k < length (runners c) then
         (case rn_phase (runners c ! k) of Released (NextTurn n) \<Rightarrow> Some n | _ \<Rightarrow> None) else None)"

text \<open>A step that claims no turn whose released claim is still to be dropped.\<close>

definition undisturbed_step :: "coordinator \<Rightarrow> coordinator \<Rightarrow> bool" where
  "undisturbed_step c c' \<longleftrightarrow>
    (\<exists>e. coordinator_step e c = Some c' \<and>
      (\<forall>t. claimed_by e c = Some t \<longrightarrow> (\<forall>r \<in> set (runners c). \<not> lingering r t)))"

lemma claims_okD:
  assumes "claims_ok c" and "k < length (runners c)"
  shows "holding (runners c ! k) t \<Longrightarrow> active_turns c t \<noteq> None"
    and "lingering (runners c ! k) t \<Longrightarrow> active_turns c t = None"
    and "j < length (runners c) \<Longrightarrow> holding (runners c ! k) t \<Longrightarrow> holding (runners c ! j) t \<Longrightarrow> k = j"
proof -
  show "active_turns c t \<noteq> None" if "holding (runners c ! k) t"
    using assms that unfolding claims_ok_def by blast
  show "active_turns c t = None" if "lingering (runners c ! k) t"
    using assms that unfolding claims_ok_def by blast
  show "k = j" if "j < length (runners c)" "holding (runners c ! k) t" "holding (runners c ! j) t"
    using assms that unfolding claims_ok_def by blast
qed

text \<open>One runner moves: the entries follow what it gains and gives up.\<close>

lemma claims_ok_move:
  assumes ok: "claims_ok c" and k: "k < length (runners c)"
    and entry: "\<And>t. a t \<noteq> None \<longleftrightarrow> (if holding (runners c ! k) t \<or> holding r t then holding r t else active_turns c t \<noteq> None)"
    and gain: "\<And>t. holding r t \<Longrightarrow> \<not> holding (runners c ! k) t \<Longrightarrow>
      active_turns c t = None \<and> (\<forall>r \<in> set (runners c). \<not> lingering r t)"
    and linger: "\<And>t. lingering r t \<Longrightarrow> a t = None"
  shows "claims_ok (c\<lparr>active_turns := a, runners := (runners c)[k := r]\<rparr>)"
proof -
  let ?rs = "(runners c)[k := r]"
  note ok' = claims_okD [OF ok]
  have at: "?rs ! j = (if j = k then r else runners c ! j)" if "j < length (runners c)" for j
    using that k by (simp add: nth_list_update)
  have others: "\<not> holding (runners c ! j) t" if "j < length (runners c)" "j \<noteq> k" "holding r t" for j t
    using that ok'(1) [of j t] ok'(3) [of k j t] gain [of t] k by metis
  have "a t \<noteq> None \<longleftrightarrow> (\<exists>j < length ?rs. holding (?rs ! j) t)" for t
  proof (cases "holding (runners c ! k) t \<or> holding r t")
    case True
    show ?thesis
    proof (cases "holding r t")
      case True
      then show ?thesis using entry [of t] at [OF k] k by (auto intro!: exI [of _ k])
    next
      case False
      then have "\<not> holding (?rs ! j) t" if "j < length (runners c)" for j
        using that True False ok'(3) [OF k that, of t] k by (cases "j = k") auto
      then show ?thesis using entry [of t] True False by auto
    qed
  next
    case False
    then have "holding (?rs ! j) t \<longleftrightarrow> holding (runners c ! j) t" if "j < length (runners c)" for j
      using at [OF that] by simp
    then have "(\<exists>j < length ?rs. holding (?rs ! j) t) \<longleftrightarrow> (\<exists>j < length (runners c). holding (runners c ! j) t)"
      by auto
    then show ?thesis using False entry [of t] ok unfolding claims_ok_def by auto
  qed
  moreover have "i = j" if "i < length ?rs" "j < length ?rs" "holding (?rs ! i) t" "holding (?rs ! j) t" for i j t
    using that at [of i] at [of j] others [of i t] others [of j t] ok'(3) [of i j t] by (auto split: if_splits)
  moreover have "a t = None" if j: "j < length ?rs" "lingering (?rs ! j) t" for j t
  proof (cases "j = k")
    case False
    then have l: "lingering (runners c ! j) t" and j': "j < length (runners c)" using j at [of j] by auto
    then have none: "active_turns c t = None" using ok'(2) by blast
    moreover have "\<not> holding r t"
      using gain [of t] l j' none ok'(1) [OF k, of t] nth_mem [OF j'] by blast
    ultimately show ?thesis using entry [of t] by (auto split: if_splits)
  qed (use linger j at k in auto)
  ultimately show ?thesis by (auto simp: claims_ok_def)
qed

lemma schedule_ok:
  assumes ok: "claims_ok c" and free: "\<forall>r \<in> set (runners c). \<not> lingering r t"
  shows "claims_ok (schedule_and_wait t c)"
proof (cases "active_turns c t")
  case None
  let ?r = "\<lparr>rn_turn = t, rn_phase = Passing\<rparr>" and ?rs = "runners c"
  have hold: "holding ?r u \<longleftrightarrow> u = t" "\<not> lingering ?r u" for u by (auto simp: holding_def lingering_def)
  have at: "(?rs @ [?r]) ! j = (if j < length ?rs then ?rs ! j else ?r)" if "j < Suc (length ?rs)" for j
    using that by (auto simp: nth_append less_Suc_eq)
  have nobody: "\<not> holding (?rs ! j) t" if "j < length ?rs" for j
    using claims_okD(1) [OF ok that, of t] None by auto
  define c' where "c' = c\<lparr>active_turns := (active_turns c)(t := Some False), runners := ?rs @ [?r]\<rparr>"
  have c': "active_turns c' = (active_turns c)(t := Some False)" "runners c' = ?rs @ [?r]"
    by (simp_all add: c'_def)
  have "claims_ok c'"
    unfolding claims_ok_def
  proof (intro conjI allI impI)
    show "active_turns c' u \<noteq> None \<longleftrightarrow> (\<exists>k < length (runners c'). holding (runners c' ! k) u)" for u
      using ok hold nobody unfolding claims_ok_def c' by (auto simp: at less_Suc_eq)
    show "i = j" if "i < length (runners c')" "j < length (runners c')" "holding (runners c' ! i) u"
      "holding (runners c' ! j) u" for u i j
      using that hold nobody claims_okD(3) [OF ok, of i j u] unfolding c' by (auto simp: at less_Suc_eq split: if_splits)
    show "active_turns c' u = None" if "k < length (runners c')" "lingering (runners c' ! k) u" for u k
    proof -
      have "k < length ?rs" "lingering (?rs ! k) u"
        using that hold unfolding c' by (auto simp: at less_Suc_eq split: if_splits)
      then show ?thesis using claims_okD(2) [OF ok, of k u] free unfolding c' by auto
    qed
  qed
  then show ?thesis using None by (simp add: schedule_and_wait_def claim_def c'_def)
next
  case (Some pending)
  then have "claims_ok (c\<lparr>active_turns := (active_turns c)(t := Some True)\<rparr>)"
    using ok by (auto simp: claims_ok_def)
  then show ?thesis using Some by (simp add: schedule_and_wait_def claim_def)
qed

lemma set_phase_eq:
  "set_phase k p (c\<lparr>active_turns := a\<rparr>) =
    c\<lparr>active_turns := a, runners := (runners c)[k := (runners c ! k)\<lparr>rn_phase := p\<rparr>]\<rparr>"
  by (simp add: set_phase_def)

lemmas claim_states = holding_def lingering_def

lemma run_claimed_step_ok:
  assumes ok: "claims_ok c" and step: "run_claimed_step outcome k c = Some c'"
    and free: "\<And>t. claimed_by (Advance outcome k) c = Some t \<Longrightarrow> \<forall>r \<in> set (runners c). \<not> lingering r t"
  shows "claims_ok c'"
proof -
  have k: "k < length (runners c)" using step by (auto simp: run_claimed_step_def split: if_splits)
  define r where "r = runners c ! k"
  note own = claims_okD(1,2) [OF ok k, folded r_def]
  note move = claims_ok_move [OF ok k, folded r_def]
  show ?thesis
  proof (cases "rn_phase r")
    case Passing
    then have "c' = set_phase k (Passed outcome) c" using step k by (simp add: run_claimed_step_def r_def)
    moreover have "claims_ok (c\<lparr>active_turns := active_turns c, runners := (runners c)[k := r\<lparr>rn_phase := Passed outcome\<rparr>]\<rparr>)"
      by (rule move) (use own in \<open>auto simp: claim_states Passing\<close>)
    ultimately show ?thesis by (simp add: set_phase_def r_def)
  next
    case (Passed res)
    have hold: "active_turns c (rn_turn r) \<noteq> None" using own(1) by (simp add: claim_states Passed)
    obtain b where b: "active_turns c (rn_turn r) = Some b" using hold by auto
    show ?thesis
    proof (cases b)
      case True
      then have "c' = set_phase k Passing (c\<lparr>active_turns := (active_turns c)(rn_turn r := Some False)\<rparr>)"
        using step k Passed b by (simp add: run_claimed_step_def r_def release_claim_def)
      then show ?thesis unfolding set_phase_eq
        by (simp add: r_def [symmetric]) (rule move; auto simp: claim_states Passed own split: if_splits)
    next
      case False
      then have "c' = set_phase k (Released res) (c\<lparr>active_turns := (active_turns c)(rn_turn r := None)\<rparr>)"
        using step k Passed b by (simp add: run_claimed_step_def r_def release_claim_def)
      then show ?thesis unfolding set_phase_eq
        by (simp add: r_def [symmetric]) (rule move; auto simp: claim_states Passed own split: if_splits)
    qed
  next
    case (Released res)
    have none: "active_turns c (rn_turn r) = None" using own(2) by (simp add: claim_states Released)
    show ?thesis
    proof (cases "\<exists>n. res = NextTurn n")
      case True
      then obtain n where n: "res = NextTurn n" by blast
      have fr: "\<forall>r \<in> set (runners c). \<not> lingering r n"
        using free Released n k by (simp add: claimed_by_def r_def)
      have "lingering r (rn_turn r)" by (simp add: claim_states Released)
      then have neq: "n \<noteq> rn_turn r" using fr k by (auto simp: r_def)
      show ?thesis
      proof (cases "active_turns c n")
        case None
        then have "c' = set_phase k (Replacing n) (c\<lparr>active_turns := (active_turns c)(n := Some False)\<rparr>)"
          using step k Released n by (simp add: run_claimed_step_def r_def claim_def)
        then show ?thesis unfolding set_phase_eq
          using fr None neq none
          by (simp add: r_def [symmetric]) (rule move; auto simp: holding_def Released lingering_def split: if_splits phase.splits)
      next
        case (Some b)
        then have "c' = set_phase k (Released NoNext) (c\<lparr>active_turns := (active_turns c)(n := Some True)\<rparr>)"
          using step k Released n by (simp add: run_claimed_step_def r_def claim_def)
        then show ?thesis unfolding set_phase_eq
          using Some neq none by (simp add: r_def [symmetric]) (rule move; auto simp: claim_states Released split: if_splits)
      qed
    next
      case False
      then have "c' = set_phase k Ended (c\<lparr>active_turns := (active_turns c)(rn_turn r := None)\<rparr>)"
        using step k Released by (cases res) (auto simp: run_claimed_step_def r_def drop_claim_def)
      then show ?thesis unfolding set_phase_eq
        using none by (simp add: r_def [symmetric]) (rule move; auto simp: claim_states Released split: if_splits)
    qed
  next
    case (Replacing n)
    have none: "active_turns c (rn_turn r) = None" "active_turns c n \<noteq> None"
      using own by (simp_all add: claim_states Replacing)
    have "c' = c\<lparr>active_turns := (active_turns c)(rn_turn r := None),
        runners := (runners c)[k := \<lparr>rn_turn = n, rn_phase = Passing\<rparr>]\<rparr>"
      using step k Replacing by (simp add: run_claimed_step_def r_def drop_claim_def)
    then show ?thesis
      using none by simp (rule move; auto simp: claim_states Replacing split: if_splits)
  next
    case Ended
    then show ?thesis using step k by (simp add: run_claimed_step_def r_def)
  qed
qed

interpretation claims_inv: step_invariant undisturbed_step claims_ok
proof
  fix c c'
  assume "undisturbed_step c c'" and ok: "claims_ok c"
  then obtain e where e: "coordinator_step e c = Some c'"
    "\<And>t. claimed_by e c = Some t \<Longrightarrow> \<forall>r \<in> set (runners c). \<not> lingering r t"
    unfolding undisturbed_step_def by blast
  show "claims_ok c'"
  proof (cases e)
    case (Schedule t)
    then show ?thesis using e schedule_ok [OF ok, of t] by (simp add: claimed_by_def)
  next
    case (Advance outcome k)
    then show ?thesis using e run_claimed_step_ok [OF ok, of outcome k c'] by simp
  qed
qed

lemma coordinator_new_ok: "claims_ok coordinator_new"
  by (simp add: claims_ok_def coordinator_new_def)

text \<open>
  C27. As long as no turn is claimed between the release and the drop of an older claim on it, the
  claims exclude: at most one runner holds a turn at any time, and a pending wake always belongs to
  a runner that has not finished with the turn and, when its pass is over, starts another pass
  instead of releasing the claim.\<close>

theorem claims_exclusive:
  assumes "undisturbed_step\<^sup>*\<^sup>* coordinator_new c"
  shows "(\<forall>t i j. i < length (runners c) \<and> j < length (runners c) \<and>
      holding (runners c ! i) t \<and> holding (runners c ! j) t \<longrightarrow> i = j) \<and>
    (\<forall>t. active_turns c t = Some True \<longrightarrow>
      (\<exists>k < length (runners c). holding (runners c ! k) t \<and>
        (\<forall>res outcome. runners c ! k = \<lparr>rn_turn = t, rn_phase = Passed res\<rparr> \<longrightarrow>
          (\<exists>c'. run_claimed_step outcome k c = Some c' \<and> runners c' ! k = \<lparr>rn_turn = t, rn_phase = Passing\<rparr>))))"
proof -
  have ok: "claims_ok c" using claims_inv.steps_inv [OF assms coordinator_new_ok] .
  have "\<exists>c'. run_claimed_step outcome k c = Some c' \<and> runners c' ! k = \<lparr>rn_turn = t, rn_phase = Passing\<rparr>"
    if "k < length (runners c)" "active_turns c t = Some True" "runners c ! k = \<lparr>rn_turn = t, rn_phase = Passed res\<rparr>"
    for k t res outcome
    using that by (simp add: run_claimed_step_def release_claim_def set_phase_def)
  then show ?thesis
    using ok unfolding claims_ok_def by (metis option.distinct(1))
qed

theorem claims_exclusive_witness:
  "undisturbed_step\<^sup>*\<^sup>* coordinator_new (schedule_and_wait ''t'' (schedule_and_wait ''t'' coordinator_new)) \<and>
   (\<exists>k. holding (runners (schedule_and_wait ''t'' (schedule_and_wait ''t'' coordinator_new)) ! k) ''t'')"
proof -
  let ?c = "schedule_and_wait ''t'' coordinator_new" and ?d = "schedule_and_wait ''t'' (schedule_and_wait ''t'' coordinator_new)"
  have "undisturbed_step coordinator_new ?c"
    unfolding undisturbed_step_def
    by (rule exI [of _ "Schedule ''t''"]) (simp add: coordinator_new_def)
  moreover have "undisturbed_step ?c ?d"
    unfolding undisturbed_step_def
    by (rule exI [of _ "Schedule ''t''"])
      (simp add: coordinator_new_def schedule_and_wait_def claim_def lingering_def claimed_by_def)
  ultimately have run: "undisturbed_step\<^sup>*\<^sup>* coordinator_new ?d"
    by (meson rtranclp.rtrancl_into_rtrancl rtranclp.rtrancl_refl)
  have "active_turns ?d ''t'' = Some True"
    by (simp add: coordinator_new_def schedule_and_wait_def claim_def)
  then show ?thesis using claims_exclusive [OF run] run by blast
qed

end
