(* ===== verification/Sse_Stream.thy ===== *)
theory Sse_Stream
  imports Janus_Interfaces Utf8_Text
begin

text \<open>
  The server-sent-event splitter of the model adapters (\<open>crates/models/src/sse.rs\<close>). Bytes
  are chars. The parser keeps the bytes of an unfinished line, the event name and the data
  lines of an unfinished frame.
\<close>

section \<open>The parser\<close>

record sse_parser =
  sse_buffer :: string
  sse_event_name :: string
  sse_data_lines :: "string list"

definition sse_new :: sse_parser where
  "sse_new = \<lparr>sse_buffer = [], sse_event_name = [], sse_data_lines = []\<rparr>"

definition newline :: char where "newline = CHR 0x0A"

definition strip_prefix :: "string \<Rightarrow> string \<Rightarrow> string option" where
  "strip_prefix p s = (if take (length p) s = p then Some (drop (length p) s) else None)"

definition pop_cr :: "string \<Rightarrow> string" where
  "pop_cr line = (if line \<noteq> [] \<and> last line = CHR 0x0D then butlast line else line)"

text \<open>\<open>join("\n")\<close>.\<close>

primrec join_newline :: "string list \<Rightarrow> string" where
  "join_newline [] = []"
| "join_newline (x # xs) = (if xs = [] then x else x @ [newline] @ join_newline xs)"

text \<open>One decoded line: a blank one ends the frame, if there is one.\<close>

definition sse_line :: "string \<Rightarrow> sse_parser \<Rightarrow> sse_parser \<times> (string \<times> string) list" where
  "sse_line line p =
    (if line = [] then
       (if sse_data_lines p \<noteq> [] \<or> sse_event_name p \<noteq> [] then
          (p\<lparr>sse_event_name := [], sse_data_lines := []\<rparr>,
           [(sse_event_name p, join_newline (sse_data_lines p))])
        else (p, []))
     else case strip_prefix ''event:'' line of
       Some rest \<Rightarrow> (p\<lparr>sse_event_name := str_trim rest\<rparr>, [])
     | None \<Rightarrow> (case strip_prefix ''data:'' line of
         Some rest \<Rightarrow> (p\<lparr>sse_data_lines := sse_data_lines p @ [trim_start rest]\<rparr>, [])
       | None \<Rightarrow> (p, [])))"

lemma line_shorter: "x \<in> set b \<Longrightarrow> length b - Suc n < length b"
  by (cases b) auto

text \<open>The loop over the complete lines of the buffer.\<close>

function sse_drain :: "sse_parser \<Rightarrow> sse_parser \<times> (string \<times> string) list" where
  "sse_drain p =
    (if newline \<notin> set (sse_buffer p) then (p, [])
     else let raw = takeWhile (\<lambda>b. b \<noteq> newline) (sse_buffer p);
              rest = drop (Suc (length raw)) (sse_buffer p);
              (p1, out1) = sse_line (pop_cr (utf8_lossy raw)) (p\<lparr>sse_buffer := rest\<rparr>);
              (p2, out2) = sse_drain (p1\<lparr>sse_buffer := rest\<rparr>)
          in (p2, out1 @ out2))"
  by auto
termination
  by (relation "measure (\<lambda>p. length (sse_buffer p))") (auto simp: line_shorter)

declare sse_drain.simps [simp del]

definition sse_push :: "sse_parser \<Rightarrow> string \<Rightarrow> sse_parser \<times> (string \<times> string) list" where
  "sse_push p chunk = sse_drain (p\<lparr>sse_buffer := sse_buffer p @ chunk\<rparr>)"

section \<open>Chunks\<close>

lemma sse_line_buffer [simp]: "sse_buffer (fst (sse_line l p)) = sse_buffer p"
  by (simp add: sse_line_def split: option.splits)

lemma sse_line_frame: "sse_line l (p\<lparr>sse_buffer := b\<rparr>) =
    ((fst (sse_line l p))\<lparr>sse_buffer := b\<rparr>, snd (sse_line l p))"
  by (simp add: sse_line_def split: option.splits)

text \<open>The line of a buffer that has one, and the bytes behind it.\<close>

definition head_line :: "string \<Rightarrow> string" where
  "head_line b = pop_cr (utf8_lossy (takeWhile (\<lambda>c. c \<noteq> newline) b))"

definition behind_line :: "string \<Rightarrow> string" where
  "behind_line b = drop (Suc (length (takeWhile (\<lambda>c. c \<noteq> newline) b))) b"

lemma sse_drain_idle [simp]: "newline \<notin> set (sse_buffer p) \<Longrightarrow> sse_drain p = (p, [])"
  by (simp add: sse_drain.simps)

lemma sse_drain_line:
  "newline \<in> set (sse_buffer p) \<Longrightarrow> sse_drain p =
    (let q = (fst (sse_line (head_line (sse_buffer p)) p))\<lparr>sse_buffer := behind_line (sse_buffer p)\<rparr>
     in (fst (sse_drain q), snd (sse_line (head_line (sse_buffer p)) p) @ snd (sse_drain q)))"
  by (subst sse_drain.simps)
    (simp add: Let_def split_beta head_line_def behind_line_def sse_line_frame)

lemma head_line_append: "newline \<in> set b \<Longrightarrow> head_line (b @ c) = head_line b"
  by (simp add: head_line_def)

lemma behind_line_append: "newline \<in> set b \<Longrightarrow> behind_line (b @ c) = behind_line b @ c"
proof -
  assume "newline \<in> set b"
  then have "Suc (length (takeWhile (\<lambda>c. c \<noteq> newline) b)) \<le> length b"
    by (induction b) auto
  then show ?thesis using \<open>newline \<in> set b\<close> by (simp add: behind_line_def)
qed

lemma sse_drain_append:
  "sse_drain (p\<lparr>sse_buffer := sse_buffer p @ c\<rparr>) =
    (let q = fst (sse_drain p); r = q\<lparr>sse_buffer := sse_buffer q @ c\<rparr>
     in (fst (sse_drain r), snd (sse_drain p) @ snd (sse_drain r)))"
proof (induction "length (sse_buffer p)" arbitrary: p rule: less_induct)
  case less
  show ?case
  proof (cases "newline \<in> set (sse_buffer p)")
    case False
    then show ?thesis by (simp add: Let_def)
  next
    case True
    let ?b = "sse_buffer p"
    let ?q = "(fst (sse_line (head_line ?b) p))\<lparr>sse_buffer := behind_line ?b\<rparr>"
    have "length (sse_buffer ?q) < length ?b"
      using True by (simp add: behind_line_def line_shorter)
    note IH = less [OF this, unfolded Let_def]
    have step: "sse_drain (p\<lparr>sse_buffer := ?b @ c\<rparr>) =
        (fst (sse_drain (?q\<lparr>sse_buffer := sse_buffer ?q @ c\<rparr>)),
         snd (sse_line (head_line ?b) p) @ snd (sse_drain (?q\<lparr>sse_buffer := sse_buffer ?q @ c\<rparr>)))"
      using True
      by (subst sse_drain_line) (simp_all add: head_line_append behind_line_append sse_line_frame Let_def)
    show ?thesis
      unfolding step IH by (simp add: sse_drain_line [OF True] Let_def)
  qed
qed

definition sse_ready :: "sse_parser \<Rightarrow> bool" where
  "sse_ready p \<longleftrightarrow> newline \<notin> set (sse_buffer p)"

lemma sse_drain_ready: "sse_ready (fst (sse_drain p))"
proof (induction "length (sse_buffer p)" arbitrary: p rule: less_induct)
  case less
  show ?case
  proof (cases "newline \<in> set (sse_buffer p)")
    case True
    then show ?thesis by (simp add: sse_drain_line Let_def less behind_line_def line_shorter)
  qed (simp add: sse_ready_def)
qed

interpretation sse: chunked_parser sse_push sse_ready
proof
  show "sse_ready (fst (sse_push s xs))" for s xs
    by (simp add: sse_push_def sse_drain_ready)
  show "sse_push s [] = (s, [])" if "sse_ready s" for s
    using that by (simp add: sse_push_def sse_ready_def)
  show "sse_push s (xs @ ys) = (fst (sse_push (fst (sse_push s xs)) ys),
      snd (sse_push s xs) @ snd (sse_push (fst (sse_push s xs)) ys))" for s xs ys
    using sse_drain_append [of "s\<lparr>sse_buffer := sse_buffer s @ xs\<rparr>" ys]
    by (simp add: sse_push_def Let_def)
qed

section \<open>A whole stream\<close>

text \<open>The read loop of a provider stream: every chunk goes through the parser in turn.\<close>

primrec sse_push_all :: "sse_parser \<Rightarrow> string list \<Rightarrow> sse_parser \<times> (string \<times> string) list" where
  "sse_push_all p [] = (p, [])"
| "sse_push_all p (chunk # body) =
    (let (p1, out1) = sse_push p chunk; (p2, out2) = sse_push_all p1 body in (p2, out1 @ out2))"

lemma sse_push_all_feed: "sse_push_all p cs = sse.feed p cs"
  by (induction cs arbitrary: p) (simp_all add: Let_def split_beta)

lemma sse_new_ready [simp]: "sse_ready sse_new"
  by (simp add: sse_ready_def sse_new_def)

text \<open>
  How a provider's bytes are cut into network chunks does not matter: two chunkings of the
  same byte stream give the same frames, in the same order, and leave the parser in the same
  state, even when a cut falls inside a multi-byte character, a line ending or a field name.\<close>

theorem sse_chunking_irrelevant:
  assumes "concat cs = concat ds"
  shows "sse_push_all sse_new cs = sse_push_all sse_new ds"
  using sse.feed_split_irrelevant [OF sse_new_ready assms] by (simp add: sse_push_all_feed)

theorem sse_chunking_irrelevant_witness:
  "sse_push_all sse_new [''data: '' @ [CHR 0xC3], [CHR 0xA9, CHR 0x0A], [CHR 0x0A]] =
   sse_push_all sse_new [''data: '' @ [CHR 0xC3, CHR 0xA9, CHR 0x0A, CHR 0x0A]]"
  by (rule sse_chunking_irrelevant) simp

section \<open>Frames\<close>

lemma trim_start_blank [simp]: "trim_start (CHR '' '' # s) = trim_start s"
  by (subst trim_start.simps) (simp add: ws_len_def ws_at_def)

text \<open>The field lines of a frame as a provider writes them.\<close>

definition event_field :: "string \<Rightarrow> string" where
  "event_field name = ''event: '' @ name"

definition data_field :: "string \<Rightarrow> string" where
  "data_field d = ''data: '' @ d"

definition sse_frame :: "string \<Rightarrow> string list \<Rightarrow> string" where
  "sse_frame name ds =
    event_field name @ [newline] @ concat (map (\<lambda>d. data_field d @ [newline]) ds) @ [newline]"

text \<open>Field values a line can carry: valid text with no line break at its end or inside.\<close>

definition line_text :: "string \<Rightarrow> bool" where
  "line_text s \<longleftrightarrow> newline \<notin> set s \<and> utf8_lossy s = s \<and> (s = [] \<or> last s \<noteq> CHR 0x0D)"

lemma sse_drain_field:
  assumes "line_text l" and "sse_buffer p = l @ newline # rest"
  shows "sse_drain p = (let q = (fst (sse_line l p))\<lparr>sse_buffer := rest\<rparr>
    in (fst (sse_drain q), snd (sse_line l p) @ snd (sse_drain q)))"
proof -
  have no: "newline \<notin> set l" using assms(1) by (simp add: line_text_def)
  then have tw: "takeWhile (\<lambda>c. c \<noteq> newline) (sse_buffer p) = l"
    by (simp add: assms(2) takeWhile_append)
  have "head_line (sse_buffer p) = l"
    using assms(1) by (auto simp: head_line_def tw line_text_def pop_cr_def)
  moreover have "behind_line (sse_buffer p) = rest"
    by (simp add: behind_line_def tw) (simp add: assms(2))
  ultimately show ?thesis using sse_drain_line [of p] assms(2) by simp
qed

lemma line_text_event: "line_text name \<Longrightarrow> line_text (event_field name)"
  by (auto simp: line_text_def event_field_def newline_def utf8_lossy_Cons_ascii)

lemma line_text_data: "line_text d \<Longrightarrow> line_text (data_field d)"
  by (auto simp: line_text_def data_field_def newline_def utf8_lossy_Cons_ascii)

lemma sse_drain_data:
  assumes "\<forall>d \<in> set ds. line_text d \<and> trim_start d = d"
    and "sse_buffer p = concat (map (\<lambda>d. data_field d @ [newline]) ds) @ rest"
  shows "sse_drain p = sse_drain (p\<lparr>sse_data_lines := sse_data_lines p @ ds, sse_buffer := rest\<rparr>)"
  using assms
proof (induction ds arbitrary: p)
  case (Cons d ds)
  have line: "sse_line (data_field d) p = (p\<lparr>sse_data_lines := sse_data_lines p @ [d]\<rparr>, [])"
    using Cons.prems(1) by (simp add: sse_line_def data_field_def strip_prefix_def)
  let ?tail = "concat (map (\<lambda>d. data_field d @ [newline]) ds) @ rest"
  have "sse_drain p = sse_drain (p\<lparr>sse_data_lines := sse_data_lines p @ [d], sse_buffer := ?tail\<rparr>)"
    using sse_drain_field [of "data_field d" p ?tail] Cons.prems
    by (simp add: line_text_data line Let_def)
  also have "\<dots> = sse_drain (p\<lparr>sse_data_lines := sse_data_lines p @ d # ds, sse_buffer := rest\<rparr>)"
    using Cons.prems(1) by (subst Cons.IH) simp_all
  finally show ?case .
next
  case Nil
  then have "p\<lparr>sse_buffer := rest\<rparr> = p" by simp
  then show ?case by simp
qed

text \<open>
  A frame written with an event name and data lines is read back whole: the parser yields
  exactly that name and the data lines joined by line breaks, and is left as it was. The name and
  the lines are valid text without line breaks and without the blanks the parser trims.\<close>

lemma sse_frame_roundtrip:
  assumes "line_text name" and "str_trim name = name"
    and "\<forall>d \<in> set ds. line_text d \<and> trim_start d = d" and "name \<noteq> [] \<or> ds \<noteq> []"
  shows "sse_push sse_new (sse_frame name ds) = (sse_new, [(name, join_newline ds)])"
proof -
  let ?rest = "concat (map (\<lambda>d. data_field d @ [newline]) ds) @ [newline]"
  let ?p = "sse_new\<lparr>sse_event_name := name, sse_buffer := ?rest\<rparr>"
  let ?q = "sse_new\<lparr>sse_event_name := name, sse_data_lines := ds, sse_buffer := [newline]\<rparr>"
  have line: "sse_line (event_field name) p = (p\<lparr>sse_event_name := name\<rparr>, [])" for p
    using assms(2) by (simp add: sse_line_def event_field_def strip_prefix_def str_trim_def)
  have "sse_push sse_new (sse_frame name ds) = sse_drain ?p"
    using sse_drain_field [OF line_text_event [OF assms(1)], of "sse_new\<lparr>sse_buffer := sse_frame name ds\<rparr>" ?rest]
    by (simp add: sse_push_def sse_new_def sse_frame_def line Let_def)
  also have "\<dots> = sse_drain ?q"
    using sse_drain_data [OF assms(3), of ?p "[newline]"] by (simp add: sse_new_def)
  also have "\<dots> = (sse_new, [(name, join_newline ds)])"
    using sse_drain_field [of "[]" ?q "[]"] assms(4)
    by (auto simp: line_text_def sse_line_def sse_new_def Let_def)
  finally show ?thesis .
qed

lemma trim_start_idle: "ws_len s = 0 \<Longrightarrow> trim_start s = s"
  by (simp add: trim_start.simps)

lemma trim_end_idle: "ws_suffix_len s = 0 \<Longrightarrow> trim_end s = s"
  by (simp add: trim_end.simps)

lemmas no_blanks = trim_start_idle trim_end_idle str_trim_def ws_len_def ws_at_def ws_suffix_len_def

lemma sse_frame_roundtrip_witness:
  "sse_push sse_new (sse_frame ''delta'' [''a'', ''b'']) =
    (sse_new, [(''delta'', ''a'' @ [CHR 0x0A] @ ''b'')])"
proof -
  have "line_text ''delta''" "line_text ''a''" "line_text ''b''"
    by (simp_all add: line_text_def newline_def utf8_lossy_ascii)
  moreover have "str_trim ''delta'' = ''delta''" "trim_start ''a'' = ''a''" "trim_start ''b'' = ''b''"
    by (simp_all add: no_blanks)
  ultimately show ?thesis
    using sse_frame_roundtrip [of "''delta''" "[''a'', ''b'']"] by (simp add: newline_def)
qed

end
