(* ===== verification/Line_Diff.thy ===== *)
theory Line_Diff
  imports Janus_Prelude Utf8_Text "HOL-Library.Sublist"
begin

text \<open>
  Line diffs of workspace files: \<open>crates/workspace/src/diff.rs\<close> with the line splitter of
  \<open>crates/workspace/src/manifest.rs\<close>. The tables and the keep marks are lists updated by index,
  as in the code. Counters are naturals: the size caps keep them below \<open>2 ^ 32\<close>.
\<close>

section \<open>Lines of a file\<close>

definition is_text_bytes :: "string \<Rightarrow> bool" where
  "is_text_bytes bytes \<longleftrightarrow> CHR 0x00 \<notin> set bytes"

definition is_terminator :: "char \<Rightarrow> bool" where
  "is_terminator b \<longleftrightarrow> b = CHR 0x0A \<or> b = CHR 0x0D"

text \<open>The length of the line break at index \<open>idx\<close>.\<close>

definition term_len :: "string \<Rightarrow> nat \<Rightarrow> nat" where
  "term_len bytes idx =
    (if bytes ! idx = CHR 0x0D \<and> idx + 1 < length bytes \<and> bytes ! (idx + 1) = CHR 0x0A then 2 else 1)"

text \<open>The iterator run to its end; an input that ends in a line break yields a last empty line.\<close>

function split_lines :: "string \<Rightarrow> string list" where
  "split_lines bytes =
    (if bytes = [] then []
     else let idx = length (takeWhile (\<lambda>b. \<not> is_terminator b) bytes)
          in if idx < length bytes then
               let rest = drop (idx + term_len bytes idx) bytes
               in take idx bytes # (if rest = [] then [[]] else split_lines rest)
             else [bytes])"
  by auto
termination
  by (relation "measure length") (auto simp: term_len_def)

declare split_lines.simps [simp del]

section \<open>The edit script\<close>

datatype op = Equal | Delete | Insert

definition dp_cell :: "'a list \<Rightarrow> 'a list \<Rightarrow> nat \<Rightarrow> nat \<Rightarrow> nat list list \<Rightarrow> nat list list" where
  "dp_cell old new i j dp =
    dp[i := (dp ! i)[j :=
      (if old ! i = new ! j then dp ! (i + 1) ! (j + 1) + 1
       else max (dp ! (i + 1) ! j) (dp ! i ! (j + 1)))]]"

definition dp_row :: "'a list \<Rightarrow> 'a list \<Rightarrow> nat \<Rightarrow> nat list list \<Rightarrow> nat list list" where
  "dp_row old new i dp = fold (dp_cell old new i) (List.rev [0..<length new]) dp"

definition dp_table :: "'a list \<Rightarrow> 'a list \<Rightarrow> nat list list" where
  "dp_table old new =
    fold (dp_row old new) (List.rev [0..<length old])
      (replicate (length old + 1) (replicate (length new + 1) 0))"

function lcs_walk :: "'a list \<Rightarrow> 'a list \<Rightarrow> nat list list \<Rightarrow> nat \<Rightarrow> nat \<Rightarrow> op list" where
  "lcs_walk old new dp i j =
    (if i < length old \<and> j < length new then
       if old ! i = new ! j then Equal # lcs_walk old new dp (i + 1) (j + 1)
       else if dp ! i ! (j + 1) \<le> dp ! (i + 1) ! j then Delete # lcs_walk old new dp (i + 1) j
       else Insert # lcs_walk old new dp i (j + 1)
     else replicate (length old - i) Delete @ replicate (length new - j) Insert)"
  by auto
termination
  by (relation "measure (\<lambda>(old, new, dp, i, j). (length old - i) + (length new - j))") auto

declare lcs_walk.simps [simp del]

definition lcs_ops :: "'a list \<Rightarrow> 'a list \<Rightarrow> op list" where
  "lcs_ops old new = lcs_walk old new (dp_table old new) 0 0"

section \<open>Hunks\<close>

datatype diff_line_kind = KContext | KAdd | KDelete | KSkip

record diff_line =
  dl_kind :: diff_line_kind
  dl_old_no :: "nat option"
  dl_new_no :: "nat option"
  dl_text :: string

record diff_hunk =
  dh_lines :: "diff_line list"

definition MAX_DIFF_BYTES :: nat where "MAX_DIFF_BYTES = 200 * 1024"
definition MAX_DIFF_LINES :: nat where "MAX_DIFF_LINES = 4000"
definition CONTEXT_LINES :: nat where "CONTEXT_LINES = 3"

definition line_to_string :: "string \<Rightarrow> string" where
  "line_to_string bytes = utf8_lossy bytes"

text \<open>The two inner loops that mark the unchanged lines around a change.\<close>

function walk_left :: "op list \<Rightarrow> nat \<Rightarrow> nat \<Rightarrow> bool list \<Rightarrow> bool list" where
  "walk_left ops k left keep =
    (if 0 < k \<and> left < CONTEXT_LINES then
       if ops ! (k - 1) = Equal then walk_left ops (k - 1) (left + 1) (keep[k - 1 := True])
       else keep
     else keep)"
  by auto
termination by (relation "measure (\<lambda>(ops, k, left, keep). k)") auto

function walk_right :: "op list \<Rightarrow> nat \<Rightarrow> nat \<Rightarrow> bool list \<Rightarrow> bool list" where
  "walk_right ops k right keep =
    (if k < length ops \<and> right < CONTEXT_LINES then
       if ops ! k = Equal then walk_right ops (k + 1) (right + 1) (keep[k := True]) else keep
     else keep)"
  by auto
termination by (relation "measure (\<lambda>(ops, k, right, keep). length ops - k)") auto

declare walk_left.simps [simp del] walk_right.simps [simp del]

definition mark_op :: "op list \<Rightarrow> nat \<Rightarrow> bool list \<Rightarrow> bool list" where
  "mark_op ops idx keep =
    (if ops ! idx = Delete \<or> ops ! idx = Insert then
       walk_right ops (idx + 1) 0 (walk_left ops idx 0 (keep[idx := True]))
     else keep)"

definition keep_marks :: "op list \<Rightarrow> bool list" where
  "keep_marks ops = fold (mark_op ops) [0..<length ops] (replicate (length ops) False)"

definition has_change :: "op list \<Rightarrow> bool" where
  "has_change ops \<longleftrightarrow> list_ex (\<lambda>o1. o1 = Delete \<or> o1 = Insert) ops"

definition skip_line :: "nat \<Rightarrow> diff_line" where
  "skip_line skipped = \<lparr>dl_kind = KSkip, dl_old_no = None, dl_new_no = None,
    dl_text = ''... '' @ string_of_nat skipped @ '' lines''\<rparr>"

text \<open>The inner loop over a collapsed run: how many marks from \<open>i\<close> on are false.\<close>

function skip_run :: "op list \<Rightarrow> bool list \<Rightarrow> nat \<Rightarrow> nat \<Rightarrow> nat" where
  "skip_run ops keep i skipped =
    (if i < length ops \<and> \<not> keep ! i then skip_run ops keep (i + 1) (skipped + 1) else skipped)"
  by auto
termination by (relation "measure (\<lambda>(ops, keep, i, skipped). length ops - i)") auto

declare skip_run.simps [simp del]

lemma skip_run_ge: "skipped \<le> skip_run ops keep i skipped"
proof (induction ops keep i skipped rule: skip_run.induct)
  case (1 ops keep i skipped)
  then show ?case by (subst skip_run.simps) auto
qed

lemma skip_run_pos: "i < length ops \<Longrightarrow> \<not> keep ! i \<Longrightarrow> 0 < skip_run ops keep i 0"
  using skip_run_ge [of 1 ops keep "i + 1"] by (subst skip_run.simps) auto

lemma skip_run_advances:
  "i < length ops \<Longrightarrow> \<not> keep ! i \<Longrightarrow> length ops - (i + skip_run ops keep i 0) < length ops - i"
  using skip_run_pos [of i ops keep] by linarith

function render_lines ::
  "op list \<Rightarrow> bool list \<Rightarrow> string list \<Rightarrow> string list \<Rightarrow> nat \<Rightarrow> nat \<Rightarrow> nat \<Rightarrow> nat \<Rightarrow> nat \<Rightarrow> diff_line list"
  where
  "render_lines ops keep old new i oi ni old_no new_no =
    (if i < length ops then
       if keep ! i then
         (case ops ! i of
            Equal \<Rightarrow> \<lparr>dl_kind = KContext, dl_old_no = Some old_no, dl_new_no = Some new_no,
                dl_text = line_to_string (old ! oi)\<rparr> #
              render_lines ops keep old new (i + 1) (oi + 1) (ni + 1) (old_no + 1) (new_no + 1)
          | Delete \<Rightarrow> \<lparr>dl_kind = KDelete, dl_old_no = Some old_no, dl_new_no = None,
                dl_text = line_to_string (old ! oi)\<rparr> #
              render_lines ops keep old new (i + 1) (oi + 1) ni (old_no + 1) new_no
          | Insert \<Rightarrow> \<lparr>dl_kind = KAdd, dl_old_no = None, dl_new_no = Some new_no,
                dl_text = line_to_string (new ! ni)\<rparr> #
              render_lines ops keep old new (i + 1) oi (ni + 1) old_no (new_no + 1))
       else
         let skipped = skip_run ops keep i 0
         in (if 0 < skipped then [skip_line skipped] else []) @
            render_lines ops keep old new (i + skipped) (oi + skipped) (ni + skipped)
              (old_no + skipped) (new_no + skipped)
     else [])"
  by auto
termination
  by (relation "measure (\<lambda>(ops, keep, old, new, i, _). length ops - i)")
    (auto simp: skip_run_advances)

declare render_lines.simps [simp del]

definition collapse_ops :: "op list \<Rightarrow> string list \<Rightarrow> string list \<Rightarrow> diff_hunk list" where
  "collapse_ops ops old new =
    (if ops = [] then []
     else let keep = keep_marks ops
          in if \<not> has_change ops then []
             else let lines = render_lines ops keep old new 0 0 0 1 1
                  in if lines = [] then [] else [\<lparr>dh_lines = lines\<rparr>])"

definition line_hunks :: "string \<Rightarrow> string \<Rightarrow> diff_hunk list \<times> bool" where
  "line_hunks session_bytes main_bytes =
    (if MAX_DIFF_BYTES < length session_bytes \<or> MAX_DIFF_BYTES < length main_bytes then ([], True)
     else if \<not> is_text_bytes session_bytes \<or> \<not> is_text_bytes main_bytes then ([], True)
     else let session_lines = split_lines session_bytes; main_lines = split_lines main_bytes
          in if MAX_DIFF_LINES < length session_lines \<or> MAX_DIFF_LINES < length main_lines
             then ([], True)
             else (collapse_ops (lcs_ops main_lines session_lines) main_lines session_lines, False))"

end
