(* ===== verification/Diff_Correct.thy ===== *)
theory Diff_Correct
  imports Line_Diff
begin

text \<open>
  The line differ meets its specification: the table holds longest common subsequences, the edit
  script turns the old lines into the new ones with the fewest changes, and the rendered hunk is
  the full numbered listing with the lines away from every change collapsed.
\<close>

section \<open>Longest common subsequences\<close>

fun lcs :: "'a list \<Rightarrow> 'a list \<Rightarrow> nat" where
  "lcs [] ys = 0"
| "lcs (x # xs) [] = 0"
| "lcs (x # xs) (y # ys) =
    (if x = y then lcs xs ys + 1 else max (lcs xs (y # ys)) (lcs (x # xs) ys))"

lemma lcs_Nil2 [simp]: "lcs xs [] = 0"
  by (cases xs) auto

lemma lcs_upper: "subseq zs xs \<Longrightarrow> subseq zs ys \<Longrightarrow> length zs \<le> lcs xs ys"
proof (induction xs ys arbitrary: zs rule: lcs.induct)
  case (3 x xs y ys)
  show ?case
  proof (cases zs)
    case (Cons z zs')
    show ?thesis
    proof (cases "x = y")
      case True
      then have "subseq zs' xs" "subseq zs' ys"
        using 3 Cons by (auto simp: subseq_Cons2_iff split: if_splits dest: subseq_Cons')
      then show ?thesis using 3(1) [OF True] Cons True by auto
    next
      case False
      have "subseq zs xs \<or> subseq zs ys"
        using 3 Cons False by (auto simp: subseq_Cons2_iff split: if_splits)
      then show ?thesis using 3(2,3) [OF False] 3(4,5) False by fastforce
    qed
  qed simp
qed auto

lemma lcs_drop_step:
  "i < length xs \<Longrightarrow> j < length ys \<Longrightarrow> lcs (drop i xs) (drop j ys) =
    (if xs ! i = ys ! j then lcs (drop (i + 1) xs) (drop (j + 1) ys) + 1
     else max (lcs (drop (i + 1) xs) (drop j ys)) (lcs (drop i xs) (drop (j + 1) ys)))"
  by (simp add: Cons_nth_drop_Suc [symmetric])

section \<open>The table\<close>

lemma fold_down:
  assumes "Inv k s" and "\<And>i s. i < k \<Longrightarrow> Inv (Suc i) s \<Longrightarrow> Inv i (f i s)"
  shows "Inv 0 (fold f (List.rev [0..<k]) s)"
  using assms
proof (induction k arbitrary: s)
  case (Suc k)
  have "Inv 0 (fold f (List.rev [0..<k]) (f k s))"
    using Suc.prems by (intro Suc.IH) auto
  then show ?case by simp
qed simp

definition dp_shape :: "'a list \<Rightarrow> 'a list \<Rightarrow> nat list list \<Rightarrow> bool" where
  "dp_shape old new dp \<longleftrightarrow>
    length dp = length old + 1 \<and> (\<forall>i \<le> length old. length (dp ! i) = length new + 1)"

text \<open>Rows from \<open>i\<close> on are filled, and every row ends in zero.\<close>

definition dp_rows :: "'a list \<Rightarrow> 'a list \<Rightarrow> nat \<Rightarrow> nat list list \<Rightarrow> bool" where
  "dp_rows old new i dp \<longleftrightarrow> dp_shape old new dp \<and>
    (\<forall>a \<le> length old. dp ! a ! length new = 0) \<and>
    (\<forall>a b. i \<le> a \<longrightarrow> a \<le> length old \<longrightarrow> b \<le> length new \<longrightarrow>
       dp ! a ! b = lcs (drop a old) (drop b new))"

definition dp_cells :: "'a list \<Rightarrow> 'a list \<Rightarrow> nat \<Rightarrow> nat \<Rightarrow> nat list list \<Rightarrow> bool" where
  "dp_cells old new i j dp \<longleftrightarrow> dp_rows old new (Suc i) dp \<and>
    (\<forall>b. j \<le> b \<longrightarrow> b \<le> length new \<longrightarrow> dp ! i ! b = lcs (drop i old) (drop b new))"

lemma dp_cell_inv:
  assumes "i < length old" and "j < length new" and "dp_cells old new i (Suc j) dp"
  shows "dp_cells old new i j (dp_cell old new i j dp)"
proof -
  let ?v = "lcs (drop i old) (drop j new)"
  have len: "length dp = length old + 1" "\<And>a. a \<le> length old \<Longrightarrow> length (dp ! a) = length new + 1"
    and zero: "\<And>a. a \<le> length old \<Longrightarrow> dp ! a ! length new = 0"
    and rows: "\<And>a b. Suc i \<le> a \<Longrightarrow> a \<le> length old \<Longrightarrow> b \<le> length new \<Longrightarrow> dp ! a ! b = lcs (drop a old) (drop b new)"
    and cells: "\<And>b. Suc j \<le> b \<Longrightarrow> b \<le> length new \<Longrightarrow> dp ! i ! b = lcs (drop i old) (drop b new)"
    using assms(3) by (auto simp: dp_cells_def dp_rows_def dp_shape_def)
  have eq: "dp_cell old new i j dp = dp[i := (dp ! i)[j := ?v]]"
    using assms(1,2) by (simp add: dp_cell_def lcs_drop_step rows cells)
  have at: "dp[i := (dp ! i)[j := ?v]] ! a ! b =
      (if a = i \<and> b = j then ?v else dp ! a ! b)" if "a \<le> length old" "b \<le> length new" for a b
    using that assms(1,2) len by (simp add: nth_list_update)
  have "dp_shape old new (dp[i := (dp ! i)[j := ?v]])"
    using len assms(1) by (auto simp: dp_shape_def nth_list_update)
  then show ?thesis
    unfolding eq dp_cells_def dp_rows_def
    using at zero rows cells assms(1,2) by (auto simp: le_Suc_eq not_less_eq_eq dest: le_antisym)
qed

lemma dp_row_inv:
  assumes "i < length old" and "dp_rows old new (Suc i) dp"
  shows "dp_rows old new i (dp_row old new i dp)"
proof -
  have start: "dp_cells old new i (length new) dp"
    using assms by (auto simp: dp_cells_def dp_rows_def)
  have "dp_cells old new i 0 (dp_row old new i dp)"
    unfolding dp_row_def
    by (rule fold_down [where Inv = "dp_cells old new i", OF start]) (rule dp_cell_inv [OF assms(1)])
  then show ?thesis
    by (auto simp: dp_cells_def dp_rows_def) (metis le_antisym not_less_eq_eq)
qed

lemma dp_table_rows: "dp_rows old new 0 (dp_table old new)"
proof -
  have start: "dp_rows old new (length old) (replicate (length old + 1) (replicate (length new + 1) 0))"
    by (auto simp: dp_rows_def dp_shape_def simp del: replicate_Suc)
  show ?thesis
    unfolding dp_table_def
    by (rule fold_down [where Inv = "dp_rows old new", OF start]) (rule dp_row_inv)
qed

lemma dp_table_lcs:
  "i \<le> length old \<Longrightarrow> j \<le> length new \<Longrightarrow> dp_table old new ! i ! j = lcs (drop i old) (drop j new)"
  using dp_table_rows [of old new] by (simp add: dp_rows_def)

section \<open>The script\<close>

text \<open>Applying a script: equal lines are copied from the old file, inserted ones from the new.\<close>

fun patch :: "op list \<Rightarrow> 'a list \<Rightarrow> 'a list \<Rightarrow> 'a list option" where
  "patch [] [] new = Some []"
| "patch (Equal # ops) (x # old) new = map_option (Cons x) (patch ops old (List.tl new))"
| "patch (Delete # ops) (x # old) new = patch ops old new"
| "patch (Insert # ops) old (y # new) = map_option (Cons y) (patch ops old new)"
| "patch _ _ _ = None"

definition equals :: "op list \<Rightarrow> nat" where
  "equals ops = count_list ops Equal"

lemma equals_Cons [simp]: "equals (o1 # ops) = (if o1 = Equal then 1 else 0) + equals ops"
  by (simp add: equals_def)

lemma equals_append [simp]: "equals (xs @ ys) = equals xs + equals ys"
  by (simp add: equals_def)

lemma equals_replicate: "o1 \<noteq> Equal \<Longrightarrow> equals (replicate n o1) = 0"
  by (simp add: equals_def)

lemma patch_tail:
  "patch (replicate (length xs) Delete @ replicate (length ys) Insert) xs ys = Some ys"
proof (induction xs)
  case Nil
  show ?case by (induction ys) auto
qed simp

lemma lcs_walk_correct:
  assumes "\<And>a b. a \<le> length old \<Longrightarrow> b \<le> length new \<Longrightarrow> dp ! a ! b = lcs (drop a old) (drop b new)"
  shows "i \<le> length old \<Longrightarrow> j \<le> length new \<Longrightarrow>
    patch (lcs_walk old new dp i j) (drop i old) (drop j new) = Some (drop j new) \<and>
    equals (lcs_walk old new dp i j) = lcs (drop i old) (drop j new)"
  using assms
proof (induction old new dp i j rule: lcs_walk.induct)
  case (1 old new dp i j)
  show ?case
  proof (cases "i < length old \<and> j < length new")
    case False
    then have "lcs (drop i old) (drop j new) = 0" by auto
    moreover have "lcs_walk old new dp i j =
        replicate (length (drop i old)) Delete @ replicate (length (drop j new)) Insert"
      using False by (subst lcs_walk.simps) auto
    ultimately show ?thesis by (simp only: patch_tail) (simp add: equals_replicate)
  next
    case True
    then have d: "drop i old = old ! i # drop (i + 1) old" "drop j new = new ! j # drop (j + 1) new"
      by (simp_all add: Cons_nth_drop_Suc)
    note step = lcs_walk.simps [of old new dp i j]
    consider (eq) "old ! i = new ! j"
      | (del) "old ! i \<noteq> new ! j" "dp ! i ! (j + 1) \<le> dp ! (i + 1) ! j"
      | (ins) "old ! i \<noteq> new ! j" "\<not> dp ! i ! (j + 1) \<le> dp ! (i + 1) ! j" by blast
    then show ?thesis
    proof cases
      case eq
      then show ?thesis
        using 1(1) [OF True eq] 1(6) True
        by (simp add: step d lcs_drop_step)
    next
      case del
      then have "lcs (drop i old) (drop (j + 1) new) \<le> lcs (drop (i + 1) old) (drop j new)"
        using 1(6) True by simp
      then show ?thesis
        using 1(2) [OF True del] 1(6) True del
        by (simp add: step d)
    next
      case ins
      then have "lcs (drop (i + 1) old) (drop j new) \<le> lcs (drop i old) (drop (j + 1) new)"
        using 1(6) True by simp
      then show ?thesis
        using 1(3) [OF True ins] 1(6) True ins
        by (simp add: step d)
    qed
  qed
qed

lemma lcs_ops_correct:
  "patch (lcs_ops old new) old new = Some new \<and> equals (lcs_ops old new) = lcs old new"
  using lcs_walk_correct [of old new "dp_table old new" 0 0] dp_table_lcs
  by (auto simp: lcs_ops_def)

section \<open>The script is minimal\<close>

definition changes :: "op list \<Rightarrow> nat" where
  "changes ops = count_list ops Delete + count_list ops Insert"

lemma patch_counts:
  "patch ops old new = Some r \<Longrightarrow>
    equals ops + count_list ops Delete = length old \<and> equals ops + count_list ops Insert = length r"
proof (induction ops old new arbitrary: r rule: patch.induct)
  case (1 new) then show ?case by (auto simp: equals_def)
next
  case (2 ops x old new) then show ?case by fastforce
next
  case (3 ops x old new) then show ?case by fastforce
next
  case (4 ops old y new) then show ?case by fastforce
qed auto

lemma patch_common:
  "patch ops old new = Some r \<Longrightarrow> \<exists>zs. length zs = equals ops \<and> subseq zs old \<and> subseq zs r"
proof (induction ops old new arbitrary: r rule: patch.induct)
  case (1 new)
  then show ?case by (auto simp: equals_def)
next
  case (2 ops x old new)
  then obtain r' zs where "r = x # r'" "length zs = equals ops" "subseq zs old" "subseq zs r'" by force
  then show ?case by (intro exI [of _ "x # zs"]) simp
next
  case (3 ops x old new)
  then show ?case by force
next
  case (4 ops old y new)
  then obtain r' zs where "r = y # r'" "length zs = equals ops" "subseq zs old" "subseq zs r'" by force
  then show ?case by (intro exI [of _ zs]) (simp add: list_emb_Cons)
qed auto

text \<open>
  C23. The edit script is right and minimal: applied to the old lines it produces exactly the new
  ones, and no script that does so deletes and inserts fewer lines.\<close>

theorem edit_script_minimal:
  assumes "patch other old new = Some new"
  shows "patch (lcs_ops old new) old new = Some new \<and> changes (lcs_ops old new) \<le> changes other"
proof -
  have "equals other \<le> lcs old new"
    using patch_common [OF assms] lcs_upper [of _ old new] by fastforce
  then show ?thesis
    using lcs_ops_correct [of old new] patch_counts [OF assms] patch_counts [of "lcs_ops old new" old new new]
    by (auto simp: changes_def)
qed

theorem edit_script_minimal_witness:
  "changes (lcs_ops [''a'', ''b'', ''c''] [''a'', ''c'', ''d'']) \<le> 2"
  using edit_script_minimal [of "[Equal, Delete, Equal, Insert]" "[''a'', ''b'', ''c'']" "[''a'', ''c'', ''d'']"]
  by (simp add: changes_def)

lemma has_change_changes: "has_change ops \<longleftrightarrow> changes ops \<noteq> 0"
  by (auto simp: has_change_def changes_def list_ex_iff count_list_0_iff)

lemma patch_all_equal: "patch ops old new = Some r \<Longrightarrow> changes ops = 0 \<Longrightarrow> r = old"
  by (induction ops old new arbitrary: r rule: patch.induct) (auto simp: changes_def)

lemma has_change_iff: "has_change (lcs_ops old new) \<longleftrightarrow> old \<noteq> new"
proof
  assume "has_change (lcs_ops old new)"
  moreover have "changes (lcs_ops old old) = 0"
    using lcs_ops_correct [of old old] patch_counts [of "lcs_ops old old" old old old]
      lcs_upper [of old old old] by (simp add: changes_def)
  ultimately show "old \<noteq> new" by (auto simp: has_change_changes)
next
  assume "old \<noteq> new"
  then show "has_change (lcs_ops old new)"
    using lcs_ops_correct [of old new] patch_all_equal by (auto simp: has_change_changes)
qed

section \<open>The kept lines\<close>

text \<open>A position is kept when a change is at most \<open>CONTEXT_LINES\<close> positions away.\<close>

definition near_change :: "op list \<Rightarrow> nat \<Rightarrow> bool" where
  "near_change ops k \<longleftrightarrow>
    list_ex (\<lambda>idx. ops ! idx \<noteq> Equal \<and> idx \<le> k + CONTEXT_LINES \<and> k \<le> idx + CONTEXT_LINES) [0..<length ops]"

lemma walk_left_marks:
  "k \<le> length keep \<Longrightarrow> p < length keep \<Longrightarrow>
    length (walk_left ops k left keep) = length keep \<and>
    (walk_left ops k left keep ! p \<longleftrightarrow> keep ! p \<or>
      p < k \<and> k - p \<le> CONTEXT_LINES - left \<and> (\<forall>q. p \<le> q \<and> q < k \<longrightarrow> ops ! q = Equal))"
proof (induction ops k left keep rule: walk_left.induct)
  case (1 ops k left keep)
  show ?case
  proof (cases "0 < k \<and> left < CONTEXT_LINES \<and> ops ! (k - 1) = Equal")
    case True
    have "(\<forall>q. p \<le> q \<and> q < k \<longrightarrow> ops ! q = Equal) \<longleftrightarrow> (\<forall>q. p \<le> q \<and> q < k - 1 \<longrightarrow> ops ! q = Equal)"
      if "p < k"
    proof
      assume *: "\<forall>q. p \<le> q \<and> q < k - 1 \<longrightarrow> ops ! q = Equal"
      show "\<forall>q. p \<le> q \<and> q < k \<longrightarrow> ops ! q = Equal"
      proof (intro allI impI)
        fix q assume "p \<le> q \<and> q < k"
        then show "ops ! q = Equal" using * True by (cases "q = k - 1") auto
      qed
    qed auto
    moreover have "p = k - 1 \<or> p < k - 1 \<longleftrightarrow> p < k" using True by auto
    ultimately show ?thesis
      using 1 True by (subst (1 2) walk_left.simps) (auto simp: nth_list_update)
  next
    case False
    moreover have "\<not> (p < k \<and> k - p \<le> CONTEXT_LINES - left \<and> (\<forall>q. p \<le> q \<and> q < k \<longrightarrow> ops ! q = Equal))"
    proof
      assume a: "p < k \<and> k - p \<le> CONTEXT_LINES - left \<and> (\<forall>q. p \<le> q \<and> q < k \<longrightarrow> ops ! q = Equal)"
      then have "ops ! (k - 1) = Equal" by auto
      with a False show False by auto
    qed
    ultimately show ?thesis by (subst (1 2) walk_left.simps) auto
  qed
qed

lemma walk_right_marks:
  "length keep = length ops \<Longrightarrow> p < length keep \<Longrightarrow>
    length (walk_right ops k right keep) = length keep \<and>
    (walk_right ops k right keep ! p \<longleftrightarrow> keep ! p \<or>
      k \<le> p \<and> p - k < CONTEXT_LINES - right \<and> (\<forall>q. k \<le> q \<and> q \<le> p \<longrightarrow> ops ! q = Equal))"
proof (induction ops k right keep rule: walk_right.induct)
  case (1 ops k right keep)
  show ?case
  proof (cases "k < length ops \<and> right < CONTEXT_LINES \<and> ops ! k = Equal")
    case True
    have "(\<forall>q. k \<le> q \<and> q \<le> p \<longrightarrow> ops ! q = Equal) \<longleftrightarrow> (\<forall>q. k + 1 \<le> q \<and> q \<le> p \<longrightarrow> ops ! q = Equal)"
    proof
      assume *: "\<forall>q. k + 1 \<le> q \<and> q \<le> p \<longrightarrow> ops ! q = Equal"
      show "\<forall>q. k \<le> q \<and> q \<le> p \<longrightarrow> ops ! q = Equal"
      proof (intro allI impI)
        fix q assume "k \<le> q \<and> q \<le> p"
        then show "ops ! q = Equal" using * True by (cases "q = k") auto
      qed
    qed auto
    then show ?thesis
      using 1 True by (subst (1 2) walk_right.simps) (auto simp: nth_list_update)
  next
    case False
    then have "\<not> (k \<le> p \<and> p - k < CONTEXT_LINES - right \<and> (\<forall>q. k \<le> q \<and> q \<le> p \<longrightarrow> ops ! q = Equal))"
      using 1(2,3) by auto
    then show ?thesis using False by (subst (1 2) walk_right.simps) auto
  qed
qed

definition reach :: "op list \<Rightarrow> nat \<Rightarrow> nat \<Rightarrow> bool" where
  "reach ops idx p \<longleftrightarrow> ops ! idx \<noteq> Equal \<and> idx \<le> p + CONTEXT_LINES \<and> p \<le> idx + CONTEXT_LINES \<and>
    (\<forall>q. p \<le> q \<and> q < idx \<or> idx < q \<and> q \<le> p \<longrightarrow> ops ! q = Equal)"

lemma not_Equal: "o1 \<noteq> Equal \<longleftrightarrow> o1 = Delete \<or> o1 = Insert"
  by (cases o1) auto

lemma mark_op_marks:
  assumes "length keep = length ops" and "p < length ops" and "idx < length ops"
  shows "length (mark_op ops idx keep) = length keep \<and>
    (mark_op ops idx keep ! p \<longleftrightarrow> keep ! p \<or> reach ops idx p)"
proof (cases "ops ! idx = Equal")
  case True
  then show ?thesis by (simp add: mark_op_def reach_def)
next
  case False
  let ?L = "walk_left ops idx 0 (keep[idx := True])"
  have L: "length ?L = length keep" "?L ! p \<longleftrightarrow> keep[idx := True] ! p \<or>
      p < idx \<and> idx - p \<le> CONTEXT_LINES \<and> (\<forall>q. p \<le> q \<and> q < idx \<longrightarrow> ops ! q = Equal)"
    using walk_left_marks [of idx "keep[idx := True]" p ops 0] assms by auto
  have R: "length (walk_right ops (idx + 1) 0 ?L) = length keep"
    "walk_right ops (idx + 1) 0 ?L ! p \<longleftrightarrow> ?L ! p \<or>
      idx + 1 \<le> p \<and> p - (idx + 1) < CONTEXT_LINES \<and> (\<forall>q. idx + 1 \<le> q \<and> q \<le> p \<longrightarrow> ops ! q = Equal)"
    using walk_right_marks [of ?L ops p "idx + 1" 0] assms L(1) by auto
  have "mark_op ops idx keep = walk_right ops (idx + 1) 0 ?L"
    using False by (simp add: mark_op_def not_Equal)
  moreover consider "p = idx" | "p < idx" | "idx < p" by linarith
  then have "walk_right ops (idx + 1) 0 ?L ! p \<longleftrightarrow> keep ! p \<or> reach ops idx p"
    unfolding R(2) L(2) reach_def using False assms
    by cases (auto simp: nth_list_update Suc_le_eq)
  ultimately show ?thesis using R(1) by simp
qed

lemma keep_marks_reach:
  assumes "p < length ops"
  shows "length (keep_marks ops) = length ops \<and>
    (keep_marks ops ! p \<longleftrightarrow> (\<exists>idx < length ops. reach ops idx p))"
proof -
  have "length (fold (mark_op ops) [0..<n] (replicate (length ops) False)) = length ops \<and>
      (fold (mark_op ops) [0..<n] (replicate (length ops) False) ! p \<longleftrightarrow> (\<exists>idx < n. reach ops idx p))"
    if "n \<le> length ops" for n
    using that
  proof (induction n)
    case (Suc n)
    then show ?case
      using mark_op_marks [of "fold (mark_op ops) [0..<n] (replicate (length ops) False)" ops p n] assms
      by (auto simp: less_Suc_eq)
  qed (use assms in simp)
  then show ?thesis by (simp add: keep_marks_def)
qed

text \<open>The nearest change reaches a position whenever some change is near enough.\<close>

lemma nearest_change_reaches:
  assumes "p < length ops" and "idx < length ops" and "ops ! idx \<noteq> Equal" and "idx \<le> p + CONTEXT_LINES" and "p \<le> idx + CONTEXT_LINES"
  shows "\<exists>i < length ops. reach ops i p"
  using assms
proof (induction "(idx - p) + (p - idx)" arbitrary: idx rule: less_induct)
  case less
  show ?case
  proof (cases "reach ops idx p")
    case False
    then obtain q where q: "p \<le> q \<and> q < idx \<or> idx < q \<and> q \<le> p" "ops ! q \<noteq> Equal"
      using less.prems by (auto simp: reach_def)
    show ?thesis
      by (rule less.hyps [of q]) (use q less.prems in auto)
  qed (use less.prems in auto)
qed

lemma keep_marks_near:
  assumes "p < length ops"
  shows "keep_marks ops ! p \<longleftrightarrow> near_change ops p"
proof -
  have "keep_marks ops ! p \<longleftrightarrow> (\<exists>idx < length ops. reach ops idx p)"
    using keep_marks_reach [OF assms] by simp
  also have "\<dots> \<longleftrightarrow> (\<exists>idx < length ops. ops ! idx \<noteq> Equal \<and>
      idx \<le> p + CONTEXT_LINES \<and> p \<le> idx + CONTEXT_LINES)"
    using nearest_change_reaches [OF assms] reach_def [of ops] by blast
  also have "\<dots> \<longleftrightarrow> near_change ops p" by (auto simp: near_change_def list_ex_iff)
  finally show ?thesis .
qed

lemma keep_marks_eq: "ops \<noteq> [] \<Longrightarrow> keep_marks ops = map (near_change ops) [0..<length ops]"
  using keep_marks_reach [of 0 ops] by (intro nth_equalityI) (auto simp: keep_marks_near)

section \<open>The rendered listing\<close>

text \<open>The full numbered listing of a script, and the collapse of its unkept runs.\<close>

fun listing :: "op list \<Rightarrow> string list \<Rightarrow> string list \<Rightarrow> nat \<Rightarrow> nat \<Rightarrow> diff_line list" where
  "listing (Equal # ops) (x # old) new a b =
    \<lparr>dl_kind = KContext, dl_old_no = Some a, dl_new_no = Some b, dl_text = line_to_string x\<rparr> #
    listing ops old (List.tl new) (a + 1) (b + 1)"
| "listing (Delete # ops) (x # old) new a b =
    \<lparr>dl_kind = KDelete, dl_old_no = Some a, dl_new_no = None, dl_text = line_to_string x\<rparr> #
    listing ops old new (a + 1) b"
| "listing (Insert # ops) old (y # new) a b =
    \<lparr>dl_kind = KAdd, dl_old_no = None, dl_new_no = Some b, dl_text = line_to_string y\<rparr> #
    listing ops old new a (b + 1)"
| "listing _ _ _ _ _ = []"

function collapse :: "(diff_line \<times> bool) list \<Rightarrow> diff_line list" where
  "collapse xs =
    (if xs = [] then []
     else if snd (hd xs) then fst (hd xs) # collapse (List.tl xs)
     else let n = length (takeWhile (\<lambda>x. \<not> snd x) xs) in skip_line n # collapse (drop n xs))"
  by auto
termination
proof (relation "measure length", goal_cases)
  case (3 xs n)
  then show ?case by (cases xs) auto
qed auto

declare collapse.simps [simp del]

lemma skip_run_takeWhile:
  "i \<le> length keep \<Longrightarrow> length keep = length ops \<Longrightarrow>
    skip_run ops keep i s = s + length (takeWhile Not (drop i keep))"
proof (induction ops keep i s rule: skip_run.induct)
  case (1 ops keep i s)
  show ?case
  proof (cases "i < length ops")
    case True
    then show ?thesis
      using 1 by (subst skip_run.simps) (simp add: Cons_nth_drop_Suc [symmetric])
  qed (use 1 in \<open>subst skip_run.simps, simp\<close>)
qed

text \<open>A run of equal lines moves both files and both counters on together.\<close>

lemma equal_run:
  "n \<le> length ops \<Longrightarrow> (\<forall>k < n. ops ! k = Equal) \<Longrightarrow> patch ops old new \<noteq> None \<Longrightarrow>
    patch (drop n ops) (drop n old) (drop n new) \<noteq> None \<and>
    drop n (listing ops old new a b) = listing (drop n ops) (drop n old) (drop n new) (a + n) (b + n) \<and>
    n \<le> length (listing ops old new a b)"
proof (induction n arbitrary: ops old new a b)
  case (Suc n)
  then obtain ops' where ops: "ops = Equal # ops'" by (cases ops) auto
  then obtain x old' where old: "old = x # old'" using Suc.prems(3) by (cases old) auto
  have "\<forall>k < n. ops' ! k = Equal" using Suc.prems(2) ops by (metis Suc_mono nth_Cons_Suc)
  then show ?case
    using Suc.IH [of ops' old' "List.tl new" "a + 1" "b + 1"] Suc.prems ops old
    by (cases new) (auto simp: drop_Suc)
qed simp

lemma takeWhile_zip_snd:
  "length xs = length ys \<Longrightarrow> length (takeWhile (\<lambda>x. \<not> snd x) (zip xs ys)) = length (takeWhile Not ys)"
  by (induction xs ys rule: list_induct2) auto

lemma listing_length: "patch ops old new \<noteq> None \<Longrightarrow> length (listing ops old new a b) = length ops"
  by (induction ops old new arbitrary: a b rule: patch.induct) auto

lemma collapse_kept: "k \<Longrightarrow> collapse ((l, k) # xs) = l # collapse xs"
  by (subst collapse.simps) simp

lemma collapse_skip:
  "xs \<noteq> [] \<Longrightarrow> \<not> snd (hd xs) \<Longrightarrow> collapse xs =
    skip_line (length (takeWhile (\<lambda>x. \<not> snd x) xs)) # collapse (drop (length (takeWhile (\<lambda>x. \<not> snd x) xs)) xs)"
  by (simp add: collapse.simps [of xs] Let_def)

lemma drop_ConsD: "drop i xs = x # ys \<Longrightarrow> xs ! i = x \<and> drop (i + 1) xs = ys"
  by (metis Suc_eq_plus1 drop_Suc list.sel(3) nth_via_drop tl_drop)

text \<open>A skipped run stays inside the script and holds equal lines only.\<close>

lemma skip_run_equal:
  assumes "i < length ops" and "length keep = length ops"
    and "\<And>k. k < length ops \<Longrightarrow> ops ! k \<noteq> Equal \<Longrightarrow> keep ! k"
  shows "skip_run ops keep i 0 = length (takeWhile Not (drop i keep))"
    and "i + skip_run ops keep i 0 \<le> length ops"
    and "\<forall>m < skip_run ops keep i 0. drop i ops ! m = Equal"
proof -
  let ?n = "skip_run ops keep i 0"
  show n: "?n = length (takeWhile Not (drop i keep))"
    using skip_run_takeWhile [of i keep ops 0] assms by simp
  have n_le: "?n \<le> length (drop i ops)"
    using length_takeWhile_le [of Not "drop i keep"] assms(2) by (simp add: n)
  then show "i + ?n \<le> length ops" using assms(1) by simp
  show "\<forall>m < ?n. drop i ops ! m = Equal"
  proof (intro allI impI)
    fix m assume m: "m < ?n"
    then have "\<not> drop i keep ! m" using takeWhile_nth set_takeWhileD nth_mem n by metis
    then show "drop i ops ! m = Equal" using assms(3) [of "i + m"] assms(2) m n_le by fastforce
  qed
qed

lemma render_skip:
  assumes "i < length ops" and "\<not> keep ! i" and "length keep = length ops"
    and "\<And>k. k < length ops \<Longrightarrow> ops ! k \<noteq> Equal \<Longrightarrow> keep ! k"
    and "patch (drop i ops) (drop oi old) (drop ni new) \<noteq> None"
    and IH: "\<And>n. n = skip_run ops keep i 0 \<Longrightarrow> i + n \<le> length ops \<Longrightarrow>
      patch (drop (i + n) ops) (drop (oi + n) old) (drop (ni + n) new) \<noteq> None \<Longrightarrow>
      render_lines ops keep old new (i + n) (oi + n) (ni + n) (a + n) (b + n) =
      collapse (zip (listing (drop (i + n) ops) (drop (oi + n) old) (drop (ni + n) new) (a + n) (b + n))
        (drop (i + n) keep))"
  shows "render_lines ops keep old new i oi ni a b =
    collapse (zip (listing (drop i ops) (drop oi old) (drop ni new) a b) (drop i keep))"
proof -
  let ?n = "skip_run ops keep i 0" and ?l = "listing (drop i ops) (drop oi old) (drop ni new) a b"
  note n = skip_run_equal [OF assms(1,3,4), simplified]
  have len: "length ?l = length (drop i keep)" using listing_length [OF assms(5)] assms(3) by simp
  have run: "patch (drop ?n (drop i ops)) (drop ?n (drop oi old)) (drop ?n (drop ni new)) \<noteq> None \<and>
      drop ?n ?l = listing (drop ?n (drop i ops)) (drop ?n (drop oi old)) (drop ?n (drop ni new)) (a + ?n) (b + ?n)"
    using equal_run [OF _ _ assms(5), of ?n a b] skip_run_equal [OF assms(1,3,4)] by simp
  have "render_lines ops keep old new i oi ni a b =
      skip_line ?n # render_lines ops keep old new (i + ?n) (oi + ?n) (ni + ?n) (a + ?n) (b + ?n)"
    using assms(1,2) skip_run_pos [OF assms(1,2)] by (subst render_lines.simps) (simp add: Let_def)
  also have "\<dots> = skip_line ?n # collapse (zip (drop ?n ?l) (drop (i + ?n) keep))"
    using IH [OF refl n(2)] run by (simp add: add.commute)
  also have "\<dots> = collapse (zip ?l (drop i keep))"
  proof -
    have keep: "drop i keep = keep ! i # drop (i + 1) keep" using assms(1,3) by (simp add: Cons_nth_drop_Suc)
    obtain l ls where l: "?l = l # ls" using len assms(1,3) by (cases ?l) auto
    have "zip ?l (drop i keep) \<noteq> []" "\<not> snd (hd (zip ?l (drop i keep)))" using assms(2) by (simp_all add: l keep)
    from collapse_skip [OF this] show ?thesis
      using takeWhile_zip_snd [OF len] skip_run_equal(1) [OF assms(1,3,4)] by (simp add: drop_zip add.commute)
  qed
  finally show ?thesis .
qed

lemma render_collapse:
  assumes "length keep = length ops" and "\<And>k. k < length ops \<Longrightarrow> ops ! k \<noteq> Equal \<Longrightarrow> keep ! k"
  shows "i \<le> length ops \<Longrightarrow> patch (drop i ops) (drop oi old) (drop ni new) \<noteq> None \<Longrightarrow>
    render_lines ops keep old new i oi ni a b =
    collapse (zip (listing (drop i ops) (drop oi old) (drop ni new) a b) (drop i keep))"
  using assms
proof (induction ops keep old new i oi ni a b rule: render_lines.induct)
  case (1 ops keep old new i oi ni a b)
  note step = render_lines.simps [of ops keep old new i oi ni a b]
  show ?case
  proof (cases "i < length ops")
    case False
    then show ?thesis by (simp add: step collapse.simps)
  next
    case i: True
    then have ops: "drop i ops = ops ! i # drop (i + 1) ops" and keep: "drop i keep = keep ! i # drop (i + 1) keep"
      using 1(7) by (simp_all add: Cons_nth_drop_Suc)
    consider (skip) "\<not> keep ! i" | (same) "keep ! i" "ops ! i = Equal"
      | (del) "keep ! i" "ops ! i = Delete" | (ins) "keep ! i" "ops ! i = Insert"
      by (cases "ops ! i") auto
    then show ?thesis
    proof cases
      case skip
      show ?thesis
        by (rule render_skip [OF i skip 1(7) 1(8) 1(6)]) (use 1(4) [OF i skip] 1(7,8) in auto)
    next
      case same
      then obtain x xs where x: "drop oi old = x # xs" using 1(6) by (cases "drop oi old") (auto simp: ops)
      have "drop (ni + 1) new = List.tl (drop ni new)" by (simp add: drop_Suc tl_drop)
      then show ?thesis
        using 1(1) [OF i same] i 1(5-8) drop_ConsD [OF x] by (simp add: step i same ops keep x collapse_kept)
    next
      case del
      then obtain x xs where x: "drop oi old = x # xs" using 1(6) by (cases "drop oi old") (auto simp: ops)
      then show ?thesis
        using 1(2) [OF i del] i 1(5-8) drop_ConsD [OF x] by (simp add: step i del ops keep x collapse_kept)
    next
      case ins
      then obtain y ys where y: "drop ni new = y # ys" using 1(6) by (cases "drop ni new") (auto simp: ops)
      then show ?thesis
        using 1(3) [OF i ins] i 1(5-8) drop_ConsD [OF y] by (simp add: step i ins ops keep y collapse_kept)
    qed
  qed
qed

lemma near_change_self: "k < length ops \<Longrightarrow> ops ! k \<noteq> Equal \<Longrightarrow> near_change ops k"
  by (auto simp: near_change_def list_ex_iff intro!: bexI [of _ k])

lemma collapse_nonempty: "xs \<noteq> [] \<Longrightarrow> collapse xs \<noteq> []"
  by (subst collapse.simps) (simp add: Let_def)

lemma collapse_ops_listing:
  assumes "patch ops old new = Some r"
  shows "collapse_ops ops old new =
    (if has_change ops
     then [\<lparr>dh_lines = collapse (zip (listing ops old new 1 1) (map (near_change ops) [0..<length ops]))\<rparr>]
     else [])"
proof (cases "has_change ops")
  case True
  then have ne: "ops \<noteq> []" by (auto simp: has_change_def)
  let ?k = "map (near_change ops) [0..<length ops]"
  have "render_lines ops (keep_marks ops) old new 0 0 0 1 1 = collapse (zip (listing ops old new 1 1) ?k)"
    using render_collapse [of ?k ops 0 0 old 0 new 1 1] assms
    by (simp add: keep_marks_eq [OF ne] near_change_self)
  moreover have "zip (listing ops old new 1 1) ?k \<noteq> []"
    using listing_length [of ops old new 1 1] assms ne by auto
  ultimately show ?thesis
    using True ne by (simp add: collapse_ops_def Let_def collapse_nonempty)
qed (simp add: collapse_ops_def Let_def)

text \<open>The files that are compared line by line.\<close>

definition diffable :: "string \<Rightarrow> bool" where
  "diffable bytes \<longleftrightarrow> length bytes \<le> MAX_DIFF_BYTES \<and> is_text_bytes bytes \<and>
    length (split_lines bytes) \<le> MAX_DIFF_LINES"

text \<open>
  The reported hunks are exact. Files over the caps and binary files report no hunk and the
  binary flag; two files with the same lines report no hunk; any other pair reports one hunk, the
  complete numbered listing of the minimal script in which the runs of lines more than three
  positions from every change, and nothing else, are each replaced by a marker with their number.\<close>

theorem line_hunks_exact:
  "line_hunks session_bytes main_bytes =
    (if diffable session_bytes \<and> diffable main_bytes
     then let new = split_lines session_bytes; old = split_lines main_bytes; ops = lcs_ops old new
          in (if old = new then []
              else [\<lparr>dh_lines =
                collapse (zip (listing ops old new 1 1) (map (near_change ops) [0..<length ops]))\<rparr>], False)
     else ([], True))"
  using lcs_ops_correct [of "split_lines main_bytes" "split_lines session_bytes"]
  by (auto simp: line_hunks_def diffable_def Let_def collapse_ops_listing has_change_iff)

end
