(* ===== verification/Workspace_Path.thy ===== *)
theory Workspace_Path
  imports Janus_Prelude "HOL-Library.Sublist"
begin

text \<open>
  Workspace paths: the validation of client paths (\<open>crates/workspace/src/path.rs\<close>) and the
  tool paths built on it (\<open>crates/execution/src/paths.rs\<close>). A path is its bytes, on a Unix
  host; \<open>Path::components\<close>, \<open>PathBuf::push\<close> and \<open>str::split\<close> are written out. Where a path leads
  is \<open>location\<close>: the directory stack after walking its components, without links.
\<close>

section \<open>Paths of the standard library\<close>

abbreviation slash :: char where "slash \<equiv> CHR ''/''"
abbreviation backslash :: char where "backslash \<equiv> CHR 0x5C"

text \<open>\<open>str::split\<close> at every byte that satisfies \<open>sep\<close>; an empty string is one empty part.\<close>

primrec split_on :: "(char \<Rightarrow> bool) \<Rightarrow> string \<Rightarrow> string list" where
  "split_on sep [] = [[]]"
| "split_on sep (c # s) =
    (if sep c then [] # split_on sep s
     else (c # hd (split_on sep s)) # List.tl (split_on sep s))"

abbreviation split_slash :: "string \<Rightarrow> string list" where
  "split_slash \<equiv> split_on (\<lambda>c. c = slash)"

text \<open>\<open>PathBuf::push\<close>: an absolute path replaces, a relative one goes behind a separator.\<close>

definition path_push :: "string \<Rightarrow> string \<Rightarrow> string" where
  "path_push buf p =
    (if p \<noteq> [] \<and> hd p = slash then p
     else if buf \<noteq> [] \<and> last buf \<noteq> slash then buf @ [slash] @ p
     else buf @ p)"

text \<open>\<open>Path::components\<close>: the root, a leading dot, and every part but empty ones and dots.\<close>

definition path_components :: "string \<Rightarrow> string list" where
  "path_components p =
    (if p \<noteq> [] \<and> hd p = slash then [[slash]]
     else if hd (split_slash p) = ''.'' then [''.'']
     else []) @
    filter (\<lambda>c. c \<noteq> [] \<and> c \<noteq> ''.'') (split_slash p)"

section \<open>Validation\<close>

datatype path_error = NotRelative | Traversal | Invalid | Nul

primrec collect_parts :: "string list \<Rightarrow> path_error + string list" where
  "collect_parts [] = Inr []"
| "collect_parts (component # rest) =
    (if component = [] then collect_parts rest
     else if component = ''.'' then collect_parts rest
     else if component = ''..'' then Inl Traversal
     else and_then (collect_parts rest) (\<lambda>parts. Inr (component # parts)))"

definition validate_workspace_path :: "string \<Rightarrow> path_error + string" where
  "validate_workspace_path raw =
    (if raw = [] then Inl Invalid
     else if CHR 0x00 \<in> set raw then Inl Nul
     else if hd raw = slash then Inl NotRelative
     else if 2 \<le> length raw \<and> raw ! 1 = CHR '':'' then Inl NotRelative
     else if hd raw = backslash then Inl NotRelative
     else and_then (collect_parts (split_slash raw))
       (\<lambda>parts. if parts = [] then Inl Invalid else Inr (foldl path_push [] parts)))"

section \<open>Tool paths\<close>

text \<open>\<open>replace('\\', "/")\<close>.\<close>

definition forward_slashes :: "string \<Rightarrow> string" where
  "forward_slashes s = map (\<lambda>c. if c = backslash then slash else c) s"

definition workspace_prefix :: string where "workspace_prefix = ''/workspace''"

text \<open>The relative path behind the logical \<open>/workspace\<close> alias.\<close>

definition strip_workspace :: "string \<Rightarrow> string" where
  "strip_workspace raw =
    (if take (length workspace_prefix) raw = workspace_prefix then
       let rest = drop (length workspace_prefix) raw
       in if rest = [] then ''.'' else if hd rest = slash then drop 1 rest else raw
     else raw)"

definition normalize_workspace_path :: "string \<Rightarrow> path_error + string" where
  "normalize_workspace_path raw =
    (let relative = strip_workspace raw
     in if relative = [] \<or> relative = ''.'' then Inr ''.''
        else and_then (validate_workspace_path relative) (\<lambda>path. Inr (forward_slashes path)))"

definition is_git_component :: "string \<Rightarrow> bool" where
  "is_git_component rel \<longleftrightarrow>
    list_ex (\<lambda>c. c = ''.git'' \<or> c = ''.git'' @ [CHR 0x00]) (path_components rel)"

definition resolve_workspace_path :: "string \<Rightarrow> string \<Rightarrow> path_error + string" where
  "resolve_workspace_path repo_root raw =
    and_then (normalize_workspace_path raw) (\<lambda>normalized.
      let rel = (if normalized = ''.'' then [] else normalized)
      in if is_git_component rel then Inl Invalid else Inr (path_push repo_root rel))"

section \<open>Where a path leads\<close>

definition visit :: "string list \<Rightarrow> string \<Rightarrow> string list" where
  "visit dir c =
    (if c = [slash] then [] else if c = ''.'' then dir
     else if c = ''..'' then butlast dir else dir @ [c])"

definition location :: "string \<Rightarrow> string list" where
  "location p = foldl visit [] (path_components p)"

section \<open>Splitting\<close>

lemma split_on_nonempty [simp]: "split_on sep s \<noteq> []"
  by (cases s) auto

lemma split_on_no_sep: "part \<in> set (split_on sep s) \<Longrightarrow> c \<in> set part \<Longrightarrow> \<not> sep c \<and> c \<in> set s"
proof (induction s arbitrary: part)
  case (Cons d s)
  obtain p ps where eq: "split_on sep s = p # ps" by (cases "split_on sep s") auto
  show ?case using Cons.prems Cons.IH [of p] Cons.IH [of part] by (auto simp: eq split: if_splits)
qed simp

lemma split_slash_snoc: "split_slash (s @ slash # t) = split_slash s @ split_slash t"
  by (induction s) auto

lemma split_slash_whole: "slash \<notin> set p \<Longrightarrow> split_slash p = [p]"
  by (induction p) auto

text \<open>Components that are names: what the validation keeps.\<close>

definition name_part :: "string \<Rightarrow> bool" where
  "name_part c \<longleftrightarrow> c \<noteq> [] \<and> c \<noteq> ''.'' \<and> c \<noteq> ''..'' \<and> slash \<notin> set c \<and> CHR 0x00 \<notin> set c"

primrec join_slash :: "string list \<Rightarrow> string" where
  "join_slash [] = []"
| "join_slash (c # cs) = (if cs = [] then c else c @ [slash] @ join_slash cs)"

lemma split_join: "cs \<noteq> [] \<Longrightarrow> \<forall>c \<in> set cs. slash \<notin> set c \<Longrightarrow> split_slash (join_slash cs) = cs"
  by (induction cs) (auto simp: split_slash_snoc split_slash_whole)

lemma join_slash_snoc:
  "join_slash (cs @ [c]) = (if cs = [] then c else join_slash cs @ [slash] @ c)"
  by (induction cs) auto

lemma name_part_last: "name_part c \<Longrightarrow> last c \<noteq> slash \<and> hd c \<noteq> slash"
  by (metis hd_in_set last_in_set name_part_def)

lemma join_slash_last:
  "cs \<noteq> [] \<Longrightarrow> \<forall>c \<in> set cs. name_part c \<Longrightarrow> join_slash cs \<noteq> [] \<and> last (join_slash cs) \<noteq> slash"
  by (induction cs rule: rev_induct) (auto simp: join_slash_snoc name_part_last name_part_def)

lemma foldl_push_join:
  "\<forall>c \<in> set cs. name_part c \<Longrightarrow> foldl path_push [] cs = join_slash cs"
proof (induction cs rule: rev_induct)
  case (snoc c cs)
  then show ?case
    using join_slash_last [of cs] name_part_last [of c]
    by (cases "cs = []") (simp_all add: path_push_def join_slash_snoc)
qed simp

lemma collect_parts_Inr:
  "collect_parts cs = Inr parts \<longleftrightarrow>
    ''..'' \<notin> set cs \<and> parts = filter (\<lambda>c. c \<noteq> [] \<and> c \<noteq> ''.'') cs"
  by (induction cs arbitrary: parts) (auto simp: and_then_eq_Inr)

lemma collect_parts_Inl: "collect_parts cs = Inl e \<Longrightarrow> e = Traversal \<and> ''..'' \<in> set cs"
  by (induction cs arbitrary: e) (auto simp: and_then_def split: if_splits sum.splits)

lemma name_parts_of_split:
  assumes "CHR 0x00 \<notin> set raw" and "''..'' \<notin> set (split_slash raw)"
  shows "\<forall>c \<in> set (filter (\<lambda>c. c \<noteq> [] \<and> c \<noteq> ''.'') (split_slash raw)). name_part c"
  using assms split_on_no_sep [of _ "\<lambda>c. c = slash" raw] by (auto simp: name_part_def)

lemma validate_Inr:
  "validate_workspace_path raw = Inr p \<Longrightarrow>
    \<exists>cs. cs \<noteq> [] \<and> p = join_slash cs \<and> (\<forall>c \<in> set cs. name_part c) \<and>
      cs = filter (\<lambda>c. c \<noteq> [] \<and> c \<noteq> ''.'') (split_slash raw)"
  by (auto simp: validate_workspace_path_def collect_parts_Inr foldl_push_join name_parts_of_split
      split: if_splits)

section \<open>Locations of joined paths\<close>

lemma join_slash_hd: "cs \<noteq> [] \<Longrightarrow> \<forall>c \<in> set cs. name_part c \<Longrightarrow> join_slash cs \<noteq> [] \<and> hd (join_slash cs) \<noteq> slash"
  by (cases cs) (auto simp: name_part_last name_part_def)

lemma components_join:
  assumes "cs \<noteq> []" and "\<forall>c \<in> set cs. name_part c"
  shows "path_components (join_slash cs) = cs"
proof -
  have "split_slash (join_slash cs) = cs" using assms by (auto simp: split_join name_part_def)
  moreover have "hd cs \<noteq> ''.''" "filter (\<lambda>c. c \<noteq> [] \<and> c \<noteq> ''.'') cs = cs"
    using assms by (auto simp: name_part_def filter_id_conv)
  ultimately show ?thesis using join_slash_hd [OF assms] by (simp add: path_components_def)
qed

lemma visit_names: "\<forall>c \<in> set cs. name_part c \<Longrightarrow> foldl visit dir cs = dir @ cs"
  by (induction cs arbitrary: dir) (auto simp: visit_def name_part_def)

lemma split_slash_append_end:
  "s \<noteq> [] \<Longrightarrow> last s = slash \<Longrightarrow> split_slash (s @ t) = butlast (split_slash s) @ split_slash t"
proof -
  assume "s \<noteq> []" "last s = slash"
  then obtain u where "s = u @ [slash]" by (metis append_butlast_last_id)
  then show ?thesis using split_slash_snoc [of u t] split_slash_snoc [of u "[]"] by simp
qed

text \<open>Pushing a relative path behind a root walks on from the root's location.\<close>

lemma location_push:
  assumes "p = [] \<or> hd p \<noteq> slash"
  shows "location (path_push root p) = foldl visit (location root) (path_components p)"
proof -
  let ?f = "filter (\<lambda>c. c \<noteq> [] \<and> c \<noteq> ''.'')"
  have dots: "foldl visit dir (path_components p) = foldl visit dir (?f (split_slash p))" for dir
    using assms by (auto simp: path_components_def visit_def)
  show ?thesis
  proof (cases "root = []")
    case True
    then show ?thesis using assms by (auto simp: path_push_def location_def path_components_def visit_def)
  next
    case False
    have fin: "?f (split_slash (path_push root p)) = ?f (split_slash root) @ ?f (split_slash p)"
    proof (cases "last root = slash")
      case True
      then obtain u where u: "root = u @ [slash]" using False by (metis append_butlast_last_id)
      show ?thesis
        using assms True False split_slash_snoc [of u "[]"] split_slash_append_end [OF False True, of p]
        by (auto simp: path_push_def u)
    next
      case False
      then show ?thesis using assms \<open>root \<noteq> []\<close> by (auto simp: path_push_def split_slash_snoc)
    qed
    have hd_root: "hd (path_push root p) = hd root" "path_push root p \<noteq> []"
      using False assms by (auto simp: path_push_def)
    have walk: "location q = foldl visit [] (?f (split_slash q))" for q
      by (auto simp: location_def path_components_def visit_def)
    show ?thesis unfolding dots walk fin by simp
  qed
qed

text \<open>
  C4. A validated path is confined: it is non-empty and relative, its components are exactly the
  named components of the input in order (no empty, dot or dot-dot one, no NUL), and joined to any
  root it leads to a place strictly below that root, reached by descending only.\<close>

theorem validated_path_confined:
  assumes "validate_workspace_path raw = Inr p"
  shows "path_components p = filter (\<lambda>c. c \<noteq> [] \<and> c \<noteq> ''.'') (split_slash raw) \<and>
    list_all name_part (path_components p) \<and>
    location (path_push root p) = location root @ path_components p \<and>
    strict_prefix (location root) (location (path_push root p))"
proof -
  obtain cs where cs: "cs \<noteq> []" "p = join_slash cs" "\<forall>c \<in> set cs. name_part c"
    "cs = filter (\<lambda>c. c \<noteq> [] \<and> c \<noteq> ''.'') (split_slash raw)"
    using validate_Inr [OF assms] by auto
  have comps: "path_components p = cs" using cs components_join by simp
  have "location (path_push root p) = location root @ cs"
    using location_push [of p root] join_slash_hd cs comps by (simp add: visit_names)
  then show ?thesis using cs comps by (simp add: list_all_iff strict_prefix_def)
qed

theorem validated_path_confined_witness:
  "validate_workspace_path ''./src//main.rs'' = Inr ''src/main.rs'' \<and>
   location (path_push ''/data/ws'' ''src/main.rs'') = [''data'', ''ws'', ''src'', ''main.rs'']"
proof
  show ok: "validate_workspace_path ''./src//main.rs'' = Inr ''src/main.rs''"
    by (simp add: validate_workspace_path_def path_push_def)
  show "location (path_push ''/data/ws'' ''src/main.rs'') = [''data'', ''ws'', ''src'', ''main.rs'']"
    using validated_path_confined [OF ok, of "''/data/ws''"]
    by (simp add: location_def visit_def path_components_def)
qed

section \<open>Tool paths stay inside, unless they hold a backslash\<close>

lemma set_join_slash: "set (join_slash cs) \<subseteq> insert slash (\<Union> (set ` set cs))"
  by (induction cs) auto

lemma forward_slashes_id: "backslash \<notin> set s \<Longrightarrow> forward_slashes s = s"
  unfolding forward_slashes_def by (rule map_idI) auto

lemma strip_workspace_set: "set (strip_workspace raw) \<subseteq> insert (CHR ''.'') (set raw)"
  by (auto simp: strip_workspace_def Let_def dest: in_set_dropD)

lemma normalize_Inr:
  assumes "normalize_workspace_path raw = Inr q" and "backslash \<notin> set raw"
  shows "q = ''.'' \<or> validate_workspace_path (strip_workspace raw) = Inr q"
proof -
  have bs: "backslash \<notin> set p" if v: "validate_workspace_path (strip_workspace raw) = Inr p" for p
  proof -
    obtain cs where cs: "p = join_slash cs"
      "cs = filter (\<lambda>c. c \<noteq> [] \<and> c \<noteq> ''.'') (split_slash (strip_workspace raw))"
      using validate_Inr [OF v] by auto
    have "backslash \<notin> set (strip_workspace raw)" using strip_workspace_set assms(2) by fastforce
    then have "backslash \<notin> set c" if "c \<in> set cs" for c
      using that split_on_no_sep [of c "\<lambda>c. c = slash" "strip_workspace raw" backslash] by (auto simp: cs(2))
    then show ?thesis using set_join_slash [of cs] by (auto simp: cs(1))
  qed
  show ?thesis
    using assms(1) bs
    by (auto simp: normalize_workspace_path_def Let_def forward_slashes_id split: if_splits)
qed

text \<open>
  A tool path without backslashes resolves inside the workspace: the result lies at the root or
  below it, and no component behind the root is the repository's administration directory.\<close>

theorem resolved_path_confined:
  assumes "resolve_workspace_path root raw = Inr p" and "backslash \<notin> set raw"
  shows "prefix (location root) (location p) \<and>
    ''.git'' \<notin> set (drop (length (location root)) (location p))"
proof -
  obtain q where q: "normalize_workspace_path raw = Inr q"
    "\<not> is_git_component (if q = ''.'' then [] else q)"
    "p = path_push root (if q = ''.'' then [] else q)"
    using assms(1) by (auto simp: resolve_workspace_path_def Let_def split: if_splits)
  show ?thesis
  proof (cases "q = ''.''")
    case True
    then show ?thesis using location_push [of "[]" root] by (simp add: q(3) path_components_def)
  next
    case False
    then have v: "validate_workspace_path (strip_workspace raw) = Inr q"
      using normalize_Inr [OF q(1) assms(2)] by simp
    obtain cs where cs: "cs \<noteq> []" "q = join_slash cs" "\<forall>c \<in> set cs. name_part c"
      using validate_Inr [OF v] by blast
    then have "location p = location root @ cs"
      using location_push [of q root] join_slash_hd [of cs] components_join [of cs] False
      by (simp add: q(3) visit_names)
    moreover have "''.git'' \<notin> set cs"
      using q(2) False cs components_join [of cs] by (auto simp: is_git_component_def list_ex_iff)
    ultimately show ?thesis by simp
  qed
qed

theorem resolved_path_confined_witness:
  "resolve_workspace_path ''/ws'' ''/workspace/src/lib.rs'' = Inr ''/ws/src/lib.rs'' \<and>
   prefix [''ws''] (location ''/ws/src/lib.rs'')"
proof
  show ok: "resolve_workspace_path ''/ws'' ''/workspace/src/lib.rs'' = Inr ''/ws/src/lib.rs''"
    by (simp add: resolve_workspace_path_def normalize_workspace_path_def strip_workspace_def
        workspace_prefix_def validate_workspace_path_def path_push_def is_git_component_def
        path_components_def forward_slashes_def)
  show "prefix [''ws''] (location ''/ws/src/lib.rs'')"
    using resolved_path_confined [OF ok] by (simp add: location_def path_components_def visit_def)
qed

text \<open>The tool path \<open>x\..\..\etc\<close>: one component for the validation, four after the replacement.\<close>

definition escaping_path :: string where
  "escaping_path = ''x'' @ [backslash] @ ''..'' @ [backslash] @ ''..'' @ [backslash] @ ''etc''"

text \<open>
  A tool path with backslashes can leave the workspace: \<open>x\..\..\etc\<close> is accepted under every
  root and resolves to a sibling of the root directory.\<close>

theorem backslash_escapes_workspace:
  "resolve_workspace_path root escaping_path = Inr (path_push root ''x/../../etc'') \<and>
   location (path_push root ''x/../../etc'') = butlast (location root) @ [''etc'']"
proof
  show "resolve_workspace_path root escaping_path = Inr (path_push root ''x/../../etc'')"
    by (simp add: resolve_workspace_path_def normalize_workspace_path_def strip_workspace_def
        workspace_prefix_def validate_workspace_path_def path_push_def is_git_component_def
        path_components_def forward_slashes_def escaping_path_def)
  show "location (path_push root ''x/../../etc'') = butlast (location root) @ [''etc'']"
    by (simp add: location_push path_components_def visit_def)
qed

text \<open>
  Validation is a fixed point except for two prefixes: a validated path is accepted again and
  unchanged unless it now begins with a drive letter or a backslash, which a leading dot component
  had hidden from the prefix checks.\<close>

theorem validated_path_revalidates:
  assumes "validate_workspace_path raw = Inr p"
  shows "validate_workspace_path p =
    (if 2 \<le> length p \<and> p ! 1 = CHR '':'' \<or> hd p = backslash then Inl NotRelative else Inr p)"
proof -
  obtain cs where cs: "cs \<noteq> []" "p = join_slash cs" "\<forall>c \<in> set cs. name_part c"
    using validate_Inr [OF assms] by blast
  have "split_slash p = cs" using cs by (auto simp: split_join name_part_def)
  moreover have "CHR 0x00 \<notin> set p" using set_join_slash [of cs] cs by (auto simp: name_part_def)
  moreover have "filter (\<lambda>c. c \<noteq> [] \<and> c \<noteq> ''.'') cs = cs" "''..'' \<notin> set cs"
    using cs by (auto simp: name_part_def filter_id_conv)
  then have "collect_parts cs = Inr cs" by (simp add: collect_parts_Inr)
  ultimately show ?thesis
    using cs join_slash_hd [of cs] by (simp add: validate_workspace_path_def foldl_push_join)
qed

theorem validated_path_revalidates_witness:
  "validate_workspace_path ''./C:/x'' = Inr ''C:/x'' \<and> validate_workspace_path ''C:/x'' = Inl NotRelative"
proof
  show ok: "validate_workspace_path ''./C:/x'' = Inr ''C:/x''"
    by (simp add: validate_workspace_path_def path_push_def)
  show "validate_workspace_path ''C:/x'' = Inl NotRelative"
    using validated_path_revalidates [OF ok] by simp
qed

end
