(* ===== verification/Workspace_Manifest.thy ===== *)
theory Workspace_Manifest
  imports Workspace_Path Line_Diff "HOL-Library.Word" "HOL-Library.List_Lexorder" "HOL-Library.Char_ord"
begin

text \<open>
  The Merkle manifest of a working tree (\<open>crates/workspace/src/manifest.rs\<close>). The directory that
  is walked is a tree of entries in the order the file system lists them, with UTF-8 names; the
  digest \<open>sha\<close> (hex SHA-256) and the blob store's \<open>write\<close> are parameters. A \<open>BTreeMap\<close> is an
  association list in key order.
\<close>

unbundle bit_operations_syntax

section \<open>Ordered maps\<close>

fun btree_insert :: "'k::linorder \<Rightarrow> 'v \<Rightarrow> ('k \<times> 'v) list \<Rightarrow> ('k \<times> 'v) list" where
  "btree_insert k v [] = [(k, v)]"
| "btree_insert k v ((k', v') # m) =
    (if k < k' then (k, v) # (k', v') # m
     else if k = k' then (k, v) # m
     else (k', v') # btree_insert k v m)"

definition btree_extend :: "('k::linorder \<times> 'v) list \<Rightarrow> ('k \<times> 'v) list \<Rightarrow> ('k \<times> 'v) list" where
  "btree_extend m other = fold (\<lambda>(k, v). btree_insert k v) other m"

section \<open>Nodes\<close>

datatype node_kind = NodeFile | NodeDir

primrec as_tag :: "node_kind \<Rightarrow> string" where
  "as_tag NodeFile = ''file''"
| "as_tag NodeDir = ''dir''"

record manifest_node =
  mn_kind :: node_kind
  mn_mode :: "32 word"
  mn_byte_len :: nat
  mn_blob_sha :: "string option"
  mn_node_hash :: string
  mn_is_text :: bool

record manifest_root =
  mr_root_hash :: string
  mr_nodes :: "(string \<times> manifest_node) list"

record blob_reference =
  br_owner_module :: string
  br_owner_type :: string
  br_owner_id :: string
  br_purpose :: string

text \<open>What a directory listing shows of an entry: permission bits and bytes of a file, the
  listing of a directory, a symbolic link, or any other kind of entry.\<close>

datatype fs_entry =
  FsFile "32 word" string
| FsDir "(string \<times> fs_entry) list"
| FsLink
| FsOther

section \<open>Digest inputs\<close>

definition be_bytes :: "32 word \<Rightarrow> string" where
  "be_bytes w = map (\<lambda>k. char_of (unat w div 2 ^ k)) [24, 16, 8, 0]"

definition write_str :: "string \<Rightarrow> string" where
  "write_str value = be_bytes (word_of_nat (length value)) @ value"

definition write_domain :: "string \<Rightarrow> string" where
  "write_domain domain = be_bytes (word_of_nat (length domain)) @ domain"

definition hash_normalized_text :: "string \<Rightarrow> string" where
  "hash_normalized_text bytes = concat (map (\<lambda>line. line @ [CHR 0x0A]) (split_lines bytes))"

definition file_input :: "32 word \<Rightarrow> string \<Rightarrow> bool \<Rightarrow> string" where
  "file_input mode bytes is_text =
    write_domain ''janus-file-v2'' @ write_str ''file'' @ be_bytes mode @
    (if is_text then hash_normalized_text bytes else bytes)"

definition hash_file_node :: "(string \<Rightarrow> string) \<Rightarrow> 32 word \<Rightarrow> string \<Rightarrow> bool \<Rightarrow> string" where
  "hash_file_node sha mode bytes is_text = sha (file_input mode bytes is_text)"

definition dir_input :: "(string \<times> node_kind \<times> string) list \<Rightarrow> string" where
  "dir_input children =
    write_domain ''janus-dir-v1'' @
    concat (map (\<lambda>(name, kind, node_hash).
      be_bytes (word_of_nat (length name)) @ name @ write_str (as_tag kind) @ write_str node_hash) children)"

definition hash_dir_node :: "(string \<Rightarrow> string) \<Rightarrow> (string \<times> node_kind \<times> string) list \<Rightarrow> string" where
  "hash_dir_node sha children = sha (dir_input children)"

section \<open>Collection\<close>

definition is_workspace_internal_component :: "string \<Rightarrow> bool" where
  "is_workspace_internal_component name \<longleftrightarrow>
    name = ''.janus-dev'' \<or> name = ''.janus-tmp'' \<or>
    take (length ''.janus-runtime-'') name = ''.janus-runtime-'' \<or>
    2 < length name \<and> hd name = CHR ''%'' \<and> last name = CHR ''%''"

definition is_workspace_internal_path :: "string \<Rightarrow> bool" where
  "is_workspace_internal_path path \<longleftrightarrow>
    list_ex is_workspace_internal_component (split_on (\<lambda>c. c = slash \<or> c = backslash) path)"

definition path_to_rel :: "string \<Rightarrow> string" where
  "path_to_rel path = join_slash (path_components path)"

definition file_mode :: "32 word \<Rightarrow> 32 word" where
  "file_mode mode = (if mode AND 73 \<noteq> 0 then 33261 else 33188)"

definition dir_node :: "string \<Rightarrow> manifest_node" where
  "dir_node hash = \<lparr>mn_kind = NodeDir, mn_mode = 16877, mn_byte_len = 0, mn_blob_sha = None,
    mn_node_hash = hash, mn_is_text = False\<rparr>"

definition file_node :: "(string \<Rightarrow> string) \<Rightarrow> 32 word \<Rightarrow> string \<Rightarrow> string \<Rightarrow> manifest_node" where
  "file_node sha mode bytes blob_sha =
    (let is_text = is_text_bytes bytes
     in \<lparr>mn_kind = NodeFile, mn_mode = mode, mn_byte_len = length bytes, mn_blob_sha = Some blob_sha,
         mn_node_hash = hash_file_node sha mode bytes is_text, mn_is_text = is_text\<rparr>)"

definition manifest_reference :: "string \<Rightarrow> string \<Rightarrow> blob_reference" where
  "manifest_reference owner rel_key = \<lparr>br_owner_module = ''workspace'', br_owner_type = ''manifest_file'',
    br_owner_id = owner @ '':'' @ rel_key, br_purpose = ''content''\<rparr>"

text \<open>The loop over the entries of one directory, with the maps built so far.\<close>

function collect_entries ::
  "(string \<Rightarrow> string) \<Rightarrow> (string \<Rightarrow> blob_reference \<Rightarrow> 'e + string) \<Rightarrow> string \<Rightarrow> string \<Rightarrow>
    (string \<times> fs_entry) list \<Rightarrow> (string \<times> node_kind \<times> string) list \<Rightarrow>
    (string \<times> manifest_node) list \<Rightarrow>
    'e + (string \<times> node_kind \<times> string) list \<times> (string \<times> manifest_node) list"
  where
  "collect_entries sha put owner rel [] children nodes = Inr (children, nodes)"
| "collect_entries sha put owner rel ((name, entry) # entries) children nodes =
    (if name = ''.git'' \<or> is_workspace_internal_component name then
       collect_entries sha put owner rel entries children nodes
     else
       let child_rel = (if rel = [] then name else path_push rel name);
           rel_key = path_to_rel child_rel
       in case entry of
            FsLink \<Rightarrow> collect_entries sha put owner rel entries children nodes
          | FsOther \<Rightarrow> collect_entries sha put owner rel entries children nodes
          | FsDir sub \<Rightarrow>
              and_then (collect_entries sha put owner child_rel sub [] []) (\<lambda>(grand, nested).
                let child_hash = hash_dir_node sha grand
                in collect_entries sha put owner rel entries
                     (btree_insert name (NodeDir, child_hash) children)
                     (btree_extend (btree_insert rel_key (dir_node child_hash) nodes) nested))
          | FsFile permissions bytes \<Rightarrow>
              and_then (put bytes (manifest_reference owner rel_key)) (\<lambda>blob_sha.
                let node = file_node sha (file_mode permissions) bytes blob_sha
                in collect_entries sha put owner rel entries
                     (btree_insert name (NodeFile, mn_node_hash node) children)
                     (btree_insert rel_key node nodes)))"
  by pat_completeness auto
termination
  by (relation "measure (\<lambda>(_, _, _, _, entries, _, _). size_list (size_prod (\<lambda>_. 0) size) entries)") auto

definition collect_dir ::
  "(string \<Rightarrow> string) \<Rightarrow> (string \<Rightarrow> blob_reference \<Rightarrow> 'e + string) \<Rightarrow> string \<Rightarrow> string \<Rightarrow>
    (string \<times> fs_entry) list \<Rightarrow> 'e + string \<times> (string \<times> manifest_node) list" where
  "collect_dir sha put owner rel entries =
    and_then (collect_entries sha put owner rel entries [] []) (\<lambda>(children, nodes).
      Inr (hash_dir_node sha children, nodes))"

definition collect_manifest ::
  "(string \<Rightarrow> string) \<Rightarrow> (string \<Rightarrow> blob_reference \<Rightarrow> 'e + string) \<Rightarrow> string \<Rightarrow>
    (string \<times> fs_entry) list \<Rightarrow> 'e + manifest_root" where
  "collect_manifest sha put owner entries =
    and_then (collect_dir sha put owner [] entries) (\<lambda>(root_hash, nodes).
      Inr \<lparr>mr_root_hash = root_hash, mr_nodes = nodes\<rparr>)"

end
