(* ===== verification/Manifest_Content.thy ===== *)
theory Manifest_Content
  imports Workspace_Manifest
begin

text \<open>
  What a manifest identifies. \<open>canon\<close> is the content of a working tree: its visible entries by
  name, text as its lines, binary files as their bytes. The root hash is a function of that content
  and, where the digest does not collide, determines it.
\<close>

section \<open>Content trees\<close>

datatype content = Text "string list" | Binary string

datatype tree = TFile "32 word" content | TDir "(string \<times> tree) list"

definition content_of :: "string \<Rightarrow> content" where
  "content_of bytes = (if is_text_bytes bytes then Text (split_lines bytes) else Binary bytes)"

function canon :: "(string \<times> fs_entry) list \<Rightarrow> (string \<times> tree) list \<Rightarrow> (string \<times> tree) list" where
  "canon [] acc = acc"
| "canon ((name, entry) # entries) acc =
    (if name = ''.git'' \<or> is_workspace_internal_component name then canon entries acc
     else case entry of
       FsLink \<Rightarrow> canon entries acc
     | FsOther \<Rightarrow> canon entries acc
     | FsDir sub \<Rightarrow> canon entries (btree_insert name (TDir (canon sub [])) acc)
     | FsFile permissions bytes \<Rightarrow>
         canon entries (btree_insert name (TFile (file_mode permissions) (content_of bytes)) acc))"
  by pat_completeness auto
termination
  by (relation "measure (\<lambda>(entries, _). size_list (size_prod (\<lambda>_. 0) size) entries)") auto

primrec content_input :: "content \<Rightarrow> string" where
  "content_input (Text ls) = concat (map (\<lambda>line. line @ [CHR 0x0A]) ls)"
| "content_input (Binary bytes) = bytes"

primrec tree_kind :: "tree \<Rightarrow> node_kind" where
  "tree_kind (TFile mode c) = NodeFile"
| "tree_kind (TDir cs) = NodeDir"

fun tree_input :: "(string \<Rightarrow> string) \<Rightarrow> tree \<Rightarrow> string" where
  "tree_input sha (TFile mode c) =
    write_domain ''janus-file-v2'' @ write_str ''file'' @ be_bytes mode @ content_input c"
| "tree_input sha (TDir cs) =
    dir_input (map (\<lambda>(n, t). (n, tree_kind t, sha (tree_input sha t))) cs)"

abbreviation child_of :: "(string \<Rightarrow> string) \<Rightarrow> string \<times> tree \<Rightarrow> string \<times> node_kind \<times> string" where
  "child_of sha \<equiv> (\<lambda>(n, t). (n, tree_kind t, sha (tree_input sha t)))"

section \<open>The root hash is a function of the content\<close>

lemma btree_insert_map:
  "btree_insert k (f v) (map (\<lambda>(n, t). (n, f t)) m) = map (\<lambda>(n, t). (n, f t)) (btree_insert k v m)"
  by (induction m) auto

lemma child_of_insert:
  "btree_insert k (tree_kind t, sha (tree_input sha t)) (map (child_of sha) m) =
    map (child_of sha) (btree_insert k t m)"
  using btree_insert_map [of k "\<lambda>t. (tree_kind t, sha (tree_input sha t))" t m] .

lemma file_node_hash:
  "mn_node_hash (file_node sha mode bytes blob) = sha (tree_input sha (TFile mode (content_of bytes)))"
  by (simp add: file_node_def hash_file_node_def file_input_def content_of_def Let_def
      hash_normalized_text_def)

lemma collect_entries_canon:
  "collect_entries sha put owner rel es children nodes = Inr (children', nodes') \<Longrightarrow>
    children = map (child_of sha) acc \<Longrightarrow> children' = map (child_of sha) (canon es acc)"
proof (induction sha put owner rel es children nodes arbitrary: acc children' nodes'
    rule: collect_entries.induct)
  case (2 sha put owner rel name entry entries children nodes)
  note eq = "2.prems"(1) and acc = "2.prems"(2)
  show ?case
  proof (cases "name = ''.git'' \<or> is_workspace_internal_component name")
    case True
    then show ?thesis using 2(1) [OF True _ acc] eq by simp
  next
    case F: False
    show ?thesis
    proof (cases entry)
      case (FsFile permissions bytes)
      let ?t = "TFile (file_mode permissions) (content_of bytes)"
      obtain blob where "collect_entries sha put owner rel entries
          (btree_insert name (NodeFile, mn_node_hash (file_node sha (file_mode permissions) bytes blob)) children)
          (btree_insert (path_to_rel (if rel = [] then name else path_push rel name))
            (file_node sha (file_mode permissions) bytes blob) nodes) = Inr (children', nodes')"
        using eq F FsFile by (auto simp: Let_def)
      then have "children' = map (child_of sha) (canon entries (btree_insert name ?t acc))"
        by (rule 2(2) [OF F refl refl FsFile refl])
          (use child_of_insert [of name ?t sha acc] acc in \<open>simp add: file_node_hash\<close>)
      then show ?thesis using F FsFile by simp
    next
      case (FsDir sub)
      let ?t = "TDir (canon sub [])" and ?x = "if rel = [] then name else path_push rel name"
      obtain grand nested where sub: "collect_entries sha put owner ?x sub [] [] = Inr (grand, nested)"
        and rest: "collect_entries sha put owner rel entries
          (btree_insert name (NodeDir, hash_dir_node sha grand) children)
          (btree_extend (btree_insert (path_to_rel ?x) (dir_node (hash_dir_node sha grand)) nodes) nested) =
          Inr (children', nodes')"
        using eq F FsDir by (auto simp: Let_def)
      have "hash_dir_node sha grand = sha (tree_input sha ?t)"
        using 2(3) [OF F refl refl FsDir sub, of "[]"] by (simp add: hash_dir_node_def)
      then have "children' = map (child_of sha) (canon entries (btree_insert name ?t acc))"
        using 2(4) [OF F refl refl FsDir refl rest, of "btree_insert name ?t acc"]
          child_of_insert [of name ?t sha acc] acc by simp
      then show ?thesis using F FsDir by simp
    next
      case FsLink
      then show ?thesis using 2(5) [OF F refl refl FsLink _ acc] eq F by (simp add: Let_def)
    next
      case FsOther
      then show ?thesis using 2(6) [OF F refl refl FsOther _ acc] eq F by (simp add: Let_def)
    qed
  qed
qed simp

lemma root_hash_canon:
  "collect_manifest sha put owner es = Inr m \<Longrightarrow>
    mr_root_hash m = sha (tree_input sha (TDir (canon es [])))"
  using collect_entries_canon [of sha put owner "[]" es "[]" "[]" _ _ "[]"]
  by (auto simp: collect_manifest_def collect_dir_def hash_dir_node_def)

section \<open>Digest inputs determine the content\<close>

lemma nat_bytes:
  fixes x :: nat
  assumes "x < 2 ^ 32"
  shows "x = x div 2 ^ 24 mod 256 * 2 ^ 24 + x div 2 ^ 16 mod 256 * 2 ^ 16 + x div 2 ^ 8 mod 256 * 2 ^ 8 + x mod 256"
proof -
  define a b c where "a = x div 256" and "b = a div 256" and "c = b div 256"
  have "x = a * 256 + x mod 256" "a = b * 256 + a mod 256" "b = c * 256 + b mod 256"
    by (simp_all add: a_def b_def c_def)
  moreover have "x div 2 ^ 24 = c" "x div 2 ^ 16 = b" "x div 2 ^ 8 = a"
    by (simp_all add: a_def b_def c_def div_mult2_eq [symmetric])
  moreover have "c mod 256 = c" using assms by (simp add: a_def b_def c_def div_mult2_eq [symmetric] less_mult_imp_div_less)
  ultimately show ?thesis by simp
qed

lemma be_bytes_inj: "be_bytes w = be_bytes v \<Longrightarrow> w = v"
proof -
  assume "be_bytes w = be_bytes v"
  then have "map of_char (be_bytes w) = (map of_char (be_bytes v) :: nat list)" by simp
  then have "unat w = unat v"
    using nat_bytes [of "unat w"] nat_bytes [of "unat v"] unsigned_less [of w, where ?'a = nat] unsigned_less [of v, where ?'a = nat]
    by (simp add: be_bytes_def)
  then show ?thesis by (rule unsigned_word_eqI)
qed

lemma be_bytes_length [simp]: "length (be_bytes w) = 4"
  by (simp add: be_bytes_def)

abbreviation U32_RANGE :: nat where "U32_RANGE \<equiv> 4294967296"

lemma write_str_inj:
  assumes "write_str a @ x = write_str b @ y" and "length a < U32_RANGE" and "length b < U32_RANGE"
  shows "a = b \<and> x = y"
proof -
  have "be_bytes (word_of_nat (length a)) = be_bytes (word_of_nat (length b))" and tails: "a @ x = b @ y"
    using assms(1) by (auto simp: write_str_def)
  then have "(word_of_nat (length a) :: 32 word) = word_of_nat (length b)" using be_bytes_inj by blast
  then have "length a = length b" using assms(2,3) by (simp add: word_of_nat_eq_iff take_bit_nat_eq_self)
  then show ?thesis using tails by simp
qed

text \<open>Well-formed content: lines hold no line break and no NUL, binary files a NUL.\<close>

primrec wf_content :: "content \<Rightarrow> bool" where
  "wf_content (Text ls) \<longleftrightarrow> list_all (\<lambda>l. CHR 0x0A \<notin> set l \<and> CHR 0x00 \<notin> set l) ls"
| "wf_content (Binary bytes) \<longleftrightarrow> CHR 0x00 \<in> set bytes"

fun wf_tree :: "tree \<Rightarrow> bool" where
  "wf_tree (TFile mode c) \<longleftrightarrow> wf_content c"
| "wf_tree (TDir cs) \<longleftrightarrow> list_all (\<lambda>(n, t). length n < U32_RANGE \<and> wf_tree t) cs"

text \<open>Every digest input of a tree.\<close>

fun digest_inputs :: "(string \<Rightarrow> string) \<Rightarrow> tree \<Rightarrow> string list" where
  "digest_inputs sha (TFile mode c) = [tree_input sha (TFile mode c)]"
| "digest_inputs sha (TDir cs) =
    tree_input sha (TDir cs) # concat (map (\<lambda>(n, t). digest_inputs sha t) cs)"

lemma digest_inputs_self: "tree_input sha t \<in> set (digest_inputs sha t)"
  by (cases t) auto

lemma cut_inj:
  "c \<notin> set a \<Longrightarrow> c \<notin> set b \<Longrightarrow> a @ c # x = b @ c # y \<Longrightarrow> a = b \<and> x = y"
  by (induction a arbitrary: b) (auto simp: Cons_eq_append_conv append_eq_Cons_conv)

lemma lines_inj:
  "list_all (\<lambda>l. c \<notin> set l) ls \<Longrightarrow> list_all (\<lambda>l. c \<notin> set l) ms \<Longrightarrow>
    concat (map (\<lambda>line. line @ [c]) ls) = concat (map (\<lambda>line. line @ [c]) ms) \<Longrightarrow> ls = ms"
proof (induction ls arbitrary: ms)
  case (Cons l ls)
  then obtain m ms' where "ms = m # ms'" by (cases ms) auto
  with Cons cut_inj [of c l m] show ?case by auto
qed (case_tac ms; simp)

lemma content_input_nul: "wf_content a \<Longrightarrow> CHR 0x00 \<in> set (content_input a) \<longleftrightarrow> (\<exists>bytes. a = Binary bytes)"
  by (cases a) (auto simp: list_all_iff)

lemma content_input_inj:
  assumes "wf_content a" and "wf_content b" and "content_input a = content_input b"
  shows "a = b"
proof (cases a)
  case (Text ls)
  then obtain ms where "b = Text ms"
    using content_input_nul [of a] content_input_nul [of b] assms by (cases b) auto
  then show ?thesis using Text assms lines_inj [of "CHR 0x0A" ls ms] by (auto simp: list_all_iff)
next
  case (Binary bytes)
  then obtain bytes' where "b = Binary bytes'"
    using content_input_nul [of a] content_input_nul [of b] assms by auto
  then show ?thesis using Binary assms by simp
qed

definition entry_input :: "string \<times> node_kind \<times> string \<Rightarrow> string" where
  "entry_input = (\<lambda>(name, kind, h). write_str name @ write_str (as_tag kind) @ write_str h)"

lemma dir_input_entries: "dir_input cs = write_domain ''janus-dir-v1'' @ concat (map entry_input cs)"
  by (simp add: dir_input_def entry_input_def write_str_def split_def)

lemma as_tag_inj: "as_tag k = as_tag k' \<Longrightarrow> k = k'"
  by (cases k; cases k') auto

lemma as_tag_short: "length (as_tag k) < U32_RANGE"
  by (cases k) auto

definition short_entry :: "string \<times> node_kind \<times> string \<Rightarrow> bool" where
  "short_entry = (\<lambda>(name, kind, h). length name < U32_RANGE \<and> length h < U32_RANGE)"

lemma entry_input_inj:
  "short_entry a \<Longrightarrow> short_entry b \<Longrightarrow> entry_input a @ x = entry_input b @ y \<Longrightarrow> a = b \<and> x = y"
  by (cases a; cases b)
    (auto simp: entry_input_def short_entry_def as_tag_short dest!: write_str_inj dest: as_tag_inj)

lemma entry_input_nonempty [simp]: "entry_input a \<noteq> []"
  by (cases a) (simp add: entry_input_def write_str_def be_bytes_def)

lemma entries_inj:
  "list_all short_entry as \<Longrightarrow> list_all short_entry bs \<Longrightarrow>
    concat (map entry_input as) = concat (map entry_input bs) \<Longrightarrow> as = bs"
proof (induction as arbitrary: bs)
  case Nil
  then show ?case by (cases bs) auto
next
  case (Cons a as)
  then obtain b bs' where b: "bs = b # bs'"
    by (cases bs) auto
  with Cons.prems entry_input_inj [of a b "concat (map entry_input as)" "concat (map entry_input bs')"]
  have "a = b" "concat (map entry_input as) = concat (map entry_input bs')" by auto
  with Cons b show ?case by simp
qed

lemma file_input_not_dir: "tree_input sha (TFile m c) \<noteq> tree_input sha (TDir cs)"
proof
  assume "tree_input sha (TFile m c) = tree_input sha (TDir cs)"
  then have "write_str ''janus-file-v2'' @ (write_str ''file'' @ be_bytes m @ content_input c) =
      write_str ''janus-dir-v1'' @ concat (map entry_input (map (child_of sha) cs))"
    by (simp add: dir_input_entries write_domain_def write_str_def)
  then have "''janus-file-v2'' = ''janus-dir-v1''" by (rule write_str_inj [THEN conjunct1]) simp_all
  then show False by simp
qed

text \<open>Where the digest does not collide, equal digest inputs come from equal trees.\<close>

lemma tree_input_inj:
  assumes "inj_on sha (set (digest_inputs sha t) \<union> U)" and "set (digest_inputs sha u) \<subseteq> U"
    and "\<And>x. length (sha x) < U32_RANGE" and "wf_tree t" and "wf_tree u"
    and "tree_input sha t = tree_input sha u"
  shows "t = u"
  using assms
proof (induction t arbitrary: u)
  case (TFile m c)
  then obtain m' c' where u: "u = TFile m' c'" using file_input_not_dir by (cases u) metis+
  then have eq: "be_bytes m @ content_input c = be_bytes m' @ content_input c'" using TFile by simp
  then have "m = m'" "content_input c = content_input c'" by (auto intro: be_bytes_inj)
  then show ?case using TFile u content_input_inj by auto
next
  case (TDir cs)
  then obtain ds where u: "u = TDir ds" using file_input_not_dir by (cases u) metis+
  have short: "list_all short_entry (map (child_of sha) xs)" if "wf_tree (TDir xs)" for xs
    using that TDir.prems(3) by (auto simp: list_all_iff short_entry_def)
  have eq: "map (child_of sha) cs = map (child_of sha) ds"
    using TDir.prems(6) u short [of cs] short [of ds] TDir.prems(4,5)
    by (intro entries_inj) (auto simp: dir_input_entries)
  have "cs ! i = ds ! i" if i: "i < length cs" for i
  proof -
    obtain n t where ct: "cs ! i = (n, t)" by (cases "cs ! i")
    obtain n' t' where dt: "ds ! i = (n', t')" by (cases "ds ! i")
    have len: "length ds = length cs" using map_eq_imp_length_eq [OF eq] by (rule sym)
    have mem: "(n, t) \<in> set cs" "(n', t') \<in> set ds" using nth_mem [OF i] nth_mem [of i ds] i len ct dt by simp_all
    have ch: "child_of sha (n, t) = child_of sha (n', t')"
      using arg_cong [OF eq, of "\<lambda>l. l ! i"] i len ct dt by simp
    have sub: "set (digest_inputs sha t) \<subseteq> set (digest_inputs sha (TDir cs))"
      "set (digest_inputs sha t') \<subseteq> U"
      using mem TDir.prems(2) u by force+
    have "tree_input sha t = tree_input sha t'"
    proof (rule inj_onD [OF TDir.prems(1)])
      show "sha (tree_input sha t) = sha (tree_input sha t')" using ch by simp
    qed (use sub digest_inputs_self in blast)+
    moreover have "inj_on sha (set (digest_inputs sha t) \<union> U)"
      using TDir.prems(1) sub(1) by (rule inj_on_subset [OF _ Un_mono]) simp
    ultimately have "t = t'"
      using mem TDir.prems(3-5) u sub(2)
      by (intro TDir.IH [OF mem(1), of t]) (auto simp: list_all_iff)
    then show ?thesis using ch ct dt by simp
  qed
  then show ?case using u eq by (auto intro!: nth_equalityI dest: map_eq_imp_length_eq)
qed

section \<open>What is collected is well formed\<close>

lemma split_lines_chars: "l \<in> set (split_lines b) \<Longrightarrow> set l \<subseteq> {c \<in> set b. \<not> is_terminator c}"
proof (induction b rule: split_lines.induct)
  case (1 b)
  let ?i = "length (takeWhile (\<lambda>b. \<not> is_terminator b) b)"
  have head: "take ?i b = takeWhile (\<lambda>b. \<not> is_terminator b) b" by (rule takeWhile_eq_take [symmetric])
  show ?case
  proof (cases "?i < length b")
    case True
    then have "b \<noteq> []" by auto
    then consider "l = take ?i b" | "l = []" |
        "drop (?i + term_len b ?i) b \<noteq> []" "l \<in> set (split_lines (drop (?i + term_len b ?i) b))"
      using True 1(2) by (subst (asm) split_lines.simps) (auto simp: Let_def split: if_splits)
    then show ?thesis
    proof cases
      case 1
      then show ?thesis unfolding head by (auto dest: set_takeWhileD)
    next
      case 3
      then show ?thesis
        using "1.IH" [OF \<open>b \<noteq> []\<close> refl True refl 3] by (auto dest: in_set_dropD)
    qed auto
  next
    case False
    then have whole: "takeWhile (\<lambda>b. \<not> is_terminator b) b = b"
      by (metis head length_takeWhile_le not_less take_all)
    have "l = b" if "b \<noteq> []" using that False 1(2) by (subst (asm) split_lines.simps) (simp add: Let_def)
    then show ?thesis using 1(2) whole set_takeWhileD by (cases "b = []") (fastforce simp: split_lines.simps)+
  qed
qed

lemma content_of_wf: "wf_content (content_of bytes)"
  using split_lines_chars [of _ bytes]
  by (fastforce simp: content_of_def is_text_bytes_def list_all_iff is_terminator_def)

text \<open>The names of a listing fit a 32-bit length prefix.\<close>

function short_names :: "(string \<times> fs_entry) list \<Rightarrow> bool" where
  "short_names [] = True"
| "short_names ((name, entry) # entries) \<longleftrightarrow> length name < U32_RANGE \<and>
    (case entry of FsDir sub \<Rightarrow> short_names sub | _ \<Rightarrow> True) \<and> short_names entries"
  by pat_completeness auto
termination
  by (relation "measure (size_list (size_prod (\<lambda>_. 0) size))") auto

lemma wf_insert: "wf_tree (TDir m) \<Longrightarrow> length n < U32_RANGE \<Longrightarrow> wf_tree t \<Longrightarrow> wf_tree (TDir (btree_insert n t m))"
  by (induction m) auto

lemma wf_leaf: "wf_tree (TFile m (content_of bytes))" "wf_tree (TDir [])"
  by (simp_all add: content_of_wf)

lemma canon_wf: "short_names es \<Longrightarrow> wf_tree (TDir acc) \<Longrightarrow> wf_tree (TDir (canon es acc))"
proof (induction es acc rule: canon.induct)
  case (2 name entry entries acc)
  then show ?case
    by (cases entry) (auto simp del: wf_tree.simps simp: wf_insert wf_leaf split: if_splits)
qed simp

text \<open>
  C22. The root hash identifies the content of a working tree. Two collected manifests have the same
  root hash exactly when the two trees have the same visible entries, with the same kinds and
  executable bits, the same bytes in binary files and the same lines in text files, whatever the
  line endings, the listing order, the blob store and the owner were; as long as the digest does
  not collide on the inputs of these two trees.\<close>

theorem root_hash_identifies_content:
  assumes "collect_manifest sha put1 owner1 es1 = Inr m1" and "collect_manifest sha put2 owner2 es2 = Inr m2"
    and "short_names es1" and "short_names es2" and "\<And>x. length (sha x) < U32_RANGE"
    and "inj_on sha (set (digest_inputs sha (TDir (canon es1 []))) \<union> set (digest_inputs sha (TDir (canon es2 []))))"
  shows "mr_root_hash m1 = mr_root_hash m2 \<longleftrightarrow> canon es1 [] = canon es2 []"
proof
  let ?t = "TDir (canon es1 [])" and ?u = "TDir (canon es2 [])"
  assume "mr_root_hash m1 = mr_root_hash m2"
  then have "sha (tree_input sha ?t) = sha (tree_input sha ?u)"
    using root_hash_canon [OF assms(1)] root_hash_canon [OF assms(2)] by simp
  then have "tree_input sha ?t = tree_input sha ?u"
    by (rule inj_onD [OF assms(6)]) (use digest_inputs_self [of sha ?t] digest_inputs_self [of sha ?u] in auto)
  then have "?t = ?u"
    using assms(5) canon_wf [OF assms(3), of "[]"] canon_wf [OF assms(4), of "[]"]
    by (intro tree_input_inj [OF assms(6) subset_refl]) auto
  then show "canon es1 [] = canon es2 []" by simp
qed (use root_hash_canon [OF assms(1)] root_hash_canon [OF assms(2)] in simp)

text \<open>Two listings of one content: with LF and with CRLF line breaks, and with a hidden entry.\<close>

definition sample_put :: "string \<Rightarrow> blob_reference \<Rightarrow> string + string" where
  "sample_put bytes r = Inr ''blob''"

definition sample_lf :: "(string \<times> fs_entry) list" where
  "sample_lf = [(''.git'', FsDir []), (''a'', FsFile 420 [CHR ''x'', CHR 0x0A, CHR ''y''])]"

definition sample_crlf :: "(string \<times> fs_entry) list" where
  "sample_crlf = [(''a'', FsFile 420 [CHR ''x'', CHR 0x0D, CHR 0x0A, CHR ''y''])]"

lemma sample_canon:
  "canon sample_lf [] = [(''a'', TFile 33188 (Text [''x'', ''y'']))]"
  "canon sample_crlf [] = [(''a'', TFile 33188 (Text [''x'', ''y'']))]"
  by (simp_all add: sample_lf_def sample_crlf_def is_workspace_internal_component_def content_of_def
      is_text_bytes_def split_lines.simps is_terminator_def term_len_def file_mode_def)

theorem root_hash_identifies_content_witness:
  "\<exists>m1 m2. collect_manifest (take 100) sample_put ''o'' sample_lf = Inr m1 \<and>
    collect_manifest (take 100) sample_put ''p'' sample_crlf = Inr m2 \<and> mr_root_hash m1 = mr_root_hash m2"
proof -
  obtain m1 where m1: "collect_manifest (take 100) sample_put ''o'' sample_lf = Inr m1"
    by (simp add: collect_manifest_def collect_dir_def sample_lf_def sample_put_def Let_def
        is_workspace_internal_component_def)
  obtain m2 where m2: "collect_manifest (take 100) sample_put ''p'' sample_crlf = Inr m2"
    by (simp add: collect_manifest_def collect_dir_def sample_crlf_def sample_put_def Let_def
        is_workspace_internal_component_def)
  have "inj_on (take 100) {x :: string. length x \<le> 100}" by (auto simp: inj_on_def)
  moreover have "set (digest_inputs (take 100) (TDir [(''a'', TFile 33188 (Text [''x'', ''y'']))])) \<subseteq>
      {x. length x \<le> 100}"
    by (simp add: dir_input_def write_domain_def write_str_def)
  ultimately have inj: "inj_on (take 100)
      (set (digest_inputs (take 100) (TDir [(''a'', TFile 33188 (Text [''x'', ''y'']))])))"
    by (rule inj_on_subset)
  have "mr_root_hash m1 = mr_root_hash m2 \<longleftrightarrow> canon sample_lf [] = canon sample_crlf []"
  proof (rule root_hash_identifies_content [OF m1 m2])
    show "short_names sample_lf" "short_names sample_crlf"
      by (simp_all add: sample_lf_def sample_crlf_def)
    show "length (take 100 x) < U32_RANGE" for x :: string by simp
  qed (unfold sample_canon Un_absorb, rule inj)
  then show ?thesis using m1 m2 by (auto simp: sample_canon)
qed

end
