(* ===== verification/Project_Store.thy ===== *)
theory Project_Store
  imports Session_Flow Workspace_Path
begin

text \<open>
  The projects capability (\<open>crates/projects/src/interface.rs\<close>): projects and their states, the
  project memory, and the GitHub credentials. Every method that opens a unit of work is
  \<open>run_tx\<close> of its body; reads after the commit are separate calls.

  The workspace capability, the file system, the secret cipher and the URL parser are
  parameters. A document always has its typed fields here, so that the errors of a malformed
  document do not arise.
\<close>

section \<open>Errors\<close>

datatype driver_error = DuplicateKey | DriverFailure

datatype workspace_error =
    WsNotFound
  | WsRevisionMismatch string string
  | WsInvalidPath path_error
  | WsPathNotFound string
  | WsPermissionDenied string
  | WsNotEditable string
  | WsStorage
  | WsSerde
  | WsInternal string
  | WsValueAccess

datatype projects_error =
    PrValidation string
  | PrNotFound
  | PrCredentialNotFound
  | PrConflictNotFound
  | PrRevisionMismatch string string
  | PrInvalidPath string
  | PrNotEditable string
  | PrWorkspace workspace_error
  | PrOperation operation_error
  | PrStorage driver_error
  | PrSerde
  | PrIo
  | PrInternal string
  | PrValueAccess

fun projects_error_code :: "projects_error \<Rightarrow> string" where
  "projects_error_code (PrValidation _) = ''VALIDATION_FAILED''"
| "projects_error_code PrNotFound = ''RESOURCE_NOT_FOUND''"
| "projects_error_code PrCredentialNotFound = ''RESOURCE_NOT_FOUND''"
| "projects_error_code PrConflictNotFound = ''RESOURCE_NOT_FOUND''"
| "projects_error_code (PrRevisionMismatch _ _) = ''RESOURCE_VERSION_MISMATCH''"
| "projects_error_code (PrInvalidPath _) = ''INVALID_PATH''"
| "projects_error_code (PrNotEditable _) = ''FILE_NOT_EDITABLE''"
| "projects_error_code (PrWorkspace (WsRevisionMismatch _ _)) = ''RESOURCE_VERSION_MISMATCH''"
| "projects_error_code _ = ''INTERNAL_ERROR''"

section \<open>State\<close>

record project_row =
  pj_id :: string
  pj_owner_id :: string
  pj_name :: string
  pj_state :: string
  pj_repo_access :: string
  pj_repo_url :: string
  pj_repo_branch :: "string option"
  pj_github_credential_id :: "string option"
  pj_default_model_id :: "string option"
  pj_main_workspace_handle :: "string option"
  pj_clone_error :: "string option"
  pj_version :: string
  pj_created_at :: int
  pj_updated_at :: int
  pj_last_activity_at :: int

record memory_row =
  my_project_id :: string
  my_key :: string
  my_content :: string
  my_version :: string
  my_created_at :: int
  my_updated_at :: int

record credential_row =
  gc_id :: string
  gc_owner_id :: string
  gc_name :: string
  gc_github_host :: string
  gc_pat_ciphertext :: "string option"
  gc_pat_fingerprint :: "string option"
  gc_automation_enabled :: bool
  gc_version :: string
  gc_created_at :: int
  gc_updated_at :: int

record projects_db = sessions_db +
  projects :: "project_row list"
  memories :: "memory_row list"
  github_credentials :: "credential_row list"

text \<open>What the capability calls outside itself.\<close>

datatype io_outcome = IoDone | IoNotFound | IoOther

record 'w project_world =
  pw_remove_dir :: "string \<Rightarrow> 'w \<Rightarrow> io_outcome \<times> 'w"
  pw_lock :: "string \<Rightarrow> 'w \<Rightarrow> workspace_error + unit"
  pw_ensure_main_copy :: "string \<Rightarrow> string \<Rightarrow> json \<Rightarrow> 'w \<Rightarrow> (workspace_error + unit) \<times> 'w"
  pw_current_revision :: "string \<Rightarrow> 'w \<Rightarrow> string option"
  pw_git_projection :: "string \<Rightarrow> 'w \<Rightarrow> string option \<times> string option"

record secret_cipher =
  sc_encrypt :: "string \<Rightarrow> string \<Rightarrow> projects_error + string"
  sc_decrypt :: "string \<Rightarrow> string \<Rightarrow> projects_error + string"
  sc_fingerprint :: "string \<Rightarrow> string"

definition append_project_changed_in_tx ::
  "serde \<Rightarrow> string \<times> int \<Rightarrow> string \<Rightarrow> string \<Rightarrow> string \<Rightarrow> string \<Rightarrow> string \<Rightarrow> 'x projects_db_scheme \<Rightarrow>
    projects_error + 'x projects_db_scheme" where
  "append_project_changed_in_tx J ev owner_id resource_id resource_kind operation correlation_id db =
    (case append_in_tx J (fst ev) (snd ev)
       \<lparr>ne_type = ProjectChanged, ne_actor = resource_json ''owner'' owner_id,
        ne_resource = Some (resource_json resource_kind resource_id),
        ne_correlation_id = correlation_id, ne_causation_id = None,
        ne_payload = JObj [(''operation'', JStr operation)]\<rparr> db of
       Inl _ \<Rightarrow> Inl (PrInternal ''append event'') | Inr (_, db') \<Rightarrow> Inr db')"

section \<open>Reading projects\<close>

definition owner_id :: "string \<Rightarrow> 'x projects_db_scheme \<Rightarrow> projects_error + string" where
  "owner_id project_id db =
     and_then (ok_or PrNotFound (find_one (\<lambda>p. pj_id p = project_id) (projects db)))
       (\<lambda>p. Inr (pj_owner_id p))"

definition fetch_project ::
  "string \<Rightarrow> string \<Rightarrow> 'x projects_db_scheme \<Rightarrow> projects_error + project_row" where
  "fetch_project owner i db =
     ok_or PrNotFound (find_one (\<lambda>p. pj_id p = i \<and> pj_owner_id p = owner) (projects db))"

definition require_ready ::
  "string \<Rightarrow> string \<Rightarrow> 'x projects_db_scheme \<Rightarrow> projects_error + project_row" where
  "require_ready owner i db =
     and_then (fetch_project owner i db) (\<lambda>row.
       if pj_state row \<noteq> ''ready''
       then Inl (PrValidation (''project is not ready (state: '' @ pj_state row @ '')''))
       else Inr row)"

definition ensure_ready ::
  "string \<Rightarrow> string \<Rightarrow> 'x projects_db_scheme \<Rightarrow> projects_error + unit" where
  "ensure_ready owner project_id db = and_then (require_ready owner project_id db) (\<lambda>_. Inr ())"

datatype repo_access = PublicHttps | GithubPrivate

fun repo_access_as_str :: "repo_access \<Rightarrow> string" where
  "repo_access_as_str PublicHttps = ''public_https''"
| "repo_access_as_str GithubPrivate = ''github_private''"

definition repo_access_parse :: "string \<Rightarrow> repo_access option" where
  "repo_access_parse s =
    (if s = ''public_https'' then Some PublicHttps
     else if s = ''github_private'' then Some GithubPrivate else None)"

record repository_input =
  ri_access :: repo_access
  ri_url :: string
  ri_branch :: "string option"
  ri_github_credential_id :: "string option"

record project_view =
  pv_id :: string
  pv_name :: string
  pv_state :: string
  pv_restrictions :: "string list"
  pv_repository :: repository_input
  pv_current_branch :: "string option"
  pv_main_revision :: "string option"
  pv_git_state_version :: "string option"
  pv_default_model_id :: "string option"
  pv_version :: string
  pv_created_at :: int
  pv_updated_at :: int

definition view_from_row ::
  "'x projects_db_scheme project_world \<Rightarrow> project_row \<Rightarrow> 'x projects_db_scheme \<Rightarrow> project_view" where
  "view_from_row W row db =
    (let (branch, git_version) = pw_git_projection W (pj_id row) db
     in \<lparr>pv_id = pj_id row, pv_name = pj_name row, pv_state = pj_state row,
         pv_restrictions = (case pj_clone_error row of None \<Rightarrow> [] | Some e \<Rightarrow> [e]),
         pv_repository =
           \<lparr>ri_access = (case repo_access_parse (pj_repo_access row) of
                          None \<Rightarrow> PublicHttps | Some a \<Rightarrow> a),
            ri_url = pj_repo_url row, ri_branch = pj_repo_branch row,
            ri_github_credential_id = pj_github_credential_id row\<rparr>,
         pv_current_branch = branch,
         pv_main_revision = (case pj_main_workspace_handle row of
             None \<Rightarrow> None | Some handle \<Rightarrow> pw_current_revision W handle db),
         pv_git_state_version = git_version, pv_default_model_id = pj_default_model_id row,
         pv_version = pj_version row, pv_created_at = pj_created_at row,
         pv_updated_at = pj_updated_at row\<rparr>)"

definition get_project ::
  "'x projects_db_scheme project_world \<Rightarrow> string \<Rightarrow> string \<Rightarrow> 'x projects_db_scheme \<Rightarrow>
    projects_error + project_view" where
  "get_project W owner i db = and_then (fetch_project owner i db) (\<lambda>row. Inr (view_from_row W row db))"

text \<open>\<open>limit.clamp(1, 100)\<close> projects, the most recently active first.\<close>

definition list_projects ::
  "'x projects_db_scheme project_world \<Rightarrow> string \<Rightarrow> nat \<Rightarrow> 'x projects_db_scheme \<Rightarrow> project_view list" where
  "list_projects W owner limit db =
     map (\<lambda>row. view_from_row W row db)
       (take (max 1 (min limit 100)) (sort_key (\<lambda>p. - pj_last_activity_at p)
         (filter (\<lambda>p. pj_owner_id p = owner) (projects db))))"

definition model_preference_in_tx ::
  "string \<Rightarrow> 'x projects_db_scheme \<Rightarrow> projects_error + project_preference" where
  "model_preference_in_tx project_id db =
     and_then (ok_or PrNotFound (find_one (\<lambda>p. pj_id p = project_id) (projects db)))
       (\<lambda>p. Inr \<lparr>pp_owner_id = pj_owner_id p, pp_default_model_id = pj_default_model_id p\<rparr>)"

section \<open>Memory\<close>

record memory_view =
  mv_key :: string
  mv_content :: string
  mv_version :: string
  mv_created_at :: int
  mv_updated_at :: int

definition memory_view_of :: "memory_row \<Rightarrow> memory_view" where
  "memory_view_of m =
     \<lparr>mv_key = my_key m, mv_content = my_content m, mv_version = my_version m,
      mv_created_at = my_created_at m, mv_updated_at = my_updated_at m\<rparr>"

definition list_memories :: "string \<Rightarrow> 'x projects_db_scheme \<Rightarrow> memory_view list" where
  "list_memories project_id db =
     map memory_view_of (take 200 (sort_key my_key
       (filter (\<lambda>m. my_project_id m = project_id) (memories db))))"

definition memory_context :: "string \<Rightarrow> 'x projects_db_scheme \<Rightarrow> string" where
  "memory_context project_id db =
    (let ms = list_memories project_id db
     in if ms = [] then []
        else ''Persistent project memory (authoritative when relevant):'' @ [CHR 0x0A] @
             concat (map (\<lambda>m. ''- '' @ mv_key m @ '': '' @ mv_content m @ [CHR 0x0A]) ms))"

text \<open>
  The upsert: an existing memory keeps its \<open>created_at\<close> (\<open>$setOnInsert\<close>), and the returned view
  carries the time of this call in both places.
\<close>

definition set_memory ::
  "int \<Rightarrow> string \<Rightarrow> string \<Rightarrow> string \<Rightarrow> string \<Rightarrow> 'x projects_db_scheme \<Rightarrow>
    (projects_error + memory_view) \<times> 'x projects_db_scheme" where
  "set_memory now new_version project_id raw_key raw_content db =
    (let key = str_trim raw_key; content = str_trim raw_content; version = version_tag new_version
     in if key = [] \<or> 200 < length key
        then (Inl (PrValidation ''memory key must be 1-200 characters''), db)
        else if content = [] \<or> 100000 < length content
        then (Inl (PrValidation ''memory content must be 1-100000 bytes''), db)
        else let (ms, matched) = update_one (\<lambda>m. my_project_id m = project_id \<and> my_key m = key)
                   (\<lambda>m. m\<lparr>my_content := content, my_version := version, my_updated_at := now\<rparr>)
                   (memories db);
                 ms' = (if matched = 0
                        then ms @ [\<lparr>my_project_id = project_id, my_key = key, my_content = content,
                                   my_version = version, my_created_at = now, my_updated_at = now\<rparr>]
                        else ms)
             in (Inr \<lparr>mv_key = key, mv_content = content, mv_version = version,
                      mv_created_at = now, mv_updated_at = now\<rparr>, db\<lparr>memories := ms'\<rparr>))"

definition delete_memory :: "string \<Rightarrow> string \<Rightarrow> 'x projects_db_scheme \<Rightarrow> bool \<times> 'x projects_db_scheme" where
  "delete_memory project_id key db =
    (let (ms, deleted) = delete_one (\<lambda>m. my_project_id m = project_id \<and> my_key m = str_trim key)
           (memories db)
     in (0 < deleted, db\<lparr>memories := ms\<rparr>))"

section \<open>Creating and changing projects\<close>

definition KIND_CLONE :: string where "KIND_CLONE = ''project.clone''"
definition KIND_DELETE_PROJECT :: string where "KIND_DELETE_PROJECT = ''project.delete''"

text \<open>\<open>parse_url\<close> stands for the URL crate: the scheme and the host of an absolute URL.\<close>

definition validate_repository_input ::
  "(string \<Rightarrow> (string \<times> string option) option) \<Rightarrow> repository_input \<Rightarrow> projects_error + unit" where
  "validate_repository_input parse_url repo =
    (case parse_url (str_trim (ri_url repo)) of
       None \<Rightarrow> Inl (PrValidation ''repository url must be an absolute URL'')
     | Some (scheme, host) \<Rightarrow>
         if \<not> (scheme = ''http'' \<or> scheme = ''https'' \<or> scheme = ''file'') \<or>
            host = None \<and> scheme \<noteq> ''file''
         then Inl (PrValidation ''repository url must use http(s) or file'')
         else if ri_access repo = GithubPrivate \<and> ri_github_credential_id repo = None
         then Inl (PrValidation ''github_private requires a github_credential_id'')
         else Inr ())"

record project_gen =
  ng_id :: string
  ng_create :: create_gen
  ng_now :: int
  ng_version :: string
  ng_event :: "string \<times> int"

definition clone_payload :: "string \<Rightarrow> string \<Rightarrow> string option \<Rightarrow> string \<Rightarrow> string option \<Rightarrow> json" where
  "clone_payload project_id url branch access credential_id =
    JObj [(''project_id'', JStr project_id), (''url'', JStr url), (''branch'', opt_json branch),
          (''access'', JStr access), (''github_credential_id'', opt_json credential_id)]"

definition clone_request ::
  "string \<Rightarrow> string \<Rightarrow> string \<Rightarrow> idempotency_request option \<Rightarrow> create_operation" where
  "clone_request owner project_id correlation_id idem =
    \<lparr>co_kind = KIND_CLONE, co_actor = resource_json ''owner'' owner, co_target_kind = ''project'',
     co_target_id = Some project_id, co_conditions = JObj [(''project_id'', JStr project_id)],
     co_correlation_id = correlation_id, co_idempotency = idem\<rparr>"

text \<open>The transaction of \<open>create_project\<close>; a replayed request writes no project.\<close>

definition create_project_tx ::
  "serde \<Rightarrow> project_gen \<Rightarrow> string \<Rightarrow> string \<Rightarrow> repository_input \<Rightarrow> string \<Rightarrow> idempotency_request option \<Rightarrow>
    'x projects_db_scheme \<Rightarrow>
    projects_error + ((operation_view \<times> idempotency_outcome) \<times> 'x projects_db_scheme)" where
  "create_project_tx J g owner name repo correlation_id idem db =
    and_then (map_sum PrOperation id (create_in_tx J (ng_create g)
        (clone_request owner (ng_id g) correlation_id idem)
        (Some \<lparr>cw_handler_kind = KIND_CLONE,
               cw_payload = clone_payload (ng_id g) (ri_url repo) (ri_branch repo)
                 (repo_access_as_str (ri_access repo)) (ri_github_credential_id repo)\<rparr>) db))
      (\<lambda>((operation, outcome), db1).
        if outcome \<noteq> New then Inr ((operation, outcome), db1)
        else and_then (ok_or (PrStorage DuplicateKey) (insert_one pj_id
            \<lparr>pj_id = ng_id g, pj_owner_id = owner, pj_name = str_trim name, pj_state = ''creating'',
             pj_repo_access = repo_access_as_str (ri_access repo), pj_repo_url = ri_url repo,
             pj_repo_branch = ri_branch repo,
             pj_github_credential_id = ri_github_credential_id repo,
             pj_default_model_id = None, pj_main_workspace_handle = None, pj_clone_error = None,
             pj_version = version_tag (ng_version g), pj_created_at = ng_now g,
             pj_updated_at = ng_now g, pj_last_activity_at = ng_now g\<rparr> (projects db1))) (\<lambda>ps.
          and_then (append_project_changed_in_tx J (ng_event g) owner (ng_id g) ''project''
              ''created'' correlation_id (db1\<lparr>projects := ps\<rparr>))
            (\<lambda>db2. Inr ((operation, outcome), db2))))"

definition create_project ::
  "serde \<Rightarrow> (string \<Rightarrow> (string \<times> string option) option) \<Rightarrow> 'x projects_db_scheme project_world \<Rightarrow>
    project_gen \<Rightarrow> string \<Rightarrow> string \<Rightarrow> repository_input \<Rightarrow> string \<Rightarrow> idempotency_request option \<Rightarrow>
    'x projects_db_scheme \<Rightarrow>
    (projects_error + project_view \<times> operation_view) \<times> 'x projects_db_scheme" where
  "create_project J parse_url W g owner name repo correlation_id idem db =
    and_run (validate_repository_input parse_url repo, db) (\<lambda>_ db.
      if str_trim name = [] then (Inl (PrValidation ''name is required''), db)
      else and_run (run_tx (create_project_tx J g owner name repo correlation_id idem) db)
        (\<lambda>(operation, outcome) db1.
          and_run (if outcome \<noteq> New
              then ok_or (PrInternal ''idempotent clone operation missing target_id'')
                     (ov_target_id operation)
              else Inr (ng_id g), db1) (\<lambda>project_id db1.
          and_run (get_project W owner project_id db1, db1) (\<lambda>view db1.
            (Inr (view, operation), db1)))))"

text \<open>A guarded update of one project with its event, as the four methods below make it.\<close>

definition change_project_tx ::
  "serde \<Rightarrow> string \<times> int \<Rightarrow> string \<Rightarrow> string \<Rightarrow> string \<Rightarrow> string \<Rightarrow> projects_error \<Rightarrow> (project_row \<Rightarrow> bool) \<Rightarrow>
    (project_row \<Rightarrow> project_row) \<Rightarrow> 'x projects_db_scheme \<Rightarrow>
    projects_error + (unit \<times> 'x projects_db_scheme)" where
  "change_project_tx J ev owner i operation correlation_id refused filt upd db =
    (let (ps, matched) = update_one filt upd (projects db)
     in if matched = 0 then Inl refused
        else and_then (append_project_changed_in_tx J ev owner i ''project'' operation correlation_id
               (db\<lparr>projects := ps\<rparr>)) (\<lambda>db1. Inr ((), db1)))"

definition update_project ::
  "serde \<Rightarrow> 'x projects_db_scheme project_world \<Rightarrow> project_gen \<Rightarrow> string \<Rightarrow> string \<Rightarrow> string \<Rightarrow>
    string option \<Rightarrow> string option option \<Rightarrow> string \<Rightarrow> 'x projects_db_scheme \<Rightarrow>
    (projects_error + project_view) \<times> 'x projects_db_scheme" where
  "update_project J W g owner i expected_version name default_model_id correlation_id db =
    and_run (run_tx (change_project_tx J (ng_event g) owner i ''updated'' correlation_id PrNotFound
        (\<lambda>p. pj_id p = i \<and> pj_owner_id p = owner \<and> pj_version p = expected_version)
        (\<lambda>p. p\<lparr>pj_version := version_tag (ng_version g), pj_updated_at := ng_now g,
               pj_name := (case name of None \<Rightarrow> pj_name p | Some n \<Rightarrow> str_trim n),
               pj_default_model_id := (case default_model_id of None \<Rightarrow> pj_default_model_id p
                                        | Some m \<Rightarrow> m)\<rparr>)) db)
      (\<lambda>_ db1. (get_project W owner i db1, db1))"

definition delete_project_tx ::
  "serde \<Rightarrow> project_gen \<Rightarrow> string \<Rightarrow> string \<Rightarrow> string \<Rightarrow> string \<Rightarrow> idempotency_request \<Rightarrow>
    'x projects_db_scheme \<Rightarrow> projects_error + (operation_view \<times> 'x projects_db_scheme)" where
  "delete_project_tx J g owner i expected_version correlation_id idem db =
    and_then (map_sum PrOperation id (create_in_tx J (ng_create g)
        \<lparr>co_kind = KIND_DELETE_PROJECT, co_actor = resource_json ''owner'' owner,
         co_target_kind = ''project'', co_target_id = Some i,
         co_conditions = JObj [(''project_id'', JStr i),
                               (''version'', JStr (version_tag (ng_version g)))],
         co_correlation_id = correlation_id, co_idempotency = Some idem\<rparr>
        (Some \<lparr>cw_handler_kind = KIND_DELETE_PROJECT,
               cw_payload = JObj [(''project_id'', JStr i)]\<rparr>) db))
      (\<lambda>((operation, outcome), db1).
        if outcome \<noteq> New then Inr (operation, db1)
        else and_then (change_project_tx J (ng_event g) owner i ''deleted'' correlation_id PrNotFound
            (\<lambda>p. pj_id p = i \<and> pj_owner_id p = owner \<and> pj_version p = expected_version \<and>
                 pj_state p \<noteq> ''deleting'')
            (\<lambda>p. p\<lparr>pj_state := ''deleting'', pj_version := version_tag (ng_version g),
                   pj_updated_at := ng_now g\<rparr>) db1)
          (\<lambda>(_, db2). Inr (operation, db2)))"

definition delete_project ::
  "serde \<Rightarrow> project_gen \<Rightarrow> string \<Rightarrow> string \<Rightarrow> string \<Rightarrow> string \<Rightarrow> idempotency_request \<Rightarrow>
    'x projects_db_scheme \<Rightarrow> (projects_error + operation_view) \<times> 'x projects_db_scheme" where
  "delete_project J g owner i expected_version correlation_id idem =
     run_tx (delete_project_tx J g owner i expected_version correlation_id idem)"

definition retry_project_tx ::
  "serde \<Rightarrow> project_gen \<Rightarrow> string \<Rightarrow> string \<Rightarrow> project_row \<Rightarrow> string option \<Rightarrow> string option \<Rightarrow> string \<Rightarrow>
    'x projects_db_scheme \<Rightarrow> projects_error + (operation_view \<times> 'x projects_db_scheme)" where
  "retry_project_tx J g owner i row branch cred correlation_id db =
    (let (ps, matched) = update_one
           (\<lambda>p. pj_id p = i \<and> pj_owner_id p = owner \<and> pj_state p = ''error'')
           (\<lambda>p. p\<lparr>pj_state := ''creating'', pj_clone_error := None,
                  pj_version := version_tag (ng_version g), pj_updated_at := ng_now g,
                  pj_last_activity_at := ng_now g, pj_repo_branch := branch,
                  pj_github_credential_id := cred\<rparr>) (projects db)
     in if matched = 0 then Inl PrNotFound
        else and_then (map_sum PrOperation id (create_in_tx J (ng_create g)
            (clone_request owner i correlation_id None)
            (Some \<lparr>cw_handler_kind = KIND_CLONE,
                   cw_payload = clone_payload i (pj_repo_url row) branch (pj_repo_access row) cred\<rparr>)
            (db\<lparr>projects := ps\<rparr>)))
          (\<lambda>((operation, outcome), db1).
            and_then (append_project_changed_in_tx J (ng_event g) owner i ''project'' ''retry''
                correlation_id db1) (\<lambda>db2. Inr (operation, db2))))"

definition retry_project ::
  "serde \<Rightarrow> 'x projects_db_scheme project_world \<Rightarrow> project_gen \<Rightarrow> string \<Rightarrow> string \<Rightarrow> string option \<Rightarrow>
    string option \<Rightarrow> string \<Rightarrow> 'x projects_db_scheme \<Rightarrow>
    (projects_error + project_view \<times> operation_view) \<times> 'x projects_db_scheme" where
  "retry_project J W g owner i new_branch new_cred correlation_id db =
    and_run (fetch_project owner i db, db) (\<lambda>row db.
      if pj_state row \<noteq> ''error''
      then (Inl (PrValidation (''only error projects can retry (state: '' @ pj_state row @ '')'')), db)
      else let branch = (case new_branch of None \<Rightarrow> pj_repo_branch row | Some b \<Rightarrow> Some b);
               cred = (case new_cred of None \<Rightarrow> pj_github_credential_id row | Some c \<Rightarrow> Some c)
           in and_run (run_tx (retry_project_tx J g owner i row branch cred correlation_id) db)
             (\<lambda>operation db1. and_run (get_project W owner i db1, db1) (\<lambda>view db1.
               (Inr (view, operation), db1))))"


section \<open>GitHub credentials\<close>

record credential_view =
  cv_id :: string
  cv_name :: string
  cv_github_host :: string
  cv_pat_is_set :: bool
  cv_pat_fingerprint :: "string option"
  cv_automation_enabled :: bool
  cv_version :: string
  cv_created_at :: int
  cv_updated_at :: int

definition credential_view_of :: "credential_row \<Rightarrow> credential_view" where
  "credential_view_of c =
    \<lparr>cv_id = gc_id c, cv_name = gc_name c, cv_github_host = gc_github_host c,
     cv_pat_is_set = (gc_pat_ciphertext c \<noteq> None), cv_pat_fingerprint = gc_pat_fingerprint c,
     cv_automation_enabled = gc_automation_enabled c, cv_version = gc_version c,
     cv_created_at = gc_created_at c, cv_updated_at = gc_updated_at c\<rparr>"

text \<open>The unique index on owner and name, which a write must keep beside the primary key.\<close>

definition credentials_indexed :: "credential_row list \<Rightarrow> bool" where
  "credentials_indexed cs \<longleftrightarrow>
     distinct (map gc_id cs) \<and> distinct (map (\<lambda>c. (gc_owner_id c, gc_name c)) cs)"

definition fetch_credential ::
  "string \<Rightarrow> string \<Rightarrow> 'x projects_db_scheme \<Rightarrow> projects_error + credential_row" where
  "fetch_credential owner i db =
     ok_or PrCredentialNotFound
       (find_one (\<lambda>c. gc_id c = i \<and> gc_owner_id c = owner) (github_credentials db))"

definition get_credential ::
  "string \<Rightarrow> string \<Rightarrow> 'x projects_db_scheme \<Rightarrow> projects_error + credential_view" where
  "get_credential owner i db = and_then (fetch_credential owner i db) (\<lambda>c. Inr (credential_view_of c))"

definition list_credentials :: "string \<Rightarrow> 'x projects_db_scheme \<Rightarrow> credential_view list" where
  "list_credentials owner db = map credential_view_of
     (sort_key gc_name (filter (\<lambda>c. gc_owner_id c = owner) (github_credentials db)))"

definition list_automation_credentials :: "string \<Rightarrow> 'x projects_db_scheme \<Rightarrow> credential_view list" where
  "list_automation_credentials owner db = map credential_view_of
     (sort_key gc_name (filter (\<lambda>c. gc_owner_id c = owner \<and> gc_automation_enabled c)
       (github_credentials db)))"

definition pat_aad :: "string \<Rightarrow> string \<Rightarrow> string" where
  "pat_aad owner i = ''v1/'' @ owner @ ''/github_credentials/'' @ i @ ''/pat''"

definition encrypt_pat ::
  "secret_cipher \<Rightarrow> string \<Rightarrow> string \<Rightarrow> string option \<Rightarrow>
    projects_error + (string option \<times> string option)" where
  "encrypt_pat K owner i pat =
    (case pat of
       Some v \<Rightarrow>
         if str_trim v = [] then Inr (None, None)
         else and_then (sc_encrypt K v (pat_aad owner i))
                (\<lambda>c. Inr (Some c, Some (sc_fingerprint K v)))
     | None \<Rightarrow> Inr (None, None))"

definition pat_for ::
  "secret_cipher \<Rightarrow> string \<Rightarrow> string \<Rightarrow> 'x projects_db_scheme \<Rightarrow> projects_error + string option" where
  "pat_for K owner i db =
    and_then (fetch_credential owner i db) (\<lambda>c.
      case gc_pat_ciphertext c of
        None \<Rightarrow> Inr None
      | Some stored \<Rightarrow> and_then (sc_decrypt K stored (pat_aad owner i)) (\<lambda>p. Inr (Some p)))"

definition git_token_for_project ::
  "secret_cipher \<Rightarrow> string \<Rightarrow> string \<Rightarrow> 'x projects_db_scheme \<Rightarrow> projects_error + string option" where
  "git_token_for_project K owner project_id db =
    and_then (fetch_project owner project_id db) (\<lambda>row.
      case pj_github_credential_id row of None \<Rightarrow> Inr None | Some c \<Rightarrow> pat_for K owner c db)"

record credential_gen =
  xg_id :: string
  xg_now :: int
  xg_version :: string
  xg_event :: "string \<times> int"

text \<open>A guarded write of the credentials with its event.\<close>

definition change_credentials_tx ::
  "serde \<Rightarrow> credential_gen \<Rightarrow> string \<Rightarrow> string \<Rightarrow> string \<Rightarrow> string \<Rightarrow> credential_row list \<times> nat \<Rightarrow>
    'x projects_db_scheme \<Rightarrow> projects_error + (unit \<times> 'x projects_db_scheme)" where
  "change_credentials_tx J g owner i operation correlation_id written db =
    (if \<not> credentials_indexed (fst written) then Inl (PrStorage DuplicateKey)
     else if snd written = 0 then Inl PrCredentialNotFound
     else and_then (append_project_changed_in_tx J (xg_event g) owner i ''github_credential''
            operation correlation_id (db\<lparr>github_credentials := fst written\<rparr>))
       (\<lambda>db1. Inr ((), db1)))"

record credential_input =
  gi_name :: string
  gi_github_host :: string
  gi_pat :: "string option"
  gi_automation_enabled :: bool

definition create_credential ::
  "serde \<Rightarrow> secret_cipher \<Rightarrow> credential_gen \<Rightarrow> string \<Rightarrow> credential_input \<Rightarrow> string \<Rightarrow>
    'x projects_db_scheme \<Rightarrow> (projects_error + credential_view) \<times> 'x projects_db_scheme" where
  "create_credential J K g owner input correlation_id db =
    (if str_trim (gi_name input) = [] then (Inl (PrValidation ''name is required''), db)
     else and_run (encrypt_pat K owner (xg_id g) (gi_pat input), db) (\<lambda>(ciphertext, fp) db.
       and_run (run_tx (\<lambda>db. change_credentials_tx J g owner (xg_id g) ''created'' correlation_id
           (github_credentials db @
             [\<lparr>gc_id = xg_id g, gc_owner_id = owner, gc_name = str_trim (gi_name input),
               gc_github_host = str_trim (gi_github_host input), gc_pat_ciphertext = ciphertext,
               gc_pat_fingerprint = fp, gc_automation_enabled = gi_automation_enabled input,
               gc_version = version_tag (xg_version g), gc_created_at = xg_now g,
               gc_updated_at = xg_now g\<rparr>], 1) db) db)
         (\<lambda>_ db1. (get_credential owner (xg_id g) db1, db1))))"

definition set_automation_enabled ::
  "serde \<Rightarrow> credential_gen \<Rightarrow> string \<Rightarrow> string \<Rightarrow> bool \<Rightarrow> string \<Rightarrow> 'x projects_db_scheme \<Rightarrow>
    (projects_error + unit) \<times> 'x projects_db_scheme" where
  "set_automation_enabled J g owner i enabled correlation_id db =
    and_run (fetch_credential owner i db, db) (\<lambda>existing db.
      if gc_automation_enabled existing = enabled then (Inr (), db)
      else run_tx (\<lambda>db. change_credentials_tx J g owner i ''automation_scope_updated'' correlation_id
        (update_one (\<lambda>c. gc_id c = i \<and> gc_owner_id c = owner \<and> gc_version c = gc_version existing)
          (\<lambda>c. c\<lparr>gc_automation_enabled := enabled, gc_version := version_tag (xg_version g),
                 gc_updated_at := xg_now g\<rparr>) (github_credentials db)) db) db)"

definition AUTOMATION_NAME :: string where "AUTOMATION_NAME = ''Janus webhook automation''"

text \<open>The latest automation credential with this host and token fingerprint.\<close>

definition find_automation ::
  "string \<Rightarrow> string \<Rightarrow> string \<Rightarrow> 'x projects_db_scheme \<Rightarrow> credential_row option" where
  "find_automation owner host fp db =
     find_last_by (\<lambda>c. gc_owner_id c = owner \<and> gc_name c = AUTOMATION_NAME \<and>
         gc_github_host c = host \<and> gc_pat_fingerprint c = Some fp)
       gc_updated_at (github_credentials db)"

definition ensure_automation_credential ::
  "serde \<Rightarrow> secret_cipher \<Rightarrow> credential_gen \<Rightarrow> credential_gen \<Rightarrow> string \<Rightarrow> string \<Rightarrow> string \<Rightarrow> string \<Rightarrow>
    'x projects_db_scheme \<Rightarrow> (projects_error + string) \<times> 'x projects_db_scheme" where
  "ensure_automation_credential J K g_enable g owner github_host raw_pat correlation_id db =
    (let pat = str_trim raw_pat; host = str_trim github_host; fp = sc_fingerprint K pat
     in if pat = [] then (Inl (PrValidation ''github PAT is required''), db)
        else case find_automation owner host fp db of
          Some c \<Rightarrow>
            and_run (if gc_automation_enabled c then (Inr (), db)
                     else set_automation_enabled J g_enable owner (gc_id c) True correlation_id db)
              (\<lambda>_ db1. (Inr (gc_id c), db1))
        | None \<Rightarrow>
            (case create_credential J K g owner
                 \<lparr>gi_name = AUTOMATION_NAME, gi_github_host = host, gi_pat = Some pat,
                  gi_automation_enabled = True\<rparr> correlation_id db of
               (Inr view, db1) \<Rightarrow> (Inr (cv_id view), db1)
             | (Inl (PrStorage DuplicateKey), db1) \<Rightarrow>
                 (and_then (ok_or (PrInternal ''automation credential disappeared after duplicate create'')
                    (find_automation owner host fp db1)) (\<lambda>c. Inr (gc_id c)), db1)
             | (Inl e, db1) \<Rightarrow> (Inl e, db1)))"

record credential_update =
  gu_name :: "string option"
  gu_github_host :: "string option"
  gu_pat :: "string option"
  gu_automation_enabled :: "bool option"

definition trimmed_or :: "string option \<Rightarrow> string \<Rightarrow> string" where
  "trimmed_or v old = (case trimmed_nonempty v of None \<Rightarrow> old | Some s \<Rightarrow> s)"

definition update_credential ::
  "serde \<Rightarrow> secret_cipher \<Rightarrow> credential_gen \<Rightarrow> string \<Rightarrow> string \<Rightarrow> string \<Rightarrow> credential_update \<Rightarrow> string \<Rightarrow>
    'x projects_db_scheme \<Rightarrow> (projects_error + credential_view) \<times> 'x projects_db_scheme" where
  "update_credential J K g owner i expected_version input correlation_id db =
    and_run (fetch_credential owner i db, db) (\<lambda>existing db.
      if gc_version existing \<noteq> expected_version
      then (Inl (PrRevisionMismatch expected_version (gc_version existing)), db)
      else and_run (case gu_pat input of
            Some pat \<Rightarrow> encrypt_pat K owner i (Some pat)
          | None \<Rightarrow> Inr (gc_pat_ciphertext existing, gc_pat_fingerprint existing), db)
        (\<lambda>(ciphertext, fp) db.
          and_run (run_tx (\<lambda>db. change_credentials_tx J g owner i ''updated'' correlation_id
            (update_one (\<lambda>c. gc_id c = i \<and> gc_owner_id c = owner \<and> gc_version c = expected_version)
              (\<lambda>c. c\<lparr>gc_name := trimmed_or (gu_name input) (gc_name existing),
                     gc_github_host := trimmed_or (gu_github_host input) (gc_github_host existing),
                     gc_pat_fingerprint := fp, gc_pat_ciphertext := ciphertext,
                     gc_automation_enabled := (case gu_automation_enabled input of
                         None \<Rightarrow> gc_automation_enabled existing | Some b \<Rightarrow> b),
                     gc_version := version_tag (xg_version g), gc_updated_at := xg_now g\<rparr>)
              (github_credentials db)) db) db)
          (\<lambda>_ db1. (get_credential owner i db1, db1))))"

definition delete_credential ::
  "serde \<Rightarrow> credential_gen \<Rightarrow> string \<Rightarrow> string \<Rightarrow> string \<Rightarrow> 'x projects_db_scheme \<Rightarrow>
    (projects_error + unit) \<times> 'x projects_db_scheme" where
  "delete_credential J g owner i correlation_id db =
    (if find_one (\<lambda>p. pj_owner_id p = owner \<and> pj_github_credential_id p = Some i \<and>
                      pj_state p \<noteq> ''deleting'') (projects db) \<noteq> None
     then (Inl (PrValidation
            ''credential is in use by a project; reassign or delete the project first''), db)
     else run_tx (\<lambda>db. change_credentials_tx J g owner i ''deleted'' correlation_id
       (delete_one (\<lambda>c. gc_id c = i \<and> gc_owner_id c = owner) (github_credentials db)) db) db)"

definition set_project_github_credential ::
  "serde \<Rightarrow> 'x projects_db_scheme project_world \<Rightarrow> project_gen \<Rightarrow> string \<Rightarrow> string \<Rightarrow> string \<Rightarrow> string \<Rightarrow>
    'x projects_db_scheme \<Rightarrow> (projects_error + project_view) \<times> 'x projects_db_scheme" where
  "set_project_github_credential J W g owner i credential_id correlation_id db =
    and_run (fetch_credential owner credential_id db, db) (\<lambda>credential db.
      if gc_pat_ciphertext credential = None \<or> \<not> gc_automation_enabled credential
      then (Inl (PrValidation ''github credential must have a PAT and Automation enabled''), db)
      else and_run (run_tx (change_project_tx J (ng_event g) owner i ''github_credential_attached''
          correlation_id PrNotFound
          (\<lambda>p. pj_id p = i \<and> pj_owner_id p = owner \<and> pj_state p \<noteq> ''deleting'')
          (\<lambda>p. p\<lparr>pj_repo_access := ''github_private'', pj_github_credential_id := Some credential_id,
                 pj_version := version_tag (ng_version g), pj_updated_at := ng_now g,
                 pj_last_activity_at := ng_now g\<rparr>)) db)
        (\<lambda>_ db1. (get_project W owner i db1, db1)))"

section \<open>The worker's project methods\<close>

definition mark_project_state ::
  "serde \<Rightarrow> project_gen \<Rightarrow> string \<Rightarrow> string \<Rightarrow> string \<Rightarrow> string option \<Rightarrow> string \<Rightarrow>
    'x projects_db_scheme \<Rightarrow> (projects_error + unit) \<times> 'x projects_db_scheme" where
  "mark_project_state J g project_id owner state error correlation_id =
     run_tx (change_project_tx J (ng_event g) owner project_id state correlation_id PrNotFound
       (\<lambda>p. pj_id p = project_id \<and> pj_owner_id p = owner)
       (\<lambda>p. p\<lparr>pj_state := state, pj_version := version_tag (ng_version g), pj_updated_at := ng_now g,
              pj_last_activity_at := ng_now g, pj_clone_error := error\<rparr>))"

definition mark_project_ready ::
  "serde \<Rightarrow> project_gen \<Rightarrow> string \<Rightarrow> string \<Rightarrow> string \<Rightarrow> 'x projects_db_scheme \<Rightarrow>
    (projects_error + unit) \<times> 'x projects_db_scheme" where
  "mark_project_ready J g project_id owner correlation_id =
     run_tx (change_project_tx J (ng_event g) owner project_id ''ready'' correlation_id
       (PrValidation ''project is not creating (state changed concurrently)'')
       (\<lambda>p. pj_id p = project_id \<and> pj_owner_id p = owner \<and> pj_state p = ''creating'')
       (\<lambda>p. p\<lparr>pj_state := ''ready'', pj_clone_error := None,
              pj_main_workspace_handle := Some (''main:'' @ project_id),
              pj_version := version_tag (ng_version g), pj_updated_at := ng_now g,
              pj_last_activity_at := ng_now g\<rparr>))"

definition not_creating :: "string \<Rightarrow> string" where
  "not_creating state = ''project is not creating (state: '' @ state @ '')''"

definition complete_clone ::
  "serde \<Rightarrow> (string \<Rightarrow> string option) \<Rightarrow> 'x projects_db_scheme project_world \<Rightarrow> project_gen \<Rightarrow> string \<Rightarrow>
    string \<Rightarrow> 'x projects_db_scheme \<Rightarrow> (projects_error + unit) \<times> 'x projects_db_scheme" where
  "complete_clone J U W g correlation_id project_id db =
    and_run (owner_id project_id db, db) (\<lambda>owner db.
    and_run (fetch_project owner project_id db, db) (\<lambda>row db.
      if pj_state row \<noteq> ''creating'' then (Inl (PrValidation (not_creating (pj_state row))), db)
      else and_run (ok_or (PrInternal ''bad project id'') (U project_id), db) (\<lambda>project db.
        and_run (lift_err PrWorkspace (pw_ensure_main_copy W project
            (''workspaces/main/'' @ project_id @ ''/repo'') (resource_json ''owner'' owner) db))
          (\<lambda>_ db. mark_project_ready J g project_id owner correlation_id db))))"

definition fail_clone ::
  "serde \<Rightarrow> project_gen \<Rightarrow> string \<Rightarrow> string \<Rightarrow> string \<Rightarrow> 'x projects_db_scheme \<Rightarrow>
    (projects_error + unit) \<times> 'x projects_db_scheme" where
  "fail_clone J g correlation_id project_id error db =
    and_run (owner_id project_id db, db) (\<lambda>owner db.
      mark_project_state J g project_id owner ''error'' (Some error) correlation_id db)"

definition remove_main_workspace ::
  "'w project_world \<Rightarrow> string \<Rightarrow> 'w \<Rightarrow> (projects_error + unit) \<times> 'w" where
  "remove_main_workspace W project_id w =
    (case pw_remove_dir W (''main/'' @ project_id) w of
       (IoOther, w') \<Rightarrow> (Inl PrIo, w') | (_, w') \<Rightarrow> (Inr (), w'))"

definition run_delete ::
  "'x projects_db_scheme project_world \<Rightarrow> string \<Rightarrow> 'x projects_db_scheme \<Rightarrow>
    (projects_error + unit) \<times> 'x projects_db_scheme" where
  "run_delete W project_id db =
    and_run (owner_id project_id db, db) (\<lambda>owner db.
    and_run (lift_err PrWorkspace (pw_lock W project_id db, db)) (\<lambda>_ db.
    and_run (remove_main_workspace W project_id db) (\<lambda>_ db.
      (Inr (), db\<lparr>memories := fst (delete_many (\<lambda>m. my_project_id m = project_id) (memories db)),
                  projects := fst (delete_one (\<lambda>p. pj_id p = project_id \<and> pj_owner_id p = owner)
                    (projects db))\<rparr>))))"

end
