(* ===== verification/Runtime_Types.thy ===== *)
theory Runtime_Types
  imports Janus_Prelude
begin

text \<open>
  The errors and the log types of the runtime capability (\<open>crates/runtime/src/interface.rs\<close>). A log
  cursor is an unsigned byte position that travels as a decimal string.
\<close>

section \<open>Errors\<close>

datatype runtime_error =
    RtInvalidSpec string
  | RtResourceBusy
  | RtUnavailable
  | RtUnavailableDetail string
  | RtAsyncTaskLost string
  | RtTerminalTicketInvalid
  | RtTerminalScrollbackExpired int
  | RtTerminalNotWritable string

fun runtime_error_code :: "runtime_error \<Rightarrow> string" where
  "runtime_error_code (RtInvalidSpec _) = ''VALIDATION_FAILED''"
| "runtime_error_code RtResourceBusy = ''RESOURCE_BUSY''"
| "runtime_error_code RtUnavailable = ''RUNTIME_UNAVAILABLE''"
| "runtime_error_code (RtUnavailableDetail _) = ''RUNTIME_UNAVAILABLE''"
| "runtime_error_code (RtAsyncTaskLost _) = ''ASYNC_TASK_LOST''"
| "runtime_error_code RtTerminalTicketInvalid = ''TERMINAL_TICKET_INVALID''"
| "runtime_error_code (RtTerminalScrollbackExpired _) = ''TERMINAL_SCROLLBACK_EXPIRED''"
| "runtime_error_code (RtTerminalNotWritable _) = ''TERMINAL_NOT_WRITABLE''"

section \<open>Log streams\<close>

definition cursor_serialize :: "nat \<Rightarrow> json" where
  "cursor_serialize c = JStr (string_of_nat c)"

definition cursor_deserialize :: "json \<Rightarrow> nat option" where
  "cursor_deserialize j = Option.bind (json_as_str j) parse_u64"

datatype log_channel = Stdout | Stderr | System

datatype log_owner_kind = OwnerSync | OwnerAsyncTask | OwnerTerminal

fun owner_kind_str :: "log_owner_kind \<Rightarrow> string" where
  "owner_kind_str OwnerSync = ''sync''"
| "owner_kind_str OwnerAsyncTask = ''async_task''"
| "owner_kind_str OwnerTerminal = ''terminal''"

record log_stream_projection =
  lp_id :: string
  lp_first_cursor :: nat
  lp_next_cursor :: nat
  lp_retained_bytes :: nat
  lp_total_bytes :: nat
  lp_truncated :: bool
  lp_closed :: bool

record log_chunk =
  lc_start_cursor :: nat
  lc_end_cursor :: nat
  lc_channel :: log_channel
  lc_text :: string

record log_range =
  lr_stream :: log_stream_projection
  lr_after :: nat
  lr_chunks :: "log_chunk list"

lemma cursor_roundtrip: "c \<le> U64_MAX \<Longrightarrow> cursor_deserialize (cursor_serialize c) = Some c"
  by (simp add: cursor_deserialize_def cursor_serialize_def parse_u64_string_of_nat)

end
