(* ===== verification/Session_Lifecycle.thy ===== *)
theory Session_Lifecycle
  imports Project_Store Runtime_Types
begin

text \<open>
  Durable creation and deletion of sessions and deletion of projects
  (\<open>apps/server/src/application/lifecycle.rs\<close>): the requests that open an operation, the
  stepwise handlers the worker runs, the outcome they record, and the restart recovery that
  runs before the workers start.

  The runtime, execution and model capabilities are parameters: a
  \<open>lifecycle_capabilities\<close> record holds one function per call the handlers make of them, over
  the whole store. Ids, versions and clock readings are arguments in the order they are drawn.
\<close>

section \<open>Errors\<close>

datatype lifecycle_error =
    LcModels
  | LcOperation operation_error
  | LcProjects projects_error
  | LcRuntime runtime_error
  | LcSessions sessions_error
  | LcExecution
  | LcWorkspace workspace_error
  | LcSerde
  | LcStorage
  | LcInternal string
  | InvalidWork string
  | StepNeedsReconciliation string

fun lifecycle_code :: "lifecycle_error \<Rightarrow> string" where
  "lifecycle_code (LcProjects e) = projects_error_code e"
| "lifecycle_code (LcSessions NotFound) = ''SESSION_NOT_FOUND''"
| "lifecycle_code (LcSessions (VersionMismatch _ _)) = ''RESOURCE_VERSION_MISMATCH''"
| "lifecycle_code (LcRuntime e) = runtime_error_code e"
| "lifecycle_code (LcWorkspace (WsRevisionMismatch _ _)) = ''RESOURCE_VERSION_MISMATCH''"
| "lifecycle_code (InvalidWork _) = ''INVALID_WORK_ITEM''"
| "lifecycle_code (StepNeedsReconciliation _) = ''OPERATION_STEP_NEEDS_RECONCILIATION''"
| "lifecycle_code _ = ''INTERNAL_ERROR''"

fun requires_attention :: "lifecycle_error \<Rightarrow> bool" where
  "requires_attention (LcProjects PrNotFound) = False"
| "requires_attention (LcProjects (PrValidation _)) = False"
| "requires_attention (LcSessions NotFound) = False"
| "requires_attention (LcSessions (VersionMismatch _ _)) = False"
| "requires_attention _ = True"

section \<open>Capabilities the handlers call\<close>

datatype terminal_state = TermStarting | TermRunning | TermClosing | TermExited | TermFailed | TermLost

record async_task_projection =
  ap_id :: string
  ap_session_id :: string
  ap_status :: async_task_status

record terminal_projection =
  tp_id :: string
  tp_status :: terminal_state

record 'w lifecycle_capabilities =
  lc_round_ids :: "string list \<Rightarrow> 'w \<Rightarrow> lifecycle_error + string list"
  lc_delete_runtime :: "string \<Rightarrow> 'w \<Rightarrow> lifecycle_error + 'w"
  lc_delete_execution :: "string \<Rightarrow> string list \<Rightarrow> 'w \<Rightarrow> lifecycle_error + 'w"
  lc_delete_attempts :: "string list \<Rightarrow> 'w \<Rightarrow> lifecycle_error + 'w"
  lc_drop_blobs :: "string list \<Rightarrow> 'w \<Rightarrow> 'w"
  lc_async_tasks :: "nat \<Rightarrow> 'w \<Rightarrow> runtime_error + async_task_projection list"
  lc_cancel_async_task :: "string \<Rightarrow> 'w \<Rightarrow> (runtime_error + unit) \<times> 'w"
  lc_delete_session_logs :: "string \<Rightarrow> 'w \<Rightarrow> (runtime_error + unit) \<times> 'w"
  lc_list_terminals :: "string \<Rightarrow> 'w \<Rightarrow> runtime_error + terminal_projection list"
  lc_close_terminal :: "string \<Rightarrow> 'w \<Rightarrow> (runtime_error + unit) \<times> 'w"
  lc_current_runtime :: "string \<Rightarrow> 'w \<Rightarrow> runtime_error + string option"
  lc_stop_runtime :: "string \<Rightarrow> 'w \<Rightarrow> (runtime_error + unit) \<times> 'w"
  lc_delete_project_logs :: "string \<Rightarrow> 'w \<Rightarrow> (runtime_error + unit) \<times> 'w"
  lc_delete_project_resources :: "string \<Rightarrow> 'w \<Rightarrow> (runtime_error + unit) \<times> 'w"

section \<open>Requests\<close>

definition KIND_CREATE_SESSION :: string where "KIND_CREATE_SESSION = ''session.create''"
definition KIND_DELETE_SESSION :: string where "KIND_DELETE_SESSION = ''session.delete''"

definition request_session_creation ::
  "serde \<Rightarrow> string \<Rightarrow> create_gen \<Rightarrow> string \<Rightarrow> string \<Rightarrow> string option \<Rightarrow> json \<Rightarrow> string \<Rightarrow>
    idempotency_request \<Rightarrow> 'x journal_db_scheme \<Rightarrow>
    (lifecycle_error + operation_view) \<times> 'x journal_db_scheme" where
  "request_session_creation J session_id g owner project_id title actor correlation_id idem db =
    and_run (lift_err LcOperation (create_op J g
      \<lparr>co_kind = KIND_CREATE_SESSION, co_actor = actor, co_target_kind = ''session'',
       co_target_id = Some session_id,
       co_conditions = JObj [(''session_id'', JStr session_id), (''project_id'', JStr project_id),
                             (''title'', opt_json title)],
       co_correlation_id = correlation_id, co_idempotency = Some idem\<rparr>
      (Some \<lparr>cw_handler_kind = KIND_CREATE_SESSION,
             cw_payload = JObj [(''session_id'', JStr session_id), (''project_id'', JStr project_id),
               (''owner_id'', JStr owner), (''title'', opt_json title), (''actor'', actor)]\<rparr>) db))
      (\<lambda>(operation, outcome) db1. (Inr operation, db1))"

definition request_session_deletion ::
  "serde \<Rightarrow> create_gen \<Rightarrow> string \<Rightarrow> string \<Rightarrow> json \<Rightarrow> string \<Rightarrow> idempotency_request \<Rightarrow>
    'x journal_db_scheme \<Rightarrow> (lifecycle_error + operation_view) \<times> 'x journal_db_scheme" where
  "request_session_deletion J g session_id expected_version actor correlation_id idem db =
    and_run (lift_err LcOperation (create_op J g
      \<lparr>co_kind = KIND_DELETE_SESSION, co_actor = actor, co_target_kind = ''session'',
       co_target_id = Some session_id,
       co_conditions = JObj [(''session_id'', JStr session_id),
                             (''expected_version'', JStr expected_version)],
       co_correlation_id = correlation_id, co_idempotency = Some idem\<rparr>
      (Some \<lparr>cw_handler_kind = KIND_DELETE_SESSION,
             cw_payload = JObj [(''session_id'', JStr session_id),
               (''expected_version'', JStr expected_version), (''actor'', actor)]\<rparr>) db))
      (\<lambda>(operation, outcome) db1. (Inr operation, db1))"

section \<open>One durable step\<close>

record step_gen =
  sg_begin_now :: int
  sg_version :: string
  sg_assert_now :: int
  sg_complete_now :: int

definition run_operation_step ::
  "serde \<Rightarrow> step_gen \<Rightarrow> string \<Rightarrow> string \<Rightarrow> string \<Rightarrow> string \<Rightarrow> json \<Rightarrow>
    ('x journal_db_scheme \<Rightarrow> (lifecycle_error + unit) \<times> 'x journal_db_scheme) \<Rightarrow>
    'x journal_db_scheme \<Rightarrow> (lifecycle_error + unit) \<times> 'x journal_db_scheme" where
  "run_operation_step J g work_id nonce operation_id step_key input_summary step db =
    and_run (lift_err LcOperation (begin_step_claimed J work_id nonce operation_id step_key
        input_summary (sg_begin_now g) (sg_version g) db))
      (\<lambda>state db1. case state of
         AlreadySucceeded \<Rightarrow> (Inr (), db1)
       | NeedsReconciliation \<Rightarrow> (Inl (StepNeedsReconciliation step_key), db1)
       | StepRunning \<Rightarrow>
           and_run (lift_err LcOperation (assert_claimed work_id nonce (sg_assert_now g) db1, db1))
             (\<lambda>_ db2. and_run (step db2)
             (\<lambda>_ db3. lift_err LcOperation (complete_step_claimed work_id nonce operation_id
                step_key None (sg_complete_now g) db3))))"

definition append_lifecycle_event ::
  "serde \<Rightarrow> string \<times> int \<Rightarrow> event_type \<Rightarrow> json \<Rightarrow> string \<Rightarrow> string \<Rightarrow> string option \<Rightarrow> json \<Rightarrow>
    'x sessions_db_scheme \<Rightarrow> lifecycle_error + 'x sessions_db_scheme" where
  "append_lifecycle_event J ev ty actor session_id correlation_id causation_id payload db =
    (case append_in_tx J (fst ev) (snd ev)
       \<lparr>ne_type = ty, ne_actor = actor, ne_resource = Some (resource_json ''session'' session_id),
        ne_correlation_id = correlation_id, ne_causation_id = causation_id,
        ne_payload = payload\<rparr> db of
       Inl _ \<Rightarrow> Inl (LcInternal ''append event'') | Inr (_, db') \<Rightarrow> Inr db')"

section \<open>Creating a session\<close>

text \<open>
  The work items as the derived deserialisers read them from the stored payload, which is an
  object. A missing or null title is \<open>None\<close>; the actor may be any value but must be there.
\<close>

record create_session_work =
  cs_operation_id :: string
  cs_session_id :: string
  cs_project_id :: string
  cs_owner_id :: string
  cs_title :: "string option"
  cs_actor :: json

definition create_session_work_from :: "json \<Rightarrow> create_session_work option" where
  "create_session_work_from v =
    (case (field_str ''operation_id'' v, field_str ''session_id'' v, field_str ''project_id'' v,
           field_str ''owner_id'' v, field_opt_str ''title'' v, json_get ''actor'' v) of
       (Some op, Some s, Some p, Some ow, Some t, Some a) \<Rightarrow>
         Some \<lparr>cs_operation_id = op, cs_session_id = s, cs_project_id = p, cs_owner_id = ow,
               cs_title = t, cs_actor = a\<rparr>
     | _ \<Rightarrow> None)"

record creation_gen =
  kg_validate :: step_gen
  kg_record :: step_gen
  kg_now :: int
  kg_version :: string
  kg_event :: "string \<times> int"

definition record_session_tx ::
  "serde \<Rightarrow> creation_gen \<Rightarrow> create_session_work \<Rightarrow> string \<Rightarrow> string \<Rightarrow> string \<Rightarrow>
    'x sessions_db_scheme \<Rightarrow> lifecycle_error + (unit \<times> 'x sessions_db_scheme)" where
  "record_session_tx J g input session_id project_id correlation_id db =
    and_then (map_sum LcSessions id (create_session_in_tx (kg_now g) (kg_version g) session_id
        project_id (cs_title input) db)) (\<lambda>(record, db1).
      if csr_created record
      then and_then (append_lifecycle_event J (kg_event g) SessionChanged (cs_actor input) session_id
             correlation_id (Some (cs_operation_id input))
             (JObj [(''session_id'', JStr session_id), (''project_id'', JStr project_id),
                    (''state'', JStr ''ready''), (''version'', JStr (csr_version record))]) db1)
             (\<lambda>db2. Inr ((), db2))
      else Inr ((), db1))"

text \<open>
  \<open>execute_session_creation\<close> spells out for its two steps what \<open>run_operation_step\<close> does for the
  steps of a deletion: begin, check the claim, act, complete.
\<close>

definition execute_session_creation ::
  "serde \<Rightarrow> (string \<Rightarrow> string option) \<Rightarrow> creation_gen \<Rightarrow>
    create_session_work \<Rightarrow> string \<Rightarrow> string \<Rightarrow> string \<Rightarrow> 'x projects_db_scheme \<Rightarrow>
    (lifecycle_error + string) \<times> 'x projects_db_scheme" where
  "execute_session_creation J U g input correlation_id work_id nonce db =
    and_run (ok_or (InvalidWork ''session id'') (U (cs_session_id input)), db) (\<lambda>session_id db.
    and_run (ok_or (InvalidWork ''project id'') (U (cs_project_id input)), db) (\<lambda>project_id db.
    and_run (run_operation_step J (kg_validate g) work_id nonce (cs_operation_id input)
        ''validate_project'' (JObj [(''project_id'', JStr project_id)])
        (\<lambda>w. lift_err LcProjects (ensure_ready (cs_owner_id input) project_id w, w)) db)
      (\<lambda>_ db. and_run (run_operation_step J (kg_record g) work_id nonce (cs_operation_id input)
        ''record_session'' (JObj [(''session_id'', JStr session_id)])
        (run_tx (record_session_tx J g input session_id project_id correlation_id)) db)
      (\<lambda>_ db. (Inr session_id, db)))))"

section \<open>Deleting a session\<close>

record delete_session_work =
  dw_operation_id :: string
  dw_session_id :: string
  dw_expected_version :: string
  dw_actor :: json

definition delete_session_work_from :: "json \<Rightarrow> delete_session_work option" where
  "delete_session_work_from v =
    (case (field_str ''operation_id'' v, field_str ''session_id'' v, field_str ''expected_version'' v,
           json_get ''actor'' v) of
       (Some op, Some s, Some e, Some a) \<Rightarrow>
         Some \<lparr>dw_operation_id = op, dw_session_id = s, dw_expected_version = e, dw_actor = a\<rparr>
     | _ \<Rightarrow> None)"

record deletion_gen =
  dg_mark :: step_gen
  dg_stop :: step_gen
  dg_logs :: step_gen
  dg_records :: step_gen
  dg_mark_now :: int
  dg_mark_version :: string
  dg_mark_event :: "string \<times> int"
  dg_delete_event :: "string \<times> int"

definition mark_deleting_tx ::
  "serde \<Rightarrow> (string \<Rightarrow> string option) \<Rightarrow> deletion_gen \<Rightarrow> string \<Rightarrow> string \<Rightarrow> json \<Rightarrow> string \<Rightarrow> string option \<Rightarrow>
    'x sessions_db_scheme \<Rightarrow> lifecycle_error + (unit \<times> 'x sessions_db_scheme)" where
  "mark_deleting_tx J U g session_id expected_version actor correlation_id causation_id db =
    and_then (map_sum LcSessions id (mark_session_deleting_in_tx U (dg_mark_now g)
        (dg_mark_version g) session_id expected_version db)) (\<lambda>(deleting, db1).
      if ds_changed deleting
      then and_then (append_lifecycle_event J (dg_mark_event g) SessionChanged actor session_id
             correlation_id causation_id
             (JObj [(''session_id'', JStr session_id), (''project_id'', JStr (ds_project_id deleting)),
                    (''state'', JStr ''deleting''), (''version'', JStr (ds_version deleting))]) db1)
             (\<lambda>db2. Inr ((), db2))
      else Inr ((), db1))"

definition mark_session_deleting ::
  "serde \<Rightarrow> (string \<Rightarrow> string option) \<Rightarrow> deletion_gen \<Rightarrow> string \<Rightarrow> string \<Rightarrow> json \<Rightarrow> string \<Rightarrow> string option \<Rightarrow>
    'x sessions_db_scheme \<Rightarrow> (lifecycle_error + unit) \<times> 'x sessions_db_scheme" where
  "mark_session_deleting J U g session_id expected_version actor correlation_id causation_id =
     run_tx (mark_deleting_tx J U g session_id expected_version actor correlation_id causation_id)"

text \<open>A loop over calls of which each commits on its own; the first error ends it.\<close>

primrec run_each :: "('a \<Rightarrow> 'w \<Rightarrow> ('e + unit) \<times> 'w) \<Rightarrow> 'a list \<Rightarrow> 'w \<Rightarrow> ('e + unit) \<times> 'w" where
  "run_each f [] w = (Inr (), w)"
| "run_each f (x # xs) w = and_run (f x w) (\<lambda>_. run_each f xs)"

definition drain_session_processes ::
  "'w lifecycle_capabilities \<Rightarrow> string \<Rightarrow> 'w \<Rightarrow> (lifecycle_error + unit) \<times> 'w" where
  "drain_session_processes C session_id w =
    and_run (lift_err LcRuntime (lc_async_tasks C 1000 w, w)) (\<lambda>tasks.
      run_each (\<lambda>t w. if ap_status t = TaskQueued \<or> ap_status t = TaskRunning
                      then lift_err LcRuntime (lc_cancel_async_task C (ap_id t) w) else (Inr (), w))
        (filter (\<lambda>t. ap_session_id t = session_id) tasks))"

text \<open>The transaction of \<open>delete_session_records\<close>; a committed plan hands back its blobs.\<close>

definition delete_records_tx ::
  "serde \<Rightarrow> (string \<Rightarrow> string option) \<Rightarrow> 'x sessions_db_scheme lifecycle_capabilities \<Rightarrow> string \<times> int \<Rightarrow>
    string \<Rightarrow> json \<Rightarrow> string \<Rightarrow> string option \<Rightarrow> 'x sessions_db_scheme \<Rightarrow>
    lifecycle_error + (string list option \<times> 'x sessions_db_scheme)" where
  "delete_records_tx J U C ev session_id actor correlation_id causation_id db =
    and_then (map_sum LcSessions id (session_deletion_plan_in_tx U session_id db)) (\<lambda>found.
    case found of
      None \<Rightarrow> Inr (None, db)
    | Some plan \<Rightarrow>
        and_then (lc_round_ids C (dp_turn_ids plan) db) (\<lambda>round_ids.
        and_then (lc_delete_runtime C session_id db) (\<lambda>db1.
        and_then (lc_delete_execution C session_id (dp_turn_ids plan) db1) (\<lambda>db2.
        and_then (lc_delete_attempts C round_ids db2) (\<lambda>db3.
        let (deleted, db4) = delete_session_in_tx session_id db3
        in if \<not> deleted
           then Inl (InvalidWork (''session '' @ session_id @ '' is not marked deleting''))
           else and_then (append_lifecycle_event J ev SessionDeleted actor session_id correlation_id
                  causation_id
                  (JObj [(''session_id'', JStr session_id), (''project_id'', JStr (dp_project_id plan)),
                         (''version'', JStr (dp_version plan))]) db4)
                (\<lambda>db5. Inr (Some (dp_attachment_ids plan), db5)))))))"

definition delete_session_records ::
  "serde \<Rightarrow> (string \<Rightarrow> string option) \<Rightarrow> 'x sessions_db_scheme lifecycle_capabilities \<Rightarrow> string \<times> int \<Rightarrow>
    string \<Rightarrow> json \<Rightarrow> string \<Rightarrow> string option \<Rightarrow> 'x sessions_db_scheme \<Rightarrow>
    (lifecycle_error + unit) \<times> 'x sessions_db_scheme" where
  "delete_session_records J U C ev session_id actor correlation_id causation_id db =
    and_run (run_tx (delete_records_tx J U C ev session_id actor correlation_id causation_id) db)
      (\<lambda>blobs db1. (Inr (), case blobs of None \<Rightarrow> db1 | Some ids \<Rightarrow> lc_drop_blobs C ids db1))"

definition session_step_key :: "string \<Rightarrow> string \<Rightarrow> string" where
  "session_step_key session_id name = ''session:'' @ session_id @ '':'' @ name"

definition execute_session_deletion_steps ::
  "serde \<Rightarrow> (string \<Rightarrow> string option) \<Rightarrow> 'x sessions_db_scheme lifecycle_capabilities \<Rightarrow> deletion_gen \<Rightarrow>
    string \<Rightarrow> string \<Rightarrow> string \<Rightarrow> json \<Rightarrow> string \<Rightarrow> string \<Rightarrow> string \<Rightarrow> 'x sessions_db_scheme \<Rightarrow>
    (lifecycle_error + unit) \<times> 'x sessions_db_scheme" where
  "execute_session_deletion_steps J U C g operation_id session_id expected_version actor
      correlation_id work_id nonce db =
    (let input = JObj [(''session_id'', JStr session_id)];
         step = (\<lambda>sg name body. run_operation_step J sg work_id nonce operation_id
                   (session_step_key session_id name) input body)
     in and_run (step (dg_mark g) ''mark_deleting'' (mark_session_deleting J U g session_id
            expected_version actor correlation_id (Some operation_id)) db)
        (\<lambda>_ db. and_run (step (dg_stop g) ''stop_processes''
            (drain_session_processes C session_id) db)
        (\<lambda>_ db. and_run (step (dg_logs g) ''delete_runtime_logs''
            (\<lambda>w. lift_err LcRuntime (lc_delete_session_logs C session_id w)) db)
        (\<lambda>_ db. step (dg_records g) ''delete_records'' (delete_session_records J U C
            (dg_delete_event g) session_id actor correlation_id (Some operation_id)) db))))"

definition execute_session_deletion ::
  "serde \<Rightarrow> (string \<Rightarrow> string option) \<Rightarrow> 'x sessions_db_scheme lifecycle_capabilities \<Rightarrow> deletion_gen \<Rightarrow>
    delete_session_work \<Rightarrow> string \<Rightarrow> string \<Rightarrow> string \<Rightarrow> 'x sessions_db_scheme \<Rightarrow>
    (lifecycle_error + string) \<times> 'x sessions_db_scheme" where
  "execute_session_deletion J U C g input correlation_id work_id nonce db =
    and_run (ok_or (InvalidWork ''session id'') (U (dw_session_id input)), db) (\<lambda>session_id db.
    and_run (execute_session_deletion_steps J U C g (dw_operation_id input) session_id
        (dw_expected_version input) (dw_actor input) correlation_id work_id nonce db)
      (\<lambda>_ db. (Inr session_id, db)))"

section \<open>Recording the outcome\<close>

definition active_operation ::
  "serde \<Rightarrow> (string \<Rightarrow> string option) \<Rightarrow> string \<Rightarrow> 'x journal_db_scheme \<Rightarrow>
    lifecycle_error + (operation_view \<times> string) option" where
  "active_operation J U operation_id db =
    and_then (map_sum LcOperation id (get_operation J operation_id db)) (\<lambda>found.
    and_then (ok_or (InvalidWork ''operation not found'') found) (\<lambda>operation.
      if terminal_status (ov_status operation) then Inr None
      else and_then (ok_or (InvalidWork ''invalid correlation id'') (U (ov_correlation_id operation)))
        (\<lambda>correlation_id. Inr (Some (operation, correlation_id)))))"

record finish_gen =
  fg_now :: int
  fg_version :: string
  fg_event_id :: string
  fg_occurred_at :: int

text \<open>
  An error's message contains text of the driver and of the other capabilities, so that its
  \<open>Display\<close> implementation is the parameter \<open>disp\<close>. A finish that the journal refuses is only
  logged.
\<close>

definition finish_session_operation ::
  "serde \<Rightarrow> (lifecycle_error \<Rightarrow> string) \<Rightarrow> finish_gen \<Rightarrow> string \<Rightarrow> string \<Rightarrow> lifecycle_error + json \<Rightarrow>
    string \<Rightarrow> string \<Rightarrow> 'x journal_db_scheme \<Rightarrow> (lifecycle_error + unit) \<times> 'x journal_db_scheme" where
  "finish_session_operation J disp g operation_id correlation_id result work_id nonce db =
    and_run (lift_err LcOperation
      (case result of
         Inr v \<Rightarrow> finish_claimed J operation_id work_id nonce OpSucceeded (Some v) None correlation_id
           (fg_now g) (fg_version g) (fg_event_id g) (fg_occurred_at g) db
       | Inl e \<Rightarrow> finish_claimed J operation_id work_id nonce
           (if requires_attention e then OpNeedsAttention else OpFailed) None
           (Some (JObj [(''code'', JStr (lifecycle_code e)), (''detail'', JStr (disp e))]))
           correlation_id (fg_now g) (fg_version g) (fg_event_id g) (fg_occurred_at g) db))
      (\<lambda>applied db1. (Inr (), db1))"

definition session_result :: "string \<Rightarrow> json" where
  "session_result session_id = JObj [(''session_id'', JStr session_id)]"

definition run_session_creation_operation ::
  "serde \<Rightarrow> (string \<Rightarrow> string option) \<Rightarrow> (lifecycle_error \<Rightarrow> string) \<Rightarrow>
    creation_gen \<Rightarrow> finish_gen \<Rightarrow> json \<Rightarrow> string \<Rightarrow> string \<Rightarrow>
    'x projects_db_scheme \<Rightarrow> (lifecycle_error + unit) \<times> 'x projects_db_scheme" where
  "run_session_creation_operation J U disp g fg payload work_id nonce db =
    and_run (ok_or LcSerde (create_session_work_from payload), db) (\<lambda>input db.
    and_run (active_operation J U (cs_operation_id input) db, db) (\<lambda>active db.
    case active of
      None \<Rightarrow> (Inr (), db)
    | Some (operation, correlation_id) \<Rightarrow>
        let (result, db1) = execute_session_creation J U g input correlation_id work_id nonce db
        in finish_session_operation J disp fg (ov_id operation) correlation_id
             (map_sum id session_result result) work_id nonce db1))"

definition run_session_deletion_operation ::
  "serde \<Rightarrow> (string \<Rightarrow> string option) \<Rightarrow> (lifecycle_error \<Rightarrow> string) \<Rightarrow>
    'x sessions_db_scheme lifecycle_capabilities \<Rightarrow> deletion_gen \<Rightarrow> finish_gen \<Rightarrow> json \<Rightarrow> string \<Rightarrow> string \<Rightarrow>
    'x sessions_db_scheme \<Rightarrow> (lifecycle_error + unit) \<times> 'x sessions_db_scheme" where
  "run_session_deletion_operation J U disp C g fg payload work_id nonce db =
    and_run (ok_or LcSerde (delete_session_work_from payload), db) (\<lambda>input db.
    and_run (active_operation J U (dw_operation_id input) db, db) (\<lambda>active db.
    case active of
      None \<Rightarrow> (Inr (), db)
    | Some (operation, correlation_id) \<Rightarrow>
        let (result, db1) = execute_session_deletion J U C g input correlation_id work_id nonce db
        in finish_session_operation J disp fg (ov_id operation) correlation_id
             (map_sum id session_result result) work_id nonce db1))"

section \<open>Deleting a project\<close>

definition cleanup_project_terminals ::
  "'w lifecycle_capabilities \<Rightarrow> string \<Rightarrow> 'w \<Rightarrow> (lifecycle_error + unit) \<times> 'w" where
  "cleanup_project_terminals C project_id w =
    and_run (lift_err LcRuntime (lc_list_terminals C project_id w, w)) (\<lambda>terminals w.
    and_run (run_each (\<lambda>t w. if tp_status t = TermStarting \<or> tp_status t = TermRunning
                            then lift_err LcRuntime (lc_close_terminal C (tp_id t) w)
                            else (Inr (), w)) terminals w) (\<lambda>_ w.
    and_run (lift_err LcRuntime (lc_current_runtime C project_id w, w)) (\<lambda>current w.
      case current of
        None \<Rightarrow> (Inr (), w)
      | Some runtime_id \<Rightarrow> lift_err LcRuntime (lc_stop_runtime C runtime_id w))))"

record project_deletion_gen =
  pd_session :: "string \<Rightarrow> deletion_gen"
  pd_terminals :: step_gen
  pd_logs :: step_gen
  pd_resources :: step_gen
  pd_workspace :: step_gen

definition project_step_key :: "string \<Rightarrow> string \<Rightarrow> string" where
  "project_step_key project_id name = ''project:'' @ project_id @ '':'' @ name"

text \<open>The four steps after the project's sessions.\<close>

definition delete_project_steps ::
  "serde \<Rightarrow> 'x projects_db_scheme lifecycle_capabilities \<Rightarrow> 'x projects_db_scheme project_world \<Rightarrow>
    project_deletion_gen \<Rightarrow> string \<Rightarrow> string \<Rightarrow> string \<Rightarrow> string \<Rightarrow> string \<Rightarrow> 'x projects_db_scheme \<Rightarrow>
    (lifecycle_error + unit) \<times> 'x projects_db_scheme" where
  "delete_project_steps J C W g project_id project operation_id work_id nonce db =
    (let input = JObj [(''project_id'', JStr project_id)];
         step = (\<lambda>sg name body. run_operation_step J sg work_id nonce operation_id
                   (project_step_key project_id name) input body)
     in and_run (step (pd_terminals g) ''delete_terminals'' (cleanup_project_terminals C project) db)
        (\<lambda>_ db. and_run (step (pd_logs g) ''delete_runtime_logs''
            (\<lambda>w. lift_err LcRuntime (lc_delete_project_logs C project w)) db)
        (\<lambda>_ db. and_run (step (pd_resources g) ''delete_runtime_resources''
            (\<lambda>w. lift_err LcRuntime (lc_delete_project_resources C project w)) db)
        (\<lambda>_ db. step (pd_workspace g) ''delete_workspace''
            (\<lambda>w. lift_err LcProjects (run_delete W project_id w)) db))))"

definition delete_project_with_runtime ::
  "serde \<Rightarrow> (string \<Rightarrow> string option) \<Rightarrow> 'x projects_db_scheme lifecycle_capabilities \<Rightarrow>
    'x projects_db_scheme project_world \<Rightarrow> project_deletion_gen \<Rightarrow> string \<Rightarrow> string \<Rightarrow> string \<Rightarrow> string \<Rightarrow> 'x projects_db_scheme \<Rightarrow>
    (lifecycle_error + unit) \<times> 'x projects_db_scheme" where
  "delete_project_with_runtime J U C W g project_id operation_id work_id nonce db =
    and_run (ok_or (InvalidWork ''project id'') (U project_id), db) (\<lambda>project db.
    and_run (lift_err LcOperation (get_operation J operation_id db, db)) (\<lambda>found db.
    and_run (ok_or (InvalidWork ''operation not found'') found, db) (\<lambda>operation db.
    and_run (ok_or (InvalidWork ''invalid correlation id'') (U (ov_correlation_id operation)), db)
      (\<lambda>correlation_id db.
    and_run (lift_err LcSessions (project_session_ids U project db, db)) (\<lambda>session_ids db.
    and_run (run_each (\<lambda>session_id db.
        and_run (lift_err LcSessions (get_session J session_id db, db)) (\<lambda>session db.
          execute_session_deletion_steps J U C (pd_session g session_id) operation_id session_id
            (ss_version session)
            (JObj [(''kind'', JStr ''system''), (''reason'', JStr ''project_delete'')])
            correlation_id work_id nonce db)) session_ids db) (\<lambda>_ db.
      delete_project_steps J C W g project_id project operation_id work_id nonce db))))))"

section \<open>Restart recovery\<close>

text \<open>The calls recovery makes in its transaction of the capabilities outside this model.\<close>

record 'w recovery_capabilities =
  rc_recover_uncertain :: "int \<Rightarrow> 'w \<Rightarrow> lifecycle_error + 'w"
  rc_interrupt_attempts :: "int \<Rightarrow> 'w \<Rightarrow> lifecycle_error + 'w"
  rc_interrupt_execution :: "int \<Rightarrow> 'w \<Rightarrow> lifecycle_error + 'w"
  rc_has_round :: "string \<Rightarrow> 'w \<Rightarrow> bool"

record recovery_gen =
  vg_now :: int
  vg_turn_version :: "string \<Rightarrow> string"
  vg_session_version :: "string \<Rightarrow> string"
  vg_correlation :: string
  vg_wake :: "string \<Rightarrow> string \<times> int"
  vg_turn_event :: "string \<Rightarrow> string \<times> int"
  vg_session_event :: "string \<Rightarrow> string \<times> int"

definition unstarted_active_turn_ids_in_tx ::
  "'w recovery_capabilities \<Rightarrow> string set \<Rightarrow> 'w \<Rightarrow> string set" where
  "unstarted_active_turn_ids_in_tx R candidate_turn_ids w =
     {t \<in> candidate_turn_ids. \<not> rc_has_round R t w}"

definition restart_actor :: json where
  "restart_actor = JObj [(''kind'', JStr ''system''), (''reason'', JStr ''control_plane_restart'')]"

definition interrupted_turn_event :: "string \<Rightarrow> recovered_turn \<Rightarrow> new_event" where
  "interrupted_turn_event correlation_id turn =
    \<lparr>ne_type = TurnStatusChanged, ne_actor = restart_actor,
     ne_resource = Some (resource_json ''turn'' (rt_turn_id turn)),
     ne_correlation_id = correlation_id, ne_causation_id = None,
     ne_payload = JObj [(''turn_id'', JStr (rt_turn_id turn)),
       (''session_id'', JStr (rt_session_id turn)),
       (''from'', JStr (turn_status_as_str (rt_from_status turn))),
       (''to'', JStr (turn_status_as_str Interrupted)),
       (''reason'', JStr ''control_plane_restart''), (''version'', JStr (rt_turn_version turn))]\<rparr>"

definition released_session_event :: "string \<Rightarrow> recovered_turn \<Rightarrow> string \<Rightarrow> new_event" where
  "released_session_event correlation_id turn session_version =
    session_event SessionChanged restart_actor correlation_id (rt_session_id turn)
      (JObj [(''session_id'', JStr (rt_session_id turn)), (''state'', JStr ''ready''),
             (''active_turn_id'', JNull), (''version'', JStr session_version)])"

definition announce_recovered ::
  "serde \<Rightarrow> recovery_gen \<Rightarrow> recovered_turn \<Rightarrow> 'x sessions_db_scheme \<Rightarrow>
    sessions_error + 'x sessions_db_scheme" where
  "announce_recovered J g turn db =
    (if rt_wake_required turn
     then enqueue_turn_wake_in_tx J (fst (vg_wake g (rt_turn_id turn)))
            (snd (vg_wake g (rt_turn_id turn))) (rt_turn_id turn) db
     else and_then (append_session_event J (fst (vg_turn_event g (rt_turn_id turn)))
            (snd (vg_turn_event g (rt_turn_id turn)))
            (interrupted_turn_event (vg_correlation g) turn) db) (\<lambda>db1.
          case rt_session_version turn of
            None \<Rightarrow> Inr db1
          | Some v \<Rightarrow> append_session_event J (fst (vg_session_event g (rt_turn_id turn)))
              (snd (vg_session_event g (rt_turn_id turn)))
              (released_session_event (vg_correlation g) turn v) db1))"

primrec announce_all ::
  "serde \<Rightarrow> recovery_gen \<Rightarrow> recovered_turn list \<Rightarrow> 'x sessions_db_scheme \<Rightarrow>
    sessions_error + 'x sessions_db_scheme" where
  "announce_all J g [] db = Inr db"
| "announce_all J g (t # ts) db = and_then (announce_recovered J g t db) (announce_all J g ts)"

definition recover_execution_tx ::
  "serde \<Rightarrow> (string \<Rightarrow> string option) \<Rightarrow> 'x sessions_db_scheme recovery_capabilities \<Rightarrow> recovery_gen \<Rightarrow>
    'x sessions_db_scheme \<Rightarrow> lifecycle_error + (nat \<times> 'x sessions_db_scheme)" where
  "recover_execution_tx J U R g db =
    and_then (rc_recover_uncertain R (vg_now g) db) (\<lambda>db1.
    and_then (rc_interrupt_attempts R (vg_now g) db1) (\<lambda>db2.
    and_then (rc_interrupt_execution R (vg_now g) db2) (\<lambda>db3.
    and_then (map_sum LcSessions id (running_turn_ids_in_tx U db3)) (\<lambda>running_turns.
    and_then (map_sum LcSessions id (interrupt_active_turns_in_tx U (vg_turn_version g)
        (vg_session_version g) (vg_now g)
        (unstarted_active_turn_ids_in_tx R running_turns db3) db3)) (\<lambda>(recovered, db4).
    and_then (map_sum LcSessions id (announce_all J g recovered db4)) (\<lambda>db5.
      Inr (length recovered, db5)))))))"

definition recover_execution_state ::
  "serde \<Rightarrow> (string \<Rightarrow> string option) \<Rightarrow> 'x sessions_db_scheme recovery_capabilities \<Rightarrow> recovery_gen \<Rightarrow>
    'x sessions_db_scheme \<Rightarrow> (lifecycle_error + nat) \<times> 'x sessions_db_scheme" where
  "recover_execution_state J U R g = run_tx (recover_execution_tx J U R g)"

section \<open>Recovering workspace mutations\<close>

record recovered_file_mutation =
  rm_intent_id :: string
  rm_revision :: string
  rm_event :: new_event

definition recovered_event :: "recovered_file_mutation \<Rightarrow> new_event" where
  "recovered_event m =
    (let ev = rm_event m
     in if ne_type ev = ProjectMainRevisionChanged
        then (case ne_payload ev of
                JObj kvs \<Rightarrow>
                  ev\<lparr>ne_payload := JObj (obj_insert ''main_revision'' (JStr (rm_revision m)) kvs)\<rparr>
              | _ \<Rightarrow> ev)
        else ev)"

text \<open>
  Each mutation the workspace capability recovered is announced and acknowledged in one
  transaction; \<open>acknowledge\<close> is the workspace's write.
\<close>

definition announce_mutation_tx ::
  "serde \<Rightarrow> (string \<Rightarrow> string \<Rightarrow> 'x sessions_db_scheme \<Rightarrow> lifecycle_error + 'x sessions_db_scheme) \<Rightarrow>
    (string \<Rightarrow> string \<times> int) \<Rightarrow> recovered_file_mutation \<Rightarrow> 'x sessions_db_scheme \<Rightarrow>
    lifecycle_error + (unit \<times> 'x sessions_db_scheme)" where
  "announce_mutation_tx J acknowledge ids m db =
    (case append_in_tx J (fst (ids (rm_intent_id m))) (snd (ids (rm_intent_id m)))
            (recovered_event m) db of
       Inl _ \<Rightarrow> Inl (LcInternal ''append event'')
     | Inr (_, db1) \<Rightarrow> and_then (acknowledge (rm_intent_id m) (rm_revision m) db1)
         (\<lambda>db2. Inr ((), db2)))"

definition recover_workspace_mutations ::
  "serde \<Rightarrow> ('x sessions_db_scheme \<Rightarrow>
      (lifecycle_error + recovered_file_mutation list) \<times> 'x sessions_db_scheme) \<Rightarrow>
    (string \<Rightarrow> string \<Rightarrow> 'x sessions_db_scheme \<Rightarrow> lifecycle_error + 'x sessions_db_scheme) \<Rightarrow>
    (string \<Rightarrow> string \<times> int) \<Rightarrow> 'x sessions_db_scheme \<Rightarrow>
    (lifecycle_error + nat) \<times> 'x sessions_db_scheme" where
  "recover_workspace_mutations J recover acknowledge ids db =
    and_run (recover db) (\<lambda>recovered db1.
    and_run (run_each (\<lambda>m. run_tx (announce_mutation_tx J acknowledge ids m)) recovered db1)
      (\<lambda>_ db2. (Inr (length recovered), db2)))"

end
