(* ===== verification/Project_Clone.thy ===== *)
theory Project_Clone
  imports Project_Store
begin

text \<open>
  Cloning a project: the source control capability's part
  (\<open>crates/source-control/src/interface.rs\<close>), and the orchestration and failure classes of
  \<open>apps/server/src/application/workers.rs\<close>. Git itself and the directory of the clone are
  parameters.
\<close>

section \<open>Errors and their disposition\<close>

datatype git_error =
    GitAuthFailed
  | GitRemoteUnavailable
  | GitNonFastForward
  | GitIndexNotEmpty
  | GitDiverged
  | GitCheckoutConflict
  | GitUpdateConflict "string list"
  | GitRemoteNotFound
  | GitRepositoryNotFound
  | GitRefNotFound
  | GitNothingToCommit
  | GitIdentityUnset
  | GitRepositoryLocked
  | GitCommandFailed string
  | GitBadOutput string

datatype source_control_error =
    ScValidation string
  | ScNotFound
  | ScCredentialNotFound
  | ScConflictNotFound
  | ScRevisionMismatch string string
  | ScGit git_error
  | ScWorkspace workspace_error
  | ScOperation operation_error
  | ScStorage
  | ScSerde
  | ScIo
  | ScInternal string
  | ScValueAccess

text \<open>What an \<open>anyhow\<close> error of the clone can be downcast to; anything else is a message.\<close>

datatype clone_error =
    CloneSourceControl source_control_error
  | CloneProjects projects_error
  | CloneOther string

fun git_disposition :: "git_error \<Rightarrow> work_failure_disposition" where
  "git_disposition GitRemoteUnavailable = Retry"
| "git_disposition (GitCommandFailed _) = Retry"
| "git_disposition (GitBadOutput _) = Retry"
| "git_disposition _ = DeadLetter"

fun source_control_disposition :: "source_control_error \<Rightarrow> work_failure_disposition" where
  "source_control_disposition (ScGit e) = git_disposition e"
| "source_control_disposition (ScValidation _) = DeadLetter"
| "source_control_disposition ScNotFound = DeadLetter"
| "source_control_disposition ScCredentialNotFound = DeadLetter"
| "source_control_disposition ScConflictNotFound = DeadLetter"
| "source_control_disposition (ScRevisionMismatch _ _) = DeadLetter"
| "source_control_disposition _ = Retry"

fun projects_disposition :: "projects_error \<Rightarrow> work_failure_disposition" where
  "projects_disposition (PrValidation _) = DeadLetter"
| "projects_disposition PrNotFound = DeadLetter"
| "projects_disposition PrCredentialNotFound = DeadLetter"
| "projects_disposition PrConflictNotFound = DeadLetter"
| "projects_disposition (PrRevisionMismatch _ _) = DeadLetter"
| "projects_disposition (PrInvalidPath _) = DeadLetter"
| "projects_disposition (PrNotEditable _) = DeadLetter"
| "projects_disposition _ = Retry"

fun clone_failure_disposition :: "clone_error \<Rightarrow> work_failure_disposition" where
  "clone_failure_disposition (CloneSourceControl e) = source_control_disposition e"
| "clone_failure_disposition (CloneProjects e) = projects_disposition e"
| "clone_failure_disposition (CloneOther _) = Retry"

section \<open>Cloning\<close>

datatype git_credential = GitNoCredential | GitHttpsBasic string string

text \<open>
  The destination of the clone: whether something is there, whether it is a directory in which
  Git finds a head commit, and the clone command.
\<close>

record 'w git_world =
  gw_dest_exists :: "string \<Rightarrow> 'w \<Rightarrow> bool"
  gw_existing_clone :: "string \<Rightarrow> 'w \<Rightarrow> bool"
  gw_clone :: "string \<Rightarrow> string option \<Rightarrow> string \<Rightarrow> git_credential \<Rightarrow> 'w \<Rightarrow> (git_error + unit) \<times> 'w"

definition sc_fetch_repo_config ::
  "string \<Rightarrow> string \<Rightarrow> 'x projects_db_scheme \<Rightarrow> source_control_error + project_row" where
  "sc_fetch_repo_config owner i db =
     ok_or ScNotFound (find_one (\<lambda>p. pj_id p = i \<and> pj_owner_id p = owner) (projects db))"

definition sc_pat_for ::
  "secret_cipher \<Rightarrow> string \<Rightarrow> string \<Rightarrow> 'x projects_db_scheme \<Rightarrow> source_control_error + string option" where
  "sc_pat_for K owner i db =
    and_then (ok_or ScCredentialNotFound
        (find_one (\<lambda>c. gc_id c = i \<and> gc_owner_id c = owner) (github_credentials db))) (\<lambda>c.
      case gc_pat_ciphertext c of
        None \<Rightarrow> Inr None
      | Some stored \<Rightarrow> map_sum (\<lambda>_. ScInternal ''decrypt'') Some (sc_decrypt K stored (pat_aad owner i)))"

definition credential_for_row ::
  "secret_cipher \<Rightarrow> string \<Rightarrow> project_row \<Rightarrow> 'x projects_db_scheme \<Rightarrow>
    source_control_error + git_credential" where
  "credential_for_row K owner row db =
    (if pj_repo_access row = ''github_private''
     then and_then (ok_or (ScValidation ''missing credential'') (pj_github_credential_id row)) (\<lambda>c.
          and_then (sc_pat_for K owner c db) (\<lambda>pat.
            Inr (GitHttpsBasic ''x-access-token'' (case pat of None \<Rightarrow> [] | Some p \<Rightarrow> p))))
     else Inr GitNoCredential)"

definition sc_remove_main_workspace ::
  "'w project_world \<Rightarrow> string \<Rightarrow> 'w \<Rightarrow> (source_control_error + unit) \<times> 'w" where
  "sc_remove_main_workspace W project_id w =
    (case pw_remove_dir W (''main/'' @ project_id) w of
       (IoOther, w') \<Rightarrow> (Inl ScIo, w') | (_, w') \<Rightarrow> (Inr (), w'))"

definition clone_project ::
  "secret_cipher \<Rightarrow> 'x projects_db_scheme project_world \<Rightarrow> 'x projects_db_scheme git_world \<Rightarrow>
    string \<Rightarrow> string \<Rightarrow> 'x projects_db_scheme \<Rightarrow>
    (source_control_error + unit) \<times> 'x projects_db_scheme" where
  "clone_project K W G owner project_id db =
    and_run (sc_fetch_repo_config owner project_id db, db) (\<lambda>row db.
      if pj_state row \<noteq> ''creating'' then (Inl (ScValidation (not_creating (pj_state row))), db)
      else and_run (credential_for_row K owner row db, db) (\<lambda>credential db.
        and_run (lift_err ScWorkspace (pw_lock W project_id db, db)) (\<lambda>_ db.
          if gw_existing_clone G project_id db then (Inr (), db)
          else and_run (if gw_dest_exists G project_id db
                 then sc_remove_main_workspace W project_id db else (Inr (), db)) (\<lambda>_ db.
            lift_err ScGit (gw_clone G (pj_repo_url row) (pj_repo_branch row) project_id
              credential db)))))"

text \<open>
  The worker's orchestration: a failure of Git itself marks the project \<open>error\<close> before it is
  reported. \<open>disp\<close> is the error's \<open>Display\<close> text.
\<close>

record clone_gen =
  qg_fail :: project_gen
  qg_fail_correlation :: string
  qg_complete :: project_gen
  qg_complete_correlation :: string

definition run_project_clone ::
  "serde \<Rightarrow> (string \<Rightarrow> string option) \<Rightarrow> secret_cipher \<Rightarrow> (source_control_error \<Rightarrow> string) \<Rightarrow>
    'x projects_db_scheme project_world \<Rightarrow> 'x projects_db_scheme git_world \<Rightarrow> clone_gen \<Rightarrow> string \<Rightarrow>
    'x projects_db_scheme \<Rightarrow> (clone_error + unit) \<times> 'x projects_db_scheme" where
  "run_project_clone J U K disp W G g project_id db =
    and_run (ok_or (CloneOther ''uuid'') (U project_id), db) (\<lambda>project db.
    and_run (lift_err CloneProjects (owner_id project db, db)) (\<lambda>owner db.
      case clone_project K W G owner project_id db of
        (Inr _, db1) \<Rightarrow> lift_err CloneProjects
          (complete_clone J U W (qg_complete g) (qg_complete_correlation g) project_id db1)
      | (Inl (ScGit e), db1) \<Rightarrow>
          and_run (lift_err CloneProjects (fail_clone J (qg_fail g) (qg_fail_correlation g)
              project_id (disp (ScGit e)) db1))
            (\<lambda>_ db2. (Inl (CloneSourceControl (ScGit e)), db2))
      | (Inl e, db1) \<Rightarrow> (Inl (CloneSourceControl e), db1)))"

end
