(* ===== verification/Work_Dispatch.thy ===== *)
theory Work_Dispatch
  imports Session_Lifecycle Project_Clone
begin

text \<open>
  The background worker (\<open>apps/server/src/application/workers.rs\<close>): which handler a claimed work
  item goes to, how a failure is classified, what the worker writes once a handler is through,
  and the permits under which items run side by side.

  The compaction, automation and turn handlers are parameters. An \<open>anyhow\<close> error is the error it
  wraps, where the code downcasts it, and otherwise a message.
\<close>

section \<open>Kinds and limits\<close>

definition LEASE_TTL_SECONDS :: int where "LEASE_TTL_SECONDS = 120"
definition MAX_CONCURRENT_WORK :: nat where "MAX_CONCURRENT_WORK = 4"
definition MAX_CONCURRENT_AUTOMATION :: nat where "MAX_CONCURRENT_AUTOMATION = 1"

definition KIND_CONTEXT_COMPACT :: string where "KIND_CONTEXT_COMPACT = ''context.compact''"
definition KIND_PULL_REQUEST_AUTOMATION :: string where
  "KIND_PULL_REQUEST_AUTOMATION = ''automation.pull_request''"
definition KIND_FORK_SYNC_BATCH :: string where "KIND_FORK_SYNC_BATCH = ''automation.fork_sync_batch''"

lemmas kind_defs = KIND_CLONE_def KIND_DELETE_PROJECT_def KIND_CREATE_SESSION_def
  KIND_DELETE_SESSION_def KIND_TURN_WAKE_def KIND_CONTEXT_COMPACT_def
  KIND_PULL_REQUEST_AUTOMATION_def KIND_FORK_SYNC_BATCH_def

definition HANDLED_KINDS :: "string list" where
  "HANDLED_KINDS = [KIND_CLONE, KIND_DELETE_PROJECT, KIND_CREATE_SESSION, KIND_DELETE_SESSION,
     KIND_TURN_WAKE, KIND_CONTEXT_COMPACT, KIND_PULL_REQUEST_AUTOMATION, KIND_FORK_SYNC_BATCH]"

section \<open>Failures\<close>

datatype handler_error =
    CloneFailed clone_error
  | LifecycleFailed lifecycle_error
  | HandlerMessage string

record work_failure =
  wf_error :: handler_error
  wf_disposition :: work_failure_disposition

definition failure_retry :: "handler_error \<Rightarrow> work_failure" where
  "failure_retry e = \<lparr>wf_error = e, wf_disposition = Retry\<rparr>"

definition failure_dead_letter :: "handler_error \<Rightarrow> work_failure" where
  "failure_dead_letter e = \<lparr>wf_error = e, wf_disposition = DeadLetter\<rparr>"

definition payload_string :: "json \<Rightarrow> string \<Rightarrow> work_failure + string" where
  "payload_string payload field =
    ok_or (failure_dead_letter (HandlerMessage (''work item missing '' @ field)))
      (field_str field payload)"

section \<open>Recording outcomes\<close>

definition resolve_operation_id ::
  "string \<Rightarrow> string \<Rightarrow> json \<Rightarrow> 'x journal_db_scheme \<Rightarrow> string option" where
  "resolve_operation_id kind project_id payload db =
    (case field_str ''operation_id'' payload of
       Some operation_id \<Rightarrow> Some operation_id
     | None \<Rightarrow> in_flight_for_target kind ''project'' project_id db)"

record success_gen =
  ug_correlation :: string
  ug_finish :: finish_gen

text \<open>Both recorders below log what goes wrong and return nothing.\<close>

definition record_operation_success ::
  "serde \<Rightarrow> success_gen \<Rightarrow> string \<Rightarrow> string \<Rightarrow> json \<Rightarrow> string \<Rightarrow> string \<Rightarrow> 'x journal_db_scheme \<Rightarrow>
    'x journal_db_scheme" where
  "record_operation_success J g kind project_id payload work_id nonce db =
    (case resolve_operation_id kind project_id payload db of
       None \<Rightarrow> db
     | Some operation_id \<Rightarrow>
         snd (finish_claimed J operation_id work_id nonce OpSucceeded
           (Some (JObj [(''project_id'', JStr project_id)])) None (ug_correlation g)
           (fg_now (ug_finish g)) (fg_version (ug_finish g)) (fg_event_id (ug_finish g))
           (fg_occurred_at (ug_finish g)) db))"

definition mark_operation_needs_attention ::
  "serde \<Rightarrow> (handler_error \<Rightarrow> string) \<Rightarrow> success_gen \<Rightarrow> json \<Rightarrow> string \<Rightarrow> string \<Rightarrow> handler_error \<Rightarrow>
    'x journal_db_scheme \<Rightarrow> 'x journal_db_scheme" where
  "mark_operation_needs_attention J disp g payload work_id nonce error db =
    (case field_str ''operation_id'' payload of
       None \<Rightarrow> db
     | Some operation_id \<Rightarrow>
         snd (finish_claimed J operation_id work_id nonce OpNeedsAttention None
           (Some (JObj [(''code'', JStr ''WORK_ITEM_DEAD_LETTERED''), (''detail'', JStr (disp error))]))
           (ug_correlation g) (fg_now (ug_finish g)) (fg_version (ug_finish g))
           (fg_event_id (ug_finish g)) (fg_occurred_at (ug_finish g)) db))"


section \<open>Dispatch\<close>

record 'w worker_handlers =
  wh_run_turn :: "string \<Rightarrow> 'w \<Rightarrow> (string + unit) \<times> 'w"
  wh_compact :: "json \<Rightarrow> string \<Rightarrow> string \<Rightarrow> 'w \<Rightarrow> (string + unit) \<times> 'w"
  wh_pull_request :: "json \<Rightarrow> string \<Rightarrow> string \<Rightarrow> 'w \<Rightarrow> (string + unit) \<times> 'w"
  wh_fork_sync :: "json \<Rightarrow> string \<Rightarrow> string \<Rightarrow> 'w \<Rightarrow> (string + unit) \<times> 'w"

text \<open>The capabilities and codecs every handler gets, and the values it draws.\<close>

record 'w worker_env =
  we_serde :: serde
  we_uuid :: "string \<Rightarrow> string option"
  we_cipher :: secret_cipher
  we_show_source_control :: "source_control_error \<Rightarrow> string"
  we_show_lifecycle :: "lifecycle_error \<Rightarrow> string"
  we_show_handler :: "handler_error \<Rightarrow> string"
  we_projects :: "'w project_world"
  we_git :: "'w git_world"
  we_lifecycle :: "'w lifecycle_capabilities"
  we_handlers :: "'w worker_handlers"

record dispatch_gen =
  hg_clone :: clone_gen
  hg_success :: success_gen
  hg_project_deletion :: project_deletion_gen
  hg_creation :: creation_gen
  hg_deletion :: deletion_gen
  hg_finish :: finish_gen

text \<open>\<open>map_err(WorkFailure::retry)\<close>.\<close>

definition retry_err :: "('e \<Rightarrow> handler_error) \<Rightarrow> ('e + 'a) \<times> 'w \<Rightarrow> (work_failure + 'a) \<times> 'w" where
  "retry_err into = lift_err (\<lambda>e. failure_retry (into e))"

definition dispatch ::
  "'x projects_db_scheme worker_env \<Rightarrow> dispatch_gen \<Rightarrow> string \<Rightarrow> json \<Rightarrow> string \<Rightarrow> string \<Rightarrow>
    'x projects_db_scheme \<Rightarrow> (work_failure + unit) \<times> 'x projects_db_scheme" where
  "dispatch E g kind payload work_id nonce db =
    (let succeed = (\<lambda>project_id db. (Inr (), record_operation_success (we_serde E) (hg_success g)
           kind project_id payload work_id nonce db))
     in if kind = KIND_CLONE then
          and_run (payload_string payload ''project_id'', db) (\<lambda>project_id db.
          and_run (lift_err (\<lambda>e. \<lparr>wf_error = CloneFailed e,
                                wf_disposition = clone_failure_disposition e\<rparr>)
              (run_project_clone (we_serde E) (we_uuid E) (we_cipher E) (we_show_source_control E)
                 (we_projects E) (we_git E) (hg_clone g) project_id db))
            (\<lambda>_ db. succeed project_id db))
        else if kind = KIND_DELETE_PROJECT then
          and_run (payload_string payload ''project_id'', db) (\<lambda>project_id db.
          and_run (ok_or (failure_dead_letter
              (HandlerMessage ''project delete work item missing operation_id''))
              (field_str ''operation_id'' payload), db) (\<lambda>operation_id db.
          and_run (retry_err LifecycleFailed (delete_project_with_runtime (we_serde E) (we_uuid E)
              (we_lifecycle E) (we_projects E) (hg_project_deletion g) project_id operation_id
              work_id nonce db)) (\<lambda>_ db. succeed project_id db)))
        else if kind = KIND_CREATE_SESSION then
          retry_err LifecycleFailed (run_session_creation_operation (we_serde E) (we_uuid E)
            (we_show_lifecycle E) (hg_creation g) (hg_finish g) payload work_id nonce db)
        else if kind = KIND_DELETE_SESSION then
          retry_err LifecycleFailed (run_session_deletion_operation (we_serde E) (we_uuid E)
            (we_show_lifecycle E) (we_lifecycle E) (hg_deletion g) (hg_finish g) payload work_id
            nonce db)
        else if kind = KIND_TURN_WAKE then
          and_run (payload_string payload ''turn_id'', db) (\<lambda>raw db.
          and_run (ok_or (failure_dead_letter (HandlerMessage ''invalid Turn id in wake''))
              (we_uuid E raw), db) (\<lambda>turn_id db.
            retry_err HandlerMessage (wh_run_turn (we_handlers E) turn_id db)))
        else if kind = KIND_CONTEXT_COMPACT then
          retry_err HandlerMessage (wh_compact (we_handlers E) payload work_id nonce db)
        else if kind = KIND_PULL_REQUEST_AUTOMATION then
          retry_err HandlerMessage (wh_pull_request (we_handlers E) payload work_id nonce db)
        else if kind = KIND_FORK_SYNC_BATCH then
          retry_err HandlerMessage (wh_fork_sync (we_handlers E) payload work_id nonce db)
        else (Inl (failure_dead_letter (HandlerMessage (''no handler for kind '' @ kind))), db))"

section \<open>Settling a work item\<close>

record outcome_gen =
  og_complete_now :: int
  og_check_now :: int
  og_mark :: success_gen
  og_fail_now :: int
  og_jitter :: nat
  og_fail_dt :: int

text \<open>
  What the task does with the outcome of a dispatch it was not aborted in. Errors of these calls
  are logged and go no further.
\<close>

definition settle_outcome ::
  "serde \<Rightarrow> (handler_error \<Rightarrow> string) \<Rightarrow> outcome_gen \<Rightarrow> json \<Rightarrow> string \<Rightarrow> string \<Rightarrow> work_failure + unit \<Rightarrow>
    'x journal_db_scheme \<Rightarrow> 'x journal_db_scheme" where
  "settle_outcome J disp g payload work_id nonce outcome db =
    (case outcome of
       Inr _ \<Rightarrow> snd (complete_work work_id nonce (og_complete_now g) db)
     | Inl failure \<Rightarrow>
         let will_dead_letter = work_will_dead_letter work_id nonce (wf_disposition failure)
               (og_check_now g) db;
             db1 = (if will_dead_letter
                    then mark_operation_needs_attention J disp (og_mark g) payload work_id nonce
                           (wf_error failure) db
                    else db)
         in snd (fail_work work_id nonce (wf_disposition failure) (og_fail_now g) (og_jitter g)
              (og_fail_dt g) db1))"

section \<open>Permits and target locks\<close>

definition work_target_key :: "string \<Rightarrow> json \<Rightarrow> string option" where
  "work_target_key kind payload =
    (if kind = KIND_CLONE \<or> kind = KIND_DELETE_PROJECT
     then map_option (\<lambda>i. ''project:'' @ i) (field_str ''project_id'' payload)
     else if kind = KIND_CREATE_SESSION \<or> kind = KIND_DELETE_SESSION \<or> kind = KIND_CONTEXT_COMPACT
     then map_option (\<lambda>i. ''session:'' @ i) (field_str ''session_id'' payload)
     else if kind = KIND_TURN_WAKE
     then map_option (\<lambda>i. ''turn:'' @ i) (field_str ''turn_id'' payload)
     else None)"

definition is_automation :: "string \<Rightarrow> bool" where
  "is_automation kind \<longleftrightarrow> kind = KIND_PULL_REQUEST_AUTOMATION \<or> kind = KIND_FORK_SYNC_BATCH"

definition is_session_lifecycle :: "string \<Rightarrow> bool" where
  "is_session_lifecycle kind \<longleftrightarrow> kind = KIND_CREATE_SESSION \<or> kind = KIND_DELETE_SESSION"

text \<open>
  A spawned task waits for its target's lock, dispatches under it, and settles its work item once
  the lock is dropped; its semaphore permits go back when it ends.
\<close>

datatype task_phase = AwaitingTarget | Dispatching | Settling

record worker_task =
  wt_kind :: string
  wt_work :: claimed_work
  wt_phase :: task_phase

record worker_pool =
  wp_work :: nat
  wp_automation :: nat
  wp_session :: nat
  wp_busy :: "string set"
  wp_tasks :: "worker_task list"

definition pool_start :: worker_pool where
  "pool_start = \<lparr>wp_work = MAX_CONCURRENT_WORK, wp_automation = MAX_CONCURRENT_AUTOMATION,
     wp_session = 1, wp_busy = {}, wp_tasks = []\<rparr>"

definition take_permits :: "string \<Rightarrow> worker_pool \<Rightarrow> worker_pool option" where
  "take_permits kind p =
    (let held = (if is_automation kind
           then if wp_automation p = 0 then None
                else Some (p\<lparr>wp_automation := wp_automation p - 1\<rparr>)
           else if wp_work p = 0 then None else Some (p\<lparr>wp_work := wp_work p - 1\<rparr>))
     in case held of
          None \<Rightarrow> None
        | Some p1 \<Rightarrow>
            if is_session_lifecycle kind
            then if wp_session p = 0 then None else Some (p1\<lparr>wp_session := wp_session p - 1\<rparr>)
            else Some p1)"

definition drop_permits :: "string \<Rightarrow> worker_pool \<Rightarrow> worker_pool" where
  "drop_permits kind p =
    (let p1 = (if is_automation kind then p\<lparr>wp_automation := wp_automation p + 1\<rparr>
               else p\<lparr>wp_work := wp_work p + 1\<rparr>)
     in if is_session_lifecycle kind then p1\<lparr>wp_session := wp_session p + 1\<rparr> else p1)"

text \<open>The body of \<open>run_once\<close>'s loop, and the loop, which an error of a claim ends.\<close>

definition sweep_kind ::
  "serde \<Rightarrow> string \<Rightarrow> int \<Rightarrow> int \<Rightarrow> string \<Rightarrow> worker_pool \<Rightarrow> 'x journal_db_scheme \<Rightarrow>
    (operation_error + unit) \<times> worker_pool \<times> 'x journal_db_scheme" where
  "sweep_kind J kind now_dt now nonce p db =
    (case take_permits kind p of
       None \<Rightarrow> (Inr (), p, db)
     | Some p1 \<Rightarrow>
         (case claim_work J kind LEASE_TTL_SECONDS now_dt now nonce db of
            (Inl e, db1) \<Rightarrow> (Inl e, p, db1)
          | (Inr None, db1) \<Rightarrow> (Inr (), p, db1)
          | (Inr (Some claimed), db1) \<Rightarrow>
              (Inr (), p1\<lparr>wp_tasks := wp_tasks p1 @
                 [\<lparr>wt_kind = kind, wt_work = claimed, wt_phase = AwaitingTarget\<rparr>]\<rparr>, db1)))"

primrec run_kinds ::
  "serde \<Rightarrow> (string \<Rightarrow> int \<times> int \<times> string) \<Rightarrow> string list \<Rightarrow> worker_pool \<times> 'x journal_db_scheme \<Rightarrow>
    (operation_error + unit) \<times> worker_pool \<times> 'x journal_db_scheme" where
  "run_kinds J draws [] s = (Inr (), s)"
| "run_kinds J draws (kind # kinds) s =
    and_run (sweep_kind J kind (fst (draws kind)) (fst (snd (draws kind))) (snd (snd (draws kind)))
        (fst s) (snd s)) (\<lambda>_. run_kinds J draws kinds)"

definition run_once ::
  "serde \<Rightarrow> (string \<Rightarrow> int \<times> int \<times> string) \<Rightarrow> worker_pool \<times> 'x journal_db_scheme \<Rightarrow>
    (operation_error + unit) \<times> worker_pool \<times> 'x journal_db_scheme" where
  "run_once J draws = run_kinds J draws HANDLED_KINDS"

text \<open>One round of \<open>TargetLocks::acquire\<close>; a busy key leaves the task waiting.\<close>

definition target_of :: "worker_task \<Rightarrow> string option" where
  "target_of t = work_target_key (wt_kind t) (cl_payload (wt_work t))"

definition acquire_target :: "nat \<Rightarrow> worker_pool \<Rightarrow> worker_pool" where
  "acquire_target i p =
    (let t = wp_tasks p ! i; dispatching = (wp_tasks p)[i := t\<lparr>wt_phase := Dispatching\<rparr>]
     in if length (wp_tasks p) \<le> i \<or> wt_phase t \<noteq> AwaitingTarget then p
        else case target_of t of
          None \<Rightarrow> p\<lparr>wp_tasks := dispatching\<rparr>
        | Some key \<Rightarrow> if key \<in> wp_busy p then p
                      else p\<lparr>wp_tasks := dispatching, wp_busy := insert key (wp_busy p)\<rparr>)"

definition drop_target :: "worker_task \<Rightarrow> worker_pool \<Rightarrow> worker_pool" where
  "drop_target t p =
    (case target_of t of None \<Rightarrow> p | Some key \<Rightarrow> p\<lparr>wp_busy := wp_busy p - {key}\<rparr>)"

definition finish_dispatch :: "nat \<Rightarrow> worker_pool \<Rightarrow> worker_pool" where
  "finish_dispatch i p =
    (let t = wp_tasks p ! i
     in if length (wp_tasks p) \<le> i \<or> wt_phase t \<noteq> Dispatching then p
        else drop_target t (p\<lparr>wp_tasks := (wp_tasks p)[i := t\<lparr>wt_phase := Settling\<rparr>]\<rparr>))"

definition remove_nth :: "nat \<Rightarrow> 'a list \<Rightarrow> 'a list" where
  "remove_nth i xs = take i xs @ drop (Suc i) xs"

definition end_task :: "nat \<Rightarrow> worker_pool \<Rightarrow> worker_pool" where
  "end_task i p =
    (let t = wp_tasks p ! i
     in if length (wp_tasks p) \<le> i \<or> wt_phase t \<noteq> Settling then p
        else drop_permits (wt_kind t) (p\<lparr>wp_tasks := remove_nth i (wp_tasks p)\<rparr>))"

text \<open>A lost lease aborts the wait or the dispatch; the dropped futures give back everything.\<close>

definition lose_lease :: "nat \<Rightarrow> worker_pool \<Rightarrow> worker_pool" where
  "lose_lease i p =
    (let t = wp_tasks p ! i; rest = p\<lparr>wp_tasks := remove_nth i (wp_tasks p)\<rparr>
     in if length (wp_tasks p) \<le> i then p
        else case wt_phase t of
          AwaitingTarget \<Rightarrow> drop_permits (wt_kind t) rest
        | Dispatching \<Rightarrow> drop_permits (wt_kind t) (drop_target t rest)
        | Settling \<Rightarrow> p)"

inductive worker_step :: "worker_pool \<times> 'x journal_db_scheme \<Rightarrow> worker_pool \<times> 'x journal_db_scheme \<Rightarrow> bool"
where
  sweep: "kind \<in> set HANDLED_KINDS \<Longrightarrow>
    worker_step (p, db) (snd (sweep_kind J kind now_dt now nonce p db))"
| acquire: "worker_step (p, db) (acquire_target i p, db)"
| dispatched: "worker_step (p, db) (finish_dispatch i p, db')"
| ended: "worker_step (p, db) (end_task i p, db')"
| lost: "worker_step (p, db) (lose_lease i p, db')"

end
