(* ===== verification/Worker_Safety.thy ===== *)
theory Worker_Safety
  imports Work_Dispatch Journal_Properties Janus_Interfaces
begin

text \<open>
  What holds of the background worker in every interleaving of its tasks: the permits bound how
  many run, a target's lock is held by one task at a time, and a work item that dies leaves no
  operation in flight behind.
\<close>

section \<open>Permits and locks\<close>

definition held_targets :: "worker_task list \<Rightarrow> string list" where
  "held_targets ts = List.map_filter target_of (filter (\<lambda>t. wt_phase t = Dispatching) ts)"

definition count_tasks :: "(string \<Rightarrow> bool) \<Rightarrow> worker_task list \<Rightarrow> nat" where
  "count_tasks P ts = length (filter (\<lambda>t. P (wt_kind t)) ts)"

definition is_plain :: "string \<Rightarrow> bool" where
  "is_plain kind \<longleftrightarrow> \<not> is_automation kind"

definition pool_ok :: "worker_pool \<Rightarrow> bool" where
  "pool_ok p \<longleftrightarrow>
     wp_work p + count_tasks is_plain (wp_tasks p) = MAX_CONCURRENT_WORK \<and>
     wp_automation p + count_tasks is_automation (wp_tasks p) = MAX_CONCURRENT_AUTOMATION \<and>
     wp_session p + count_tasks is_session_lifecycle (wp_tasks p) = 1 \<and>
     distinct (held_targets (wp_tasks p)) \<and> set (held_targets (wp_tasks p)) = wp_busy p"

lemma held_targets_simps [simp]:
  "held_targets [] = []"
  "held_targets (t # ts) =
     (if wt_phase t = Dispatching
      then (case target_of t of None \<Rightarrow> [] | Some k \<Rightarrow> [k]) else []) @ held_targets ts"
  "held_targets (ts @ us) = held_targets ts @ held_targets us"
  by (auto simp: held_targets_def List.map_filter_def split: option.splits)

lemma count_tasks_simps [simp]:
  "count_tasks P [] = 0"
  "count_tasks P (t # ts) = (if P (wt_kind t) then 1 else 0) + count_tasks P ts"
  "count_tasks P (ts @ us) = count_tasks P ts + count_tasks P us"
  by (simp_all add: count_tasks_def)

lemma target_of_phase [simp]: "target_of (t\<lparr>wt_phase := x\<rparr>) = target_of t"
  by (simp add: target_of_def)

lemma task_split:
  assumes "i < length ts"
  obtains xs ys where "ts = xs @ ts ! i # ys" "\<And>u. ts[i := u] = xs @ u # ys"
    "remove_nth i ts = xs @ ys"
  using assms id_take_nth_drop [OF assms] upd_conv_take_nth_drop [OF assms]
  by (metis remove_nth_def)

lemma pool_start_ok: "pool_ok pool_start"
  by (simp add: pool_ok_def pool_start_def)

lemma sweep_ok:
  assumes "pool_ok p" "snd (sweep_kind J kind now_dt now nonce p db) = (p', db')"
  shows "pool_ok p'"
  using assms
  by (auto simp: sweep_kind_def take_permits_def pool_ok_def Let_def target_of_def is_plain_def
      split: option.splits sum.splits prod.splits if_splits)

lemma acquire_ok:
  assumes "pool_ok p"
  shows "pool_ok (acquire_target i p)"
proof (cases "i < length (wp_tasks p) \<and> wt_phase (wp_tasks p ! i) = AwaitingTarget")
  case True
  then obtain xs ys where split: "wp_tasks p = xs @ wp_tasks p ! i # ys"
    "\<And>u. (wp_tasks p)[i := u] = xs @ u # ys" by (metis task_split)
  define t where "t = wp_tasks p ! i"
  have ts: "wp_tasks p = xs @ t # ys" using split(1) by (simp add: t_def)
  show ?thesis
    using assms True
    by (simp add: acquire_target_def Let_def split(2) flip: t_def split: option.splits)
      (auto simp: pool_ok_def ts)
qed (use assms in \<open>auto simp: acquire_target_def Let_def not_less\<close>)

lemma finish_dispatch_ok:
  assumes "pool_ok p"
  shows "pool_ok (finish_dispatch i p)"
proof (cases "i < length (wp_tasks p) \<and> wt_phase (wp_tasks p ! i) = Dispatching")
  case True
  then obtain xs ys where split: "wp_tasks p = xs @ wp_tasks p ! i # ys"
    "\<And>u. (wp_tasks p)[i := u] = xs @ u # ys" by (metis task_split)
  define t where "t = wp_tasks p ! i"
  have ts: "wp_tasks p = xs @ t # ys" using split(1) by (simp add: t_def)
  show ?thesis
    using assms True
    by (simp add: finish_dispatch_def Let_def split(2) drop_target_def flip: t_def split: option.splits)
      (auto simp: pool_ok_def ts)
qed (use assms in \<open>auto simp: finish_dispatch_def Let_def not_less\<close>)

lemma drop_permits_fields:
  "wp_work (drop_permits k p) = wp_work p + (if is_plain k then 1 else 0)"
  "wp_automation (drop_permits k p) = wp_automation p + (if is_automation k then 1 else 0)"
  "wp_session (drop_permits k p) = wp_session p + (if is_session_lifecycle k then 1 else 0)"
  "wp_busy (drop_permits k p) = wp_busy p" "wp_tasks (drop_permits k p) = wp_tasks p"
  by (simp_all add: drop_permits_def Let_def is_plain_def)

lemma drop_permits_ok:
  assumes "wp_tasks p = xs @ t # ys" "pool_ok p" "wp_work q = wp_work p"
    "wp_automation q = wp_automation p" "wp_session q = wp_session p" "wp_tasks q = xs @ ys"
    "distinct (held_targets (xs @ ys))" "set (held_targets (xs @ ys)) = wp_busy q"
  shows "pool_ok (drop_permits (wt_kind t) q)"
proof -
  have "wp_work q + (if is_plain (wt_kind t) then 1 else 0) + count_tasks is_plain (xs @ ys) =
      MAX_CONCURRENT_WORK"
    and "wp_automation q + (if is_automation (wt_kind t) then 1 else 0) +
      count_tasks is_automation (xs @ ys) = MAX_CONCURRENT_AUTOMATION"
    and "wp_session q + (if is_session_lifecycle (wt_kind t) then 1 else 0) +
      count_tasks is_session_lifecycle (xs @ ys) = 1"
    using assms(2) unfolding pool_ok_def assms(1,3,4,5) count_tasks_simps by linarith+
  then show ?thesis
    unfolding pool_ok_def drop_permits_fields assms(6) using assms(7,8) by (intro conjI)
qed

lemma leave_ok:
  assumes "pool_ok p"
  shows "pool_ok (end_task i p)" "pool_ok (lose_lease i p)"
proof -
  have "pool_ok (end_task i p) \<and> pool_ok (lose_lease i p)"
  proof (cases "i < length (wp_tasks p)")
    case True
    then obtain xs ys where split: "wp_tasks p = xs @ wp_tasks p ! i # ys"
      "remove_nth i (wp_tasks p) = xs @ ys" by (metis task_split)
    define t where "t = wp_tasks p ! i"
    have ts: "wp_tasks p = xs @ t # ys" using split(1) by (simp add: t_def)
    have away: "pool_ok (drop_permits (wt_kind t) (p\<lparr>wp_tasks := xs @ ys\<rparr>))"
      if "wt_phase t \<noteq> Dispatching"
      by (rule drop_permits_ok [OF ts assms]) (use assms that in \<open>auto simp: pool_ok_def ts\<close>)
    have held: "pool_ok (drop_permits (wt_kind t) (drop_target t (p\<lparr>wp_tasks := xs @ ys\<rparr>)))"
      if "wt_phase t = Dispatching"
      by (rule drop_permits_ok [OF ts assms])
        (use assms that in \<open>auto simp: pool_ok_def ts drop_target_def split: option.splits\<close>)
    show ?thesis
      using True away held assms
      by (auto simp: end_task_def lose_lease_def Let_def split(2) simp flip: t_def
          split: task_phase.splits)
  qed (use assms in \<open>auto simp: end_task_def lose_lease_def Let_def not_less\<close>)
  then show "pool_ok (end_task i p)" "pool_ok (lose_lease i p)" by auto
qed

lemma worker_step_ok:
  "worker_step s s' \<Longrightarrow> pool_ok (fst s) \<Longrightarrow> pool_ok (fst s')"
  by (induction rule: worker_step.induct)
    (auto intro: acquire_ok finish_dispatch_ok leave_ok sweep_ok [OF _ surjective_pairing])

interpretation pool_inv: step_invariant worker_step "\<lambda>s. pool_ok (fst s)"
  by unfold_locales (rule worker_step_ok)


text \<open>
  C29. In every state the worker reaches from its start, whatever the other writers of the store
  do, at most four plain items and one automation item run, at most one of them creates or
  deletes a session, and no two dispatching items hold the same target.
\<close>

theorem workers_bounded:
  assumes "worker_step\<^sup>*\<^sup>* (pool_start, db) (p, db')"
  shows "count_tasks is_plain (wp_tasks p) \<le> 4 \<and> count_tasks is_automation (wp_tasks p) \<le> 1 \<and>
    count_tasks is_session_lifecycle (wp_tasks p) \<le> 1 \<and> distinct (held_targets (wp_tasks p))"
proof -
  have "pool_ok p" using pool_inv.steps_inv [OF assms] by (simp add: pool_start_ok)
  then show ?thesis
    unfolding pool_ok_def MAX_CONCURRENT_WORK_def MAX_CONCURRENT_AUTOMATION_def by linarith
qed

definition sample_pool_db :: journal_db where
  "sample_pool_db = empty_journal\<lparr>work_items := [new_work_row ''w1'' KIND_DELETE_SESSION ''null'' 1,
     new_work_row ''w2'' KIND_TURN_WAKE ''null'' 1]\<rparr>"

lemma sample_sweep:
  "snd (sweep_kind sample_serde KIND_DELETE_SESSION 2000000 2 ''n'' pool_start sample_pool_db) =
    (\<lparr>wp_work = 3, wp_automation = 1, wp_session = 0, wp_busy = {},
      wp_tasks = [\<lparr>wt_kind = KIND_DELETE_SESSION,
        wt_work = \<lparr>cl_id = ''w1'', cl_nonce = ''n'', cl_payload = JNull\<rparr>,
        wt_phase = AwaitingTarget\<rparr>]\<rparr>,
     sample_pool_db\<lparr>work_items := [(new_work_row ''w1'' KIND_DELETE_SESSION ''null'' 1)
         \<lparr>wi_lease_nonce := Some ''n'', wi_lease_expires_at := Some 120002, wi_attempts := 1\<rparr>,
       new_work_row ''w2'' KIND_TURN_WAKE ''null'' 1]\<rparr>)"
  by (simp add: sweep_kind_def take_permits_def pool_start_def is_automation_def
      is_session_lifecycle_def kind_defs sample_pool_db_def claim_work_eq bury_exhausted_def
      update_many_def find_first_by_def claimable_def MAX_WORK_ATTEMPTS_def new_work_row_def
      MAX_CONCURRENT_WORK_def MAX_CONCURRENT_AUTOMATION_def
      seconds_def format_utc_def Let_def LEASE_TTL_SECONDS_def sample_serde_def empty_journal_def)

theorem workers_bounded_witness:
  "\<exists>p db'. worker_step\<^sup>*\<^sup>* (pool_start, sample_pool_db) (p, db') \<and>
    count_tasks is_session_lifecycle (wp_tasks p) = 1 \<and> count_tasks is_plain (wp_tasks p) \<le> 4"
proof -
  have "worker_step\<^sup>*\<^sup>* (pool_start, sample_pool_db)
      (snd (sweep_kind sample_serde KIND_DELETE_SESSION 2000000 2 ''n'' pool_start sample_pool_db))"
    by (rule r_into_rtranclp, rule worker_step.sweep) (simp add: HANDLED_KINDS_def)
  then show ?thesis
    unfolding sample_sweep using workers_bounded [of sample_pool_db]
    by (fastforce simp: is_session_lifecycle_def)
qed

section \<open>Dead letters\<close>

lemma fail_work_frame: "operations (snd (fail_work work_id nonce d now j dt db)) = operations db"
  by (simp add: fail_work_eq Let_def split: option.splits prod.splits)

lemma finish_claimed_work:
  "work_items (snd (finish_claimed J oid work_id nonce st res prob c now v e t db)) = work_items db"
proof -
  have "work_items db' = work_items db"
    if "finish_claimed_tx J oid work_id nonce st res prob c now v e t db = Inr (b, db')" for b db'
    using that by (auto simp: finish_claimed_tx_def Let_def settle_operation_def
        split: option.splits if_splits prod.splits sum.splits dest: emit_frame(3))
  then show ?thesis
    by (auto simp: finish_claimed_def run_tx_def split: sum.splits)
qed

text \<open>The one way a live item dies in \<open>fail_work\<close>: under its lease, with its attempts used up.\<close>

lemma fail_work_dead:
  assumes "distinct (map wi_id (work_items db))"
    and w: "w \<in> set (work_items db)" "wi_id w = work_id" "\<not> wi_dead w"
    and w': "w' \<in> set (work_items (snd (fail_work work_id nonce d now j dt db)))"
      "wi_id w' = work_id" "wi_dead w'"
  shows "leased_by now work_id nonce w \<and> work_exhausted d (wi_attempts w)"
proof -
  have unique: "v = w" if "v \<in> set (work_items db)" "wi_id v = work_id" for v
    using assms(1) w that by (metis distinct_map inj_onD)
  have live: "w' \<notin> set (work_items db)" using unique w(3) w'(2,3) by blast
  then obtain w0 where w0: "find_one (\<lambda>x. wi_id x = work_id \<and> wi_lease_nonce x = Some nonce)
      (work_items db) = Some w0"
    using w'(1) by (fastforce simp: fail_work_eq split: option.splits)
  then have "w0 = w" using unique find_one_SomeD [OF w0] by blast
  let ?f = "\<lambda>nb x. x\<lparr>wi_not_before := nb, wi_dead := work_exhausted d (wi_attempts w),
      wi_lease_nonce := None, wi_lease_expires_at := None\<rparr>"
  have "\<exists>nb. w' \<in> set (fst (update_one (leased_by now work_id nonce) (?f nb) (work_items db)))"
    using w'(1) live w0 \<open>w0 = w\<close>
    by (auto simp: fail_work_eq Let_def split_beta split: option.splits)
  then obtain nb where "w' \<in> set (fst (update_one (leased_by now work_id nonce) (?f nb) (work_items db)))"
    by blast
  then show ?thesis
  proof (cases rule: update_one_setE)
    case 1
    then show ?thesis using live by simp
  next
    case (2 x)
    then have "x = w" using unique by (simp add: leased_by_def)
    then show ?thesis using 2 w'(3) by simp
  qed
qed

lemma emit_accepted:
  assumes "log_dense db" "log_accepts e db"
  shows "\<exists>db'. emit_operation_changed J e t i k s v c db = Inr db'"
proof -
  obtain env db' where "append_in_tx J e t (operation_changed_event i k s v c) db = Inr (env, db')"
    using append_accepted [OF assms] by metis
  then show ?thesis by (simp add: emit_operation_changed_def)
qed

text \<open>A finish under a live lease leaves the operation in no status that could still move.\<close>

lemma finish_claimed_settles:
  assumes ok: "journal_ok db" and accepts: "log_accepts e db"
    and lease: "w \<in> set (work_items db)" "holds_lease now work_id nonce w"
    and terminal: "st \<notin> {OpQueued, OpRunning}"
    and r: "r \<in> set (operations (snd (finish_claimed J oid work_id nonce st res prob c now v e t db)))"
      "op_id r = oid"
  shows "\<not> in_flight r"
proof (cases "find_one (\<lambda>r. op_id r = oid \<and> in_flight r) (operations db)")
  case None
  then have "operations (snd (finish_claimed J oid work_id nonce st res prob c now v e t db)) =
      operations db"
    by (simp add: finish_claimed_def finish_claimed_tx_def run_tx_def)
  then show ?thesis using None r by (auto simp: find_one_None_iff)
next
  case (Some k)
  have held: "find_one (holds_lease now work_id nonce) (work_items db) \<noteq> None"
    using lease by (auto simp: find_one_None_iff)
  obtain ops where hit: "update_one (\<lambda>r. op_id r = oid \<and> in_flight r)
      (finish_row J st res prob v now) (operations db) = (ops, 1)"
    using update_one_count_find [of "\<lambda>r. op_id r = oid \<and> in_flight r"
      "finish_row J st res prob v now" "operations db"] Some by (metis option.case(2) prod.collapse)
  let ?db1 = "settle_operation J oid st now ops db"
  have "log_dense ?db1" "log_accepts e ?db1"
    using journal_okD(6) [OF ok] accepts
    by (simp_all add: settle_operation_def log_dense_def log_accepts_def)
  then obtain db' where emit: "emit_operation_changed J e t oid (op_kind k)
      (operation_status_as_str st) v c ?db1 = Inr db'"
    using emit_accepted by blast
  then have "operations (snd (finish_claimed J oid work_id nonce st res prob c now v e t db)) = ops"
    using held hit Some emit_frame(1) [OF emit]
    by (auto simp: finish_claimed_def finish_claimed_tx_def settle_operation_def run_tx_def)
  then have "r \<in> set (map (\<lambda>r. if op_id r = oid \<and> in_flight r
      then finish_row J st res prob v now r else r) (operations db))"
    using r(1) update_one_keyed [of op_id "operations db" "\<lambda>r. op_id r = oid \<and> in_flight r" oid
      "finish_row J st res prob v now"] journal_okD(3) [OF ok] by (simp add: hit)
  then obtain x where "r = (if op_id x = oid \<and> in_flight x then finish_row J st res prob v now x else x)"
    unfolding set_map by (elim imageE)
  then show ?thesis
    using r(2) terminal by (cases st) (auto simp: finish_row_def in_flight_def split: if_splits)
qed

text \<open>
  A work item that a failure turns into a dead letter leaves no operation in flight: when the
  worker settles a failed dispatch, its clock readings do not go backwards, and the log accepts
  the event, then an item that is dead afterwards names an operation that has left flight.
\<close>

theorem dead_letter_settles_operation:
  assumes "journal_ok db" and "log_accepts (fg_event_id (ug_finish (og_mark g))) db"
    and op: "field_str ''operation_id'' payload = Some oid"
    and clock: "og_check_now g \<le> fg_now (ug_finish (og_mark g))"
      "fg_now (ug_finish (og_mark g)) \<le> og_fail_now g"
    and w: "w \<in> set (work_items db)" "wi_id w = work_id" "\<not> wi_dead w"
    and settled: "db' = settle_outcome J disp g payload work_id nonce (Inl failure) db"
    and w': "w' \<in> set (work_items db')" "wi_id w' = work_id" "wi_dead w'"
  shows "\<not> (\<exists>r. r \<in> set (operations db') \<and> op_id r = oid \<and> in_flight r)"
proof -
  define marked where "marked = (if work_will_dead_letter work_id nonce (wf_disposition failure)
      (og_check_now g) db then mark_operation_needs_attention J disp (og_mark g) payload work_id nonce
      (wf_error failure) db else db)"
  have db': "db' = snd (fail_work work_id nonce (wf_disposition failure) (og_fail_now g)
      (og_jitter g) (og_fail_dt g) marked)"
    using settled by (simp add: settle_outcome_def marked_def Let_def)
  have items: "work_items marked = work_items db"
    by (simp add: marked_def mark_operation_needs_attention_def finish_claimed_work
        split: option.splits)
  have dead: "leased_by (og_fail_now g) work_id nonce w \<and>
      work_exhausted (wf_disposition failure) (wi_attempts w)"
    using fail_work_dead [of marked w work_id w'] journal_okD(1) [OF assms(1)] w w' items db' by metis
  then have lease: "holds_lease t work_id nonce w" if "t \<le> og_fail_now g" for t
    using that w(3) by (auto simp: leased_by_def holds_lease_def split: option.splits)
  have "find_one (holds_lease (og_check_now g) work_id nonce) (work_items db) = Some w"
    using lease [of "og_check_now g"] clock w journal_okD(1) [OF assms(1)]
    by (intro find_one_unique) (auto simp: holds_lease_def dest: inj_onD simp: distinct_map)
  then have "work_will_dead_letter work_id nonce (wf_disposition failure) (og_check_now g) db"
    using dead by (simp add: work_will_dead_letter_def)
  then show ?thesis
    using finish_claimed_settles [OF assms(1,2) w(1) lease [OF clock(2)], of OpNeedsAttention] op
    by (simp add: db' fail_work_frame marked_def mark_operation_needs_attention_def)
qed


text \<open>A journal whose one operation runs under a lease in its last attempt.\<close>

definition sample_last_attempt :: journal_db where
  "sample_last_attempt = sample_claimed\<lparr>work_items :=
     map (\<lambda>w. w\<lparr>wi_attempts := MAX_WORK_ATTEMPTS\<rparr>) (work_items sample_claimed)\<rparr>"

definition sample_outcome_gen :: outcome_gen where
  "sample_outcome_gen = \<lparr>og_complete_now = 3, og_check_now = 3,
     og_mark = \<lparr>ug_correlation = ''c'', ug_finish = \<lparr>fg_now = 4, fg_version = ''v'',
       fg_event_id = ''e9'', fg_occurred_at = 4\<rparr>\<rparr>,
     og_fail_now = 5, og_jitter = 0, og_fail_dt = 5000000\<rparr>"

definition sample_payload :: json where
  "sample_payload = JObj [(''operation_id'', JStr ''1'')]"

definition sample_failed :: journal_db where
  "sample_failed = settle_outcome sample_serde (\<lambda>_. ''x'') sample_outcome_gen sample_payload ''w1'' ''n''
     (Inl (failure_retry (HandlerMessage ''x''))) sample_last_attempt"

lemma sample_claimed_log: "log_accepts ''e9'' sample_claimed"
  by (simp add: log_accepts_def sample_claimed_def claim_work_eq sample_journal_defs
      bury_exhausted_def update_many_def find_first_by_def claimable_def Let_def)


lemma sample_last_attempt_ok:
  "journal_ok sample_last_attempt" "log_accepts ''e9'' sample_last_attempt"
proof -
  have "journal_ok (sample_claimed\<lparr>work_items := work_items sample_last_attempt\<rparr>)"
    by (rule work_items_ok [OF sample_claimed_ok])
      (auto simp: sample_last_attempt_def sample_claimed_eq work_ok_def new_work_row_def
        MAX_WORK_ATTEMPTS_def)
  then show "journal_ok sample_last_attempt" by (simp add: sample_last_attempt_def)
  show "log_accepts ''e9'' sample_last_attempt"
    using sample_claimed_log by (simp add: log_accepts_def sample_last_attempt_def)
qed

lemma sample_failed_work:
  "map (\<lambda>w. (wi_id w, wi_dead w)) (work_items sample_failed) = [(''w1'', True)]"
proof -
  have items: "work_items sample_last_attempt = [(new_work_row ''w1'' ''git.clone'' ''null'' 1)
      \<lparr>wi_lease_nonce := Some ''n'', wi_lease_expires_at := Some 60002, wi_attempts := 5\<rparr>]"
    by (simp add: sample_last_attempt_def sample_claimed_eq MAX_WORK_ATTEMPTS_def)
  have "work_items (mark_operation_needs_attention sample_serde f g sample_payload ''w1'' ''n'' e
      sample_last_attempt) = work_items sample_last_attempt" for f g e
    by (simp add: mark_operation_needs_attention_def finish_claimed_work split: option.splits)
  then show ?thesis
    by (simp add: sample_failed_def settle_outcome_def Let_def fail_work_eq items new_work_row_def
        sample_outcome_gen_def failure_retry_def retry_delay_seconds_def work_exhausted_def
        MAX_WORK_ATTEMPTS_def leased_by_def work_will_dead_letter_def holds_lease_def)
qed

theorem dead_letter_settles_operation_witness:
  "map (\<lambda>w. (wi_id w, wi_dead w)) (work_items sample_failed) = [(''w1'', True)] \<and>
   \<not> (\<exists>r. r \<in> set (operations sample_failed) \<and> op_id r = ''1'' \<and> in_flight r)"
proof -
  obtain w where w: "work_items sample_last_attempt = [w]" "wi_id w = ''w1''" "\<not> wi_dead w"
    by (simp add: sample_last_attempt_def sample_claimed_eq new_work_row_def)
  obtain w' where w': "work_items sample_failed = [w']" "wi_id w' = ''w1''" "wi_dead w'"
    using sample_failed_work by auto
  have "\<not> (\<exists>r. r \<in> set (operations sample_failed) \<and> op_id r = ''1'' \<and> in_flight r)"
    by (rule dead_letter_settles_operation [OF sample_last_attempt_ok(1) _ _ _ _ _ w(2,3)
          sample_failed_def _ w'(2,3)])
      (simp_all add: sample_outcome_gen_def sample_last_attempt_ok sample_payload_def field_str_def w w')
  then show ?thesis using sample_failed_work by simp
qed

end
