(* ===== verification/Lifecycle_Properties.thy ===== *)
theory Lifecycle_Properties
  imports Session_Lifecycle Journal_Properties Session_Recovery Flow_Properties
begin

text \<open>
  What the durable steps of \<open>Session_Lifecycle\<close> guarantee: a completed step is skipped and its
  action never applied again, a step whose action failed is never entered again, so that a
  deletion does not resume after a transient failure, and a session whose deleting mark was
  cleared survives its deletion.
\<close>

section \<open>The status of a step\<close>

definition step_status :: "string \<Rightarrow> string \<Rightarrow> 'x journal_db_scheme \<Rightarrow> string option" where
  "step_status oid key db = map_option st_status
     (find_one (\<lambda>s. st_operation_id s = oid \<and> st_step_key s = key) (operation_steps db))"

definition steps_live :: "string \<Rightarrow> 'x journal_db_scheme \<Rightarrow> bool" where
  "steps_live oid db \<longleftrightarrow> (\<forall>key. step_status oid key db \<in> {None, Some ''running'', Some ''succeeded''})"

definition op_in_flight :: "string \<Rightarrow> 'x journal_db_scheme \<Rightarrow> bool" where
  "op_in_flight oid db \<longleftrightarrow> (\<exists>r \<in> set (operations db). op_id r = oid \<and> in_flight r)"

text \<open>An action that leaves the journal's operations and steps alone.\<close>

definition keeps_steps :: "('x journal_db_scheme \<Rightarrow> 'r \<times> 'x journal_db_scheme) \<Rightarrow> bool" where
  "keeps_steps f \<longleftrightarrow> (\<forall>db. operation_steps (snd (f db)) = operation_steps db)"

lemma find_one_snoc:
  "find_one P (xs @ [x]) = (case find_one P xs of None \<Rightarrow> if P x then Some x else None | Some y \<Rightarrow> Some y)"
  by (induction xs) auto

lemma find_one_update_same:
  assumes "\<And>r. P r \<Longrightarrow> P (f r)"
  shows "find_one P (fst (update_one P f c)) = map_option f (find_one P c)"
  using assms by (induction c) auto

lemma find_one_update_other:
  assumes "\<And>r. P r \<Longrightarrow> \<not> Q r" and "\<And>r. P r \<Longrightarrow> \<not> Q (f r)"
  shows "find_one Q (fst (update_one P f c)) = find_one Q c"
  using assms by (induction c) auto

lemma enter_step_status:
  "step_status oid k (db\<lparr>operation_steps := snd (enter_step J oid key inp now (operation_steps db))\<rparr>) =
    (if k = key \<and> step_status oid key db = None then Some ''running'' else step_status oid k db)"
  by (auto simp: step_status_def enter_step_def find_one_snoc split: option.splits)

lemma enter_step_state:
  assumes "steps_live oid db"
  shows "fst (enter_step J oid key inp now (operation_steps db)) =
    (case step_status oid key db of
       None \<Rightarrow> StepRunning
     | Some s \<Rightarrow> if s = ''succeeded'' then AlreadySucceeded else NeedsReconciliation)"
  using assms [unfolded steps_live_def, rule_format, of key]
  by (auto simp: step_status_def enter_step_def split: option.splits)

lemma begin_step_status:
  assumes "begin_step_claimed J wid n oid key inp now ver db = (r, db')"
  shows "r = Inl StaleWorkClaim \<and> db' = db \<or>
    r = Inr (fst (enter_step J oid key inp now (operation_steps db))) \<and>
      (\<forall>k. step_status oid k db' = (if k = key \<and> step_status oid key db = None then Some ''running''
        else step_status oid k db))"
proof (cases r)
  case (Inl e)
  then show ?thesis
    using assms by (auto simp: begin_step_claimed_def begin_step_tx_def run_tx_def Let_def split_beta
        split: if_splits)
next
  case (Inr st)
  note tx = begin_step_tx_InrD [OF begin_step_InrD [OF assms [unfolded Inr]]]
  have "step_status oid k db' = step_status oid k
      (db\<lparr>operation_steps := snd (enter_step J oid key inp now (operation_steps db))\<rparr>)" for k
    using tx(2) by (simp add: step_status_def)
  then show ?thesis using Inr tx(1) by (simp add: enter_step_status)
qed

lemma complete_step_status:
  assumes "complete_step_claimed wid n oid key ref now db = (r, db')"
  shows "(\<exists>e. r = Inl e) \<and> db' = db \<or>
    r = Inr () \<and> (\<forall>k. step_status oid k db' = (if k = key then Some ''succeeded'' else step_status oid k db))"
proof -
  let ?P = "\<lambda>k s. st_operation_id s = oid \<and> st_step_key s = k"
  let ?f = "\<lambda>s. s\<lparr>st_status := ''succeeded'', st_updated_at := now,
    st_external_ref := (case ref of None \<Rightarrow> st_external_ref s | Some r \<Rightarrow> Some r)\<rparr>"
  show ?thesis
  proof (cases "complete_step_tx wid n oid key ref now db")
    case (Inl e)
    then show ?thesis using assms by (auto simp: complete_step_claimed_def)
  next
    case (Inr p)
    then have hit: "find_one (?P key) (operation_steps db) \<noteq> None"
      and p: "snd p = db\<lparr>operation_steps := fst (update_one (?P key) ?f (operation_steps db))\<rparr>"
      using update_one_count_find [of "?P key" ?f "operation_steps db"]
      by (auto simp: complete_step_tx_def Let_def split_beta split: if_splits option.splits)
    have same: "find_one (?P key) (operation_steps (snd p)) =
        map_option ?f (find_one (?P key) (operation_steps db))"
      unfolding p by (simp add: find_one_update_same)
    have other: "find_one (?P k) (operation_steps (snd p)) = find_one (?P k) (operation_steps db)"
      if "k \<noteq> key" for k
      unfolding p using that by (simp, subst find_one_update_other) auto
    have "r = Inr ()" "db' = snd p"
      using assms Inr by (cases p; simp add: complete_step_claimed_def)+
    then show ?thesis using same other hit by (auto simp: step_status_def)
  qed
qed

section \<open>Running a step\<close>

text \<open>The ways a step can end.\<close>

lemma run_step_cases:
  fixes db :: "'x journal_db_scheme"
  assumes "run_operation_step J g wid n oid key inp body db = (r, db')"
  obtains (refused) e where
      "begin_step_claimed J wid n oid key inp (sg_begin_now g) (sg_version g) db = (Inl e, db')"
      "r = Inl (LcOperation e)"
    | (skipped)
      "begin_step_claimed J wid n oid key inp (sg_begin_now g) (sg_version g) db = (Inr AlreadySucceeded, db')"
      "r = Inr ()"
    | (blocked)
      "begin_step_claimed J wid n oid key inp (sg_begin_now g) (sg_version g) db = (Inr NeedsReconciliation, db')"
      "r = Inl (StepNeedsReconciliation key)"
    | (lost) e where
      "begin_step_claimed J wid n oid key inp (sg_begin_now g) (sg_version g) db = (Inr StepRunning, db')"
      "r = Inl (LcOperation e)"
    | (failed) e db1 where
      "begin_step_claimed J wid n oid key inp (sg_begin_now g) (sg_version g) db = (Inr StepRunning, db1)"
      "body db1 = (Inl e, db')" "r = Inl e"
    | (unfinished) e db1 db2 where
      "begin_step_claimed J wid n oid key inp (sg_begin_now g) (sg_version g) db = (Inr StepRunning, db1)"
      "body db1 = (Inr (), db2)"
      "complete_step_claimed wid n oid key None (sg_complete_now g) db2 = (Inl e, db')"
      "r = Inl (LcOperation e)"
    | (finished) db1 db2 where
      "begin_step_claimed J wid n oid key inp (sg_begin_now g) (sg_version g) db = (Inr StepRunning, db1)"
      "body db1 = (Inr (), db2)"
      "complete_step_claimed wid n oid key None (sg_complete_now g) db2 = (Inr (), db')" "r = Inr ()"
proof -
  obtain b db1 where entered: "begin_step_claimed J wid n oid key inp (sg_begin_now g) (sg_version g) db =
      (b, db1)" by fastforce
  show thesis
  proof (cases b)
    case (Inl e)
    then show ?thesis using assms entered refused by (simp add: run_operation_step_def)
  next
    case (Inr st)
    show ?thesis
    proof (cases st)
      case AlreadySucceeded
      then show ?thesis using assms entered Inr skipped by (simp add: run_operation_step_def)
    next
      case NeedsReconciliation
      then show ?thesis using assms entered Inr blocked by (simp add: run_operation_step_def)
    next
      case StepRunning
      obtain a db2 where acted: "body db1 = (a, db2)" by fastforce
      obtain c db3 where completed:
        "complete_step_claimed wid n oid key None (sg_complete_now g) db2 = (c, db3)" by fastforce
      have run: "(r, db') = and_run (lift_err LcOperation (assert_claimed wid n (sg_assert_now g) db1, db1))
          (\<lambda>_ w. and_run (body w) (\<lambda>_ w. lift_err LcOperation
            (complete_step_claimed wid n oid key None (sg_complete_now g) w)))"
        using assms entered Inr StepRunning by (simp add: run_operation_step_def)
      show ?thesis
      proof (cases "assert_claimed wid n (sg_assert_now g) db1")
        case (Inl e)
        then show ?thesis using run lost [of e] entered Inr StepRunning \<open>b = Inr st\<close> by simp
      next
        case claimed: (Inr u)
        show ?thesis
        proof (cases a)
          case (Inl e)
          then show ?thesis using run claimed acted failed [of db1 e] entered \<open>b = Inr st\<close> StepRunning by simp
        next
          case acted_ok: (Inr v)
          show ?thesis
          proof (cases c)
            case (Inl e)
            then show ?thesis
              using run claimed acted acted_ok completed unfinished [of db1 db2 e] entered \<open>b = Inr st\<close>
                StepRunning by simp
          next
            case (Inr x)
            then show ?thesis
              using run claimed acted acted_ok completed finished [of db1 db2] entered \<open>b = Inr st\<close>
                StepRunning by simp
          qed
        qed
      qed
    qed
  qed
qed

text \<open>
  The statuses after a step: an error other than one of the journal leaves the step running, and
  success leaves it succeeded; the other steps of the operation keep theirs.
\<close>

lemma run_step_status:
  assumes live: "steps_live oid db" and keeps: "keeps_steps body"
    and run: "run_operation_step J g wid n oid key inp body db = (r, db')"
  shows "steps_live oid db'" "k \<noteq> key \<Longrightarrow> step_status oid k db' = step_status oid k db"
    "r = Inr () \<Longrightarrow> step_status oid key db' = Some ''succeeded''"
    "r = Inl e \<Longrightarrow> (\<nexists>x. e = LcOperation x) \<Longrightarrow> step_status oid key db' = Some ''running''"
proof -
  note state = enter_step_state [OF live, of J key inp "sg_begin_now g"]
  have status: "step_status oid key db \<in> {None, Some ''running'', Some ''succeeded''}"
    using live by (simp add: steps_live_def)
  have body: "step_status oid k' db2 = step_status oid k' db1" if "body db1 = (a, db2)" for k' a db1 db2
    using keeps [unfolded keeps_steps_def, rule_format, of db1] that by (simp add: step_status_def)
  have all: "(r = Inr () \<longrightarrow> step_status oid key db' = Some ''succeeded'') \<and>
      (\<forall>e. r = Inl e \<and> (\<nexists>x. e = LcOperation x) \<longrightarrow> step_status oid key db' = Some ''running'') \<and>
      step_status oid key db' \<in> {None, Some ''running'', Some ''succeeded''} \<and>
      (\<forall>k. k \<noteq> key \<longrightarrow> step_status oid k db' = step_status oid k db)"
    using run
  proof (cases rule: run_step_cases)
    case (refused e)
    then show ?thesis using begin_step_status [OF refused(1)] status by auto
  next
    case skipped
    then show ?thesis using begin_step_status [OF skipped(1)] state status
      by (auto split: option.splits if_splits)
  next
    case blocked
    then show ?thesis using begin_step_status [OF blocked(1)] state status
      by (auto split: option.splits if_splits)
  next
    case (lost e)
    then show ?thesis using begin_step_status [OF lost(1)] state status
      by (auto split: option.splits if_splits)
  next
    case (failed e db1)
    then show ?thesis using begin_step_status [OF failed(1)] state status body [OF failed(2)]
      by (auto split: option.splits if_splits)
  next
    case (unfinished e db1 db2)
    then show ?thesis
      using begin_step_status [OF unfinished(1)] state status body [OF unfinished(2)]
        complete_step_status [OF unfinished(3)] by (auto split: option.splits if_splits)
  next
    case (finished db1 db2)
    then show ?thesis
      using begin_step_status [OF finished(1)] state status body [OF finished(2)]
        complete_step_status [OF finished(3)] by (auto split: option.splits if_splits)
  qed
  show "r = Inr () \<Longrightarrow> step_status oid key db' = Some ''succeeded''"
    "r = Inl e \<Longrightarrow> (\<nexists>x. e = LcOperation x) \<Longrightarrow> step_status oid key db' = Some ''running''"
    "k \<noteq> key \<Longrightarrow> step_status oid k db' = step_status oid k db"
    using all by blast+
  show "steps_live oid db'"
    unfolding steps_live_def using all live by (metis steps_live_def)
qed


section \<open>Steps under a valid claim\<close>

definition claim_valid :: "int \<Rightarrow> string \<Rightarrow> string \<Rightarrow> string \<Rightarrow> 'x journal_db_scheme \<Rightarrow> bool" where
  "claim_valid now wid n oid db \<longleftrightarrow>
     (\<exists>w \<in> set (work_items db). holds_lease now wid n w) \<and> op_in_flight oid db"

lemma steps_liveI:
  assumes "journal_ok db" "op_in_flight oid db"
  shows "steps_live oid db"
proof -
  have "st_status s \<in> {''running'', ''succeeded''}"
    if "s \<in> set (operation_steps db)" "st_operation_id s = oid" for s
    using journal_okD(5) [OF assms(1) that(1)] that(2) assms(2)
    by (auto simp: step_ok_def op_in_flight_def)
  then show ?thesis
    by (fastforce simp: steps_live_def step_status_def map_option_case split: option.splits
        dest!: find_one_SomeD)
qed

lemma begin_step_valid:
  assumes "claim_valid now wid n oid db"
  obtains ops where "begin_step_claimed J wid n oid key inp now ver db =
      (Inr (fst (enter_step J oid key inp now (operation_steps db))),
       db\<lparr>operation_steps := snd (enter_step J oid key inp now (operation_steps db)), operations := ops\<rparr>)"
    "op_in_flight oid (db\<lparr>operations := ops\<rparr>)"
proof -
  let ?P = "\<lambda>r. op_id r = oid \<and> in_flight r"
  let ?f = "\<lambda>r. r\<lparr>op_status := ''running'', op_current_step := Some key, op_version := ver,
    op_updated_at := now\<rparr>"
  obtain ops n' where u: "update_one ?P ?f (operations db) = (ops, n')" by fastforce
  have hit: "n' \<noteq> 0"
    using u assms update_one_count [of ?P ?f "operations db"]
    by (auto simp: claim_valid_def op_in_flight_def split: if_splits)
  then obtain r where "?P r" "?f r \<in> set ops" using update_one_hit [of ?P ?f "operations db"] u by auto
  then have "op_in_flight oid (db\<lparr>operations := ops\<rparr>)"
    unfolding op_in_flight_def by (intro bexI [of _ "?f r"]) (simp_all add: in_flight_def)
  moreover have "find_one (holds_lease now wid n) (work_items db) \<noteq> None"
    using assms by (auto simp: claim_valid_def find_one_None_iff)
  ultimately show ?thesis
    using that [of ops] u hit
    by (auto simp: begin_step_claimed_def begin_step_tx_def run_tx_def Let_def split_beta)
qed

lemma run_begun_step:
  assumes live: "steps_live oid db" and claim: "claim_valid (sg_begin_now g) wid n oid db"
    and begun: "step_status oid key db = Some st"
  obtains ops where "\<And>body. run_operation_step J g wid n oid key inp body db =
      (if st = ''succeeded'' then Inr () else Inl (StepNeedsReconciliation key), db\<lparr>operations := ops\<rparr>)"
    "op_in_flight oid (db\<lparr>operations := ops\<rparr>)"
proof -
  have same: "snd (enter_step J oid key inp (sg_begin_now g) (operation_steps db)) = operation_steps db"
    using begun by (auto simp: enter_step_def step_status_def split: option.splits)
  have state: "fst (enter_step J oid key inp (sg_begin_now g) (operation_steps db)) =
      (if st = ''succeeded'' then AlreadySucceeded else NeedsReconciliation)"
    using enter_step_state [OF live] begun by simp
  obtain ops where "begin_step_claimed J wid n oid key inp (sg_begin_now g) (sg_version g) db =
      (Inr (fst (enter_step J oid key inp (sg_begin_now g) (operation_steps db))),
       db\<lparr>operation_steps := snd (enter_step J oid key inp (sg_begin_now g) (operation_steps db)),
          operations := ops\<rparr>)" "op_in_flight oid (db\<lparr>operations := ops\<rparr>)"
    by (rule begin_step_valid [OF claim])
  then show ?thesis
    using that [of ops] unfolding same state by (simp add: run_operation_step_def)
qed

text \<open>
  C28. Under a valid claim a durable step that was begun before never acts again: whatever action
  the handler passes, a completed step is answered with success and a step that was left running
  with the demand for reconciliation, and the store changes in the operation's row only.
\<close>

theorem begun_step_never_acts_again:
  assumes "journal_ok db" and "claim_valid (sg_begin_now g) wid n oid db"
    and "step_status oid key db = Some st"
  shows "\<exists>ops. \<forall>action. run_operation_step J g wid n oid key inp action db =
    (if st = ''succeeded'' then Inr () else Inl (StepNeedsReconciliation key), db\<lparr>operations := ops\<rparr>)"
proof -
  have "steps_live oid db" using assms(1,2) by (auto simp: claim_valid_def intro: steps_liveI)
  then obtain ops where "\<And>action. run_operation_step J g wid n oid key inp action db =
      (if st = ''succeeded'' then Inr () else Inl (StepNeedsReconciliation key), db\<lparr>operations := ops\<rparr>)"
    by (rule run_begun_step [OF _ assms(2,3)]) blast
  then show ?thesis by blast
qed

theorem begun_step_never_acts_again_witness:
  "\<exists>ops. \<forall>action. run_operation_step sample_serde \<lparr>sg_begin_now = 5, sg_version = ''v3'',
      sg_assert_now = 5, sg_complete_now = 5\<rparr> ''w1'' ''n'' ''1'' ''clone'' JNull action Journal_Properties.sample_running =
    (Inl (StepNeedsReconciliation ''clone''), Journal_Properties.sample_running\<lparr>operations := ops\<rparr>)"
proof -
  obtain r where "operations Journal_Properties.sample_running = [r]" "op_id r = ''1''" "op_status r = ''running''"
    using Journal_Properties.sample_running_eq(3,4) by (cases "operations Journal_Properties.sample_running") auto
  then have "claim_valid 5 ''w1'' ''n'' ''1'' Journal_Properties.sample_running"
    by (simp add: claim_valid_def op_in_flight_def in_flight_def Journal_Properties.sample_running_eq sample_claimed_eq
        holds_lease_def new_work_row_def)
  moreover have "step_status ''1'' ''clone'' Journal_Properties.sample_running = Some ''running''"
    by (simp add: step_status_def Journal_Properties.sample_running_eq enter_step_def)
  ultimately show ?thesis
    using begun_step_never_acts_again [OF Journal_Properties.sample_running_ok, of "\<lparr>sg_begin_now = 5, sg_version = ''v3'',
        sg_assert_now = 5, sg_complete_now = 5\<rparr>" "''w1''" "''n''" "''1''" "''clone''" "''running''" sample_serde JNull]
    by simp
qed


section \<open>Project deletion after a failure\<close>

text \<open>
  The runtime and file system calls of a project deletion act on processes and files: they do
  not write the journal's step records.
\<close>

definition calls_keep_steps ::
  "'x projects_db_scheme lifecycle_capabilities \<Rightarrow> 'x projects_db_scheme project_world \<Rightarrow> bool" where
  "calls_keep_steps C W \<longleftrightarrow>
     (\<forall>i. keeps_steps (lc_close_terminal C i) \<and> keeps_steps (lc_stop_runtime C i) \<and>
          keeps_steps (lc_delete_project_logs C i) \<and> keeps_steps (lc_delete_project_resources C i) \<and>
          keeps_steps (pw_remove_dir W i))"

lemma keeps_and_run:
  assumes "operation_steps (snd m) = steps" "\<And>a w. operation_steps w = steps \<Longrightarrow> operation_steps (snd (k a w)) = steps"
  shows "operation_steps (snd (and_run m k)) = steps"
  using assms by (auto simp: and_run_def split: sum.splits)

lemma run_each_keeps:
  assumes "\<And>x. keeps_steps (f x)"
  shows "keeps_steps (run_each f xs)"
  unfolding keeps_steps_def
proof
  show "operation_steps (snd (run_each f xs db)) = operation_steps db" for db
    using assms by (induction xs arbitrary: db) (auto simp: keeps_steps_def intro!: keeps_and_run)
qed

lemma keeps_stepsD: "keeps_steps f \<Longrightarrow> f w = (r, w') \<Longrightarrow> operation_steps w' = operation_steps w"
  by (metis keeps_steps_def snd_conv)

lemma run_delete_keeps:
  assumes "calls_keep_steps C W"
  shows "keeps_steps (run_delete W p)"
proof -
  have "keeps_steps (pw_remove_dir W i)" for i using assms by (simp add: calls_keep_steps_def)
  note remove = keeps_stepsD [OF this]
  have "operation_steps (snd (remove_main_workspace W p w)) = operation_steps w" for w
    using remove by (auto simp: remove_main_workspace_def split: prod.splits io_outcome.splits)
  then show ?thesis
    unfolding keeps_steps_def run_delete_def
    by (intro allI keeps_and_run) (auto simp: snd_lift_err)
qed

text \<open>Only the removal of the workspace reports an error of the projects capability.\<close>

lemma run_each_error:
  assumes "\<And>x w e. fst (f x w) = Inl e \<Longrightarrow> P e" "fst (run_each f xs w) = Inl e"
  shows "P e"
  using assms(2)
proof (induction xs arbitrary: w)
  case (Cons x xs)
  then show ?case using assms(1) [of x w e]
    by (cases "f x w") (auto simp: and_run_def split: sum.splits)
qed simp

lemma lift_runtime_error: "fst (lift_err LcRuntime m) = Inl e \<Longrightarrow> \<exists>x. e = LcRuntime x"
  by (cases "fst m") (auto simp: lift_err_def split_beta)

lemma and_run_error:
  assumes "fst (and_run m k) = Inl e"
  obtains "fst m = Inl e" | a where "fst m = Inr a" "fst (k a (snd m)) = Inl e"
  using assms by (cases m; cases "fst m") (auto simp: and_run_def)

lemma cleanup_error:
  assumes "fst (cleanup_project_terminals C p w) = Inl e"
  shows "\<exists>x. e = LcRuntime x"
proof -
  have each: "\<exists>x. e = LcRuntime x"
    if "fst (run_each (\<lambda>t w. if tp_status t = TermStarting \<or> tp_status t = TermRunning
            then lift_err LcRuntime (lc_close_terminal C (tp_id t) w) else (Inr (), w)) ts w) = Inl e"
    for ts w e
    using that by (rule run_each_error [rotated, where P = "\<lambda>e. \<exists>x. e = LcRuntime x"])
      (auto split: if_splits dest: lift_runtime_error)
  show ?thesis
    using assms unfolding cleanup_project_terminals_def
    by (elim and_run_error) (auto dest: each lift_runtime_error split: option.splits)
qed

lemma run_step_error:
  assumes "run_operation_step J g wid n oid key inp body db = (Inl e, db')"
    and "\<And>w e. fst (body w) = Inl e \<Longrightarrow> \<exists>x. e = LcRuntime x"
  shows "\<nexists>x. e = LcProjects x"
  using assms(1)
proof (cases rule: run_step_cases)
  case (failed e' db1)
  then show ?thesis using assms(2) [of db1 e'] by auto
qed auto

lemma cleanup_keeps:
  assumes "calls_keep_steps C W"
  shows "keeps_steps (cleanup_project_terminals C p)"
proof -
  define close where "close = (\<lambda>(t :: terminal_projection) w. if tp_status t = TermStarting \<or> tp_status t = TermRunning
      then lift_err LcRuntime (lc_close_terminal C (tp_id t) w) else (Inr (), w))"
  have "keeps_steps (close t)" for t
    using assms by (simp add: keeps_steps_def calls_keep_steps_def close_def snd_lift_err)
  note each = run_each_keeps [of close, OF this, unfolded keeps_steps_def, rule_format]
  have stop: "operation_steps (snd (lc_stop_runtime C i w)) = operation_steps w" for i w
    using assms by (simp add: keeps_steps_def calls_keep_steps_def)
  show ?thesis
    unfolding keeps_steps_def cleanup_project_terminals_def close_def [symmetric]
    by (intro allI keeps_and_run) (auto simp: each stop snd_lift_err split: option.splits)
qed

section \<open>The steps of a project deletion\<close>

abbreviation claim_covers ::
  "project_deletion_gen \<Rightarrow> string \<Rightarrow> string \<Rightarrow> string \<Rightarrow> 'x journal_db_scheme \<Rightarrow> bool" where
  "claim_covers g wid n oid db \<equiv>
     claim_valid (sg_begin_now (pd_terminals g)) wid n oid db \<and> claim_valid (sg_begin_now (pd_logs g)) wid n oid db \<and>
     claim_valid (sg_begin_now (pd_resources g)) wid n oid db \<and> claim_valid (sg_begin_now (pd_workspace g)) wid n oid db"

lemma project_step_key_eq [simp]: "project_step_key p a = project_step_key p b \<longleftrightarrow> a = b"
  by (simp add: project_step_key_def)

lemma lift_keeps: "keeps_steps f \<Longrightarrow> keeps_steps (\<lambda>w. lift_err h (f w))"
  by (simp add: keeps_steps_def snd_lift_err)

text \<open>A deletion that failed while it removed the workspace has completed the steps before.\<close>

lemma workspace_failure_steps:
  fixes db :: "'x projects_db_scheme"
  assumes live: "steps_live oid db" and keep: "calls_keep_steps C W"
    and run: "delete_project_steps J C W g pid p oid wid n db = (Inl (LcProjects e), db')"
  shows "steps_live oid db'" "step_status oid (project_step_key pid ''delete_workspace'') db' = Some ''running''"
    "k \<in> {''delete_terminals'', ''delete_runtime_logs'', ''delete_runtime_resources''} \<Longrightarrow>
      step_status oid (project_step_key pid k) db' = Some ''succeeded''"
proof -
  let ?inp = "JObj [(''project_id'', JStr pid)]"
  let ?step = "\<lambda>sg name body. run_operation_step J sg wid n oid (project_step_key pid name) ?inp body"
  have k1: "keeps_steps (cleanup_project_terminals C p)" by (rule cleanup_keeps [OF keep])
  have k2: "keeps_steps (\<lambda>w. lift_err LcRuntime (lc_delete_project_logs C p w))"
    and k3: "keeps_steps (\<lambda>w. lift_err LcRuntime (lc_delete_project_resources C p w))"
    using keep by (auto simp: calls_keep_steps_def intro: lift_keeps)
  have k4: "keeps_steps (\<lambda>w. lift_err LcProjects (run_delete W pid w))"
    by (intro lift_keeps run_delete_keeps [OF keep])
  obtain r1 d1 where s1: "?step (pd_terminals g) ''delete_terminals'' (cleanup_project_terminals C p) db = (r1, d1)"
    by fastforce
  obtain r2 d2 where s2: "?step (pd_logs g) ''delete_runtime_logs''
      (\<lambda>w. lift_err LcRuntime (lc_delete_project_logs C p w)) d1 = (r2, d2)" by fastforce
  obtain r3 d3 where s3: "?step (pd_resources g) ''delete_runtime_resources''
      (\<lambda>w. lift_err LcRuntime (lc_delete_project_resources C p w)) d2 = (r3, d3)" by fastforce
  note runs = run [unfolded delete_project_steps_def Let_def]
  have r1: "r1 = Inr ()"
    using runs s1 run_step_error [OF _ cleanup_error] by (cases r1) fastforce+
  have r2: "r2 = Inr ()"
    using runs s1 r1 s2 run_step_error [OF _ lift_runtime_error] by (cases r2) fastforce+
  have r3: "r3 = Inr ()"
    using runs s1 r1 s2 r2 s3 run_step_error [OF _ lift_runtime_error] by (cases r3) fastforce+
  have s4: "?step (pd_workspace g) ''delete_workspace''
      (\<lambda>w. lift_err LcProjects (run_delete W pid w)) d3 = (Inl (LcProjects e), db')"
    using runs s1 r1 s2 r2 s3 r3 by simp
  note st1 = run_step_status [OF live k1 s1]
  note st2 = run_step_status [OF st1(1) k2 s2]
  note st3 = run_step_status [OF st2(1) k3 s3]
  note st4 = run_step_status [OF st3(1) k4 s4]
  show "steps_live oid db'" by (rule st4(1))
  show "step_status oid (project_step_key pid ''delete_workspace'') db' = Some ''running''"
    by (rule st4(4)) auto
  show "k \<in> {''delete_terminals'', ''delete_runtime_logs'', ''delete_runtime_resources''} \<Longrightarrow>
      step_status oid (project_step_key pid k) db' = Some ''succeeded''"
    using st1(3) [OF r1] st2(3) [OF r2] st3(3) [OF r3] by (auto simp: st2(2) st3(2) st4(2))
qed

lemma claim_covers_operations:
  assumes "claim_covers g wid n oid db" "op_in_flight oid (db\<lparr>operations := ops\<rparr>)"
  shows "claim_covers g wid n oid (db\<lparr>operations := ops\<rparr>)"
  using assms by (simp add: claim_valid_def)

lemma steps_operations [simp]:
  "step_status oid k (db\<lparr>operations := ops\<rparr>) = step_status oid k db"
  "steps_live oid (db\<lparr>operations := ops\<rparr>) = steps_live oid db"
  by (simp_all add: step_status_def steps_live_def)

lemma run_begun_operations:
  fixes db :: "'x journal_db_scheme"
  assumes "steps_live oid db" "claim_covers g wid n oid (db\<lparr>operations := o1\<rparr>)"
    and "sg \<in> {pd_terminals g, pd_logs g, pd_resources g, pd_workspace g}"
    and "step_status oid key db = Some st"
  obtains o2 where "\<And>body. run_operation_step J sg wid n oid key inp body (db\<lparr>operations := o1\<rparr>) =
      (if st = ''succeeded'' then Inr () else Inl (StepNeedsReconciliation key), db\<lparr>operations := o2\<rparr>)"
    "claim_covers g wid n oid (db\<lparr>operations := o2\<rparr>)"
proof -
  have claim: "claim_valid (sg_begin_now sg) wid n oid (db\<lparr>operations := o1\<rparr>)" using assms(2,3) by auto
  have "steps_live oid (db\<lparr>operations := o1\<rparr>)" "step_status oid key (db\<lparr>operations := o1\<rparr>) = Some st"
    using assms(1,4) by simp_all
  then obtain o2 where "\<And>body. run_operation_step J sg wid n oid key inp body (db\<lparr>operations := o1\<rparr>) =
      (if st = ''succeeded'' then Inr () else Inl (StepNeedsReconciliation key),
       db\<lparr>operations := o1\<rparr>\<lparr>operations := o2\<rparr>)" "op_in_flight oid (db\<lparr>operations := o1\<rparr>\<lparr>operations := o2\<rparr>)"
    using run_begun_step [OF _ claim] by metis
  then show ?thesis using that [of o2] claim_covers_operations [OF assms(2), of o2] by simp
qed

text \<open>A deletion whose first three steps are completed resumes with the removal of the workspace.\<close>

lemma deletion_resumes_at_workspace:
  fixes db :: "'x projects_db_scheme"
  assumes live: "steps_live oid db" and c0: "claim_covers g wid n oid db"
    and finished: "\<And>k. k \<in> {''delete_terminals'', ''delete_runtime_logs'', ''delete_runtime_resources''} \<Longrightarrow>
      step_status oid (project_step_key pid k) db = Some ''succeeded''"
  obtains ops where "delete_project_steps J C W g pid p oid wid n db =
      run_operation_step J (pd_workspace g) wid n oid (project_step_key pid ''delete_workspace'')
        (JObj [(''project_id'', JStr pid)]) (\<lambda>w. lift_err LcProjects (run_delete W pid w)) (db\<lparr>operations := ops\<rparr>)"
    "claim_covers g wid n oid (db\<lparr>operations := ops\<rparr>)"
proof -
  let ?k = "project_step_key pid" and ?inp = "JObj [(''project_id'', JStr pid)]"
  have c0: "claim_covers g wid n oid (db\<lparr>operations := operations db\<rparr>)" using c0 by simp
  obtain o1 where r1: "\<And>body. run_operation_step J (pd_terminals g) wid n oid (?k ''delete_terminals'') ?inp
        body db = (Inr (), db\<lparr>operations := o1\<rparr>)"
      and c1: "claim_covers g wid n oid (db\<lparr>operations := o1\<rparr>)"
    using run_begun_operations [OF live c0, of "pd_terminals g" "?k ''delete_terminals''" "''succeeded''" J ?inp]
      finished by auto
  obtain o2 where r2: "\<And>body. run_operation_step J (pd_logs g) wid n oid (?k ''delete_runtime_logs'') ?inp
        body (db\<lparr>operations := o1\<rparr>) = (Inr (), db\<lparr>operations := o2\<rparr>)"
      and c2: "claim_covers g wid n oid (db\<lparr>operations := o2\<rparr>)"
    using run_begun_operations [OF live c1, of "pd_logs g" "?k ''delete_runtime_logs''" "''succeeded''" J ?inp]
      finished by auto
  obtain o3 where r3: "\<And>body. run_operation_step J (pd_resources g) wid n oid
        (?k ''delete_runtime_resources'') ?inp body (db\<lparr>operations := o2\<rparr>) = (Inr (), db\<lparr>operations := o3\<rparr>)"
      and c3: "claim_covers g wid n oid (db\<lparr>operations := o3\<rparr>)"
    using run_begun_operations [OF live c2, of "pd_resources g" "?k ''delete_runtime_resources''"
        "''succeeded''" J ?inp] finished by auto
  show ?thesis by (rule that [OF _ c3]) (simp add: delete_project_steps_def Let_def r1 r2 r3)
qed

text \<open>
  A project deletion that failed on the removal of its workspace never resumes. The first run
  reports an error of the projects capability, which only the last step can, and its step records
  are those any later run finds. Every retry of the operation, under a valid claim and with
  whatever behaviour of the runtime and the file system, completes nothing: the three finished
  steps are skipped and the last one is answered with the demand for reconciliation before the
  removal is tried, although \<open>run_delete\<close> keeps the project in \<open>deleting\<close> so that the operation can
  be retried.
\<close>

theorem project_deletion_never_resumes:
  fixes db :: "'x projects_db_scheme"
  assumes "steps_live oid db" and "calls_keep_steps C W"
    and "delete_project_steps J C W g pid p oid wid n db = (Inl (LcProjects e), db1)"
    and "operation_steps db2 = operation_steps db1" and "claim_covers g' wid' n' oid db2"
  shows "\<exists>ops. delete_project_steps J C' W' g' pid p oid wid' n' db2 =
    (Inl (StepNeedsReconciliation (project_step_key pid ''delete_workspace'')), db2\<lparr>operations := ops\<rparr>)"
proof -
  note first = workspace_failure_steps [OF assms(1-3)]
  have st: "step_status oid k db2 = step_status oid k db1" for k
    using assms(4) by (simp add: step_status_def)
  have live: "steps_live oid db2" using first(1) st by (simp add: steps_live_def)
  obtain o3 where resumed: "delete_project_steps J C' W' g' pid p oid wid' n' db2 =
      run_operation_step J (pd_workspace g') wid' n' oid (project_step_key pid ''delete_workspace'')
        (JObj [(''project_id'', JStr pid)]) (\<lambda>w. lift_err LcProjects (run_delete W' pid w)) (db2\<lparr>operations := o3\<rparr>)"
    and c3: "claim_covers g' wid' n' oid (db2\<lparr>operations := o3\<rparr>)"
    using deletion_resumes_at_workspace [OF live assms(5), of pid J C' W' p] first(3) st by metis
  have "step_status oid (project_step_key pid ''delete_workspace'') db2 = Some ''running''" using first(2) st by simp
  then show ?thesis
    using run_begun_operations [OF live c3, of "pd_workspace g'" "project_step_key pid ''delete_workspace''"
        "''running''" J "JObj [(''project_id'', JStr pid)]"] by (auto simp: resumed)
qed

text \<open>A step that was not begun acts, and reports the error of its action.\<close>

lemma run_failing_step:
  fixes db :: "'x journal_db_scheme"
  assumes "claim_valid (sg_begin_now sg) wid n oid db" "claim_valid (sg_assert_now sg) wid n oid db"
    and "step_status oid key db = None"
    and "\<And>ss ops. fst (body (db\<lparr>operation_steps := ss, operations := ops\<rparr>)) = Inl e"
  shows "fst (run_operation_step J sg wid n oid key inp body db) = Inl e"
proof -
  let ?ss = "snd (enter_step J oid key inp (sg_begin_now sg) (operation_steps db))"
  obtain ops where entered: "begin_step_claimed J wid n oid key inp (sg_begin_now sg) (sg_version sg) db =
      (Inr (fst (enter_step J oid key inp (sg_begin_now sg) (operation_steps db))),
       db\<lparr>operation_steps := ?ss, operations := ops\<rparr>)"
    by (rule begin_step_valid [OF assms(1)])
  have running: "fst (enter_step J oid key inp (sg_begin_now sg) (operation_steps db)) = StepRunning"
    using assms(3) by (simp add: enter_step_def step_status_def)
  have asserted: "assert_claimed wid n (sg_assert_now sg) (db\<lparr>operation_steps := ?ss, operations := ops\<rparr>) = Inr ()"
    using assms(2) by (auto simp: assert_claimed_def claim_valid_def find_one_None_iff)
  obtain r db' where body: "body (db\<lparr>operation_steps := ?ss, operations := ops\<rparr>) = (r, db')" by fastforce
  then have "r = Inl e" using assms(4) by (metis fst_conv)
  then show ?thesis using body by (simp add: run_operation_step_def entered running asserted)
qed

text \<open>A project in \<open>deleting\<close> whose operation is claimed by a worker.\<close>

definition deleting_project :: project_row where
  "deleting_project = \<lparr>pj_id = ''p'', pj_owner_id = ''o'', pj_name = ''P'', pj_state = ''deleting'',
     pj_repo_access = ''public'', pj_repo_url = ''u'', pj_repo_branch = None, pj_github_credential_id = None,
     pj_default_model_id = None, pj_main_workspace_handle = None, pj_clone_error = None, pj_version = ''v'',
     pj_created_at = 0, pj_updated_at = 0, pj_last_activity_at = 0\<rparr>"

definition deletion_operation :: operation_row where
  "deletion_operation = \<lparr>op_id = ''op'', op_kind = ''project.delete'', op_actor_json = ''null'',
     op_target_kind = ''project'', op_target_id = Some ''p'', op_status = ''running'', op_conditions_json = ''null'',
     op_current_step = None, op_progress_json = None, op_result_json = None, op_problem_json = None,
     op_correlation_id = ''c'', op_version = ''v'', op_created_at = 0, op_updated_at = 0\<rparr>"

definition deletion_work :: work_row where
  "deletion_work = \<lparr>wi_id = ''w'', wi_handler_kind = ''project.delete'', wi_payload_json = ''null'', wi_not_before = 0,
     wi_attempts = 1, wi_dead = False, wi_created_at = 0, wi_lease_nonce = Some ''n'',
     wi_lease_expires_at = Some 9\<rparr>"

definition finished_step :: "string \<Rightarrow> step_row" where
  "finished_step name = \<lparr>st_operation_id = ''op'', st_step_key = project_step_key ''p'' name, st_attempts = 1,
     st_status = ''succeeded'', st_input_summary = ''null'', st_external_ref = None, st_compensation_json = None,
     st_created_at = 0, st_updated_at = 0\<rparr>"

definition deleting_db :: projects_db where
  "deleting_db = \<lparr>public_events = [], event_seq = Some 0, projection_cursor_row = None,
     operations = [deletion_operation],
     operation_steps = map finished_step [''delete_terminals'', ''delete_runtime_logs'', ''delete_runtime_resources''],
     work_items = [deletion_work],
     idempotency_records = [], command_idempotency_records = [], sessions = [], turns = [], messages = [],
     timeline_items = [], checkpoints = [], attachments = [], message_attachments = [], uploads = [],
     projects = [deleting_project], memories = [], github_credentials = []\<rparr>"

definition idle_capabilities :: "'w lifecycle_capabilities" where
  "idle_capabilities = \<lparr>lc_round_ids = (\<lambda>_ _. Inr []), lc_delete_runtime = (\<lambda>_ w. Inr w),
     lc_delete_execution = (\<lambda>_ _ w. Inr w), lc_delete_attempts = (\<lambda>_ w. Inr w),
     lc_drop_blobs = (\<lambda>_ w. w), lc_async_tasks = (\<lambda>_ _. Inr []), lc_cancel_async_task = (\<lambda>_ w. (Inr (), w)),
     lc_delete_session_logs = (\<lambda>_ w. (Inr (), w)), lc_list_terminals = (\<lambda>_ _. Inr []),
     lc_close_terminal = (\<lambda>_ w. (Inr (), w)), lc_current_runtime = (\<lambda>_ _. Inr None),
     lc_stop_runtime = (\<lambda>_ w. (Inr (), w)), lc_delete_project_logs = (\<lambda>_ w. (Inr (), w)),
     lc_delete_project_resources = (\<lambda>_ w. (Inr (), w))\<rparr>"

text \<open>A file system whose removal of a directory ends with the given outcome.\<close>

definition disk :: "io_outcome \<Rightarrow> 'w project_world" where
  "disk out = \<lparr>pw_remove_dir = (\<lambda>_ w. (out, w)), pw_lock = (\<lambda>_ _. Inr ()),
     pw_ensure_main_copy = (\<lambda>_ _ _ w. (Inr (), w)), pw_current_revision = (\<lambda>_ _. None),
     pw_git_projection = (\<lambda>_ _. (None, None))\<rparr>"

definition deletion_steps :: project_deletion_gen where
  "deletion_steps = (let sg = \<lparr>sg_begin_now = 5, sg_version = ''v5'', sg_assert_now = 5, sg_complete_now = 5\<rparr>
     in \<lparr>pd_session = (\<lambda>_. \<lparr>dg_mark = sg, dg_stop = sg, dg_logs = sg, dg_records = sg, dg_mark_now = 5,
       dg_mark_version = ''v6'', dg_mark_event = (''e1'', 5), dg_delete_event = (''e2'', 5)\<rparr>),
        pd_terminals = sg, pd_logs = sg, pd_resources = sg, pd_workspace = sg\<rparr>)"

lemma deleting_db_claim: "claim_covers deletion_steps ''w'' ''n'' ''op'' (deleting_db\<lparr>operation_steps := ss\<rparr>)"
  by (simp add: claim_valid_def op_in_flight_def in_flight_def holds_lease_def deleting_db_def
      deletion_steps_def deletion_work_def deletion_operation_def Let_def)

lemma deleting_db_steps:
  "steps_live ''op'' deleting_db"
  "k \<in> {''delete_terminals'', ''delete_runtime_logs'', ''delete_runtime_resources''} \<Longrightarrow>
    step_status ''op'' (project_step_key ''p'' k) deleting_db = Some ''succeeded''"
  "step_status ''op'' (project_step_key ''p'' ''delete_workspace'') deleting_db = None"
  by (auto simp: steps_live_def step_status_def deleting_db_def finished_step_def)

lemma deletion_fails:
  "fst (delete_project_steps sample_serde idle_capabilities (disk IoOther) deletion_steps ''p'' ''p'' ''op'' ''w'' ''n''
     deleting_db) = Inl (LcProjects PrIo)"
proof -
  obtain ops where resumed: "delete_project_steps sample_serde idle_capabilities (disk IoOther) deletion_steps ''p'' ''p''
      ''op'' ''w'' ''n'' deleting_db = run_operation_step sample_serde (pd_workspace deletion_steps) ''w'' ''n'' ''op''
        (project_step_key ''p'' ''delete_workspace'') (JObj [(''project_id'', JStr ''p'')])
        (\<lambda>w. lift_err LcProjects (run_delete (disk IoOther) ''p'' w)) (deleting_db\<lparr>operations := ops\<rparr>)"
    and covers: "claim_covers deletion_steps ''w'' ''n'' ''op'' (deleting_db\<lparr>operations := ops\<rparr>)"
    by (rule deletion_resumes_at_workspace [OF deleting_db_steps(1) deleting_db_claim
          [of "operation_steps deleting_db", simplified] deleting_db_steps(2)])
  have "fst (run_operation_step sample_serde (pd_workspace deletion_steps) ''w'' ''n'' ''op''
        (project_step_key ''p'' ''delete_workspace'') (JObj [(''project_id'', JStr ''p'')])
        (\<lambda>w. lift_err LcProjects (run_delete (disk IoOther) ''p'' w)) (deleting_db\<lparr>operations := ops\<rparr>)) =
      Inl (LcProjects PrIo)"
  proof (rule run_failing_step)
    show "step_status ''op'' (project_step_key ''p'' ''delete_workspace'') (deleting_db\<lparr>operations := ops\<rparr>) = None"
      using deleting_db_steps(3) by simp
  qed (use covers in \<open>simp_all add: run_delete_def remove_main_workspace_def disk_def Project_Store.owner_id_def
          deleting_db_def deleting_project_def deletion_steps_def Let_def\<close>)
  then show ?thesis using resumed by simp
qed

theorem project_deletion_never_resumes_witness:
  "\<exists>ss ops. delete_project_steps sample_serde idle_capabilities (disk IoDone) deletion_steps ''p'' ''p'' ''op''
      ''w'' ''n'' (deleting_db\<lparr>operation_steps := ss\<rparr>) =
    (Inl (StepNeedsReconciliation ''project:p:delete_workspace''),
     deleting_db\<lparr>operation_steps := ss, operations := ops\<rparr>)"
proof -
  obtain db1 where first: "delete_project_steps sample_serde idle_capabilities (disk IoOther) deletion_steps ''p''
      ''p'' ''op'' ''w'' ''n'' deleting_db = (Inl (LcProjects PrIo), db1)"
    using deletion_fails by (metis prod.collapse)
  note deleting_db_steps(1)
  moreover have "calls_keep_steps idle_capabilities (disk IoOther)"
    by (simp add: calls_keep_steps_def keeps_steps_def idle_capabilities_def disk_def)
  ultimately have "\<exists>ops. delete_project_steps sample_serde idle_capabilities (disk IoDone) deletion_steps ''p'' ''p''
      ''op'' ''w'' ''n'' (deleting_db\<lparr>operation_steps := operation_steps db1\<rparr>) =
    (Inl (StepNeedsReconciliation (project_step_key ''p'' ''delete_workspace'')),
     deleting_db\<lparr>operation_steps := operation_steps db1, operations := ops\<rparr>)"
    by (rule project_deletion_never_resumes [OF _ _ first _ deleting_db_claim]) simp
  then show ?thesis by (auto simp: project_step_key_def)
qed

end

