(* ===== verification/Project_Properties.thy ===== *)
theory Project_Properties
  imports Project_Clone
begin

text \<open>
  Properties of the projects capability and of the clone worker: stored tokens come back
  unchanged, a rotated automation token is refused, and a clone that failed on Git cannot be
  retried by the queue.
\<close>

section \<open>Frames\<close>

lemma project_event_frame:
  assumes "append_project_changed_in_tx J ev owner i kind op c db = Inr db'"
  shows "projects db' = projects db" "github_credentials db' = github_credentials db"
    "memories db' = memories db"
  using assms by (auto simp: append_project_changed_in_tx_def append_in_tx_def Let_def
      split: sum.splits if_splits option.splits)

lemma change_project_commit:
  assumes "change_project_tx J ev owner i op c refused P f db = Inr ((), db')"
  shows "projects db' = fst (update_one P f (projects db))" "find_one P (projects db) \<noteq> None"
    "github_credentials db' = github_credentials db"
  using assms update_one_count_find [of P f "projects db"]
  by (auto simp: change_project_tx_def and_then_def Let_def split_beta
      split: if_splits sum.splits option.splits dest: project_event_frame)

lemma change_credentials_commit:
  assumes "change_credentials_tx J g owner i op c written db = Inr ((), db')"
  shows "github_credentials db' = fst written" "credentials_indexed (fst written)"
    "projects db' = projects db"
  using assms by (auto simp: change_credentials_tx_def and_then_def
      split: if_splits sum.splits dest: project_event_frame)

section \<open>Stored tokens\<close>

text \<open>What the vault's envelope encryption promises: a ciphertext opens under its own context.\<close>

definition cipher_sound :: "secret_cipher \<Rightarrow> bool" where
  "cipher_sound K \<longleftrightarrow> (\<forall>v aad c. sc_encrypt K v aad = Inr c \<longrightarrow> sc_decrypt K c aad = Inr v)"

lemma find_credential:
  assumes "distinct (map gc_id cs)" "c \<in> set cs" "gc_id c = i" "gc_owner_id c = owner"
  shows "find_one (\<lambda>c. gc_id c = i \<and> gc_owner_id c = owner) cs = Some c"
  using assms by (induction cs) auto

lemma project_event_accepted:
  assumes "log_dense db" "log_accepts (fst ev) db"
  shows "\<exists>db'. append_project_changed_in_tx J ev owner i kind op c db = Inr db'"
proof -
  let ?ev = "\<lparr>ne_type = ProjectChanged, ne_actor = resource_json ''owner'' owner,
      ne_resource = Some (resource_json kind i), ne_correlation_id = c, ne_causation_id = None,
      ne_payload = JObj [(''operation'', JStr op)]\<rparr>"
  obtain env db' where "append_in_tx J (fst ev) (snd ev) ?ev db = Inr (env, db')"
    using append_accepted [OF assms] by blast
  then show ?thesis by (simp add: append_project_changed_in_tx_def)
qed

lemma create_credential_succeeds:
  assumes "log_dense db" "log_accepts (fst (xg_event g)) db" and "str_trim (gi_name input) \<noteq> []"
    and "encrypt_pat K owner (xg_id g) (gi_pat input) = Inr (ct, fp)"
    and "credentials_indexed (github_credentials db)" "xg_id g \<notin> gc_id ` set (github_credentials db)"
    and "(owner, str_trim (gi_name input)) \<notin> (\<lambda>c. (gc_owner_id c, gc_name c)) ` set (github_credentials db)"
  shows "\<exists>view db'. create_credential J K g owner input corr db = (Inr view, db')"
proof -
  let ?row = "\<lparr>gc_id = xg_id g, gc_owner_id = owner, gc_name = str_trim (gi_name input),
        gc_github_host = str_trim (gi_github_host input), gc_pat_ciphertext = ct,
        gc_pat_fingerprint = fp, gc_automation_enabled = gi_automation_enabled input,
        gc_version = version_tag (xg_version g), gc_created_at = xg_now g, gc_updated_at = xg_now g\<rparr>"
  let ?cs = "github_credentials db @ [?row]"
  have idx: "credentials_indexed ?cs" using assms(5-7) by (auto simp: credentials_indexed_def)
  have logs: "log_dense (db\<lparr>github_credentials := ?cs\<rparr>)"
    "log_accepts (fst (xg_event g)) (db\<lparr>github_credentials := ?cs\<rparr>)"
    using assms(1,2) by (simp_all add: log_dense_def log_accepts_def)
  obtain db' where app: "append_project_changed_in_tx J (xg_event g) owner (xg_id g) ''github_credential'' ''created''
      corr (db\<lparr>github_credentials := ?cs\<rparr>) = Inr db'"
    using project_event_accepted [OF logs] by blast
  have rows: "github_credentials db' = ?cs" using project_event_frame(2) [OF app] by simp
  have "find_one (\<lambda>c. gc_id c = xg_id g \<and> gc_owner_id c = owner) (github_credentials db') = Some ?row"
    unfolding rows by (rule find_credential) (use idx in \<open>auto simp: credentials_indexed_def\<close>)
  then show ?thesis
    using assms(3,4) idx app
    by (simp add: create_credential_def change_credentials_tx_def run_tx_def get_credential_def fetch_credential_def)
qed

lemma create_credential_InrD:
  assumes "create_credential J K g owner input corr db = (Inr view, db')"
  obtains ct fp where "encrypt_pat K owner (xg_id g) (gi_pat input) = Inr (ct, fp)"
    "cv_id view = xg_id g" "credentials_indexed (github_credentials db')"
    "github_credentials db' = github_credentials db @
      [\<lparr>gc_id = xg_id g, gc_owner_id = owner, gc_name = str_trim (gi_name input),
        gc_github_host = str_trim (gi_github_host input), gc_pat_ciphertext = ct,
        gc_pat_fingerprint = fp, gc_automation_enabled = gi_automation_enabled input,
        gc_version = version_tag (xg_version g), gc_created_at = xg_now g, gc_updated_at = xg_now g\<rparr>]"
proof -
  obtain ct fp where enc: "encrypt_pat K owner (xg_id g) (gi_pat input) = Inr (ct, fp)"
    using assms by (auto simp: create_credential_def and_run_def split: if_splits sum.splits)
  let ?row = "\<lparr>gc_id = xg_id g, gc_owner_id = owner, gc_name = str_trim (gi_name input),
        gc_github_host = str_trim (gi_github_host input), gc_pat_ciphertext = ct,
        gc_pat_fingerprint = fp, gc_automation_enabled = gi_automation_enabled input,
        gc_version = version_tag (xg_version g), gc_created_at = xg_now g, gc_updated_at = xg_now g\<rparr>"
  have tx: "change_credentials_tx J g owner (xg_id g) ''created'' corr (github_credentials db @ [?row], 1) db =
      Inr ((), db')" and view: "get_credential owner (xg_id g) db' = Inr view"
    using assms enc by (auto simp: create_credential_def and_run_def run_tx_def split: if_splits sum.splits)
  note commit = change_credentials_commit [OF tx]
  have "gc_id c = xg_id g" if "fetch_credential owner (xg_id g) db' = Inr c" for c
    using that by (auto simp: fetch_credential_def ok_or_def split: option.splits dest: find_one_SomeD)
  then have "cv_id view = xg_id g"
    using view by (auto simp: get_credential_def and_then_def credential_view_of_def split: sum.splits)
  then show ?thesis using that [OF enc] commit by simp
qed

text \<open>
  C37. A stored token comes back unchanged: after a credential was created with a token that is not
  blank, under a cipher whose ciphertexts open in their own context, both readers of the token, the
  projects capability's and source control's, return exactly the bytes that were stored, whatever
  other credentials the owner has.
\<close>

theorem pat_roundtrip:
  assumes "cipher_sound K"
    and "create_credential J K g owner input corr db = (Inr view, db')"
    and "gi_pat input = Some pat" and "str_trim pat \<noteq> []"
  shows "pat_for K owner (cv_id view) db' = Inr (Some pat) \<and>
    sc_pat_for K owner (cv_id view) db' = Inr (Some pat)"
  using assms(2)
proof (rule create_credential_InrD)
  fix ct fp
  assume enc: "encrypt_pat K owner (xg_id g) (gi_pat input) = Inr (ct, fp)"
    and vid: "cv_id view = xg_id g" and idx: "credentials_indexed (github_credentials db')"
    and rows: "github_credentials db' = github_credentials db @
      [\<lparr>gc_id = xg_id g, gc_owner_id = owner, gc_name = str_trim (gi_name input),
        gc_github_host = str_trim (gi_github_host input), gc_pat_ciphertext = ct,
        gc_pat_fingerprint = fp, gc_automation_enabled = gi_automation_enabled input,
        gc_version = version_tag (xg_version g), gc_created_at = xg_now g, gc_updated_at = xg_now g\<rparr>]"
      (is "_ = _ @ [?row]")
  have found: "find_one (\<lambda>c. gc_id c = xg_id g \<and> gc_owner_id c = owner) (github_credentials db') = Some ?row"
    by (rule find_credential) (use idx rows in \<open>auto simp: credentials_indexed_def\<close>)
  obtain c where ct: "ct = Some c" and "sc_encrypt K pat (pat_aad owner (xg_id g)) = Inr c"
    using enc assms(3,4) by (auto simp: encrypt_pat_def and_then_def split: sum.splits)
  then have "sc_decrypt K c (pat_aad owner (xg_id g)) = Inr pat" using assms(1) by (auto simp: cipher_sound_def)
  then show ?thesis
    by (simp add: pat_for_def sc_pat_for_def fetch_credential_def found vid ct)
qed

text \<open>A cipher that prefixes the context, and an empty store.\<close>

definition sample_cipher :: secret_cipher where
  "sample_cipher = \<lparr>sc_encrypt = (\<lambda>v aad. Inr (aad @ v)),
     sc_decrypt = (\<lambda>c aad. Inr (drop (length aad) c)), sc_fingerprint = (\<lambda>v. take 4 v)\<rparr>"

definition empty_projects :: projects_db where
  "empty_projects = \<lparr>public_events = [], event_seq = Some 0, projection_cursor_row = None, operations = [],
     operation_steps = [], work_items = [], idempotency_records = [], command_idempotency_records = [],
     sessions = [], turns = [], messages = [], timeline_items = [], checkpoints = [], attachments = [],
     message_attachments = [], uploads = [], projects = [], memories = [], github_credentials = []\<rparr>"

definition sample_credential_gen :: credential_gen where
  "sample_credential_gen = \<lparr>xg_id = ''c1'', xg_now = 7, xg_version = ''x'', xg_event = (''e1'', 7)\<rparr>"

definition sample_input :: credential_input where
  "sample_input = \<lparr>gi_name = ''work'', gi_github_host = ''github.com'', gi_pat = Some ''secret'',
     gi_automation_enabled = True\<rparr>"

lemma credential_trims:
  "str_trim ''work'' = ''work''" "str_trim ''github.com'' = ''github.com''" "str_trim ''secret'' = ''secret''"
  "str_trim AUTOMATION_NAME = AUTOMATION_NAME" "str_trim ''rotated'' = ''rotated''"
  by code_simp+

lemma sample_credential_created:
  "\<exists>view db. create_credential sample_serde sample_cipher sample_credential_gen ''o'' sample_input ''k''
     empty_projects = (Inr view, db)"
  by (rule create_credential_succeeds)
    (simp_all add: sample_input_def sample_cipher_def credential_trims encrypt_pat_def log_dense_def log_accepts_def
      empty_projects_def credentials_indexed_def)

theorem pat_roundtrip_witness:
  "\<exists>view db. create_credential sample_serde sample_cipher sample_credential_gen ''o'' sample_input ''k''
      empty_projects = (Inr view, db) \<and>
    pat_for sample_cipher ''o'' (cv_id view) db = Inr (Some ''secret'') \<and>
    sc_pat_for sample_cipher ''o'' (cv_id view) db = Inr (Some ''secret'')"
proof -
  obtain view db where made: "create_credential sample_serde sample_cipher sample_credential_gen ''o'' sample_input
      ''k'' empty_projects = (Inr view, db)" using sample_credential_created by blast
  have "cipher_sound sample_cipher" by (auto simp: cipher_sound_def sample_cipher_def)
  moreover have "gi_pat sample_input = Some ''secret''" "str_trim ''secret'' \<noteq> []"
    by (simp_all add: sample_input_def credential_trims)
  ultimately show ?thesis using made pat_roundtrip [OF _ made, of "''secret''"] by blast
qed

section \<open>Rotating the automation token\<close>

text \<open>
  A rotated automation token is always refused: once the owner has a credential of the
  automation's fixed name, a token whose fingerprint or host differs from every stored one is not
  stored, because the unique index on owner and name rejects the new credential, and the lookup
  for the winner of a supposed race repeats the lookup that just found nothing. The caller sees an
  internal error and the store does not change.
\<close>

theorem rotated_automation_token_refused:
  assumes "c \<in> set (github_credentials db)" "gc_owner_id c = owner" "gc_name c = AUTOMATION_NAME"
    and "str_trim raw \<noteq> []"
    and "find_automation owner (str_trim host) (sc_fingerprint K (str_trim raw)) db = None"
    and "sc_encrypt K (str_trim raw) (pat_aad owner (xg_id g)) = Inr ct"
  shows "ensure_automation_credential J K ge g owner host raw corr db =
    (Inl (PrInternal ''automation credential disappeared after duplicate create''), db)"
proof -
  let ?input = "\<lparr>gi_name = AUTOMATION_NAME, gi_github_host = str_trim host, gi_pat = Some (str_trim raw),
     gi_automation_enabled = True\<rparr>"
  have name: "str_trim AUTOMATION_NAME = AUTOMATION_NAME" "AUTOMATION_NAME \<noteq> []"
    by (simp_all add: credential_trims) (simp add: AUTOMATION_NAME_def)
  have clash: "\<not> credentials_indexed (github_credentials db @ [r])"
    if "gc_owner_id r = owner" "gc_name r = AUTOMATION_NAME" for r
    using assms(1-3) that by (force simp: credentials_indexed_def)
  have "create_credential J K g owner ?input corr db = (Inl (PrStorage DuplicateKey), db)"
    using assms(4,6) by (simp add: create_credential_def encrypt_pat_def name change_credentials_tx_def clash)
  then show ?thesis using assms(4,5) by (simp add: ensure_automation_credential_def Let_def)
qed

definition automation_row :: credential_row where
  "automation_row = \<lparr>gc_id = ''c0'', gc_owner_id = ''o'', gc_name = AUTOMATION_NAME,
     gc_github_host = ''github.com'', gc_pat_ciphertext = Some ''x'', gc_pat_fingerprint = Some ''secr'',
     gc_automation_enabled = True, gc_version = ''v'', gc_created_at = 1, gc_updated_at = 1\<rparr>"

theorem rotated_automation_token_refused_witness:
  "ensure_automation_credential sample_serde sample_cipher sample_credential_gen sample_credential_gen ''o''
      ''github.com'' ''rotated'' ''k'' (empty_projects\<lparr>github_credentials := [automation_row]\<rparr>) =
    (Inl (PrInternal ''automation credential disappeared after duplicate create''),
     empty_projects\<lparr>github_credentials := [automation_row]\<rparr>)"
proof (rule rotated_automation_token_refused)
  show "automation_row \<in> set (github_credentials (empty_projects\<lparr>github_credentials := [automation_row]\<rparr>))"
    by simp
  show "find_automation ''o'' (str_trim ''github.com'') (sc_fingerprint sample_cipher (str_trim ''rotated''))
      (empty_projects\<lparr>github_credentials := [automation_row]\<rparr>) = None"
    by (simp add: find_automation_def find_last_by_None_iff automation_row_def credential_trims sample_cipher_def)
qed (simp_all add: automation_row_def credential_trims sample_cipher_def)

section \<open>Clone failures\<close>

lemma find_one_update_first:
  assumes "find_one P c = Some r" "\<And>x. Q x \<longleftrightarrow> P x \<and> k x = k r" "\<And>x. P x \<Longrightarrow> P (f x)" "k (f r) = k r"
  shows "find_one P (fst (update_one Q f c)) = Some (f r)"
    and "find_one Q (fst (update_one Q f c)) = Some (f r)"
  using assms(1) by (induction c) (use assms(2-4) in \<open>auto split: if_splits\<close>)

lemma fail_clone_effect:
  assumes "fail_clone J g corr pid msg db = (Inr (), db')"
  obtains r where "find_one (\<lambda>p. pj_id p = pid) (projects db') = Some r"
    "find_one (\<lambda>p. pj_id p = pid \<and> pj_owner_id p = pj_owner_id r) (projects db') = Some r"
    "pj_state r = ''error''" "pj_clone_error r = Some msg"
proof -
  obtain r0 where r0: "find_one (\<lambda>p. pj_id p = pid) (projects db) = Some r0"
    using assms by (auto simp: fail_clone_def and_run_def Project_Store.owner_id_def and_then_def ok_or_def
        split: sum.splits option.splits)
  let ?f = "\<lambda>p. p\<lparr>pj_state := ''error'', pj_version := version_tag (ng_version g), pj_updated_at := ng_now g,
              pj_last_activity_at := ng_now g, pj_clone_error := Some msg\<rparr>"
  have "change_project_tx J (ng_event g) (pj_owner_id r0) pid ''error'' corr PrNotFound
      (\<lambda>p. pj_id p = pid \<and> pj_owner_id p = pj_owner_id r0) ?f db = Inr ((), db')"
    using assms r0 by (auto simp: fail_clone_def Project_Store.owner_id_def mark_project_state_def run_tx_def
        split: sum.splits)
  then have rows: "projects db' = fst (update_one (\<lambda>p. pj_id p = pid \<and> pj_owner_id p = pj_owner_id r0) ?f (projects db))"
    by (rule change_project_commit)
  note first = find_one_update_first [OF r0, where k = pj_owner_id and f = ?f and
      Q = "\<lambda>p. pj_id p = pid \<and> pj_owner_id p = pj_owner_id r0"]
  show ?thesis by (rule that [of "?f r0"]) (simp_all add: rows first)
qed

text \<open>
  A clone that failed on Git is not retried: the attempt marks the project \<open>error\<close> before it
  reports the failure, and every later attempt of the same work item, with whatever behaviour of
  Git, the file system and the vault, refuses the project because it is not \<open>creating\<close>, changes
  nothing, and is classed as final, even when the first failure was one of the transient kinds that
  \<open>clone_failure_disposition\<close> sends back to the queue.
\<close>

theorem failed_clone_never_retried:
  assumes "U pid = Some pid"
    and "run_project_clone J U K disp W G g pid db = (Inl (CloneSourceControl (ScGit e)), db1)"
    and "projects db2 = projects db1"
  shows "run_project_clone J' U K' disp' W' G' g' pid db2 =
      (Inl (CloneSourceControl (ScValidation (not_creating ''error''))), db2) \<and>
    clone_failure_disposition (CloneSourceControl (ScValidation (not_creating ''error''))) = DeadLetter"
proof -
  obtain db0 where "fst (fail_clone J (qg_fail g) (qg_fail_correlation g) pid (disp (ScGit e)) db0) = Inr ()"
      "db1 = snd (fail_clone J (qg_fail g) (qg_fail_correlation g) pid (disp (ScGit e)) db0)"
    using assms(2)
    by (auto simp: run_project_clone_def and_run_def lift_err_def map_sum_def assms(1) split: sum.splits prod.splits
        source_control_error.splits)
  then have "fail_clone J (qg_fail g) (qg_fail_correlation g) pid (disp (ScGit e)) db0 = (Inr (), db1)"
    by (simp add: prod_eq_iff)
  then obtain r where "find_one (\<lambda>p. pj_id p = pid) (projects db1) = Some r"
    "find_one (\<lambda>p. pj_id p = pid \<and> pj_owner_id p = pj_owner_id r) (projects db1) = Some r"
    "pj_state r = ''error''"
    by (rule fail_clone_effect)
  then have "clone_project K' W' G' (pj_owner_id r) pid db2 = (Inl (ScValidation (not_creating ''error'')), db2)"
    "Project_Store.owner_id pid db2 = Inr (pj_owner_id r)"
    using assms(3) by (simp_all add: clone_project_def sc_fetch_repo_config_def Project_Store.owner_id_def)
  then show ?thesis by (simp add: run_project_clone_def assms(1))
qed

lemma fail_clone_succeeds:
  assumes "log_dense db" "log_accepts (fst (ng_event g)) db" "find_one (\<lambda>p. pj_id p = pid) (projects db) = Some r"
  shows "\<exists>db'. fail_clone J g corr pid msg db = (Inr (), db')"
proof -
  let ?P = "\<lambda>p. pj_id p = pid \<and> pj_owner_id p = pj_owner_id r"
  let ?f = "\<lambda>p. p\<lparr>pj_state := ''error'', pj_version := version_tag (ng_version g), pj_updated_at := ng_now g,
              pj_last_activity_at := ng_now g, pj_clone_error := Some msg\<rparr>"
  obtain ps n where upd: "update_one ?P ?f (projects db) = (ps, n)" by fastforce
  have "n \<noteq> 0"
    using upd update_one_count [of ?P ?f "projects db"] find_one_SomeD [OF assms(3)] by (auto split: if_splits)
  moreover have "log_dense (db\<lparr>projects := ps\<rparr>)" "log_accepts (fst (ng_event g)) (db\<lparr>projects := ps\<rparr>)"
    using assms(1,2) by (simp_all add: log_dense_def log_accepts_def)
  then obtain db' where "append_project_changed_in_tx J (ng_event g) (pj_owner_id r) pid ''project'' ''error'' corr
      (db\<lparr>projects := ps\<rparr>) = Inr db'" using project_event_accepted by blast
  ultimately show ?thesis
    using assms(3) upd by (simp add: fail_clone_def Project_Store.owner_id_def mark_project_state_def
        change_project_tx_def run_tx_def)
qed

text \<open>A project being cloned from a remote that does not answer.\<close>

definition cloning_project :: project_row where
  "cloning_project = \<lparr>pj_id = ''p'', pj_owner_id = ''o'', pj_name = ''P'', pj_state = ''creating'',
     pj_repo_access = ''public_https'', pj_repo_url = ''u'', pj_repo_branch = None, pj_github_credential_id = None,
     pj_default_model_id = None, pj_main_workspace_handle = None, pj_clone_error = None, pj_version = ''v'',
     pj_created_at = 0, pj_updated_at = 0, pj_last_activity_at = 0\<rparr>"

definition quiet_world :: "'w project_world" where
  "quiet_world = \<lparr>pw_remove_dir = (\<lambda>_ w. (IoDone, w)), pw_lock = (\<lambda>_ _. Inr ()),
     pw_ensure_main_copy = (\<lambda>_ _ _ w. (Inr (), w)), pw_current_revision = (\<lambda>_ _. None),
     pw_git_projection = (\<lambda>_ _. (None, None))\<rparr>"

definition git_answering :: "(git_error + unit) \<Rightarrow> 'w git_world" where
  "git_answering r = \<lparr>gw_dest_exists = (\<lambda>_ _. False), gw_existing_clone = (\<lambda>_ _. False),
     gw_clone = (\<lambda>_ _ _ _ w. (r, w))\<rparr>"

definition sample_clone_gen :: clone_gen where
  "sample_clone_gen = (let g = \<lparr>ng_id = ''n'', ng_create = \<lparr>cg_lookup_now = 3, cg_id = ''n'', cg_now = 3,
       cg_version = ''w'', cg_work_id = ''q'', cg_event_id = ''e'', cg_occurred_at = 3\<rparr>, ng_now = 3, ng_version = ''w'', ng_event = (''e'', 3)\<rparr>
     in \<lparr>qg_fail = g, qg_fail_correlation = ''k'', qg_complete = g, qg_complete_correlation = ''k''\<rparr>)"

theorem failed_clone_never_retried_witness:
  "\<exists>db1. run_project_clone sample_serde Some sample_cipher (\<lambda>_. ''offline'') quiet_world
      (git_answering (Inl GitRemoteUnavailable)) sample_clone_gen ''p'' (empty_projects\<lparr>projects := [cloning_project]\<rparr>) =
      (Inl (CloneSourceControl (ScGit GitRemoteUnavailable)), db1) \<and>
    clone_failure_disposition (CloneSourceControl (ScGit GitRemoteUnavailable)) = Retry \<and>
    run_project_clone sample_serde Some sample_cipher (\<lambda>_. ''offline'') quiet_world (git_answering (Inr ()))
      sample_clone_gen ''p'' db1 = (Inl (CloneSourceControl (ScValidation (not_creating ''error''))), db1)"
proof -
  let ?db = "empty_projects\<lparr>projects := [cloning_project]\<rparr>"
  have "clone_project sample_cipher quiet_world (git_answering (Inl GitRemoteUnavailable)) ''o'' ''p'' ?db =
      (Inl (ScGit GitRemoteUnavailable), ?db)" "Project_Store.owner_id ''p'' ?db = Inr ''o''"
    by (simp_all add: clone_project_def sc_fetch_repo_config_def credential_for_row_def cloning_project_def
        quiet_world_def git_answering_def Project_Store.owner_id_def)
  moreover obtain db1 where "fail_clone sample_serde (qg_fail sample_clone_gen) (qg_fail_correlation sample_clone_gen)
      ''p'' ''offline'' ?db = (Inr (), db1)"
    using fail_clone_succeeds [of ?db "qg_fail sample_clone_gen" "''p''" cloning_project]
    by (force simp: log_dense_def log_accepts_def empty_projects_def sample_clone_gen_def cloning_project_def Let_def)
  ultimately have first: "run_project_clone sample_serde Some sample_cipher (\<lambda>_. ''offline'') quiet_world
      (git_answering (Inl GitRemoteUnavailable)) sample_clone_gen ''p'' ?db =
      (Inl (CloneSourceControl (ScGit GitRemoteUnavailable)), db1)"
    by (simp add: run_project_clone_def)
  show ?thesis
    using first failed_clone_never_retried [OF refl first refl] by (intro exI [of _ db1]) simp
qed

text \<open>
  The failure of a clone also overwrites the state of a project whose deletion was requested while
  the clone ran: the mark has no guard on the state.
\<close>

lemma clone_failure_revives_deleting_project:
  assumes "log_dense db" "log_accepts (fst (ng_event g)) db"
    and "find_one (\<lambda>p. pj_id p = pid) (projects db) = Some r" "pj_state r = ''deleting''"
  shows "\<exists>db' r'. fail_clone J g corr pid msg db = (Inr (), db') \<and>
    find_one (\<lambda>p. pj_id p = pid) (projects db') = Some r' \<and> pj_state r' = ''error''"
  proof -
  obtain db' where "fail_clone J g corr pid msg db = (Inr (), db')"
    using fail_clone_succeeds [OF assms(1-3)] by blast
  then show ?thesis by (rule fail_clone_effect) (use \<open>fail_clone J g corr pid msg db = _\<close> in blast)
qed

end
