(* ===== verification/Totp_Code.thy ===== *)
theory Totp_Code
  imports Janus_Prelude "HOL-Library.Word"
begin

text \<open>
  The codes of the identity capability (\<open>crates/identity/src/interface.rs\<close>): base32 for the shared
  secret, HMAC over SHA-1, time-based one-time codes and the comparison in constant time. Bytes are
  words of eight bits and the shift buffers words of 32 bits, so that bits shifted out are lost as
  in the source. The SHA-1 digest is the parameter \<open>H\<close>.
\<close>

unbundle bit_operations_syntax

type_synonym byte = "8 word"

definition as_bytes :: "string \<Rightarrow> byte list" where
  "as_bytes s = map (\<lambda>c. word_of_nat (of_char c)) s"

section \<open>Base32\<close>

definition ALPHABET :: string where "ALPHABET = ''ABCDEFGHIJKLMNOPQRSTUVWXYZ234567''"

text \<open>The inner loop: the letters that leave the buffer and the bits that stay.\<close>

fun base32_emit :: "32 word \<Rightarrow> nat \<Rightarrow> string \<times> nat" where
  "base32_emit buffer bits =
    (if 5 \<le> bits
     then let (out, left) = base32_emit buffer (bits - 5)
          in (ALPHABET ! unat (drop_bit (bits - 5) buffer AND 0x1F) # out, left)
     else ([], bits))"

declare base32_emit.simps [simp del]

fun base32_encode_from :: "32 word \<Rightarrow> nat \<Rightarrow> byte list \<Rightarrow> string" where
  "base32_encode_from buffer bits [] =
    (if 0 < bits then [ALPHABET ! unat (push_bit (5 - bits) buffer AND 0x1F)] else [])"
| "base32_encode_from buffer bits (b # bs) =
    (let buffer' = push_bit 8 buffer OR ucast b;
         (out, left) = base32_emit buffer' (bits + 8)
     in out @ base32_encode_from buffer' left bs)"

definition base32_encode :: "byte list \<Rightarrow> string" where
  "base32_encode input = base32_encode_from 0 0 input"

datatype base32_symbol = Symbol byte | Skipped | Unknown

definition base32_symbol_of :: "char \<Rightarrow> base32_symbol" where
  "base32_symbol_of ch =
    (let c = of_char ch :: nat
     in if 65 \<le> c \<and> c \<le> 90 then Symbol (word_of_nat (c - 65))
        else if 97 \<le> c \<and> c \<le> 122 then Symbol (word_of_nat (c - 97))
        else if 50 \<le> c \<and> c \<le> 55 then Symbol (word_of_nat (c - 50 + 26))
        else if c \<in> {61, 32, 9, 13, 10, 45} then Skipped else Unknown)"

fun base32_decode_from :: "32 word \<Rightarrow> nat \<Rightarrow> string \<Rightarrow> byte list option" where
  "base32_decode_from buffer bits [] = Some []"
| "base32_decode_from buffer bits (ch # rest) =
    (case base32_symbol_of ch of
       Unknown \<Rightarrow> None
     | Skipped \<Rightarrow> base32_decode_from buffer bits rest
     | Symbol v \<Rightarrow>
         let buffer' = push_bit 5 buffer OR ucast v
         in if 8 \<le> bits + 5
            then map_option ((#) (ucast (drop_bit (bits + 5 - 8) buffer' AND 0xFF)))
                   (base32_decode_from buffer' (bits + 5 - 8) rest)
            else base32_decode_from buffer' (bits + 5) rest)"

definition base32_decode :: "string \<Rightarrow> byte list option" where
  "base32_decode input = base32_decode_from 0 0 input"

section \<open>One-time codes\<close>

definition hmac_sha1 :: "(byte list \<Rightarrow> byte list) \<Rightarrow> byte list \<Rightarrow> byte list \<Rightarrow> byte list" where
  "hmac_sha1 H key data =
    (let k = (if 64 < length key then H key else key);
         block_key = k @ replicate (64 - length k) 0;
         ipad = map (\<lambda>b. 0x36 XOR b) block_key;
         opad = map (\<lambda>b. 0x5C XOR b) block_key
     in H (opad @ H (ipad @ data)))"

definition to_be_bytes :: "64 word \<Rightarrow> byte list" where
  "to_be_bytes w = map (\<lambda>k. ucast (drop_bit k w)) [56, 48, 40, 32, 24, 16, 8, 0]"

definition totp_code :: "(byte list \<Rightarrow> byte list) \<Rightarrow> byte list \<Rightarrow> 64 word \<Rightarrow> 32 word" where
  "totp_code H secret counter =
    (let digest = hmac_sha1 H secret (to_be_bytes counter);
         offset = unat (digest ! 19 AND 0x0F);
         binary = push_bit 24 (ucast (digest ! offset AND 0x7F)) OR
                  push_bit 16 (ucast (digest ! (offset + 1))) OR
                  push_bit 8 (ucast (digest ! (offset + 2))) OR
                  ucast (digest ! (offset + 3))
     in binary mod 1000000)"

text \<open>The format \<open>{:06}\<close>.\<close>

definition six_digits :: "nat \<Rightarrow> string" where
  "six_digits n = (let s = string_of_nat n in replicate (6 - length s) CHR ''0'' @ s)"

definition constant_time_eq :: "byte list \<Rightarrow> byte list \<Rightarrow> bool" where
  "constant_time_eq left right =
    (if length left \<noteq> length right then False
     else fold (\<lambda>(a, b) diff. diff OR (a XOR b)) (zip left right) 0 = 0)"

definition TOTP_WINDOW_SECS :: int where "TOTP_WINDOW_SECS = 30"

primrec verify_candidates ::
  "(byte list \<Rightarrow> byte list) \<Rightarrow> byte list \<Rightarrow> string \<Rightarrow> int option \<Rightarrow> int list \<Rightarrow> int option" where
  "verify_candidates H secret code min_counter [] = None"
| "verify_candidates H secret code min_counter (candidate # rest) =
    (if candidate < 0 then verify_candidates H secret code min_counter rest
     else if (case min_counter of None \<Rightarrow> False | Some minimum \<Rightarrow> candidate \<le> minimum)
     then verify_candidates H secret code min_counter rest
     else if constant_time_eq (as_bytes code)
            (as_bytes (six_digits (unat (totp_code H secret (word_of_int candidate)))))
     then Some candidate
     else verify_candidates H secret code min_counter rest)"

definition verify_totp ::
  "(byte list \<Rightarrow> byte list) \<Rightarrow> byte list \<Rightarrow> string \<Rightarrow> int \<Rightarrow> int option \<Rightarrow> int option" where
  "verify_totp H secret code now_secs min_counter =
    (let window = now_secs div TOTP_WINDOW_SECS
     in verify_candidates H secret code min_counter [window - 1, window, window + 1])"

definition is_ascii_digit :: "char \<Rightarrow> bool" where
  "is_ascii_digit c \<longleftrightarrow> 48 \<le> (of_char c :: nat) \<and> (of_char c :: nat) \<le> 57"

definition is_totp_code_shape :: "string \<Rightarrow> bool" where
  "is_totp_code_shape code \<longleftrightarrow> length code = 6 \<and> list_all is_ascii_digit code"

end
