(* ===== verification/Identity_Store.thy ===== *)
theory Identity_Store
  imports Totp_Code Turn_Content
begin

text \<open>
  The identity capability (\<open>crates/identity/src/interface.rs\<close>): initialization of the single owner,
  passkey ceremonies, TOTP and recovery-code logins, login sessions, and the limiter of failed
  attempts. The state is the capability's collections and the limiter's window. The WebAuthn engine,
  the SHA-1 digest and the digest behind \<open>purpose_hash\<close> are parameters; ids, tokens and clock readings
  are arguments in the order in which they are drawn.
\<close>

section \<open>Constants, modes and errors\<close>

definition CEREMONY_TTL :: int where "CEREMONY_TTL = 300000"
definition SESSION_IDLE_TTL :: int where "SESSION_IDLE_TTL = 604800000"
definition RECOVERY_TTL :: int where "RECOVERY_TTL = 600000"
definition TOTP_INIT_TTL :: int where "TOTP_INIT_TTL = 900000"
definition INIT_TOKEN_TTL :: int where "INIT_TOKEN_TTL = 1800000"
definition RATE_WINDOW_SECS :: nat where "RATE_WINDOW_SECS = 60"
definition RATE_MAX_ATTEMPTS :: nat where "RATE_MAX_ATTEMPTS = 5"

datatype auth_mode = ModePasskey | ModeTotp

datatype initialization_state = Uninitialized | Initialized

datatype authentication_mode = AuthPasskey | AuthTotp | AuthDevelopment

datatype identity_error =
    AuthRequired
  | AlreadyInitialized
  | InvalidInitializationToken
  | InvalidCeremony
  | InvalidCredential
  | InvalidRecoveryCode
  | LastPasskey
  | PasskeyNotFound
  | OriginRejected
  | CsrfRejected
  | PasskeyDisabled
  | TotpDisabled
  | InvalidTotpCode
  | RateLimited
  | IdStorage
  | IdData
  | IdInternal

record owner_view =
  vw_id :: string
  vw_display_name :: string
  vw_authentication_mode :: authentication_mode
  vw_csrf_token :: string

record authentication_grant =
  gr_owner :: owner_view
  gr_session_token :: string
  gr_recovery_codes :: "string list option"

record auth_context =
  ax_owner_id :: string
  ax_display_name :: string
  ax_session_id :: "string option"
  ax_csrf_token :: string
  ax_development :: bool

section \<open>Collections\<close>

record owner_row =
  ow_id :: string
  ow_display_name :: string
  ow_totp_secret :: "string option"
  ow_totp_last_counter :: "int option"
  ow_last_totp_at :: "int option"
  ow_created_at :: int

record init_token_row =
  it_id :: string
  it_token_hash :: string
  it_expires_at :: int
  it_created_at :: int
  it_used_at :: "int option"

record passkey_row =
  pk_id :: string
  pk_owner_id :: string
  pk_name :: string
  pk_credential_json :: string
  pk_created_at :: int
  pk_last_used_at :: "int option"
  pk_revoked_at :: "int option"

record ceremony_row =
  cy_id :: string
  cy_kind :: string
  cy_state_json :: string
  cy_expires_at :: int
  cy_created_at :: int
  cy_consumed_at :: "int option"

record login_session_row =
  ls_id :: string
  ls_owner_id :: string
  ls_token_hash :: string
  ls_csrf_token :: string
  ls_created_at :: int
  ls_last_seen_at :: int
  ls_expires_at :: int
  ls_revoked_at :: "int option"

record recovery_batch_row =
  rb_id :: string
  rb_owner_id :: string
  rb_created_at :: int
  rb_revoked_at :: "int option"

record recovery_code_row =
  rx_id :: string
  rx_batch_id :: string
  rx_code_hash :: string
  rx_used_at :: "int option"

record recovery_state_row =
  ry_id :: string
  ry_owner_id :: string
  ry_token_hash :: string
  ry_expires_at :: int
  ry_used_at :: "int option"

record identity_db =
  owners :: "owner_row list"
  initialization_tokens :: "init_token_row list"
  passkeys :: "passkey_row list"
  ceremonies :: "ceremony_row list"
  login_sessions :: "login_session_row list"
  recovery_batches :: "recovery_batch_row list"
  recovery_codes :: "recovery_code_row list"
  recovery_states :: "recovery_state_row list"

text \<open>Inserts under the collections' unique keys; the driver's duplicate-key error aborts.\<close>

definition insert_owner :: "owner_row \<Rightarrow> identity_db \<Rightarrow> identity_error + identity_db" where
  "insert_owner r db =
    and_then (ok_or IdStorage (insert_one ow_id r (owners db))) (\<lambda>c. Inr (db\<lparr>owners := c\<rparr>))"

definition unique_by :: "('r \<Rightarrow> 'k) \<Rightarrow> 'r \<Rightarrow> 'r list \<Rightarrow> identity_error + unit" where
  "unique_by key r c = (if key r \<in> key ` set c then Inl IdStorage else Inr ())"

section \<open>Configuration and parameters\<close>

record identity_interface =
  ii_origin :: string
  ii_development_auth :: bool
  ii_auth_mode :: auth_mode

text \<open>
  The WebAuthn engine on serialised values: starting and finishing a registration or an
  authentication, and the stored form of a passkey. \<open>None\<close> is a failure of the engine.
\<close>

record webauthn =
  wa_start_registration :: "string \<Rightarrow> string \<Rightarrow> string list option \<Rightarrow> (json \<times> json) option"
  wa_credential_ok :: "json \<Rightarrow> bool"
  wa_finish_registration :: "json \<Rightarrow> json \<Rightarrow> json option"
  wa_assertion_ok :: "json \<Rightarrow> bool"
  wa_start_authentication :: "json list \<Rightarrow> (json \<times> json) option"
  wa_finish_authentication :: "json \<Rightarrow> json \<Rightarrow> json option"
  wa_result_cred_id :: "json \<Rightarrow> string"
  wa_parse_passkey :: "string \<Rightarrow> json option"
  wa_passkey_json :: "json \<Rightarrow> string"
  wa_cred_id :: "json \<Rightarrow> string"
  wa_update_credential :: "json \<Rightarrow> json \<Rightarrow> json"

text \<open>\<open>D\<close> is the printable SHA-256 digest.\<close>

definition purpose_hash :: "(string \<Rightarrow> string) \<Rightarrow> string \<Rightarrow> string \<Rightarrow> string" where
  "purpose_hash D purpose secret =
    D (''janus'' @ [char_of (0 :: nat)] @ purpose @ [char_of (0 :: nat)] @ secret)"

definition webauthn_enabled :: "identity_interface \<Rightarrow> identity_error + unit" where
  "webauthn_enabled I = (if ii_auth_mode I = ModePasskey then Inr () else Inl PasskeyDisabled)"

section \<open>The limiter of failed attempts\<close>

text \<open>Instants are nanoseconds; \<open>duration_since\<close> saturates at zero.\<close>

type_synonym login_rate = "nat list"

definition instant_secs :: "nat \<Rightarrow> nat" where
  "instant_secs d = d div 1000000000"

definition rate_allow :: "nat \<Rightarrow> login_rate \<Rightarrow> bool \<times> login_rate" where
  "rate_allow now failures =
    (let kept = dropWhile (\<lambda>at. RATE_WINDOW_SECS < instant_secs (now - at)) failures
     in (length kept < RATE_MAX_ATTEMPTS, kept))"

definition rate_record :: "nat \<Rightarrow> login_rate \<Rightarrow> login_rate" where
  "rate_record now failures = failures @ [now]"

definition check_rate :: "nat \<Rightarrow> login_rate \<Rightarrow> (identity_error + unit) \<times> login_rate" where
  "check_rate now failures =
    (case rate_allow now failures of (ok, kept) \<Rightarrow> (if ok then Inr () else Inl RateLimited, kept))"

definition check_origin :: "identity_interface \<Rightarrow> string option \<Rightarrow> identity_error + unit" where
  "check_origin I origin =
    (case origin of
       None \<Rightarrow> Inr ()
     | Some given \<Rightarrow> if given \<noteq> ii_origin I then Inl OriginRejected else Inr ())"

definition authorize_mutation ::
  "identity_interface \<Rightarrow> auth_context \<Rightarrow> string option \<Rightarrow> string option \<Rightarrow> identity_error + unit" where
  "authorize_mutation I ax origin csrf_token =
    (if ax_development ax then Inr ()
     else if origin \<noteq> Some (ii_origin I) then Inl OriginRejected
     else and_then (ok_or CsrfRejected csrf_token) (\<lambda>csrf.
       if \<not> constant_time_eq (as_bytes csrf) (as_bytes (ax_csrf_token ax)) then Inl CsrfRejected
       else Inr ()))"

section \<open>Names, views and the owner\<close>

definition normalize_name :: "string \<Rightarrow> string \<Rightarrow> identity_error + string" where
  "normalize_name raw fallback =
    (let name = str_trim raw
     in if 80 < length name then Inl InvalidCredential
        else Inr (if name = [] then fallback else name))"

definition owner_view_of ::
  "string \<Rightarrow> string \<Rightarrow> string \<Rightarrow> bool \<Rightarrow> auth_mode \<Rightarrow> owner_view" where
  "owner_view_of i display_name csrf_token development mode =
    \<lparr>vw_id = i, vw_display_name = display_name,
     vw_authentication_mode = (if development then AuthDevelopment
       else if mode = ModeTotp then AuthTotp else AuthPasskey),
     vw_csrf_token = csrf_token\<rparr>"

definition initialization_state :: "identity_db \<Rightarrow> initialization_state" where
  "initialization_state db = (if length (owners db) = 0 then Uninitialized else Initialized)"

definition the_owner :: "identity_db \<Rightarrow> identity_error + owner_row" where
  "the_owner db = ok_or AuthRequired (find_one (\<lambda>_. True) (owners db))"

definition me_view :: "identity_interface \<Rightarrow> auth_context \<Rightarrow> string \<Rightarrow> owner_view" where
  "me_view I ax csrf_token =
    owner_view_of (ax_owner_id ax) (ax_display_name ax) csrf_token (ax_development ax) (ii_auth_mode I)"

section \<open>Inserted records\<close>

record session_gen =
  lg_token :: string
  lg_csrf :: string
  lg_session_id :: string

definition insert_session ::
  "(string \<Rightarrow> string) \<Rightarrow> session_gen \<Rightarrow> string \<Rightarrow> int \<Rightarrow> identity_db \<Rightarrow> identity_error + identity_db" where
  "insert_session D g owner now db =
    (let row = \<lparr>ls_id = lg_session_id g, ls_owner_id = owner,
           ls_token_hash = purpose_hash D ''login-session'' (lg_token g), ls_csrf_token = lg_csrf g,
           ls_created_at = now, ls_last_seen_at = now, ls_expires_at = now + SESSION_IDLE_TTL,
           ls_revoked_at = None\<rparr>
     in and_then (unique_by ls_id row (login_sessions db)) (\<lambda>_.
        and_then (unique_by ls_token_hash row (login_sessions db)) (\<lambda>_.
          Inr (db\<lparr>login_sessions := login_sessions db @ [row]\<rparr>))))"

definition insert_passkey ::
  "webauthn \<Rightarrow> string \<Rightarrow> string \<Rightarrow> string \<Rightarrow> json \<Rightarrow> int \<Rightarrow> identity_db \<Rightarrow> identity_error + identity_db" where
  "insert_passkey A i owner name passkey now db =
    (let row = \<lparr>pk_id = i, pk_owner_id = owner, pk_name = name,
           pk_credential_json = wa_passkey_json A passkey, pk_created_at = now,
           pk_last_used_at = None, pk_revoked_at = None\<rparr>
     in and_then (unique_by pk_id row (passkeys db)) (\<lambda>_.
        and_then (unique_by pk_credential_json row (passkeys db)) (\<lambda>_.
          Inr (db\<lparr>passkeys := passkeys db @ [row]\<rparr>))))"

primrec insert_codes ::
  "(string \<Rightarrow> string) \<Rightarrow> string \<Rightarrow> (string \<times> string) list \<Rightarrow> identity_db \<Rightarrow> identity_error + identity_db" where
  "insert_codes D batch [] db = Inr db"
| "insert_codes D batch (c # cs) db =
    (let row = \<lparr>rx_id = fst c, rx_batch_id = batch,
           rx_code_hash = purpose_hash D ''recovery-code'' (snd c), rx_used_at = None\<rparr>
     in and_then (unique_by rx_id row (recovery_codes db)) (\<lambda>_.
        and_then (unique_by rx_code_hash row (recovery_codes db)) (\<lambda>_.
          insert_codes D batch cs (db\<lparr>recovery_codes := recovery_codes db @ [row]\<rparr>))))"

text \<open>The ids and codes of a batch, as pairs.\<close>

record batch_gen =
  bg_id :: string
  bg_codes :: "(string \<times> string) list"

definition insert_recovery_codes ::
  "(string \<Rightarrow> string) \<Rightarrow> batch_gen \<Rightarrow> string \<Rightarrow> int \<Rightarrow> identity_db \<Rightarrow> identity_error + identity_db" where
  "insert_recovery_codes D g owner now db =
    (let row = \<lparr>rb_id = bg_id g, rb_owner_id = owner, rb_created_at = now, rb_revoked_at = None\<rparr>
     in and_then (unique_by rb_id row (recovery_batches db)) (\<lambda>_.
          insert_codes D (bg_id g) (bg_codes g)
            (db\<lparr>recovery_batches := recovery_batches db @ [row]\<rparr>)))"

end
