(* ===== verification/Identity_Auth.thy ===== *)
theory Identity_Auth
  imports Identity_Store
begin

text \<open>
  The operations of the identity capability: tokens, ceremonies, initialization, logins, recovery
  and passkey management, in the order of \<open>crates/identity/src/interface.rs\<close>. A method that opens a
  transaction is \<open>run_tx\<close> over its body, so that an error after a write leaves nothing behind.
\<close>

section \<open>Tokens\<close>

definition issue_initialization_token ::
  "(string \<Rightarrow> string) \<Rightarrow> string \<Rightarrow> int \<Rightarrow> string \<Rightarrow> identity_db \<Rightarrow> (identity_error + string) \<times> identity_db" where
  "issue_initialization_token D token now i db =
    (if initialization_state db = Initialized then (Inl AlreadyInitialized, db)
     else run_tx (\<lambda>db.
       let kept = fst (delete_many (\<lambda>t. it_used_at t = None) (initialization_tokens db));
           row = \<lparr>it_id = i, it_token_hash = purpose_hash D ''initialization-token'' token,
                  it_expires_at = now + INIT_TOKEN_TTL, it_created_at = now, it_used_at = None\<rparr>
       in and_then (unique_by it_id row kept) (\<lambda>_. and_then (unique_by it_token_hash row kept) (\<lambda>_.
            Inr (token, db\<lparr>initialization_tokens := kept @ [row]\<rparr>)))) db)"

definition recovery_state_insert ::
  "(string \<Rightarrow> string) \<Rightarrow> string \<Rightarrow> string \<Rightarrow> string \<Rightarrow> int \<Rightarrow> identity_db \<Rightarrow> identity_error + identity_db" where
  "recovery_state_insert D i owner token now db =
    (let row = \<lparr>ry_id = i, ry_owner_id = owner, ry_token_hash = purpose_hash D ''recovery-state'' token,
           ry_expires_at = now + RECOVERY_TTL, ry_used_at = None\<rparr>
     in and_then (unique_by ry_id row (recovery_states db)) (\<lambda>_.
        and_then (unique_by ry_token_hash row (recovery_states db)) (\<lambda>_.
          Inr (db\<lparr>recovery_states := recovery_states db @ [row]\<rparr>))))"

definition issue_recovery_token ::
  "(string \<Rightarrow> string) \<Rightarrow> string \<Rightarrow> int \<Rightarrow> string \<Rightarrow> identity_db \<Rightarrow> (identity_error + string) \<times> identity_db" where
  "issue_recovery_token D token now i db =
    and_run (the_owner db, db) (\<lambda>owner.
      run_tx (\<lambda>db. and_then (recovery_state_insert D i (ow_id owner) token now db) (\<lambda>db1. Inr (token, db1))))"

section \<open>Ceremonies\<close>

definition store_ceremony ::
  "int \<Rightarrow> string \<Rightarrow> string \<Rightarrow> string \<Rightarrow> int \<Rightarrow> identity_db \<Rightarrow> (identity_error + string) \<times> identity_db" where
  "store_ceremony ttl i kind state_json now =
     run_tx (\<lambda>db. let row = \<lparr>cy_id = i, cy_kind = kind, cy_state_json = state_json, cy_expires_at = now + ttl,
                    cy_created_at = now, cy_consumed_at = None\<rparr>
       in and_then (unique_by cy_id row (ceremonies db)) (\<lambda>_.
            Inr (i, db\<lparr>ceremonies := ceremonies db @ [row]\<rparr>)))"

definition take_ceremony ::
  "string \<Rightarrow> string \<Rightarrow> int \<Rightarrow> identity_db \<Rightarrow> (identity_error + string) \<times> identity_db" where
  "take_ceremony i kind now =
     run_tx (\<lambda>db.
       and_then (ok_or InvalidCeremony (find_one (\<lambda>c. cy_id c = i \<and> cy_kind c = kind \<and>
           cy_consumed_at c = None \<and> now < cy_expires_at c) (ceremonies db))) (\<lambda>c.
       let (cs, changed) = update_one (\<lambda>c. cy_id c = i \<and> cy_consumed_at c = None)
             (\<lambda>c. c\<lparr>cy_consumed_at := Some now\<rparr>) (ceremonies db)
       in if changed \<noteq> 1 then Inl InvalidCeremony
          else Inr (cy_state_json c, db\<lparr>ceremonies := cs\<rparr>)))"

record registration_state =
  rs_token_hash :: "string option"
  rs_owner_id :: string
  rs_display_name :: string
  rs_passkey_name :: string
  rs_recovery_state_id :: "string option"
  rs_state :: json

definition registration_state_value :: "registration_state \<Rightarrow> json" where
  "registration_state_value s = JObj
    [(''token_hash'', opt_json (rs_token_hash s)), (''owner_id'', JStr (rs_owner_id s)),
     (''display_name'', JStr (rs_display_name s)), (''passkey_name'', JStr (rs_passkey_name s)),
     (''recovery_state_id'', opt_json (rs_recovery_state_id s)), (''state'', rs_state s)]"

definition registration_state_from :: "json \<Rightarrow> registration_state option" where
  "registration_state_from v =
    (case (field_opt_str ''token_hash'' v, field_str ''owner_id'' v, field_str ''display_name'' v,
           field_str ''passkey_name'' v, field_opt_str ''recovery_state_id'' v, json_get ''state'' v) of
       (Some t, Some ow, Some d, Some p, Some r, Some s) \<Rightarrow>
         Some \<lparr>rs_token_hash = t, rs_owner_id = ow, rs_display_name = d, rs_passkey_name = p,
               rs_recovery_state_id = r, rs_state = s\<rparr>
     | _ \<Rightarrow> None)"

definition take_registration_state ::
  "serde \<Rightarrow> string \<Rightarrow> string \<Rightarrow> int \<Rightarrow> identity_db \<Rightarrow> (identity_error + registration_state) \<times> identity_db" where
  "take_registration_state J i kind now db =
    and_run (take_ceremony i kind now db) (\<lambda>raw db.
      (ok_or IdData (Option.bind (json_from_str J raw) registration_state_from), db))"

text \<open>What a started registration is stored from; \<open>U\<close> parses the owner's id.\<close>

definition registration_options ::
  "serde \<Rightarrow> (string \<Rightarrow> string option) \<Rightarrow> identity_interface \<Rightarrow> webauthn \<Rightarrow> string \<Rightarrow> int \<Rightarrow> string \<Rightarrow>
    registration_state \<Rightarrow> string list option \<Rightarrow> identity_db \<Rightarrow>
    (identity_error + (string \<times> json)) \<times> identity_db" where
  "registration_options J U I A i now kind seed exclude db =
    and_run (ok_or IdInternal (U (rs_owner_id seed)), db) (\<lambda>user db.
    and_run (webauthn_enabled I, db) (\<lambda>_ db.
    and_run (ok_or InvalidCredential (wa_start_registration A user (rs_display_name seed) exclude), db)
      (\<lambda>(options, state) db.
    and_run (store_ceremony CEREMONY_TTL i kind
        (json_to_string J (registration_state_value (seed\<lparr>rs_state := state\<rparr>))) now db)
      (\<lambda>cid db. (Inr (cid, options), db)))))"

definition passkey_values :: "webauthn \<Rightarrow> passkey_row list \<Rightarrow> identity_error + json list" where
  "passkey_values A = try_map (\<lambda>p. ok_or IdData (wa_parse_passkey A (pk_credential_json p)))"

definition credential_ids :: "webauthn \<Rightarrow> string \<Rightarrow> identity_db \<Rightarrow> identity_error + string list" where
  "credential_ids A owner db =
    and_then (passkey_values A (filter (\<lambda>p. pk_owner_id p = owner \<and> pk_revoked_at p = None) (passkeys db)))
      (\<lambda>ps. Inr (map (wa_cred_id A) ps))"

section \<open>Initialization\<close>

definition live_init_token :: "string \<Rightarrow> int \<Rightarrow> init_token_row \<Rightarrow> bool" where
  "live_init_token token_hash now t \<longleftrightarrow>
     it_token_hash t = token_hash \<and> it_used_at t = None \<and> now < it_expires_at t"

definition check_init_token :: "string \<Rightarrow> int \<Rightarrow> identity_db \<Rightarrow> identity_error + unit" where
  "check_init_token token_hash now db =
    (if initialization_state db = Initialized then Inl AlreadyInitialized
     else if length (filter (live_init_token token_hash now) (initialization_tokens db)) \<noteq> 1
     then Inl InvalidInitializationToken else Inr ())"

definition initialize_options ::
  "serde \<Rightarrow> (string \<Rightarrow> string option) \<Rightarrow> (string \<Rightarrow> string) \<Rightarrow> identity_interface \<Rightarrow> webauthn \<Rightarrow>
    int \<Rightarrow> string \<Rightarrow> string \<Rightarrow> int \<Rightarrow> string \<Rightarrow> string \<Rightarrow> identity_db \<Rightarrow>
    (identity_error + (string \<times> json)) \<times> identity_db" where
  "initialize_options J U D I A now owner_id cid cnow token display_name db =
    (let token_hash = purpose_hash D ''initialization-token'' token
     in and_run (check_init_token token_hash now db, db) (\<lambda>_ db.
        and_run (normalize_name display_name ''Owner'', db) (\<lambda>name db.
          registration_options J U I A cid cnow ''initialize''
            \<lparr>rs_token_hash = Some token_hash, rs_owner_id = owner_id, rs_display_name = name,
             rs_passkey_name = ''Primary passkey'', rs_recovery_state_id = None, rs_state = JNull\<rparr>
            None db)))"

text \<open>Consuming the token and creating the owner, inside the caller's transaction.\<close>

definition claim_initialization ::
  "string \<Rightarrow> int \<Rightarrow> owner_row \<Rightarrow> identity_db \<Rightarrow> identity_error + identity_db" where
  "claim_initialization token_hash now row db =
    (let (ts, consumed) = update_one (live_init_token token_hash now)
           (\<lambda>t. t\<lparr>it_used_at := Some now\<rparr>) (initialization_tokens db)
     in if consumed \<noteq> 1 \<or> length (owners db) \<noteq> 0 then Inl InvalidInitializationToken
        else insert_owner row (db\<lparr>initialization_tokens := ts\<rparr>))"

definition grant_of ::
  "identity_interface \<Rightarrow> string \<Rightarrow> string \<Rightarrow> session_gen \<Rightarrow> string list option \<Rightarrow> authentication_grant" where
  "grant_of I owner display_name g codes =
    \<lparr>gr_owner = owner_view_of owner display_name (lg_csrf g) False (ii_auth_mode I),
     gr_session_token = lg_token g, gr_recovery_codes = codes\<rparr>"

text \<open>A presented credential: its shape, the engine's availability, and the engine's verdict.\<close>

definition finish_registration ::
  "identity_interface \<Rightarrow> webauthn \<Rightarrow> json \<Rightarrow> json \<Rightarrow> identity_error + json" where
  "finish_registration I A credential state =
    and_then (if wa_credential_ok A credential then Inr () else Inl InvalidCredential) (\<lambda>_.
    and_then (webauthn_enabled I) (\<lambda>_.
      ok_or InvalidCredential (wa_finish_registration A credential state)))"

definition initialize_complete ::
  "serde \<Rightarrow> (string \<Rightarrow> string) \<Rightarrow> identity_interface \<Rightarrow> webauthn \<Rightarrow> int \<Rightarrow> int \<Rightarrow> session_gen \<Rightarrow> batch_gen \<Rightarrow>
    string \<Rightarrow> string \<Rightarrow> json \<Rightarrow> identity_db \<Rightarrow> (identity_error + authentication_grant) \<times> identity_db" where
  "initialize_complete J D I A take_now now g bg passkey_id ceremony_id credential db =
    and_run (take_registration_state J ceremony_id ''initialize'' take_now db) (\<lambda>state db.
    and_run (finish_registration I A credential (rs_state state), db) (\<lambda>passkey.
      run_tx (\<lambda>db.
        and_then (ok_or InvalidInitializationToken (rs_token_hash state)) (\<lambda>token_hash.
        and_then (claim_initialization token_hash now
          \<lparr>ow_id = rs_owner_id state, ow_display_name = rs_display_name state, ow_totp_secret = None,
           ow_totp_last_counter = None, ow_last_totp_at = None, ow_created_at = now\<rparr> db) (\<lambda>db.
        and_then (insert_passkey A passkey_id (rs_owner_id state) (rs_passkey_name state) passkey now db) (\<lambda>db.
        and_then (insert_recovery_codes D bg (rs_owner_id state) now db) (\<lambda>db.
        and_then (insert_session D g (rs_owner_id state) now db) (\<lambda>db.
          Inr (grant_of I (rs_owner_id state) (rs_display_name state) g (Some (map snd (bg_codes bg))), db)))))))))"

section \<open>Passkey login\<close>

definition login_options ::
  "serde \<Rightarrow> identity_interface \<Rightarrow> webauthn \<Rightarrow> string \<Rightarrow> int \<Rightarrow> identity_db \<Rightarrow>
    (identity_error + (string \<times> json)) \<times> identity_db" where
  "login_options J I A i now db =
    (let active = sort_key pk_created_at (filter (\<lambda>p. pk_revoked_at p = None) (passkeys db))
     in if active = [] then (Inl AuthRequired, db)
        else and_run (passkey_values A active, db) (\<lambda>ps db.
          and_run (webauthn_enabled I, db) (\<lambda>_ db.
          and_run (ok_or InvalidCredential (wa_start_authentication A ps), db) (\<lambda>(options, state) db.
          and_run (store_ceremony CEREMONY_TTL i ''login'' (json_to_string J (JObj [(''state'', state)])) now db)
            (\<lambda>cid db. (Inr (cid, options), db))))))"

text \<open>The stored passkey with the credential's id, and its updated form.\<close>

primrec match_passkey ::
  "webauthn \<Rightarrow> json \<Rightarrow> passkey_row list \<Rightarrow> identity_error + (string \<times> string) option" where
  "match_passkey A result [] = Inr None"
| "match_passkey A result (p # ps) =
    and_then (ok_or IdData (wa_parse_passkey A (pk_credential_json p))) (\<lambda>passkey.
      if wa_cred_id A passkey = wa_result_cred_id A result
      then Inr (Some (pk_id p, wa_passkey_json A (wa_update_credential A passkey result)))
      else match_passkey A result ps)"

definition touch_passkey ::
  "string \<Rightarrow> string \<Rightarrow> int \<Rightarrow> identity_db \<Rightarrow> identity_error + identity_db" where
  "touch_passkey i credential_json now db =
    (let ps = fst (update_one (\<lambda>p. pk_id p = i)
           (\<lambda>p. p\<lparr>pk_credential_json := credential_json, pk_last_used_at := Some now\<rparr>) (passkeys db))
     in if distinct (map pk_credential_json ps) then Inr (db\<lparr>passkeys := ps\<rparr>) else Inl IdStorage)"

definition login_complete ::
  "serde \<Rightarrow> (string \<Rightarrow> string) \<Rightarrow> identity_interface \<Rightarrow> webauthn \<Rightarrow> int \<Rightarrow> int \<Rightarrow> session_gen \<Rightarrow>
    string \<Rightarrow> json \<Rightarrow> identity_db \<Rightarrow> (identity_error + authentication_grant) \<times> identity_db" where
  "login_complete J D I A take_now now g ceremony_id credential db =
    and_run (take_ceremony ceremony_id ''login'' take_now db) (\<lambda>raw db.
    and_run (ok_or IdData (Option.bind (json_from_str J raw) (json_get ''state'')), db) (\<lambda>state db.
    and_run (if wa_assertion_ok A credential then Inr () else Inl InvalidCredential, db) (\<lambda>_ db.
    and_run (webauthn_enabled I, db) (\<lambda>_ db.
    and_run (ok_or InvalidCredential (wa_finish_authentication A credential state), db) (\<lambda>result db.
    and_run (the_owner db, db) (\<lambda>owner db.
    and_run (match_passkey A result
        (filter (\<lambda>p. pk_owner_id p = ow_id owner \<and> pk_revoked_at p = None) (passkeys db)), db) (\<lambda>found db.
    and_run (ok_or InvalidCredential found, db) (\<lambda>(passkey_id, passkey_json).
      run_tx (\<lambda>db.
        and_then (touch_passkey passkey_id passkey_json now db) (\<lambda>db.
        and_then (insert_session D g (ow_id owner) now db) (\<lambda>db.
          Inr (grant_of I (ow_id owner) (ow_display_name owner) g None, db))))))))))))"

section \<open>TOTP\<close>

record totp_initialize_state =
  ti_token_hash :: string
  ti_owner_id :: string
  ti_display_name :: string
  ti_secret_base32 :: string

definition totp_initialize_value :: "totp_initialize_state \<Rightarrow> json" where
  "totp_initialize_value s = JObj
    [(''token_hash'', JStr (ti_token_hash s)), (''owner_id'', JStr (ti_owner_id s)),
     (''display_name'', JStr (ti_display_name s)), (''secret_base32'', JStr (ti_secret_base32 s))]"

definition totp_initialize_from :: "json \<Rightarrow> totp_initialize_state option" where
  "totp_initialize_from v =
    (case (field_str ''token_hash'' v, field_str ''owner_id'' v, field_str ''display_name'' v,
           field_str ''secret_base32'' v) of
       (Some t, Some ow, Some d, Some s) \<Rightarrow>
         Some \<lparr>ti_token_hash = t, ti_owner_id = ow, ti_display_name = d, ti_secret_base32 = s\<rparr>
     | _ \<Rightarrow> None)"

record totp_provision =
  tp_ceremony_id :: string
  tp_secret_base32 :: string
  tp_otpauth_uri :: string

definition store_totp_initialization ::
  "serde \<Rightarrow> string \<Rightarrow> int \<Rightarrow> totp_initialize_state \<Rightarrow> identity_db \<Rightarrow> (identity_error + string) \<times> identity_db" where
  "store_totp_initialization J i now state =
     store_ceremony TOTP_INIT_TTL i ''totp_initialize'' (json_to_string J (totp_initialize_value state)) now"

text \<open>\<open>pct\<close> is the percent encoding of everything but ASCII letters and digits.\<close>

definition totp_initialize_options ::
  "serde \<Rightarrow> (string \<Rightarrow> string) \<Rightarrow> (string \<Rightarrow> string) \<Rightarrow> identity_interface \<Rightarrow> int \<Rightarrow> byte list \<Rightarrow> string \<Rightarrow>
    string \<Rightarrow> int \<Rightarrow> string \<Rightarrow> string \<Rightarrow> identity_db \<Rightarrow> (identity_error + totp_provision) \<times> identity_db" where
  "totp_initialize_options J pct D I now secret owner_id cid cnow token display_name db =
    (if ii_auth_mode I \<noteq> ModeTotp then (Inl TotpDisabled, db)
     else let token_hash = purpose_hash D ''initialization-token'' token;
              secret_base32 = base32_encode secret
       in and_run (check_init_token token_hash now db, db) (\<lambda>_ db.
          and_run (normalize_name display_name ''Owner'', db) (\<lambda>name db.
          and_run (store_totp_initialization J cid cnow
              \<lparr>ti_token_hash = token_hash, ti_owner_id = owner_id, ti_display_name = name,
               ti_secret_base32 = secret_base32\<rparr> db) (\<lambda>ceremony_id db.
            (Inr \<lparr>tp_ceremony_id = ceremony_id, tp_secret_base32 = secret_base32,
                  tp_otpauth_uri = ''otpauth://totp/'' @ pct (''Janus:'' @ name) @ ''?secret='' @ secret_base32 @
                    ''&issuer=Janus&algorithm=SHA1&digits=6&period=30''\<rparr>, db)))))"

text \<open>
  The clock readings of an attempt: the limiter's instants, the seconds the code is verified at,
  and the time of the transaction.
\<close>

record attempt_clock =
  ac_check :: nat
  ac_fail :: nat
  ac_take :: int
  ac_secs :: int
  ac_now :: int

text \<open>A method that touches the limiter works on the limiter and the collections.\<close>

type_synonym 'a limited = "login_rate \<times> identity_db \<Rightarrow> (identity_error + 'a) \<times> (login_rate \<times> identity_db)"

definition on_db :: "(identity_db \<Rightarrow> (identity_error + 'a) \<times> identity_db) \<Rightarrow> 'a limited" where
  "on_db f = (\<lambda>(rate, db). let (r, db') = f db in (r, (rate, db')))"

definition gate :: "nat \<Rightarrow> unit limited" where
  "gate now = (\<lambda>(rate, db). let (r, rate') = check_rate now rate in (r, (rate', db)))"

definition record_failure :: "nat \<Rightarrow> login_rate \<times> identity_db \<Rightarrow> login_rate \<times> identity_db" where
  "record_failure now = (\<lambda>(rate, db). (rate_record now rate, db))"

definition totp_initialize_complete ::
  "serde \<Rightarrow> (byte list \<Rightarrow> byte list) \<Rightarrow> (string \<Rightarrow> string) \<Rightarrow> identity_interface \<Rightarrow> attempt_clock \<Rightarrow>
    session_gen \<Rightarrow> batch_gen \<Rightarrow> string \<Rightarrow> string \<Rightarrow> string option \<Rightarrow> authentication_grant limited" where
  "totp_initialize_complete J H D I k g bg ceremony_id code origin s =
    (if ii_auth_mode I \<noteq> ModeTotp then (Inl TotpDisabled, s)
     else and_run (check_origin I origin, s) (\<lambda>_ s.
       if \<not> is_totp_code_shape code then (Inl InvalidTotpCode, s)
       else and_run (gate (ac_check k) s) (\<lambda>_ s.
         and_run (on_db (take_ceremony ceremony_id ''totp_initialize'' (ac_take k)) s) (\<lambda>raw s.
         and_run (ok_or IdData (Option.bind (json_from_str J raw) totp_initialize_from), s) (\<lambda>state s.
         and_run (ok_or InvalidTotpCode (base32_decode (ti_secret_base32 state)), s) (\<lambda>secret s.
           case verify_totp H secret code (ac_secs k) None of
             None \<Rightarrow> (Inl InvalidTotpCode, record_failure (ac_fail k) s)
           | Some counter \<Rightarrow> on_db (run_tx (\<lambda>db.
               and_then (claim_initialization (ti_token_hash state) (ac_now k)
                 \<lparr>ow_id = ti_owner_id state, ow_display_name = ti_display_name state,
                  ow_totp_secret = Some (ti_secret_base32 state), ow_totp_last_counter = Some counter,
                  ow_last_totp_at = None, ow_created_at = ac_now k\<rparr> db) (\<lambda>db.
               and_then (insert_recovery_codes D bg (ti_owner_id state) (ac_now k) db) (\<lambda>db.
               and_then (insert_session D g (ti_owner_id state) (ac_now k) db) (\<lambda>db.
                 Inr (grant_of I (ti_owner_id state) (ti_display_name state) g
                   (Some (map snd (bg_codes bg))), db)))))) s))))))"

text \<open>The filter of the counter's update: only an older counter matches.\<close>

definition counter_older :: "string \<Rightarrow> int \<Rightarrow> owner_row \<Rightarrow> bool" where
  "counter_older i counter o' \<longleftrightarrow> ow_id o' = i \<and>
     (case ow_totp_last_counter o' of None \<Rightarrow> False | Some c \<Rightarrow> c < counter)"

definition totp_code_login ::
  "(byte list \<Rightarrow> byte list) \<Rightarrow> (string \<Rightarrow> string) \<Rightarrow> identity_interface \<Rightarrow> attempt_clock \<Rightarrow> session_gen \<Rightarrow>
    string \<Rightarrow> authentication_grant limited" where
  "totp_code_login H D I k g code s =
    and_run (the_owner (snd s), s) (\<lambda>owner s.
    and_run (ok_or AuthRequired (find_one (\<lambda>o'. ow_id o' = ow_id owner) (owners (snd s))), s) (\<lambda>row s.
    and_run (ok_or TotpDisabled (ow_totp_secret row), s) (\<lambda>secret_base32 s.
    and_run (ok_or InvalidTotpCode (base32_decode secret_base32), s) (\<lambda>secret s.
      let last_counter = (case ow_totp_last_counter row of None \<Rightarrow> -1 | Some c \<Rightarrow> c)
      in case verify_totp H secret code (ac_secs k) (Some last_counter) of
           None \<Rightarrow> (Inl InvalidTotpCode, record_failure (ac_fail k) s)
         | Some counter \<Rightarrow>
             (let (os, updated) = update_one (counter_older (ow_id owner) counter)
                    (\<lambda>o'. o'\<lparr>ow_totp_last_counter := Some counter, ow_last_totp_at := Some (ac_now k)\<rparr>)
                    (owners (snd s))
              in if updated \<noteq> 1 then (Inl InvalidTotpCode, record_failure (ac_fail k) s)
                 else on_db (run_tx (\<lambda>db.
                   and_then (insert_session D g (ow_id owner) (ac_now k) (db\<lparr>owners := os\<rparr>)) (\<lambda>db.
                     Inr (grant_of I (ow_id owner) (ow_display_name owner) g None, db)))) s)))))"

section \<open>Recovery codes\<close>

definition consume_recovery_code ::
  "(string \<Rightarrow> string) \<Rightarrow> string \<Rightarrow> int \<Rightarrow> identity_db \<Rightarrow> identity_error + (string \<times> identity_db)" where
  "consume_recovery_code D code now db =
    and_then (ok_or InvalidRecoveryCode (find_one (\<lambda>c. rx_code_hash c = purpose_hash D ''recovery-code'' code \<and>
        rx_used_at c = None) (recovery_codes db))) (\<lambda>c.
    and_then (ok_or InvalidRecoveryCode (find_one (\<lambda>b. rb_id b = rx_batch_id c \<and> rb_revoked_at b = None)
        (recovery_batches db))) (\<lambda>batch.
      let (cs, consumed) = update_one (\<lambda>x. rx_id x = rx_id c \<and> rx_used_at x = None)
            (\<lambda>x. x\<lparr>rx_used_at := Some now\<rparr>) (recovery_codes db)
      in if consumed \<noteq> 1 then Inl InvalidRecoveryCode
         else Inr (rb_owner_id batch, db\<lparr>recovery_codes := cs\<rparr>)))"

definition recovery_code_login ::
  "(string \<Rightarrow> string) \<Rightarrow> identity_interface \<Rightarrow> attempt_clock \<Rightarrow> session_gen \<Rightarrow> string \<Rightarrow>
    authentication_grant limited" where
  "recovery_code_login D I k g code s =
    (case consume_recovery_code D code (ac_take k) (snd s) of
       Inl e \<Rightarrow> (Inl e, record_failure (ac_fail k) s)
     | Inr (owner_id, db1) \<Rightarrow> on_db (run_tx (\<lambda>db.
         and_then (ok_or AuthRequired (find_one (\<lambda>o'. ow_id o' = owner_id) (owners db1))) (\<lambda>owner.
         and_then (insert_session D g (ow_id owner) (ac_now k) db1) (\<lambda>db.
           Inr (grant_of I (ow_id owner) (ow_display_name owner) g None, db))))) s)"

definition totp_login ::
  "(byte list \<Rightarrow> byte list) \<Rightarrow> (string \<Rightarrow> string) \<Rightarrow> identity_interface \<Rightarrow> attempt_clock \<Rightarrow> session_gen \<Rightarrow>
    string \<Rightarrow> string option \<Rightarrow> authentication_grant limited" where
  "totp_login H D I k g code origin s =
    (if ii_auth_mode I \<noteq> ModeTotp then (Inl TotpDisabled, s)
     else and_run (check_origin I origin, s) (\<lambda>_ s.
       and_run (gate (ac_check k) s) (\<lambda>_ s.
         if is_totp_code_shape code then totp_code_login H D I k g code s
         else recovery_code_login D I k g code s)))"

definition regenerate_recovery_codes ::
  "(string \<Rightarrow> string) \<Rightarrow> batch_gen \<Rightarrow> auth_context \<Rightarrow> int \<Rightarrow> identity_db \<Rightarrow>
    (identity_error + string list) \<times> identity_db" where
  "regenerate_recovery_codes D bg ax now =
     run_tx (\<lambda>db.
       let bs = update_many (\<lambda>b. rb_owner_id b = ax_owner_id ax \<and> rb_revoked_at b = None)
             (\<lambda>b. b\<lparr>rb_revoked_at := Some now\<rparr>) (recovery_batches db)
       in and_then (insert_recovery_codes D bg (ax_owner_id ax) now (db\<lparr>recovery_batches := bs\<rparr>)) (\<lambda>db.
            Inr (map snd (bg_codes bg), db)))"

definition live_recovery_state :: "string \<Rightarrow> int \<Rightarrow> recovery_state_row \<Rightarrow> bool" where
  "live_recovery_state token_hash now r \<longleftrightarrow>
     ry_token_hash r = token_hash \<and> ry_used_at r = None \<and> now < ry_expires_at r"

definition exchange_recovery ::
  "(string \<Rightarrow> string) \<Rightarrow> int \<Rightarrow> int \<Rightarrow> string \<Rightarrow> string \<Rightarrow> string \<Rightarrow> identity_db \<Rightarrow>
    (identity_error + (string \<times> int)) \<times> identity_db" where
  "exchange_recovery D now consume_now token i code_or_token db =
    (case find_one (live_recovery_state (purpose_hash D ''recovery-state'' code_or_token) now)
         (recovery_states db) of
       Some r \<Rightarrow> (Inr (code_or_token, ry_expires_at r), db)
     | None \<Rightarrow> run_tx (\<lambda>db.
         and_then (consume_recovery_code D code_or_token consume_now db) (\<lambda>(owner, db).
         and_then (recovery_state_insert D i owner token now db) (\<lambda>db.
           Inr ((token, now + RECOVERY_TTL), db)))) db)"

definition recovery_passkey_options ::
  "serde \<Rightarrow> (string \<Rightarrow> string option) \<Rightarrow> (string \<Rightarrow> string) \<Rightarrow> identity_interface \<Rightarrow> webauthn \<Rightarrow>
    int \<Rightarrow> string \<Rightarrow> int \<Rightarrow> string \<Rightarrow> string \<Rightarrow> identity_db \<Rightarrow> (identity_error + (string \<times> json)) \<times> identity_db" where
  "recovery_passkey_options J U D I A now cid cnow recovery_token name db =
    and_run (ok_or InvalidRecoveryCode (find_one
        (live_recovery_state (purpose_hash D ''recovery-state'' recovery_token) now) (recovery_states db)), db)
      (\<lambda>recovery db.
    let display_name = (case find_one (\<lambda>o'. ow_id o' = ry_owner_id recovery) (owners db) of
          None \<Rightarrow> ''Owner'' | Some o' \<Rightarrow> ow_display_name o')
    in and_run (credential_ids A (ry_owner_id recovery) db, db) (\<lambda>exclude db.
       and_run (normalize_name name ''Recovered passkey'', db) (\<lambda>passkey_name db.
         registration_options J U I A cid cnow ''recovery_passkey''
           \<lparr>rs_token_hash = None, rs_owner_id = ry_owner_id recovery, rs_display_name = display_name,
            rs_passkey_name = passkey_name, rs_recovery_state_id = Some (ry_id recovery), rs_state = JNull\<rparr>
           (Some exclude) db)))"

definition recovery_passkey_complete ::
  "serde \<Rightarrow> (string \<Rightarrow> string) \<Rightarrow> identity_interface \<Rightarrow> webauthn \<Rightarrow> int \<Rightarrow> int \<Rightarrow> session_gen \<Rightarrow> string \<Rightarrow>
    string \<Rightarrow> string \<Rightarrow> json \<Rightarrow> identity_db \<Rightarrow> (identity_error + authentication_grant) \<times> identity_db" where
  "recovery_passkey_complete J D I A take_now now g passkey_id recovery_token ceremony_id credential db =
    and_run (take_registration_state J ceremony_id ''recovery_passkey'' take_now db) (\<lambda>state db.
    and_run (ok_or InvalidCeremony (rs_recovery_state_id state), db) (\<lambda>recovery_id db.
    and_run (finish_registration I A credential (rs_state state), db) (\<lambda>passkey db.
    and_run (the_owner db, db) (\<lambda>owner.
      run_tx (\<lambda>db.
        let (rs, consumed) = update_one (\<lambda>r. ry_id r = recovery_id \<and> ry_owner_id r = rs_owner_id state \<and>
               live_recovery_state (purpose_hash D ''recovery-state'' recovery_token) now r)
             (\<lambda>r. r\<lparr>ry_used_at := Some now\<rparr>) (recovery_states db)
        in if consumed \<noteq> 1 then Inl InvalidRecoveryCode
           else and_then (insert_passkey A passkey_id (rs_owner_id state) (rs_passkey_name state) passkey now
                    (db\<lparr>recovery_states := rs\<rparr>)) (\<lambda>db.
                and_then (insert_session D g (rs_owner_id state) now db) (\<lambda>db.
                  Inr (grant_of I (ow_id owner) (ow_display_name owner) g None, db))))))))"

section \<open>Sessions\<close>

text \<open>
  The development owner is created when the count, read outside any transaction, is zero.
\<close>

definition development_owner :: "string \<Rightarrow> int \<Rightarrow> owner_row" where
  "development_owner i now = \<lparr>ow_id = i, ow_display_name = ''Development Owner'', ow_totp_secret = None,
     ow_totp_last_counter = None, ow_last_totp_at = None, ow_created_at = now\<rparr>"

definition insert_development_owner ::
  "int \<Rightarrow> string \<Rightarrow> identity_db \<Rightarrow> (identity_error + unit) \<times> identity_db" where
  "insert_development_owner now i =
     run_tx (\<lambda>db. and_then (insert_owner (development_owner i now) db) (\<lambda>db. Inr ((), db)))"

definition ensure_development_owner ::
  "int \<Rightarrow> string \<Rightarrow> identity_db \<Rightarrow> (identity_error + unit) \<times> identity_db" where
  "ensure_development_owner now i db =
    (if initialization_state db = Initialized then (Inr (), db) else insert_development_owner now i db)"

definition authenticate ::
  "(string \<Rightarrow> string) \<Rightarrow> identity_interface \<Rightarrow> int \<Rightarrow> string \<Rightarrow> int \<Rightarrow> string option \<Rightarrow> identity_db \<Rightarrow>
    (identity_error + auth_context) \<times> identity_db" where
  "authenticate D I dev_now dev_id now session_token db =
    (if ii_development_auth I
     then and_run (ensure_development_owner dev_now dev_id db) (\<lambda>_ db.
          and_run (the_owner db, db) (\<lambda>owner db.
            (Inr \<lparr>ax_owner_id = ow_id owner, ax_display_name = ow_display_name owner, ax_session_id = None,
                  ax_csrf_token = ''development'', ax_development = True\<rparr>, db)))
     else and_run (ok_or AuthRequired session_token, db) (\<lambda>token db.
       and_run (ok_or AuthRequired (find_one (\<lambda>l. ls_token_hash l = purpose_hash D ''login-session'' token \<and>
           ls_revoked_at l = None) (login_sessions db)), db) (\<lambda>login db.
       and_run (ok_or AuthRequired (find_one (\<lambda>o'. ow_id o' = ls_owner_id login) (owners db)), db) (\<lambda>owner db.
         if ls_expires_at login \<le> now then (Inl AuthRequired, db)
         else (Inr \<lparr>ax_owner_id = ls_owner_id login, ax_display_name = ow_display_name owner,
                    ax_session_id = Some (ls_id login), ax_csrf_token = ls_csrf_token login,
                    ax_development = False\<rparr>, db)))))"

definition single_owner_id ::
  "identity_interface \<Rightarrow> int \<Rightarrow> string \<Rightarrow> identity_db \<Rightarrow> (identity_error + string) \<times> identity_db" where
  "single_owner_id I dev_now dev_id db =
    and_run (if ii_development_auth I then ensure_development_owner dev_now dev_id db else (Inr (), db))
      (\<lambda>_ db. and_run (the_owner db, db) (\<lambda>owner db. (Inr (ow_id owner), db)))"

definition logout :: "auth_context \<Rightarrow> int \<Rightarrow> identity_db \<Rightarrow> identity_db" where
  "logout ax now db =
    (case ax_session_id ax of
       None \<Rightarrow> db
     | Some session_id \<Rightarrow>
         db\<lparr>login_sessions := fst (update_one (\<lambda>l. ls_id l = session_id)
              (\<lambda>l. l\<lparr>ls_revoked_at := Some now\<rparr>) (login_sessions db))\<rparr>)"

section \<open>Managing passkeys\<close>

record passkey_view =
  pv_id :: string
  pv_name :: string
  pv_created_at :: int
  pv_last_used_at :: "int option"

definition list_passkeys :: "auth_context \<Rightarrow> identity_db \<Rightarrow> passkey_view list" where
  "list_passkeys ax db =
    map (\<lambda>p. \<lparr>pv_id = pk_id p, pv_name = pk_name p, pv_created_at = pk_created_at p,
               pv_last_used_at = pk_last_used_at p\<rparr>)
      (sort_key pk_created_at
        (filter (\<lambda>p. pk_owner_id p = ax_owner_id ax \<and> pk_revoked_at p = None) (passkeys db)))"

definition add_passkey_options ::
  "serde \<Rightarrow> (string \<Rightarrow> string option) \<Rightarrow> identity_interface \<Rightarrow> webauthn \<Rightarrow> string \<Rightarrow> int \<Rightarrow> auth_context \<Rightarrow>
    string \<Rightarrow> identity_db \<Rightarrow> (identity_error + (string \<times> json)) \<times> identity_db" where
  "add_passkey_options J U I A cid cnow ax name db =
    and_run (credential_ids A (ax_owner_id ax) db, db) (\<lambda>exclude db.
    and_run (normalize_name name ''Passkey'', db) (\<lambda>passkey_name db.
      registration_options J U I A cid cnow ''add_passkey''
        \<lparr>rs_token_hash = None, rs_owner_id = ax_owner_id ax, rs_display_name = ax_display_name ax,
         rs_passkey_name = passkey_name, rs_recovery_state_id = None, rs_state = JNull\<rparr>
        (Some exclude) db))"

definition add_passkey_complete ::
  "serde \<Rightarrow> identity_interface \<Rightarrow> webauthn \<Rightarrow> int \<Rightarrow> int \<Rightarrow> string \<Rightarrow> auth_context \<Rightarrow> string \<Rightarrow> json \<Rightarrow>
    identity_db \<Rightarrow> (identity_error + passkey_view) \<times> identity_db" where
  "add_passkey_complete J I A take_now now passkey_id ax ceremony_id credential db =
    and_run (take_registration_state J ceremony_id ''add_passkey'' take_now db) (\<lambda>state db.
      if rs_owner_id state \<noteq> ax_owner_id ax then (Inl InvalidCeremony, db)
      else and_run (finish_registration I A credential (rs_state state), db) (\<lambda>passkey.
        run_tx (\<lambda>db.
          and_then (insert_passkey A passkey_id (ax_owner_id ax) (rs_passkey_name state) passkey now db) (\<lambda>db.
            Inr (\<lparr>pv_id = passkey_id, pv_name = rs_passkey_name state, pv_created_at = now,
                  pv_last_used_at = None\<rparr>, db)))))"

definition own_active :: "auth_context \<Rightarrow> string \<Rightarrow> passkey_row \<Rightarrow> bool" where
  "own_active ax i p \<longleftrightarrow> pk_id p = i \<and> pk_owner_id p = ax_owner_id ax \<and> pk_revoked_at p = None"

definition rename_passkey ::
  "auth_context \<Rightarrow> string \<Rightarrow> string \<Rightarrow> identity_db \<Rightarrow> (identity_error + unit) \<times> identity_db" where
  "rename_passkey ax i raw_name db =
    and_run (normalize_name raw_name ''Passkey'', db) (\<lambda>name.
      run_tx (\<lambda>db. let (ps, changed) = update_one (own_active ax i) (\<lambda>p. p\<lparr>pk_name := name\<rparr>) (passkeys db)
        in if changed = 0 then Inl PasskeyNotFound else Inr ((), db\<lparr>passkeys := ps\<rparr>)))"

definition revoke_passkey ::
  "auth_context \<Rightarrow> string \<Rightarrow> int \<Rightarrow> identity_db \<Rightarrow> (identity_error + unit) \<times> identity_db" where
  "revoke_passkey ax i now =
     run_tx (\<lambda>db.
       if length (filter (\<lambda>p. pk_owner_id p = ax_owner_id ax \<and> pk_revoked_at p = None) (passkeys db)) \<le> 1
       then Inl LastPasskey
       else let (ps, changed) = update_one (own_active ax i) (\<lambda>p. p\<lparr>pk_revoked_at := Some now\<rparr>) (passkeys db)
         in if changed = 0 then Inl PasskeyNotFound else Inr ((), db\<lparr>passkeys := ps\<rparr>))"

end
