(* ===== verification/Totp_Correct.thy ===== *)
theory Totp_Correct
  imports Totp_Code
begin

text \<open>
  Correctness of the codes of \<open>Totp_Code\<close>: base32 is proved over the bits, first bit first, that the
  shift buffers hold; a verified code is the code of a counter in its window, and every genuine
  code verifies.
\<close>

unbundle bit_operations_syntax

section \<open>Words as bits\<close>

text \<open>The lowest \<open>n\<close> bits of a word, highest first.\<close>

definition to_bits :: "nat \<Rightarrow> 'a::len word \<Rightarrow> bool list" where
  "to_bits n w = rev (map (bit w) [0..<n])"

lemma to_bits_length [simp]: "length (to_bits n w) = n"
  by (simp add: to_bits_def)

lemma to_bits_eq_Nil [simp]: "to_bits n w = [] \<longleftrightarrow> n = 0"
  by (simp add: to_bits_def)

lemma to_bits_0 [simp]: "to_bits 0 w = []"
  by simp

lemma to_bits_zero [simp]: "to_bits n 0 = replicate n False"
  by (rule nth_equalityI) (auto simp: to_bits_def rev_nth)

lemma to_bits_cong: "(\<And>i. i < n \<Longrightarrow> bit v i = bit w i) \<Longrightarrow> to_bits n v = to_bits n w"
  by (simp add: to_bits_def)

lemma to_bits_append:
  "to_bits (m + k) w = rev (map (\<lambda>i. bit w (i + k)) [0..<m]) @ to_bits k w"
proof -
  have "[0..<m + k] = [0..<k] @ map (\<lambda>i. i + k) [0..<m]"
    using upt_add_eq_append [of 0 k m] map_add_upt [of k m] by (simp add: add.commute)
  then show ?thesis by (simp add: to_bits_def comp_def)
qed

lemma to_bits_shift_in:
  fixes b :: "32 word" and v :: byte
  assumes "m + k \<le> 32" "\<And>i. k \<le> i \<Longrightarrow> \<not> bit v i"
  shows "to_bits (m + k) (push_bit k b OR ucast v) = to_bits m b @ to_bits k v"
proof -
  have "rev (map (\<lambda>i. bit (push_bit k b OR ucast v :: 32 word) (i + k)) [0..<m]) = to_bits m b"
    using assms by (simp add: to_bits_def bit_simps)
  moreover have "to_bits k (push_bit k b OR ucast v :: 32 word) = to_bits k v"
    using assms(1) by (simp add: to_bits_def bit_simps)
  ultimately show ?thesis by (simp add: to_bits_append)
qed

lemma to_bits_take:
  assumes "k \<le> n" "n \<le> LENGTH('a)"
  shows "take k (to_bits n (b :: 'a::len word)) = to_bits k (drop_bit (n - k) b)"
    and "drop k (to_bits n b) = to_bits (n - k) b"
proof -
  have n: "to_bits n b = rev (map (\<lambda>i. bit b (i + (n - k))) [0..<k]) @ to_bits (n - k) b"
    using to_bits_append [of k "n - k" b] assms by simp
  show "take k (to_bits n b) = to_bits k (drop_bit (n - k) b)"
    unfolding n by (simp add: to_bits_def bit_simps add.commute)
  show "drop k (to_bits n b) = to_bits (n - k) b" unfolding n by simp
qed

definition of_bits :: "bool list \<Rightarrow> nat" where
  "of_bits xs = horner_sum of_bool 2 (rev xs)"

lemma of_bits_to_bits: "of_bits (to_bits n w) = take_bit n (unat w)"
proof -
  have "map (bit w) [0..<n] = map (bit (unat w)) [0..<n]" by (simp add: bit_simps)
  then have "of_bits (to_bits n w) = horner_sum of_bool 2 (map (bit (unat w)) [0..<n])"
    by (simp only: of_bits_def to_bits_def rev_rev_ident)
  then show ?thesis by (simp only: horner_sum_bit_eq_take_bit)
qed

lemma of_bits_less: "of_bits xs < 2 ^ length xs"
proof -
  have "take_bit (length xs) (of_bits xs) = of_bits xs"
    by (rule bit_eqI) (auto simp: of_bits_def bit_simps bit_horner_sum_bit_iff)
  then show ?thesis using take_bit_nat_less_exp [of "length xs" "of_bits xs"] by simp
qed

lemma to_bits_of_bits:
  assumes "length xs = n" "n \<le> LENGTH('a)"
  shows "to_bits n (word_of_nat (of_bits xs) :: 'a::len word) = xs"
proof -
  have "map (bit (word_of_nat (of_bits xs) :: 'a word)) [0..<n] = rev xs"
    using assms by (intro nth_equalityI) (auto simp: of_bits_def bit_of_nat_iff bit_horner_sum_bit_iff)
  then show ?thesis by (simp add: to_bits_def)
qed

lemma to_bits_inject: "to_bits LENGTH('a) v = to_bits LENGTH('a) w \<Longrightarrow> v = (w :: 'a::len word)"
proof (rule bit_word_eqI)
  fix i assume eq: "to_bits LENGTH('a) v = to_bits LENGTH('a) w" and i: "i < LENGTH('a)"
  from eq have "map (bit v) [0..<LENGTH('a)] ! i = map (bit w) [0..<LENGTH('a)] ! i"
    by (simp only: to_bits_def rev_is_rev_conv)
  then show "bit v i = bit w i" using i by simp
qed

section \<open>Base32 over bits\<close>

text \<open>The reference: groups of five bits, the last one filled with zeros.\<close>

definition letter :: "bool list \<Rightarrow> char" where
  "letter g = ALPHABET ! of_bits g"

fun letters :: "bool list \<Rightarrow> string" where
  "letters xs =
    (if 5 \<le> length xs then letter (take 5 xs) # letters (drop 5 xs)
     else if xs = [] then [] else [letter (xs @ replicate (5 - length xs) False)])"

fun bytes_of :: "bool list \<Rightarrow> byte list" where
  "bytes_of xs = (if 8 \<le> length xs then word_of_nat (of_bits (take 8 xs)) # bytes_of (drop 8 xs) else [])"

declare letters.simps [simp del] bytes_of.simps [simp del]

lemma letter_low_bits: "ALPHABET ! unat (w AND 0x1F :: 32 word) = letter (to_bits 5 w)"
proof -
  have "w AND 0x1F = take_bit 5 w" using take_bit_eq_mask [of 5 w] by (simp add: mask_eq_exp_minus_1)
  then show ?thesis by (simp add: letter_def of_bits_to_bits unsigned_take_bit_eq)
qed

lemma emit_letters:
  assumes "bits \<le> 32" "base32_emit buffer bits = (out, left)"
  shows "left < 5 \<and> out @ letters (to_bits left buffer @ ys) = letters (to_bits bits buffer @ ys)"
  using assms
proof (induction bits arbitrary: out rule: less_induct)
  case (less bits)
  show ?case
  proof (cases "5 \<le> bits")
    case False
    then show ?thesis using less.prems by (simp add: base32_emit.simps [of buffer bits])
  next
    case True
    obtain out' where rest: "base32_emit buffer (bits - 5) = (out', left)"
      and out: "out = letter (to_bits 5 (drop_bit (bits - 5) buffer)) # out'"
      using less.prems True
      by (cases "base32_emit buffer (bits - 5)") (auto simp: base32_emit.simps [of buffer bits] letter_low_bits)
    have "letters (to_bits bits buffer @ ys) =
        letter (to_bits 5 (drop_bit (bits - 5) buffer)) # letters (to_bits (bits - 5) buffer @ ys)"
      using True less.prems to_bits_take [of 5 bits buffer] by (subst letters.simps) simp
    then show ?thesis using less.IH [OF _ _ rest] True less.prems(1) out by auto
  qed
qed

lemma high_bits_byte: "8 \<le> i \<Longrightarrow> \<not> bit (b :: byte) i"
  using bit_imp_le_length [of b i] by auto

lemma encode_letters:
  assumes "bits < 5"
  shows "base32_encode_from buffer bits bs = letters (to_bits bits buffer @ concat (map (to_bits 8) bs))"
  using assms
proof (induction bs arbitrary: buffer bits)
  case Nil
  have "to_bits 5 (push_bit (5 - bits) buffer) = to_bits bits buffer @ replicate (5 - bits) False"
    using to_bits_shift_in [of bits "5 - bits" 0 buffer] Nil by simp
  then show ?case using Nil by (subst letters.simps) (auto simp: letter_low_bits)
next
  case (Cons b bs)
  let ?buf = "push_bit 8 buffer OR ucast b"
  obtain out left where emit: "base32_emit ?buf (bits + 8) = (out, left)" by fastforce
  have "to_bits (bits + 8) ?buf = to_bits bits buffer @ to_bits 8 b"
    by (rule to_bits_shift_in) (use Cons.prems high_bits_byte in auto)
  then have "left < 5" "out @ letters (to_bits left ?buf @ concat (map (to_bits 8) bs)) =
      letters (to_bits bits buffer @ to_bits 8 b @ concat (map (to_bits 8) bs))"
    using emit_letters [OF _ emit, of "concat (map (to_bits 8) bs)"] Cons.prems by auto
  then show ?case using Cons.IH [of left ?buf] emit by (simp add: Let_def)
qed

lemma alphabet_char:
  assumes "n < 32"
  shows "ALPHABET ! n = char_of (if n < 26 then 65 + n else 24 + n)"
proof -
  have "ALPHABET = map (\<lambda>n. char_of (if n < 26 then 65 + n else 24 + n)) [0..<32]" by code_simp
  from arg_cong [OF this, of "\<lambda>s. s ! n"] show ?thesis using assms by (simp only: nth_map length_upt nth_upt) simp
qed

lemma symbol_letter:
  assumes "length g = 5"
  shows "base32_symbol_of (letter g) = Symbol (word_of_nat (of_bits g))"
  using of_bits_less [of g] assms by (auto simp: letter_def alphabet_char base32_symbol_of_def Let_def)

lemma high_bits_group:
  assumes "length g = 5" "5 \<le> i"
  shows "\<not> bit (word_of_nat (of_bits g) :: byte) i"
  using assms by (simp add: bit_of_nat_iff of_bits_def bit_horner_sum_bit_iff)

lemma low_byte: "(ucast (w AND 0xFF :: 32 word) :: byte) = word_of_nat (of_bits (to_bits 8 w))"
proof -
  have "w AND 0xFF = take_bit 8 w" using take_bit_eq_mask [of 8 w] by (simp add: mask_eq_exp_minus_1)
  then show ?thesis by (simp add: of_bits_to_bits flip: unsigned_take_bit_eq)
qed

lemma append_single: "(@) [x] = (#) x" and append_none: "(@) [] = id"
  by (simp_all add: fun_eq_iff)

text \<open>Reading one group of five bits.\<close>

lemma decode_group:
  assumes "bits < 8" "length g = 5"
  shows "\<exists>buffer' bits'. bits' < 8 \<and>
    (\<forall>rest. base32_decode_from buffer bits (letter g # rest) =
      map_option ((@) (bytes_of (to_bits bits buffer @ g))) (base32_decode_from buffer' bits' rest)) \<and>
    (\<forall>ys. bytes_of (to_bits bits buffer @ g @ ys) =
      bytes_of (to_bits bits buffer @ g) @ bytes_of (to_bits bits' buffer' @ ys))"
proof -
  let ?v = "word_of_nat (of_bits g) :: byte"
  let ?buf = "push_bit 5 buffer OR ucast ?v"
  have all: "to_bits (bits + 5) ?buf = to_bits bits buffer @ g"
    using to_bits_shift_in [of bits 5 ?v buffer] assms high_bits_group to_bits_of_bits [of g 5, where 'a = 8]
    by simp
  have sym: "base32_symbol_of (letter g) = Symbol ?v" by (rule symbol_letter [OF assms(2)])
  show ?thesis
  proof (cases "8 \<le> bits + 5")
    case True
    have cut: "take 8 (to_bits bits buffer @ g) = to_bits 8 (drop_bit (bits + 5 - 8) ?buf)"
      "drop 8 (to_bits bits buffer @ g) = to_bits (bits + 5 - 8) ?buf"
      unfolding all [symmetric] using to_bits_take [of 8 "bits + 5" ?buf] True assms by simp_all
    have one: "bytes_of (to_bits bits buffer @ g) = [ucast (drop_bit (bits + 5 - 8) ?buf AND 0xFF)]"
      using True assms cut by (subst bytes_of.simps) (simp add: low_byte bytes_of.simps [of "to_bits _ _"])
    have "bytes_of (to_bits bits buffer @ g @ ys) =
        ucast (drop_bit (bits + 5 - 8) ?buf AND 0xFF) # bytes_of (to_bits (bits + 5 - 8) ?buf @ ys)" for ys
      using True assms cut bytes_of.simps [of "(to_bits bits buffer @ g) @ ys"]
      by (simp add: low_byte del: append_assoc) (simp add: append_assoc)
    then show ?thesis
      using True assms sym one by (intro exI [of _ ?buf] exI [of _ "bits + 5 - 8"]) (simp add: Let_def append_single)
  next
    case False
    then have "bytes_of (to_bits bits buffer @ g) = []" using assms by (subst bytes_of.simps) simp
    then show ?thesis
      using False all sym by (intro exI [of _ ?buf] exI [of _ "bits + 5"])
        (simp add: Let_def append_none option.map_id)
  qed
qed

text \<open>The bits with the zeros that fill the last group.\<close>

fun padded :: "bool list \<Rightarrow> bool list" where
  "padded xs =
    (if 5 \<le> length xs then take 5 xs @ padded (drop 5 xs)
     else if xs = [] then [] else xs @ replicate (5 - length xs) False)"

declare padded.simps [simp del]

lemma padded_eq: "\<exists>zs. padded xs = xs @ zs \<and> length zs < 5"
proof (induction xs rule: padded.induct)
  case (1 xs)
  show ?case
  proof (cases "5 \<le> length xs")
    case True
    then obtain zs where "padded (drop 5 xs) = drop 5 xs @ zs" "length zs < 5" using 1 by blast
    then show ?thesis using True by (subst padded.simps) (auto simp flip: append_assoc)
  next
    case False
    then show ?thesis by (subst padded.simps) (cases xs; auto)
  qed
qed

lemma decode_letters:
  assumes "bits < 8"
  shows "base32_decode_from buffer bits (letters xs) = Some (bytes_of (to_bits bits buffer @ padded xs))"
  using assms
proof (induction xs arbitrary: buffer bits rule: letters.induct)
  case (1 xs)
  consider "5 \<le> length xs" | "xs = []" | "length xs < 5" "xs \<noteq> []" by linarith
  then show ?case
  proof cases
    case 1
    note long = this
    obtain buffer' bits' where bits': "bits' < 8"
      and step: "\<And>rest. base32_decode_from buffer bits (letter (take 5 xs) # rest) =
        map_option ((@) (bytes_of (to_bits bits buffer @ take 5 xs))) (base32_decode_from buffer' bits' rest)"
      and out: "\<And>ys. bytes_of (to_bits bits buffer @ take 5 xs @ ys) =
        bytes_of (to_bits bits buffer @ take 5 xs) @ bytes_of (to_bits bits' buffer' @ ys)"
      using decode_group [OF "1.prems", of "take 5 xs" buffer] long by auto
    have "letters xs = letter (take 5 xs) # letters (drop 5 xs)" "padded xs = take 5 xs @ padded (drop 5 xs)"
      using long by (simp_all add: letters.simps [of xs] padded.simps [of xs])
    then show ?thesis using "1.IH" [OF long bits', of buffer'] step out by simp
  next
    case 2
    then show ?thesis using "1.prems" by (simp add: letters.simps padded.simps bytes_of.simps)
  next
    case 3
    let ?g = "xs @ replicate (5 - length xs) False"
    have "length ?g = 5" using 3 by simp
    then obtain buffer' bits' where "bits' < 8"
      and step: "\<And>rest. base32_decode_from buffer bits (letter ?g # rest) =
        map_option ((@) (bytes_of (to_bits bits buffer @ ?g))) (base32_decode_from buffer' bits' rest)"
      using decode_group [OF "1.prems", of ?g buffer] by blast
    then show ?thesis using step [of "[]"] 3 by (simp add: letters.simps [of xs] padded.simps [of xs])
  qed
qed

lemma bytes_of_concat: "length zs < 8 \<Longrightarrow> bytes_of (concat (map (to_bits 8) bs) @ zs) = bs"
proof (induction bs)
  case Nil
  then show ?case by (simp add: bytes_of.simps)
next
  case (Cons b bs)
  have "word_of_nat (of_bits (to_bits 8 b)) = b"
    using take_bit_length_eq [of b] by (simp add: of_bits_to_bits flip: unsigned_take_bit_eq)
  then show ?case using Cons by (simp add: bytes_of.simps [of "to_bits 8 b @ _"])
qed

text \<open>
  C36. Base32 loses nothing: decoding the encoding of any bytes gives these bytes, although the shift
  buffers of both directions are 32 bits wide and lose the bits that leave them, and although the
  encoder writes no padding.
\<close>

theorem base32_roundtrip: "base32_decode (base32_encode bs) = Some bs"
proof -
  obtain zs where "padded (concat (map (to_bits 8) bs)) = concat (map (to_bits 8) bs) @ zs" "length zs < 5"
    using padded_eq by blast
  then show ?thesis
    using bytes_of_concat [of zs bs] by (simp add: base32_decode_def base32_encode_def encode_letters decode_letters)
qed

section \<open>Comparison and format\<close>

lemma or_fold_zero:
  "fold (\<lambda>(a, b) diff. diff OR (a XOR b)) ps d = 0 \<longleftrightarrow> d = 0 \<and> (\<forall>(a, b) \<in> set ps. a = (b :: 'a::len word))"
proof (induction ps arbitrary: d)
  case (Cons p ps)
  obtain a b where "p = (a, b)" by fastforce
  moreover have "d OR (a XOR b) = 0 \<longleftrightarrow> d = 0 \<and> a = b" by (auto simp: or_eq_0_iff bit_eq_iff bit_simps)
  ultimately show ?case using Cons by auto
qed simp

lemma constant_time_eq_iff: "constant_time_eq xs ys \<longleftrightarrow> xs = ys"
  by (auto simp: constant_time_eq_def or_fold_zero list_eq_iff_zip_eq)

lemma as_bytes_inject: "as_bytes s = as_bytes t \<longleftrightarrow> s = t"
proof -
  have "inj (\<lambda>c. word_of_nat (of_char c) :: byte)"
  proof (rule injI)
    fix c d :: char
    assume "(word_of_nat (of_char c) :: byte) = word_of_nat (of_char d)"
    then have "unat (word_of_nat (of_char c) :: byte) = unat (word_of_nat (of_char d) :: byte)" by simp
    then have "(of_char c mod 256 :: nat) = of_char d mod 256" by (simp add: unat_of_nat)
    then show "c = d" by (metis of_char_mod_256 of_char_eq_iff)
  qed
  then show ?thesis by (simp add: as_bytes_def inj_map_eq_map)
qed

lemma string_of_nat_length:
  assumes "n < 10 ^ k" "0 < k"
  shows "length (string_of_nat n) \<le> k"
  using assms
proof (induction k arbitrary: n)
  case (Suc k)
  show ?case
  proof (cases "n < 10")
    case True
    then show ?thesis by (subst string_of_nat.simps) simp
  next
    case False
    then have "n div 10 < 10 ^ k" "0 < k" using Suc.prems by (auto intro: gr0I)
    then show ?thesis using Suc.IH [of "n div 10"] False by (subst string_of_nat.simps) simp
  qed
qed simp

lemma string_of_nat_ascii: "c \<in> set (string_of_nat n) \<Longrightarrow> is_ascii_digit c"
proof (induction n rule: string_of_nat.induct)
  case (1 n)
  then show ?case
    by (subst (asm) string_of_nat.simps) (auto simp: is_ascii_digit_def split: if_splits)
qed

lemma totp_code_small: "unat (totp_code H secret counter) < 1000000"
  by (simp add: totp_code_def Let_def unat_mod_distrib)

text \<open>Every code has the shape by which \<open>totp_login\<close> tells codes from recovery codes.\<close>

lemma code_shape: "is_totp_code_shape (six_digits (unat (totp_code H secret counter)))"
proof -
  let ?s = "string_of_nat (unat (totp_code H secret counter))"
  have "length ?s \<le> 6" using string_of_nat_length [of "unat (totp_code H secret counter)" 6] totp_code_small by simp
  then show ?thesis
    using string_of_nat_ascii
    by (auto simp: is_totp_code_shape_def six_digits_def Let_def list_all_iff is_ascii_digit_def)
qed

text \<open>No index leaves the digest, given that SHA-1 has twenty bytes.\<close>

lemma totp_offset_in_digest:
  assumes "\<And>x. length (H x) = 20"
  shows "unat (hmac_sha1 H secret msg ! 19 AND 0x0F) + 3 < length (hmac_sha1 H secret msg)"
proof -
  have low: "unat (w AND 0x0F :: byte) < 16" for w
  proof -
    have "w AND 0x0F = take_bit 4 w" using take_bit_eq_mask [of 4 w] by (simp add: mask_eq_exp_minus_1)
    then show ?thesis using take_bit_nat_less_exp [of 4 "unat w"] by (simp add: unsigned_take_bit_eq)
  qed
  have "length (hmac_sha1 H secret msg) = 20" using assms by (simp add: hmac_sha1_def Let_def)
  then show ?thesis using low [of "hmac_sha1 H secret msg ! 19"] by linarith
qed

section \<open>Verification\<close>

definition genuine :: "(byte list \<Rightarrow> byte list) \<Rightarrow> byte list \<Rightarrow> int \<Rightarrow> string \<Rightarrow> bool" where
  "genuine H secret counter code \<longleftrightarrow> code = six_digits (unat (totp_code H secret (word_of_int counter)))"

definition admissible :: "int option \<Rightarrow> int \<Rightarrow> bool" where
  "admissible min_counter c \<longleftrightarrow> 0 \<le> c \<and> (case min_counter of None \<Rightarrow> True | Some m \<Rightarrow> m < c)"

lemma verify_candidates_eq:
  "verify_candidates H secret code m cs = List.find (\<lambda>c. admissible m c \<and> genuine H secret c code) cs"
  by (induction cs) (auto simp: admissible_def genuine_def constant_time_eq_iff as_bytes_inject split: option.splits)

lemma verify_totp_Some:
  assumes "verify_totp H secret code now m = Some c"
  shows "\<bar>c - now div TOTP_WINDOW_SECS\<bar> \<le> 1" "admissible m c" "genuine H secret c code"
  using assms by (auto simp: verify_totp_def verify_candidates_eq Let_def split: if_splits)

lemma genuine_verifies:
  assumes "genuine H secret c code" "admissible m c" "\<bar>c - now div TOTP_WINDOW_SECS\<bar> \<le> 1"
  shows "\<exists>c'. verify_totp H secret code now m = Some c'"
proof -
  have "c \<in> {now div TOTP_WINDOW_SECS - 1, now div TOTP_WINDOW_SECS, now div TOTP_WINDOW_SECS + 1}"
    using assms(3) by auto
  then show ?thesis using assms(1,2) by (auto simp: verify_totp_def verify_candidates_eq Let_def)
qed

end
