(* ===== verification/Identity_Safety.thy ===== *)
theory Identity_Safety
  imports Identity_Auth Totp_Correct Janus_Interfaces
begin

text \<open>
  What every operation of the identity capability keeps: the unique keys of its collections, at
  most one owner, and the monotone facts on which single use rests. A consumed recovery code stays
  consumed, a revoked session stays revoked, and the last accepted one-time counter never falls.
\<close>

section \<open>Progress of a collection\<close>

definition follows :: "('r \<Rightarrow> 'r \<Rightarrow> bool) \<Rightarrow> 'r list \<Rightarrow> 'r list \<Rightarrow> bool" where
  "follows R xs ys \<longleftrightarrow> (\<forall>x \<in> set xs. \<exists>y \<in> set ys. R x y)"

lemma follows_refl: "(\<And>x. R x x) \<Longrightarrow> follows R xs xs"
  by (auto simp: follows_def)

lemma follows_trans:
  "(\<And>x y z. R x y \<Longrightarrow> R y z \<Longrightarrow> R x z) \<Longrightarrow> follows R xs ys \<Longrightarrow> follows R ys zs \<Longrightarrow> follows R xs zs"
  unfolding follows_def by meson

lemma follows_append: "(\<And>x. R x x) \<Longrightarrow> follows R xs (xs @ ys)"
  by (auto simp: follows_def)

lemma follows_update_one:
  assumes "\<And>x. R x x" "\<And>x. P x \<Longrightarrow> R x (f x)"
  shows "follows R xs (fst (update_one P f xs))"
  unfolding follows_def
proof
  fix x assume "x \<in> set xs"
  then show "\<exists>y \<in> set (fst (update_one P f xs)). R x y"
    by (induction xs) (use assms in auto)
qed

definition code_follows :: "recovery_code_row \<Rightarrow> recovery_code_row \<Rightarrow> bool" where
  "code_follows x y \<longleftrightarrow> rx_id y = rx_id x \<and> rx_code_hash y = rx_code_hash x \<and>
     (rx_used_at x \<noteq> None \<longrightarrow> rx_used_at y \<noteq> None)"

definition session_follows :: "login_session_row \<Rightarrow> login_session_row \<Rightarrow> bool" where
  "session_follows x y \<longleftrightarrow> ls_id y = ls_id x \<and> ls_token_hash y = ls_token_hash x \<and>
     ls_owner_id y = ls_owner_id x \<and> ls_expires_at y = ls_expires_at x \<and>
     (ls_revoked_at x \<noteq> None \<longrightarrow> ls_revoked_at y \<noteq> None)"

definition owner_follows :: "owner_row \<Rightarrow> owner_row \<Rightarrow> bool" where
  "owner_follows x y \<longleftrightarrow> ow_id y = ow_id x \<and> ow_totp_secret y = ow_totp_secret x \<and>
     (\<forall>c. ow_totp_last_counter x = Some c \<longrightarrow> (\<exists>c'. ow_totp_last_counter y = Some c' \<and> c \<le> c'))"

lemma follows_rules:
  "code_follows x x" "session_follows s s" "owner_follows w w"
  "code_follows x y \<Longrightarrow> code_follows y z \<Longrightarrow> code_follows x z"
  "session_follows s t \<Longrightarrow> session_follows t u \<Longrightarrow> session_follows s u"
  "owner_follows w v \<Longrightarrow> owner_follows v v' \<Longrightarrow> owner_follows w v'"
  by (auto simp: code_follows_def session_follows_def owner_follows_def intro: order_trans)

section \<open>The invariant and safe changes\<close>

definition identity_ok :: "identity_db \<Rightarrow> bool" where
  "identity_ok db \<longleftrightarrow>
     length (owners db) \<le> 1 \<and>
     distinct (map ls_id (login_sessions db)) \<and> distinct (map ls_token_hash (login_sessions db)) \<and>
     distinct (map rx_id (recovery_codes db)) \<and> distinct (map rx_code_hash (recovery_codes db))"

definition safe :: "identity_db \<Rightarrow> identity_db \<Rightarrow> bool" where
  "safe db db' \<longleftrightarrow>
     (identity_ok db \<longrightarrow> identity_ok db') \<and>
     follows owner_follows (owners db) (owners db') \<and>
     follows session_follows (login_sessions db) (login_sessions db') \<and>
     follows code_follows (recovery_codes db) (recovery_codes db')"

lemma safe_refl [simp]: "safe db db"
  by (simp add: safe_def follows_refl follows_rules)

lemma safe_trans: "safe a b \<Longrightarrow> safe b c \<Longrightarrow> safe a c"
  unfolding safe_def by (blast intro: follows_trans follows_rules(4-6))

text \<open>Changes of the collections the invariant does not name.\<close>

lemma safe_frame:
  assumes "owners db' = owners db" "login_sessions db' = login_sessions db" "recovery_codes db' = recovery_codes db"
  shows "safe db db'"
  using assms by (simp add: safe_def identity_ok_def follows_refl follows_rules)

text \<open>A sequence of calls is safe when each of them is.\<close>

lemma safe_and_run:
  assumes "safe db (snd m)" "\<And>a w. fst m = Inr a \<Longrightarrow> w = snd m \<Longrightarrow> safe w (snd (k a w))"
  shows "safe db (snd (and_run m k))"
  using assms by (cases m; cases "fst m") (auto simp: and_run_def intro: safe_trans)

lemma safe_run_tx:
  assumes "\<And>a db'. body db = Inr (a, db') \<Longrightarrow> safe db db'"
  shows "safe db (snd (run_tx body db))"
  using assms by (auto simp: run_tx_def split: sum.splits)

lemma safe_insert_session: "insert_session D g i now db = Inr db' \<Longrightarrow> safe db db'"
  by (auto simp: insert_session_def Let_def unique_by_def and_then_def safe_def identity_ok_def follows_refl
      follows_append follows_rules split: sum.splits if_splits)

lemma safe_insert_passkey: "insert_passkey A i ow n p now db = Inr db' \<Longrightarrow> safe db db'"
  by (auto simp: insert_passkey_def Let_def unique_by_def and_then_def intro: safe_frame split: sum.splits if_splits)

lemma safe_insert_codes: "insert_codes D b cs db = Inr db' \<Longrightarrow> safe db db'"
proof (induction cs arbitrary: db)
  case (Cons c cs)
  let ?row = "\<lparr>rx_id = fst c, rx_batch_id = b, rx_code_hash = purpose_hash D ''recovery-code'' (snd c), rx_used_at = None\<rparr>"
  have fresh: "rx_id ?row \<notin> rx_id ` set (recovery_codes db)"
      "rx_code_hash ?row \<notin> rx_code_hash ` set (recovery_codes db)"
    and rest: "insert_codes D b cs (db\<lparr>recovery_codes := recovery_codes db @ [?row]\<rparr>) = Inr db'"
    using Cons.prems by (auto simp: Let_def unique_by_def and_then_def split: sum.splits if_splits)
  have "safe db (db\<lparr>recovery_codes := recovery_codes db @ [?row]\<rparr>)"
    using fresh by (auto simp: safe_def identity_ok_def follows_refl follows_append follows_rules)
  then show ?case using Cons.IH [OF rest] by (rule safe_trans)
qed simp

lemma safe_insert_recovery_codes: "insert_recovery_codes D g i now db = Inr db' \<Longrightarrow> safe db db'"
proof -
  assume ins: "insert_recovery_codes D g i now db = Inr db'"
  then obtain bs where "insert_codes D (bg_id g) (bg_codes g) (db\<lparr>recovery_batches := bs\<rparr>) = Inr db'"
    by (auto simp: insert_recovery_codes_def Let_def and_then_def split: sum.splits)
  then have "safe (db\<lparr>recovery_batches := bs\<rparr>) db'" by (rule safe_insert_codes)
  moreover have "safe db (db\<lparr>recovery_batches := bs\<rparr>)" by (rule safe_frame) simp_all
  ultimately show ?thesis by (rule safe_trans [rotated])
qed

lemma claim_initialization_InrD:
  assumes "claim_initialization h now row db = Inr db'"
  shows "owners db = []" "owners db' = [row]" "login_sessions db' = login_sessions db"
    "recovery_codes db' = recovery_codes db"
  using assms by (auto simp: claim_initialization_def insert_owner_def insert_one_def Let_def split_beta and_then_def
      ok_or_def split: if_splits sum.splits option.splits)

lemma safe_claim_initialization: "claim_initialization h now row db = Inr db' \<Longrightarrow> safe db db'"
  using claim_initialization_InrD [of h now row db db']
  by (simp add: safe_def identity_ok_def follows_refl follows_rules) (simp add: follows_def)

lemma safe_consume:
  assumes "consume_recovery_code D code now db = Inr (i, db')"
  shows "safe db db'"
proof -
  obtain P f where db': "db' = db\<lparr>recovery_codes := fst (update_one P f (recovery_codes db))\<rparr>"
    and f: "\<And>x. rx_id (f x) = rx_id x" "\<And>x. rx_code_hash (f x) = rx_code_hash x" "\<And>x. rx_used_at (f x) \<noteq> None"
    using assms that [of _ "\<lambda>x. x\<lparr>rx_used_at := Some now\<rparr>"]
    by (auto simp: consume_recovery_code_def and_then_def Let_def split_beta split: sum.splits if_splits)
  have "follows code_follows (recovery_codes db) (recovery_codes db')"
    using f unfolding db' by (auto intro!: follows_update_one simp: follows_rules code_follows_def)
  then show ?thesis
    using f by (auto simp: db' safe_def identity_ok_def follows_refl follows_rules update_one_map)
qed

section \<open>Every operation is safe\<close>

lemma safe_store_ceremony: "safe db (snd (store_ceremony ttl i kind raw now db))"
  unfolding store_ceremony_def
  by (rule safe_run_tx) (auto simp: Let_def and_then_def intro: safe_frame split: sum.splits)

lemma safe_take_ceremony: "safe db (snd (take_ceremony i kind now db))"
  unfolding take_ceremony_def
  by (rule safe_run_tx) (auto simp: Let_def and_then_def split_beta intro: safe_frame split: sum.splits if_splits)

lemma safe_take_registration: "safe db (snd (take_registration_state J i kind now db))"
  unfolding take_registration_state_def by (intro safe_and_run safe_take_ceremony) auto

lemma safe_registration_options: "safe db (snd (registration_options J U I A i now kind seed ex db))"
  unfolding registration_options_def
  by (intro safe_and_run) (auto simp: split_beta intro!: safe_and_run safe_store_ceremony)

lemma safe_issue_initialization_token: "safe db (snd (issue_initialization_token D token now i db))"
  unfolding issue_initialization_token_def
  by (auto intro!: safe_run_tx simp: Let_def and_then_def intro: safe_frame split: sum.splits)

lemma safe_recovery_state_insert: "recovery_state_insert D i ow token now db = Inr db' \<Longrightarrow> safe db db'"
  by (auto simp: recovery_state_insert_def Let_def and_then_def intro: safe_frame split: sum.splits)

lemma safe_issue_recovery_token: "safe db (snd (issue_recovery_token D token now i db))"
  unfolding issue_recovery_token_def
  by (intro safe_and_run safe_run_tx) (auto simp: and_then_def split: sum.splits dest: safe_recovery_state_insert)

lemma safe_initialize_options: "safe db (snd (initialize_options J U D I A now ow cid cnow token name db))"
  unfolding initialize_options_def Let_def by (intro safe_and_run) (auto intro: safe_registration_options)

lemma safe_initialize_complete:
  "safe db (snd (initialize_complete J D I A tnow now g bg pid cid cred db))"
  unfolding initialize_complete_def
  by (intro safe_and_run safe_take_registration safe_run_tx)
    (auto simp: and_then_def split: sum.splits
      dest!: safe_claim_initialization safe_insert_passkey safe_insert_recovery_codes safe_insert_session
      intro: safe_trans)

lemma safe_login_options: "safe db (snd (login_options J I A i now db))"
  unfolding login_options_def Let_def
  by (auto simp: split_beta intro!: safe_and_run safe_store_ceremony)

lemma safe_touch_passkey: "touch_passkey i raw now db = Inr db' \<Longrightarrow> safe db db'"
  by (auto simp: touch_passkey_def Let_def intro: safe_frame split: if_splits)

lemma safe_login_complete: "safe db (snd (login_complete J D I A tnow now g cid cred db))"
  unfolding login_complete_def
  by (intro safe_and_run safe_take_ceremony)
    (auto simp: and_then_def split_beta intro!: safe_run_tx split: sum.splits
      dest!: safe_touch_passkey safe_insert_session intro: safe_trans)

lemma safe_exchange_recovery: "safe db (snd (exchange_recovery D now cnow token i code db))"
  unfolding exchange_recovery_def
  by (auto simp: and_then_def intro!: safe_run_tx split: option.splits sum.splits
      dest!: safe_consume safe_recovery_state_insert) (blast intro: safe_trans)

lemma safe_regenerate: "safe db (snd (regenerate_recovery_codes D bg ax now db))"
  unfolding regenerate_recovery_codes_def
proof (rule safe_run_tx)
  fix a db'
  assume body: "(let bs = update_many (\<lambda>b. rb_owner_id b = ax_owner_id ax \<and> rb_revoked_at b = None)
             (\<lambda>b. b\<lparr>rb_revoked_at := Some now\<rparr>) (recovery_batches db)
       in and_then (insert_recovery_codes D bg (ax_owner_id ax) now (db\<lparr>recovery_batches := bs\<rparr>)) (\<lambda>db.
            Inr (map snd (bg_codes bg), db))) = Inr (a, db')"
  then obtain bs where "insert_recovery_codes D bg (ax_owner_id ax) now (db\<lparr>recovery_batches := bs\<rparr>) = Inr db'"
    by (auto simp: Let_def and_then_def split: sum.splits)
  then have "safe (db\<lparr>recovery_batches := bs\<rparr>) db'" by (rule safe_insert_recovery_codes)
  moreover have "safe db (db\<lparr>recovery_batches := bs\<rparr>)" by (rule safe_frame) simp_all
  ultimately show "safe db db'" by (rule safe_trans [rotated])
qed

lemma safe_recovery_passkey_options:
  "safe db (snd (recovery_passkey_options J U D I A now cid cnow token name db))"
  unfolding recovery_passkey_options_def Let_def
  by (intro safe_and_run) (auto intro!: safe_and_run safe_registration_options)

lemma safe_recovery_passkey_complete:
  "safe db (snd (recovery_passkey_complete J D I A tnow now g pid token cid cred db))"
proof -
  have used: "safe db (db\<lparr>recovery_states := rs\<rparr>)" for db rs by (rule safe_frame) simp_all
  show ?thesis
    unfolding recovery_passkey_complete_def
    by (intro safe_and_run safe_take_registration safe_run_tx)
      (auto simp: and_then_def Let_def split_beta split: sum.splits if_splits
        dest!: safe_insert_passkey safe_insert_session intro: safe_trans used)
qed

lemma safe_ensure_development_owner: "safe db (snd (ensure_development_owner now i db))"
proof (cases "owners db = []")
  case True
  then have "safe db (db\<lparr>owners := [development_owner i now]\<rparr>)"
    by (simp add: safe_def identity_ok_def follows_refl follows_rules) (simp add: follows_def)
  then show ?thesis using True
    by (simp add: ensure_development_owner_def initialization_state_def insert_development_owner_def insert_owner_def
        insert_one_def run_tx_def)
qed (simp add: ensure_development_owner_def initialization_state_def)

lemma safe_authenticate: "safe db (snd (authenticate D I dn di now token db))"
  unfolding authenticate_def
  by (auto intro!: safe_and_run safe_ensure_development_owner)

lemma safe_single_owner: "safe db (snd (single_owner_id I dn di db))"
  unfolding single_owner_id_def
  by (auto intro!: safe_and_run intro: safe_ensure_development_owner)

lemma safe_logout: "safe db (logout ax now db)"
proof (cases "ax_session_id ax")
  case (Some i)
  let ?ss = "fst (update_one (\<lambda>l. ls_id l = i) (\<lambda>l. l\<lparr>ls_revoked_at := Some now\<rparr>) (login_sessions db))"
  have "follows session_follows (login_sessions db) ?ss"
    by (rule follows_update_one) (auto simp: follows_rules session_follows_def)
  then show ?thesis using Some
    by (auto simp: logout_def safe_def identity_ok_def follows_refl follows_rules update_one_map)
qed (simp add: logout_def)

lemma safe_add_passkey_options: "safe db (snd (add_passkey_options J U I A cid cnow ax name db))"
  unfolding add_passkey_options_def by (intro safe_and_run) (auto intro: safe_registration_options)

lemma safe_add_passkey_complete: "safe db (snd (add_passkey_complete J I A tnow now pid ax cid cred db))"
  unfolding add_passkey_complete_def
  by (intro safe_and_run safe_take_registration)
    (auto simp: and_then_def intro!: safe_and_run safe_run_tx split: sum.splits dest!: safe_insert_passkey)

lemma safe_rename_passkey: "safe db (snd (rename_passkey ax i name db))"
  unfolding rename_passkey_def
  by (intro safe_and_run safe_run_tx) (auto simp: Let_def split_beta intro: safe_frame split: if_splits)

lemma safe_revoke_passkey: "safe db (snd (revoke_passkey ax i now db))"
  unfolding revoke_passkey_def
  by (rule safe_run_tx) (auto simp: Let_def split_beta intro: safe_frame split: if_splits)

section \<open>Logins\<close>

lemma on_db_simps [simp]: "fst (snd (on_db f s)) = fst s" "snd (snd (on_db f s)) = snd (f (snd s))"
    "fst (on_db f s) = fst (f (snd s))"
  by (simp_all add: on_db_def split_beta Let_def)

lemma gate_db [simp]: "snd (snd (gate now s)) = snd s"
  by (simp add: gate_def split_beta Let_def)

lemma record_failure_db [simp]: "snd (record_failure now s) = snd s"
  by (simp add: record_failure_def split_beta)

lemma safe_limited_and_run:
  assumes "safe (snd s) (snd (snd m))" "\<And>a w. fst m = Inr a \<Longrightarrow> w = snd m \<Longrightarrow> safe (snd w) (snd (snd (k a w)))"
  shows "safe (snd s) (snd (snd (and_run m k)))"
  using assms by (cases m; cases "fst m") (auto simp: and_run_def intro: safe_trans)

lemma safe_accept_counter:
  assumes "insert_session D g i now (db\<lparr>owners := fst (update_one (counter_older j counter)
      (\<lambda>o'. o'\<lparr>ow_totp_last_counter := Some counter, ow_last_totp_at := t\<rparr>) (owners db))\<rparr>) = Inr db'"
    (is "insert_session D g i now (db\<lparr>owners := fst (update_one ?P ?f (owners db))\<rparr>) = Inr db'")
  shows "safe db db'"
proof -
  have "follows owner_follows (owners db) (fst (update_one ?P ?f (owners db)))"
    by (rule follows_update_one) (auto simp: follows_rules owner_follows_def counter_older_def split: option.splits)
  then have "safe db (db\<lparr>owners := fst (update_one ?P ?f (owners db))\<rparr>)"
    by (simp add: safe_def identity_ok_def follows_refl follows_rules)
  then show ?thesis using safe_insert_session [OF assms] by (rule safe_trans)
qed

lemma safe_totp_code_login: "safe (snd s) (snd (snd (totp_code_login H D I k g code s)))"
  unfolding totp_code_login_def
  by (intro safe_limited_and_run)
    (auto simp: Let_def split_beta and_then_def intro!: safe_run_tx split: option.splits sum.splits
      dest: safe_accept_counter)

lemma safe_recovery_code_login: "safe (snd s) (snd (snd (recovery_code_login D I k g code s)))"
proof (cases "consume_recovery_code D code (ac_take k) (snd s)")
  case (Inr p)
  obtain i db1 where p: "p = (i, db1)" by fastforce
  have first: "safe (snd s) db1" using Inr safe_consume p by blast
  have "safe (snd s) (snd (run_tx (\<lambda>db.
         and_then (ok_or AuthRequired (find_one (\<lambda>o'. ow_id o' = i) (owners db1))) (\<lambda>owner.
         and_then (insert_session D g (ow_id owner) (ac_now k) db1) (\<lambda>db.
           Inr (grant_of I (ow_id owner) (ow_display_name owner) g None, db)))) (snd s)))"
    by (rule safe_run_tx) (auto simp: and_then_def split: sum.splits dest!: safe_insert_session intro: safe_trans first)
  then show ?thesis by (simp add: recovery_code_login_def Inr p)
qed (simp add: recovery_code_login_def)

lemma safe_totp_login: "safe (snd s) (snd (snd (totp_login H D I k g code origin s)))"
proof -
  have inner: "safe (snd w) (snd (snd (if is_totp_code_shape code then totp_code_login H D I k g code w
      else recovery_code_login D I k g code w)))" for w
    by (simp add: safe_totp_code_login safe_recovery_code_login)
  have "safe (snd w) (snd (snd (and_run (gate (ac_check k) w) (\<lambda>_ s.
      if is_totp_code_shape code then totp_code_login H D I k g code s else recovery_code_login D I k g code s))))"
    for w by (rule safe_limited_and_run) (simp only: gate_db safe_refl, rule inner)
  then show ?thesis unfolding totp_login_def by (cases "check_origin I origin") (simp_all add: and_run_simps)
qed

lemma safe_totp_initialize_options:
  "safe db (snd (totp_initialize_options J pct D I now secret ow cid cnow token name db))"
  unfolding totp_initialize_options_def Let_def store_totp_initialization_def
  by (auto intro!: safe_and_run safe_store_ceremony)

lemma safe_totp_initialize_complete:
  "safe (snd s) (snd (snd (totp_initialize_complete J H D I k g bg cid code origin s)))"
  unfolding totp_initialize_complete_def
  by (auto intro!: safe_limited_and_run safe_take_ceremony safe_run_tx
      simp: and_then_def split: option.splits sum.splits
      dest!: safe_claim_initialization safe_insert_recovery_codes safe_insert_session)
    (blast intro: safe_trans)

section \<open>Steps\<close>

text \<open>
  Any operation of the capability, with any arguments, ids and clock readings. The parameters are
  those of the deployment.
\<close>

inductive identity_step ::
  "serde \<Rightarrow> (string \<Rightarrow> string option) \<Rightarrow> (string \<Rightarrow> string) \<Rightarrow> (byte list \<Rightarrow> byte list) \<Rightarrow> (string \<Rightarrow> string) \<Rightarrow>
    identity_interface \<Rightarrow> webauthn \<Rightarrow> login_rate \<times> identity_db \<Rightarrow> login_rate \<times> identity_db \<Rightarrow> bool"
  for J U pct H D I A where
  issue_token: "identity_step J U pct H D I A (r, db) (r, snd (issue_initialization_token D token now i db))"
| issue_recovery: "identity_step J U pct H D I A (r, db) (r, snd (issue_recovery_token D token now i db))"
| init_options: "identity_step J U pct H D I A (r, db) (r, snd (initialize_options J U D I A now ow cid cnow token name db))"
| init_complete: "identity_step J U pct H D I A (r, db) (r, snd (initialize_complete J D I A tnow now g bg pid cid cred db))"
| login_opts: "identity_step J U pct H D I A (r, db) (r, snd (login_options J I A i now db))"
| login_done: "identity_step J U pct H D I A (r, db) (r, snd (login_complete J D I A tnow now g cid cred db))"
| totp_options: "identity_step J U pct H D I A (r, db)
    (r, snd (totp_initialize_options J pct D I now secret ow cid cnow token name db))"
| totp_complete: "identity_step J U pct H D I A s (snd (totp_initialize_complete J H D I k g bg cid code origin s))"
| totp: "identity_step J U pct H D I A s (snd (totp_login H D I k g code origin s))"
| auth: "identity_step J U pct H D I A (r, db) (r, snd (authenticate D I dn di now tok db))"
| owner: "identity_step J U pct H D I A (r, db) (r, snd (single_owner_id I dn di db))"
| sign_out: "identity_step J U pct H D I A (r, db) (r, logout ax now db)"
| add_options: "identity_step J U pct H D I A (r, db) (r, snd (add_passkey_options J U I A cid cnow ax name db))"
| add_complete: "identity_step J U pct H D I A (r, db) (r, snd (add_passkey_complete J I A tnow now pid ax cid cred db))"
| rename: "identity_step J U pct H D I A (r, db) (r, snd (rename_passkey ax i name db))"
| revoke: "identity_step J U pct H D I A (r, db) (r, snd (revoke_passkey ax i now db))"
| regenerate: "identity_step J U pct H D I A (r, db) (r, snd (regenerate_recovery_codes D bg ax now db))"
| exchange: "identity_step J U pct H D I A (r, db) (r, snd (exchange_recovery D now cnow token i code db))"
| recover_options: "identity_step J U pct H D I A (r, db)
    (r, snd (recovery_passkey_options J U D I A now cid cnow token name db))"
| recover_complete: "identity_step J U pct H D I A (r, db)
    (r, snd (recovery_passkey_complete J D I A tnow now g pid token cid cred db))"

lemmas operations_safe = safe_issue_initialization_token safe_issue_recovery_token safe_initialize_options
  safe_initialize_complete safe_login_options safe_login_complete safe_totp_initialize_options
  safe_totp_initialize_complete safe_totp_login safe_authenticate safe_single_owner safe_logout
  safe_add_passkey_options safe_add_passkey_complete safe_rename_passkey safe_revoke_passkey safe_regenerate
  safe_exchange_recovery safe_recovery_passkey_options safe_recovery_passkey_complete

lemma step_safe: "identity_step J U pct H D I A s t \<Longrightarrow> safe (snd s) (snd t)"
  by (induction rule: identity_step.induct) (simp_all add: operations_safe)

lemma followsD: "follows R xs ys \<Longrightarrow> x \<in> set xs \<Longrightarrow> \<exists>y \<in> set ys. R x y"
  by (simp add: follows_def)

definition code_used :: "string \<Rightarrow> login_rate \<times> identity_db \<Rightarrow> bool" where
  "code_used h s \<longleftrightarrow> (\<exists>r \<in> set (recovery_codes (snd s)). rx_code_hash r = h \<and> rx_used_at r \<noteq> None)"

definition session_revoked :: "string \<Rightarrow> login_rate \<times> identity_db \<Rightarrow> bool" where
  "session_revoked h s \<longleftrightarrow> (\<exists>l \<in> set (login_sessions (snd s)). ls_token_hash l = h \<and> ls_revoked_at l \<noteq> None)"

definition counter_reached :: "string \<times> string option \<times> int \<Rightarrow> login_rate \<times> identity_db \<Rightarrow> bool" where
  "counter_reached k s \<longleftrightarrow> (case k of (i, secret, c) \<Rightarrow>
     \<exists>w \<in> set (owners (snd s)). ow_id w = i \<and> ow_totp_secret w = secret \<and>
       (\<exists>c'. ow_totp_last_counter w = Some c' \<and> c \<le> c'))"

interpretation identity_inv: step_invariant "identity_step J U pct H D I A" "\<lambda>s. identity_ok (snd s)"
  for J U pct H D I A
  by unfold_locales (use step_safe in \<open>auto simp: safe_def\<close>)

interpretation used_codes: step_stable "identity_step J U pct H D I A" "\<lambda>s. identity_ok (snd s)" code_used
  for J U pct H D I A
  by unfold_locales (use step_safe in \<open>fastforce simp: safe_def code_used_def code_follows_def dest: followsD\<close>)

interpretation revoked_sessions: step_stable "identity_step J U pct H D I A" "\<lambda>s. identity_ok (snd s)" session_revoked
  for J U pct H D I A
  by unfold_locales
    (use step_safe in \<open>fastforce simp: safe_def session_revoked_def session_follows_def dest: followsD\<close>)

interpretation reached_counters: step_stable "identity_step J U pct H D I A" "\<lambda>s. identity_ok (snd s)" counter_reached
  for J U pct H D I A
proof unfold_locales
  fix s t k
  assume "identity_step J U pct H D I A s t" "identity_ok (snd s)" "counter_reached k s"
  moreover obtain i x c where k: "k = (i, x, c)" by (cases k)
  ultimately obtain w c0 where w: "w \<in> set (owners (snd s))" "ow_id w = i" "ow_totp_secret w = x"
      "ow_totp_last_counter w = Some c0" "c \<le> c0" and "safe (snd s) (snd t)"
    using step_safe by (auto simp: counter_reached_def)
  then obtain v where "v \<in> set (owners (snd t))" "owner_follows w v" by (auto simp: safe_def dest: followsD)
  then show "counter_reached k t" using w by (fastforce simp: counter_reached_def owner_follows_def k)
qed

end
