(* ===== verification/Identity_Properties.thy ===== *)
theory Identity_Properties
  imports Identity_Safety
begin

text \<open>
  What the identity capability promises: one owner for good, one-time codes and recovery codes that
  are accepted once, logouts that last, and a bound on failed attempts; and two places where
  concurrent requests break such a promise, because a check and the write it guards are separate.
\<close>

section \<open>The owner\<close>

definition empty_identity :: identity_db where
  "empty_identity = \<lparr>owners = [], initialization_tokens = [], passkeys = [], ceremonies = [],
     login_sessions = [], recovery_batches = [], recovery_codes = [], recovery_states = []\<rparr>"

lemma empty_identity_ok: "identity_ok empty_identity"
  by (simp add: identity_ok_def empty_identity_def)

lemma steps_safe: "(identity_step J U pct H D I A)\<^sup>*\<^sup>* s t \<Longrightarrow> safe (snd s) (snd t)"
  by (induction rule: rtranclp_induct) (auto intro: safe_trans step_safe)

text \<open>
  C33. Outside development authentication the deployment has one owner for good: in every state that
  any sequence of requests, one after another, reaches from the empty store there is at most one
  owner, and an owner that exists in such a state is still the only one after any further requests,
  with the same id and the same shared secret. In a deployment with development authentication two
  requests at once can create two owners (\<open>development_owner_race\<close>).
\<close>

theorem owner_fixed_forever:
  assumes "\<not> ii_development_auth I"
    and "(identity_step J U pct H D I A)\<^sup>*\<^sup>* ([], empty_identity) s"
    and "w \<in> set (owners (snd s))"
    and "(identity_step J U pct H D I A)\<^sup>*\<^sup>* s t"
  shows "\<exists>w'. owners (snd t) = [w'] \<and> ow_id w' = ow_id w \<and> ow_totp_secret w' = ow_totp_secret w"
proof -
  have "identity_ok (snd s)" using identity_inv.steps_inv [OF assms(2)] empty_identity_ok by simp
  then have ok: "identity_ok (snd t)" using identity_inv.steps_inv [OF assms(4)] by simp
  obtain w' where w': "w' \<in> set (owners (snd t))" "owner_follows w w'"
    using steps_safe [OF assms(4)] assms(3) by (auto simp: safe_def dest: followsD)
  then have "owners (snd t) = [w']"
    using ok by (cases "owners (snd t)") (auto simp: identity_ok_def)
  then show ?thesis using w'(2) by (simp add: owner_follows_def)
qed

text \<open>Parameters and a deployment for the examples: an engine that accepts everything.\<close>

definition sample_webauthn :: webauthn where
  "sample_webauthn = \<lparr>wa_start_registration = (\<lambda>_ _ _. Some (JNull, JNull)), wa_credential_ok = (\<lambda>_. True),
     wa_finish_registration = (\<lambda>c _. Some c), wa_assertion_ok = (\<lambda>_. True),
     wa_start_authentication = (\<lambda>_. Some (JNull, JNull)), wa_finish_authentication = (\<lambda>c _. Some c),
     wa_result_cred_id = (\<lambda>_. ''id''), wa_parse_passkey = (\<lambda>s. Some (JStr s)), wa_passkey_json = (\<lambda>_. ''key''),
     wa_cred_id = (\<lambda>_. ''id''), wa_update_credential = (\<lambda>k _. k)\<rparr>"

definition deployment :: "bool \<Rightarrow> auth_mode \<Rightarrow> identity_interface" where
  "deployment dev mode = \<lparr>ii_origin = ''https://janus'', ii_development_auth = dev, ii_auth_mode = mode\<rparr>"

definition zero_digest :: "byte list \<Rightarrow> byte list" where
  "zero_digest = (\<lambda>_. replicate 20 0)"

abbreviation sample_step :: "identity_interface \<Rightarrow> login_rate \<times> identity_db \<Rightarrow> login_rate \<times> identity_db \<Rightarrow> bool" where
  "sample_step I \<equiv> identity_step sample_serde Some id zero_digest id I sample_webauthn"

text \<open>A first passkey enrolled with an initialization token, on a codec that knows its ceremony.\<close>

definition enrolment :: registration_state where
  "enrolment = \<lparr>rs_token_hash = Some (purpose_hash id ''initialization-token'' ''t''), rs_owner_id = ''a'',
     rs_display_name = ''Owner'', rs_passkey_name = ''Primary passkey'', rs_recovery_state_id = None, rs_state = JNull\<rparr>"

definition ceremony_serde :: serde where
  "ceremony_serde = \<lparr>json_to_string = (\<lambda>_. ''s''), json_from_str = (\<lambda>_. Some (registration_state_value enrolment))\<rparr>"

definition token_issued :: identity_db where
  "token_issued = snd (issue_initialization_token id ''t'' 1 ''i'' empty_identity)"

definition enrolling :: identity_db where
  "enrolling = snd (initialize_options ceremony_serde Some id (deployment False ModePasskey) sample_webauthn
     2 ''a'' ''c'' 2 ''t'' [] token_issued)"

definition enrolled :: identity_db where
  "enrolled = snd (initialize_complete ceremony_serde id (deployment False ModePasskey) sample_webauthn 3 3
     \<lparr>lg_token = ''s'', lg_csrf = ''x'', lg_session_id = ''l''\<rparr> \<lparr>bg_id = ''b'', bg_codes = []\<rparr> ''p'' ''c'' JNull enrolling)"

abbreviation enrolment_step :: "login_rate \<times> identity_db \<Rightarrow> login_rate \<times> identity_db \<Rightarrow> bool" where
  "enrolment_step \<equiv> identity_step ceremony_serde Some id zero_digest id (deployment False ModePasskey) sample_webauthn"

lemma enrolled_reached: "enrolment_step\<^sup>*\<^sup>* ([], empty_identity) ([], enrolled)"
proof -
  have "enrolment_step ([], empty_identity) ([], token_issued)" "enrolment_step ([], token_issued) ([], enrolling)"
    "enrolment_step ([], enrolling) ([], enrolled)"
    unfolding token_issued_def enrolling_def enrolled_def
    by (rule identity_step.issue_token identity_step.init_options identity_step.init_complete)+
  then show ?thesis by (meson converse_rtranclp_into_rtranclp rtranclp.rtrancl_refl)
qed

lemma no_name: "str_trim [] = []" by code_simp

lemma enrolled_owner: "map ow_id (owners enrolled) = [''a'']"
  by (simp add: enrolled_def enrolling_def token_issued_def initialize_complete_def take_registration_state_def
      take_ceremony_def initialize_options_def registration_options_def store_ceremony_def check_init_token_def
      issue_initialization_token_def initialization_state_def live_init_token_def unique_by_def run_tx_def
      normalize_name_def webauthn_enabled_def deployment_def sample_webauthn_def ceremony_serde_def enrolment_def
      registration_state_value_def registration_state_from_def finish_registration_def claim_initialization_def
      insert_owner_def insert_one_def insert_passkey_def insert_recovery_codes_def insert_session_def
      empty_identity_def INIT_TOKEN_TTL_def CEREMONY_TTL_def Let_def delete_many_def field_str_def field_opt_str_def
      opt_json_def no_name)

theorem owner_fixed_forever_witness:
  "\<exists>w'. owners (snd (issue_initialization_token id ''u'' 4 ''j'' enrolled)) = [w'] \<and> ow_id w' = ''a''"
proof -
  obtain w where w: "w \<in> set (owners enrolled)" "ow_id w = ''a''"
    using enrolled_owner by (cases "owners enrolled") auto
  have "enrolment_step\<^sup>*\<^sup>* ([], enrolled) ([], snd (issue_initialization_token id ''u'' 4 ''j'' enrolled))"
    by (rule r_into_rtranclp) (rule identity_step.issue_token)
  from owner_fixed_forever [OF _ enrolled_reached _ this, of w] w show ?thesis by (auto simp: deployment_def)
qed

section \<open>Recovery codes\<close>

lemma same_key: "distinct (map k xs) \<Longrightarrow> x \<in> set xs \<Longrightarrow> y \<in> set xs \<Longrightarrow> k x = k y \<Longrightarrow> x = y"
  by (auto simp: distinct_map dest: inj_onD)

lemma no_unmarked_twin:
  assumes "distinct (map k xs)" "x \<in> set xs" "k x = h" "mark x \<noteq> None"
  shows "find_one (\<lambda>y. k y = h \<and> mark y = None) xs = None"
  unfolding find_one_None_iff using same_key [OF assms(1)] assms(2-4) by metis

lemma consumed_code_used:
  assumes "consume_recovery_code D code now db = Inr (i, db')" "identity_ok db"
  shows "code_used (purpose_hash D ''recovery-code'' code) (r, db')"
proof -
  obtain c where c: "c \<in> set (recovery_codes db)" "rx_code_hash c = purpose_hash D ''recovery-code'' code"
    and db': "db' = db\<lparr>recovery_codes := fst (update_one (\<lambda>x. rx_id x = rx_id c \<and> rx_used_at x = None)
      (\<lambda>x. x\<lparr>rx_used_at := Some now\<rparr>) (recovery_codes db))\<rparr>"
    and hit: "snd (update_one (\<lambda>x. rx_id x = rx_id c \<and> rx_used_at x = None)
      (\<lambda>x. x\<lparr>rx_used_at := Some now\<rparr>) (recovery_codes db)) = 1"
    using assms(1) by (auto simp: consume_recovery_code_def and_then_def ok_or_def Let_def split_beta
        split: sum.splits option.splits if_splits dest!: find_one_SomeD)
  obtain x where x: "x \<in> set (recovery_codes db)" "rx_id x = rx_id c"
      "x\<lparr>rx_used_at := Some now\<rparr> \<in> set (recovery_codes db')"
    using update_one_hit [of "\<lambda>x. rx_id x = rx_id c \<and> rx_used_at x = None" "\<lambda>x. x\<lparr>rx_used_at := Some now\<rparr>"
        "recovery_codes db"] hit db' by auto
  have "x = c" using assms(2) x(1,2) c(1) by (auto simp: identity_ok_def intro: same_key)
  then show ?thesis
    unfolding code_used_def using x(3) c(2) by (intro bexI [of _ "x\<lparr>rx_used_at := Some now\<rparr>"]) simp_all
qed

lemma used_code_refused:
  assumes "identity_ok (snd t)" "code_used (purpose_hash D ''recovery-code'' code) t"
  shows "consume_recovery_code D code now (snd t) = Inl InvalidRecoveryCode"
proof -
  have "find_one (\<lambda>c. rx_code_hash c = purpose_hash D ''recovery-code'' code \<and> rx_used_at c = None)
      (recovery_codes (snd t)) = None"
    using assms by (auto simp: identity_ok_def code_used_def intro: no_unmarked_twin)
  then show ?thesis by (simp add: consume_recovery_code_def)
qed

text \<open>
  C32. A recovery code opens one session: after it was accepted by a login, no sequence of later
  requests makes it acceptable again, neither for a login nor for the transaction in which a
  recovery is exchanged. The code's row stays consumed, and the unique index on its hash keeps a
  second row from being created.
\<close>

theorem recovery_code_single_use:
  assumes "identity_ok (snd s)" "recovery_code_login D I k g code s = (Inr gr, s1)"
    and "(identity_step J U pct H D I A)\<^sup>*\<^sup>* s1 t"
  shows "fst (recovery_code_login D I k' g' code t) = Inl InvalidRecoveryCode \<and>
    consume_recovery_code D code now (snd t) = Inl InvalidRecoveryCode"
proof -
  obtain i db1 where used: "consume_recovery_code D code (ac_take k) (snd s) = Inr (i, db1)"
    using assms(2) by (cases "consume_recovery_code D code (ac_take k) (snd s)")
      (auto simp: recovery_code_login_def)
  obtain j where ins: "insert_session D g j (ac_now k) db1 = Inr (snd s1)"
    using assms(2) used by (auto simp: recovery_code_login_def on_db_def split_beta Let_def run_tx_def and_then_def
        split: sum.splits)
  have s1: "code_used (purpose_hash D ''recovery-code'' code) s1"
    using consumed_code_used [OF used assms(1)] safe_insert_session [OF ins]
    by (fastforce simp: code_used_def safe_def code_follows_def dest: followsD)
  have ok1: "identity_ok (snd s1)"
    using safe_consume [OF used] safe_insert_session [OF ins] assms(1) by (simp add: safe_def)
  have ok: "identity_ok (snd t)" "code_used (purpose_hash D ''recovery-code'' code) t"
    using identity_inv.steps_inv [OF assms(3) ok1] used_codes.fact_steps [OF assms(3) ok1 s1] by simp_all
  then show ?thesis by (simp add: recovery_code_login_def used_code_refused)
qed

definition sample_owner :: "int option \<Rightarrow> owner_row" where
  "sample_owner c = \<lparr>ow_id = ''o'', ow_display_name = ''Owner'', ow_totp_secret = Some ''AA'',
     ow_totp_last_counter = c, ow_last_totp_at = None, ow_created_at = 0\<rparr>"

definition recovery_db :: identity_db where
  "recovery_db = empty_identity\<lparr>owners := [sample_owner (Some 0)],
     recovery_batches := [\<lparr>rb_id = ''b'', rb_owner_id = ''o'', rb_created_at = 0, rb_revoked_at = None\<rparr>],
     recovery_codes := [\<lparr>rx_id = ''c'', rx_batch_id = ''b'', rx_code_hash = purpose_hash id ''recovery-code'' ''rescue'',
       rx_used_at = None\<rparr>]\<rparr>"

definition sample_clock :: "int \<Rightarrow> attempt_clock" where
  "sample_clock secs = \<lparr>ac_check = 0, ac_fail = 0, ac_take = 1, ac_secs = secs, ac_now = 1\<rparr>"

definition sample_session_gen :: "string \<Rightarrow> session_gen" where
  "sample_session_gen i = \<lparr>lg_token = i, lg_csrf = ''csrf'', lg_session_id = i\<rparr>"

theorem recovery_code_single_use_witness:
  "\<exists>gr s1. recovery_code_login id (deployment False ModeTotp) (sample_clock 60) (sample_session_gen ''s'') ''rescue''
      ([], recovery_db) = (Inr gr, s1) \<and>
    fst (recovery_code_login id (deployment False ModeTotp) (sample_clock 60) (sample_session_gen ''t'') ''rescue'' s1) =
      Inl InvalidRecoveryCode"
proof -
  let ?I = "deployment False ModeTotp"
  obtain gr s1 where login: "recovery_code_login id ?I (sample_clock 60) (sample_session_gen ''s'') ''rescue''
      ([], recovery_db) = (Inr gr, s1)"
    by (auto simp: recovery_code_login_def consume_recovery_code_def recovery_db_def empty_identity_def on_db_def
        run_tx_def insert_session_def unique_by_def sample_owner_def)
  have "identity_ok (snd ([] :: nat list, recovery_db))"
    by (simp add: identity_ok_def recovery_db_def empty_identity_def)
  then have "fst (recovery_code_login id ?I (sample_clock 60) (sample_session_gen ''t'') ''rescue'' s1) =
      Inl InvalidRecoveryCode"
    using recovery_code_single_use [OF _ login rtranclp.rtrancl_refl] by blast
  then show ?thesis using login by blast
qed

section \<open>Logout\<close>

lemma authenticate_InrD:
  assumes "authenticate D I dn di now (Some token) db = (Inr ax, db')" "\<not> ii_development_auth I"
  obtains l where "l \<in> set (login_sessions db)" "ls_token_hash l = purpose_hash D ''login-session'' token"
    "ls_revoked_at l = None" "now < ls_expires_at l" "ax_session_id ax = Some (ls_id l)" "db' = db"
proof (cases "find_one (\<lambda>l. ls_token_hash l = purpose_hash D ''login-session'' token \<and> ls_revoked_at l = None)
    (login_sessions db)")
  case None
  then show ?thesis using assms by (simp add: authenticate_def)
next
  case found: (Some l)
  show ?thesis
  proof (cases "find_one (\<lambda>o'. ow_id o' = ls_owner_id l) (owners db)")
    case None
    then show ?thesis using assms found by (simp add: authenticate_def)
  next
    case (Some w)
    have "now < ls_expires_at l \<and> ax_session_id ax = Some (ls_id l) \<and> db' = db"
      using assms Some found by (auto simp: authenticate_def split: if_splits)
    then show ?thesis using that [of l] find_one_SomeD [OF found] by simp
  qed
qed

text \<open>
  C34. A logout lasts: a token that authenticated a request, and whose session that request's context
  logs out, authenticates no later request, whatever requests come between.
\<close>

theorem logout_lasts:
  assumes "identity_ok db" "\<not> ii_development_auth I"
    and "authenticate D I dn di now (Some token) db = (Inr ax, db1)"
    and "(identity_step J U pct H D I A)\<^sup>*\<^sup>* (r, logout ax now' db1) t"
  shows "authenticate D I dn' di' now'' (Some token) (snd t) = (Inl AuthRequired, snd t)"
proof -
  let ?h = "purpose_hash D ''login-session'' token"
  obtain l where l: "l \<in> set (login_sessions db)" "ls_token_hash l = ?h" and ax: "ax_session_id ax = Some (ls_id l)"
    and db1: "db1 = db"
    by (rule authenticate_InrD [OF assms(3,2)]) blast
  let ?P = "\<lambda>x. ls_id x = ls_id l" and ?f = "\<lambda>x. x\<lparr>ls_revoked_at := Some now'\<rparr>"
  have "snd (update_one ?P ?f (login_sessions db)) = 1" using l(1) by (auto simp: update_one_count)
  then obtain x where x: "x \<in> set (login_sessions db)" "ls_id x = ls_id l"
      "?f x \<in> set (login_sessions (logout ax now' db))"
    using update_one_hit [of ?P ?f "login_sessions db"] by (auto simp: logout_def ax)
  have "x = l" using assms(1) x(1,2) l(1) by (auto simp: identity_ok_def intro: same_key)
  then have revoked: "session_revoked ?h (r, logout ax now' db)"
    unfolding session_revoked_def using x(3) l(2) by (intro bexI [of _ "?f x"]) simp_all
  have ok: "identity_ok (snd (r, logout ax now' db))" using safe_logout assms(1) by (simp add: safe_def)
  have "identity_ok (snd t)" "session_revoked ?h t"
    using identity_inv.steps_inv [OF assms(4) [unfolded db1] ok]
      revoked_sessions.fact_steps [OF assms(4) [unfolded db1] ok revoked] by simp_all
  then have "find_one (\<lambda>l. ls_token_hash l = ?h \<and> ls_revoked_at l = None) (login_sessions (snd t)) = None"
    by (auto simp: identity_ok_def session_revoked_def intro: no_unmarked_twin)
  then show ?thesis using assms(2) by (simp add: authenticate_def)
qed

definition signed_in :: identity_db where
  "signed_in = empty_identity\<lparr>owners := [sample_owner None],
     login_sessions := [\<lparr>ls_id = ''s'', ls_owner_id = ''o'', ls_token_hash = purpose_hash id ''login-session'' ''tok'',
       ls_csrf_token = ''csrf'', ls_created_at = 0, ls_last_seen_at = 0, ls_expires_at = SESSION_IDLE_TTL,
       ls_revoked_at = None\<rparr>]\<rparr>"

theorem logout_lasts_witness:
  "\<exists>ax. authenticate id (deployment False ModePasskey) 0 [] 5 (Some ''tok'') signed_in = (Inr ax, signed_in) \<and>
    authenticate id (deployment False ModePasskey) 0 [] 7 (Some ''tok'') (logout ax 6 signed_in) =
      (Inl AuthRequired, logout ax 6 signed_in)"
proof -
  let ?I = "deployment False ModePasskey"
  obtain ax where first: "authenticate id ?I 0 [] 5 (Some ''tok'') signed_in = (Inr ax, signed_in)"
    by (simp add: authenticate_def deployment_def signed_in_def sample_owner_def SESSION_IDLE_TTL_def)
  have "identity_ok signed_in" by (simp add: identity_ok_def signed_in_def empty_identity_def)
  moreover have "\<not> ii_development_auth ?I" by (simp add: deployment_def)
  ultimately have "authenticate id ?I 0 [] 7 (Some ''tok'') (snd ([] :: nat list, logout ax 6 signed_in)) =
      (Inl AuthRequired, snd ([] :: nat list, logout ax 6 signed_in))"
    by (rule logout_lasts [OF _ _ first rtranclp.rtrancl_refl])
  then show ?thesis using first by (intro exI [of _ ax]) simp
qed

section \<open>One-time codes\<close>

definition last_counter :: "identity_db \<Rightarrow> int option" where
  "last_counter db = Option.bind (find_one (\<lambda>_. True) (owners db)) ow_totp_last_counter"

lemma totp_accepted:
  assumes ok: "identity_ok (snd s)" and login: "totp_code_login H D I k g code s = (Inr gr, s1)"
  obtains w secret c0 c where "owners (snd s) = [w]" "ow_totp_last_counter w = Some c0" "c0 < c"
    "Option.bind (ow_totp_secret w) base32_decode = Some secret" "genuine H secret c code"
    "\<bar>c - ac_secs k div TOTP_WINDOW_SECS\<bar> \<le> 1"
    "owners (snd s1) = [w\<lparr>ow_totp_last_counter := Some c, ow_last_totp_at := Some (ac_now k)\<rparr>]"
proof (cases "owners (snd s)")
  case Nil
  then show ?thesis using login by (simp add: totp_code_login_def the_owner_def)
next
  case (Cons w ws)
  then have ows: "owners (snd s) = [w]" using ok by (auto simp: identity_ok_def)
  show ?thesis
  proof (cases "Option.bind (ow_totp_secret w) base32_decode")
    case None
    then show ?thesis using login ows
      by (cases "ow_totp_secret w") (simp_all add: totp_code_login_def the_owner_def)
  next
    case (Some secret)
    then obtain raw where raw: "ow_totp_secret w = Some raw" "base32_decode raw = Some secret"
      by (cases "ow_totp_secret w") simp_all
    define m where "m = (case ow_totp_last_counter w of None \<Rightarrow> -1 | Some c \<Rightarrow> c)"
    show ?thesis
    proof (cases "verify_totp H secret code (ac_secs k) (Some m)")
      case None
      then show ?thesis using login ows raw by (simp add: totp_code_login_def the_owner_def m_def)
    next
      case (Some c)
      note v = verify_totp_Some [OF Some]
      have older: "counter_older (ow_id w) c w"
        using login ows raw Some by (auto simp: totp_code_login_def the_owner_def m_def [symmetric] split: if_splits)
      then obtain c0 where c0: "ow_totp_last_counter w = Some c0" "c0 < c"
        by (auto simp: counter_older_def split: option.splits)
      have "owners (snd s1) = [w\<lparr>ow_totp_last_counter := Some c, ow_last_totp_at := Some (ac_now k)\<rparr>]"
        using login ows raw Some older
        by (auto simp: totp_code_login_def the_owner_def m_def [symmetric] on_db_def split_beta Let_def run_tx_def
            and_then_def insert_session_def unique_by_def split: sum.splits if_splits)
      then show ?thesis using that [of w c0 c secret] ows c0 raw v by simp
    qed
  qed
qed

text \<open>
  C31. A one-time code is accepted once: when a code login succeeded and, after any requests, another
  one succeeds, the second code belongs to a strictly later counter than the first. Both counters
  lie within one step of the windows in which their codes were presented, and each code is the one
  that the owner's secret has at its counter; so presenting an accepted code again does not log in,
  unless the secret happens to repeat the digits at a later counter.
\<close>

theorem totp_code_single_use:
  assumes "identity_ok (snd s)" and "totp_code_login H D I k g code s = (Inr gr, s1)"
    and "(identity_step J U pct H D I A)\<^sup>*\<^sup>* s1 s2"
    and "totp_code_login H D I k' g' code' s2 = (Inr gr', s3)"
  shows "\<exists>secret c c'. last_counter (snd s1) = Some c \<and> last_counter (snd s3) = Some c' \<and> c < c' \<and>
    genuine H secret c code \<and> genuine H secret c' code' \<and>
    \<bar>c - ac_secs k div TOTP_WINDOW_SECS\<bar> \<le> 1 \<and> \<bar>c' - ac_secs k' div TOTP_WINDOW_SECS\<bar> \<le> 1"
proof -
  obtain w secret c0 c where first: "Option.bind (ow_totp_secret w) base32_decode = Some secret"
      "genuine H secret c code" "\<bar>c - ac_secs k div TOTP_WINDOW_SECS\<bar> \<le> 1"
      "owners (snd s1) = [w\<lparr>ow_totp_last_counter := Some c, ow_last_totp_at := Some (ac_now k)\<rparr>]"
    by (rule totp_accepted [OF assms(1,2)]) blast
  have ok1: "identity_ok (snd s1)"
    using safe_totp_code_login [of s H D I k g code] assms(1,2) by (simp add: safe_def)
  have "counter_reached (ow_id w, ow_totp_secret w, c) s1" using first(4) by (simp add: counter_reached_def)
  then have reached: "counter_reached (ow_id w, ow_totp_secret w, c) s2"
    by (rule reached_counters.fact_steps [OF assms(3) ok1])
  have ok2: "identity_ok (snd s2)" by (rule identity_inv.steps_inv [OF assms(3) ok1])
  obtain v secret' d0 d where second: "owners (snd s2) = [v]" "ow_totp_last_counter v = Some d0" "d0 < d"
      "Option.bind (ow_totp_secret v) base32_decode = Some secret'" "genuine H secret' d code'"
      "\<bar>d - ac_secs k' div TOTP_WINDOW_SECS\<bar> \<le> 1"
      "owners (snd s3) = [v\<lparr>ow_totp_last_counter := Some d, ow_last_totp_at := Some (ac_now k')\<rparr>]"
    by (rule totp_accepted [OF ok2 assms(4)])
  have "ow_totp_secret v = ow_totp_secret w" "c \<le> d0"
    using reached second(1,2) by (auto simp: counter_reached_def)
  then have "secret' = secret" "c < d" using first(1) second(3,4) by simp_all
  then show ?thesis using first second by (auto simp: last_counter_def)
qed

lemma zero_codes: "genuine zero_digest secret c ''000000''"
proof -
  have "totp_code zero_digest secret x = 0" for x
    by (simp add: totp_code_def hmac_sha1_def zero_digest_def Let_def)
  moreover have "six_digits 0 = ''000000''" by code_simp
  ultimately show ?thesis by (simp add: genuine_def)
qed

definition totp_db :: identity_db where
  "totp_db = empty_identity\<lparr>owners := [sample_owner (Some 0)]\<rparr>"

lemma sample_totp_login:
  assumes "owners db = [w]" "ow_totp_secret w = Some ''AA''" "ow_totp_last_counter w = Some m" "0 \<le> m" "m \<le> 1"
    and "g \<notin> ls_id ` set (login_sessions db)"
    and "purpose_hash id ''login-session'' g \<notin> ls_token_hash ` set (login_sessions db)"
  shows "\<exists>gr db'. totp_code_login zero_digest id I (sample_clock 60) (sample_session_gen g) ''000000'' (r, db) =
      (Inr gr, (r, db')) \<and> owners db' = [w\<lparr>ow_totp_last_counter := Some (m + 1), ow_last_totp_at := Some 1\<rparr>] \<and>
      login_sessions db' = login_sessions db @ [\<lparr>ls_id = g, ls_owner_id = ow_id w,
        ls_token_hash = purpose_hash id ''login-session'' g, ls_csrf_token = ''csrf'', ls_created_at = 1,
        ls_last_seen_at = 1, ls_expires_at = 1 + SESSION_IDLE_TTL, ls_revoked_at = None\<rparr>]"
proof -
  have "base32_decode ''AA'' = Some [0]" by code_simp
  moreover have "verify_totp zero_digest [0] ''000000'' 60 (Some m) = Some (m + 1)"
    using assms(4,5) zero_codes by (auto simp: verify_totp_def verify_candidates_eq admissible_def TOTP_WINDOW_SECS_def)
  ultimately show ?thesis
    using assms by (simp add: totp_code_login_def the_owner_def sample_clock_def sample_session_gen_def
        counter_older_def on_db_def run_tx_def insert_session_def unique_by_def Let_def)
qed

theorem totp_code_single_use_witness:
  "\<exists>gr s1 gr' s3 c c'. totp_code_login zero_digest id (deployment False ModeTotp) (sample_clock 60)
      (sample_session_gen ''s'') ''000000'' ([], totp_db) = (Inr gr, s1) \<and>
    totp_code_login zero_digest id (deployment False ModeTotp) (sample_clock 60)
      (sample_session_gen ''t'') ''000000'' s1 = (Inr gr', s3) \<and>
    last_counter (snd s1) = Some c \<and> last_counter (snd s3) = Some c' \<and> c < c'"
proof -
  let ?I = "deployment False ModeTotp"
  obtain gr db1 where first: "totp_code_login zero_digest id ?I (sample_clock 60) (sample_session_gen ''s'') ''000000''
      ([], totp_db) = (Inr gr, ([], db1))"
    and db1: "owners db1 = [(sample_owner (Some 0))\<lparr>ow_totp_last_counter := Some (0 + 1), ow_last_totp_at := Some 1\<rparr>]"
      "map ls_id (login_sessions db1) = [''s'']"
      "map ls_token_hash (login_sessions db1) = [purpose_hash id ''login-session'' ''s'']"
    using sample_totp_login [of totp_db "sample_owner (Some 0)" 0 "''s''" ?I "[]"]
    by (auto simp: totp_db_def empty_identity_def sample_owner_def)
  obtain gr' db2 where second: "totp_code_login zero_digest id ?I (sample_clock 60) (sample_session_gen ''t'') ''000000''
      ([], db1) = (Inr gr', ([], db2))"
    using sample_totp_login [OF db1(1), of 1 "''t''" ?I "[]"] db1(2,3)
    by (auto simp: sample_owner_def purpose_hash_def simp flip: set_map)
  have "identity_ok (snd ([] :: nat list, totp_db))"
    by (simp add: identity_ok_def totp_db_def empty_identity_def)
  from totp_code_single_use [OF this first rtranclp.rtrancl_refl second] show ?thesis using first second by blast
qed

section \<open>Failed attempts\<close>

type_synonym attempt = "attempt_clock \<times> session_gen \<times> string \<times> string option"

text \<open>
  The refusals of a sequence of login attempts, read off the answers the attempts get, whatever the
  limiter keeps: an attempt is refused when it is answered that its code is wrong.
\<close>

definition after_attempt ::
  "(byte list \<Rightarrow> byte list) \<Rightarrow> (string \<Rightarrow> string) \<Rightarrow> identity_interface \<Rightarrow> attempt \<Rightarrow>
    login_rate \<times> identity_db \<Rightarrow> login_rate \<times> identity_db" where
  "after_attempt H D I a s = (case a of (k, g, code, origin) \<Rightarrow> snd (totp_login H D I k g code origin s))"

definition failed_at ::
  "(byte list \<Rightarrow> byte list) \<Rightarrow> (string \<Rightarrow> string) \<Rightarrow> identity_interface \<Rightarrow> attempt \<Rightarrow>
    login_rate \<times> identity_db \<Rightarrow> nat list" where
  "failed_at H D I a s = (case a of (k, g, code, origin) \<Rightarrow>
     if fst (totp_login H D I k g code origin s) \<in> {Inl InvalidTotpCode, Inl InvalidRecoveryCode}
     then [ac_fail k] else [])"

primrec failure_times ::
  "(byte list \<Rightarrow> byte list) \<Rightarrow> (string \<Rightarrow> string) \<Rightarrow> identity_interface \<Rightarrow> attempt list \<Rightarrow>
    login_rate \<times> identity_db \<Rightarrow> nat list" where
  "failure_times H D I [] s = []"
| "failure_times H D I (a # as) s = failed_at H D I a s @ failure_times H D I as (after_attempt H D I a s)"

text \<open>A clock that does not run backwards, one attempt after another.\<close>

primrec clocks_ordered :: "nat \<Rightarrow> attempt list \<Rightarrow> bool" where
  "clocks_ordered t [] \<longleftrightarrow> True"
| "clocks_ordered t (a # as) \<longleftrightarrow>
     t \<le> ac_check (fst a) \<and> ac_check (fst a) \<le> ac_fail (fst a) \<and> clocks_ordered (ac_fail (fst a)) as"

text \<open>The owner's stored secret is base32, as the enrolment wrote it.\<close>

definition secrets_decode :: "identity_db \<Rightarrow> bool" where
  "secrets_decode db \<longleftrightarrow> (\<forall>w \<in> set (owners db). \<forall>x. ow_totp_secret w = Some x \<longrightarrow> base32_decode x \<noteq> None)"

lemma gate_eq: "gate now (rate, db) =
    (if fst (rate_allow now rate) then Inr () else Inl RateLimited, (snd (rate_allow now rate), db))"
  by (simp add: gate_def check_rate_def split_beta Let_def)

text \<open>A code is refused exactly when a failure is recorded.\<close>

lemma totp_code_login_recorded:
  assumes "secrets_decode (snd s)"
  shows "fst (snd (totp_code_login H D I k g code s)) =
    (if fst (totp_code_login H D I k g code s) \<in> {Inl InvalidTotpCode, Inl InvalidRecoveryCode}
     then fst s @ [ac_fail k] else fst s)"
proof -
  obtain rate db where s: "s = (rate, db)" by (cases s)
  show ?thesis
  proof (cases "the_owner db")
    case (Inl e)
    then show ?thesis by (auto simp: s totp_code_login_def the_owner_def ok_or_def split: option.splits)
  next
    case owner: (Inr owner)
    show ?thesis
    proof (cases "find_one (\<lambda>o'. ow_id o' = ow_id owner) (owners db)")
      case None
      then show ?thesis by (simp add: s totp_code_login_def owner)
    next
      case row: (Some row)
      then have mem: "row \<in> set (owners db)" by (auto dest: find_one_SomeD)
      show ?thesis
      proof (cases "ow_totp_secret row")
        case None
        then show ?thesis by (simp add: s totp_code_login_def owner row)
      next
        case raw: (Some raw)
        then obtain secret where secret: "base32_decode raw = Some secret"
          using assms mem by (auto simp: s secrets_decode_def)
        have on: "on_db f (rate, d) = (fst (f d), (rate, snd (f d)))" for f :: "identity_db \<Rightarrow> (identity_error + authentication_grant) \<times> identity_db" and d
          by (simp add: on_db_def split_beta Let_def)
        have ins: "fst (run_tx (\<lambda>db. and_then (insert_session D g i now (d db)) (\<lambda>db. Inr (x, db))) db')
            \<notin> {Inl InvalidTotpCode, Inl InvalidRecoveryCode}" for i now d db' and x :: authentication_grant
          by (auto simp: run_tx_def insert_session_def unique_by_def and_then_def Let_def split: sum.splits if_splits)
        define m where "m = (case ow_totp_last_counter row of None \<Rightarrow> -1 | Some c \<Rightarrow> c)"
        show ?thesis
        proof (cases "verify_totp H secret code (ac_secs k) (Some m)")
          case None
          then show ?thesis
            by (simp add: s totp_code_login_def owner row raw secret m_def [symmetric] record_failure_def rate_record_def)
        next
          case (Some c)
          then show ?thesis using ins
            by (simp add: s totp_code_login_def owner row raw secret m_def [symmetric] record_failure_def rate_record_def
                split_beta Let_def on)
        qed
      qed
    qed
  qed
qed

lemma recovery_code_login_recorded:
  "fst (snd (recovery_code_login D I k g code s)) =
    (if fst (recovery_code_login D I k g code s) \<in> {Inl InvalidTotpCode, Inl InvalidRecoveryCode}
     then fst s @ [ac_fail k] else fst s)"
proof -
  obtain rate db where s: "s = (rate, db)" by (cases s)
  show ?thesis
  proof (cases "consume_recovery_code D code (ac_take k) db")
    case (Inl e)
    then have "e = InvalidRecoveryCode"
      by (auto simp: consume_recovery_code_def and_then_def ok_or_def Let_def split_beta
          split: sum.splits option.splits if_splits)
    with Inl show ?thesis by (simp add: s recovery_code_login_def record_failure_def rate_record_def)
  next
    case (Inr p)
    then show ?thesis
      by (cases p) (auto simp: s recovery_code_login_def on_db_def split_beta Let_def run_tx_def and_then_def ok_or_def
          insert_session_def unique_by_def split: sum.splits option.splits if_splits)
  qed
qed

text \<open>
  An attempt that is refused was admitted by the limiter and is recorded by it; any other attempt
  leaves the limiter with the failures it had, or with those still inside the window.
\<close>

lemma totp_login_recorded:
  fixes k :: attempt_clock
  assumes "secrets_decode (snd s)"
  defines "kept \<equiv> snd (rate_allow (ac_check k) (fst s))"
  shows "if fst (totp_login H D I k g code origin s) \<in> {Inl InvalidTotpCode, Inl InvalidRecoveryCode}
    then fst (rate_allow (ac_check k) (fst s)) \<and> fst (snd (totp_login H D I k g code origin s)) = kept @ [ac_fail k]
    else fst (snd (totp_login H D I k g code origin s)) \<in> {fst s, kept}"
proof (cases "ii_auth_mode I = ModeTotp \<and> check_origin I origin = Inr ()")
  case False
  then show ?thesis
    by (cases "check_origin I origin")
      (auto simp: totp_login_def check_origin_def split: option.splits if_splits)
next
  case True
  obtain rate db where s: "s = (rate, db)" by (cases s)
  have dec: "secrets_decode (snd (kept, db))" using assms(1) by (simp add: s)
  show ?thesis
    using True totp_code_login_recorded [OF dec, of H D I k g code] recovery_code_login_recorded [of D I k g code "(kept, db)"]
    by (cases "fst (rate_allow (ac_check k) rate)") (auto simp: totp_login_def s gate_eq kept_def)
qed

lemma totp_login_keeps_secrets:
  "map ow_totp_secret (owners (snd (snd (totp_login H D I k g code origin s)))) = map ow_totp_secret (owners (snd s))"
proof -
  have upd: "map ow_totp_secret (fst (update_one P (\<lambda>w. w\<lparr>ow_totp_last_counter := c, ow_last_totp_at := t\<rparr>) ws)) =
      map ow_totp_secret ws" for P c t ws
    by (rule update_one_map) simp
  have code: "map ow_totp_secret (owners (snd (snd (totp_code_login H D I k g code s)))) =
      map ow_totp_secret (owners (snd s))" for s
    by (cases s) (auto simp: totp_code_login_def and_run_def Let_def split_beta record_failure_def on_db_def run_tx_def
        and_then_def insert_session_def unique_by_def upd split: sum.splits option.splits if_splits)
  have recovery: "owners (snd (snd (recovery_code_login D I k g code s))) = owners (snd s)" for s
    by (cases s) (auto simp: recovery_code_login_def consume_recovery_code_def Let_def split_beta record_failure_def
        on_db_def run_tx_def and_then_def insert_session_def unique_by_def split: sum.splits option.splits if_splits)
  obtain rate db where s: "s = (rate, db)" by (cases s)
  show ?thesis using code recovery
    by (cases "check_origin I origin"; cases "fst (rate_allow (ac_check k) rate)") (simp_all add: totp_login_def s gate_eq)
qed

lemma totp_login_secrets:
  assumes "secrets_decode (snd s)"
  shows "secrets_decode (snd (snd (totp_login H D I k g code origin s)))"
proof -
  have "map ow_totp_secret (owners (snd (snd (totp_login H D I k g code origin s)))) = map ow_totp_secret (owners (snd s))"
    by (rule totp_login_keeps_secrets)
  then have "ow_totp_secret ` set (owners (snd (snd (totp_login H D I k g code origin s)))) = ow_totp_secret ` set (owners (snd s))"
    by (metis set_map)
  then show ?thesis using assms unfolding secrets_decode_def by (metis image_eqI imageE)
qed

text \<open>
  The limiter's window is the end of the history of failures, and what it has dropped lies outside
  the window.
\<close>

definition window_of :: "nat \<Rightarrow> nat list \<Rightarrow> login_rate \<Rightarrow> bool" where
  "window_of t hist rate \<longleftrightarrow> (\<forall>x \<in> set hist. x \<le> t) \<and>
     (\<exists>dropped. hist = dropped @ rate \<and> (\<forall>x \<in> set dropped. RATE_WINDOW_SECS < instant_secs (t - x)))"

definition spaced :: "nat list \<Rightarrow> bool" where
  "spaced hist \<longleftrightarrow> (\<forall>i. i + RATE_MAX_ATTEMPTS < length hist \<longrightarrow>
     RATE_WINDOW_SECS < instant_secs (hist ! (i + RATE_MAX_ATTEMPTS) - hist ! i))"

lemma later_longer: "t \<le> u \<Longrightarrow> n < instant_secs (t - x) \<Longrightarrow> n < instant_secs (u - x)"
  using div_le_mono [of "t - x" "u - x" 1000000000] by (simp add: instant_secs_def)

lemma window_later: "window_of t hist rate \<Longrightarrow> t \<le> u \<Longrightarrow> window_of u hist rate"
  unfolding window_of_def using later_longer by (fastforce intro: order_trans)

lemma window_allow:
  assumes "window_of t hist rate" "t \<le> u"
  shows "window_of u hist (snd (rate_allow u rate))"
proof -
  let ?P = "\<lambda>at. RATE_WINDOW_SECS < instant_secs (u - at)"
  obtain dropped where d: "hist = dropped @ rate" "\<forall>x \<in> set dropped. ?P x" "\<forall>x \<in> set hist. x \<le> u"
    using window_later [OF assms] by (auto simp: window_of_def)
  have "hist = (dropped @ takeWhile ?P rate) @ dropWhile ?P rate" using d(1) by simp
  moreover have "\<forall>x \<in> set (dropped @ takeWhile ?P rate). ?P x" using d(2) by (auto dest: set_takeWhileD)
  ultimately show ?thesis using d(3) unfolding window_of_def rate_allow_def Let_def snd_conv by blast
qed

lemma spaced_record:
  assumes "window_of u hist rate" "length rate < RATE_MAX_ATTEMPTS" "u \<le> f" "spaced hist"
  shows "spaced (hist @ [f])"
  unfolding spaced_def
proof (intro allI impI)
  fix i assume i: "i + RATE_MAX_ATTEMPTS < length (hist @ [f])"
  show "RATE_WINDOW_SECS < instant_secs ((hist @ [f]) ! (i + RATE_MAX_ATTEMPTS) - (hist @ [f]) ! i)"
  proof (cases "i + RATE_MAX_ATTEMPTS < length hist")
    case True
    then show ?thesis using assms(4) by (simp add: spaced_def nth_append)
  next
    case False
    obtain dropped where d: "hist = dropped @ rate" "\<forall>x \<in> set dropped. RATE_WINDOW_SECS < instant_secs (u - x)"
      using assms(1) by (auto simp: window_of_def)
    have last: "i + RATE_MAX_ATTEMPTS = length hist" using False i by simp
    then have "i < length dropped" using d(1) assms(2) by simp
    then have "RATE_WINDOW_SECS < instant_secs (u - (hist @ [f]) ! i)" using d by (simp add: nth_append)
    then show ?thesis using last later_longer [OF assms(3)] by simp
  qed
qed

lemma failures_spaced:
  assumes "clocks_ordered t as" "window_of t hist (fst s)" "spaced hist" "secrets_decode (snd s)"
  shows "spaced (hist @ failure_times H D I as s)"
  using assms
proof (induction as arbitrary: t hist s)
  case (Cons a as)
  obtain k g code origin where a: "a = (k, g, code, origin)" by (cases a)
  let ?s = "after_attempt H D I a s" and ?kept = "snd (rate_allow (ac_check k) (fst s))"
  have clock: "t \<le> ac_check k" "ac_check k \<le> ac_fail k" and rest: "clocks_ordered (ac_fail k) as"
    using Cons.prems(1) by (simp_all add: a)
  have win: "window_of (ac_check k) hist ?kept" by (rule window_allow [OF Cons.prems(2) clock(1)])
  note attempt = totp_login_recorded [OF Cons.prems(4), of H D I k g code origin]
  have "window_of (ac_fail k) (hist @ failed_at H D I a s) (fst ?s) \<and> spaced (hist @ failed_at H D I a s)"
  proof (cases "fst (totp_login H D I k g code origin s) \<in> {Inl InvalidTotpCode, Inl InvalidRecoveryCode}")
    case False
    then have "failed_at H D I a s = []" "fst ?s = fst s \<or> fst ?s = ?kept"
      using attempt by (auto simp: failed_at_def after_attempt_def a)
    then show ?thesis
      using win Cons.prems(2,3) clock by (auto intro: window_later order_trans)
  next
    case refused: True
    then have rec: "fst (rate_allow (ac_check k) (fst s))" "fst ?s = ?kept @ [ac_fail k]" "failed_at H D I a s = [ac_fail k]"
      using attempt by (auto simp: failed_at_def after_attempt_def a)
    then have "length ?kept < RATE_MAX_ATTEMPTS" by (simp add: rate_allow_def Let_def)
    then have "spaced (hist @ [ac_fail k])" by (rule spaced_record [OF win _ clock(2) Cons.prems(3)])
    moreover have "window_of (ac_fail k) (hist @ [ac_fail k]) (?kept @ [ac_fail k])"
      using window_later [OF win clock(2)] by (auto simp: window_of_def)
    ultimately show ?thesis by (simp add: rec(2,3))
  qed
  moreover have "secrets_decode (snd ?s)"
    using totp_login_secrets [OF Cons.prems(4)] by (simp add: after_attempt_def a)
  ultimately have "spaced ((hist @ failed_at H D I a s) @ failure_times H D I as ?s)"
    using Cons.IH [OF rest] by blast
  then show ?case by simp
qed simp

text \<open>
  C35. Guessing is slow when attempts come one after another: whatever codes are presented, the sixth
  of six consecutive refusals is answered more than sixty seconds after the first, for one-time
  codes and recovery codes together. A refusal is an attempt answered that its code is wrong; the
  limiter is not part of the definition, so a failure it did not count would be seen.
\<close>

theorem totp_failures_bounded:
  assumes "clocks_ordered 0 attempts" "secrets_decode db" "i + 5 < length (failure_times H D I attempts ([], db))"
  shows "60 < instant_secs (failure_times H D I attempts ([], db) ! (i + 5) - failure_times H D I attempts ([], db) ! i)"
proof -
  have "spaced ([] @ failure_times H D I attempts ([], db))"
    by (rule failures_spaced [OF assms(1)]) (simp_all add: window_of_def spaced_def assms(2))
  then show ?thesis using assms(3) by (simp add: spaced_def RATE_MAX_ATTEMPTS_def RATE_WINDOW_SECS_def)
qed

definition guess_at :: "nat \<Rightarrow> attempt" where
  "guess_at t = (\<lparr>ac_check = t, ac_fail = t, ac_take = 1, ac_secs = 60, ac_now = 1\<rparr>, sample_session_gen ''s'', ''guess'', None)"

lemma guess_recorded:
  assumes "length rate < 5" "\<forall>x \<in> set rate. instant_secs (t - x) \<le> 60"
  shows "after_attempt zero_digest id (deployment False ModeTotp) (guess_at t) (rate, empty_identity) =
    (rate @ [t], empty_identity)"
    and "failed_at zero_digest id (deployment False ModeTotp) (guess_at t) (rate, empty_identity) = [t]"
proof -
  have keep: "rate_allow t rate = (True, rate)"
    using assms by (cases rate) (auto simp: rate_allow_def RATE_MAX_ATTEMPTS_def RATE_WINDOW_SECS_def Let_def)
  show "after_attempt zero_digest id (deployment False ModeTotp) (guess_at t) (rate, empty_identity) =
      (rate @ [t], empty_identity)"
    by (simp add: after_attempt_def guess_at_def totp_login_def deployment_def check_origin_def gate_eq keep
        is_totp_code_shape_def recovery_code_login_def consume_recovery_code_def empty_identity_def
        record_failure_def rate_record_def)
  show "failed_at zero_digest id (deployment False ModeTotp) (guess_at t) (rate, empty_identity) = [t]"
    by (simp add: failed_at_def guess_at_def totp_login_def deployment_def check_origin_def gate_eq keep
        is_totp_code_shape_def recovery_code_login_def consume_recovery_code_def empty_identity_def)
qed

theorem totp_failures_bounded_witness:
  "60 < instant_secs (failure_times zero_digest id (deployment False ModeTotp)
     (map guess_at [0, 0, 0, 0, 0] @ [guess_at 61000000000]) ([], empty_identity) ! 5 - 0)"
proof -
  let ?F = "failure_times zero_digest id (deployment False ModeTotp)
     (map guess_at [0, 0, 0, 0, 0] @ [guess_at 61000000000]) ([], empty_identity)"
  have last: "after_attempt zero_digest id (deployment False ModeTotp) (guess_at 61000000000)
      ([0, 0, 0, 0, 0], empty_identity) = ([61000000000], empty_identity)"
    "failed_at zero_digest id (deployment False ModeTotp) (guess_at 61000000000)
      ([0, 0, 0, 0, 0], empty_identity) = [61000000000]"
    by (simp_all add: after_attempt_def failed_at_def guess_at_def totp_login_def deployment_def check_origin_def gate_eq
        rate_allow_def instant_secs_def RATE_WINDOW_SECS_def RATE_MAX_ATTEMPTS_def is_totp_code_shape_def
        recovery_code_login_def consume_recovery_code_def empty_identity_def record_failure_def rate_record_def)
  have F: "?F = [0, 0, 0, 0, 0, 61000000000]"
    by (simp add: guess_recorded last instant_secs_def)
  have "clocks_ordered 0 (map guess_at [0, 0, 0, 0, 0] @ [guess_at 61000000000])" by (simp add: guess_at_def)
  then have "60 < instant_secs (?F ! (0 + 5) - ?F ! 0)"
    by (rule totp_failures_bounded) (simp add: secrets_decode_def empty_identity_def, simp only: F, simp)
  then show ?thesis by (simp only: F) simp
qed

section \<open>Interleavings\<close>

text \<open>
  Concurrent requests. The limiter is consulted in one lock section and the failure recorded in a
  later one; the second component counts the requests between the two.
\<close>

inductive limiter_step :: "login_rate \<times> nat \<Rightarrow> login_rate \<times> nat \<Rightarrow> bool" where
  admitted: "check_rate now rate = (Inr (), rate') \<Longrightarrow> limiter_step (rate, pending) (rate', Suc pending)"
| refused: "check_rate now rate = (Inl e, rate') \<Longrightarrow> limiter_step (rate, pending) (rate', pending)"
| failed: "limiter_step (rate, Suc pending) (rate_record now rate, pending)"

lemma all_admitted: "limiter_step\<^sup>*\<^sup>* ([], p) ([], p + n)"
proof (induction n)
  case (Suc n)
  have "check_rate 0 [] = (Inr (), [])" by (simp add: check_rate_def rate_allow_def RATE_MAX_ATTEMPTS_def)
  then show ?case using Suc limiter_step.admitted by (metis add_Suc_right rtranclp.rtrancl_into_rtrancl)
qed simp

lemma all_recorded: "limiter_step\<^sup>*\<^sup>* (rate, n) (rate @ replicate n t, 0)"
proof (induction n arbitrary: rate)
  case (Suc n)
  have "limiter_step (rate, Suc n) (rate @ [t], n)" using limiter_step.failed [of rate n t] by (simp add: rate_record_def)
  also have "limiter_step\<^sup>*\<^sup>* (rate @ [t], n) (rate @ replicate (Suc n) t, 0)" using Suc [of "rate @ [t]"] by simp
  finally show ?case .
qed simp

text \<open>
  Concurrent attempts are not limited: for every number there is an interleaving of that many
  attempts, all admitted before the first failure is recorded, whose failures are all recorded at
  one instant. The limiter bounds only attempts that wait for each other.
\<close>

theorem parallel_attempts_unlimited: "limiter_step\<^sup>*\<^sup>* ([], 0) (replicate n now, 0)"
  using all_admitted [of 0 n] all_recorded [of "[]" n now] by (metis add_0 append_Nil rtranclp_trans)

text \<open>
  Concurrent requests of a deployment with development authentication. The count of owners is read
  in one call and the owner inserted in a later transaction; the second component counts the
  requests between the two.
\<close>

inductive development_step :: "identity_db \<times> nat \<Rightarrow> identity_db \<times> nat \<Rightarrow> bool" where
  counted: "initialization_state db = Uninitialized \<Longrightarrow> development_step (db, pending) (db, Suc pending)"
| inserted: "development_step (db, Suc pending) (snd (insert_development_owner now i db), pending)"

text \<open>
  Two concurrent first requests of a deployment with development authentication create two
  owners: both read that there is none, and neither insert conflicts with the other, since the
  owners have fresh ids and no other unique key. The identity capability otherwise keeps a single
  owner.
\<close>

theorem development_owner_race:
  "\<exists>db. development_step\<^sup>*\<^sup>* (empty_identity, 0) (db, 0) \<and> length (owners db) = 2 \<and> \<not> identity_ok db"
proof -
  let ?d1 = "snd (insert_development_owner 1 ''a'' empty_identity)"
  let ?d2 = "snd (insert_development_owner 2 ''b'' ?d1)"
  have d1: "?d1 = empty_identity\<lparr>owners := [development_owner ''a'' 1]\<rparr>"
    by (simp add: insert_development_owner_def run_tx_def insert_owner_def insert_one_def empty_identity_def)
  have d2: "owners ?d2 = [development_owner ''a'' 1, development_owner ''b'' 2]"
    unfolding d1 by (simp add: insert_development_owner_def run_tx_def insert_owner_def insert_one_def
        development_owner_def)
  have "development_step (empty_identity, 0) (empty_identity, Suc 0)"
    "development_step (empty_identity, Suc 0) (empty_identity, Suc (Suc 0))"
    by (auto intro!: counted simp: initialization_state_def empty_identity_def)
  moreover have "development_step (empty_identity, Suc (Suc 0)) (?d1, Suc 0)" "development_step (?d1, Suc 0) (?d2, 0)"
    by (rule inserted)+
  ultimately have "development_step\<^sup>*\<^sup>* (empty_identity, 0) (?d2, 0)"
    by (meson converse_rtranclp_into_rtranclp rtranclp.rtrancl_refl)
  then show ?thesis using d2 by (intro exI [of _ ?d2]) (simp add: identity_ok_def)
qed

end
