(* ===== verification/Execution_Types.thy ===== *)
theory Execution_Types
  imports Session_Types "HOL-Library.Sublist"
begin

text \<open>
  Types and pure functions of the execution capability (\<open>crates/execution/src\<close>): the
  classification and backoff of provider faults (\<open>retry.rs\<close>), tool outcomes and completion
  summaries (\<open>types.rs\<close>), token accounting and tool result messages (\<open>interface/mod.rs\<close>,
  \<open>interface/turn.rs\<close>), with the request and stream types of \<open>crates/models/src/stream_types.rs\<close>
  they use.
\<close>

section \<open>Signed arithmetic that saturates\<close>

definition i64_clamp :: "int \<Rightarrow> int" where
  "i64_clamp n = max (- I64_MAX - 1) (min I64_MAX n)"

definition i64_sat_add :: "int \<Rightarrow> int \<Rightarrow> int" where
  "i64_sat_add a b = i64_clamp (a + b)"

definition i64_sat_sub :: "int \<Rightarrow> int \<Rightarrow> int" where
  "i64_sat_sub a b = i64_clamp (a - b)"

lemma i64_clamp_id [simp]: "- I64_MAX - 1 \<le> n \<Longrightarrow> n \<le> I64_MAX \<Longrightarrow> i64_clamp n = n"
  by (simp add: i64_clamp_def)

lemma i64_clamp_bounds: "- I64_MAX - 1 \<le> i64_clamp n \<and> i64_clamp n \<le> I64_MAX"
  by (auto simp: i64_clamp_def)

section \<open>Messages, requests and stream events of the model capability\<close>

datatype content_part =
    PartText string
  | PartImage string string "nat option" "nat option"

datatype chat_role = RoleSystem | RoleUser | RoleAssistant | RoleTool

record completed_tool_call =
  cc_id :: string
  cc_name :: string
  cc_arguments_json :: string

record chat_message =
  ch_role :: chat_role
  ch_parts :: "content_part list"
  ch_tool_call_id :: "string option"
  ch_tool_calls :: "completed_tool_call list"
  ch_reasoning_content :: "string option"

record tool_spec =
  ts_name :: string
  ts_description :: string
  ts_parameters :: json

record model_request =
  mr_owner_id :: string
  mr_provider_id :: string
  mr_upstream_model_id :: string
  mr_parameters :: json
  mr_messages :: "chat_message list"
  mr_tools :: "tool_spec list"
  mr_round_id :: "string option"
  mr_project_id :: "string option"
  mr_session_id :: "string option"
  mr_turn_id :: "string option"

datatype stream_channel = ChanText | ChanReasoningSummary | ChanToolCallPreview

record token_usage =
  tu_input_tokens :: nat
  tu_output_tokens :: nat
  tu_cache_tokens :: nat

record tool_call_delta =
  td_index :: nat
  td_id :: "string option"
  td_name :: "string option"
  td_arguments_delta :: "string option"

record completion =
  co_attempt_id :: string
  co_usage :: token_usage
  co_stop_reason :: "string option"
  co_tool_calls :: "completed_tool_call list"
  co_text :: string
  co_reasoning :: string
  co_reasoning_content :: "string option"
  co_reasoning_duration_ms :: "nat option"

datatype model_stream_event =
    EvDelta string nat stream_channel string bool "token_usage option"
  | EvToolCallDelta string nat tool_call_delta bool
  | EvCompleted completion
  | EvFailed string string string
  | EvRetrying string nat string nat

fun chat_role_as_str :: "chat_role \<Rightarrow> string" where
  "chat_role_as_str RoleSystem = ''system''"
| "chat_role_as_str RoleUser = ''user''"
| "chat_role_as_str RoleAssistant = ''assistant''"
| "chat_role_as_str RoleTool = ''tool''"

definition opt_nat_json :: "nat option \<Rightarrow> json" where
  "opt_nat_json n = (case n of None \<Rightarrow> JNull | Some k \<Rightarrow> JNum (int k))"

definition opt_str_json :: "string option \<Rightarrow> json" where
  "opt_str_json s = (case s of None \<Rightarrow> JNull | Some t \<Rightarrow> JStr t)"

fun part_to_value :: "content_part \<Rightarrow> json" where
  "part_to_value (PartText text) = JObj [(''type'', JStr ''text''), (''text'', JStr text)]"
| "part_to_value (PartImage mime bytes width height) =
     JObj [(''type'', JStr ''image''), (''mime'', JStr mime), (''width'', opt_nat_json width),
           (''height'', opt_nat_json height)]"

definition call_to_value :: "completed_tool_call \<Rightarrow> json" where
  "call_to_value c = JObj [(''id'', JStr (cc_id c)), (''name'', JStr (cc_name c)),
     (''arguments_json'', JStr (cc_arguments_json c))]"

definition chat_to_value :: "chat_message \<Rightarrow> json" where
  "chat_to_value m = JObj
    ([(''role'', JStr (chat_role_as_str (ch_role m))), (''parts'', JArr (map part_to_value (ch_parts m))),
      (''tool_call_id'', opt_str_json (ch_tool_call_id m))] @
     (if ch_tool_calls m = [] then [] else [(''tool_calls'', JArr (map call_to_value (ch_tool_calls m)))]) @
     (case ch_reasoning_content m of None \<Rightarrow> [] | Some r \<Rightarrow> [(''reasoning_content'', JStr r)]))"

text \<open>Reading stored tool calls back: a derived struct accepts an object or the sequence of its fields.\<close>

definition call_from_value :: "json \<Rightarrow> completed_tool_call option" where
  "call_from_value v =
    (case v of
       JArr [JStr i, JStr n, JStr a] \<Rightarrow> Some \<lparr>cc_id = i, cc_name = n, cc_arguments_json = a\<rparr>
     | JObj _ \<Rightarrow> (case (field_str ''id'' v, field_str ''name'' v, field_str ''arguments_json'' v) of
           (Some i, Some n, Some a) \<Rightarrow> Some \<lparr>cc_id = i, cc_name = n, cc_arguments_json = a\<rparr>
         | _ \<Rightarrow> None)
     | _ \<Rightarrow> None)"

definition calls_from_value :: "json \<Rightarrow> completed_tool_call list option" where
  "calls_from_value v = (case v of JArr vs \<Rightarrow> those (map call_from_value vs) | _ \<Rightarrow> None)"

section \<open>Faults and backoff\<close>

datatype fault_class = Config | Transient

record retry_decision =
  rd_class :: fault_class
  rd_retry_after :: nat

definition RECONNECT_NOTICE_ATTEMPTS :: nat where "RECONNECT_NOTICE_ATTEMPTS = 5"

text \<open>
  The backoff in milliseconds; \<open>clock\<close> is the wall clock read for the jitter, \<open>None\<close> when it lies
  before the epoch, else its sub-second milliseconds. The product wraps in the release profile.
\<close>

definition retry_backoff :: "nat option \<Rightarrow> nat \<Rightarrow> nat" where
  "retry_backoff clock attempt =
    (let base_seconds = (if attempt \<le> RECONNECT_NOTICE_ATTEMPTS then 2
           else saturating_add_u64 10 ((attempt - RECONNECT_NOTICE_ATTEMPTS) * 5 mod 2 ^ 64));
         jitter_limit_ms = (if attempt \<le> RECONNECT_NOTICE_ATTEMPTS then 1000 else 5000);
         jitter_ms = (case clock of None \<Rightarrow> 0 | Some ms \<Rightarrow> ms mod jitter_limit_ms)
     in min base_seconds 60 * 1000 + jitter_ms)"

definition ascii_lower :: "string \<Rightarrow> string" where
  "ascii_lower s = map (\<lambda>c. if 65 \<le> (of_char c :: nat) \<and> (of_char c :: nat) \<le> 90
                           then char_of ((of_char c :: nat) + 32) else c) s"

definition looks_config_fault :: "string \<Rightarrow> bool" where
  "looks_config_fault detail =
    list_ex (\<lambda>needle. sublist needle (ascii_lower detail))
      [''http 400'', ''http 401'', ''http 403'', ''http 404'', ''http 422'', ''unauthorized'',
       ''forbidden'', ''invalid_api_key'', ''invalid request'']"

definition classify_fault :: "string \<Rightarrow> string \<Rightarrow> fault_class" where
  "classify_fault code detail =
    (if code = ''PROVIDER_AUTH_FAILED'' then Config
     else if code \<in> {''PROVIDER_STREAM_FAILED'', ''PROVIDER_UNREACHABLE'', ''PROVIDER_TIMEOUT''}
       then if looks_config_fault detail then Config else Transient
     else Transient)"

definition classify :: "nat option \<Rightarrow> string \<Rightarrow> string \<Rightarrow> nat \<Rightarrow> retry_decision" where
  "classify clock code detail attempt =
    (let class = classify_fault code detail
     in \<lparr>rd_class = class,
         rd_retry_after = (case class of Config \<Rightarrow> 0 | Transient \<Rightarrow> retry_backoff clock attempt)\<rparr>)"

lemma backoff_seconds:
  fixes k :: nat
  shows "10 \<le> min (saturating_add_u64 10 k) 60 \<and> min (saturating_add_u64 10 k) 60 \<le> 60"
  by (simp add: saturating_add_u64_def)

lemma retry_backoff_bounds:
  assumes clock: "case clock of None \<Rightarrow> True | Some ms \<Rightarrow> ms < 1000"
  shows "2000 \<le> retry_backoff clock attempt \<and> retry_backoff clock attempt < 61000"
    and "RECONNECT_NOTICE_ATTEMPTS < attempt \<Longrightarrow> 10000 \<le> retry_backoff clock attempt"
    and "attempt \<le> RECONNECT_NOTICE_ATTEMPTS \<Longrightarrow> retry_backoff clock attempt < 3000"
proof -
  define j :: nat where "j = (case clock of None \<Rightarrow> 0 | Some ms \<Rightarrow> ms)"
  have "j < 1000" and "(case clock of None \<Rightarrow> 0 | Some ms \<Rightarrow> ms mod 1000) = j"
    and "(case clock of None \<Rightarrow> 0 | Some ms \<Rightarrow> ms mod 5000) = j"
    using clock by (cases clock; simp add: j_def)+
  then show "2000 \<le> retry_backoff clock attempt \<and> retry_backoff clock attempt < 61000"
    and "RECONNECT_NOTICE_ATTEMPTS < attempt \<Longrightarrow> 10000 \<le> retry_backoff clock attempt"
    and "attempt \<le> RECONNECT_NOTICE_ATTEMPTS \<Longrightarrow> retry_backoff clock attempt < 3000"
    using backoff_seconds [of "(attempt - RECONNECT_NOTICE_ATTEMPTS) * 5 mod 2 ^ 64"]
    by (auto simp: retry_backoff_def Let_def)
qed

section \<open>Tool calls and their outcomes\<close>

datatype tool_execution_disposition = ToolSucceeded | ToolFailed

fun disposition_as_str :: "tool_execution_disposition \<Rightarrow> string" where
  "disposition_as_str ToolSucceeded = ''succeeded''"
| "disposition_as_str ToolFailed = ''failed''"

datatype tool_call_status = CallRequested | CallRunning | CallSucceeded | CallFailed | CallCanceled | CallLost

fun call_status_as_str :: "tool_call_status \<Rightarrow> string" where
  "call_status_as_str CallRequested = ''requested''"
| "call_status_as_str CallRunning = ''running''"
| "call_status_as_str CallSucceeded = ''succeeded''"
| "call_status_as_str CallFailed = ''failed''"
| "call_status_as_str CallCanceled = ''canceled''"
| "call_status_as_str CallLost = ''lost''"

record image_result =
  ir_mime :: string
  ir_bytes :: string
  ir_width :: nat
  ir_height :: nat
  ir_path :: string
  ir_content_revision :: "string option"
  ir_derived :: bool
  ir_content_hash :: string

datatype tool_result_part = ResText string | ResImage image_result | ResJson json

record completion_summary =
  cs_summary :: string
  cs_main_changes :: "string list"
  cs_validation_performed :: "string list"
  cs_validation_not_performed :: "string list"
  cs_remaining_risks :: "string list"

record tool_outcome =
  to_disposition :: tool_execution_disposition
  to_parts :: "tool_result_part list"
  to_summary :: json
  to_error_code :: "string option"
  to_finish_summary :: "completion_summary option"

definition string_items :: "json option \<Rightarrow> string list" where
  "string_items v =
    (case v of
       Some (JStr s) \<Rightarrow> if str_trim s \<noteq> [] then [s] else []
     | Some (JArr vs) \<Rightarrow> filter (\<lambda>s. s \<noteq> []) (map str_trim (List.map_filter json_as_str vs))
     | _ \<Rightarrow> [])"

definition from_tool_input :: "json \<Rightarrow> completion_summary" where
  "from_tool_input i =
    \<lparr>cs_summary = (case Option.bind (json_get ''summary'' i) json_as_str of
         None \<Rightarrow> ''done'' | Some s \<Rightarrow> s),
     cs_main_changes = string_items (json_get ''main_changes'' i),
     cs_validation_performed = string_items (json_get ''validation_performed'' i),
     cs_validation_not_performed = string_items (json_get ''validation_not_performed'' i),
     cs_remaining_risks = string_items (case json_get ''remaining_risks'' i of
         None \<Rightarrow> json_get ''risks'' i | Some v \<Rightarrow> Some v)\<rparr>"

definition from_text :: "string \<Rightarrow> completion_summary" where
  "from_text text =
    \<lparr>cs_summary = (if text = [] then ''The model stopped without a structured completion summary.''
                   else text),
     cs_main_changes = [], cs_validation_performed = [],
     cs_validation_not_performed = [''No validation was reported in the text-only completion.''],
     cs_remaining_risks = [''Structured completion details were not provided by the model.'']\<rparr>"

definition summary_to_value :: "completion_summary \<Rightarrow> json" where
  "summary_to_value s =
    (let strs = (\<lambda>xs. JArr (map JStr xs))
     in JObj [(''summary'', JStr (cs_summary s)), (''main_changes'', strs (cs_main_changes s)),
          (''validation_performed'', strs (cs_validation_performed s)),
          (''validation_not_performed'', strs (cs_validation_not_performed s)),
          (''remaining_risks'', strs (cs_remaining_risks s))])"

definition text_part_json :: "string \<Rightarrow> json" where
  "text_part_json text = JObj [(''type'', JStr ''text''), (''text'', JStr text)]"

text \<open>One part of a tool result: what the model sees and what is stored.\<close>

fun result_part :: "serde \<Rightarrow> tool_result_part \<Rightarrow> content_part list \<times> json list" where
  "result_part J (ResText text) = ([PartText text], [text_part_json text])"
| "result_part J (ResJson v) =
     (let text = json_to_string J v in ([PartText text], [text_part_json text]))"
| "result_part J (ResImage r) =
     ([PartImage (ir_mime r) (ir_bytes r) (Some (ir_width r)) (Some (ir_height r))],
      [JObj [(''type'', JStr ''image_reference''), (''mime'', JStr (ir_mime r)),
             (''path'', JStr (ir_path r)), (''content_revision'', opt_str_json (ir_content_revision r)),
             (''derived'', JBool (ir_derived r)), (''content_hash'', JStr (ir_content_hash r)),
             (''width'', JNum (int (ir_width r))), (''height'', JNum (int (ir_height r)))],
       text_part_json (''[image result: '' @ ir_path r @ '', '' @ ir_mime r @ '', '' @
         string_of_nat (ir_width r) @ ''x'' @ string_of_nat (ir_height r) @ '', hash='' @
         ir_content_hash r @ '']'')])"

definition tool_result_message :: "serde \<Rightarrow> tool_outcome \<Rightarrow> string \<Rightarrow> chat_message \<times> json" where
  "tool_result_message J outcome provider_call_id =
    (let model_parts = concat (map (\<lambda>p. fst (result_part J p)) (to_parts outcome));
         durable_parts = concat (map (\<lambda>p. snd (result_part J p)) (to_parts outcome));
         text = json_to_string J (to_summary outcome);
         (mp, dp) = (if model_parts = [] then ([PartText text], [text_part_json text])
                     else (model_parts, durable_parts))
     in (\<lparr>ch_role = RoleTool, ch_parts = mp, ch_tool_call_id = Some provider_call_id,
          ch_tool_calls = [], ch_reasoning_content = None\<rparr>, JArr dp))"

text \<open>
  Decoding the arguments of a call; \<open>serde_text\<close> is the parser's own message for a text it refuses.
\<close>

definition parse_tool_arguments :: "serde \<Rightarrow> (string \<Rightarrow> string) \<Rightarrow> string \<Rightarrow> string + json" where
  "parse_tool_arguments J serde_text raw =
    (if str_trim raw = [] then Inr (JObj [])
     else case json_from_str J raw of Some v \<Rightarrow> Inr v
      | None \<Rightarrow> Inl (''the tool arguments are not valid JSON ('' @ serde_text raw @
          ''); the model's call was most likely cut off before it finished streaming, so it was not run''))"

section \<open>Token accounting\<close>

definition as_i64_tokens :: "nat \<Rightarrow> int" where
  "as_i64_tokens v = min (int v) I64_MAX"

definition non_system_input_tokens :: "nat \<Rightarrow> int \<Rightarrow> int" where
  "non_system_input_tokens v system_prompt_tokens = max (i64_sat_sub (as_i64_tokens v) system_prompt_tokens) 0"

definition estimate_chat_tokens :: "serde \<Rightarrow> chat_message list \<Rightarrow> int" where
  "estimate_chat_tokens J chat =
    as_i64_tokens (saturating_add_u64 (length (json_to_string J (JArr (map chat_to_value chat)))) 3 div 4)"

definition estimate_prompt_tokens :: "string \<Rightarrow> int" where
  "estimate_prompt_tokens prompt = as_i64_tokens (saturating_add_u64 (length prompt) 3 div 4)"

record turn_token_exchange =
  tx_upload_tokens :: int
  tx_download_tokens :: int

definition aggregate_turn_token_exchange :: "(int \<times> int) list \<Rightarrow> int \<Rightarrow> turn_token_exchange" where
  "aggregate_turn_token_exchange rows system_prompt_tokens =
    \<lparr>tx_upload_tokens = foldl (\<lambda>sum (i, _). i64_sat_add sum (max (i64_sat_sub i system_prompt_tokens) 0))
       0 rows,
     tx_download_tokens = foldl (\<lambda>sum (_, out). i64_sat_add sum out) 0 rows\<rparr>"

definition AUTO_COMPACT_THRESHOLD_PERCENT :: int where "AUTO_COMPACT_THRESHOLD_PERCENT = 90"
definition DEFAULT_CONTEXT_LIMIT :: int where "DEFAULT_CONTEXT_LIMIT = 1000000"

definition context_usage_near_limit :: "int \<Rightarrow> int \<Rightarrow> bool" where
  "context_usage_near_limit estimated_input_tokens context_limit \<longleftrightarrow>
     context_limit > 0 \<and>
     max estimated_input_tokens 0 * 100 \<ge> context_limit * AUTO_COMPACT_THRESHOLD_PERCENT"

datatype model_attempt_status = AttRunning | AttSucceeded | AttFailed | AttCanceled | AttInterrupted

fun durable_retry_index :: "int \<Rightarrow> model_attempt_status \<Rightarrow> int" where
  "durable_retry_index ledger_attempt AttFailed = i64_sat_add ledger_attempt 1"
| "durable_retry_index ledger_attempt AttRunning = max ledger_attempt 0"
| "durable_retry_index ledger_attempt _ = 0"

end
