(* ===== verification/Execution_Store.thy ===== *)
theory Execution_Store
  imports Execution_Types Turn_Lifecycle Session_Interface
begin

text \<open>
  The collections of the execution capability and the operations on them that are not part of the
  round loop: interruption and cancellation (\<open>interface/scheduling.rs\<close>), context versions and
  compaction (\<open>context.rs\<close>), loading the history, tool effects and deletion
  (\<open>interface/persistence.rs\<close>), under \<open>crates/execution/src\<close>.
\<close>

section \<open>Collections\<close>

record round_row =
  rn_id :: string
  rn_turn_id :: string
  rn_sequence :: int
  rn_context_version :: string
  rn_status :: string
  rn_candidate_snapshot_json :: string
  rn_input_tokens :: int
  rn_output_tokens :: int
  rn_final_attempt_id :: "string option"
  rn_stop_reason :: "string option"
  rn_output_summary_json :: "string option"
  rn_version :: string
  rn_created_at :: int
  rn_updated_at :: int

record tool_call_row =
  tc_id :: string
  tc_round_id :: string
  tc_ord :: int
  tc_tool_name :: string
  tc_schema_version :: int
  tc_input_json :: string
  tc_status :: string
  tc_actor_json :: string
  tc_provider_call_id :: string
  tc_version :: string
  tc_error_code :: "string option"
  tc_started_at :: "int option"
  tc_ended_at :: "int option"
  tc_result_summary_json :: "string option"
  tc_async_task_id :: "string option"

record plan_row =
  pn_id :: string
  pn_turn_id :: string
  pn_sequence :: int
  pn_plan_json :: string
  pn_evidence_json :: string
  pn_created_at :: int

record context_version_row =
  xv_id :: string
  xv_session_id :: string
  xv_turn_id :: "string option"
  xv_sequence :: int
  xv_estimated_input_tokens :: int
  xv_context_limit :: int
  xv_compact_status :: string
  xv_compact_summary_id :: "string option"
  xv_selection_json :: string
  xv_created_at :: int

record compact_summary_row =
  ks_id :: string
  ks_session_id :: string
  ks_source_first_timeline_id :: "string option"
  ks_source_last_timeline_id :: string
  ks_summary_json :: string
  ks_model_attempt_id :: "string option"
  ks_input_tokens :: int
  ks_output_tokens :: int
  ks_created_at :: int

text \<open>A row of the usage ledger, which the model capability writes and the round loop reads.\<close>

record usage_row =
  ul_id :: string
  ul_turn_id :: "string option"
  ul_input_tokens :: int
  ul_output_tokens :: int
  ul_occurred_at :: int

record execution_db = sessions_db +
  rounds :: "round_row list"
  tool_calls :: "tool_call_row list"
  plan_versions :: "plan_row list"
  context_versions :: "context_version_row list"
  compact_summaries :: "compact_summary_row list"
  model_usage_ledger :: "usage_row list"

datatype execution_error =
    ExTurnNotFound
  | ExSessions sessions_error
  | ExProjects string
  | ExModels string
  | ExTool string
  | ExStorage
  | ExSerde
  | ExInternal string

definition lift_sessions :: "sessions_error + 'a \<Rightarrow> execution_error + 'a" where
  "lift_sessions m = map_sum ExSessions id m"

lemma lift_sessions_simps [simp]:
  "lift_sessions (Inl e) = Inl (ExSessions e)" "lift_sessions (Inr a) = Inr a"
  by (simp_all add: lift_sessions_def)

lemma lift_sessions_eq_Inr [simp]: "lift_sessions m = Inr a \<longleftrightarrow> m = Inr a"
  by (cases m) simp_all

text \<open>The unique indexes: a write that breaks one is refused by the driver.\<close>

definition rounds_indexed :: "round_row list \<Rightarrow> bool" where
  "rounds_indexed c \<longleftrightarrow>
     distinct (map rn_id c) \<and> distinct (map (\<lambda>r. (rn_turn_id r, rn_sequence r)) c)"

definition calls_indexed :: "tool_call_row list \<Rightarrow> bool" where
  "calls_indexed c \<longleftrightarrow>
     distinct (map tc_id c) \<and> distinct (map (\<lambda>r. (tc_round_id r, tc_ord r)) c) \<and>
     distinct (map (\<lambda>r. (tc_round_id r, tc_provider_call_id r)) c)"

definition plans_indexed :: "plan_row list \<Rightarrow> bool" where
  "plans_indexed c \<longleftrightarrow>
     distinct (map pn_id c) \<and> distinct (map (\<lambda>r. (pn_turn_id r, pn_sequence r)) c)"

definition contexts_indexed :: "context_version_row list \<Rightarrow> bool" where
  "contexts_indexed c \<longleftrightarrow>
     distinct (map xv_id c) \<and> distinct (map (\<lambda>r. (xv_session_id r, xv_sequence r)) c)"

section \<open>Interruption and cancellation\<close>

definition interrupt_execution_in_tx ::
  "string \<Rightarrow> string \<Rightarrow> string \<Rightarrow> int \<Rightarrow> 'x execution_db_scheme \<Rightarrow> 'x execution_db_scheme" where
  "interrupt_execution_in_tx round_version requested_version running_version now db =
    (let db1 = db\<lparr>rounds := update_many (\<lambda>r. rn_status r = ''running'')
           (\<lambda>r. r\<lparr>rn_status := ''interrupted'', rn_stop_reason := Some ''control_plane_restart'',
                  rn_version := version_tag round_version, rn_updated_at := now\<rparr>) (rounds db)\<rparr>;
         db2 = db1\<lparr>tool_calls := update_many (\<lambda>c. tc_status c = ''requested'')
           (\<lambda>c. c\<lparr>tc_status := ''canceled'', tc_error_code := Some ''CONTROL_PLANE_RESTART'',
                  tc_ended_at := Some now, tc_version := version_tag requested_version\<rparr>) (tool_calls db1)\<rparr>
     in db2\<lparr>tool_calls := update_many (\<lambda>c. tc_status c = ''running'')
          (\<lambda>c. c\<lparr>tc_status := ''lost'', tc_error_code := Some ''CONTROL_PLANE_RESTART'',
                 tc_ended_at := Some now, tc_version := version_tag running_version\<rparr>) (tool_calls db2)\<rparr>)"

definition unstarted_active_turn_ids_in_tx ::
  "string set \<Rightarrow> 'x execution_db_scheme \<Rightarrow> string set" where
  "unstarted_active_turn_ids_in_tx candidate_turn_ids db =
    {t \<in> candidate_turn_ids. find_one (\<lambda>r. rn_turn_id r = t) (rounds db) = None}"

text \<open>The rounds of one turn, in order; a stored id that does not parse is an error.\<close>

definition round_ids_for_turn ::
  "(string \<Rightarrow> string option) \<Rightarrow> string \<Rightarrow> 'x execution_db_scheme \<Rightarrow> execution_error + string list" where
  "round_ids_for_turn U turn_id db =
    try_map (\<lambda>r. ok_or (ExInternal ''round id'') (U (rn_id r)))
      (sort_key rn_sequence (filter (\<lambda>r. rn_turn_id r = turn_id) (rounds db)))"

definition round_ids_for_turns_in_tx ::
  "(string \<Rightarrow> string option) \<Rightarrow> string list \<Rightarrow> 'x execution_db_scheme \<Rightarrow> execution_error + string list" where
  "round_ids_for_turns_in_tx U turn_ids db =
    and_then (try_map (\<lambda>t. round_ids_for_turn U t db) turn_ids) (\<lambda>xss. Inr (concat xss))"

definition cancel_execution_in_tx ::
  "(string \<Rightarrow> string option) \<Rightarrow> string \<Rightarrow> string \<Rightarrow> string \<Rightarrow> int \<Rightarrow> 'x execution_db_scheme \<Rightarrow>
    execution_error + (string list \<times> 'x execution_db_scheme)" where
  "cancel_execution_in_tx U call_version round_version turn_id now db =
    and_then (round_ids_for_turns_in_tx U [turn_id] db)
      (\<lambda>round_ids.
        let db1 = db\<lparr>tool_calls := update_many
              (\<lambda>c. tc_status c \<in> {''requested'', ''running''} \<and> tc_round_id c \<in> set round_ids)
              (\<lambda>c. c\<lparr>tc_status := ''canceled'', tc_error_code := Some ''USER_CANCEL'',
                     tc_ended_at := Some now, tc_version := version_tag call_version\<rparr>) (tool_calls db)\<rparr>
        in Inr (round_ids, db1\<lparr>rounds := update_many
             (\<lambda>r. rn_turn_id r = turn_id \<and> rn_status r = ''running'')
             (\<lambda>r. r\<lparr>rn_status := ''canceled'', rn_stop_reason := Some ''user_cancel'',
                    rn_version := version_tag round_version, rn_updated_at := now\<rparr>) (rounds db1)\<rparr>))"

section \<open>Context versions and compaction\<close>

definition latest_context_version :: "string \<Rightarrow> 'x execution_db_scheme \<Rightarrow> context_version_row option" where
  "latest_context_version session_id db =
    find_last_by (\<lambda>v. xv_session_id v = session_id) xv_sequence (context_versions db)"

definition record_context_version_in_tx ::
  "serde \<Rightarrow> string \<Rightarrow> int \<Rightarrow> string \<Rightarrow> string option \<Rightarrow> int \<Rightarrow> int \<Rightarrow> string \<Rightarrow> json \<Rightarrow>
    'x execution_db_scheme \<Rightarrow> execution_error + (string \<times> 'x execution_db_scheme)" where
  "record_context_version_in_tx J context_id now session_id turn_id estimated_input_tokens context_limit
      compact_status selection_json db =
    (let sequence = i64_sat_add (case latest_context_version session_id db of
           None \<Rightarrow> 0 | Some v \<Rightarrow> xv_sequence v) 1;
         c = context_versions db @
           [\<lparr>xv_id = context_id, xv_session_id = session_id, xv_turn_id = turn_id, xv_sequence = sequence,
             xv_estimated_input_tokens = estimated_input_tokens, xv_context_limit = context_limit,
             xv_compact_status = compact_status, xv_compact_summary_id = None,
             xv_selection_json = json_to_string J selection_json, xv_created_at = now\<rparr>]
     in if contexts_indexed c then Inr (context_id, db\<lparr>context_versions := c\<rparr>)
        else Inl (ExInternal ''context version''))"

definition record_context_version ::
  "serde \<Rightarrow> string \<Rightarrow> int \<Rightarrow> string \<Rightarrow> string option \<Rightarrow> int \<Rightarrow> int \<Rightarrow> string \<Rightarrow> json \<Rightarrow>
    'x execution_db_scheme \<Rightarrow> (execution_error + string) \<times> 'x execution_db_scheme" where
  "record_context_version J context_id now session_id turn_id estimated_input_tokens context_limit
      compact_status selection_json =
    run_tx (record_context_version_in_tx J context_id now session_id turn_id estimated_input_tokens
      context_limit compact_status selection_json)"

record schedule_compact_input =
  sc_session_id :: string
  sc_compact_summary_id :: string
  sc_source_first :: "string option"
  sc_source_last :: string
  sc_summary :: json
  sc_estimated_input_tokens :: int
  sc_context_limit :: int

definition set_contexts ::
  "(context_version_row list \<Rightarrow> context_version_row list) \<Rightarrow> 'x execution_db_scheme \<Rightarrow>
    'x execution_db_scheme" where
  "set_contexts f db = db\<lparr>context_versions := f (context_versions db)\<rparr>"

text \<open>
  \<open>now\<close> is read when the summary is written, \<open>(context_id, later)\<close> are drawn when a context version
  has to be recorded for it.
\<close>

definition schedule_compact_in_tx ::
  "serde \<Rightarrow> int \<Rightarrow> string \<times> int \<Rightarrow> schedule_compact_input \<Rightarrow> 'x execution_db_scheme \<Rightarrow>
    execution_error + (string \<times> 'x execution_db_scheme)" where
  "schedule_compact_in_tx J now drawn i db =
    and_then (ok_or (ExInternal ''compact summary'') (insert_one ks_id
        \<lparr>ks_id = sc_compact_summary_id i, ks_session_id = sc_session_id i,
         ks_source_first_timeline_id = sc_source_first i, ks_source_last_timeline_id = sc_source_last i,
         ks_summary_json = json_to_string J (sc_summary i), ks_model_attempt_id = None,
         ks_input_tokens = 0, ks_output_tokens = 0, ks_created_at = now\<rparr> (compact_summaries db)))
      (\<lambda>c. let db1 = db\<lparr>compact_summaries := c\<rparr>
        in and_then
          (case latest_context_version (sc_session_id i) db1 of
             Some latest \<Rightarrow> Inr (set_contexts (\<lambda>c.
               update_many (\<lambda>v. xv_compact_summary_id v = Some (sc_compact_summary_id i) \<and>
                                 xv_session_id v = sc_session_id i)
                 (\<lambda>v. v\<lparr>xv_estimated_input_tokens := sc_estimated_input_tokens i,
                        xv_context_limit := sc_context_limit i\<rparr>)
                 (fst (update_one (\<lambda>v. xv_id v = xv_id latest)
                   (\<lambda>v. v\<lparr>xv_compact_status := ''scheduled'',
                          xv_compact_summary_id := Some (sc_compact_summary_id i)\<rparr>) c))) db1)
           | None \<Rightarrow> and_then (record_context_version_in_tx J (fst drawn) (snd drawn) (sc_session_id i) None
                 (sc_estimated_input_tokens i) (sc_context_limit i) ''scheduled''
                 (JObj [(''kind'', JStr ''manual_compact'')]) db1)
               (\<lambda>(context_version_id, db2). Inr (set_contexts (\<lambda>c.
                 fst (update_one (\<lambda>v. xv_id v = context_version_id)
                   (\<lambda>v. v\<lparr>xv_compact_summary_id := Some (sc_compact_summary_id i)\<rparr>) c)) db2)))
          (\<lambda>db3. Inr (sc_compact_summary_id i, db3)))"

definition schedule_compact ::
  "serde \<Rightarrow> string \<Rightarrow> int \<Rightarrow> string \<times> int \<Rightarrow> string \<Rightarrow> string option \<Rightarrow> string \<Rightarrow> json \<Rightarrow>
    'x execution_db_scheme \<Rightarrow> (execution_error + string) \<times> 'x execution_db_scheme" where
  "schedule_compact J compact_id now drawn session_id source_first source_last summary =
    run_tx (schedule_compact_in_tx J now drawn
      \<lparr>sc_session_id = session_id, sc_compact_summary_id = compact_id, sc_source_first = source_first,
       sc_source_last = source_last, sc_summary = summary, sc_estimated_input_tokens = 0,
       sc_context_limit = DEFAULT_CONTEXT_LIMIT\<rparr>)"

definition begin_compact_in_tx ::
  "string \<Rightarrow> string \<Rightarrow> 'x execution_db_scheme \<Rightarrow> bool \<times> 'x execution_db_scheme" where
  "begin_compact_in_tx session_id compact_summary_id db =
    (let (c, changed) = update_one (\<lambda>v. xv_session_id v = session_id \<and>
           xv_compact_summary_id v = Some compact_summary_id \<and> xv_compact_status v = ''scheduled'')
         (\<lambda>v. v\<lparr>xv_compact_status := ''running''\<rparr>) (context_versions db)
     in (changed = 1, db\<lparr>context_versions := c\<rparr>))"

definition complete_compact_in_tx ::
  "string \<Rightarrow> string \<Rightarrow> int \<Rightarrow> 'x execution_db_scheme \<Rightarrow> bool \<times> 'x execution_db_scheme" where
  "complete_compact_in_tx session_id compact_summary_id estimated_input_tokens db =
    (let (c, changed) = update_one (\<lambda>v. xv_session_id v = session_id \<and>
           xv_compact_summary_id v = Some compact_summary_id \<and>
           xv_compact_status v \<in> {''scheduled'', ''running''})
         (\<lambda>v. v\<lparr>xv_compact_status := ''succeeded'',
                xv_estimated_input_tokens := estimated_input_tokens\<rparr>) (context_versions db)
     in (changed = 1, db\<lparr>context_versions := c\<rparr>))"

definition finalize_compact_summary_in_tx ::
  "serde \<Rightarrow> string \<Rightarrow> json \<Rightarrow> string option \<Rightarrow> int \<Rightarrow> int \<Rightarrow> 'x execution_db_scheme \<Rightarrow>
    'x execution_db_scheme" where
  "finalize_compact_summary_in_tx J compact_summary_id summary model_attempt_id input_tokens output_tokens db =
    db\<lparr>compact_summaries := fst (update_one (\<lambda>s. ks_id s = compact_summary_id)
      (\<lambda>s. (case model_attempt_id of None \<Rightarrow> s | Some a \<Rightarrow> s\<lparr>ks_model_attempt_id := Some a\<rparr>)
             \<lparr>ks_summary_json := json_to_string J summary, ks_input_tokens := input_tokens,
              ks_output_tokens := output_tokens\<rparr>) (compact_summaries db))\<rparr>"

definition latest_compact_summary ::
  "serde \<Rightarrow> string \<Rightarrow> 'x execution_db_scheme \<Rightarrow> (json \<times> string) option" where
  "latest_compact_summary J session_id db =
    (let summary_ids = List.map_filter xv_compact_summary_id
           (filter (\<lambda>v. xv_session_id v = session_id \<and> xv_compact_status v = ''succeeded'')
             (context_versions db));
         found = sort_key (\<lambda>s. (ks_created_at s, ks_id s))
           (filter (\<lambda>s. ks_session_id s = session_id \<and> ks_id s \<in> set summary_ids)
             (compact_summaries db))
     in if summary_ids = [] \<or> found = [] then None
        else Some (case json_from_str J (ks_summary_json (last found)) of
                     None \<Rightarrow> JObj [] | Some v \<Rightarrow> v,
                   ks_source_last_timeline_id (last found)))"

definition context_compact_in_progress :: "string \<Rightarrow> 'x execution_db_scheme \<Rightarrow> bool" where
  "context_compact_in_progress session_id db \<longleftrightarrow>
     filter (\<lambda>v. xv_session_id v = session_id \<and> xv_compact_status v \<in> {''scheduled'', ''running''})
       (context_versions db) \<noteq> []"

record context_usage_view =
  cu_estimated_input_tokens :: int
  cu_context_limit :: int
  cu_compact_status :: string
  cu_created_at :: int

definition latest_context_usage ::
  "string \<Rightarrow> 'x execution_db_scheme \<Rightarrow> context_usage_view option" where
  "latest_context_usage session_id db =
    map_option (\<lambda>v. \<lparr>cu_estimated_input_tokens = xv_estimated_input_tokens v,
        cu_context_limit = xv_context_limit v, cu_compact_status = xv_compact_status v,
        cu_created_at = xv_created_at v\<rparr>) (latest_context_version session_id db)"

section \<open>Usage and attempts of a turn\<close>

definition usage_rows :: "string \<Rightarrow> 'x execution_db_scheme \<Rightarrow> (int \<times> int) list" where
  "usage_rows turn_id db =
    map (\<lambda>u. (ul_input_tokens u, ul_output_tokens u))
      (sort_key (\<lambda>u. (ul_occurred_at u, ul_id u))
        (filter (\<lambda>u. ul_turn_id u = Some turn_id) (model_usage_ledger db)))"

definition turn_token_exchange_of :: "int \<Rightarrow> string \<Rightarrow> 'x execution_db_scheme \<Rightarrow> turn_token_exchange" where
  "turn_token_exchange_of system_prompt_tokens turn_id db =
    aggregate_turn_token_exchange (usage_rows turn_id db) system_prompt_tokens"

record attempt_row =
  ar_attempt :: int
  ar_status :: string
  ar_detail :: "string option"

record turn_model_attempt =
  tma_attempt :: int
  tma_status :: model_attempt_status
  tma_detail :: "string option"

definition attempt_status_of :: "string \<Rightarrow> model_attempt_status option" where
  "attempt_status_of s =
    (if s = ''running'' then Some AttRunning else if s = ''succeeded'' then Some AttSucceeded
     else if s = ''failed'' then Some AttFailed else if s = ''canceled'' then Some AttCanceled
     else if s = ''interrupted'' then Some AttInterrupted else None)"

text \<open>\<open>latest\<close> is the model capability's query for the last attempt of the given rounds.\<close>

definition latest_model_attempt_for_turn ::
  "(string \<Rightarrow> string option) \<Rightarrow> (string list \<Rightarrow> execution_error + attempt_row option) \<Rightarrow> string \<Rightarrow>
    'x execution_db_scheme \<Rightarrow> execution_error + turn_model_attempt option" where
  "latest_model_attempt_for_turn U latest turn_id db =
    and_then (round_ids_for_turn U turn_id db) (\<lambda>round_ids.
    and_then (latest round_ids) (\<lambda>found. case found of None \<Rightarrow> Inr None
      | Some a \<Rightarrow> and_then (ok_or (ExInternal (''unknown model attempt status '' @ ar_status a))
            (attempt_status_of (ar_status a)))
          (\<lambda>status. Inr (Some \<lparr>tma_attempt = durable_retry_index (ar_attempt a) status,
             tma_status = status, tma_detail = ar_detail a\<rparr>))))"

end
