(* ===== verification/Turn_History.thy ===== *)
theory Turn_History
  imports Execution_Store
begin

text \<open>
  What a turn reads before and while it runs, and the records its tools leave
  (\<open>crates/execution/src/interface/persistence.rs\<close> and the helpers of \<open>interface/turn.rs\<close>): the
  chat history with attachments and the compacted prefix, steering inputs, the system prompt, plan
  versions and the deletion of a session's execution records. The blob store and the image probe
  are parameters.
\<close>

definition load_turn ::
  "serde \<Rightarrow> (string \<Rightarrow> string option) \<Rightarrow> string \<Rightarrow> 'x execution_db_scheme \<Rightarrow>
    execution_error + execution_turn_view" where
  "load_turn J U turn_id db =
    (case execution_turn J U turn_id db of
       Inr turn \<Rightarrow> Inr turn
     | Inl e \<Rightarrow> if e = NotFound then Inl ExTurnNotFound else Inl (ExSessions e))"

section \<open>Message parts\<close>

record media =
  blob_read :: "string \<Rightarrow> execution_error + string"
  image_mime :: "string \<Rightarrow> string option"

definition read_attachment_bytes ::
  "media \<Rightarrow> attachment_resource \<Rightarrow> execution_error + string option" where
  "read_attachment_bytes B a =
    (case ar_blob_sha a of None \<Rightarrow> Inr None
     | Some sha \<Rightarrow> and_then (blob_read B sha) (\<lambda>bytes.
         if length bytes \<noteq> ar_byte_size a
         then Inl (ExInternal (''attachment '' @ ar_id a @
                '' byte length does not match its stored metadata''))
         else Inr (Some bytes)))"

definition str_field :: "string \<Rightarrow> json \<Rightarrow> string option" where
  "str_field k v = Option.bind (json_get k v) json_as_str"

definition attachment_parts ::
  "serde \<Rightarrow> (string \<Rightarrow> string option) \<Rightarrow> media \<Rightarrow> string \<Rightarrow> bool \<Rightarrow> 'x execution_db_scheme \<Rightarrow> json \<Rightarrow>
    execution_error + content_part list" where
  "attachment_parts J U B session_id include_images db part =
    and_then (ok_or (ExInternal ''attachment reference is missing its id'') (str_field ''attachment_id'' part))
      (\<lambda>raw. and_then (ok_or (ExInternal ''invalid attachment id'') (U raw))
      (\<lambda>attachment_id. and_then (lift_sessions (get_attachment U session_id attachment_id db))
      (\<lambda>a. let metadata = JObj [(''id'', JStr (ar_id a)), (''name'', JStr (ar_name a)),
              (''mime'', JStr (ar_mime a)), (''byte_size'', JNum (int (ar_byte_size a)))];
            text = PartText (''[Session attachment '' @ json_to_string J metadata @
              ''. Use attachment.read or attachment.save with this id.]'')
        in if \<not> (include_images \<and> ar_blob_sha a \<noteq> None) then Inr [text]
           else and_then (read_attachment_bytes B a) (\<lambda>found.
             and_then (ok_or (ExInternal (''attachment '' @ ar_id a @
                 '' content is unavailable'')) found)
             (\<lambda>bytes. Inr (text # (case image_mime B bytes of None \<Rightarrow> []
                | Some mime \<Rightarrow> [PartImage mime bytes None None])))))))"

definition message_part ::
  "serde \<Rightarrow> (string \<Rightarrow> string option) \<Rightarrow> media \<Rightarrow> string \<Rightarrow> bool \<Rightarrow> 'x execution_db_scheme \<Rightarrow> json \<Rightarrow>
    execution_error + content_part list" where
  "message_part J U B session_id include_images db part =
    (case str_field ''type'' part of
       None \<Rightarrow> Inr []
     | Some kind \<Rightarrow>
         if kind = ''text'' then Inr (case str_field ''text'' part of None \<Rightarrow> []
             | Some text \<Rightarrow> if text = [] then [] else [PartText text])
         else if kind = ''attachment_reference''
           then attachment_parts J U B session_id include_images db part
         else Inr [])"

definition message_parts ::
  "serde \<Rightarrow> (string \<Rightarrow> string option) \<Rightarrow> media \<Rightarrow> string \<Rightarrow> json \<Rightarrow> bool \<Rightarrow> 'x execution_db_scheme \<Rightarrow>
    execution_error + content_part list" where
  "message_parts J U B session_id body include_images db =
    and_then (try_map (message_part J U B session_id include_images db)
        (case json_get ''parts'' body of Some (JArr ps) \<Rightarrow> ps | _ \<Rightarrow> []))
      (\<lambda>pss. Inr (concat pss))"

section \<open>Chat history\<close>

definition text_message :: "chat_role \<Rightarrow> string \<Rightarrow> chat_message" where
  "text_message role text = \<lparr>ch_role = role, ch_parts = [PartText text], ch_tool_call_id = None,
     ch_tool_calls = [], ch_reasoning_content = None\<rparr>"

definition role_of_kind :: "string \<Rightarrow> chat_role option" where
  "role_of_kind kind =
    (if kind = ''user'' then Some RoleUser else if kind = ''assistant'' then Some RoleAssistant
     else if kind = ''system'' then Some RoleSystem
     else if kind = ''tool_result_ref'' then Some RoleTool else None)"

definition history_message ::
  "serde \<Rightarrow> (string \<Rightarrow> string option) \<Rightarrow> media \<Rightarrow> string \<Rightarrow> string \<Rightarrow> bool \<Rightarrow> 'x execution_db_scheme \<Rightarrow>
    context_message \<Rightarrow> chat_role \<Rightarrow> execution_error + chat_message" where
  "history_message J U B session_id turn_id supports_images db row role =
    (let current_input = (cm_turn_id row = Some turn_id \<and> cm_kind row = ''user'')
     in and_then (message_parts J U B session_id (cm_body row) (supports_images \<and> current_input) db)
       (\<lambda>parts. Inr \<lparr>ch_role = role, ch_parts = parts, ch_tool_call_id = str_field ''tool_call_id'' (cm_body row),
          ch_tool_calls = (case Option.bind (json_get ''tool_calls'' (cm_body row)) calls_from_value of
            None \<Rightarrow> [] | Some calls \<Rightarrow> calls),
          ch_reasoning_content = (if role = RoleAssistant
            then str_field ''reasoning_content'' (cm_body row) else None)\<rparr>))"

primrec history_messages ::
  "serde \<Rightarrow> (string \<Rightarrow> string option) \<Rightarrow> media \<Rightarrow> string \<Rightarrow> string \<Rightarrow> bool \<Rightarrow> 'x execution_db_scheme \<Rightarrow>
    context_message list \<Rightarrow> int \<Rightarrow> execution_error + (chat_message list \<times> int)" where
  "history_messages J U B session_id turn_id supports_images db [] input_cursor = Inr ([], input_cursor)"
| "history_messages J U B session_id turn_id supports_images db (row # rows) input_cursor =
    (case role_of_kind (cm_kind row) of
       None \<Rightarrow> history_messages J U B session_id turn_id supports_images db rows input_cursor
     | Some role \<Rightarrow>
         let next_cursor = (if cm_turn_id row = Some turn_id \<and> cm_kind row = ''user''
               then max input_cursor (cm_timeline_sequence row) else input_cursor)
         in and_then (history_message J U B session_id turn_id supports_images db row role) (\<lambda>m.
            and_then (history_messages J U B session_id turn_id supports_images db rows next_cursor)
              (\<lambda>(ms, last_cursor). Inr (m # ms, last_cursor))))"

definition load_chat_history ::
  "serde \<Rightarrow> (string \<Rightarrow> string option) \<Rightarrow> media \<Rightarrow> string \<Rightarrow> string \<Rightarrow> bool \<Rightarrow> 'x execution_db_scheme \<Rightarrow>
    execution_error + (chat_message list \<times> int)" where
  "load_chat_history J U B session_id turn_id supports_images db =
    (let compact = latest_compact_summary J session_id db
     in and_then (lift_sessions (case compact of
            Some (_, source_last) \<Rightarrow> context_messages_after_timeline J session_id turn_id source_last db
          | None \<Rightarrow> context_messages J session_id turn_id db))
        (\<lambda>rows. and_then (history_messages J U B session_id turn_id supports_images db rows 0)
        (\<lambda>(ms, input_cursor). Inr ((case compact of None \<Rightarrow> []
            | Some (summary, _) \<Rightarrow> [text_message RoleSystem
                (''Durable context summary:'' @ [CHR 0x0A] @ json_to_string J summary)]) @ ms,
          input_cursor))))"

section \<open>Inputs that arrive while the turn runs\<close>

text \<open>The prefix goes into the first text part, or in front of the parts when there is none.\<close>

definition is_text :: "content_part \<Rightarrow> bool" where
  "is_text p \<longleftrightarrow> (case p of PartText _ \<Rightarrow> True | _ \<Rightarrow> False)"

fun prefix_first_text :: "string \<Rightarrow> content_part list \<Rightarrow> content_part list" where
  "prefix_first_text mark [] = []"
| "prefix_first_text mark (PartText text # ps) = PartText (mark @ text) # ps"
| "prefix_first_text mark (p # ps) = p # prefix_first_text mark ps"

definition steer_prefix :: "content_part list \<Rightarrow> content_part list" where
  "steer_prefix parts =
    (if list_ex is_text parts then prefix_first_text ''[steer] '' parts
     else PartText (trim_end ''[steer] '') # parts)"

definition turn_input_message ::
  "serde \<Rightarrow> (string \<Rightarrow> string option) \<Rightarrow> media \<Rightarrow> string \<Rightarrow> bool \<Rightarrow> 'x execution_db_scheme \<Rightarrow>
    context_message \<Rightarrow> execution_error + chat_message list" where
  "turn_input_message J U B session_id supports_images db row =
    and_then (message_parts J U B session_id (cm_body row) supports_images db) (\<lambda>parts.
      if parts = [] then Inr []
      else let input_kind = Option.bind (json_get ''turn_input'' (cm_body row)) (str_field ''kind'')
        in Inr [\<lparr>ch_role = RoleUser,
             ch_parts = (if input_kind = Some ''steer'' then steer_prefix parts else parts),
             ch_tool_call_id = None, ch_tool_calls = [], ch_reasoning_content = None\<rparr>])"

definition load_turn_inputs_after ::
  "serde \<Rightarrow> (string \<Rightarrow> string option) \<Rightarrow> media \<Rightarrow> string \<Rightarrow> string \<Rightarrow> int \<Rightarrow> bool \<Rightarrow>
    'x execution_db_scheme \<Rightarrow> execution_error + (chat_message list \<times> int)" where
  "load_turn_inputs_after J U B session_id turn_id input_cursor supports_images db =
    and_then (lift_sessions (turn_inputs_after J turn_id input_cursor db)) (\<lambda>rows.
    and_then (try_map (turn_input_message J U B session_id supports_images db) rows) (\<lambda>mss.
      Inr (concat mss, foldl (\<lambda>c row. max c (cm_timeline_sequence row)) input_cursor rows)))"

section \<open>System prompt\<close>

record async_task_view =
  atv_id :: string
  atv_status :: string
  atv_command_summary :: string

definition goal_mode_text :: string where
  "goal_mode_text = [CHR 0x0A, CHR 0x0A] @ ''Goal mode:'' @ [CHR 0x0A] @
    ''Continue pursuing the user's objective across as many Rounds as needed. '' @
    ''Do not stop merely because one subtask finished; inspect evidence, keep editing the Main workspace, and stop only when the objective is complete or a concrete blocker remains.''"

definition session_line :: "string \<Rightarrow> session_summary \<Rightarrow> string" where
  "session_line session_id s =
    ''- '' @ ss_id s @ (if ss_id s = session_id then '' (current)'' else []) @
    '' [project '' @ ss_project_id s @ '']'' @
    (case ss_title s of None \<Rightarrow> [] | Some title \<Rightarrow> '': '' @ title) @
    (case ss_active_turn_id s of None \<Rightarrow> [] | Some t \<Rightarrow> '' [turn '' @ t @ '']'') @ [CHR 0x0A]"

definition task_line :: "async_task_view \<Rightarrow> string" where
  "task_line t = ''- '' @ atv_id t @ '' ['' @ atv_status t @ ''] '' @ atv_command_summary t @ [CHR 0x0A]"

text \<open>
  \<open>base\<close> is the constant system prompt, \<open>memory\<close> and \<open>async_tasks\<close> what the projects and runtime
  capabilities return.
\<close>

definition system_prompt_for_turn ::
  "serde \<Rightarrow> string \<Rightarrow> execution_error + string \<Rightarrow> execution_error + async_task_view list \<Rightarrow>
    string \<Rightarrow> string \<Rightarrow> bool \<Rightarrow> 'x execution_db_scheme \<Rightarrow> execution_error + string" where
  "system_prompt_for_turn J base memory async_tasks project_id session_id goal_mode db =
    and_then memory (\<lambda>mem.
    and_then (lift_sessions (active_sessions J project_id 50 db)) (\<lambda>active.
    and_then async_tasks (\<lambda>tasks. Inr
      (base @ (if goal_mode then goal_mode_text else []) @
       (if mem = [] then [] else [CHR 0x0A, CHR 0x0A] @ mem) @
       (if active = [] then [] else [CHR 0x0A, CHR 0x0A] @ ''Active sessions in this project:'' @
          [CHR 0x0A] @ concat (map (session_line session_id) active)) @
       (if tasks = [] then [] else [CHR 0x0A] @ ''Global async Bash tasks:'' @ [CHR 0x0A] @
          concat (map task_line tasks))))))"

section \<open>Effects of tools on the durable records\<close>

definition read_paths_for_turn :: "serde \<Rightarrow> string \<Rightarrow> 'x execution_db_scheme \<Rightarrow> string set" where
  "read_paths_for_turn J turn_id db =
    (let round_ids = map rn_id (filter (\<lambda>r. rn_turn_id r = turn_id) (rounds db))
     in set (List.map_filter (\<lambda>c.
          str_field ''path'' (case json_from_str J (tc_input_json c) of None \<Rightarrow> JObj [] | Some v \<Rightarrow> v))
        (filter (\<lambda>c. tc_round_id c \<in> set round_ids \<and> tc_tool_name c = ''read'' \<and>
                     tc_status c = ''succeeded'') (tool_calls db))))"

definition add_plan_fields :: "string \<Rightarrow> int \<Rightarrow> json \<Rightarrow> json" where
  "add_plan_fields plan_id sequence summary =
    (case summary of
       JObj kvs \<Rightarrow> JObj (obj_insert ''sequence'' (JNum sequence)
                     (obj_insert ''plan_version_id'' (JStr plan_id) kvs))
     | _ \<Rightarrow> summary)"

text \<open>A plan the model reports: a new version, or the existing one when its id was used before.\<close>

definition record_plan ::
  "serde \<Rightarrow> string \<Rightarrow> json \<Rightarrow> json \<Rightarrow> int \<Rightarrow> 'x execution_db_scheme \<Rightarrow>
    execution_error + (json \<times> 'x execution_db_scheme)" where
  "record_plan J turn_id plan summary now db =
    and_then (ok_or (ExInternal ''plan id is missing'') (str_field ''id'' plan)) (\<lambda>plan_id.
      let field = (\<lambda>k. case json_get k plan of None \<Rightarrow> JArr [] | Some v \<Rightarrow> v);
          sequence = i64_sat_add (case find_last_by (\<lambda>p. pn_turn_id p = turn_id) pn_sequence
            (plan_versions db) of None \<Rightarrow> 0 | Some p \<Rightarrow> pn_sequence p) 1;
          c = plan_versions db @
            [\<lparr>pn_id = plan_id, pn_turn_id = turn_id, pn_sequence = sequence,
              pn_plan_json = json_to_string J (field ''todos''),
              pn_evidence_json = json_to_string J (field ''evidence''), pn_created_at = now\<rparr>]
      in if plans_indexed c
         then Inr (add_plan_fields plan_id sequence summary, db\<lparr>plan_versions := c\<rparr>)
         else case find_one (\<lambda>p. pn_id p = plan_id) (plan_versions db) of
             None \<Rightarrow> Inl (ExInternal ''plan version vanished after duplicate create'')
           | Some existing \<Rightarrow> Inr (add_plan_fields (pn_id existing) (pn_sequence existing) summary, db))"

definition persist_tool_effects_in_tx ::
  "serde \<Rightarrow> string \<Rightarrow> string \<Rightarrow> json \<Rightarrow> int \<Rightarrow> 'x execution_db_scheme \<Rightarrow>
    execution_error + (json \<times> 'x execution_db_scheme)" where
  "persist_tool_effects_in_tx J turn_id tool_call_id summary now db =
    (let db1 = (case str_field ''task_id'' summary of None \<Rightarrow> db
       | Some async_task_id \<Rightarrow> db\<lparr>tool_calls := fst (update_one
           (\<lambda>c. tc_id c = tool_call_id \<and> tc_status c = ''running'')
           (\<lambda>c. c\<lparr>tc_async_task_id := Some async_task_id\<rparr>) (tool_calls db))\<rparr>)
     in case json_get ''plan'' summary of
          None \<Rightarrow> Inr (summary, db1)
        | Some plan \<Rightarrow> record_plan J turn_id plan summary now db1)"

section \<open>Deletion\<close>

definition delete_session_execution_in_tx ::
  "string \<Rightarrow> string list \<Rightarrow> 'x execution_db_scheme \<Rightarrow> 'x execution_db_scheme" where
  "delete_session_execution_in_tx session_id turn_ids db =
    (let db1 = foldl (\<lambda>d turn_id.
           d\<lparr>plan_versions := fst (delete_many (\<lambda>p. pn_turn_id p = turn_id) (plan_versions d)),
             rounds := fst (delete_many (\<lambda>r. rn_turn_id r = turn_id) (rounds d))\<rparr>) db turn_ids;
         db2 = db1\<lparr>context_versions := fst (delete_many (\<lambda>v. xv_session_id v = session_id)
           (context_versions db1))\<rparr>
     in db2\<lparr>compact_summaries := fst (delete_many (\<lambda>s. ks_session_id s = session_id)
          (compact_summaries db2))\<rparr>)"

end
