(* ===== verification/Round_Transactions.thy ===== *)
theory Round_Transactions
  imports Turn_History
begin

text \<open>
  The transactions of the round loop (\<open>crates/execution/src/interface/turn.rs\<close>): opening a round,
  accepting or failing its response, starting, finishing and skipping tool calls, and settling the
  turn. Each definition is the body of one unit of work; a path that leaves it without a commit
  returns the store it was given.
\<close>

definition append_work_event ::
  "serde \<Rightarrow> string \<times> int \<Rightarrow> new_event \<Rightarrow> 'x execution_db_scheme \<Rightarrow> execution_error + 'x execution_db_scheme" where
  "append_work_event J at ev db =
    (case append_in_tx J (fst at) (snd at) ev db of
       Inl _ \<Rightarrow> Inl (ExInternal ''append event'') | Inr (_, db') \<Rightarrow> Inr db')"

primrec append_work_events ::
  "serde \<Rightarrow> (nat \<Rightarrow> string \<times> int) \<Rightarrow> nat \<Rightarrow> new_event list \<Rightarrow> 'x execution_db_scheme \<Rightarrow>
    execution_error + 'x execution_db_scheme" where
  "append_work_events J ids k [] db = Inr db"
| "append_work_events J ids k (ev # evs) db =
    and_then (append_work_event J (ids k) ev db) (append_work_events J ids (Suc k) evs)"

definition execution_actor :: json where
  "execution_actor = JObj [(''kind'', JStr ''execution'')]"

definition work_event :: "event_type \<Rightarrow> json \<Rightarrow> string \<times> string \<Rightarrow> string \<Rightarrow> json \<Rightarrow> new_event" where
  "work_event kind actor resource correlation_id payload =
    \<lparr>ne_type = kind, ne_actor = actor, ne_resource = Some (resource_json (fst resource) (snd resource)),
     ne_correlation_id = correlation_id, ne_causation_id = None, ne_payload = payload\<rparr>"

text \<open>The ids, versions and clock readings one transaction draws.\<close>

record work_gen =
  wg_now :: int
  wg_version :: string
  wg_correlation :: string
  wg_event :: "nat \<Rightarrow> string \<times> int"
  wg_message :: message_gen
  wg_call :: "nat \<Rightarrow> string \<times> string"

section \<open>Opening a round\<close>

record begin_gen = work_gen +
  wg_round_id :: string
  wg_context_id :: string
  wg_context_now :: int

definition new_round_row ::
  "serde \<Rightarrow> begin_gen \<Rightarrow> string \<Rightarrow> int \<Rightarrow> string \<Rightarrow> turn_model_snapshot \<Rightarrow> round_row" where
  "new_round_row J g turn_id round_seq context_version_id snapshot =
    \<lparr>rn_id = wg_round_id g, rn_turn_id = turn_id, rn_sequence = round_seq,
     rn_context_version = context_version_id, rn_status = ''running'',
     rn_candidate_snapshot_json = json_to_string J (JArr (map (\<lambda>c. JObj (candidate_fields c))
       (mc_failover snapshot))),
     rn_input_tokens = 0, rn_output_tokens = 0, rn_final_attempt_id = None, rn_stop_reason = None,
     rn_output_summary_json = None, rn_version = version_tag (wg_version g),
     rn_created_at = wg_now g, rn_updated_at = wg_now g\<rparr>"

definition begin_round_tx ::
  "serde \<Rightarrow> begin_gen \<Rightarrow> string \<Rightarrow> string \<Rightarrow> chat_message list \<Rightarrow> turn_model_snapshot \<Rightarrow> int \<Rightarrow>
    'x execution_db_scheme \<Rightarrow> execution_error + (bool \<times> 'x execution_db_scheme)" where
  "begin_round_tx J g session_id turn_id chat snapshot round_seq db =
    (if \<not> turn_is_runnable session_id turn_id db then Inr (False, db)
     else and_then (record_context_version_in_tx J (wg_context_id g) (wg_context_now g) session_id (Some turn_id)
            (estimate_chat_tokens J chat) (int (max (mc_context_limit snapshot) 1)) ''not_needed''
            (JObj [(''kind'', JStr ''turn_round''), (''message_count'', JNum (int (length chat)))]) db)
       (\<lambda>(context_version_id, db1).
         let c = rounds db1 @ [new_round_row J g turn_id round_seq context_version_id snapshot]
         in if \<not> rounds_indexed c then Inr (False, db)
            else and_then (append_work_event J (wg_event g 0)
                (work_event RoundChanged execution_actor (''round'', wg_round_id g) (wg_correlation g)
                  (JObj [(''round_id'', JStr (wg_round_id g)), (''turn_id'', JStr turn_id),
                         (''sequence'', JNum round_seq), (''status'', JStr ''running'')]))
                (db1\<lparr>rounds := c\<rparr>))
              (\<lambda>db2. Inr (True, db2))))"

section \<open>Accepting a response\<close>

record accepted_tool_call =
  ac_id :: string
  ac_ordinal :: int
  ac_request :: completed_tool_call

record accepted_round_response =
  rr_session_id :: string
  rr_turn_id :: string
  rr_round_id :: string
  rr_attempt_id :: string
  rr_input_tokens :: int
  rr_output_tokens :: int
  rr_stop_reason :: "string option"
  rr_text :: string
  rr_reasoning :: string
  rr_reasoning_content :: "string option"
  rr_reasoning_duration_ms :: "nat option"
  rr_tool_calls :: "completed_tool_call list"
  rr_actor :: json

definition SCHEMA_VERSION :: int where "SCHEMA_VERSION = 1"

definition tool_input :: "serde \<Rightarrow> completed_tool_call \<Rightarrow> json" where
  "tool_input J request =
    (case json_from_str J (cc_arguments_json request) of None \<Rightarrow> JObj [] | Some v \<Rightarrow> v)"

definition reset_call_row ::
  "serde \<Rightarrow> string \<Rightarrow> int \<Rightarrow> completed_tool_call \<Rightarrow> json \<Rightarrow> tool_call_row \<Rightarrow> tool_call_row" where
  "reset_call_row J version ordinal request actor c =
    c\<lparr>tc_ord := ordinal, tc_tool_name := cc_name request,
      tc_input_json := json_to_string J (tool_input J request), tc_status := ''requested'',
      tc_actor_json := json_to_string J actor, tc_version := version_tag version,
      tc_error_code := None, tc_started_at := None, tc_ended_at := None\<rparr>"

definition new_call_row ::
  "serde \<Rightarrow> string \<times> string \<Rightarrow> string \<Rightarrow> int \<Rightarrow> completed_tool_call \<Rightarrow> json \<Rightarrow> tool_call_row" where
  "new_call_row J drawn round_id ordinal request actor =
    \<lparr>tc_id = fst drawn, tc_round_id = round_id, tc_ord = ordinal, tc_tool_name = cc_name request,
     tc_schema_version = SCHEMA_VERSION, tc_input_json = json_to_string J (tool_input J request),
     tc_status = ''requested'', tc_actor_json = json_to_string J actor,
     tc_provider_call_id = cc_id request, tc_version = version_tag (snd drawn), tc_error_code = None,
     tc_started_at = None, tc_ended_at = None, tc_result_summary_json = None, tc_async_task_id = None\<rparr>"

text \<open>One declared call: a call the provider already delivered in this round replaces its row.\<close>

definition accept_call ::
  "serde \<Rightarrow> (string \<Rightarrow> string option) \<Rightarrow> string \<times> string \<Rightarrow> string \<Rightarrow> json \<Rightarrow> int \<Rightarrow>
    completed_tool_call \<Rightarrow> 'x execution_db_scheme \<Rightarrow>
    execution_error + (accepted_tool_call \<times> 'x execution_db_scheme)" where
  "accept_call J U drawn round_id actor ordinal request db =
    (case find_one (\<lambda>c. tc_round_id c = round_id \<and> tc_provider_call_id c = cc_id request)
            (tool_calls db) of
       Some stored \<Rightarrow>
         and_then (ok_or (ExInternal ''stored Tool Call id is not a ToolCallId'') (U (tc_id stored)))
           (\<lambda>call_id.
             let c = fst (update_one (\<lambda>c. tc_id c = tc_id stored)
                   (reset_call_row J (snd drawn) ordinal request actor) (tool_calls db))
             in if calls_indexed c
                then Inr (\<lparr>ac_id = call_id, ac_ordinal = ordinal, ac_request = request\<rparr>, db\<lparr>tool_calls := c\<rparr>)
                else Inl ExStorage)
     | None \<Rightarrow>
         let c = tool_calls db @ [new_call_row J drawn round_id ordinal request actor]
         in if calls_indexed c
            then Inr (\<lparr>ac_id = fst drawn, ac_ordinal = ordinal, ac_request = request\<rparr>, db\<lparr>tool_calls := c\<rparr>)
            else Inl ExStorage)"

primrec accept_calls ::
  "serde \<Rightarrow> (string \<Rightarrow> string option) \<Rightarrow> (nat \<Rightarrow> string \<times> string) \<Rightarrow> string \<Rightarrow> json \<Rightarrow> nat \<Rightarrow>
    completed_tool_call list \<Rightarrow> 'x execution_db_scheme \<Rightarrow>
    execution_error + (accepted_tool_call list \<times> 'x execution_db_scheme)" where
  "accept_calls J U draws round_id actor n [] db = Inr ([], db)"
| "accept_calls J U draws round_id actor n (request # requests) db =
    and_then (accept_call J U (draws n) round_id actor (int n) request db) (\<lambda>(a, db1).
    and_then (accept_calls J U draws round_id actor (Suc n) requests db1) (\<lambda>(as, db2).
      Inr (a # as, db2)))"

definition succeed_round_row :: "serde \<Rightarrow> int \<Rightarrow> accepted_round_response \<Rightarrow> round_row \<Rightarrow> round_row" where
  "succeed_round_row J now i r =
    (let body = JObj ((case rr_reasoning_content i of None \<Rightarrow> id
             | Some raw \<Rightarrow> obj_insert ''reasoning_content'' (JStr raw))
           [(''text'', JStr (rr_text i)), (''reasoning'', JStr (rr_reasoning i))])
     in (case rr_stop_reason i of None \<Rightarrow> r | Some s \<Rightarrow> r\<lparr>rn_stop_reason := Some s\<rparr>)
        \<lparr>rn_status := ''succeeded'', rn_final_attempt_id := Some (rr_attempt_id i),
         rn_input_tokens := rr_input_tokens i, rn_output_tokens := rr_output_tokens i,
         rn_output_summary_json := Some (json_to_string J body), rn_updated_at := now\<rparr>)"

definition running_round :: "string \<Rightarrow> string \<Rightarrow> round_row \<Rightarrow> bool" where
  "running_round round_id turn_id r \<longleftrightarrow>
     rn_id r = round_id \<and> rn_status r = ''running'' \<and> rn_turn_id r = turn_id"

definition accepted_events ::
  "accepted_round_response \<Rightarrow> string \<Rightarrow> string option \<Rightarrow> accepted_tool_call list \<Rightarrow> new_event list" where
  "accepted_events i correlation_id timeline_item_id calls =
    [work_event RoundChanged execution_actor (''round'', rr_round_id i) correlation_id
       (JObj [(''round_id'', JStr (rr_round_id i)), (''session_id'', JStr (rr_session_id i)),
              (''turn_id'', JStr (rr_turn_id i)), (''status'', JStr ''succeeded''),
              (''input_tokens'', JNum (rr_input_tokens i)), (''output_tokens'', JNum (rr_output_tokens i))])] @
    (case timeline_item_id of None \<Rightarrow> []
     | Some item \<Rightarrow> [work_event TimelineItemCreated (rr_actor i) (''session'', rr_session_id i) correlation_id
         (JObj [(''timeline_item_id'', JStr item), (''kind'', JStr ''assistant_message'')])]) @
    map (\<lambda>call. work_event ToolCallCreated (rr_actor i) (''tool_call'', ac_id call) correlation_id
        (JObj [(''session_id'', JStr (rr_session_id i)), (''tool_call_id'', JStr (ac_id call)),
               (''provider_call_id'', JStr (cc_id (ac_request call))),
               (''tool_name'', JStr (cc_name (ac_request call))), (''status'', JStr ''requested''),
               (''ordinal'', JNum (ac_ordinal call))])) calls"

definition accept_round_response ::
  "serde \<Rightarrow> (string \<Rightarrow> string option) \<Rightarrow> work_gen \<Rightarrow> accepted_round_response \<Rightarrow> 'x execution_db_scheme \<Rightarrow>
    execution_error + (accepted_tool_call list option \<times> 'x execution_db_scheme)" where
  "accept_round_response J U g i db =
    (if \<not> turn_is_runnable (rr_session_id i) (rr_turn_id i) db then Inr (None, db)
     else let (c, matched) = update_one (running_round (rr_round_id i) (rr_turn_id i))
            (succeed_round_row J (wg_now g) i) (rounds db)
       in if matched \<noteq> 1 then Inr (None, db)
          else and_then (lift_sessions (append_assistant_message_in_tx J (wg_message g)
              \<lparr>am_session_id = rr_session_id i, am_turn_id = rr_turn_id i, am_round_id = rr_round_id i,
               am_text = rr_text i, am_reasoning = rr_reasoning i,
               am_reasoning_content = rr_reasoning_content i,
               am_duration_ms = map_option as_i64_tokens (rr_reasoning_duration_ms i),
               am_tool_calls = JArr (map call_to_value (rr_tool_calls i)), am_actor = rr_actor i,
               am_now = wg_now g\<rparr> (db\<lparr>rounds := c\<rparr>)))
            (\<lambda>((_, timeline_item_id, _), db1).
          and_then (accept_calls J U (wg_call g) (rr_round_id i) (rr_actor i) 0 (rr_tool_calls i) db1)
            (\<lambda>(calls, db2).
          and_then (append_work_events J (wg_event g) 0
              (accepted_events i (wg_correlation g) timeline_item_id calls) db2)
            (\<lambda>db3. Inr (Some calls, db3)))))"

section \<open>Failing a round\<close>

text \<open>
  The scan for output of the round that is already on the timeline: a stored projection that does
  not parse is an error, a row without a source does not count.
\<close>

primrec persisted_output ::
  "serde \<Rightarrow> string \<Rightarrow> timeline_row list \<Rightarrow> execution_error + bool" where
  "persisted_output J round_id [] = Inr False"
| "persisted_output J round_id (t # ts) =
    and_then (ok_or (ExInternal ''projection'') (json_from_str J (tl_projection_json t)))
      (\<lambda>projection. if str_field ''round_id'' projection = Some round_id
         then Inr (tl_source_resource_id t \<noteq> None)
         else persisted_output J round_id ts)"

definition persist_failed_round_output ::
  "serde \<Rightarrow> work_gen \<Rightarrow> string \<Rightarrow> string \<Rightarrow> string \<Rightarrow> string \<Rightarrow> string \<Rightarrow> string \<Rightarrow> json \<Rightarrow>
    'x execution_db_scheme \<Rightarrow> execution_error + (unit \<times> 'x execution_db_scheme)" where
  "persist_failed_round_output J g session_id turn_id round_id text reasoning detail actor db =
    (if \<not> turn_is_runnable session_id turn_id db then Inr ((), db)
     else and_then (persisted_output J round_id
        (filter (\<lambda>t. tl_session_id t = session_id \<and> tl_turn_id t = Some turn_id \<and>
                    tl_kind t = ''assistant_message'' \<and> tl_status t = ''active'') (timeline_items db)))
       (\<lambda>already. if already then Inr ((), db)
        else and_then (lift_sessions (append_assistant_message_in_tx J (wg_message g)
            \<lparr>am_session_id = session_id, am_turn_id = turn_id, am_round_id = round_id, am_text = text,
             am_reasoning = reasoning, am_reasoning_content = None, am_duration_ms = None,
             am_tool_calls = JArr [], am_actor = actor, am_now = wg_now g\<rparr> db))
          (\<lambda>((_, timeline_item_id, _), db1).
        and_then (case timeline_item_id of None \<Rightarrow> Inr db1
          | Some item \<Rightarrow> append_work_event J (wg_event g 0)
              (work_event TimelineItemCreated actor (''session'', session_id) (wg_correlation g)
                (JObj [(''session_id'', JStr session_id), (''timeline_item_id'', JStr item),
                       (''kind'', JStr ''assistant_message''), (''round_id'', JStr round_id),
                       (''partial'', JBool True), (''error'', JStr detail)])) db1)
          (\<lambda>db2. Inr ((), db2)))))"

definition fail_round ::
  "serde \<Rightarrow> work_gen \<Rightarrow> string \<Rightarrow> string \<Rightarrow> string \<Rightarrow> string \<Rightarrow> 'x execution_db_scheme \<Rightarrow>
    execution_error + (unit \<times> 'x execution_db_scheme)" where
  "fail_round J g session_id turn_id round_id detail db =
    (if \<not> turn_is_runnable session_id turn_id db then Inr ((), db)
     else let (c, changed) = update_one (running_round round_id turn_id)
            (\<lambda>r. r\<lparr>rn_status := ''failed'', rn_stop_reason := Some ''error'',
                   rn_output_summary_json := Some (json_to_string J (JObj [(''error'', JStr detail)])),
                   rn_updated_at := wg_now g\<rparr>) (rounds db)
       in if changed \<noteq> 1 then Inr ((), db)
          else and_then (append_work_event J (wg_event g 0)
              (work_event RoundChanged execution_actor (''round'', round_id) (wg_correlation g)
                (JObj [(''round_id'', JStr round_id), (''session_id'', JStr session_id),
                       (''turn_id'', JStr turn_id), (''status'', JStr ''failed''),
                       (''detail'', JStr detail)])) (db\<lparr>rounds := c\<rparr>))
            (\<lambda>db1. Inr ((), db1)))"

section \<open>Tool calls\<close>

definition call_event ::
  "string \<Rightarrow> json \<Rightarrow> string \<Rightarrow> accepted_tool_call \<Rightarrow> string \<Rightarrow> (string \<times> json) list \<Rightarrow> new_event" where
  "call_event session_id actor correlation_id accepted status extra =
    work_event ToolCallChanged actor (''tool_call'', ac_id accepted) correlation_id
      (JObj ([(''session_id'', JStr session_id), (''tool_call_id'', JStr (ac_id accepted)),
              (''provider_call_id'', JStr (cc_id (ac_request accepted))),
              (''tool_name'', JStr (cc_name (ac_request accepted))), (''status'', JStr status)] @ extra))"

definition tool_result_of ::
  "string \<Rightarrow> string \<Rightarrow> accepted_tool_call \<Rightarrow> string \<Rightarrow> json \<Rightarrow> json \<Rightarrow> json \<Rightarrow> int \<Rightarrow> append_tool_result_input" where
  "tool_result_of session_id turn_id accepted status summary durable_parts actor now =
    \<lparr>tr_session_id = session_id, tr_turn_id = turn_id, tr_tool_call_id = ac_id accepted,
     tr_provider_call_id = cc_id (ac_request accepted), tr_tool_name = cc_name (ac_request accepted),
     tr_status = status, tr_summary = summary, tr_model_parts = durable_parts, tr_now = now,
     tr_actor = actor\<rparr>"

definition requested_call :: "string \<Rightarrow> string list \<Rightarrow> tool_call_row \<Rightarrow> bool" where
  "requested_call call_id round_ids c \<longleftrightarrow>
     tc_id c = call_id \<and> tc_status c = ''requested'' \<and> tc_round_id c \<in> set round_ids"

text \<open>
  A call that is skipped: the message for the model is built before the transaction; the outcome
  with its display is \<open>skipped\<close>.
\<close>

definition skipped_text :: "accepted_tool_call \<Rightarrow> string \<Rightarrow> string" where
  "skipped_text accepted reason =
    ''tool `'' @ cc_name (ac_request accepted) @ ''` was not executed because '' @ reason"

definition skipped_outcome :: "accepted_tool_call \<Rightarrow> string \<Rightarrow> tool_outcome" where
  "skipped_outcome accepted reason =
    \<lparr>to_disposition = ToolFailed, to_parts = [ResText (skipped_text accepted reason)],
     to_summary = JObj [(''ok'', JBool False), (''skipped'', JBool True), (''reason'', JStr reason),
       (''detail'', JStr (skipped_text accepted reason))],
     to_error_code = Some ''TOOL_SKIPPED_AFTER_BLOCK'', to_finish_summary = None\<rparr>"

definition settle_unrun_tool_call_tx ::
  "serde \<Rightarrow> (string \<Rightarrow> string option) \<Rightarrow> (string \<Rightarrow> json \<Rightarrow> tool_outcome \<Rightarrow> tool_outcome) \<Rightarrow> work_gen \<Rightarrow>
    string \<Rightarrow> string \<Rightarrow> accepted_tool_call \<Rightarrow> string \<Rightarrow> json \<Rightarrow> 'x execution_db_scheme \<Rightarrow>
    execution_error + (chat_message \<times> 'x execution_db_scheme)" where
  "settle_unrun_tool_call_tx J U attach_display g session_id turn_id accepted reason actor db =
    (let text = skipped_text accepted reason;
         message = (text_message RoleTool text)\<lparr>ch_tool_call_id := Some (cc_id (ac_request accepted))\<rparr>;
         summary = to_summary (attach_display (cc_name (ac_request accepted))
           (tool_input J (ac_request accepted)) (skipped_outcome accepted reason))
     in and_then (round_ids_for_turns_in_tx U [turn_id] db) (\<lambda>round_ids.
       let (c, changed) = update_one (requested_call (ac_id accepted) round_ids)
             (\<lambda>c. c\<lparr>tc_status := ''canceled'', tc_result_summary_json := Some (json_to_string J summary),
                    tc_error_code := Some ''TOOL_SKIPPED_AFTER_BLOCK'', tc_ended_at := Some (wg_now g),
                    tc_version := version_tag (wg_version g)\<rparr>) (tool_calls db)
       in if changed \<noteq> 1 then Inr (message, db)
          else and_then (lift_sessions (append_tool_result_in_tx J (wg_message g)
              (tool_result_of session_id turn_id accepted ''canceled'' summary (JArr [text_part_json text])
                 actor (wg_now g)) (db\<lparr>tool_calls := c\<rparr>)))
            (\<lambda>((_, timeline_item_id, _), db1).
          and_then (append_work_event J (wg_event g 0)
              (call_event session_id actor (wg_correlation g) accepted ''canceled''
                [(''summary'', summary), (''timeline_item_id'', JStr timeline_item_id),
                 (''skipped'', JBool True)]) db1)
            (\<lambda>db2. Inr (message, db2)))))"

definition start_tool_tx ::
  "serde \<Rightarrow> (string \<Rightarrow> string option) \<Rightarrow> work_gen \<Rightarrow> string \<Rightarrow> string \<Rightarrow> accepted_tool_call \<Rightarrow> json \<Rightarrow>
    'x execution_db_scheme \<Rightarrow> execution_error + (bool \<times> 'x execution_db_scheme)" where
  "start_tool_tx J U g session_id turn_id accepted actor db =
    (if \<not> turn_is_runnable session_id turn_id db then Inr (False, db)
     else and_then (round_ids_for_turns_in_tx U [turn_id] db) (\<lambda>round_ids.
       let (c, started) = update_one (requested_call (ac_id accepted) round_ids)
             (\<lambda>c. c\<lparr>tc_status := ''running'', tc_started_at := Some (wg_now g),
                    tc_version := version_tag (wg_version g)\<rparr>) (tool_calls db)
       in if started \<noteq> 1 then Inr (False, db)
          else and_then (append_work_event J (wg_event g 0)
              (call_event session_id actor (wg_correlation g) accepted ''running'' [])
              (db\<lparr>tool_calls := c\<rparr>))
            (\<lambda>db1. Inr (True, db1))))"

text \<open>The first part shows the summary again once a plan version was recorded.\<close>

definition show_plan_version :: "tool_outcome \<Rightarrow> tool_outcome" where
  "show_plan_version outcome =
    (case to_parts outcome of
       ResJson _ # parts \<Rightarrow>
         if json_get ''plan_version_id'' (to_summary outcome) = None then outcome
         else outcome\<lparr>to_parts := ResJson (to_summary outcome) # parts\<rparr>
     | _ \<Rightarrow> outcome)"

definition finish_call_row :: "serde \<Rightarrow> work_gen \<Rightarrow> tool_outcome \<Rightarrow> tool_call_row \<Rightarrow> tool_call_row" where
  "finish_call_row J g outcome c =
    (case to_error_code outcome of None \<Rightarrow> c | Some code \<Rightarrow> c\<lparr>tc_error_code := Some code\<rparr>)
      \<lparr>tc_status := disposition_as_str (to_disposition outcome),
       tc_result_summary_json := Some (json_to_string J (to_summary outcome)),
       tc_version := version_tag (wg_version g), tc_ended_at := Some (wg_now g)\<rparr>"

definition running_call :: "string \<Rightarrow> tool_call_row \<Rightarrow> bool" where
  "running_call call_id c \<longleftrightarrow> tc_id c = call_id \<and> tc_status c = ''running''"

definition finish_tool_tx ::
  "serde \<Rightarrow> work_gen \<Rightarrow> string \<Rightarrow> string \<Rightarrow> accepted_tool_call \<Rightarrow> json \<Rightarrow> tool_outcome \<Rightarrow>
    'x execution_db_scheme \<Rightarrow>
    execution_error + ((tool_outcome \<times> chat_message) option \<times> 'x execution_db_scheme)" where
  "finish_tool_tx J g session_id turn_id accepted actor outcome db =
    and_then (persist_tool_effects_in_tx J turn_id (ac_id accepted) (to_summary outcome) (wg_now g) db)
      (\<lambda>(summary, db1).
        let outcome1 = show_plan_version (outcome\<lparr>to_summary := summary\<rparr>);
            (message, durable_parts) = tool_result_message J outcome1 (cc_id (ac_request accepted));
            status = disposition_as_str (to_disposition outcome1);
            (c, finalized) = update_one (running_call (ac_id accepted)) (finish_call_row J g outcome1)
              (tool_calls db1)
        in if finalized \<noteq> 1 then Inr (None, db)
           else and_then (lift_sessions (append_tool_result_in_tx J (wg_message g)
               (tool_result_of session_id turn_id accepted status (to_summary outcome1) durable_parts
                  actor (wg_now g)) (db1\<lparr>tool_calls := c\<rparr>)))
             (\<lambda>((_, timeline_item_id, _), db2).
           and_then (append_work_event J (wg_event g 0)
               (call_event session_id actor (wg_correlation g) accepted status
                 [(''summary'', to_summary outcome1), (''timeline_item_id'', JStr timeline_item_id)]) db2)
             (\<lambda>db3. Inr (Some (outcome1, message), db3))))"

section \<open>Settling the turn\<close>

definition settled_event ::
  "string \<Rightarrow> string \<Rightarrow> turn_transition \<Rightarrow> (string \<times> json) list \<Rightarrow> new_event" where
  "settled_event turn_id correlation_id transition extra =
    work_event TurnStatusChanged execution_actor (''turn'', turn_id) correlation_id
      (JObj ([(''turn_id'', JStr turn_id),
              (''from'', JStr (turn_status_as_str (tt_from_status transition))),
              (''to'', JStr (turn_status_as_str (tt_to_status transition)))] @ extra @
             [(''session_version'', JStr (tt_session_version transition))]))"

definition unfinished_calls :: "string list \<Rightarrow> tool_call_row list \<Rightarrow> tool_call_row list" where
  "unfinished_calls round_ids c =
    filter (\<lambda>c. tc_round_id c \<in> set round_ids \<and> tc_status c \<in> {''requested'', ''running''}) c"

definition sum_round_tokens :: "(round_row \<Rightarrow> int) \<Rightarrow> string \<Rightarrow> round_row list \<Rightarrow> int" where
  "sum_round_tokens f turn_id c =
    foldl (\<lambda>sum r. i64_sat_add sum (f r)) 0
      (filter (\<lambda>r. rn_turn_id r = turn_id \<and> rn_status r = ''succeeded'') c)"

definition complete_turn ::
  "serde \<Rightarrow> (string \<Rightarrow> string option) \<Rightarrow> work_gen \<Rightarrow> string \<Rightarrow> string \<Rightarrow> completion_summary \<Rightarrow>
    'x execution_db_scheme \<Rightarrow> execution_error + (unit \<times> 'x execution_db_scheme)" where
  "complete_turn J U g session_id turn_id summary db =
    and_then (round_ids_for_turns_in_tx U [turn_id] db) (\<lambda>round_ids.
      if unfinished_calls round_ids (tool_calls db) \<noteq> []
      then Inl (ExInternal ''Turn completion attempted with unfinished Tool Calls'')
      else let input_tokens = sum_round_tokens rn_input_tokens turn_id (rounds db);
               output_tokens = sum_round_tokens rn_output_tokens turn_id (rounds db)
        in and_then (lift_sessions (settle_active_turn_in_tx J (wg_version g) session_id turn_id
              (OutcomeCompleted (summary_to_value summary) input_tokens output_tokens) (wg_now g) db))
           (\<lambda>(transition, db1). case transition of None \<Rightarrow> Inr ((), db)
            | Some t \<Rightarrow> and_then (append_work_event J (wg_event g 0)
                (settled_event turn_id (wg_correlation g) t
                  [(''summary'', summary_to_value summary), (''input_tokens'', JNum input_tokens),
                   (''output_tokens'', JNum output_tokens)]) db1)
              (\<lambda>db2. Inr ((), db2))))"

definition fail_turn ::
  "serde \<Rightarrow> work_gen \<Rightarrow> string \<Rightarrow> string \<Rightarrow> string \<Rightarrow> 'x execution_db_scheme \<Rightarrow>
    execution_error + (unit \<times> 'x execution_db_scheme)" where
  "fail_turn J g session_id turn_id reason db =
    and_then (lift_sessions (settle_active_turn_in_tx J (wg_version g) session_id turn_id
        (OutcomeFailed reason (JObj [(''error'', JStr reason)])) (wg_now g) db))
      (\<lambda>(transition, db1). case transition of None \<Rightarrow> Inr ((), db)
       | Some t \<Rightarrow> and_then (append_work_event J (wg_event g 0)
           (settled_event turn_id (wg_correlation g) t [(''reason'', JStr reason)]) db1)
         (\<lambda>db2. Inr ((), db2)))"

definition settle_execution_failure ::
  "serde \<Rightarrow> (string \<Rightarrow> string option) \<Rightarrow> work_gen \<Rightarrow> string \<Rightarrow> string \<Rightarrow> 'x execution_db_scheme \<Rightarrow>
    (execution_error + unit) \<times> 'x execution_db_scheme" where
  "settle_execution_failure J U g turn_id reason db =
    (case load_turn J U turn_id db of
       Inl e \<Rightarrow> (Inl e, db)
     | Inr turn \<Rightarrow> if et_status turn \<noteq> Running \<or> \<not> et_active turn then (Inr (), db)
         else run_tx (fail_turn J g (et_session_id turn) turn_id reason) db)"

end
