(* ===== verification/Turn_Execution.thy ===== *)
theory Turn_Execution
  imports Round_Transactions
begin

text \<open>
  The round loop of \<open>crates/execution/src/interface/turn.rs\<close>: publishing a provider stream, the
  retries and the failover of a round, running the tools of a response, and \<open>execute_turn\<close>. The
  provider stream, the tools and the sleep between retries are parameters that act on the store, so
  whatever other actors commit while the loop waits is part of what they return. Both loops run on
  fuel: \<open>None\<close> stands for a loop that has not returned yet.
\<close>

section \<open>Publishing the stream\<close>

record stream_acc =
  sa_text :: string
  sa_reasoning :: string
  sa_started :: "nat option"
  sa_ended :: "nat option"
  sa_published :: nat
  sa_pushed :: "json list"

definition empty_acc :: stream_acc where
  "empty_acc = \<lparr>sa_text = [], sa_reasoning = [], sa_started = None, sa_ended = None, sa_published = 0,
     sa_pushed = []\<rparr>"

text \<open>What one published event draws: its id and time, its correlation and the monotonic clock.\<close>

record publish_gen =
  bg_event :: "string \<times> int"
  bg_correlation :: string
  bg_instant :: nat
  bg_jitter :: "nat option"

record stream_context =
  st_project_id :: string
  st_session_id :: string
  st_turn_id :: string
  st_round_id :: string
  st_system_prompt_tokens :: int
  st_turn_input_base :: int
  st_turn_output_base :: int

fun channel_as_str :: "stream_channel \<Rightarrow> string" where
  "channel_as_str ChanText = ''text''"
| "channel_as_str ChanReasoningSummary = ''reasoning_summary''"
| "channel_as_str ChanToolCallPreview = ''tool_call_preview''"

definition accumulate :: "stream_channel \<Rightarrow> string \<Rightarrow> nat \<Rightarrow> stream_acc \<Rightarrow> stream_acc" where
  "accumulate channel text instant a =
    (case channel of
       ChanText \<Rightarrow>
         let a1 = a\<lparr>sa_text := sa_text a @ text\<rparr>
         in if text \<noteq> [] \<and> sa_started a \<noteq> None \<and> sa_ended a = None then a1\<lparr>sa_ended := Some instant\<rparr> else a1
     | ChanReasoningSummary \<Rightarrow>
         let a1 = a\<lparr>sa_reasoning := sa_reasoning a @ text\<rparr>
         in if text \<noteq> [] \<and> sa_started a = None then a1\<lparr>sa_started := Some instant\<rparr> else a1
     | ChanToolCallPreview \<Rightarrow> a)"

definition reasoning_duration_json :: "stream_acc \<Rightarrow> json" where
  "reasoning_duration_json a =
    (case (sa_started a, sa_ended a) of
       (Some started, Some ended) \<Rightarrow>
         if ended - started \<le> U64_MAX then JNum (int (ended - started)) else JNull
     | _ \<Rightarrow> JNull)"

definition usage_json :: "int \<Rightarrow> token_usage \<Rightarrow> json" where
  "usage_json input_tokens u = JObj [(''input_tokens'', JNum input_tokens),
     (''output_tokens'', JNum (int (tu_output_tokens u))), (''cache_tokens'', JNum (int (tu_cache_tokens u)))]"

definition delta_tokens :: "stream_context \<Rightarrow> token_usage option \<Rightarrow> int \<times> int" where
  "delta_tokens c usage =
    (case usage of None \<Rightarrow> (st_turn_input_base c, st_turn_output_base c)
     | Some u \<Rightarrow> (i64_sat_add (st_turn_input_base c)
                    (non_system_input_tokens (tu_input_tokens u) (st_system_prompt_tokens c)),
                  i64_sat_add (st_turn_output_base c) (as_i64_tokens (tu_output_tokens u))))"

definition exchange_fields :: "int \<times> int \<Rightarrow> string \<Rightarrow> (string \<times> json) list" where
  "exchange_fields tokens direction =
    [(''turn_input_tokens'', JNum (fst tokens)), (''turn_output_tokens'', JNum (snd tokens)),
     (''turn_exchange_tokens'', JNum (i64_sat_add (fst tokens) (snd tokens))),
     (''direction'', JStr direction)]"

definition delta_push :: "stream_context \<Rightarrow> nat \<Rightarrow> token_usage option \<Rightarrow> stream_acc \<Rightarrow> json" where
  "delta_push c sequence usage a = JObj
    ([(''text'', JStr (sa_text a)), (''reasoning'', JStr (sa_reasoning a)), (''seq'', JNum (int sequence)),
      (''round_id'', JStr (st_round_id c)),
      (''usage'', case usage of None \<Rightarrow> JNull
         | Some u \<Rightarrow> usage_json (non_system_input_tokens (tu_input_tokens u) (st_system_prompt_tokens c)) u)] @
     exchange_fields (delta_tokens c usage) ''download'' @
     [(''reasoning_duration_ms'', reasoning_duration_json a)])"

definition round_ids_json :: "stream_context \<Rightarrow> (string \<times> json) list" where
  "round_ids_json c = [(''project_id'', JStr (st_project_id c)), (''session_id'', JStr (st_session_id c)),
     (''turn_id'', JStr (st_turn_id c)), (''round_id'', JStr (st_round_id c))]"

text \<open>An event that cannot be stored is reported and dropped.\<close>

definition store_stream_event ::
  "serde \<Rightarrow> publish_gen \<Rightarrow> new_event \<Rightarrow> 'x execution_db_scheme \<Rightarrow> 'x execution_db_scheme" where
  "store_stream_event J g ev db =
    (case append_in_tx J (fst (bg_event g)) (snd (bg_event g)) ev db of Inl _ \<Rightarrow> db | Inr (_, db') \<Rightarrow> db')"

definition publish_stream_event ::
  "serde \<Rightarrow> (nat \<Rightarrow> publish_gen) \<Rightarrow> stream_context \<Rightarrow> model_stream_event \<Rightarrow>
    stream_acc \<times> 'x execution_db_scheme \<Rightarrow> stream_acc \<times> 'x execution_db_scheme" where
  "publish_stream_event J gs c event w =
    (let (a, db) = w; g = gs (sa_published a) in
     case event of
       EvDelta attempt_id sequence channel text provisional usage \<Rightarrow>
         let a1 = accumulate channel text (bg_instant g) a
         in (a1\<lparr>sa_published := Suc (sa_published a),
               sa_pushed := sa_pushed a @ [delta_push c sequence usage a1]\<rparr>,
             store_stream_event J g (work_event ModelStreamDelta execution_actor
               (''round'', st_round_id c) (bg_correlation g)
               (JObj (round_ids_json c @ [(''attempt_id'', JStr attempt_id), (''sequence'', JNum (int sequence)),
                  (''channel'', JStr (channel_as_str channel)), (''delta'', JStr text),
                  (''provisional'', JBool provisional),
                  (''usage'', case usage of None \<Rightarrow> JNull | Some u \<Rightarrow> usage_json (int (tu_input_tokens u)) u)]))) db)
     | EvRetrying attempt_id attempt detail retry_after_ms \<Rightarrow>
         (a\<lparr>sa_text := [], sa_reasoning := [], sa_published := Suc (sa_published a),
            sa_pushed := sa_pushed a @ [JObj
              ([(''text'', JStr []), (''reasoning'', JStr []), (''seq'', JNum 0), (''retrying'', JBool True),
                (''attempt'', JNum (int attempt)), (''detail'', JStr detail)] @
               exchange_fields (st_turn_input_base c, st_turn_output_base c) ''upload'')]\<rparr>,
          store_stream_event J g (work_event ModelAttemptRetrying execution_actor
            (''turn'', st_turn_id c) (bg_correlation g)
            (JObj (round_ids_json c @ [(''attempt_id'', JStr attempt_id), (''attempt'', JNum (int attempt)),
               (''detail'', JStr detail), (''retry_after_ms'', JNum (int retry_after_ms))]))) db)
     | _ \<Rightarrow> w)"

section \<open>Retries and failover\<close>

record tool_context =
  tx_project_id :: string
  tx_session_id :: string
  tx_turn_id :: string
  tx_tool_call_id :: string
  tx_workspace_root :: string
  tx_git_token :: "string option"
  tx_read_paths :: "string set"
  tx_actor :: json

text \<open>
  What the loop relies on: the model capability's stream, which calls back for every event; the
  sleep between retries; the tools and their display; the projects and runtime capabilities; the
  base prompt and the tool registry; the texts of errors.
\<close>

record 'db engine =
  en_stream :: "model_request \<Rightarrow> int \<Rightarrow> (model_stream_event \<Rightarrow> stream_acc \<times> 'db \<Rightarrow> stream_acc \<times> 'db) \<Rightarrow>
    stream_acc \<times> 'db \<Rightarrow> (execution_error + model_stream_event list) \<times> (stream_acc \<times> 'db)"
  en_sleep :: "nat \<Rightarrow> 'db \<Rightarrow> 'db"
  en_tool :: "tool_context \<Rightarrow> string \<Rightarrow> json \<Rightarrow> 'db \<Rightarrow> (execution_error + tool_outcome) \<times> 'db"
  en_display :: "string \<Rightarrow> json \<Rightarrow> tool_outcome \<Rightarrow> tool_outcome"
  en_media :: media
  en_owner_id :: "string \<Rightarrow> execution_error + string"
  en_workspace_root :: "string \<Rightarrow> string \<Rightarrow> execution_error + string"
  en_git_token :: "string \<Rightarrow> string \<Rightarrow> execution_error + string option"
  en_memory :: "string \<Rightarrow> execution_error + string"
  en_async_tasks :: "execution_error + async_task_view list"
  en_base_prompt :: string
  en_tools :: "bool \<Rightarrow> tool_spec list"
  en_error_text :: "execution_error \<Rightarrow> string"
  en_serde_text :: "string \<Rightarrow> string"

definition last_failure :: "model_stream_event list \<Rightarrow> (string \<times> string \<times> string) option" where
  "last_failure events =
    (case List.map_filter (\<lambda>e. case e of EvFailed a c d \<Rightarrow> Some (a, c, d) | _ \<Rightarrow> None) (rev events) of
       [] \<Rightarrow> None | f # _ \<Rightarrow> Some f)"

definition request_runnable ::
  "(string \<Rightarrow> string option) \<Rightarrow> model_request \<Rightarrow> 'x execution_db_scheme \<Rightarrow> execution_error + bool" where
  "request_runnable U req db =
    (case (mr_session_id req, mr_turn_id req) of
       (Some s, Some t) \<Rightarrow> and_then (ok_or (ExInternal ''session id'') (U s)) (\<lambda>session_id.
          and_then (ok_or (ExInternal ''turn id'') (U t)) (\<lambda>turn_id.
            Inr (turn_is_runnable session_id turn_id db)))
     | _ \<Rightarrow> Inr True)"

fun try_round_stream ::
  "nat \<Rightarrow> (string \<Rightarrow> string option) \<Rightarrow> ('x execution_db_scheme) engine \<Rightarrow> (nat \<Rightarrow> publish_gen) \<Rightarrow>
    (model_stream_event \<Rightarrow> stream_acc \<times> 'x execution_db_scheme \<Rightarrow> stream_acc \<times> 'x execution_db_scheme) \<Rightarrow>
    nat \<Rightarrow> nat \<Rightarrow> model_request list \<Rightarrow> model_stream_event list \<Rightarrow>
    stream_acc \<times> 'x execution_db_scheme \<Rightarrow>
    ((execution_error + model_stream_event list) \<times> (stream_acc \<times> 'x execution_db_scheme)) option" where
  "try_round_stream fuel U E gs on_event candidate attempt [] last_failed_events w =
     Some (Inr last_failed_events, w)"
| "try_round_stream 0 U E gs on_event candidate attempt (req # reqs) last_failed_events w = None"
| "try_round_stream (Suc fuel) U E gs on_event candidate attempt (req # reqs) last_failed_events w =
    (if int candidate > I64_MAX then Some (Inl (ExInternal ''candidate index overflow''), w)
     else case en_stream E req (int candidate) on_event w of
       (Inl e, w1) \<Rightarrow> Some (Inl e, w1)
     | (Inr events, w1) \<Rightarrow>
         (case last_failure events of
            None \<Rightarrow> Some (Inr events, w1)
          | Some (attempt_id, code, detail) \<Rightarrow>
              let decision = classify (bg_jitter (gs (sa_published (fst w1)))) code detail (Suc attempt)
              in case rd_class decision of
                   Config \<Rightarrow> try_round_stream fuel U E gs on_event (Suc candidate) 0 reqs events w1
                 | Transient \<Rightarrow>
                     (case request_runnable U req (snd w1) of
                        Inl e \<Rightarrow> Some (Inl e, w1)
                      | Inr False \<Rightarrow> Some (Inr events, w1)
                      | Inr True \<Rightarrow>
                          let w2 = on_event (EvRetrying attempt_id (Suc attempt) detail (rd_retry_after decision)) w1
                          in try_round_stream fuel U E gs on_event candidate (Suc attempt) (req # reqs)
                               last_failed_events (fst w2, en_sleep E (rd_retry_after decision) (snd w2)))))"

section \<open>Running the tools of a response\<close>

record tool_gen =
  kg_start :: work_gen
  kg_finish :: work_gen

record turn_scope =
  sp_session_id :: string
  sp_project_id :: string
  sp_turn_id :: string
  sp_workspace_root :: string
  sp_git_token :: "string option"

definition failed_outcome :: "string \<Rightarrow> string \<Rightarrow> string \<Rightarrow> tool_outcome" where
  "failed_outcome code error detail =
    \<lparr>to_disposition = ToolFailed, to_parts = [ResText detail],
     to_summary = JObj [(''ok'', JBool False), (''error'', JStr error), (''detail'', JStr detail)],
     to_error_code = Some code, to_finish_summary = None\<rparr>"

text \<open>The outcome of a started call: arguments that do not parse are never handed to the tool.\<close>

definition tool_run ::
  "serde \<Rightarrow> ('x execution_db_scheme) engine \<Rightarrow> turn_scope \<Rightarrow> accepted_tool_call \<Rightarrow>
    'x execution_db_scheme \<Rightarrow> tool_outcome \<times> 'x execution_db_scheme" where
  "tool_run J E s accepted db =
    (let name = cc_name (ac_request accepted) in
     case parse_tool_arguments J (en_serde_text E) (cc_arguments_json (ac_request accepted)) of
       Inl detail \<Rightarrow>
         (en_display E name (JObj []) (failed_outcome ''TOOL_ARGUMENTS_INVALID'' ''TOOL_ARGUMENTS_INVALID'' detail),
          db)
     | Inr args \<Rightarrow>
         (case en_tool E \<lparr>tx_project_id = sp_project_id s, tx_session_id = sp_session_id s,
                 tx_turn_id = sp_turn_id s, tx_tool_call_id = ac_id accepted,
                 tx_workspace_root = sp_workspace_root s, tx_git_token = sp_git_token s,
                 tx_read_paths = read_paths_for_turn J (sp_turn_id s) db,
                 tx_actor = execution_actor\<rparr> name args db of
            (Inr outcome, db1) \<Rightarrow> (outcome, db1)
          | (Inl e, db1) \<Rightarrow>
              (en_display E name args
                 (failed_outcome ''TOOL_EXECUTION_FAILED'' (en_error_text E e) (en_error_text E e)), db1)))"

definition run_one_tool ::
  "serde \<Rightarrow> (string \<Rightarrow> string option) \<Rightarrow> ('x execution_db_scheme) engine \<Rightarrow> tool_gen \<Rightarrow> turn_scope \<Rightarrow>
    accepted_tool_call \<Rightarrow> 'x execution_db_scheme \<Rightarrow>
    (execution_error + (tool_outcome \<times> chat_message) option) \<times> 'x execution_db_scheme" where
  "run_one_tool J U E g s accepted db =
    and_run (run_tx (start_tool_tx J U (kg_start g) (sp_session_id s) (sp_turn_id s) accepted execution_actor) db)
      (\<lambda>started db1. if \<not> started then (Inr None, db1)
        else let (outcome, db2) = tool_run J E s accepted db1
          in run_tx (finish_tool_tx J (kg_finish g) (sp_session_id s) (sp_turn_id s) accepted
               execution_actor outcome) db2)"

text \<open>
  The calls of one response in declaration order: \<open>None\<close> when the loop leaves the turn to whoever
  settles it, else the messages for the model and the summary a tool finished the turn with.
\<close>

fun run_tools ::
  "serde \<Rightarrow> (string \<Rightarrow> string option) \<Rightarrow> ('x execution_db_scheme) engine \<Rightarrow> (nat \<Rightarrow> tool_gen) \<Rightarrow> nat \<Rightarrow>
    turn_scope \<Rightarrow> completion_summary option \<Rightarrow> accepted_tool_call list \<Rightarrow> 'x execution_db_scheme \<Rightarrow>
    (execution_error + (chat_message list \<times> completion_summary option) option) \<times> 'x execution_db_scheme" where
  "run_tools J U E gs k s finish [] db = (Inr (Some ([], finish)), db)"
| "run_tools J U E gs k s (Some f) (accepted # calls) db =
    and_run (run_tx (settle_unrun_tool_call_tx J U (en_display E) (kg_start (gs k)) (sp_session_id s)
        (sp_turn_id s) accepted ''a prior tool finished the Turn'' execution_actor) db)
      (\<lambda>message db1. and_run (run_tools J U E gs (Suc k) s (Some f) calls db1)
        (\<lambda>r db2. (Inr (map_option (\<lambda>(ms, g). (message # ms, g)) r), db2)))"
| "run_tools J U E gs k s None (accepted # calls) db =
    (if \<not> turn_is_runnable (sp_session_id s) (sp_turn_id s) db then (Inr None, db)
     else and_run (run_one_tool J U E (gs k) s accepted db)
       (\<lambda>executed db1. case executed of None \<Rightarrow> (Inr None, db1)
         | Some (outcome, message) \<Rightarrow>
             and_run (run_tools J U E gs (Suc k) s (to_finish_summary outcome) calls db1)
               (\<lambda>r db2. (Inr (map_option (\<lambda>(ms, g). (message # ms, g)) r), db2))))"

section \<open>Executing a turn\<close>

record round_gen =
  og_begin :: begin_gen
  og_publish :: "nat \<Rightarrow> publish_gen"
  og_accept :: work_gen
  og_persist :: work_gen
  og_fail_round :: work_gen
  og_fail_turn :: work_gen
  og_tool :: "nat \<Rightarrow> tool_gen"
  og_complete :: work_gen

record turn_plan =
  tp_scope :: turn_scope
  tp_owner_id :: string
  tp_snapshot :: turn_model_snapshot
  tp_system_prompt_tokens :: int
  tp_supports_images :: bool
  tp_tools :: "tool_spec list"

definition candidate_request ::
  "turn_plan \<Rightarrow> string \<Rightarrow> chat_message list \<Rightarrow> 'c turn_model_candidate_snapshot_scheme \<Rightarrow> model_request" where
  "candidate_request p round_id chat c =
    \<lparr>mr_owner_id = tp_owner_id p, mr_provider_id = mc_provider_id c,
     mr_upstream_model_id = mc_upstream_model_id c, mr_parameters = mc_parameters c, mr_messages = chat,
     mr_tools = tp_tools p, mr_round_id = Some round_id, mr_project_id = Some (sp_project_id (tp_scope p)),
     mr_session_id = Some (sp_session_id (tp_scope p)), mr_turn_id = Some (sp_turn_id (tp_scope p))\<rparr>"

definition candidate_requests :: "turn_plan \<Rightarrow> string \<Rightarrow> chat_message list \<Rightarrow> model_request list" where
  "candidate_requests p round_id chat =
    candidate_request p round_id chat (tp_snapshot p) #
    map (candidate_request p round_id chat) (mc_failover (tp_snapshot p))"

definition first_completed :: "model_stream_event list \<Rightarrow> completion option" where
  "first_completed events =
    (case List.map_filter (\<lambda>e. case e of EvCompleted c \<Rightarrow> Some c | _ \<Rightarrow> None) events of
       [] \<Rightarrow> None | c # _ \<Rightarrow> Some c)"

definition failure_detail :: "model_stream_event list \<Rightarrow> string" where
  "failure_detail events =
    (case List.map_filter (\<lambda>e. case e of EvFailed _ c d \<Rightarrow> Some (c @ '': '' @ d) | _ \<Rightarrow> None) events of
       [] \<Rightarrow> ''stream failed'' | d # _ \<Rightarrow> d)"

text \<open>A stream that did not complete: what was streamed is kept, then round and turn fail.\<close>

definition fail_stream ::
  "serde \<Rightarrow> round_gen \<Rightarrow> turn_scope \<Rightarrow> model_stream_event list \<Rightarrow> stream_acc \<Rightarrow> 'x execution_db_scheme \<Rightarrow>
    (execution_error + unit) \<times> 'x execution_db_scheme" where
  "fail_stream J g s events a db =
    (let detail = failure_detail events; round_id = wg_round_id (og_begin g)
     in and_run (if sa_text a = [] \<and> sa_reasoning a = [] then (Inr (), db)
           else run_tx (persist_failed_round_output J (og_persist g) (sp_session_id s) (sp_turn_id s) round_id
                  (sa_text a) (sa_reasoning a) detail execution_actor) db)
        (\<lambda>_ db1. and_run (run_tx (fail_round J (og_fail_round g) (sp_session_id s) (sp_turn_id s)
             round_id detail) db1)
        (\<lambda>_ db2. run_tx (fail_turn J (og_fail_turn g) (sp_session_id s) (sp_turn_id s) detail) db2)))"

definition response_of :: "turn_plan \<Rightarrow> string \<Rightarrow> completion \<Rightarrow> accepted_round_response" where
  "response_of p round_id c =
    \<lparr>rr_session_id = sp_session_id (tp_scope p), rr_turn_id = sp_turn_id (tp_scope p),
     rr_round_id = round_id, rr_attempt_id = co_attempt_id c,
     rr_input_tokens = non_system_input_tokens (tu_input_tokens (co_usage c)) (tp_system_prompt_tokens p),
     rr_output_tokens = as_i64_tokens (tu_output_tokens (co_usage c)), rr_stop_reason = co_stop_reason c,
     rr_text = co_text c, rr_reasoning = co_reasoning c, rr_reasoning_content = co_reasoning_content c,
     rr_reasoning_duration_ms = co_reasoning_duration_ms c, rr_tool_calls = co_tool_calls c,
     rr_actor = execution_actor\<rparr>"

definition assistant_chat :: "completion \<Rightarrow> chat_message list" where
  "assistant_chat c =
    (if co_text c \<noteq> [] \<or> co_tool_calls c \<noteq> [] \<or> co_reasoning_content c \<noteq> None
     then [\<lparr>ch_role = RoleAssistant, ch_parts = [PartText (co_text c)], ch_tool_call_id = None,
            ch_tool_calls = co_tool_calls c, ch_reasoning_content = co_reasoning_content c\<rparr>]
     else [])"

text \<open>How one round ends: the loop returns, or it goes on with a longer chat.\<close>

datatype round_result = RoundReturns | RoundContinues "chat_message list"

text \<open>After the stream: accept the response, run its tools, and complete the turn when it is finished.\<close>

definition settle_stream ::
  "serde \<Rightarrow> (string \<Rightarrow> string option) \<Rightarrow> ('x execution_db_scheme) engine \<Rightarrow> round_gen \<Rightarrow> turn_plan \<Rightarrow>
    chat_message list \<Rightarrow> model_stream_event list \<Rightarrow> stream_acc \<Rightarrow> 'x execution_db_scheme \<Rightarrow>
    (execution_error + round_result) \<times> 'x execution_db_scheme" where
  "settle_stream J U E g p chat events a db =
    (let s = tp_scope p; round_id = wg_round_id (og_begin g);
         complete = (\<lambda>summary db1. and_run (run_tx (complete_turn J U (og_complete g) (sp_session_id s)
           (sp_turn_id s) summary) db1) (\<lambda>_ db2. (Inr RoundReturns, db2)))
     in if \<not> turn_is_runnable (sp_session_id s) (sp_turn_id s) db then (Inr RoundReturns, db)
        else case first_completed events of
          None \<Rightarrow> and_run (fail_stream J g s events a db) (\<lambda>_ db1. (Inr RoundReturns, db1))
        | Some c \<Rightarrow>
            and_run (run_tx (accept_round_response J U (og_accept g) (response_of p round_id c)) db)
              (\<lambda>accepted db1. case accepted of None \<Rightarrow> (Inr RoundReturns, db1)
                | Some calls \<Rightarrow>
                    if co_tool_calls c = [] then complete (from_text (co_text c)) db1
                    else and_run (run_tools J U E (og_tool g) 0 s None calls db1)
                      (\<lambda>r db2. case r of None \<Rightarrow> (Inr RoundReturns, db2)
                        | Some (results, Some summary) \<Rightarrow> complete summary db2
                        | Some (results, None) \<Rightarrow>
                            (Inr (RoundContinues (chat @ assistant_chat c @ results)), db2))))"

definition upload_push :: "stream_context \<Rightarrow> json" where
  "upload_push c = JObj ([(''text'', JStr []), (''reasoning'', JStr []), (''seq'', JNum 0),
     (''round_id'', JStr (st_round_id c))] @
     exchange_fields (st_turn_input_base c, st_turn_output_base c) ''upload'')"

text \<open>One pass of the loop; the second result is the input cursor it leaves.\<close>

definition execute_round ::
  "nat \<Rightarrow> serde \<Rightarrow> (string \<Rightarrow> string option) \<Rightarrow> ('x execution_db_scheme) engine \<Rightarrow> round_gen \<Rightarrow> turn_plan \<Rightarrow>
    chat_message list \<Rightarrow> int \<Rightarrow> int \<Rightarrow> 'x execution_db_scheme \<Rightarrow>
    ((execution_error + (round_result \<times> int)) \<times> 'x execution_db_scheme) option" where
  "execute_round fuel J U E g p chat input_cursor round_seq db =
    (let s = tp_scope p; round_id = wg_round_id (og_begin g);
         base = aggregate_turn_token_exchange (usage_rows (sp_turn_id s) db) (tp_system_prompt_tokens p);
         c = \<lparr>st_project_id = sp_project_id s, st_session_id = sp_session_id s, st_turn_id = sp_turn_id s,
              st_round_id = round_id, st_system_prompt_tokens = tp_system_prompt_tokens p,
              st_turn_input_base = tx_upload_tokens base, st_turn_output_base = tx_download_tokens base\<rparr>
     in if \<not> turn_is_runnable (sp_session_id s) (sp_turn_id s) db then Some (Inr (RoundReturns, input_cursor), db)
        else case load_turn_inputs_after J U (en_media E) (sp_session_id s) (sp_turn_id s) input_cursor
               (tp_supports_images p) db of
          Inl e \<Rightarrow> Some (Inl e, db)
        | Inr (turn_inputs, next_cursor) \<Rightarrow>
            let chat1 = chat @ turn_inputs
            in (case run_tx (begin_round_tx J (og_begin g) (sp_session_id s) (sp_turn_id s) chat1
                       (tp_snapshot p) round_seq) db of
                  (Inl e, db1) \<Rightarrow> Some (Inl e, db1)
                | (Inr False, db1) \<Rightarrow> Some (Inr (RoundReturns, next_cursor), db1)
                | (Inr True, db1) \<Rightarrow>
                    (case try_round_stream fuel U E (og_publish g) (publish_stream_event J (og_publish g) c) 0 0
                            (candidate_requests p round_id chat1) []
                            (empty_acc\<lparr>sa_pushed := [upload_push c]\<rparr>, db1) of
                       None \<Rightarrow> None
                     | Some (Inl e, w) \<Rightarrow> Some (Inl e, snd w)
                     | Some (Inr events, w) \<Rightarrow>
                         Some (and_run (settle_stream J U E g p chat1 events (fst w) (snd w))
                           (\<lambda>r db2. (Inr (r, next_cursor), db2))))))"

fun round_loop ::
  "nat \<Rightarrow> nat \<Rightarrow> serde \<Rightarrow> (string \<Rightarrow> string option) \<Rightarrow> ('x execution_db_scheme) engine \<Rightarrow> (nat \<Rightarrow> round_gen) \<Rightarrow>
    nat \<Rightarrow> turn_plan \<Rightarrow> chat_message list \<Rightarrow> int \<Rightarrow> int \<Rightarrow> 'x execution_db_scheme \<Rightarrow>
    ((execution_error + unit) \<times> 'x execution_db_scheme) option" where
  "round_loop 0 fuel J U E gs k p chat input_cursor round_seq db = None"
| "round_loop (Suc more_rounds) fuel J U E gs k p chat input_cursor round_seq db =
    (case execute_round fuel J U E (gs k) p chat input_cursor round_seq db of
       None \<Rightarrow> None
     | Some (Inl e, db1) \<Rightarrow> Some (Inl e, db1)
     | Some (Inr (RoundReturns, _), db1) \<Rightarrow> Some (Inr (), db1)
     | Some (Inr (RoundContinues chat1, next_cursor), db1) \<Rightarrow>
         round_loop more_rounds fuel J U E gs (Suc k) p chat1 next_cursor (i64_sat_add round_seq 1) db1)"

definition last_round_sequence :: "string \<Rightarrow> 'x execution_db_scheme \<Rightarrow> int" where
  "last_round_sequence turn_id db =
    (case find_last_by (\<lambda>r. rn_turn_id r = turn_id) rn_sequence (rounds db) of None \<Rightarrow> 0 | Some r \<Rightarrow> rn_sequence r)"

text \<open>What the loop needs of the turn, its project and its session, in the order it is read.\<close>

definition plan_turn ::
  "serde \<Rightarrow> (string \<Rightarrow> string option) \<Rightarrow> ('x execution_db_scheme) engine \<Rightarrow> execution_turn_view \<Rightarrow>
    string \<Rightarrow> string \<Rightarrow> string option \<Rightarrow> turn_model_snapshot \<Rightarrow> 'x execution_db_scheme \<Rightarrow>
    execution_error + (turn_plan \<times> chat_message list \<times> int)" where
  "plan_turn J U E turn owner workspace_root git_token snapshot db =
    (let session_id = et_session_id turn; supports_images = (mc_supports_images snapshot \<or>
           list_ex mc_supports_images (mc_failover snapshot)) in
     and_then (system_prompt_for_turn J (en_base_prompt E) (en_memory E (et_project_id turn)) (en_async_tasks E)
         (et_project_id turn) session_id (et_goal_mode turn) db) (\<lambda>system_prompt.
     and_then (load_chat_history J U (en_media E) session_id (et_id turn) supports_images db)
       (\<lambda>(chat, input_cursor).
     and_then (case list_attachments U session_id db of Inl _ \<Rightarrow> Inl (ExInternal ''list attachments'')
         | Inr found \<Rightarrow> Inr (found \<noteq> [])) (\<lambda>has_attachments.
       Inr (\<lparr>tp_scope = \<lparr>sp_session_id = session_id, sp_project_id = et_project_id turn,
                 sp_turn_id = et_id turn, sp_workspace_root = workspace_root, sp_git_token = git_token\<rparr>,
             tp_owner_id = owner, tp_snapshot = snapshot,
             tp_system_prompt_tokens = estimate_prompt_tokens system_prompt,
             tp_supports_images = supports_images, tp_tools = en_tools E has_attachments\<rparr>,
            text_message RoleSystem system_prompt # chat, input_cursor)))))"

definition execute_turn ::
  "nat \<Rightarrow> nat \<Rightarrow> serde \<Rightarrow> (string \<Rightarrow> string option) \<Rightarrow> ('x execution_db_scheme) engine \<Rightarrow> (nat \<Rightarrow> round_gen) \<Rightarrow>
    string \<Rightarrow> 'x execution_db_scheme \<Rightarrow> ((execution_error + unit) \<times> 'x execution_db_scheme) option" where
  "execute_turn more_rounds fuel J U E gs turn_id db =
    (case load_turn J U turn_id db of
       Inl e \<Rightarrow> Some (Inl e, db)
     | Inr turn \<Rightarrow>
         if et_status turn \<noteq> Running \<or> \<not> et_active turn then Some (Inr (), db)
         else case and_then (en_owner_id E (et_project_id turn)) (\<lambda>owner.
                and_then (en_workspace_root E owner (et_project_id turn)) (\<lambda>root.
                and_then (en_git_token E owner (et_project_id turn)) (\<lambda>token. Inr (owner, root, token)))) of
           Inl e \<Rightarrow> Some (Inl e, db)
         | Inr (owner, root, token) \<Rightarrow>
             (case et_model_snapshot turn of
                None \<Rightarrow> Some (run_tx (fail_turn J (og_fail_turn (gs 0)) (et_session_id turn) turn_id
                          ''model is not configured'') db)
              | Some snapshot \<Rightarrow>
                  (case plan_turn J U E turn owner root token snapshot db of
                     Inl e \<Rightarrow> Some (Inl e, db)
                   | Inr (p, chat, input_cursor) \<Rightarrow>
                       round_loop more_rounds fuel J U E gs 0 p chat input_cursor
                         (i64_sat_add (last_round_sequence turn_id db) 1) db)))"

end
