(* ===== verification/Execution_Safety.thy ===== *)
theory Execution_Safety
  imports Turn_Execution Janus_Interfaces
begin

text \<open>
  Rounds and tool calls under every interleaving of the transactions that write them: the status
  machine of a tool call, the invariant of the two collections, and the step relation of the
  execution capability. Everything another actor commits is a step that leaves the two collections
  as they are (each collection has one owning capability).
\<close>

section \<open>The status machine of a tool call\<close>

fun call_can_go :: "tool_call_status \<Rightarrow> tool_call_status \<Rightarrow> bool" where
  "call_can_go CallRequested t \<longleftrightarrow> t = CallRunning \<or> t = CallCanceled"
| "call_can_go CallRunning t \<longleftrightarrow> t \<in> {CallSucceeded, CallFailed, CallCanceled, CallLost}"
| "call_can_go _ _ \<longleftrightarrow> False"

definition call_terminal :: "tool_call_status \<Rightarrow> bool" where
  "call_terminal s \<longleftrightarrow> s \<in> {CallSucceeded, CallFailed, CallCanceled, CallLost}"

fun call_rank :: "tool_call_status \<Rightarrow> nat" where
  "call_rank CallRequested = 2"
| "call_rank CallRunning = 1"
| "call_rank _ = 0"

interpretation call_machine: status_machine call_can_go call_terminal call_rank
proof unfold_locales
  fix x y
  show "call_terminal x \<Longrightarrow> \<not> call_can_go x y" by (auto simp: call_terminal_def)
  show "\<exists>y. call_can_go x y" if "\<not> call_terminal x"
    using that by (cases x) (auto simp: call_terminal_def)
  show "call_can_go x y \<Longrightarrow> call_rank y < call_rank x"
    by (cases x) auto
qed

definition call_moves :: "string \<Rightarrow> string \<Rightarrow> bool" where
  "call_moves s t \<longleftrightarrow> (\<exists>a b. s = call_status_as_str a \<and> t = call_status_as_str b \<and> call_can_go a b)"

lemma call_moves_simps [simp]:
  "call_moves ''requested'' ''running''" "call_moves ''requested'' ''canceled''"
  "call_moves ''running'' ''succeeded''" "call_moves ''running'' ''failed''"
  "call_moves ''running'' ''canceled''" "call_moves ''running'' ''lost''"
  unfolding call_moves_def by (metis call_can_go.simps(1,2) call_status_as_str.simps insertCI)+

lemma call_moves_from: "call_moves s t \<Longrightarrow> s = ''requested'' \<or> s = ''running'' \<and> t \<noteq> ''requested''"
  by (auto simp: call_moves_def elim!: call_can_go.elims)

lemma call_moves_to: "call_moves s t \<Longrightarrow> t \<noteq> ''requested''"
  by (auto simp: call_moves_def elim!: call_can_go.elims)

lemma call_moves_disposition [simp]: "call_moves ''running'' (disposition_as_str d)"
  by (cases d) simp_all

section \<open>How rows follow each other\<close>

definition call_row_follows :: "tool_call_row \<Rightarrow> tool_call_row \<Rightarrow> bool" where
  "call_row_follows r r' \<longleftrightarrow>
     r' = r \<or> tc_id r' = tc_id r \<and> tc_round_id r' = tc_round_id r \<and> tc_ord r' = tc_ord r \<and>
       tc_provider_call_id r' = tc_provider_call_id r \<and> call_moves (tc_status r) (tc_status r')"

text \<open>The rows of a collection keep their places and new ones are added behind them.\<close>

definition calls_follow :: "tool_call_row list \<Rightarrow> tool_call_row list \<Rightarrow> bool" where
  "calls_follow c c' \<longleftrightarrow> (\<exists>d e. c' = d @ e \<and> list_all2 call_row_follows c d)"

lemma call_row_follows_refl [simp]: "call_row_follows r r"
  by (simp add: call_row_follows_def)

lemma calls_follow_refl [simp]: "calls_follow c c"
  by (auto simp: calls_follow_def list_all2_refl intro: exI [of _ c] exI [of _ "[]"])

lemma calls_follow_append [simp]: "calls_follow c (c @ e)"
  by (auto simp: calls_follow_def list_all2_refl)

lemma calls_follow_same_length:
  "list_all2 call_row_follows c d \<Longrightarrow> calls_follow c d"
  by (auto simp: calls_follow_def intro: exI [of _ d] exI [of _ "[]"])

lemma call_follows_update_one:
  assumes "\<And>r. r \<in> set c \<Longrightarrow> P r \<Longrightarrow> call_row_follows r (f r)"
  shows "list_all2 call_row_follows c (fst (update_one P f c))"
  using assms by (induction c) (auto simp: list_all2_refl)

lemma call_follows_update_many:
  assumes "\<And>r. r \<in> set c \<Longrightarrow> P r \<Longrightarrow> call_row_follows r (f r)"
  shows "list_all2 call_row_follows c (update_many P f c)"
  using assms by (induction c) (auto simp: update_many_def)

lemma follows_keys:
  assumes "list_all2 call_row_follows c d"
  shows "map tc_id d = map tc_id c" and "map (\<lambda>r. (tc_round_id r, tc_ord r)) d = map (\<lambda>r. (tc_round_id r, tc_ord r)) c"
    and "map (\<lambda>r. (tc_round_id r, tc_provider_call_id r)) d = map (\<lambda>r. (tc_round_id r, tc_provider_call_id r)) c"
    and "tc_round_id ` set d = tc_round_id ` set c"
  using assms by (induction rule: list_all2_induct) (auto simp: call_row_follows_def)

lemma follows_indexed: "list_all2 call_row_follows c d \<Longrightarrow> calls_indexed d = calls_indexed c"
  unfolding calls_indexed_def by (simp only: follows_keys)

section \<open>The invariant\<close>

definition exec_ok :: "'x execution_db_scheme \<Rightarrow> bool" where
  "exec_ok db \<longleftrightarrow> rounds_indexed (rounds db) \<and> calls_indexed (tool_calls db) \<and>
     (\<forall>r \<in> set (rounds db). rn_status r = ''running'' \<longrightarrow> rn_id r \<notin> tc_round_id ` set (tool_calls db))"

lemma exec_call_unique:
  "exec_ok db \<Longrightarrow> c \<in> set (tool_calls db) \<Longrightarrow> d \<in> set (tool_calls db) \<Longrightarrow> tc_id c = tc_id d \<Longrightarrow> c = d"
  unfolding exec_ok_def calls_indexed_def distinct_map by (blast dest: inj_onD)

text \<open>A write of rounds that only closes running ones, or drops rows.\<close>

definition round_row_follows :: "round_row \<Rightarrow> round_row \<Rightarrow> bool" where
  "round_row_follows r r' \<longleftrightarrow>
     r' = r \<or> rn_id r' = rn_id r \<and> rn_turn_id r' = rn_turn_id r \<and> rn_sequence r' = rn_sequence r \<and>
       rn_status r = ''running'' \<and> rn_status r' \<noteq> ''running''"

lemma round_follows_update_one:
  assumes "\<And>r. r \<in> set c \<Longrightarrow> P r \<Longrightarrow> round_row_follows r (f r)"
  shows "list_all2 round_row_follows c (fst (update_one P f c))"
  using assms by (induction c) (auto simp: list_all2_refl round_row_follows_def)

lemma round_follows_update_many:
  assumes "\<And>r. r \<in> set c \<Longrightarrow> P r \<Longrightarrow> round_row_follows r (f r)"
  shows "list_all2 round_row_follows c (update_many P f c)"
  using assms by (induction c) (auto simp: update_many_def round_row_follows_def)

lemma round_follows_keys:
  assumes "list_all2 round_row_follows c d"
  shows "map rn_id d = map rn_id c"
    and "map (\<lambda>r. (rn_turn_id r, rn_sequence r)) d = map (\<lambda>r. (rn_turn_id r, rn_sequence r)) c"
  using assms by (induction rule: list_all2_induct) (auto simp: round_row_follows_def)

lemma round_follows_indexed: "list_all2 round_row_follows c d \<Longrightarrow> rounds_indexed d = rounds_indexed c"
  unfolding rounds_indexed_def by (simp only: round_follows_keys)

lemma round_follows_running:
  assumes "list_all2 round_row_follows c d" and "r \<in> set d" and "rn_status r = ''running''"
  shows "r \<in> set c"
  using assms by (induction rule: list_all2_induct) (auto simp: round_row_follows_def)

lemma exec_ok_follows:
  assumes ok: "exec_ok db" and "list_all2 round_row_follows (rounds db) (rounds db')"
    and "list_all2 call_row_follows (tool_calls db) (tool_calls db')"
  shows "exec_ok db'"
  using assms
  by (auto simp: exec_ok_def follows_indexed round_follows_indexed follows_keys(4)
      dest: round_follows_running)

section \<open>The step relation\<close>

inductive exec_step :: "'x execution_db_scheme \<Rightarrow> 'x execution_db_scheme \<Rightarrow> bool" where
  other: "rounds db' = rounds db \<Longrightarrow> tool_calls db' = tool_calls db \<Longrightarrow> exec_step db db'"
| begin_round: "begin_round_tx J g s t chat snapshot n db = Inr (b, db') \<Longrightarrow>
    wg_round_id g \<notin> tc_round_id ` set (tool_calls db) \<Longrightarrow> exec_step db db'"
| accept: "accept_round_response J U g' i db = Inr (res, db') \<Longrightarrow> exec_step db db'"
| fail: "fail_round J g' s t rid detail db = Inr (u, db') \<Longrightarrow> exec_step db db'"
| start: "start_tool_tx J U g' s t a actor db = Inr (b, db') \<Longrightarrow> exec_step db db'"
| finish: "finish_tool_tx J g' s t a actor outcome db = Inr (o', db') \<Longrightarrow> exec_step db db'"
| skip: "settle_unrun_tool_call_tx J U D g' s t a reason actor db = Inr (m, db') \<Longrightarrow> exec_step db db'"
| cancel: "cancel_execution_in_tx U v1 v2 t now db = Inr (ids, db') \<Longrightarrow> exec_step db db'"
| interrupt: "exec_step db (interrupt_execution_in_tx v1 v2 v3 now db)"
| delete: "exec_step db (delete_session_execution_in_tx s ts db)"

section \<open>What the called operations leave alone\<close>

definition same_execution :: "'x execution_db_scheme \<Rightarrow> 'x execution_db_scheme \<Rightarrow> bool" where
  "same_execution db db' \<longleftrightarrow> rounds db' = rounds db \<and> tool_calls db' = tool_calls db"

lemma same_execution_simps [simp]:
  "same_execution db db" "same_execution db (db\<lparr>messages := m\<rparr>)"
  "same_execution db (db\<lparr>timeline_items := ti\<rparr>)" "same_execution db (db\<lparr>plan_versions := pv\<rparr>)"
  "same_execution db (db\<lparr>context_versions := cv\<rparr>)"
  by (simp_all add: same_execution_def)

lemma append_work_event_frame:
  "append_work_event J at ev db = Inr db' \<Longrightarrow> same_execution db db'"
  by (auto simp: append_work_event_def append_in_tx_def same_execution_def Let_def
      split: sum.splits if_splits option.splits)

lemma append_work_events_frame:
  "append_work_events J ids k evs db = Inr db' \<Longrightarrow> same_execution db db'"
  by (induction evs arbitrary: k db) (auto dest!: append_work_event_frame simp: same_execution_def)

lemma append_assistant_message_frame:
  "append_assistant_message_in_tx J g i db = Inr (x, db') \<Longrightarrow> same_execution db db'"
  by (auto simp: append_assistant_message_in_tx_def insert_message_def insert_timeline_def
      same_execution_def Let_def split: if_splits)

lemma append_tool_result_frame:
  "append_tool_result_in_tx J g i db = Inr (x, db') \<Longrightarrow> same_execution db db'"
  by (auto simp: append_tool_result_in_tx_def insert_message_def insert_timeline_def
      same_execution_def Let_def)

lemma record_context_version_frame:
  "record_context_version_in_tx J i now s t e l st sel db = Inr (x, db') \<Longrightarrow> same_execution db db'"
  by (auto simp: record_context_version_in_tx_def same_execution_def Let_def split: if_splits)

lemma settle_active_turn_frame:
  "settle_active_turn_in_tx J v s t out now db = Inr (x, db') \<Longrightarrow> same_execution db db'"
  by (auto simp: settle_active_turn_in_tx_def update_turn_def update_session_def same_execution_def Let_def
      split: if_splits prod.splits option.splits)

lemma record_plan_frame:
  "record_plan J t plan summary now db = Inr (x, db') \<Longrightarrow> same_execution db db'"
  by (auto simp: record_plan_def same_execution_def Let_def split: if_splits option.splits)

lemma complete_turn_frame:
  assumes "complete_turn J U g s t summary db = Inr (u, db')"
  shows "same_execution db db'"
  using assms
  by (auto simp: complete_turn_def Let_def same_execution_def split: if_splits option.splits
      dest!: settle_active_turn_frame append_work_event_frame)

lemma fail_turn_frame:
  assumes "fail_turn J g s t reason db = Inr (u, db')"
  shows "same_execution db db'"
  using assms
  by (auto simp: fail_turn_def same_execution_def split: option.splits
      dest!: settle_active_turn_frame append_work_event_frame)

lemma persist_failed_round_output_frame:
  assumes "persist_failed_round_output J g s t rid text reasoning detail actor db = Inr (u, db')"
  shows "same_execution db db'"
  using assms
  by (auto simp: persist_failed_round_output_def same_execution_def split: if_splits option.splits
      dest!: append_assistant_message_frame append_work_event_frame)

lemma publish_stream_event_frame: "same_execution (snd w) (snd (publish_stream_event J gs c ev w))"
  by (cases w; cases ev)
    (auto simp: publish_stream_event_def store_stream_event_def append_in_tx_def same_execution_def Let_def
      split: sum.splits option.splits if_splits)

lemmas work_frames = append_work_event_frame append_work_events_frame append_assistant_message_frame
  append_tool_result_frame record_context_version_frame record_plan_frame

section \<open>What each transaction does to rounds and tool calls\<close>

lemma begin_round_effect:
  assumes "begin_round_tx J g s t chat snapshot n db = Inr (b, db')"
  shows "db' = db \<or> tool_calls db' = tool_calls db \<and> rounds_indexed (rounds db') \<and>
    (\<exists>r. rounds db' = rounds db @ [r] \<and> rn_id r = wg_round_id g \<and> rn_turn_id r = t)"
  using assms
  by (auto simp: begin_round_tx_def Let_def same_execution_def new_round_row_def split: if_splits
      dest!: append_work_event_frame record_context_version_frame)

lemma fail_round_effect:
  assumes "fail_round J g s t rid detail db = Inr (u, db')"
  shows "tool_calls db' = tool_calls db \<and> list_all2 round_row_follows (rounds db) (rounds db')"
proof (cases "db' = db")
  case True
  then show ?thesis by (simp add: list_all2_refl round_row_follows_def)
next
  case False
  define f where "f = (\<lambda>r :: round_row. r\<lparr>rn_status := ''failed'', rn_stop_reason := Some ''error'',
     rn_output_summary_json := Some (json_to_string J (JObj [(''error'', JStr detail)])),
     rn_updated_at := wg_now g\<rparr>)"
  from False assms
  have "rounds db' = fst (update_one (running_round rid t) f (rounds db)) \<and> tool_calls db' = tool_calls db"
    by (auto simp: fail_round_def Let_def f_def split_beta same_execution_def split: if_splits
        dest!: append_work_event_frame)
  moreover have "list_all2 round_row_follows (rounds db) (fst (update_one (running_round rid t) f (rounds db)))"
    by (rule round_follows_update_one) (simp add: f_def running_round_def round_row_follows_def)
  ultimately show ?thesis by simp
qed

lemma start_tool_effect:
  assumes "start_tool_tx J U g s t a actor db = Inr (b, db')"
  shows "rounds db' = rounds db \<and> list_all2 call_row_follows (tool_calls db) (tool_calls db')"
    and "b \<Longrightarrow> \<exists>c \<in> set (tool_calls db). tc_id c = ac_id a \<and> tc_status c = ''requested''"
    and "b \<Longrightarrow> \<exists>c \<in> set (tool_calls db'). tc_id c = ac_id a \<and> tc_status c = ''running''"
    and "\<not> b \<Longrightarrow> db' = db"
proof -
  define f where "f = (\<lambda>c :: tool_call_row. c\<lparr>tc_status := ''running'', tc_started_at := Some (wg_now g),
    tc_version := version_tag (wg_version g)\<rparr>)"
  have follows: "list_all2 call_row_follows c (fst (update_one (requested_call (ac_id a) ids) f c))" for ids c
    by (rule call_follows_update_one) (simp add: f_def requested_call_def call_row_follows_def)
  have "b = False \<and> db' = db \<or> (\<exists>ids. b \<and>
      snd (update_one (requested_call (ac_id a) ids) f (tool_calls db)) = 1 \<and> rounds db' = rounds db \<and>
      tool_calls db' = fst (update_one (requested_call (ac_id a) ids) f (tool_calls db)))"
  proof (cases "turn_is_runnable s t db")
    case True
    with assms obtain ids where ids: "round_ids_for_turns_in_tx U [t] db = Inr ids"
      by (auto simp: start_tool_tx_def)
    show ?thesis
    proof (cases "snd (update_one (requested_call (ac_id a) ids) f (tool_calls db)) = 1")
      case hit: True
      with assms ids True obtain db1 where "b" "db1 = db'" "append_work_event J (wg_event g 0)
          (call_event s actor (wg_correlation g) a ''running'' [])
          (db\<lparr>tool_calls := fst (update_one (requested_call (ac_id a) ids) f (tool_calls db))\<rparr>) = Inr db1"
        by (auto simp: start_tool_tx_def Let_def f_def split_beta)
      with hit show ?thesis by (auto dest!: append_work_event_frame simp: same_execution_def)
    next
      case False
      with assms ids True show ?thesis by (simp add: start_tool_tx_def Let_def f_def split_beta)
    qed
  qed (use assms in \<open>simp add: start_tool_tx_def\<close>)
  then consider "b = False" "db' = db"
    | ids where "b" "snd (update_one (requested_call (ac_id a) ids) f (tool_calls db)) = 1"
      "rounds db' = rounds db" "tool_calls db' = fst (update_one (requested_call (ac_id a) ids) f (tool_calls db))"
    by blast
  note cases = this
  then show "rounds db' = rounds db \<and> list_all2 call_row_follows (tool_calls db) (tool_calls db')"
    by cases (use follows in \<open>auto simp: list_all2_refl\<close>)
  show "\<exists>c \<in> set (tool_calls db). tc_id c = ac_id a \<and> tc_status c = ''requested''" if b
    using cases that by cases (auto simp: update_one_count requested_call_def split: if_splits)
  show "\<exists>c \<in> set (tool_calls db'). tc_id c = ac_id a \<and> tc_status c = ''running''" if b
    using cases
  proof cases
    case (2 ids)
    then obtain c where "c \<in> set (fst (update_one (requested_call (ac_id a) ids) f (tool_calls db)))"
      and "tc_id c = ac_id a" and "tc_status c = ''running''"
      using update_one_hit [of "requested_call (ac_id a) ids" f "tool_calls db"]
      by (auto simp: f_def requested_call_def)
    with 2 show ?thesis by auto
  qed (use that in simp)
  show "db' = db" if "\<not> b"
    using cases that by cases auto
qed

lemma update_one_twice:
  assumes "\<And>r. P r \<Longrightarrow> P (f r)"
  shows "update_one P h (fst (update_one P f c)) = update_one P (\<lambda>r. h (f r)) c"
  using assms by (induction c) auto

lemma persist_tool_effects_effect:
  assumes "persist_tool_effects_in_tx J t call_id summary now db = Inr (x, db')"
  obtains f where "rounds db' = rounds db" "tool_calls db' = fst (update_one (running_call call_id) f (tool_calls db))"
    "\<And>c. f c = c \<or> (\<exists>task. f c = c\<lparr>tc_async_task_id := Some task\<rparr>)"
proof -
  define f where "f = (\<lambda>c :: tool_call_row. case str_field ''task_id'' summary of None \<Rightarrow> c
    | Some task \<Rightarrow> c\<lparr>tc_async_task_id := Some task\<rparr>)"
  define db1 where "db1 = (case str_field ''task_id'' summary of None \<Rightarrow> db
       | Some async_task_id \<Rightarrow> db\<lparr>tool_calls := fst (update_one
           (\<lambda>c. tc_id c = call_id \<and> tc_status c = ''running'')
           (\<lambda>c. c\<lparr>tc_async_task_id := Some async_task_id\<rparr>) (tool_calls db))\<rparr>)"
  have idle: "fst (update_one (running_call call_id) (\<lambda>c. c) c) = c" for c
    by (induction c) auto
  have "rounds db1 = rounds db" "tool_calls db1 = fst (update_one (running_call call_id) f (tool_calls db))"
    by (auto simp: db1_def f_def running_call_def [abs_def] idle [unfolded running_call_def [abs_def]]
        split: option.splits)
  moreover have "same_execution db1 db'"
    using assms unfolding persist_tool_effects_in_tx_def db1_def [symmetric]
    by (auto split: option.splits dest: record_plan_frame)
  ultimately show ?thesis
    by (intro that [of f]) (auto simp: same_execution_def f_def split: option.splits)
qed

lemma finish_call_row_follows:
  assumes "running_call i c" and "f c = c \<or> (\<exists>task. f c = c\<lparr>tc_async_task_id := Some task\<rparr>)"
  shows "call_row_follows c (finish_call_row J g outcome (f c))"
  using assms
  by (auto simp: finish_call_row_def running_call_def call_row_follows_def split: option.splits)

lemma finish_tool_cases:
  assumes "finish_tool_tx J g s t a actor outcome db = Inr (res, db')"
  shows "res = None \<and> db' = db \<or> res \<noteq> None \<and>
    (\<exists>h. rounds db' = rounds db \<and> snd (update_one (running_call (ac_id a)) h (tool_calls db)) = 1 \<and>
      tool_calls db' = fst (update_one (running_call (ac_id a)) h (tool_calls db)) \<and>
      (\<forall>c. running_call (ac_id a) c \<longrightarrow> call_row_follows c (h c)))"
proof -
  from assms obtain summary db1 where
    eff: "persist_tool_effects_in_tx J t (ac_id a) (to_summary outcome) (wg_now g) db = Inr (summary, db1)"
    by (auto simp: finish_tool_tx_def)
  obtain f where f: "rounds db1 = rounds db"
      "tool_calls db1 = fst (update_one (running_call (ac_id a)) f (tool_calls db))"
      "\<And>c. f c = c \<or> (\<exists>task. f c = c\<lparr>tc_async_task_id := Some task\<rparr>)"
    using persist_tool_effects_effect [OF eff] by metis
  define o1 where "o1 = show_plan_version (outcome\<lparr>to_summary := summary\<rparr>)"
  define h where "h = (\<lambda>c. finish_call_row J g o1 (f c))"
  have keep: "running_call (ac_id a) (f c)" if "running_call (ac_id a) c" for c
    using f(3) [of c] that by (auto simp: running_call_def)
  have twice: "update_one (running_call (ac_id a)) (finish_call_row J g o1) (tool_calls db1) =
      update_one (running_call (ac_id a)) h (tool_calls db)"
    unfolding f(2) h_def by (rule update_one_twice) (rule keep)
  have h: "call_row_follows c (h c)" if "running_call (ac_id a) c" for c
    unfolding h_def using that f(3) by (rule finish_call_row_follows)
  show ?thesis
  proof (cases "snd (update_one (running_call (ac_id a)) h (tool_calls db)) = 1")
    case True
    with assms eff have "res \<noteq> None \<and> same_execution
        (db1\<lparr>tool_calls := fst (update_one (running_call (ac_id a)) h (tool_calls db))\<rparr>) db'"
      by (auto simp: finish_tool_tx_def Let_def o1_def [symmetric] twice split_beta same_execution_def
          dest!: append_work_event_frame append_tool_result_frame)
    with True f(1) h show ?thesis by (auto simp: same_execution_def)
  next
    case False
    with assms eff show ?thesis
      by (auto simp: finish_tool_tx_def Let_def o1_def [symmetric] twice split_beta)
  qed
qed

lemma finish_tool_effect:
  assumes "finish_tool_tx J g s t a actor outcome db = Inr (res, db')"
  shows "rounds db' = rounds db \<and> list_all2 call_row_follows (tool_calls db) (tool_calls db')"
  using finish_tool_cases [OF assms] by (auto simp: list_all2_refl intro!: call_follows_update_one)

lemma settle_unrun_effect:
  assumes "settle_unrun_tool_call_tx J U D g s t a reason actor db = Inr (m, db')"
  shows "rounds db' = rounds db \<and> list_all2 call_row_follows (tool_calls db) (tool_calls db')"
proof -
  define summary where "summary = to_summary (D (cc_name (ac_request a)) (tool_input J (ac_request a))
    (skipped_outcome a reason))"
  define f where "f = (\<lambda>c :: tool_call_row. c\<lparr>tc_status := ''canceled'',
    tc_result_summary_json := Some (json_to_string J summary),
    tc_error_code := Some ''TOOL_SKIPPED_AFTER_BLOCK'', tc_ended_at := Some (wg_now g),
    tc_version := version_tag (wg_version g)\<rparr>)"
  from assms obtain ids where ids: "round_ids_for_turns_in_tx U [t] db = Inr ids"
    by (auto simp: settle_unrun_tool_call_tx_def Let_def)
  have follows: "list_all2 call_row_follows (tool_calls db)
      (fst (update_one (requested_call (ac_id a) ids) f (tool_calls db)))"
    by (rule call_follows_update_one) (simp add: f_def requested_call_def call_row_follows_def)
  show ?thesis
  proof (cases "snd (update_one (requested_call (ac_id a) ids) f (tool_calls db)) = 1")
    case True
    with assms ids have "same_execution
        (db\<lparr>tool_calls := fst (update_one (requested_call (ac_id a) ids) f (tool_calls db))\<rparr>) db'"
      by (auto simp: settle_unrun_tool_call_tx_def Let_def summary_def [symmetric] f_def [symmetric]
          split_beta same_execution_def dest!: append_work_event_frame append_tool_result_frame)
    with follows show ?thesis by (simp add: same_execution_def)
  next
    case False
    with assms ids show ?thesis
      by (simp add: settle_unrun_tool_call_tx_def Let_def summary_def [symmetric] f_def [symmetric]
          split_beta list_all2_refl)
  qed
qed

lemma cancel_execution_effect:
  assumes "cancel_execution_in_tx U v1 v2 t now db = Inr (ids, db')"
  shows "list_all2 round_row_follows (rounds db) (rounds db')"
    and "list_all2 call_row_follows (tool_calls db) (tool_calls db')"
  using assms
  by (auto simp: cancel_execution_in_tx_def Let_def round_row_follows_def call_row_follows_def
      intro!: round_follows_update_many call_follows_update_many)

lemma update_many_disjoint:
  assumes "\<And>r. P r \<Longrightarrow> \<not> Q (f r)"
  shows "update_many Q h (update_many P f c) = map (\<lambda>r. if P r then f r else if Q r then h r else r) c"
  using assms by (simp add: update_many_def)

lemma interrupt_execution_effect:
  assumes "db' = interrupt_execution_in_tx v1 v2 v3 now db"
  shows "list_all2 round_row_follows (rounds db) (rounds db')"
    and "list_all2 call_row_follows (tool_calls db) (tool_calls db')"
proof -
  show "list_all2 round_row_follows (rounds db) (rounds db')"
    by (auto simp: assms interrupt_execution_in_tx_def Let_def round_row_follows_def
        intro!: round_follows_update_many)
  show "list_all2 call_row_follows (tool_calls db) (tool_calls db')"
    by (auto simp: assms interrupt_execution_in_tx_def Let_def update_many_disjoint list_all2_map2
        call_row_follows_def intro!: list.rel_refl_strong)
qed

lemma delete_session_execution_effect:
  "tool_calls (delete_session_execution_in_tx s ts db) = tool_calls db"
  "rounds (delete_session_execution_in_tx s ts db) = filter (\<lambda>r. rn_turn_id r \<notin> set ts) (rounds db)"
proof -
  let ?drop = "\<lambda>d turn_id. d\<lparr>plan_versions := fst (delete_many (\<lambda>p. pn_turn_id p = turn_id) (plan_versions d)),
             rounds := fst (delete_many (\<lambda>r. rn_turn_id r = turn_id) (rounds d))\<rparr>"
  have "tool_calls (foldl ?drop db ts) = tool_calls db \<and>
      rounds (foldl ?drop db ts) = filter (\<lambda>r. rn_turn_id r \<notin> set ts) (rounds db)"
    by (induction ts arbitrary: db) (auto simp: delete_many_def intro: filter_cong)
  then show "tool_calls (delete_session_execution_in_tx s ts db) = tool_calls db"
    "rounds (delete_session_execution_in_tx s ts db) = filter (\<lambda>r. rn_turn_id r \<notin> set ts) (rounds db)"
    by (simp_all add: delete_session_execution_in_tx_def Let_def)
qed

subsection \<open>Accepting the calls of a round\<close>

text \<open>The calls accepted so far stand behind those of other rounds.\<close>

definition accepted_behind :: "string \<Rightarrow> tool_call_row list \<Rightarrow> tool_call_row list \<Rightarrow> bool" where
  "accepted_behind round_id old c \<longleftrightarrow> calls_indexed c \<and>
     (\<exists>new. c = old @ new \<and> (\<forall>r \<in> set new. tc_round_id r = round_id \<and> tc_status r = ''requested''))"

lemma update_one_append:
  "(\<And>r. r \<in> set c \<Longrightarrow> \<not> P r) \<Longrightarrow> fst (update_one P f (c @ d)) = c @ fst (update_one P f d)"
  by (induction c) auto

lemma accept_call_behind:
  assumes acc: "accept_call J U drawn round_id actor n request db = Inr (a, db')"
    and behind: "accepted_behind round_id old (tool_calls db)"
    and old: "round_id \<notin> tc_round_id ` set old"
  shows "accepted_behind round_id old (tool_calls db') \<and> rounds db' = rounds db"
proof -
  from behind obtain new where new: "tool_calls db = old @ new"
      "\<And>r. r \<in> set new \<Longrightarrow> tc_round_id r = round_id \<and> tc_status r = ''requested''"
      and idx: "calls_indexed (tool_calls db)"
    by (auto simp: accepted_behind_def)
  show ?thesis
  proof (cases "find_one (\<lambda>c. tc_round_id c = round_id \<and> tc_provider_call_id c = cc_id request) (tool_calls db)")
    case None
    with acc have "calls_indexed (tool_calls db')" "rounds db' = rounds db"
      "tool_calls db' = tool_calls db @ [new_call_row J drawn round_id n request actor]"
      by (auto simp: accept_call_def Let_def split: if_splits)
    with new show ?thesis
      by (auto simp: accepted_behind_def new_call_row_def)
  next
    case (Some stored)
    let ?f = "reset_call_row J (snd drawn) n request actor"
    let ?P = "\<lambda>c. tc_id c = tc_id stored"
    from Some have st: "stored \<in> set (tool_calls db)" "tc_round_id stored = round_id"
      by (auto dest: find_one_SomeD)
    from acc Some have upd: "calls_indexed (tool_calls db')" "rounds db' = rounds db"
      "tool_calls db' = fst (update_one ?P ?f (tool_calls db))"
      by (auto simp: accept_call_def Let_def split: if_splits)
    from st old new(1) have "stored \<in> set new" by auto
    with idx new(1) have "\<not> ?P r" if "r \<in> set old" for r
      using that by (fastforce simp: calls_indexed_def)
    then have "tool_calls db' = old @ fst (update_one ?P ?f new)"
      by (simp add: upd(3) new(1) update_one_append)
    moreover have "tc_round_id r = round_id \<and> tc_status r = ''requested''"
      if "r \<in> set (fst (update_one ?P ?f new))" for r
      using that new(2) by (auto elim!: update_one_setE simp: reset_call_row_def)
    ultimately show ?thesis using upd by (auto simp: accepted_behind_def)
  qed
qed

lemma accept_calls_behind:
  assumes "accept_calls J U draws round_id actor n requests db = Inr (as, db')"
    and "accepted_behind round_id old (tool_calls db)" and "round_id \<notin> tc_round_id ` set old"
  shows "accepted_behind round_id old (tool_calls db') \<and> rounds db' = rounds db"
  using assms
proof (induction requests arbitrary: n db as)
  case (Cons request requests)
  then obtain a db1 as' where "accept_call J U (draws n) round_id actor (int n) request db = Inr (a, db1)"
    "accept_calls J U draws round_id actor (Suc n) requests db1 = Inr (as', db')"
    by auto
  with Cons.IH [of "Suc n" db1 as'] Cons.prems(2,3) show ?case
    by (metis accept_call_behind)
qed simp

lemma accept_round_effect:
  assumes acc: "accept_round_response J U g i db = Inr (res, db')" and ok: "exec_ok db"
  shows "res = None \<and> db' = db \<or> res \<noteq> None \<and>
    rounds db' = fst (update_one (running_round (rr_round_id i) (rr_turn_id i))
      (succeed_round_row J (wg_now g) i) (rounds db)) \<and>
    (\<exists>r \<in> set (rounds db). running_round (rr_round_id i) (rr_turn_id i) r) \<and>
    accepted_behind (rr_round_id i) (tool_calls db) (tool_calls db')"
proof -
  let ?P = "running_round (rr_round_id i) (rr_turn_id i)"
  let ?f = "succeed_round_row J (wg_now g) i"
  let ?db0 = "db\<lparr>rounds := fst (update_one ?P ?f (rounds db))\<rparr>"
  show ?thesis
  proof (cases "turn_is_runnable (rr_session_id i) (rr_turn_id i) db \<and> snd (update_one ?P ?f (rounds db)) = 1")
    case True
    with acc obtain x db1 calls db2 ids evs where
      a: "append_assistant_message_in_tx J (wg_message g)
              \<lparr>am_session_id = rr_session_id i, am_turn_id = rr_turn_id i, am_round_id = rr_round_id i,
               am_text = rr_text i, am_reasoning = rr_reasoning i,
               am_reasoning_content = rr_reasoning_content i,
               am_duration_ms = map_option as_i64_tokens (rr_reasoning_duration_ms i),
               am_tool_calls = JArr (map call_to_value (rr_tool_calls i)), am_actor = rr_actor i,
               am_now = wg_now g\<rparr> ?db0 = Inr (x, db1)"
      and b: "accept_calls J U (wg_call g) (rr_round_id i) (rr_actor i) 0 (rr_tool_calls i) db1 = Inr (calls, db2)"
      and c: "append_work_events J (wg_event g) 0 evs db2 = Inr db'" and res: "res = Some calls"
      by (auto simp: accept_round_response_def Let_def split_beta)
    from True obtain r where r: "r \<in> set (rounds db)" "?P r"
      by (auto simp: update_one_count split: if_splits)
    with ok have old: "rr_round_id i \<notin> tc_round_id ` set (tool_calls db)"
      by (auto simp: exec_ok_def running_round_def)
    have now: "accepted_behind (rr_round_id i) (tool_calls db) (tool_calls db1)"
      using append_assistant_message_frame [OF a] ok
      by (simp add: same_execution_def accepted_behind_def exec_ok_def)
    from accept_calls_behind [OF b now old] append_work_events_frame [OF c] append_assistant_message_frame [OF a] r res show ?thesis
      by (auto simp: same_execution_def)
  next
    case False
    with acc show ?thesis
      by (cases "turn_is_runnable (rr_session_id i) (rr_turn_id i) db")
        (simp_all add: accept_round_response_def Let_def split_beta)
  qed
qed

section \<open>Every step keeps the invariant and moves calls forward\<close>

lemma accepted_behind_follows: "accepted_behind i c c' \<Longrightarrow> calls_follow c c'"
  by (auto simp: accepted_behind_def)

lemma succeed_round_row_simps [simp]:
  "rn_id (succeed_round_row J now x r) = rn_id r"
  "rn_turn_id (succeed_round_row J now x r) = rn_turn_id r"
  "rn_sequence (succeed_round_row J now x r) = rn_sequence r"
  "rn_status (succeed_round_row J now x r) = ''succeeded''"
  by (auto simp: succeed_round_row_def Let_def split: option.splits)

lemma exec_ok_accept:
  assumes ok: "exec_ok db" and behind: "accepted_behind i (tool_calls db) (tool_calls db')"
    and rs: "rounds db' = fst (update_one (running_round i t) (succeed_round_row J now x) (rounds db))"
    and q: "q \<in> set (rounds db)" "running_round i t q"
  shows "exec_ok db'"
proof -
  have follows: "list_all2 round_row_follows (rounds db) (rounds db')"
    unfolding rs by (rule round_follows_update_one) (simp add: running_round_def round_row_follows_def)
  have rs': "rounds db' = map (\<lambda>r. if running_round i t r then succeed_round_row J now x r else r) (rounds db)"
    unfolding rs using ok
    by (intro update_one_keyed [where k = rn_id and i = i])
      (auto simp: running_round_def exec_ok_def rounds_indexed_def)
  have other: "rn_id r \<noteq> i" if r: "r \<in> set (rounds db')" "rn_status r = ''running''" for r
  proof
    assume "rn_id r = i"
    from r(1) [unfolded rs'] show False
    proof (cases rule: map_ifE)
      case (hit r0)
      with r(2) show False by simp
    next
      case miss
      with ok q \<open>rn_id r = i\<close> have "r = q"
        by (auto simp: exec_ok_def rounds_indexed_def running_round_def distinct_map dest: inj_onD)
      with miss q show False by simp
    qed
  qed
  from behind obtain new where new: "tool_calls db' = tool_calls db @ new"
    "\<And>c. c \<in> set new \<Longrightarrow> tc_round_id c = i" "calls_indexed (tool_calls db')"
    by (auto simp: accepted_behind_def)
  have "rn_id r \<notin> tc_round_id ` set (tool_calls db')"
    if r: "r \<in> set (rounds db')" "rn_status r = ''running''" for r
    using other [OF r] ok round_follows_running [OF follows r] r(2) new by (auto simp: exec_ok_def)
  with ok new(3) show ?thesis
    by (simp add: exec_ok_def round_follows_indexed [OF follows])
qed

text \<open>A step keeps the invariant, and the calls after it follow those before it.\<close>

lemma exec_step_safe:
  assumes "exec_step db db'" and ok: "exec_ok db"
  shows "exec_ok db' \<and> calls_follow (tool_calls db) (tool_calls db')"
  using assms(1)
proof cases
  case other
  with ok show ?thesis by (simp add: exec_ok_def)
next
  case (begin_round J g s t chat snapshot n b)
  from begin_round_effect [OF this(1)] this(2) ok show ?thesis
    by (auto simp: exec_ok_def)
next
  case (accept J U g i res)
  from accept_round_effect [OF this ok] ok show ?thesis
    by (auto intro: exec_ok_accept accepted_behind_follows)
next
  case (fail J g s t rid detail u)
  from fail_round_effect [OF this] ok show ?thesis
    by (auto intro: exec_ok_follows simp: list_all2_refl)
next
  case (start J U g s t a actor b)
  from start_tool_effect(1) [OF this] ok show ?thesis
    by (auto intro: exec_ok_follows calls_follow_same_length simp: list_all2_refl round_row_follows_def)
next
  case (finish J g s t a actor outcome res)
  from finish_tool_effect [OF this] ok show ?thesis
    by (auto intro: exec_ok_follows calls_follow_same_length simp: list_all2_refl round_row_follows_def)
next
  case (skip J U D g s t a reason actor m)
  from settle_unrun_effect [OF this] ok show ?thesis
    by (auto intro: exec_ok_follows calls_follow_same_length simp: list_all2_refl round_row_follows_def)
next
  case (cancel U v1 v2 t now ids)
  from cancel_execution_effect [OF this] ok show ?thesis
    by (auto intro: exec_ok_follows calls_follow_same_length)
next
  case (interrupt v1 v2 v3 now)
  from interrupt_execution_effect [OF this] ok show ?thesis
    by (auto intro: exec_ok_follows calls_follow_same_length)
next
  case (delete s ts)
  with ok show ?thesis
    by (auto simp: exec_ok_def delete_session_execution_effect rounds_indexed_def distinct_map_filter)
qed

section \<open>Facts that stay\<close>

definition call_begun :: "string \<Rightarrow> 'x execution_db_scheme \<Rightarrow> bool" where
  "call_begun i db \<longleftrightarrow> (\<exists>c \<in> set (tool_calls db). tc_id c = i \<and> tc_status c \<noteq> ''requested'')"

definition call_settled :: "tool_call_row \<Rightarrow> 'x execution_db_scheme \<Rightarrow> bool" where
  "call_settled c db \<longleftrightarrow> c \<in> set (tool_calls db) \<and> tc_status c \<notin> {''requested'', ''running''}"

lemma calls_followE:
  assumes "calls_follow c c'" and "r \<in> set c"
  obtains r' where "r' \<in> set c'" and "call_row_follows r r'"
proof -
  from assms(1) obtain d e where d: "c' = d @ e" "list_all2 call_row_follows c d"
    by (auto simp: calls_follow_def)
  from assms(2) obtain k where "k < length c" "r = c ! k" by (auto simp: in_set_conv_nth)
  with d have "d ! k \<in> set c'" "call_row_follows r (d ! k)"
    by (auto simp: list_all2_conv_all_nth)
  then show ?thesis by (rule that)
qed

interpretation exec_inv: step_invariant exec_step exec_ok
  by unfold_locales (use exec_step_safe in blast)

interpretation begun_calls: step_stable exec_step exec_ok call_begun
proof unfold_locales
  fix s t :: "'a execution_db_scheme" and i
  assume "exec_step s t" "exec_ok s" "call_begun i s"
  then obtain c where "calls_follow (tool_calls s) (tool_calls t)" "c \<in> set (tool_calls s)"
      "tc_id c = i" "tc_status c \<noteq> ''requested''"
    using exec_step_safe by (auto simp: call_begun_def)
  then show "call_begun i t"
    by (elim calls_followE) (auto simp: call_begun_def call_row_follows_def dest: call_moves_to)
qed

interpretation settled_calls: step_stable exec_step exec_ok call_settled
proof unfold_locales
  fix s t :: "'a execution_db_scheme" and c
  assume "exec_step s t" "exec_ok s" "call_settled c s"
  then have "calls_follow (tool_calls s) (tool_calls t)" "c \<in> set (tool_calls s)"
      "tc_status c \<notin> {''requested'', ''running''}"
    using exec_step_safe by (auto simp: call_settled_def)
  then show "call_settled c t"
    by (elim calls_followE) (auto simp: call_settled_def call_row_follows_def dest: call_moves_from)
qed

end
