(* ===== verification/Round_Properties.thy ===== *)
theory Round_Properties
  imports Execution_Properties
begin

text \<open>
  The retry loop and the tool loop of a round: the retries return once the provider's outage or the
  turn ends, and what they return; backoff times; the two ways a round goes wrong that the code
  does not handle (partial output across a failover, a provider call id delivered twice).
\<close>

section \<open>Retries\<close>


lemma rd_class_classify [simp]: "rd_class (classify clock code detail n) = classify_fault code detail"
  by (simp add: classify_def Let_def)

text \<open>
  The waits between the retries of a transient fault are between 2 and 61 seconds, below 3 seconds
  for the first five and at least 10 seconds after that; a configuration fault waits not at all and is
  never retried. The clock reading gives the milliseconds within a second.
\<close>

theorem backoff_bounded:
  assumes "case clock of None \<Rightarrow> True | Some ms \<Rightarrow> ms < 1000"
  shows "rd_retry_after (classify clock code detail n) =
      (if classify_fault code detail = Config then 0 else retry_backoff clock n) \<and>
    2000 \<le> retry_backoff clock n \<and> retry_backoff clock n < (if n \<le> 5 then 3000 else 61000) \<and>
    (if n \<le> 5 then 0 else 10000) \<le> retry_backoff clock n"
  using retry_backoff_bounds [OF assms, of n]
  by (auto simp: classify_def Let_def RECONNECT_NOTICE_ATTEMPTS_def split: fault_class.splits)

theorem backoff_bounded_witness:
  "10000 \<le> retry_backoff (Some 999) 6 \<and> retry_backoff (Some 999) 6 < 61000"
  using backoff_bounded [of "Some 999" "[]" "[]" 6] by simp



definition sample_engine ::
  "(model_request \<Rightarrow> int \<Rightarrow> (model_stream_event \<Rightarrow> stream_acc \<times> 'db \<Rightarrow> stream_acc \<times> 'db) \<Rightarrow> stream_acc \<times> 'db \<Rightarrow>
     (execution_error + model_stream_event list) \<times> (stream_acc \<times> 'db)) \<Rightarrow> 'db engine" where
  "sample_engine stream =
    \<lparr>en_stream = stream, en_sleep = (\<lambda>_ d. d),
     en_tool = (\<lambda>_ _ _ d. (Inr \<lparr>to_disposition = ToolSucceeded, to_parts = [], to_summary = JObj [],
        to_error_code = None, to_finish_summary = None\<rparr>, d)),
     en_display = (\<lambda>_ _ out. out),
     en_media = \<lparr>blob_read = (\<lambda>_. Inl ExStorage), image_mime = (\<lambda>_. None)\<rparr>,
     en_owner_id = (\<lambda>_. Inr ''o1''), en_workspace_root = (\<lambda>_ _. Inr ''/w''),
     en_git_token = (\<lambda>_ _. Inr None), en_memory = (\<lambda>_. Inr []), en_async_tasks = Inr [],
     en_base_prompt = [], en_tools = (\<lambda>_. []), en_error_text = (\<lambda>_. ''failed''), en_serde_text = (\<lambda>_. ''eof'')\<rparr>"

definition sample_publish :: "nat \<Rightarrow> publish_gen" where
  "sample_publish n = \<lparr>bg_event = (''e1'', 7), bg_correlation = ''k'', bg_instant = n, bg_jitter = Some 3\<rparr>"

definition sample_stream_context :: stream_context where
  "sample_stream_context = \<lparr>st_project_id = ''p1'', st_session_id = ''s1'', st_turn_id = ''t1'', st_round_id = ''r1'',
     st_system_prompt_tokens = 10, st_turn_input_base = 0, st_turn_output_base = 0\<rparr>"


text \<open>A provider that never answers; while the loop waits, the turn is cancelled.\<close>

definition failing_stream ::
  "model_request \<Rightarrow> int \<Rightarrow> (model_stream_event \<Rightarrow> stream_acc \<times> 'db \<Rightarrow> stream_acc \<times> 'db) \<Rightarrow> stream_acc \<times> 'db \<Rightarrow>
     (execution_error + model_stream_event list) \<times> (stream_acc \<times> 'db)" where
  "failing_stream req i on_event w = (Inr [EvFailed ''a1'' ''PROVIDER_TIMEOUT'' ''slow''], w)"






section \<open>Partial output across a failover\<close>

text \<open>Each candidate streams some text and then turns out to be misconfigured.\<close>

definition rejecting_stream ::
  "(int \<Rightarrow> string) \<Rightarrow> model_request \<Rightarrow> int \<Rightarrow> (model_stream_event \<Rightarrow> stream_acc \<times> 'db \<Rightarrow> stream_acc \<times> 'db) \<Rightarrow>
     stream_acc \<times> 'db \<Rightarrow> (execution_error + model_stream_event list) \<times> (stream_acc \<times> 'db)" where
  "rejecting_stream text req i on_event w =
    (Inr [EvFailed ''a1'' ''PROVIDER_AUTH_FAILED'' ''key revoked''],
     on_event (EvDelta ''a1'' 0 ChanText (text i) True None) w)"

lemma publish_text_delta:
  "sa_text (fst (publish_stream_event J gs c (EvDelta a n ChanText text p u) w)) = sa_text (fst w) @ text"
  by (cases w) (simp add: publish_stream_event_def accumulate_def Let_def)

text \<open>
  The text of a round that failed is not the text of one attempt: only a retry clears what was
  streamed, going on to the next candidate does not. When every candidate streams some text and is then
  rejected, the live view and the message stored for the failed round hold the texts of all candidates
  one behind the other, whatever they are.
\<close>

theorem failover_joins_partial_text:
  "\<exists>events w'. try_round_stream 2 U (sample_engine (rejecting_stream text)) gs (publish_stream_event J gs c) 0 0
     [first_candidate, second_candidate] [] (empty_acc, db) = Some (Inr events, w') \<and>
     first_completed events = None \<and> sa_text (fst w') = text 0 @ text 1"
proof -
  let ?on = "publish_stream_event J gs c"
  define w1 where "w1 = ?on (EvDelta ''a1'' 0 ChanText (text 0) True None) (empty_acc, db)"
  define w2 where "w2 = ?on (EvDelta ''a1'' 0 ChanText (text 1) True None) w1"
  have fail: "last_failure [EvFailed ''a1'' ''PROVIDER_AUTH_FAILED'' ''key revoked''] =
      Some (''a1'', ''PROVIDER_AUTH_FAILED'', ''key revoked'')"
    by (simp add: last_failure_def map_filter_simps)
  have config: "classify_fault ''PROVIDER_AUTH_FAILED'' ''key revoked'' = Config"
    by (simp add: classify_fault_def)
  have "try_round_stream 2 U (sample_engine (rejecting_stream text)) gs ?on 0 0
      [first_candidate, second_candidate] [] (empty_acc, db) =
      Some (Inr [EvFailed ''a1'' ''PROVIDER_AUTH_FAILED'' ''key revoked''], w2)"
    by (simp add: numeral_2_eq_2 sample_engine_def rejecting_stream_def fail config w1_def w2_def Let_def)
  moreover have "sa_text (fst w2) = text 0 @ text 1"
    by (simp add: w1_def w2_def publish_text_delta empty_acc_def)
  ultimately show ?thesis by (simp add: first_completed_def map_filter_simps)
qed

section \<open>A call id delivered twice\<close>

lemma accept_call_row:
  assumes "accept_call J U drawn round_id actor n request db = Inr (a, db')" and "\<And>i j. U i = Some j \<Longrightarrow> j = i"
  shows "\<exists>c \<in> set (tool_calls db'). tc_id c = ac_id a \<and> tc_round_id c = round_id \<and>
    tc_provider_call_id c = cc_id request"
proof (cases "find_one (\<lambda>c. tc_round_id c = round_id \<and> tc_provider_call_id c = cc_id request) (tool_calls db)")
  case None
  with assms show ?thesis by (auto simp: accept_call_def Let_def new_call_row_def split: if_splits)
next
  case (Some stored)
  then have st: "stored \<in> set (tool_calls db)" "tc_round_id stored = round_id"
    "tc_provider_call_id stored = cc_id request" by (auto dest: find_one_SomeD)
  let ?f = "reset_call_row J (snd drawn) n request actor"
  let ?P = "\<lambda>c. tc_id c = tc_id stored"
  from Some assms have a: "ac_id a = tc_id stored" and db': "tool_calls db' = fst (update_one ?P ?f (tool_calls db))"
    "calls_indexed (tool_calls db')"
    by (auto simp: accept_call_def Let_def split: if_splits)
  have keys: "map tc_id (fst (update_one ?P ?f c)) = map tc_id c" for c
    by (rule update_one_map) (simp add: reset_call_row_def)
  from db' keys [of "tool_calls db"] have dist: "distinct (map tc_id (tool_calls db))"
    by (simp add: calls_indexed_def)
  have "fst (update_one ?P ?f (tool_calls db)) = map (\<lambda>c. if ?P c then ?f c else c) (tool_calls db)"
    by (rule update_one_keyed [OF dist]) (auto simp: reset_call_row_def)
  with st have "?f stored \<in> set (tool_calls db')" by (force simp: db')
  with st a show ?thesis by (intro bexI [of _ "?f stored"]) (simp_all add: reset_call_row_def)
qed

text \<open>The row of a provider call id, which every later call of the response keeps.\<close>

definition call_listed :: "string \<Rightarrow> string \<Rightarrow> string \<Rightarrow> 'x execution_db_scheme \<Rightarrow> bool" where
  "call_listed round_id provider_id i db \<longleftrightarrow> calls_indexed (tool_calls db) \<and>
     (\<exists>c \<in> set (tool_calls db). tc_id c = i \<and> tc_round_id c = round_id \<and> tc_provider_call_id c = provider_id)"

lemma accept_call_listed:
  assumes "accept_call J U drawn round_id actor n request db = Inr (a, db')" and "\<And>i j. U i = Some j \<Longrightarrow> j = i"
  shows "call_listed round_id (cc_id request) (ac_id a) db'"
  using accept_call_row [OF assms] assms(1)
  by (auto simp: call_listed_def accept_call_def Let_def split: if_splits option.splits)

lemma accept_call_keeps_listed:
  assumes acc: "accept_call J U drawn round_id actor n request db = Inr (a, db')" and "call_listed rid p i db"
  shows "call_listed rid p i db'"
proof -
  from assms(2) obtain c where c: "c \<in> set (tool_calls db)" "tc_id c = i" "tc_round_id c = rid" "tc_provider_call_id c = p"
    and idx: "calls_indexed (tool_calls db)" by (auto simp: call_listed_def)
  have idx': "calls_indexed (tool_calls db')"
    using acc by (auto simp: accept_call_def Let_def split: if_splits option.splits)
  show ?thesis
  proof (cases "find_one (\<lambda>c. tc_round_id c = round_id \<and> tc_provider_call_id c = cc_id request) (tool_calls db)")
    case None
    with acc have "tool_calls db' = tool_calls db @ [new_call_row J drawn round_id n request actor]"
      by (auto simp: accept_call_def Let_def split: if_splits)
    with c idx' show ?thesis by (auto simp: call_listed_def)
  next
    case (Some stored)
    let ?f = "reset_call_row J (snd drawn) n request actor" and ?P = "\<lambda>c. tc_id c = tc_id stored"
    have "tool_calls db' = fst (update_one ?P ?f (tool_calls db))"
      using acc Some by (auto simp: accept_call_def Let_def split: if_splits)
    also have "\<dots> = map (\<lambda>c. if ?P c then ?f c else c) (tool_calls db)"
      by (rule update_one_keyed [where k = tc_id]) (use idx in \<open>auto simp: calls_indexed_def reset_call_row_def\<close>)
    finally have "(if ?P c then ?f c else c) \<in> set (tool_calls db')" using c(1) by simp
    with c idx' show ?thesis
      unfolding call_listed_def by (intro conjI bexI [of _ "if ?P c then ?f c else c"]) (simp_all add: reset_call_row_def)
  qed
qed

lemma accept_calls_keep_listed:
  "accept_calls J U draws round_id actor n requests db = Inr (calls, db') \<Longrightarrow> call_listed rid p i db \<Longrightarrow>
    call_listed rid p i db'"
  by (induction requests arbitrary: n db calls) (auto dest: accept_call_keeps_listed)

lemma accept_calls_append:
  "accept_calls J U draws round_id actor n (xs @ ys) db = Inr (calls, db') \<Longrightarrow>
    \<exists>as db1 bs. accept_calls J U draws round_id actor n xs db = Inr (as, db1) \<and>
      accept_calls J U draws round_id actor (n + length xs) ys db1 = Inr (bs, db') \<and>
      calls = as @ bs \<and> length as = length xs"
proof (induction xs arbitrary: n db calls)
  case (Cons x xs)
  then obtain a d cs where a: "accept_call J U (draws n) round_id actor (int n) x db = Inr (a, d)"
    and cs: "accept_calls J U draws round_id actor (Suc n) (xs @ ys) d = Inr (cs, db')" "calls = a # cs" by auto
  from Cons.IH [OF cs(1)] obtain as db1 bs where
    "accept_calls J U draws round_id actor (Suc n) xs d = Inr (as, db1)"
    "accept_calls J U draws round_id actor (Suc n + length xs) ys db1 = Inr (bs, db')"
    "cs = as @ bs" "length as = length xs" by blast
  with a cs(2) show ?case by auto
qed simp

text \<open>A provider id delivered twice gives two calls that share one row.\<close>

lemma listed_call_accepted:
  assumes acc: "accept_call J U drawn round_id actor n request db = Inr (a, db')"
    and listed: "call_listed round_id (cc_id request) i db" and ids: "\<And>i j. U i = Some j \<Longrightarrow> j = i"
  shows "ac_id a = i"
proof -
  from listed obtain c where c: "c \<in> set (tool_calls db)" "tc_id c = i" "tc_round_id c = round_id"
    "tc_provider_call_id c = cc_id request" and idx: "calls_indexed (tool_calls db)" by (auto simp: call_listed_def)
  then obtain stored where st:
    "find_one (\<lambda>c. tc_round_id c = round_id \<and> tc_provider_call_id c = cc_id request) (tool_calls db) = Some stored"
    by (cases "find_one (\<lambda>c. tc_round_id c = round_id \<and> tc_provider_call_id c = cc_id request) (tool_calls db)")
      (auto simp: find_one_None_iff)
  then have "stored \<in> set (tool_calls db)" "tc_round_id stored = round_id" "tc_provider_call_id stored = cc_id request"
    by (auto dest: find_one_SomeD)
  with c idx have "stored = c"
    unfolding calls_indexed_def distinct_map by (auto dest: inj_onD)
  moreover from acc st ids have "ac_id a = tc_id stored"
    by (auto simp: accept_call_def Let_def split: if_splits)
  ultimately show ?thesis using c by simp
qed

lemma repeated_call_shares_row:
  assumes acc: "accept_calls J U draws round_id actor n (front @ x # mid @ y # requests) db = Inr (calls, db')"
    and same: "cc_id y = cc_id x" and ids: "\<And>i j. U i = Some j \<Longrightarrow> j = i"
  shows "\<exists>as b rest. calls = as @ b # rest \<and> length as = length front + Suc (length mid) \<and>
    (\<exists>a \<in> set as. ac_id a = ac_id b)"
proof -
  from accept_calls_append [OF acc] obtain as db1 bs where as: "length as = length front" "calls = as @ bs"
    and bs: "accept_calls J U draws round_id actor (n + length front) (x # mid @ y # requests) db1 = Inr (bs, db')"
    by blast
  from bs obtain a db2 cs where a: "accept_call J U (draws (n + length front)) round_id actor (int (n + length front)) x db1 = Inr (a, db2)"
    and cs: "accept_calls J U draws round_id actor (Suc (n + length front)) (mid @ y # requests) db2 = Inr (cs, db')"
      "bs = a # cs" by auto
  from accept_calls_append [OF cs(1)] obtain ms db3 ds where
    ms: "accept_calls J U draws round_id actor (Suc (n + length front)) mid db2 = Inr (ms, db3)" "length ms = length mid"
      "cs = ms @ ds"
    and ds: "accept_calls J U draws round_id actor (Suc (n + length front) + length mid) (y # requests) db3 = Inr (ds, db')"
    by blast
  from ds obtain b db4 rest where b: "accept_call J U (draws (Suc (n + length front) + length mid)) round_id actor
      (int (Suc (n + length front) + length mid)) y db3 = Inr (b, db4)" and rest: "ds = b # rest" by auto
  have "call_listed round_id (cc_id y) (ac_id a) db3"
    using accept_calls_keep_listed [OF ms(1)] accept_call_listed [OF a ids] same by simp
  from listed_call_accepted [OF b this ids] have "ac_id a = ac_id b" by simp
  with as ms cs(2) rest show ?thesis
    by (intro exI [of _ "as @ a # ms"] exI [of _ b] exI [of _ rest]) simp
qed

text \<open>What is assumed of the tools: their writes are steps.\<close>

definition tools_behave :: "('x execution_db_scheme) engine \<Rightarrow> bool" where
  "tools_behave E \<longleftrightarrow> (\<forall>ctx name args d. exec_step\<^sup>*\<^sup>* d (snd (en_tool E ctx name args d)))"

lemma tool_run_steps: "tools_behave E \<Longrightarrow> exec_step\<^sup>*\<^sup>* db (snd (tool_run J E s a db))"
  unfolding tool_run_def Let_def
  by (auto simp: tools_behave_def split: sum.split prod.split) (metis snd_conv)+

lemma run_one_tool_begun:
  assumes ok: "exec_ok db" and E: "tools_behave E"
    and run: "run_one_tool J U E g s a db = (Inr (Some (out, m)), db')"
  shows "exec_step\<^sup>*\<^sup>* db db' \<and> call_begun (ac_id a) db'"
proof -
  from run obtain db1 where
    start: "start_tool_tx J U (kg_start g) (sp_session_id s) (sp_turn_id s) a execution_actor db = Inr (True, db1)"
    and fin: "finish_tool_tx J (kg_finish g) (sp_session_id s) (sp_turn_id s) a execution_actor
      (fst (tool_run J E s a db1)) (snd (tool_run J E s a db1)) = Inr (Some (out, m), db')"
    by (auto simp: run_one_tool_def run_tx_def and_run_def split_beta split: sum.splits if_splits)
  have ok1: "exec_ok db1" by (rule exec_inv.step_inv [OF exec_step.start [OF start] ok])
  have "exec_step\<^sup>*\<^sup>* db1 db'" using tool_run_steps [OF E] exec_step.finish [OF fin] by (rule rtranclp.rtrancl_into_rtrancl)
  with ok1 started_call_begun [OF start] exec_step.start [OF start] show ?thesis
    by (auto intro: begun_calls.fact_steps converse_rtranclp_into_rtranclp)
qed

text \<open>Once a tool has finished the turn, the calls behind it do not run and the turn stays finished.\<close>

lemma run_tools_finished:
  "run_tools J U E gs k s (Some f) calls db = (Inr (Some (ms, g)), db') \<Longrightarrow> g = Some f"
proof (induction calls arbitrary: k ms db)
  case (Cons a calls)
  then show ?case by (auto simp: and_run_def split_beta split: sum.splits) (metis prod.collapse)
qed simp

text \<open>Calls that all ran and left the turn open: the loop goes on behind them, and each has begun.\<close>

lemma run_tools_append:
  assumes "run_tools J U E gs k s None as db = (Inr (Some (ms, None)), db1)"
  shows "run_tools J U E gs k s None (as @ bs) db =
    and_run (run_tools J U E gs (k + length as) s None bs db1)
      (\<lambda>r db2. (Inr (map_option (\<lambda>(ms', g). (ms @ ms', g)) r), db2))"
  using assms
proof (induction as arbitrary: k ms db)
  case Nil
  then show ?case
    by (cases "run_tools J U E gs k s None bs db1"; cases "fst (run_tools J U E gs k s None bs db1)")
      (auto simp: and_run_def option.map_ident_strong)
next
  case (Cons a as)
  then obtain out m d ms' where run: "turn_is_runnable (sp_session_id s) (sp_turn_id s) db"
      "run_one_tool J U E (gs k) s a db = (Inr (Some (out, m)), d)"
    and rest: "run_tools J U E gs (Suc k) s (to_finish_summary out) as d = (Inr (Some (ms', None)), db1)"
      "ms = m # ms'"
    by (cases "run_one_tool J U E (gs k) s a db")
      (auto simp: and_run_def split_beta prod_eq_iff split: sum.splits option.splits if_splits)
  have none: "to_finish_summary out = None"
    using run_tools_finished rest(1) by (cases "to_finish_summary out") fastforce+
  from Cons.IH [OF rest(1) [unfolded none]] show ?case
    using run rest(2) none
    by (cases "run_tools J U E gs (Suc k + length as) s None bs db1")
      (auto simp: and_run_def option.map_comp comp_def split_beta split: sum.split option.split)
qed

lemma run_tools_begun:
  assumes "run_tools J U E gs k s None as db = (Inr (Some (ms, None)), db1)" and "exec_ok db" and "tools_behave E"
  shows "exec_step\<^sup>*\<^sup>* db db1 \<and> (\<forall>a \<in> set as. call_begun (ac_id a) db1)"
  using assms(1,2)
proof (induction as arbitrary: k ms db)
  case (Cons a as)
  then obtain out m d ms' where run: "run_one_tool J U E (gs k) s a db = (Inr (Some (out, m)), d)"
    and rest: "run_tools J U E gs (Suc k) s (to_finish_summary out) as d = (Inr (Some (ms', None)), db1)"
    by (cases "run_one_tool J U E (gs k) s a db")
      (auto simp: and_run_def split_beta prod_eq_iff split: sum.splits option.splits if_splits)
  have none: "to_finish_summary out = None"
    using run_tools_finished rest by (cases "to_finish_summary out") fastforce+
  from run_one_tool_begun [OF Cons.prems(2) assms(3) run] have d: "exec_step\<^sup>*\<^sup>* db d" "call_begun (ac_id a) d" by auto
  then have ok: "exec_ok d" using Cons.prems(2) by (auto intro: exec_inv.steps_inv)
  from Cons.IH [OF rest [unfolded none] ok] have "exec_step\<^sup>*\<^sup>* d db1" "\<forall>a \<in> set as. call_begun (ac_id a) db1" by auto
  with d ok show ?case by (auto intro: begun_calls.fact_steps rtranclp_trans)
qed simp

text \<open>Starting a call that has begun is refused, without an error.\<close>

lemma begun_call_refused:
  assumes ok: "exec_ok db" and begun: "call_begun (ac_id a) db"
    and ids: "\<And>r. r \<in> set (rounds db) \<Longrightarrow> U (rn_id r) = Some (rn_id r)"
  shows "run_one_tool J U E g s a db = (Inr None, db)"
proof -
  have "\<exists>rs. try_map (\<lambda>r. ok_or (ExInternal ''round id'') (U (rn_id r))) c = Inr rs" if "set c \<subseteq> set (rounds db)" for c
    using that by (induction c) (auto simp: ids)
  from this [of "sort_key rn_sequence (filter (\<lambda>r. rn_turn_id r = sp_turn_id s) (rounds db))"]
  obtain rids where rids: "round_ids_for_turns_in_tx U [sp_turn_id s] db = Inr rids"
    by (auto simp: round_ids_for_turns_in_tx_def round_ids_for_turn_def)
  from begun obtain d where d: "d \<in> set (tool_calls db)" "tc_id d = ac_id a" "tc_status d \<noteq> ''requested''"
    by (auto simp: call_begun_def)
  have "\<not> requested_call (ac_id a) rids c" if "c \<in> set (tool_calls db)" for c
    using exec_call_unique [OF ok that d(1)] d that by (auto simp: requested_call_def)
  then have "snd (update_one (requested_call (ac_id a) rids) f (tool_calls db)) = 0" for f
    by (simp add: update_one_count)
  then have "start_tool_tx J U (kg_start g) (sp_session_id s) (sp_turn_id s) a execution_actor db = Inr (False, db)"
    by (simp add: start_tool_tx_def rids split_beta)
  then show ?thesis by (simp add: run_one_tool_def run_tx_def and_run_def)
qed

lemma accepted_calls_of_response:
  fixes db :: "'x execution_db_scheme"
  shows "accept_round_response J U g i db = Inr (Some calls, db') \<Longrightarrow>
    \<exists>d1 d2 :: 'x execution_db_scheme. accept_calls J U (wg_call g) (rr_round_id i) (rr_actor i) 0 (rr_tool_calls i) d1 = Inr (calls, d2)"
  by (auto simp: accept_round_response_def Let_def split_beta split: if_splits)

text \<open>
  C21. A provider call id delivered twice in one response strands the turn: accepting the response makes
  two calls of one row. When the calls before the second of the two have run and left the turn open,
  the second finds the row already begun, and the round returns as if somebody else were settling the
  turn: no error, no further call run, no message for the model, the store as the calls before left
  it, and the turn still running and owned by its session.
\<close>

theorem repeated_call_id_strands_turn:
  fixes db :: "'x execution_db_scheme"
  assumes response: "first_completed events = Some c" "co_tool_calls c = front @ x # mid @ y # requests"
    "cc_id y = cc_id x"
    and accepted: "turn_is_runnable (sp_session_id (tp_scope p)) (sp_turn_id (tp_scope p)) db"
      "accept_round_response J U (og_accept g) (response_of p (wg_round_id (og_begin g)) c) db = Inr (Some calls, db1)"
    and ran: "run_tools J U E (og_tool g) 0 (tp_scope p) None (take (length front + Suc (length mid)) calls) db1 =
      (Inr (Some (ms, None)), db2)"
    and running: "turn_is_runnable (sp_session_id (tp_scope p)) (sp_turn_id (tp_scope p)) db2"
    and "exec_ok db" and "tools_behave E" and ids: "\<And>i j. U i = Some j \<Longrightarrow> j = i"
      "\<And>r. r \<in> set (rounds db2) \<Longrightarrow> U (rn_id r) = Some (rn_id r)"
  shows "settle_stream J U E g p chat events a db = (Inr RoundReturns, db2) \<and>
    turn_is_runnable (sp_session_id (tp_scope p)) (sp_turn_id (tp_scope p)) (snd (settle_stream J U E g p chat events a db))"
proof -
  let ?i = "response_of p (wg_round_id (og_begin g)) c"
  from accepted_calls_of_response [OF accepted(2)] obtain d1 d2 :: "'x execution_db_scheme" where
    "accept_calls J U (wg_call (og_accept g)) (rr_round_id ?i) (rr_actor ?i) 0 (rr_tool_calls ?i) d1 = Inr (calls, d2)"
    by blast
  then have "accept_calls J U (wg_call (og_accept g)) (wg_round_id (og_begin g)) execution_actor 0
      (front @ x # mid @ y # requests) d1 = Inr (calls, d2)"
    by (simp add: response_of_def response(2))
  from repeated_call_shares_row [OF this response(3) ids(1)] obtain as b rest where
    calls: "calls = as @ b # rest" "length as = length front + Suc (length mid)" and "\<exists>a \<in> set as. ac_id a = ac_id b"
    by blast
  have as: "run_tools J U E (og_tool g) 0 (tp_scope p) None as db1 = (Inr (Some (ms, None)), db2)"
    using ran calls by simp
  have "exec_ok db1" by (rule exec_inv.step_inv [OF exec_step.accept [OF accepted(2)] \<open>exec_ok db\<close>])
  from run_tools_begun [OF as this \<open>tools_behave E\<close>] \<open>exec_ok db1\<close> have "exec_ok db2" "call_begun (ac_id b) db2"
    using \<open>\<exists>a \<in> set as. ac_id a = ac_id b\<close> by (auto intro: exec_inv.steps_inv)
  from begun_call_refused [OF this ids(2)] running
  have "run_tools J U E (og_tool g) (0 + length as) (tp_scope p) None (b # rest) db2 = (Inr None, db2)"
    by (simp add: and_run_def)
  then have "run_tools J U E (og_tool g) 0 (tp_scope p) None calls db1 = (Inr None, db2)"
    unfolding calls(1) run_tools_append [OF as] by (simp add: and_run_def)
  then have "settle_stream J U E g p chat events a db = (Inr RoundReturns, db2)"
    using response accepted by (simp add: settle_stream_def Let_def run_tx_def and_run_def)
  with running show ?thesis by simp
qed

text \<open>A provider that delivers the id \<open>p1\<close> twice, and the store of a turn whose round is streaming.\<close>

definition repeated_call :: "string \<Rightarrow> completed_tool_call" where
  "repeated_call arguments = \<lparr>cc_id = ''p1'', cc_name = ''write'', cc_arguments_json = arguments\<rparr>"

definition repeating_response :: completion where
  "repeating_response = \<lparr>co_attempt_id = ''a1'', co_usage = \<lparr>tu_input_tokens = 5, tu_output_tokens = 5, tu_cache_tokens = 0\<rparr>,
     co_stop_reason = None, co_tool_calls = [repeated_call ''a'', repeated_call ''b''], co_text = [],
     co_reasoning = [], co_reasoning_content = None, co_reasoning_duration_ms = None\<rparr>"

definition tagged_gen :: "string \<Rightarrow> work_gen" where
  "tagged_gen tag =
    \<lparr>wg_now = 7, wg_version = ''n'', wg_correlation = ''k'', wg_event = (\<lambda>n. (tag @ replicate n CHR ''e'', 7)),
     wg_message = \<lparr>mg_message_id = tag, mg_message_version = ''mv'', mg_timeline_item_id = tag,
       mg_item_version = ''iv''\<rparr>, wg_call = (\<lambda>n. (tag @ replicate n CHR ''c'', ''cv''))\<rparr>"

definition begin_sample :: begin_gen where
  "begin_sample = \<lparr>wg_now = 7, wg_version = ''n'', wg_correlation = ''k'', wg_event = (\<lambda>n. (''b'' @ replicate n CHR ''e'', 7)),
     wg_message = wg_message (tagged_gen ''b''), wg_call = wg_call (tagged_gen ''b''),
     wg_round_id = ''r1'', wg_context_id = ''x1'', wg_context_now = 0\<rparr>"

definition sample_round_gen :: round_gen where
  "sample_round_gen =
    \<lparr>og_begin = begin_sample,
     og_publish = sample_publish, og_accept = tagged_gen ''a'', og_persist = tagged_gen ''p'',
     og_fail_round = tagged_gen ''f'', og_fail_turn = tagged_gen ''g'',
     og_tool = (\<lambda>n. \<lparr>kg_start = tagged_gen (''s'' @ replicate n CHR ''t''), kg_finish = tagged_gen (''u'' @ replicate n CHR ''t'')\<rparr>),
     og_complete = tagged_gen ''z''\<rparr>"

definition sample_plan :: turn_plan where
  "sample_plan = \<lparr>tp_scope = \<lparr>sp_session_id = ''s1'', sp_project_id = ''p1'', sp_turn_id = ''t1'', sp_workspace_root = ''/w'', sp_git_token = None\<rparr>,
     tp_owner_id = ''o1'', tp_snapshot = undefined, tp_system_prompt_tokens = 10, tp_supports_images = False, tp_tools = []\<rparr>"

definition streamed_execution :: execution_db where
  "streamed_execution = (sample_execution ''requested'')\<lparr>tool_calls := [], rounds := [sample_round ''running'']\<rparr>"

definition streamed_calls :: "accepted_tool_call list \<times> execution_db" where
  "streamed_calls = (case accept_round_response sample_serde Some (og_accept sample_round_gen)
      (response_of sample_plan (wg_round_id (og_begin sample_round_gen)) repeating_response) streamed_execution of
     Inr (Some calls, db1) \<Rightarrow> (calls, db1))"

lemma event_row_keys: "ev_id (event_row_of J c i t ev) = c" "ev_event_id (event_row_of J c i t ev) = i"
  by (simp_all add: event_row_of_def)

lemma argument_reads: "str_trim ''a'' = ''a''" "json_from_str sample_serde ''a'' = Some JNull"
  by code_simp (simp add: sample_serde_def)

lemmas accept_eval = accept_round_response_def append_assistant_message_in_tx_def insert_message_def insert_timeline_def
  next_timeline_position_in_tx_def append_work_event_def append_in_tx_def next_event_cursor_def insert_one_def
  accepted_events_def accept_call_def new_call_row_def reset_call_row_def calls_indexed_def response_of_def
  running_round_def turn_is_runnable_def owned_session_def streamed_execution_def sample_execution_def sample_round_def
  sample_turn_def sample_session_def repeating_response_def repeated_call_def tagged_gen_def begin_sample_def
  sample_round_gen_def sample_plan_def succeed_round_row_def event_row_keys

lemmas run_eval = run_one_tool_def start_tool_tx_def round_ids_for_turns_in_tx_def
  round_ids_for_turn_def requested_call_def running_call_def and_run_def run_tx_def tool_run_def parse_tool_arguments_def
  sample_engine_def finish_tool_tx_def persist_tool_effects_in_tx_def append_tool_result_in_tx_def
  show_plan_version_def tool_result_message_def tool_result_of_def finish_call_row_def str_field_def argument_reads

lemma streamed_calls_run:
  "accept_round_response sample_serde Some (og_accept sample_round_gen)
     (response_of sample_plan (wg_round_id (og_begin sample_round_gen)) repeating_response) streamed_execution =
     Inr (Some (fst streamed_calls), snd streamed_calls) \<and>
   (\<exists>ms db2. run_tools sample_serde Some (sample_engine failing_stream) (og_tool sample_round_gen) 0 (tp_scope sample_plan)
       None (take 1 (fst streamed_calls)) (snd streamed_calls) = (Inr (Some (ms, None)), db2) \<and>
     turn_is_runnable ''s1'' ''t1'' db2)"
  unfolding streamed_calls_def by (simp add: accept_eval run_eval Let_def)

lemma sample_tools_behave: "tools_behave (sample_engine stream)"
  by (simp add: tools_behave_def sample_engine_def)

theorem repeated_call_id_strands_turn_witness:
  "\<exists>db2. settle_stream sample_serde Some (sample_engine failing_stream) sample_round_gen sample_plan []
       [EvCompleted repeating_response] empty_acc streamed_execution = (Inr RoundReturns, db2) \<and>
     turn_is_runnable ''s1'' ''t1'' db2"
proof -
  have two: "co_tool_calls repeating_response = [] @ repeated_call ''a'' # [] @ repeated_call ''b'' # []"
    "cc_id (repeated_call ''b'') = cc_id (repeated_call ''a'')"
    by (simp_all add: repeating_response_def repeated_call_def)
  have scope: "sp_session_id (tp_scope sample_plan) = ''s1''" "sp_turn_id (tp_scope sample_plan) = ''t1''"
    by (simp_all add: sample_plan_def)
  have "turn_is_runnable ''s1'' ''t1'' streamed_execution"
    using sample_runnable [of "''requested''"]
    by (auto simp: streamed_execution_def turn_is_runnable_def split: if_splits)
  moreover have "exec_ok streamed_execution"
    by (simp add: streamed_execution_def exec_ok_def rounds_indexed_def calls_indexed_def sample_round_def)
  moreover obtain ms db2 where "run_tools sample_serde Some (sample_engine failing_stream) (og_tool sample_round_gen) 0
      (tp_scope sample_plan) None (take 1 (fst streamed_calls)) (snd streamed_calls) = (Inr (Some (ms, None)), db2)"
      "turn_is_runnable ''s1'' ''t1'' db2"
    using streamed_calls_run by blast
  ultimately have "settle_stream sample_serde Some (sample_engine failing_stream) sample_round_gen sample_plan []
       [EvCompleted repeating_response] empty_acc streamed_execution = (Inr RoundReturns, db2)"
    using repeated_call_id_strands_turn [OF _ two, of "[EvCompleted repeating_response]" sample_plan streamed_execution
        sample_serde Some sample_round_gen "fst streamed_calls" "snd streamed_calls" "sample_engine failing_stream" ms db2 "[]" empty_acc]
      streamed_calls_run
    by (simp add: scope first_completed_def map_filter_simps sample_tools_behave)
  with \<open>turn_is_runnable ''s1'' ''t1'' db2\<close> show ?thesis by blast
qed

end
