(* ===== verification/Url_Crate.thy ===== *)
theory Url_Crate
  imports Main
begin

text \<open>
  The \<open>url\<close> crate, which the notifications and models capabilities parse endpoints with. It is not
  part of the repository: a parsed URL is the type variable \<open>'u\<close> and the functions the code calls
  on it are the fields of a record.
\<close>

record 'u url_crate =
  uc_parse :: "string \<Rightarrow> 'u option"
  uc_scheme :: "'u \<Rightarrow> string"
  uc_host_str :: "'u \<Rightarrow> string option"
  uc_drop_query :: "'u \<Rightarrow> 'u"
  uc_drop_fragment :: "'u \<Rightarrow> 'u"
  uc_path :: "'u \<Rightarrow> string"
  uc_set_path :: "string \<Rightarrow> 'u \<Rightarrow> 'u"
  uc_to_string :: "'u \<Rightarrow> string"

text \<open>A crate that takes every text as an address of one host, with the text as its path.\<close>

definition sample_urls :: "string url_crate" where
  "sample_urls = \<lparr>uc_parse = Some, uc_scheme = (\<lambda>_. ''https''), uc_host_str = (\<lambda>_. Some ''host''),
     uc_drop_query = takeWhile (\<lambda>c. c \<noteq> CHR 0x3F), uc_drop_fragment = takeWhile (\<lambda>c. c \<noteq> CHR 0x23),
     uc_path = id, uc_set_path = (\<lambda>p _. p), uc_to_string = id\<rparr>"

end
