(* ===== verification/Notification_Channels.thy ===== *)
theory Notification_Channels
  imports Project_Store Url_Crate
begin

text \<open>
  The notifications capability (\<open>crates/notifications/src/interface.rs\<close>): the channels of an
  owner, their validation, the sealed secrets, and the delivery of an event to the channels that
  want it. The URL crate, the cipher, the JSON codec and the HTTP client are parameters; the
  state behind the client is the type variable \<open>'w\<close>, so that the posts made are visible as a
  sequence of calls. An update reads the stored row before it opens its unit of work, and the
  two halves are separate definitions, so that other requests can come between them.
\<close>

section \<open>Kinds\<close>

datatype notification_channel_kind = Webhook | Qqbot

datatype notification_event_kind =
    EvTurnCompleted
  | EvTurnFailed
  | EvAsyncTaskCompleted
  | EvTest

definition CONFIGURABLE :: "notification_event_kind list" where
  "CONFIGURABLE = [EvTurnCompleted, EvTurnFailed, EvAsyncTaskCompleted]"

fun event_kind_as_str :: "notification_event_kind \<Rightarrow> string" where
  "event_kind_as_str EvTurnCompleted = ''turn_completed''"
| "event_kind_as_str EvTurnFailed = ''turn_failed''"
| "event_kind_as_str EvAsyncTaskCompleted = ''async_task_completed''"
| "event_kind_as_str EvTest = ''test''"

definition event_kind_from_str :: "string \<Rightarrow> notification_event_kind option" where
  "event_kind_from_str s =
    (if s = ''turn_completed'' then Some EvTurnCompleted
     else if s = ''turn_failed'' then Some EvTurnFailed
     else if s = ''async_task_completed'' then Some EvAsyncTaskCompleted
     else if s = ''test'' then Some EvTest
     else None)"

fun kind_str :: "notification_channel_kind \<Rightarrow> string" where
  "kind_str Webhook = ''webhook''"
| "kind_str Qqbot = ''qqbot''"

interpretation event_kinds: enum_codec event_kind_as_str event_kind_from_str
proof unfold_locales
  show "event_kind_from_str (event_kind_as_str x) = Some x" for x
    by (cases x) (simp_all add: event_kind_from_str_def)
  show "event_kind_from_str s = Some x \<Longrightarrow> event_kind_as_str x = s" for s x
    by (simp add: event_kind_from_str_def split: if_splits)
qed

section \<open>Data\<close>

record notification_target =
  nt_user_id :: "string option"
  nt_group_id :: "string option"

record channel_input =
  ci_kind :: notification_channel_kind
  ci_display_name :: string
  ci_endpoint_url :: string
  ci_secret :: "string option"
  ci_target :: notification_target
  ci_events :: "notification_event_kind list"
  ci_enabled :: bool

record channel_view =
  hv_id :: string
  hv_kind :: notification_channel_kind
  hv_display_name :: string
  hv_endpoint_url :: string
  hv_secret_is_set :: bool
  hv_target :: notification_target
  hv_events :: "notification_event_kind list"
  hv_enabled :: bool
  hv_created_at :: int
  hv_updated_at :: int

record notification_event =
  nv_kind :: notification_event_kind
  nv_title :: string
  nv_message :: string
  nv_data :: json

datatype notifications_error =
    NtValidation string
  | NtChannelNotFound
  | NtStorage
  | NtData
  | NtInternal
  | NtValueAccess string
  | NtDelivery string

fun notifications_error_text :: "notifications_error \<Rightarrow> string" where
  "notifications_error_text (NtValidation s) = ''the notification configuration is invalid: '' @ s"
| "notifications_error_text NtChannelNotFound = ''the notification channel was not found''"
| "notifications_error_text NtStorage = ''notification storage failed''"
| "notifications_error_text NtData = ''notification data is invalid''"
| "notifications_error_text NtInternal = ''notification operation failed''"
| "notifications_error_text (NtValueAccess s) = ''document value access error: '' @ s"
| "notifications_error_text (NtDelivery s) = ''notification delivery failed: '' @ s"

record channel_row =
  ch_id :: string
  ch_owner_id :: string
  ch_kind :: string
  ch_display_name :: string
  ch_endpoint_url :: string
  ch_secret_ciphertext :: "string option"
  ch_target_json :: string
  ch_events_json :: string
  ch_enabled :: bool
  ch_created_at :: int
  ch_updated_at :: int

record notifications_db = projects_db +
  notification_channels :: "channel_row list"

text \<open>
  The HTTP client. A post takes the endpoint, the bearer token and the body; it fails with the text
  of the transport error or returns the status code, whose text the client gives.
\<close>

record http_request =
  rq_url :: string
  rq_bearer :: "string option"
  rq_body :: json

record 'w http_client =
  hc_post :: "http_request \<Rightarrow> 'w \<Rightarrow> (string + nat) \<times> 'w"
  hc_status_text :: "nat \<Rightarrow> string"

section \<open>Wire forms\<close>

text \<open>
  The derived serialisers. A target is written with both keys; when it is read back an absent or
  null key is \<open>None\<close>, unknown keys are ignored, a repeated key is an error and a sequence of two
  values is accepted in place of an object. An event kind is a string, or an object with the name as
  its only key and null as its value.
\<close>

definition target_to_json :: "notification_target \<Rightarrow> json" where
  "target_to_json t =
     JObj [(''user_id'', opt_json (nt_user_id t)), (''group_id'', opt_json (nt_group_id t))]"

fun opt_str_from_json :: "json \<Rightarrow> (string option) option" where
  "opt_str_from_json JNull = Some None"
| "opt_str_from_json (JStr s) = Some (Some s)"
| "opt_str_from_json _ = None"

definition target_of_fields :: "json \<Rightarrow> json \<Rightarrow> notification_target option" where
  "target_of_fields u g =
    (case (opt_str_from_json u, opt_str_from_json g) of
       (Some u', Some g') \<Rightarrow> Some \<lparr>nt_user_id = u', nt_group_id = g'\<rparr>
     | _ \<Rightarrow> None)"

definition obj_field :: "string \<Rightarrow> (string \<times> json) list \<Rightarrow> json" where
  "obj_field k kvs = (case map_of kvs k of None \<Rightarrow> JNull | Some v \<Rightarrow> v)"

fun target_from_json :: "json \<Rightarrow> notification_target option" where
  "target_from_json (JObj kvs) =
     (if distinct (filter (\<lambda>k. k = ''user_id'' \<or> k = ''group_id'') (map fst kvs))
      then target_of_fields (obj_field ''user_id'' kvs) (obj_field ''group_id'' kvs) else None)"
| "target_from_json (JArr [u, g]) = target_of_fields u g"
| "target_from_json _ = None"

definition events_to_json :: "notification_event_kind list \<Rightarrow> json" where
  "events_to_json evs = JArr (map (\<lambda>e. JStr (event_kind_as_str e)) evs)"

fun event_kind_from_json :: "json \<Rightarrow> notification_event_kind option" where
  "event_kind_from_json (JStr s) = event_kind_from_str s"
| "event_kind_from_json (JObj [(s, JNull)]) = event_kind_from_str s"
| "event_kind_from_json _ = None"

fun events_from_json :: "json \<Rightarrow> notification_event_kind list option" where
  "events_from_json (JArr []) = Some []"
| "events_from_json (JArr (v # vs)) =
     (case event_kind_from_json v of None \<Rightarrow> None
      | Some e \<Rightarrow> map_option ((#) e) (events_from_json (JArr vs)))"
| "events_from_json _ = None"

definition read_target :: "serde \<Rightarrow> channel_row \<Rightarrow> notifications_error + notification_target" where
  "read_target J row =
     ok_or NtData (Option.bind (json_from_str J (ch_target_json row)) target_from_json)"

definition read_events ::
  "serde \<Rightarrow> channel_row \<Rightarrow> notifications_error + notification_event_kind list" where
  "read_events J row =
     ok_or NtData (Option.bind (json_from_str J (ch_events_json row)) events_from_json)"

definition parse_kind :: "string \<Rightarrow> notifications_error + notification_channel_kind" where
  "parse_kind s =
    (if s = ''webhook'' then Inr Webhook
     else if s = ''qqbot'' then Inr Qqbot
     else Inl (NtValidation ''unknown notification channel kind''))"

section \<open>Validation\<close>

definition normalize_url :: "'u url_crate \<Rightarrow> string \<Rightarrow> notifications_error + string" where
  "normalize_url L s =
    (case uc_parse L (str_trim s) of
       None \<Rightarrow> Inl (NtValidation ''endpoint_url must be an absolute URL'')
     | Some url \<Rightarrow>
         if uc_scheme L url \<notin> {''http'', ''https''} \<or> uc_host_str L url = None
         then Inl (NtValidation ''endpoint_url must use http or https'')
         else Inr (uc_to_string L (uc_drop_fragment L url)))"

definition is_blank :: "string option \<Rightarrow> bool" where
  "is_blank s \<longleftrightarrow> (case s of None \<Rightarrow> True | Some v \<Rightarrow> str_trim v = [])"

definition validate_target :: "channel_input \<Rightarrow> bool \<Rightarrow> notifications_error + unit" where
  "validate_target input creating =
    (case ci_kind input of
       Webhook \<Rightarrow> Inr ()
     | Qqbot \<Rightarrow>
         let has_user = (\<not> is_blank (nt_user_id (ci_target input)));
             has_group = (\<not> is_blank (nt_group_id (ci_target input)))
         in if has_user = has_group
            then Inl (NtValidation ''qqbot target must contain exactly one user_id or group_id'')
            else if creating \<and> is_blank (ci_secret input)
            then Inl (NtValidation ''qqbot secret is required'')
            else Inr ())"

definition validate_input ::
  "'u url_crate \<Rightarrow> channel_input \<Rightarrow> bool \<Rightarrow> notifications_error + unit" where
  "validate_input L input creating =
    (if str_trim (ci_display_name input) = [] then Inl (NtValidation ''display_name is required'')
     else and_then (normalize_url L (ci_endpoint_url input)) (\<lambda>_.
       if ci_events input = [] \<or> EvTest \<in> set (ci_events input)
       then Inl (NtValidation ''events must contain at least one configurable event'')
       else if \<not> set (ci_events input) \<subseteq> set CONFIGURABLE
       then Inl (NtValidation ''unknown notification event'')
       else and_then (validate_target input creating) (\<lambda>_.
         if ci_secret input \<noteq> None \<and> is_blank (ci_secret input)
         then Inl (NtValidation ''secret cannot be empty'')
         else Inr ())))"

section \<open>Secrets and views\<close>

definition secret_aad :: "string \<Rightarrow> string \<Rightarrow> string" where
  "secret_aad owner i = ''v1/'' @ owner @ ''/notification_channels/'' @ i @ ''/secret''"

definition encrypt_secret ::
  "secret_cipher \<Rightarrow> string \<Rightarrow> string \<Rightarrow> string option \<Rightarrow> notifications_error + string option" where
  "encrypt_secret K owner i v =
    (case v of
       None \<Rightarrow> Inr None
     | Some s \<Rightarrow>
         if str_trim s = [] then Inr None
         else case sc_encrypt K (str_trim s) (secret_aad owner i) of
             Inl _ \<Rightarrow> Inl NtInternal | Inr c \<Rightarrow> Inr (Some c))"

definition channel_view_of :: "serde \<Rightarrow> channel_row \<Rightarrow> notifications_error + channel_view" where
  "channel_view_of J row =
    and_then (parse_kind (ch_kind row)) (\<lambda>kind.
    and_then (read_target J row) (\<lambda>target.
    and_then (read_events J row) (\<lambda>evs.
      Inr \<lparr>hv_id = ch_id row, hv_kind = kind, hv_display_name = ch_display_name row,
           hv_endpoint_url = ch_endpoint_url row,
           hv_secret_is_set = (ch_secret_ciphertext row \<noteq> None), hv_target = target,
           hv_events = evs, hv_enabled = ch_enabled row, hv_created_at = ch_created_at row,
           hv_updated_at = ch_updated_at row\<rparr>)))"

definition channel_row_of ::
  "string \<Rightarrow> string \<Rightarrow> 'x notifications_db_scheme \<Rightarrow> notifications_error + channel_row" where
  "channel_row_of owner i db =
     ok_or NtChannelNotFound
       (find_one (\<lambda>r. ch_id r = i \<and> ch_owner_id r = owner) (notification_channels db))"

definition channel ::
  "serde \<Rightarrow> string \<Rightarrow> string \<Rightarrow> 'x notifications_db_scheme \<Rightarrow> notifications_error + channel_view" where
  "channel J owner i db = and_then (channel_row_of owner i db) (channel_view_of J)"

definition channels ::
  "serde \<Rightarrow> string \<Rightarrow> 'x notifications_db_scheme \<Rightarrow> notifications_error + channel_view list" where
  "channels J owner db =
     try_map (channel_view_of J)
       (sort_key (\<lambda>r. (ch_display_name r, ch_id r))
         (filter (\<lambda>r. ch_owner_id r = owner) (notification_channels db)))"

definition append_channel_changed ::
  "serde \<Rightarrow> string \<times> int \<Rightarrow> string \<Rightarrow> string \<Rightarrow> string \<Rightarrow> string \<Rightarrow> 'x notifications_db_scheme \<Rightarrow>
    notifications_error + (unit \<times> 'x notifications_db_scheme)" where
  "append_channel_changed J ev owner i operation correlation_id db =
    (case append_in_tx J (fst ev) (snd ev)
       \<lparr>ne_type = NotificationChannelChanged, ne_actor = resource_json ''owner'' owner,
        ne_resource = Some (resource_json ''notification_channel'' i),
        ne_correlation_id = correlation_id, ne_causation_id = None,
        ne_payload = JObj [(''operation'', JStr operation)]\<rparr> db of
       Inl _ \<Rightarrow> Inl NtInternal | Inr (_, db') \<Rightarrow> Inr ((), db'))"

section \<open>Changing channels\<close>

record channel_gen =
  hg_id :: string
  hg_now :: int
  hg_event :: "string \<times> int"

definition create_channel_tx ::
  "serde \<Rightarrow> channel_gen \<Rightarrow> string \<Rightarrow> channel_input \<Rightarrow> string option \<Rightarrow> string \<Rightarrow> string \<Rightarrow>
    'x notifications_db_scheme \<Rightarrow> notifications_error + (unit \<times> 'x notifications_db_scheme)" where
  "create_channel_tx J g owner input secret endpoint_url correlation_id db =
    (case insert_one ch_id
         \<lparr>ch_id = hg_id g, ch_owner_id = owner, ch_kind = kind_str (ci_kind input),
          ch_display_name = str_trim (ci_display_name input), ch_endpoint_url = endpoint_url,
          ch_secret_ciphertext = secret,
          ch_target_json = json_to_string J (target_to_json (ci_target input)),
          ch_events_json = json_to_string J (events_to_json (ci_events input)),
          ch_enabled = ci_enabled input, ch_created_at = hg_now g, ch_updated_at = hg_now g\<rparr>
         (notification_channels db) of
       None \<Rightarrow> Inl NtStorage
     | Some rows \<Rightarrow> append_channel_changed J (hg_event g) owner (hg_id g) ''created'' correlation_id
         (db\<lparr>notification_channels := rows\<rparr>))"

definition create_channel ::
  "serde \<Rightarrow> secret_cipher \<Rightarrow> 'u url_crate \<Rightarrow> channel_gen \<Rightarrow> string \<Rightarrow> channel_input \<Rightarrow> string \<Rightarrow>
    'x notifications_db_scheme \<Rightarrow> (notifications_error + channel_view) \<times> 'x notifications_db_scheme" where
  "create_channel J K L g owner input correlation_id db =
    and_run (validate_input L input True, db) (\<lambda>_ db.
    and_run (encrypt_secret K owner (hg_id g) (ci_secret input), db) (\<lambda>secret db.
    and_run (normalize_url L (ci_endpoint_url input), db) (\<lambda>endpoint_url db.
    and_run (run_tx (create_channel_tx J g owner input secret endpoint_url correlation_id) db) (\<lambda>_ db.
      (channel J owner (hg_id g) db, db)))))"

text \<open>The read half of an update: the secret the write half will store.\<close>

definition update_secret ::
  "secret_cipher \<Rightarrow> 'u url_crate \<Rightarrow> string \<Rightarrow> string \<Rightarrow> channel_input \<Rightarrow> 'x notifications_db_scheme \<Rightarrow>
    notifications_error + string option" where
  "update_secret K L owner i input db =
    and_then (validate_input L input False) (\<lambda>_.
    and_then (channel_row_of owner i db) (\<lambda>existing.
      case ci_secret input of
        Some s \<Rightarrow> encrypt_secret K owner i (Some s)
      | None \<Rightarrow> Inr (ch_secret_ciphertext existing)))"

definition update_channel_tx ::
  "serde \<Rightarrow> channel_gen \<Rightarrow> string \<Rightarrow> string \<Rightarrow> channel_input \<Rightarrow> string option \<Rightarrow> string \<Rightarrow> string \<Rightarrow>
    'x notifications_db_scheme \<Rightarrow> notifications_error + (unit \<times> 'x notifications_db_scheme)" where
  "update_channel_tx J g owner i input secret endpoint_url correlation_id db =
    (let (rows, matched) =
       update_one (\<lambda>r. ch_id r = i \<and> ch_owner_id r = owner)
         (\<lambda>r. r\<lparr>ch_kind := kind_str (ci_kind input),
                ch_display_name := str_trim (ci_display_name input),
                ch_endpoint_url := endpoint_url,
                ch_target_json := json_to_string J (target_to_json (ci_target input)),
                ch_events_json := json_to_string J (events_to_json (ci_events input)),
                ch_enabled := ci_enabled input, ch_updated_at := hg_now g,
                ch_secret_ciphertext := secret\<rparr>) (notification_channels db)
     in if matched = 0 then Inl NtChannelNotFound
        else append_channel_changed J (hg_event g) owner i ''updated'' correlation_id
               (db\<lparr>notification_channels := rows\<rparr>))"

definition update_write ::
  "serde \<Rightarrow> 'u url_crate \<Rightarrow> channel_gen \<Rightarrow> string \<Rightarrow> string \<Rightarrow> channel_input \<Rightarrow> string option \<Rightarrow> string \<Rightarrow>
    'x notifications_db_scheme \<Rightarrow> (notifications_error + channel_view) \<times> 'x notifications_db_scheme" where
  "update_write J L g owner i input secret correlation_id db =
    and_run (normalize_url L (ci_endpoint_url input), db) (\<lambda>endpoint_url db.
    and_run (run_tx (update_channel_tx J g owner i input secret endpoint_url correlation_id) db) (\<lambda>_ db.
      (channel J owner i db, db)))"

definition update_channel ::
  "serde \<Rightarrow> secret_cipher \<Rightarrow> 'u url_crate \<Rightarrow> channel_gen \<Rightarrow> string \<Rightarrow> string \<Rightarrow> channel_input \<Rightarrow> string \<Rightarrow>
    'x notifications_db_scheme \<Rightarrow> (notifications_error + channel_view) \<times> 'x notifications_db_scheme" where
  "update_channel J K L g owner i input correlation_id db =
    and_run (update_secret K L owner i input db, db) (\<lambda>secret db.
      update_write J L g owner i input secret correlation_id db)"

definition delete_channel_tx ::
  "serde \<Rightarrow> string \<times> int \<Rightarrow> string \<Rightarrow> string \<Rightarrow> string \<Rightarrow> 'x notifications_db_scheme \<Rightarrow>
    notifications_error + (unit \<times> 'x notifications_db_scheme)" where
  "delete_channel_tx J ev owner i correlation_id db =
    (let (rows, deleted) =
       delete_one (\<lambda>r. ch_id r = i \<and> ch_owner_id r = owner) (notification_channels db)
     in if deleted = 0 then Inl NtChannelNotFound
        else append_channel_changed J ev owner i ''deleted'' correlation_id
               (db\<lparr>notification_channels := rows\<rparr>))"

definition delete_channel ::
  "serde \<Rightarrow> string \<times> int \<Rightarrow> string \<Rightarrow> string \<Rightarrow> string \<Rightarrow> 'x notifications_db_scheme \<Rightarrow>
    (notifications_error + unit) \<times> 'x notifications_db_scheme" where
  "delete_channel J ev owner i correlation_id = run_tx (delete_channel_tx J ev owner i correlation_id)"

section \<open>Delivery\<close>

definition open_secret :: "secret_cipher \<Rightarrow> channel_row \<Rightarrow> notifications_error + string option" where
  "open_secret K row =
    (case ch_secret_ciphertext row of
       None \<Rightarrow> Inr None
     | Some stored \<Rightarrow>
         (case sc_decrypt K stored (secret_aad (ch_owner_id row) (ch_id row)) of
            Inl _ \<Rightarrow> Inl NtInternal | Inr s \<Rightarrow> Inr (Some s)))"

definition webhook_body :: "notification_event \<Rightarrow> json" where
  "webhook_body ev =
     JObj [(''event'', JStr (event_kind_as_str (nv_kind ev))), (''title'', JStr (nv_title ev)),
           (''message'', JStr (nv_message ev)), (''data'', nv_data ev)]"

definition qqbot_body :: "notification_target \<Rightarrow> notification_event \<Rightarrow> notifications_error + json" where
  "qqbot_body target ev =
    (let text = (''message'', JStr (nv_title ev @ [CHR 0x0A, CHR 0x0A] @ nv_message ev))
     in case nt_group_id target of
          Some g \<Rightarrow> Inr (JObj [(''message_type'', JStr ''group''), (''group_id'', JStr g), text])
        | None \<Rightarrow>
            (case nt_user_id target of
               Some u \<Rightarrow> Inr (JObj [(''message_type'', JStr ''private''), (''user_id'', JStr u), text])
             | None \<Rightarrow> Inl (NtValidation ''qqbot channel target is missing'')))"

text \<open>Everything \<open>send_row\<close> does before it posts: the request, or the error that prevents it.\<close>

definition channel_request ::
  "serde \<Rightarrow> secret_cipher \<Rightarrow> channel_row \<Rightarrow> notification_event \<Rightarrow> notifications_error + http_request" where
  "channel_request J K row ev =
    and_then (read_target J row) (\<lambda>target.
    and_then (open_secret K row) (\<lambda>secret.
    and_then (parse_kind (ch_kind row)) (\<lambda>kind.
    and_then (case kind of Webhook \<Rightarrow> Inr (webhook_body ev) | Qqbot \<Rightarrow> qqbot_body target ev) (\<lambda>body.
      Inr \<lparr>rq_url = ch_endpoint_url row, rq_bearer = secret, rq_body = body\<rparr>))))"

definition is_success :: "nat \<Rightarrow> bool" where "is_success status \<longleftrightarrow> 200 \<le> status \<and> status < 300"

definition post_request ::
  "'w http_client \<Rightarrow> http_request \<Rightarrow> 'w \<Rightarrow> (notifications_error + unit) \<times> 'w" where
  "post_request H rq w =
    (case hc_post H rq w of
       (Inl error, w') \<Rightarrow> (Inl (NtDelivery error), w')
     | (Inr status, w') \<Rightarrow>
         (if is_success status then Inr ()
          else Inl (NtDelivery (''endpoint returned HTTP '' @ hc_status_text H status)), w'))"

definition send_row ::
  "serde \<Rightarrow> secret_cipher \<Rightarrow> 'w http_client \<Rightarrow> channel_row \<Rightarrow> notification_event \<Rightarrow> 'w \<Rightarrow>
    (notifications_error + unit) \<times> 'w" where
  "send_row J K H row ev w = and_run (channel_request J K row ev, w) (post_request H)"

definition test_channel ::
  "serde \<Rightarrow> secret_cipher \<Rightarrow> 'w http_client \<Rightarrow> string \<Rightarrow> string \<Rightarrow> 'x notifications_db_scheme \<Rightarrow> 'w \<Rightarrow>
    (notifications_error + unit) \<times> 'w" where
  "test_channel J K H owner i db w =
    and_run (channel_row_of owner i db, w) (\<lambda>row.
      send_row J K H row
        \<lparr>nv_kind = EvTest, nv_title = ''Janus notification test'',
         nv_message = ''The configured notification channel is reachable.'',
         nv_data = JObj [(''channel_id'', JStr i)]\<rparr>)"

text \<open>The loop of \<open>dispatch\<close>, with the errors it collects.\<close>

definition unreadable_filter :: "channel_row \<Rightarrow> string" where
  "unreadable_filter row = ch_display_name row @ '': event filter unreadable''"

definition failed_send :: "channel_row \<Rightarrow> notifications_error \<Rightarrow> string" where
  "failed_send row e = ch_display_name row @ '': '' @ notifications_error_text e"

primrec dispatch_rows ::
  "serde \<Rightarrow> secret_cipher \<Rightarrow> 'w http_client \<Rightarrow> notification_event \<Rightarrow> channel_row list \<Rightarrow> string list \<Rightarrow>
    'w \<Rightarrow> string list \<times> 'w" where
  "dispatch_rows J K H ev [] errors w = (errors, w)"
| "dispatch_rows J K H ev (row # rows) errors w =
    (case read_events J row of
       Inl _ \<Rightarrow> dispatch_rows J K H ev rows (errors @ [unreadable_filter row]) w
     | Inr evs \<Rightarrow>
         if nv_kind ev \<noteq> EvTest \<and> nv_kind ev \<notin> set evs then dispatch_rows J K H ev rows errors w
         else case send_row J K H row ev w of
             (Inl e, w') \<Rightarrow> dispatch_rows J K H ev rows (errors @ [failed_send row e]) w'
           | (Inr _, w') \<Rightarrow> dispatch_rows J K H ev rows errors w')"

primrec join_errors :: "string list \<Rightarrow> string" where
  "join_errors [] = []"
| "join_errors (x # xs) = (if xs = [] then x else x @ ''; '' @ join_errors xs)"

definition enabled_channels :: "string \<Rightarrow> 'x notifications_db_scheme \<Rightarrow> channel_row list" where
  "enabled_channels owner db =
     sort_key ch_id (filter (\<lambda>r. ch_owner_id r = owner \<and> ch_enabled r) (notification_channels db))"

definition dispatch_notification ::
  "serde \<Rightarrow> secret_cipher \<Rightarrow> 'w http_client \<Rightarrow> string \<Rightarrow> notification_event \<Rightarrow>
    'x notifications_db_scheme \<Rightarrow> 'w \<Rightarrow> (notifications_error + unit) \<times> 'w" where
  "dispatch_notification J K H owner ev db w =
    (let (errors, w') = dispatch_rows J K H ev (enabled_channels owner db) [] w
     in (if errors = [] then Inr () else Inl (NtDelivery (join_errors errors)), w'))"

end
