(* ===== verification/Notification_Worker.thy ===== *)
theory Notification_Worker
  imports Notification_Channels Projection_Engine
begin

text \<open>
  The notification worker (\<open>apps/server/src/application/notification_worker.rs\<close>): it follows the
  public event log with a cursor of its own, kept in memory only, translates the events of
  notification policy and hands them to the notifications capability. A drain reads the store it
  was woken on; the worker itself writes nothing to it. The endless outer loop, woken by the
  broadcast channel or every two seconds, is a sequence of drains.
\<close>

section \<open>Translation\<close>

text \<open>What is announced, before the owner is known.\<close>

definition announcement :: "event_envelope \<Rightarrow> (notification_event_kind \<times> string \<times> string) option" where
  "announcement ev =
    (if env_event_type ev = ''turn.status_changed'' then
       (let to = Option.bind (json_get ''to'' (env_payload ev)) json_as_str
        in if to = Some ''completed''
           then Some (EvTurnCompleted, ''Turn completed'', ''The model turn completed.'')
           else if to = Some ''failed'' \<or> to = Some ''interrupted''
           then Some (EvTurnFailed, ''Turn failed'', ''The model turn needs attention.'')
           else None)
     else if env_event_type ev = ''async_task.changed'' then
       (let status = Option.bind (json_get ''status'' (env_payload ev)) json_as_str
        in if status = Some ''succeeded''
           then Some (EvAsyncTaskCompleted, ''Async task completed'',
                  ''A background Bash task completed successfully.'')
           else if status = Some ''failed'' \<or> status = Some ''canceled'' \<or> status = Some ''lost''
           then Some (EvAsyncTaskCompleted, ''Async task finished'',
                  ''A background Bash task finished without success.'')
           else None)
     else None)"

definition payload_str :: "string \<Rightarrow> event_envelope \<Rightarrow> string option" where
  "payload_str k ev = Option.bind (json_get k (env_payload ev)) json_as_str"

definition or_else :: "'a option \<Rightarrow> 'a option \<Rightarrow> 'a option" where
  "or_else x y = (case x of None \<Rightarrow> y | Some v \<Rightarrow> Some v)"

definition turn_of_event :: "(string \<Rightarrow> string option) \<Rightarrow> event_envelope \<Rightarrow> string option" where
  "turn_of_event U ev =
     Option.bind
       (or_else (payload_str ''turn_id'' ev)
         (Option.bind (Option.bind (env_resource ev) (json_get ''id'')) json_as_str)) U"

definition ok_of :: "'e + 'a \<Rightarrow> 'a option" where
  "ok_of r = (case r of Inl _ \<Rightarrow> None | Inr v \<Rightarrow> Some v)"

definition event_session_id ::
  "(string \<Rightarrow> string option) \<Rightarrow> event_envelope \<Rightarrow> 'x notifications_db_scheme \<Rightarrow> string option" where
  "event_session_id U ev db =
    or_else (Option.bind (or_else (payload_str ''session_id'' ev) (payload_str ''sessionId'' ev)) U)
      (Option.bind (turn_of_event U ev) (\<lambda>turn_id. ok_of (session_id_for_turn U turn_id db)))"

definition session_owner ::
  "serde \<Rightarrow> (string \<Rightarrow> string option) \<Rightarrow> string \<Rightarrow> 'x notifications_db_scheme \<Rightarrow> string option" where
  "session_owner J U session_id db =
    Option.bind (ok_of (get_session J session_id db)) (\<lambda>session.
    Option.bind (U (ss_project_id session)) (\<lambda>project_id. ok_of (owner_id project_id db)))"

definition translate ::
  "serde \<Rightarrow> (string \<Rightarrow> string option) \<Rightarrow> event_envelope \<Rightarrow> 'x notifications_db_scheme \<Rightarrow>
    (string \<times> notification_event) option" where
  "translate J U ev db =
    Option.bind (announcement ev) (\<lambda>(kind, title, message).
    Option.bind (event_session_id U ev db) (\<lambda>session_id.
    Option.bind (session_owner J U session_id db) (\<lambda>owner.
      Some (owner,
        \<lparr>nv_kind = kind, nv_title = title, nv_message = message,
         nv_data = JObj
           [(''event_type'', JStr (env_event_type ev)), (''event_id'', JStr (env_event_id ev)),
            (''cursor'', JStr (env_cursor ev)), (''session_id'', JStr session_id),
            (''payload'', env_payload ev)]\<rparr>))))"

section \<open>The loop\<close>

definition worker_start :: "'x event_db_scheme \<Rightarrow> nat" where
  "worker_start db = (case event_bounds db of Inr (mn, mx) \<Rightarrow> mx | Inl _ \<Rightarrow> 0)"

text \<open>One event: a delivery error is only logged.\<close>

definition deliver_event ::
  "serde \<Rightarrow> (string \<Rightarrow> string option) \<Rightarrow> secret_cipher \<Rightarrow> 'w http_client \<Rightarrow> 'x notifications_db_scheme \<Rightarrow>
    event_envelope \<Rightarrow> 'w \<Rightarrow> 'w" where
  "deliver_event J U K H db ev w =
    (case translate J U ev db of
       None \<Rightarrow> w
     | Some (owner, notification) \<Rightarrow> snd (dispatch_notification J K H owner notification db w))"

primrec deliver_batch ::
  "serde \<Rightarrow> (string \<Rightarrow> string option) \<Rightarrow> secret_cipher \<Rightarrow> 'w http_client \<Rightarrow> 'x notifications_db_scheme \<Rightarrow>
    event_envelope list \<Rightarrow> nat \<Rightarrow> 'w \<Rightarrow> nat \<times> 'w" where
  "deliver_batch J U K H db [] cursor w = (cursor, w)"
| "deliver_batch J U K H db (ev # evs) cursor w =
     deliver_batch J U K H db evs
       (case parse_u64 (env_cursor ev) of Some c \<Rightarrow> c | None \<Rightarrow> cursor)
       (deliver_event J U K H db ev w)"

text \<open>The inner loop, with a bound on the number of batches.\<close>

fun worker_drain ::
  "serde \<Rightarrow> (string \<Rightarrow> string option) \<Rightarrow> secret_cipher \<Rightarrow> 'w http_client \<Rightarrow> nat \<Rightarrow>
    'x notifications_db_scheme \<Rightarrow> nat \<Rightarrow> 'w \<Rightarrow> (nat \<times> 'w) option" where
  "worker_drain J U K H 0 db cursor w = None"
| "worker_drain J U K H (Suc fuel) db cursor w =
     (case events_after J db cursor 100 of
        Inl _ \<Rightarrow> Some (cursor, w)
      | Inr evs \<Rightarrow>
          if evs = [] then Some (cursor, w)
          else case deliver_batch J U K H db evs cursor w of
              (cursor', w') \<Rightarrow> worker_drain J U K H fuel db cursor' w')"

end
