(* ===== verification/Notification_Properties.thy ===== *)
theory Notification_Properties
  imports Notification_Worker Project_Properties
begin

text \<open>
  Properties of the notifications capability and its worker: which requests a dispatch posts, that
  every committed event is announced once, that a new channel delivers what was entered, and two
  behaviours the code does not intend: an update can bring back a secret that was just replaced, and
  a blank group hides the user a message is meant for.
\<close>

section \<open>Which requests a dispatch posts\<close>

text \<open>
  The specification, over the stored rows and the client alone: the channels of an owner in the order of
  their ids, the event kinds a stored filter lists, the request a channel stands for, and the answers to
  requests posted one after another.
\<close>

definition owner_channels :: "string \<Rightarrow> channel_row list \<Rightarrow> channel_row list" where
  "owner_channels owner rows = sort_key ch_id [row \<leftarrow> rows. ch_owner_id row = owner \<and> ch_enabled row]"

definition names_kind :: "json \<Rightarrow> notification_event_kind \<Rightarrow> bool" where
  "names_kind v k \<longleftrightarrow> v = JStr (event_kind_as_str k) \<or> v = JObj [(event_kind_as_str k, JNull)]"

definition listed_kinds :: "serde \<Rightarrow> channel_row \<Rightarrow> notification_event_kind set option" where
  "listed_kinds J row =
    (case json_from_str J (ch_events_json row) of
       Some (JArr vs) \<Rightarrow>
         if \<forall>v \<in> set vs. \<exists>k. names_kind v k then Some {k. \<exists>v \<in> set vs. names_kind v k} else None
     | _ \<Rightarrow> None)"

definition wants_event :: "serde \<Rightarrow> notification_event \<Rightarrow> channel_row \<Rightarrow> bool" where
  "wants_event J ev row \<longleftrightarrow>
    (\<exists>kinds. listed_kinds J row = Some kinds \<and> (nv_kind ev = EvTest \<or> nv_kind ev \<in> kinds))"

definition token_of :: "secret_cipher \<Rightarrow> channel_row \<Rightarrow> string option option" where
  "token_of K row =
    (case ch_secret_ciphertext row of
       None \<Rightarrow> Some None
     | Some ct \<Rightarrow>
         (case sc_decrypt K ct (''v1/'' @ ch_owner_id row @ ''/notification_channels/'' @ ch_id row @ ''/secret'') of
            Inl _ \<Rightarrow> None | Inr token \<Rightarrow> Some (Some token)))"

definition body_for :: "notification_event \<Rightarrow> string \<Rightarrow> notification_target \<Rightarrow> json option" where
  "body_for ev kind target =
    (if kind = ''webhook'' then
       Some (JObj [(''event'', JStr (event_kind_as_str (nv_kind ev))), (''title'', JStr (nv_title ev)),
         (''message'', JStr (nv_message ev)), (''data'', nv_data ev)])
     else if kind = ''qqbot'' then
       (case (nt_group_id target, nt_user_id target) of
          (Some g, _) \<Rightarrow> Some (JObj [(''message_type'', JStr ''group''), (''group_id'', JStr g),
            (''message'', JStr (nv_title ev @ [CHR 0x0A, CHR 0x0A] @ nv_message ev))])
        | (None, Some u) \<Rightarrow> Some (JObj [(''message_type'', JStr ''private''), (''user_id'', JStr u),
            (''message'', JStr (nv_title ev @ [CHR 0x0A, CHR 0x0A] @ nv_message ev))])
        | (None, None) \<Rightarrow> None)
     else None)"

definition request_for ::
  "serde \<Rightarrow> secret_cipher \<Rightarrow> notification_event \<Rightarrow> channel_row \<Rightarrow> http_request option" where
  "request_for J K ev row =
    (case (Option.bind (json_from_str J (ch_target_json row)) target_from_json, token_of K row) of
       (Some target, Some token) \<Rightarrow>
         map_option (\<lambda>body. \<lparr>rq_url = ch_endpoint_url row, rq_bearer = token, rq_body = body\<rparr>)
           (body_for ev (ch_kind row) target)
     | _ \<Rightarrow> None)"

definition due_requests ::
  "serde \<Rightarrow> secret_cipher \<Rightarrow> notification_event \<Rightarrow> channel_row list \<Rightarrow> http_request list" where
  "due_requests J K ev rows = List.map_filter (request_for J K ev) (filter (wants_event J ev) rows)"

primrec answers_to :: "'w http_client \<Rightarrow> http_request list \<Rightarrow> 'w \<Rightarrow> (string + nat) list \<times> 'w" where
  "answers_to H [] w = ([], w)"
| "answers_to H (rq # rqs) w =
     (let (r, w1) = hc_post H rq w; (rs, w2) = answers_to H rqs w1 in (r # rs, w2))"

definition answered_ok :: "string + nat \<Rightarrow> bool" where
  "answered_ok r \<longleftrightarrow> (\<exists>status. r = Inr status \<and> 200 \<le> status \<and> status \<le> 299)"

text \<open>A channel whose stored data lets an event through: its filter can be read and, when the channel
  wants the event, its request can be built.\<close>

definition channel_sound :: "serde \<Rightarrow> secret_cipher \<Rightarrow> notification_event \<Rightarrow> channel_row \<Rightarrow> bool" where
  "channel_sound J K ev row \<longleftrightarrow>
    listed_kinds J row \<noteq> None \<and> (wants_event J ev row \<longrightarrow> request_for J K ev row \<noteq> None)"

text \<open>The code's steps meet the specification.\<close>

lemma kind_from_json: "event_kind_from_json v = Some k \<longleftrightarrow> names_kind v k"
  by (cases v rule: event_kind_from_json.cases) (auto simp: names_kind_def event_kinds.from_str_Some_iff)

lemma events_listed:
  "case events_from_json (JArr vs) of
     None \<Rightarrow> \<not> (\<forall>v \<in> set vs. \<exists>k. names_kind v k)
   | Some evs \<Rightarrow> (\<forall>v \<in> set vs. \<exists>k. names_kind v k) \<and> set evs = {k. \<exists>v \<in> set vs. names_kind v k}"
proof (induction vs)
  case (Cons v vs)
  show ?case
  proof (cases "event_kind_from_json v")
    case None
    then show ?thesis using kind_from_json [of v] by simp
  next
    case (Some k)
    then have "names_kind v k' \<longleftrightarrow> k' = k" for k' using kind_from_json [of v k'] by auto
    with Some Cons.IH show ?thesis by (cases "events_from_json (JArr vs)") auto
  qed
qed simp

lemma read_events_listed:
  "listed_kinds J row = (case read_events J row of Inl _ \<Rightarrow> None | Inr evs \<Rightarrow> Some (set evs))"
proof (cases "json_from_str J (ch_events_json row)")
  case (Some v)
  show ?thesis
  proof (cases v)
    case (JArr vs)
    with Some events_listed [of vs] show ?thesis
      by (cases "events_from_json (JArr vs)") (auto simp: listed_kinds_def read_events_def ok_or_def)
  qed (simp_all add: Some listed_kinds_def read_events_def ok_or_def)
qed (simp add: listed_kinds_def read_events_def ok_or_def)

lemma qqbot_body_for:
  "body_for ev ''qqbot'' target = (case qqbot_body target ev of Inl _ \<Rightarrow> None | Inr b \<Rightarrow> Some b)"
  by (auto simp: body_for_def qqbot_body_def Let_def split: option.split)

lemma webhook_body_for: "body_for ev ''webhook'' target = Some (webhook_body ev)"
  by (simp add: body_for_def webhook_body_def)

lemma other_body_for: "kind \<noteq> ''webhook'' \<Longrightarrow> kind \<noteq> ''qqbot'' \<Longrightarrow> body_for ev kind target = None"
  by (simp add: body_for_def)

lemma channel_request_for:
  "request_for J K ev row = (case channel_request J K row ev of Inl _ \<Rightarrow> None | Inr rq \<Rightarrow> Some rq)"
proof (cases "Option.bind (json_from_str J (ch_target_json row)) target_from_json")
  case None
  then show ?thesis by (simp add: request_for_def channel_request_def read_target_def ok_or_def)
next
  case (Some target)
  then have target: "read_target J row = Inr target" by (simp add: read_target_def ok_or_def)
  show ?thesis
  proof (cases "open_secret K row")
    case (Inl e)
    then have "token_of K row = None"
      by (auto simp: token_of_def open_secret_def secret_aad_def split: option.splits sum.splits)
    with Some target Inl show ?thesis by (simp add: request_for_def channel_request_def)
  next
    case (Inr token)
    then have token: "token_of K row = Some token"
      by (auto simp: token_of_def open_secret_def secret_aad_def split: option.splits sum.splits)
    consider "ch_kind row = ''webhook''" | "ch_kind row = ''qqbot''" | "ch_kind row \<noteq> ''webhook''" "ch_kind row \<noteq> ''qqbot''"
      by blast
    then show ?thesis
    proof cases
      case 1
      with Some target Inr token show ?thesis
        by (simp add: request_for_def channel_request_def parse_kind_def webhook_body_for)
    next
      case 2
      with Some target Inr token show ?thesis
        by (simp add: request_for_def channel_request_def parse_kind_def qqbot_body_for split: sum.split)
    next
      case 3
      with Some target Inr token show ?thesis
        by (simp add: request_for_def channel_request_def parse_kind_def other_body_for)
    qed
  qed
qed

lemma post_request_answer:
  "snd (post_request H rq w) = snd (hc_post H rq w)"
  "fst (post_request H rq w) = Inr () \<longleftrightarrow> answered_ok (fst (hc_post H rq w))"
  by (auto simp: post_request_def answered_ok_def is_success_def split: prod.splits sum.splits)

lemma due_requests_simps [simp]:
  "due_requests J K ev [] = []"
  "due_requests J K ev (row # rows) =
    (if wants_event J ev row then case request_for J K ev row of None \<Rightarrow> due_requests J K ev rows
       | Some rq \<Rightarrow> rq # due_requests J K ev rows else due_requests J K ev rows)"
  by (simp_all add: due_requests_def map_filter_simps split: option.split)

text \<open>One channel of the loop: what is posted for it, and whether it leaves an error.\<close>

lemma dispatch_rows_step:
  obtains (skip) "\<not> wants_event J ev row" "dispatch_rows J K H ev (row # rows) errors w =
      dispatch_rows J K H ev rows (if listed_kinds J row = None then errors @ [unreadable_filter row] else errors) w"
  | (unsent) e where "wants_event J ev row" "listed_kinds J row \<noteq> None" "request_for J K ev row = None"
      "dispatch_rows J K H ev (row # rows) errors w = dispatch_rows J K H ev rows (errors @ [e]) w"
  | (posted) e rq where "wants_event J ev row" "listed_kinds J row \<noteq> None" "request_for J K ev row = Some rq"
      "dispatch_rows J K H ev (row # rows) errors w = dispatch_rows J K H ev rows
        (if answered_ok (fst (hc_post H rq w)) then errors else errors @ [e]) (snd (hc_post H rq w))"
proof (cases "read_events J row")
  case (Inl e)
  then show ?thesis using skip by (simp add: wants_event_def read_events_listed)
next
  case (Inr evs)
  then have listed: "listed_kinds J row \<noteq> None" by (simp add: read_events_listed)
  show ?thesis
  proof (cases "nv_kind ev \<noteq> EvTest \<and> nv_kind ev \<notin> set evs")
    case True
    with Inr listed show ?thesis using skip by (simp add: wants_event_def read_events_listed)
  next
    case False
    with Inr have wants: "wants_event J ev row" by (auto simp: wants_event_def read_events_listed)
    show ?thesis
    proof (cases "channel_request J K row ev")
      case (Inl e)
      then have "request_for J K ev row = None" by (simp add: channel_request_for)
      moreover have "dispatch_rows J K H ev (row # rows) errors w =
          dispatch_rows J K H ev rows (errors @ [failed_send row e]) w"
        using \<open>read_events J row = Inr evs\<close> False Inl by (auto simp: send_row_def and_run_def)
      ultimately show ?thesis using unsent wants listed by blast
    next
      case (Inr rq)
      then have "request_for J K ev row = Some rq" by (simp add: channel_request_for)
      obtain r w1 where r: "post_request H rq w = (r, w1)" by (rule prod.exhaust)
      have w1: "snd (hc_post H rq w) = w1" using post_request_answer(1) [of H rq w] r by simp
      have ok: "answered_ok (fst (hc_post H rq w)) \<longleftrightarrow> r = Inr ()" using post_request_answer(2) [of H rq w] r by simp
      have "dispatch_rows J K H ev (row # rows) errors w = dispatch_rows J K H ev rows
          (if answered_ok (fst (hc_post H rq w)) then errors else errors @ [failed_send row (projl r)])
          (snd (hc_post H rq w))"
        using \<open>read_events J row = Inr evs\<close> False Inr r
        by (cases r) (auto simp: send_row_def and_run_def w1 ok)
      with \<open>request_for J K ev row = Some rq\<close> show ?thesis using posted wants listed by blast
    qed
  qed
qed

lemma answers_to_Cons:
  "snd (answers_to H (rq # rqs) w) = snd (answers_to H rqs (snd (hc_post H rq w)))"
  "fst (answers_to H (rq # rqs) w) = fst (hc_post H rq w) # fst (answers_to H rqs (snd (hc_post H rq w)))"
  by (simp_all add: Let_def split_beta)

lemma dispatch_rows_correct:
  "snd (dispatch_rows J K H ev rows errors w) = snd (answers_to H (due_requests J K ev rows) w) \<and>
   (fst (dispatch_rows J K H ev rows errors w) = [] \<longleftrightarrow>
     errors = [] \<and> list_all (channel_sound J K ev) rows \<and>
     list_all answered_ok (fst (answers_to H (due_requests J K ev rows) w)))"
proof (induction rows arbitrary: errors w)
  case (Cons row rows)
  show ?case
  proof (cases rule: dispatch_rows_step [where J = J and K = K and H = H and ev = ev and row = row and
        rows = rows and errors = errors and w = w])
    case skip
    then show ?thesis using Cons.IH by (auto simp: channel_sound_def)
  next
    case (unsent e)
    then show ?thesis using Cons.IH by (auto simp: channel_sound_def)
  next
    case (posted e rq)
    then have "due_requests J K ev (row # rows) = rq # due_requests J K ev rows" by simp
    then show ?thesis using posted Cons.IH by (auto simp: channel_sound_def answers_to_Cons simp del: answers_to.simps)
  qed
qed simp

text \<open>
  C26. A dispatch posts exactly one request for every enabled channel of the owner that wants the event
  and whose stored data can be read, in the order of the channel ids and whatever the answers
  are: no failure of one channel keeps a request from another. It succeeds exactly when the data of
  every channel was readable and every request was answered with a status of success. The channels,
  the filters, the requests (endpoint, token, body) and the answers are those of the specification
  above, not of the code's own helpers.
\<close>

theorem dispatch_reaches_every_channel:
  "snd (dispatch_notification J K H owner ev db w) =
     snd (answers_to H (due_requests J K ev (owner_channels owner (notification_channels db))) w) \<and>
   (fst (dispatch_notification J K H owner ev db w) = Inr () \<longleftrightarrow>
     list_all (channel_sound J K ev) (owner_channels owner (notification_channels db)) \<and>
     list_all answered_ok
       (fst (answers_to H (due_requests J K ev (owner_channels owner (notification_channels db))) w)))"
proof -
  have "enabled_channels owner db = owner_channels owner (notification_channels db)"
    by (simp add: enabled_channels_def owner_channels_def)
  then show ?thesis
    using dispatch_rows_correct [of J K H ev "enabled_channels owner db" "[]" w]
    by (auto simp: dispatch_notification_def split: prod.splits)
qed

section \<open>The worker announces every event once\<close>

lemma deliver_batch_split:
  "deliver_batch J U K H db evs c w =
    (fst (project_batch (\<lambda>_. [] :: unit list) c evs), fold (deliver_event J U K H db) evs w)"
  by (induction evs arbitrary: c w) (simp_all add: Let_def)

lemma worker_drain_from:
  assumes "readable_log J db" and "cursor \<le> length (log_entries J db)"
    and "length (log_entries J db) - cursor < fuel"
  shows "worker_drain J U K H fuel db cursor w =
    Some (length (log_entries J db), fold (deliver_event J U K H db) (drop cursor (log_entries J db)) w)"
  using assms
proof (induction fuel arbitrary: cursor w)
  case (Suc fuel)
  let ?n = "length (log_entries J db)"
  show ?case
  proof (cases "cursor < ?n")
    case False
    with Suc.prems(2) have "cursor = ?n" by simp
    with drain_end [OF Suc.prems(1) this] show ?thesis by simp
  next
    case True
    let ?evs = "take 100 (drop cursor (log_entries J db))"
    note step = drain_step [OF Suc.prems(1) True]
    have "0 < length ?evs" using True by simp
    then have "?n - (cursor + length ?evs) < fuel" using Suc.prems(3) True by simp
    then have ih: "worker_drain J U K H fuel db (cursor + length ?evs) w' =
        Some (?n, fold (deliver_event J U K H db) (drop (cursor + length ?evs) (log_entries J db)) w')" for w'
      using Suc.prems(1) True by (intro Suc.IH) simp_all
    have pieces: "drop cursor (log_entries J db) = ?evs @ drop (cursor + length ?evs) (log_entries J db)"
      by (rule drop_batch)
    have "deliver_batch J U K H db ?evs cursor w =
        (cursor + length ?evs, fold (deliver_event J U K H db) ?evs w)"
      by (simp only: deliver_batch_split step(3) fst_conv)
    then have "worker_drain J U K H (Suc fuel) db cursor w =
        worker_drain J U K H fuel db (cursor + length ?evs) (fold (deliver_event J U K H db) ?evs w)"
      by (simp only: worker_drain.simps step(1,2) sum.case prod.case if_False)
    also have "\<dots> = Some (?n, fold (deliver_event J U K H db) (drop cursor (log_entries J db)) w)"
      unfolding ih by (subst (3) pieces) simp
    finally show ?thesis .
  qed
qed simp

text \<open>
  Started at any cursor inside a readable log, the worker's drain returns within one batch per
  remaining event and one more; it has handed every event behind the cursor to delivery exactly once
  and in log order, and stands at the end of the log, so that the next drain announces nothing twice.
\<close>

theorem worker_announces_each_event_once:
  assumes "readable_log J db" and "cursor \<le> length (log_entries J db)"
    and "length (log_entries J db) - cursor < fuel"
  shows "worker_drain J U K H fuel db cursor w =
      Some (length (log_entries J db),
        fold (deliver_event J U K H db) (drop cursor (log_entries J db)) w) \<and>
    worker_drain J U K H 1 db (length (log_entries J db)) w' = Some (length (log_entries J db), w')"
proof
  show "worker_drain J U K H fuel db cursor w =
      Some (length (log_entries J db), fold (deliver_event J U K H db) (drop cursor (log_entries J db)) w)"
    by (rule worker_drain_from [OF assms])
  show "worker_drain J U K H 1 db (length (log_entries J db)) w' = Some (length (log_entries J db), w')"
    using worker_drain_from [OF assms(1), of "length (log_entries J db)" 1 U K H w'] by (simp only:) simp
qed

text \<open>A store with one committed event and no channel.\<close>

definition sample_notifications :: notifications_db where
  "sample_notifications =
     \<lparr>public_events = public_events sample_log, event_seq = event_seq sample_log,
      projection_cursor_row = None, operations = [], operation_steps = [], work_items = [],
      idempotency_records = [], command_idempotency_records = [], sessions = [], turns = [],
      messages = [], timeline_items = [], checkpoints = [], attachments = [],
      message_attachments = [], uploads = [], projects = [], memories = [],
      github_credentials = [], notification_channels = []\<rparr>"

definition sample_client :: "http_request list http_client" where
  "sample_client = \<lparr>hc_post = (\<lambda>rq w. (Inr 200, w @ [rq])), hc_status_text = string_of_nat\<rparr>"

lemma sample_notifications_log:
  "readable_log sample_serde sample_notifications"
  "length (log_entries sample_serde sample_notifications) = 1"
  using sample_log_ok
  by (simp_all add: readable_log_def log_dense_def log_entries_def sample_notifications_def)
    (simp_all add: sample_log_defs)

theorem worker_announces_each_event_once_witness:
  "worker_drain sample_serde Some sample_cipher sample_client 2 sample_notifications 0 [] =
      Some (1, fold (deliver_event sample_serde Some sample_cipher sample_client sample_notifications)
        (log_entries sample_serde sample_notifications) [])"
  using worker_announces_each_event_once [OF sample_notifications_log(1), of 0 2 Some sample_cipher
      sample_client "[]" "[]"]
  by (simp only: sample_notifications_log(2)) simp

section \<open>A new channel delivers what was entered\<close>

lemma channel_event_frame:
  assumes "append_channel_changed J ev owner i op c db = Inr (u, db')"
  shows "notification_channels db' = notification_channels db"
  using assms by (auto simp: append_channel_changed_def append_in_tx_def Let_def
      split: sum.splits if_splits option.splits)

lemma channel_event_accepted:
  assumes "log_dense db" "log_accepts (fst ev) db"
  shows "\<exists>db'. append_channel_changed J ev owner i op c db = Inr ((), db')"
proof -
  let ?ev = "\<lparr>ne_type = NotificationChannelChanged, ne_actor = resource_json ''owner'' owner,
      ne_resource = Some (resource_json ''notification_channel'' i), ne_correlation_id = c,
      ne_causation_id = None, ne_payload = JObj [(''operation'', JStr op)]\<rparr>"
  obtain env db' where "append_in_tx J (fst ev) (snd ev) ?ev db = Inr (env, db')"
    using append_accepted [OF assms] by blast
  then show ?thesis by (simp add: append_channel_changed_def)
qed

lemma target_json_roundtrip [simp]: "target_from_json (target_to_json t) = Some t"
  by (cases "nt_user_id t"; cases "nt_group_id t")
    (simp_all add: target_to_json_def target_of_fields_def obj_field_def opt_json_def)

lemma events_json_roundtrip [simp]: "events_from_json (events_to_json evs) = Some evs"
  by (induction evs) (simp_all add: events_to_json_def event_kinds.from_as)

lemma parse_kind_str [simp]: "parse_kind (kind_str k) = Inr k"
  by (cases k) (simp_all add: parse_kind_def)

definition new_channel_row ::
  "serde \<Rightarrow> channel_gen \<Rightarrow> string \<Rightarrow> channel_input \<Rightarrow> string option \<Rightarrow> string \<Rightarrow> channel_row" where
  "new_channel_row J g owner input secret url =
     \<lparr>ch_id = hg_id g, ch_owner_id = owner, ch_kind = kind_str (ci_kind input),
      ch_display_name = str_trim (ci_display_name input), ch_endpoint_url = url,
      ch_secret_ciphertext = secret,
      ch_target_json = json_to_string J (target_to_json (ci_target input)),
      ch_events_json = json_to_string J (events_to_json (ci_events input)),
      ch_enabled = ci_enabled input, ch_created_at = hg_now g, ch_updated_at = hg_now g\<rparr>"

lemma create_channel_InrD:
  assumes "create_channel J K L g owner input c db = (Inr view, db')"
  obtains secret url where "validate_input L input True = Inr ()"
    "encrypt_secret K owner (hg_id g) (ci_secret input) = Inr secret"
    "normalize_url L (ci_endpoint_url input) = Inr url"
    "channel_row_of owner (hg_id g) db' = Inr (new_channel_row J g owner input secret url)"
    "channel_view_of J (new_channel_row J g owner input secret url) = Inr view"
proof -
  obtain secret url where steps: "validate_input L input True = Inr ()"
    "encrypt_secret K owner (hg_id g) (ci_secret input) = Inr secret"
    "normalize_url L (ci_endpoint_url input) = Inr url"
    "create_channel_tx J g owner input secret url c db = Inr ((), db')"
    "channel J owner (hg_id g) db' = Inr view"
    using assms by (auto simp: create_channel_def and_run_def run_tx_def split: sum.splits)
  let ?row = "new_channel_row J g owner input secret url"
  obtain rows where rows: "insert_one ch_id ?row (notification_channels db) = Some rows"
    "notification_channels db' = rows"
    using steps(4) by (auto simp: create_channel_tx_def new_channel_row_def split: option.splits
        dest: channel_event_frame)
  then have "rows = notification_channels db @ [?row]" "hg_id g \<notin> ch_id ` set (notification_channels db)"
    using insert_one_SomeD [OF rows(1)] by (simp_all add: new_channel_row_def)
  then have "find_one (\<lambda>r. ch_id r = hg_id g \<and> ch_owner_id r = owner) (notification_channels db') = Some ?row"
    using rows(2) by (intro find_one_unique) (auto simp: new_channel_row_def image_iff)
  then have row: "channel_row_of owner (hg_id g) db' = Inr ?row" by (simp add: channel_row_of_def)
  then have "channel_view_of J ?row = Inr view" using steps(5) by (simp add: channel_def)
  with steps(1-3) row that show ?thesis by blast
qed

lemma channel_view_new:
  assumes "\<And>v. json_from_str J (json_to_string J v) = Some v"
    and "channel_view_of J (new_channel_row J g owner input secret url) = Inr view"
  shows "hv_id view = hg_id g" "hv_kind view = ci_kind input" "hv_endpoint_url view = url"
    "hv_target view = ci_target input" "hv_events view = ci_events input"
    "hv_enabled view = ci_enabled input" "hv_display_name view = str_trim (ci_display_name input)"
    "hv_secret_is_set view = (secret \<noteq> None)"
  using assms(2) by (auto simp: channel_view_of_def new_channel_row_def read_target_def read_events_def assms(1))

text \<open>
  A created channel delivers what was entered. With a JSON codec that reads back what it writes
  and a cipher whose ciphertexts open in their own context, the answer of a creation shows the
  target, the events and the switch as entered, says that the secret is set, and the request built
  for any event goes to the normalised endpoint with the trimmed secret as its bearer token; for a
  webhook the body is the event itself.
\<close>

theorem created_channel_delivers:
  assumes "\<And>v. json_from_str J (json_to_string J v) = Some v" and "cipher_sound K"
    and "create_channel J K L g owner input c db = (Inr view, db')"
    and "ci_secret input = Some s" and "ci_kind input = Webhook"
  shows "hv_target view = ci_target input \<and> hv_events view = ci_events input \<and>
    hv_enabled view = ci_enabled input \<and> hv_secret_is_set view \<and>
    (\<exists>row. channel_row_of owner (hv_id view) db' = Inr row \<and>
      normalize_url L (ci_endpoint_url input) = Inr (hv_endpoint_url view) \<and>
      channel_request J K row ev =
        Inr \<lparr>rq_url = hv_endpoint_url view, rq_bearer = Some (str_trim s), rq_body = webhook_body ev\<rparr>)"
  using assms(3)
proof (rule create_channel_InrD)
  fix secret url
  assume valid: "validate_input L input True = Inr ()"
    and enc: "encrypt_secret K owner (hg_id g) (ci_secret input) = Inr secret"
    and url: "normalize_url L (ci_endpoint_url input) = Inr url"
    and row: "channel_row_of owner (hg_id g) db' = Inr (new_channel_row J g owner input secret url)"
    and view: "channel_view_of J (new_channel_row J g owner input secret url) = Inr view"
  note shown = channel_view_new [OF assms(1) view]
  have "str_trim s \<noteq> []" using valid assms(4)
    by (auto simp: validate_input_def is_blank_def and_then_def split: if_splits sum.splits)
  then obtain ct where ct: "secret = Some ct" "sc_encrypt K (str_trim s) (secret_aad owner (hg_id g)) = Inr ct"
    using enc assms(4) by (auto simp: encrypt_secret_def split: sum.splits)
  then have "sc_decrypt K ct (secret_aad owner (hg_id g)) = Inr (str_trim s)"
    using assms(2) by (auto simp: cipher_sound_def)
  then have "channel_request J K (new_channel_row J g owner input secret url) ev =
      Inr \<lparr>rq_url = url, rq_bearer = Some (str_trim s), rq_body = webhook_body ev\<rparr>"
    using ct(1) assms(5) parse_kind_str [of Webhook]
    by (simp add: channel_request_def new_channel_row_def read_target_def open_secret_def assms(1))
  with shown row url ct(1) show ?thesis by simp
qed

text \<open>A channel as entered.\<close>

definition sample_channel :: "notification_target \<Rightarrow> notification_channel_kind \<Rightarrow> string option \<Rightarrow> channel_input" where
  "sample_channel target kind secret =
     \<lparr>ci_kind = kind, ci_display_name = ''ops'', ci_endpoint_url = ''https://h/x#f'', ci_secret = secret,
      ci_target = target, ci_events = [EvTurnFailed], ci_enabled = True\<rparr>"

definition sample_channel_gen :: "string \<Rightarrow> channel_gen" where
  "sample_channel_gen e = \<lparr>hg_id = ''n1'', hg_now = 7, hg_event = (e, 7)\<rparr>"

lemma channel_trims:
  "str_trim ''ops'' = ''ops''" "str_trim ''https://h/x#f'' = ''https://h/x#f''"
  "str_trim ''k1'' = ''k1''" "str_trim ''k2'' = ''k2''" "str_trim ''u'' = ''u''" "str_trim [] = []"
  by code_simp+

lemmas sample_channel_defs =
  sample_channel_def sample_channel_gen_def sample_urls_def sample_cipher_def channel_trims
  validate_input_def validate_target_def normalize_url_def is_blank_def CONFIGURABLE_def encrypt_secret_def

lemma create_channel_succeeds:
  assumes "\<And>v. json_from_str J (json_to_string J v) = Some v"
    and "log_dense db" "log_accepts (fst (hg_event g)) db" "hg_id g \<notin> ch_id ` set (notification_channels db)"
    and "validate_input L input True = Inr ()" "normalize_url L (ci_endpoint_url input) = Inr url"
    and "encrypt_secret K owner (hg_id g) (ci_secret input) = Inr secret"
  shows "\<exists>view db'. create_channel J K L g owner input c db = (Inr view, db')"
proof -
  let ?row = "new_channel_row J g owner input secret url"
  let ?db = "db\<lparr>notification_channels := notification_channels db @ [?row]\<rparr>"
  have ins: "insert_one ch_id ?row (notification_channels db) = Some (notification_channels db @ [?row])"
    using assms(4) by (simp add: insert_one_def new_channel_row_def)
  have "log_dense ?db" "log_accepts (fst (hg_event g)) ?db"
    using assms(2,3) by (simp_all add: log_dense_def log_accepts_def)
  then obtain db' where app: "append_channel_changed J (hg_event g) owner (hg_id g) ''created'' c ?db = Inr ((), db')"
    using channel_event_accepted by blast
  have tx: "create_channel_tx J g owner input secret url c db = Inr ((), db')"
    using ins app by (simp add: create_channel_tx_def new_channel_row_def)
  have "find_one (\<lambda>r. ch_id r = hg_id g \<and> ch_owner_id r = owner) (notification_channels db') = Some ?row"
    using channel_event_frame [OF app] assms(4)
    by (intro find_one_unique) (auto simp: new_channel_row_def image_iff)
  moreover obtain view where "channel_view_of J ?row = Inr view"
    by (simp add: channel_view_of_def new_channel_row_def read_target_def read_events_def assms(1))
  ultimately show ?thesis using assms(5-7) tx
    by (simp add: create_channel_def run_tx_def channel_def channel_row_of_def)
qed

text \<open>Every input of the sample form that validates is stored.\<close>

lemma sample_channel_created:
  assumes "validate_input sample_urls (sample_channel target kind secret) True = Inr ()"
  shows "\<exists>view db. create_channel wire_serde sample_cipher sample_urls (sample_channel_gen ''e2'') ''o''
    (sample_channel target kind secret) ''k'' sample_notifications = (Inr view, db)"
proof -
  have "\<exists>ct. encrypt_secret sample_cipher ''o'' ''n1'' secret = Inr ct"
    by (simp add: encrypt_secret_def sample_cipher_def split: option.splits)
  then obtain ct where "encrypt_secret sample_cipher ''o'' ''n1'' secret = Inr ct" by blast
  with assms show ?thesis
    by (intro create_channel_succeeds [where url = "''https://h/x''" and secret = ct])
      (simp_all add: wire_serde_roundtrip sample_channel_gen_def sample_channel_def sample_notifications_def
        sample_log_defs log_dense_def log_accepts_def normalize_url_def channel_trims sample_urls_def)
qed

theorem created_channel_delivers_witness:
  "\<exists>view db row. create_channel wire_serde sample_cipher sample_urls (sample_channel_gen ''e2'') ''o''
      (sample_channel \<lparr>nt_user_id = None, nt_group_id = None\<rparr> Webhook (Some ''k1'')) ''k''
      sample_notifications = (Inr view, db) \<and>
    channel_row_of ''o'' (hv_id view) db = Inr row \<and>
    channel_request wire_serde sample_cipher row
      \<lparr>nv_kind = EvTest, nv_title = ''t'', nv_message = ''m'', nv_data = JNull\<rparr> =
      Inr \<lparr>rq_url = hv_endpoint_url view, rq_bearer = Some ''k1'',
           rq_body = webhook_body \<lparr>nv_kind = EvTest, nv_title = ''t'', nv_message = ''m'', nv_data = JNull\<rparr>\<rparr>"
proof -
  let ?i = "sample_channel \<lparr>nt_user_id = None, nt_group_id = None\<rparr> Webhook (Some ''k1'')"
  have "validate_input sample_urls ?i True = Inr ()" by (simp add: sample_channel_defs)
  then obtain view db where made: "create_channel wire_serde sample_cipher sample_urls (sample_channel_gen ''e2'')
      ''o'' ?i ''k'' sample_notifications = (Inr view, db)" using sample_channel_created by blast
  have "cipher_sound sample_cipher" by (auto simp: cipher_sound_def sample_cipher_def)
  moreover have "ci_secret ?i = Some ''k1''" "ci_kind ?i = Webhook" by (simp_all add: sample_channel_def)
  ultimately show ?thesis
    using created_channel_delivers [OF wire_serde_roundtrip _ made, of "''k1''"] made
    by (auto simp: channel_trims)
qed

section \<open>A blank group hides the user\<close>

text \<open>
  A message goes to the blank group: an input for a chat bot that names a user and carries a blank
  group is accepted, since a blank group counts as absent, and stored as it is; the sender then
  prefers the group whenever one is present, so that every message is addressed to the blank group
  and none to the user.
\<close>

theorem blank_group_hides_user:
  assumes "\<And>v. json_from_str J (json_to_string J v) = Some v" and "cipher_sound K"
    and "create_channel J K L g owner input c db = (Inr view, db')" and "ci_kind input = Qqbot"
    and "nt_user_id (ci_target input) = Some u" and "nt_group_id (ci_target input) = Some blank"
    and "str_trim blank = []"
  shows "str_trim u \<noteq> [] \<and>
    (\<exists>row rq. channel_row_of owner (hv_id view) db' = Inr row \<and> channel_request J K row ev = Inr rq \<and>
      json_get ''group_id'' (rq_body rq) = Some (JStr blank) \<and> json_get ''user_id'' (rq_body rq) = None)"
  using assms(3)
proof (rule create_channel_InrD)
  fix secret url
  assume valid: "validate_input L input True = Inr ()"
    and enc: "encrypt_secret K owner (hg_id g) (ci_secret input) = Inr secret"
    and row: "channel_row_of owner (hg_id g) db' = Inr (new_channel_row J g owner input secret url)"
    and view: "channel_view_of J (new_channel_row J g owner input secret url) = Inr view"
  have ok: "str_trim u \<noteq> [] \<and> \<not> is_blank (ci_secret input)" using valid assms(4-7)
    by (auto simp: validate_input_def validate_target_def and_then_def is_blank_def Let_def
        split: if_splits sum.splits)
  then obtain s ct where "ci_secret input = Some s" and ct: "secret = Some ct"
      "sc_encrypt K (str_trim s) (secret_aad owner (hg_id g)) = Inr ct"
    using enc by (auto simp: encrypt_secret_def is_blank_def split: sum.splits option.splits if_splits)
  then have "open_secret K (new_channel_row J g owner input secret url) = Inr (Some (str_trim s))"
    using assms(2) by (auto simp: open_secret_def new_channel_row_def cipher_sound_def)
  then have "\<exists>rq. channel_request J K (new_channel_row J g owner input secret url) ev = Inr rq \<and>
      json_get ''group_id'' (rq_body rq) = Some (JStr blank) \<and> json_get ''user_id'' (rq_body rq) = None"
    using assms(4,6) parse_kind_str [of Qqbot]
    by (simp add: channel_request_def new_channel_row_def read_target_def qqbot_body_def assms(1))
  then show ?thesis using ok row channel_view_new(1) [OF assms(1) view] by auto
qed

theorem blank_group_hides_user_witness:
  "\<exists>view db. create_channel wire_serde sample_cipher sample_urls (sample_channel_gen ''e2'') ''o''
      (sample_channel \<lparr>nt_user_id = Some ''u'', nt_group_id = Some []\<rparr> Qqbot (Some ''k1'')) ''k''
      sample_notifications = (Inr view, db) \<and>
    (\<exists>row rq. channel_row_of ''o'' (hv_id view) db = Inr row \<and>
      channel_request wire_serde sample_cipher row
        \<lparr>nv_kind = EvTest, nv_title = ''t'', nv_message = ''m'', nv_data = JNull\<rparr> = Inr rq \<and>
      json_get ''group_id'' (rq_body rq) = Some (JStr []))"
proof -
  let ?i = "sample_channel \<lparr>nt_user_id = Some ''u'', nt_group_id = Some []\<rparr> Qqbot (Some ''k1'')"
  have "validate_input sample_urls ?i True = Inr ()" by (simp add: sample_channel_defs)
  then obtain view db where made: "create_channel wire_serde sample_cipher sample_urls (sample_channel_gen ''e2'')
      ''o'' ?i ''k'' sample_notifications = (Inr view, db)" using sample_channel_created by blast
  have sound: "cipher_sound sample_cipher" by (auto simp: cipher_sound_def sample_cipher_def)
  have entered: "ci_kind ?i = Qqbot" "nt_user_id (ci_target ?i) = Some ''u''" "nt_group_id (ci_target ?i) = Some []"
    by (simp_all add: sample_channel_def)
  show ?thesis
    using blank_group_hides_user [OF wire_serde_roundtrip sound made entered channel_trims(6)] made by blast
qed

section \<open>Updates\<close>

definition entered_row :: "serde \<Rightarrow> channel_gen \<Rightarrow> channel_input \<Rightarrow> string option \<Rightarrow> string \<Rightarrow> channel_row \<Rightarrow> channel_row" where
  "entered_row J g input secret url r =
     r\<lparr>ch_kind := kind_str (ci_kind input), ch_display_name := str_trim (ci_display_name input),
       ch_endpoint_url := url,
       ch_target_json := json_to_string J (target_to_json (ci_target input)),
       ch_events_json := json_to_string J (events_to_json (ci_events input)),
       ch_enabled := ci_enabled input, ch_updated_at := hg_now g, ch_secret_ciphertext := secret\<rparr>"

lemma entered_row_simps [simp]:
  "ch_id (entered_row J g input secret url r) = ch_id r"
  "ch_owner_id (entered_row J g input secret url r) = ch_owner_id r"
  "ch_secret_ciphertext (entered_row J g input secret url r) = secret"
  by (cases r; simp add: entered_row_def)+

lemma update_channel_tx_eq:
  "update_channel_tx J g owner i input secret url c db =
    (case find_one (\<lambda>r. ch_id r = i \<and> ch_owner_id r = owner) (notification_channels db) of
       None \<Rightarrow> Inl NtChannelNotFound
     | Some _ \<Rightarrow> append_channel_changed J (hg_event g) owner i ''updated'' c
         (db\<lparr>notification_channels := fst (update_one (\<lambda>r. ch_id r = i \<and> ch_owner_id r = owner)
            (entered_row J g input secret url) (notification_channels db))\<rparr>))"
  using update_one_count_find [of "\<lambda>r. ch_id r = i \<and> ch_owner_id r = owner"
      "entered_row J g input secret url" "notification_channels db"]
  by (auto simp: update_channel_tx_def entered_row_def [abs_def] split_beta split: option.splits)

lemma update_write_InrD:
  assumes "update_write J L g owner i input secret c db = (Inr view, db')"
  obtains url row where "channel_row_of owner i db = Inr row"
    "channel_row_of owner i db' = Inr (entered_row J g input secret url row)"
proof -
  obtain url where tx: "update_channel_tx J g owner i input secret url c db = Inr ((), db')"
    using assms by (auto simp: update_write_def and_run_def run_tx_def split: sum.splits)
  then obtain row where row: "find_one (\<lambda>r. ch_id r = i \<and> ch_owner_id r = owner) (notification_channels db) = Some row"
    by (auto simp: update_channel_tx_eq split: option.splits)
  then have "notification_channels db' = fst (update_one (\<lambda>r. ch_id r = i \<and> ch_owner_id r = owner)
      (entered_row J g input secret url) (notification_channels db))"
    using tx by (auto simp: update_channel_tx_eq dest: channel_event_frame)
  then have "find_one (\<lambda>r. ch_id r = i \<and> ch_owner_id r = owner) (notification_channels db') =
      Some (entered_row J g input secret url row)"
    using row by (simp add: find_after_update)
  with row that show ?thesis by (simp add: channel_row_of_def)
qed

lemma channel_row_ofD: "channel_row_of owner i db = Inr row \<Longrightarrow> ch_id row = i \<and> ch_owner_id row = owner"
  by (auto simp: channel_row_of_def ok_or_def split: option.splits dest: find_one_SomeD)

text \<open>
  A replaced secret can come back. An update without a secret keeps the one it read before its
  transaction. When another update replaces the secret in between, the first one still succeeds and
  stores the old ciphertext again: the secret the second update had set, and which was in force after
  it, is gone, and requests carry the replaced one as before.
\<close>

theorem stale_secret_restored:
  assumes "cipher_sound K"
    and "update_secret K L owner i kept db = Inr secret" and "ci_secret kept = None"
    and "update_channel J K L g owner i rotated c db = (Inr view, db1)" and "ci_secret rotated = Some s"
    and "update_write J L g' owner i kept secret c' db1 = (Inr view', db2)"
  shows "\<exists>row row1 row2. channel_row_of owner i db = Inr row \<and> channel_row_of owner i db1 = Inr row1 \<and>
    channel_row_of owner i db2 = Inr row2 \<and> open_secret K row1 = Inr (Some (str_trim s)) \<and>
    open_secret K row2 = open_secret K row"
proof -
  obtain new where valid: "validate_input L rotated False = Inr ()"
    and enc: "encrypt_secret K owner i (Some s) = Inr new"
    and wr: "update_write J L g owner i rotated new c db = (Inr view, db1)"
    using assms(4,5) by (auto simp: update_channel_def update_secret_def and_run_def and_then_def split: sum.splits)
  obtain url row where row: "channel_row_of owner i db = Inr row"
    and row1: "channel_row_of owner i db1 = Inr (entered_row J g rotated new url row)"
    using wr by (rule update_write_InrD)
  obtain url' row' where "channel_row_of owner i db1 = Inr row'"
    and row2: "channel_row_of owner i db2 = Inr (entered_row J g' kept secret url' row')"
    using assms(6) by (rule update_write_InrD)
  have ids: "ch_id row = i" "ch_owner_id row = owner" using channel_row_ofD [OF row] by auto
  have "secret = ch_secret_ciphertext row"
    using assms(2,3) row by (auto simp: update_secret_def and_then_def split: sum.splits)
  then have "open_secret K (entered_row J g' kept secret url' row') = open_secret K row"
    using channel_row_ofD [OF row2] ids by (simp add: open_secret_def split: option.split)
  moreover have "str_trim s \<noteq> []" using valid assms(5)
    by (auto simp: validate_input_def is_blank_def and_then_def split: if_splits sum.splits)
  then have "open_secret K (entered_row J g rotated new url row) = Inr (Some (str_trim s))"
    using enc assms(1) ids
    by (auto simp: encrypt_secret_def open_secret_def cipher_sound_def split: sum.splits)
  ultimately show ?thesis using row row1 row2 by blast
qed

lemma update_write_succeeds:
  assumes "\<And>v. json_from_str J (json_to_string J v) = Some v"
    and "log_dense db" "log_accepts (fst (hg_event g)) db" and "channel_row_of owner i db = Inr row"
    and "normalize_url L (ci_endpoint_url input) = Inr url"
  shows "\<exists>view db'. update_write J L g owner i input secret c db = (Inr view, db') \<and> log_dense db' \<and>
    length (public_events db') = Suc (length (public_events db)) \<and>
    ev_event_id ` set (public_events db') = insert (fst (hg_event g)) (ev_event_id ` set (public_events db))"
proof -
  let ?P = "\<lambda>r. ch_id r = i \<and> ch_owner_id r = owner" and ?f = "entered_row J g input secret url"
  let ?db = "db\<lparr>notification_channels := fst (update_one ?P ?f (notification_channels db))\<rparr>"
  let ?ev = "\<lparr>ne_type = NotificationChannelChanged, ne_actor = resource_json ''owner'' owner,
      ne_resource = Some (resource_json ''notification_channel'' i), ne_correlation_id = c,
      ne_causation_id = None, ne_payload = JObj [(''operation'', JStr ''updated'')]\<rparr>"
  have found: "find_one ?P (notification_channels db) = Some row"
    using assms(4) by (auto simp: channel_row_of_def ok_or_def split: option.splits)
  have "log_dense ?db" "log_accepts (fst (hg_event g)) ?db"
    using assms(2,3) by (simp_all add: log_dense_def log_accepts_def)
  then obtain env db' where app: "append_in_tx J (fst (hg_event g)) (snd (hg_event g)) ?ev ?db = Inr (env, db')"
    and log: "log_dense db'" "public_events db' = public_events db @
      [event_row_of J (int (Suc (length (public_events db)))) (fst (hg_event g)) (snd (hg_event g)) ?ev]"
    using append_accepted [of ?db "fst (hg_event g)" J "snd (hg_event g)" ?ev] by auto
  have chg: "append_channel_changed J (hg_event g) owner i ''updated'' c ?db = Inr ((), db')"
    using app by (simp add: append_channel_changed_def)
  have "channel_row_of owner i db' = Inr (?f row)"
    using channel_event_frame [OF chg] found by (simp add: channel_row_of_def find_after_update)
  moreover obtain view where "channel_view_of J (?f row) = Inr view"
    by (simp add: channel_view_of_def entered_row_def read_target_def read_events_def assms(1))
  ultimately show ?thesis using found chg assms(5) log
    by (simp add: update_write_def run_tx_def update_channel_tx_eq channel_def event_row_of_def)
qed

text \<open>A store with one webhook and the secret \<open>k1\<close>.\<close>

definition sample_hook :: channel_row where
  "sample_hook = new_channel_row wire_serde (sample_channel_gen ''e2'') ''o''
     (sample_channel \<lparr>nt_user_id = None, nt_group_id = None\<rparr> Webhook (Some ''k1''))
     (Some (secret_aad ''o'' ''n1'' @ ''k1'')) ''https://h/x''"

definition hooked :: notifications_db where
  "hooked = sample_notifications\<lparr>notification_channels := [sample_hook]\<rparr>"

theorem stale_secret_restored_witness:
  "\<exists>(db1 :: notifications_db) (db2 :: notifications_db) row1 row2. channel_row_of ''o'' ''n1'' db1 = Inr row1 \<and> channel_row_of ''o'' ''n1'' db2 = Inr row2 \<and>
    open_secret sample_cipher row1 = Inr (Some ''k2'') \<and> open_secret sample_cipher row2 = Inr (Some ''k1'')"
proof -
  let ?in = "sample_channel \<lparr>nt_user_id = None, nt_group_id = None\<rparr> Webhook"
  have row: "channel_row_of ''o'' ''n1'' hooked = Inr sample_hook"
    by (simp add: channel_row_of_def hooked_def sample_hook_def new_channel_row_def sample_channel_gen_def)
  have logs: "log_dense hooked" "log_accepts ''e2'' hooked" "length (public_events hooked) = 1"
    "ev_event_id ` set (public_events hooked) = {''e1''}"
    by (simp_all add: hooked_def sample_notifications_def sample_log_defs log_dense_def log_accepts_def)
  have url: "normalize_url sample_urls (ci_endpoint_url (?in s)) = Inr ''https://h/x''" for s
    by (simp add: sample_channel_defs)
  have kept: "update_secret sample_cipher sample_urls ''o'' ''n1'' (?in None) hooked =
      Inr (Some (secret_aad ''o'' ''n1'' @ ''k1''))"
    using row by (simp add: update_secret_def sample_channel_defs sample_hook_def new_channel_row_def)
  have fresh: "update_secret sample_cipher sample_urls ''o'' ''n1'' (?in (Some ''k2'')) hooked =
      Inr (Some (secret_aad ''o'' ''n1'' @ ''k2''))"
    using row by (simp add: update_secret_def sample_channel_defs)
  have gen: "fst (hg_event (sample_channel_gen e)) = e" for e by (simp add: sample_channel_gen_def)
  obtain v1 db1 where w1: "update_write wire_serde sample_urls (sample_channel_gen ''e2'') ''o'' ''n1''
      (?in (Some ''k2'')) (Some (secret_aad ''o'' ''n1'' @ ''k2'')) ''c'' hooked = (Inr v1, db1)"
    and l1: "log_dense db1" "length (public_events db1) = Suc 1"
      "ev_event_id ` set (public_events db1) = insert ''e2'' {''e1''}"
    using update_write_succeeds [OF wire_serde_roundtrip logs(1) _ row url, of "sample_channel_gen ''e2''",
        unfolded gen logs(3,4), OF logs(2)] by metis
  have u1: "update_channel wire_serde sample_cipher sample_urls (sample_channel_gen ''e2'') ''o'' ''n1''
      (?in (Some ''k2'')) ''c'' hooked = (Inr v1, db1)"
    using fresh w1 by (simp add: update_channel_def)
  obtain row1 where row1: "channel_row_of ''o'' ''n1'' db1 = Inr row1" using w1 by (rule update_write_InrD)
  have acc: "log_accepts (fst (hg_event (sample_channel_gen ''e3''))) db1"
    using l1(2,3) by (simp add: log_accepts_def gen)
  obtain v2 db2 where w2: "update_write wire_serde sample_urls (sample_channel_gen ''e3'') ''o'' ''n1''
      (?in None) (Some (secret_aad ''o'' ''n1'' @ ''k1'')) ''c'' db1 = (Inr v2, db2)"
    using update_write_succeeds [OF wire_serde_roundtrip l1(1) acc row1 url] by blast
  have sound: "cipher_sound sample_cipher" by (auto simp: cipher_sound_def sample_cipher_def)
  have secrets: "ci_secret (?in None) = None" "ci_secret (?in (Some ''k2'')) = Some ''k2''"
    by (simp_all add: sample_channel_def)
  have k1: "open_secret sample_cipher sample_hook = Inr (Some ''k1'')"
    by (simp add: open_secret_def sample_hook_def new_channel_row_def sample_cipher_def sample_channel_gen_def)
  show ?thesis
    using stale_secret_restored [OF sound kept secrets(1) u1 secrets(2) w2] row k1
    by (auto simp: channel_trims)
qed

end
