(* ===== verification/Model_Stream.thy ===== *)
theory Model_Stream
  imports Execution_Types Session_Interface Sse_Stream
begin

text \<open>
  What the provider adapters share (\<open>crates/models/src/stream_types.rs\<close> and the request side of
  \<open>openai_chat.rs\<close>, \<open>anthropic.rs\<close> and \<open>openai_responses.rs\<close>): the join of reasoning
  summaries, the timing of the reasoning phase, wire names of tools, and the bodies of the three
  request formats. The base64 crate is the parameter \<open>B64\<close>, the Unicode table of upper case letters
  outside ASCII the parameter \<open>upper\<close>. Instants are nanoseconds.
\<close>

section \<open>JSON access\<close>

fun json_as_u64 :: "json \<Rightarrow> nat option" where
  "json_as_u64 (JNum n) = (if 0 \<le> n \<and> n \<le> int U64_MAX then Some (nat n) else None)"
| "json_as_u64 _ = None"

definition str_at :: "string \<Rightarrow> json \<Rightarrow> string option" where
  "str_at k v = Option.bind (json_get k v) json_as_str"

definition str_at_or_empty :: "string \<Rightarrow> json \<Rightarrow> string" where
  "str_at_or_empty k v = (case str_at k v of None \<Rightarrow> [] | Some s \<Rightarrow> s)"

definition u64_at :: "string \<Rightarrow> json \<Rightarrow> nat" where
  "u64_at k v = (case Option.bind (json_get k v) json_as_u64 of None \<Rightarrow> 0 | Some n \<Rightarrow> n)"

text \<open>\<open>pointer("/a/b").or_else(|| get("c"))\<close>, read as a count.\<close>

definition u64_at_pointer :: "string \<Rightarrow> string \<Rightarrow> string \<Rightarrow> json \<Rightarrow> nat" where
  "u64_at_pointer a b c v =
    (case Option.bind
        (case Option.bind (json_get a v) (json_get b) of None \<Rightarrow> json_get c v | Some x \<Rightarrow> Some x)
        json_as_u64 of None \<Rightarrow> 0 | Some n \<Rightarrow> n)"

definition as_u32 :: "nat \<Rightarrow> nat" where "as_u32 n = n mod 2 ^ 32"

section \<open>Emitting events\<close>

text \<open>A method of an assembler returns the changed assembler and the events to publish.\<close>

definition emit_seq ::
  "('a \<Rightarrow> 'a \<times> 'e list) \<Rightarrow> ('a \<Rightarrow> 'a \<times> 'e list) \<Rightarrow> 'a \<Rightarrow> 'a \<times> 'e list" where
  "emit_seq f g a = (let (a1, out1) = f a; (a2, out2) = g a1 in (a2, out1 @ out2))"

primrec emit_list :: "('x \<Rightarrow> 'a \<Rightarrow> 'a \<times> 'e list) \<Rightarrow> 'x list \<Rightarrow> 'a \<Rightarrow> 'a \<times> 'e list" where
  "emit_list f [] a = (a, [])"
| "emit_list f (x # xs) a = emit_seq (f x) (emit_list f xs) a"

section \<open>Characters\<close>

text \<open>\<open>str::chars\<close>: a byte with the continuation bytes behind it.\<close>

function utf8_chars :: "string \<Rightarrow> string list" where
  "utf8_chars [] = []"
| "utf8_chars (c # s) =
     (c # takeWhile (\<lambda>b. continuation (of_char b)) s) # utf8_chars (dropWhile (\<lambda>b. continuation (of_char b)) s)"
  by pat_completeness auto
termination
  by (relation "measure length") (auto simp: le_imp_less_Suc length_dropWhile_le)

section \<open>Reasoning summaries\<close>

definition starts_upper :: "(string \<Rightarrow> bool) \<Rightarrow> string \<Rightarrow> bool" where
  "starts_upper upper s =
    (case s of [] \<Rightarrow> False
     | c # _ \<Rightarrow> if (of_char c :: nat) < 128 then 65 \<le> (of_char c :: nat) \<and> (of_char c :: nat) \<le> 90
                else upper s)"

definition append_reasoning_summary :: "(string \<Rightarrow> bool) \<Rightarrow> string \<Rightarrow> string \<Rightarrow> string" where
  "append_reasoning_summary upper previous delta =
    (let delta_starts_without_whitespace = (delta \<noteq> [] \<and> ws_len delta = 0);
         previous_ends_without_whitespace = (previous \<noteq> [] \<and> ws_suffix_len previous = 0);
         looks_like_new_summary_sentence =
           (20 \<le> length delta \<and> starts_upper upper (trim_start delta))
     in previous @
        (if previous \<noteq> [] \<and> delta_starts_without_whitespace \<and> previous_ends_without_whitespace \<and>
            looks_like_new_summary_sentence then [CHR 0x0A] else []) @ delta)"

section \<open>Timing\<close>

record stream_timing =
  ti_reasoning_started_at :: "nat option"
  ti_output_started_at :: "nat option"

definition new_timing :: stream_timing where
  "new_timing = \<lparr>ti_reasoning_started_at = None, ti_output_started_at = None\<rparr>"

definition get_or_insert :: "'a \<Rightarrow> 'a option \<Rightarrow> 'a option" where
  "get_or_insert v x = (case x of None \<Rightarrow> Some v | Some y \<Rightarrow> Some y)"

definition output_started :: "nat \<Rightarrow> stream_timing \<Rightarrow> stream_timing" where
  "output_started now t =
    (if ti_reasoning_started_at t \<noteq> None
     then t\<lparr>ti_output_started_at := get_or_insert now (ti_output_started_at t)\<rparr> else t)"

fun observe :: "nat \<Rightarrow> model_stream_event \<Rightarrow> stream_timing \<Rightarrow> stream_timing" where
  "observe now (EvDelta _ _ ChanReasoningSummary text _ _) t =
     (if text \<noteq> [] then t\<lparr>ti_reasoning_started_at := get_or_insert now (ti_reasoning_started_at t)\<rparr> else t)"
| "observe now (EvDelta _ _ ChanText text _ _) t = (if text \<noteq> [] then output_started now t else t)"
| "observe now (EvToolCallDelta _ _ _ _) t = output_started now t"
| "observe now _ t = t"

definition reasoning_duration_ms :: "nat \<Rightarrow> stream_timing \<Rightarrow> nat option" where
  "reasoning_duration_ms now t =
    (case ti_reasoning_started_at t of
       None \<Rightarrow> None
     | Some started \<Rightarrow>
         let ended = (case ti_output_started_at t of None \<Rightarrow> now | Some e \<Rightarrow> e);
             ms = (ended - started) div 1000000
         in if ms \<le> U64_MAX then Some ms else None)"

section \<open>Events\<close>

definition truncated_stream_event :: "string \<Rightarrow> model_stream_event" where
  "truncated_stream_event attempt_id =
     EvFailed attempt_id ''PROVIDER_STREAM_FAILED'' ''provider stream ended before its terminal frame''"

definition no_usage :: token_usage where
  "no_usage = \<lparr>tu_input_tokens = 0, tu_output_tokens = 0, tu_cache_tokens = 0\<rparr>"

definition usage_or_none :: "token_usage option \<Rightarrow> token_usage" where
  "usage_or_none u = (case u of None \<Rightarrow> no_usage | Some x \<Rightarrow> x)"

definition args_or_empty :: "string \<Rightarrow> string" where
  "args_or_empty args = (if args = [] then ''{}'' else args)"

section \<open>Wire names of tools\<close>

text \<open>
  Every character that is no ASCII letter or digit, underscore or hyphen becomes one underscore; in
  the bytes of a character only the first counts.
\<close>

definition wire_char :: "char \<Rightarrow> bool" where
  "wire_char c \<longleftrightarrow>
    (let n = (of_char c :: nat)
     in 48 \<le> n \<and> n \<le> 57 \<or> 65 \<le> n \<and> n \<le> 90 \<or> 97 \<le> n \<and> n \<le> 122 \<or> c = CHR ''_'' \<or> c = CHR ''-'')"

definition openai_tool_name :: "string \<Rightarrow> string" where
  "openai_tool_name name =
     concat (map (\<lambda>c. if wire_char c then [c] else if continuation (of_char c) then [] else ''_'') name)"

text \<open>The table collected from the tools of a request: a later tool replaces an earlier one.\<close>

definition tool_name_table :: "tool_spec list \<Rightarrow> (string \<times> string) list" where
  "tool_name_table tools = rev (map (\<lambda>t. (openai_tool_name (ts_name t), ts_name t)) tools)"

definition canonical_name :: "(string \<times> string) list \<Rightarrow> string \<Rightarrow> string" where
  "canonical_name names wire = (case map_of names wire of None \<Rightarrow> wire | Some n \<Rightarrow> n)"

section \<open>Request bodies\<close>

fun text_of_part :: "content_part \<Rightarrow> string" where
  "text_of_part (PartText text) = text"
| "text_of_part (PartImage _ _ _ _) = []"

fun is_text_part :: "content_part \<Rightarrow> bool" where
  "is_text_part (PartText _) = True"
| "is_text_part (PartImage _ _ _ _) = False"

definition message_text :: "chat_message \<Rightarrow> string" where
  "message_text msg = concat (map text_of_part (ch_parts msg))"

definition data_url :: "(string \<Rightarrow> string) \<Rightarrow> string \<Rightarrow> string \<Rightarrow> string" where
  "data_url B64 mime bytes = ''data:'' @ mime @ '';base64,'' @ B64 bytes"

definition request_effort :: "model_request \<Rightarrow> string option" where
  "request_effort req =
    (case str_at ''reasoning_effort'' (mr_parameters req) of
       None \<Rightarrow> None | Some v \<Rightarrow> if v = ''none'' then None else Some v)"

paragraph \<open>Chat completions\<close>

fun openai_part :: "(string \<Rightarrow> string) \<Rightarrow> content_part \<Rightarrow> json" where
  "openai_part B64 (PartText text) = JObj [(''type'', JStr ''text''), (''text'', JStr text)]"
| "openai_part B64 (PartImage mime bytes _ _) =
     JObj [(''type'', JStr ''image_url''),
           (''image_url'', JObj [(''url'', JStr (data_url B64 mime bytes))])]"

definition openai_call :: "completed_tool_call \<Rightarrow> json" where
  "openai_call call =
     JObj [(''id'', JStr (cc_id call)), (''type'', JStr ''function''),
           (''function'', JObj [(''name'', JStr (openai_tool_name (cc_name call))),
                               (''arguments'', JStr (cc_arguments_json call))])]"

definition message_to_openai :: "(string \<Rightarrow> string) \<Rightarrow> chat_message \<Rightarrow> json" where
  "message_to_openai B64 msg = JObj
    ([(''role'', JStr (chat_role_as_str (ch_role msg))),
      (''content'', if list_all is_text_part (ch_parts msg) then JStr (message_text msg)
                   else JArr (map (openai_part B64) (ch_parts msg)))] @
     (case ch_tool_call_id msg of None \<Rightarrow> [] | Some i \<Rightarrow> [(''tool_call_id'', JStr i)]) @
     (if ch_tool_calls msg = [] then []
      else [(''tool_calls'', JArr (map openai_call (ch_tool_calls msg)))]) @
     (if ch_role msg = RoleAssistant
      then (case ch_reasoning_content msg of None \<Rightarrow> [] | Some r \<Rightarrow> [(''reasoning_content'', JStr r)])
      else []))"

definition openai_tool :: "tool_spec \<Rightarrow> json" where
  "openai_tool t =
     JObj [(''type'', JStr ''function''),
           (''function'', JObj [(''name'', JStr (openai_tool_name (ts_name t))),
                               (''description'', JStr (ts_description t)),
                               (''parameters'', ts_parameters t)])]"

definition build_chat_body :: "(string \<Rightarrow> string) \<Rightarrow> model_request \<Rightarrow> json" where
  "build_chat_body B64 req = JObj
    ([(''model'', JStr (mr_upstream_model_id req)), (''stream'', JBool True),
      (''messages'', JArr (map (message_to_openai B64) (mr_messages req)))] @
     (case request_effort req of None \<Rightarrow> [] | Some e \<Rightarrow> [(''reasoning_effort'', JStr e)]) @
     (if mr_tools req = [] then [] else [(''tools'', JArr (map openai_tool (mr_tools req)))]))"

paragraph \<open>Messages\<close>

fun anthropic_part :: "(string \<Rightarrow> string) \<Rightarrow> content_part \<Rightarrow> json" where
  "anthropic_part B64 (PartText text) = JObj [(''type'', JStr ''text''), (''text'', JStr text)]"
| "anthropic_part B64 (PartImage mime bytes _ _) =
     JObj [(''type'', JStr ''image''),
           (''source'', JObj [(''type'', JStr ''base64''), (''media_type'', JStr mime),
                             (''data'', JStr (B64 bytes))])]"

definition tool_use_block :: "serde \<Rightarrow> completed_tool_call \<Rightarrow> json" where
  "tool_use_block J call =
     JObj [(''type'', JStr ''tool_use''), (''id'', JStr (cc_id call)), (''name'', JStr (cc_name call)),
           (''input'', case json_from_str J (cc_arguments_json call) of None \<Rightarrow> JObj [] | Some v \<Rightarrow> v)]"

text \<open>The text of the system messages, joined by line breaks.\<close>

fun push_system :: "content_part list \<Rightarrow> string \<Rightarrow> string" where
  "push_system [] system = system"
| "push_system (PartText text # parts) system =
     push_system parts ((if system = [] then [] else system @ [CHR 0x0A]) @ text)"
| "push_system (PartImage _ _ _ _ # parts) system = push_system parts system"

primrec system_text :: "chat_message list \<Rightarrow> string \<Rightarrow> string" where
  "system_text [] system = system"
| "system_text (msg # msgs) system =
     system_text msgs (if ch_role msg = RoleSystem then push_system (ch_parts msg) system else system)"

definition message_to_anthropic :: "serde \<Rightarrow> (string \<Rightarrow> string) \<Rightarrow> chat_message \<Rightarrow> json list" where
  "message_to_anthropic J B64 msg =
    (case ch_role msg of
       RoleSystem \<Rightarrow> []
     | RoleTool \<Rightarrow>
         [JObj [(''role'', JStr ''user''),
                (''content'', JArr [JObj
                  [(''type'', JStr ''tool_result''),
                   (''tool_use_id'', JStr (case ch_tool_call_id msg of None \<Rightarrow> [] | Some i \<Rightarrow> i)),
                   (''content'', JArr (map (anthropic_part B64) (ch_parts msg)))]])]]
     | role \<Rightarrow>
         [JObj [(''role'', JStr (chat_role_as_str role)),
                (''content'', JArr (map (anthropic_part B64) (ch_parts msg) @
                                  map (tool_use_block J) (ch_tool_calls msg)))]])"

definition anthropic_tool :: "tool_spec \<Rightarrow> json" where
  "anthropic_tool t =
     JObj [(''name'', JStr (ts_name t)), (''description'', JStr (ts_description t)),
           (''input_schema'', ts_parameters t)]"

definition build_messages_body :: "serde \<Rightarrow> (string \<Rightarrow> string) \<Rightarrow> model_request \<Rightarrow> json" where
  "build_messages_body J B64 req =
    (let system = system_text (mr_messages req) [] in JObj
      ([(''model'', JStr (mr_upstream_model_id req)), (''max_tokens'', JNum 4096), (''stream'', JBool True),
        (''messages'', JArr (concat (map (message_to_anthropic J B64) (mr_messages req))))] @
       (if system = [] then [] else [(''system'', JStr system)]) @
       (if mr_tools req = [] then [] else [(''tools'', JArr (map anthropic_tool (mr_tools req)))]) @
       (case request_effort req of None \<Rightarrow> []
        | Some e \<Rightarrow> [(''thinking'', JObj [(''type'', JStr ''adaptive'')]),
                   (''output_config'', JObj [(''effort'', JStr e)])])))"

paragraph \<open>Responses\<close>

fun responses_part :: "(string \<Rightarrow> string) \<Rightarrow> content_part \<Rightarrow> json" where
  "responses_part B64 (PartText text) = JObj [(''type'', JStr ''input_text''), (''text'', JStr text)]"
| "responses_part B64 (PartImage mime bytes _ _) =
     JObj [(''type'', JStr ''input_image''), (''image_url'', JStr (data_url B64 mime bytes))]"

definition responses_content :: "(string \<Rightarrow> string) \<Rightarrow> content_part list \<Rightarrow> json" where
  "responses_content B64 parts =
    (if list_all is_text_part parts then JStr (concat (map text_of_part parts))
     else JArr (map (responses_part B64) parts))"

definition responses_call :: "completed_tool_call \<Rightarrow> json" where
  "responses_call call =
     JObj [(''type'', JStr ''function_call''), (''call_id'', JStr (cc_id call)),
           (''name'', JStr (openai_tool_name (cc_name call))), (''arguments'', JStr (cc_arguments_json call))]"

definition message_to_responses :: "(string \<Rightarrow> string) \<Rightarrow> chat_message \<Rightarrow> json list" where
  "message_to_responses B64 msg =
    (if ch_role msg = RoleTool then
       [JObj [(''type'', JStr ''function_call_output''),
              (''call_id'', JStr (case ch_tool_call_id msg of None \<Rightarrow> ''unknown_call'' | Some i \<Rightarrow> i)),
              (''output'', JStr (message_text msg))]]
     else if ch_role msg = RoleAssistant \<and> ch_tool_calls msg \<noteq> [] then
       (if message_text msg = [] then []
        else [JObj [(''role'', JStr ''assistant''), (''content'', JStr (message_text msg))]]) @
       map responses_call (ch_tool_calls msg)
     else [JObj [(''role'', JStr (chat_role_as_str (ch_role msg))),
                 (''content'', responses_content B64 (ch_parts msg))]])"

definition response_tool :: "tool_spec \<Rightarrow> json" where
  "response_tool t =
     JObj [(''type'', JStr ''function''), (''name'', JStr (openai_tool_name (ts_name t))),
           (''description'', JStr (ts_description t)), (''parameters'', ts_parameters t)]"

definition build_responses_body :: "(string \<Rightarrow> string) \<Rightarrow> model_request \<Rightarrow> json" where
  "build_responses_body B64 req = JObj
    ([(''model'', JStr (mr_upstream_model_id req)), (''stream'', JBool True),
      (''input'', JArr (concat (map (message_to_responses B64) (mr_messages req))))] @
     (case request_effort req of None \<Rightarrow> []
      | Some e \<Rightarrow> [(''reasoning'', JObj [(''effort'', JStr e)])]) @
     (if mr_tools req = [] then [] else [(''tools'', JArr (map response_tool (mr_tools req)))]))"

end
