(* ===== verification/Stream_Assemblers.thy ===== *)
theory Stream_Assemblers
  imports Model_Stream
begin

text \<open>
  The three assemblers that turn the frames of a provider stream into events and a final
  completion: \<open>OpenaiChatAssembler\<close> (\<open>openai_chat.rs\<close>), \<open>AnthropicAssembler\<close>
  (\<open>anthropic.rs\<close>) and \<open>OpenaiResponsesAssembler\<close> (\<open>openai_responses.rs\<close>). The JSON codec is
  \<open>J\<close>; \<open>txt\<close> gives the text of its error on an input. Sequence numbers count up in 64 bits,
  which no stream exhausts.
\<close>

section \<open>Chat completions\<close>

record chat_assembler =
  oa_text :: string
  oa_reasoning :: string
  oa_raw_reasoning :: string
  oa_saw_reasoning_content :: bool
  oa_tool_args :: "(string option \<times> string option \<times> string) list"
  oa_seq :: nat
  oa_usage :: "token_usage option"
  oa_finish_reason :: "string option"
  oa_reasoning_duration_ms :: "nat option"
  oa_saw_terminal :: bool
  oa_tool_names :: "(string \<times> string) list"

definition chat_for_tools :: "tool_spec list \<Rightarrow> chat_assembler" where
  "chat_for_tools tools =
     \<lparr>oa_text = [], oa_reasoning = [], oa_raw_reasoning = [], oa_saw_reasoning_content = False,
      oa_tool_args = [], oa_seq = 0, oa_usage = None, oa_finish_reason = None,
      oa_reasoning_duration_ms = None, oa_saw_terminal = False,
      oa_tool_names = tool_name_table tools\<rparr>"

definition chat_usage ::
  "string \<Rightarrow> json \<Rightarrow> chat_assembler \<Rightarrow> chat_assembler \<times> model_stream_event list" where
  "chat_usage attempt_id v a =
    (case json_get ''usage'' v of
       None \<Rightarrow> (a, [])
     | Some usage \<Rightarrow>
         let cache = u64_at_pointer ''prompt_tokens_details'' ''cached_tokens'' ''cached_tokens'' usage;
             u = \<lparr>tu_input_tokens = u64_at ''prompt_tokens'' usage - cache,
                  tu_output_tokens = u64_at ''completion_tokens'' usage, tu_cache_tokens = cache\<rparr>
         in (a\<lparr>oa_usage := Some u, oa_seq := oa_seq a + 1\<rparr>,
             [EvDelta attempt_id (oa_seq a + 1) ChanText [] True (Some u)]))"

definition chat_finish_reason :: "json \<Rightarrow> chat_assembler \<Rightarrow> chat_assembler" where
  "chat_finish_reason choice a =
    (case str_at ''finish_reason'' choice of
       None \<Rightarrow> a
     | Some fr \<Rightarrow> if fr \<noteq> ''null'' then a\<lparr>oa_finish_reason := Some fr\<rparr> else a)"

definition chat_reasoning ::
  "(string \<Rightarrow> bool) \<Rightarrow> string \<Rightarrow> json \<Rightarrow> chat_assembler \<Rightarrow> chat_assembler \<times> model_stream_event list" where
  "chat_reasoning upper attempt_id delta a =
    (case str_at ''reasoning_content'' delta of
       None \<Rightarrow> (a, [])
     | Some r \<Rightarrow>
         if r = [] then (a\<lparr>oa_saw_reasoning_content := True\<rparr>, [])
         else (a\<lparr>oa_saw_reasoning_content := True,
                 oa_reasoning := append_reasoning_summary upper (oa_reasoning a) r,
                 oa_raw_reasoning := oa_raw_reasoning a @ r, oa_seq := oa_seq a + 1\<rparr>,
               [EvDelta attempt_id (oa_seq a + 1) ChanReasoningSummary r True None]))"

definition chat_content ::
  "string \<Rightarrow> json \<Rightarrow> chat_assembler \<Rightarrow> chat_assembler \<times> model_stream_event list" where
  "chat_content attempt_id delta a =
    (case str_at ''content'' delta of
       None \<Rightarrow> (a, [])
     | Some content \<Rightarrow>
         if content = [] then (a, [])
         else (a\<lparr>oa_text := oa_text a @ content, oa_seq := oa_seq a + 1\<rparr>,
               [EvDelta attempt_id (oa_seq a + 1) ChanText content True None]))"

text \<open>The slot of an index, with empty slots pushed up to it.\<close>

definition grow_slots ::
  "nat \<Rightarrow> (string option \<times> string option \<times> string) list \<Rightarrow>
    (string option \<times> string option \<times> string) list" where
  "grow_slots index slots = slots @ replicate (Suc index - length slots) (None, None, [])"

definition chat_tool_call ::
  "string \<Rightarrow> json \<Rightarrow> chat_assembler \<Rightarrow> chat_assembler \<times> model_stream_event list" where
  "chat_tool_call attempt_id tc a =
    (let index = u64_at ''index'' tc;
         slots = grow_slots index (oa_tool_args a);
         (i, n, args) = slots ! index;
         i' = (case str_at ''id'' tc of None \<Rightarrow> i | Some x \<Rightarrow> Some x);
         n' = (case Option.bind (json_get ''function'' tc) (str_at ''name'') of None \<Rightarrow> n | Some x \<Rightarrow> Some x);
         d = (case Option.bind (json_get ''function'' tc) (str_at ''arguments'') of None \<Rightarrow> [] | Some x \<Rightarrow> x)
     in (a\<lparr>oa_tool_args := slots[index := (i', n', args @ d)], oa_seq := oa_seq a + 1\<rparr>,
         [EvToolCallDelta attempt_id (oa_seq a + 1)
            \<lparr>td_index = as_u32 index, td_id = i', td_name = n',
             td_arguments_delta = (if d = [] then None else Some d)\<rparr> True]))"

definition array_at :: "string \<Rightarrow> json \<Rightarrow> json list" where
  "array_at k v = (case Option.bind (json_get k v) json_as_array of None \<Rightarrow> [] | Some xs \<Rightarrow> xs)"

definition object_at :: "string \<Rightarrow> json \<Rightarrow> json" where
  "object_at k v = (case json_get k v of None \<Rightarrow> JObj [] | Some x \<Rightarrow> x)"

definition chat_choice ::
  "(string \<Rightarrow> bool) \<Rightarrow> string \<Rightarrow> json \<Rightarrow> chat_assembler \<Rightarrow> chat_assembler \<times> model_stream_event list" where
  "chat_choice upper attempt_id choice a =
    (let delta = object_at ''delta'' choice
     in emit_seq (chat_reasoning upper attempt_id delta)
         (emit_seq (chat_content attempt_id delta)
           (emit_list (chat_tool_call attempt_id) (array_at ''tool_calls'' delta)))
         (chat_finish_reason choice a))"

definition ingest_data ::
  "serde \<Rightarrow> (string \<Rightarrow> string) \<Rightarrow> (string \<Rightarrow> bool) \<Rightarrow> string \<Rightarrow> string \<Rightarrow> chat_assembler \<Rightarrow>
    string + (chat_assembler \<times> model_stream_event list)" where
  "ingest_data J txt upper attempt_id data a =
    (if str_trim data = ''[DONE]'' then Inr (a\<lparr>oa_saw_terminal := True\<rparr>, [])
     else case json_from_str J data of
         None \<Rightarrow> Inl (''openai chunk json: '' @ txt data)
       | Some v \<Rightarrow>
           Inr (emit_seq (chat_usage attempt_id v)
                  (emit_list (chat_choice upper attempt_id) (array_at ''choices'' v)) a))"

definition chat_call ::
  "chat_assembler \<Rightarrow> nat \<Rightarrow> string option \<times> string option \<times> string \<Rightarrow> completed_tool_call list" where
  "chat_call a index slot =
    (case slot of (i, n, args) \<Rightarrow>
       (case n of
          None \<Rightarrow> []
        | Some wire \<Rightarrow>
            [\<lparr>cc_id = (case i of None \<Rightarrow> ''call_'' @ string_of_nat index | Some x \<Rightarrow> x),
              cc_name = canonical_name (oa_tool_names a) wire,
              cc_arguments_json = args_or_empty args\<rparr>]))"

definition chat_calls :: "chat_assembler \<Rightarrow> completed_tool_call list" where
  "chat_calls a =
     concat (map (\<lambda>(index, slot). chat_call a index slot)
       (zip [0..<length (oa_tool_args a)] (oa_tool_args a)))"

definition chat_finish :: "string \<Rightarrow> chat_assembler \<Rightarrow> model_stream_event" where
  "chat_finish attempt_id a =
    (if \<not> oa_saw_terminal a then truncated_stream_event attempt_id
     else EvCompleted
       \<lparr>co_attempt_id = attempt_id, co_usage = usage_or_none (oa_usage a),
        co_stop_reason = oa_finish_reason a, co_tool_calls = chat_calls a, co_text = oa_text a,
        co_reasoning = oa_reasoning a,
        co_reasoning_content = (if oa_saw_reasoning_content a then Some (oa_raw_reasoning a) else None),
        co_reasoning_duration_ms = oa_reasoning_duration_ms a\<rparr>)"

section \<open>Messages\<close>

record anthropic_assembler =
  aa_text :: string
  aa_reasoning :: string
  aa_tool_args :: "(string \<times> string \<times> string) list"
  aa_seq :: nat
  aa_usage :: "token_usage option"
  aa_stop_reason :: "string option"
  aa_reasoning_duration_ms :: "nat option"
  aa_saw_terminal :: bool

definition new_anthropic :: anthropic_assembler where
  "new_anthropic =
     \<lparr>aa_text = [], aa_reasoning = [], aa_tool_args = [], aa_seq = 0, aa_usage = None,
      aa_stop_reason = None, aa_reasoning_duration_ms = None, aa_saw_terminal = False\<rparr>"

definition block_delta ::
  "(string \<Rightarrow> bool) \<Rightarrow> string \<Rightarrow> json \<Rightarrow> anthropic_assembler \<Rightarrow>
    anthropic_assembler \<times> model_stream_event list" where
  "block_delta upper attempt_id v a =
    (let delta = object_at ''delta'' v;
         dtype = str_at_or_empty ''type'' delta
     in if dtype = ''text_delta'' then
          (case str_at ''text'' delta of
             None \<Rightarrow> (a, [])
           | Some text \<Rightarrow>
               (a\<lparr>aa_text := aa_text a @ text, aa_seq := aa_seq a + 1\<rparr>,
                [EvDelta attempt_id (aa_seq a + 1) ChanText text True None]))
        else if dtype = ''thinking_delta'' then
          (case str_at ''thinking'' delta of
             None \<Rightarrow> (a, [])
           | Some text \<Rightarrow>
               (a\<lparr>aa_reasoning := append_reasoning_summary upper (aa_reasoning a) text,
                  aa_seq := aa_seq a + 1\<rparr>,
                [EvDelta attempt_id (aa_seq a + 1) ChanReasoningSummary text True None]))
        else if dtype = ''input_json_delta'' then
          (let index = u64_at ''index'' v;
               partial = str_at_or_empty ''partial_json'' delta
           in if index < length (aa_tool_args a) then
                (case aa_tool_args a ! index of (i, n, args) \<Rightarrow>
                  (a\<lparr>aa_tool_args := (aa_tool_args a)[index := (i, n, args @ partial)],
                     aa_seq := aa_seq a + 1\<rparr>,
                   [EvToolCallDelta attempt_id (aa_seq a + 1)
                      \<lparr>td_index = as_u32 index, td_id = Some i, td_name = Some n,
                       td_arguments_delta = Some partial\<rparr> True]))
              else (a, []))
        else (a, []))"

definition block_start ::
  "string \<Rightarrow> json \<Rightarrow> anthropic_assembler \<Rightarrow> anthropic_assembler \<times> model_stream_event list" where
  "block_start attempt_id v a =
    (let block = object_at ''content_block'' v
     in if str_at_or_empty ''type'' block = ''tool_use'' then
          (let i = str_at_or_empty ''id'' block; n = str_at_or_empty ''name'' block
           in (a\<lparr>aa_tool_args := aa_tool_args a @ [(i, n, [])], aa_seq := aa_seq a + 1\<rparr>,
               [EvToolCallDelta attempt_id (aa_seq a + 1)
                  \<lparr>td_index = as_u32 (length (aa_tool_args a)), td_id = Some i, td_name = Some n,
                   td_arguments_delta = None\<rparr> True]))
        else (a, []))"

definition anthropic_usage ::
  "string \<Rightarrow> token_usage \<Rightarrow> anthropic_assembler \<Rightarrow> anthropic_assembler \<times> model_stream_event list" where
  "anthropic_usage attempt_id u a =
    (a\<lparr>aa_usage := Some u, aa_seq := aa_seq a + 1\<rparr>,
     [EvDelta attempt_id (aa_seq a + 1) ChanText [] True (Some u)])"

definition message_delta ::
  "string \<Rightarrow> json \<Rightarrow> anthropic_assembler \<Rightarrow> anthropic_assembler \<times> model_stream_event list" where
  "message_delta attempt_id v a =
    (let (a1, out) =
       (case json_get ''usage'' v of
          None \<Rightarrow> (a, [])
        | Some usage \<Rightarrow>
            anthropic_usage attempt_id
              \<lparr>tu_input_tokens = tu_input_tokens (usage_or_none (aa_usage a)),
               tu_output_tokens = u64_at ''output_tokens'' usage,
               tu_cache_tokens = tu_cache_tokens (usage_or_none (aa_usage a))\<rparr> a)
     in (case Option.bind (json_get ''delta'' v) (str_at ''stop_reason'') of
           None \<Rightarrow> a1 | Some sr \<Rightarrow> a1\<lparr>aa_stop_reason := Some sr\<rparr>, out))"

definition message_start ::
  "string \<Rightarrow> json \<Rightarrow> anthropic_assembler \<Rightarrow> anthropic_assembler \<times> model_stream_event list" where
  "message_start attempt_id v a =
    (case Option.bind (json_get ''message'' v) (json_get ''usage'') of
       None \<Rightarrow> (a, [])
     | Some usage \<Rightarrow>
         anthropic_usage attempt_id
           \<lparr>tu_input_tokens = u64_at ''input_tokens'' usage,
            tu_output_tokens = u64_at ''output_tokens'' usage,
            tu_cache_tokens = saturating_add_u64 (u64_at ''cache_read_input_tokens'' usage)
              (u64_at ''cache_creation_input_tokens'' usage)\<rparr> a)"

definition anthropic_ingest ::
  "serde \<Rightarrow> (string \<Rightarrow> string) \<Rightarrow> (string \<Rightarrow> bool) \<Rightarrow> string \<Rightarrow> string \<Rightarrow> string \<Rightarrow>
    anthropic_assembler \<Rightarrow> string + (anthropic_assembler \<times> model_stream_event list)" where
  "anthropic_ingest J txt upper attempt_id event_name data a =
    (if str_trim data = [] then Inr (a, [])
     else case json_from_str J data of
         None \<Rightarrow> Inl (''anthropic json: '' @ txt data)
       | Some v \<Rightarrow> Inr
           (if event_name = ''content_block_delta'' then block_delta upper attempt_id v a
            else if event_name = ''content_block_start'' then block_start attempt_id v a
            else if event_name = ''message_delta'' then message_delta attempt_id v a
            else if event_name = ''message_stop'' then (a\<lparr>aa_saw_terminal := True\<rparr>, [])
            else if event_name = ''message_start'' then message_start attempt_id v a
            else (a, [])))"

definition anthropic_finish :: "string \<Rightarrow> anthropic_assembler \<Rightarrow> model_stream_event" where
  "anthropic_finish attempt_id a =
    (if \<not> aa_saw_terminal a then truncated_stream_event attempt_id
     else EvCompleted
       \<lparr>co_attempt_id = attempt_id, co_usage = usage_or_none (aa_usage a),
        co_stop_reason = aa_stop_reason a,
        co_tool_calls = map (\<lambda>(i, n, args). \<lparr>cc_id = i, cc_name = n,
          cc_arguments_json = args_or_empty args\<rparr>) (aa_tool_args a),
        co_text = aa_text a, co_reasoning = aa_reasoning a, co_reasoning_content = None,
        co_reasoning_duration_ms = aa_reasoning_duration_ms a\<rparr>)"

section \<open>Responses\<close>

record response_tool_call =
  rt_id :: string
  rt_name :: string
  rt_arguments :: string
  rt_aliases :: "string list"

definition rt_alias :: "response_tool_call \<Rightarrow> string" where
  "rt_alias t = (case rt_aliases t of [] \<Rightarrow> rt_id t | x # _ \<Rightarrow> x)"

record responses_assembler =
  ra_text :: string
  ra_reasoning :: string
  ra_seq :: nat
  ra_usage :: "token_usage option"
  ra_reasoning_duration_ms :: "nat option"
  ra_failed :: "(string \<times> string) option"
  ra_saw_terminal :: bool
  ra_tools :: "response_tool_call list"
  ra_tool_indexes :: "(string \<times> nat) list"
  ra_tool_names :: "(string \<times> string) list"

definition responses_for_tools :: "tool_spec list \<Rightarrow> responses_assembler" where
  "responses_for_tools tools =
     \<lparr>ra_text = [], ra_reasoning = [], ra_seq = 0, ra_usage = None, ra_reasoning_duration_ms = None,
      ra_failed = None, ra_saw_terminal = False, ra_tools = [], ra_tool_indexes = [],
      ra_tool_names = tool_name_table tools\<rparr>"

definition nonempty_keys :: "string option \<Rightarrow> string option \<Rightarrow> string list" where
  "nonempty_keys item_id call_id =
    (case item_id of None \<Rightarrow> [] | Some i \<Rightarrow> if i = [] then [] else [i]) @
    (case call_id of None \<Rightarrow> [] | Some c \<Rightarrow> if c = [] then [] else [c])"

text \<open>The first key that has a slot, with the slot.\<close>

fun known_key :: "(string \<times> nat) list \<Rightarrow> string list \<Rightarrow> (string \<times> nat) option" where
  "known_key indexes [] = None"
| "known_key indexes (k # ks) =
     (case map_of indexes k of Some index \<Rightarrow> Some (k, index) | None \<Rightarrow> known_key indexes ks)"

definition or_insert :: "string \<Rightarrow> nat \<Rightarrow> (string \<times> nat) list \<Rightarrow> (string \<times> nat) list" where
  "or_insert k index indexes = (if map_of indexes k = None then (k, index) # indexes else indexes)"

definition ensure_tool ::
  "string option \<Rightarrow> string option \<Rightarrow> string option \<Rightarrow> responses_assembler \<Rightarrow> nat \<times> responses_assembler" where
  "ensure_tool item_id call_id name a =
    (let keys = nonempty_keys item_id call_id
     in case known_key (ra_tool_indexes a) keys of
       Some (key, index) \<Rightarrow>
         (let others = filter (\<lambda>k. k \<noteq> key) keys;
              t = ra_tools a ! index;
              t' = t\<lparr>rt_aliases := rt_aliases t @ others,
                     rt_name := (case name of None \<Rightarrow> rt_name t | Some n \<Rightarrow> n)\<rparr>
          in (index, a\<lparr>ra_tool_indexes := fold (\<lambda>k. or_insert k index) others (ra_tool_indexes a),
                       ra_tools := (ra_tools a)[index := t']\<rparr>))
     | None \<Rightarrow>
         (let index = length (ra_tools a);
              i = (case call_id of Some c \<Rightarrow> c | None \<Rightarrow>
                    (case item_id of Some x \<Rightarrow> x | None \<Rightarrow> ''call_'' @ string_of_nat index))
          in (index, a\<lparr>ra_tools := ra_tools a @
                [\<lparr>rt_id = i, rt_name = (case name of None \<Rightarrow> [] | Some n \<Rightarrow> n), rt_arguments = [],
                  rt_aliases = keys\<rparr>],
                ra_tool_indexes := fold (\<lambda>k indexes. (k, index) # indexes) keys (ra_tool_indexes a)\<rparr>)))"

definition merge_tool_item :: "json \<Rightarrow> responses_assembler \<Rightarrow> responses_assembler" where
  "merge_tool_item v a =
    (if str_at ''type'' v \<noteq> Some ''function_call'' then a
     else let call_id = str_at ''call_id'' v;
              (index, a1) = ensure_tool (str_at ''id'' v) call_id (str_at ''name'' v) a;
              t = ra_tools a1 ! index;
              t1 = (case call_id of None \<Rightarrow> t | Some c \<Rightarrow> t\<lparr>rt_id := c\<rparr>);
              t2 = (case str_at ''arguments'' v of None \<Rightarrow> t1 | Some args \<Rightarrow> t1\<lparr>rt_arguments := args\<rparr>)
          in a1\<lparr>ra_tools := (ra_tools a1)[index := t2]\<rparr>)"

definition output_item :: "json \<Rightarrow> responses_assembler \<Rightarrow> responses_assembler" where
  "output_item v = merge_tool_item (case json_get ''item'' v of None \<Rightarrow> v | Some item \<Rightarrow> item)"

definition output_items :: "json option \<Rightarrow> responses_assembler \<Rightarrow> responses_assembler" where
  "output_items v a =
    (case Option.bind v json_as_array of None \<Rightarrow> a | Some items \<Rightarrow> fold merge_tool_item items a)"

definition update_usage :: "json \<Rightarrow> responses_assembler \<Rightarrow> responses_assembler" where
  "update_usage v a =
    (let usage = (case json_get ''usage'' v of None \<Rightarrow> v | Some u \<Rightarrow> u);
         cache = u64_at_pointer ''input_tokens_details'' ''cached_tokens'' ''cached_tokens'' usage
     in if json_get ''input_tokens'' usage \<noteq> None \<or> json_get ''output_tokens'' usage \<noteq> None
        then a\<lparr>ra_usage := Some \<lparr>tu_input_tokens = u64_at ''input_tokens'' usage - cache,
                 tu_output_tokens = u64_at ''output_tokens'' usage, tu_cache_tokens = cache\<rparr>\<rparr>
        else a)"

definition responses_text_delta ::
  "string \<Rightarrow> json \<Rightarrow> responses_assembler \<Rightarrow> responses_assembler \<times> model_stream_event list" where
  "responses_text_delta attempt_id v a =
    (let delta = str_at_or_empty ''delta'' v
     in if delta = [] then (a, [])
        else (a\<lparr>ra_text := ra_text a @ delta, ra_seq := ra_seq a + 1\<rparr>,
              [EvDelta attempt_id (ra_seq a + 1) ChanText delta True None]))"

definition responses_reasoning_delta ::
  "(string \<Rightarrow> bool) \<Rightarrow> string \<Rightarrow> json \<Rightarrow> responses_assembler \<Rightarrow>
    responses_assembler \<times> model_stream_event list" where
  "responses_reasoning_delta upper attempt_id v a =
    (let delta = str_at_or_empty ''delta'' v
     in if delta = [] then (a, [])
        else (a\<lparr>ra_reasoning := append_reasoning_summary upper (ra_reasoning a) delta,
                ra_seq := ra_seq a + 1\<rparr>,
              [EvDelta attempt_id (ra_seq a + 1) ChanReasoningSummary delta True None]))"

definition function_arguments_delta ::
  "string \<Rightarrow> json \<Rightarrow> responses_assembler \<Rightarrow> responses_assembler \<times> model_stream_event list" where
  "function_arguments_delta attempt_id v a =
    (let delta = str_at_or_empty ''delta'' v;
         (index, a1) = ensure_tool (str_at ''item_id'' v) None None a;
         t = (ra_tools a1 ! index)\<lparr>rt_arguments := rt_arguments (ra_tools a1 ! index) @ delta\<rparr>
     in (a1\<lparr>ra_tools := (ra_tools a1)[index := t], ra_seq := ra_seq a1 + 1\<rparr>,
         [EvToolCallDelta attempt_id (ra_seq a1 + 1)
            \<lparr>td_index = as_u32 index, td_id = Some (rt_alias t), td_name = Some (rt_name t),
             td_arguments_delta = (if delta = [] then None else Some delta)\<rparr> True]))"

definition error_detail :: "json \<Rightarrow> string" where
  "error_detail v =
    (case Option.bind
        (case Option.bind (json_get ''error'' v) (json_get ''message'') of
           Some m \<Rightarrow> Some m
         | None \<Rightarrow> Option.bind (Option.bind (json_get ''response'' v) (json_get ''error'')) (json_get ''message''))
        json_as_str of
       Some s \<Rightarrow> s
     | None \<Rightarrow> (case str_at ''message'' v of Some s \<Rightarrow> s | None \<Rightarrow> ''Responses stream failed''))"

definition response_completed :: "json \<Rightarrow> responses_assembler \<Rightarrow> responses_assembler" where
  "response_completed v a =
    (case json_get ''response'' v of
       None \<Rightarrow> a\<lparr>ra_saw_terminal := True\<rparr>
     | Some response \<Rightarrow>
         output_items (json_get ''output'' response)
           (update_usage response (a\<lparr>ra_saw_terminal := True\<rparr>)))"

definition ingest_event ::
  "serde \<Rightarrow> (string \<Rightarrow> string) \<Rightarrow> (string \<Rightarrow> bool) \<Rightarrow> string \<Rightarrow> string \<Rightarrow> string \<Rightarrow>
    responses_assembler \<Rightarrow> string + (responses_assembler \<times> model_stream_event list)" where
  "ingest_event J txt upper attempt_id event_name data a =
    (if str_trim data = ''[DONE]'' then Inr (a\<lparr>ra_saw_terminal := True\<rparr>, [])
     else case json_from_str J data of
         None \<Rightarrow> Inl (''openai responses event json: '' @ txt data)
       | Some v \<Rightarrow>
           let name = (if event_name = [] then str_at_or_empty ''type'' v else event_name)
           in Inr
             (if name = ''response.output_text.delta'' then responses_text_delta attempt_id v a
              else if name = ''response.reasoning_summary_text.delta'' \<or>
                      name = ''response.reasoning_summary_text.done''
              then responses_reasoning_delta upper attempt_id v a
              else if name = ''response.function_call_arguments.delta''
              then function_arguments_delta attempt_id v a
              else if name = ''response.output_item.added'' \<or> name = ''response.output_item.done''
              then (output_item v a, [])
              else if name = ''response.completed'' then (response_completed v a, [])
              else if name = ''response.failed'' \<or> name = ''response.error''
              then (a\<lparr>ra_failed := Some (''PROVIDER_STREAM_FAILED'', error_detail v)\<rparr>,
                    [EvFailed attempt_id ''PROVIDER_STREAM_FAILED'' (error_detail v)])
              else (a, [])))"

text \<open>One call per id: of two calls with one id the longer arguments stay.\<close>

fun merge_call :: "completed_tool_call \<Rightarrow> completed_tool_call list \<Rightarrow> completed_tool_call list" where
  "merge_call call [] = [call]"
| "merge_call call (c # cs) =
     (if cc_id c = cc_id call then
        (if length (cc_arguments_json c) < length (cc_arguments_json call)
         then c\<lparr>cc_arguments_json := cc_arguments_json call\<rparr> else c) # cs
      else c # merge_call call cs)"

definition responses_call_of :: "responses_assembler \<Rightarrow> response_tool_call \<Rightarrow> completed_tool_call" where
  "responses_call_of a t =
     \<lparr>cc_id = rt_id t, cc_name = canonical_name (ra_tool_names a) (rt_name t),
      cc_arguments_json = args_or_empty (rt_arguments t)\<rparr>"

definition responses_calls :: "responses_assembler \<Rightarrow> completed_tool_call list" where
  "responses_calls a =
     fold (\<lambda>t. merge_call (responses_call_of a t)) (filter (\<lambda>t. rt_name t \<noteq> []) (ra_tools a)) []"

definition responses_finish :: "string \<Rightarrow> responses_assembler \<Rightarrow> model_stream_event" where
  "responses_finish attempt_id a =
    (if \<not> ra_saw_terminal a then truncated_stream_event attempt_id
     else EvCompleted
       \<lparr>co_attempt_id = attempt_id, co_usage = usage_or_none (ra_usage a), co_stop_reason = None,
        co_tool_calls = responses_calls a, co_text = ra_text a, co_reasoning = ra_reasoning a,
        co_reasoning_content = None, co_reasoning_duration_ms = ra_reasoning_duration_ms a\<rparr>)"

end
