(* ===== verification/Model_Registry.thy ===== *)
theory Model_Registry
  imports Project_Store Url_Crate Model_Stream
begin

text \<open>
  The models capability (\<open>crates/models/src/interface.rs\<close>): providers with their embedded models and
  sealed keys, the normalised models, the failover chains, the selection and the webhook secret of
  the automation, and the ledger of attempts and token usage. The URL crate, the cipher and the HTTP
  client of the probe are parameters.
\<close>

section \<open>Types\<close>

datatype attempt_type = AtNormal | AtRecoveryProbe | AtCompact

fun attempt_type_as_str :: "attempt_type \<Rightarrow> string" where
  "attempt_type_as_str AtNormal = ''normal''"
| "attempt_type_as_str AtRecoveryProbe = ''recovery_probe''"
| "attempt_type_as_str AtCompact = ''compact''"

datatype provider_kind = Anthropic | OpenaiChat | OpenaiResponses

datatype model_client = Supervisor

record embedded_model =
  em_display_name :: string
  em_upstream_model_id :: string
  em_supports_1m :: bool
  em_supports_images :: bool
  em_enabled :: bool

record provider_input =
  pi_client :: model_client
  pi_kind :: provider_kind
  pi_display_name :: string
  pi_base_url :: string
  pi_api_key :: "string option"
  pi_models :: "embedded_model list"
  pi_enabled :: bool

record provider_view =
  pv_id :: string
  pv_client :: model_client
  pv_kind :: provider_kind
  pv_display_name :: string
  pv_base_url :: string
  pv_api_key_is_set :: bool
  pv_api_key_fingerprint :: "string option"
  pv_api_key_preview :: "string option"
  pv_models :: "embedded_model list"
  pv_enabled :: bool
  pv_created_at :: int
  pv_updated_at :: int

record model_view =
  mv_id :: string
  mv_provider_id :: string
  mv_display_name :: string
  mv_upstream_model_id :: string
  mv_context_limit :: nat
  mv_supports_images :: bool
  mv_supports_tools :: bool
  mv_parameters :: json
  mv_enabled :: bool
  mv_created_at :: int
  mv_updated_at :: int

record resolved_model =
  rs_model_id :: string
  rs_provider_id :: string
  rs_display_name :: string
  rs_upstream_model_id :: string
  rs_context_limit :: nat
  rs_supports_images :: bool
  rs_supports_tools :: bool
  rs_parameters :: json

record model_preference =
  mp_model_id :: "string option"
  mp_provider_id :: "string option"
  mp_upstream_model_id :: "string option"

record failover_view =
  fv_primary_model_id :: string
  fv_candidates :: "string list"

datatype models_error =
    MdValidation string
  | MdProviderNotFound
  | MdStorage
  | MdData
  | MdInternal string
  | MdValueAccess string

definition to_view :: "embedded_model \<Rightarrow> embedded_model" where
  "to_view m = m\<lparr>em_display_name := str_trim (em_display_name m),
     em_upstream_model_id := str_trim (em_upstream_model_id m)\<rparr>"

section \<open>State\<close>

record provider_row =
  pr_id :: string
  pr_owner_id :: string
  pr_client :: string
  pr_kind :: string
  pr_display_name :: string
  pr_base_url :: string
  pr_api_key_ciphertext :: "string option"
  pr_api_key_fingerprint :: "string option"
  pr_api_key_preview :: "string option"
  pr_models_json :: string
  pr_enabled :: bool
  pr_created_at :: int
  pr_updated_at :: int

record model_row =
  mo_id :: string
  mo_provider_id :: string
  mo_display_name :: string
  mo_upstream_model_id :: string
  mo_context_limit :: int
  mo_supports_images :: bool
  mo_supports_tools :: bool
  mo_parameters_json :: string
  mo_enabled :: bool
  mo_created_at :: int
  mo_updated_at :: int

record failover_row =
  fo_primary_model_id :: string
  fo_candidate_model_id :: string
  fo_ordinal :: int
  fo_created_at :: int

record model_attempt_row =
  at_id :: string
  at_round_id :: string
  at_candidate_order :: int
  at_attempt_number :: int
  at_provider_id :: string
  at_upstream_model_id :: string
  at_attempt_type :: string
  at_status :: string
  at_created_at :: int
  at_ended_at :: "int option"
  at_input_tokens :: "int option"
  at_output_tokens :: "int option"
  at_normalized_error_json :: "string option"

record ledger_row =
  lg_id :: string
  lg_attempt_id :: string
  lg_project_id :: string
  lg_session_id :: string
  lg_turn_id :: string
  lg_round_id :: string
  lg_provider_id :: string
  lg_upstream_model_id :: string
  lg_input_tokens :: int
  lg_output_tokens :: int
  lg_cache_tokens :: int
  lg_attempt_result :: string
  lg_occurred_at :: int

record automation_setting =
  as_owner_id :: string
  as_model_provider_id :: "string option"
  as_model_upstream_id :: "string option"
  as_updated_at :: int

record webhook_secret_row =
  ws_ciphertext :: string
  ws_fingerprint :: string
  ws_created_at :: int
  ws_updated_at :: int

record models_db = event_db +
  model_providers :: "provider_row list"
  models :: "model_row list"
  model_failover :: "failover_row list"
  model_attempts :: "model_attempt_row list"
  model_usage_ledger :: "ledger_row list"
  automation_settings :: "automation_setting list"
  automation_webhook_secret_row :: "webhook_secret_row option"

text \<open>The unique indexes, which every write must keep.\<close>

definition providers_indexed :: "provider_row list \<Rightarrow> bool" where
  "providers_indexed ps \<longleftrightarrow> distinct (map pr_id ps) \<and>
     distinct (map (\<lambda>p. (pr_owner_id p, pr_client p, pr_display_name p)) ps)"

definition models_indexed :: "model_row list \<Rightarrow> bool" where
  "models_indexed ms \<longleftrightarrow> distinct (map mo_id ms) \<and>
     distinct (map (\<lambda>m. (mo_provider_id m, mo_display_name m)) ms) \<and>
     distinct (map (\<lambda>m. (mo_provider_id m, mo_upstream_model_id m)) ms)"

definition failover_indexed :: "failover_row list \<Rightarrow> bool" where
  "failover_indexed fs \<longleftrightarrow>
     distinct (map (\<lambda>f. (fo_primary_model_id f, fo_candidate_model_id f)) fs) \<and>
     distinct (map (\<lambda>f. (fo_primary_model_id f, fo_ordinal f)) fs)"

section \<open>Names, keys and addresses\<close>

fun client_str :: "model_client \<Rightarrow> string" where
  "client_str Supervisor = ''supervisor''"

definition parse_client :: "string \<Rightarrow> models_error + model_client" where
  "parse_client s =
    (if s = ''supervisor'' then Inr Supervisor else Inl (MdValidation ''unknown model client''))"

fun provider_kind_str :: "provider_kind \<Rightarrow> string" where
  "provider_kind_str Anthropic = ''anthropic''"
| "provider_kind_str OpenaiChat = ''openai_chat''"
| "provider_kind_str OpenaiResponses = ''openai_responses''"

definition parse_provider_kind :: "string \<Rightarrow> models_error + provider_kind" where
  "parse_provider_kind s =
    (if s = ''anthropic'' then Inr Anthropic
     else if s = ''openai_chat'' then Inr OpenaiChat
     else if s = ''openai_responses'' then Inr OpenaiResponses
     else Inl (MdValidation ''unknown provider kind''))"

definition trim_slashes :: "string \<Rightarrow> string" where
  "trim_slashes s = rev (dropWhile (\<lambda>c. c = CHR ''/'') (rev s))"

fun scheme_end :: "string \<Rightarrow> nat option" where
  "scheme_end [] = None"
| "scheme_end (c # s) =
     (if take 3 (c # s) = ''://'' then Some 0 else map_option Suc (scheme_end s))"

function pop_slashes :: "nat \<Rightarrow> string \<Rightarrow> string" where
  "pop_slashes n s =
     (if n < length s \<and> last s = CHR ''/'' then pop_slashes n (butlast s) else s)"
  by auto
termination by (relation "measure (\<lambda>(n, s). length s)") auto

declare pop_slashes.simps [simp del]

definition normalize_base_url ::
  "'u url_crate \<Rightarrow> provider_kind \<Rightarrow> string \<Rightarrow> models_error + string" where
  "normalize_base_url L kind v =
    (case uc_parse L (str_trim v) of
       None \<Rightarrow> Inl (MdValidation ''base_url must be an absolute URL'')
     | Some url \<Rightarrow>
         if uc_scheme L url \<notin> {''http'', ''https''} \<or> uc_host_str L url = None
         then Inl (MdValidation ''base_url must use http or https'')
         else
           let url1 = uc_drop_fragment L (uc_drop_query L url);
               path0 = trim_slashes (uc_path L url1);
               path = (if kind \<noteq> Anthropic \<and> path0 = [] then ''/v1'' else path0);
               serialized = uc_to_string L (uc_set_path L (if path = [] then ''/'' else path) url1)
           in Inr (case scheme_end serialized of
                     None \<Rightarrow> serialized | Some n \<Rightarrow> pop_slashes (n + 3) serialized))"

definition probe_url :: "'u url_crate \<Rightarrow> string \<Rightarrow> string \<Rightarrow> models_error + string" where
  "probe_url L base segment =
    (case uc_parse L base of
       None \<Rightarrow> Inl (MdValidation ''base_url is invalid'')
     | Some url \<Rightarrow>
         let base_path = trim_slashes (uc_path L url);
             next = (if base_path = [] \<or> base_path = ''/'' then ''/'' @ segment
                     else base_path @ ''/'' @ segment)
         in Inr (uc_to_string L (uc_set_path L next url)))"

definition key_aad :: "string \<Rightarrow> string \<Rightarrow> string" where
  "key_aad owner i = ''v1/'' @ owner @ ''/model_providers/'' @ i @ ''/api_key''"

definition mask_key :: "string \<Rightarrow> string" where
  "mask_key v =
    (let chars = utf8_chars (str_trim v); n = length chars
     in if n \<le> 8 then replicate n (CHR ''*'')
        else concat (take 4 chars) @ replicate 8 (CHR ''*'') @ concat (drop (n - 4) chars))"

definition encrypt_key ::
  "secret_cipher \<Rightarrow> string \<Rightarrow> string \<Rightarrow> string option \<Rightarrow>
    models_error + (string option \<times> string option \<times> string option)" where
  "encrypt_key K owner i key =
    (case key of
       None \<Rightarrow> Inr (None, None, None)
     | Some v \<Rightarrow>
         if str_trim v = [] then Inl (MdValidation ''api_key cannot be empty'')
         else case sc_encrypt K v (key_aad owner i) of
             Inl _ \<Rightarrow> Inl (MdInternal ''encrypt secret'')
           | Inr c \<Rightarrow> Inr (Some c, Some (sc_fingerprint K v), Some (mask_key v)))"

section \<open>Validation\<close>

definition validate_provider :: "'u url_crate \<Rightarrow> provider_input \<Rightarrow> models_error + unit" where
  "validate_provider L input =
    (if str_trim (pi_display_name input) = [] then Inl (MdValidation ''display_name is required'')
     else and_then (normalize_base_url L (pi_kind input) (pi_base_url input)) (\<lambda>_. Inr ()))"

primrec validate_models_from ::
  "bool \<Rightarrow> string list \<Rightarrow> embedded_model list \<Rightarrow> models_error + unit" where
  "validate_models_from enabled names [] = Inr ()"
| "validate_models_from enabled names (m # ms) =
    (if str_trim (em_display_name m) = [] \<or> str_trim (em_upstream_model_id m) = []
     then Inl (MdValidation ''each model needs a display name and an upstream model ID'')
     else if \<not> enabled \<and> em_enabled m
     then Inl (MdValidation ''an enabled model requires an enabled provider'')
     else if str_trim (em_display_name m) \<in> set names
     then Inl (MdValidation ''model display names must be unique within a provider'')
     else validate_models_from enabled (str_trim (em_display_name m) # names) ms)"

definition validate_models :: "provider_input \<Rightarrow> models_error + unit" where
  "validate_models input = validate_models_from (pi_enabled input) [] (pi_models input)"

section \<open>Views\<close>

definition model_to_json :: "embedded_model \<Rightarrow> json" where
  "model_to_json m = JObj
     [(''display_name'', JStr (em_display_name m)), (''upstream_model_id'', JStr (em_upstream_model_id m)),
      (''supports_1m'', JBool (em_supports_1m m)), (''supports_images'', JBool (em_supports_images m)),
      (''enabled'', JBool (em_enabled m))]"

fun json_as_bool :: "json \<Rightarrow> bool option" where
  "json_as_bool (JBool b) = Some b"
| "json_as_bool _ = None"

definition model_of_values :: "json option list \<Rightarrow> embedded_model option" where
  "model_of_values vs =
    (if length vs \<noteq> 5 then None
     else Option.bind (Option.bind (vs ! 0) json_as_str) (\<lambda>d.
       Option.bind (Option.bind (vs ! 1) json_as_str) (\<lambda>u.
       Option.bind (Option.bind (vs ! 2) json_as_bool) (\<lambda>l.
       Option.bind (Option.bind (vs ! 3) json_as_bool) (\<lambda>i.
       Option.bind (Option.bind (vs ! 4) json_as_bool) (\<lambda>e.
         Some \<lparr>em_display_name = d, em_upstream_model_id = u, em_supports_1m = l,
               em_supports_images = i, em_enabled = e\<rparr>))))))"

definition model_keys :: "string list" where
  "model_keys = [''display_name'', ''upstream_model_id'', ''supports_1m'', ''supports_images'', ''enabled'']"

fun model_from_json :: "json \<Rightarrow> embedded_model option" where
  "model_from_json (JObj kvs) =
     (if distinct (filter (\<lambda>k. k \<in> set model_keys) (map fst kvs))
      then model_of_values (map (map_of kvs) model_keys) else None)"
| "model_from_json (JArr vs) = model_of_values (map Some vs)"
| "model_from_json _ = None"

definition models_from_json :: "serde \<Rightarrow> string \<Rightarrow> models_error + embedded_model list" where
  "models_from_json J s =
    and_then (ok_or MdData (Option.bind (json_from_str J s) json_as_array))
      (try_map (\<lambda>v. ok_or MdData (model_from_json v)))"

definition provider_view_of :: "serde \<Rightarrow> provider_row \<Rightarrow> models_error + provider_view" where
  "provider_view_of J row =
    and_then (models_from_json J (pr_models_json row)) (\<lambda>ms.
    and_then (parse_client (pr_client row)) (\<lambda>client.
    and_then (parse_provider_kind (pr_kind row)) (\<lambda>kind.
      Inr \<lparr>pv_id = pr_id row, pv_client = client, pv_kind = kind, pv_display_name = pr_display_name row,
           pv_base_url = pr_base_url row, pv_api_key_is_set = (pr_api_key_ciphertext row \<noteq> None),
           pv_api_key_fingerprint = pr_api_key_fingerprint row,
           pv_api_key_preview = pr_api_key_preview row, pv_models = ms, pv_enabled = pr_enabled row,
           pv_created_at = pr_created_at row, pv_updated_at = pr_updated_at row\<rparr>)))"

definition context_limit_of :: "model_row \<Rightarrow> models_error + nat" where
  "context_limit_of row =
    (if 0 \<le> mo_context_limit row \<and> mo_context_limit row < 2 ^ 32 then Inr (nat (mo_context_limit row))
     else Inl (MdValidation ''invalid stored context limit''))"

definition model_view_of :: "serde \<Rightarrow> model_row \<Rightarrow> models_error + model_view" where
  "model_view_of J row =
    and_then (context_limit_of row) (\<lambda>limit.
    and_then (ok_or MdData (json_from_str J (mo_parameters_json row))) (\<lambda>parameters.
      Inr \<lparr>mv_id = mo_id row, mv_provider_id = mo_provider_id row, mv_display_name = mo_display_name row,
           mv_upstream_model_id = mo_upstream_model_id row, mv_context_limit = limit,
           mv_supports_images = mo_supports_images row, mv_supports_tools = mo_supports_tools row,
           mv_parameters = parameters, mv_enabled = mo_enabled row, mv_created_at = mo_created_at row,
           mv_updated_at = mo_updated_at row\<rparr>))"

definition resolved_model_of :: "serde \<Rightarrow> model_row \<Rightarrow> models_error + resolved_model" where
  "resolved_model_of J row =
    and_then (context_limit_of row) (\<lambda>limit.
    and_then (ok_or MdData (json_from_str J (mo_parameters_json row))) (\<lambda>parameters.
      Inr \<lparr>rs_model_id = mo_id row, rs_provider_id = mo_provider_id row, rs_display_name = mo_display_name row,
           rs_upstream_model_id = mo_upstream_model_id row, rs_context_limit = limit,
           rs_supports_images = mo_supports_images row, rs_supports_tools = mo_supports_tools row,
           rs_parameters = parameters\<rparr>))"

section \<open>Reading\<close>

definition provider_row_of ::
  "string \<Rightarrow> string \<Rightarrow> 'x models_db_scheme \<Rightarrow> models_error + provider_row" where
  "provider_row_of owner i db =
     ok_or MdProviderNotFound (find_one (\<lambda>p. pr_id p = i \<and> pr_owner_id p = owner) (model_providers db))"

definition provider ::
  "serde \<Rightarrow> string \<Rightarrow> string \<Rightarrow> 'x models_db_scheme \<Rightarrow> models_error + provider_view" where
  "provider J owner i db = and_then (provider_row_of owner i db) (provider_view_of J)"

definition providers ::
  "serde \<Rightarrow> string \<Rightarrow> 'x models_db_scheme \<Rightarrow> models_error + provider_view list" where
  "providers J owner db =
     try_map (provider_view_of J)
       (sort_key (\<lambda>p. (pr_display_name p, pr_id p))
         (filter (\<lambda>p. pr_owner_id p = owner) (model_providers db)))"

text \<open>The models of some providers, ordered by the provider's name, their own and their id.\<close>

definition provider_name :: "provider_row list \<Rightarrow> string \<Rightarrow> string" where
  "provider_name ps i =
    (case find_one (\<lambda>p. pr_id p = i) ps of None \<Rightarrow> [] | Some p \<Rightarrow> pr_display_name p)"

definition sort_models :: "provider_row list \<Rightarrow> model_row list \<Rightarrow> model_row list" where
  "sort_models ps = sort_key (\<lambda>m. (provider_name ps (mo_provider_id m), mo_display_name m, mo_id m))"

definition models_of_owner ::
  "serde \<Rightarrow> string \<Rightarrow> 'x models_db_scheme \<Rightarrow> models_error + model_view list" where
  "models_of_owner J owner db =
    (let ps = filter (\<lambda>p. pr_owner_id p = owner) (model_providers db)
     in if ps = [] then Inr []
        else try_map (model_view_of J)
          (sort_models ps (filter (\<lambda>m. mo_provider_id m \<in> pr_id ` set ps) (models db))))"

definition resolve_models_in_tx ::
  "serde \<Rightarrow> (provider_row \<Rightarrow> bool) \<Rightarrow> (model_row \<Rightarrow> bool) \<Rightarrow> 'x models_db_scheme \<Rightarrow>
    models_error + resolved_model list" where
  "resolve_models_in_tx J provider_filter model_filter db =
    (let ps = filter provider_filter (model_providers db)
     in if ps = [] then Inr []
        else try_map (resolved_model_of J)
          (sort_models ps (filter (\<lambda>m. mo_provider_id m \<in> pr_id ` set ps \<and> mo_enabled m \<and> model_filter m)
            (models db))))"

definition supervisor_provider :: "string \<Rightarrow> provider_row \<Rightarrow> bool" where
  "supervisor_provider owner p \<longleftrightarrow>
     pr_owner_id p = owner \<and> pr_client p = ''supervisor'' \<and> pr_enabled p"

definition first_model :: "models_error + resolved_model list \<Rightarrow> models_error + resolved_model option" where
  "first_model r = and_then r (\<lambda>ms. Inr (case ms of [] \<Rightarrow> None | m # _ \<Rightarrow> Some m))"

definition resolve_for_turn_in_tx ::
  "serde \<Rightarrow> string \<Rightarrow> model_preference \<Rightarrow> 'x models_db_scheme \<Rightarrow> models_error + resolved_model option" where
  "resolve_for_turn_in_tx J owner pref db = first_model
    (case (mp_provider_id pref, mp_upstream_model_id pref) of
       (Some p, Some u) \<Rightarrow>
         resolve_models_in_tx J (\<lambda>r. pr_id r = p \<and> supervisor_provider owner r)
           (\<lambda>m. mo_upstream_model_id m = u) db
     | _ \<Rightarrow>
         (case mp_model_id pref of
            Some i \<Rightarrow> resolve_models_in_tx J (supervisor_provider owner) (\<lambda>m. mo_id m = i) db
          | None \<Rightarrow> resolve_models_in_tx J (supervisor_provider owner) (\<lambda>_. True) db))"

definition resolve_model_id_in_tx ::
  "serde \<Rightarrow> string \<Rightarrow> string \<Rightarrow> 'x models_db_scheme \<Rightarrow> models_error + resolved_model option" where
  "resolve_model_id_in_tx J owner i db =
     first_model (resolve_models_in_tx J (supervisor_provider owner) (\<lambda>m. mo_id m = i) db)"

definition failover_chain :: "string \<Rightarrow> 'x models_db_scheme \<Rightarrow> string list" where
  "failover_chain primary db = map fo_candidate_model_id
     (sort_key fo_ordinal (filter (\<lambda>f. fo_primary_model_id f = primary) (model_failover db)))"

definition failover_candidates_in_tx ::
  "serde \<Rightarrow> string \<Rightarrow> string \<Rightarrow> 'x models_db_scheme \<Rightarrow> models_error + resolved_model list" where
  "failover_candidates_in_tx J owner primary db =
    and_then (try_map (\<lambda>i. resolve_model_id_in_tx J owner i db) (failover_chain primary db))
      (\<lambda>ms. Inr (concat (map (\<lambda>m. case m of None \<Rightarrow> [] | Some x \<Rightarrow> [x]) ms)))"

definition provider_kind_in_tx ::
  "string \<Rightarrow> 'x models_db_scheme \<Rightarrow> models_error + provider_kind" where
  "provider_kind_in_tx i db =
    and_then (ok_or MdProviderNotFound
        (find_one (\<lambda>p. pr_id p = i \<and> pr_enabled p) (model_providers db)))
      (\<lambda>p. parse_provider_kind (pr_kind p))"

section \<open>The automation's selection and secret\<close>

definition automation_model_selection ::
  "string \<Rightarrow> 'x models_db_scheme \<Rightarrow> (string option \<times> string option) option" where
  "automation_model_selection owner db =
     map_option (\<lambda>a. (as_model_provider_id a, as_model_upstream_id a))
       (find_one (\<lambda>a. as_owner_id a = owner) (automation_settings db))"

definition set_automation_model_selection ::
  "string \<Rightarrow> string option \<Rightarrow> string option \<Rightarrow> int \<Rightarrow> 'x models_db_scheme \<Rightarrow> 'x models_db_scheme" where
  "set_automation_model_selection owner p u now db =
     db\<lparr>automation_settings := replace_one as_owner_id
       \<lparr>as_owner_id = owner, as_model_provider_id = p, as_model_upstream_id = u, as_updated_at = now\<rparr>
       (automation_settings db)\<rparr>"

definition WEBHOOK_SECRET_AAD :: string where "WEBHOOK_SECRET_AAD = ''v1/automation-webhook-secret''"

definition automation_webhook_secret ::
  "secret_cipher \<Rightarrow> 'x models_db_scheme \<Rightarrow> models_error + string option" where
  "automation_webhook_secret K db =
    (case automation_webhook_secret_row db of
       None \<Rightarrow> Inr None
     | Some row \<Rightarrow>
         (case sc_decrypt K (ws_ciphertext row) WEBHOOK_SECRET_AAD of
            Inl _ \<Rightarrow> Inl (MdInternal ''decrypt secret'') | Inr s \<Rightarrow> Inr (Some s)))"

definition rotate_automation_webhook_secret ::
  "secret_cipher \<Rightarrow> string \<Rightarrow> int \<Rightarrow> 'x models_db_scheme \<Rightarrow> (models_error + string) \<times> 'x models_db_scheme" where
  "rotate_automation_webhook_secret K secret now db =
    (case sc_encrypt K secret WEBHOOK_SECRET_AAD of
       Inl _ \<Rightarrow> (Inl (MdInternal ''encrypt secret''), db)
     | Inr c \<Rightarrow>
         (Inr secret, db\<lparr>automation_webhook_secret_row := Some
            \<lparr>ws_ciphertext = c, ws_fingerprint = sc_fingerprint K secret,
             ws_created_at = (case automation_webhook_secret_row db of
                None \<Rightarrow> now | Some row \<Rightarrow> ws_created_at row),
             ws_updated_at = now\<rparr>\<rparr>))"

section \<open>Changing providers\<close>

definition append_config_changed_in_tx ::
  "serde \<Rightarrow> string \<times> int \<Rightarrow> string \<Rightarrow> string \<Rightarrow> string \<Rightarrow> string \<Rightarrow> string \<Rightarrow> 'x models_db_scheme \<Rightarrow>
    models_error + (unit \<times> 'x models_db_scheme)" where
  "append_config_changed_in_tx J ev owner resource_id resource_kind operation correlation_id db =
    (case append_in_tx J (fst ev) (snd ev)
       \<lparr>ne_type = ModelConfigChanged, ne_actor = resource_json ''owner'' owner,
        ne_resource = Some (resource_json resource_kind resource_id),
        ne_correlation_id = correlation_id, ne_causation_id = None,
        ne_payload = JObj [(''operation'', JStr operation)]\<rparr> db of
       Inl _ \<Rightarrow> Inl (MdInternal ''append event'') | Inr (_, db') \<Rightarrow> Inr ((), db'))"

text \<open>
  The normalised models of a provider follow its embedded ones: an input takes the row with its
  upstream id or else the row with its name, as they were before the change, and rows no input took
  are deleted. \<open>new_id n\<close> is the id drawn for the input at position \<open>n\<close> when it took no row.
\<close>

definition matching_model :: "model_row list \<Rightarrow> embedded_model \<Rightarrow> string option" where
  "matching_model existing input =
    (case find_one (\<lambda>m. mo_upstream_model_id m = str_trim (em_upstream_model_id input)) existing of
       Some m \<Rightarrow> Some (mo_id m)
     | None \<Rightarrow> map_option mo_id
         (find_one (\<lambda>m. mo_display_name m = str_trim (em_display_name input)) existing))"

definition synced_model :: "embedded_model \<Rightarrow> int \<Rightarrow> model_row \<Rightarrow> model_row" where
  "synced_model input now m =
     m\<lparr>mo_display_name := str_trim (em_display_name input),
       mo_upstream_model_id := str_trim (em_upstream_model_id input),
       mo_context_limit := (if em_supports_1m input then 1000000 else 200000),
       mo_supports_images := em_supports_images input, mo_enabled := em_enabled input,
       mo_updated_at := now\<rparr>"

definition upsert_model ::
  "string \<Rightarrow> string \<Rightarrow> embedded_model \<Rightarrow> int \<Rightarrow> model_row list \<Rightarrow> models_error + model_row list" where
  "upsert_model provider_id i input now ms =
    (let blank = \<lparr>mo_id = i, mo_provider_id = provider_id, mo_display_name = [], mo_upstream_model_id = [],
           mo_context_limit = 0, mo_supports_images = False, mo_supports_tools = True,
           mo_parameters_json = ''{}'', mo_enabled = False, mo_created_at = now, mo_updated_at = now\<rparr>;
         ms' = (if i \<in> mo_id ` set ms
                then fst (update_one (\<lambda>m. mo_id m = i) (synced_model input now) ms)
                else ms @ [synced_model input now blank])
     in if models_indexed ms' then Inr ms' else Inl MdStorage)"

primrec sync_inputs ::
  "(nat \<Rightarrow> string) \<Rightarrow> string \<Rightarrow> int \<Rightarrow> model_row list \<Rightarrow> nat \<Rightarrow> embedded_model list \<Rightarrow>
    string list \<Rightarrow> model_row list \<Rightarrow> models_error + (string list \<times> model_row list)" where
  "sync_inputs new_id provider_id now existing n [] retained ms = Inr (retained, ms)"
| "sync_inputs new_id provider_id now existing n (input # inputs) retained ms =
    (let i = (case matching_model existing input of Some i \<Rightarrow> i | None \<Rightarrow> new_id n)
     in and_then (upsert_model provider_id i input now ms) (\<lambda>ms'.
          sync_inputs new_id provider_id now existing (Suc n) inputs (i # retained) ms'))"

definition sync_normalized_models ::
  "(nat \<Rightarrow> string) \<Rightarrow> string \<Rightarrow> embedded_model list \<Rightarrow> int \<Rightarrow> 'x models_db_scheme \<Rightarrow>
    models_error + (unit \<times> 'x models_db_scheme)" where
  "sync_normalized_models new_id provider_id inputs now db =
    (let existing = filter (\<lambda>m. mo_provider_id m = provider_id) (models db)
     in and_then (sync_inputs new_id provider_id now existing 0 inputs [] (models db)) (\<lambda>(retained, ms).
          Inr ((), db\<lparr>models := filter (\<lambda>m. \<not> (mo_id m \<in> mo_id ` set existing \<and> mo_id m \<notin> set retained)) ms\<rparr>)))"

definition ensure_provider_name_available ::
  "string \<Rightarrow> model_client \<Rightarrow> string \<Rightarrow> string option \<Rightarrow> 'x models_db_scheme \<Rightarrow> models_error + unit" where
  "ensure_provider_name_available owner client display_name excluded db =
    (if find_one (\<lambda>p. pr_owner_id p = owner \<and> pr_client p = client_str client \<and>
           pr_display_name p = str_trim display_name \<and> excluded \<noteq> Some (pr_id p)) (model_providers db) \<noteq> None
     then Inl (MdValidation ''provider display names must be unique for each client'') else Inr ())"

record provider_gen =
  vg_id :: string
  vg_now :: int
  vg_model_id :: "nat \<Rightarrow> string"
  vg_event :: "string \<times> int"

definition embedded_json :: "serde \<Rightarrow> provider_input \<Rightarrow> string" where
  "embedded_json J input = json_to_string J (JArr (map (model_to_json \<circ> to_view) (pi_models input)))"

text \<open>The write of a provider row with its models and its event, in one transaction.\<close>

definition write_provider_tx ::
  "serde \<Rightarrow> provider_gen \<Rightarrow> string \<Rightarrow> string \<Rightarrow> provider_input \<Rightarrow> string \<Rightarrow> string \<Rightarrow>
    provider_row list \<times> nat \<Rightarrow> 'x models_db_scheme \<Rightarrow> models_error + (unit \<times> 'x models_db_scheme)" where
  "write_provider_tx J g owner i input operation correlation_id written db =
    (if \<not> providers_indexed (fst written) then Inl MdStorage
     else if snd written = 0 then Inl MdProviderNotFound
     else and_then (sync_normalized_models (vg_model_id g) i (pi_models input) (vg_now g)
            (db\<lparr>model_providers := fst written\<rparr>)) (\<lambda>(_, db1).
          append_config_changed_in_tx J (vg_event g) owner i ''provider'' operation correlation_id db1))"

definition create_provider ::
  "serde \<Rightarrow> secret_cipher \<Rightarrow> 'u url_crate \<Rightarrow> provider_gen \<Rightarrow> string \<Rightarrow> provider_input \<Rightarrow> string \<Rightarrow>
    'x models_db_scheme \<Rightarrow> (models_error + provider_view) \<times> 'x models_db_scheme" where
  "create_provider J K L g owner input correlation_id db =
    and_run (validate_provider L input, db) (\<lambda>_ db.
    and_run (validate_models input, db) (\<lambda>_ db.
    and_run (ensure_provider_name_available owner (pi_client input) (pi_display_name input) None db, db) (\<lambda>_ db.
    and_run (encrypt_key K owner (vg_id g) (pi_api_key input), db) (\<lambda>(ciphertext, fp, preview) db.
    and_run (normalize_base_url L (pi_kind input) (pi_base_url input), db) (\<lambda>base_url db.
    and_run (run_tx (\<lambda>db. write_provider_tx J g owner (vg_id g) input ''created'' correlation_id
        (model_providers db @
          [\<lparr>pr_id = vg_id g, pr_owner_id = owner, pr_client = client_str (pi_client input),
            pr_kind = provider_kind_str (pi_kind input), pr_display_name = str_trim (pi_display_name input),
            pr_base_url = base_url, pr_api_key_ciphertext = ciphertext, pr_api_key_fingerprint = fp,
            pr_api_key_preview = preview, pr_models_json = embedded_json J input,
            pr_enabled = pi_enabled input, pr_created_at = vg_now g, pr_updated_at = vg_now g\<rparr>], 1) db) db)
      (\<lambda>_ db. (provider J owner (vg_id g) db, db)))))))"

definition update_provider ::
  "serde \<Rightarrow> secret_cipher \<Rightarrow> 'u url_crate \<Rightarrow> provider_gen \<Rightarrow> string \<Rightarrow> string \<Rightarrow> provider_input \<Rightarrow> string \<Rightarrow>
    'x models_db_scheme \<Rightarrow> (models_error + provider_view) \<times> 'x models_db_scheme" where
  "update_provider J K L g owner i input correlation_id db =
    and_run (validate_provider L input, db) (\<lambda>_ db.
    and_run (validate_models input, db) (\<lambda>_ db.
    and_run (provider_row_of owner i db, db) (\<lambda>existing db.
    and_run (ensure_provider_name_available owner (pi_client input) (pi_display_name input) (Some i) db, db) (\<lambda>_ db.
    and_run (case pi_api_key input of
          Some key \<Rightarrow> encrypt_key K owner i (Some key)
        | None \<Rightarrow> Inr (pr_api_key_ciphertext existing, pr_api_key_fingerprint existing,
                    pr_api_key_preview existing), db) (\<lambda>(ciphertext, fp, preview) db.
    and_run (normalize_base_url L (pi_kind input) (pi_base_url input), db) (\<lambda>base_url db.
    and_run (run_tx (\<lambda>db. write_provider_tx J g owner i input ''updated'' correlation_id
        (update_one (\<lambda>p. pr_id p = i \<and> pr_owner_id p = owner)
          (\<lambda>p. p\<lparr>pr_client := client_str (pi_client input), pr_kind := provider_kind_str (pi_kind input),
                 pr_display_name := str_trim (pi_display_name input), pr_base_url := base_url,
                 pr_api_key_fingerprint := fp, pr_api_key_preview := preview,
                 pr_models_json := embedded_json J input, pr_enabled := pi_enabled input,
                 pr_updated_at := vg_now g, pr_api_key_ciphertext := ciphertext\<rparr>)
          (model_providers db)) db) db)
      (\<lambda>_ db. (provider J owner i db, db))))))))"

definition delete_provider_tx ::
  "serde \<Rightarrow> string \<times> int \<Rightarrow> string \<Rightarrow> string \<Rightarrow> string \<Rightarrow> 'x models_db_scheme \<Rightarrow>
    models_error + (unit \<times> 'x models_db_scheme)" where
  "delete_provider_tx J ev owner i correlation_id db =
    (let model_ids = map mo_id (filter (\<lambda>m. mo_provider_id m = i) (models db));
         (ps, deleted) = delete_one (\<lambda>p. pr_id p = i \<and> pr_owner_id p = owner) (model_providers db)
     in if deleted = 0 then Inl MdProviderNotFound
        else append_config_changed_in_tx J ev owner i ''provider'' ''deleted'' correlation_id
          (db\<lparr>model_providers := ps,
              models := filter (\<lambda>m. mo_provider_id m \<noteq> i) (models db),
              model_failover := filter (\<lambda>f. fo_primary_model_id f \<notin> set model_ids \<and>
                fo_candidate_model_id f \<notin> set model_ids) (model_failover db)\<rparr>))"

definition delete_provider ::
  "serde \<Rightarrow> string \<times> int \<Rightarrow> string \<Rightarrow> string \<Rightarrow> string \<Rightarrow> 'x models_db_scheme \<Rightarrow>
    (models_error + unit) \<times> 'x models_db_scheme" where
  "delete_provider J ev owner i correlation_id = run_tx (delete_provider_tx J ev owner i correlation_id)"

section \<open>Failover\<close>

definition failover_eligible :: "string \<Rightarrow> 'x models_db_scheme \<Rightarrow> string \<Rightarrow> models_error + unit" where
  "failover_eligible owner db i =
    (let refused = Inl (MdValidation ''every failover model must be enabled and owned by the current owner'')
     in case find_one (\<lambda>m. mo_id m = i \<and> mo_enabled m) (models db) of
          None \<Rightarrow> refused
        | Some m \<Rightarrow>
            if find_one (\<lambda>p. pr_id p = mo_provider_id m \<and> supervisor_provider owner p) (model_providers db) = None
            then refused else Inr ())"

definition set_failover_tx ::
  "serde \<Rightarrow> int \<Rightarrow> string \<times> int \<Rightarrow> string \<Rightarrow> string \<Rightarrow> string list \<Rightarrow> string \<Rightarrow> 'x models_db_scheme \<Rightarrow>
    models_error + (unit \<times> 'x models_db_scheme)" where
  "set_failover_tx J now ev owner primary candidates correlation_id db =
    (let rows = filter (\<lambda>f. fo_primary_model_id f \<noteq> primary) (model_failover db) @
         map (\<lambda>(n, c). \<lparr>fo_primary_model_id = primary, fo_candidate_model_id = c, fo_ordinal = int n,
           fo_created_at = now\<rparr>) (zip [0..<length candidates] candidates)
     in if \<not> failover_indexed rows then Inl MdStorage
        else append_config_changed_in_tx J ev owner primary ''model'' ''failover_updated'' correlation_id
          (db\<lparr>model_failover := rows\<rparr>))"

definition set_failover ::
  "serde \<Rightarrow> int \<Rightarrow> string \<times> int \<Rightarrow> string \<Rightarrow> string \<Rightarrow> string list \<Rightarrow> string \<Rightarrow> 'x models_db_scheme \<Rightarrow>
    (models_error + failover_view) \<times> 'x models_db_scheme" where
  "set_failover J now ev owner primary candidates correlation_id db =
    (if 2 < length candidates
     then (Inl (MdValidation ''a primary model supports at most two ordered fallback candidates''), db)
     else if primary \<in> set candidates \<or> \<not> distinct candidates
     then (Inl (MdValidation ''failover candidates must be unique and cannot contain the primary''), db)
     else and_run (try_map (failover_eligible owner db) (primary # candidates), db) (\<lambda>_ db.
       and_run (run_tx (set_failover_tx J now ev owner primary candidates correlation_id) db) (\<lambda>_ db.
         (Inr \<lparr>fv_primary_model_id = primary, fv_candidates = candidates\<rparr>, db))))"

definition failover ::
  "string \<Rightarrow> string \<Rightarrow> 'x models_db_scheme \<Rightarrow> models_error + failover_view" where
  "failover owner primary db =
    and_then (ok_or MdProviderNotFound (find_one (\<lambda>m. mo_id m = primary) (models db))) (\<lambda>m.
    and_then (ok_or MdProviderNotFound (find_one (\<lambda>p. pr_id p = mo_provider_id m \<and> pr_owner_id p = owner \<and>
        pr_client p = ''supervisor'') (model_providers db))) (\<lambda>_.
      Inr \<lparr>fv_primary_model_id = primary, fv_candidates = failover_chain primary db\<rparr>))"

section \<open>Attempts and usage\<close>

definition insert_attempt_running ::
  "string \<Rightarrow> string \<Rightarrow> string \<Rightarrow> string \<Rightarrow> int \<Rightarrow> attempt_type \<Rightarrow> int \<Rightarrow> 'x models_db_scheme \<Rightarrow>
    (models_error + unit) \<times> 'x models_db_scheme" where
  "insert_attempt_running attempt_id round_id provider_id upstream candidate_order ty created_at db =
    (let count = int (length (filter (\<lambda>a. at_round_id a = round_id \<and> at_candidate_order a = candidate_order)
           (model_attempts db)))
     in if I64_MAX < count then (Inl (MdInternal ''attempt count overflow''), db)
        else case insert_one at_id
            \<lparr>at_id = attempt_id, at_round_id = round_id, at_candidate_order = candidate_order,
             at_attempt_number = count, at_provider_id = provider_id, at_upstream_model_id = upstream,
             at_attempt_type = attempt_type_as_str ty, at_status = ''running'', at_created_at = created_at,
             at_ended_at = None, at_input_tokens = None, at_output_tokens = None,
             at_normalized_error_json = None\<rparr> (model_attempts db) of
          None \<Rightarrow> (Inl MdStorage, db)
        | Some rows \<Rightarrow> (Inr (), db\<lparr>model_attempts := rows\<rparr>))"

record attempt_finalization =
  fz_status :: string
  fz_input_tokens :: "int option"
  fz_output_tokens :: "int option"
  fz_cache_tokens :: "int option"
  fz_error_json :: "json option"

definition ledger_entry ::
  "string \<Rightarrow> int \<Rightarrow> string \<Rightarrow> attempt_finalization \<Rightarrow> model_request \<Rightarrow> ledger_row option" where
  "ledger_entry ledger_id ended attempt_id fz req =
    Option.bind (fz_input_tokens fz) (\<lambda>inp.
    Option.bind (fz_output_tokens fz) (\<lambda>out.
    Option.bind (mr_project_id req) (\<lambda>p.
    Option.bind (mr_session_id req) (\<lambda>s.
    Option.bind (mr_turn_id req) (\<lambda>t.
    Option.bind (mr_round_id req) (\<lambda>r.
      Some \<lparr>lg_id = ledger_id, lg_attempt_id = attempt_id, lg_project_id = p, lg_session_id = s,
            lg_turn_id = t, lg_round_id = r, lg_provider_id = mr_provider_id req,
            lg_upstream_model_id = mr_upstream_model_id req, lg_input_tokens = inp,
            lg_output_tokens = out,
            lg_cache_tokens = (case fz_cache_tokens fz of None \<Rightarrow> 0 | Some c \<Rightarrow> c),
            lg_attempt_result = fz_status fz, lg_occurred_at = ended\<rparr>))))))"

definition settled_attempt :: "serde \<Rightarrow> int \<Rightarrow> attempt_finalization \<Rightarrow> model_attempt_row \<Rightarrow> model_attempt_row" where
  "settled_attempt J ended fz a =
     a\<lparr>at_status := fz_status fz, at_ended_at := Some ended, at_input_tokens := fz_input_tokens fz,
       at_output_tokens := fz_output_tokens fz,
       at_normalized_error_json := map_option (json_to_string J) (fz_error_json fz)\<rparr>"

definition finalize_attempt_tx ::
  "serde \<Rightarrow> int \<Rightarrow> string \<Rightarrow> string \<Rightarrow> attempt_finalization \<Rightarrow> model_request \<Rightarrow> 'x models_db_scheme \<Rightarrow>
    models_error + (unit \<times> 'x models_db_scheme)" where
  "finalize_attempt_tx J ended ledger_id attempt_id fz req db =
    (let (rows, changed) = update_one (\<lambda>a. at_id a = attempt_id \<and> at_status a = ''running'')
           (settled_attempt J ended fz) (model_attempts db);
         db1 = db\<lparr>model_attempts := rows\<rparr>
     in if changed = 1 then
          (case ledger_entry ledger_id ended attempt_id fz req of
             None \<Rightarrow> Inr ((), db1)
           | Some entry \<Rightarrow>
               (case insert_one lg_id entry (model_usage_ledger db1) of
                  None \<Rightarrow> Inl MdStorage
                | Some ls \<Rightarrow> Inr ((), db1\<lparr>model_usage_ledger := ls\<rparr>)))
        else Inr ((), db1))"

definition finalize_attempt ::
  "serde \<Rightarrow> int \<Rightarrow> string \<Rightarrow> string \<Rightarrow> attempt_finalization \<Rightarrow> model_request \<Rightarrow> 'x models_db_scheme \<Rightarrow>
    (models_error + unit) \<times> 'x models_db_scheme" where
  "finalize_attempt J ended ledger_id attempt_id fz req =
     run_tx (finalize_attempt_tx J ended ledger_id attempt_id fz req)"

definition closed_attempt :: "serde \<Rightarrow> string \<Rightarrow> string \<Rightarrow> int \<Rightarrow> model_attempt_row \<Rightarrow> model_attempt_row" where
  "closed_attempt J status code now a =
     a\<lparr>at_status := status, at_normalized_error_json := Some (json_to_string J (JObj [(''code'', JStr code)])),
       at_ended_at := Some now\<rparr>"

definition interrupt_running_attempts_in_tx ::
  "serde \<Rightarrow> int \<Rightarrow> 'x models_db_scheme \<Rightarrow> 'x models_db_scheme" where
  "interrupt_running_attempts_in_tx J now db =
     db\<lparr>model_attempts := update_many (\<lambda>a. at_status a = ''running'')
       (closed_attempt J ''interrupted'' ''CONTROL_PLANE_RESTART'' now) (model_attempts db)\<rparr>"

primrec cancel_running_attempts_for_rounds_in_tx ::
  "serde \<Rightarrow> string list \<Rightarrow> int \<Rightarrow> 'x models_db_scheme \<Rightarrow> nat \<times> 'x models_db_scheme" where
  "cancel_running_attempts_for_rounds_in_tx J [] now db = (0, db)"
| "cancel_running_attempts_for_rounds_in_tx J (r # rs) now db =
    (let P = (\<lambda>a. at_round_id a = r \<and> at_status a = ''running'');
         matched = length (filter P (model_attempts db));
         (n, db') = cancel_running_attempts_for_rounds_in_tx J rs now
           (db\<lparr>model_attempts := update_many P (closed_attempt J ''canceled'' ''USER_CANCEL'' now)
              (model_attempts db)\<rparr>)
     in (matched + n, db'))"

primrec delete_attempts_for_rounds_in_tx ::
  "string list \<Rightarrow> 'x models_db_scheme \<Rightarrow> nat \<times> 'x models_db_scheme" where
  "delete_attempts_for_rounds_in_tx [] db = (0, db)"
| "delete_attempts_for_rounds_in_tx (r # rs) db =
    (let (rows, deleted) = delete_many (\<lambda>a. at_round_id a = r) (model_attempts db);
         (n, db') = delete_attempts_for_rounds_in_tx rs (db\<lparr>model_attempts := rows\<rparr>)
     in (deleted + n, db'))"

record attempt_view =
  av_attempt :: int
  av_status :: string
  av_detail :: "string option"

definition latest_attempt_for_rounds ::
  "serde \<Rightarrow> string list \<Rightarrow> 'x models_db_scheme \<Rightarrow> attempt_view option" where
  "latest_attempt_for_rounds J round_ids db =
    (let rows = sort_key (\<lambda>a. (at_created_at a, at_id a))
           (filter (\<lambda>a. at_round_id a \<in> set round_ids) (model_attempts db))
     in if rows = [] then None
        else let a = last rows;
                 detail = Option.bind (Option.bind (at_normalized_error_json a) (json_from_str J))
                   (str_at ''detail'')
             in Some \<lparr>av_attempt = at_attempt_number a, av_status = at_status a,
                  av_detail = (if detail = Some [] then None else detail)\<rparr>)"

section \<open>The probe\<close>

datatype probe_status = ProbeReady | ProbeAuthenticationFailed | ProbeUnreachable | ProbeUpstreamError

record probe_result =
  pb_status :: probe_status
  pb_http_status :: "nat option"
  pb_latency_ms :: nat
  pb_detail :: string

record probe_request =
  pq_url :: string
  pq_headers :: "(string \<times> string) list"

text \<open>The request of a probe; sending it answers with a status code or whether it timed out.\<close>

definition probe_request_of ::
  "secret_cipher \<Rightarrow> 'u url_crate \<Rightarrow> string \<Rightarrow> string \<Rightarrow> 'x models_db_scheme \<Rightarrow> models_error + probe_request" where
  "probe_request_of K L owner i db =
    and_then (provider_row_of owner i db) (\<lambda>row.
    and_then (case pr_api_key_ciphertext row of
          None \<Rightarrow> Inr None
        | Some stored \<Rightarrow> (case sc_decrypt K stored (key_aad owner i) of
            Inl _ \<Rightarrow> Inl (MdInternal ''decrypt secret'') | Inr k \<Rightarrow> Inr (Some k))) (\<lambda>key.
    and_then (probe_url L (pr_base_url row) ''models'') (\<lambda>url.
      Inr \<lparr>pq_url = url, pq_headers = (''accept'', ''application/json'') #
        (case key of
           None \<Rightarrow> []
         | Some k \<Rightarrow> if pr_kind row = ''anthropic''
             then [(''x-api-key'', k), (''anthropic-version'', ''2023-06-01'')]
             else [(''authorization'', ''Bearer '' @ k)])\<rparr>)))"

definition probe_answer :: "nat \<Rightarrow> bool + nat \<Rightarrow> probe_result" where
  "probe_answer elapsed_ms answer =
    (case answer of
       Inl timed_out \<Rightarrow>
         \<lparr>pb_status = ProbeUnreachable, pb_http_status = None, pb_latency_ms = min elapsed_ms U64_MAX,
          pb_detail = (if timed_out then ''The provider probe timed out.''
            else ''The provider could not be reached.'')\<rparr>
     | Inr status \<Rightarrow>
         if 200 \<le> status \<and> status < 300 then
           \<lparr>pb_status = ProbeReady, pb_http_status = Some status, pb_latency_ms = min elapsed_ms U64_MAX,
            pb_detail = ''Provider is reachable and accepted the credentials.''\<rparr>
         else if status = 401 \<or> status = 403 then
           \<lparr>pb_status = ProbeAuthenticationFailed, pb_http_status = Some status,
            pb_latency_ms = min elapsed_ms U64_MAX,
            pb_detail = ''The provider rejected the configured credentials.''\<rparr>
         else
           \<lparr>pb_status = ProbeUpstreamError, pb_http_status = Some status,
            pb_latency_ms = min elapsed_ms U64_MAX,
            pb_detail = ''The provider returned HTTP '' @ string_of_nat status @ ''.''\<rparr>)"

definition probe ::
  "secret_cipher \<Rightarrow> 'u url_crate \<Rightarrow> (probe_request \<Rightarrow> bool + nat) \<Rightarrow> nat \<Rightarrow> string \<Rightarrow> string \<Rightarrow>
    'x models_db_scheme \<Rightarrow> models_error + probe_result" where
  "probe K L get elapsed_ms owner i db =
    and_then (probe_request_of K L owner i db) (\<lambda>rq. Inr (probe_answer elapsed_ms (get rq)))"

end
