(* ===== verification/Provider_Stream.thy ===== *)
theory Provider_Stream
  imports Stream_Assemblers Model_Registry
begin

text \<open>
  One provider stream attempt (\<open>crates/models/src/stream.rs\<close>): the request of each provider kind,
  the read loop that feeds the bytes through the event splitter and the assembler, the handling of
  refusals, and the entry of the attempt in the ledger. The HTTP client is a parameter: it answers a
  request with a transport error or with a status and the chunks of the body, each of which may be
  a read error or the idle timeout. \<open>now n\<close> is the instant at which the \<open>n\<close>-th event is observed.
  The functions return the events next to the ones handed to \<open>on_event\<close>, which are all that is left
  when the read loop fails.
\<close>

section \<open>The client\<close>

record stream_request =
  sr_url :: string
  sr_headers :: "(string \<times> string) list"
  sr_body :: json

datatype body_chunk = Chunk string | ChunkError string | ChunkTimeout

datatype http_answer = Unreachable string | Answered nat "body_chunk list"

record stream_env =
  se_send :: "stream_request \<Rightarrow> http_answer"
  se_serde :: serde
  se_serde_text :: "string \<Rightarrow> string"
  se_upper :: "string \<Rightarrow> bool"
  se_b64 :: "string \<Rightarrow> string"
  se_now :: "nat \<Rightarrow> nat"

definition append_path_segment :: "string \<Rightarrow> string \<Rightarrow> string" where
  "append_path_segment base segment = trim_slashes base @ ''/'' @ segment"

section \<open>Errors of the provider\<close>

definition MAX_PROVIDER_ERROR_BYTES :: nat where "MAX_PROVIDER_ERROR_BYTES = 8 * 1024"

text \<open>The bytes of an error body: at most the limit, and none behind a read error.\<close>

fun error_bytes :: "body_chunk list \<Rightarrow> string \<Rightarrow> string" where
  "error_bytes (Chunk c # cs) bytes =
     (let remaining = MAX_PROVIDER_ERROR_BYTES - length bytes
      in if remaining = 0 then bytes else error_bytes cs (bytes @ take remaining c))"
| "error_bytes _ bytes = bytes"

definition control_char :: "string \<Rightarrow> bool" where
  "control_char c \<longleftrightarrow>
    (case map of_char c :: nat list of
       [a] \<Rightarrow> a < 32 \<or> a = 127
     | [a, b] \<Rightarrow> a = 194 \<and> 128 \<le> b \<and> b \<le> 159
     | _ \<Rightarrow> False)"

definition sanitize_provider_message :: "string \<Rightarrow> string option \<Rightarrow> string" where
  "sanitize_provider_message message key =
    (let shown = str_trim (concat (take 512
           (filter (\<lambda>c. \<not> control_char c \<or> ws_encoding (map of_char c)) (utf8_chars message))))
     in case key of
          None \<Rightarrow> shown
        | Some k \<Rightarrow> if k = [] then shown else replace_all k ''[redacted]'' shown)"

definition provider_http_error :: "serde \<Rightarrow> nat \<Rightarrow> string option \<Rightarrow> body_chunk list \<Rightarrow> string" where
  "provider_http_error J status key body =
    (let message = Option.bind (json_from_str J (error_bytes body [])) (\<lambda>v.
           Option.bind
             (case Option.bind (json_get ''error'' v) (json_get ''message'') of
                Some m \<Rightarrow> Some m | None \<Rightarrow> json_get ''message'' v) (\<lambda>m.
           map_option (\<lambda>s. sanitize_provider_message s key) (json_as_str m)));
         prefix = ''provider HTTP '' @ string_of_nat status
     in case message of
          None \<Rightarrow> prefix | Some m \<Rightarrow> if m = [] then prefix else prefix @ '': '' @ m)"

section \<open>The read loop\<close>

record 'a stream_pump =
  sp_parser :: sse_parser
  sp_assembler :: 'a
  sp_timing :: stream_timing
  sp_events :: "model_stream_event list"

definition new_pump :: "'a \<Rightarrow> 'a stream_pump" where
  "new_pump a = \<lparr>sp_parser = sse_new, sp_assembler = a, sp_timing = new_timing, sp_events = []\<rparr>"

text \<open>Each event is timed, published and kept.\<close>

definition pump_event :: "(nat \<Rightarrow> nat) \<Rightarrow> model_stream_event \<Rightarrow> 'a stream_pump \<Rightarrow> 'a stream_pump" where
  "pump_event now ev p =
     p\<lparr>sp_timing := observe (now (length (sp_events p))) ev (sp_timing p),
       sp_events := sp_events p @ [ev]\<rparr>"

primrec pump_frames ::
  "(string \<times> string \<Rightarrow> 'a \<Rightarrow> string + ('a \<times> model_stream_event list)) \<Rightarrow> (nat \<Rightarrow> nat) \<Rightarrow>
    (string \<times> string) list \<Rightarrow> 'a stream_pump \<Rightarrow> string option \<times> 'a stream_pump" where
  "pump_frames ingest now [] p = (None, p)"
| "pump_frames ingest now (f # fs) p =
    (case ingest f (sp_assembler p) of
       Inl e \<Rightarrow> (Some e, p)
     | Inr (a, evs) \<Rightarrow> pump_frames ingest now fs (fold (pump_event now) evs (p\<lparr>sp_assembler := a\<rparr>)))"

fun pump_body ::
  "(string \<times> string \<Rightarrow> 'a \<Rightarrow> string + ('a \<times> model_stream_event list)) \<Rightarrow> (nat \<Rightarrow> nat) \<Rightarrow>
    body_chunk list \<Rightarrow> 'a stream_pump \<Rightarrow> string option \<times> 'a stream_pump" where
  "pump_body ingest now [] p = (None, p)"
| "pump_body ingest now (ChunkTimeout # cs) p = (Some ''provider stream idle timeout'', p)"
| "pump_body ingest now (ChunkError e # cs) p = (Some (''stream read: '' @ e), p)"
| "pump_body ingest now (Chunk bytes # cs) p =
    (let (parser, frames) = sse_push (sp_parser p) bytes
     in case pump_frames ingest now frames (p\<lparr>sp_parser := parser\<rparr>) of
          (Some e, p') \<Rightarrow> (Some e, p')
        | (None, p') \<Rightarrow> pump_body ingest now cs p')"

text \<open>
  The answer to the request: a refusal is one failed event; otherwise the body is read and the
  assembler finished. The result is the events returned, or the error, with the events published.
\<close>

definition run_stream ::
  "stream_env \<Rightarrow> (string \<times> string \<Rightarrow> 'a \<Rightarrow> string + ('a \<times> model_stream_event list)) \<Rightarrow>
    (nat option \<Rightarrow> 'a \<Rightarrow> model_stream_event option) \<Rightarrow> 'a \<Rightarrow> string \<Rightarrow> string option \<Rightarrow> stream_request \<Rightarrow>
    (models_error + model_stream_event list) \<times> model_stream_event list" where
  "run_stream E ingest finish a attempt_id key rq =
    (case se_send E rq of
       Unreachable e \<Rightarrow> (Inl (MdInternal (''provider unreachable: '' @ e)), [])
     | Answered status body \<Rightarrow>
         if status = 401 \<or> status = 403 then
           (let failed = EvFailed attempt_id ''PROVIDER_AUTH_FAILED''
                  (provider_http_error (se_serde E) status key body) in (Inr [failed], [failed]))
         else if \<not> (200 \<le> status \<and> status < 300) then
           (let failed = EvFailed attempt_id ''PROVIDER_STREAM_FAILED''
                  (provider_http_error (se_serde E) status key body) in (Inr [failed], [failed]))
         else case pump_body ingest (se_now E) body (new_pump a) of
             (Some e, p) \<Rightarrow> (Inl (MdInternal e), sp_events p)
           | (None, p) \<Rightarrow>
               (let duration = reasoning_duration_ms (se_now E (length (sp_events p))) (sp_timing p)
                in case finish duration (sp_assembler p) of
                     None \<Rightarrow> (Inr (sp_events p), sp_events p)
                   | Some ev \<Rightarrow> (Inr (sp_events p @ [ev]), sp_events p @ [ev])))"

section \<open>The three provider kinds\<close>

definition bearer_headers :: "string option \<Rightarrow> (string \<times> string) list" where
  "bearer_headers key = (case key of None \<Rightarrow> [] | Some k \<Rightarrow> [(''authorization'', ''Bearer '' @ k)])"

definition finish_chat :: "string \<Rightarrow> nat option \<Rightarrow> chat_assembler \<Rightarrow> model_stream_event option" where
  "finish_chat attempt_id duration a = Some (chat_finish attempt_id (a\<lparr>oa_reasoning_duration_ms := duration\<rparr>))"

definition stream_openai_chat ::
  "stream_env \<Rightarrow> model_request \<Rightarrow> string \<Rightarrow> string option \<Rightarrow> string \<Rightarrow>
    (models_error + model_stream_event list) \<times> model_stream_event list" where
  "stream_openai_chat E req base_url key attempt_id =
     run_stream E (\<lambda>(_, data). ingest_data (se_serde E) (se_serde_text E) (se_upper E) attempt_id data)
       (finish_chat attempt_id) (chat_for_tools (mr_tools req)) attempt_id key
       \<lparr>sr_url = append_path_segment base_url ''chat/completions'',
        sr_headers = (''accept'', ''text/event-stream'') # bearer_headers key,
        sr_body = build_chat_body (se_b64 E) req\<rparr>"

definition finish_responses :: "string \<Rightarrow> nat option \<Rightarrow> responses_assembler \<Rightarrow> model_stream_event option" where
  "finish_responses attempt_id duration a =
    (if ra_failed a \<noteq> None then None
     else Some (responses_finish attempt_id (a\<lparr>ra_reasoning_duration_ms := duration\<rparr>)))"

definition stream_openai_responses ::
  "stream_env \<Rightarrow> model_request \<Rightarrow> string \<Rightarrow> string option \<Rightarrow> string \<Rightarrow>
    (models_error + model_stream_event list) \<times> model_stream_event list" where
  "stream_openai_responses E req base_url key attempt_id =
     run_stream E (\<lambda>(name, data). ingest_event (se_serde E) (se_serde_text E) (se_upper E) attempt_id name data)
       (finish_responses attempt_id) (responses_for_tools (mr_tools req)) attempt_id key
       \<lparr>sr_url = append_path_segment base_url ''responses'',
        sr_headers = [(''accept'', ''text/event-stream''), (''content-type'', ''application/json'')] @
          bearer_headers key,
        sr_body = build_responses_body (se_b64 E) req\<rparr>"

definition finish_anthropic :: "string \<Rightarrow> nat option \<Rightarrow> anthropic_assembler \<Rightarrow> model_stream_event option" where
  "finish_anthropic attempt_id duration a =
     Some (anthropic_finish attempt_id (a\<lparr>aa_reasoning_duration_ms := duration\<rparr>))"

definition ends_with :: "string \<Rightarrow> string \<Rightarrow> bool" where
  "ends_with ending s \<longleftrightarrow> length ending \<le> length s \<and> drop (length s - length ending) s = ending"

definition stream_anthropic ::
  "stream_env \<Rightarrow> model_request \<Rightarrow> string \<Rightarrow> string option \<Rightarrow> string \<Rightarrow>
    (models_error + model_stream_event list) \<times> model_stream_event list" where
  "stream_anthropic E req base_url key attempt_id =
     run_stream E (\<lambda>(name, data). anthropic_ingest (se_serde E) (se_serde_text E) (se_upper E) attempt_id name data)
       (finish_anthropic attempt_id) new_anthropic attempt_id key
       \<lparr>sr_url = append_path_segment base_url
          (if ends_with ''/v1'' (trim_slashes base_url) then ''messages'' else ''v1/messages''),
        sr_headers = [(''accept'', ''text/event-stream''), (''anthropic-version'', ''2023-06-01''),
            (''content-type'', ''application/json'')] @
          (case key of None \<Rightarrow> [] | Some k \<Rightarrow> [(''x-api-key'', k)]),
        sr_body = build_messages_body (se_serde E) (se_b64 E) req\<rparr>"

section \<open>An attempt\<close>

record attempt_gen =
  ag_attempt_id :: string
  ag_started :: int
  ag_ended :: int
  ag_ledger_id :: string

definition as_i64 :: "nat \<Rightarrow> int" where
  "as_i64 n = (if int n mod 2 ^ 64 < 2 ^ 63 then int n mod 2 ^ 64 else int n mod 2 ^ 64 - 2 ^ 64)"

definition failed_finalization :: "string \<Rightarrow> string \<Rightarrow> attempt_finalization" where
  "failed_finalization code detail =
     \<lparr>fz_status = ''failed'', fz_input_tokens = None, fz_output_tokens = None, fz_cache_tokens = None,
      fz_error_json = Some (JObj [(''code'', JStr code), (''detail'', JStr detail)])\<rparr>"

text \<open>How the last event settles the attempt.\<close>

definition finalization_of :: "model_stream_event list \<Rightarrow> attempt_finalization" where
  "finalization_of events =
    (case rev events of
       EvCompleted c # _ \<Rightarrow>
         \<lparr>fz_status = ''succeeded'', fz_input_tokens = Some (as_i64 (tu_input_tokens (co_usage c))),
          fz_output_tokens = Some (as_i64 (tu_output_tokens (co_usage c))),
          fz_cache_tokens = Some (as_i64 (tu_cache_tokens (co_usage c))), fz_error_json = None\<rparr>
     | EvFailed _ code detail # _ \<Rightarrow> failed_finalization code detail
     | _ \<Rightarrow> failed_finalization ''PROVIDER_STREAM_FAILED'' ''stream ended without completion'')"

text \<open>What the dropped guard writes when the caller gives the attempt up.\<close>

definition abandoned_finalization :: attempt_finalization where
  "abandoned_finalization =
     failed_finalization ''PROVIDER_STREAM_CANCELED'' ''stream canceled before completion''"

fun models_error_text :: "models_error \<Rightarrow> string" where
  "models_error_text (MdValidation s) = ''the model configuration is invalid: '' @ s"
| "models_error_text MdProviderNotFound = ''the provider was not found''"
| "models_error_text MdStorage = ''model storage failed''"
| "models_error_text MdData = ''model data is invalid''"
| "models_error_text (MdInternal s) = s"
| "models_error_text (MdValueAccess s) = ''document value access error: '' @ s"

definition open_key ::
  "secret_cipher \<Rightarrow> string \<Rightarrow> string \<Rightarrow> provider_row \<Rightarrow> models_error + string option" where
  "open_key K owner i row =
    (case pr_api_key_ciphertext row of
       None \<Rightarrow> Inr None
     | Some stored \<Rightarrow> (case sc_decrypt K stored (key_aad owner i) of
         Inl _ \<Rightarrow> Inl (MdInternal ''decrypt secret'') | Inr k \<Rightarrow> Inr (Some k)))"

text \<open>The store and the events published so far.\<close>

type_synonym 'x attempt_world = "'x models_db_scheme \<times> model_stream_event list"

definition finalize_in ::
  "stream_env \<Rightarrow> attempt_gen \<Rightarrow> attempt_finalization \<Rightarrow> model_request \<Rightarrow> 'x attempt_world \<Rightarrow>
    (models_error + unit) \<times> 'x attempt_world" where
  "finalize_in E g fz req w =
    (let (r, db) = finalize_attempt (se_serde E) (ag_ended g) (ag_ledger_id g) (ag_attempt_id g) fz req (fst w)
     in (r, (db, snd w)))"

definition settle_attempt ::
  "stream_env \<Rightarrow> attempt_gen \<Rightarrow> model_request \<Rightarrow>
    (models_error + model_stream_event list) \<times> model_stream_event list \<Rightarrow> 'x attempt_world \<Rightarrow>
    (models_error + model_stream_event list) \<times> 'x attempt_world" where
  "settle_attempt E g req streamed w =
    (let w1 = (fst w, snd w @ snd streamed)
     in case fst streamed of
          Inr events \<Rightarrow>
            and_run (finalize_in E g (finalization_of events) req w1) (\<lambda>_ w2. (Inr events, w2))
        | Inl e \<Rightarrow>
            (let failed = EvFailed (ag_attempt_id g) ''PROVIDER_STREAM_FAILED'' (models_error_text e)
             in and_run (finalize_in E g
                   (failed_finalization ''PROVIDER_STREAM_FAILED'' (models_error_text e)) req
                   (fst w1, snd w1 @ [failed])) (\<lambda>_ w2. (Inr [failed], w2))))"

definition stream_completion_with_candidate ::
  "stream_env \<Rightarrow> secret_cipher \<Rightarrow> attempt_gen \<Rightarrow> model_request \<Rightarrow> int \<Rightarrow> attempt_type \<Rightarrow> 'x attempt_world \<Rightarrow>
    (models_error + model_stream_event list) \<times> 'x attempt_world" where
  "stream_completion_with_candidate E K g req candidate_order ty w =
    and_run (provider_row_of (mr_owner_id req) (mr_provider_id req) (fst w), w) (\<lambda>row w.
      if \<not> pr_enabled row then (Inl (MdValidation ''provider is disabled''), w)
      else and_run (parse_provider_kind (pr_kind row), w) (\<lambda>kind w.
        and_run (open_key K (mr_owner_id req) (mr_provider_id req) row, w) (\<lambda>key w.
        and_run (let (r, db) = insert_attempt_running (ag_attempt_id g)
              (case mr_round_id req of None \<Rightarrow> ''round-unset'' | Some r \<Rightarrow> r) (mr_provider_id req)
              (mr_upstream_model_id req) candidate_order ty (ag_started g) (fst w)
            in (r, (db, snd w))) (\<lambda>_ w.
          settle_attempt E g req
            (case kind of
               OpenaiChat \<Rightarrow> stream_openai_chat E req (pr_base_url row) key (ag_attempt_id g)
             | OpenaiResponses \<Rightarrow> stream_openai_responses E req (pr_base_url row) key (ag_attempt_id g)
             | Anthropic \<Rightarrow> stream_anthropic E req (pr_base_url row) key (ag_attempt_id g)) w))))"

definition stream_completion_with_attempt ::
  "stream_env \<Rightarrow> secret_cipher \<Rightarrow> attempt_gen \<Rightarrow> model_request \<Rightarrow> attempt_type \<Rightarrow> 'x attempt_world \<Rightarrow>
    (models_error + model_stream_event list) \<times> 'x attempt_world" where
  "stream_completion_with_attempt E K g req ty = stream_completion_with_candidate E K g req 0 ty"

definition stream_completion ::
  "stream_env \<Rightarrow> secret_cipher \<Rightarrow> attempt_gen \<Rightarrow> model_request \<Rightarrow> 'x attempt_world \<Rightarrow>
    (models_error + model_stream_event list) \<times> 'x attempt_world" where
  "stream_completion E K g req = stream_completion_with_attempt E K g req AtNormal"

end
