(* ===== verification/Stream_Properties.thy ===== *)
theory Stream_Properties
  imports Provider_Stream
begin

text \<open>
  What the provider streams guarantee: a contract of the assemblers as a locale, interpreted on the
  three of them; the completion that ends a stream holds exactly the text that was published, and
  the cuts between network chunks do not matter. The last section shows tool arguments that are
  lost.
\<close>

section \<open>The contract of an assembler\<close>

fun event_text :: "model_stream_event \<Rightarrow> string" where
  "event_text (EvDelta _ _ ChanText text _ _) = text"
| "event_text _ = []"

fun event_seqs :: "model_stream_event \<Rightarrow> nat list" where
  "event_seqs (EvDelta _ n _ _ _ _) = [n]"
| "event_seqs (EvToolCallDelta _ n _ _) = [n]"
| "event_seqs _ = []"

definition texts :: "model_stream_event list \<Rightarrow> string" where
  "texts evs = concat (map event_text evs)"

definition seqs :: "model_stream_event list \<Rightarrow> nat list" where
  "seqs evs = concat (map event_seqs evs)"

text \<open>No event but the last one of a stream completes it.\<close>

fun is_completed :: "model_stream_event \<Rightarrow> bool" where
  "is_completed (EvCompleted _) = True"
| "is_completed _ = False"

definition provisional :: "model_stream_event list \<Rightarrow> bool" where
  "provisional evs \<longleftrightarrow> list_all (\<lambda>e. \<not> is_completed e) evs"

lemma provisional_simps [simp]: "provisional []" "provisional (e # es) \<longleftrightarrow> \<not> is_completed e \<and> provisional es"
    "provisional (xs @ ys) \<longleftrightarrow> provisional xs \<and> provisional ys"
  by (simp_all add: provisional_def)

lemma texts_simps [simp]: "texts [] = []" "texts (e # es) = event_text e @ texts es" "texts (xs @ ys) = texts xs @ texts ys"
  by (simp_all add: texts_def)

lemma seqs_simps [simp]: "seqs [] = []" "seqs (e # es) = event_seqs e @ seqs es" "seqs (xs @ ys) = seqs xs @ seqs ys"
  by (simp_all add: seqs_def)

text \<open>
  An assembler adds the text it publishes to the text it keeps, and numbers the events it publishes
  one after another; none of them is a completion.
\<close>

definition well_emitted :: "('a \<Rightarrow> string) \<Rightarrow> ('a \<Rightarrow> nat) \<Rightarrow> 'a \<Rightarrow> 'a \<times> model_stream_event list \<Rightarrow> bool" where
  "well_emitted kept_text kept_seq a r \<longleftrightarrow>
     kept_text (fst r) = kept_text a @ texts (snd r) \<and> provisional (snd r) \<and> kept_seq a \<le> kept_seq (fst r) \<and>
     seqs (snd r) = [Suc (kept_seq a)..<Suc (kept_seq (fst r))]"

lemma well_emitted_unchanged: "kept_text b = kept_text a \<Longrightarrow> kept_seq b = kept_seq a \<Longrightarrow>
    well_emitted kept_text kept_seq a (b, [])"
  by (simp add: well_emitted_def)

lemma upt_join: "i \<le> j \<Longrightarrow> j \<le> k \<Longrightarrow> [i..<j] @ [j..<k] = [i..<k]"
  using upt_add_eq_append [of i j "k - j"] by simp

lemma well_emitted_trans:
  assumes "well_emitted t s a (b, xs)" and "well_emitted t s b (c, ys)"
  shows "well_emitted t s a (c, xs @ ys)"
  using assms upt_join [of "Suc (s a)" "Suc (s b)" "Suc (s c)"]
  by (auto simp: well_emitted_def simp del: upt_Suc)

lemma well_emitted_seq:
  assumes "well_emitted t s a (f a)" and "\<And>b. well_emitted t s b (g b)"
  shows "well_emitted t s a (emit_seq f g a)"
proof -
  obtain b xs where f: "f a = (b, xs)" by (cases "f a")
  obtain c ys where g: "g b = (c, ys)" by (cases "g b")
  have "well_emitted t s a (c, xs @ ys)"
    using well_emitted_trans [of t s a b xs c ys] assms(1) assms(2) [of b] by (simp add: f g)
  then show ?thesis by (simp add: emit_seq_def f g)
qed

lemma well_emitted_list:
  assumes "\<And>x b. well_emitted t s b (f x b)"
  shows "well_emitted t s a (emit_list f xs a)"
proof (induction xs arbitrary: a)
  case (Cons x xs)
  then show ?case by (simp add: well_emitted_seq assms)
qed (simp add: well_emitted_def)

text \<open>A stream that ends in a completion was read to its end.\<close>

lemma run_stream_pumped:
  assumes "run_stream E ingest finish a attempt_id key rq = (Inr events, published)"
    and "events \<noteq> []" and "last events = EvCompleted c"
  shows "\<exists>body p. pump_body ingest (se_now E) body (new_pump a) = (None, p) \<and> published = events \<and>
    (events = sp_events p \<or> (\<exists>d ev. finish d (sp_assembler p) = Some ev \<and> events = sp_events p @ [ev]))"
proof (cases "se_send E rq")
  case (Unreachable e)
  then show ?thesis using assms(1) by (simp add: run_stream_def)
next
  case (Answered status body)
  have ok: "200 \<le> status \<and> status < 300 \<and> status \<noteq> 401 \<and> status \<noteq> 403"
    using assms Answered by (simp add: run_stream_def Let_def split: if_splits) auto
  obtain e p where p: "pump_body ingest (se_now E) body (new_pump a) = (e, p)"
    by (cases "pump_body ingest (se_now E) body (new_pump a)")
  have "e = None" using assms(1) ok Answered p by (cases e) (simp_all add: run_stream_def)
  let ?d = "reasoning_duration_ms (se_now E (length (sp_events p))) (sp_timing p)"
  have "published = events \<and> (events = sp_events p \<or>
      (\<exists>ev. finish ?d (sp_assembler p) = Some ev \<and> events = sp_events p @ [ev]))"
    using assms(1) ok Answered p \<open>e = None\<close>
    by (cases "finish ?d (sp_assembler p)") (auto simp: run_stream_def Let_def)
  then show ?thesis using p \<open>e = None\<close> by blast
qed

locale stream_assembler =
  fixes ingest :: "string \<times> string \<Rightarrow> 'a \<Rightarrow> string + ('a \<times> model_stream_event list)"
    and kept_text :: "'a \<Rightarrow> string"
    and kept_seq :: "'a \<Rightarrow> nat"
  assumes ingest_emits: "ingest f a = Inr r \<Longrightarrow> well_emitted kept_text kept_seq a r"
begin

text \<open>The pump has published what its assembler keeps.\<close>

definition pump_ok :: "'a stream_pump \<Rightarrow> bool" where
  "pump_ok p \<longleftrightarrow> kept_text (sp_assembler p) = texts (sp_events p) \<and>
     seqs (sp_events p) = [1..<Suc (kept_seq (sp_assembler p))] \<and> provisional (sp_events p)"

lemma fold_pump_events [simp]:
  "sp_events (fold (pump_event now) evs p) = sp_events p @ evs"
  "sp_assembler (fold (pump_event now) evs p) = sp_assembler p"
  by (induction evs arbitrary: p) (simp_all add: pump_event_def)

lemma pump_ok_ingest:
  assumes "pump_ok p" and "ingest f (sp_assembler p) = Inr (a, evs)"
  shows "pump_ok (fold (pump_event now) evs (p\<lparr>sp_assembler := a\<rparr>))"
proof -
  have "well_emitted kept_text kept_seq (sp_assembler p) (a, evs)" by (rule ingest_emits [OF assms(2)])
  then show ?thesis
    using assms(1) upt_join [of 1 "Suc (kept_seq (sp_assembler p))" "Suc (kept_seq a)"]
    by (simp add: pump_ok_def well_emitted_def del: upt_Suc)
qed

lemma pump_frames_ok: "pump_ok p \<Longrightarrow> pump_ok (snd (pump_frames ingest now fs p))"
proof (induction fs arbitrary: p)
  case (Cons f fs)
  then show ?case
    using pump_ok_ingest [OF Cons.prems] by (auto split: sum.splits)
qed simp

lemma pump_ok_parser [simp]: "pump_ok (p\<lparr>sp_parser := q\<rparr>) = pump_ok p"
  by (simp add: pump_ok_def)

lemma pump_body_ok: "pump_ok p \<Longrightarrow> pump_ok (snd (pump_body ingest now body p))"
proof (induction body arbitrary: p)
  case (Cons c cs)
  show ?case
  proof (cases c)
    case (Chunk bytes)
    obtain parser frames where push: "sse_push (sp_parser p) bytes = (parser, frames)"
      by (cases "sse_push (sp_parser p) bytes")
    obtain e q where fr: "pump_frames ingest now frames (p\<lparr>sp_parser := parser\<rparr>) = (e, q)"
      by (cases "pump_frames ingest now frames (p\<lparr>sp_parser := parser\<rparr>)")
    have "pump_ok q" using pump_frames_ok [of "p\<lparr>sp_parser := parser\<rparr>" now frames] Cons.prems fr by simp
    with Cons.IH show ?thesis using Chunk push fr by (cases e) simp_all
  qed (use Cons.prems in simp_all)
qed simp

lemma pump_start_ok: "kept_text a = [] \<Longrightarrow> kept_seq a = 0 \<Longrightarrow> pump_ok (new_pump a)"
  by (simp add: pump_ok_def new_pump_def)

text \<open>
  A stream that returns events ending in a completion has published exactly these events, numbered
  from one; when the completion carries the assembler's text, it is the text of the deltas.
\<close>

lemma run_stream_completed:
  assumes "run_stream E ingest finish a attempt_id key rq = (Inr events, published)"
    and "events \<noteq> []" and "last events = EvCompleted c"
    and "\<And>d b. finish d b = Some (EvCompleted c) \<Longrightarrow> co_text c = kept_text b"
    and "kept_text a = []" "kept_seq a = 0"
  shows "events = published \<and> co_text c = texts (butlast events) \<and>
    (\<exists>n. seqs (butlast events) = [1..<Suc n])"
proof -
  obtain body p where p: "pump_body ingest (se_now E) body (new_pump a) = (None, p)"
    and out: "published = events" "events = sp_events p \<or>
      (\<exists>d ev. finish d (sp_assembler p) = Some ev \<and> events = sp_events p @ [ev])"
    using run_stream_pumped [OF assms(1-3)] by blast
  have ok: "pump_ok p" using pump_body_ok [OF pump_start_ok [OF assms(5,6)], of "se_now E" body] p by simp
  have "events \<noteq> sp_events p"
    using ok assms(2,3) last_in_set [OF assms(2)] by (auto simp: pump_ok_def provisional_def list_all_iff)
  then obtain d where "finish d (sp_assembler p) = Some (EvCompleted c)" "events = sp_events p @ [EvCompleted c]"
    using out(2) assms(3) by auto
  with ok out(1) show ?thesis using assms(4) by (auto simp: pump_ok_def)
qed

end

section \<open>The three assemblers keep the contract\<close>

lemma chat_parts_emit:
  "well_emitted oa_text oa_seq a (chat_usage i v a)"
  "well_emitted oa_text oa_seq a (chat_reasoning upper i v a)"
  "well_emitted oa_text oa_seq a (chat_content i v a)"
  "well_emitted oa_text oa_seq a (chat_tool_call i v a)"
  by (auto simp: well_emitted_def chat_usage_def chat_reasoning_def chat_content_def chat_tool_call_def Let_def
      split: option.splits prod.splits)

lemma chat_choice_emits: "well_emitted oa_text oa_seq a (chat_choice upper i v a)"
proof -
  let ?b = "chat_finish_reason v a"
  have "well_emitted oa_text oa_seq ?b (chat_choice upper i v a)"
    unfolding chat_choice_def Let_def by (intro well_emitted_seq well_emitted_list chat_parts_emit)
  moreover have "oa_text ?b = oa_text a" "oa_seq ?b = oa_seq a"
    by (auto simp: chat_finish_reason_def split: option.splits)
  ultimately show ?thesis by (simp add: well_emitted_def)
qed

interpretation chat_stream: stream_assembler "\<lambda>(_, data). ingest_data J txt upper i data" oa_text oa_seq
proof
  fix f :: "string \<times> string" and a r
  assume "(case f of (_, data) \<Rightarrow> ingest_data J txt upper i data) a = Inr r"
  then have "r = (a\<lparr>oa_saw_terminal := True\<rparr>, []) \<or>
      (\<exists>v. r = emit_seq (chat_usage i v) (emit_list (chat_choice upper i) (array_at ''choices'' v)) a)"
    by (cases f) (auto simp: ingest_data_def split: if_splits option.splits)
  then show "well_emitted oa_text oa_seq a r"
  proof (elim disjE exE)
    fix v assume r: "r = emit_seq (chat_usage i v) (emit_list (chat_choice upper i) (array_at ''choices'' v)) a"
    show ?thesis unfolding r
      by (intro well_emitted_seq well_emitted_list chat_parts_emit(1) chat_choice_emits)
  qed (simp add: well_emitted_def)
qed

lemma anthropic_parts_emit:
  "well_emitted aa_text aa_seq a (block_delta upper i v a)"
  "well_emitted aa_text aa_seq a (block_start i v a)"
  "well_emitted aa_text aa_seq a (message_delta i v a)"
  "well_emitted aa_text aa_seq a (message_start i v a)"
  by (auto simp: well_emitted_def block_delta_def block_start_def message_delta_def message_start_def
      anthropic_usage_def Let_def split: option.splits prod.splits)

interpretation anthropic_stream: stream_assembler
  "\<lambda>(name, data). anthropic_ingest J txt upper i name data" aa_text aa_seq
proof
  fix f :: "string \<times> string" and a r
  assume "(case f of (name, data) \<Rightarrow> anthropic_ingest J txt upper i name data) a = Inr r"
  then show "well_emitted aa_text aa_seq a r"
    using anthropic_parts_emit
    by (cases f) (auto simp: anthropic_ingest_def well_emitted_unchanged split: if_splits option.splits)
qed

lemma ensure_tool_keeps [simp]:
  "ra_text (snd (ensure_tool x y z a)) = ra_text a" "ra_seq (snd (ensure_tool x y z a)) = ra_seq a"
  by (simp_all add: ensure_tool_def Let_def split: option.splits)

lemma merge_tool_item_keeps [simp]:
  "ra_text (merge_tool_item v a) = ra_text a" "ra_seq (merge_tool_item v a) = ra_seq a"
  using ensure_tool_keeps [of "str_at ''id'' v" "str_at ''call_id'' v" "str_at ''name'' v" a]
  by (simp_all add: merge_tool_item_def Let_def split_beta)

lemma output_items_keeps [simp]:
  "ra_text (output_items v a) = ra_text a" "ra_seq (output_items v a) = ra_seq a"
proof -
  have "ra_text (fold merge_tool_item vs a) = ra_text a \<and> ra_seq (fold merge_tool_item vs a) = ra_seq a" for vs
    by (induction vs arbitrary: a) simp_all
  then show "ra_text (output_items v a) = ra_text a" "ra_seq (output_items v a) = ra_seq a"
    by (simp_all add: output_items_def split: option.splits)
qed

lemma responses_parts_emit:
  "well_emitted ra_text ra_seq a (responses_text_delta i v a)"
  "well_emitted ra_text ra_seq a (responses_reasoning_delta upper i v a)"
  "well_emitted ra_text ra_seq a (output_item v a, [])"
  "well_emitted ra_text ra_seq a (response_completed v a, [])"
  by (auto simp: well_emitted_def responses_text_delta_def responses_reasoning_delta_def output_item_def
      response_completed_def update_usage_def Let_def split: option.splits)

lemma arguments_delta_emits: "well_emitted ra_text ra_seq a (function_arguments_delta i v a)"
  using ensure_tool_keeps [of "str_at ''item_id'' v" None None a]
  by (auto simp: well_emitted_def function_arguments_delta_def Let_def split_beta)

interpretation responses_stream: stream_assembler
  "\<lambda>(name, data). ingest_event J txt upper i name data" ra_text ra_seq
proof
  fix f :: "string \<times> string" and a r
  assume r: "(case f of (name, data) \<Rightarrow> ingest_event J txt upper i name data) a = Inr r"
  have failed: "well_emitted ra_text ra_seq a (a\<lparr>ra_failed := x\<rparr>, [EvFailed i y z])"
    "well_emitted ra_text ra_seq a (a\<lparr>ra_saw_terminal := True\<rparr>, [])" "well_emitted ra_text ra_seq a (a, [])" for x y z
    by (simp_all add: well_emitted_def)
  have "case ingest_event J txt upper i (fst f) (snd f) a of Inl _ \<Rightarrow> True | Inr r \<Rightarrow> well_emitted ra_text ra_seq a r"
    by (simp add: ingest_event_def Let_def responses_parts_emit arguments_delta_emits failed split: option.split)
  with r show "well_emitted ra_text ra_seq a r" by (simp add: split_beta)
qed

section \<open>A completion holds what was published\<close>

lemma completed_text_chat: "finish_chat i d b = Some (EvCompleted c) \<Longrightarrow> co_text c = oa_text b"
  by (auto simp: finish_chat_def chat_finish_def truncated_stream_event_def split: if_splits)

lemma completed_text_responses: "finish_responses i d b = Some (EvCompleted c) \<Longrightarrow> co_text c = ra_text b"
  by (auto simp: finish_responses_def responses_finish_def truncated_stream_event_def split: if_splits)

lemma completed_text_anthropic: "finish_anthropic i d b = Some (EvCompleted c) \<Longrightarrow> co_text c = aa_text b"
  by (auto simp: finish_anthropic_def anthropic_finish_def truncated_stream_event_def split: if_splits)

text \<open>
  C18. For every provider kind: a stream whose last event is a completion has returned exactly the
  events it published, in order; the events before the completion are numbered from one without a gap,
  and the text of the completion, which the round stores as the answer, is the text of the published
  deltas and nothing else.
\<close>

theorem completed_text_is_published:
  assumes "stream \<in> {stream_openai_chat, stream_openai_responses, stream_anthropic}"
    and "stream E req base_url key attempt_id = (Inr events, published)"
    and "events \<noteq> []" and "last events = EvCompleted c"
  shows "events = published \<and> co_text c = texts (butlast events) \<and>
    (\<exists>n. seqs (butlast events) = [1..<Suc n])"
proof -
  consider "stream = stream_openai_chat" | "stream = stream_openai_responses" | "stream = stream_anthropic"
    using assms(1) by blast
  then show ?thesis
  proof cases
    case 1
    show ?thesis
      by (rule chat_stream.run_stream_completed [OF assms(2) [unfolded 1 stream_openai_chat_def] assms(3,4)
            completed_text_chat]) (auto simp: chat_for_tools_def)
  next
    case 2
    show ?thesis
      by (rule responses_stream.run_stream_completed [OF assms(2) [unfolded 2 stream_openai_responses_def]
            assms(3,4) completed_text_responses]) (auto simp: responses_for_tools_def)
  next
    case 3
    show ?thesis
      by (rule anthropic_stream.run_stream_completed [OF assms(2) [unfolded 3 stream_anthropic_def]
            assms(3,4) completed_text_anthropic]) (auto simp: new_anthropic_def)
  qed
qed

text \<open>A provider whose data are plain text, with an answer of one word.\<close>

definition sample_frames :: "string list" where
  "sample_frames = [sse_frame ''m'' [''hi''], sse_frame ''m'' [''[DONE]'']]"

definition sample_stream_env :: stream_env where
  "sample_stream_env =
     \<lparr>se_send = (\<lambda>_. Answered 200 (map Chunk sample_frames)),
      se_serde = \<lparr>json_to_string = (\<lambda>_. []), json_from_str = (\<lambda>s. Some (JObj [(''choices'',
        JArr [JObj [(''delta'', JObj [(''content'', JStr s)])]])]))\<rparr>,
      se_serde_text = id, se_upper = (\<lambda>_. False), se_b64 = id, se_now = id\<rparr>"

definition sample_chat_request :: model_request where
  "sample_chat_request =
     \<lparr>mr_owner_id = ''o'', mr_provider_id = ''p'', mr_upstream_model_id = ''u'', mr_parameters = JNull,
      mr_messages = [], mr_tools = [], mr_round_id = Some ''r'', mr_project_id = Some ''j'',
      mr_session_id = Some ''s'', mr_turn_id = Some ''t''\<rparr>"

lemma sample_frames_parse:
  "sse_push sse_new (sse_frame ''m'' [''hi'']) = (sse_new, [(''m'', ''hi'')])"
  "sse_push sse_new (sse_frame ''m'' [''[DONE]'']) = (sse_new, [(''m'', ''[DONE]'')])"
proof -
  have "line_text ''m''" "line_text ''hi''" "line_text ''[DONE]''"
    by (simp_all add: line_text_def newline_def utf8_lossy_ascii)
  moreover have "str_trim ''m'' = ''m''" "trim_start ''hi'' = ''hi''" "trim_start ''[DONE]'' = ''[DONE]''"
    by (simp_all add: no_blanks)
  ultimately show "sse_push sse_new (sse_frame ''m'' [''hi'']) = (sse_new, [(''m'', ''hi'')])"
    "sse_push sse_new (sse_frame ''m'' [''[DONE]'']) = (sse_new, [(''m'', ''[DONE]'')])"
    using sse_frame_roundtrip [of "''m''" "[''hi'']"] sse_frame_roundtrip [of "''m''" "[''[DONE]'']"] by simp_all
qed

lemma sample_stream_completes:
  "\<exists>c. stream_openai_chat sample_stream_env sample_chat_request ''u'' None ''i'' =
    (Inr [EvDelta ''i'' 1 ChanText ''hi'' True None, EvCompleted c],
     [EvDelta ''i'' 1 ChanText ''hi'' True None, EvCompleted c])"
proof -
  have "str_trim ''hi'' = ''hi''" "str_trim ''[DONE]'' = ''[DONE]''" by (simp_all add: no_blanks)
  then show ?thesis
    by (simp add: stream_openai_chat_def run_stream_def sample_stream_env_def sample_frames_def new_pump_def
        sample_frames_parse ingest_data_def emit_seq_def chat_usage_def array_at_def chat_choice_def object_at_def
        chat_reasoning_def chat_content_def chat_finish_reason_def str_at_def pump_event_def finish_chat_def
        chat_finish_def chat_for_tools_def Let_def)
qed

theorem completed_text_is_published_witness:
  "\<exists>events c. stream_openai_chat sample_stream_env sample_chat_request ''u'' None ''i'' = (Inr events, events) \<and>
    last events = EvCompleted c \<and> co_text c = ''hi''"
proof -
  obtain c where s: "stream_openai_chat sample_stream_env sample_chat_request ''u'' None ''i'' =
      (Inr [EvDelta ''i'' 1 ChanText ''hi'' True None, EvCompleted c],
       [EvDelta ''i'' 1 ChanText ''hi'' True None, EvCompleted c])" (is "_ = (Inr ?evs, _)")
    using sample_stream_completes by blast
  have "co_text c = texts (butlast ?evs)"
    using completed_text_is_published [where stream = stream_openai_chat, OF _ s] by simp
  with s show ?thesis by (intro exI [of _ ?evs] exI [of _ c]) simp
qed

section \<open>Cuts between chunks do not matter\<close>

lemma pump_frames_append:
  "pump_frames ingest now (fs @ gs) p =
    (case pump_frames ingest now fs p of (Some e, q) \<Rightarrow> (Some e, q) | (None, q) \<Rightarrow> pump_frames ingest now gs q)"
  by (induction fs arbitrary: p) (simp_all split: sum.split prod.split)

lemma pump_event_parser:
  "pump_event now e (p\<lparr>sp_parser := q\<rparr>) = (pump_event now e p)\<lparr>sp_parser := q\<rparr>"
  by (simp add: pump_event_def)

lemma fold_pump_parser:
  "fold (pump_event now) evs (p\<lparr>sp_parser := q\<rparr>) = (fold (pump_event now) evs p)\<lparr>sp_parser := q\<rparr>"
  by (induction evs arbitrary: p) (simp_all add: pump_event_parser)

lemma pump_frames_parser:
  "pump_frames ingest now fs (p\<lparr>sp_parser := q\<rparr>) = apsnd (\<lambda>r. r\<lparr>sp_parser := q\<rparr>) (pump_frames ingest now fs p)"
proof (induction fs arbitrary: p)
  case (Cons f fs)
  show ?case
  proof (cases "ingest f (sp_assembler p)")
    case (Inr r)
    have "p\<lparr>sp_parser := q, sp_assembler := fst r\<rparr> = p\<lparr>sp_assembler := fst r, sp_parser := q\<rparr>"
      by (cases p) simp
    then have "fold (pump_event now) (snd r) (p\<lparr>sp_parser := q, sp_assembler := fst r\<rparr>) =
        (fold (pump_event now) (snd r) (p\<lparr>sp_assembler := fst r\<rparr>))\<lparr>sp_parser := q\<rparr>"
      by (simp only: fold_pump_parser)
    then show ?thesis using Inr Cons.IH by (cases r) simp
  qed simp
qed simp

text \<open>What is left of a pump besides the parser.\<close>

definition pumped :: "string option \<times> 'a stream_pump \<Rightarrow>
    string option \<times> 'a \<times> stream_timing \<times> model_stream_event list" where
  "pumped r = (fst r, sp_assembler (snd r), sp_timing (snd r), sp_events (snd r))"

lemma pumped_parser [simp]: "pumped (apsnd (\<lambda>r. r\<lparr>sp_parser := q\<rparr>) x) = pumped x"
  by (cases x) (simp add: pumped_def)

lemma pump_body_frames:
  "pumped (pump_body ingest now (map Chunk cs) p) =
     pumped (pump_frames ingest now (snd (sse_push_all (sp_parser p) cs)) p)"
proof (induction cs arbitrary: p)
  case (Cons c cs)
  obtain q fs where push: "sse_push (sp_parser p) c = (q, fs)" by (cases "sse_push (sp_parser p) c")
  obtain e r where fr: "pump_frames ingest now fs p = (e, r)" by (cases "pump_frames ingest now fs p")
  have fr': "pump_frames ingest now fs (p\<lparr>sp_parser := q\<rparr>) = (e, r\<lparr>sp_parser := q\<rparr>)"
    using fr by (simp add: pump_frames_parser)
  show ?case
  proof (cases e)
    case None
    have "pumped (pump_frames ingest now gs (r\<lparr>sp_parser := q\<rparr>)) = pumped (pump_frames ingest now gs r)" for gs
      by (simp add: pump_frames_parser)
    then show ?thesis using None Cons.IH [of "r\<lparr>sp_parser := q\<rparr>"] push fr fr'
      by (simp add: Let_def split_beta pump_frames_append)
  next
    case (Some x)
    then show ?thesis using push fr fr' by (simp add: Let_def split_beta pump_frames_append pumped_def)
  qed
qed (simp add: pumped_def)

lemma run_stream_chunks:
  assumes "concat cs = concat ds"
  shows "run_stream (E\<lparr>se_send := \<lambda>_. Answered 200 (map Chunk cs)\<rparr>) ingest finish a i key rq =
    run_stream (E\<lparr>se_send := \<lambda>_. Answered 200 (map Chunk ds)\<rparr>) ingest finish a i key rq"
proof -
  let ?b = "\<lambda>cs. pump_body ingest (se_now E) (map Chunk cs) (new_pump a)"
  have "pumped (?b cs) = pumped (?b ds)"
    using sse.feed_split_irrelevant [OF sse_new_ready assms]
    by (simp add: pump_body_frames new_pump_def sse_push_all_feed)
  then obtain e p q where "?b cs = (e, p)" "?b ds = (e, q)" "sp_assembler p = sp_assembler q"
    "sp_timing p = sp_timing q" "sp_events p = sp_events q"
    by (cases "?b cs"; cases "?b ds") (simp add: pumped_def)
  then show ?thesis by (cases e) (simp_all add: run_stream_def Let_def split: option.split)
qed

text \<open>
  C24. How the network cuts a provider's answer into chunks changes nothing: for every provider kind,
  two answers with the same bytes give the same events, the same published events and the same error,
  even when a cut falls inside a character, a line or a frame.
\<close>

theorem stream_chunking_irrelevant:
  assumes "stream \<in> {stream_openai_chat, stream_openai_responses, stream_anthropic}"
    and "concat cs = concat ds"
  shows "stream (E\<lparr>se_send := \<lambda>_. Answered 200 (map Chunk cs)\<rparr>) req base_url key attempt_id =
    stream (E\<lparr>se_send := \<lambda>_. Answered 200 (map Chunk ds)\<rparr>) req base_url key attempt_id"
proof -
  note chunks = run_stream_chunks [OF assms(2), of E]
  show ?thesis using assms(1)
    by (auto simp: stream_openai_chat_def stream_openai_responses_def stream_anthropic_def chunks)
qed

theorem stream_chunking_irrelevant_witness:
  "stream_anthropic (sample_stream_env\<lparr>se_send := \<lambda>_. Answered 200 (map Chunk [''dat'', ''a: x''])\<rparr>)
     sample_chat_request ''u'' None ''i'' =
   stream_anthropic (sample_stream_env\<lparr>se_send := \<lambda>_. Answered 200 (map Chunk [''data: '', ''x''])\<rparr>)
     sample_chat_request ''u'' None ''i''"
  by (rule stream_chunking_irrelevant) simp_all

section \<open>Arguments that are lost\<close>

text \<open>
  C19. A tool call behind a text block loses its arguments. The assembler of the Messages API keeps
  the tool calls in the order they start, but files argument fragments under the index of their
  content block, which also counts text and thinking blocks. When the first tool call of an answer
  is not the first block, every fragment of its arguments is dropped without an event or an error,
  and the completion hands the tool an empty object.
\<close>

theorem tool_behind_text_loses_arguments:
  assumes "aa_tool_args a = []"
    and "str_at_or_empty ''type'' (object_at ''content_block'' start) = ''tool_use''"
    and "list_all (\<lambda>d. str_at_or_empty ''type'' (object_at ''delta'' d) = ''input_json_delta'' \<and>
          1 \<le> u64_at ''index'' d) fragments"
  shows "\<exists>b c. fst (block_start attempt_id start a) = b \<and>
    emit_list (block_delta upper attempt_id) fragments b = (b, []) \<and>
    anthropic_finish attempt_id (b\<lparr>aa_saw_terminal := True\<rparr>) = EvCompleted c \<and>
    map cc_arguments_json (co_tool_calls c) = [''{}'']"
proof -
  let ?b = "fst (block_start attempt_id start a)"
  have args: "aa_tool_args ?b = [(str_at_or_empty ''id'' (object_at ''content_block'' start),
      str_at_or_empty ''name'' (object_at ''content_block'' start), [])]"
    using assms(1,2) by (simp add: block_start_def Let_def)
  have "emit_list (block_delta upper attempt_id) fragments ?b = (?b, [])"
    using assms(3) by (induction fragments) (simp_all add: emit_seq_def block_delta_def Let_def args)
  then show ?thesis by (simp add: anthropic_finish_def args args_or_empty_def)
qed

text \<open>The frames of an answer with a text block and then a tool call.\<close>

definition sample_start :: json where
  "sample_start = JObj [(''index'', JNum 1), (''content_block'',
     JObj [(''type'', JStr ''tool_use''), (''id'', JStr ''t1''), (''name'', JStr ''bash'')])]"

definition sample_fragment :: json where
  "sample_fragment = JObj [(''index'', JNum 1), (''delta'',
     JObj [(''type'', JStr ''input_json_delta''), (''partial_json'', JStr ''{ls}'')])]"

theorem tool_behind_text_loses_arguments_witness:
  "\<exists>b c. fst (block_start ''i'' sample_start new_anthropic) = b \<and>
    emit_list (block_delta (\<lambda>_. False) ''i'') [sample_fragment] b = (b, []) \<and>
    anthropic_finish ''i'' (b\<lparr>aa_saw_terminal := True\<rparr>) = EvCompleted c \<and>
    map cc_arguments_json (co_tool_calls c) = [''{}'']"
  by (rule tool_behind_text_loses_arguments)
    (simp_all add: new_anthropic_def sample_start_def sample_fragment_def object_at_def str_at_or_empty_def
      str_at_def u64_at_def)

section \<open>Calls of the Responses API\<close>

lemma merge_call_ids: "map cc_id (merge_call call cs) =
    (if cc_id call \<in> cc_id ` set cs then map cc_id cs else map cc_id cs @ [cc_id call])"
  by (induction cs) auto

lemma merge_calls_ids:
  assumes "distinct (map cc_id cs)"
  shows "distinct (map cc_id (fold merge_call calls cs)) \<and>
    cc_id ` set (fold merge_call calls cs) = cc_id ` set cs \<union> cc_id ` set calls"
  using assms
proof (induction calls arbitrary: cs)
  case (Cons call calls)
  have ids: "cc_id ` set (merge_call call cs) = insert (cc_id call) (cc_id ` set cs)"
    using merge_call_ids [of call cs] by (metis (no_types, lifting) insert_absorb list.set_map set_append
        list.simps(15) list.set(1) Un_insert_right sup_bot.right_neutral)
  have "distinct (map cc_id (merge_call call cs))"
    using Cons.prems by (auto simp: merge_call_ids)
  from Cons.IH [OF this] show ?case by (auto simp: ids)
qed simp

text \<open>
  The completion of a Responses stream carries every named tool call once: its ids are distinct, as
  the unique index on round and call id demands, and they are exactly the ids of the named calls the
  stream announced under any of their aliases.
\<close>

lemma responses_calls_distinct:
  "distinct (map cc_id (responses_calls a)) \<and>
   cc_id ` set (responses_calls a) = rt_id ` {t \<in> set (ra_tools a). rt_name t \<noteq> []}"
proof -
  let ?ts = "filter (\<lambda>t. rt_name t \<noteq> []) (ra_tools a)"
  have "responses_calls a = fold merge_call (map (responses_call_of a) ?ts) []"
    by (simp add: responses_calls_def fold_map comp_def)
  moreover have "cc_id ` set (map (responses_call_of a) ?ts) = rt_id ` {t \<in> set (ra_tools a). rt_name t \<noteq> []}"
    by (force simp: responses_call_of_def image_iff)
  ultimately show ?thesis using merge_calls_ids [of "[]" "map (responses_call_of a) ?ts"] by simp
qed

end
