(* ===== verification/Model_Properties.thy ===== *)
theory Model_Properties
  imports Provider_Stream Janus_Interfaces Project_Properties
begin

text \<open>
  Properties of the models capability: the usage of an attempt is booked at most once, a turn is
  only ever given an enabled model of its owner, two models of a provider cannot exchange their
  names, and a key that is cut off in an error message escapes the redaction.
\<close>

section \<open>Usage is booked once\<close>

text \<open>
  The requests that touch the attempts, interleaved. The ids drawn so far are part of the state,
  since a generated id is never drawn again. An attempt is finalised by the stream itself or by its
  dropped guard, possibly by both.
\<close>

definition final_status :: "attempt_finalization \<Rightarrow> bool" where
  "final_status fz \<longleftrightarrow> fz_status fz = ''succeeded'' \<or> fz_status fz = ''failed''"

inductive attempt_step :: "string set \<times> models_db \<Rightarrow> string set \<times> models_db \<Rightarrow> bool" where
  started: "i \<notin> ids \<Longrightarrow> insert_attempt_running i r p u n ty t db = (res, db') \<Longrightarrow>
    attempt_step (ids, db) (insert i ids, db')"
| finalized: "final_status fz \<Longrightarrow> finalize_attempt J t l i fz req db = (res, db') \<Longrightarrow>
    attempt_step (ids, db) (ids, db')"
| interrupted: "attempt_step (ids, db) (ids, interrupt_running_attempts_in_tx J t db)"
| cancelled: "attempt_step (ids, db) (ids, snd (cancel_running_attempts_for_rounds_in_tx J rs t db))"
| deleted: "attempt_step (ids, db) (ids, snd (delete_attempts_for_rounds_in_tx rs db))"

inductive_cases attempt_stepE: "attempt_step s s'"

text \<open>Every attempt has one row, booked attempts are settled, and none is booked twice.\<close>

definition ledger_ok :: "string set \<times> models_db \<Rightarrow> bool" where
  "ledger_ok s \<longleftrightarrow>
     distinct (map at_id (model_attempts (snd s))) \<and>
     distinct (map lg_attempt_id (model_usage_ledger (snd s))) \<and>
     at_id ` set (model_attempts (snd s)) \<union> lg_attempt_id ` set (model_usage_ledger (snd s)) \<subseteq> fst s \<and>
     (\<forall>a \<in> set (model_attempts (snd s)). at_status a = ''running'' \<longrightarrow>
        at_id a \<notin> lg_attempt_id ` set (model_usage_ledger (snd s)))"

text \<open>What a settled attempt keeps: its row is the only one with its id, or gone for good.\<close>

definition attempt_final :: "model_attempt_row \<Rightarrow> string set \<times> models_db \<Rightarrow> bool" where
  "attempt_final a s \<longleftrightarrow> at_status a \<noteq> ''running'' \<and> at_id a \<in> fst s \<and>
     (\<forall>b \<in> set (model_attempts (snd s)). at_id b = at_id a \<longrightarrow> b = a)"

lemma final_not_running: "final_status fz \<Longrightarrow> fz_status fz \<noteq> ''running''"
  by (auto simp: final_status_def)

lemma settled_attempt_simps [simp]:
  "at_id (settled_attempt J t fz a) = at_id a" "at_status (settled_attempt J t fz a) = fz_status fz"
  "at_id (closed_attempt J st c t a) = at_id a" "at_status (closed_attempt J st c t a) = st"
  by (simp_all add: settled_attempt_def closed_attempt_def)

text \<open>
  A change of the attempts that only closes running ones or drops rows keeps both facts.
\<close>

definition only_closes :: "model_attempt_row list \<Rightarrow> model_attempt_row list \<Rightarrow> bool" where
  "only_closes xs ys \<longleftrightarrow> (distinct (map at_id xs) \<longrightarrow> distinct (map at_id ys)) \<and>
     (\<forall>y \<in> set ys. y \<in> set xs \<or>
        (\<exists>x \<in> set xs. at_id y = at_id x \<and> at_status x = ''running'' \<and> at_status y \<noteq> ''running''))"

lemma only_closes_refl: "only_closes xs xs"
  by (simp add: only_closes_def)

lemma only_closes_trans: "only_closes xs ys \<Longrightarrow> only_closes ys zs \<Longrightarrow> only_closes xs zs"
  unfolding only_closes_def by metis

lemma only_closes_update_many:
  assumes "\<And>a. P a \<Longrightarrow> at_status a = ''running''" and "\<And>a. at_id (f a) = at_id a"
    and "\<And>a. at_status (f a) \<noteq> ''running''"
  shows "only_closes xs (update_many P f xs)"
proof -
  have "map at_id (update_many P f xs) = map at_id xs"
    using assms(2) by (simp add: update_many_def)
  moreover have "y \<in> set xs \<or> (\<exists>x \<in> set xs. at_id y = at_id x \<and> at_status x = ''running'' \<and> at_status y \<noteq> ''running'')"
    if "y \<in> set (update_many P f xs)" for y using that assms by (auto simp: update_many_def)
  ultimately show ?thesis unfolding only_closes_def by simp
qed

lemma only_closes_filter: "only_closes xs (filter P xs)"
  by (auto simp: only_closes_def distinct_map_filter)

lemma only_closes_ids: "only_closes xs ys \<Longrightarrow> at_id ` set ys \<subseteq> at_id ` set xs"
  unfolding only_closes_def by (metis image_eqI image_subsetI)

lemma only_closes_running: "only_closes xs ys \<Longrightarrow> y \<in> set ys \<Longrightarrow> at_status y = ''running'' \<Longrightarrow> y \<in> set xs"
  unfolding only_closes_def by blast

lemma only_closes_ok:
  assumes "only_closes (model_attempts db) (model_attempts db')"
    and "model_usage_ledger db' = model_usage_ledger db" and "ledger_ok (ids, db)"
  shows "ledger_ok (ids, db')"
proof -
  have "distinct (map at_id (model_attempts db'))" using assms(1,3) by (simp add: ledger_ok_def only_closes_def)
  then show ?thesis
    using assms(2,3) only_closes_ids [OF assms(1)] only_closes_running [OF assms(1)]
    unfolding ledger_ok_def by auto
qed

lemma only_closes_final:
  assumes "only_closes (model_attempts db) (model_attempts db')" and "attempt_final a (ids, db)"
  shows "attempt_final a (ids, db')"
  using assms unfolding attempt_final_def only_closes_def by fastforce

lemma cancel_only_closes:
  "only_closes (model_attempts db) (model_attempts (snd (cancel_running_attempts_for_rounds_in_tx J rs t db))) \<and>
   model_usage_ledger (snd (cancel_running_attempts_for_rounds_in_tx J rs t db)) = model_usage_ledger db"
proof (induction rs arbitrary: db)
  case (Cons r rs)
  let ?db = "db\<lparr>model_attempts := update_many (\<lambda>a. at_round_id a = r \<and> at_status a = ''running'')
      (closed_attempt J ''canceled'' ''USER_CANCEL'' t) (model_attempts db)\<rparr>"
  have "only_closes (model_attempts db) (model_attempts ?db)"
    by (simp, rule only_closes_update_many) simp_all
  then show ?case
    using only_closes_trans Cons.IH [of ?db] by (auto simp: Let_def split_beta)
qed (simp_all add: only_closes_refl)

lemma delete_only_closes:
  "only_closes (model_attempts db) (model_attempts (snd (delete_attempts_for_rounds_in_tx rs db))) \<and>
   model_usage_ledger (snd (delete_attempts_for_rounds_in_tx rs db)) = model_usage_ledger db"
proof (induction rs arbitrary: db)
  case (Cons r rs)
  let ?db = "db\<lparr>model_attempts := fst (delete_many (\<lambda>a. at_round_id a = r) (model_attempts db))\<rparr>"
  have "only_closes (model_attempts db) (model_attempts ?db)"
    by (simp add: delete_many_def only_closes_filter)
  then show ?case
    using only_closes_trans Cons.IH [of ?db] by (auto simp: Let_def split_beta)
qed (simp_all add: only_closes_refl)

lemma interrupt_only_closes:
  "only_closes (model_attempts db) (model_attempts (interrupt_running_attempts_in_tx J t db)) \<and>
   model_usage_ledger (interrupt_running_attempts_in_tx J t db) = model_usage_ledger db"
  using only_closes_update_many [of "\<lambda>a. at_status a = ''running''" "closed_attempt J ''interrupted'' ''CONTROL_PLANE_RESTART'' t"]
  by (simp add: interrupt_running_attempts_in_tx_def)

lemma only_closes_update_one:
  assumes "\<And>a. P a \<Longrightarrow> at_status a = ''running''" and "\<And>a. at_id (f a) = at_id a"
    and "\<And>a. at_status (f a) \<noteq> ''running''"
  shows "only_closes xs (fst (update_one P f xs))"
proof -
  have "map at_id (fst (update_one P f xs)) = map at_id xs"
    using assms(2) by (induction xs) auto
  moreover have "y \<in> set xs \<or> (\<exists>x \<in> set xs. at_id y = at_id x \<and> at_status x = ''running'' \<and> at_status y \<noteq> ''running'')"
    if "y \<in> set (fst (update_one P f xs))" for y
    using that assms by (induction xs) (auto split: if_splits)
  ultimately show ?thesis unfolding only_closes_def by simp
qed

lemma update_one_key_closed:
  assumes "distinct (map k xs)" and "snd (update_one (\<lambda>a. k a = i \<and> Q a) f xs) = 1" and "\<And>a. k (f a) = k a"
    and "\<And>a. \<not> Q (f a)"
  shows "(\<exists>a \<in> set xs. k a = i \<and> Q a) \<and>
    (\<forall>b \<in> set (fst (update_one (\<lambda>a. k a = i \<and> Q a) f xs)). k b = i \<longrightarrow> \<not> Q b)"
  using assms(1,2)
proof (induction xs)
  case (Cons x xs)
  show ?case
  proof (cases "k x = i \<and> Q x")
    case True
    then show ?thesis using Cons.prems(1) assms(3,4) by (auto simp: image_iff)
  next
    case False
    then have upd: "update_one (\<lambda>a. k a = i \<and> Q a) f (x # xs) =
        (x # fst (update_one (\<lambda>a. k a = i \<and> Q a) f xs), snd (update_one (\<lambda>a. k a = i \<and> Q a) f xs))"
      by (auto simp: split_beta)
    have "distinct (map k xs)" "snd (update_one (\<lambda>a. k a = i \<and> Q a) f xs) = 1"
      using Cons.prems unfolding upd by simp_all
    from Cons.IH [OF this] False show ?thesis unfolding upd by (simp only: fst_conv list.set) blast
  qed
qed simp

lemma finalize_attempt_effect:
  assumes "final_status fz" and "finalize_attempt J t l i fz req db = (res, db')"
    and "distinct (map at_id (model_attempts db))"
  shows "only_closes (model_attempts db) (model_attempts db') \<and>
    (model_usage_ledger db' = model_usage_ledger db \<or>
     (\<exists>entry. model_usage_ledger db' = model_usage_ledger db @ [entry] \<and> lg_attempt_id entry = i \<and>
       (\<exists>a \<in> set (model_attempts db). at_id a = i \<and> at_status a = ''running'') \<and>
       (\<forall>b \<in> set (model_attempts db'). at_id b = i \<longrightarrow> at_status b \<noteq> ''running'')))"
proof -
  let ?P = "\<lambda>a. at_id a = i \<and> at_status a = ''running''" and ?f = "settled_attempt J t fz"
  let ?rows = "fst (update_one ?P ?f (model_attempts db))"
  have closes: "only_closes (model_attempts db) ?rows"
    using final_not_running [OF assms(1)] by (intro only_closes_update_one) simp_all
  have closed: "snd (update_one ?P ?f (model_attempts db)) = 1 \<Longrightarrow>
      (\<exists>a \<in> set (model_attempts db). ?P a) \<and> (\<forall>b \<in> set ?rows. at_id b = i \<longrightarrow> at_status b \<noteq> ''running'')"
    using final_not_running [OF assms(1)] by (intro update_one_key_closed [OF assms(3)]) simp_all
  have entry: "ledger_entry l t i fz req = Some e \<Longrightarrow> lg_attempt_id e = i" for e
    by (auto simp: ledger_entry_def bind_eq_Some_conv)
  consider "db' = db" | "db' = db\<lparr>model_attempts := ?rows\<rparr>"
    | e where "snd (update_one ?P ?f (model_attempts db)) = 1" "ledger_entry l t i fz req = Some e"
      "db' = db\<lparr>model_attempts := ?rows, model_usage_ledger := model_usage_ledger db @ [e]\<rparr>"
    using assms(2)
    by (auto simp: finalize_attempt_def run_tx_def finalize_attempt_tx_def Let_def split_beta
        split: if_splits option.splits dest: insert_one_SomeD)
  then show ?thesis
  proof cases
    case 1
    then show ?thesis by (simp add: only_closes_refl)
  next
    case 2
    then show ?thesis using closes by simp
  next
    case 3
    then show ?thesis using closes closed [OF 3(1)] entry [OF 3(2)] by simp
  qed
qed

lemma insert_attempt_effect:
  assumes "insert_attempt_running i r p u n ty t db = (res, db')"
  shows "db' = db \<or> (\<exists>a. model_attempts db' = model_attempts db @ [a] \<and> at_id a = i \<and>
    i \<notin> at_id ` set (model_attempts db) \<and> model_usage_ledger db' = model_usage_ledger db)"
  using assms by (auto simp: insert_attempt_running_def Let_def split: if_splits option.splits
      dest!: insert_one_SomeD)

lemma ledger_ok_start:
  assumes "ledger_ok (ids, db)" and "i \<notin> ids" and "insert_attempt_running i r p u n ty t db = (res, db')"
  shows "ledger_ok (insert i ids, db')"
proof -
  have booked: "i \<notin> lg_attempt_id ` set (model_usage_ledger db)"
    using assms(1,2) by (auto simp: ledger_ok_def)
  from insert_attempt_effect [OF assms(3)] show ?thesis
  proof (elim disjE exE conjE)
    fix a
    assume a: "model_attempts db' = model_attempts db @ [a]" "at_id a = i"
      "i \<notin> at_id ` set (model_attempts db)" "model_usage_ledger db' = model_usage_ledger db"
    show ?thesis using assms(1) booked a(2,3) unfolding ledger_ok_def by (simp add: a(1,4)) blast
  qed (use assms(1) in \<open>auto simp: ledger_ok_def\<close>)
qed

lemma attempt_step_ok: "attempt_step s s' \<Longrightarrow> ledger_ok s \<Longrightarrow> ledger_ok s'"
proof (induction rule: attempt_step.induct)
  case (started i ids r p u n ty t db res db')
  then show ?case by (intro ledger_ok_start)
next
  case (finalized fz J t l i req db res db' ids)
  have "distinct (map at_id (model_attempts db))" using finalized(3) by (simp add: ledger_ok_def)
  note eff = finalize_attempt_effect [OF finalized(1,2) this]
  show ?case
  proof (cases "model_usage_ledger db' = model_usage_ledger db")
    case True
    then show ?thesis using only_closes_ok eff finalized(3) by blast
  next
    case False
    then obtain entry where e: "model_usage_ledger db' = model_usage_ledger db @ [entry]" "lg_attempt_id entry = i"
      "\<exists>a \<in> set (model_attempts db). at_id a = i \<and> at_status a = ''running''"
      "\<forall>b \<in> set (model_attempts db'). at_id b = i \<longrightarrow> at_status b \<noteq> ''running''" using eff by blast
    have "ledger_ok (ids, db'\<lparr>model_usage_ledger := model_usage_ledger db\<rparr>)"
      using only_closes_ok [of db "db'\<lparr>model_usage_ledger := model_usage_ledger db\<rparr>"] eff finalized(3) by simp
    then show ?thesis using e finalized(3) by (auto simp: ledger_ok_def)
  qed
next
  case (interrupted ids db J t)
  then show ?case using only_closes_ok interrupt_only_closes by blast
next
  case (cancelled ids db J rs t)
  then show ?case using only_closes_ok cancel_only_closes by blast
next
  case (deleted ids db rs)
  then show ?case using only_closes_ok delete_only_closes by blast
qed

lemma attempt_step_final: "attempt_step s s' \<Longrightarrow> ledger_ok s \<Longrightarrow> attempt_final a s \<Longrightarrow> attempt_final a s'"
proof (induction rule: attempt_step.induct)
  case (started i ids r p u n ty t db res db')
  then show ?case using insert_attempt_effect [OF started(2)] by (auto simp: attempt_final_def)
next
  case (finalized fz J t l i req db res db' ids)
  have "distinct (map at_id (model_attempts db))" using finalized(3) by (simp add: ledger_ok_def)
  then show ?case using only_closes_final finalize_attempt_effect [OF finalized(1,2)] finalized(4) by blast
next
  case (interrupted ids db J t)
  then show ?case using only_closes_final interrupt_only_closes by blast
next
  case (cancelled ids db J rs t)
  then show ?case using only_closes_final cancel_only_closes by blast
next
  case (deleted ids db rs)
  then show ?case using only_closes_final delete_only_closes by blast
qed

interpretation attempts: step_stable attempt_step ledger_ok attempt_final
  by unfold_locales (auto intro: attempt_step_ok attempt_step_final)

text \<open>
  C17. The tokens of an attempt are booked at most once: over every interleaving of starting,
  finalising, interrupting, cancelling and deleting attempts, also when a stream and its dropped guard
  both finalise it, no two entries of the usage ledger name the same attempt; and an attempt that was
  settled keeps its status and its tokens, whatever is written later, until its row is deleted.
\<close>

theorem usage_booked_once:
  assumes "attempt_step\<^sup>*\<^sup>* (ids, db) (ids', db')" and "ledger_ok (ids, db)"
  shows "distinct (map lg_attempt_id (model_usage_ledger db')) \<and>
    (\<forall>a \<in> set (model_attempts db). \<forall>b \<in> set (model_attempts db').
       at_id b = at_id a \<longrightarrow> at_status a \<noteq> ''running'' \<longrightarrow> b = a)"
proof -
  have "ledger_ok (ids', db')" by (rule attempts.steps_inv [OF assms])
  moreover have "attempt_final a (ids', db')" if "a \<in> set (model_attempts db)" "at_status a \<noteq> ''running''" for a
  proof (rule attempts.fact_steps [OF assms])
    show "attempt_final a (ids, db)"
      using assms(2) that unfolding attempt_final_def ledger_ok_def
      by (auto simp: distinct_map dest: inj_onD)
  qed
  ultimately show ?thesis by (auto simp: ledger_ok_def attempt_final_def)
qed

text \<open>An attempt that runs, is finalised with usage by its stream and again by its guard.\<close>

definition empty_models :: models_db where
  "empty_models = \<lparr>public_events = [], event_seq = Some 0, projection_cursor_row = None, model_providers = [],
     models = [], model_failover = [], model_attempts = [], model_usage_ledger = [],
     automation_settings = [], automation_webhook_secret_row = None\<rparr>"

definition sample_attempt :: models_db where
  "sample_attempt = snd (insert_attempt_running ''a1'' ''r'' ''p'' ''u'' 0 AtNormal 1 empty_models)"

definition sample_usage :: attempt_finalization where
  "sample_usage = \<lparr>fz_status = ''succeeded'', fz_input_tokens = Some 3, fz_output_tokens = Some 4,
     fz_cache_tokens = None, fz_error_json = None\<rparr>"

definition sample_booked_request :: model_request where
  "sample_booked_request =
     \<lparr>mr_owner_id = ''o'', mr_provider_id = ''p'', mr_upstream_model_id = ''u'', mr_parameters = JNull,
      mr_messages = [], mr_tools = [], mr_round_id = Some ''r'', mr_project_id = Some ''j'',
      mr_session_id = Some ''s'', mr_turn_id = Some ''t''\<rparr>"

definition booked :: "string \<Rightarrow> attempt_finalization \<Rightarrow> models_db \<Rightarrow> models_db" where
  "booked l fz db = snd (finalize_attempt wire_serde 2 l ''a1'' fz sample_booked_request db)"

lemmas booked_defs = booked_def finalize_attempt_def finalize_attempt_tx_def run_tx_def sample_attempt_def
  insert_attempt_running_def insert_one_def empty_models_def sample_usage_def sample_booked_request_def
  ledger_entry_def settled_attempt_def

theorem usage_booked_once_witness:
  "length (model_usage_ledger (booked ''l2'' abandoned_finalization (booked ''l1'' sample_usage sample_attempt))) = 1 \<and>
   distinct (map lg_attempt_id
     (model_usage_ledger (booked ''l2'' abandoned_finalization (booked ''l1'' sample_usage sample_attempt))))"
proof -
  have step: "attempt_step (ids, db) (ids, booked l fz db)" if "final_status fz" for ids l fz db
    using attempt_step.finalized [OF that, of wire_serde 2 l "''a1''" sample_booked_request db _ "booked l fz db" ids]
    by (cases "finalize_attempt wire_serde 2 l ''a1'' fz sample_booked_request db") (auto simp: booked_def)
  have final: "final_status sample_usage" "final_status abandoned_finalization"
    by (simp_all add: final_status_def sample_usage_def abandoned_finalization_def failed_finalization_def)
  have "attempt_step\<^sup>*\<^sup>* ({''a1''}, sample_attempt)
      ({''a1''}, booked ''l2'' abandoned_finalization (booked ''l1'' sample_usage sample_attempt))"
    using step final by (meson converse_rtranclp_into_rtranclp rtranclp.rtrancl_refl)
  moreover have "ledger_ok ({''a1''}, sample_attempt)" by (simp add: ledger_ok_def booked_defs)
  moreover have "length (model_usage_ledger (booked ''l2'' abandoned_finalization
      (booked ''l1'' sample_usage sample_attempt))) = 1" by (simp add: booked_defs)
  ultimately show ?thesis using usage_booked_once by blast
qed

text \<open>An attempt of a stream moves the ledger along these steps, with one id drawn for it.\<close>

lemma finalization_of_final: "final_status (finalization_of events)"
  by (auto simp: finalization_of_def failed_finalization_def final_status_def
      split: list.splits model_stream_event.splits)

lemma finalize_in_step:
  assumes "final_status fz"
  shows "attempt_step (ids, fst w) (ids, fst (snd (finalize_in E g fz req w)))"
  using attempt_step.finalized [OF assms surjective_pairing, of ids "fst w" "se_serde E" "ag_ended g"
      "ag_ledger_id g" "ag_attempt_id g" req]
  by (simp add: finalize_in_def split_beta)

lemma settle_attempt_step:
  "attempt_step (ids, fst w) (ids, fst (snd (settle_attempt E g req streamed w)))"
proof (cases "fst streamed")
  case (Inr events)
  let ?w = "(fst w, snd w @ snd streamed)"
  have "fst (snd (settle_attempt E g req streamed w)) = fst (snd (finalize_in E g (finalization_of events) req ?w))"
    using Inr by (simp add: settle_attempt_def and_run_def Let_def split: sum.split)
  then show ?thesis using finalize_in_step [OF finalization_of_final, where w = ?w] by simp
next
  case (Inl e)
  let ?fz = "failed_finalization ''PROVIDER_STREAM_FAILED'' (models_error_text e)"
  let ?w = "(fst w, snd w @ snd streamed @ [EvFailed (ag_attempt_id g) ''PROVIDER_STREAM_FAILED'' (models_error_text e)])"
  have "final_status ?fz" by (simp add: failed_finalization_def final_status_def)
  moreover have "fst (snd (settle_attempt E g req streamed w)) = fst (snd (finalize_in E g ?fz req ?w))"
    using Inl by (simp add: settle_attempt_def and_run_def Let_def split: sum.split)
  ultimately show ?thesis using finalize_in_step [where w = ?w] by simp
qed

lemma stream_attempt_steps:
  assumes "ag_attempt_id g \<notin> ids"
  shows "\<exists>ids'. attempt_step\<^sup>*\<^sup>* (ids, fst w)
    (ids', fst (snd (stream_completion_with_candidate E K g req order ty w)))"
proof -
  let ?r = "case mr_round_id req of None \<Rightarrow> ''round-unset'' | Some r \<Rightarrow> r"
  obtain res db1 where ins: "insert_attempt_running (ag_attempt_id g) ?r (mr_provider_id req)
      (mr_upstream_model_id req) order ty (ag_started g) (fst w) = (res, db1)" by fastforce
  have start: "attempt_step (ids, fst w) (insert (ag_attempt_id g) ids, db1)"
    by (rule attempt_step.started [OF assms ins])
  have "fst (snd (stream_completion_with_candidate E K g req order ty w)) = fst w \<or>
      fst (snd (stream_completion_with_candidate E K g req order ty w)) = db1 \<or>
      (\<exists>st. fst (snd (stream_completion_with_candidate E K g req order ty w)) =
        fst (snd (settle_attempt E g req st (db1, snd w))))"
    using ins by (auto simp: stream_completion_with_candidate_def and_run_def simp del: split_paired_Ex split: sum.split)
  then show ?thesis
  proof (elim disjE exE)
    fix st
    assume "fst (snd (stream_completion_with_candidate E K g req order ty w)) =
        fst (snd (settle_attempt E g req st (db1, snd w)))"
    then have "attempt_step (insert (ag_attempt_id g) ids, db1)
        (insert (ag_attempt_id g) ids, fst (snd (stream_completion_with_candidate E K g req order ty w)))"
      using settle_attempt_step [of "insert (ag_attempt_id g) ids" "(db1, snd w)" E g req st] by simp
    then show ?thesis using start by (meson converse_rtranclp_into_rtranclp r_into_rtranclp)
  qed (use start in \<open>auto intro: r_into_rtranclp\<close>)
qed

section \<open>Which model a turn gets\<close>

text \<open>
  The models a turn may use: enabled, of an enabled provider of the owner, and the preferred one when
  a provider and upstream id or a model id is preferred.
\<close>

definition eligible_model :: "string \<Rightarrow> model_preference \<Rightarrow> 'x models_db_scheme \<Rightarrow> model_row \<Rightarrow> bool" where
  "eligible_model owner pref db m \<longleftrightarrow> m \<in> set (models db) \<and> mo_enabled m \<and>
     (\<exists>p \<in> set (model_providers db). pr_id p = mo_provider_id m \<and> supervisor_provider owner p) \<and>
     (case (mp_provider_id pref, mp_upstream_model_id pref) of
        (Some i, Some u) \<Rightarrow> mo_provider_id m = i \<and> mo_upstream_model_id m = u
      | _ \<Rightarrow> (case mp_model_id pref of None \<Rightarrow> True | Some i \<Rightarrow> mo_id m = i))"

lemma try_map_Inr_Nil: "try_map f xs = Inr [] \<longleftrightarrow> xs = []"
  by (cases xs) (auto simp: and_then_def split: sum.splits)

lemma resolved_model_fields:
  "resolved_model_of J m = Inr r \<Longrightarrow> rs_model_id r = mo_id m \<and> rs_provider_id r = mo_provider_id m \<and>
     rs_upstream_model_id r = mo_upstream_model_id m"
  by (auto simp: resolved_model_of_def and_then_def split: sum.splits)

lemma resolve_models_first:
  assumes "first_model (resolve_models_in_tx J P Q db) = Inr result"
  shows "case result of
      None \<Rightarrow> \<not> (\<exists>m \<in> set (models db). mo_enabled m \<and> Q m \<and> (\<exists>p \<in> set (model_providers db). P p \<and> pr_id p = mo_provider_id m))
    | Some r \<Rightarrow> \<exists>m \<in> set (models db). mo_enabled m \<and> Q m \<and>
        (\<exists>p \<in> set (model_providers db). P p \<and> pr_id p = mo_provider_id m) \<and> resolved_model_of J m = Inr r"
proof (cases "filter P (model_providers db) = []")
  case True
  then show ?thesis using assms by (auto simp: resolve_models_in_tx_def first_model_def filter_empty_conv)
next
  case False
  let ?ms = "sort_models (filter P (model_providers db)) (filter (\<lambda>m. mo_provider_id m \<in> pr_id ` set (filter P (model_providers db))
      \<and> mo_enabled m \<and> Q m) (models db))"
  have ms: "set ?ms = {m \<in> set (models db). mo_enabled m \<and> Q m \<and>
      (\<exists>p \<in> set (model_providers db). P p \<and> pr_id p = mo_provider_id m)}"
    by (force simp: sort_models_def)
  obtain rs where rs: "try_map (resolved_model_of J) ?ms = Inr rs"
    and res: "result = (case rs of [] \<Rightarrow> None | r # _ \<Rightarrow> Some r)"
    using assms False by (auto simp: resolve_models_in_tx_def first_model_def and_then_def Let_def split: sum.splits)
  show ?thesis
  proof (cases rs)
    case Nil
    then have "?ms = []" using rs by (simp add: try_map_Inr_Nil)
    then have "set ?ms = {}" by simp
    then show ?thesis using Nil res unfolding ms by auto
  next
    case (Cons r rest)
    then obtain m rest' where "?ms = m # rest'" "resolved_model_of J m = Inr r"
      using try_map_InrD [OF rs] by (cases ?ms) auto
    then have "m \<in> set ?ms" "resolved_model_of J m = Inr r" by simp_all
    then show ?thesis using Cons res unfolding ms by auto
  qed
qed

text \<open>
  C25. A turn is given an eligible model or none: what the resolution returns is an enabled model of an
  enabled provider of the turn's owner, the preferred one when the turn prefers one, never another
  owner's; and it returns no model only when there is no such model.
\<close>

theorem resolved_model_eligible:
  assumes "resolve_for_turn_in_tx J owner pref db = Inr result"
  shows "case result of
      None \<Rightarrow> \<not> (\<exists>m. eligible_model owner pref db m)
    | Some r \<Rightarrow> \<exists>m. eligible_model owner pref db m \<and> rs_model_id r = mo_id m \<and>
        rs_provider_id r = mo_provider_id m \<and> rs_upstream_model_id r = mo_upstream_model_id m"
proof -
  have go: ?thesis
    if first: "first_model (resolve_models_in_tx J P Q db) = Inr result"
      and eq: "\<And>m. eligible_model owner pref db m \<longleftrightarrow> m \<in> set (models db) \<and> mo_enabled m \<and> Q m \<and>
        (\<exists>p \<in> set (model_providers db). P p \<and> pr_id p = mo_provider_id m)" for P Q
    using resolve_models_first [OF first] unfolding eq
    by (cases result) (auto dest!: resolved_model_fields)
  show ?thesis
  proof (cases "mp_provider_id pref = None \<or> mp_upstream_model_id pref = None")
    case True
    show ?thesis
    proof (cases "mp_model_id pref")
      case None
      show ?thesis
        by (rule go [of "supervisor_provider owner" "\<lambda>_. True"])
          (use assms True None in \<open>auto simp: resolve_for_turn_in_tx_def eligible_model_def split: option.splits\<close>)
    next
      case (Some i)
      show ?thesis
        by (rule go [of "supervisor_provider owner" "\<lambda>m. mo_id m = i"])
          (use assms True Some in \<open>auto simp: resolve_for_turn_in_tx_def eligible_model_def split: option.splits\<close>)
    qed
  next
    case False
    then obtain i u where "mp_provider_id pref = Some i" "mp_upstream_model_id pref = Some u" by auto
    then show ?thesis
      by (intro go [of "\<lambda>r. pr_id r = i \<and> supervisor_provider owner r" "\<lambda>m. mo_upstream_model_id m = u"])
        (use assms in \<open>auto simp: resolve_for_turn_in_tx_def eligible_model_def\<close>)
  qed
qed

definition sample_provider :: provider_row where
  "sample_provider = \<lparr>pr_id = ''p'', pr_owner_id = ''o'', pr_client = ''supervisor'', pr_kind = ''anthropic'',
     pr_display_name = ''P'', pr_base_url = ''u'', pr_api_key_ciphertext = None, pr_api_key_fingerprint = None,
     pr_api_key_preview = None, pr_models_json = [], pr_enabled = True, pr_created_at = 1, pr_updated_at = 1\<rparr>"

definition sample_model :: "string \<Rightarrow> string \<Rightarrow> string \<Rightarrow> model_row" where
  "sample_model i d u = \<lparr>mo_id = i, mo_provider_id = ''p'', mo_display_name = d, mo_upstream_model_id = u,
     mo_context_limit = 200000, mo_supports_images = False, mo_supports_tools = True,
     mo_parameters_json = ''x'', mo_enabled = True, mo_created_at = 1, mo_updated_at = 1\<rparr>"

definition sample_models :: models_db where
  "sample_models = empty_models\<lparr>model_providers := [sample_provider],
     models := [sample_model ''m1'' ''A'' ''u1'', sample_model ''m2'' ''B'' ''u2'']\<rparr>"

definition sample_preference :: model_preference where
  "sample_preference = \<lparr>mp_model_id = None, mp_provider_id = Some ''p'', mp_upstream_model_id = Some ''u2''\<rparr>"

theorem resolved_model_eligible_witness:
  "\<exists>r m. resolve_for_turn_in_tx sample_serde ''o'' sample_preference sample_models = Inr (Some r) \<and>
    eligible_model ''o'' sample_preference sample_models m \<and> rs_model_id r = mo_id m"
proof -
  obtain r where "resolve_for_turn_in_tx sample_serde ''o'' sample_preference sample_models = Inr (Some r)"
    by (simp add: resolve_for_turn_in_tx_def first_model_def resolve_models_in_tx_def sample_preference_def
        sample_models_def sample_provider_def sample_model_def empty_models_def supervisor_provider_def
        sort_models_def resolved_model_of_def context_limit_of_def sample_serde_def)
  with resolved_model_eligible [OF this] show ?thesis by auto
qed

section \<open>Names cannot be exchanged\<close>

text \<open>
  Two models of a provider cannot exchange their display names: the rows are written one after the
  other, so the first one takes a name the second still has and the unique index refuses it. The
  request, which is valid and whose result would be, fails as a storage error and changes nothing.
\<close>

lemma sync_swap_refused:
  assumes "m1 \<in> set ms" "m2 \<in> set ms" "mo_id m1 \<noteq> mo_id m2"
    and "mo_provider_id m1 = i" "mo_provider_id m2 = i" and "models_indexed ms"
    and "str_trim (em_upstream_model_id x) = mo_upstream_model_id m1"
    and "str_trim (em_display_name x) = mo_display_name m2"
  shows "sync_inputs new_id i now (filter (\<lambda>m. mo_provider_id m = i) ms) n (x # xs) retained ms = Inl MdStorage"
proof -
  let ?ex = "filter (\<lambda>m. mo_provider_id m = i) ms"
  have same: "m = m'" if "m \<in> set ms" "m' \<in> set ms" "mo_provider_id m = mo_provider_id m'"
      "mo_upstream_model_id m = mo_upstream_model_id m'" for m m'
    using that assms(6) unfolding models_indexed_def distinct_map by (blast dest: inj_onD)
  have "find_one (\<lambda>m. mo_upstream_model_id m = mo_upstream_model_id m1) ?ex = Some m1"
    using assms(1,4) same by (intro find_one_unique) auto
  then have match: "matching_model ?ex x = Some (mo_id m1)"
    by (simp add: matching_model_def assms(7))
  let ?ms = "fst (update_one (\<lambda>m. mo_id m = mo_id m1) (synced_model x now) ms)"
  have upd: "?ms = map (\<lambda>m. if mo_id m = mo_id m1 then synced_model x now m else m) ms"
    using assms(6) by (intro update_one_keyed [where k = mo_id and i = "mo_id m1"])
      (simp_all add: models_indexed_def synced_model_def)
  have in1: "synced_model x now m1 \<in> set ?ms" and in2: "m2 \<in> set ?ms"
    using assms(1-3) unfolding upd by (auto simp: image_iff)
  have "(mo_provider_id (synced_model x now m1), mo_display_name (synced_model x now m1)) =
      (mo_provider_id m2, mo_display_name m2)" using assms(4,5,8) by (simp add: synced_model_def)
  moreover have "synced_model x now m1 \<noteq> m2" using assms(3) by (auto simp: synced_model_def)
  ultimately have "\<not> models_indexed ?ms"
    using in1 in2 unfolding models_indexed_def distinct_map by (auto dest: inj_onD)
  then have "upsert_model i (mo_id m1) x now ms = Inl MdStorage"
    using assms(1) by (auto simp: upsert_model_def Let_def)
  then show ?thesis using match by (simp add: Let_def)
qed

theorem swapped_names_refused:
  assumes "validate_provider L input = Inr ()" and "validate_models input = Inr ()"
    and "m1 \<in> set (models db)" "m2 \<in> set (models db)" "mo_id m1 \<noteq> mo_id m2"
    and "mo_provider_id m1 = i" "mo_provider_id m2 = i" and "models_indexed (models db)"
    and "pi_models input = x # y # rest"
    and "str_trim (em_upstream_model_id x) = mo_upstream_model_id m1"
    and "str_trim (em_display_name x) = mo_display_name m2"
    and "provider_row_of owner i db = Inr row"
    and "ensure_provider_name_available owner (pi_client input) (pi_display_name input) (Some i) db = Inr ()"
    and "pi_api_key input = None"
  shows "update_provider J K L g owner i input c db = (Inl MdStorage, db)"
proof -
  obtain url where url: "normalize_base_url L (pi_kind input) (pi_base_url input) = Inr url"
    using assms(1) by (auto simp: validate_provider_def and_then_def split: if_splits sum.splits)
  have "find_one (\<lambda>p. pr_id p = i \<and> pr_owner_id p = owner) (model_providers db) \<noteq> None"
    using assms(12) by (auto simp: provider_row_of_def ok_or_def split: option.splits)
  then have count: "snd (update_one (\<lambda>p. pr_id p = i \<and> pr_owner_id p = owner) f (model_providers db)) \<noteq> 0" for f
    by (auto simp: update_one_count_find split: option.splits)
  have "write_provider_tx J g owner i input op c (update_one (\<lambda>p. pr_id p = i \<and> pr_owner_id p = owner) f
      (model_providers db)) db = Inl MdStorage" for f op
    using count [of f] sync_swap_refused [OF assms(3-8,10,11), of "vg_model_id g" "vg_now g" 0 "y # rest" "[]"]
    by (simp add: write_provider_tx_def sync_normalized_models_def assms(9) Let_def)
  then show ?thesis using assms(1,2,12-14) url by (simp add: update_provider_def run_tx_def)
qed

section \<open>A key at the cut escapes redaction\<close>

lemma chars_ascii: "\<forall>c \<in> set s. (of_char c :: nat) < 128 \<Longrightarrow> utf8_chars s = map (\<lambda>c. [c]) s"
proof (induction s)
  case (Cons c s)
  have none: "takeWhile (\<lambda>b. continuation (of_char b)) s = []" "dropWhile (\<lambda>b. continuation (of_char b)) s = s"
    using Cons.prems by (cases s; auto simp: continuation_def)+
  show ?case using Cons by (simp add: none)
qed simp

lemma cut_key_absent:
  assumes "key \<noteq> []" and "hd key \<notin> set front" and "n < length key"
  shows "front @ take n key \<noteq> xs @ key @ ys"
proof
  assume eq: "front @ take n key = xs @ key @ ys"
  show False
  proof (cases "length front \<le> length xs")
    case True
    have "length (front @ take n key) = length (xs @ key @ ys)" by (simp only: eq)
    then show False using True assms(3) by simp
  next
    case False
    then have "(front @ take n key) ! length xs = front ! length xs" by (simp add: nth_append)
    moreover have "(xs @ key @ ys) ! length xs = hd key" using assms(1) by (simp add: nth_append hd_conv_nth)
    ultimately show False using eq False assms(2) by (metis not_le nth_mem)
  qed
qed

definition plain_char :: "char \<Rightarrow> bool" where
  "plain_char c \<longleftrightarrow> 33 \<le> (of_char c :: nat) \<and> (of_char c :: nat) < 127"

lemma plain_ascii: "plain_char c \<Longrightarrow> (of_char c :: nat) < 128"
  by (simp add: plain_char_def)

lemma ws_not_plain: "ws_encoding ns \<Longrightarrow> \<exists>n \<in> set ns. n < 33 \<or> 127 \<le> n"
  by (cases ns rule: ws_encoding.cases) auto

lemma plain_trim: "\<forall>c \<in> set s. plain_char c \<Longrightarrow> str_trim s = s"
proof -
  assume plain: "\<forall>c \<in> set s. plain_char c"
  have no: "\<not> ws_encoding (map of_char t)" if "set t \<subseteq> set s" for t
  proof
    assume "ws_encoding (map of_char t)"
    then obtain c where "c \<in> set t" "(of_char c :: nat) < 33 \<or> 127 \<le> (of_char c :: nat)"
      using ws_not_plain by fastforce
    moreover from this that plain have "plain_char c" by blast
    ultimately show False by (simp add: plain_char_def)
  qed
  have "ws_len s = 0" using no set_take_subset [of _ s] by (simp add: ws_len_def ws_at_def)
  moreover have "ws_suffix_len s = 0" using no set_drop_subset [of _ s] by (simp add: ws_suffix_len_def)
  ultimately show ?thesis by (simp add: str_trim_def trim_start.simps trim_end.simps)
qed

text \<open>
  C40. A key that an error message cuts off is shown. The message of a provider is shortened to 512
  characters before the key is looked for, so that a key the message repeats across the limit is
  not found any more: the text that is stored and shown ends in the first characters of the key,
  up to all but the last one.
\<close>

theorem cut_key_escapes_redaction:
  assumes "\<forall>c \<in> set (front @ key). plain_char c" and "hd key \<notin> set front"
    and "length front < 512" and "512 < length front + length key"
  shows "sanitize_provider_message (front @ key) (Some key) = front @ take (512 - length front) key"
proof -
  let ?n = "512 - length front"
  have key: "key \<noteq> []" "?n < length key" using assms(3,4) by auto
  have ascii: "\<forall>c \<in> set (front @ key). (of_char c :: nat) < 128"
    using assms(1) plain_ascii by blast
  have keep: "filter (\<lambda>c. \<not> control_char c \<or> ws_encoding (map of_char c)) (map (\<lambda>c. [c]) s) = map (\<lambda>c. [c]) s"
    if "set s \<subseteq> set (front @ key)" for s
  proof (intro filter_True ballI)
    fix x assume "x \<in> set (map (\<lambda>c. [c]) s)"
    then obtain c where "x = [c]" "c \<in> set s" by auto
    moreover from this that assms(1) have "plain_char c" by blast
    ultimately show "\<not> control_char x \<or> ws_encoding (map of_char x)"
      by (simp add: control_char_def plain_char_def)
  qed
  have "concat (take 512 (map (\<lambda>c. [c]) (front @ key))) = front @ take ?n key"
    using assms(3) by (simp add: take_map concat_map_singleton flip: map_append)
  moreover have "str_trim (front @ take ?n key) = front @ take ?n key"
    using assms(1) by (intro plain_trim) (auto dest: in_set_takeD)
  moreover have "replace_all key ''[redacted]'' (front @ take ?n key) = front @ take ?n key"
    using key cut_key_absent [OF key(1) assms(2) key(2)] by (intro replace_all_absent) auto
  ultimately show ?thesis
    using keep [of "front @ key"] key(1) by (simp add: sanitize_provider_message_def chars_ascii [OF ascii] del: map_append)
qed

theorem cut_key_escapes_redaction_witness:
  "sanitize_provider_message (replicate 504 (CHR ''x'') @ ''sk-12345678'') (Some ''sk-12345678'') =
     replicate 504 (CHR ''x'') @ ''sk-12345''"
  using cut_key_escapes_redaction [of "replicate 504 (CHR ''x'')" "''sk-12345678''"]
  by (simp add: plain_char_def)

end
