(* ===== verification/Log_Store.thy ===== *)
theory Log_Store
  imports Runtime_Types Utf8_Text "HOL-Library.AList" "HOL-Library.Product_Lexorder"
begin

text \<open>
  The log store of the runtime capability (\<open>crates/runtime/src/log_store.rs\<close>): output of processes and
  terminals is redacted, cut into chunk files named by their byte range, and read back by cursor; a
  stream above its limit keeps its head and its tail and a marker for what was dropped.

  A stream directory is the list of its finished files: a name and the chunk its JSON encodes. The
  temporary files of \<open>write_atomic\<close> are renamed before the lock is released and are never listed, so
  a write is one update of the directory. The order in which the file system lists a directory, the
  UUID parser and the texts of its and the driver's errors are the parameter \<open>log_env\<close>. The gate is
  held over every operation: each is one step.
\<close>

section \<open>State\<close>

definition CHUNK_BYTES :: nat where "CHUNK_BYTES = 64 * 1024"

definition MAX_READ_BYTES :: nat where "MAX_READ_BYTES = 1024 * 1024"

record log_retention =
  raw_limit_bytes :: nat
  head_bytes :: nat

definition RETAIN_ASYNC_TASK :: log_retention where
  "RETAIN_ASYNC_TASK = \<lparr>raw_limit_bytes = 512 * 1024 * 1024, head_bytes = 1024 * 1024\<rparr>"

definition RETAIN_TERMINAL :: log_retention where
  "RETAIN_TERMINAL = \<lparr>raw_limit_bytes = 16 * 1024 * 1024, head_bytes = 1024 * 1024\<rparr>"

definition validate_retention :: "log_retention \<Rightarrow> runtime_error + unit" where
  "validate_retention r =
    (if raw_limit_bytes r = 0 \<or> raw_limit_bytes r \<le> head_bytes r then
       Inl (RtInvalidSpec ''log retention requires a nonzero limit larger than the retained head'')
     else Inr ())"

record log_stream_row =
  sr_id :: string
  sr_owner_kind :: string
  sr_owner_id :: string
  sr_runtime_id :: "string option"
  sr_relative_path :: string
  sr_first_cursor :: int
  sr_next_cursor :: int
  sr_retained_bytes :: int
  sr_total_bytes :: int
  sr_truncated :: bool
  sr_closed :: bool
  sr_created_at :: int
  sr_updated_at :: int

record disk_chunk =
  dk_start :: nat
  dk_end :: nat
  dk_channel :: log_channel
  dk_text :: string
  dk_marker :: bool

type_synonym log_dir = "(string \<times> disk_chunk) list"

record log_store =
  log_streams :: "log_stream_row list"
  log_dirs :: "string \<rightharpoonup> log_dir"

record log_env =
  le_uuid :: "string \<Rightarrow> string option"
  le_listing :: "log_dir \<Rightarrow> log_dir"
  le_io_error :: string
  le_index_error :: string

definition storage_error :: "string \<Rightarrow> runtime_error" where
  "storage_error e = RtUnavailableDetail (''log storage failure: '' @ e)"

definition to_u64 :: "int \<Rightarrow> string \<Rightarrow> runtime_error + nat" where
  "to_u64 v field = (if 0 \<le> v then Inr (nat v) else Inl (RtInvalidSpec (''stored '' @ field @ '' is negative'')))"

definition to_i64 :: "nat \<Rightarrow> runtime_error + int" where
  "to_i64 v =
    (if int v \<le> I64_MAX then Inr (int v) else Inl (RtInvalidSpec ''log cursor exceeds signed 64-bit range''))"

section \<open>Text\<close>

definition is_char_boundary :: "string \<Rightarrow> nat \<Rightarrow> bool" where
  "is_char_boundary s i \<longleftrightarrow> i = 0 \<or> i = length s \<or> i < length s \<and> \<not> continuation (byte_at s i)"

primrec boundary_down :: "string \<Rightarrow> nat \<Rightarrow> nat" where
  "boundary_down s 0 = 0"
| "boundary_down s (Suc n) = (if is_char_boundary s (Suc n) then Suc n else boundary_down s n)"

definition char_boundary_at_or_before :: "string \<Rightarrow> nat \<Rightarrow> nat" where
  "char_boundary_at_or_before s limit = boundary_down s (min (length s) limit)"

function boundary_up :: "string \<Rightarrow> nat \<Rightarrow> nat" where
  "boundary_up s n = (if n < length s \<and> \<not> is_char_boundary s n then boundary_up s (n + 1) else n)"
  by auto
termination by (relation "measure (\<lambda>(s, n). length s - n)") auto

declare boundary_up.simps [simp del]

definition char_boundary_at_or_after :: "string \<Rightarrow> nat \<Rightarrow> nat" where
  "char_boundary_at_or_after s offset = boundary_up s (min (length s) offset)"

text \<open>The loop does not end when a part is empty: \<open>None\<close>.\<close>

partial_function (option) split_text :: "string \<Rightarrow> nat \<Rightarrow> string list option" where
  "split_text s max_bytes =
    (if s = [] then Some []
     else let n = char_boundary_at_or_before s max_bytes
          in Option.bind (split_text (drop n s) max_bytes) (\<lambda>parts. Some (take n s # parts)))"

definition redact :: "string \<Rightarrow> string list \<Rightarrow> string" where
  "redact s secrets =
     fold (\<lambda>secret current. replace_all secret ''[REDACTED]'' current) (filter (\<lambda>x. 8 \<le> length x) secrets) s"

section \<open>Chunk files\<close>

fun channel_name :: "log_channel \<Rightarrow> string" where
  "channel_name Stdout = ''stdout''"
| "channel_name Stderr = ''stderr''"
| "channel_name System = ''system''"

text \<open>\<open>{:020}\<close>.\<close>

definition zero_padded :: "nat \<Rightarrow> string" where
  "zero_padded n = (let ds = string_of_nat n in replicate (20 - length ds) (CHR ''0'') @ ds)"

definition chunk_file_name :: "disk_chunk \<Rightarrow> string" where
  "chunk_file_name c =
     zero_padded (dk_start c) @ ''-'' @ zero_padded (dk_end c) @ ''-'' @ channel_name (dk_channel c) @ ''.json''"

definition MARKER_FILE :: string where "MARKER_FILE = ''truncation-marker.json''"

text \<open>\<open>str::find\<close> of a character, with what is before and behind it.\<close>

fun split_at_char :: "char \<Rightarrow> string \<Rightarrow> (string \<times> string) option" where
  "split_at_char c [] = None"
| "split_at_char c (x # xs) =
    (if x = c then Some ([], xs) else map_option (\<lambda>(a, b). (x # a, b)) (split_at_char c xs))"

definition parse_chunk_range :: "string \<Rightarrow> (nat \<times> nat) option" where
  "parse_chunk_range name =
     Option.bind (split_at_char (CHR ''-'') name) (\<lambda>(front, rest).
     Option.bind (parse_u64 front) (\<lambda>start.
     Option.bind (split_at_char (CHR ''-'') rest) (\<lambda>(middle, _).
     Option.bind (parse_u64 middle) (\<lambda>end. Some (start, end)))))"

definition is_json :: "string \<Rightarrow> bool" where
  "is_json name \<longleftrightarrow> 5 < length name \<and> drop (length name - 5) name = ''.json''"

definition write_chunk :: "disk_chunk \<Rightarrow> log_dir \<Rightarrow> log_dir" where
  "write_chunk c d = AList.update (chunk_file_name c) c d"

definition remove_chunk :: "disk_chunk \<Rightarrow> log_dir \<Rightarrow> log_dir" where
  "remove_chunk c d = AList.delete (chunk_file_name c) d"

definition write_marker :: "disk_chunk \<Rightarrow> log_dir \<Rightarrow> log_dir" where
  "write_marker c d = AList.update MARKER_FILE c d"

definition read_chunks :: "log_env \<Rightarrow> log_dir \<Rightarrow> disk_chunk list" where
  "read_chunks E d = sort_key dk_start (map snd (filter (\<lambda>(name, c). is_json name) (le_listing E d)))"

definition wanted_file :: "nat \<Rightarrow> string \<times> disk_chunk \<Rightarrow> bool" where
  "wanted_file after = (\<lambda>(name, c). is_json name \<and>
     (if name = MARKER_FILE then after < dk_end c
      else case parse_chunk_range name of None \<Rightarrow> False | Some (_, end) \<Rightarrow> after < end))"

definition read_chunks_from :: "log_env \<Rightarrow> log_dir \<Rightarrow> nat \<Rightarrow> disk_chunk list" where
  "read_chunks_from E d after =
     sort_key (\<lambda>c. (dk_start c, \<not> dk_marker c)) (map snd (filter (wanted_file after) (le_listing E d)))"

fun write_parts :: "log_channel \<Rightarrow> string list \<Rightarrow> nat \<times> log_dir \<Rightarrow> nat \<times> log_dir" where
  "write_parts ch [] (cursor, d) = (cursor, d)"
| "write_parts ch (part # parts) (cursor, d) =
    (let next = saturating_add_u64 cursor (length part)
     in write_parts ch parts
          (next, write_chunk \<lparr>dk_start = cursor, dk_end = next, dk_channel = ch, dk_text = part, dk_marker = False\<rparr> d))"

section \<open>Retention\<close>

record drop_state =
  ds_dir :: log_dir
  ds_start :: "nat option"
  ds_end :: nat

text \<open>One turn of the loop over the chunks that are no marker.\<close>

definition drop_chunk :: "nat \<Rightarrow> nat \<Rightarrow> disk_chunk \<Rightarrow> drop_state \<Rightarrow> drop_state" where
  "drop_chunk head tail_start c s =
    (let requested_start = max (dk_start c) head;
         requested_end = min (dk_end c) tail_start
     in if requested_end \<le> requested_start then s
        else
          let prefix_len = char_boundary_at_or_before (dk_text c)
                (min (requested_start - dk_start c) (length (dk_text c)));
              suffix_start = char_boundary_at_or_after (dk_text c)
                (min (requested_end - dk_start c) (length (dk_text c)));
              drop_start = saturating_add_u64 (dk_start c) prefix_len;
              drop_end = saturating_add_u64 (dk_start c) suffix_start;
              d1 = remove_chunk c (ds_dir s);
              d2 = (if prefix_len \<noteq> 0 then
                      write_chunk (c\<lparr>dk_end := drop_start, dk_text := take prefix_len (dk_text c), dk_marker := False\<rparr>) d1
                    else d1);
              d3 = (if suffix_start < length (dk_text c) then
                      write_chunk (c\<lparr>dk_start := drop_end, dk_text := drop suffix_start (dk_text c), dk_marker := False\<rparr>) d2
                    else d2)
          in \<lparr>ds_dir = d3,
              ds_start = Some (case ds_start s of None \<Rightarrow> drop_start | Some v \<Rightarrow> min v drop_start),
              ds_end = max (ds_end s) drop_end\<rparr>)"

definition truncation_marker :: "nat \<Rightarrow> nat \<Rightarrow> disk_chunk" where
  "truncation_marker start end =
     \<lparr>dk_start = start, dk_end = end, dk_channel = System,
      dk_text = ''[Janus log truncated: '' @ string_of_nat (end - start) @ '' bytes omitted]\<newline>'',
      dk_marker = True\<rparr>"

definition text_bytes :: "disk_chunk list \<Rightarrow> nat" where
  "text_bytes cs = fold (\<lambda>c n. saturating_add_u64 n (length (dk_text c))) cs 0"

definition enforce_retention ::
  "log_env \<Rightarrow> log_dir \<Rightarrow> nat \<Rightarrow> nat \<Rightarrow> log_retention \<Rightarrow> (nat \<times> nat \<times> bool) \<times> log_dir" where
  "enforce_retention E d next_cursor total_bytes r =
    (let chunks = read_chunks E d in
     if total_bytes \<le> raw_limit_bytes r then
       (((case chunks of [] \<Rightarrow> 0 | c # _ \<Rightarrow> dk_start c), text_bytes (filter (\<lambda>c. \<not> dk_marker c) chunks), False), d)
     else
       let tail_start = next_cursor - (raw_limit_bytes r - head_bytes r);
           s = fold (drop_chunk (head_bytes r) tail_start) (filter (\<lambda>c. \<not> dk_marker c) chunks)
                 \<lparr>ds_dir = d, ds_start = None, ds_end = 0\<rparr>;
           d1 = (case ds_start s of None \<Rightarrow> ds_dir s
                 | Some start \<Rightarrow> write_marker (truncation_marker start (ds_end s)) (ds_dir s));
           kept = read_chunks E d1
       in (((case map dk_start kept of [] \<Rightarrow> next_cursor | k # ks \<Rightarrow> fold min ks k), text_bytes kept, True), d1))"

section \<open>Operations\<close>

definition log_row :: "string \<Rightarrow> log_store \<Rightarrow> runtime_error + log_stream_row" where
  "log_row i st =
     ok_or (RtUnavailableDetail (''log stream '' @ i @ '' does not exist''))
       (find_one (\<lambda>r. sr_id r = i) (log_streams st))"

definition projection_from_row :: "log_env \<Rightarrow> log_stream_row \<Rightarrow> runtime_error + log_stream_projection" where
  "projection_from_row E r =
     and_then (ok_or (RtUnavailableDetail (''log stream id \"'' @ sr_id r @ ''\" is invalid'')) (le_uuid E (sr_id r))) (\<lambda>i.
     and_then (to_u64 (sr_first_cursor r) ''first_cursor'') (\<lambda>first.
     and_then (to_u64 (sr_next_cursor r) ''next_cursor'') (\<lambda>next.
     and_then (to_u64 (sr_retained_bytes r) ''retained_bytes'') (\<lambda>retained.
     and_then (to_u64 (sr_total_bytes r) ''total_bytes'') (\<lambda>total_bytes.
     Inr \<lparr>lp_id = i, lp_first_cursor = first, lp_next_cursor = next, lp_retained_bytes = retained,
          lp_total_bytes = total_bytes, lp_truncated = sr_truncated r, lp_closed = sr_closed r\<rparr>)))))"

definition projection_unlocked :: "log_env \<Rightarrow> string \<Rightarrow> log_store \<Rightarrow> runtime_error + log_stream_projection" where
  "projection_unlocked E i st = and_then (log_row i st) (projection_from_row E)"

definition create_log ::
  "log_env \<Rightarrow> string \<Rightarrow> int \<Rightarrow> log_owner_kind \<Rightarrow> string \<Rightarrow> log_store \<Rightarrow>
    (runtime_error + log_stream_projection) \<times> log_store" where
  "create_log E i now owner owner_id st =
    (let st1 = st\<lparr>log_dirs := (log_dirs st)(i \<mapsto> (case log_dirs st i of None \<Rightarrow> [] | Some d \<Rightarrow> d))\<rparr>;
         row = \<lparr>sr_id = i, sr_owner_kind = owner_kind_str owner,
           sr_owner_id = (if owner = OwnerSync then i else owner_id),
           sr_runtime_id = (if owner = OwnerSync then Some owner_id else None), sr_relative_path = i,
           sr_first_cursor = 0, sr_next_cursor = 0, sr_retained_bytes = 0, sr_total_bytes = 0,
           sr_truncated = False, sr_closed = False, sr_created_at = now, sr_updated_at = now\<rparr>
     in if i \<in> sr_id ` set (log_streams st) \<or>
           (sr_owner_kind row, sr_owner_id row) \<in> (\<lambda>r. (sr_owner_kind r, sr_owner_id r)) ` set (log_streams st)
        then (Inl (storage_error (le_index_error E)), st1)
        else (Inr \<lparr>lp_id = i, lp_first_cursor = 0, lp_next_cursor = 0, lp_retained_bytes = 0,
                   lp_total_bytes = 0, lp_truncated = False, lp_closed = False\<rparr>,
              st1\<lparr>log_streams := log_streams st1 @ [row]\<rparr>))"

text \<open>The cursors and counters of an append, from the directory with the new chunks.\<close>

definition append_bounds ::
  "log_env \<Rightarrow> log_stream_row \<Rightarrow> log_retention \<Rightarrow> nat \<Rightarrow> nat \<Rightarrow> nat \<Rightarrow> log_dir \<Rightarrow>
    (runtime_error + nat \<times> nat \<times> bool) \<times> log_dir" where
  "append_bounds E row r total_bytes cursor written d =
    (if total_bytes \<le> raw_limit_bytes r then
       (and_then (to_u64 (sr_retained_bytes row) ''retained_bytes'')
          (\<lambda>n. Inr (0, saturating_add_u64 n written, False)), d)
     else apfst Inr (enforce_retention E d cursor total_bytes r))"

definition stored_bounds ::
  "int \<Rightarrow> nat \<Rightarrow> nat \<Rightarrow> nat \<times> nat \<times> bool \<Rightarrow> runtime_error + (log_stream_row \<Rightarrow> log_stream_row)" where
  "stored_bounds now cursor total_bytes = (\<lambda>(first, retained, truncated).
     and_then (to_i64 first) (\<lambda>f.
     and_then (to_i64 cursor) (\<lambda>n.
     and_then (to_i64 retained) (\<lambda>k.
     and_then (to_i64 total_bytes) (\<lambda>t.
     Inr (\<lambda>row. row\<lparr>sr_first_cursor := f, sr_next_cursor := n, sr_retained_bytes := k, sr_total_bytes := t,
                   sr_truncated := truncated, sr_updated_at := now\<rparr>))))))"

text \<open>The part of an append behind its checks; \<open>None\<close> is an append that does not return.\<close>

definition append_parts ::
  "log_env \<Rightarrow> int \<Rightarrow> log_stream_row \<Rightarrow> log_channel \<Rightarrow> string \<Rightarrow> nat \<Rightarrow> log_retention \<Rightarrow> string list \<Rightarrow> nat \<Rightarrow> log_dir \<Rightarrow>
    log_store \<Rightarrow> (runtime_error + log_stream_projection) \<times> log_store" where
  "append_parts E now row ch text input_len r parts cursor0 d st =
    (let (cursor, d1) = write_parts ch parts (cursor0, d);
         keep = (\<lambda>d'. st\<lparr>log_dirs := (log_dirs st)(sr_relative_path row \<mapsto> d')\<rparr>)
     in case to_u64 (sr_total_bytes row) ''total_bytes'' of
          Inl e \<Rightarrow> (Inl e, keep d1)
        | Inr total_before \<Rightarrow>
            let total_bytes = saturating_add_u64 total_before input_len;
                (bounds, d2) = append_bounds E row r total_bytes cursor (length text) d1
            in case and_then bounds (stored_bounds now cursor total_bytes) of
                 Inl e \<Rightarrow> (Inl e, keep d2)
               | Inr set_row \<Rightarrow>
                   let st2 = (keep d2)\<lparr>log_streams := fst (update_one (\<lambda>x. sr_id x = sr_id row) set_row (log_streams st))\<rparr>
                   in (projection_unlocked E (sr_id row) st2, st2))"

definition append_log ::
  "log_env \<Rightarrow> int \<Rightarrow> string \<Rightarrow> log_channel \<Rightarrow> string \<Rightarrow> string list \<Rightarrow> log_retention \<Rightarrow> log_store \<Rightarrow>
    ((runtime_error + log_stream_projection) \<times> log_store) option" where
  "append_log E now i ch input secrets r st =
    (case validate_retention r of
       Inl e \<Rightarrow> Some (Inl e, st)
     | Inr _ \<Rightarrow>
         if input = [] then Some (projection_unlocked E i st, st)
         else case log_row i st of
             Inl e \<Rightarrow> Some (Inl e, st)
           | Inr row \<Rightarrow>
               if sr_closed row then Some (Inl RtResourceBusy, st)
               else let text = redact (utf8_lossy input) secrets in
                 case to_u64 (sr_next_cursor row) ''next_cursor'' of
                   Inl e \<Rightarrow> Some (Inl e, st)
                 | Inr cursor \<Rightarrow>
                     Option.bind (split_text text CHUNK_BYTES) (\<lambda>parts.
                       Some (case log_dirs st (sr_relative_path row) of
                           None \<Rightarrow> (Inl (storage_error (le_io_error E)), st)
                         | Some d \<Rightarrow> append_parts E now row ch text (length input) r parts cursor d st)))"

definition close_log ::
  "log_env \<Rightarrow> int \<Rightarrow> string \<Rightarrow> log_store \<Rightarrow> (runtime_error + log_stream_projection) \<times> log_store" where
  "close_log E now i st =
    (let (rows, matched) = update_one (\<lambda>r. sr_id r = i) (\<lambda>r. r\<lparr>sr_closed := True, sr_updated_at := now\<rparr>) (log_streams st);
         st1 = st\<lparr>log_streams := rows\<rparr>
     in if matched = 0 then (Inl (RtUnavailableDetail (''log stream '' @ i @ '' does not exist'')), st1)
        else (projection_unlocked E i st1, st1))"

definition delete_files :: "string list \<Rightarrow> log_store \<Rightarrow> log_store" where
  "delete_files ids st = st\<lparr>log_dirs := fold (\<lambda>i m. m(i := None)) ids (log_dirs st)\<rparr>"

text \<open>What one chunk contributes to a page: where it begins and the text from there on.\<close>

definition chunk_source :: "nat \<Rightarrow> disk_chunk \<Rightarrow> nat \<times> string" where
  "chunk_source after c =
    (if dk_marker c then (dk_start c, dk_text c)
     else let offset = char_boundary_at_or_after (dk_text c) (min (after - dk_start c) (length (dk_text c)))
          in (saturating_add_u64 (dk_start c) offset, drop offset (dk_text c)))"

primrec read_page :: "nat \<Rightarrow> nat \<Rightarrow> disk_chunk list \<Rightarrow> log_chunk list" where
  "read_page after remaining [] = []"
| "read_page after remaining (c # cs) =
    (if remaining = 0 then []
     else let (start, source) = chunk_source after c;
              n = char_boundary_at_or_before source remaining
          in if n = 0 then []
             else \<lparr>lc_start_cursor = start,
                   lc_end_cursor = (if n = length source \<or> dk_marker c then dk_end c else saturating_add_u64 start n),
                   lc_channel = dk_channel c, lc_text = take n source\<rparr>
                  # read_page after (remaining - n) cs)"

definition read_log :: "log_env \<Rightarrow> string \<Rightarrow> nat \<Rightarrow> nat \<Rightarrow> log_store \<Rightarrow> runtime_error + log_range" where
  "read_log E i after limit_bytes st =
     and_then (log_row i st) (\<lambda>row.
     and_then (projection_from_row E row) (\<lambda>stream.
       if after < lp_first_cursor stream then Inl (RtTerminalScrollbackExpired (int (lp_first_cursor stream)))
       else case log_dirs st (sr_relative_path row) of
           None \<Rightarrow> Inl (storage_error (le_io_error E))
         | Some d \<Rightarrow>
             Inr \<lparr>lr_stream = stream, lr_after = after,
                  lr_chunks = read_page after (min (max 1 limit_bytes) MAX_READ_BYTES)
                    (filter (\<lambda>c. after < dk_end c) (read_chunks_from E d after))\<rparr>))"

end
