(* ===== verification/Log_Chunks.thy ===== *)
theory Log_Chunks
  imports Log_Store "HOL-Library.Multiset"
begin

text \<open>
  Facts on the log store's text and files: log text never has more than three continuation bytes in a
  row, so it can be cut everywhere within four bytes; chunk file names encode their range; a stream
  directory is determined by the chunks it holds.
\<close>

section \<open>Runs of continuation bytes\<close>

text \<open>\<open>k\<close> continuation bytes may come first, and three behind every other byte.\<close>

fun cont_ok :: "nat \<Rightarrow> string \<Rightarrow> bool" where
  "cont_ok k [] = True"
| "cont_ok k (c # s) = (if continuation (of_char c) then 0 < k \<and> cont_ok (k - 1) s else cont_ok 3 s)"

lemma cont_ok_mono: "cont_ok k s \<Longrightarrow> k \<le> l \<Longrightarrow> cont_ok l s"
proof (induction s arbitrary: k l)
  case (Cons c s)
  then show ?case using Cons.IH [of "k - 1" "l - 1"] by (auto split: if_splits)
qed simp

lemma cont_ok_append: "cont_ok k xs \<Longrightarrow> cont_ok 0 ys \<Longrightarrow> cont_ok k (xs @ ys)"
  by (induction k xs rule: cont_ok.induct) (auto intro: cont_ok_mono split: if_splits)

lemma cont_ok_take: "cont_ok k s \<Longrightarrow> cont_ok k (take n s)"
  by (induction k s arbitrary: n rule: cont_ok.induct) (auto simp: take_Cons split: nat.split)

lemma cont_ok_drop: "cont_ok k s \<Longrightarrow> k \<le> 3 \<Longrightarrow> cont_ok 3 (drop n s)"
  by (induction k s arbitrary: n rule: cont_ok.induct)
    (auto simp: drop_Cons split: nat.split if_splits intro: cont_ok_mono)

lemma cont_ok_short: "length s \<le> k \<Longrightarrow> k \<le> 3 \<Longrightarrow> cont_ok k s"
proof (induction s arbitrary: k)
  case (Cons c s)
  have "cont_ok (k - 1) s" "cont_ok 3 s" using Cons.IH [of "k - 1"] Cons.IH [of 3] Cons.prems by auto
  then show ?case using Cons.prems by auto
qed simp

lemma cont_ok_start: "cont_ok 3 s \<Longrightarrow> s = [] \<or> \<not> continuation (byte_at s 0) \<Longrightarrow> cont_ok 0 s"
  by (cases s) (auto simp: byte_at_def)

lemma cont_ok_0_start: "cont_ok 0 s \<Longrightarrow> s \<noteq> [] \<Longrightarrow> \<not> continuation (byte_at s 0)"
  by (cases s) (auto simp: byte_at_def)

lemma cont_ok_ascii: "\<forall>c \<in> set s. (of_char c :: nat) < 128 \<Longrightarrow> cont_ok k s"
  by (induction s arbitrary: k) (auto simp: continuation_def)

lemma byte_at_drop [simp]: "byte_at (drop n s) i = byte_at s (n + i)"
  by (auto simp: byte_at_def)

lemma cont_ok_drop_boundary: "cont_ok k s \<Longrightarrow> k \<le> 3 \<Longrightarrow> is_char_boundary s n \<Longrightarrow> 0 < n \<Longrightarrow> cont_ok 0 (drop n s)"
  by (rule cont_ok_start) (auto simp: is_char_boundary_def intro: cont_ok_drop)

section \<open>Stored text\<close>

lemma utf8_unit_lead:
  "fst (utf8_unit s) \<Longrightarrow> s \<noteq> [] \<Longrightarrow> \<not> continuation (byte_at s 0) \<and> snd (utf8_unit s) \<le> 4"
  by (auto simp: utf8_unit_def Let_def continuation_def split: if_splits)

lemma cont_ok_lossy: "cont_ok 0 (utf8_lossy s)"
proof (induction s rule: utf8_lossy.induct)
  case (1 s)
  show ?case
  proof (cases "s = []")
    case False
    let ?n = "snd (utf8_unit s)"
    have rest: "cont_ok 0 (utf8_lossy (drop ?n s))" using 1 False by simp
    have "cont_ok 0 (take ?n s)" if "fst (utf8_unit s)"
    proof (rule cont_ok_start)
      obtain c t where s: "s = c # t" using False by (cases s) auto
      have lead: "\<not> continuation (of_char c)" "?n \<le> 4"
        using utf8_unit_lead [OF that False] by (auto simp: byte_at_def s)
      then have "cont_ok 3 (take (?n - 1) t)" by (intro cont_ok_short) auto
      then show "cont_ok 3 (take ?n s)" using lead(1) utf8_unit_pos [of s] by (simp add: s take_Cons')
      show "take ?n s = [] \<or> \<not> continuation (byte_at (take ?n s) 0)"
        using lead(1) by (auto simp: byte_at_def s)
    qed
    moreover have "cont_ok 0 replacement_char" by (simp add: replacement_char_def continuation_def)
    ultimately show ?thesis using False rest by (subst utf8_lossy.simps) (auto simp: Let_def intro: cont_ok_append)
  qed simp
qed

lemma cont_ok_replace: "cont_ok k s \<Longrightarrow> k \<le> 3 \<Longrightarrow> cont_ok k (replace_all pat ''[REDACTED]'' s)"
proof (induction "length s" arbitrary: s k rule: less_induct)
  case less
  show ?case
  proof (cases "pat = [] \<or> s = []")
    case True
    then show ?thesis using less.prems by (subst replace_all.simps) simp
  next
    case False
    then obtain c t where s: "s = c # t" by (cases s) auto
    show ?thesis
    proof (cases "take (length pat) s = pat")
      case True
      have "cont_ok 3 (replace_all pat ''[REDACTED]'' (drop (length pat) s))"
        using False less.prems by (intro less.hyps) (auto intro: cont_ok_drop)
      then show ?thesis using True False by (subst replace_all.simps) (simp add: continuation_def)
    next
      case nomatch: False
      have "cont_ok j (replace_all pat ''[REDACTED]'' t)" if "cont_ok j t" "j \<le> 3" for j
        using less.hyps [of t j] that s by simp
      then have "cont_ok k (c # replace_all pat ''[REDACTED]'' t)" using less.prems by (auto simp: s split: if_splits)
      then show ?thesis using nomatch False by (subst replace_all.simps) (simp add: s)
    qed
  qed
qed

lemma cont_ok_redact: "cont_ok 0 s \<Longrightarrow> cont_ok 0 (redact s secrets)"
proof -
  assume "cont_ok 0 s"
  then have "cont_ok 0 (fold (\<lambda>secret. replace_all secret ''[REDACTED]'') xs s)" for xs
    by (induction xs arbitrary: s) (simp_all add: cont_ok_replace)
  then show ?thesis by (simp add: redact_def)
qed

section \<open>Character boundaries\<close>

lemma boundary_down_le: "boundary_down s n \<le> n"
  by (induction n) auto

lemma boundary_down_ge: "is_char_boundary s b \<Longrightarrow> b \<le> n \<Longrightarrow> b \<le> boundary_down s n"
  by (induction n) (auto simp: le_Suc_eq)

lemma boundary_down_boundary: "is_char_boundary s (boundary_down s n)"
  by (induction n) (auto simp: is_char_boundary_def)

lemma before_le: "char_boundary_at_or_before s n \<le> min (length s) n"
  unfolding char_boundary_at_or_before_def by (rule boundary_down_le)

lemma before_boundary: "is_char_boundary s (char_boundary_at_or_before s n)"
  unfolding char_boundary_at_or_before_def by (rule boundary_down_boundary)

lemma before_ge: "is_char_boundary s b \<Longrightarrow> b \<le> n \<Longrightarrow> b \<le> char_boundary_at_or_before s n"
  unfolding char_boundary_at_or_before_def
  by (rule boundary_down_ge) (auto simp: is_char_boundary_def)

lemma before_exact: "is_char_boundary s n \<Longrightarrow> char_boundary_at_or_before s n = n"
  using before_ge [of s n n] before_le [of s n] by simp

lemma before_all: "length s \<le> n \<Longrightarrow> char_boundary_at_or_before s n = length s"
  using before_ge [of s "length s" n] before_le [of s n] by (simp add: is_char_boundary_def)

lemma boundary_up_bounds:
  "n \<le> length s \<Longrightarrow> n \<le> boundary_up s n \<and> boundary_up s n \<le> length s \<and> is_char_boundary s (boundary_up s n) \<and>
    (\<forall>b. is_char_boundary s b \<longrightarrow> n \<le> b \<longrightarrow> boundary_up s n \<le> b)"
proof (induction s n rule: boundary_up.induct)
  case (1 s n)
  show ?case
  proof (cases "n < length s \<and> \<not> is_char_boundary s n")
    case True
    then have "boundary_up s n = boundary_up s (n + 1)" by (subst boundary_up.simps) simp
    then show ?thesis using 1 True by (auto simp: Suc_le_eq order_less_le)
  next
    case False
    then have "boundary_up s n = n" by (subst boundary_up.simps) auto
    then show ?thesis using 1 False by (auto simp: is_char_boundary_def)
  qed
qed

lemma after_bounds:
  "min (length s) n \<le> char_boundary_at_or_after s n" "char_boundary_at_or_after s n \<le> length s"
  "is_char_boundary s (char_boundary_at_or_after s n)"
  "is_char_boundary s b \<Longrightarrow> min (length s) n \<le> b \<Longrightarrow> char_boundary_at_or_after s n \<le> b"
  using boundary_up_bounds [of "min (length s) n" s] by (auto simp: char_boundary_at_or_after_def)

lemma after_exact: "is_char_boundary s n \<Longrightarrow> char_boundary_at_or_after s n = n"
proof -
  assume n: "is_char_boundary s n"
  then have "n \<le> length s" by (auto simp: is_char_boundary_def)
  then show ?thesis using after_bounds(1,4) [of s n] n by (auto intro!: antisym)
qed

text \<open>Within four bytes there is a boundary.\<close>

lemma boundary_near:
  assumes "cont_ok k s" and "k \<le> 3"
  shows "\<exists>b. b \<le> k \<and> b \<le> length s \<and> (b = length s \<or> \<not> continuation (byte_at s b))"
  using assms
proof (induction s arbitrary: k)
  case (Cons c s)
  show ?case
  proof (cases "continuation (of_char c)")
    case True
    then obtain b where "b \<le> k - 1" "b \<le> length s" "b = length s \<or> \<not> continuation (byte_at s b)"
      using Cons.IH [of "k - 1"] Cons.prems by force
    then show ?thesis using True Cons.prems by (intro exI [of _ "Suc b"]) (auto simp: byte_at_def)
  next
    case False
    then show ?thesis by (intro exI [of _ 0]) (auto simp: byte_at_def)
  qed
qed simp

lemma boundary_ahead:
  assumes "cont_ok 0 s" and "n < length s"
  shows "\<exists>b. n < b \<and> b \<le> n + 4 \<and> is_char_boundary s b"
proof -
  have "cont_ok 3 (drop (n + 1) s)" using assms(1) by (auto intro: cont_ok_drop)
  from boundary_near [OF this] obtain b where "b \<le> 3" "b \<le> length s - (n + 1)"
    "b = length s - (n + 1) \<or> \<not> continuation (byte_at s (n + 1 + b))" by auto
  then show ?thesis using assms(2) by (intro exI [of _ "n + 1 + b"]) (auto simp: is_char_boundary_def)
qed

lemma boundary_from:
  assumes "cont_ok 0 s" and "n \<le> length s"
  shows "\<exists>b. n \<le> b \<and> b \<le> n + 3 \<and> is_char_boundary s b"
proof (cases n)
  case 0
  then show ?thesis by (auto simp: is_char_boundary_def)
next
  case (Suc m)
  then obtain b where "m < b" "b \<le> m + 4" "is_char_boundary s b"
    using boundary_ahead [OF assms(1), of m] assms(2) by auto
  then show ?thesis using Suc by (intro exI [of _ b]) simp
qed

lemma boundary_behind:
  assumes "cont_ok 0 s" and "n \<le> length s"
  shows "\<exists>b. b \<le> n \<and> n \<le> b + 3 \<and> is_char_boundary s b"
proof (cases "n \<le> 3")
  case True
  then show ?thesis by (intro exI [of _ 0]) (auto simp: is_char_boundary_def)
next
  case False
  then show ?thesis using boundary_ahead [OF assms(1), of "n - 4"] assms(2) by force
qed

lemma before_progress: "cont_ok 0 s \<Longrightarrow> s \<noteq> [] \<Longrightarrow> 4 \<le> n \<Longrightarrow> 0 < char_boundary_at_or_before s n"
proof -
  assume s: "cont_ok 0 s" "s \<noteq> []" "4 \<le> n"
  then obtain b where "0 < b" "b \<le> 4" "is_char_boundary s b" using boundary_ahead [of s 0] by auto
  then show ?thesis using before_ge [of s b n] s(3) by simp
qed

section \<open>Splitting\<close>

lemma split_text_parts:
  assumes "cont_ok 0 s" and "4 \<le> m"
  shows "\<exists>ps. split_text s m = Some ps \<and> concat ps = s \<and> (\<forall>p \<in> set ps. p \<noteq> [] \<and> cont_ok 0 p)"
  using assms(1)
proof (induction "length s" arbitrary: s rule: less_induct)
  case less
  show ?case
  proof (cases "s = []")
    case True
    then show ?thesis by (subst split_text.simps) simp
  next
    case False
    let ?n = "char_boundary_at_or_before s m"
    have n: "0 < ?n" "?n \<le> length s"
      using before_progress [OF less.prems False assms(2)] before_le [of s m] by auto
    have "cont_ok 0 (drop ?n s)"
      using n(1) less.prems by (auto intro: cont_ok_drop_boundary before_boundary)
    then obtain ps where ps: "split_text (drop ?n s) m = Some ps" "concat ps = drop ?n s"
      "\<forall>p \<in> set ps. p \<noteq> [] \<and> cont_ok 0 p"
      using less.hyps [of "drop ?n s"] n False by auto
    have "split_text s m = Some (take ?n s # ps)"
      using False ps(1) by (subst split_text.simps) (simp add: Let_def)
    then show ?thesis using ps n False less.prems by (auto intro: cont_ok_take)
  qed
qed

section \<open>File names\<close>

lemma parse_digits_zeros: "parse_digits 0 (replicate n (CHR ''0'') @ ds) = parse_digits 0 ds"
  by (induction n) auto

lemma parse_u64_padded: "n \<le> U64_MAX \<Longrightarrow> parse_u64 (zero_padded n) = Some n"
proof -
  assume n: "n \<le> U64_MAX"
  have digits: "c \<in> set (zero_padded n) \<Longrightarrow> 48 \<le> (of_char c :: nat)" for c
    using string_of_nat_digits [of c n] by (auto simp: zero_padded_def Let_def split: if_splits)
  obtain c cs where cs: "zero_padded n = c # cs" by (cases "zero_padded n") (auto simp: zero_padded_def Let_def)
  then have "c \<noteq> CHR ''+''" using digits [of c] by auto
  moreover have "parse_digits 0 (zero_padded n) = Some n"
    by (simp add: zero_padded_def Let_def parse_digits_zeros)
  ultimately show ?thesis using n cs by (simp add: parse_u64_def)
qed

lemma split_at_char_first: "c \<notin> set xs \<Longrightarrow> split_at_char c (xs @ c # ys) = Some (xs, ys)"
  by (induction xs) auto

lemma padded_no_dash: "CHR ''-'' \<notin> set (zero_padded n)"
  using string_of_nat_digits [of "CHR ''-''" n] by (auto simp: zero_padded_def Let_def)

lemma parse_chunk_range_name:
  "dk_start c \<le> U64_MAX \<Longrightarrow> dk_end c \<le> U64_MAX \<Longrightarrow>
    parse_chunk_range (chunk_file_name c) = Some (dk_start c, dk_end c)"
  by (simp add: parse_chunk_range_def chunk_file_name_def split_at_char_first padded_no_dash parse_u64_padded)

lemma chunk_name_json: "is_json (chunk_file_name c)"
  by (simp add: is_json_def chunk_file_name_def)

lemma marker_json: "is_json MARKER_FILE"
  by (simp add: is_json_def MARKER_FILE_def)

lemma chunk_name_not_marker: "chunk_file_name c \<noteq> MARKER_FILE"
proof
  assume "chunk_file_name c = MARKER_FILE"
  then have "hd (chunk_file_name c) = CHR ''t''" by (simp add: MARKER_FILE_def)
  moreover have "zero_padded (dk_start c) \<noteq> []" by (simp add: zero_padded_def Let_def)
  ultimately have "hd (zero_padded (dk_start c)) = CHR ''t''" by (simp add: chunk_file_name_def hd_append)
  moreover have "hd (string_of_nat n) \<noteq> CHR ''t''" for n
  proof -
    have "parse_digits 0 (string_of_nat n) = Some n" by simp
    then show ?thesis by (cases "string_of_nat n") (auto split: if_splits)
  qed
  ultimately show False by (auto simp: zero_padded_def Let_def hd_append split: if_splits)
qed

section \<open>Directories\<close>

definition file_of :: "disk_chunk \<Rightarrow> string" where
  "file_of c = (if dk_marker c then MARKER_FILE else chunk_file_name c)"

definition files_ok :: "log_dir \<Rightarrow> bool" where
  "files_ok d \<longleftrightarrow> distinct (map fst d) \<and> (\<forall>(name, c) \<in> set d. name = file_of c)"

definition held :: "log_dir \<Rightarrow> disk_chunk set" where
  "held d = snd ` set d"

lemma files_ok_Nil [simp]: "files_ok []" "held [] = {}"
  by (simp_all add: files_ok_def held_def)

lemma held_iff: "files_ok d \<Longrightarrow> c \<in> held d \<longleftrightarrow> map_of d (file_of c) = Some c"
  unfolding files_ok_def held_def by (force simp: map_of_eq_Some_iff)

lemma files_ok_iff:
  "files_ok d \<longleftrightarrow> distinct (map fst d) \<and> (\<forall>n c. map_of d n = Some c \<longrightarrow> n = file_of c)"
  unfolding files_ok_def by (auto simp: map_of_eq_Some_iff)

lemma update_files:
  assumes "files_ok d" and "name = file_of c"
  shows "files_ok (AList.update name c d) \<and> held (AList.update name c d) = insert c {x \<in> held d. file_of x \<noteq> file_of c}"
proof -
  have ok: "files_ok (AList.update name c d)"
    using assms by (auto simp: files_ok_iff AList.update_conv' AList.distinct_update)
  moreover have "x \<in> held (AList.update name c d) \<longleftrightarrow> x = c \<or> x \<in> held d \<and> file_of x \<noteq> file_of c" for x
    using ok assms by (auto simp: held_iff AList.update_conv')
  ultimately show ?thesis by blast
qed

lemma delete_files_ok:
  assumes "files_ok d"
  shows "files_ok (AList.delete name d) \<and> held (AList.delete name d) = {x \<in> held d. file_of x \<noteq> name}"
proof -
  have ok: "files_ok (AList.delete name d)"
    using assms by (auto simp: files_ok_iff AList.delete_conv' AList.distinct_delete split: if_splits)
  moreover have "x \<in> held (AList.delete name d) \<longleftrightarrow> x \<in> held d \<and> file_of x \<noteq> name" for x
    using ok assms by (auto simp: held_iff AList.delete_conv')
  ultimately show ?thesis by blast
qed

lemma write_chunk_files:
  "files_ok d \<Longrightarrow> \<not> dk_marker c \<Longrightarrow> files_ok (write_chunk c d) \<and>
    held (write_chunk c d) = insert c {x \<in> held d. file_of x \<noteq> file_of c}"
  unfolding write_chunk_def by (intro update_files) (simp_all add: file_of_def)

lemma write_marker_files:
  "files_ok d \<Longrightarrow> dk_marker c \<Longrightarrow> files_ok (write_marker c d) \<and>
    held (write_marker c d) = insert c {x \<in> held d. file_of x \<noteq> file_of c}"
  unfolding write_marker_def by (intro update_files) (simp_all add: file_of_def)

lemma remove_chunk_files:
  "files_ok d \<Longrightarrow> \<not> dk_marker c \<Longrightarrow> files_ok (remove_chunk c d) \<and>
    held (remove_chunk c d) = {x \<in> held d. file_of x \<noteq> file_of c}"
  using delete_files_ok [of d "chunk_file_name c"] by (simp add: remove_chunk_def file_of_def)

lemma files_distinct: "files_ok d \<Longrightarrow> distinct (map snd d)"
proof -
  assume "files_ok d"
  then have "distinct (map fst d)" "map fst d = map file_of (map snd d)" by (auto simp: files_ok_def)
  then show ?thesis by (metis distinct_map)
qed

section \<open>Layout\<close>

text \<open>A chunk of text that fills its range, and a list of them in order, from \<open>a\<close> to at most \<open>n\<close>.\<close>

definition whole :: "disk_chunk \<Rightarrow> bool" where
  "whole c \<longleftrightarrow> \<not> dk_marker c \<and> dk_text c \<noteq> [] \<and> dk_end c = dk_start c + length (dk_text c) \<and> cont_ok 0 (dk_text c)"

fun laid :: "nat \<Rightarrow> disk_chunk list \<Rightarrow> nat \<Rightarrow> bool" where
  "laid a [] n \<longleftrightarrow> a \<le> n"
| "laid a (c # cs) n \<longleftrightarrow> a \<le> dk_start c \<and> whole c \<and> laid (dk_end c) cs n"

lemma whole_pos: "whole c \<Longrightarrow> dk_start c < dk_end c"
  by (simp add: whole_def)

lemma laid_le: "laid a cs n \<Longrightarrow> a \<le> n"
  by (induction cs arbitrary: a) (force dest: whole_pos)+

lemma laid_mem: "laid a cs n \<Longrightarrow> c \<in> set cs \<Longrightarrow> a \<le> dk_start c \<and> dk_end c \<le> n \<and> whole c"
proof (induction cs arbitrary: a)
  case (Cons x cs)
  then have "dk_end x \<le> n" "dk_start x < dk_end x" by (auto dest: laid_le whole_pos)
  then show ?case using Cons by force
qed simp

lemma laid_append: "laid a xs m \<Longrightarrow> laid m ys n \<Longrightarrow> laid a (xs @ ys) n"
proof (induction xs arbitrary: a)
  case Nil
  then show ?case by (cases ys) auto
qed auto

lemma laid_widen: "laid a cs n \<Longrightarrow> n \<le> m \<Longrightarrow> laid a cs m"
  by (induction cs arbitrary: a) auto

lemma laid_lower: "laid b cs n \<Longrightarrow> a \<le> b \<Longrightarrow> laid a cs n"
  by (cases cs) auto

lemma laid_filter: "laid a cs n \<Longrightarrow> laid a (filter P cs) n"
proof (induction cs arbitrary: a)
  case (Cons c cs)
  then have "laid (dk_end c) (filter P cs) n" "a \<le> dk_end c" by (auto dest: whole_pos)
  then show ?case using Cons.prems by (auto intro: laid_lower)
qed simp

lemma laid_sorted: "laid a cs n \<Longrightarrow> sorted_wrt (\<lambda>x y. dk_end x \<le> dk_start y) cs"
  by (induction cs arbitrary: a) (auto dest: laid_mem)

lemma laid_starts: "laid a cs n \<Longrightarrow> sorted_wrt (\<lambda>x y. dk_start x < dk_start y) cs"
  by (induction cs arbitrary: a) (auto dest: laid_mem dest!: whole_pos)

lemma laid_inj: "laid a cs n \<Longrightarrow> distinct (map dk_start cs)"
  using laid_starts [of a cs n] strict_sorted_iff [of "map dk_start cs"] by (simp add: sorted_wrt_map)

lemma laid_apart:
  assumes "laid a cs n" and "x \<in> set cs" and "y \<in> set cs" and "dk_start x < dk_end y" and "dk_start y < dk_end x"
  shows "x = y"
  using assms
proof (induction cs arbitrary: a)
  case (Cons c cs)
  then show ?case by (auto dest: laid_mem)
qed simp

lemma same_file:
  "whole x \<Longrightarrow> whole y \<Longrightarrow> dk_end x \<le> U64_MAX \<Longrightarrow> dk_end y \<le> U64_MAX \<Longrightarrow> file_of x = file_of y \<Longrightarrow>
    dk_start x = dk_start y \<and> dk_end x = dk_end y"
  using parse_chunk_range_name [of x] parse_chunk_range_name [of y] whole_pos [of x] whole_pos [of y]
  by (auto simp: file_of_def whole_def)

lemma listed_chunks:
  assumes files: "files_ok d" and listing: "mset (le_listing E d) = mset d"
    and keep: "\<And>name c. (name, c) \<in> set d \<Longrightarrow> P (name, c) \<longleftrightarrow> Q c"
    and cs: "set cs = {c \<in> held d. Q c}" and inj: "inj_on f (set cs)" and srt: "sorted (map f cs)" "distinct cs"
  shows "sort_key f (map snd (filter P (le_listing E d))) = cs"
proof (rule sort_key_inj_key_eq)
  have "mset (map snd (filter P (le_listing E d))) = image_mset snd (filter_mset P (mset d))"
    by (simp add: listing)
  also have "\<dots> = mset (map snd (filter P d))" by (simp add: mset_map)
  also have "filter P d = filter (\<lambda>x. Q (snd x)) d" using keep by (intro filter_cong) auto
  also have "map snd (filter (\<lambda>x. Q (snd x)) d) = filter Q (map snd d)" by (simp add: filter_map comp_def)
  also have "mset (filter Q (map snd d)) = mset cs"
    using files_distinct [OF files] srt(2) cs
    by (subst set_eq_iff_mset_eq_distinct [symmetric]) (auto simp: held_def)
  finally show eq: "mset (map snd (filter P (le_listing E d))) = mset cs" .
  show "inj_on f (set (map snd (filter P (le_listing E d))))" using inj mset_eq_setD [OF eq] by simp
  show "sorted (map f cs)" by (rule srt)
qed

lemma laid_keys:
  assumes "laid a cs n"
  shows "inj_on dk_start (set cs)" "sorted (map dk_start cs)" "distinct cs"
    "inj_on (\<lambda>c. (dk_start c, \<not> dk_marker c)) (set cs)" "sorted (map (\<lambda>c. (dk_start c, \<not> dk_marker c)) cs)"
proof -
  show inj: "inj_on dk_start (set cs)" and "distinct cs"
    using laid_inj [OF assms] by (auto simp: distinct_map)
  show "sorted (map dk_start cs)" using laid_starts [OF assms]
    by (auto simp: sorted_wrt_map intro: sorted_wrt_mono_rel [rotated])
  show "inj_on (\<lambda>c. (dk_start c, \<not> dk_marker c)) (set cs)" using inj by (auto simp: inj_on_def)
  show "sorted (map (\<lambda>c. (dk_start c, \<not> dk_marker c)) cs)" using laid_starts [OF assms]
    by (auto simp: sorted_wrt_map less_eq_prod_def intro: sorted_wrt_mono_rel [rotated])
qed

lemma read_chunks_laid:
  assumes "files_ok d" and "mset (le_listing E d) = mset d" and "laid a cs n"
    and "set cs = {c \<in> held d. \<not> dk_marker c}"
  shows "filter (\<lambda>c. \<not> dk_marker c) (read_chunks E d) = cs"
proof -
  have json: "is_json name" if "(name, c) \<in> set d" for name c
    using assms(1) that chunk_name_json marker_json by (auto simp: files_ok_def file_of_def)
  have "filter (\<lambda>c. \<not> dk_marker c) (read_chunks E d) =
      sort_key dk_start (map snd (filter (\<lambda>x. is_json (fst x) \<and> \<not> dk_marker (snd x)) (le_listing E d)))"
    by (simp add: read_chunks_def filter_sort filter_map comp_def case_prod_beta)
  also have "\<dots> = cs"
    by (rule listed_chunks [where Q = "\<lambda>c. \<not> dk_marker c", OF assms(1,2) _ assms(4) laid_keys(1-3) [OF assms(3)]])
      (use json in auto)
  finally show ?thesis .
qed

lemma read_chunks_from_laid:
  assumes "files_ok d" and "mset (le_listing E d) = mset d" and "laid a cs n" and "n \<le> U64_MAX"
    and "set cs = held d"
  shows "filter (\<lambda>c. after < dk_end c) (read_chunks_from E d after) = filter (\<lambda>c. after < dk_end c) cs"
proof -
  have "wanted_file after (name, c) \<longleftrightarrow> after < dk_end c" if "(name, c) \<in> set d" for name c
  proof -
    have "c \<in> set cs" using assms(5) that by (force simp: held_def)
    then have "whole c" "dk_end c \<le> n" using laid_mem [OF assms(3)] by auto
    moreover have "name = file_of c" using assms(1) that by (auto simp: files_ok_def)
    ultimately show ?thesis
      using parse_chunk_range_name [of c] whole_pos [of c] chunk_name_json [of c] chunk_name_not_marker [of c]
        order_trans [OF _ assms(4)] by (simp add: wanted_file_def file_of_def whole_def)
  qed
  moreover have "laid a (filter (\<lambda>c. after < dk_end c) cs) n" by (rule laid_filter [OF assms(3)])
  ultimately have "read_chunks_from E d after = filter (\<lambda>c. after < dk_end c) cs"
    unfolding read_chunks_from_def
    by (intro listed_chunks [where Q = "\<lambda>c. after < dk_end c", OF assms(1,2)] laid_keys) (auto simp: assms(5))
  then show ?thesis by simp
qed

text \<open>Chunks that follow each other without a gap.\<close>

fun tiled :: "nat \<Rightarrow> disk_chunk list \<Rightarrow> bool" where
  "tiled a [] \<longleftrightarrow> True"
| "tiled a (c # cs) \<longleftrightarrow> dk_start c = a \<and> whole c \<and> tiled (dk_end c) cs"

abbreviation chunk_text :: "disk_chunk list \<Rightarrow> string" where
  "chunk_text cs \<equiv> concat (map dk_text cs)"

lemma tiled_laid: "tiled a cs \<Longrightarrow> laid a cs (a + length (chunk_text cs))"
proof (induction cs arbitrary: a)
  case (Cons c cs)
  then have "laid (dk_end c) cs (dk_end c + length (chunk_text cs))" by simp
  moreover have "dk_end c = a + length (dk_text c)" using Cons.prems by (simp add: whole_def)
  ultimately show ?case using Cons.prems by (simp add: add.assoc)
qed simp

lemma tiled_append: "tiled a xs \<Longrightarrow> tiled (a + length (chunk_text xs)) ys \<Longrightarrow> tiled a (xs @ ys)"
proof (induction xs arbitrary: a)
  case (Cons c xs)
  then have "dk_end c = a + length (dk_text c)" by (simp add: whole_def)
  then show ?case using Cons by (simp add: add.assoc)
qed simp

lemma tiled_cont_ok: "tiled a cs \<Longrightarrow> cont_ok 0 (chunk_text cs)"
  by (induction cs arbitrary: a) (auto simp: whole_def intro: cont_ok_append)

lemma tiled_empty: "tiled a cs \<Longrightarrow> chunk_text cs = [] \<Longrightarrow> cs = []"
  by (cases cs) (auto simp: whole_def)

section \<open>New chunks\<close>

definition bounded_by :: "nat \<Rightarrow> log_dir \<Rightarrow> bool" where
  "bounded_by n d \<longleftrightarrow> (\<forall>x \<in> held d. \<not> dk_marker x \<longrightarrow> whole x \<and> dk_end x \<le> n)"

lemma other_file: "x \<in> held d \<Longrightarrow> bounded_by (dk_start c) d \<Longrightarrow> whole c \<Longrightarrow> dk_end c \<le> U64_MAX \<Longrightarrow> file_of x \<noteq> file_of c"
  using same_file [of x c] whole_pos [of x] chunk_name_not_marker [of c] whole_pos [of c]
  by (cases "dk_marker x") (auto simp: bounded_by_def file_of_def whole_def)

lemma write_parts_tiled:
  assumes "files_ok d" and "bounded_by n d" and "\<forall>p \<in> set parts. p \<noteq> [] \<and> cont_ok 0 p"
    and "n + length (concat parts) \<le> U64_MAX"
  shows "\<exists>new d'. write_parts ch parts (n, d) = (n + length (concat parts), d') \<and> files_ok d' \<and>
    held d' = held d \<union> set new \<and> tiled n new \<and> map dk_text new = parts \<and> (\<forall>c \<in> set new. dk_channel c = ch)"
  using assms
proof (induction parts arbitrary: n d)
  case (Cons p parts)
  define c where "c = \<lparr>dk_start = n, dk_end = n + length p, dk_channel = ch, dk_text = p, dk_marker = False\<rparr>"
  have c: "whole c" "dk_start c = n" "dk_end c = n + length p" "\<not> dk_marker c" "dk_text c = p" "dk_channel c = ch"
    using Cons.prems(3) by (simp_all add: c_def whole_def)
  have fits: "dk_end c \<le> U64_MAX" using Cons.prems(4) c(3) by simp
  have others: "{x \<in> held d. file_of x \<noteq> file_of c} = held d"
    using other_file [of _ d c] Cons.prems(2) c(1,2) fits by auto
  have d1: "files_ok (write_chunk c d)" "held (write_chunk c d) = insert c (held d)"
    using write_chunk_files [OF Cons.prems(1) c(4)] others by auto
  have bounded: "bounded_by (dk_end c) (write_chunk c d)"
    using Cons.prems(2) c by (auto simp: bounded_by_def d1)
  have room: "dk_end c + length (concat parts) \<le> U64_MAX" using Cons.prems(4) c(3) by simp
  have rest: "\<forall>p \<in> set parts. p \<noteq> [] \<and> cont_ok 0 p" using Cons.prems(3) by simp
  from Cons.IH [OF d1(1) bounded rest room] obtain new d' where new:
    "write_parts ch parts (dk_end c, write_chunk c d) = (dk_end c + length (concat parts), d')" "files_ok d'"
    "held d' = held (write_chunk c d) \<union> set new" "tiled (dk_end c) new" "map dk_text new = parts"
    "\<forall>c \<in> set new. dk_channel c = ch"
    by (elim exE conjE) (rule that)
  have next_cursor: "saturating_add_u64 n (length p) = dk_end c"
    using fits unfolding c(3) saturating_add_u64_def by (rule min_absorb1)
  have chunk: "\<lparr>dk_start = n, dk_end = dk_end c, dk_channel = ch, dk_text = p, dk_marker = False\<rparr> = c"
    using c(3) by (simp add: c_def)
  have "write_parts ch (p # parts) (n, d) = write_parts ch parts (dk_end c, write_chunk c d)"
    by (simp only: write_parts.simps Let_def next_cursor chunk)
  then have "write_parts ch (p # parts) (n, d) = (n + length (concat (p # parts)), d')"
    using new(1) c(3) by simp
  moreover have "held d' = held d \<union> set (c # new)" using new(3) d1(2) by auto
  moreover have "tiled n (c # new)" using new(4) c(1,2) by simp
  moreover have "map dk_text (c # new) = p # parts" using new(5) c(5) by simp
  moreover have "\<forall>x \<in> set (c # new). dk_channel x = ch" using new(6) c(6) by simp
  ultimately show ?case using new(2) by (intro exI [of _ "c # new"] exI [of _ d'] conjI)
qed (auto intro: exI [of _ "[]"])

end
