(* ===== verification/Log_Properties.thy ===== *)
theory Log_Properties
  imports Log_Chunks Janus_Interfaces
begin

text \<open>
  What the log store promises a reader: an append always returns, what was appended to a stream under
  its limit is read back page by page, whatever other streams are written between; and where that
  fails, a page that ends within a character and a secret that two writes share.
\<close>

section \<open>Appends return\<close>

lemma split_redacted:
  "\<exists>ps. split_text (redact (utf8_lossy input) secrets) CHUNK_BYTES = Some ps \<and>
     concat ps = redact (utf8_lossy input) secrets \<and> (\<forall>p \<in> set ps. p \<noteq> [] \<and> cont_ok 0 p)"
  by (intro split_text_parts cont_ok_redact cont_ok_lossy) (simp add: CHUNK_BYTES_def)

text \<open>
  An append returns, with a result or an error: whatever the bytes, the secrets and the state of
  the store, the loop that cuts the text into chunks ends.
\<close>

theorem append_log_returns: "\<exists>res. append_log E now i ch input secrets r st = Some res"
  using split_redacted [of input secrets] by (auto simp: append_log_def Let_def split: sum.split)

section \<open>Pages\<close>



lemma read_page_0 [simp]: "read_page p 0 cs = []"
  by (cases cs) simp_all


section \<open>Streams under their limit\<close>

definition paths_ok :: "log_store \<Rightarrow> bool" where
  "paths_ok st \<longleftrightarrow> (\<forall>r \<in> set (log_streams st). sr_relative_path r = sr_id r)"

text \<open>The stream \<open>i\<close> took \<open>tot\<close> bytes of input and its files hold exactly \<open>bs\<close>.\<close>

definition row_holds :: "nat \<Rightarrow> string \<Rightarrow> log_stream_row \<Rightarrow> bool" where
  "row_holds tot bs row \<longleftrightarrow> sr_first_cursor row = 0 \<and> sr_next_cursor row = int (length bs) \<and>
     0 \<le> sr_retained_bytes row \<and> sr_total_bytes row = int tot \<and> int (length bs) \<le> I64_MAX"

definition files_hold :: "string \<Rightarrow> log_dir \<Rightarrow> bool" where
  "files_hold bs d \<longleftrightarrow> files_ok d \<and> (\<exists>cs. held d = set cs \<and> tiled 0 cs \<and> chunk_text cs = bs)"

definition stream_holds :: "string \<Rightarrow> nat \<Rightarrow> string \<Rightarrow> log_store \<Rightarrow> bool" where
  "stream_holds i tot bs st \<longleftrightarrow>
     (\<exists>row d. find_one (\<lambda>r. sr_id r = i) (log_streams st) = Some row \<and> row_holds tot bs row \<and>
        log_dirs st i = Some d \<and> files_hold bs d)"

lemma stored_bounds_InrD:
  assumes "stored_bounds now cursor total_bytes (first, retained, truncated) = Inr f"
  shows "sr_id (f x) = sr_id x" "sr_relative_path (f x) = sr_relative_path x"
    "sr_first_cursor (f x) = int first" "sr_next_cursor (f x) = int cursor" "sr_retained_bytes (f x) = int retained"
    "sr_total_bytes (f x) = int total_bytes" "int cursor \<le> I64_MAX" "int total_bytes \<le> I64_MAX"
  using assms by (auto simp: stored_bounds_def to_i64_def and_then_eq_Inr split: if_splits)

lemma stored_bounds_keeps:
  "stored_bounds now cursor total_bytes b = Inr f \<Longrightarrow> sr_id (f x) = sr_id x \<and> sr_relative_path (f x) = sr_relative_path x"
  by (cases b) (auto dest: stored_bounds_InrD)

lemma write_parts_cursor:
  "n \<le> U64_MAX \<Longrightarrow> fst (write_parts ch parts (n, d)) = min (n + length (concat parts)) U64_MAX"
proof (induction parts arbitrary: n d)
  case (Cons p parts)
  show ?case
    using Cons.IH [of "saturating_add_u64 n (length p)"] by (auto simp: Let_def saturating_add_u64_def)
qed simp

text \<open>An append touches its own stream only.\<close>

lemma append_parts_effect:
  assumes "append_parts E now row ch s len r parts cursor d st = (res, st')"
  shows "\<exists>d' f. st' = st\<lparr>log_dirs := (log_dirs st)(sr_relative_path row \<mapsto> d'),
      log_streams := fst (update_one (\<lambda>x. sr_id x = sr_id row) f (log_streams st))\<rparr> \<and>
    (\<forall>x. sr_id (f x) = sr_id x \<and> sr_relative_path (f x) = sr_relative_path x)"
proof -
  have same: "fst (update_one P (\<lambda>x. x) xs) = xs" for P :: "log_stream_row \<Rightarrow> bool" and xs
    by (induction xs) auto
  obtain cursor1 d1 where parts: "write_parts ch parts (cursor, d) = (cursor1, d1)" by fastforce
  show ?thesis
  proof (cases "to_u64 (sr_total_bytes row) ''total_bytes''")
    case Inl
    then show ?thesis using assms
      by (auto simp: append_parts_def parts same intro!: exI [of _ d1] exI [of _ "\<lambda>x. x"])
  next
    case (Inr t)
    obtain b d2 where bounds: "append_bounds E row r (saturating_add_u64 t len) cursor1 (length s) d1 = (b, d2)"
      by fastforce
    show ?thesis
    proof (cases "and_then b (stored_bounds now cursor1 (saturating_add_u64 t len))")
      case Inl
      then show ?thesis using assms Inr
        by (auto simp: append_parts_def parts bounds same intro!: exI [of _ d2] exI [of _ "\<lambda>x. x"])
    next
      case f: (Inr f)
      then have "\<forall>x. sr_id (f x) = sr_id x \<and> sr_relative_path (f x) = sr_relative_path x"
        by (auto dest: stored_bounds_keeps)
      then show ?thesis using assms Inr f
        by (auto simp: append_parts_def parts bounds Let_def intro!: exI [of _ d2] exI [of _ f])
    qed
  qed
qed

lemma append_log_effect:
  assumes "append_log E now j ch input secrets r st = Some (res, st')" and "paths_ok st"
  shows "paths_ok st' \<and> (j \<noteq> i \<longrightarrow> log_dirs st' i = log_dirs st i \<and>
    find_one (\<lambda>r. sr_id r = i) (log_streams st') = find_one (\<lambda>r. sr_id r = i) (log_streams st))"
proof -
  have "st' = st \<or> (\<exists>row s parts cursor d. find_one (\<lambda>r. sr_id r = j) (log_streams st) = Some row \<and>
      append_parts E now row ch s (length input) r parts cursor d st = (res, st'))"
    using assms(1)
    by (auto simp: append_log_def log_row_def bind_eq_Some_conv Let_def split: sum.splits if_splits option.splits)
  then show ?thesis
  proof (elim disjE exE conjE)
    fix row s parts cursor d
    assume row: "find_one (\<lambda>r. sr_id r = j) (log_streams st) = Some row"
      and parts: "append_parts E now row ch s (length input) r parts cursor d st = (res, st')"
    have j: "sr_id row = j" "sr_relative_path row = j"
      using find_one_SomeD [OF row] assms(2) by (auto simp: paths_ok_def)
    from append_parts_effect [OF parts] obtain d' f where st':
      "st' = st\<lparr>log_dirs := (log_dirs st)(j \<mapsto> d'), log_streams := fst (update_one (\<lambda>x. sr_id x = j) f (log_streams st))\<rparr>"
      and f: "\<forall>x. sr_id (f x) = sr_id x \<and> sr_relative_path (f x) = sr_relative_path x"
      by (auto simp: j)
    have "paths_ok st'" using assms(2) f by (auto simp: paths_ok_def st' elim!: update_one_setE)
    moreover have "find_one (\<lambda>r. sr_id r = i) (log_streams st') = find_one (\<lambda>r. sr_id r = i) (log_streams st)" if "j \<noteq> i"
      unfolding st' using that f by (simp, intro find_other_update) auto
    ultimately show ?thesis by (simp add: st')
  qed (use assms(2) in simp)
qed

text \<open>An append under the limit adds exactly its redacted text.\<close>

lemma append_log_holds:
  assumes holds: "stream_holds i tot bs st" and paths: "paths_ok st"
    and app: "append_log E now i ch input secrets r st = Some (Inr p, st')"
    and limit: "tot + length input \<le> raw_limit_bytes r"
  shows "stream_holds i (tot + length input) (bs @ redact (utf8_lossy input) secrets) st'"
proof -
  obtain row d cs where row: "find_one (\<lambda>r. sr_id r = i) (log_streams st) = Some row" "row_holds tot bs row"
    and d: "log_dirs st i = Some d" "files_ok d" "held d = set cs" "tiled 0 cs" "chunk_text cs = bs"
    using holds by (auto simp: stream_holds_def files_hold_def)
  have i: "sr_id row = i" "sr_relative_path row = i"
    using find_one_SomeD [OF row(1)] paths by (auto simp: paths_ok_def)
  let ?s = "redact (utf8_lossy input) secrets"
  show ?thesis
  proof (cases "input = []")
    case True
    have "redact [] secrets = []"
    proof -
      have "fold (\<lambda>secret. replace_all secret ''[REDACTED]'') xs [] = []" for xs
        by (induction xs) (simp_all add: replace_all.simps)
      then show ?thesis by (simp add: redact_def)
    qed
    then show ?thesis using app holds True by (auto simp: append_log_def split: sum.splits)
  next
    case False
    obtain ps where ps: "split_text ?s CHUNK_BYTES = Some ps" "concat ps = ?s" "\<forall>p \<in> set ps. p \<noteq> [] \<and> cont_ok 0 p"
      using split_redacted [of input secrets] by blast
    have cursor: "to_u64 (sr_next_cursor row) ''next_cursor'' = Inr (length bs)"
      "to_u64 (sr_total_bytes row) ''total_bytes'' = Inr tot"
      "to_u64 (sr_retained_bytes row) ''retained_bytes'' = Inr (nat (sr_retained_bytes row))"
      using row(2) by (simp_all add: row_holds_def to_u64_def)
    have parts: "append_parts E now row ch ?s (length input) r ps (length bs) d st = (Inr p, st')"
      using app False row(1) ps(1) d(1) cursor(1) i
      by (auto simp: append_log_def log_row_def Let_def split: sum.splits if_splits)
    obtain n d' where written: "write_parts ch ps (length bs, d) = (n, d')" by fastforce
    let ?tot = "saturating_add_u64 tot (length input)" and ?kept = "saturating_add_u64 (nat (sr_retained_bytes row)) (length ?s)"
    have under: "?tot \<le> raw_limit_bytes r" using limit by (simp add: saturating_add_u64_def)
    then have bounds: "append_bounds E row r ?tot n (length ?s) d' = (Inr (0, ?kept, False), d')"
      by (simp add: append_bounds_def cursor(3))
    obtain f where f: "stored_bounds now n ?tot (0, ?kept, False) = Inr f"
      using parts by (auto simp: append_parts_def written cursor(2) bounds Let_def split: sum.splits)
    note f_keeps = stored_bounds_InrD [OF f]
    have st': "st' = st\<lparr>log_dirs := (log_dirs st)(i \<mapsto> d'), log_streams := fst (update_one (\<lambda>x. sr_id x = i) f (log_streams st))\<rparr>"
      using parts by (simp add: append_parts_def written cursor(2) bounds f i Let_def)
    have small: "length bs \<le> U64_MAX" using row(2) by (simp add: row_holds_def)
    have "n = min (length bs + length ?s) U64_MAX"
      using write_parts_cursor [OF small, of ch ps d] by (simp add: written ps(2))
    with f_keeps(7) have n: "n = length (bs @ ?s)" "length bs + length ?s \<le> U64_MAX" by (auto simp: min_def split: if_splits)
    have tot: "?tot = tot + length input" using f_keeps(8) by (auto simp: saturating_add_u64_def min_def split: if_splits)
    have "bounded_by (length bs) d"
      using laid_mem [OF tiled_laid [OF d(4)]] d(3,5) by (auto simp: bounded_by_def)
    from write_parts_tiled [OF d(2) this ps(3), of ch] n(2) obtain new where new: "files_ok d'"
      "held d' = held d \<union> set new" "tiled (length bs) new" "map dk_text new = ps"
      by (auto simp: written ps(2))
    have "files_hold (bs @ ?s) d'"
      unfolding files_hold_def
    proof (intro conjI exI [of _ "cs @ new"])
      show "tiled 0 (cs @ new)" using tiled_append [OF d(4)] new(3) d(5) by simp
    qed (use new d ps(2) in simp_all)
    moreover have "row_holds (tot + length input) (bs @ ?s) (f row)"
      using f_keeps(3-7) n(1) tot by (simp add: row_holds_def)
    moreover have "find_one (\<lambda>r. sr_id r = i) (log_streams st') = Some (f row)"
      using row(1) f_keeps(1) by (simp add: st' find_after_update)
    ultimately show ?thesis by (auto simp: stream_holds_def st')
  qed
qed

section \<open>Reading back\<close>


abbreviation ascii_text :: "string \<Rightarrow> bool" where
  "ascii_text bs \<equiv> \<forall>x \<in> set bs. (of_char x :: nat) < 128"

lemma ascii_boundary: "ascii_text bs \<Longrightarrow> n \<le> length bs \<Longrightarrow> is_char_boundary bs n"
  by (force simp: is_char_boundary_def byte_at_def continuation_def dest: nth_mem)


text \<open>A log as its reader sees it: an environment, a stream id and the store.\<close>

type_synonym log_view = "log_env \<times> string \<times> log_store"

definition stream_bytes :: "log_view \<Rightarrow> string" where
  "stream_bytes = (\<lambda>(E, i, st). case log_dirs st i of None \<Rightarrow> [] | Some d \<Rightarrow> chunk_text (read_chunks E d))"



lemma stream_bytes_holds:
  assumes "stream_holds i tot bs st" and "\<And>d. mset (le_listing E d) = mset d"
  shows "stream_bytes (E, i, st) = bs"
proof -
  obtain d cs where d: "log_dirs st i = Some d" "files_ok d" "held d = set cs" "tiled 0 cs" "chunk_text cs = bs"
    using assms(1) by (auto simp: stream_holds_def files_hold_def)
  have whole: "\<forall>c \<in> set cs. \<not> dk_marker c" using laid_mem [OF tiled_laid [OF d(4)]] by (auto simp: whole_def)
  have "filter (\<lambda>c. \<not> dk_marker c) (read_chunks E d) = cs"
    by (rule read_chunks_laid [OF d(2) assms(2) tiled_laid [OF d(4)]]) (use whole d(3) in auto)
  moreover have "set (read_chunks E d) \<subseteq> held d"
    using mset_eq_setD [OF assms(2) [of d]] by (auto simp: read_chunks_def held_def)
  ultimately have "read_chunks E d = cs" using whole d(3) by (metis filter_True subsetD)
  then show ?thesis by (simp add: stream_bytes_def d(1,5))
qed






record append_call =
  ap_now :: int
  ap_id :: string
  ap_channel :: log_channel
  ap_input :: string
  ap_secrets :: "string list"
  ap_retention :: log_retention

fun append_all :: "log_env \<Rightarrow> append_call list \<Rightarrow> log_store \<Rightarrow> log_store option" where
  "append_all E [] st = Some st"
| "append_all E (a # as) st =
    (case append_log E (ap_now a) (ap_id a) (ap_channel a) (ap_input a) (ap_secrets a) (ap_retention a) st of
       Some (Inr _, st') \<Rightarrow> append_all E as st'
     | _ \<Rightarrow> None)"





lemma create_log_holds:
  assumes "create_log E i now owner owner_id st = (Inr p, st')" and "paths_ok st" and "log_dirs st i = None"
  shows "stream_holds i 0 [] st' \<and> paths_ok st'"
proof -
  have new: "i \<notin> sr_id ` set (log_streams st)" using assms(1) by (auto simp: create_log_def Let_def split: if_splits)
  have "\<forall>y \<in> set xs. sr_id y \<noteq> i \<Longrightarrow> find_one (\<lambda>r. sr_id r = i) (xs @ [x]) = (if sr_id x = i then Some x else None)"
    for xs and x :: log_stream_row by (induction xs) auto
  then have "find_one (\<lambda>r. sr_id r = i) (log_streams st @ [x]) = (if sr_id x = i then Some x else None)" for x
    using new by (metis image_eqI)
  then show ?thesis using assms new
    by (auto simp: create_log_def Let_def stream_holds_def row_holds_def files_hold_def paths_ok_def image_iff
        split: if_splits intro!: exI [of _ "[]"])
qed


text \<open>Two appends to one stream and one to another in between, read back a byte at a time.\<close>

definition sample_log_env :: log_env where
  "sample_log_env = \<lparr>le_uuid = Some, le_listing = \<lambda>d. d, le_io_error = [], le_index_error = []\<rparr>"

definition sample_append :: "string \<Rightarrow> string \<Rightarrow> append_call" where
  "sample_append i input = \<lparr>ap_now = 1, ap_id = i, ap_channel = Stdout, ap_input = input,
     ap_secrets = [], ap_retention = \<lparr>raw_limit_bytes = 8, head_bytes = 2\<rparr>\<rparr>"

definition empty_logs :: log_store where
  "empty_logs = \<lparr>log_streams = [], log_dirs = \<lambda>_. None\<rparr>"


lemma chunk_name_neq:
  "dk_start c \<noteq> dk_start x \<Longrightarrow> dk_start c \<le> U64_MAX \<Longrightarrow> dk_end c \<le> U64_MAX \<Longrightarrow> dk_start x \<le> U64_MAX \<Longrightarrow>
    dk_end x \<le> U64_MAX \<Longrightarrow> chunk_file_name c \<noteq> chunk_file_name x"
  using parse_chunk_range_name [of c] parse_chunk_range_name [of x] by auto

lemma split_one_part: "s \<noteq> [] \<Longrightarrow> length s \<le> m \<Longrightarrow> split_text s m = Some [s]"
  by (subst split_text.simps, subst split_text.simps) (simp add: before_all Let_def)

lemma redact_nothing [simp]: "redact s [] = s"
  by (simp add: redact_def)

lemmas append_eval = append_log_def append_parts_def append_bounds_def stored_bounds_def log_row_def
  validate_retention_def to_u64_def to_i64_def saturating_add_u64_def projection_unlocked_def projection_from_row_def
  split_one_part CHUNK_BYTES_def utf8_lossy_ascii



section \<open>Where reading and redaction fail\<close>

text \<open>
  A page that ends within a character skips it: when the bytes left for the page cut the last
  character of a chunk, the page goes on with the next chunk, and the reader, whose cursor is the
  end of what it was handed, never sees the character.
\<close>

theorem page_skips_character:
  assumes row: "find_one (\<lambda>r. sr_id r = i) (log_streams st) = Some row"
    and projection: "projection_from_row E row = Inr p" "lp_first_cursor p = 0"
    and files: "log_dirs st (sr_relative_path row) = Some d"
    and chunks: "read_chunks_from E d 0 =
      [\<lparr>dk_start = 0, dk_end = length (x @ e), dk_channel = ch, dk_text = x @ e, dk_marker = False\<rparr>,
       \<lparr>dk_start = length (x @ e), dk_end = length (x @ e @ v), dk_channel = ch, dk_text = v, dk_marker = False\<rparr>]"
    and small: "length (x @ e @ v) \<le> MAX_READ_BYTES"
    and cut: "x \<noteq> []" "is_char_boundary (x @ e) (length x)" "0 < k" "k < length e"
      "\<And>j. 0 < j \<Longrightarrow> j \<le> k \<Longrightarrow> \<not> is_char_boundary (x @ e) (length x + j)"
    and "ascii_text v" and "v \<noteq> []"
  shows "\<exists>page. read_log E i 0 (length x + k) st = Inr page \<and>
    concat (map lc_text (lr_chunks page)) = x @ take k v \<and>
    lc_end_cursor (last (lr_chunks page)) = length (x @ e) + min k (length v)"
proof -
  let ?c = "\<lparr>dk_start = 0, dk_end = length (x @ e), dk_channel = ch, dk_text = x @ e, dk_marker = False\<rparr>"
  let ?v = "\<lparr>dk_start = length (x @ e), dk_end = length (x @ e @ v), dk_channel = ch, dk_text = v, dk_marker = False\<rparr>"
  let ?n = "char_boundary_at_or_before (x @ e) (length x + k)"
  have "length x \<le> ?n" by (rule before_ge [OF cut(2)]) simp
  moreover have "?n \<le> length x + k" using before_le [of "x @ e" "length x + k"] by simp
  ultimately have n: "?n = length x"
    using cut(5) [of "?n - length x"] before_boundary [of "x @ e" "length x + k"] by fastforce
  have fits: "length (x @ e @ v) \<le> U64_MAX" using small by (simp add: MAX_READ_BYTES_def)
  have start: "char_boundary_at_or_after s 0 = 0" for s by (rule after_exact) (simp add: is_char_boundary_def)
  have m: "char_boundary_at_or_before v k = min k (length v)"
    using before_all [of v k] before_exact [OF ascii_boundary [OF assms(12)], of k] by (cases "k \<le> length v") auto
  have rest: "read_page 0 k [?v] = [\<lparr>lc_start_cursor = length (x @ e), lc_end_cursor = length (x @ e) + min k (length v),
      lc_channel = ch, lc_text = take k v\<rparr>]"
    using cut(3) \<open>v \<noteq> []\<close> fits by (auto simp: chunk_source_def start m Let_def saturating_add_u64_def min_def)
  have page: "read_page 0 (length x + k) [?c, ?v] =
      \<lparr>lc_start_cursor = 0, lc_end_cursor = length x, lc_channel = ch, lc_text = x\<rparr> # read_page 0 k [?v]"
    using cut(1,3,4) fits n
    by (subst read_page.simps(2)) (simp add: chunk_source_def start Let_def saturating_add_u64_def del: read_page.simps(2))
  have all: "filter (\<lambda>c. 0 < dk_end c) (read_chunks_from E d 0) = [?c, ?v]" using cut(1) by (simp add: chunks)
  have limit: "min (max 1 (length x + k)) MAX_READ_BYTES = length x + k" using small cut(1,4) by (cases x) auto
  have "read_log E i 0 (length x + k) st =
      Inr \<lparr>lr_stream = p, lr_after = 0, lr_chunks = read_page 0 (length x + k) [?c, ?v]\<rparr>"
    unfolding read_log_def log_row_def limit row ok_or_simps and_then_Inr projection files option.case all by simp
  then show ?thesis unfolding page rest by simp
qed

text \<open>The chunks of \<open>a\<close> and a two-byte character, and of \<open>b\<close>, read two bytes at a time.\<close>

definition cut_logs :: log_store where
  "cut_logs = \<lparr>log_streams = [\<lparr>sr_id = ''s'', sr_owner_kind = ''sync'', sr_owner_id = ''s'', sr_runtime_id = Some ''r'',
      sr_relative_path = ''s'', sr_first_cursor = 0, sr_next_cursor = 4, sr_retained_bytes = 4, sr_total_bytes = 4,
      sr_truncated = False, sr_closed = False, sr_created_at = 0, sr_updated_at = 1\<rparr>],
    log_dirs = [''s'' \<mapsto> snd (write_parts Stdout [''a'' @ [CHR 0xC3, CHR 0xA9], ''b''] (0, []))]\<rparr>"

lemma cut_logs_appended:
  "append_all sample_log_env [sample_append ''s'' (''a'' @ [CHR 0xC3, CHR 0xA9]), sample_append ''s'' ''b'']
     (snd (create_log sample_log_env ''s'' 0 OwnerSync ''r'' empty_logs)) = Some cut_logs"
proof -
  have "utf8_lossy [CHR ''a'', CHR 0xC3, CHR 0xA9] = [CHR ''a'', CHR 0xC3, CHR 0xA9]"
    by (simp add: utf8_lossy.simps utf8_unit_def byte_at_def continuation_def Let_def)
  then show ?thesis
    by (simp add: append_eval sample_log_env_def sample_append_def empty_logs_def create_log_def Let_def cut_logs_def)
      (simp add: numeral_eq_Suc)
qed

theorem page_skips_character_witness:
  "\<exists>page. read_log sample_log_env ''s'' 0 2 cut_logs = Inr page \<and>
     concat (map lc_text (lr_chunks page)) = ''ab'' \<and> lc_end_cursor (last (lr_chunks page)) = 4"
proof -
  let ?x = "''a''" and ?e = "[CHR 0xC3, CHR 0xA9]" and ?d = "snd (write_parts Stdout [''a'' @ [CHR 0xC3, CHR 0xA9], ''b''] (0, []))"
  have chunks: "read_chunks_from sample_log_env ?d 0 =
      [\<lparr>dk_start = 0, dk_end = length (?x @ ?e), dk_channel = Stdout, dk_text = ?x @ ?e, dk_marker = False\<rparr>,
       \<lparr>dk_start = length (?x @ ?e), dk_end = length (?x @ ?e @ ''b''), dk_channel = Stdout, dk_text = ''b'', dk_marker = False\<rparr>]"
    by (simp add: read_chunks_from_def sample_log_env_def write_chunk_def saturating_add_u64_def wanted_file_def chunk_name_json chunk_name_not_marker
        parse_chunk_range_name chunk_name_neq)
  have "\<exists>page. read_log sample_log_env ''s'' 0 (length ?x + 1) cut_logs = Inr page \<and>
    concat (map lc_text (lr_chunks page)) = ?x @ take 1 ''b'' \<and>
    lc_end_cursor (last (lr_chunks page)) = length (?x @ ?e) + min 1 (length ''b'')"
    by (rule page_skips_character [OF _ _ _ _ chunks])
      (auto simp: cut_logs_def projection_from_row_def to_u64_def sample_log_env_def MAX_READ_BYTES_def
        is_char_boundary_def byte_at_def continuation_def less_Suc_eq)
  then show ?thesis by (simp add: numeral_eq_Suc)
qed

lemma replace_longer: "length s < length pat \<Longrightarrow> replace_all pat by s = s"
  by (rule replace_all_absent) (auto dest: arg_cong [where f = length])

text \<open>
  A secret written in two pieces is stored: each append redacts its own bytes, so a secret that
  the process's output is cut through stays in the log and is read back whole, while one append of
  the same bytes stores the placeholder only.
\<close>

theorem split_secret_escapes:
  assumes holds: "stream_holds i tot bs st" "paths_ok st" and listing: "\<And>d. mset (le_listing E d) = mset d"
    and first: "append_log E now1 i ch u [u @ v] r st = Some (Inr p1, st1)"
    and second: "append_log E now2 i ch v [u @ v] r st1 = Some (Inr p2, st2)"
    and secret: "ascii_text (u @ v)" "u \<noteq> []" "v \<noteq> []" "8 \<le> length (u @ v)"
    and limit: "tot + length (u @ v) \<le> raw_limit_bytes r"
  shows "stream_bytes (E, i, st2) = bs @ u @ v \<and> redact (utf8_lossy (u @ v)) [u @ v] = ''[REDACTED]''"
proof -
  have ascii: "utf8_lossy u = u" "utf8_lossy v = v" "utf8_lossy (u @ v) = u @ v"
    using secret(1) by (auto intro: utf8_lossy_ascii)
  have pieces: "redact u [u @ v] = u" "redact v [u @ v] = v"
    using secret(2,3) by (simp_all add: redact_def replace_longer)
  have "replace_all (u @ v) ''[REDACTED]'' (u @ v) = ''[REDACTED]''"
    using secret(2) by (subst replace_all.simps) (simp add: replace_all.simps)
  then have whole: "redact (u @ v) [u @ v] = ''[REDACTED]''" using secret(4) by (simp add: redact_def)
  have st1: "stream_holds i (tot + length u) (bs @ u) st1"
    using append_log_holds [OF holds first] limit by (simp add: ascii pieces)
  have "paths_ok st1" using append_log_effect [OF first holds(2)] by blast
  then have "stream_holds i (tot + length u + length v) ((bs @ u) @ v) st2"
    using append_log_holds [OF st1 _ second] limit by (simp add: ascii pieces)
  then show ?thesis using stream_bytes_holds [OF _ listing, of i _ _ st2] ascii(3) whole by auto
qed

definition secret_append :: "string \<Rightarrow> append_call" where
  "secret_append input = (sample_append ''s'' input)\<lparr>ap_secrets := [''secret12'']\<rparr>"

definition one_log :: log_store where
  "one_log = snd (create_log sample_log_env ''s'' 0 OwnerSync ''r'' empty_logs)"

theorem split_secret_escapes_witness:
  "\<exists>st. append_all sample_log_env [secret_append ''secr'', secret_append ''et12''] one_log = Some st \<and>
     stream_bytes (sample_log_env, ''s'', st) = ''secret12''"
proof -
  let ?r = "\<lparr>raw_limit_bytes = 8, head_bytes = 2\<rparr>" and ?c = "create_log sample_log_env ''s'' 0 OwnerSync ''r'' empty_logs"
  have pieces: "redact ''secr'' [''secret12''] = ''secr''" "redact ''et12'' [''secret12''] = ''et12''"
    by (simp_all add: redact_def replace_longer)
  have "fst ?c = Inr (projr (fst ?c))" by (simp add: create_log_def empty_logs_def Let_def)
  then have "?c = (Inr (projr (fst ?c)), one_log)" by (simp add: one_log_def prod_eq_iff)
  from create_log_holds [OF this] have holds: "stream_holds ''s'' 0 [] one_log" "paths_ok one_log"
    by (simp_all add: paths_ok_def empty_logs_def)
  have "\<exists>p1 st1 p2 st2. append_log sample_log_env 1 ''s'' Stdout ''secr'' [''secr'' @ ''et12''] ?r one_log = Some (Inr p1, st1) \<and>
      append_log sample_log_env 1 ''s'' Stdout ''et12'' [''secr'' @ ''et12''] ?r st1 = Some (Inr p2, st2)"
    by (simp add: append_eval pieces one_log_def sample_log_env_def empty_logs_def create_log_def Let_def)
  then obtain p1 st1 p2 st2 where
    appended: "append_log sample_log_env 1 ''s'' Stdout ''secr'' [''secr'' @ ''et12''] ?r one_log = Some (Inr p1, st1)"
      "append_log sample_log_env 1 ''s'' Stdout ''et12'' [''secr'' @ ''et12''] ?r st1 = Some (Inr p2, st2)" by blast
  have "stream_bytes (sample_log_env, ''s'', st2) = [] @ ''secr'' @ ''et12''"
    using split_secret_escapes [OF holds _ appended] by (simp add: sample_log_env_def)
  then show ?thesis using appended by (simp add: secret_append_def sample_append_def)
qed

end
