(* ===== verification/Log_Retention.thy ===== *)
theory Log_Retention
  imports Log_Chunks
begin

text \<open>
  What the retention of the log store keeps: the head and the tail of a stream, byte for byte and never
  more than its limit; and what its marker says after a second truncation.
\<close>

section \<open>Log positions\<close>

definition at_pos :: "disk_chunk set \<Rightarrow> nat \<Rightarrow> (log_channel \<times> char) set" where
  "at_pos C p = {(dk_channel c, dk_text c ! (p - dk_start c)) |c. c \<in> C \<and> dk_start c \<le> p \<and> p < dk_end c}"

definition text_chunks :: "log_dir \<Rightarrow> disk_chunk set" where
  "text_chunks d = {c \<in> held d. \<not> dk_marker c}"

definition log_at :: "log_dir \<Rightarrow> nat \<Rightarrow> (log_channel \<times> char) set" where
  "log_at d = at_pos (text_chunks d)"

definition dir_ok :: "nat \<Rightarrow> log_dir \<Rightarrow> bool" where
  "dir_ok n d \<longleftrightarrow> files_ok d \<and> (\<exists>cs. set cs = text_chunks d \<and> laid 0 cs n)"

lemma at_pos_empty [simp]: "at_pos {} p = {}"
  by (simp add: at_pos_def)

lemma at_pos_insert: "at_pos (insert c C) p =
    (if dk_start c \<le> p \<and> p < dk_end c then {(dk_channel c, dk_text c ! (p - dk_start c))} else {}) \<union> at_pos C p"
  by (auto simp: at_pos_def)

lemma at_pos_UN: "at_pos (\<Union>c \<in> A. F c) p = (\<Union>c \<in> A. at_pos (F c) p)"
  unfolding at_pos_def by blast

lemma at_pos_Un: "at_pos (A \<union> B) p = at_pos A p \<union> at_pos B p"
  by (auto simp: at_pos_def)

lemma laid_append_iff: "laid a (xs @ ys) n \<longleftrightarrow> (\<exists>m. laid a xs m \<and> laid m ys n)"
proof
  show "laid a (xs @ ys) n \<Longrightarrow> \<exists>m. laid a xs m \<and> laid m ys n"
    by (induction xs arbitrary: a) auto
qed (auto intro: laid_append)

lemma laid_replace:
  assumes "laid a (ps @ c # cs) n" and "laid (dk_start c) xs (dk_end c)"
  shows "laid a (ps @ xs @ cs) n"
proof -
  from assms(1) obtain m where m: "laid a ps m" "m \<le> dk_start c" "laid (dk_end c) cs n"
    by (auto simp: laid_append_iff)
  have "laid m (xs @ cs) n" by (rule laid_append [OF laid_lower [OF assms(2) m(2)] m(3)])
  then show ?thesis by (rule laid_append [OF m(1)])
qed

section \<open>One chunk\<close>

text \<open>What is left of a chunk, as a list.\<close>

definition cut_front :: "nat \<Rightarrow> disk_chunk \<Rightarrow> nat" where
  "cut_front head c = char_boundary_at_or_before (dk_text c)
     (min (max (dk_start c) head - dk_start c) (length (dk_text c)))"

definition cut_back :: "nat \<Rightarrow> disk_chunk \<Rightarrow> nat" where
  "cut_back tail_start c = char_boundary_at_or_after (dk_text c)
     (min (min (dk_end c) tail_start - dk_start c) (length (dk_text c)))"

definition affected :: "nat \<Rightarrow> nat \<Rightarrow> disk_chunk \<Rightarrow> bool" where
  "affected head tail_start c \<longleftrightarrow> max (dk_start c) head < min (dk_end c) tail_start"

definition kept_front :: "nat \<Rightarrow> disk_chunk \<Rightarrow> disk_chunk" where
  "kept_front head c = c\<lparr>dk_end := dk_start c + cut_front head c, dk_text := take (cut_front head c) (dk_text c),
     dk_marker := False\<rparr>"

definition kept_back :: "nat \<Rightarrow> disk_chunk \<Rightarrow> disk_chunk" where
  "kept_back tail_start c = c\<lparr>dk_start := dk_start c + cut_back tail_start c,
     dk_text := drop (cut_back tail_start c) (dk_text c), dk_marker := False\<rparr>"

definition pieces :: "nat \<Rightarrow> nat \<Rightarrow> disk_chunk \<Rightarrow> disk_chunk list" where
  "pieces head tail_start c =
    (if affected head tail_start c then
       (if cut_front head c \<noteq> 0 then [kept_front head c] else []) @
       (if cut_back tail_start c < length (dk_text c) then [kept_back tail_start c] else [])
     else [c])"

lemma cut_bounds:
  assumes "whole c" and "affected head tail_start c"
  shows "dk_start c + cut_front head c \<le> max (dk_start c) head"
    and "max (dk_start c) head \<le> dk_start c + cut_front head c + 3"
    and "min (dk_end c) tail_start \<le> dk_start c + cut_back tail_start c"
    and "dk_start c + cut_back tail_start c \<le> min (dk_end c) tail_start + 3"
    and "cut_back tail_start c \<le> length (dk_text c)"
    and "is_char_boundary (dk_text c) (cut_front head c)" and "is_char_boundary (dk_text c) (cut_back tail_start c)"
proof -
  let ?t = "dk_text c"
  define f b where fb: "f = max (dk_start c) head - dk_start c" "b = min (dk_end c) tail_start - dk_start c"
  have c: "cont_ok 0 ?t" "dk_end c = dk_start c + length ?t" using assms(1) by (auto simp: whole_def)
  have f: "f \<le> length ?t" "dk_start c + f = max (dk_start c) head"
    and b: "b \<le> length ?t" "dk_start c + b = min (dk_end c) tail_start"
    using assms(2) c(2) by (auto simp: affected_def fb)
  have fr: "cut_front head c = char_boundary_at_or_before ?t f" using f(1) by (simp add: cut_front_def fb)
  have bk: "cut_back tail_start c = char_boundary_at_or_after ?t b" using b(1) by (simp add: cut_back_def fb)
  show "dk_start c + cut_front head c \<le> max (dk_start c) head"
    using before_le [of ?t f] fr f(2) by linarith
  obtain i where "i \<le> f" "f \<le> i + 3" "is_char_boundary ?t i" using boundary_behind [OF c(1) f(1)] by blast
  then show "max (dk_start c) head \<le> dk_start c + cut_front head c + 3"
    using before_ge [of ?t i f] fr f(2) by linarith
  show "min (dk_end c) tail_start \<le> dk_start c + cut_back tail_start c"
    using after_bounds(1) [of ?t b] bk b by linarith
  obtain j where "b \<le> j" "j \<le> b + 3" "is_char_boundary ?t j" using boundary_from [OF c(1) b(1)] by blast
  then show "dk_start c + cut_back tail_start c \<le> min (dk_end c) tail_start + 3"
    using after_bounds(4) [of ?t j b] bk b by linarith
  show "cut_back tail_start c \<le> length ?t" unfolding bk by (rule after_bounds(2))
  show "is_char_boundary ?t (cut_front head c)" unfolding fr by (rule before_boundary)
  show "is_char_boundary ?t (cut_back tail_start c)" unfolding bk by (rule after_bounds(3))
qed

lemma cut_order:
  assumes "whole c" and "affected head tail_start c"
  shows "cut_front head c \<le> cut_back tail_start c" "cut_front head c \<le> length (dk_text c)"
proof -
  have "dk_start c + cut_front head c \<le> dk_start c + cut_back tail_start c"
    using cut_bounds(1,3) [OF assms] assms(2) unfolding affected_def by linarith
  then show "cut_front head c \<le> cut_back tail_start c" by simp
  then show "cut_front head c \<le> length (dk_text c)" using cut_bounds(5) [OF assms] by simp
qed

lemma kept_front_whole:
  "whole c \<Longrightarrow> affected head tail_start c \<Longrightarrow> cut_front head c \<noteq> 0 \<Longrightarrow> whole (kept_front head c)"
  using cut_bounds(1) [of c head tail_start] by (auto simp: whole_def kept_front_def affected_def intro: cont_ok_take)

lemma kept_back_whole:
  "whole c \<Longrightarrow> affected head tail_start c \<Longrightarrow> cut_back tail_start c < length (dk_text c) \<Longrightarrow> whole (kept_back tail_start c)"
  using cut_bounds(3,7) [of c head tail_start]
  by (auto simp: whole_def kept_back_def affected_def intro!: cont_ok_drop_boundary)

lemma pieces_laid:
  assumes "whole c"
  shows "laid (dk_start c) (pieces head tail_start c) (dk_end c)"
proof (cases "affected head tail_start c")
  case True
  have "dk_end c = dk_start c + length (dk_text c)" using assms by (simp add: whole_def)
  then show ?thesis using cut_order [OF assms True]
    using kept_front_whole [OF assms True] kept_back_whole [OF assms True] True
    by (auto simp: pieces_def kept_front_def kept_back_def)
qed (use assms in \<open>simp add: pieces_def\<close>)

lemma pieces_at:
  assumes "whole c"
  shows "at_pos (set (pieces head tail_start c)) p \<subseteq> at_pos {c} p"
    and "p + 3 < head \<or> tail_start + 3 \<le> p \<Longrightarrow> at_pos (set (pieces head tail_start c)) p = at_pos {c} p"
    and "at_pos (set (pieces head tail_start c)) p \<noteq> {} \<Longrightarrow> p < head \<or> tail_start \<le> p"
proof -
  have c: "dk_end c = dk_start c + length (dk_text c)" using assms by (simp add: whole_def)
  have pos: "at_pos (set (pieces head tail_start c)) p =
      (if affected head tail_start c \<and> dk_start c + cut_front head c \<le> p \<and> p < dk_start c + cut_back tail_start c
       then {} else at_pos {c} p)"
  proof (cases "affected head tail_start c")
    case True
    let ?x = "(dk_channel c, dk_text c ! (p - dk_start c))"
    note le = cut_bounds(5) [OF assms True] cut_order [OF assms True]
    have "at_pos (set (if cut_front head c \<noteq> 0 then [kept_front head c] else [])) p =
        (if dk_start c \<le> p \<and> p < dk_start c + cut_front head c then {?x} else {})"
      by (cases "cut_front head c = 0") (auto simp: at_pos_insert kept_front_def)
    moreover have "at_pos (set (if cut_back tail_start c < length (dk_text c) then [kept_back tail_start c] else [])) p =
        (if dk_start c + cut_back tail_start c \<le> p \<and> p < dk_end c then {?x} else {})"
      using le(1) by (cases "cut_back tail_start c < length (dk_text c)") (auto simp: at_pos_insert kept_back_def c)
    ultimately have "at_pos (set (pieces head tail_start c)) p =
        (if dk_start c \<le> p \<and> p < dk_start c + cut_front head c then {?x} else {}) \<union>
        (if dk_start c + cut_back tail_start c \<le> p \<and> p < dk_end c then {?x} else {})"
      by (simp only: pieces_def True if_True set_append at_pos_Un)
    then show ?thesis using True le c by (auto simp: at_pos_insert)
  qed (simp add: pieces_def)
  then show "at_pos (set (pieces head tail_start c)) p \<subseteq> at_pos {c} p" by simp
  show "at_pos (set (pieces head tail_start c)) p = at_pos {c} p" if "p + 3 < head \<or> tail_start + 3 \<le> p"
    unfolding pos using that cut_bounds(2,4) [OF assms, of head tail_start] by auto
  show "p < head \<or> tail_start \<le> p" if "at_pos (set (pieces head tail_start c)) p \<noteq> {}"
  proof (cases "affected head tail_start c")
    case True
    then show ?thesis using that cut_bounds(1,3) [OF assms True] unfolding pos
      by (auto simp: at_pos_def split: if_splits)
  next
    case False
    then show ?thesis using that whole_pos [OF assms] unfolding pos by (auto simp: at_pos_def affected_def)
  qed
qed

section \<open>The loop\<close>

lemma whole_small: "whole c \<Longrightarrow> dk_end c \<le> U64_MAX \<Longrightarrow> dk_start c \<le> U64_MAX"
  by (simp add: whole_def)

text \<open>A chunk with a range apart from those of all the others has a file of its own.\<close>

lemma own_file:
  assumes "whole c" and "whole x" and "dk_end c \<le> U64_MAX" and "dk_end x \<le> U64_MAX"
    and "dk_end x \<le> dk_start c \<or> dk_end c \<le> dk_start x"
  shows "file_of x \<noteq> file_of c"
  using same_file [OF assms(2,1,4,3)] whole_pos [OF assms(1)] whole_pos [OF assms(2)] assms(5) by linarith

lemma marker_file: "dk_marker x \<Longrightarrow> \<not> dk_marker c \<Longrightarrow> file_of x \<noteq> file_of c"
  using chunk_name_not_marker [of c] by (auto simp: file_of_def)

lemma write_text_chunk:
  assumes "files_ok d" and "whole c" and "dk_end c \<le> U64_MAX"
    and apart: "\<And>x. x \<in> text_chunks d \<Longrightarrow> whole x \<and> dk_end x \<le> U64_MAX \<and> (dk_end x \<le> dk_start c \<or> dk_end c \<le> dk_start x)"
  shows "files_ok (write_chunk c d)" "held (write_chunk c d) = insert c (held d)"
proof -
  have m: "\<not> dk_marker c" using assms(2) by (simp add: whole_def)
  have "file_of x \<noteq> file_of c" if "x \<in> held d" for x
  proof (cases "dk_marker x")
    case False
    then have "x \<in> text_chunks d" using that by (simp add: text_chunks_def)
    from apart [OF this] show ?thesis by (intro own_file) (use assms in auto)
  qed (simp add: marker_file m)
  then show "files_ok (write_chunk c d)" "held (write_chunk c d) = insert c (held d)"
    using write_chunk_files [OF assms(1) m] by auto
qed

lemma remove_text_chunk:
  assumes "files_ok d" and "whole c" and "dk_end c \<le> U64_MAX"
    and apart: "\<And>x. x \<in> text_chunks d \<Longrightarrow> x \<noteq> c \<Longrightarrow>
      whole x \<and> dk_end x \<le> U64_MAX \<and> (dk_end x \<le> dk_start c \<or> dk_end c \<le> dk_start x)"
  shows "files_ok (remove_chunk c d)" "held (remove_chunk c d) = held d - {c}"
proof -
  have m: "\<not> dk_marker c" using assms(2) by (simp add: whole_def)
  have "file_of x \<noteq> file_of c" if "x \<in> held d" "x \<noteq> c" for x
  proof (cases "dk_marker x")
    case False
    then have "x \<in> text_chunks d" using that by (simp add: text_chunks_def)
    from apart [OF this that(2)] show ?thesis by (intro own_file) (use assms in auto)
  qed (simp add: marker_file m)
  then show "files_ok (remove_chunk c d)" "held (remove_chunk c d) = held d - {c}"
    using remove_chunk_files [OF assms(1) m] by auto
qed

text \<open>One turn of the loop leaves the pieces of the chunk in its place.\<close>

definition drop_dir :: "nat \<Rightarrow> nat \<Rightarrow> disk_chunk \<Rightarrow> log_dir \<Rightarrow> log_dir" where
  "drop_dir head tail_start c d =
    (if affected head tail_start c then
       let d1 = remove_chunk c d;
           d2 = (if cut_front head c \<noteq> 0 then write_chunk (kept_front head c) d1 else d1)
       in if cut_back tail_start c < length (dk_text c) then write_chunk (kept_back tail_start c) d2 else d2
     else d)"

lemma drop_chunk_unaffected: "\<not> affected head tail_start c \<Longrightarrow> drop_chunk head tail_start c s = s"
  unfolding drop_chunk_def affected_def Let_def not_less by (simp only: if_True)

lemma drop_chunk_affected:
  assumes "whole c" and "dk_end c \<le> U64_MAX" and "affected head tail_start c"
  shows "drop_chunk head tail_start c s =
    \<lparr>ds_dir = drop_dir head tail_start c (ds_dir s),
     ds_start = Some (case ds_start s of None \<Rightarrow> dk_start c + cut_front head c
       | Some v \<Rightarrow> min v (dk_start c + cut_front head c)),
     ds_end = max (ds_end s) (dk_start c + cut_back tail_start c)\<rparr>"
proof -
  have "dk_start c + cut_front head c \<le> U64_MAX" "dk_start c + cut_back tail_start c \<le> U64_MAX"
    using assms cut_order [OF assms(1,3)] cut_bounds(5) [OF assms(1,3)] by (simp_all add: whole_def)
  then have sat: "saturating_add_u64 (dk_start c) (cut_front head c) = dk_start c + cut_front head c"
    "saturating_add_u64 (dk_start c) (cut_back tail_start c) = dk_start c + cut_back tail_start c"
    by (simp_all add: saturating_add_u64_def)
  have "\<not> min (dk_end c) tail_start \<le> max (dk_start c) head" using assms(3) by (simp only: affected_def not_le)
  then show ?thesis
    unfolding drop_chunk_def Let_def cut_front_def [symmetric] cut_back_def [symmetric] sat
    by (simp only: if_False drop_dir_def assms(3) if_True Let_def kept_front_def kept_back_def)
qed

lemma drop_dir_pieces:
  assumes "files_ok d" and "laid 0 (ps @ c # cs) n" and "n \<le> U64_MAX" and "text_chunks d = set (ps @ c # cs)"
  shows "files_ok (drop_dir head tail_start c d)"
    and "held (drop_dir head tail_start c d) = held d - {c} \<union> set (pieces head tail_start c)"
proof -
  have c: "whole c" "dk_end c \<le> U64_MAX" using laid_mem [OF assms(2)] assms(3) by force+
  have others: "whole x \<and> dk_end x \<le> U64_MAX \<and> (dk_end x \<le> dk_start c \<or> dk_end c \<le> dk_start x)"
    if "x \<in> text_chunks d" "x \<noteq> c" for x
    using laid_mem [OF assms(2), of x] laid_apart [OF assms(2), of x c] that assms(3,4) by force
  have "files_ok (drop_dir head tail_start c d) \<and>
    held (drop_dir head tail_start c d) = held d - {c} \<union> set (pieces head tail_start c)"
  proof (cases "affected head tail_start c")
    case True
    let ?f = "kept_front head c" and ?b = "kept_back tail_start c"
    define d1 where "d1 = remove_chunk c d"
    define d2 where "d2 = (if cut_front head c \<noteq> 0 then write_chunk ?f d1 else d1)"
    have dir: "drop_dir head tail_start c d = (if cut_back tail_start c < length (dk_text c) then write_chunk ?b d2 else d2)"
      by (simp only: drop_dir_def True if_True Let_def d1_def d2_def)
    note le = cut_order [OF c(1) True] cut_bounds(5) [OF c(1) True]
    have ends: "dk_start ?f = dk_start c" "dk_end ?f = dk_start c + cut_front head c"
      "dk_start ?b = dk_start c + cut_back tail_start c" "dk_end ?b = dk_end c" "dk_end ?f \<le> dk_end c" "dk_start c \<le> dk_end c"
      using le c(1) by (simp_all add: kept_front_def kept_back_def whole_def)
    have d1: "files_ok d1" "held d1 = held d - {c}"
      unfolding d1_def by (rule remove_text_chunk [OF assms(1) c]; use others in blast)+
    have t1: "x \<in> text_chunks d \<and> x \<noteq> c" if "x \<in> text_chunks d1" for x
      using that by (auto simp: text_chunks_def d1(2))
    have d2: "files_ok d2 \<and> held d2 = held d1 \<union> set (if cut_front head c \<noteq> 0 then [?f] else [])"
    proof (cases "cut_front head c = 0")
      case False
      have w: "whole ?f" by (rule kept_front_whole [OF c(1) True False])
      have apart: "whole x \<and> dk_end x \<le> U64_MAX \<and> (dk_end x \<le> dk_start ?f \<or> dk_end ?f \<le> dk_start x)"
        if "x \<in> text_chunks d1" for x
        using others [of x] t1 [OF that] ends(1,5) by auto
      have "dk_end ?f \<le> U64_MAX" using ends(5) c(2) by linarith
      from write_text_chunk [OF d1(1) w this apart] show ?thesis using False by (simp add: d2_def)
    qed (simp add: d2_def d1)
    have t2: "x = ?f \<and> cut_front head c \<noteq> 0 \<or> x \<in> text_chunks d \<and> x \<noteq> c" if "x \<in> text_chunks d2" for x
      using that d2 by (auto simp: text_chunks_def d1(2) split: if_splits)
    have "files_ok (drop_dir head tail_start c d) \<and>
      held (drop_dir head tail_start c d) = held d2 \<union> set (if cut_back tail_start c < length (dk_text c) then [?b] else [])"
    proof (cases "cut_back tail_start c < length (dk_text c)")
      case more: True
      have w: "whole ?b" by (rule kept_back_whole [OF c(1) True more])
      have apart: "whole x \<and> dk_end x \<le> U64_MAX \<and> (dk_end x \<le> dk_start ?b \<or> dk_end ?b \<le> dk_start x)"
        if "x \<in> text_chunks d2" for x
        using t2 [OF that]
      proof (elim disjE conjE)
        assume "x = ?f" "cut_front head c \<noteq> 0"
        then show ?thesis using kept_front_whole [OF c(1) True] ends le(1) c(2) by auto
      next
        assume "x \<in> text_chunks d" "x \<noteq> c"
        then show ?thesis using others [of x] ends by auto
      qed
      have "dk_end ?b \<le> U64_MAX" using ends(4) c(2) by simp
      from write_text_chunk [OF conjunct1 [OF d2] w this apart] show ?thesis
        using more by (simp add: dir)
    next
      case False
      then show ?thesis using d2 by (simp add: dir)
    qed
    then show ?thesis unfolding pieces_def using True d1(2) d2 by (simp only: if_True set_append) blast
  next
    case False
    have "c \<in> held d" using assms(4) by (auto simp: text_chunks_def)
    then show ?thesis using False assms(1) by (auto simp: drop_dir_def pieces_def)
  qed
  then show "files_ok (drop_dir head tail_start c d)"
    and "held (drop_dir head tail_start c d) = held d - {c} \<union> set (pieces head tail_start c)" by blast+
qed

lemma drop_chunk_dir:
  "whole c \<Longrightarrow> dk_end c \<le> U64_MAX \<Longrightarrow> ds_dir (drop_chunk head tail_start c s) = drop_dir head tail_start c (ds_dir s)"
  by (cases "affected head tail_start c") (simp_all add: drop_chunk_affected drop_chunk_unaffected drop_dir_def)

definition all_pieces :: "nat \<Rightarrow> nat \<Rightarrow> disk_chunk list \<Rightarrow> disk_chunk list" where
  "all_pieces head tail_start cs = concat (map (pieces head tail_start) cs)"

text \<open>The loop leaves the pieces of all chunks, and the markers that were there.\<close>

lemma drop_chunks_pieces:
  assumes "files_ok (ds_dir s)" and "laid 0 (ps @ cs) n" and "n \<le> U64_MAX" and "text_chunks (ds_dir s) = set (ps @ cs)"
  shows "files_ok (ds_dir (fold (drop_chunk head tail_start) cs s)) \<and>
    text_chunks (ds_dir (fold (drop_chunk head tail_start) cs s)) = set (ps @ all_pieces head tail_start cs) \<and>
    laid 0 (ps @ all_pieces head tail_start cs) n \<and>
    {c \<in> held (ds_dir (fold (drop_chunk head tail_start) cs s)). dk_marker c} = {c \<in> held (ds_dir s). dk_marker c}"
  using assms
proof (induction cs arbitrary: ps s)
  case (Cons c cs)
  let ?s = "drop_chunk head tail_start c s" and ?p = "pieces head tail_start c"
  have c: "whole c" "dk_end c \<le> U64_MAX" "c \<notin> set ps" "c \<notin> set cs"
    using laid_mem [OF Cons.prems(2), of c] Cons.prems(3) laid_keys(3) [OF Cons.prems(2)] by auto
  note dir = drop_dir_pieces [OF Cons.prems(1-4), of head tail_start, folded drop_chunk_dir [OF c(1,2)]]
  have laid: "laid 0 ((ps @ ?p) @ cs) n"
    using laid_replace [OF Cons.prems(2) pieces_laid [OF c(1), of head tail_start]] by simp
  have plain: "\<not> dk_marker x" if "x \<in> set ?p" for x using laid_mem [OF laid, of x] that by (simp add: whole_def)
  have "text_chunks (ds_dir ?s) = text_chunks (ds_dir s) - {c} \<union> set ?p"
    unfolding text_chunks_def dir(2) using plain by blast
  also have "\<dots> = set ((ps @ ?p) @ cs)" unfolding Cons.prems(4) using c(3,4) by auto
  finally have here: "text_chunks (ds_dir ?s) = set ((ps @ ?p) @ cs)" .
  have markers: "{x \<in> held (ds_dir ?s). dk_marker x} = {x \<in> held (ds_dir s). dk_marker x}"
    unfolding dir(2) using plain c(1) by (auto simp: whole_def)
  have joined: "(ps @ ?p) @ all_pieces head tail_start cs = ps @ all_pieces head tail_start (c # cs)"
    by (simp add: all_pieces_def)
  show ?case using Cons.IH [OF dir(1) laid Cons.prems(3) here] unfolding joined markers
    by (simp only: fold_simps)
qed (simp add: all_pieces_def)

lemma all_pieces_at:
  assumes "laid a cs n"
  shows "at_pos (set (all_pieces head tail_start cs)) p \<subseteq> at_pos (set cs) p"
    and "p + 3 < head \<or> tail_start + 3 \<le> p \<Longrightarrow> at_pos (set (all_pieces head tail_start cs)) p = at_pos (set cs) p"
    and "at_pos (set (all_pieces head tail_start cs)) p \<noteq> {} \<Longrightarrow> p < head \<or> tail_start \<le> p"
proof -
  have split: "at_pos (set (all_pieces head tail_start cs)) p = (\<Union>c \<in> set cs. at_pos (set (pieces head tail_start c)) p)"
    "at_pos (set cs) p = (\<Union>c \<in> set cs. at_pos {c} p)"
    using at_pos_UN [of "\<lambda>c. set (pieces head tail_start c)" "set cs"] at_pos_UN [of "\<lambda>c. {c}" "set cs"]
    by (simp_all add: all_pieces_def)
  have whole: "c \<in> set cs \<Longrightarrow> whole c" for c using laid_mem [OF assms, of c] by simp
  show "at_pos (set (all_pieces head tail_start cs)) p \<subseteq> at_pos (set cs) p"
    unfolding split by (intro UN_mono subset_refl pieces_at(1) whole)
  show "at_pos (set (all_pieces head tail_start cs)) p = at_pos (set cs) p" if "p + 3 < head \<or> tail_start + 3 \<le> p"
    unfolding split by (intro SUP_cong refl pieces_at(2) whole that)
  show "p < head \<or> tail_start \<le> p" if left: "at_pos (set (all_pieces head tail_start cs)) p \<noteq> {}"
  proof -
    obtain c where "c \<in> set cs" "at_pos (set (pieces head tail_start c)) p \<noteq> {}" using left unfolding split by auto
    then show ?thesis using pieces_at(3) [OF whole] by simp
  qed
qed

section \<open>Retention\<close>

lemma write_marker_text:
  assumes "files_ok d" and "dk_marker m"
  shows "files_ok (write_marker m d) \<and> text_chunks (write_marker m d) = text_chunks d \<and>
    {c \<in> held (write_marker m d). dk_marker c} = {m}"
  using write_marker_files [OF assms] assms(2) marker_file [of m]
  by (fastforce simp: text_chunks_def file_of_def)

text \<open>The directory after a truncation.\<close>

lemma truncated_dir:
  assumes "files_ok d" and "set cs = text_chunks d" and "laid 0 cs n" and "n \<le> U64_MAX"
    and "mset (le_listing E d) = mset d" and "raw_limit_bytes r < total_bytes"
    and "enforce_retention E d n total_bytes r = (b, d')"
    and "s = fold (drop_chunk (head_bytes r) (n - (raw_limit_bytes r - head_bytes r))) cs \<lparr>ds_dir = d, ds_start = None, ds_end = 0\<rparr>"
  shows "d' = (case ds_start s of None \<Rightarrow> ds_dir s | Some start \<Rightarrow> write_marker (truncation_marker start (ds_end s)) (ds_dir s))"
    and "files_ok d'" and "text_chunks d' = set (all_pieces (head_bytes r) (n - (raw_limit_bytes r - head_bytes r)) cs)"
    and "laid 0 (all_pieces (head_bytes r) (n - (raw_limit_bytes r - head_bytes r)) cs) n"
proof -
  have chunks: "filter (\<lambda>c. \<not> dk_marker c) (read_chunks E d) = cs"
    by (rule read_chunks_laid [OF assms(1,5,3)]) (simp add: assms(2) text_chunks_def)
  have "\<not> total_bytes \<le> raw_limit_bytes r" using assms(6) by simp
  moreover have "d' = snd (enforce_retention E d n total_bytes r)" using assms(7) by simp
  ultimately show d': "d' = (case ds_start s of None \<Rightarrow> ds_dir s | Some start \<Rightarrow> write_marker (truncation_marker start (ds_end s)) (ds_dir s))"
    unfolding assms(8) enforce_retention_def Let_def chunks by (simp only: if_False snd_conv)
  have loop: "files_ok (ds_dir s) \<and> text_chunks (ds_dir s) = set (all_pieces (head_bytes r) (n - (raw_limit_bytes r - head_bytes r)) cs) \<and>
      laid 0 (all_pieces (head_bytes r) (n - (raw_limit_bytes r - head_bytes r)) cs) n"
    using drop_chunks_pieces [of "\<lparr>ds_dir = d, ds_start = None, ds_end = 0\<rparr>" "[]" cs n] assms(1-4) unfolding assms(8) by simp
  have marker: "dk_marker (truncation_marker x y)" for x y by (simp add: truncation_marker_def)
  show "files_ok d'" "text_chunks d' = set (all_pieces (head_bytes r) (n - (raw_limit_bytes r - head_bytes r)) cs)"
    using loop write_marker_text [OF _ marker] unfolding d' by (auto split: option.split)
  show "laid 0 (all_pieces (head_bytes r) (n - (raw_limit_bytes r - head_bytes r)) cs) n" using loop by blast
qed

text \<open>
  C30. Retention keeps a head and a tail, exactly: a stream above its limit is left with text from its
  first head bytes and its last bytes only, never more than the limit in all, the marker for the gap
  apart; what is left is what
  was logged, unchanged and in place; and up to three bytes at either cut, where a character would
  be split, nothing of the head and the tail is lost.
\<close>

theorem retention_exact:
  assumes dir: "dir_ok n d" and small: "n \<le> U64_MAX" and listing: "mset (le_listing E d) = mset d"
    and valid: "validate_retention r = Inr ()" and over: "raw_limit_bytes r < total_bytes"
    and kept: "enforce_retention E d n total_bytes r = (b, d')"
  defines "tail_start \<equiv> n - (raw_limit_bytes r - head_bytes r)"
  shows "dir_ok n d' \<and> (\<forall>p. log_at d' p \<subseteq> log_at d p) \<and>
    (\<forall>p. p + 3 < head_bytes r \<or> tail_start + 3 \<le> p \<longrightarrow> log_at d' p = log_at d p) \<and>
    card {p. log_at d' p \<noteq> {}} \<le> raw_limit_bytes r"
proof -
  obtain cs where cs: "files_ok d" "set cs = text_chunks d" "laid 0 cs n" using dir by (auto simp: dir_ok_def)
  note after = truncated_dir [OF cs small listing over kept refl, folded tail_start_def]
  have log: "log_at d' = at_pos (set (all_pieces (head_bytes r) tail_start cs))" "log_at d = at_pos (set cs)"
    by (simp_all add: log_at_def after(3) cs(2))
  note at = all_pieces_at [OF cs(3), where head = "head_bytes r" and tail_start = tail_start]
  have "head_bytes r < raw_limit_bytes r" using valid by (simp add: validate_retention_def split: if_splits)
  have "{p. log_at d' p \<noteq> {}} \<subseteq> {..<head_bytes r} \<union> {tail_start..<n}"
  proof
    fix p assume p: "p \<in> {p. log_at d' p \<noteq> {}}"
    then have "p < n" using laid_mem [OF after(4)] unfolding log by (fastforce simp: at_pos_def)
    then show "p \<in> {..<head_bytes r} \<union> {tail_start..<n}" using at(3) [of p] p unfolding log by auto
  qed
  then have "card {p. log_at d' p \<noteq> {}} \<le> card ({..<head_bytes r} \<union> {tail_start..<n})" by (intro card_mono) auto
  also have "\<dots> \<le> head_bytes r + (n - tail_start)" using card_Un_le [of "{..<head_bytes r}" "{tail_start..<n}"] by simp
  also have "\<dots> \<le> raw_limit_bytes r" using \<open>head_bytes r < raw_limit_bytes r\<close> by (simp add: tail_start_def)
  finally have "card {p. log_at d' p \<noteq> {}} \<le> raw_limit_bytes r" .
  moreover have "dir_ok n d'" using after by (auto simp: dir_ok_def)
  ultimately show ?thesis using at(1,2) unfolding log by blast
qed

text \<open>Six bytes under a limit of four, with a head of one.\<close>

definition plain_log_env :: log_env where
  "plain_log_env = \<lparr>le_uuid = Some, le_listing = \<lambda>d. d, le_io_error = [], le_index_error = []\<rparr>"

definition plain_chunk :: "nat \<Rightarrow> string \<Rightarrow> disk_chunk" where
  "plain_chunk start bs = \<lparr>dk_start = start, dk_end = start + length bs, dk_channel = Stdout, dk_text = bs, dk_marker = False\<rparr>"

definition plain_dir :: "disk_chunk list \<Rightarrow> log_dir" where
  "plain_dir cs = map (\<lambda>c. (file_of c, c)) cs"

lemma plain_dir_ok:
  assumes "laid 0 cs n" and "n \<le> U64_MAX"
  shows "files_ok (plain_dir cs)" "text_chunks (plain_dir cs) = set cs"
proof -
  have "inj_on file_of (set cs)"
  proof (rule inj_onI)
    fix x y assume xy: "x \<in> set cs" "y \<in> set cs" "file_of x = file_of y"
    then have "whole x" "whole y" "dk_end x \<le> U64_MAX" "dk_end y \<le> U64_MAX"
      using laid_mem [OF assms(1), of x] laid_mem [OF assms(1), of y] assms(2) by auto
    then have "dk_start x = dk_start y" using same_file xy(3) by blast
    then show "x = y" using laid_keys(1) [OF assms(1)] xy(1,2) by (auto dest: inj_onD)
  qed
  then show "files_ok (plain_dir cs)" using laid_keys(3) [OF assms(1)]
    by (auto simp: files_ok_def plain_dir_def distinct_map comp_def)
  show "text_chunks (plain_dir cs) = set cs" using laid_mem [OF assms(1)]
    by (force simp: text_chunks_def held_def plain_dir_def whole_def)
qed

lemma plain_chunk_whole: "\<forall>c \<in> set bs. (of_char c :: nat) < 128 \<Longrightarrow> bs \<noteq> [] \<Longrightarrow> whole (plain_chunk start bs)"
  by (simp add: whole_def plain_chunk_def cont_ok_ascii)

theorem retention_exact_witness:
  "\<exists>b d'. enforce_retention plain_log_env (plain_dir [plain_chunk 0 ''abcdef'']) 6 6 \<lparr>raw_limit_bytes = 4, head_bytes = 1\<rparr> = (b, d') \<and>
     card {p. log_at d' p \<noteq> {}} \<le> 4"
proof -
  let ?d = "plain_dir [plain_chunk 0 ''abcdef'']" and ?r = "\<lparr>raw_limit_bytes = 4, head_bytes = 1\<rparr>"
  obtain b d' where kept: "enforce_retention plain_log_env ?d 6 6 ?r = (b, d')" by fastforce
  have "whole (plain_chunk 0 ''abcdef'')" by (simp add: plain_chunk_whole)
  then have laid: "laid 0 [plain_chunk 0 ''abcdef''] 6" by (simp add: plain_chunk_def)
  have "dir_ok 6 ?d" using plain_dir_ok [OF laid] laid unfolding dir_ok_def
    by (intro conjI exI [of _ "[plain_chunk 0 ''abcdef'']"]) simp_all
  have "card {p. log_at d' p \<noteq> {}} \<le> raw_limit_bytes ?r"
    using retention_exact [OF \<open>dir_ok 6 ?d\<close> _ _ _ _ kept] by (simp add: plain_log_env_def validate_retention_def)
  with kept show ?thesis by (intro exI conjI) (assumption, simp)
qed

section \<open>The second truncation\<close>

text \<open>
  The marker of a truncation forgets the ones before: when a stream that has lost bytes behind its
  head loses more, the new marker replaces the old one, but it begins at the tail that was there and
  counts the bytes dropped this time only; the bytes dropped before are neither in the log nor
  in any marker.
\<close>

theorem marker_counts_last_drop:
  assumes files: "files_ok d" and listing: "mset (le_listing E d) = mset d" and small: "n \<le> U64_MAX"
    and chunks: "text_chunks d = {h, t}" "whole h" "whole t" "dk_start h = 0" "dk_end h = head_bytes r" "dk_end t = n"
    and ascii: "\<forall>c \<in> set (dk_text t). (of_char c :: nat) < 128"
    and over: "raw_limit_bytes r < total_bytes"
    and gap: "head_bytes r < dk_start t" "dk_start t < n - (raw_limit_bytes r - head_bytes r)"
      "n - (raw_limit_bytes r - head_bytes r) < n"
    and kept: "enforce_retention E d n total_bytes r = (b, d')"
  defines "tail_start \<equiv> n - (raw_limit_bytes r - head_bytes r)"
  shows "{m \<in> held d'. dk_marker m} = {truncation_marker (dk_start t) tail_start} \<and>
    (\<forall>p. head_bytes r \<le> p \<and> p < tail_start \<longrightarrow> log_at d' p = {})"
proof -
  let ?head = "head_bytes r"
  have laid: "laid 0 [h, t] n" using chunks gap(1) by simp
  have t: "dk_end t = dk_start t + length (dk_text t)" using chunks(3) by (simp add: whole_def)
  have h: "\<not> affected ?head tail_start h" using chunks(5) by (simp add: affected_def)
  have a: "affected ?head tail_start t" using gap chunks(6) whole_pos [OF chunks(3)] by (simp add: affected_def tail_start_def)
  have b: "is_char_boundary (dk_text t) i" if "i \<le> length (dk_text t)" for i
    using ascii that by (force simp: is_char_boundary_def byte_at_def continuation_def dest: nth_mem)
  have fr: "cut_front ?head t = 0" using gap(1) by (simp add: cut_front_def before_exact b)
  have len: "tail_start - dk_start t \<le> length (dk_text t)" using gap t chunks(6) by (simp add: tail_start_def)
  have "min (min (dk_end t) tail_start - dk_start t) (length (dk_text t)) = tail_start - dk_start t"
    using len gap(3) chunks(6) by (simp add: tail_start_def)
  then have "cut_back tail_start t = tail_start - dk_start t" using after_exact [OF b [OF len]] by (simp add: cut_back_def)
  then have bk: "dk_start t + cut_back tail_start t = tail_start" using gap(2) by (simp add: tail_start_def)
  define s where "s = fold (drop_chunk ?head tail_start) [h, t] \<lparr>ds_dir = d, ds_start = None, ds_end = 0\<rparr>"
  have t_small: "dk_end t \<le> U64_MAX" using small chunks(6) by simp
  have s: "ds_start s = Some (dk_start t)" "ds_end s = tail_start"
    unfolding s_def by (simp_all add: drop_chunk_unaffected [OF h] drop_chunk_affected [OF chunks(3) t_small a] fr bk)
  have set_cs: "set [h, t] = text_chunks d" by (simp add: chunks(1))
  note after = truncated_dir [OF files set_cs laid small listing over kept s_def [unfolded tail_start_def], folded tail_start_def]
  have loop: "files_ok (ds_dir s)"
    using drop_chunks_pieces [of "\<lparr>ds_dir = d, ds_start = None, ds_end = 0\<rparr>" "[]" "[h, t]" n] files laid small set_cs
    unfolding s_def by simp
  have "dk_marker (truncation_marker (dk_start t) tail_start)" by (simp add: truncation_marker_def)
  from write_marker_text [OF loop this] have "{m \<in> held d'. dk_marker m} = {truncation_marker (dk_start t) tail_start}"
    unfolding after(1) s by simp
  moreover have "log_at d' p = {}" if "?head \<le> p" "p < tail_start" for p
    using all_pieces_at(3) [OF laid, where head = ?head and tail_start = tail_start and p = p] that
    unfolding log_at_def after(3) by linarith
  ultimately show ?thesis by blast
qed

theorem marker_counts_last_drop_witness:
  "\<exists>b d'. enforce_retention plain_log_env (plain_dir [plain_chunk 0 ''a'', plain_chunk 3 ''def'']) 6 6
       \<lparr>raw_limit_bytes = 2, head_bytes = 1\<rparr> = (b, d') \<and>
     {m \<in> held d'. dk_marker m} = {truncation_marker 3 5} \<and> log_at d' 1 = {}"
proof -
  let ?h = "plain_chunk 0 ''a''" and ?t = "plain_chunk 3 ''def''" and ?r = "\<lparr>raw_limit_bytes = 2, head_bytes = 1\<rparr>"
  have whole: "whole ?h" "whole ?t" by (simp_all add: plain_chunk_whole)
  then have laid: "laid 0 [?h, ?t] 6" by (simp add: plain_chunk_def)
  obtain b d' where kept: "enforce_retention plain_log_env (plain_dir [?h, ?t]) 6 6 ?r = (b, d')" by fastforce
  have fields: "dk_start ?h = 0" "dk_end ?h = 1" "dk_start ?t = 3" "dk_end ?t = 6" "dk_text ?t = ''def''"
    by (simp_all add: plain_chunk_def)
  have "{m \<in> held d'. dk_marker m} = {truncation_marker (dk_start ?t) (6 - (raw_limit_bytes ?r - head_bytes ?r))} \<and>
    (\<forall>p. head_bytes ?r \<le> p \<and> p < 6 - (raw_limit_bytes ?r - head_bytes ?r) \<longrightarrow> log_at d' p = {})"
    by (rule marker_counts_last_drop [OF plain_dir_ok(1) [OF laid] _ _ _ whole _ _ _ _ _ _ _ _ kept])
      (simp_all add: plain_dir_ok(2) [OF laid] fields plain_log_env_def)
  then show ?thesis using kept by (simp add: fields del: split_paired_Ex)
qed

end
